(* ===== verification/Prelude.thy ===== *)
theory Prelude
  imports Main "HOL-Library.Word"
begin

text \<open>
  Shared vocabulary of the development: the machine integers of the Go source, results that
  are an error or a value, Go's truncating big-integer division, the ceiling division the
  pricing code uses, little-endian byte strings, and the Go library functions on strings and
  lists that several components call.
\<close>

unbundle bit_operations_syntax

type_synonym byte = "8 word"
type_synonym u16 = "16 word"
type_synonym u32 = "32 word"
type_synonym u64 = "64 word"

named_theorems res_simps "simplification of results"
named_theorems le_simps "little-endian encodings"

section \<open>Results: an error or a value\<close>

text \<open>A Go pair \<open>(value, error)\<close> is \<open>Inl\<close> of the error or \<open>Inr\<close> of the value.\<close>

definition rbind :: "'e + 'a \<Rightarrow> ('a \<Rightarrow> 'e + 'b) \<Rightarrow> 'e + 'b" where
  "rbind r f = (case r of Inl e \<Rightarrow> Inl e | Inr v \<Rightarrow> f v)"

definition rcheck :: "bool \<Rightarrow> 'e \<Rightarrow> ('e + 'a) \<Rightarrow> ('e + 'a)" where
  "rcheck ok e k = (if ok then k else Inl e)"

definition is_ok :: "'e + 'a \<Rightarrow> bool" where
  "is_ok r = (case r of Inl _ \<Rightarrow> False | Inr _ \<Rightarrow> True)"

lemma rbind_simps [simp, res_simps]:
  "rbind (Inl e) f = Inl e"
  "rbind (Inr v) f = f v"
  by (simp_all add: rbind_def)

lemma rbind_eq_Inr [res_simps]: "rbind r f = Inr y \<longleftrightarrow> (\<exists>x. r = Inr x \<and> f x = Inr y)"
  by (cases r) (simp_all add: rbind_def)

lemma rbind_eq_Inl: "rbind r f = Inl e \<longleftrightarrow> r = Inl e \<or> (\<exists>x. r = Inr x \<and> f x = Inl e)"
  by (cases r) (simp_all add: rbind_def)

lemma rcheck_simps [simp, res_simps]:
  "rcheck True e k = k"
  "rcheck False e k = Inl e"
  by (simp_all add: rcheck_def)

lemma rcheck_eq_Inr [res_simps]: "rcheck ok e k = Inr y \<longleftrightarrow> ok \<and> k = Inr y"
  by (simp add: rcheck_def)

lemma rcheck_eq_Inl: "rcheck ok e k = Inl e' \<longleftrightarrow> (\<not> ok \<and> e' = e) \<or> (ok \<and> k = Inl e')"
  by (auto simp: rcheck_def)

lemma is_ok_simps [simp, res_simps]:
  "is_ok (Inr v)"
  "\<not> is_ok (Inl e)"
  by (simp_all add: is_ok_def)

lemma is_ok_iff: "is_ok r \<longleftrightarrow> (\<exists>v. r = Inr v)"
  by (cases r) simp_all

text \<open>A loop whose body may fail: the first failure ends it.\<close>

fun rmap :: "('a \<Rightarrow> 'e + 'b) \<Rightarrow> 'a list \<Rightarrow> 'e + 'b list" where
  "rmap f [] = Inr []"
| "rmap f (x # xs) = rbind (f x) (\<lambda>y. rbind (rmap f xs) (\<lambda>ys. Inr (y # ys)))"

lemma rmap_eq_Inr: "rmap f xs = Inr ys \<longleftrightarrow> list_all2 (\<lambda>x y. f x = Inr y) xs ys"
  by (induction xs arbitrary: ys) (auto simp: rbind_eq_Inr list_all2_Cons1)

lemma rmap_length: "rmap f xs = Inr ys \<Longrightarrow> length ys = length xs"
  by (auto simp: rmap_eq_Inr dest: list_all2_lengthD)

section \<open>State and errors\<close>

text \<open>An operation on a state that may fail: it always returns a state, because Go code that fails
  may have changed it before.\<close>

type_synonym ('s, 'e, 'a) op = "'s \<Rightarrow> 's \<times> ('e + 'a)"

definition sret :: "'a \<Rightarrow> ('s, 'e, 'a) op" where
  "sret v s = (s, Inr v)"

definition sfail :: "'e \<Rightarrow> ('s, 'e, 'a) op" where
  "sfail e s = (s, Inl e)"

definition sbind :: "('s, 'e, 'a) op \<Rightarrow> ('a \<Rightarrow> ('s, 'e, 'b) op) \<Rightarrow> ('s, 'e, 'b) op" where
  "sbind m f s = (case m s of (t, Inl e) \<Rightarrow> (t, Inl e) | (t, Inr v) \<Rightarrow> f v t)"

definition slift :: "'e + 'a \<Rightarrow> ('s, 'e, 'a) op" where
  "slift r s = (s, r)"

definition scheck :: "bool \<Rightarrow> 'e \<Rightarrow> ('s, 'e, unit) op" where
  "scheck ok e s = (s, if ok then Inr () else Inl e)"

definition sget :: "('s, 'e, 's) op" where
  "sget s = (s, Inr s)"

definition smodify :: "('s \<Rightarrow> 's) \<Rightarrow> ('s, 'e, unit) op" where
  "smodify f s = (f s, Inr ())"

lemma sbind_Inr:
  "sbind m f s = (t, Inr v) \<longleftrightarrow> (\<exists>u x. m s = (u, Inr x) \<and> f x u = (t, Inr v))"
  by (auto simp: sbind_def split: prod.splits sum.splits)

lemma sbind_cases:
  assumes "sbind m f s = (t, r)"
  obtains e where "m s = (t, Inl e)" "r = Inl e"
  | u x where "m s = (u, Inr x)" "f x u = (t, r)"
  using assms by (auto simp: sbind_def split: prod.splits sum.splits)

lemma op_simps [simp, res_simps]:
  "sret v s = (s, Inr v)" "sfail e s = (s, Inl e)" "slift r s = (s, r)" "sget s = (s, Inr s)"
  "smodify f s = (f s, Inr ())" "scheck ok e s = (s, if ok then Inr () else Inl e)"
  by (simp_all add: sret_def sfail_def slift_def sget_def smodify_def scheck_def)

lemma sbind_simps [simp, res_simps]:
  "sbind (sret v) f1 s = f1 v s" "sbind (sfail e) f2 s = (s, Inl e)"
  "sbind sget f3 s = f3 s s" "sbind (smodify g) f4 s = f4 () (g s)"
  by (simp_all add: sbind_def)

lemma sbind_scheck: "sbind (scheck ok e) f s = (if ok then f () s else (s, Inl e))"
  by (simp add: sbind_def)

lemma sbind_slift: "sbind (slift r) f s = (case r of Inl e \<Rightarrow> (s, Inl e) | Inr v \<Rightarrow> f v s)"
  by (simp add: sbind_def split: sum.splits)

text \<open>What an operation preserves whatever its outcome, by composition.\<close>

definition keeps :: "('s \<Rightarrow> bool) \<Rightarrow> ('s, 'e, 'a) op \<Rightarrow> bool" where
  "keeps I m \<longleftrightarrow> (\<forall>s. I s \<longrightarrow> I (fst (m s)))"

named_theorems keeps_intros "operations that keep an invariant"

lemma keeps_basic [keeps_intros]:
  "keeps I (sret v)" "keeps I (sfail e)" "keeps I (slift r)" "keeps I (scheck ok e)" "keeps I sget"
  by (simp_all add: keeps_def)

lemma keeps_bind [keeps_intros]: "keeps I m \<Longrightarrow> (\<And>v. keeps I (f v)) \<Longrightarrow> keeps I (sbind m f)"
  unfolding keeps_def
proof (intro allI impI)
  fix s
  assume m: "\<forall>s. I s \<longrightarrow> I (fst (m s))" and f: "\<And>v. \<forall>s. I s \<longrightarrow> I (fst (f v s))" and "I s"
  then have "I (fst (m s))" by simp
  then show "I (fst (sbind m f s))"
    using f by (cases "m s") (auto simp: sbind_def split: sum.splits)
qed

lemma keeps_if [keeps_intros]: "keeps I a \<Longrightarrow> keeps I b \<Longrightarrow> keeps I (if c then a else b)"
  by simp

lemma keeps_cases [keeps_intros]:
  "(\<And>e. keeps I (f e)) \<Longrightarrow> (\<And>v. keeps I (g v)) \<Longrightarrow> keeps I (case r of Inl e \<Rightarrow> f e | Inr v \<Rightarrow> g v)"
  "keeps I h \<Longrightarrow> (\<And>v. keeps I (k v)) \<Longrightarrow> keeps I (case q of None \<Rightarrow> h | Some v \<Rightarrow> k v)"
  "(\<And>a b. keeps I (l a b)) \<Longrightarrow> keeps I (case p of (a, b) \<Rightarrow> l a b)"
  by (simp_all split: sum.splits option.splits prod.splits)

lemma keeps_smodify: "(\<And>s. I s \<Longrightarrow> I (f s)) \<Longrightarrow> keeps I (smodify f)"
  by (simp add: keeps_def)

lemma keepsD: "keeps I m \<Longrightarrow> I s \<Longrightarrow> m s = (t, r) \<Longrightarrow> I t"
  by (metis fst_conv keeps_def)

text \<open>The same from a stronger start: \<open>leads P m I\<close> when \<open>m\<close> started in \<open>P\<close> ends in \<open>I\<close>.\<close>

definition leads :: "('s \<Rightarrow> bool) \<Rightarrow> ('s, 'e, 'a) op \<Rightarrow> ('s \<Rightarrow> bool) \<Rightarrow> bool" where
  "leads P m I \<longleftrightarrow> (\<forall>s. P s \<longrightarrow> I (fst (m s)))"

named_theorems leads_intros "rules for leads"

lemma leads_keeps: "leads I m I \<longleftrightarrow> keeps I m"
  by (simp add: leads_def keeps_def)

lemma leads_pure [leads_intros]:
  "(\<And>v. r = Inr v \<Longrightarrow> leads P (f v) I) \<Longrightarrow> (\<And>s. P s \<Longrightarrow> I s) \<Longrightarrow> leads P (sbind (slift r) f) I"
  "(ok \<Longrightarrow> leads P (g ()) I) \<Longrightarrow> (\<And>s. P s \<Longrightarrow> I s) \<Longrightarrow> leads P (sbind (scheck ok e) g) I"
  "(\<And>s. P s \<Longrightarrow> I (fst (h s s))) \<Longrightarrow> leads P (sbind sget h) I"
  by (auto simp: leads_def sbind_slift sbind_scheck split: sum.splits)

lemma leads_end [leads_intros]:
  "(\<And>s. P s \<Longrightarrow> I s) \<Longrightarrow> leads P (sret v) I" "(\<And>s. P s \<Longrightarrow> I s) \<Longrightarrow> leads P (sfail e) I"
  "(\<And>s. P s \<Longrightarrow> I s) \<Longrightarrow> leads P (slift r) I"
  by (simp_all add: leads_def)

lemma leads_bind:
  assumes "\<And>s t e. P s \<Longrightarrow> m s = (t, Inl e) \<Longrightarrow> I t" "\<And>s t v. P s \<Longrightarrow> m s = (t, Inr v) \<Longrightarrow> R v t"
    "\<And>v. leads (R v) (f v) I"
  shows "leads P (sbind m f) I"
  unfolding leads_def
proof (intro allI impI)
  fix s assume P: "P s"
  show "I (fst (sbind m f s))"
  proof (cases "m s")
    case (Pair t r)
    then show ?thesis using assms P by (cases r) (auto simp: sbind_def leads_def)
  qed
qed

lemma leads_keep_bind:
  assumes "keeps I m" "\<And>v. leads I (f v) I"
  shows "leads I (sbind m f) I"
  using assms by (auto intro!: leads_bind [where R = "\<lambda>_. I"] dest: keepsD)

section \<open>Go integer division\<close>

text \<open>
  Go's \<open>/\<close> on signed integers and \<open>big.Int.Quo\<close>/\<open>QuoRem\<close> truncate towards zero,
  and the remainder has the sign of the dividend. Isabelle's \<open>div\<close> rounds down. Callers of
  \<open>go_quo\<close> rule out a zero divisor first: Go panics there.
\<close>

definition go_quo :: "int \<Rightarrow> int \<Rightarrow> int" where
  "go_quo a b = sgn a * sgn b * (\<bar>a\<bar> div \<bar>b\<bar>)"

definition go_rem :: "int \<Rightarrow> int \<Rightarrow> int" where
  "go_rem a b = a - go_quo a b * b"

lemma go_quo_nonneg: "0 \<le> a \<Longrightarrow> 0 \<le> b \<Longrightarrow> go_quo a b = a div b"
  by (cases "a = 0"; cases "b = 0") (simp_all add: go_quo_def)

lemma go_rem_nonneg: "0 \<le> a \<Longrightarrow> 0 \<le> b \<Longrightarrow> go_rem a b = a mod b"
  by (simp add: go_rem_def go_quo_nonneg minus_div_mult_eq_mod)

lemma go_quo_neg: "a < 0 \<Longrightarrow> 0 < b \<Longrightarrow> go_quo a b = - ((- a) div b)"
  by (simp add: go_quo_def)

lemma go_rem_neg: "a < 0 \<Longrightarrow> 0 < b \<Longrightarrow> go_rem a b = - ((- a) mod b)"
  by (simp add: go_rem_def go_quo_neg minus_div_mult_eq_mod [symmetric] algebra_simps)

text \<open>Truncation corrected on negatives with a remainder is rounding down.\<close>

lemma neg_div_floor:
  fixes a b :: int
  assumes "a < 0" "0 < b"
  shows "a div b = (if (- a) mod b = 0 then - ((- a) div b) else - ((- a) div b) - 1)"
proof -
  have "a div b = - (- a div b) - (if (- a) mod b = 0 then 0 else 1)"
    using zdiv_zminus1_eq_if [of b "- a"] assms by auto
  then show ?thesis by simp
qed

lemma go_quo_floor:
  "0 < b \<Longrightarrow> (if a < 0 \<and> go_rem a b \<noteq> 0 then go_quo a b - 1 else go_quo a b) = a div b"
  by (cases "a < 0") (simp_all add: go_quo_neg go_rem_neg go_quo_nonneg neg_div_floor)

section \<open>Ceiling division\<close>

text \<open>The rounding-up division of the pricing code: quotient and remainder, plus one when the
  remainder is positive.\<close>

definition ceil_quo :: "int \<Rightarrow> int \<Rightarrow> int" where
  "ceil_quo a b = (if a mod b = 0 then a div b else a div b + 1)"

lemma ceil_quo_mult_ge: "0 < b \<Longrightarrow> a \<le> ceil_quo a b * b"
proof -
  assume b: "0 < b"
  have eq: "a = a div b * b + a mod b" by simp
  have lt: "a mod b < b" using b by simp
  show ?thesis
  proof (cases "a mod b = 0")
    case True
    with eq have "a = a div b * b" by linarith
    with True show ?thesis by (simp add: ceil_quo_def)
  next
    case False
    have "(a div b + 1) * b = a div b * b + b" by (simp add: distrib_right)
    with eq lt have "a \<le> (a div b + 1) * b" by linarith
    with False show ?thesis by (simp add: ceil_quo_def)
  qed
qed

lemma ceil_quo_le_iff: "0 < b \<Longrightarrow> ceil_quo a b \<le> c \<longleftrightarrow> a \<le> c * b"
proof
  assume b: "0 < b" and "ceil_quo a b \<le> c"
  then have "ceil_quo a b * b \<le> c * b" by simp
  with ceil_quo_mult_ge [OF b, of a] show "a \<le> c * b" by linarith
next
  assume b: "0 < b" and le: "a \<le> c * b"
  have eq: "a = a div b * b + a mod b" by simp
  show "ceil_quo a b \<le> c"
  proof (cases "a mod b = 0")
    case True
    with eq le have "a div b * b \<le> c * b" by linarith
    with b True show ?thesis by (simp add: ceil_quo_def)
  next
    case False
    moreover have "0 \<le> a mod b" using b by simp
    ultimately have "0 < a mod b" by linarith
    with eq le have "a div b * b < c * b" by linarith
    then have "a div b < c" using b by simp
    with False show ?thesis by (simp add: ceil_quo_def)
  qed
qed

lemma less_ceil_quo_iff: "0 < b \<Longrightarrow> c < ceil_quo a b \<longleftrightarrow> c * b < a"
  using ceil_quo_le_iff [of b a c] by linarith

lemma le_div_iff: "0 < (b::int) \<Longrightarrow> c \<le> a div b \<longleftrightarrow> c * b \<le> a"
proof
  assume b: "0 < b" and "c \<le> a div b"
  then have "c * b \<le> a div b * b" by simp
  moreover have "a div b * b \<le> a"
    using b by (metis pos_mod_sign minus_mod_eq_div_mult diff_ge_0_iff_ge minus_div_mult_eq_mod)
  ultimately show "c * b \<le> a" by linarith
next
  assume b: "0 < b" and le: "c * b \<le> a"
  from zdiv_mono1 [OF le b] have "(c * b) div b \<le> a div b" .
  moreover have "(c * b) div b = c" using b by simp
  ultimately show "c \<le> a div b" by simp
qed

lemma ceil_quo_nonneg: "0 \<le> a \<Longrightarrow> 0 < b \<Longrightarrow> 0 \<le> ceil_quo a b"
  by (simp add: ceil_quo_def pos_imp_zdiv_nonneg_iff)

lemma ceil_quo_zero [simp]: "ceil_quo 0 b = 0"
  by (simp add: ceil_quo_def)

lemma ceil_quo_alt: "0 < b \<Longrightarrow> ceil_quo a b = - ((- a) div b)"
  using zdiv_zminus1_eq_if [of b a] by (simp add: ceil_quo_def)

text \<open>What is left after a fee that rounds up is the complement's share rounded down.\<close>

lemma minus_ceil_quo:
  assumes "0 < d"
  shows "a - ceil_quo (a * n) d = a * (d - n) div d"
proof -
  have "a * (d - n) div d = (- (a * n) + a * d) div d"
    by (simp add: algebra_simps)
  also have "\<dots> = (- (a * n)) div d + a"
    using div_mult_self1 [of d "- (a * n)" a] assms by simp
  finally show ?thesis using assms by (simp add: ceil_quo_alt)
qed

lemma ceil_quo_mono: "0 < b \<Longrightarrow> a \<le> a' \<Longrightarrow> ceil_quo a b \<le> ceil_quo a' b"
  by (meson ceil_quo_le_iff ceil_quo_mult_ge order_trans)

lemma div_le_ceil_quo: "a div b \<le> ceil_quo a b"
  by (simp add: ceil_quo_def)

section \<open>Little-endian bytes\<close>

text \<open>
  \<open>binary.LittleEndian.AppendUint64\<close> and \<open>Uint16/32/64\<close> of Go's standard library:
  the \<open>n\<close> low bytes of a number, lowest first, and the number a byte string spells.
\<close>

fun put_le :: "nat \<Rightarrow> nat \<Rightarrow> byte list" where
  "put_le 0 x = []"
| "put_le (Suc n) x = of_nat (x mod 256) # put_le n (x div 256)"

fun get_le :: "byte list \<Rightarrow> nat" where
  "get_le [] = 0"
| "get_le (b # bs) = unat b + 256 * get_le bs"

definition append_u64 :: "byte list \<Rightarrow> u64 \<Rightarrow> byte list" where
  "append_u64 bs w = bs @ put_le 8 (unat w)"

definition le_u64 :: "byte list \<Rightarrow> u64" where
  "le_u64 bs = of_nat (get_le (take 8 bs))"

text \<open>The bytes of a Go string constant; a \<open>string\<close> here holds one character per byte.\<close>

definition bytes_of :: "string \<Rightarrow> byte list" where
  "bytes_of s = map of_char s"

lemma length_put_le [simp, le_simps]: "length (put_le n x) = n"
  by (induction n arbitrary: x) auto

lemma get_put_le: "get_le (put_le n x) = x mod 256 ^ n"
proof (induction n arbitrary: x)
  case 0
  then show ?case by simp
next
  case (Suc n)
  have "unat (of_nat (x mod 256) :: byte) = x mod 256"
    by (simp add: unat_of_nat)
  then show ?case
    using Suc.IH [of "x div 256"] mod_mult2_eq [of x 256 "256 ^ n"] by simp
qed

lemma get_le_bound: "get_le bs < 256 ^ length bs"
proof (induction bs)
  case Nil
  then show ?case by simp
next
  case (Cons b bs)
  have "unat b < 256" using unsigned_less [of b] by simp
  moreover have "256 * get_le bs + 256 \<le> 256 * 256 ^ length bs"
    using Cons.IH by simp
  ultimately have "unat b + 256 * get_le bs < 256 * 256 ^ length bs" by linarith
  then show ?case by simp
qed

lemma put_get_le: "put_le (length bs) (get_le bs) = bs"
proof (induction bs)
  case Nil
  then show ?case by simp
next
  case (Cons b bs)
  have b: "unat b < 256" using unsigned_less [of b] by simp
  then have "(unat b + 256 * get_le bs) mod 256 = unat b"
    and "(unat b + 256 * get_le bs) div 256 = get_le bs" by simp_all
  with Cons.IH show ?case by simp
qed

lemma unat_byte_bound: "unat (b :: byte) < 256"
  using unsigned_less [of b, where 'a = nat] by simp

lemma unat_u64_bound: "unat (w :: u64) < 18446744073709551616"
  using unsigned_less [of w, where 'a = nat] by simp

lemma uint_u64_bounds: "0 \<le> uint (w :: u64)" "uint (w :: u64) < 18446744073709551616"
  using unsigned_less [of w, where 'a = int] by simp_all

lemma le_u64_append [le_simps]: "le_u64 (put_le 8 (unat w) @ rest) = w"
proof -
  have "unat w mod 256 ^ 8 = unat w"
    using unat_u64_bound [of w] by simp
  then show ?thesis by (simp add: le_u64_def get_put_le)
qed

lemma le_u64_put [le_simps]: "le_u64 (put_le 8 (unat w)) = w"
  using le_u64_append [of w "[]"] by simp

lemma put_le_u64: "length bs = 8 \<Longrightarrow> put_le 8 (unat (le_u64 bs)) = bs"
proof -
  assume len: "length bs = 8"
  have "unat (le_u64 bs) = get_le bs"
    using get_le_bound [of bs] len by (simp add: le_u64_def unat_of_nat)
  then show ?thesis using put_get_le [of bs] len by simp
qed

text \<open>Two numbers behind a prefix: reading them back from any data of the right length and
  writing them again gives the data.\<close>

lemma append_two_u64:
  assumes len: "length data = n + 16" and pre: "take n data = pre"
  shows "append_u64 (append_u64 pre (le_u64 (drop n data))) (le_u64 (drop (n + 8) data)) = data"
proof -
  have "le_u64 (drop n data) = le_u64 (take 8 (drop n data))"
    by (simp add: le_u64_def)
  moreover have "length (take 8 (drop n data)) = 8" "length (drop (n + 8) data) = 8"
    using len by simp_all
  ultimately have "append_u64 (append_u64 pre (le_u64 (drop n data))) (le_u64 (drop (n + 8) data))
      = take n data @ take 8 (drop n data) @ drop (n + 8) data"
    by (simp add: append_u64_def put_le_u64 pre)
  also have "take 8 (drop n data) @ drop (n + 8) data = drop n data"
    using append_take_drop_id [of 8 "drop n data"] by (simp add: add.commute)
  finally show ?thesis by simp
qed

lemma read_two_u64:
  assumes "length pre = n"
  shows "le_u64 (drop n (append_u64 (append_u64 pre a) b)) = a"
    "le_u64 (drop (n + 8) (append_u64 (append_u64 pre a) b)) = b"
    "take n (append_u64 (append_u64 pre a) b) = pre"
    "length (append_u64 (append_u64 pre a) b) = n + 16"
  using assms by (simp_all add: append_u64_def le_simps)

lemma all_nths: "map (\<lambda>i. xs ! i) [0..<length xs] = xs"
  by (rule map_nth)

end
