(* ===== verification/RaydiumBase.thy ===== *)
theory RaydiumBase
  imports Prelude
begin

text \<open>
  The shared part of package \<open>raydium\<close> (internal/chain/solana/raydium/raydium.go): the error
  values, the program kinds, instructions with their account privileges, and the reads of a
  fixed account layout. The solana-go library is the parameter \<open>solana_lib\<close>: its base58
  decoder, its well-known program ids and its two program-address functions.

  The locale \<open>swap_codec\<close> is the contract the three instruction codecs of the package share:
  a decoder that accepts exactly what the encoder produces. Its interpretations are in the
  theories of the three programs.
\<close>

type_synonym pubkey = "byte list"

section \<open>The library under the code\<close>

record solana_lib =
  must_key :: "string \<Rightarrow> pubkey"
  token_program_id :: pubkey
  token2022_program_id :: pubkey
  memo_program_id :: pubkey
  create_program_address :: "byte list list \<Rightarrow> pubkey \<Rightarrow> pubkey option"
  find_program_address :: "byte list list \<Rightarrow> pubkey \<Rightarrow> pubkey option"

section \<open>Errors and kinds\<close>

text \<open>The sentinel errors of the package. \<open>ErrOther\<close> stands for the unnamed errors, with the
  fixed start of their message; \<open>Panic\<close> is a Go run-time panic.\<close>

datatype rerr =
    ErrMalformedAccount | ErrWrongOwner | ErrPoolNotSwappable | ErrMalformedInstruction
  | ErrTickArrays | ErrNeedBitmapExtension | ErrNoPool
  | ErrNoRoute | ErrAPI | ErrRateLimited int | ErrMalformedRoute | ErrUnsupportedRoute
  | ErrOther string | Panic

definition AMMV4Program :: "solana_lib \<Rightarrow> pubkey" where
  "AMMV4Program L = must_key L ''675kPX9MHTjS2zt1qfr1NYHuzeLXfQM9H24wFSUt1Mp8''"

definition CPMMProgram :: "solana_lib \<Rightarrow> pubkey" where
  "CPMMProgram L = must_key L ''CPMMoo8L3F4NbTegBCKVNunggL7H1ZpdTHKxQB5qKP1C''"

definition CLMMProgram :: "solana_lib \<Rightarrow> pubkey" where
  "CLMMProgram L = must_key L ''CAMMCzo5YL8w4VFF8KVHrK22GGUsp5VTaW7grrKgrWqK''"

definition zero_key :: pubkey where
  "zero_key = replicate 32 0"

datatype kind = KindUnknown | KindAMMV4 | KindCPMM | KindCLMM

fun Kind_String :: "kind \<Rightarrow> string" where
  "Kind_String KindAMMV4 = ''amm-v4''"
| "Kind_String KindCPMM = ''cpmm''"
| "Kind_String KindCLMM = ''clmm''"
| "Kind_String KindUnknown = ''unknown''"

fun Kind_Program :: "solana_lib \<Rightarrow> kind \<Rightarrow> pubkey" where
  "Kind_Program L KindAMMV4 = AMMV4Program L"
| "Kind_Program L KindCPMM = CPMMProgram L"
| "Kind_Program L KindCLMM = CLMMProgram L"
| "Kind_Program L KindUnknown = zero_key"

definition KindOf :: "solana_lib \<Rightarrow> pubkey \<Rightarrow> kind" where
  "KindOf L program =
     (if program = AMMV4Program L then KindAMMV4
      else if program = CPMMProgram L then KindCPMM
      else if program = CLMMProgram L then KindCLMM
      else KindUnknown)"

text \<open>What the code relies on in the base58 decoder: the three different program addresses
  are three different keys, none of them the zero key.\<close>

definition programs_distinct :: "solana_lib \<Rightarrow> bool" where
  "programs_distinct L \<longleftrightarrow> distinct [AMMV4Program L, CPMMProgram L, CLMMProgram L, zero_key]"

lemma KindOf_Program: "programs_distinct L \<Longrightarrow> KindOf L (Kind_Program L k) = k"
  by (cases k) (auto simp: programs_distinct_def KindOf_def)

lemma KindOf_known: "KindOf L p = k \<Longrightarrow> k \<noteq> KindUnknown \<Longrightarrow> p = Kind_Program L k"
  by (auto simp: KindOf_def split: if_splits)

section \<open>Instructions\<close>

record account_meta =
  meta_key :: pubkey
  meta_signer :: bool
  meta_writable :: bool

record instruction =
  ins_program :: pubkey
  ins_accounts :: "account_meta list"
  ins_data :: "byte list"

definition Instruction_Keys :: "instruction \<Rightarrow> pubkey list" where
  "Instruction_Keys ins = map meta_key (ins_accounts ins)"

definition writable :: "pubkey \<Rightarrow> account_meta" where
  "writable key = \<lparr>meta_key = key, meta_signer = False, meta_writable = True\<rparr>"

definition readonly :: "pubkey \<Rightarrow> account_meta" where
  "readonly key = \<lparr>meta_key = key, meta_signer = False, meta_writable = False\<rparr>"

definition signer :: "pubkey \<Rightarrow> account_meta" where
  "signer key = \<lparr>meta_key = key, meta_signer = True, meta_writable = False\<rparr>"

lemma meta_simps [simp]:
  "meta_key (writable k) = k" "meta_key (readonly k) = k" "meta_key (signer k) = k"
  "meta_signer (signer k)" "\<not> meta_signer (writable k)" "\<not> meta_signer (readonly k)"
  "meta_writable (writable k)" "\<not> meta_writable (readonly k)" "\<not> meta_writable (signer k)"
  by (simp_all add: writable_def readonly_def signer_def)

section \<open>Reading a fixed layout\<close>

text \<open>
  A read past the end of the slice panics in Go, so every read can return \<open>Panic\<close>. The
  decoders check the exact length first; that this makes every read succeed is proved with
  each decoder.
\<close>

named_theorems layout_simps "reads that stay inside the account"

definition layout_read :: "byte list \<Rightarrow> nat \<Rightarrow> nat \<Rightarrow> rerr + byte list" where
  "layout_read l offset n = rcheck (offset + n \<le> length l) Panic (Inr (take n (drop offset l)))"

definition layout_key :: "byte list \<Rightarrow> nat \<Rightarrow> rerr + pubkey" where
  "layout_key l offset = layout_read l offset 32"

definition layout_u8 :: "byte list \<Rightarrow> nat \<Rightarrow> rerr + byte" where
  "layout_u8 l offset = rcheck (offset < length l) Panic (Inr (l ! offset))"

definition layout_u16 :: "byte list \<Rightarrow> nat \<Rightarrow> rerr + u16" where
  "layout_u16 l offset = rbind (layout_read l offset 2) (\<lambda>bs. Inr (of_nat (get_le bs)))"

definition layout_u32 :: "byte list \<Rightarrow> nat \<Rightarrow> rerr + u32" where
  "layout_u32 l offset = rbind (layout_read l offset 4) (\<lambda>bs. Inr (of_nat (get_le bs)))"

text \<open>An \<open>int32\<close> is kept as the integer it denotes; the conversion from \<open>uint32\<close> reads the
  bits as two's complement.\<close>

definition layout_i32 :: "byte list \<Rightarrow> nat \<Rightarrow> rerr + int" where
  "layout_i32 l offset = rbind (layout_u32 l offset) (\<lambda>w. Inr (sint w))"

definition layout_u64 :: "byte list \<Rightarrow> nat \<Rightarrow> rerr + u64" where
  "layout_u64 l offset = rbind (layout_read l offset 8) (\<lambda>bs. Inr (of_nat (get_le bs)))"

definition layout_u128 :: "byte list \<Rightarrow> nat \<Rightarrow> rerr + int" where
  "layout_u128 l offset =
     rbind (layout_u64 l (offset + 8)) (\<lambda>hi. rbind (layout_u64 l offset) (\<lambda>lo.
       Inr (push_bit 64 (uint hi) OR uint lo)))"

definition le_at :: "byte list \<Rightarrow> nat \<Rightarrow> nat \<Rightarrow> nat" where
  "le_at l offset n = get_le (take n (drop offset l))"

lemma layout_in_range [layout_simps]:
  "offset + 32 \<le> length l \<Longrightarrow> layout_key l offset = Inr (take 32 (drop offset l))"
  "offset < length l \<Longrightarrow> layout_u8 l offset = Inr (l ! offset)"
  "offset + 2 \<le> length l \<Longrightarrow> layout_u16 l offset = Inr (of_nat (le_at l offset 2))"
  "offset + 4 \<le> length l \<Longrightarrow> layout_u32 l offset = Inr (of_nat (le_at l offset 4))"
  "offset + 4 \<le> length l \<Longrightarrow> layout_i32 l offset = Inr (sint (of_nat (le_at l offset 4) :: u32))"
  "offset + 8 \<le> length l \<Longrightarrow> layout_u64 l offset = Inr (of_nat (le_at l offset 8))"
  by (simp_all add: layout_key_def layout_u8_def layout_u16_def layout_u32_def layout_i32_def
      layout_u64_def layout_read_def le_at_def)

lemma layout_u128_in_range [layout_simps]:
  "offset + 16 \<le> length l \<Longrightarrow>
     layout_u128 l offset = Inr (push_bit 64 (uint (of_nat (le_at l (offset + 8) 8) :: u64))
       OR uint (of_nat (le_at l offset 8) :: u64))"
  by (simp add: layout_u128_def layout_in_range)

text \<open>The owner, the exact length and, for Anchor accounts, the discriminator.\<close>

definition checkAccount ::
  "pubkey \<Rightarrow> pubkey \<Rightarrow> byte list \<Rightarrow> nat \<Rightarrow> byte list option \<Rightarrow> rerr + unit" where
  "checkAccount program owner data sz discriminator =
     rcheck (owner = program) ErrWrongOwner
       (rcheck (length data = sz) ErrMalformedAccount
         (rcheck (case discriminator of None \<Rightarrow> True | Some d \<Rightarrow> take 8 data = d) ErrMalformedAccount
           (Inr ())))"

lemma checkAccount_eq_Inr: "checkAccount p owner data sz d = Inr u \<longleftrightarrow>
   owner = p \<and> length data = sz \<and> (case d of None \<Rightarrow> True | Some x \<Rightarrow> take 8 data = x)"
  by (auto simp: checkAccount_def rcheck_eq_Inr)

lemma checkAccount_cases:
  "checkAccount p owner data sz d =
     (if owner \<noteq> p then Inl ErrWrongOwner
      else if length data = sz \<and> (case d of None \<Rightarrow> True | Some x \<Rightarrow> take 8 data = x)
      then Inr () else Inl ErrMalformedAccount)"
  by (auto simp: checkAccount_def rcheck_def)

lemma checkAccount_panic: "rbind (checkAccount p owner data sz d) k = Inl Panic \<longleftrightarrow>
   owner = p \<and> length data = sz \<and> (case d of None \<Rightarrow> True | Some x \<Rightarrow> take 8 data = x) \<and>
   k () = Inl Panic"
  by (auto simp: checkAccount_cases)

section \<open>The contract of a swap codec\<close>

text \<open>
  A codec encodes a typed swap as an instruction and decodes a program id, account keys and
  data back. \<open>valid\<close> says which typed swaps the encoder is for. The two laws: decoding
  what was encoded gives the swap back, and the decoder accepts nothing but an encoding.
\<close>

locale swap_codec =
  fixes encode :: "'s \<Rightarrow> rerr + instruction"
    and decode :: "pubkey \<Rightarrow> pubkey list \<Rightarrow> byte list \<Rightarrow> rerr + 's"
    and valid :: "'s \<Rightarrow> bool"
  assumes encode_total: "valid s \<Longrightarrow> \<exists>ins. encode s = Inr ins"
    and decode_encode: "valid s \<Longrightarrow> encode s = Inr ins \<Longrightarrow>
      decode (ins_program ins) (Instruction_Keys ins) (ins_data ins) = Inr s"
    and encode_decode: "decode p ks d = Inr s \<Longrightarrow>
      valid s \<and> (\<exists>ins. encode s = Inr ins \<and> ins_program ins = p \<and> Instruction_Keys ins = ks
        \<and> ins_data ins = d)"
begin

lemma decode_iff:
  "decode p ks d = Inr s \<longleftrightarrow>
     valid s \<and> (\<exists>ins. encode s = Inr ins \<and> ins_program ins = p \<and> Instruction_Keys ins = ks
        \<and> ins_data ins = d)"
  using encode_decode decode_encode by blast

lemma encode_inj:
  "valid s \<Longrightarrow> valid t \<Longrightarrow> encode s = Inr i \<Longrightarrow> encode t = Inr j \<Longrightarrow>
     ins_program i = ins_program j \<Longrightarrow> Instruction_Keys i = Instruction_Keys j \<Longrightarrow>
     ins_data i = ins_data j \<Longrightarrow> s = t"
  using decode_encode by (metis Inr_inject)

lemma decode_unique:
  "decode p ks d = Inr s \<Longrightarrow> decode p' ks' d' = Inr s \<Longrightarrow> p = p' \<and> ks = ks' \<and> d = d'"
  using encode_decode by (metis Inr_inject)

end

end
