(* ===== verification/SolanaMessage.thy ===== *)
theory SolanaMessage
  imports RaydiumBase
begin

text \<open>
  Solana messages (internal/chain/solana/intent.go): the decoder of legacy messages, the instructions a
  transfer allows, and the comparison of a serialized message with the instructions that were asked for,
  which comes before every signature.

  A decoding that fails is \<open>None\<close>: the caller turns every failure into the same refusal. The reader
  keeps the bytes that are left; \<open>for range n\<close> over a reader is \<open>times\<close>.
\<close>

unbundle bit_operations_syntax

section \<open>Reading bytes\<close>

definition take_n :: "nat \<Rightarrow> byte list \<Rightarrow> (byte list \<times> byte list) option" where
  "take_n n rest = (if length rest < n then None else Some (take n rest, drop n rest))"

text \<open>A length of at most three bytes, seven bits each, lowest first.\<close>

fun compact_loop :: "nat \<Rightarrow> nat \<Rightarrow> nat \<Rightarrow> byte list \<Rightarrow> (nat \<times> byte list) option" where
  "compact_loop 0 shift value rest = None"
| "compact_loop (Suc n) shift value [] = None"
| "compact_loop (Suc n) shift value (b # rest) =
     (let value = value OR push_bit shift (unat (b AND 0x7f)) in
      if b AND 0x80 = 0 then Some (value, rest) else compact_loop n (shift + 7) value rest)"

definition compact :: "byte list \<Rightarrow> (nat \<times> byte list) option" where
  "compact rest = compact_loop 3 0 0 rest"

primrec times :: "nat \<Rightarrow> (byte list \<Rightarrow> ('a \<times> byte list) option) \<Rightarrow> byte list \<Rightarrow> ('a list \<times> byte list) option" where
  "times 0 p rest = Some ([], rest)"
| "times (Suc n) p rest =
     Option.bind (p rest) (\<lambda>(x, rest). Option.bind (times n p rest) (\<lambda>(xs, rest). Some (x # xs, rest)))"

section \<open>Legacy messages\<close>

record decoded_instruction =
  di_program :: nat
  di_accounts :: "nat list"
  di_data :: "byte list"

record decoded_message =
  dm_signers :: nat
  dm_readonlySigned :: nat
  dm_readonlyUnsigned :: nat
  dm_keys :: "pubkey list"
  dm_blockhash :: "byte list"
  dm_instructions :: "decoded_instruction list"

definition isWritable :: "decoded_message \<Rightarrow> nat \<Rightarrow> bool" where
  "isWritable m index =
     (if index < dm_signers m then index < dm_signers m - dm_readonlySigned m
      else index < length (dm_keys m) - dm_readonlyUnsigned m)"

definition take_instruction :: "byte list \<Rightarrow> (decoded_instruction \<times> byte list) option" where
  "take_instruction rest =
     Option.bind (take_n 1 rest) (\<lambda>(program, rest).
     Option.bind (compact rest) (\<lambda>(accounts, rest).
     Option.bind (take_n accounts rest) (\<lambda>(indexes, rest).
     Option.bind (compact rest) (\<lambda>(sz, rest).
     Option.bind (take_n sz rest) (\<lambda>(payload, rest).
     Some (\<lparr>di_program = unat (hd program), di_accounts = map unat indexes, di_data = payload\<rparr>, rest))))))"

definition instruction_fits :: "nat \<Rightarrow> nat \<Rightarrow> decoded_instruction \<Rightarrow> bool" where
  "instruction_fits programs keys ins \<longleftrightarrow> di_program ins < programs \<and> list_all (\<lambda>index. index < keys) (di_accounts ins)"

definition header_fits :: "nat \<Rightarrow> nat \<Rightarrow> nat \<Rightarrow> nat \<Rightarrow> bool" where
  "header_fits signers readonlySigned readonlyUnsigned keys \<longleftrightarrow>
     \<not> (readonlySigned > signers \<or> signers > keys \<or> readonlyUnsigned > keys - signers)"

definition decodeLegacyMessage :: "byte list \<Rightarrow> decoded_message option" where
  "decodeLegacyMessage data =
     Option.bind (take_n 3 data) (\<lambda>(header, rest).
     if hd header AND 0x80 \<noteq> 0 then None else
     let signers = unat (header ! 0); readonlySigned = unat (header ! 1); readonlyUnsigned = unat (header ! 2) in
     Option.bind (compact rest) (\<lambda>(count, rest).
     Option.bind (times count (take_n 32) rest) (\<lambda>(keys, rest).
     if \<not> header_fits signers readonlySigned readonlyUnsigned (length keys) then None else
     Option.bind (take_n 32 rest) (\<lambda>(blockhash, rest).
     Option.bind (compact rest) (\<lambda>(instructions, rest).
     Option.bind (times instructions take_instruction rest) (\<lambda>(found, rest).
     if \<not> list_all (instruction_fits (length keys) (length keys)) found \<or> rest \<noteq> [] then None else
     Some \<lparr>dm_signers = signers, dm_readonlySigned = readonlySigned, dm_readonlyUnsigned = readonlyUnsigned,
       dm_keys = keys, dm_blockhash = blockhash, dm_instructions = found\<rparr>))))))"

section \<open>The transfer that was asked for\<close>

record token_intent =
  ti_mint :: pubkey
  ti_decimals :: byte
  ti_amount :: u64
  ti_createAccount :: bool

record sol_intent =
  si_payer :: pubkey
  si_blockhash :: "byte list"
  si_limit :: u32
  si_price :: u64
  si_to :: pubkey
  si_lamports :: u64
  si_token :: "token_intent option"

text \<open>The program ids of solana-go beside those of the Raydium package.\<close>

record sol_lib = solana_lib +
  sl_ComputeBudget :: pubkey
  sl_SystemProgram :: pubkey
  sl_AssociatedTokenProgram :: pubkey
  sl_LookupTableProgram :: pubkey

definition FindAssociatedTokenAddress :: "('a) sol_lib_scheme \<Rightarrow> pubkey \<Rightarrow> pubkey \<Rightarrow> pubkey option" where
  "FindAssociatedTokenAddress L owner mint =
     find_program_address L [owner, token_program_id L, mint] (sl_AssociatedTokenProgram L)"

type_synonym expectedInstruction = instruction

text \<open>The instructions of this program, as the chain's programs read them.\<close>

definition limit_instruction :: "('a) sol_lib_scheme \<Rightarrow> u32 \<Rightarrow> instruction" where
  "limit_instruction L limit = \<lparr>ins_program = sl_ComputeBudget L, ins_accounts = [], ins_data = 2 # put_le 4 (unat limit)\<rparr>"

definition price_instruction :: "('a) sol_lib_scheme \<Rightarrow> u64 \<Rightarrow> instruction" where
  "price_instruction L price = \<lparr>ins_program = sl_ComputeBudget L, ins_accounts = [], ins_data = 3 # put_le 8 (unat price)\<rparr>"

definition payer_meta :: "pubkey \<Rightarrow> account_meta" where
  "payer_meta key = \<lparr>meta_key = key, meta_signer = True, meta_writable = True\<rparr>"

definition sol_transfer_instruction :: "('a) sol_lib_scheme \<Rightarrow> pubkey \<Rightarrow> pubkey \<Rightarrow> u64 \<Rightarrow> instruction" where
  "sol_transfer_instruction L from to amount =
     \<lparr>ins_program = sl_SystemProgram L, ins_accounts = [payer_meta from, writable to],
      ins_data = put_le 4 2 @ put_le 8 (unat amount)\<rparr>"

definition create_account_instruction :: "('a) sol_lib_scheme \<Rightarrow> pubkey \<Rightarrow> pubkey \<Rightarrow> pubkey \<Rightarrow> pubkey \<Rightarrow> instruction" where
  "create_account_instruction L payer account owner mint =
     \<lparr>ins_program = sl_AssociatedTokenProgram L,
      ins_accounts = [payer_meta payer, writable account, readonly owner, readonly mint, readonly (sl_SystemProgram L), readonly (token_program_id L)],
      ins_data = [1]\<rparr>"

definition token_transfer_instruction ::
  "('a) sol_lib_scheme \<Rightarrow> pubkey \<Rightarrow> pubkey \<Rightarrow> pubkey \<Rightarrow> pubkey \<Rightarrow> u64 \<Rightarrow> byte \<Rightarrow> instruction" where
  "token_transfer_instruction L source mint destination owner amount decimals =
     \<lparr>ins_program = token_program_id L, ins_accounts = [writable source, readonly mint, writable destination, signer owner],
      ins_data = 12 # put_le 8 (unat amount) @ [decimals]\<rparr>"

definition expected :: "('a) sol_lib_scheme \<Rightarrow> sol_intent \<Rightarrow> instruction list option" where
  "expected L i =
     (let out = [limit_instruction L (si_limit i), price_instruction L (si_price i)] in
      case si_token i of
        None \<Rightarrow> Some (out @ [sol_transfer_instruction L (si_payer i) (si_to i) (si_lamports i)])
      | Some t \<Rightarrow>
          Option.bind (FindAssociatedTokenAddress L (si_payer i) (ti_mint t)) (\<lambda>source.
          Option.bind (FindAssociatedTokenAddress L (si_to i) (ti_mint t)) (\<lambda>destination.
          Some (out @ (if ti_createAccount t then [create_account_instruction L (si_payer i) destination (si_to i) (ti_mint t)] else []) @
            [token_transfer_instruction L source (ti_mint t) destination (si_payer i) (ti_amount t) (ti_decimals t)]))))"

section \<open>Comparing\<close>

datatype mismatch = IntentMismatch string

text \<open>The loop over the instructions collects the accounts that are used and those that must be writable.\<close>

fun match_instructions ::
  "pubkey list \<Rightarrow> decoded_instruction list \<Rightarrow> instruction list \<Rightarrow> pubkey set \<Rightarrow> pubkey set \<Rightarrow> mismatch + pubkey set \<times> pubkey set" where
  "match_instructions keys (got # gots) (exp # exps) used wr =
     rcheck (keys ! di_program got = ins_program exp) (IntentMismatch ''instruction calls another program'') (
     rcheck (di_data got = ins_data exp) (IntentMismatch ''instruction carries other data'') (
     rcheck (length (di_accounts got) = length (ins_accounts exp)) (IntentMismatch ''instruction lists other accounts'') (
     rcheck (list_all2 (\<lambda>j meta. keys ! j = meta_key meta) (di_accounts got) (ins_accounts exp)) (IntentMismatch ''account is another'') (
     match_instructions keys gots exps
       (insert (ins_program exp) used \<union> meta_key ` set (ins_accounts exp))
       (wr \<union> meta_key ` {meta \<in> set (ins_accounts exp). meta_writable meta})))))"
| "match_instructions keys gots exps used wr = Inr (used, wr)"

text \<open>The loop over the accounts: used by some instruction, and writable exactly when one needs it.\<close>

primrec check_accounts :: "decoded_message \<Rightarrow> pubkey set \<Rightarrow> pubkey set \<Rightarrow> nat list \<Rightarrow> mismatch + unit" where
  "check_accounts m used wr [] = Inr ()"
| "check_accounts m used wr (index # rest) =
     rcheck (dm_keys m ! index \<in> used) (IntentMismatch ''account is not used by any instruction'') (
     rcheck (isWritable m index = (dm_keys m ! index \<in> wr)) (IntentMismatch ''account has the wrong writable flag'')
       (check_accounts m used wr rest))"

definition verifyInstructions :: "byte list \<Rightarrow> pubkey \<Rightarrow> byte list \<Rightarrow> instruction list \<Rightarrow> mismatch + unit" where
  "verifyInstructions message payer blockhash want =
     (case decodeLegacyMessage message of None \<Rightarrow> Inl (IntentMismatch ''the message cannot be decoded'') | Some m \<Rightarrow>
      rcheck (\<not> (dm_signers m \<noteq> 1 \<or> dm_readonlySigned m \<noteq> 0 \<or> length (dm_keys m) = 0 \<or> hd (dm_keys m) \<noteq> payer))
        (IntentMismatch ''the sender must be the only signer and the fee payer'') (
      rcheck (dm_blockhash m = blockhash) (IntentMismatch ''the blockhash is not the one fetched'') (
      rcheck (distinct (dm_keys m)) (IntentMismatch ''account is listed twice'') (
      rcheck (length (dm_instructions m) = length want) (IntentMismatch ''number of instructions'') (
      rbind (match_instructions (dm_keys m) (dm_instructions m) want {payer} {payer}) (\<lambda>(used, wr).
      check_accounts m used wr [0..<length (dm_keys m)]))))))"

definition verifyMessage :: "('a) sol_lib_scheme \<Rightarrow> byte list \<Rightarrow> sol_intent \<Rightarrow> mismatch + unit" where
  "verifyMessage L message i =
     (case expected L i of None \<Rightarrow> Inl (IntentMismatch ''derivation'')
      | Some want \<Rightarrow> verifyInstructions message (si_payer i) (si_blockhash i) want)"

section \<open>What a message does\<close>

text \<open>The instructions the runtime executes: indexes resolved, privileges from the header.\<close>

definition run_instructions :: "pubkey list \<Rightarrow> nat \<Rightarrow> (nat \<Rightarrow> bool) \<Rightarrow> decoded_instruction list \<Rightarrow> instruction list" where
  "run_instructions keys signers wr gots = map (\<lambda>ins. \<lparr>ins_program = keys ! di_program ins,
     ins_accounts = map (\<lambda>j. \<lparr>meta_key = keys ! j, meta_signer = (j < signers), meta_writable = wr j\<rparr>) (di_accounts ins),
     ins_data = di_data ins\<rparr>) gots"

definition executed :: "decoded_message \<Rightarrow> instruction list" where
  "executed m = run_instructions (dm_keys m) (dm_signers m) (isWritable m) (dm_instructions m)"

text \<open>A list of instructions with the privileges merged over the message, as the format has it: the payer
  signs and pays, an account is writable when some instruction needs it so.\<close>

definition needs_write :: "pubkey \<Rightarrow> instruction list \<Rightarrow> pubkey \<Rightarrow> bool" where
  "needs_write payer want key \<longleftrightarrow> key = payer \<or> (\<exists>ins\<in>set want. \<exists>meta\<in>set (ins_accounts ins). meta_key meta = key \<and> meta_writable meta)"

definition merged :: "pubkey \<Rightarrow> instruction list \<Rightarrow> instruction list" where
  "merged payer want = map (\<lambda>ins. ins\<lparr>ins_accounts := map (\<lambda>meta.
     \<lparr>meta_key = meta_key meta, meta_signer = (meta_key meta = payer), meta_writable = needs_write payer want (meta_key meta)\<rparr>) (ins_accounts ins)\<rparr>) want"

definition mentions :: "pubkey \<Rightarrow> instruction list \<Rightarrow> pubkey set" where
  "mentions payer want = {payer} \<union> (\<Union>ins\<in>set want. insert (ins_program ins) (meta_key ` set (ins_accounts ins)))"

text \<open>The reference: a message whose keys are the accounts it needs, with the privileges they need, and
  which executes the instructions.\<close>

definition speaks :: "pubkey list \<Rightarrow> (nat \<Rightarrow> bool) \<Rightarrow> decoded_instruction list \<Rightarrow> pubkey \<Rightarrow> instruction list \<Rightarrow> bool" where
  "speaks keys wr gots payer want \<longleftrightarrow> keys \<noteq> [] \<and> hd keys = payer \<and> distinct keys \<and> set keys = mentions payer want \<and>
     run_instructions keys 1 wr gots = merged payer want \<and>
     (\<forall>index<length keys. wr index = needs_write payer want (keys ! index))"

definition says :: "decoded_message \<Rightarrow> pubkey \<Rightarrow> byte list \<Rightarrow> instruction list \<Rightarrow> bool" where
  "says m payer blockhash want \<longleftrightarrow> dm_signers m = 1 \<and> dm_blockhash m = blockhash \<and>
     speaks (dm_keys m) (isWritable m) (dm_instructions m) payer want"

section \<open>Verified messages\<close>

lemma times_Some: "times n p rest = Some (xs, r) \<Longrightarrow> length xs = n \<and> (\<forall>x\<in>set xs. \<exists>a b. p a = Some (x, b))"
  by (induction n arbitrary: rest xs r) (auto simp: bind_eq_Some_conv, blast)

text \<open>A decoded message has its indexes in range.\<close>

definition message_fits :: "decoded_message \<Rightarrow> bool" where
  "message_fits m \<longleftrightarrow> header_fits (dm_signers m) (dm_readonlySigned m) (dm_readonlyUnsigned m) (length (dm_keys m)) \<and>
     (\<forall>ins\<in>set (dm_instructions m). instruction_fits (length (dm_keys m)) (length (dm_keys m)) ins) \<and>
     (\<forall>k\<in>set (dm_keys m). length k = 32) \<and> length (dm_blockhash m) = 32"

lemma take_n_Some: "take_n n rest = Some (v, r) \<longleftrightarrow> n \<le> length rest \<and> v = take n rest \<and> r = drop n rest"
  by (auto simp: take_n_def)

lemma decode_fits: "decodeLegacyMessage data = Some m \<Longrightarrow> message_fits m"
  by (auto simp: decodeLegacyMessage_def bind_eq_Some_conv Let_def take_n_Some message_fits_def list_all_iff split: if_splits dest!: times_Some)
    (metis length_take min.absorb2)

definition matches :: "pubkey list \<Rightarrow> decoded_instruction \<Rightarrow> instruction \<Rightarrow> bool" where
  "matches keys got exp \<longleftrightarrow> keys ! di_program got = ins_program exp \<and> di_data got = ins_data exp \<and>
     map ((!) keys) (di_accounts got) = map meta_key (ins_accounts exp)"

lemma matches_keys:
  assumes "matches keys got ins" "instruction_fits (length keys) (length keys) got" "k = ins_program ins \<or> k \<in> set (map meta_key (ins_accounts ins))"
  shows "k \<in> set keys"
proof -
  have "keys ! di_program got = ins_program ins" "set (map ((!) keys) (di_accounts got)) = set (map meta_key (ins_accounts ins))"
    using assms(1) by (simp_all only: matches_def)
  moreover have in_keys: "keys ! di_program got \<in> set keys" "set (map ((!) keys) (di_accounts got)) \<subseteq> set keys"
    using assms(2) by (auto simp: instruction_fits_def list_all_iff)
  ultimately show ?thesis using assms(3) by (metis subsetD)
qed

lemma list_all2_on: "(\<And>x y. x \<in> set xs \<Longrightarrow> P x y \<longleftrightarrow> Q x y) \<Longrightarrow> list_all2 P xs ys \<longleftrightarrow> list_all2 Q xs ys"
  by (auto simp: list_all2_conv_all_nth)

lemma match_instructions_iff:
  "length gots = length exps \<Longrightarrow> match_instructions keys gots exps used wr = Inr uw \<longleftrightarrow>
     list_all2 (matches keys) gots exps \<and>
     uw = (used \<union> (\<Union>ins\<in>set exps. insert (ins_program ins) (meta_key ` set (ins_accounts ins))),
       wr \<union> (\<Union>ins\<in>set exps. meta_key ` {meta \<in> set (ins_accounts ins). meta_writable meta}))"
proof (induction gots exps arbitrary: used wr rule: list_induct2)
  case (Cons got gots exp exps)
  have "matches keys got exp \<longleftrightarrow> keys ! di_program got = ins_program exp \<and> di_data got = ins_data exp \<and>
      length (di_accounts got) = length (ins_accounts exp) \<and> list_all2 (\<lambda>j meta. keys ! j = meta_key meta) (di_accounts got) (ins_accounts exp)"
    by (auto simp: matches_def list_all2_conv_all_nth list_eq_iff_nth_eq)
  then show ?case using Cons.IH by (auto simp: rcheck_eq_Inr)
qed auto

definition gots_fit :: "pubkey list \<Rightarrow> decoded_instruction list \<Rightarrow> bool" where
  "gots_fit keys gots \<longleftrightarrow> (\<forall>got\<in>set gots. instruction_fits (length keys) (length keys) got)"

lemma run_merged:
  assumes "gots_fit keys gots" "distinct keys" "keys \<noteq> []" "hd keys = payer"
    "\<forall>index<length keys. wr index = needs_write payer want (keys ! index)"
  shows "run_instructions keys 1 wr gots = merged payer want \<longleftrightarrow> list_all2 (matches keys) gots want"
proof -
  let ?run = "\<lambda>got. \<lparr>ins_program = keys ! di_program got,
      ins_accounts = map (\<lambda>j. \<lparr>meta_key = keys ! j, meta_signer = (j < (1::nat)), meta_writable = wr j\<rparr>) (di_accounts got),
      ins_data = di_data got\<rparr>"
  let ?merge = "\<lambda>ins :: instruction. ins\<lparr>ins_accounts := map (\<lambda>meta. \<lparr>meta_key = meta_key meta, meta_signer = (meta_key meta = payer),
      meta_writable = needs_write payer want (meta_key meta)\<rparr>) (ins_accounts ins)\<rparr>"
  have first: "j < 1 \<longleftrightarrow> keys ! j = payer" if "j < length keys" for j
    using assms(2-4) that nth_eq_iff_index_eq [of keys j 0] by (auto simp: hd_conv_nth)
  have one: "?run got = ?merge ins \<longleftrightarrow> matches keys got ins" if "instruction_fits (length keys) (length keys) got" for got ins
  proof -
    define f where "f k = \<lparr>meta_key = k, meta_signer = (k = payer), meta_writable = needs_write payer want k\<rparr>" for k
    have l: "map (\<lambda>j. \<lparr>meta_key = keys ! j, meta_signer = (j < (1::nat)), meta_writable = wr j\<rparr>) (di_accounts got) =
        map f (map ((!) keys) (di_accounts got))"
      using that first assms(5) by (auto simp: instruction_fits_def list_all_iff f_def)
    have r: "map (\<lambda>meta. \<lparr>meta_key = meta_key meta, meta_signer = (meta_key meta = payer), meta_writable = needs_write payer want (meta_key meta)\<rparr>) as =
        map f (map meta_key as)" for as
      by (simp add: f_def)
    have f: "inj f" by (rule injI) (simp add: f_def)
    have "\<lparr>ins_program = a, ins_accounts = b, ins_data = c\<rparr> = ins\<lparr>ins_accounts := d\<rparr> \<longleftrightarrow> a = ins_program ins \<and> b = d \<and> c = ins_data ins" for a b c d
      by (cases ins) auto
    then show ?thesis unfolding l r by (simp only: inj_map_eq_map [OF f] matches_def) blast
  qed
  have eq: "map G xs = map H ys \<longleftrightarrow> list_all2 (\<lambda>x y. G x = H y) xs ys" for G :: "decoded_instruction \<Rightarrow> instruction" and H :: "instruction \<Rightarrow> instruction" and xs ys
    by (auto simp: list_all2_conv_all_nth list_eq_iff_nth_eq)
  have "run_instructions keys 1 wr gots = merged payer want \<longleftrightarrow> list_all2 (\<lambda>got ins. ?run got = ?merge ins) gots want"
    unfolding run_instructions_def merged_def by (rule eq)
  also have "\<dots> \<longleftrightarrow> list_all2 (matches keys) gots want"
    by (rule list_all2_on, rule one) (use assms(1) in \<open>simp add: gots_fit_def\<close>)
  finally show ?thesis .
qed

text \<open>What the loops check, against the reference.\<close>

lemma speaks_iff:
  assumes "gots_fit keys gots"
  shows "speaks keys wr gots payer want \<longleftrightarrow> keys \<noteq> [] \<and> hd keys = payer \<and> distinct keys \<and> list_all2 (matches keys) gots want \<and>
    set keys \<subseteq> mentions payer want \<and> (\<forall>index<length keys. wr index = needs_write payer want (keys ! index))"
    (is "_ \<longleftrightarrow> ?all")
proof
  assume all: ?all
  have "mentions payer want \<subseteq> set keys"
  proof
    fix k assume "k \<in> mentions payer want"
    then consider "k = payer" | ins where "ins \<in> set want" "k = ins_program ins \<or> k \<in> set (map meta_key (ins_accounts ins))"
      by (auto simp: mentions_def)
    then show "k \<in> set keys"
    proof cases
      case 1
      then show ?thesis using all hd_in_set by blast
    next
      case (2 ins)
      then obtain got where got: "got \<in> set gots" "matches keys got ins"
        using all by (metis list_all2_conv_all_nth in_set_conv_nth)
      then have "instruction_fits (length keys) (length keys) got" using assms by (simp add: gots_fit_def)
      then show ?thesis using matches_keys got(2) 2(2) by blast
    qed
  qed
  then show "speaks keys wr gots payer want"
    using all run_merged [OF assms, of payer wr want] by (auto simp: speaks_def)
next
  assume "speaks keys wr gots payer want"
  then show ?all using run_merged [OF assms, of payer wr want] by (auto simp: speaks_def)
qed

lemma check_accounts_iff: "check_accounts m used wr is = Inr () \<longleftrightarrow>
    (\<forall>index\<in>set is. dm_keys m ! index \<in> used) \<and> (\<forall>index\<in>set is. isWritable m index = (dm_keys m ! index \<in> wr))"
  by (induction "is") (auto simp: rcheck_eq_Inr)

text \<open>The accounts the loop over the instructions collects are those the reference names.\<close>

lemma collected_keys:
  "{payer} \<union> (\<Union>ins\<in>set want. insert (ins_program ins) (meta_key ` set (ins_accounts ins))) = mentions payer want"
  "{payer} \<union> (\<Union>ins\<in>set want. meta_key ` {meta \<in> set (ins_accounts ins). meta_writable meta}) = Collect (needs_write payer want)"
proof -
  show "{payer} \<union> (\<Union>ins\<in>set want. insert (ins_program ins) (meta_key ` set (ins_accounts ins))) = mentions payer want"
    by (simp add: mentions_def)
  show "{payer} \<union> (\<Union>ins\<in>set want. meta_key ` {meta \<in> set (ins_accounts ins). meta_writable meta}) = Collect (needs_write payer want)"
    unfolding needs_write_def by blast
qed

lemma set_keys_subset: "set keys \<subseteq> A \<longleftrightarrow> (\<forall>index<length keys. keys ! index \<in> A)"
  by (auto simp: subset_iff in_set_conv_nth)

lemma verifyInstructions_iff:
  "verifyInstructions message payer blockhash want = Inr () \<longleftrightarrow>
     (\<exists>m. decodeLegacyMessage message = Some m \<and> says m payer blockhash want)"
proof (cases "decodeLegacyMessage message")
  case (Some m)
  have fits: "gots_fit (dm_keys m) (dm_instructions m)" using decode_fits [OF Some] by (simp add: message_fits_def gots_fit_def)
  let ?n = "length (dm_keys m)"
  let ?rest = "distinct (dm_keys m) \<and> list_all2 (matches (dm_keys m)) (dm_instructions m) want \<and>
    set (dm_keys m) \<subseteq> mentions payer want \<and> (\<forall>index<?n. isWritable m index = needs_write payer want (dm_keys m ! index))"
  have loop: "match_instructions (dm_keys m) (dm_instructions m) want {payer} {payer} = Inr (used, wr) \<longleftrightarrow>
      list_all2 (matches (dm_keys m)) (dm_instructions m) want \<and> used = mentions payer want \<and> wr = Collect (needs_write payer want)"
    if "length (dm_instructions m) = length want" for used wr
    using match_instructions_iff [OF that, of "dm_keys m" "{payer}" "{payer}"] collected_keys [of payer want] by simp
  have "verifyInstructions message payer blockhash want = Inr () \<longleftrightarrow> dm_signers m = 1 \<and> dm_readonlySigned m = 0 \<and> dm_keys m \<noteq> [] \<and>
      hd (dm_keys m) = payer \<and> dm_blockhash m = blockhash \<and> distinct (dm_keys m) \<and> length (dm_instructions m) = length want \<and>
      (\<exists>used wr. match_instructions (dm_keys m) (dm_instructions m) want {payer} {payer} = Inr (used, wr) \<and>
        (\<forall>index<?n. dm_keys m ! index \<in> used) \<and> (\<forall>index<?n. isWritable m index = (dm_keys m ! index \<in> wr)))"
    by (auto simp: verifyInstructions_def Some rbind_eq_Inr rcheck_eq_Inr check_accounts_iff)
  also have "\<dots> \<longleftrightarrow> dm_signers m = 1 \<and> dm_readonlySigned m = 0 \<and> dm_keys m \<noteq> [] \<and> hd (dm_keys m) = payer \<and> dm_blockhash m = blockhash \<and> ?rest"
  proof (cases "length (dm_instructions m) = length want")
    case True
    then show ?thesis by (simp only: loop [OF True] mem_Collect_eq set_keys_subset) blast
  next
    case False
    then show ?thesis by (auto dest: list_all2_lengthD)
  qed
  also have "\<dots> \<longleftrightarrow> says m payer blockhash want"
  proof -
    have "dm_readonlySigned m = 0" if "dm_signers m = 1" "dm_keys m \<noteq> []" "hd (dm_keys m) = payer" ?rest
    proof -
      have "isWritable m 0 = needs_write payer want (dm_keys m ! 0)" using that by simp
      then have "isWritable m 0" using that(2,3) by (simp add: needs_write_def hd_conv_nth)
      then show ?thesis using that(1) by (simp add: isWritable_def)
    qed
    then show ?thesis unfolding says_def speaks_iff [OF fits] by blast
  qed
  finally show ?thesis using Some by simp
qed (simp add: verifyInstructions_def)

section \<open>The wire format\<close>

text \<open>The reference encoder: lengths in seven-bit groups, as the Solana format has them.\<close>

definition put_compact :: "nat \<Rightarrow> byte list" where
  "put_compact n =
     (if n < 128 then [of_nat n]
      else if n < 16384 then [of_nat (n mod 128 + 128), of_nat (n div 128)]
      else [of_nat (n mod 128 + 128), of_nat (n div 128 mod 128 + 128), of_nat (n div 16384)])"

definition put_instruction :: "decoded_instruction \<Rightarrow> byte list" where
  "put_instruction ins = of_nat (di_program ins) # put_compact (length (di_accounts ins)) @ map of_nat (di_accounts ins) @
     put_compact (length (di_data ins)) @ di_data ins"

definition put_message :: "decoded_message \<Rightarrow> byte list" where
  "put_message m = [of_nat (dm_signers m), of_nat (dm_readonlySigned m), of_nat (dm_readonlyUnsigned m)] @
     put_compact (length (dm_keys m)) @ concat (dm_keys m) @ dm_blockhash m @
     put_compact (length (dm_instructions m)) @ concat (map put_instruction (dm_instructions m))"

lemma or_push:
  fixes a x :: nat
  assumes "a < 2 ^ shift"
  shows "a OR push_bit shift x = a + x * 2 ^ shift"
proof -
  have "\<not> bit a n \<or> \<not> bit (push_bit shift x) n" for n
  proof (cases "n < shift")
    case False
    then have "a < 2 ^ n" using assms by (meson less_le_trans not_less one_le_numeral power_increasing)
    then show ?thesis by (simp add: bit_iff_odd)
  qed (simp add: bit_push_bit_iff)
  then have "a OR push_bit shift x = a + push_bit shift x" by (rule disjunctive_add [symmetric])
  then show ?thesis by (simp add: push_bit_eq_mult)
qed

lemma low_septet: "k < 128 \<Longrightarrow> unat ((of_nat k :: byte) AND 0x7f) = k \<and> (of_nat k :: byte) AND 0x80 = 0"
  "k < 128 \<Longrightarrow> unat ((of_nat (k + 128) :: byte) AND 0x7f) = k \<and> (of_nat (k + 128) :: byte) AND 0x80 \<noteq> 0"
proof -
  have m: "(0x7f :: byte) = mask 7" "(0x80 :: byte) = 2 ^ 7" by (simp_all add: mask_eq_exp_minus_1)
  have u: "unat (w AND 0x7f) = unat w mod 128" for w :: byte
    unfolding m by (simp only: take_bit_eq_mask [symmetric] unsigned_take_bit_eq) (simp add: take_bit_eq_mod)
  have b: "w AND 0x80 = 0 \<longleftrightarrow> even (unat w div 128)" for w :: byte
  proof -
    have "w AND 0x80 = 0 \<longleftrightarrow> \<not> bit w 7" unfolding m by (rule and_exp_eq_0_iff_not_bit)
    also have "\<dots> \<longleftrightarrow> \<not> bit (unat w) 7" by (simp add: bit_unsigned_iff)
    finally show ?thesis by (simp add: bit_iff_odd)
  qed
  show "k < 128 \<Longrightarrow> unat ((of_nat k :: byte) AND 0x7f) = k \<and> (of_nat k :: byte) AND 0x80 = 0"
    by (simp only: u b unat_of_nat) simp
  show "k < 128 \<Longrightarrow> unat ((of_nat (k + 128) :: byte) AND 0x7f) = k \<and> (of_nat (k + 128) :: byte) AND 0x80 \<noteq> 0"
  proof -
    assume "k < 128"
    then have "(k + 128) div 128 = 1" "(k + 128) mod 2 ^ 8 = k + 128" "(k + 128) mod 128 = k" by auto
    then show "unat ((of_nat (k + 128) :: byte) AND 0x7f) = k \<and> (of_nat (k + 128) :: byte) AND 0x80 \<noteq> 0"
      by (simp add: u b unat_of_nat del: of_nat_add)
  qed
qed

lemma compact_put: "n < 2097152 \<Longrightarrow> compact (put_compact n @ rest) = Some (n, rest)"
proof -
  assume n: "n < 2097152"
  have or0: "x OR push_bit 0 y = y" if "x = 0" for x y :: nat using that by simp
  consider "n < 128" | "\<not> n < 128" "n < 16384" | "\<not> n < 128" "\<not> n < 16384" by linarith
  then show ?thesis
  proof cases
    case 1
    then show ?thesis using low_septet(1) [OF 1] by (simp add: compact_def put_compact_def numeral_3_eq_3)
  next
    case 2
    have b: "n mod 128 < 128" "n div 128 < 128" using 2 by simp_all
    have "n mod 128 + n div 128 * 2 ^ 7 = n" by simp
    then show ?thesis
      using 2 low_septet(2) [OF b(1)] low_septet(1) [OF b(2)] or_push [of "n mod 128" 7 "n div 128"]
      by (simp add: compact_def put_compact_def numeral_3_eq_3 del: of_nat_add)
  next
    case 3
    have b: "n mod 128 < 128" "n div 128 mod 128 < 128" "n div 16384 < 128" using 3 n by simp_all
    have d: "n div 128 div 128 = n div 16384" by (simp add: div_mult2_eq [symmetric])
    have "n mod 128 + n div 128 mod 128 * 2 ^ 7 < 2 ^ 14" using b(1,2) by simp
    from or_push [OF this, of "n div 16384"]
    have o2: "(n mod 128 + n div 128 mod 128 * 2 ^ 7) OR push_bit 14 (n div 16384) = n"
    proof -
      have "n div 128 = n div 128 mod 128 + 128 * (n div 16384)" using d by (metis mod_mult_div_eq)
      moreover have "n = n mod 128 + 128 * (n div 128)" by simp
      ultimately have "n mod 128 + n div 128 mod 128 * 128 + n div 16384 * 16384 = n" by linarith
      then have "n mod 128 + n div 128 mod 128 * 2 ^ 7 + n div 16384 * 2 ^ 14 = n" by (simp only: power_numeral Num.pow.simps) simp
      then show ?thesis using \<open>_ = _ + n div 16384 * 2 ^ 14\<close> by simp
    qed
    have o1: "n mod 128 OR push_bit 7 (n div 128 mod 128) = n mod 128 + n div 128 mod 128 * 2 ^ 7" using or_push b(1) by simp
    show ?thesis
      using 3 low_septet(2) [OF b(1)] low_septet(2) [OF b(2)] low_septet(1) [OF b(3)] o1 o2
      by (simp add: compact_def put_compact_def numeral_3_eq_3 del: of_nat_add)
  qed
qed

lemma take_n_append: "length xs = n \<Longrightarrow> take_n n (xs @ rest) = Some (xs, rest)"
  by (simp add: take_n_def)

lemma times_put: "(\<And>x r. x \<in> set xs \<Longrightarrow> p (q x @ r) = Some (x, r)) \<Longrightarrow> times (length xs) p (concat (map q xs) @ rest) = Some (xs, rest)"
  by (induction xs) simp_all

lemma take_instruction_put:
  assumes "di_program ins < 256" "\<forall>j\<in>set (di_accounts ins). j < 256" "length (di_accounts ins) < 2097152" "length (di_data ins) < 2097152"
  shows "take_instruction (put_instruction ins @ rest) = Some (ins, rest)"
proof -
  have "map (unat \<circ> (of_nat :: nat \<Rightarrow> byte)) (di_accounts ins) = di_accounts ins"
    using assms(2) by (intro map_idI) (simp add: unat_of_nat)
  moreover have "take_n 1 (b # r) = Some ([b], r)" for b and r :: "byte list" by (simp add: take_n_def)
  ultimately show ?thesis
    using assms by (simp add: take_instruction_def put_instruction_def compact_put take_n_append unat_of_nat)
qed

lemma decode_put:
  assumes "message_fits m" "1 \<le> dm_signers m" "dm_signers m < 128" "length (dm_keys m) \<le> 256" "length (dm_instructions m) < 2097152"
    "\<forall>ins\<in>set (dm_instructions m). length (di_accounts ins) < 2097152 \<and> length (di_data ins) < 2097152"
  shows "decodeLegacyMessage (put_message m) = Some m"
proof -
  have h: "dm_readonlySigned m < 256" "dm_readonlyUnsigned m < 256" "dm_signers m < 256"
    using assms(1-4) by (auto simp: message_fits_def header_fits_def)
  have keys: "times (length (dm_keys m)) (take_n 32) (concat (dm_keys m) @ rest) = Some (dm_keys m, rest)" for rest
    using times_put [of "dm_keys m" "take_n 32" "\<lambda>k. k" rest] assms(1) by (simp add: message_fits_def take_n_append)
  have ins: "times (length (dm_instructions m)) take_instruction (concat (map put_instruction (dm_instructions m))) = Some (dm_instructions m, [])"
  proof -
    have "take_instruction (put_instruction i @ r) = Some (i, r)" if "i \<in> set (dm_instructions m)" for i r
    proof (rule take_instruction_put)
      have f: "instruction_fits (length (dm_keys m)) (length (dm_keys m)) i" using that assms(1) by (simp add: message_fits_def)
      then show "di_program i < 256" using assms(4) by (auto simp: instruction_fits_def)
      show "\<forall>j\<in>set (di_accounts i). j < 256" using f assms(4) by (fastforce simp: instruction_fits_def list_all_iff)
    qed (use that assms(6) in auto)
    then show ?thesis using times_put [of "dm_instructions m" take_instruction put_instruction "[]"] by simp
  qed
  have three: "take_n 3 (a # b # c # rest) = Some ([a, b, c], rest)" for a b c and rest :: "byte list"
    by (simp add: take_n_def numeral_3_eq_3)
  have legacy: "(of_nat (dm_signers m) :: byte) AND 0x80 = 0" using low_septet(1) [OF assms(3)] by simp
  have fits: "header_fits (dm_signers m) (dm_readonlySigned m) (dm_readonlyUnsigned m) (length (dm_keys m))"
    "list_all (instruction_fits (length (dm_keys m)) (length (dm_keys m))) (dm_instructions m)" "length (dm_blockhash m) = 32"
    using assms(1) by (simp_all add: message_fits_def list_all_iff)
  have u: "unat (of_nat k :: byte) = k" if "k < 256" for k using that by (simp add: unat_of_nat)
  show ?thesis
    using assms(4,5) fits h
    by (simp add: decodeLegacyMessage_def put_message_def three legacy u compact_put keys take_n_append ins)
qed

end
