(* ===== verification/GoText.thy ===== *)
theory GoText
  imports Prelude
begin

text \<open>
  The text conversions of the Go standard library the program uses: \<open>strconv.ParseUint\<close> in
  base 10, \<open>strconv.FormatUint\<close> and \<open>strings.TrimSpace\<close>; and the locale \<open>canonical_text\<close>
  for a parser that accepts only the text its printer produces, as the program's own parsers do.
\<close>

section \<open>Decimal numbers\<close>

definition is_digit :: "char \<Rightarrow> bool" where
  "is_digit c \<longleftrightarrow> 48 \<le> (of_char c :: nat) \<and> (of_char c :: nat) \<le> 57"

definition digit_val :: "char \<Rightarrow> nat" where
  "digit_val c = of_char c - 48"

definition digit_char :: "nat \<Rightarrow> char" where
  "digit_char d = char_of (48 + d)"

definition dec_val :: "string \<Rightarrow> nat" where
  "dec_val s = foldl (\<lambda>v c. 10 * v + digit_val c) 0 s"

text \<open>\<open>strconv.ParseUint(s, 10, bits)\<close>: digits only, at least one, and a value below 2^bits.\<close>

definition ParseUint :: "nat \<Rightarrow> string \<Rightarrow> nat option" where
  "ParseUint bits s =
     (if s = [] \<or> \<not> list_all is_digit s then None
      else if dec_val s < 2 ^ bits then Some (dec_val s) else None)"

text \<open>\<open>strconv.FormatUint(v, 10)\<close>.\<close>

fun FormatUint :: "nat \<Rightarrow> string" where
  "FormatUint n = (if n < 10 then [digit_char n] else FormatUint (n div 10) @ [digit_char (n mod 10)])"

declare FormatUint.simps [simp del]

lemma digit_char [simp]: "d < 10 \<Longrightarrow> is_digit (digit_char d)" "d < 10 \<Longrightarrow> digit_val (digit_char d) = d"
  by (simp_all add: is_digit_def digit_char_def digit_val_def)

lemma dec_val_snoc [simp]: "dec_val (s @ [c]) = 10 * dec_val s + digit_val c"
  by (simp add: dec_val_def)

lemma dec_val_Nil [simp]: "dec_val [] = 0"
  by (simp add: dec_val_def)

lemma FormatUint_digits: "list_all is_digit (FormatUint n) \<and> FormatUint n \<noteq> [] \<and> dec_val (FormatUint n) = n"
proof (induction n rule: less_induct)
  case (less n)
  show ?case
  proof (cases "n < 10")
    case True
    then show ?thesis using dec_val_snoc [of "[]" "digit_char n"]
      by (simp add: FormatUint.simps [of n])
  next
    case False
    then have "n div 10 < n" by simp
    from less.IH [OF this] False show ?thesis
      by (simp add: FormatUint.simps [of n])
  qed
qed

lemmas FormatUint_facts [simp] = FormatUint_digits [THEN conjunct1]
  FormatUint_digits [THEN conjunct2, THEN conjunct1] FormatUint_digits [THEN conjunct2, THEN conjunct2]

lemma ParseUint_FormatUint: "n < 2 ^ bits \<Longrightarrow> ParseUint bits (FormatUint n) = Some n"
  by (simp add: ParseUint_def)

lemma ParseUint_bound: "ParseUint bits s = Some n \<Longrightarrow> n < 2 ^ bits"
  by (auto simp: ParseUint_def split: if_splits)

section \<open>Canonical text\<close>

locale canonical_text =
  fixes parse :: "string \<Rightarrow> 'e + 'a" and print :: "'a \<Rightarrow> string" and valid :: "'a \<Rightarrow> bool"
  assumes parse_iff: "parse s = Inr v \<longleftrightarrow> valid v \<and> s = print v"
begin

lemma parse_print: "valid v \<Longrightarrow> parse (print v) = Inr v"
  by (simp add: parse_iff)

lemma print_inj: "valid v \<Longrightarrow> valid w \<Longrightarrow> print v = print w \<Longrightarrow> v = w"
  using parse_print by (metis Inr_inject)

lemma one_spelling: "parse s = Inr v \<Longrightarrow> parse t = Inr v \<Longrightarrow> s = t"
  by (simp add: parse_iff)

end

section \<open>Trimming\<close>

text \<open>\<open>unicode.IsSpace\<close> on the bytes of a string: the UTF-8 encodings of the white-space runes. No
  encoding is a prefix of another or starts inside another rune's bytes, so cutting them off the
  ends byte by byte is what \<open>strings.TrimSpace\<close> does rune by rune, also around malformed bytes.\<close>

definition space_codes :: "nat list list" where
  "space_codes =
     [[9], [10], [11], [12], [13], [32], [194, 133], [194, 160], [225, 154, 128],
      [226, 128, 128], [226, 128, 129], [226, 128, 130], [226, 128, 131], [226, 128, 132], [226, 128, 133],
      [226, 128, 134], [226, 128, 135], [226, 128, 136], [226, 128, 137], [226, 128, 138], [226, 128, 168],
      [226, 128, 169], [226, 128, 175], [226, 129, 159], [227, 128, 128]]"

definition space_encodings :: "string list" where
  "space_encodings = map (map char_of) space_codes"

definition found_prefix :: "string list \<Rightarrow> string \<Rightarrow> string option" where
  "found_prefix E s = find (\<lambda>e. e \<noteq> [] \<and> take (length e) s = e) E"

lemma found_prefix_Some: "found_prefix E s = Some e \<Longrightarrow> e \<in> set E \<and> e \<noteq> [] \<and> s = e @ drop (length e) s"
  by (auto simp: found_prefix_def find_Some_iff) (metis append_take_drop_id)

lemma found_prefix_None: "found_prefix E s = None \<longleftrightarrow> (\<forall>e\<in>set E. e \<noteq> [] \<longrightarrow> take (length e) s \<noteq> e)"
  by (auto simp: found_prefix_def find_None_iff)

lemma found_prefix_shorter: "found_prefix E s = Some e \<Longrightarrow> length (drop (length e) s) < length s"
  using found_prefix_Some [of E s e] by (metis append_self_conv2 length_append length_greater_0_conv less_add_same_cancel2)

function trim_with :: "string list \<Rightarrow> string \<Rightarrow> string" where
  "trim_with E s = (case found_prefix E s of None \<Rightarrow> s | Some e \<Rightarrow> trim_with E (drop (length e) s))"
  by pat_completeness auto
termination by (relation "measure (\<lambda>(E, s). length s)") (auto dest: found_prefix_shorter)

declare trim_with.simps [simp del]

definition TrimSpace :: "string \<Rightarrow> string" where
  "TrimSpace s = rev (trim_with (map rev space_encodings) (rev (trim_with space_encodings s)))"

text \<open>What is left starts with no space and is a rest of the string.\<close>

lemma trim_with_result: "found_prefix E (trim_with E s) = None \<and> (\<exists>u. s = u @ trim_with E s)"
proof (induction E s rule: trim_with.induct)
  case (1 E s)
  show ?case
  proof (cases "found_prefix E s")
    case None
    then show ?thesis by (simp add: trim_with.simps [of E s])
  next
    case (Some e)
    have t: "trim_with E s = trim_with E (drop (length e) s)" by (simp add: trim_with.simps [of E s] Some)
    have rest: "s = e @ drop (length e) s" using found_prefix_Some [OF Some] by blast
    obtain v where "drop (length e) s = v @ trim_with E (drop (length e) s)" using 1 [OF Some] by blast
    then have "s = (e @ v) @ trim_with E s" using rest t by simp
    then show ?thesis using 1 [OF Some] t by metis
  qed
qed

lemma trim_with_id: "found_prefix E s = None \<Longrightarrow> trim_with E s = s"
  by (simp add: trim_with.simps)

lemma found_prefix_append: "found_prefix E (u @ v) = None \<Longrightarrow> found_prefix E u = None"
  unfolding found_prefix_None by (metis append_eq_conv_conj append_take_drop_id append.assoc)

lemma TrimSpace_twice [simp]: "TrimSpace (TrimSpace s) = TrimSpace s"
proof -
  let ?E = "space_encodings" and ?R = "map rev space_encodings"
  let ?t = "trim_with ?E s"
  obtain v where v: "rev ?t = v @ trim_with ?R (rev ?t)" using trim_with_result by blast
  then have "?t = TrimSpace s @ rev v" unfolding TrimSpace_def by (metis rev_append rev_rev_ident)
  moreover have "found_prefix ?E ?t = None" using trim_with_result by blast
  ultimately have "found_prefix ?E (TrimSpace s) = None" by (metis found_prefix_append)
  then have "trim_with ?E (TrimSpace s) = TrimSpace s" by (rule trim_with_id)
  moreover have "trim_with ?R (rev (TrimSpace s)) = rev (TrimSpace s)"
    unfolding TrimSpace_def using trim_with_result by (simp add: trim_with_id)
  ultimately show ?thesis by (metis TrimSpace_def rev_rev_ident)
qed

text \<open>ASCII text.\<close>

definition is_space :: "char \<Rightarrow> bool" where
  "is_space c \<longleftrightarrow> (of_char c :: nat) \<in> {9, 10, 11, 12, 13, 32}"

definition plain :: "char \<Rightarrow> bool" where
  "plain c \<longleftrightarrow> (of_char c :: nat) < 128 \<and> \<not> is_space c"

lemma encodings_cases:
  assumes "e \<in> set space_encodings"
  shows "(\<exists>d. e = [d] \<and> is_space d) \<or> e \<noteq> [] \<and> 128 \<le> (of_char (hd e) :: nat) \<and> 128 \<le> (of_char (last e) :: nat)"
proof -
  obtain l where l: "l \<in> set space_codes" "e = map char_of l" using assms by (auto simp: space_encodings_def)
  let ?P = "\<lambda>l :: nat list. (\<exists>n\<in>{9, 10, 11, 12, 13, 32}. l = [n]) \<or>
    l \<noteq> [] \<and> 128 \<le> hd l \<and> hd l < 256 \<and> 128 \<le> last l \<and> last l < 256"
  have "list_all ?P space_codes" by (simp add: space_codes_def)
  then have "?P l" using l(1) unfolding list_all_iff by (rule bspec)
  then show ?thesis
  proof
    assume "\<exists>n\<in>{9, 10, 11, 12, 13, 32}. l = [n]"
    then obtain n where n: "n \<in> {9, 10, 11, 12, 13, 32}" and e: "l = [n]" by blast
    have "n < 256" using n by auto
    then have code: "of_char (char_of n :: char) = n" by simp
    have "is_space (char_of n)" unfolding is_space_def code by (rule n)
    then show ?thesis by (simp only: l(2) e list.map) blast
  qed (simp add: l(2) hd_map last_map)
qed

lemma found_plain: "plain c \<Longrightarrow> found_prefix space_encodings (c # s) = None" "plain c \<Longrightarrow> found_prefix (map rev space_encodings) (c # s) = None"
proof -
  assume c: "plain c"
  have no: "hd e \<noteq> c \<and> last e \<noteq> c" if "e \<in> set space_encodings" for e
    using encodings_cases [OF that] c by (auto simp: plain_def)
  show "found_prefix space_encodings (c # s) = None"
    unfolding found_prefix_None
  proof (intro ballI impI notI)
    fix e assume e: "e \<in> set space_encodings" "e \<noteq> []" "take (length e) (c # s) = e"
    have "hd e = c" using e(2,3) by (cases e) simp_all
    then show False using no [OF e(1)] by blast
  qed
  show "found_prefix (map rev space_encodings) (c # s) = None"
    unfolding found_prefix_None
  proof (intro ballI impI notI)
    fix r assume "r \<in> set (map rev space_encodings)" "r \<noteq> []" and t: "take (length r) (c # s) = r"
    then obtain e where e: "e \<in> set space_encodings" "r = rev e" "e \<noteq> []" by auto
    have "hd r = c" using t \<open>r \<noteq> []\<close> by (metis hd_take length_greater_0_conv list.sel(1))
    then show False using no [OF e(1)] e by (simp add: hd_rev)
  qed
qed

lemma found_space:
  assumes "is_space c"
  shows "found_prefix space_encodings (c # s) = Some [c]" "found_prefix (map rev space_encodings) (c # s) = Some [c]"
proof -
  have in_E: "[c] \<in> set space_encodings"
  proof -
    have "[of_char c] \<in> set space_codes" using assms by (auto simp: space_codes_def is_space_def)
    then have "map char_of [of_char c :: nat] \<in> set space_encodings" unfolding space_encodings_def by (metis image_eqI set_map)
    then show ?thesis by simp
  qed
  have no: "e = [c] \<or> hd e \<noteq> c \<and> last e \<noteq> c" if "e \<in> set space_encodings" for e
    using encodings_cases [OF that] assms by (auto simp: is_space_def)
  have "\<exists>e\<in>set space_encodings. e \<noteq> [] \<and> take (length e) (c # s) = e" by (rule bexI [OF _ in_E]) simp
  then have "found_prefix space_encodings (c # s) \<noteq> None" unfolding found_prefix_None by blast
  then obtain e where e: "found_prefix space_encodings (c # s) = Some e" by blast
  have hd: "hd (e :: string) = c" if "found_prefix E (c # s) = Some e" for E e
    using found_prefix_Some [OF that] by (metis hd_append2 list.sel(1))
  have "e \<in> set space_encodings" using found_prefix_Some [OF e] by (rule conjunct1)
  then have "e = [c]" using no hd [OF e] by metis
  then show "found_prefix space_encodings (c # s) = Some [c]" using e by simp
  have in_R: "[c] \<in> set (map rev space_encodings)" using imageI [OF in_E, of rev] by simp
  have "\<exists>e\<in>set (map rev space_encodings). e \<noteq> [] \<and> take (length e) (c # s) = e" by (rule bexI [OF _ in_R]) simp
  then have "found_prefix (map rev space_encodings) (c # s) \<noteq> None" unfolding found_prefix_None by blast
  then obtain r where r: "found_prefix (map rev space_encodings) (c # s) = Some r" by blast
  have "r \<in> rev ` set space_encodings" "r \<noteq> []" using found_prefix_Some [OF r] by auto
  then obtain e' where e': "e' \<in> set space_encodings" "r = rev e'" by blast
  have "last e' = c" using hd [OF r] \<open>r \<noteq> []\<close> by (simp add: e'(2) hd_rev)
  then have "e' = [c]" using no [OF e'(1)] by blast
  then show "found_prefix (map rev space_encodings) (c # s) = Some [c]" using r e'(2) by simp
qed

lemma trim_spaces:
  "\<forall>c\<in>set us. is_space c \<Longrightarrow> trim_with space_encodings (us @ s) = trim_with space_encodings s"
  "\<forall>c\<in>set us. is_space c \<Longrightarrow> trim_with (map rev space_encodings) (us @ s) = trim_with (map rev space_encodings) s"
  by (induction us) (simp_all add: trim_with.simps [of _ "_ # _"] found_space)

lemma TrimSpace_padding:
  assumes "\<forall>c\<in>set us. is_space c" "\<forall>c\<in>set vs. is_space c" "s \<noteq> []" "plain (hd s)" "plain (last s)"
  shows "TrimSpace (us @ s @ vs) = s"
proof -
  obtain c t where s: "s = c # t" using assms(3) by (cases s) auto
  have "trim_with space_encodings (us @ s @ vs) = s @ vs"
    using assms(1,4) trim_spaces(1) [of us] by (simp add: s trim_with_id found_plain)
  moreover obtain d u where r: "rev s = d # u" "plain d"
    using assms(3,5) by (cases "rev s") (auto simp: rev_swap)
  have "trim_with (map rev space_encodings) (rev vs @ rev s) = rev s"
    using assms(2) trim_spaces(2) [of "rev vs"] r by (simp add: trim_with_id found_plain)
  ultimately show ?thesis by (simp add: TrimSpace_def)
qed

lemma TrimSpace_empty [simp]: "TrimSpace [] = []"
  using trim_with_id [of space_encodings "[]"] trim_with_id [of "map rev space_encodings" "[]"]
  by (simp add: TrimSpace_def found_prefix_None)

lemma TrimSpace_id: "s = [] \<or> plain (hd s) \<and> plain (last s) \<Longrightarrow> TrimSpace s = s"
  using TrimSpace_padding [of "[]" "[]" s] by (cases "s = []") auto

section \<open>Runes\<close>

text \<open>
  Go's decoding of UTF-8 (\<open>unicode/utf8\<close>, and \<open>range\<close> over a string): a byte that does not start
  a well-formed sequence is one rune, U+FFFD. The second byte's range depends on the first byte.
\<close>

definition utf8_second :: "nat \<Rightarrow> (nat \<times> nat \<times> nat) option" where
  "utf8_second b =
     (if 194 \<le> b \<and> b \<le> 223 then Some (1, 128, 191)
      else if b = 224 then Some (2, 160, 191)
      else if b = 237 then Some (2, 128, 159)
      else if 225 \<le> b \<and> b \<le> 239 then Some (2, 128, 191)
      else if b = 240 then Some (3, 144, 191)
      else if b = 244 then Some (3, 128, 143)
      else if 241 \<le> b \<and> b \<le> 243 then Some (3, 128, 191)
      else None)"

definition utf8_tail_ok :: "nat list \<Rightarrow> nat \<Rightarrow> nat \<Rightarrow> nat \<Rightarrow> bool" where
  "utf8_tail_ok bs n lo hi \<longleftrightarrow> n \<le> length bs \<and> lo \<le> hd bs \<and> hd bs \<le> hi \<and>
     (\<forall>b\<in>set (take n bs). 128 \<le> b \<and> b \<le> 191)"

definition utf8_first_bits :: "nat \<Rightarrow> nat \<Rightarrow> nat" where
  "utf8_first_bits b n = (if n = 1 then b - 192 else if n = 2 then b - 224 else b - 240)"

function utf8_runes :: "nat list \<Rightarrow> nat list" where
  "utf8_runes [] = []"
| "utf8_runes (b # bs) =
     (if b < 128 then b # utf8_runes bs
      else case utf8_second b of
          None \<Rightarrow> 65533 # utf8_runes bs
        | Some (n, lo, hi) \<Rightarrow>
            if utf8_tail_ok bs n lo hi
            then foldl (\<lambda>r c. 64 * r + (c - 128)) (utf8_first_bits b n) (take n bs) # utf8_runes (drop n bs)
            else 65533 # utf8_runes bs)"
  by pat_completeness auto
termination by (relation "measure length") auto

definition runes :: "string \<Rightarrow> nat list" where
  "runes s = utf8_runes (map of_char s)"

definition RuneCountInString :: "string \<Rightarrow> nat" where
  "RuneCountInString s = length (runes s)"

text \<open>\<open>unicode.IsSpace\<close>.\<close>

definition rune_is_space :: "nat \<Rightarrow> bool" where
  "rune_is_space r \<longleftrightarrow> r \<in> {9, 10, 11, 12, 13, 32, 133, 160, 5760, 8232, 8233, 8239, 8287, 12288} \<or>
     8192 \<le> r \<and> r \<le> 8202"

text \<open>\<open>unicode.ToLower\<close> as far as ASCII results go: the ASCII capitals, U+0130 and U+212A are all
  the runes whose lower case is another, ASCII, rune.\<close>

definition rune_lower :: "nat \<Rightarrow> nat" where
  "rune_lower r = (if 65 \<le> r \<and> r \<le> 90 then r + 32 else if r = 304 then 105 else if r = 8490 then 107 else r)"

definition trim_runes :: "nat list \<Rightarrow> nat list" where
  "trim_runes rs = rev (dropWhile rune_is_space (rev (dropWhile rune_is_space rs)))"

lemma utf8_runes_length: "length (utf8_runes bs) \<le> length bs"
proof (induction bs rule: utf8_runes.induct)
  case (2 b bs)
  then show ?case
    by (auto split: option.splits if_splits) (meson diff_le_self order_trans)
qed simp

lemma RuneCount_length: "RuneCountInString s \<le> length s"
  using utf8_runes_length [of "map of_char s"] by (simp add: RuneCountInString_def runes_def)

end
