(* ===== verification/Account.thy ===== *)
theory Account
  imports GoText
begin

text \<open>
  Accounts and their keys (internal/account/account.go, internal/account/ed25519.go): families
  and curves, the account record, BIP44 and SLIP-0010 derivation, addresses, fingerprints, and
  the parsers of imported keys.

  The parameter \<open>wallet_lib\<close> holds the third-party and cryptographic code: BIP39, BIP32, the two
  curves, the hash functions, base58, the JSON reader. A secp256k1 key is its 32-byte scalar, an
  ed25519 key the 64 bytes seed and public key, as in Go. A map from families to addresses is an
  association list. Go strings are byte strings.
\<close>

section \<open>Families, curves, accounts\<close>

type_synonym family = string

definition KindDerived :: string where "KindDerived = ''derived''"
definition KindImported :: string where "KindImported = ''imported''"
definition FamilyTron :: family where "FamilyTron = ''tron''"
definition FamilyEVM :: family where "FamilyEVM = ''evm''"
definition FamilySolana :: family where "FamilySolana = ''solana''"
definition CurveSecp256k1 :: string where "CurveSecp256k1 = ''secp256k1''"
definition CurveEd25519 :: string where "CurveEd25519 = ''ed25519''"

lemmas family_defs = FamilyTron_def FamilyEVM_def FamilySolana_def

lemmas curve_defs = CurveSecp256k1_def CurveEd25519_def

lemmas kind_defs = KindDerived_def KindImported_def

lemma families_distinct [simp]:
  "FamilyTron \<noteq> FamilyEVM" "FamilyEVM \<noteq> FamilyTron" "FamilyTron \<noteq> FamilySolana"
  "FamilySolana \<noteq> FamilyTron" "FamilyEVM \<noteq> FamilySolana" "FamilySolana \<noteq> FamilyEVM"
  "CurveSecp256k1 \<noteq> CurveEd25519" "CurveEd25519 \<noteq> CurveSecp256k1"
  "KindDerived \<noteq> KindImported" "KindImported \<noteq> KindDerived"
  by (simp_all add: family_defs curve_defs kind_defs)

datatype aerr =
    ErrInvalidPrivateKey | ErrInvalidMnemonic | ErrUnsupportedFamily | ErrCurveMismatch
  | ErrIndexRange | ErrNotHardened | AccountErr string

definition CurveOf :: "family \<Rightarrow> aerr + string" where
  "CurveOf family =
     (if family = FamilyTron \<or> family = FamilyEVM then Inr CurveSecp256k1
      else if family = FamilySolana then Inr CurveEd25519
      else Inl ErrUnsupportedFamily)"

type_synonym addresses = "(family \<times> string) list"

record account =
  ac_ID :: string
  ac_Label :: string
  ac_Kind :: string
  ac_Family :: family
  ac_NetworkIDs :: "string list"
  ac_Addresses :: addresses
  ac_Index :: "u32 option"
  ac_DerivationProfile :: string
  ac_KeyRef :: string
  ac_Fingerprint :: string
  ac_ImportedAt :: "int option"
  ac_CreatedAt :: int
  ac_UpdatedAt :: int

text \<open>\<open>m[family]\<close> on a Go map: the empty string when there is no entry; and \<open>maps.Equal\<close>.\<close>

definition address_of :: "addresses \<Rightarrow> family \<Rightarrow> string" where
  "address_of m family = (case map_of m family of None \<Rightarrow> [] | Some a \<Rightarrow> a)"

definition maps_Equal :: "('k \<times> 'v) list \<Rightarrow> ('k \<times> 'v) list \<Rightarrow> bool" where
  "maps_Equal a b \<longleftrightarrow> (\<forall>k\<in>set (map fst a @ map fst b). map_of a k = map_of b k)"

lemma maps_Equal_iff: "maps_Equal a b \<longleftrightarrow> map_of a = map_of b"
proof
  assume eq: "maps_Equal a b"
  show "map_of a = map_of b"
  proof
    fix k
    show "map_of a k = map_of b k"
    proof (cases "k \<in> set (map fst a @ map fst b)")
      case True
      then show ?thesis using eq unfolding maps_Equal_def by blast
    next
      case False
      then have "map_of a k = None" "map_of b k = None" by (auto simp: map_of_eq_None_iff)
      then show ?thesis by simp
    qed
  qed
qed (simp add: maps_Equal_def)

definition BoundTo :: "account \<Rightarrow> string \<Rightarrow> bool" where
  "BoundTo a networkID \<longleftrightarrow> networkID \<in> set (ac_NetworkIDs a)"

section \<open>The library under the code\<close>

record wallet_lib =
  wl_mnemonic_valid :: "string \<Rightarrow> bool"
  wl_new_mnemonic :: "byte list \<Rightarrow> string option"
  wl_new_seed :: "string \<Rightarrow> string \<Rightarrow> byte list"
  wl_hd_master :: "byte list \<Rightarrow> byte list option"
  wl_hd_child :: "byte list \<Rightarrow> u32 \<Rightarrow> byte list option"
  wl_hd_privkey :: "byte list \<Rightarrow> byte list option"
  wl_scalar_valid :: "byte list \<Rightarrow> bool"
  wl_evm_address :: "byte list \<Rightarrow> string"
  wl_tron_address :: "string \<Rightarrow> string option"
  wl_compress_pubkey :: "byte list \<Rightarrow> byte list"
  wl_sha256 :: "byte list \<Rightarrow> byte list"
  wl_hmac_sha512 :: "byte list \<Rightarrow> byte list \<Rightarrow> byte list"
  wl_ed25519_public :: "byte list \<Rightarrow> byte list"
  wl_base58_encode :: "byte list \<Rightarrow> string"
  wl_base58_decode :: "string \<Rightarrow> byte list"
  wl_json_ints :: "string \<Rightarrow> int list option"

section \<open>Hexadecimal\<close>

definition hex_char :: "nat \<Rightarrow> char" where
  "hex_char d = (if d < 10 then char_of (48 + d) else char_of (87 + d))"

definition hex_digit :: "char \<Rightarrow> nat option" where
  "hex_digit c = (let n = of_char c in
     if 48 \<le> n \<and> n \<le> 57 then Some (n - 48)
     else if 97 \<le> n \<and> n \<le> 102 then Some (n - 87)
     else if 65 \<le> n \<and> n \<le> 70 then Some (n - 55) else None)"

fun HexEncode :: "byte list \<Rightarrow> string" where
  "HexEncode [] = []"
| "HexEncode (b # bs) = hex_char (unat b div 16) # hex_char (unat b mod 16) # HexEncode bs"

fun HexDecode :: "string \<Rightarrow> byte list option" where
  "HexDecode [] = Some []"
| "HexDecode [c] = None"
| "HexDecode (c # d # rest) =
     (case (hex_digit c, hex_digit d, HexDecode rest) of
        (Some h, Some l, Some bs) \<Rightarrow> Some (of_nat (16 * h + l) # bs)
      | _ \<Rightarrow> None)"

lemma hex_digit_char: "d < 16 \<Longrightarrow> hex_digit (hex_char d) = Some d"
  by (auto simp: hex_char_def hex_digit_def Let_def)

lemma HexDecode_Encode [simp]: "HexDecode (HexEncode bs) = Some bs"
proof (induction bs)
  case (Cons b bs)
  have "unat b < 256" using unsigned_less [of b, where ?'a = nat] by simp
  then have "unat b div 16 < 16" "unat b mod 16 < 16" by simp_all
  moreover have "of_nat (16 * (unat b div 16) + unat b mod 16) = b"
    by (simp only: mult_div_mod_eq) simp
  ultimately show ?case using Cons by (simp add: hex_digit_char)
qed simp

lemma HexEncode_length [simp]: "length (HexEncode bs) = 2 * length bs"
  by (induction bs) simp_all

section \<open>Mnemonics\<close>

text \<open>\<open>strings.Fields\<close>: the words between the white space; \<open>cur\<close> is the word being read, reversed.\<close>

function split_fields :: "string \<Rightarrow> string \<Rightarrow> string list" where
  "split_fields cur [] = (if cur = [] then [] else [rev cur])"
| "split_fields cur (c # cs) =
     (case found_prefix space_encodings (c # cs) of
        None \<Rightarrow> split_fields (c # cur) cs
      | Some e \<Rightarrow>
          if cur = [] then split_fields [] (drop (length e) (c # cs))
          else rev cur # split_fields [] (drop (length e) (c # cs)))"
  by pat_completeness auto
termination by (relation "measure (\<lambda>(cur, s). length s)") (auto dest!: found_prefix_shorter)

fun join_words :: "string list \<Rightarrow> string" where
  "join_words [] = []"
| "join_words [w] = w"
| "join_words (w # ws) = w @ '' '' @ join_words ws"

definition NormalizeMnemonic :: "string \<Rightarrow> string" where
  "NormalizeMnemonic v = join_words (split_fields [] v)"

definition ValidateMnemonic :: "wallet_lib \<Rightarrow> string \<Rightarrow> aerr + unit" where
  "ValidateMnemonic W v = rcheck (wl_mnemonic_valid W (NormalizeMnemonic v)) ErrInvalidMnemonic (Inr ())"

definition GenerateMnemonic :: "wallet_lib \<Rightarrow> byte list option \<Rightarrow> aerr + string" where
  "GenerateMnemonic W entropy =
     (case entropy of
        None \<Rightarrow> Inl (AccountErr ''generate entropy'')
      | Some bs \<Rightarrow> (case wl_new_mnemonic W bs of
            None \<Rightarrow> Inl (AccountErr ''generate mnemonic'')
          | Some m \<Rightarrow> Inr m))"

section \<open>secp256k1\<close>

definition HardenedKeyStart :: u32 where "HardenedKeyStart = 0x80000000"

fun hd_path :: "wallet_lib \<Rightarrow> byte list \<Rightarrow> u32 list \<Rightarrow> aerr + byte list" where
  "hd_path W key [] = Inr key"
| "hd_path W key (child # rest) =
     (case wl_hd_child W key child of
        None \<Rightarrow> Inl (AccountErr ''derive BIP44 child'')
      | Some k \<Rightarrow> hd_path W k rest)"

definition ToECDSA :: "wallet_lib \<Rightarrow> byte list \<Rightarrow> byte list option" where
  "ToECDSA W raw = (if length raw = 32 \<and> wl_scalar_valid W raw then Some raw else None)"

definition DerivePrivateKey :: "wallet_lib \<Rightarrow> string \<Rightarrow> string \<Rightarrow> family \<Rightarrow> u32 \<Rightarrow> aerr + byte list" where
  "DerivePrivateKey W mnemonic passphrase family index =
     (let mnemonic = NormalizeMnemonic mnemonic in
     rbind (ValidateMnemonic W mnemonic) (\<lambda>_.
     rbind (if family = FamilyTron then Inr 195
            else if family = FamilyEVM then Inr 60
            else if family = FamilySolana then Inl ErrCurveMismatch
            else Inl ErrUnsupportedFamily) (\<lambda>coinType.
     case wl_hd_master W (wl_new_seed W mnemonic passphrase) of
       None \<Rightarrow> Inl (AccountErr ''create BIP32 master key'')
     | Some master \<Rightarrow>
     rbind (hd_path W master [HardenedKeyStart + 44, HardenedKeyStart + coinType, HardenedKeyStart, 0, index]) (\<lambda>key.
     case wl_hd_privkey W key of
       None \<Rightarrow> Inl (AccountErr ''serialize derived private key'')
     | Some raw \<Rightarrow>
     case ToECDSA W raw of
       None \<Rightarrow> Inl (AccountErr ''decode derived private key'')
     | Some k \<Rightarrow> Inr k))))"

definition AddressFromPrivateKey :: "wallet_lib \<Rightarrow> byte list \<Rightarrow> family \<Rightarrow> aerr + string" where
  "AddressFromPrivateKey W key family =
     (if family = FamilyEVM then Inr (wl_evm_address W key)
      else if family = FamilyTron then
        (case wl_tron_address W (HexEncode key) of
           None \<Rightarrow> Inl (AccountErr ''derive Tron address'')
         | Some a \<Rightarrow> Inr a)
      else if family = FamilySolana then Inl ErrCurveMismatch
      else Inl ErrUnsupportedFamily)"

definition DerivedAddresses :: "wallet_lib \<Rightarrow> string \<Rightarrow> string \<Rightarrow> u32 \<Rightarrow> aerr + addresses" where
  "DerivedAddresses W mnemonic passphrase index =
     rmap (\<lambda>family.
       rbind (DerivePrivateKey W mnemonic passphrase family index) (\<lambda>key.
       rbind (AddressFromPrivateKey W key family) (\<lambda>addr. Inr (family, addr))))
     [FamilyTron, FamilyEVM]"

definition ParsePrivateKey :: "wallet_lib \<Rightarrow> string \<Rightarrow> aerr + byte list" where
  "ParsePrivateKey W value =
     (let value = TrimSpace value;
          value = (if take 2 value = ''0x'' then drop 2 value else value);
          value = (if take 2 value = ''0X'' then drop 2 value else value)
      in rcheck (length value = 64) ErrInvalidPrivateKey (
         case HexDecode value of
           None \<Rightarrow> Inl ErrInvalidPrivateKey
         | Some raw \<Rightarrow>
         case ToECDSA W raw of
           None \<Rightarrow> Inl ErrInvalidPrivateKey
         | Some key \<Rightarrow> Inr raw))"

definition ImportedAddresses :: "wallet_lib \<Rightarrow> byte list \<Rightarrow> aerr + addresses" where
  "ImportedAddresses W key =
     rbind (AddressFromPrivateKey W key FamilyTron) (\<lambda>tron.
     rbind (AddressFromPrivateKey W key FamilyEVM) (\<lambda>evm.
     Inr [(FamilyTron, tron), (FamilyEVM, evm)]))"

definition Fingerprint :: "wallet_lib \<Rightarrow> byte list \<Rightarrow> string" where
  "Fingerprint W key = HexEncode (take 16 (wl_sha256 W (wl_compress_pubkey W key)))"

section \<open>ed25519\<close>

definition hardenedOffset :: u32 where "hardenedOffset = 0x80000000"
definition solanaCoinType :: u32 where "solanaCoinType = 501"

definition be32 :: "u32 \<Rightarrow> byte list" where
  "be32 w = rev (put_le 4 (unat w))"

fun slip10_loop :: "wallet_lib \<Rightarrow> byte list \<Rightarrow> u32 list \<Rightarrow> aerr + byte list" where
  "slip10_loop W node [] = Inr node"
| "slip10_loop W node (child # rest) =
     rcheck (\<not> child < hardenedOffset) ErrNotHardened
       (slip10_loop W (wl_hmac_sha512 W (drop 32 node) ([0] @ take 32 node @ be32 child)) rest)"

text \<open>The key is the first half of the last node, the chain code the second.\<close>

definition slip10Ed25519 :: "wallet_lib \<Rightarrow> byte list \<Rightarrow> u32 list \<Rightarrow> aerr + (byte list \<times> byte list)" where
  "slip10Ed25519 W seed path =
     rbind (slip10_loop W (wl_hmac_sha512 W (bytes_of ''ed25519 seed'') seed) path) (\<lambda>node.
     Inr (take 32 node, drop 32 node))"

definition NewKeyFromSeed :: "wallet_lib \<Rightarrow> byte list \<Rightarrow> byte list" where
  "NewKeyFromSeed W seed = seed @ wl_ed25519_public W seed"

definition DeriveEd25519PrivateKey ::
  "wallet_lib \<Rightarrow> string \<Rightarrow> string \<Rightarrow> family \<Rightarrow> u32 \<Rightarrow> aerr + byte list" where
  "DeriveEd25519PrivateKey W mnemonic passphrase family index =
     (let mnemonic = NormalizeMnemonic mnemonic in
     rbind (ValidateMnemonic W mnemonic) (\<lambda>_.
     rbind (if family = FamilySolana then Inr solanaCoinType
            else if family = FamilyTron \<or> family = FamilyEVM then Inl ErrCurveMismatch
            else Inl ErrUnsupportedFamily) (\<lambda>coinType.
     rcheck (\<not> hardenedOffset \<le> index) ErrIndexRange (
     rbind (slip10Ed25519 W (wl_new_seed W mnemonic passphrase)
       [hardenedOffset + 44, hardenedOffset + coinType, hardenedOffset + index, hardenedOffset]) (\<lambda>(key, _).
     Inr (NewKeyFromSeed W key))))))"

definition AddressFromEd25519Key :: "wallet_lib \<Rightarrow> byte list \<Rightarrow> family \<Rightarrow> aerr + string" where
  "AddressFromEd25519Key W key family =
     rcheck (length key = 64) ErrInvalidPrivateKey (
     if family = FamilySolana then Inr (wl_base58_encode W (drop 32 key))
     else if family = FamilyTron \<or> family = FamilyEVM then Inl ErrCurveMismatch
     else Inl ErrUnsupportedFamily)"

definition ImportedEd25519Addresses :: "wallet_lib \<Rightarrow> byte list \<Rightarrow> aerr + addresses" where
  "ImportedEd25519Addresses W key =
     rbind (AddressFromEd25519Key W key FamilySolana) (\<lambda>address. Inr [(FamilySolana, address)])"

definition Ed25519Fingerprint :: "wallet_lib \<Rightarrow> byte list \<Rightarrow> aerr + string" where
  "Ed25519Fingerprint W key =
     rcheck (length key = 64) ErrInvalidPrivateKey (Inr (HexEncode (take 16 (wl_sha256 W (drop 32 key)))))"

definition ParseEd25519PrivateKey :: "wallet_lib \<Rightarrow> string \<Rightarrow> aerr + byte list" where
  "ParseEd25519PrivateKey W value =
     (let value = TrimSpace value in
     rbind (if take 1 value = ''['' then
              (case wl_json_ints W value of
                 None \<Rightarrow> Inl ErrInvalidPrivateKey
               | Some numbers \<Rightarrow>
                   rcheck (length numbers = 64) ErrInvalidPrivateKey (
                   rcheck (\<forall>n\<in>set numbers. \<not> (n < 0 \<or> 255 < n)) ErrInvalidPrivateKey (
                   Inr (map word_of_int numbers))))
            else rcheck (length (wl_base58_decode W value) \<noteq> 0) ErrInvalidPrivateKey
                   (Inr (wl_base58_decode W value))) (\<lambda>raw.
     rcheck (length raw = 64) ErrInvalidPrivateKey (
     let key = NewKeyFromSeed W (take 32 raw)
     in rcheck (drop 32 key = drop 32 raw) ErrInvalidPrivateKey (Inr key))))"

definition Ed25519KeypairBase58 :: "wallet_lib \<Rightarrow> byte list \<Rightarrow> aerr + string" where
  "Ed25519KeypairBase58 W key =
     rcheck (length key = 64) ErrInvalidPrivateKey (Inr (wl_base58_encode W key))"

definition DerivedAddress :: "wallet_lib \<Rightarrow> string \<Rightarrow> string \<Rightarrow> family \<Rightarrow> u32 \<Rightarrow> aerr + string" where
  "DerivedAddress W mnemonic passphrase family index =
     rbind (CurveOf family) (\<lambda>curve.
     if curve = CurveEd25519 then
       rbind (DeriveEd25519PrivateKey W mnemonic passphrase family index) (\<lambda>key.
       AddressFromEd25519Key W key family)
     else if curve = CurveSecp256k1 then
       rbind (DerivePrivateKey W mnemonic passphrase family index) (\<lambda>key.
       AddressFromPrivateKey W key family)
     else Inl ErrUnsupportedFamily)"

end
