(* ===== verification/Vault.thy ===== *)
theory Vault
  imports Prelude
begin

text \<open>
  The encrypted container (internal/vault/vault.go): sealing a payload under a password, opening
  it, the session key that re-seals without the password, and the bounds on the KDF parameters.

  Parameters: \<open>vault_lib\<close> holds Argon2id, AES-GCM and unpadded base64; \<open>json_codec\<close> holds
  \<open>encoding/json\<close> at the payload's type; the bytes of the random reader are arguments. What the
  code relies on in them is \<open>vault_laws\<close>. A password is the string of its bytes.

  The locale \<open>password_box\<close> is what the rest of the program relies on: what was sealed under a
  password opens with it, also after re-sealing with the session key that opening gave.
\<close>

section \<open>Data\<close>

record vault_lib =
  vl_argon2 :: "byte list \<Rightarrow> byte list \<Rightarrow> u32 \<Rightarrow> u32 \<Rightarrow> byte \<Rightarrow> byte list"
  vl_gcm_seal :: "byte list \<Rightarrow> byte list \<Rightarrow> byte list \<Rightarrow> byte list \<Rightarrow> byte list"
  vl_gcm_open :: "byte list \<Rightarrow> byte list \<Rightarrow> byte list \<Rightarrow> byte list \<Rightarrow> byte list option"
  vl_b64_encode :: "byte list \<Rightarrow> string"
  vl_b64_decode :: "string \<Rightarrow> byte list option"

record 'p json_codec =
  js_marshal :: "'p \<Rightarrow> byte list"
  js_unmarshal :: "byte list \<Rightarrow> 'p option"

datatype verr = ErrInvalidPassword | VaultErr string

record vault_kdf =
  kdf_Name :: string
  kdf_Time :: u32
  kdf_MemoryKiB :: u32
  kdf_Parallelism :: byte
  kdf_Salt :: string

record vault_cipher =
  ci_Name :: string
  ci_Nonce :: string

record container =
  ct_Version :: int
  ct_KDF :: vault_kdf
  ct_Cipher :: vault_cipher
  ct_Ciphertext :: string

record vault_params =
  pm_Time :: u32
  pm_MemoryKiB :: u32
  pm_Parallelism :: byte

record session_key =
  sk_key :: "byte list"
  sk_kdf :: vault_kdf

definition DefaultParams :: vault_params where
  "DefaultParams = \<lparr>pm_Time = 3, pm_MemoryKiB = 64 * 1024, pm_Parallelism = 2\<rparr>"

definition vault_Version :: int where "vault_Version = 1"
definition minKDFTime :: u32 where "minKDFTime = 2"
definition maxKDFTime :: u32 where "maxKDFTime = 10"
definition minKDFMemoryKiB :: u32 where "minKDFMemoryKiB = 32 * 1024"
definition maxKDFMemoryKiB :: u32 where "maxKDFMemoryKiB = 256 * 1024"
definition maxKDFParallelism :: byte where "maxKDFParallelism = 32"
definition maxCiphertextSize :: nat where "maxCiphertextSize = 16 * 1048576"

section \<open>Operations\<close>

definition validateKDF :: "vault_kdf \<Rightarrow> verr + unit" where
  "validateKDF k =
     rcheck (\<not> (kdf_Time k < minKDFTime \<or> maxKDFTime < kdf_Time k \<or>
         kdf_MemoryKiB k < minKDFMemoryKiB \<or> maxKDFMemoryKiB < kdf_MemoryKiB k \<or>
         kdf_Parallelism k = 0 \<or> maxKDFParallelism < kdf_Parallelism k))
       (VaultErr ''invalid vault KDF parameters'') (Inr ())"

text \<open>\<open>io.ReadFull\<close> of \<open>n\<close> bytes from a reader that has \<open>src\<close>.\<close>

definition ReadFull :: "nat \<Rightarrow> byte list \<Rightarrow> string \<Rightarrow> verr + byte list" where
  "ReadFull n src what = rcheck (n \<le> length src) (VaultErr what) (Inr (take n src))"

text \<open>\<open>aes.NewCipher\<close> takes keys of 16, 24 and 32 bytes.\<close>

definition NewCipher :: "byte list \<Rightarrow> verr + unit" where
  "NewCipher key = rcheck (length key \<in> {16, 24, 32}) (VaultErr ''create cipher'') (Inr ())"

definition gcmNonceSize :: nat where "gcmNonceSize = 12"

definition vault_Encrypt ::
  "vault_lib \<Rightarrow> byte list \<Rightarrow> byte list \<Rightarrow> string \<Rightarrow> byte list \<Rightarrow> byte list \<Rightarrow> vault_params \<Rightarrow> verr + container" where
  "vault_Encrypt V saltSrc nonceSrc password plaintext aad params =
     rcheck (password \<noteq> []) (VaultErr ''vault password is required'') (
     rbind (validateKDF \<lparr>kdf_Name = [], kdf_Time = pm_Time params, kdf_MemoryKiB = pm_MemoryKiB params,
       kdf_Parallelism = pm_Parallelism params, kdf_Salt = []\<rparr>) (\<lambda>_.
     rbind (ReadFull 16 saltSrc ''generate salt'') (\<lambda>salt.
     let key = vl_argon2 V (bytes_of password) salt (pm_Time params) (pm_MemoryKiB params) (pm_Parallelism params)
     in rbind (NewCipher key) (\<lambda>_.
     rbind (ReadFull gcmNonceSize nonceSrc ''generate nonce'') (\<lambda>nonce.
     let sealed = vl_gcm_seal V key nonce plaintext aad
     in Inr \<lparr>ct_Version = vault_Version,
       ct_KDF = \<lparr>kdf_Name = ''argon2id'', kdf_Time = pm_Time params, kdf_MemoryKiB = pm_MemoryKiB params,
         kdf_Parallelism = pm_Parallelism params, kdf_Salt = vl_b64_encode V salt\<rparr>,
       ct_Cipher = \<lparr>ci_Name = ''aes-256-gcm'', ci_Nonce = vl_b64_encode V nonce\<rparr>,
       ct_Ciphertext = vl_b64_encode V sealed\<rparr>)))))"

definition openWithKey ::
  "vault_lib \<Rightarrow> byte list \<Rightarrow> byte list \<Rightarrow> byte list \<Rightarrow> byte list \<Rightarrow> verr + byte list" where
  "openWithKey V key nonce ciphertext aad =
     rbind (NewCipher key) (\<lambda>_.
     rcheck (length nonce = gcmNonceSize) (VaultErr ''invalid vault nonce'') (
     case vl_gcm_open V key nonce ciphertext aad of
       None \<Rightarrow> Inl ErrInvalidPassword
     | Some plaintext \<Rightarrow> Inr plaintext))"

definition vault_Unlock ::
  "vault_lib \<Rightarrow> string \<Rightarrow> container \<Rightarrow> byte list \<Rightarrow> verr + (byte list \<times> session_key)" where
  "vault_Unlock V password c aad =
     rcheck (\<not> (ct_Version c \<noteq> vault_Version \<or> kdf_Name (ct_KDF c) \<noteq> ''argon2id'' \<or>
         ci_Name (ct_Cipher c) \<noteq> ''aes-256-gcm'')) (VaultErr ''unsupported vault format'') (
     rbind (validateKDF (ct_KDF c)) (\<lambda>_.
     case vl_b64_decode V (kdf_Salt (ct_KDF c)) of
       None \<Rightarrow> Inl (VaultErr ''invalid vault salt'')
     | Some salt \<Rightarrow>
     rcheck (length salt = 16) (VaultErr ''invalid vault salt'') (
     case vl_b64_decode V (ci_Nonce (ct_Cipher c)) of
       None \<Rightarrow> Inl (VaultErr ''invalid vault nonce'')
     | Some nonce \<Rightarrow>
     case vl_b64_decode V (ct_Ciphertext c) of
       None \<Rightarrow> Inl (VaultErr ''invalid vault ciphertext'')
     | Some ciphertext \<Rightarrow>
     rcheck (\<not> (length ciphertext < 16 \<or> maxCiphertextSize < length ciphertext))
       (VaultErr ''invalid vault ciphertext'') (
     let key = vl_argon2 V (bytes_of password) salt (kdf_Time (ct_KDF c)) (kdf_MemoryKiB (ct_KDF c))
           (kdf_Parallelism (ct_KDF c));
         session = \<lparr>sk_key = key, sk_kdf = ct_KDF c\<rparr>
     in rbind (openWithKey V key nonce ciphertext aad) (\<lambda>plaintext.
        Inr (plaintext, session))))))"

definition vault_Decrypt :: "vault_lib \<Rightarrow> string \<Rightarrow> container \<Rightarrow> byte list \<Rightarrow> verr + byte list" where
  "vault_Decrypt V password c aad = rbind (vault_Unlock V password c aad) (\<lambda>(plaintext, _). Inr plaintext)"

text \<open>\<open>SessionKey.Seal\<close>; a nil receiver is refused.\<close>

definition SessionKey_Seal ::
  "vault_lib \<Rightarrow> byte list \<Rightarrow> session_key option \<Rightarrow> byte list \<Rightarrow> byte list \<Rightarrow> verr + container" where
  "SessionKey_Seal V nonceSrc s plaintext aad =
     (case s of
        None \<Rightarrow> Inl (VaultErr ''vault session key is missing'')
      | Some s \<Rightarrow>
     rbind (validateKDF (sk_kdf s)) (\<lambda>_.
     rbind (NewCipher (sk_key s)) (\<lambda>_.
     rbind (ReadFull gcmNonceSize nonceSrc ''generate nonce'') (\<lambda>nonce.
     let sealed = vl_gcm_seal V (sk_key s) nonce plaintext aad
     in Inr \<lparr>ct_Version = vault_Version, ct_KDF = sk_kdf s,
       ct_Cipher = \<lparr>ci_Name = ''aes-256-gcm'', ci_Nonce = vl_b64_encode V nonce\<rparr>,
       ct_Ciphertext = vl_b64_encode V sealed\<rparr>))))"

definition SessionKey_SealJSON ::
  "vault_lib \<Rightarrow> 'p json_codec \<Rightarrow> byte list \<Rightarrow> session_key option \<Rightarrow> 'p \<Rightarrow> byte list \<Rightarrow> verr + container" where
  "SessionKey_SealJSON V J nonceSrc s p aad = SessionKey_Seal V nonceSrc s (js_marshal J p) aad"

definition vault_SealJSON ::
  "vault_lib \<Rightarrow> 'p json_codec \<Rightarrow> byte list \<Rightarrow> byte list \<Rightarrow> string \<Rightarrow> 'p \<Rightarrow> byte list \<Rightarrow> vault_params
     \<Rightarrow> verr + container" where
  "vault_SealJSON V J saltSrc nonceSrc password p aad params =
     vault_Encrypt V saltSrc nonceSrc password (js_marshal J p) aad params"

definition vault_OpenJSON ::
  "vault_lib \<Rightarrow> 'p json_codec \<Rightarrow> string \<Rightarrow> container \<Rightarrow> byte list \<Rightarrow> verr + 'p" where
  "vault_OpenJSON V J password c aad =
     rbind (vault_Decrypt V password c aad) (\<lambda>data.
     case js_unmarshal J data of
       None \<Rightarrow> Inl (VaultErr ''decode vault payload'')
     | Some p \<Rightarrow> Inr p)"

definition vault_UnlockJSON ::
  "vault_lib \<Rightarrow> 'p json_codec \<Rightarrow> string \<Rightarrow> container \<Rightarrow> byte list \<Rightarrow> verr + ('p \<times> session_key)" where
  "vault_UnlockJSON V J password c aad =
     rbind (vault_Unlock V password c aad) (\<lambda>(data, session).
     case js_unmarshal J data of
       None \<Rightarrow> Inl (VaultErr ''decode vault payload'')
     | Some p \<Rightarrow> Inr (p, session))"

section \<open>The work factor\<close>

definition kdf_in_bounds :: "vault_kdf \<Rightarrow> bool" where
  "kdf_in_bounds k \<longleftrightarrow> 2 \<le> uint (kdf_Time k) \<and> uint (kdf_Time k) \<le> 10 \<and>
     32768 \<le> uint (kdf_MemoryKiB k) \<and> uint (kdf_MemoryKiB k) \<le> 262144 \<and>
     1 \<le> uint (kdf_Parallelism k) \<and> uint (kdf_Parallelism k) \<le> 32"

lemma validateKDF_iff: "validateKDF k = Inr () \<longleftrightarrow> kdf_in_bounds k"
proof -
  have "kdf_Parallelism k \<noteq> 0 \<longleftrightarrow> 1 \<le> uint (kdf_Parallelism k)"
    by (simp add: word_greater_zero_iff [symmetric] word_less_def int_one_le_iff_zero_less)
  then show ?thesis
    by (auto simp: validateKDF_def rcheck_eq_Inr kdf_in_bounds_def word_less_def not_less
        minKDFTime_def maxKDFTime_def minKDFMemoryKiB_def maxKDFMemoryKiB_def maxKDFParallelism_def)
qed

lemma vault_Unlock_bounds: "vault_Unlock V pw c aad = Inr (pt, s) \<Longrightarrow>
    kdf_in_bounds (ct_KDF c) \<and> sk_kdf s = ct_KDF c"
  by (auto simp: vault_Unlock_def rcheck_eq_Inr rbind_eq_Inr Let_def validateKDF_iff
      split: option.splits)

lemma vault_Encrypt_bounds: "vault_Encrypt V ss ns pw pt aad pm = Inr c \<Longrightarrow> kdf_in_bounds (ct_KDF c)"
  by (auto simp: vault_Encrypt_def rcheck_eq_Inr rbind_eq_Inr Let_def validateKDF_iff kdf_in_bounds_def)

lemma SessionKey_Seal_bounds: "SessionKey_Seal V ns s pt aad = Inr c \<Longrightarrow> kdf_in_bounds (ct_KDF c)"
  by (auto simp: SessionKey_Seal_def rcheck_eq_Inr rbind_eq_Inr Let_def validateKDF_iff
      split: option.splits)

section \<open>Opening what was sealed\<close>

definition vault_laws :: "vault_lib \<Rightarrow> 'p json_codec \<Rightarrow> bool" where
  "vault_laws V J \<longleftrightarrow>
     (\<forall>key nonce p aad. vl_gcm_open V key nonce (vl_gcm_seal V key nonce p aad) aad = Some p) \<and>
     (\<forall>key nonce p aad. length (vl_gcm_seal V key nonce p aad) = length p + 16) \<and>
     (\<forall>bs. vl_b64_decode V (vl_b64_encode V bs) = Some bs) \<and>
     (\<forall>pw salt t m q. length (vl_argon2 V pw salt t m q) = 32) \<and>
     (\<forall>p q. js_unmarshal J (js_marshal J p) = Some q \<longrightarrow> q = p)"

text \<open>What decodes is what was encoded. A payload that fits is one that does decode, and whose
  ciphertext is one that \<open>Unlock\<close> accepts.\<close>

definition vault_fits :: "vault_lib \<Rightarrow> 'p json_codec \<Rightarrow> 'p \<Rightarrow> bool" where
  "vault_fits V J p \<longleftrightarrow> vault_laws V J \<and> js_unmarshal J (js_marshal J p) = Some p \<and>
     length (js_marshal J p) + 16 \<le> maxCiphertextSize"

locale password_box =
  fixes box_seal :: "string \<Rightarrow> 'p \<Rightarrow> 'c \<Rightarrow> bool"
    and box_unlock :: "string \<Rightarrow> 'c \<Rightarrow> 'e + ('p \<times> 'k)"
    and box_reseal :: "'k \<Rightarrow> 'p \<Rightarrow> 'c \<Rightarrow> bool"
    and fits :: "'p \<Rightarrow> bool"
  assumes unlock_seal: "box_seal pw p c \<Longrightarrow> fits p \<Longrightarrow> \<exists>k. box_unlock pw c = Inr (p, k)"
    and unlock_reseal: "box_unlock pw c = Inr (p, k) \<Longrightarrow> box_reseal k q c' \<Longrightarrow> fits q \<Longrightarrow>
      box_unlock pw c' = Inr (q, k)"
begin

text \<open>Any number of re-sealings under one session: the password still opens the last payload.\<close>

inductive resealed :: "'k \<Rightarrow> 'p \<Rightarrow> 'c \<Rightarrow> 'p \<Rightarrow> 'c \<Rightarrow> bool" for k p c where
  none: "resealed k p c p c"
| one: "resealed k p c q d \<Longrightarrow> box_reseal k r e \<Longrightarrow> fits r \<Longrightarrow> resealed k p c r e"

lemma unlock_resealed:
  "resealed k p c q d \<Longrightarrow> box_unlock pw c = Inr (p, k) \<Longrightarrow> box_unlock pw d = Inr (q, k)"
  by (induction rule: resealed.induct) (auto intro: unlock_reseal)

lemma sealed_then_resealed:
  assumes "box_seal pw p c" "fits p"
  obtains k where "box_unlock pw c = Inr (p, k)"
    "\<And>q d. resealed k p c q d \<Longrightarrow> box_unlock pw d = Inr (q, k)"
  using unlock_seal [OF assms] unlock_resealed by blast

end

definition seals_as ::
  "vault_lib \<Rightarrow> 'p json_codec \<Rightarrow> byte list \<Rightarrow> vault_params \<Rightarrow> string \<Rightarrow> 'p \<Rightarrow> container \<Rightarrow> bool" where
  "seals_as V J aad pm pw p c \<longleftrightarrow> (\<exists>ss ns. vault_SealJSON V J ss ns pw p aad pm = Inr c)"

definition reseals_as ::
  "vault_lib \<Rightarrow> 'p json_codec \<Rightarrow> byte list \<Rightarrow> session_key \<Rightarrow> 'p \<Rightarrow> container \<Rightarrow> bool" where
  "reseals_as V J aad k p c \<longleftrightarrow> (\<exists>ns. SessionKey_SealJSON V J ns (Some k) p aad = Inr c)"

lemma vault_fitsD:
  assumes "vault_fits V J p"
  shows "vl_gcm_open V key nonce (vl_gcm_seal V key nonce pt aad) aad = Some pt"
    "length (vl_gcm_seal V key nonce pt aad) = length pt + 16"
    "vl_b64_decode V (vl_b64_encode V bs) = Some bs"
    "length (vl_argon2 V pw salt t m q) = 32"
    "js_unmarshal J (js_marshal J p) = Some p"
    "length (js_marshal J p) + 16 \<le> maxCiphertextSize"
  using assms by (simp_all add: vault_fits_def vault_laws_def)

lemma unlock_of_parts:
  assumes fit: "vault_fits V J p" and bounds: "kdf_in_bounds kdf" "kdf_Name kdf = ''argon2id''"
    and salt: "vl_b64_decode V (kdf_Salt kdf) = Some salt" "length salt = 16" and nonce: "length nonce = 12"
    and key: "key = vl_argon2 V (bytes_of pw) salt (kdf_Time kdf) (kdf_MemoryKiB kdf) (kdf_Parallelism kdf)"
  shows "vault_UnlockJSON V J pw \<lparr>ct_Version = vault_Version, ct_KDF = kdf,
      ct_Cipher = \<lparr>ci_Name = ''aes-256-gcm'', ci_Nonce = vl_b64_encode V nonce\<rparr>,
      ct_Ciphertext = vl_b64_encode V (vl_gcm_seal V key nonce (js_marshal J p) aad)\<rparr> aad
    = Inr (p, \<lparr>sk_key = key, sk_kdf = kdf\<rparr>)"
  using assms vault_fitsD [OF fit] validateKDF_iff [of kdf]
  by (simp add: vault_UnlockJSON_def vault_Unlock_def openWithKey_def NewCipher_def gcmNonceSize_def Let_def)

lemma vault_unlock_seal:
  assumes "seals_as V J aad pm pw p c" "vault_fits V J p"
  shows "\<exists>k. vault_UnlockJSON V J pw c aad = Inr (p, k)"
proof -
  obtain ss ns where enc: "vault_SealJSON V J ss ns pw p aad pm = Inr c"
    using assms(1) by (auto simp: seals_as_def)
  define kdf where "kdf = \<lparr>kdf_Name = ''argon2id'', kdf_Time = pm_Time pm, kdf_MemoryKiB = pm_MemoryKiB pm,
         kdf_Parallelism = pm_Parallelism pm, kdf_Salt = vl_b64_encode V (take 16 ss)\<rparr>"
  have bounds: "kdf_in_bounds kdf"
    using enc by (auto simp: vault_SealJSON_def vault_Encrypt_def rcheck_eq_Inr rbind_eq_Inr Let_def
        validateKDF_iff kdf_def kdf_in_bounds_def)
  have c: "16 \<le> length ss" "12 \<le> length ns" "c = \<lparr>ct_Version = vault_Version, ct_KDF = kdf,
      ct_Cipher = \<lparr>ci_Name = ''aes-256-gcm'', ci_Nonce = vl_b64_encode V (take 12 ns)\<rparr>,
      ct_Ciphertext = vl_b64_encode V (vl_gcm_seal V (vl_argon2 V (bytes_of pw) (take 16 ss)
        (kdf_Time kdf) (kdf_MemoryKiB kdf) (kdf_Parallelism kdf)) (take 12 ns) (js_marshal J p) aad)\<rparr>"
    using enc by (auto simp: vault_SealJSON_def vault_Encrypt_def rcheck_eq_Inr rbind_eq_Inr Let_def
        ReadFull_def gcmNonceSize_def kdf_def)
  have "vault_UnlockJSON V J pw c aad = Inr (p, \<lparr>sk_key = vl_argon2 V (bytes_of pw) (take 16 ss)
        (kdf_Time kdf) (kdf_MemoryKiB kdf) (kdf_Parallelism kdf), sk_kdf = kdf\<rparr>)"
    unfolding c(3)
    by (rule unlock_of_parts [OF assms(2) bounds, where salt = "take 16 ss"])
      (use c vault_fitsD [OF assms(2)] in \<open>simp_all add: kdf_def\<close>)
  then show ?thesis by blast
qed

lemma vault_unlock_reseal:
  assumes unlock: "vault_UnlockJSON V J pw c aad = Inr (p, k)"
    and reseal: "reseals_as V J aad k q c'" and fit: "vault_fits V J q"
  shows "vault_UnlockJSON V J pw c' aad = Inr (q, k)"
proof -
  obtain ns where enc: "SessionKey_SealJSON V J ns (Some k) q aad = Inr c'"
    using reseal by (auto simp: reseals_as_def)
  obtain salt where k: "kdf_in_bounds (sk_kdf k)" "kdf_Name (sk_kdf k) = ''argon2id''"
    "vl_b64_decode V (kdf_Salt (sk_kdf k)) = Some salt" "length salt = 16"
    "sk_key k = vl_argon2 V (bytes_of pw) salt (kdf_Time (sk_kdf k)) (kdf_MemoryKiB (sk_kdf k))
       (kdf_Parallelism (sk_kdf k))"
    using unlock by (auto simp: vault_UnlockJSON_def vault_Unlock_def rcheck_eq_Inr rbind_eq_Inr
        Let_def validateKDF_iff split: option.splits prod.splits)
  have c': "12 \<le> length ns" "c' = \<lparr>ct_Version = vault_Version, ct_KDF = sk_kdf k,
      ct_Cipher = \<lparr>ci_Name = ''aes-256-gcm'', ci_Nonce = vl_b64_encode V (take 12 ns)\<rparr>,
      ct_Ciphertext = vl_b64_encode V (vl_gcm_seal V (sk_key k) (take 12 ns) (js_marshal J q) aad)\<rparr>"
    using enc by (auto simp: SessionKey_SealJSON_def SessionKey_Seal_def rcheck_eq_Inr rbind_eq_Inr
        Let_def ReadFull_def gcmNonceSize_def)
  show ?thesis
    unfolding c'(2)
    by (subst unlock_of_parts [OF fit k(1-4) _ k(5)]) (use c'(1) in simp_all)
qed

interpretation vault_box: password_box
  "seals_as V J aad pm" "\<lambda>pw c. vault_UnlockJSON V J pw c aad" "reseals_as V J aad" "vault_fits V J"
  for V J aad pm
  by unfold_locales (rule vault_unlock_seal, assumption+, rule vault_unlock_reseal)

section \<open>Properties\<close>

text \<open>The work factor cannot be weakened through the file: a container that opens, one that is
  sealed under a password and one that a session re-seals all have KDF parameters inside the
  bounds, and the session key keeps the parameters of the container it came from.\<close>

theorem vault_work_factor:
  "(vault_Unlock V pw c aad = Inr (pt, k) \<longrightarrow> kdf_in_bounds (ct_KDF c) \<and> sk_kdf k = ct_KDF c) \<and>
   (vault_Encrypt V ss ns pw pt aad pm = Inr c \<longrightarrow> kdf_in_bounds (ct_KDF c)) \<and>
   (SessionKey_Seal V ns s pt aad = Inr c \<longrightarrow> kdf_in_bounds (ct_KDF c))"
  using vault_Unlock_bounds vault_Encrypt_bounds SessionKey_Seal_bounds by blast

definition toy_vault :: vault_lib where
  "toy_vault = \<lparr>vl_argon2 = (\<lambda>pw salt t m q. take 32 (pw @ replicate 32 0)),
     vl_gcm_seal = (\<lambda>key nonce p aad. p @ take 16 (key @ replicate 16 0)),
     vl_gcm_open = (\<lambda>key nonce c aad.
       if drop (length c - 16) c = take 16 (key @ replicate 16 0) then Some (take (length c - 16) c) else None),
     vl_b64_encode = map (\<lambda>b. char_of (unat b)), vl_b64_decode = (\<lambda>s. Some (map of_char s))\<rparr>"

definition toy_json :: "byte list json_codec" where
  "toy_json = \<lparr>js_marshal = id, js_unmarshal = Some\<rparr>"

lemma of_char_byte: "of_char (char_of (unat (b :: byte))) = b"
proof -
  have "unat b < 256" using unsigned_less [of b, where ?'a = nat] by simp
  then have "of_char (char_of (unat b)) = (of_nat (unat b) :: byte)"
    by (metis of_char_of of_nat_of_char mod_less)
  then show ?thesis by simp
qed

lemma toy_vault_laws: "vault_laws toy_vault toy_json"
  by (simp add: vault_laws_def toy_vault_def toy_json_def comp_def of_char_byte min_def)

theorem vault_work_factor_witness:
  "\<exists>c. vault_Encrypt toy_vault (replicate 16 1) (replicate 12 2) ''pw'' [1, 2] [] DefaultParams = Inr c \<and>
     kdf_in_bounds (ct_KDF c)"
proof -
  obtain c where c: "vault_Encrypt toy_vault (replicate 16 1) (replicate 12 2) ''pw'' [1, 2] []
      DefaultParams = Inr c"
    by (simp add: vault_Encrypt_def validateKDF_def DefaultParams_def ReadFull_def NewCipher_def
        gcmNonceSize_def Let_def toy_vault_def bytes_of_def word_less_def minKDFTime_def
        maxKDFTime_def minKDFMemoryKiB_def maxKDFMemoryKiB_def maxKDFParallelism_def)
  from vault_work_factor [of toy_vault "''pw''" c "[]" "[1, 2]"] c show ?thesis by blast
qed

text \<open>C31. What was sealed under a password opens with that password, and so does every container
  the resulting session re-seals, with the payload of the last re-sealing and the same session
  key, for payloads whose ciphertext stays below 16 MiB.\<close>

theorem vault_round_trip:
  assumes "seals_as V J aad pm pw p c" "vault_fits V J p"
  shows "\<exists>k. vault_UnlockJSON V J pw c aad = Inr (p, k) \<and>
    (\<forall>q d. vault_box.resealed V J aad k p c q d \<longrightarrow> vault_UnlockJSON V J pw d aad = Inr (q, k))"
  using vault_box.sealed_then_resealed [OF assms] by blast

theorem vault_round_trip_witness:
  "\<exists>c k. vault_UnlockJSON toy_vault toy_json ''pw'' c [] = Inr ([1, 2], k)"
proof -
  have "\<exists>c. vault_SealJSON toy_vault toy_json (replicate 16 1) (replicate 12 2) ''pw'' [1, 2] []
      DefaultParams = Inr c"
    by (simp add: vault_SealJSON_def vault_Encrypt_def validateKDF_def DefaultParams_def ReadFull_def
        NewCipher_def gcmNonceSize_def Let_def toy_vault_def bytes_of_def word_less_def minKDFTime_def
        maxKDFTime_def minKDFMemoryKiB_def maxKDFMemoryKiB_def maxKDFParallelism_def)
  then obtain c where "seals_as toy_vault toy_json [] DefaultParams ''pw'' [1, 2] c"
    unfolding seals_as_def by blast
  moreover have "vault_fits toy_vault toy_json [1, 2]"
    using toy_vault_laws by (simp add: vault_fits_def maxCiphertextSize_def toy_json_def)
  ultimately obtain k where "vault_UnlockJSON toy_vault toy_json ''pw'' c [] = Inr ([1, 2], k)"
    using vault_round_trip by metis
  then show ?thesis by blast
qed

end
