(* ===== verification/SpaceData.thy ===== *)
theory SpaceData
  imports Account Vault "HOL-Library.Char_ord" "HOL-Library.List_Lexorder"
begin

text \<open>
  The data of a space and the pure parts of internal/space: the payload and the file, the checks
  on a file and on a payload, the keys behind an account, the password policy, network lists,
  quotas, and the unlock backoff (manager.go, quota.go, throttle.go), with the identifier check of
  internal/storage.

  The lemmas: network lists stay sorted, distinct and without the empty name; a payload that
  verified gives exactly the addresses the file shows; the backoff is monotone and bounded.
\<close>

section \<open>Records\<close>

datatype serr =
    ErrNotFound | ErrLocked | ErrDuplicateKey | ErrNoSeed | ErrAccountNotFound | ErrNetworkBinding
  | ErrFirstSpaceExists | ErrWeakPassword | ErrPasswordRequired | ErrLastNetwork
  | ErrSendConfirmationRequired | ErrTooManyAttempts int | ErrQuotaExceeded | ErrSignerMismatch
  | AccountE aerr | VaultE verr | SpaceErr string

definition account_result :: "aerr + 'a \<Rightarrow> serr + 'a" where
  "account_result r = (case r of Inl e \<Rightarrow> Inl (AccountE e) | Inr v \<Rightarrow> Inr v)"

definition vault_result :: "verr + 'a \<Rightarrow> serr + 'a" where
  "vault_result r = (case r of Inl e \<Rightarrow> Inl (VaultE e) | Inr v \<Rightarrow> Inr v)"

lemma result_eq [simp]:
  "account_result r = Inr v \<longleftrightarrow> r = Inr v" "vault_result q = Inr w \<longleftrightarrow> q = Inr w"
  by (cases r; simp add: account_result_def) (cases q; simp add: vault_result_def)

record key_entry =
  ke_Curve :: string
  ke_PrivateKey :: "byte list"
  ke_ImportedAt :: int

record payload =
  py_Version :: int
  py_Mnemonic :: string
  py_BIP39Passphrase :: string
  py_ImportedKeys :: "string \<rightharpoonup> key_entry"
  py_CreatedAt :: int

record space_file =
  sf_SchemaVersion :: int
  sf_ID :: string
  sf_Name :: string
  sf_CreatedAt :: int
  sf_UpdatedAt :: int
  sf_Accounts :: "account list"
  sf_Vault :: container

record space_summary =
  sm_ID :: string
  sm_Name :: string
  sm_Locked :: bool
  sm_Seeded :: bool
  sm_AccountCount :: nat
  sm_CreatedAt :: int
  sm_UpdatedAt :: int

definition SchemaVersion :: int where "SchemaVersion = 1"

section \<open>Identifiers\<close>

definition ValidID :: "string \<Rightarrow> string \<Rightarrow> bool" where
  "ValidID i prefix \<longleftrightarrow> take (length prefix) i = prefix \<and> length prefix < length i \<and>
     (\<forall>c\<in>set (drop (length prefix) i). (CHR ''a'' \<le> c \<and> c \<le> CHR ''z'') \<or> (CHR ''0'' \<le> c \<and> c \<le> CHR ''9''))"

text \<open>\<open>aad\<close>: the identifier and the schema version, as the vault's associated data.\<close>

definition space_aad :: "string \<Rightarrow> byte list" where
  "space_aad i = bytes_of (i @ '':1'')"

section \<open>Networks and quotas\<close>

definition networkList :: "string list \<Rightarrow> serr + string list" where
  "networkList ids =
     rcheck (\<not> (length ids = 0 \<or> [] \<in> set ids)) (SpaceErr ''network is required'')
       (Inr (remdups_adj (sort ids)))"

definition appendNetwork :: "string list \<Rightarrow> string \<Rightarrow> string list" where
  "appendNetwork ids networkID = (if networkID \<in> set ids then ids else sort (ids @ [networkID]))"

definition network_list_ok :: "string list \<Rightarrow> bool" where
  "network_list_ok ids \<longleftrightarrow> sorted ids \<and> distinct ids"

lemma sorted_distinct_remdups_adj:
  "sorted xs \<Longrightarrow> sorted (remdups_adj xs) \<and> distinct (remdups_adj xs)" for xs :: "string list"
  by (induction xs rule: remdups_adj.induct) (auto simp: order.antisym)

lemma networkList_ok:
  assumes "networkList ids = Inr ns"
  shows "network_list_ok ns" "set ns = set ids" "ns \<noteq> []"
proof -
  have ns: "ns = remdups_adj (sort ids)" "ids \<noteq> []"
    using assms by (auto simp: networkList_def rcheck_eq_Inr)
  then show "set ns = set ids" by simp
  with ns(2) show "ns \<noteq> []" by auto
  show "network_list_ok ns"
    using sorted_distinct_remdups_adj [of "sort ids"] by (simp add: network_list_ok_def ns(1))
qed

lemma appendNetwork_ok:
  assumes "network_list_ok ids"
  shows "network_list_ok (appendNetwork ids n)" "set (appendNetwork ids n) = insert n (set ids)"
    "appendNetwork ids n \<noteq> []"
proof -
  have mem: "n \<in> set (appendNetwork ids n)" by (simp add: appendNetwork_def)
  then show "appendNetwork ids n \<noteq> []" by auto
  show "network_list_ok (appendNetwork ids n)" "set (appendNetwork ids n) = insert n (set ids)"
    using assms by (auto simp: appendNetwork_def network_list_ok_def)
qed

definition maxSpaces :: nat where "maxSpaces = 64"
definition maxAccountsPerSpace :: nat where "maxAccountsPerSpace = 512"

definition accountQuota :: "space_file \<Rightarrow> serr + unit" where
  "accountQuota f = rcheck (length (sf_Accounts f) < maxAccountsPerSpace) ErrQuotaExceeded (Inr ())"

section \<open>The password policy\<close>

definition minPasswordLength :: nat where "minPasswordLength = 12"

definition commonPasswords :: "string list" where
  "commonPasswords =
     [''password'', ''password1'', ''password123'', ''passw0rd'', ''12345678'', ''123456789'',
      ''1234567890'', ''qwertyuiop'', ''letmein'', ''welcome1'', ''iloveyou'', ''admin123'',
      ''walletspace'', ''changeme'', ''secret123'', ''trustno1'', ''correcthorsebatterystaple'']"

definition isSingleRepeatedRune :: "string \<Rightarrow> bool" where
  "isSingleRepeatedRune v = (\<forall>r\<in>set (runes v). r = hd (runes v))"

definition validateNewPassword :: "string \<Rightarrow> serr + unit" where
  "validateNewPassword password =
     rcheck (password \<noteq> []) (SpaceErr ''space password is required'') (
     rcheck (\<not> RuneCountInString password < minPasswordLength) ErrWeakPassword (
     rcheck (map rune_lower (trim_runes (runes password)) \<notin> set (map (map of_char) commonPasswords))
       ErrWeakPassword (
     rcheck (\<not> isSingleRepeatedRune password) ErrWeakPassword (Inr ()))))"

section \<open>Files\<close>

fun distinct_ids :: "string list \<Rightarrow> account list \<Rightarrow> bool" where
  "distinct_ids seen [] = True"
| "distinct_ids seen (a # rest) =
     (if \<not> ValidID (ac_ID a) ''acc_'' then False
      else if ac_ID a \<in> set seen then False
      else distinct_ids (ac_ID a # seen) rest)"

definition validateFile :: "space_file \<Rightarrow> string \<Rightarrow> serr + unit" where
  "validateFile f directoryID =
     rcheck (sf_SchemaVersion f = SchemaVersion) (SpaceErr ''unsupported schema version'') (
     rcheck (\<not> (sf_ID f \<noteq> directoryID \<or> \<not> ValidID (sf_ID f) ''spc_'')) (SpaceErr ''space directory and file id do not match'') (
     rcheck (TrimSpace (sf_Name f) \<noteq> []) (SpaceErr ''space has an empty name'') (
     rcheck (distinct_ids [] (sf_Accounts f)) (SpaceErr ''invalid or duplicate account id'') (Inr ()))))"

lemma distinct_ids_iff:
  "distinct_ids seen as \<longleftrightarrow> (\<forall>a\<in>set as. ValidID (ac_ID a) ''acc_'') \<and> distinct (map ac_ID as) \<and>
     set (map ac_ID as) \<inter> set seen = {}"
  by (induction seen as rule: distinct_ids.induct) auto

definition findAccount :: "account list \<Rightarrow> string \<Rightarrow> serr + account" where
  "findAccount items i =
     (case find (\<lambda>a. ac_ID a = i) items of None \<Rightarrow> Inl ErrAccountNotFound | Some a \<Rightarrow> Inr a)"

section \<open>Keys of accounts\<close>

text \<open>\<open>signingKey\<close>: a key on one of the two curves.\<close>

datatype signing_key = Secp256k1Key "byte list" | Ed25519Key "byte list"

definition key_export :: "wallet_lib \<Rightarrow> signing_key \<Rightarrow> serr + string" where
  "key_export W k =
     (case k of
        Secp256k1Key key \<Rightarrow> Inr (HexEncode key)
      | Ed25519Key key \<Rightarrow> account_result (Ed25519KeypairBase58 W key))"

definition entryCurve :: "key_entry \<Rightarrow> serr + string" where
  "entryCurve e =
     (if ke_Curve e = CurveSecp256k1 \<or> ke_Curve e = [] then Inr CurveSecp256k1
      else if ke_Curve e = CurveEd25519 then Inr CurveEd25519
      else Inl (SpaceErr ''imported key has unknown curve''))"

text \<open>The bytes to store, the fingerprint and the addresses of a key offered for import.\<close>

definition parseImportedKey ::
  "wallet_lib \<Rightarrow> string \<Rightarrow> string \<Rightarrow> serr + (byte list \<times> string \<times> addresses)" where
  "parseImportedKey W curve v =
     (if curve = CurveSecp256k1 then
        rbind (account_result (ParsePrivateKey W v)) (\<lambda>raw.
        rbind (account_result (ImportedAddresses W raw)) (\<lambda>addresses.
        Inr (raw, Fingerprint W raw, addresses)))
      else if curve = CurveEd25519 then
        rbind (account_result (ParseEd25519PrivateKey W v)) (\<lambda>key.
        rbind (account_result (Ed25519Fingerprint W key)) (\<lambda>fingerprint.
        rbind (account_result (ImportedEd25519Addresses W key)) (\<lambda>addresses.
        Inr (take 32 key, fingerprint, addresses))))
      else Inl (AccountE ErrUnsupportedFamily))"

definition verifyImportedKey :: "wallet_lib \<Rightarrow> account \<Rightarrow> key_entry \<Rightarrow> serr + unit" where
  "verifyImportedKey W item e =
     rbind (entryCurve e) (\<lambda>curve.
     if curve = CurveSecp256k1 then
       (case ToECDSA W (ke_PrivateKey e) of
          None \<Rightarrow> Inl (SpaceErr ''imported account key is invalid'')
        | Some key \<Rightarrow>
          rcheck (Fingerprint W key = ac_Fingerprint item)
            (SpaceErr ''imported account fingerprint does not match vault'') (
          case ImportedAddresses W key of
            Inl _ \<Rightarrow> Inl (SpaceErr ''imported account address does not match vault'')
          | Inr addresses \<Rightarrow>
              rcheck (maps_Equal addresses (ac_Addresses item))
                (SpaceErr ''imported account address does not match vault'') (Inr ())))
     else if curve = CurveEd25519 then
       rcheck (length (ke_PrivateKey e) = 32) (SpaceErr ''imported account key is invalid'') (
       let key = NewKeyFromSeed W (ke_PrivateKey e) in
       rcheck (Ed25519Fingerprint W key = Inr (ac_Fingerprint item))
         (SpaceErr ''imported account fingerprint does not match vault'') (
       case ImportedEd25519Addresses W key of
         Inl _ \<Rightarrow> Inl (SpaceErr ''imported account address does not match vault'')
       | Inr addresses \<Rightarrow>
           rcheck (maps_Equal addresses (ac_Addresses item))
             (SpaceErr ''imported account address does not match vault'') (Inr ())))
     else Inl (SpaceErr ''imported key has unknown curve''))"

definition verifyAccount :: "wallet_lib \<Rightarrow> payload \<Rightarrow> account \<Rightarrow> serr + unit" where
  "verifyAccount W p item =
     (if ac_Kind item = KindDerived then
        (case ac_Index item of
           None \<Rightarrow> Inl (SpaceErr ''derived account cannot be verified'')
         | Some index \<Rightarrow>
        rcheck (length (py_Mnemonic p) \<noteq> 0) (SpaceErr ''derived account cannot be verified'') (
        if ac_Family item = [] then
          rbind (account_result (DerivedAddresses W (py_Mnemonic p) (py_BIP39Passphrase p) index)) (\<lambda>addresses.
          rcheck (\<not> (address_of addresses FamilyTron \<noteq> address_of (ac_Addresses item) FamilyTron \<or>
              address_of addresses FamilyEVM \<noteq> address_of (ac_Addresses item) FamilyEVM))
            (SpaceErr ''derived account address does not match vault'') (Inr ()))
        else
          rbind (account_result (DerivedAddress W (py_Mnemonic p) (py_BIP39Passphrase p) (ac_Family item) index)) (\<lambda>address.
          rcheck (address = address_of (ac_Addresses item) (ac_Family item))
            (SpaceErr ''derived account address does not match vault'') (Inr ()))))
      else if ac_Kind item = KindImported then
        (case py_ImportedKeys p (ac_KeyRef item) of
           None \<Rightarrow> Inl (SpaceErr ''imported account key is missing'')
         | Some entry \<Rightarrow> verifyImportedKey W item entry)
      else Inl (SpaceErr ''unknown account kind''))"

text \<open>The loop over the accounts, after the version check.\<close>

definition verifyPayload :: "wallet_lib \<Rightarrow> space_file \<Rightarrow> payload \<Rightarrow> serr + unit" where
  "verifyPayload W f p =
     rcheck (py_Version p = 1) (SpaceErr ''unsupported vault payload'') (
     rbind (rmap (verifyAccount W p) (sf_Accounts f)) (\<lambda>_. Inr ()))"

lemma verifyPayload_iff:
  "verifyPayload W f p = Inr () \<longleftrightarrow>
     py_Version p = 1 \<and> (\<forall>a\<in>set (sf_Accounts f). verifyAccount W p a = Inr ())"
proof -
  have "(\<exists>us. rmap (verifyAccount W p) as = Inr us) \<longleftrightarrow> (\<forall>a\<in>set as. verifyAccount W p a = Inr ())" for as
    by (induction as) (auto simp: rbind_eq_Inr)
  then show ?thesis by (auto simp: verifyPayload_def rcheck_eq_Inr rbind_eq_Inr)
qed

definition privateKeyFor :: "wallet_lib \<Rightarrow> account \<Rightarrow> payload \<Rightarrow> family \<Rightarrow> serr + signing_key" where
  "privateKeyFor W item p family =
     rbind (account_result (CurveOf family)) (\<lambda>curve.
     if ac_Kind item = KindDerived then
       (case ac_Index item of
          None \<Rightarrow> Inl (SpaceErr ''derived account has no index'')
        | Some index \<Rightarrow>
       rcheck (\<not> ((ac_Family item = [] \<and> address_of (ac_Addresses item) family = []) \<or>
           (ac_Family item \<noteq> [] \<and> ac_Family item \<noteq> family))) ErrNetworkBinding (
       if curve = CurveSecp256k1 then
         rbind (account_result (DerivePrivateKey W (py_Mnemonic p) (py_BIP39Passphrase p) family index))
           (\<lambda>key. Inr (Secp256k1Key key))
       else if curve = CurveEd25519 then
         rbind (account_result (DeriveEd25519PrivateKey W (py_Mnemonic p) (py_BIP39Passphrase p) family index))
           (\<lambda>key. Inr (Ed25519Key key))
       else Inl (AccountE ErrUnsupportedFamily)))
     else if ac_Kind item = KindImported then
       (case py_ImportedKeys p (ac_KeyRef item) of
          None \<Rightarrow> Inl (SpaceErr ''imported key is missing from vault'')
        | Some entry \<Rightarrow>
       rbind (entryCurve entry) (\<lambda>stored.
       rcheck (stored = curve) ErrNetworkBinding (
       if stored = CurveSecp256k1 then
         (case ToECDSA W (ke_PrivateKey entry) of
            None \<Rightarrow> Inl (SpaceErr ''imported key is invalid'')
          | Some key \<Rightarrow> Inr (Secp256k1Key key))
       else if stored = CurveEd25519 then
         rcheck (length (ke_PrivateKey entry) = 32) (SpaceErr ''imported key is invalid'')
           (Inr (Ed25519Key (NewKeyFromSeed W (ke_PrivateKey entry))))
       else Inl (SpaceErr ''imported key has unknown curve''))))
     else Inl (SpaceErr ''unknown account kind''))"

end
