(* ===== verification/SpaceManager.thy ===== *)
theory SpaceManager
  imports SpaceData "HOL-Library.AList"
begin

text \<open>
  The space manager (internal/space/manager.go, throttle.go, quota.go) as operations on an
  explicit state: \<open>mg_files\<close> and \<open>mg_sessions\<close> are the two maps under the manager's mutex,
  \<open>mg_disk\<close> and \<open>mg_attempts\<close> the space.json and unlock.json files.

  Each critical section is one step. An operation that releases the mutex for a key derivation is
  split where the code splits it: \<open>..._prepare\<close> is what runs before the last critical section and
  \<open>..._commit\<close> is that section, so that other operations can be placed in between; the operation
  itself is their composition. The arguments of a step that come from outside are in \<open>step_env\<close>:
  readings of the clock, the outcome of a write, random bytes. A write that returns an error may
  still have replaced the file (\<open>AtomicWrite\<close> syncs the directory after the rename).

  Times are nanoseconds since the zero \<open>time.Time\<close>, which is 0.
\<close>

section \<open>State\<close>

record attempt_record =
  at_Failures :: int
  at_NextTry :: int

record session =
  ss_payload :: payload
  ss_key :: session_key
  ss_lastUsed :: int
  ss_sendGrant :: int

record manager =
  mg_params :: vault_params
  mg_autoLock :: int
  mg_confirmSends :: bool
  mg_sendGrantTTL :: int
  mg_files :: "(string \<times> space_file) list"
  mg_sessions :: "(string \<times> session) list"
  mg_disk :: "(string \<times> space_file) list"
  mg_attempts :: "(string \<times> attempt_record) list"

datatype write_outcome = Written | WriteFailed | WrittenWithError

record step_env =
  ev_t1 :: int
  ev_t2 :: int
  ev_now :: int
  ev_save :: write_outcome
  ev_attempts :: write_outcome
  ev_removed :: bool
  ev_jitter :: "int option"
  ev_salt :: "byte list"
  ev_nonce :: "byte list"
  ev_id1 :: "byte list option"
  ev_id2 :: "byte list option"
  ev_ctx_ended :: bool

record space_ctx =
  sx_W :: wallet_lib
  sx_V :: vault_lib
  sx_J :: "payload json_codec"

type_synonym 'a manager_op = "(manager, serr, 'a) op"

section \<open>Identifiers\<close>

definition base32_alphabet :: string where
  "base32_alphabet = ''abcdefghijklmnopqrstuvwxyz234567''"

text \<open>Lower-case base32 without padding: \<open>n\<close> bytes are the \<open>k\<close> digits of their big-endian
  value, shifted to a multiple of five bits.\<close>

definition base32_lower :: "byte list \<Rightarrow> string" where
  "base32_lower bs =
     (let n = 8 * length bs; k = (n + 4) div 5; v = get_le (rev bs) * 2 ^ (5 * k - n)
      in map (\<lambda>i. base32_alphabet ! ((v div 32 ^ (k - 1 - i)) mod 32)) [0..<k])"

definition newID :: "string \<Rightarrow> byte list option \<Rightarrow> serr + string" where
  "newID prefix raw =
     (case raw of None \<Rightarrow> Inl (SpaceErr ''generate id'') | Some bs \<Rightarrow> Inr (prefix @ base32_lower (take 12 bs)))"

section \<open>Throttling\<close>

definition freeUnlockAttempts :: int where "freeUnlockAttempts = 3"
definition baseUnlockDelay :: int where "baseUnlockDelay = 2 * 1000000000"
definition maxUnlockDelay :: int where "maxUnlockDelay = 15 * 60 * 1000000000"
definition maxUnlockDoublings :: int where "maxUnlockDoublings = 20"

definition backoffFor :: "int \<Rightarrow> int" where
  "backoffFor failures =
     (let doublings = max (failures - freeUnlockAttempts - 1) 0;
          doublings = (if maxUnlockDoublings < doublings then maxUnlockDoublings else doublings);
          delay = baseUnlockDelay * 2 ^ nat doublings
      in if maxUnlockDelay < delay \<or> delay \<le> 0 then maxUnlockDelay else delay)"

text \<open>\<open>rand.Int\<close> below \<open>delay/4 + 1\<close>: some number in that range, or an error.\<close>

definition unlockDelay :: "int \<Rightarrow> int option \<Rightarrow> int" where
  "unlockDelay failures jitter =
     (let delay = backoffFor failures in
      case jitter of None \<Rightarrow> delay | Some r \<Rightarrow> delay + r mod (delay div 4 + 1))"

definition no_attempts :: attempt_record where
  "no_attempts = \<lparr>at_Failures = 0, at_NextTry = 0\<rparr>"

definition readAttempts :: "string \<Rightarrow> int \<Rightarrow> manager \<Rightarrow> attempt_record" where
  "readAttempts i now m =
     (if \<not> ValidID i ''spc_'' then no_attempts
      else case map_of (mg_attempts m) i of
          None \<Rightarrow> no_attempts
        | Some r \<Rightarrow>
            if now + maxUnlockDelay * 2 < at_NextTry r
            then r\<lparr>at_NextTry := now + maxUnlockDelay\<rparr> else r)"

definition writeAttempts :: "write_outcome \<Rightarrow> string \<Rightarrow> attempt_record \<Rightarrow> manager \<Rightarrow> manager" where
  "writeAttempts w i r m =
     (if \<not> ValidID i ''spc_'' \<or> w = WriteFailed then m
      else m\<lparr>mg_attempts := AList.update i r (mg_attempts m)\<rparr>)"

definition checkUnlockCooldown :: "string \<Rightarrow> int \<Rightarrow> manager \<Rightarrow> serr + unit" where
  "checkUnlockCooldown i now m =
     (let r = readAttempts i now m in
      rcheck (at_Failures r \<le> freeUnlockAttempts \<or> \<not> now < at_NextTry r)
        (ErrTooManyAttempts (at_NextTry r - now)) (Inr ()))"

definition recordUnlockFailure :: "step_env \<Rightarrow> string \<Rightarrow> manager \<Rightarrow> manager" where
  "recordUnlockFailure ev i m =
     (let r = readAttempts i (ev_t2 ev) m;
          r = r\<lparr>at_Failures := at_Failures r + 1\<rparr>;
          r = r\<lparr>at_NextTry := ev_t2 ev + unlockDelay (at_Failures r) (ev_jitter ev)\<rparr>
      in writeAttempts (ev_attempts ev) i r m)"

definition clearUnlockFailures :: "step_env \<Rightarrow> string \<Rightarrow> manager \<Rightarrow> manager" where
  "clearUnlockFailures ev i m =
     (if ValidID i ''spc_'' \<and> ev_removed ev then m\<lparr>mg_attempts := AList.delete i (mg_attempts m)\<rparr> else m)"

section \<open>Under the mutex\<close>

definition clearSessionLocked :: "string \<Rightarrow> manager \<Rightarrow> manager" where
  "clearSessionLocked i m = m\<lparr>mg_sessions := AList.delete i (mg_sessions m)\<rparr>"

definition putSession :: "string \<Rightarrow> session \<Rightarrow> manager \<Rightarrow> manager" where
  "putSession i ss m = m\<lparr>mg_sessions := AList.update i ss (mg_sessions m)\<rparr>"

definition putFile :: "string \<Rightarrow> space_file \<Rightarrow> manager \<Rightarrow> manager" where
  "putFile i f m = m\<lparr>mg_files := AList.update i f (mg_files m)\<rparr>"

definition expireLocked :: "int \<Rightarrow> manager \<Rightarrow> manager" where
  "expireLocked now m =
     (if mg_autoLock m \<le> 0 then m
      else m\<lparr>mg_sessions := filter (\<lambda>(_, ss). \<not> mg_autoLock m \<le> now - ss_lastUsed ss) (mg_sessions m)\<rparr>)"

definition lookupFile :: "string \<Rightarrow> space_file manager_op" where
  "lookupFile i m = (m, case map_of (mg_files m) i of None \<Rightarrow> Inl ErrNotFound | Some f \<Rightarrow> Inr f)"

definition saveLocked :: "write_outcome \<Rightarrow> space_file \<Rightarrow> unit manager_op" where
  "saveLocked w f m =
     (case w of
        Written \<Rightarrow> (m\<lparr>mg_disk := AList.update (sf_ID f) f (mg_disk m)\<rparr>, Inr ())
      | WriteFailed \<Rightarrow> (m, Inl (SpaceErr ''write space''))
      | WrittenWithError \<Rightarrow> (m\<lparr>mg_disk := AList.update (sf_ID f) f (mg_disk m)\<rparr>, Inl (SpaceErr ''write space'')))"

definition unlockedLocked :: "int \<Rightarrow> string \<Rightarrow> (space_file \<times> payload) manager_op" where
  "unlockedLocked now i =
     sbind (smodify (expireLocked now)) (\<lambda>_.
     sbind (lookupFile i) (\<lambda>f.
     sbind sget (\<lambda>m.
     case map_of (mg_sessions m) i of
       None \<Rightarrow> sfail ErrLocked
     | Some ss \<Rightarrow>
     sbind (smodify (putSession i (ss\<lparr>ss_lastUsed := now\<rparr>))) (\<lambda>_.
     sret (f, ss_payload ss)))))"

text \<open>The vault of the file is replaced by one sealed with the session's key; the file is saved and
  returned.\<close>

definition resealAndSaveLocked ::
  "space_ctx \<Rightarrow> step_env \<Rightarrow> space_file \<Rightarrow> payload \<Rightarrow> string \<Rightarrow> space_file manager_op" where
  "resealAndSaveLocked X ev f p i =
     sbind sget (\<lambda>m.
     case map_of (mg_sessions m) i of
       None \<Rightarrow> sfail ErrLocked
     | Some ss \<Rightarrow>
     sbind (slift (vault_result (SessionKey_SealJSON (sx_V X) (sx_J X) (ev_nonce ev) (Some (ss_key ss)) p (space_aad i)))) (\<lambda>c.
     sbind (saveLocked (ev_save ev) (f\<lparr>sf_Vault := c\<rparr>)) (\<lambda>_.
     sret (f\<lparr>sf_Vault := c\<rparr>))))"

text \<open>Save, then publish: every operation that changes a file ends with these two lines.\<close>

definition saveAndPut :: "step_env \<Rightarrow> string \<Rightarrow> space_file \<Rightarrow> unit manager_op" where
  "saveAndPut ev i f = sbind (saveLocked (ev_save ev) f) (\<lambda>_. smodify (putFile i f))"

definition setSessionPayload :: "string \<Rightarrow> payload \<Rightarrow> manager \<Rightarrow> manager" where
  "setSessionPayload i p m =
     (case map_of (mg_sessions m) i of None \<Rightarrow> m | Some ss \<Rightarrow> putSession i (ss\<lparr>ss_payload := p\<rparr>) m)"

definition summaryLocked :: "manager \<Rightarrow> space_file \<Rightarrow> space_summary" where
  "summaryLocked m f =
     \<lparr>sm_ID = sf_ID f, sm_Name = sf_Name f, sm_Locked = (map_of (mg_sessions m) (sf_ID f) = None),
      sm_Seeded = list_ex (\<lambda>a. ac_Kind a = KindDerived) (sf_Accounts f),
      sm_AccountCount = length (sf_Accounts f), sm_CreatedAt = sf_CreatedAt f, sm_UpdatedAt = sf_UpdatedAt f\<rparr>"

definition SetAutoLock :: "step_env \<Rightarrow> int \<Rightarrow> unit manager_op" where
  "SetAutoLock ev duration =
     sbind (scheck (\<not> duration \<le> 0) (SpaceErr ''auto-lock cannot be disabled'')) (\<lambda>_.
     smodify (\<lambda>m. expireLocked (ev_now ev) (m\<lparr>mg_autoLock := duration\<rparr>)))"

definition Get :: "step_env \<Rightarrow> string \<Rightarrow> (space_summary \<times> account list) manager_op" where
  "Get ev i =
     sbind (smodify (expireLocked (ev_now ev))) (\<lambda>_.
     sbind (lookupFile i) (\<lambda>f.
     sbind sget (\<lambda>m. sret (summaryLocked m f, sf_Accounts f))))"

definition List :: "step_env \<Rightarrow> space_summary list manager_op" where
  "List ev =
     sbind (smodify (expireLocked (ev_now ev))) (\<lambda>_.
     sbind sget (\<lambda>m.
     sret (sort_key (\<lambda>s. sm_CreatedAt s) (sort_key (\<lambda>s. sm_ID s) (map (\<lambda>(_, f). summaryLocked m f) (mg_files m))))))"

definition spaceQuota :: "manager \<Rightarrow> serr + unit" where
  "spaceQuota m = rcheck (length (mg_files m) < maxSpaces) ErrQuotaExceeded (Inr ())"

section \<open>Creating a space\<close>

record create_request =
  cq_Name :: string
  cq_Mnemonic :: string
  cq_BIP39Passphrase :: string
  cq_Password :: string
  cq_ImportedOnly :: bool
  cq_ExpectEmpty :: bool

definition space_name :: "string \<Rightarrow> string" where
  "space_name n = (if TrimSpace n = [] then ''default'' else TrimSpace n)"

text \<open>The mnemonic of a new space and whether it was generated.\<close>

definition create_mnemonic :: "wallet_lib \<Rightarrow> create_request \<Rightarrow> byte list option \<Rightarrow> serr + (string \<times> bool)" where
  "create_mnemonic W req entropy =
     (let mnemonic = NormalizeMnemonic (cq_Mnemonic req) in
      if cq_ImportedOnly req
      then rcheck (mnemonic = []) (SpaceErr ''imported-only space cannot have a mnemonic'') (Inr (mnemonic, False))
      else if mnemonic = []
      then rbind (account_result (GenerateMnemonic W entropy)) (\<lambda>m. Inr (m, True))
      else rbind (account_result (ValidateMnemonic W mnemonic)) (\<lambda>_. Inr (mnemonic, False)))"

definition Create_prepare ::
  "space_ctx \<Rightarrow> step_env \<Rightarrow> create_request \<Rightarrow> manager \<Rightarrow> serr + (space_file \<times> payload \<times> session_key \<times> string \<times> bool)" where
  "Create_prepare X ev req m =
     rbind (validateNewPassword (cq_Password req)) (\<lambda>_.
     rbind (create_mnemonic (sx_W X) req (ev_id2 ev)) (\<lambda>(mnemonic, generated).
     rbind (newID ''spc_'' (ev_id1 ev)) (\<lambda>i.
     let p = \<lparr>py_Version = 1, py_Mnemonic = mnemonic, py_BIP39Passphrase = cq_BIP39Passphrase req,
           py_ImportedKeys = Map.empty, py_CreatedAt = ev_t1 ev\<rparr>
     in rbind (spaceQuota m) (\<lambda>_.
     rbind (vault_result (vault_SealJSON (sx_V X) (sx_J X) (ev_salt ev) (ev_nonce ev) (cq_Password req) p
       (space_aad i) (mg_params m))) (\<lambda>c.
     rbind (vault_result (vault_Unlock (sx_V X) (cq_Password req) c (space_aad i))) (\<lambda>(_, k).
     Inr (\<lparr>sf_SchemaVersion = SchemaVersion, sf_ID = i, sf_Name = space_name (cq_Name req),
        sf_CreatedAt = ev_t1 ev, sf_UpdatedAt = ev_t1 ev, sf_Accounts = [], sf_Vault = c\<rparr>, p, k, mnemonic, generated)))))))"

definition Create_commit ::
  "step_env \<Rightarrow> bool \<Rightarrow> space_file \<Rightarrow> payload \<Rightarrow> session_key \<Rightarrow> space_summary manager_op" where
  "Create_commit ev expectEmpty f p k =
     sbind sget (\<lambda>m.
     sbind (slift (spaceQuota m)) (\<lambda>_.
     sbind (scheck (\<not> (expectEmpty \<and> length (mg_files m) \<noteq> 0)) ErrFirstSpaceExists) (\<lambda>_.
     sbind (saveAndPut ev (sf_ID f) f) (\<lambda>_.
     sbind (smodify (putSession (sf_ID f) \<lparr>ss_payload = p, ss_key = k, ss_lastUsed = ev_t1 ev, ss_sendGrant = 0\<rparr>)) (\<lambda>_.
     sbind sget (\<lambda>m. sret (summaryLocked m f)))))))"

definition Create ::
  "space_ctx \<Rightarrow> step_env \<Rightarrow> create_request \<Rightarrow> (space_summary \<times> string \<times> bool) manager_op" where
  "Create X ev req =
     sbind sget (\<lambda>m.
     sbind (slift (Create_prepare X ev req m)) (\<lambda>(f, p, k, mnemonic, generated).
     sbind (Create_commit ev (cq_ExpectEmpty req) f p k) (\<lambda>summary.
     sret (summary, mnemonic, generated))))"

section \<open>Password checks\<close>

text \<open>The part of \<open>Unlock\<close> before its critical section: the file as it was, the cooldown, the
  derivation, and the record of a wrong password.\<close>

definition Unlock_prepare ::
  "space_ctx \<Rightarrow> step_env \<Rightarrow> string \<Rightarrow> string \<Rightarrow> (payload \<times> session_key) manager_op" where
  "Unlock_prepare X ev i password =
     sbind (lookupFile i) (\<lambda>f.
     sbind sget (\<lambda>m.
     sbind (slift (checkUnlockCooldown i (ev_t1 ev) m)) (\<lambda>_.
     case vault_UnlockJSON (sx_V X) (sx_J X) password (sf_Vault f) (space_aad i) of
       Inl e \<Rightarrow>
         sbind (smodify (if e = ErrInvalidPassword then recordUnlockFailure ev i else id)) (\<lambda>_. sfail (VaultE e))
     | Inr (p, k) \<Rightarrow>
     sbind (slift (verifyPayload (sx_W X) f p)) (\<lambda>_.
     sbind (smodify (clearUnlockFailures ev i)) (\<lambda>_.
     sret (p, k))))))"

definition Unlock_commit :: "step_env \<Rightarrow> string \<Rightarrow> payload \<Rightarrow> session_key \<Rightarrow> unit manager_op" where
  "Unlock_commit ev i p k =
     sbind (smodify (clearSessionLocked i)) (\<lambda>_.
     smodify (putSession i \<lparr>ss_payload = p, ss_key = k, ss_lastUsed = ev_now ev, ss_sendGrant = 0\<rparr>))"

definition Unlock :: "space_ctx \<Rightarrow> step_env \<Rightarrow> string \<Rightarrow> string \<Rightarrow> unit manager_op" where
  "Unlock X ev i password =
     sbind (Unlock_prepare X ev i password) (\<lambda>(p, k). Unlock_commit ev i p k)"

definition Lock :: "string \<Rightarrow> unit manager_op" where
  "Lock i = sbind (lookupFile i) (\<lambda>_. smodify (clearSessionLocked i))"

definition confirmPassword :: "space_ctx \<Rightarrow> step_env \<Rightarrow> string \<Rightarrow> string \<Rightarrow> unit manager_op" where
  "confirmPassword X ev i password =
     sbind (scheck (password \<noteq> []) ErrPasswordRequired) (\<lambda>_.
     sbind (lookupFile i) (\<lambda>f.
     sbind sget (\<lambda>m.
     sbind (slift (checkUnlockCooldown i (ev_t1 ev) m)) (\<lambda>_.
     case vault_UnlockJSON (sx_V X) (sx_J X) password (sf_Vault f) (space_aad i) of
       Inl e \<Rightarrow>
         sbind (smodify (if e = ErrInvalidPassword then recordUnlockFailure ev i else id)) (\<lambda>_. sfail (VaultE e))
     | Inr _ \<Rightarrow> smodify (clearUnlockFailures ev i)))))"

text \<open>\<open>ChangePassword\<close> before its last critical section: the new container, and the payload and key
  for the session, when there is one to refresh.\<close>

definition ChangePassword_prepare ::
  "space_ctx \<Rightarrow> step_env \<Rightarrow> string \<Rightarrow> string \<Rightarrow> string \<Rightarrow> (container \<times> (payload \<times> session_key) option) manager_op" where
  "ChangePassword_prepare X ev i currentPassword newPassword =
     sbind (slift (validateNewPassword newPassword)) (\<lambda>_.
     sbind (lookupFile i) (\<lambda>f.
     sbind sget (\<lambda>m.
     sbind (slift (checkUnlockCooldown i (ev_t1 ev) m)) (\<lambda>_.
     case vault_OpenJSON (sx_V X) (sx_J X) currentPassword (sf_Vault f) (space_aad i) of
       Inl e \<Rightarrow>
         sbind (smodify (if e = ErrInvalidPassword then recordUnlockFailure ev i else id)) (\<lambda>_. sfail (VaultE e))
     | Inr p \<Rightarrow>
     sbind (slift (verifyPayload (sx_W X) f p)) (\<lambda>_.
     sbind (smodify (clearUnlockFailures ev i)) (\<lambda>_.
     sbind (slift (vault_result (vault_SealJSON (sx_V X) (sx_J X) (ev_salt ev) (ev_nonce ev) newPassword p
       (space_aad i) (mg_params m)))) (\<lambda>c.
     sbind sget (\<lambda>m.
     if map_of (mg_sessions m) i = None then sret (c, None)
     else sbind (slift (vault_result (vault_UnlockJSON (sx_V X) (sx_J X) newPassword c (space_aad i)))) (\<lambda>refreshed.
       sret (c, Some refreshed))))))))))"

definition ChangePassword_commit ::
  "step_env \<Rightarrow> string \<Rightarrow> container \<Rightarrow> (payload \<times> session_key) option \<Rightarrow> unit manager_op" where
  "ChangePassword_commit ev i c refreshed =
     sbind (lookupFile i) (\<lambda>f.
     sbind (saveAndPut ev i (f\<lparr>sf_Vault := c, sf_UpdatedAt := ev_now ev\<rparr>)) (\<lambda>_.
     sbind sget (\<lambda>m.
     case (map_of (mg_sessions m) i, refreshed) of
       (Some _, Some (p, k)) \<Rightarrow>
         sbind (smodify (clearSessionLocked i)) (\<lambda>_.
         smodify (putSession i \<lparr>ss_payload = p, ss_key = k, ss_lastUsed = ev_now ev, ss_sendGrant = 0\<rparr>))
     | _ \<Rightarrow> sret ())))"

definition ChangePassword :: "space_ctx \<Rightarrow> step_env \<Rightarrow> string \<Rightarrow> string \<Rightarrow> string \<Rightarrow> unit manager_op" where
  "ChangePassword X ev i currentPassword newPassword =
     sbind (ChangePassword_prepare X ev i currentPassword newPassword) (\<lambda>(c, refreshed).
     ChangePassword_commit ev i c refreshed)"

definition Rename :: "step_env \<Rightarrow> string \<Rightarrow> string \<Rightarrow> space_summary manager_op" where
  "Rename ev i name =
     sbind (scheck (TrimSpace name \<noteq> []) (SpaceErr ''space name is required'')) (\<lambda>_.
     sbind (lookupFile i) (\<lambda>f.
     let f = f\<lparr>sf_Name := TrimSpace name, sf_UpdatedAt := ev_now ev\<rparr>
     in sbind (saveAndPut ev i f) (\<lambda>_. sbind sget (\<lambda>m. sret (summaryLocked m f)))))"

section \<open>Creating accounts\<close>

text \<open>The lowest index that is not used, counted up in \<open>uint32\<close>.\<close>

function next_index :: "u32 list \<Rightarrow> u32 \<Rightarrow> serr + u32" where
  "next_index used next =
     (if next \<notin> set used then Inr next
      else if next = -1 then Inl (SpaceErr ''derivation index exhausted'')
      else next_index used (next + 1))"
  by pat_completeness auto
termination
proof (relation "measure (\<lambda>(used, next). 2 ^ 32 - unat next)", goal_cases)
  case 1 then show ?case by simp
next
  case (2 used n)
  then have "1 + n \<noteq> 0" by (metis add.inverse_inverse add_eq_0_iff)
  then have "unat (n + 1) = Suc (unat n)" by (simp add: unatSuc add.commute)
  moreover have "unat (n + 1) < 2 ^ 32" using unsigned_less [of "n + 1", where ?'a = nat] by simp
  ultimately show ?case by simp
qed

declare next_index.simps [simp del]

text \<open>The first element with \<open>P\<close> changed by \<open>f\<close>, and that element; \<open>None\<close> when there is none.\<close>

fun update_first :: "('a \<Rightarrow> bool) \<Rightarrow> ('a \<Rightarrow> 'a) \<Rightarrow> 'a list \<Rightarrow> ('a list \<times> 'a) option" where
  "update_first P f [] = None"
| "update_first P f (x # xs) =
     (if P x then Some (f x # xs, f x)
      else case update_first P f xs of None \<Rightarrow> None | Some (ys, y) \<Rightarrow> Some (x # ys, y))"

definition add_networks :: "string list \<Rightarrow> string \<Rightarrow> int \<Rightarrow> account \<Rightarrow> account" where
  "add_networks networkIDs label now a =
     a\<lparr>ac_NetworkIDs := foldl appendNetwork (ac_NetworkIDs a) networkIDs,
       ac_Label := (if ac_Label a = [] then TrimSpace label else ac_Label a), ac_UpdatedAt := now\<rparr>"

definition used_indexes :: "string list \<Rightarrow> account list \<Rightarrow> u32 list" where
  "used_indexes networkIDs items =
     map (\<lambda>a. the (ac_Index a)) (filter (\<lambda>a. ac_Kind a = KindDerived \<and> ac_Index a \<noteq> None \<and>
       list_ex (BoundTo a) networkIDs) items)"

definition DeriveNetworks ::
  "space_ctx \<Rightarrow> step_env \<Rightarrow> string \<Rightarrow> string list \<Rightarrow> family \<Rightarrow> string \<Rightarrow> account manager_op" where
  "DeriveNetworks X ev i networkIDs family label =
     sbind (slift (networkList networkIDs)) (\<lambda>networkIDs.
     sbind (slift (account_result (CurveOf family))) (\<lambda>_.
     sbind (unlockedLocked (ev_now ev) i) (\<lambda>(f, p).
     sbind (scheck (length (py_Mnemonic p) \<noteq> 0) ErrNoSeed) (\<lambda>_.
     sbind (slift (next_index (used_indexes networkIDs (sf_Accounts f)) 0)) (\<lambda>next.
     case update_first (\<lambda>a. \<not> (ac_Kind a \<noteq> KindDerived \<or> ac_Family a \<noteq> family \<or> ac_Index a \<noteq> Some next))
         (add_networks networkIDs label (ev_now ev)) (sf_Accounts f) of
       Some (items, item) \<Rightarrow>
         sbind (saveAndPut ev i (f\<lparr>sf_Accounts := items, sf_UpdatedAt := ev_now ev\<rparr>)) (\<lambda>_. sret item)
     | None \<Rightarrow>
     sbind (slift (account_result (DerivedAddress (sx_W X) (py_Mnemonic p) (py_BIP39Passphrase p) family next))) (\<lambda>address.
     sbind (slift (accountQuota f)) (\<lambda>_.
     sbind (slift (newID ''acc_'' (ev_id1 ev))) (\<lambda>accountID.
     let created = \<lparr>ac_ID = accountID, ac_Label = TrimSpace label, ac_Kind = KindDerived, ac_Family = family,
           ac_NetworkIDs = networkIDs, ac_Addresses = [(family, address)], ac_Index = Some next,
           ac_DerivationProfile = ''bip44-v1'', ac_KeyRef = [], ac_Fingerprint = [], ac_ImportedAt = None,
           ac_CreatedAt = ev_now ev, ac_UpdatedAt = ev_now ev\<rparr>
     in sbind (saveAndPut ev i (f\<lparr>sf_Accounts := sf_Accounts f @ [created], sf_UpdatedAt := ev_now ev\<rparr>)) (\<lambda>_.
        sret created)))))))))"

definition ImportNetworks ::
  "space_ctx \<Rightarrow> step_env \<Rightarrow> string \<Rightarrow> string list \<Rightarrow> family \<Rightarrow> string \<Rightarrow> string \<Rightarrow> account manager_op" where
  "ImportNetworks X ev i networkIDs family label privateKey =
     sbind (slift (networkList networkIDs)) (\<lambda>networkIDs.
     sbind (slift (account_result (CurveOf family))) (\<lambda>curve.
     sbind (slift (parseImportedKey (sx_W X) curve privateKey)) (\<lambda>(raw, fingerprint, addresses).
     sbind (unlockedLocked (ev_now ev) i) (\<lambda>(f, p).
     case find (\<lambda>a. ac_Kind a = KindImported \<and> ac_Fingerprint a = fingerprint) (sf_Accounts f) of
       Some item \<Rightarrow>
         sbind (scheck (list_ex (\<lambda>n. \<not> BoundTo item n) networkIDs) ErrDuplicateKey) (\<lambda>_.
         case update_first (\<lambda>a. ac_Kind a = KindImported \<and> ac_Fingerprint a = fingerprint)
             (add_networks networkIDs label (ev_now ev)) (sf_Accounts f) of
           Some (items, item) \<Rightarrow>
             sbind (saveAndPut ev i (f\<lparr>sf_Accounts := items, sf_UpdatedAt := ev_now ev\<rparr>)) (\<lambda>_. sret item)
         | None \<Rightarrow> sret item)
     | None \<Rightarrow>
     sbind (slift (accountQuota f)) (\<lambda>_.
     sbind (slift (newID ''key_'' (ev_id2 ev))) (\<lambda>keyRef.
     sbind (slift (newID ''acc_'' (ev_id1 ev))) (\<lambda>accountID.
     let created = \<lparr>ac_ID = accountID, ac_Label = TrimSpace label, ac_Kind = KindImported, ac_Family = [],
           ac_NetworkIDs = networkIDs, ac_Addresses = addresses, ac_Index = None,
           ac_DerivationProfile = [], ac_KeyRef = keyRef, ac_Fingerprint = fingerprint,
           ac_ImportedAt = Some (ev_now ev), ac_CreatedAt = ev_now ev, ac_UpdatedAt = ev_now ev\<rparr>;
         p' = p\<lparr>py_ImportedKeys := (py_ImportedKeys p)(keyRef \<mapsto>
           \<lparr>ke_Curve = curve, ke_PrivateKey = raw, ke_ImportedAt = ev_now ev\<rparr>)\<rparr>;
         f = f\<lparr>sf_Accounts := sf_Accounts f @ [created], sf_UpdatedAt := ev_now ev\<rparr>
     in sbind (smodify (setSessionPayload i p')) (\<lambda>_.
        \<lambda>m. case resealAndSaveLocked X ev f p' i m of
            (m, Inl e) \<Rightarrow> (setSessionPayload i (p'\<lparr>py_ImportedKeys := (py_ImportedKeys p')(keyRef := None)\<rparr>) m, Inl e)
          | (m, Inr f) \<Rightarrow> (putFile i f m, Inr created)))))))))"

section \<open>Using keys\<close>

definition ExportPrivateKey ::
  "space_ctx \<Rightarrow> step_env \<Rightarrow> string \<Rightarrow> string \<Rightarrow> family \<Rightarrow> string \<Rightarrow> string manager_op" where
  "ExportPrivateKey X ev i accountID family password =
     sbind (slift (account_result (CurveOf family))) (\<lambda>_.
     sbind (confirmPassword X ev i password) (\<lambda>_.
     sbind (unlockedLocked (ev_now ev) i) (\<lambda>(f, p).
     sbind (slift (findAccount (sf_Accounts f) accountID)) (\<lambda>item.
     sbind (slift (privateKeyFor (sx_W X) item p family)) (\<lambda>key.
     slift (key_export (sx_W X) key))))))"

text \<open>\<open>withKey\<close> up to the call of \<open>fn\<close>: the key \<open>fn\<close> is lent.\<close>

definition withKey ::
  "space_ctx \<Rightarrow> step_env \<Rightarrow> string \<Rightarrow> string \<Rightarrow> string \<Rightarrow> family \<Rightarrow> string \<Rightarrow> signing_key manager_op" where
  "withKey X ev i accountID networkID family want =
     sbind (slift (account_result (CurveOf family))) (\<lambda>curve.
     sbind (scheck (curve = want) ErrSignerMismatch) (\<lambda>_.
     sbind (unlockedLocked (ev_now ev) i) (\<lambda>(f, p).
     sbind (slift (findAccount (sf_Accounts f) accountID)) (\<lambda>item.
     sbind (scheck (BoundTo item networkID) ErrNetworkBinding) (\<lambda>_.
     slift (privateKeyFor (sx_W X) item p family))))))"

definition WithSigner ::
  "space_ctx \<Rightarrow> step_env \<Rightarrow> string \<Rightarrow> string \<Rightarrow> string \<Rightarrow> family \<Rightarrow> signing_key manager_op" where
  "WithSigner X ev i accountID networkID family = withKey X ev i accountID networkID family CurveSecp256k1"

definition WithMessageSigner ::
  "space_ctx \<Rightarrow> step_env \<Rightarrow> string \<Rightarrow> string \<Rightarrow> string \<Rightarrow> family \<Rightarrow> signing_key manager_op" where
  "WithMessageSigner X ev i accountID networkID family = withKey X ev i accountID networkID family CurveEd25519"

definition WithKey ::
  "space_ctx \<Rightarrow> step_env \<Rightarrow> string \<Rightarrow> string \<Rightarrow> string \<Rightarrow> family \<Rightarrow> signing_key manager_op" where
  "WithKey X ev i accountID networkID family =
     sbind (slift (account_result (CurveOf family))) (\<lambda>curve.
     if curve = CurveEd25519 then WithMessageSigner X ev i accountID networkID family
     else WithSigner X ev i accountID networkID family)"

definition Mnemonic :: "space_ctx \<Rightarrow> step_env \<Rightarrow> string \<Rightarrow> string \<Rightarrow> string manager_op" where
  "Mnemonic X ev i password =
     sbind (confirmPassword X ev i password) (\<lambda>_.
     sbind (unlockedLocked (ev_now ev) i) (\<lambda>(_, p).
     sbind (scheck (length (py_Mnemonic p) \<noteq> 0) ErrNoSeed) (\<lambda>_.
     sret (py_Mnemonic p))))"

text \<open>The backup is the file; encoding it as JSON is left to the caller of the model.\<close>

definition Backup :: "space_ctx \<Rightarrow> step_env \<Rightarrow> string \<Rightarrow> string \<Rightarrow> space_file manager_op" where
  "Backup X ev i password = sbind (confirmPassword X ev i password) (\<lambda>_. lookupFile i)"

section \<open>The spending step-up\<close>

definition defaultSendGrantTTL :: int where "defaultSendGrantTTL = 5 * 60 * 1000000000"

definition SetSendConfirmation :: "bool \<Rightarrow> int \<Rightarrow> unit manager_op" where
  "SetSendConfirmation enabled ttl =
     smodify (\<lambda>m. m\<lparr>mg_confirmSends := enabled,
       mg_sendGrantTTL := (if ttl \<le> 0 then defaultSendGrantTTL else ttl)\<rparr>)"

definition ConfirmSend :: "space_ctx \<Rightarrow> step_env \<Rightarrow> string \<Rightarrow> string \<Rightarrow> int manager_op" where
  "ConfirmSend X ev i password =
     sbind (confirmPassword X ev i password) (\<lambda>_.
     sbind (scheck (\<not> ev_ctx_ended ev) (SpaceErr ''context'')) (\<lambda>_.
     sbind (smodify (expireLocked (ev_now ev))) (\<lambda>_.
     sbind sget (\<lambda>m.
     case map_of (mg_sessions m) i of
       None \<Rightarrow> sfail ErrLocked
     | Some ss \<Rightarrow>
         sbind (smodify (putSession i (ss\<lparr>ss_lastUsed := ev_now ev,
           ss_sendGrant := ev_now ev + mg_sendGrantTTL m\<rparr>))) (\<lambda>_.
         sret (ev_now ev + mg_sendGrantTTL m))))))"

definition RequireSendConfirmation :: "step_env \<Rightarrow> string \<Rightarrow> unit manager_op" where
  "RequireSendConfirmation ev i =
     sbind (smodify (expireLocked (ev_now ev))) (\<lambda>_.
     sbind sget (\<lambda>m.
     if \<not> mg_confirmSends m then sret ()
     else case map_of (mg_sessions m) i of
       None \<Rightarrow> sfail ErrLocked
     | Some ss \<Rightarrow>
         scheck (\<not> (ss_sendGrant ss = 0 \<or> \<not> ev_now ev < ss_sendGrant ss)) ErrSendConfirmationRequired))"

section \<open>Changing accounts\<close>

definition bind_account :: "family \<Rightarrow> string \<Rightarrow> int \<Rightarrow> account \<Rightarrow> serr + account" where
  "bind_account family networkID now item =
     rbind (if ac_Kind item = KindDerived then
              if ac_Family item = [] then
                rcheck (address_of (ac_Addresses item) family \<noteq> []) ErrNetworkBinding
                  (Inr (item\<lparr>ac_Family := family,
                     ac_Addresses := [(family, address_of (ac_Addresses item) family)]\<rparr>))
              else rcheck (ac_Family item = family) ErrNetworkBinding (Inr item)
            else Inr item) (\<lambda>item.
     rcheck (address_of (ac_Addresses item) family \<noteq> []) ErrNetworkBinding (
     Inr (item\<lparr>ac_NetworkIDs := appendNetwork (ac_NetworkIDs item) networkID, ac_UpdatedAt := now\<rparr>)))"

definition unbind_account :: "string \<Rightarrow> int \<Rightarrow> account \<Rightarrow> serr + account" where
  "unbind_account networkID now item =
     rcheck (BoundTo item networkID) ErrNetworkBinding (
     rcheck (length (ac_NetworkIDs item) \<noteq> 1) ErrLastNetwork (
     Inr (item\<lparr>ac_NetworkIDs := filter (\<lambda>n. n \<noteq> networkID) (ac_NetworkIDs item), ac_UpdatedAt := now\<rparr>)))"

text \<open>The loop the three account editors share: the first account with the identifier is replaced
  by what \<open>g\<close> makes of it, and the file is saved.\<close>

definition edit_account :: "step_env \<Rightarrow> string \<Rightarrow> string \<Rightarrow> (account \<Rightarrow> serr + account) \<Rightarrow> account manager_op" where
  "edit_account ev i accountID g =
     sbind (lookupFile i) (\<lambda>f.
     sbind (slift (findAccount (sf_Accounts f) accountID)) (\<lambda>item.
     sbind (slift (g item)) (\<lambda>item'.
     case update_first (\<lambda>a. ac_ID a = accountID) (\<lambda>_. item') (sf_Accounts f) of
       None \<Rightarrow> sfail ErrAccountNotFound
     | Some (items, _) \<Rightarrow>
         sbind (saveAndPut ev i (f\<lparr>sf_Accounts := items, sf_UpdatedAt := ev_now ev\<rparr>)) (\<lambda>_. sret item'))))"

definition BindNetwork :: "step_env \<Rightarrow> string \<Rightarrow> string \<Rightarrow> string \<Rightarrow> family \<Rightarrow> account manager_op" where
  "BindNetwork ev i accountID networkID family =
     sbind (scheck (networkID \<noteq> []) (SpaceErr ''network is required'')) (\<lambda>_.
     sbind (slift (account_result (CurveOf family))) (\<lambda>_.
     edit_account ev i accountID (bind_account family networkID (ev_now ev))))"

definition UnbindNetwork :: "step_env \<Rightarrow> string \<Rightarrow> string \<Rightarrow> string \<Rightarrow> account manager_op" where
  "UnbindNetwork ev i accountID networkID =
     edit_account ev i accountID (unbind_account networkID (ev_now ev))"

definition RenameAccount :: "step_env \<Rightarrow> string \<Rightarrow> string \<Rightarrow> string \<Rightarrow> account manager_op" where
  "RenameAccount ev i accountID label =
     edit_account ev i accountID (\<lambda>item. Inr (item\<lparr>ac_Label := TrimSpace label, ac_UpdatedAt := ev_now ev\<rparr>))"

text \<open>\<open>slices.Delete\<close> of the first account with the identifier.\<close>

fun delete_first :: "('a \<Rightarrow> bool) \<Rightarrow> 'a list \<Rightarrow> 'a list" where
  "delete_first P [] = []"
| "delete_first P (x # xs) = (if P x then xs else x # delete_first P xs)"

definition DeleteAccount :: "space_ctx \<Rightarrow> step_env \<Rightarrow> string \<Rightarrow> string \<Rightarrow> string \<Rightarrow> unit manager_op" where
  "DeleteAccount X ev i accountID password =
     sbind (confirmPassword X ev i password) (\<lambda>_.
     sbind (unlockedLocked (ev_now ev) i) (\<lambda>(f, p).
     case find (\<lambda>a. ac_ID a = accountID) (sf_Accounts f) of
       None \<Rightarrow> sfail ErrAccountNotFound
     | Some removed \<Rightarrow>
     let f = f\<lparr>sf_Accounts := delete_first (\<lambda>a. ac_ID a = accountID) (sf_Accounts f), sf_UpdatedAt := ev_now ev\<rparr>
     in if ac_Kind removed \<noteq> KindImported then saveAndPut ev i f
     else
       let p' = p\<lparr>py_ImportedKeys := (py_ImportedKeys p)(ac_KeyRef removed := None)\<rparr>
       in sbind (smodify (setSessionPayload i p')) (\<lambda>_.
          \<lambda>m. case resealAndSaveLocked X ev f p' i m of
              (m, Inl e) \<Rightarrow>
                (setSessionPayload i (case py_ImportedKeys p (ac_KeyRef removed) of
                   None \<Rightarrow> p'
                 | Some entry \<Rightarrow> p'\<lparr>py_ImportedKeys := (py_ImportedKeys p')(ac_KeyRef removed \<mapsto> entry)\<rparr>) m, Inl e)
            | (m, Inr f) \<Rightarrow> (putFile i f m, Inr ()))))"

section \<open>Starting and migrating\<close>

text \<open>\<open>scan\<close>: the directories of the home, each with its decoded space.json (\<open>None\<close>: no such
  file). The first bad file ends it.\<close>

fun scan :: "(string \<times> space_file option) list \<Rightarrow> (string \<times> space_file) list \<Rightarrow> serr + (string \<times> space_file) list" where
  "scan [] files = Inr files"
| "scan ((name, entry) # rest) files =
     (if \<not> ValidID name ''spc_'' then scan rest files
      else case entry of
          None \<Rightarrow> scan rest files
        | Some f \<Rightarrow> rbind (validateFile f name) (\<lambda>_. scan rest (AList.update (sf_ID f) f files)))"

definition NewManager ::
  "vault_params \<Rightarrow> int \<Rightarrow> (string \<times> space_file option) list \<Rightarrow> (string \<times> attempt_record) list \<Rightarrow> serr + manager" where
  "NewManager params autoLock entries attempts =
     rbind (scan entries []) (\<lambda>files.
     Inr \<lparr>mg_params = params, mg_autoLock = autoLock, mg_confirmSends = True,
       mg_sendGrantTTL = defaultSendGrantTTL, mg_files = files, mg_sessions = [],
       mg_disk = files, mg_attempts = attempts\<rparr>)"

record legacy_account =
  la_Index :: u32
  la_Label :: string
  la_TronAddress :: string

fun verify_legacy ::
  "wallet_lib \<Rightarrow> string \<Rightarrow> string \<Rightarrow> (u32 \<times> addresses) list \<Rightarrow> legacy_account list \<Rightarrow> serr + (u32 \<times> addresses) list" where
  "verify_legacy W mnemonic passphrase verified [] = Inr verified"
| "verify_legacy W mnemonic passphrase verified (old # rest) =
     rcheck (map_of verified (la_Index old) = None) (SpaceErr ''duplicate legacy derivation index'') (
     rbind (account_result (DerivedAddresses W mnemonic passphrase (la_Index old))) (\<lambda>addresses.
     rcheck (address_of addresses FamilyTron = la_TronAddress old) (SpaceErr ''legacy address mismatch'') (
     verify_legacy W mnemonic passphrase (AList.update (la_Index old) addresses verified) rest)))"

definition validateLegacy ::
  "wallet_lib \<Rightarrow> string \<Rightarrow> string \<Rightarrow> legacy_account list \<Rightarrow> serr + (u32 \<times> addresses) list" where
  "validateLegacy W mnemonic passphrase legacy =
     rbind (account_result (ValidateMnemonic W mnemonic)) (\<lambda>_.
     rcheck (length legacy \<noteq> 0) (SpaceErr ''legacy wallet list is empty'') (
     verify_legacy W mnemonic passphrase [] legacy))"

text \<open>One record per legacy wallet, with its random identifier.\<close>

definition legacy_record ::
  "step_env \<Rightarrow> (u32 \<times> addresses) list \<Rightarrow> legacy_account \<times> byte list option \<Rightarrow> serr + account" where
  "legacy_record ev verified = (\<lambda>(old, raw).
     rbind (newID ''acc_'' raw) (\<lambda>accountID.
     Inr \<lparr>ac_ID = accountID, ac_Label = la_Label old, ac_Kind = KindDerived, ac_Family = [],
       ac_NetworkIDs = [], ac_Addresses = (case map_of verified (la_Index old) of None \<Rightarrow> [] | Some a \<Rightarrow> a),
       ac_Index = Some (la_Index old), ac_DerivationProfile = ''bip44-v1'', ac_KeyRef = [],
       ac_Fingerprint = [], ac_ImportedAt = None, ac_CreatedAt = ev_t1 ev, ac_UpdatedAt = ev_t1 ev\<rparr>))"

definition ImportLegacy ::
  "space_ctx \<Rightarrow> step_env \<Rightarrow> create_request \<Rightarrow> legacy_account list \<Rightarrow> byte list option list \<Rightarrow> space_summary manager_op" where
  "ImportLegacy X ev req legacy ids =
     sbind (slift (validateNewPassword (cq_Password req))) (\<lambda>_.
     let mnemonic = NormalizeMnemonic (cq_Mnemonic req) in
     sbind (slift (validateLegacy (sx_W X) mnemonic (cq_BIP39Passphrase req) legacy)) (\<lambda>verified.
     sbind (slift (newID ''spc_'' (ev_id1 ev))) (\<lambda>i.
     let p = \<lparr>py_Version = 1, py_Mnemonic = mnemonic, py_BIP39Passphrase = cq_BIP39Passphrase req,
           py_ImportedKeys = Map.empty, py_CreatedAt = ev_t1 ev\<rparr>
     in sbind (slift (rmap (legacy_record ev verified) (zip legacy (ids @ replicate (length legacy) None)))) (\<lambda>items.
     sbind sget (\<lambda>m.
     sbind (slift (vault_result (vault_SealJSON (sx_V X) (sx_J X) (ev_salt ev) (ev_nonce ev) (cq_Password req) p
       (space_aad i) (mg_params m)))) (\<lambda>c.
     sbind (slift (vault_result (vault_Unlock (sx_V X) (cq_Password req) c (space_aad i)))) (\<lambda>(_, k).
     let f = \<lparr>sf_SchemaVersion = SchemaVersion, sf_ID = i, sf_Name = space_name (cq_Name req),
           sf_CreatedAt = ev_t1 ev, sf_UpdatedAt = ev_t1 ev,
           sf_Accounts = sort_key (\<lambda>a. the (ac_Index a)) items, sf_Vault = c\<rparr>
     in sbind (saveAndPut ev i f) (\<lambda>_.
     sbind (smodify (putSession i \<lparr>ss_payload = p, ss_key = k, ss_lastUsed = ev_t1 ev, ss_sendGrant = 0\<rparr>)) (\<lambda>_.
     sbind sget (\<lambda>m. sret (summaryLocked m f)))))))))))"

section \<open>The API as a set of steps\<close>

text \<open>Every operation that changes the state, with its arguments, as a call that runs to its end;
  \<open>run_space_op\<close> forgets the result. \<open>Expire\<close> is the background sweep, \<open>ImportLegacy\<close> is run by the command
  that migrates an old home. \<open>ChangePassword\<close>, \<open>Unlock\<close>, \<open>Create\<close> and the password checks leave the mutex
  for a key derivation; here nothing runs meanwhile, their halves are above.\<close>

datatype space_op =
    OpCreate step_env create_request
  | OpImportLegacy step_env create_request "legacy_account list" "byte list option list"
  | OpUnlock step_env string string
  | OpLock string
  | OpRename step_env string string
  | OpChangePassword step_env string string string
  | OpDerive step_env string "string list" family string
  | OpImport step_env string "string list" family string string
  | OpExport step_env string string family string
  | OpWithKey step_env string string string family
  | OpMnemonic step_env string string
  | OpBackup step_env string string
  | OpSetSendConfirmation bool int
  | OpConfirmSend step_env string string
  | OpRequireSendConfirmation step_env string
  | OpSetAutoLock step_env int
  | OpGet step_env string
  | OpList step_env
  | OpBind step_env string string string family
  | OpUnbind step_env string string string
  | OpRenameAccount step_env string string string
  | OpDelete step_env string string string
  | OpExpire step_env

fun run_space_op :: "space_ctx \<Rightarrow> space_op \<Rightarrow> manager \<Rightarrow> manager" where
  "run_space_op X (OpCreate ev req) m = fst (Create X ev req m)"
| "run_space_op X (OpImportLegacy ev req legacy ids) m = fst (ImportLegacy X ev req legacy ids m)"
| "run_space_op X (OpUnlock ev i pw) m = fst (Unlock X ev i pw m)"
| "run_space_op X (OpLock i) m = fst (Lock i m)"
| "run_space_op X (OpRename ev i n) m = fst (Rename ev i n m)"
| "run_space_op X (OpChangePassword ev i pw new) m = fst (ChangePassword X ev i pw new m)"
| "run_space_op X (OpDerive ev i ns fam lbl) m = fst (DeriveNetworks X ev i ns fam lbl m)"
| "run_space_op X (OpImport ev i ns fam lbl k) m = fst (ImportNetworks X ev i ns fam lbl k m)"
| "run_space_op X (OpExport ev i a fam pw) m = fst (ExportPrivateKey X ev i a fam pw m)"
| "run_space_op X (OpWithKey ev i a n fam) m = fst (WithKey X ev i a n fam m)"
| "run_space_op X (OpMnemonic ev i pw) m = fst (Mnemonic X ev i pw m)"
| "run_space_op X (OpBackup ev i pw) m = fst (Backup X ev i pw m)"
| "run_space_op X (OpSetSendConfirmation b ttl) m = fst (SetSendConfirmation b ttl m)"
| "run_space_op X (OpConfirmSend ev i pw) m = fst (ConfirmSend X ev i pw m)"
| "run_space_op X (OpRequireSendConfirmation ev i) m = fst (RequireSendConfirmation ev i m)"
| "run_space_op X (OpSetAutoLock ev d) m = fst (SetAutoLock ev d m)"
| "run_space_op X (OpGet ev i) m = fst (Get ev i m)"
| "run_space_op X (OpList ev) m = fst (List ev m)"
| "run_space_op X (OpBind ev i a n fam) m = fst (BindNetwork ev i a n fam m)"
| "run_space_op X (OpUnbind ev i a n) m = fst (UnbindNetwork ev i a n m)"
| "run_space_op X (OpRenameAccount ev i a lbl) m = fst (RenameAccount ev i a lbl m)"
| "run_space_op X (OpDelete ev i a pw) m = fst (DeleteAccount X ev i a pw m)"
| "run_space_op X (OpExpire ev) m = expireLocked (ev_now ev) m"

end
