(* ===== verification/FileStore.thy ===== *)
theory FileStore
  imports SpaceManager "HOL-Library.Multiset"
begin

text \<open>
  What the stores of operations and of top-up plans share: one JSON file per space, read in
  full and replaced in full under a mutex.

  A file is missing, unreadable (an I/O or decoding error) or holds a value; the state of a store
  maps the identifier of a space to its file. A Go map is an association list with distinct keys;
  the order in which Go visits it is an argument of the operations that iterate, so that what is
  proved holds for every order.
\<close>

datatype 'a disk_file = Missing | Unreadable | Holds 'a

type_synonym 'a file_state = "string \<Rightarrow> 'a disk_file"

definition save_file :: "write_outcome \<Rightarrow> 'e \<Rightarrow> string \<Rightarrow> 'a \<Rightarrow> ('a file_state, 'e, unit) op" where
  "save_file w err i v s =
     (case w of
        Written \<Rightarrow> (s(i := Holds v), Inr ())
      | WriteFailed \<Rightarrow> (s, Inl err)
      | WrittenWithError \<Rightarrow> (s(i := Holds v), Inl err))"

lemma save_file_cases:
  obtains "fst (save_file w err i v s) = s" "snd (save_file w err i v s) \<noteq> Inr ()"
  | "fst (save_file w err i v s) = s(i := Holds v)"
  by (cases w) (auto simp: save_file_def)

lemma save_file_Inr: "save_file w err i v s = (t, Inr u) \<longleftrightarrow> w = Written \<and> t = s(i := Holds v)"
  by (auto simp: save_file_def split: write_outcome.splits)

lemma keeps_save: "(\<And>s. I s \<Longrightarrow> I (s(i := Holds v))) \<Longrightarrow> keeps I (save_file w err i v)"
  by (auto simp: keeps_def save_file_def split: write_outcome.splits)

text \<open>A visiting order: some rearrangement of the entries.\<close>

definition visits :: "('a list \<Rightarrow> 'a list) \<Rightarrow> bool" where
  "visits ord \<longleftrightarrow> (\<forall>xs. mset (ord xs) = mset xs)"

lemma visits_set: "visits ord \<Longrightarrow> set (ord xs) = set xs"
  by (metis visits_def mset_eq_setD)

section \<open>Runs of a store\<close>

text \<open>
  A store runs events one after the other (its mutex orders them). \<open>store_runs\<close> is the contract
  of a store: an invariant every event keeps; \<open>store_guards\<close> adds a fact that events of
  some kind keep. Both carry over to runs of any length.
\<close>

definition run_all :: "('e \<Rightarrow> 's \<Rightarrow> 's) \<Rightarrow> 'e list \<Rightarrow> 's \<Rightarrow> 's" where
  "run_all run es s = fold run es s"

lemma run_all_simps [simp]:
  "run_all run [] s = s" "run_all run (e # es) s = run_all run es (run e s)"
  "run_all run (es @ es') s = run_all run es' (run_all run es s)"
  by (simp_all add: run_all_def)

locale store_runs =
  fixes run :: "'e \<Rightarrow> 's \<Rightarrow> 's" and fair :: "'e \<Rightarrow> bool" and inv :: "'s \<Rightarrow> bool"
  assumes inv_run: "inv s \<Longrightarrow> fair e \<Longrightarrow> inv (run e s)"
begin

lemma inv_runs: "inv s \<Longrightarrow> \<forall>e\<in>set es. fair e \<Longrightarrow> inv (run_all run es s)"
  by (induction es arbitrary: s) (auto intro: inv_run)

end

locale store_guards = store_runs run fair inv
  for run :: "'e \<Rightarrow> 's \<Rightarrow> 's" and fair :: "'e \<Rightarrow> bool" and inv :: "'s \<Rightarrow> bool" +
  fixes harmless :: "'e \<Rightarrow> bool" and fact :: "'s \<Rightarrow> bool"
  assumes fact_run: "inv s \<Longrightarrow> fair e \<Longrightarrow> harmless e \<Longrightarrow> fact s \<Longrightarrow> fact (run e s)"
begin

lemma fact_runs:
  "inv s \<Longrightarrow> \<forall>e\<in>set es. fair e \<and> harmless e \<Longrightarrow> fact s \<Longrightarrow> fact (run_all run es s)"
  by (induction es arbitrary: s) (auto intro: inv_run fact_run)

end

lemma visits_id: "visits (\<lambda>xs. xs)" "visits rev"
  by (simp_all add: visits_def)

end
