(* ===== verification/OperationStore.thy ===== *)
theory OperationStore
  imports FileStore
begin

text \<open>
  Idempotency keys and the state of transactions (internal/operation/store.go, status.go).
  One definition per function; \<open>store_event\<close> lists the calls that may change a file.
\<close>

section \<open>Records\<close>

definition StatusBuilding :: string where "StatusBuilding = ''building''"
definition StatusBroadcasting :: string where "StatusBroadcasting = ''broadcasting''"
definition StatusPending :: string where "StatusPending = ''pending''"
definition StatusConfirmed :: string where "StatusConfirmed = ''confirmed''"
definition StatusFailed :: string where "StatusFailed = ''failed''"
definition StatusBroadcastUnknown :: string where "StatusBroadcastUnknown = ''broadcast_unknown''"

lemmas status_defs = StatusBuilding_def StatusBroadcasting_def StatusPending_def StatusConfirmed_def
  StatusFailed_def StatusBroadcastUnknown_def

definition InFlight :: "string \<Rightarrow> bool" where
  "InFlight status =
     (if status = StatusBroadcasting \<or> status = StatusBroadcastUnknown \<or> status = StatusPending \<or>
        status = StatusConfirmed then True else False)"

definition resolved :: "string \<Rightarrow> bool" where
  "resolved status \<longleftrightarrow> status = StatusConfirmed \<or> status = StatusFailed"

record operation =
  op_Key :: string
  op_RequestHash :: string
  op_NetworkID :: string
  op_TxHash :: string
  op_Status :: string
  op_CreatedAt :: int
  op_UpdatedAt :: int
  op_LastValidBlockHeight :: u64

record op_file =
  of_SchemaVersion :: int
  of_Operations :: "(string \<times> operation) list"

datatype operr = ErrConflict | OpErr string

type_synonym 'a store_op = "(op_file file_state, operr, 'a) op"

record store_env =
  se_now :: int
  se_save :: write_outcome
  se_visit :: "(string \<times> operation) list \<Rightarrow> (string \<times> operation) list"

definition op_SchemaVersion :: int where "op_SchemaVersion = 1"
definition maxOperations :: nat where "maxOperations = 512"
definition retention :: int where "retention = 30 * 24 * 3600 * 1000000000"
definition maxKeyLength :: nat where "maxKeyLength = 128"

definition NormalizeKey :: "string \<Rightarrow> string" where
  "NormalizeKey key = TrimSpace key"

text \<open>\<open>RequestHash\<close>; the encoder and the hash function are its arguments.\<close>

definition RequestHash :: "('v \<Rightarrow> byte list option) \<Rightarrow> (byte list \<Rightarrow> byte list) \<Rightarrow> 'v \<Rightarrow> operr + string" where
  "RequestHash marshal sha256 value =
     (case marshal value of None \<Rightarrow> Inl (OpErr ''encode canonical request'') | Some data \<Rightarrow> Inr (HexEncode (sha256 data)))"

section \<open>The file\<close>

definition loadLocked :: "string \<Rightarrow> op_file store_op" where
  "loadLocked spaceID s =
     (s, case s spaceID of
           Missing \<Rightarrow> Inr \<lparr>of_SchemaVersion = op_SchemaVersion, of_Operations = []\<rparr>
         | Unreadable \<Rightarrow> Inl (OpErr ''decode operations'')
         | Holds f \<Rightarrow> rcheck (of_SchemaVersion f = op_SchemaVersion) (OpErr ''unsupported operations schema version'') (Inr f))"

definition op_save :: "write_outcome \<Rightarrow> string \<Rightarrow> op_file \<Rightarrow> unit store_op" where
  "op_save w spaceID f = save_file w (OpErr ''write operations'') spaceID f"

text \<open>Dropping records from the front of the list until the file is below its bound.\<close>

fun drop_oldest :: "operation list \<Rightarrow> (string \<times> operation) list \<Rightarrow> (string \<times> operation) list" where
  "drop_oldest [] ops = ops"
| "drop_oldest (item # rest) ops =
     (if length ops < maxOperations then ops else drop_oldest rest (AList.delete (op_Key item) ops))"

definition droppable :: "int \<Rightarrow> operation \<Rightarrow> bool" where
  "droppable now item \<longleftrightarrow> \<not> (\<not> resolved (op_Status item) \<and> now - op_UpdatedAt item < retention)"

definition prune ::
  "((string \<times> operation) list \<Rightarrow> (string \<times> operation) list) \<Rightarrow> int \<Rightarrow> (string \<times> operation) list
     \<Rightarrow> operr + (string \<times> operation) list" where
  "prune visit now operations =
     (if length operations < maxOperations then Inr operations
      else
        let old = sort_key op_UpdatedAt (filter (droppable now) (map snd (visit operations)));
            operations = drop_oldest old operations
        in rcheck (\<not> maxOperations \<le> length operations) (OpErr ''operations are still in progress'') (Inr operations))"

section \<open>Operations of the store\<close>

definition Begin ::
  "store_env \<Rightarrow> string \<Rightarrow> string \<Rightarrow> string \<Rightarrow> string \<Rightarrow> (operation \<times> bool) store_op" where
  "Begin ev spaceID key requestHash networkID =
     sbind (scheck (ValidID spaceID ''spc_'') (OpErr ''invalid space id'')) (\<lambda>_.
     let key = NormalizeKey key in
     sbind (scheck (\<not> (key = [] \<or> maxKeyLength < length key)) (OpErr ''Idempotency-Key is required'')) (\<lambda>_.
     sbind (loadLocked spaceID) (\<lambda>current.
     case map_of (of_Operations current) key of
       Some previous \<Rightarrow>
         if op_RequestHash previous \<noteq> requestHash then sfail ErrConflict else sret (previous, True)
     | None \<Rightarrow>
     sbind (slift (prune (se_visit ev) (se_now ev) (of_Operations current))) (\<lambda>ops.
     let created = \<lparr>op_Key = key, op_RequestHash = requestHash, op_NetworkID = networkID, op_TxHash = [],
           op_Status = StatusBuilding, op_CreatedAt = se_now ev, op_UpdatedAt = se_now ev, op_LastValidBlockHeight = 0\<rparr>
     in sbind (op_save (se_save ev) spaceID (current\<lparr>of_Operations := AList.update key created ops\<rparr>)) (\<lambda>_.
        sret (created, False))))))"

definition update_record :: "int \<Rightarrow> string \<Rightarrow> string \<Rightarrow> u64 \<Rightarrow> operation \<Rightarrow> operation" where
  "update_record now txHash status lastValidBlockHeight item =
     item\<lparr>op_TxHash := (if txHash \<noteq> [] then txHash else op_TxHash item),
       op_LastValidBlockHeight := (if lastValidBlockHeight \<noteq> 0 then lastValidBlockHeight else op_LastValidBlockHeight item),
       op_Status := status, op_UpdatedAt := now\<rparr>"

definition store_update ::
  "store_env \<Rightarrow> string \<Rightarrow> string \<Rightarrow> string \<Rightarrow> string \<Rightarrow> u64 \<Rightarrow> operation store_op" where
  "store_update ev spaceID key txHash status lastValidBlockHeight =
     sbind (scheck (ValidID spaceID ''spc_'') (OpErr ''invalid space id'')) (\<lambda>_.
     let key = NormalizeKey key in
     sbind (loadLocked spaceID) (\<lambda>current.
     case map_of (of_Operations current) key of
       None \<Rightarrow> sfail (OpErr ''operation not found'')
     | Some item \<Rightarrow>
         let item = update_record (se_now ev) txHash status lastValidBlockHeight item
         in sbind (op_save (se_save ev) spaceID (current\<lparr>of_Operations := AList.update key item (of_Operations current)\<rparr>)) (\<lambda>_.
            sret item)))"

definition Update :: "store_env \<Rightarrow> string \<Rightarrow> string \<Rightarrow> string \<Rightarrow> string \<Rightarrow> operation store_op" where
  "Update ev spaceID key txHash status = store_update ev spaceID key txHash status 0"

definition UpdateExpiring ::
  "store_env \<Rightarrow> string \<Rightarrow> string \<Rightarrow> string \<Rightarrow> string \<Rightarrow> u64 \<Rightarrow> operation store_op" where
  "UpdateExpiring ev spaceID key txHash status lastValidBlockHeight =
     sbind (scheck (\<not> (txHash = [] \<or> lastValidBlockHeight = 0)) (OpErr ''an expiring transaction needs its id'')) (\<lambda>_.
     store_update ev spaceID key txHash status lastValidBlockHeight)"

definition UpdateByTxHash :: "store_env \<Rightarrow> string \<Rightarrow> string \<Rightarrow> string \<Rightarrow> bool store_op" where
  "UpdateByTxHash ev spaceID txHash status =
     sbind (scheck (ValidID spaceID ''spc_'') (OpErr ''invalid space id'')) (\<lambda>_.
     if txHash = [] then sret False
     else
     sbind (loadLocked spaceID) (\<lambda>current.
     case find (\<lambda>(key, item). op_TxHash item = txHash) (se_visit ev (of_Operations current)) of
       None \<Rightarrow> sret False
     | Some (key, item) \<Rightarrow>
         if op_Status item = status then sret True
         else
           let item = item\<lparr>op_Status := status, op_UpdatedAt := se_now ev\<rparr>
           in sbind (op_save (se_save ev) spaceID (current\<lparr>of_Operations := AList.update key item (of_Operations current)\<rparr>)) (\<lambda>_.
              sret True)))"

definition FindByTxHash :: "store_env \<Rightarrow> string \<Rightarrow> string \<Rightarrow> operation option store_op" where
  "FindByTxHash ev spaceID txHash =
     sbind (scheck (ValidID spaceID ''spc_'') (OpErr ''invalid space id'')) (\<lambda>_.
     if txHash = [] then sret None
     else
     sbind (loadLocked spaceID) (\<lambda>current.
     sret (map_option snd (find (\<lambda>(key, item). op_TxHash item = txHash) (se_visit ev (of_Operations current))))))"

definition op_Get :: "string \<Rightarrow> string \<Rightarrow> operation option store_op" where
  "op_Get spaceID key =
     sbind (scheck (ValidID spaceID ''spc_'') (OpErr ''invalid space id'')) (\<lambda>_.
     sbind (loadLocked spaceID) (\<lambda>current.
     sret (map_of (of_Operations current) (NormalizeKey key))))"

datatype store_event =
    EvBegin store_env string string string string
  | EvUpdate store_env string string string string
  | EvUpdateExpiring store_env string string string string u64
  | EvUpdateByTxHash store_env string string string

fun run_event :: "store_event \<Rightarrow> op_file file_state \<Rightarrow> op_file file_state" where
  "run_event (EvBegin ev i key h n) s = fst (Begin ev i key h n s)"
| "run_event (EvUpdate ev i key tx st) s = fst (Update ev i key tx st s)"
| "run_event (EvUpdateExpiring ev i key tx st b) s = fst (UpdateExpiring ev i key tx st b s)"
| "run_event (EvUpdateByTxHash ev i tx st) s = fst (UpdateByTxHash ev i tx st s)"

text \<open>
  The record an event names, the status it may write, the time and the order of visits it runs with.
\<close>

fun event_target :: "store_event \<Rightarrow> (string \<times> string) option" where
  "event_target (EvBegin ev i key h n) = None"
| "event_target (EvUpdate ev i key tx st) = Some (i, NormalizeKey key)"
| "event_target (EvUpdateExpiring ev i key tx st b) = Some (i, NormalizeKey key)"
| "event_target (EvUpdateByTxHash ev i tx st) = None"

fun event_status :: "store_event \<Rightarrow> string option" where
  "event_status (EvBegin ev i key h n) = None"
| "event_status (EvUpdate ev i key tx st) = Some st"
| "event_status (EvUpdateExpiring ev i key tx st b) = Some st"
| "event_status (EvUpdateByTxHash ev i tx st) = Some st"

fun event_env :: "store_event \<Rightarrow> store_env" where
  "event_env (EvBegin ev i key h n) = ev"
| "event_env (EvUpdate ev i key tx st) = ev"
| "event_env (EvUpdateExpiring ev i key tx st b) = ev"
| "event_env (EvUpdateByTxHash ev i tx st) = ev"

end
