(* ===== verification/OperationLedger.thy ===== *)
theory OperationLedger
  imports OperationStore
begin

text \<open>
  What the operation store promises: pruning drops the oldest droppable records and no more than it
  has to; the files refine a ledger, in which a record is displaced only when it is droppable and
  never loses what identifies its request and its transaction; a request that is repeated within
  the retention period is recognised.
\<close>

section \<open>Pruning\<close>

definition ops_ok :: "(string \<times> operation) list \<Rightarrow> bool" where
  "ops_ok ops \<longleftrightarrow> distinct (map fst ops) \<and> (\<forall>(k, r)\<in>set ops. op_Key r = k)"

lemma ops_ok_unique: "ops_ok ops \<Longrightarrow> (k, r) \<in> set ops \<Longrightarrow> (k, q) \<in> set ops \<Longrightarrow> r = q"
  by (metis ops_ok_def map_of_is_SomeI option.inject)

lemma ops_ok_map_of: "ops_ok ops \<Longrightarrow> map_of ops k = Some r \<longleftrightarrow> (k, r) \<in> set ops"
  by (simp add: ops_ok_def)

definition without :: "string set \<Rightarrow> (string \<times> operation) list \<Rightarrow> (string \<times> operation) list" where
  "without K ops = filter (\<lambda>(k, _). k \<notin> K) ops"

lemma delete_without: "AList.delete k ops = without {k} ops"
  by (induction ops) (auto simp: without_def)

lemma without_without: "without K (without L ops) = without (K \<union> L) ops"
  by (auto simp: without_def intro!: filter_cong)

lemma without_none: "without {} ops = ops"
  by (simp add: without_def)

lemma drop_oldest_take:
  "\<exists>n\<le>length old. drop_oldest old ops = without (op_Key ` set (take n old)) ops \<and>
     (n < length old \<longrightarrow> length (drop_oldest old ops) < maxOperations)"
proof (induction old ops rule: drop_oldest.induct)
  case (1 ops)
  show ?case by (simp add: without_def)
next
  case (2 item rest ops)
  show ?case
  proof (cases "length ops < maxOperations")
    case True
    then show ?thesis by (intro exI [of _ 0]) (simp add: without_def)
  next
    case False
    then obtain n where n: "n \<le> length rest"
      "drop_oldest rest (AList.delete (op_Key item) ops) = without (op_Key ` set (take n rest)) (AList.delete (op_Key item) ops)"
      "n < length rest \<longrightarrow> length (drop_oldest rest (AList.delete (op_Key item) ops)) < maxOperations"
      using 2 by blast
    have "drop_oldest (item # rest) ops = without (op_Key ` set (take (Suc n) (item # rest))) ops"
      using n(2) False by (simp add: delete_without without_without)
    then show ?thesis using n(1,3) False by (intro exI [of _ "Suc n"]) auto
  qed
qed

lemma length_delete: "distinct (map fst ops) \<Longrightarrow> length ops - 1 \<le> length (AList.delete k ops)"
proof (induction ops)
  case (Cons p ops)
  then show ?case by (cases "k = fst p") (auto simp: delete_idem)
qed simp

lemma drop_oldest_length:
  "distinct (map fst ops) \<Longrightarrow> maxOperations \<le> length ops \<Longrightarrow> maxOperations - 1 \<le> length (drop_oldest old ops)"
proof (induction old ops rule: drop_oldest.induct)
  case (2 item rest ops)
  have len: "length ops - 1 \<le> length (AList.delete (op_Key item) ops)"
    using "2.prems"(1) by (rule length_delete)
  show ?case
  proof (cases "maxOperations \<le> length (AList.delete (op_Key item) ops)")
    case True
    then show ?thesis using 2 by (auto intro: distinct_delete)
  next
    case False
    have "drop_oldest rest (AList.delete (op_Key item) ops) = AList.delete (op_Key item) ops"
      using False by (cases rest) simp_all
    then show ?thesis using len "2.prems"(2) by (auto split: if_splits)
  qed
qed (simp add: maxOperations_def)

lemma droppable_set:
  assumes "visits visit"
  shows "set (sort_key op_UpdatedAt (filter (droppable now) (map snd (visit ops)))) =
    {r. droppable now r \<and> (\<exists>k. (k, r) \<in> set ops)}"
  by (auto simp: visits_set [OF assms] image_iff) (metis snd_conv)

lemma prune_refuses:
  assumes "ops_ok ops" "visits visit" "prune visit now ops = Inl e"
  shows "maxOperations \<le> length [p \<leftarrow> ops. \<not> droppable now (snd p)]"
proof -
  let ?old = "sort_key op_UpdatedAt (filter (droppable now) (map snd (visit ops)))"
  have full: "maxOperations \<le> length (drop_oldest ?old ops)"
    using assms(3) by (auto simp: prune_def Let_def rcheck_def split: if_splits)
  obtain n where n: "n \<le> length ?old" "drop_oldest ?old ops = without (op_Key ` set (take n ?old)) ops"
    "n < length ?old \<longrightarrow> length (drop_oldest ?old ops) < maxOperations"
    using drop_oldest_take by blast
  then have all: "drop_oldest ?old ops = without (op_Key ` set ?old) ops" using full by simp
  have dec: "k \<in> op_Key ` set ?old \<longleftrightarrow> droppable now r" if "(k, r) \<in> set ops" for k r
  proof
    assume "k \<in> op_Key ` set ?old"
    then obtain q l where q: "droppable now q" "(l, q) \<in> set ops" "op_Key q = k"
      unfolding droppable_set [OF assms(2)] by blast
    then have "(k, q) \<in> set ops" using assms(1) by (auto simp: ops_ok_def)
    then show "droppable now r" using ops_ok_unique [OF assms(1) that] q(1) by blast
  next
    assume "droppable now r"
    moreover have "op_Key r = k" using that assms(1) by (auto simp: ops_ok_def)
    ultimately show "k \<in> op_Key ` set ?old" unfolding droppable_set [OF assms(2)] using that by blast
  qed
  then have "without (op_Key ` set ?old) ops = [p \<leftarrow> ops. \<not> droppable now (snd p)]"
    unfolding without_def by (intro filter_cong refl) (metis dec case_prod_conv prod.collapse)
  then show ?thesis using full all by simp
qed

lemma prune_result:
  assumes ok: "ops_ok ops" and v: "visits visit" and run: "prune visit now ops = Inr ops'"
  shows "ops_ok ops'" "set ops' \<subseteq> set ops" "length ops' < maxOperations"
    "maxOperations \<le> length ops \<Longrightarrow> length ops' = maxOperations - 1"
    "(k, r) \<in> set ops \<Longrightarrow> \<not> droppable now r \<Longrightarrow> (k, r) \<in> set ops'"
    "(k, r) \<in> set ops - set ops' \<Longrightarrow> (l, q) \<in> set ops' \<Longrightarrow> droppable now q \<Longrightarrow> op_UpdatedAt r \<le> op_UpdatedAt q"
proof -
  let ?old = "sort_key op_UpdatedAt (filter (droppable now) (map snd (visit ops)))"
  have old: "set ?old = {r. droppable now r \<and> (\<exists>k. (k, r) \<in> set ops)}"
    by (rule droppable_set [OF v])
  obtain n where n: "drop_oldest ?old ops = without (op_Key ` set (take n ?old)) ops" using drop_oldest_take by blast
  show len: "length ops' < maxOperations"
    using run by (auto simp: prune_def Let_def rcheck_eq_Inr split: if_splits)
  have cases: "ops' = ops \<and> length ops < maxOperations \<or> maxOperations \<le> length ops \<and> ops' = drop_oldest ?old ops"
    using run by (auto simp: prune_def Let_def rcheck_eq_Inr split: if_splits)
  then have subset: "\<exists>K\<subseteq>op_Key ` set ?old. ops' = without K ops"
  proof (elim disjE conjE)
    assume "ops' = ops"
    then show ?thesis by (intro exI [of _ "{}"]) (simp add: without_none)
  next
    assume "ops' = drop_oldest ?old ops"
    then show ?thesis using n image_mono [OF set_take_subset, of op_Key n ?old] by metis
  qed
  then show "ops_ok ops'" "set ops' \<subseteq> set ops"
    using ok by (auto simp: ops_ok_def without_def distinct_map_filter)
  show "length ops' = maxOperations - 1" if "maxOperations \<le> length ops"
    using that cases len drop_oldest_length [of ops ?old] ok by (auto simp: ops_ok_def)
  show "(k, r) \<in> set ops'" if "(k, r) \<in> set ops" "\<not> droppable now r"
  proof -
    have "k \<notin> op_Key ` set ?old"
    proof
      assume "k \<in> op_Key ` set ?old"
      then obtain q l where "droppable now q" "(l, q) \<in> set ops" "k = op_Key q" using old by auto
      then have "(k, q) \<in> set ops" using ok by (auto simp: ops_ok_def)
      then have "q = r" using that(1) ok by (metis ops_ok_unique)
      then show False using that(2) \<open>droppable now q\<close> by simp
    qed
    then show ?thesis using subset that(1) by (auto simp: without_def)
  qed
  show "op_UpdatedAt r \<le> op_UpdatedAt q" if "(k, r) \<in> set ops - set ops'" "(l, q) \<in> set ops'" "droppable now q"
  proof -
    have ops': "ops' = without (op_Key ` set (take n ?old)) ops" using cases n that(1) by auto
    then have "k \<in> op_Key ` set (take n ?old)" using that(1) by (auto simp: without_def)
    then obtain r' where r': "r' \<in> set (take n ?old)" "op_Key r' = k" by auto
    then have "\<exists>l. (l, r') \<in> set ops" using old in_set_takeD [of r' n ?old] by auto
    then have "(k, r') \<in> set ops" using r'(2) ok by (auto simp: ops_ok_def)
    then have "r' = r" using that(1) ok by (metis DiffD1 ops_ok_unique)
    moreover have "q \<in> set (drop n ?old)"
    proof -
      have "(l, q) \<in> set ops" "l \<notin> op_Key ` set (take n ?old)" "op_Key q = l"
        using that(2) ok by (auto simp: ops' without_def ops_ok_def)
      then have "q \<in> set ?old" "q \<notin> set (take n ?old)" using old that(3) by auto
      then show ?thesis by (metis Un_iff append_take_drop_id set_append)
    qed
    moreover have "sorted (map op_UpdatedAt (take n ?old @ drop n ?old))" by simp
    ultimately show ?thesis using r'(1) by (auto simp: sorted_append simp del: append_take_drop_id)
  qed
qed

section \<open>The ledger\<close>

text \<open>
  What the store promises, without its file: every space has a map from keys to records. A step
  adds a record under a free key, displacing only droppable ones, or replaces a record by one of
  the same request that loses neither a transaction id nor a block height.
\<close>

type_synonym ledger = "string \<Rightarrow> (string \<rightharpoonup> operation) option"

definition same_request :: "operation \<Rightarrow> operation \<Rightarrow> bool" where
  "same_request r r' \<longleftrightarrow> op_Key r' = op_Key r \<and> op_RequestHash r' = op_RequestHash r \<and>
     op_NetworkID r' = op_NetworkID r \<and> op_CreatedAt r' = op_CreatedAt r \<and>
     (op_TxHash r \<noteq> [] \<longrightarrow> op_TxHash r' \<noteq> []) \<and>
     (op_LastValidBlockHeight r \<noteq> 0 \<longrightarrow> op_LastValidBlockHeight r' \<noteq> 0)"

definition same_transaction :: "operation \<Rightarrow> operation \<Rightarrow> bool" where
  "same_transaction r r' \<longleftrightarrow> op_TxHash r' = op_TxHash r \<and> op_LastValidBlockHeight r' = op_LastValidBlockHeight r"

lemma same_request_refl: "same_request r r"
  by (simp add: same_request_def)

inductive ledger_step ::
  "int \<Rightarrow> string option \<Rightarrow> (string \<times> string) option \<Rightarrow> ledger \<Rightarrow> ledger \<Rightarrow> bool" for now st tg where
  stay: "ledger_step now st tg L L"
| reserve: "L i = Some M \<Longrightarrow> M k = None \<Longrightarrow> (\<And>d r. d \<in> D \<Longrightarrow> M d = Some r \<Longrightarrow> droppable now r) \<Longrightarrow>
    op_Key r = k \<Longrightarrow> op_Status r = StatusBuilding \<Longrightarrow> op_UpdatedAt r = now \<Longrightarrow>
    ledger_step now st tg L (L(i := Some ((M |` (- D))(k \<mapsto> r))))"
| advance: "L i = Some M \<Longrightarrow> M k = Some r \<Longrightarrow> same_request r r' \<Longrightarrow> op_UpdatedAt r' = now \<Longrightarrow>
    st = Some (op_Status r') \<Longrightarrow> tg = Some (i, k) \<or> same_transaction r r' \<Longrightarrow> ledger_step now st tg L (L(i := Some (M(k \<mapsto> r'))))"

inductive_cases ledger_stepE: "ledger_step now st tg L L'"

definition ledger_of :: "op_file file_state \<Rightarrow> ledger" where
  "ledger_of s i = (case snd (loadLocked i s) of Inl _ \<Rightarrow> None | Inr f \<Rightarrow> Some (map_of (of_Operations f)))"

definition store_ok :: "op_file file_state \<Rightarrow> bool" where
  "store_ok s \<longleftrightarrow> (\<forall>i f. s i = Holds f \<longrightarrow> ops_ok (of_Operations f) \<and> length (of_Operations f) \<le> maxOperations)"

definition fair_event :: "store_event \<Rightarrow> bool" where
  "fair_event e \<longleftrightarrow> visits (se_visit (event_env e))"

lemma loadLocked_frame: "fst (loadLocked i s) = s"
  by (simp add: loadLocked_def)

lemma loadLocked_cases:
  assumes "loadLocked i s = (t, Inr f)"
  shows "t = s" "of_SchemaVersion f = op_SchemaVersion"
    "s i = Holds f \<or> s i = Missing \<and> f = \<lparr>of_SchemaVersion = op_SchemaVersion, of_Operations = []\<rparr>"
  using assms by (auto simp: loadLocked_def rcheck_eq_Inr split: disk_file.splits)

lemma loadLocked_ok: "store_ok s \<Longrightarrow> loadLocked i s = (t, Inr f) \<Longrightarrow>
    ops_ok (of_Operations f) \<and> length (of_Operations f) \<le> maxOperations"
  using loadLocked_cases(3) [of i s t f] by (auto simp: store_ok_def) (simp_all add: ops_ok_def)

lemma ledger_of_load: "loadLocked i s = (t, Inr f) \<Longrightarrow> ledger_of s i = Some (map_of (of_Operations f))"
  by (simp add: ledger_of_def)

lemma ledger_of_saved:
  assumes "loadLocked i s = (t, Inr f)"
  shows "ledger_of (s(i := Holds (f\<lparr>of_Operations := ops\<rparr>))) = (ledger_of s)(i := Some (map_of ops))"
  using loadLocked_cases(2) [OF assms] by (auto simp: ledger_of_def loadLocked_def rcheck_def fun_eq_iff)

text \<open>Every event leaves the files alone or replaces one file whose old content it has read.\<close>

inductive record_change ::
  "int \<Rightarrow> string option \<Rightarrow> string option \<Rightarrow> (string \<times> operation) list \<Rightarrow> (string \<times> operation) list \<Rightarrow> bool" for now st own where
  created: "map_of ops k = None \<Longrightarrow> visits visit \<Longrightarrow> prune visit now ops = Inr kept \<Longrightarrow> op_Key r = k \<Longrightarrow>
    op_Status r = StatusBuilding \<Longrightarrow> op_UpdatedAt r = now \<Longrightarrow> record_change now st own ops (AList.update k r kept)"
| replaced: "(k, r) \<in> set ops \<Longrightarrow> same_request r r' \<Longrightarrow> op_UpdatedAt r' = now \<Longrightarrow> st = Some (op_Status r') \<Longrightarrow>
    own = Some k \<or> same_transaction r r' \<Longrightarrow> record_change now st own ops (AList.update k r' ops)"

definition own_key :: "(string \<times> string) option \<Rightarrow> string \<Rightarrow> string option" where
  "own_key tg i = (case tg of None \<Rightarrow> None | Some (j, k) \<Rightarrow> if j = i then Some k else None)"

lemma own_key_Some: "own_key tg i = Some k \<longleftrightarrow> tg = Some (i, k)"
  by (auto simp: own_key_def split: option.splits)

definition writes ::
  "int \<Rightarrow> string option \<Rightarrow> (string \<times> string) option \<Rightarrow> op_file file_state \<Rightarrow> op_file file_state \<Rightarrow> bool" where
  "writes now st tg s t \<longleftrightarrow> t = s \<or> (\<exists>i f ops. loadLocked i s = (s, Inr f) \<and>
     record_change now st (own_key tg i) (of_Operations f) ops \<and>
     t = s(i := Holds (f\<lparr>of_Operations := ops\<rparr>)))"

named_theorems writes_intros "programs that write one record"

lemma writes_same [writes_intros]: "writes now st tg s s"
  by (simp add: writes_def)

lemma writes_basic [writes_intros]:
  "writes now st tg s (fst (sret v s))" "writes now st tg s (fst (sfail err s))"
  by (simp_all add: writes_def)

lemma writes_check [writes_intros]:
  "(c \<Longrightarrow> writes now st tg s (fst (k () s))) \<Longrightarrow> writes now st tg s (fst (sbind (scheck c err) k s))"
  by (cases c) (simp_all add: sbind_scheck writes_same)

lemma writes_lift:
  "(\<And>v. m = Inr v \<Longrightarrow> writes now st tg s (fst (k v s))) \<Longrightarrow> writes now st tg s (fst (sbind (slift m) k s))"
  by (cases m) (simp_all add: sbind_slift writes_same)

lemma writes_load:
  assumes "\<And>f. loadLocked i s = (s, Inr f) \<Longrightarrow> writes now st tg s (fst (k f s))"
  shows "writes now st tg s (fst (sbind (loadLocked i) k s))"
  using assms loadLocked_frame [of i s] by (cases "loadLocked i s") (auto simp: sbind_def writes_same split: sum.splits)

lemma writes_save:
  assumes "loadLocked i s = (s, Inr f)" "record_change now st (own_key tg i) (of_Operations f) ops"
  shows "writes now st tg s (fst (sbind (op_save w i (f\<lparr>of_Operations := ops\<rparr>)) (\<lambda>_. sret v) s))"
proof -
  have "fst (sbind (op_save w i (f\<lparr>of_Operations := ops\<rparr>)) (\<lambda>_. sret v) s)
      = fst (op_save w i (f\<lparr>of_Operations := ops\<rparr>) s)"
    by (auto simp: sbind_def sret_def split: prod.splits sum.splits)
  then show ?thesis
    using assms save_file_cases [of w "OpErr ''write operations''" i "f\<lparr>of_Operations := ops\<rparr>" s]
    unfolding op_save_def writes_def by metis
qed

lemma writes_if: "(c \<Longrightarrow> writes now st tg s (fst (a s))) \<Longrightarrow> (\<not> c \<Longrightarrow> writes now st tg s (fst (b s))) \<Longrightarrow>
    writes now st tg s (fst ((if c then a else b) s))"
  by simp

lemma Begin_writes: "visits (se_visit ev) \<Longrightarrow> writes (se_now ev) None None s (fst (Begin ev i key h n s))"
  unfolding Begin_def Let_def
  by (auto intro!: writes_intros writes_load writes_lift writes_save created split: option.split)

lemma store_update_writes:
  "writes (se_now ev) (Some st) (Some (i, NormalizeKey key)) s (fst (store_update ev i key tx st b s))"
  unfolding store_update_def Let_def
  by (auto intro!: writes_intros writes_load writes_save replaced split: option.split
      simp: same_request_def update_record_def own_key_Some dest: map_of_SomeD)

lemma UpdateByTxHash_writes:
  assumes "visits (se_visit ev)"
  shows "writes (se_now ev) (Some st) None s (fst (UpdateByTxHash ev i tx st s))"
proof -
  have found: "(k, r) \<in> set (of_Operations f)"
    if "find (\<lambda>(key, item). op_TxHash item = tx) (se_visit ev (of_Operations f)) = Some (k, r)" for f k r
  proof -
    have "(k, r) \<in> set (se_visit ev (of_Operations f))" using that by (auto simp: find_Some_iff) (metis nth_mem)
    then show ?thesis by (simp add: visits_set [OF assms])
  qed
  show ?thesis
    unfolding UpdateByTxHash_def Let_def
    by (auto intro!: writes_intros writes_load writes_save replaced split: option.split
        simp: same_request_def same_transaction_def dest: found)
qed

lemma run_event_writes:
  assumes "fair_event e"
  shows "writes (se_now (event_env e)) (event_status e) (event_target e) s (run_event e s)"
proof (cases e)
  case (EvUpdateExpiring ev i key tx st b)
  then show ?thesis by (auto simp: UpdateExpiring_def intro!: writes_check store_update_writes)
qed (use assms in \<open>simp_all add: fair_event_def Begin_writes store_update_writes UpdateByTxHash_writes Update_def\<close>)

text \<open>What a change of one record does to the list of a file.\<close>

lemma set_update_in: "(l, q) \<in> set (AList.update k r ops) \<Longrightarrow> (l, q) = (k, r) \<or> (l, q) \<in> set ops"
  by (induction ops) (auto split: if_splits)

lemma ops_length_update: "length (AList.update k r ops) = (if k \<in> fst ` set ops then length ops else Suc (length ops))"
  by (induction ops) (auto simp: image_iff)

lemma ops_ok_update: "ops_ok ops \<Longrightarrow> op_Key r = k \<Longrightarrow> ops_ok (AList.update k r ops)"
  unfolding ops_ok_def
  by (auto intro: distinct_update dest!: set_update_in)

lemma record_change_ok:
  assumes "record_change now st own ops ops'" "ops_ok ops" "length ops \<le> maxOperations"
  shows "ops_ok ops' \<and> length ops' \<le> maxOperations"
  using assms(1)
proof cases
  case (created k visit kept r)
  have kept: "ops_ok kept" "length kept < maxOperations" using prune_result [OF assms(2) created(3,4)] by auto
  then show ?thesis using created(1,5) ops_ok_update [OF kept(1) created(5)] by (simp add: ops_length_update)
next
  case (replaced k r r')
  then have "op_Key r' = k" using assms(2) by (auto simp: ops_ok_def same_request_def)
  then show ?thesis using replaced assms ops_ok_update [of ops r' k] by (auto simp: ops_length_update ops_ok_def image_iff)
qed

lemma prune_restrict:
  assumes "ops_ok ops" "visits visit" "prune visit now ops = Inr kept"
  shows "\<exists>D. map_of kept = map_of ops |` (- D) \<and> (\<forall>d\<in>D. \<forall>r. map_of ops d = Some r \<longrightarrow> droppable now r)"
proof -
  note p = prune_result [OF assms]
  have "map_of kept k = (map_of ops |` (- {k. map_of kept k = None})) k" for k
  proof (cases "map_of kept k")
    case (Some r)
    then have "(k, r) \<in> set ops" using p(2) map_of_SomeD by fastforce
    then have "map_of ops k = Some r" by (simp only: ops_ok_map_of [OF assms(1)])
    then show ?thesis using Some by simp
  qed simp
  moreover have "droppable now r" if "map_of kept d = None" "map_of ops d = Some r" for d r
  proof (rule ccontr)
    assume "\<not> droppable now r"
    then have "(d, r) \<in> set kept" using p(5) map_of_SomeD [OF that(2)] by blast
    then have "map_of kept d = Some r" by (simp only: ops_ok_map_of [OF p(1)])
    then show False using that(1) by simp
  qed
  then have "\<forall>d\<in>{k. map_of kept k = None}. \<forall>r. map_of ops d = Some r \<longrightarrow> droppable now r" by blast
  ultimately show ?thesis by (metis ext)
qed

lemma writes_ok: "writes now st tg s t \<Longrightarrow> store_ok s \<Longrightarrow> store_ok t"
  unfolding writes_def
proof (elim disjE exE conjE)
  fix i f ops
  assume s: "store_ok s" "loadLocked i s = (s, Inr f)" and c: "record_change now st (own_key tg i) (of_Operations f) ops"
    and t: "t = s(i := Holds (f\<lparr>of_Operations := ops\<rparr>))"
  have "ops_ok ops \<and> length ops \<le> maxOperations"
    using record_change_ok [OF c] loadLocked_ok [OF s] by blast
  then show "store_ok t" using s(1) unfolding store_ok_def t by auto
qed simp

lemma writes_ledger:
  assumes w: "writes now st tg s t" and ok: "store_ok s"
  shows "ledger_step now st tg (ledger_of s) (ledger_of t)"
  using w unfolding writes_def
proof (elim disjE exE conjE)
  fix i f ops
  assume load: "loadLocked i s = (s, Inr f)" and c: "record_change now st (own_key tg i) (of_Operations f) ops"
    and t: "t = s(i := Holds (f\<lparr>of_Operations := ops\<rparr>))"
  have M: "ledger_of s i = Some (map_of (of_Operations f))" using load by (rule ledger_of_load)
  have good: "ops_ok (of_Operations f)" using loadLocked_ok [OF ok load] by blast
  have t': "ledger_of t = (ledger_of s)(i := Some (map_of ops))" unfolding t using load by (rule ledger_of_saved)
  show ?thesis
    using c
  proof cases
    case (created k visit kept r)
    obtain D where D: "map_of kept = map_of (of_Operations f) |` (- D)"
      "\<forall>d\<in>D. \<forall>r. map_of (of_Operations f) d = Some r \<longrightarrow> droppable now r"
      using prune_restrict [OF good created(3,4)] by blast
    then show ?thesis
      unfolding t' created(1) update_conv' D(1) using M created by (intro reserve) auto
  next
    case (replaced k r r')
    then show ?thesis
      unfolding t' replaced(1) update_conv' using M ops_ok_map_of [OF good] by (intro advance) (auto simp: own_key_Some)
  qed
qed (simp add: stay)

interpretation ops: store_runs run_event fair_event store_ok
  by unfold_locales (rule writes_ok [OF run_event_writes])

lemma run_event_ledger:
  "store_ok s \<Longrightarrow> fair_event e \<Longrightarrow>
     ledger_step (se_now (event_env e)) (event_status e) (event_target e) (ledger_of s) (ledger_of (run_event e s))"
  by (rule writes_ledger [OF run_event_writes])

section \<open>Replays\<close>

text \<open>A record of a request that is not resolved and was touched at \<open>t0\<close> or later.\<close>

definition alive :: "string \<Rightarrow> string \<Rightarrow> string \<Rightarrow> int \<Rightarrow> ledger \<Rightarrow> bool" where
  "alive i k h t0 L \<longleftrightarrow> (\<exists>M r. L i = Some M \<and> M k = Some r \<and> op_RequestHash r = h \<and>
     \<not> resolved (op_Status r) \<and> t0 \<le> op_UpdatedAt r)"

definition keeps_open :: "int \<Rightarrow> store_event \<Rightarrow> bool" where
  "keeps_open t0 e \<longleftrightarrow> t0 \<le> se_now (event_env e) \<and> se_now (event_env e) < t0 + retention \<and>
     (\<forall>st. event_status e = Some st \<longrightarrow> \<not> resolved st)"

lemma ledger_step_alive:
  assumes "ledger_step now st tg L L'" "alive i k h t0 L" "t0 \<le> now" "now < t0 + retention"
    "\<forall>x. st = Some x \<longrightarrow> \<not> resolved x"
  shows "alive i k h t0 L'"
  using assms(1)
proof cases
  case (reserve j M l D r)
  obtain N q where q: "L i = Some N" "N k = Some q" "op_RequestHash q = h" "\<not> resolved (op_Status q)" "t0 \<le> op_UpdatedAt q"
    using assms(2) unfolding alive_def by blast
  then have "\<not> droppable now q" using assms(4) by (simp add: droppable_def)
  then have "k \<notin> D \<and> k \<noteq> l" if "i = j" using reserve(3,4) reserve(2) q(1,2) that by fastforce
  then show ?thesis using q reserve(1,2) by (auto simp: alive_def)
next
  case (advance j M l r r')
  then show ?thesis
    using assms(2,3,5) by (auto simp: alive_def same_request_def)
qed (use assms in simp)

interpretation replay: store_guards run_event fair_event store_ok "keeps_open t0" "\<lambda>s. alive i k h t0 (ledger_of s)"
  for t0 i k h
  by unfold_locales (auto simp: keeps_open_def intro: ledger_step_alive [OF run_event_ledger])

lemma Begin_known:
  assumes "ValidID i ''spc_''" "NormalizeKey key \<noteq> []" "length (NormalizeKey key) \<le> maxKeyLength"
    "ledger_of s i = Some M" "M (NormalizeKey key) = Some r"
  shows "Begin ev i key h n s = (s, if op_RequestHash r = h then Inr (r, True) else Inl ErrConflict)"
proof -
  obtain f where f: "loadLocked i s = (s, Inr f)" "map_of (of_Operations f) = M"
    using assms(4) loadLocked_frame [of i s] by (cases "loadLocked i s") (auto simp: ledger_of_def split: sum.splits)
  then show ?thesis
    using assms by (simp add: Begin_def sbind_scheck Let_def) (simp add: sbind_def sret_def sfail_def)
qed

lemma load_cases:
  obtains f where "loadLocked i s = (s, Inr f)" | e where "loadLocked i s = (s, Inl e)"
  using loadLocked_frame [of i s] that by (cases "loadLocked i s"; cases "snd (loadLocked i s)") auto

lemma load_failed: "loadLocked i s = (s, Inl e) \<Longrightarrow> sbind (loadLocked i) k s = (s, Inl e)"
  by (simp add: sbind_def)

lemma loaded: "loadLocked i s = (s, Inr f) \<Longrightarrow> sbind (loadLocked i) k s = k f s"
  by (simp add: sbind_def)

lemma saved_then:
  "sbind (op_save w i f) (\<lambda>_. sret v) s = (t, Inr u) \<longleftrightarrow> w = Written \<and> t = s(i := Holds f) \<and> u = v"
  by (auto simp: sbind_def sret_def op_save_def save_file_def split: write_outcome.splits)

lemma Begin_fresh:
  assumes run: "Begin ev i key h n s = (t, Inr (r, False))" and v: "visits (se_visit ev)"
  shows "ValidID i ''spc_''" "NormalizeKey key \<noteq> []" "length (NormalizeKey key) \<le> maxKeyLength"
    "op_RequestHash r = h" "op_Status r = StatusBuilding" "op_UpdatedAt r = se_now ev" "op_Key r = NormalizeKey key"
    "\<exists>M. ledger_of t i = Some M \<and> M (NormalizeKey key) = Some r"
proof -
  have id: "ValidID i ''spc_''" and key: "NormalizeKey key \<noteq> []" "length (NormalizeKey key) \<le> maxKeyLength"
    using run by (auto simp: Begin_def sbind_scheck Let_def split: if_splits)
  show "ValidID i ''spc_''" "NormalizeKey key \<noteq> []" "length (NormalizeKey key) \<le> maxKeyLength"
    using id key by simp_all
  obtain f where f: "loadLocked i s = (s, Inr f)"
    using run id key by (cases i s rule: load_cases) (auto simp: Begin_def sbind_scheck Let_def load_failed)
  have none: "map_of (of_Operations f) (NormalizeKey key) = None"
    using Begin_known [OF id key ledger_of_load [OF f], of _ ev h n] run
    by (cases "map_of (of_Operations f) (NormalizeKey key)") (auto split: if_splits)
  obtain kept where kept: "prune (se_visit ev) (se_now ev) (of_Operations f) = Inr kept"
    using run id key none by (cases "prune (se_visit ev) (se_now ev) (of_Operations f)")
      (simp_all add: Begin_def sbind_scheck Let_def loaded [OF f] sbind_slift)
  define c where "c = \<lparr>op_Key = NormalizeKey key, op_RequestHash = h, op_NetworkID = n, op_TxHash = [],
    op_Status = StatusBuilding, op_CreatedAt = se_now ev, op_UpdatedAt = se_now ev, op_LastValidBlockHeight = 0\<rparr>"
  have saved: "t = s(i := Holds (f\<lparr>of_Operations := AList.update (NormalizeKey key) c kept\<rparr>)) \<and> r = c"
    using run id key none kept
    by (auto simp: Begin_def sbind_scheck sbind_slift Let_def loaded [OF f] c_def saved_then)
  then show "op_RequestHash r = h" "op_Status r = StatusBuilding" "op_UpdatedAt r = se_now ev" "op_Key r = NormalizeKey key"
    by (simp_all add: c_def)
  show "\<exists>M. ledger_of t i = Some M \<and> M (NormalizeKey key) = Some r"
    using saved ledger_of_saved [OF f] by (simp add: update_conv')
qed

lemma store_update_known:
  assumes "ValidID i ''spc_''" "ledger_of s i = Some M" "M (NormalizeKey key) = Some r"
  obtains f where "loadLocked i s = (s, Inr f)"
    "store_update ev i key tx st b s = sbind (op_save (se_save ev) i (f\<lparr>of_Operations :=
       AList.update (NormalizeKey key) (update_record (se_now ev) tx st b r) (of_Operations f)\<rparr>))
       (\<lambda>_. sret (update_record (se_now ev) tx st b r)) s"
proof (cases i s rule: load_cases)
  case (1 f)
  then have "map_of (of_Operations f) (NormalizeKey key) = Some r" using assms by (simp add: ledger_of_def)
  then show ?thesis using assms(1) 1 by (intro that [of f]) (simp_all add: store_update_def sbind_scheck Let_def loaded)
qed (use assms(2) in \<open>simp add: ledger_of_def\<close>)

lemma op_Get_ledger:
  assumes "ValidID i ''spc_''" "ledger_of s i = Some M"
  shows "op_Get i key s = (s, Inr (M (NormalizeKey key)))"
  using assms by (cases i s rule: load_cases) (auto simp: op_Get_def sbind_scheck loaded ledger_of_def sret_def)

section \<open>A sample store\<close>

definition calm_env :: "int \<Rightarrow> store_env" where
  "calm_env now = \<lparr>se_now = now, se_save = Written, se_visit = rev\<rparr>"

definition sample_record :: "string \<Rightarrow> int \<Rightarrow> operation" where
  "sample_record key now = \<lparr>op_Key = key, op_RequestHash = ''aa'', op_NetworkID = ''eth'', op_TxHash = [],
     op_Status = StatusBuilding, op_CreatedAt = now, op_UpdatedAt = now, op_LastValidBlockHeight = 0\<rparr>"

definition sample_ops :: "nat \<Rightarrow> (string \<times> operation) list" where
  "sample_ops n = map (\<lambda>j. (replicate (Suc j) CHR ''k'', sample_record (replicate (Suc j) CHR ''k'') (int j))) [0..<n]"

definition sample_store :: "nat \<Rightarrow> op_file file_state" where
  "sample_store n i = (if i = ''spc_a'' then Holds \<lparr>of_SchemaVersion = op_SchemaVersion, of_Operations = sample_ops n\<rparr> else Missing)"

lemma sample_ops_ok: "ops_ok (sample_ops n)"
proof -
  have "inj_on (\<lambda>j. replicate (Suc j) CHR ''k'') A" for A
    by (rule inj_onI) (metis length_replicate nat.inject)
  then show ?thesis
    by (simp add: ops_ok_def sample_ops_def sample_record_def distinct_map comp_def)
qed

lemma sample_store_ok: "n \<le> maxOperations \<Longrightarrow> store_ok (sample_store n)"
  using sample_ops_ok by (simp add: store_ok_def sample_store_def sample_ops_def)

lemma sample_fair: "event_env e = calm_env t \<Longrightarrow> fair_event e"
  by (simp add: fair_event_def calm_env_def visits_id)

lemma sample_id: "ValidID ''spc_a'' ''spc_''"
  by (simp add: ValidID_def)

lemma sample_key: "NormalizeKey ''k'' = ''k''" "NormalizeKey '' k '' = ''k''"
  using TrimSpace_padding [of "[]" "[]" "''k''"] TrimSpace_padding [of "'' ''" "'' ''" "''k''"]
  by (simp_all add: NormalizeKey_def plain_def is_space_def)

lemma sample_begin:
  "Begin (calm_env 0) ''spc_a'' ''k'' ''aa'' ''eth'' (sample_store 0) = (sample_store 1, Inr (sample_record ''k'' 0, False))"
  by (simp add: Begin_def sample_id sbind_scheck sbind_slift sample_key maxKeyLength_def loadLocked_def sbind_def sret_def
      sample_store_def sample_ops_def rcheck_def prune_def maxOperations_def op_save_def save_file_def calm_env_def
      sample_record_def fun_eq_iff Let_def)

section \<open>Properties\<close>

text \<open>C37. Pruning: a file below its bound is left alone; otherwise one record less than the bound
  remains. What is dropped was droppable and is not younger than any droppable record that stays, so
  a request that is unresolved and recent is never displaced; when too few can be dropped, the new
  operation is refused.\<close>

theorem prune_drops_oldest:
  assumes "ops_ok ops" "visits visit"
  shows "case prune visit now ops of
      Inl _ \<Rightarrow> maxOperations \<le> length [p \<leftarrow> ops. \<not> droppable now (snd p)]
    | Inr kept \<Rightarrow> set kept \<subseteq> set ops \<and>
        (if length ops < maxOperations then kept = ops else length kept = maxOperations - 1) \<and>
        (\<forall>(k, r)\<in>set ops - set kept. droppable now r \<and>
          (\<forall>(l, q)\<in>set kept. droppable now q \<longrightarrow> op_UpdatedAt r \<le> op_UpdatedAt q))"
proof (cases "prune visit now ops")
  case (Inl e)
  then show ?thesis using prune_refuses [OF assms Inl] by simp
next
  case (Inr kept)
  note p = prune_result [OF assms Inr]
  have "kept = ops" if "length ops < maxOperations" using Inr that by (simp add: prune_def)
  then show ?thesis using Inr p(2,4,5,6) by (auto simp: not_less)
qed

theorem prune_drops_oldest_witness:
  "case prune rev 1000000000000000000 (sample_ops 512) of
      Inl _ \<Rightarrow> maxOperations \<le> length [p \<leftarrow> sample_ops 512. \<not> droppable 1000000000000000000 (snd p)]
    | Inr kept \<Rightarrow> set kept \<subseteq> set (sample_ops 512) \<and>
        (if length (sample_ops 512) < maxOperations then kept = sample_ops 512 else length kept = maxOperations - 1) \<and>
        (\<forall>(k, r)\<in>set (sample_ops 512) - set kept. droppable 1000000000000000000 r \<and>
          (\<forall>(l, q)\<in>set kept. droppable 1000000000000000000 q \<longrightarrow> op_UpdatedAt r \<le> op_UpdatedAt q))"
  by (rule prune_drops_oldest [OF sample_ops_ok visits_id(2)])

text \<open>C25. Refinement: every event acts on the files as a step of the ledger.\<close>

theorem operations_refine_ledger:
  assumes "store_ok s" "fair_event e"
  shows "store_ok (run_event e s) \<and>
    ledger_step (se_now (event_env e)) (event_status e) (event_target e) (ledger_of s) (ledger_of (run_event e s))"
  using ops.inv_run [OF assms] run_event_ledger [OF assms] by blast

theorem operations_refine_ledger_witness:
  "store_ok (run_event (EvBegin (calm_env 0) ''spc_a'' ''k'' ''aa'' ''eth'') (sample_store 0)) \<and>
    ledger_step (se_now (calm_env 0)) None None (ledger_of (sample_store 0))
      (ledger_of (run_event (EvBegin (calm_env 0) ''spc_a'' ''k'' ''aa'' ''eth'') (sample_store 0)))"
  using operations_refine_ledger [OF sample_store_ok sample_fair, of 0 "EvBegin (calm_env 0) ''spc_a'' ''k'' ''aa'' ''eth''" 0]
  by simp

text \<open>C16. A repeated request is recognised: once a key is reserved, and through any sequence of
  events that do not resolve a record and happen within the retention period, a call of \<open>Begin\<close>
  with any spelling of the key returns the record, or the conflict when the request differs; no second
  record is made and the files stay as they are.\<close>

theorem replay_recognised:
  assumes "store_ok s" "visits (se_visit ev)" "Begin ev i key h n s = (t, Inr (r, False))"
    and "\<forall>e\<in>set es. fair_event e \<and> keeps_open (se_now ev) e"
    and "NormalizeKey key' = NormalizeKey key"
  shows "\<exists>r'. op_RequestHash r' = h \<and> \<not> resolved (op_Status r') \<and>
    Begin ev' i key' h' n' (run_all run_event es t) =
      (run_all run_event es t, if h' = h then Inr (r', True) else Inl ErrConflict)"
proof -
  note fresh = Begin_fresh [OF assms(3,2)]
  have "store_ok (run_event (EvBegin ev i key h n) s)"
    using assms by (intro ops.inv_run) (simp_all add: fair_event_def)
  then have ok: "store_ok t" using assms(3) by simp
  have "alive i (NormalizeKey key) h (se_now ev) (ledger_of t)"
    using fresh(4-6,8) by (auto simp: alive_def resolved_def status_defs)
  then have "alive i (NormalizeKey key) h (se_now ev) (ledger_of (run_all run_event es t))"
    using replay.fact_runs [OF ok] assms(4) by blast
  then show ?thesis
    using Begin_known [of i key' "run_all run_event es t" _ _ ev' h' n'] fresh(1-3) assms(5)
    by (auto simp: alive_def)
qed

theorem replay_recognised_witness:
  "\<exists>r'. op_RequestHash r' = ''aa'' \<and> \<not> resolved (op_Status r') \<and>
    Begin (calm_env 60) ''spc_a'' '' k '' ''bb'' ''eth''
        (run_all run_event [EvUpdate (calm_env 5) ''spc_a'' ''k'' ''ff'' StatusBroadcasting] (sample_store 1)) =
      (run_all run_event [EvUpdate (calm_env 5) ''spc_a'' ''k'' ''ff'' StatusBroadcasting] (sample_store 1),
       if ''bb'' = ''aa'' then Inr (r', True) else Inl ErrConflict)"
proof (rule replay_recognised [OF sample_store_ok _ sample_begin])
  show "\<forall>e\<in>set [EvUpdate (calm_env 5) ''spc_a'' ''k'' ''ff'' StatusBroadcasting]. fair_event e \<and> keeps_open (se_now (calm_env 0)) e"
    by (simp add: fair_event_def keeps_open_def calm_env_def visits_id retention_def resolved_def status_defs)
qed (simp_all add: calm_env_def visits_id sample_key)

text \<open>The key that was reserved is found again under every spelling: after \<open>Begin\<close>, an update
  that names the key with other padding succeeds when it can be written, and \<open>Get\<close> then shows the
  transaction.\<close>

theorem reserved_key_is_updatable:
  assumes "visits (se_visit ev)" "Begin ev i key h n s = (t, Inr (r, False))"
    and "NormalizeKey key' = NormalizeKey key" "NormalizeKey key'' = NormalizeKey key" "se_save ev' = Written"
  shows "\<exists>u. Update ev' i key' tx st t = (u, Inr (update_record (se_now ev') tx st 0 r)) \<and>
    op_Get i key'' u = (u, Inr (Some (update_record (se_now ev') tx st 0 r)))"
proof -
  note fresh = Begin_fresh [OF assms(2,1)]
  obtain M where M: "ledger_of t i = Some M" "M (NormalizeKey key') = Some r" using fresh(8) assms(3) by auto
  let ?r = "update_record (se_now ev') tx st 0 r"
  obtain f where f: "loadLocked i t = (t, Inr f)"
    "Update ev' i key' tx st t = sbind (op_save (se_save ev') i (f\<lparr>of_Operations :=
       AList.update (NormalizeKey key') ?r (of_Operations f)\<rparr>)) (\<lambda>_. sret ?r) t"
    using store_update_known [OF fresh(1) M] unfolding Update_def by blast
  let ?u = "t(i := Holds (f\<lparr>of_Operations := AList.update (NormalizeKey key') ?r (of_Operations f)\<rparr>))"
  have "Update ev' i key' tx st t = (?u, Inr ?r)" using f(2) assms(5) by (simp add: saved_then)
  moreover have saved: "ledger_of ?u i = Some (map_of (AList.update (NormalizeKey key') ?r (of_Operations f)))"
    unfolding ledger_of_saved [OF f(1)] by simp
  have "op_Get i key'' ?u = (?u, Inr (Some ?r))"
    unfolding op_Get_ledger [OF fresh(1) saved] by (simp add: update_conv' assms(3,4))
  ultimately show ?thesis by blast
qed

theorem reserved_key_is_updatable_witness:
  "\<exists>u. Update (calm_env 5) ''spc_a'' '' k '' ''ff'' StatusPending (sample_store 1) =
      (u, Inr (update_record (se_now (calm_env 5)) ''ff'' StatusPending 0 (sample_record ''k'' 0))) \<and>
    op_Get ''spc_a'' ''k'' u = (u, Inr (Some (update_record (se_now (calm_env 5)) ''ff'' StatusPending 0 (sample_record ''k'' 0))))"
  by (rule reserved_key_is_updatable [OF _ sample_begin]) (simp_all add: calm_env_def visits_id sample_key)

text \<open>The transaction id and the block height an event brings.\<close>

fun event_tx :: "store_event \<Rightarrow> string" where
  "event_tx (EvUpdate ev i key tx st) = tx"
| "event_tx (EvUpdateExpiring ev i key tx st b) = tx"
| "event_tx _ = []"

fun event_height :: "store_event \<Rightarrow> u64" where
  "event_height (EvUpdateExpiring ev i key tx st b) = b"
| "event_height _ = 0"

lemma updated_known:
  assumes "ledger_of s i = Some M" "M (NormalizeKey key) = Some r"
    and "ledger_of (fst (store_update ev i key tx st b s)) i = Some M'" "M' (NormalizeKey key) = Some r'"
  shows "r' = r \<or> r' = update_record (se_now ev) tx st b r"
proof (cases "ValidID i ''spc_''")
  case True
  obtain f where f: "loadLocked i s = (s, Inr f)"
    "store_update ev i key tx st b s = sbind (op_save (se_save ev) i (f\<lparr>of_Operations :=
       AList.update (NormalizeKey key) (update_record (se_now ev) tx st b r) (of_Operations f)\<rparr>))
       (\<lambda>_. sret (update_record (se_now ev) tx st b r)) s"
    using store_update_known [OF True assms(1,2)] by blast
  then show ?thesis
    using assms ledger_of_saved [OF f(1)]
    by (cases "se_save ev") (auto simp: sbind_def op_save_def save_file_def update_conv')
qed (use assms in \<open>simp add: store_update_def sbind_scheck\<close>)

text \<open>What an event may do to the record \<open>k\<close> of the space \<open>i\<close>: its transaction id and its block height are
  what they were, unless the event names this very record and brings another one that is not empty.\<close>

definition rewritten :: "store_event \<Rightarrow> string \<Rightarrow> string \<Rightarrow> operation \<Rightarrow> operation \<Rightarrow> bool" where
  "rewritten e i k r r' \<longleftrightarrow> same_request r r' \<and>
     (op_TxHash r' = op_TxHash r \<or> event_target e = Some (i, k) \<and> op_TxHash r' = event_tx e \<and> event_tx e \<noteq> []) \<and>
     (op_LastValidBlockHeight r' = op_LastValidBlockHeight r \<or>
        event_target e = Some (i, k) \<and> op_LastValidBlockHeight r' = event_height e \<and> event_height e \<noteq> 0) \<and>
     (op_Status r' = op_Status r \<or> event_status e = Some (op_Status r'))"

lemma rewritten_refl: "rewritten e i k r r"
  by (simp add: rewritten_def same_request_refl)

lemma target_known:
  assumes "event_target e = Some (i, k)" "ledger_of s i = Some M" "M k = Some r"
    and "ledger_of (run_event e s) i = Some M'" "M' k = Some r'"
  shows "(op_TxHash r' = op_TxHash r \<or> op_TxHash r' = event_tx e \<and> event_tx e \<noteq> []) \<and>
    (op_LastValidBlockHeight r' = op_LastValidBlockHeight r \<or> op_LastValidBlockHeight r' = event_height e \<and> event_height e \<noteq> 0)"
proof (cases e)
  case (EvUpdate ev j key tx st)
  then show ?thesis
    using assms updated_known [of s i M key r ev tx st 0 M' r'] by (auto simp: Update_def update_record_def)
next
  case (EvUpdateExpiring ev j key tx st b)
  show ?thesis
  proof (cases "tx = [] \<or> b = 0")
    case True
    then have "run_event e s = s" by (auto simp: EvUpdateExpiring UpdateExpiring_def sbind_scheck)
    then show ?thesis using assms by simp
  next
    case False
    then have "run_event e s = fst (store_update ev j key tx st b s)" by (simp add: EvUpdateExpiring UpdateExpiring_def sbind_scheck)
    then show ?thesis
      using assms EvUpdateExpiring updated_known [of s i M key r ev tx st b M' r'] by (auto simp: update_record_def)
  qed
qed (use assms(1) in simp_all)

text \<open>C24. A record outlives every event, and keeps the request it stands for: its key, request hash,
  network and creation time. It keeps its transaction id and its expiry height exactly, unless the event
  is an update that names this very record and brings another id or height, which is then the record's;
  an update that brings none never erases one. The only way out of the ledger is pruning, and that takes
  droppable records only.\<close>

theorem records_persist:
  assumes "store_ok s" "fair_event e" "ledger_of s i = Some M" "M k = Some r"
  shows "\<exists>M'. ledger_of (run_event e s) i = Some M' \<and>
    (case M' k of Some r' \<Rightarrow> rewritten e i k r r' | None \<Rightarrow> droppable (se_now (event_env e)) r)"
  using run_event_ledger [OF assms(1,2)]
proof cases
  case stay
  then show ?thesis using assms(3,4) by (simp add: rewritten_refl)
next
  case (reserve j N l D q)
  show ?thesis
  proof (cases "i = j")
    case True
    then have [simp]: "N = M" using reserve(2) assms(3) by simp
    have "k \<noteq> l" using reserve(3) assms(4) by auto
    then show ?thesis
      using reserve(4) assms(4) True by (cases "k \<in> D") (simp_all add: reserve(1) rewritten_refl)
  qed (use reserve(1) assms(3,4) in \<open>simp add: rewritten_refl\<close>)
next
  case (advance j N l q q')
  show ?thesis
  proof (cases "i = j \<and> k = l")
    case True
    then have q: "N = M" "q = r" using advance(2,3) assms(3,4) by auto
    have after: "ledger_of (run_event e s) i = Some (M(k \<mapsto> q'))" using True advance(1) q by simp
    have "rewritten e i k r q'"
      using advance(4,6,7) q(2) True target_known [OF _ assms(3,4) after, of q'] by (auto simp: rewritten_def same_transaction_def)
    then show ?thesis using after by simp
  qed (use advance(1-3) assms(3,4) in \<open>auto simp: rewritten_refl\<close>)
qed

theorem records_persist_witness:
  "\<exists>M'. ledger_of (run_event (EvUpdate (calm_env 5) ''spc_a'' ''k'' ''ff'' StatusFailed) (sample_store 1)) ''spc_a'' = Some M' \<and>
    (case M' ''k'' of
       Some r' \<Rightarrow> rewritten (EvUpdate (calm_env 5) ''spc_a'' ''k'' ''ff'' StatusFailed) ''spc_a'' ''k'' (sample_record ''k'' 0) r'
     | None \<Rightarrow> droppable (se_now (event_env (EvUpdate (calm_env 5) ''spc_a'' ''k'' ''ff'' StatusFailed))) (sample_record ''k'' 0))"
proof -
  have "ledger_of (sample_store 1) ''spc_a'' = Some (map_of (sample_ops 1))"
    by (simp add: ledger_of_def loadLocked_def sample_store_def rcheck_def)
  moreover have "map_of (sample_ops 1) ''k'' = Some (sample_record ''k'' 0)" by (simp add: sample_ops_def)
  ultimately show ?thesis
    by (intro records_persist [where M = "map_of (sample_ops 1)", OF sample_store_ok sample_fair [of _ 5]]) (simp_all add: maxOperations_def)
qed

end
