(* ===== verification/SpaceInvariants.thy ===== *)
theory SpaceInvariants
  imports SpaceManager
begin

text \<open>
  The invariant of the space manager and its preservation by every operation of \<open>space_op\<close>.

  \<open>space_inv\<close>: each file is under its own identifier with at most 512 accounts and well-formed
  accounts, there are at most 64 spaces, and each open session belongs to a file, its payload
  verifies against that file, and the file's vault opens, with some password, to exactly the
  session's payload and key. Well-formed accounts: network lists sorted and distinct; derived
  accounts with an index, no two with the same family and index; a derived account without a family
  (an account of a migrated home that was not assigned yet) with no network and only the two addresses
  a migration writes; imported accounts with different fingerprints and different key references.

  What a step may assume of its environment is \<open>step_allowed\<close>.
\<close>

section \<open>The invariant\<close>

definition derived_keys :: "account list \<Rightarrow> (family \<times> u32 option) list" where
  "derived_keys items = map (\<lambda>a. (ac_Family a, ac_Index a)) (filter (\<lambda>a. ac_Kind a = KindDerived) items)"

definition imported :: "account list \<Rightarrow> account list" where
  "imported items = filter (\<lambda>a. ac_Kind a = KindImported) items"

definition account_inv :: "account \<Rightarrow> bool" where
  "account_inv a \<longleftrightarrow> network_list_ok (ac_NetworkIDs a) \<and>
     (ac_Kind a = KindDerived \<longrightarrow> ac_Index a \<noteq> None \<and>
       (ac_Family a = [] \<longrightarrow> ac_NetworkIDs a = [] \<and>
          (\<forall>fam. address_of (ac_Addresses a) fam \<noteq> [] \<longrightarrow> fam \<in> {FamilyTron, FamilyEVM})))"

definition accounts_inv :: "account list \<Rightarrow> bool" where
  "accounts_inv items \<longleftrightarrow> list_all account_inv items \<and> distinct (derived_keys items) \<and>
     distinct (map ac_Fingerprint (imported items)) \<and> distinct (map ac_KeyRef (imported items)) \<and>
     length items \<le> maxAccountsPerSpace"

definition session_good :: "space_ctx \<Rightarrow> string \<Rightarrow> space_file \<Rightarrow> session \<Rightarrow> bool" where
  "session_good X i f ss \<longleftrightarrow> verifyPayload (sx_W X) f (ss_payload ss) = Inr () \<and>
     (\<exists>pw. vault_UnlockJSON (sx_V X) (sx_J X) pw (sf_Vault f) (space_aad i) = Inr (ss_payload ss, ss_key ss))"

definition space_inv :: "space_ctx \<Rightarrow> manager \<Rightarrow> bool" where
  "space_inv X m \<longleftrightarrow> distinct (map fst (mg_files m)) \<and> distinct (map fst (mg_sessions m)) \<and>
     length (mg_files m) \<le> maxSpaces \<and>
     (\<forall>i f. map_of (mg_files m) i = Some f \<longrightarrow> sf_ID f = i \<and> accounts_inv (sf_Accounts f)) \<and>
     (\<forall>i ss. map_of (mg_sessions m) i = Some ss \<longrightarrow>
       (\<exists>f. map_of (mg_files m) i = Some f \<and> session_good X i f ss))"

text \<open>Parts of the state the invariant does not mention.\<close>

lemma space_inv_frame [simp]:
  "space_inv X (m\<lparr>mg_autoLock := a\<rparr>) = space_inv X m"
  "space_inv X (m\<lparr>mg_confirmSends := b\<rparr>) = space_inv X m"
  "space_inv X (m\<lparr>mg_sendGrantTTL := c\<rparr>) = space_inv X m"
  "space_inv X (m\<lparr>mg_disk := d\<rparr>) = space_inv X m"
  "space_inv X (m\<lparr>mg_attempts := e\<rparr>) = space_inv X m"
  by (simp_all add: space_inv_def)

lemma session_good_frame [simp]:
  "session_good X i f (ss\<lparr>ss_lastUsed := t\<rparr>) = session_good X i f ss"
  "session_good X i f (ss\<lparr>ss_sendGrant := g\<rparr>) = session_good X i f ss"
  by (simp_all add: session_good_def)

lemma map_of_filter_fst:
  "distinct (map fst ts) \<Longrightarrow> map_of (filter Q ts) i = Some s \<longleftrightarrow> map_of ts i = Some s \<and> Q (i, s)"
  by (induction ts) (auto simp: map_of_eq_None_iff rev_image_eqI dest: map_of_SomeD)

lemma space_inv_expire: "space_inv X m \<Longrightarrow> space_inv X (expireLocked now m)"
  by (auto simp: expireLocked_def space_inv_def map_of_filter_fst distinct_map_filter split: option.splits)

lemma space_inv_clearSession: "space_inv X m \<Longrightarrow> space_inv X (clearSessionLocked i m)"
  by (auto simp: clearSessionLocked_def space_inv_def delete_conv' distinct_delete fun_upd_def
      split: if_splits)

lemma space_inv_putSession:
  "space_inv X m \<Longrightarrow> map_of (mg_files m) i = Some f \<Longrightarrow> session_good X i f ss \<Longrightarrow>
     space_inv X (putSession i ss m)"
  by (auto simp: putSession_def space_inv_def update_conv' distinct_update)

lemma space_inv_attempts [simp]:
  "space_inv X (recordUnlockFailure ev i m) = space_inv X m"
  "space_inv X (clearUnlockFailures ev i m) = space_inv X m"
  by (simp_all add: recordUnlockFailure_def writeAttempts_def clearUnlockFailures_def Let_def)

lemma attempts_frame [simp]:
  "mg_files (recordUnlockFailure ev i m) = mg_files m" "mg_files (clearUnlockFailures ev i m) = mg_files m"
  "mg_sessions (recordUnlockFailure ev i m) = mg_sessions m"
  "mg_sessions (clearUnlockFailures ev i m) = mg_sessions m"
  "mg_disk (recordUnlockFailure ev i m) = mg_disk m" "mg_disk (clearUnlockFailures ev i m) = mg_disk m"
  by (simp_all add: recordUnlockFailure_def writeAttempts_def clearUnlockFailures_def Let_def)

lemma state_frame [simp]:
  "mg_files (expireLocked now m) = mg_files m" "mg_files (putSession i ss m) = mg_files m"
  "mg_files (clearSessionLocked i m) = mg_files m" "mg_files (setSessionPayload i p m) = mg_files m"
  "mg_sessions (putFile i f m) = mg_sessions m" "mg_files (putFile i f m) = AList.update i f (mg_files m)"
  "mg_disk (putFile i f m) = mg_disk m" "mg_disk (expireLocked now m) = mg_disk m"
  "mg_disk (putSession i ss m) = mg_disk m" "mg_disk (clearSessionLocked i m) = mg_disk m"
  "mg_disk (setSessionPayload i p m) = mg_disk m"
  by (simp_all add: expireLocked_def putSession_def clearSessionLocked_def setSessionPayload_def
      putFile_def split: option.splits)

section \<open>Building blocks\<close>

lemma saveLocked_cases:
  assumes "saveLocked w f m = (m', r)"
  obtains "w = Written" "r = Inr ()" "m' = m\<lparr>mg_disk := AList.update (sf_ID f) f (mg_disk m)\<rparr>"
  | "r = Inl (SpaceErr ''write space'')" "m' = m"
  | "w = WrittenWithError" "r = Inl (SpaceErr ''write space'')" "m' = m\<lparr>mg_disk := AList.update (sf_ID f) f (mg_disk m)\<rparr>"
  using assms by (cases w) (auto simp: saveLocked_def)

text \<open>Publishing a file: the open session of the space, if any, has to stay good.\<close>

definition file_fits :: "space_ctx \<Rightarrow> manager \<Rightarrow> string \<Rightarrow> space_file \<Rightarrow> bool" where
  "file_fits X m i f \<longleftrightarrow> sf_ID f = i \<and> accounts_inv (sf_Accounts f) \<and>
     (map_of (mg_files m) i = None \<longrightarrow> length (mg_files m) < maxSpaces) \<and>
     (\<forall>ss. map_of (mg_sessions m) i = Some ss \<longrightarrow> session_good X i f ss)"

lemma length_update: "length (AList.update k v xs) = (if k \<in> set (map fst xs) then length xs else Suc (length xs))"
  by (induction xs) auto

lemma space_inv_putFile:
  assumes "space_inv X m" "file_fits X m i f"
  shows "space_inv X (putFile i f m)"
proof -
  have "length (AList.update i f (mg_files m)) \<le> maxSpaces"
    using assms map_of_eq_None_iff [of "mg_files m" i]
    by (auto simp: length_update space_inv_def file_fits_def)
  then show ?thesis
    using assms by (auto simp: space_inv_def file_fits_def update_conv' distinct_update)
qed

lemma space_inv_saveAndPut:
  assumes "saveAndPut ev i f m = (m', r)" "space_inv X m" "file_fits X m i f"
  shows "space_inv X m'"
  using assms(1) unfolding saveAndPut_def
proof (rule sbind_cases)
  fix e assume "saveLocked (ev_save ev) f m = (m', Inl e)"
  then show ?thesis using assms(2) by (elim saveLocked_cases) auto
next
  fix u x assume s: "saveLocked (ev_save ev) f m = (u, Inr x)" and "smodify (putFile i f) u = (m', r)"
  then have m': "m' = putFile i f (m\<lparr>mg_disk := AList.update (sf_ID f) f (mg_disk m)\<rparr>)"
    by (auto elim!: saveLocked_cases)
  have "file_fits X (m\<lparr>mg_disk := d\<rparr>) i f" for d using assms(3) by (simp add: file_fits_def)
  then show ?thesis using assms(2) unfolding m' by (intro space_inv_putFile) simp_all
qed

lemma unlockedLocked_ok:
  assumes "unlockedLocked now i m = (m', Inr (f, p))" "space_inv X m"
  obtains ss where "space_inv X m'" "map_of (mg_files m') i = Some f" "map_of (mg_sessions m') i = Some ss"
    "ss_payload ss = p" "session_good X i f ss" "mg_files m' = mg_files m" "mg_disk m' = mg_disk m"
    "sf_ID f = i" "accounts_inv (sf_Accounts f)"
proof -
  let ?e = "expireLocked now m"
  have inv: "space_inv X ?e" using assms(2) by (rule space_inv_expire)
  obtain ss where ss: "map_of (mg_files ?e) i = Some f" "map_of (mg_sessions ?e) i = Some ss" "ss_payload ss = p"
    "m' = putSession i (ss\<lparr>ss_lastUsed := now\<rparr>) ?e"
    using assms(1) by (auto simp: unlockedLocked_def lookupFile_def sbind_def split: option.splits)
  have "\<exists>f'. map_of (mg_files ?e) i = Some f' \<and> session_good X i f' ss"
    using inv ss(2) unfolding space_inv_def by blast
  with ss(1) have good: "session_good X i f ss" by simp
  show ?thesis
  proof (rule that [of "ss\<lparr>ss_lastUsed := now\<rparr>"])
    show "space_inv X m'" unfolding ss(4) using inv ss(1) good by (intro space_inv_putSession) simp_all
    show "map_of (mg_sessions m') i = Some (ss\<lparr>ss_lastUsed := now\<rparr>)"
      by (simp add: ss(4) putSession_def update_conv')
    show "sf_ID f = i" "accounts_inv (sf_Accounts f)" using inv ss(1) unfolding space_inv_def by blast+
  qed (use ss good in auto)
qed

lemma unlockedLocked_keeps: "keeps (space_inv X) (unlockedLocked now i)"
  unfolding keeps_def
proof (intro allI impI)
  fix m assume inv: "space_inv X m"
  show "space_inv X (fst (unlockedLocked now i m))"
  proof (cases "unlockedLocked now i m")
    case (Pair m' r)
    show ?thesis
    proof (cases r)
      case (Inl e)
      then have "m' = expireLocked now m"
        using Pair by (auto simp: unlockedLocked_def lookupFile_def sbind_def split: option.splits)
      then show ?thesis using inv Pair by (simp add: space_inv_expire)
    next
      case (Inr fp)
      then show ?thesis using Pair unlockedLocked_ok [of now i m m' "fst fp" "snd fp" X] inv by auto
    qed
  qed
qed

lemma lookupFile_keeps: "keeps I (lookupFile i)"
  by (simp add: keeps_def lookupFile_def)

lemma confirmPassword_keeps: "keeps (space_inv X) (confirmPassword Y ev i pw)"
  unfolding confirmPassword_def
  by (intro keeps_intros lookupFile_keeps keeps_smodify) (simp_all split: if_splits)

lemma confirmPassword_frame:
  assumes "confirmPassword Y ev i pw m = (m', Inr u)"
  shows "mg_files m' = mg_files m \<and> mg_sessions m' = mg_sessions m"
  using assms
  by (auto simp: confirmPassword_def lookupFile_def sbind_def split: option.splits sum.splits if_splits)

section \<open>Lists of accounts\<close>

lemma update_first_split:
  "update_first P f xs = Some (ys, y) \<Longrightarrow>
     \<exists>us x vs. xs = us @ x # vs \<and> P x \<and> (\<forall>u\<in>set us. \<not> P u) \<and> ys = us @ f x # vs \<and> y = f x"
proof (induction xs arbitrary: ys)
  case (Cons a xs)
  show ?case
  proof (cases "P a")
    case True
    then show ?thesis using Cons.prems by (intro exI [of _ "[]"] exI [of _ a] exI [of _ xs]) auto
  next
    case False
    then obtain zs where "update_first P f xs = Some (zs, y)" "ys = a # zs"
      using Cons.prems by (auto split: option.splits)
    with Cons.IH [of zs] False show ?thesis by (metis append_Cons set_ConsD)
  qed
qed simp

lemma find_split: "P x \<Longrightarrow> \<forall>u\<in>set us. \<not> P u \<Longrightarrow> find P (us @ x # vs) = Some x"
  by (induction us) auto

lemma update_first_None: "update_first P f xs = None \<longleftrightarrow> (\<forall>x\<in>set xs. \<not> P x)"
  by (induction xs) (auto split: option.splits)

lemma delete_first_split: "\<exists>us vs. delete_first P xs = us @ vs \<and> (xs = us @ vs \<or> (\<exists>x. P x \<and> xs = us @ x # vs))"
proof (induction xs)
  case (Cons a xs)
  then obtain us vs where "delete_first P xs = us @ vs" "xs = us @ vs \<or> (\<exists>x. P x \<and> xs = us @ x # vs)"
    by blast
  then show ?case
    by (cases "P a") (force intro: exI [of _ "[]"] exI [of _ "a # us"])+
qed simp

text \<open>Two records of one key: whatever verification and identity look at is the same.\<close>

definition same_key :: "account \<Rightarrow> account \<Rightarrow> bool" where
  "same_key a b \<longleftrightarrow> ac_Kind a = ac_Kind b \<and> ac_Family a = ac_Family b \<and> ac_Index a = ac_Index b \<and>
     ac_Addresses a = ac_Addresses b \<and> ac_KeyRef a = ac_KeyRef b \<and> ac_Fingerprint a = ac_Fingerprint b"

lemma verifyImportedKey_same:
  assumes "same_key a b"
  shows "verifyImportedKey W a e = verifyImportedKey W b e"
proof -
  have "ac_Addresses a = ac_Addresses b" "ac_Fingerprint a = ac_Fingerprint b"
    using assms by (simp_all add: same_key_def)
  then show ?thesis by (simp only: verifyImportedKey_def)
qed

lemma verifyAccount_same:
  assumes "same_key a b"
  shows "verifyAccount W p a = verifyAccount W p b"
proof -
  have "ac_Kind a = ac_Kind b" "ac_Family a = ac_Family b" "ac_Index a = ac_Index b"
    "ac_Addresses a = ac_Addresses b" "ac_KeyRef a = ac_KeyRef b"
    using assms by (simp_all add: same_key_def)
  then show ?thesis by (simp only: verifyAccount_def verifyImportedKey_same [OF assms])
qed

lemma accounts_inv_replace:
  assumes "accounts_inv (us @ x # vs)" "same_key x y" "account_inv y"
  shows "accounts_inv (us @ y # vs)"
  using assms by (auto simp: accounts_inv_def derived_keys_def imported_def same_key_def)

lemma accounts_inv_append:
  assumes "accounts_inv items" "length items < maxAccountsPerSpace" "account_inv a"
    "ac_Kind a = KindDerived \<Longrightarrow> (ac_Family a, ac_Index a) \<notin> set (derived_keys items)"
    "ac_Kind a = KindImported \<Longrightarrow> ac_Fingerprint a \<notin> set (map ac_Fingerprint (imported items)) \<and>
       ac_KeyRef a \<notin> set (map ac_KeyRef (imported items))"
  shows "accounts_inv (items @ [a])"
  using assms by (auto simp: accounts_inv_def derived_keys_def imported_def)

lemma accounts_inv_delete: "accounts_inv (us @ x # vs) \<Longrightarrow> accounts_inv (us @ vs)"
  by (auto simp: accounts_inv_def derived_keys_def imported_def split: if_splits)

lemma session_good_accounts:
  assumes "session_good X i f ss" "sf_Vault g = sf_Vault f"
    "\<And>p. (\<And>a. a \<in> set (sf_Accounts f) \<Longrightarrow> verifyAccount (sx_W X) p a = Inr ()) \<Longrightarrow>
       (\<And>a. a \<in> set (sf_Accounts g) \<Longrightarrow> verifyAccount (sx_W X) p a = Inr ())"
  shows "session_good X i g ss"
  using assms by (auto simp: session_good_def verifyPayload_iff)

text \<open>One account of a file is exchanged for another that verifies whenever the first does.\<close>

lemma file_fits_exchange:
  fixes f g :: space_file
  assumes inv: "space_inv X m" and f: "map_of (mg_files m) i = Some f" "sf_Accounts f = us @ x # vs"
    and y: "accounts_inv (us @ y # vs)" "\<And>p. verifyAccount (sx_W X) p x = Inr () \<Longrightarrow> verifyAccount (sx_W X) p y = Inr ()"
    and g: "sf_Accounts g = us @ y # vs" "sf_ID g = sf_ID f" "sf_Vault g = sf_Vault f"
  shows "file_fits X m i g"
proof -
  have fi: "sf_ID f = i" using inv f(1) unfolding space_inv_def by metis
  have "session_good X i g ss" if "map_of (mg_sessions m) i = Some ss" for ss
  proof -
    have "session_good X i f ss" using inv f(1) that unfolding space_inv_def by fastforce
    then show ?thesis
    proof (rule session_good_accounts)
      fix p a
      assume ok: "\<And>a. a \<in> set (sf_Accounts f) \<Longrightarrow> verifyAccount (sx_W X) p a = Inr ()"
        and "a \<in> set (sf_Accounts g)"
      then have "a = y \<or> a \<in> set (sf_Accounts f)" "x \<in> set (sf_Accounts f)"
        using f(2) g(1) by auto
      then show "verifyAccount (sx_W X) p a = Inr ()" using ok y(2) by metis
    qed (use g in simp)
  qed
  then show ?thesis using fi y(1) f(1) g by (simp add: file_fits_def)
qed

lemma file_fits_replace:
  fixes f g :: space_file
  assumes inv: "space_inv X m" and f: "map_of (mg_files m) i = Some f" "sf_Accounts f = us @ x # vs"
    and y: "same_key x y" "account_inv y"
    and g: "sf_Accounts g = us @ y # vs" "sf_ID g = sf_ID f" "sf_Vault g = sf_Vault f"
  shows "file_fits X m i g"
proof (rule file_fits_exchange [OF inv f _ _ g])
  have "accounts_inv (us @ x # vs)" using inv f unfolding space_inv_def by metis
  then show "accounts_inv (us @ y # vs)" using y by (rule accounts_inv_replace)
qed (use verifyAccount_same [OF y(1)] in simp)

text \<open>A file with the same accounts and vault.\<close>

lemma file_fits_same:
  fixes f g :: space_file
  assumes "space_inv X m" "map_of (mg_files m) i = Some f"
    "sf_Accounts g = sf_Accounts f" "sf_ID g = sf_ID f" "sf_Vault g = sf_Vault f"
  shows "file_fits X m i g"
proof -
  have fi: "sf_ID f = i" "accounts_inv (sf_Accounts f)" using assms(1,2) unfolding space_inv_def by metis+
  have good: "session_good X i g ss" if "map_of (mg_sessions m) i = Some ss" for ss
  proof -
    have "session_good X i f ss" using assms(1,2) that unfolding space_inv_def by fastforce
    then show ?thesis by (rule session_good_accounts) (use assms(3,5) in simp_all)
  qed
  show ?thesis unfolding file_fits_def
  proof (intro conjI allI impI)
    show "sf_ID g = i" using trans [OF assms(4) fi(1)] .
    show "accounts_inv (sf_Accounts g)" unfolding assms(3) by (rule fi(2))
    show "length (mg_files m) < maxSpaces" if "map_of (mg_files m) i = None"
      using assms(2) unfolding that by (rule option.distinct(1) [THEN notE])
    show "session_good X i g ss" if "map_of (mg_sessions m) i = Some ss" for ss using that by (rule good)
  qed
qed

lemma leads_saveAndPut:
  assumes "\<And>m. P m \<Longrightarrow> space_inv X m \<and> file_fits X m i g"
  shows "leads P (sbind (saveAndPut ev i g) (\<lambda>_. sret v)) (space_inv X)"
proof (rule leads_bind [where R = "\<lambda>_. space_inv X"])
  show "\<And>s t e. P s \<Longrightarrow> saveAndPut ev i g s = (t, Inl e) \<Longrightarrow> space_inv X t"
    "\<And>s t u. P s \<Longrightarrow> saveAndPut ev i g s = (t, Inr u) \<Longrightarrow> space_inv X t"
    using assms space_inv_saveAndPut by blast+
qed (intro leads_intros)

section \<open>Operations that do not touch keys\<close>

text \<open>After \<open>unlockedLocked\<close>.\<close>

definition unlocked_at :: "space_ctx \<Rightarrow> string \<Rightarrow> space_file \<Rightarrow> payload \<Rightarrow> manager \<Rightarrow> bool" where
  "unlocked_at X i f p m \<longleftrightarrow> space_inv X m \<and> map_of (mg_files m) i = Some f \<and> sf_ID f = i \<and>
     accounts_inv (sf_Accounts f) \<and>
     (\<exists>ss. map_of (mg_sessions m) i = Some ss \<and> ss_payload ss = p \<and> session_good X i f ss)"

lemma leads_unlocked:
  assumes "\<And>f p. leads (unlocked_at X i f p) (k (f, p)) (space_inv X)"
  shows "leads (space_inv X) (sbind (unlockedLocked now i) k) (space_inv X)"
proof (rule leads_bind [where R = "\<lambda>(f, p). unlocked_at X i f p"])
  fix s t e assume "space_inv X s" "unlockedLocked now i s = (t, Inl e)"
  then show "space_inv X t" by (rule keepsD [OF unlockedLocked_keeps])
next
  fix s t v assume "space_inv X s" "unlockedLocked now i s = (t, Inr v)"
  then show "(case v of (f, p) \<Rightarrow> unlocked_at X i f p) t"
    using unlockedLocked_ok [of now i s t "fst v" "snd v" X] by (cases v) (fastforce simp: unlocked_at_def)
next
  fix v show "leads ((\<lambda>(f, p). unlocked_at X i f p) v) (k v) (space_inv X)"
    using assms by (cases v) simp
qed

lemma leads_lookup:
  assumes "\<And>f. leads (\<lambda>m. space_inv X m \<and> map_of (mg_files m) i = Some f) (k f) (space_inv X)"
  shows "leads (space_inv X) (sbind (lookupFile i) k) (space_inv X)"
  by (rule leads_bind [where R = "\<lambda>f m. space_inv X m \<and> map_of (mg_files m) i = Some f"])
    (use assms in \<open>auto simp: lookupFile_def split: option.splits\<close>)

lemma edit_account_leads:
  assumes g: "\<And>m f us a vs a'. space_inv X m \<Longrightarrow> Q m \<Longrightarrow> map_of (mg_files m) i = Some f \<Longrightarrow> sf_Accounts f = us @ a # vs \<Longrightarrow>
      ac_ID a = accountID \<Longrightarrow> g a = Inr a' \<Longrightarrow> accounts_inv (us @ a # vs) \<Longrightarrow>
      accounts_inv (us @ a' # vs) \<and> (\<forall>p. verifyAccount (sx_W X) p a = Inr () \<longrightarrow> verifyAccount (sx_W X) p a' = Inr ())"
  shows "leads (\<lambda>m. space_inv X m \<and> Q m) (edit_account ev i accountID g) (space_inv X)"
  unfolding edit_account_def
proof (rule leads_bind [where R = "\<lambda>f m. (space_inv X m \<and> Q m) \<and> map_of (mg_files m) i = Some f"])
  fix f :: space_file
  show "leads (\<lambda>m. (space_inv X m \<and> Q m) \<and> map_of (mg_files m) i = Some f)
     (sbind (slift (findAccount (sf_Accounts f) accountID)) (\<lambda>item.
      sbind (slift (g item)) (\<lambda>item'.
      case update_first (\<lambda>a. ac_ID a = accountID) (\<lambda>_. item') (sf_Accounts f) of
        None \<Rightarrow> sfail ErrAccountNotFound
      | Some (items, _) \<Rightarrow>
          sbind (saveAndPut ev i (f\<lparr>sf_Accounts := items, sf_UpdatedAt := ev_now ev\<rparr>)) (\<lambda>_. sret item'))))
     (space_inv X)"
  proof (rule leads_pure(1), rule leads_pure(1))
    fix item item'
    assume find: "findAccount (sf_Accounts f) accountID = Inr item" and g': "g item = Inr item'"
    show "leads (\<lambda>m. (space_inv X m \<and> Q m) \<and> map_of (mg_files m) i = Some f)
     (case update_first (\<lambda>a. ac_ID a = accountID) (\<lambda>_. item') (sf_Accounts f) of
        None \<Rightarrow> sfail ErrAccountNotFound
      | Some (items, _) \<Rightarrow>
          sbind (saveAndPut ev i (f\<lparr>sf_Accounts := items, sf_UpdatedAt := ev_now ev\<rparr>)) (\<lambda>_. sret item'))
     (space_inv X)"
    proof (cases "update_first (\<lambda>a. ac_ID a = accountID) (\<lambda>_. item') (sf_Accounts f)")
      case None
      then show ?thesis by (auto intro!: leads_intros)
    next
      case (Some r)
      obtain us x vs where split: "sf_Accounts f = us @ x # vs" "ac_ID x = accountID" "fst r = us @ item' # vs"
        "\<forall>a\<in>set us. ac_ID a \<noteq> accountID"
        using update_first_split [of "\<lambda>a. ac_ID a = accountID" "\<lambda>_. item'" "sf_Accounts f" "fst r" "snd r"] Some
        by auto
      have "x = item"
        using find find_split [of "\<lambda>a. ac_ID a = accountID" x us vs] split by (simp add: findAccount_def)
      have "file_fits X m i (f\<lparr>sf_Accounts := fst r, sf_UpdatedAt := ev_now ev\<rparr>)"
        if m: "space_inv X m" "Q m" "map_of (mg_files m) i = Some f" for m
      proof -
        have "accounts_inv (us @ x # vs)" using m split(1) unfolding space_inv_def by metis
        note new = g [OF m split(1,2) g' [folded \<open>x = item\<close>] this]
        show ?thesis by (rule file_fits_exchange [OF m(1,3) split(1), of item']) (use new split(3) in simp_all)
      qed
      then show ?thesis using Some by (cases r) (auto intro!: leads_saveAndPut)
    qed
  qed auto
qed (auto simp: lookupFile_def split: option.splits)

lemma edit_account_keeps:
  assumes g: "\<And>a a'. g a = Inr a' \<Longrightarrow> account_inv a \<Longrightarrow> same_key a a' \<and> account_inv a'"
  shows "keeps (space_inv X) (edit_account ev i accountID g)"
proof -
  have "leads (\<lambda>m. space_inv X m \<and> True) (edit_account ev i accountID g) (space_inv X)"
  proof (rule edit_account_leads)
    fix us a vs a'
    assume inv: "accounts_inv (us @ a # vs)" and "g a = Inr a'"
    moreover have "account_inv a" using inv by (auto simp: accounts_inv_def)
    ultimately have a': "same_key a a'" "account_inv a'" using g by blast+
    show "accounts_inv (us @ a' # vs) \<and> (\<forall>p. verifyAccount (sx_W X) p a = Inr () \<longrightarrow> verifyAccount (sx_W X) p a' = Inr ())"
      using accounts_inv_replace [OF inv a'] verifyAccount_same [OF a'(1)] by simp
  qed
  then show ?thesis by (simp add: leads_keeps)
qed

lemma foldl_appendNetwork_ok: "network_list_ok ns \<Longrightarrow> network_list_ok (foldl appendNetwork ns ids)"
  by (induction ids arbitrary: ns) (auto simp: appendNetwork_ok)

text \<open>A derived account of a migrated home that was not assigned to a family yet.\<close>

definition unassigned :: "account \<Rightarrow> bool" where
  "unassigned a \<longleftrightarrow> ac_Kind a = KindDerived \<and> ac_Family a = []"

lemma add_networks_key:
  "account_inv a \<Longrightarrow> \<not> unassigned a \<Longrightarrow> same_key a (add_networks ids lbl now a) \<and> account_inv (add_networks ids lbl now a)"
  by (auto simp: add_networks_def same_key_def account_inv_def unassigned_def foldl_appendNetwork_ok)

text \<open>Assigning a family to an account of a migrated home, when no other account has that family and
  index. The code does not ask for the latter.\<close>

definition assign_fresh :: "manager \<Rightarrow> string \<Rightarrow> string \<Rightarrow> family \<Rightarrow> bool" where
  "assign_fresh m i accountID fam \<longleftrightarrow> (\<forall>f. map_of (mg_files m) i = Some f \<longrightarrow>
     (\<forall>a\<in>set (sf_Accounts f). \<forall>b\<in>set (sf_Accounts f). ac_ID a = accountID \<and> unassigned a \<and>
        ac_Kind b = KindDerived \<and> ac_Family b = fam \<longrightarrow> ac_Index b \<noteq> ac_Index a))"

lemma bind_account_key:
  "bind_account fam n now a = Inr a' \<Longrightarrow> account_inv a \<Longrightarrow> \<not> unassigned a \<Longrightarrow> same_key a a' \<and> account_inv a'"
  by (auto simp: bind_account_def rbind_eq_Inr rcheck_eq_Inr account_inv_def same_key_def unassigned_def
      appendNetwork_ok split: if_splits)

lemma DerivedAddresses_one:
  assumes "DerivedAddresses W mn pp n = Inr as" "fam \<in> {FamilyTron, FamilyEVM}"
  shows "DerivedAddress W mn pp fam n = Inr (address_of as fam)"
  using assms by (auto simp: DerivedAddresses_def DerivedAddress_def rbind_eq_Inr CurveOf_def address_of_def family_defs)

lemma bind_unassigned:
  assumes "bind_account fam n now a = Inr a'" "account_inv a" "unassigned a"
  shows "account_inv a'" "ac_Kind a' = KindDerived" "ac_Family a' = fam" "ac_Index a' = ac_Index a"
    "verifyAccount W p a = Inr () \<Longrightarrow> verifyAccount W p a' = Inr ()"
proof -
  have a: "ac_Kind a = KindDerived" "ac_Family a = []" "ac_NetworkIDs a = []" "address_of (ac_Addresses a) fam \<noteq> []"
    and a': "a' = a\<lparr>ac_Family := fam, ac_Addresses := [(fam, address_of (ac_Addresses a) fam)],
      ac_NetworkIDs := appendNetwork [] n, ac_UpdatedAt := now\<rparr>"
    using assms by (auto simp: bind_account_def rbind_eq_Inr rcheck_eq_Inr account_inv_def unassigned_def)
  have fam: "fam \<in> {FamilyTron, FamilyEVM}" "fam \<noteq> []" using assms(2) a by (auto simp: account_inv_def family_defs)
  show "account_inv a'" using assms(2) a fam(2) by (auto simp: a' account_inv_def appendNetwork_ok)
  show "ac_Kind a' = KindDerived" "ac_Family a' = fam" "ac_Index a' = ac_Index a" by (simp_all add: a' a)
  show "verifyAccount W p a' = Inr ()" if v: "verifyAccount W p a = Inr ()"
  proof -
    obtain k as where k: "ac_Index a = Some k" "length (py_Mnemonic p) \<noteq> 0"
      "DerivedAddresses W (py_Mnemonic p) (py_BIP39Passphrase p) k = Inr as"
      "address_of as fam = address_of (ac_Addresses a) fam"
      using v a fam(1)
      by (auto simp: verifyAccount_def account_result_def rbind_eq_Inr rcheck_eq_Inr split: option.splits sum.splits)
    then show ?thesis
      using DerivedAddresses_one [OF k(3) fam(1)] a fam(2)
      by (simp add: a' verifyAccount_def account_result_def address_of_def rcheck_def)
  qed
qed

lemma unbind_account_key:
  "unbind_account n now a = Inr a' \<Longrightarrow> account_inv a \<Longrightarrow> same_key a a' \<and> account_inv a'"
  by (auto simp: unbind_account_def rcheck_eq_Inr account_inv_def same_key_def network_list_ok_def
      sorted_wrt_filter)

lemma bind_account_inv:
  assumes inv: "accounts_inv (us @ a # vs)" and bind: "bind_account fam n now a = Inr a'"
    and fresh: "\<And>b. b \<in> set (us @ a # vs) \<Longrightarrow> unassigned a \<Longrightarrow> ac_Kind b = KindDerived \<Longrightarrow> ac_Family b = fam \<Longrightarrow> ac_Index b \<noteq> ac_Index a"
  shows "accounts_inv (us @ a' # vs) \<and> (\<forall>p. verifyAccount W p a = Inr () \<longrightarrow> verifyAccount W p a' = Inr ())"
proof -
  have a: "account_inv a" using inv by (auto simp: accounts_inv_def)
  show ?thesis
  proof (cases "unassigned a")
    case False
    note a' = bind_account_key [OF bind a False]
    show ?thesis using accounts_inv_replace [OF inv] verifyAccount_same [of a a' W] a' by simp
  next
    case True
    note a' = bind_unassigned [OF bind a True]
    have "(fam, ac_Index a) \<notin> set (derived_keys us) \<union> set (derived_keys vs)"
      using fresh [OF _ True] by (force simp: derived_keys_def)
    then have "accounts_inv (us @ a' # vs)"
      using inv True a'(1-4) by (auto simp: accounts_inv_def derived_keys_def imported_def unassigned_def)
    then show ?thesis using a'(5) by blast
  qed
qed

lemma BindNetwork_inv:
  assumes "space_inv X m" "assign_fresh m i accountID fam"
  shows "space_inv X (fst (BindNetwork ev i accountID n fam m))"
proof -
  have "leads (\<lambda>m. space_inv X m \<and> assign_fresh m i accountID fam)
      (edit_account ev i accountID (bind_account fam n (ev_now ev))) (space_inv X)"
  proof (rule edit_account_leads)
    fix m f us a vs a'
    assume "assign_fresh m i accountID fam" "map_of (mg_files m) i = Some f" "sf_Accounts f = us @ a # vs"
      "ac_ID a = accountID" "bind_account fam n (ev_now ev) a = Inr a'" "accounts_inv (us @ a # vs)"
    then show "accounts_inv (us @ a' # vs) \<and> (\<forall>p. verifyAccount (sx_W X) p a = Inr () \<longrightarrow> verifyAccount (sx_W X) p a' = Inr ())"
      by (intro bind_account_inv) (auto simp: assign_fresh_def)
  qed
  then have "leads (\<lambda>m. space_inv X m \<and> assign_fresh m i accountID fam) (BindNetwork ev i accountID n fam) (space_inv X)"
    unfolding BindNetwork_def by (intro leads_pure) simp_all
  then show ?thesis using assms by (simp add: leads_def)
qed

lemma UnbindNetwork_keeps: "keeps (space_inv X) (UnbindNetwork ev i a n)"
  unfolding UnbindNetwork_def by (intro edit_account_keeps) (rule unbind_account_key)

lemma RenameAccount_keeps: "keeps (space_inv X) (RenameAccount ev i a lbl)"
  unfolding RenameAccount_def
  by (intro edit_account_keeps) (auto simp: same_key_def account_inv_def)

lemma Lock_keeps: "keeps (space_inv X) (Lock i)"
  unfolding Lock_def by (intro keeps_intros lookupFile_keeps keeps_smodify space_inv_clearSession)

lemma leads_save_same:
  fixes f g :: space_file
  assumes g: "sf_Accounts g = sf_Accounts f" "sf_ID g = sf_ID f" "sf_Vault g = sf_Vault f"
    and k: "\<And>u. keeps (space_inv X) (k u)"
  shows "leads (\<lambda>m. space_inv X m \<and> map_of (mg_files m) i = Some f) (sbind (saveAndPut ev i g) k) (space_inv X)"
proof (rule leads_bind [where R = "\<lambda>_. space_inv X"])
  show "leads (space_inv X) (k v) (space_inv X)" for v using k by (simp add: leads_keeps)
qed (auto elim!: space_inv_saveAndPut intro: file_fits_same [OF _ _ g])

lemma Rename_keeps: "keeps (space_inv X) (Rename ev i n)"
  unfolding Rename_def leads_keeps [symmetric] Let_def
  by (intro leads_intros leads_lookup leads_save_same keeps_intros) simp_all

lemma read_only_keeps:
  "keeps (space_inv X) (Get ev i)" "keeps (space_inv X) (List ev)"
  "keeps (space_inv X) (SetAutoLock ev d)" "keeps (space_inv X) (SetSendConfirmation b ttl)"
  "keeps (space_inv X) (RequireSendConfirmation ev i)" "keeps (space_inv X) (Backup Y ev i pw)"
  "keeps (space_inv X) (Mnemonic Y ev i pw)" "keeps (space_inv X) (ExportPrivateKey Y ev i a fam pw)"
  "keeps (space_inv X) (withKey Y ev i a n fam want)"
  unfolding Get_def List_def SetAutoLock_def SetSendConfirmation_def RequireSendConfirmation_def
    Backup_def Mnemonic_def ExportPrivateKey_def withKey_def
  by (intro keeps_intros lookupFile_keeps confirmPassword_keeps unlockedLocked_keeps keeps_smodify
      space_inv_expire; simp add: space_inv_expire)+

lemma WithKey_keeps: "keeps (space_inv X) (WithKey Y ev i a n fam)"
  unfolding WithKey_def WithSigner_def WithMessageSigner_def
  by (intro keeps_intros read_only_keeps)

lemma ConfirmSend_keeps: "keeps (space_inv X) (ConfirmSend Y ev i pw)"
proof -
  have "space_inv X (fst ((case map_of (mg_sessions m) i of
       None \<Rightarrow> sfail ErrLocked
     | Some ss \<Rightarrow>
         sbind (smodify (putSession i (ss\<lparr>ss_lastUsed := ev_now ev,
           ss_sendGrant := ev_now ev + mg_sendGrantTTL m\<rparr>))) (\<lambda>_.
         sret (ev_now ev + mg_sendGrantTTL m))) m))" if inv: "space_inv X m" for m
  proof (cases "map_of (mg_sessions m) i")
    case (Some ss)
    obtain f where "map_of (mg_files m) i = Some f" "session_good X i f ss"
      using inv Some unfolding space_inv_def by blast
    then show ?thesis using inv Some by (auto intro!: space_inv_putSession)
  qed (use inv in simp)
  then have "leads (space_inv X) (sbind sget (\<lambda>m. case map_of (mg_sessions m) i of
       None \<Rightarrow> sfail ErrLocked
     | Some ss \<Rightarrow>
         sbind (smodify (putSession i (ss\<lparr>ss_lastUsed := ev_now ev,
           ss_sendGrant := ev_now ev + mg_sendGrantTTL m\<rparr>))) (\<lambda>_.
         sret (ev_now ev + mg_sendGrantTTL m)))) (space_inv X)"
    by (rule leads_pure(3))
  then show ?thesis
    unfolding ConfirmSend_def leads_keeps
    by (intro keeps_bind [OF confirmPassword_keeps] keeps_bind [OF keeps_basic(4)]
        keeps_bind [OF keeps_smodify] space_inv_expire)
qed

section \<open>Unlocking and changing the password\<close>

lemma space_inv_publish:
  assumes "space_inv X m" "sf_ID f = i" "accounts_inv (sf_Accounts f)"
    "map_of (mg_files m) i = None \<Longrightarrow> length (mg_files m) < maxSpaces" "session_good X i f ss"
  shows "space_inv X (putSession i ss (putFile i f m))"
proof -
  have "length (AList.update i f (mg_files m)) \<le> maxSpaces"
    using assms(1,4) map_of_eq_None_iff [of "mg_files m" i] by (auto simp: length_update space_inv_def)
  then show ?thesis
    using assms by (auto simp: space_inv_def putSession_def update_conv' distinct_update)
qed

lemma put_commute:
  "putSession i ss (clearSessionLocked i (putFile j f m)) = putSession i ss (putFile j f (clearSessionLocked i m))"
  "putFile j f (putSession i ss m) = putSession i ss (putFile j f m)"
  by (simp_all add: putSession_def putFile_def clearSessionLocked_def)

lemma Unlock_prepare_keeps: "keeps (space_inv X) (Unlock_prepare X ev i pw)"
  unfolding Unlock_prepare_def
  by (intro keeps_intros lookupFile_keeps keeps_smodify) (simp_all split: if_splits)

lemma Unlock_prepare_ok:
  assumes "Unlock_prepare X ev i pw m = (m', Inr (p, k))"
  shows "\<exists>f. map_of (mg_files m') i = Some f \<and> verifyPayload (sx_W X) f p = Inr () \<and>
    vault_UnlockJSON (sx_V X) (sx_J X) pw (sf_Vault f) (space_aad i) = Inr (p, k)"
  using assms
  by (auto simp: Unlock_prepare_def lookupFile_def sbind_def split: option.splits sum.splits prod.splits)

lemma Unlock_keeps: "keeps (space_inv X) (Unlock X ev i pw)"
  unfolding Unlock_def leads_keeps [symmetric]
proof (rule leads_bind)
  fix s t e assume "space_inv X s" "Unlock_prepare X ev i pw s = (t, Inl e)"
  then show "space_inv X t" by (rule keepsD [OF Unlock_prepare_keeps])
next
  fix s t v assume s: "space_inv X s" "Unlock_prepare X ev i pw s = (t, Inr v)"
  show "(\<lambda>v t. space_inv X t \<and> (\<exists>f. map_of (mg_files t) i = Some f \<and>
    (\<forall>l g. session_good X i f \<lparr>ss_payload = fst v, ss_key = snd v, ss_lastUsed = l, ss_sendGrant = g\<rparr>))) v t"
    using keepsD [OF Unlock_prepare_keeps s] Unlock_prepare_ok [of X ev i pw s t "fst v" "snd v"] s(2)
    by (auto simp: session_good_def)
next
  fix v show "leads (\<lambda>t. space_inv X t \<and> (\<exists>f. map_of (mg_files t) i = Some f \<and>
    (\<forall>l g. session_good X i f \<lparr>ss_payload = fst v, ss_key = snd v, ss_lastUsed = l, ss_sendGrant = g\<rparr>)))
    (case v of (p, k) \<Rightarrow> Unlock_commit ev i p k) (space_inv X)"
    by (cases v) (auto simp: leads_def Unlock_commit_def space_inv_clearSession intro!: space_inv_putSession)
qed

lemma vault_open_sealed:
  assumes laws: "vault_laws V J" and seal: "vault_SealJSON V J ss ns pw p aad pm = Inr c"
    and unlock: "vault_UnlockJSON V J pw c aad = Inr (q, k)"
  shows "q = p"
proof -
  have "\<forall>key nonce p aad. vl_gcm_open V key nonce (vl_gcm_seal V key nonce p aad) aad = Some p"
    "\<forall>bs. vl_b64_decode V (vl_b64_encode V bs) = Some bs"
    "\<forall>p q. js_unmarshal J (js_marshal J p) = Some q \<longrightarrow> q = p"
    using laws by (simp_all add: vault_laws_def)
  then show ?thesis
    using seal unlock
    by (auto simp: vault_SealJSON_def vault_Encrypt_def vault_UnlockJSON_def vault_Unlock_def openWithKey_def
        rcheck_eq_Inr rbind_eq_Inr Let_def split: option.splits)
qed

lemma ChangePassword_prepare_keeps: "keeps (space_inv X) (ChangePassword_prepare X ev i pw new)"
  unfolding ChangePassword_prepare_def
  by (intro keeps_intros lookupFile_keeps keeps_smodify) (simp_all split: if_splits)

lemma ChangePassword_prepare_ok:
  assumes "ChangePassword_prepare X ev i pw new m = (m', Inr (c, r))"
  shows "\<exists>f. map_of (mg_files m') i = Some f \<and> (case r of
      None \<Rightarrow> map_of (mg_sessions m') i = None
    | Some (p, k) \<Rightarrow> (\<exists>q. verifyPayload (sx_W X) f q = Inr () \<and>
        vault_SealJSON (sx_V X) (sx_J X) (ev_salt ev) (ev_nonce ev) new q (space_aad i) (mg_params m) = Inr c) \<and>
        vault_UnlockJSON (sx_V X) (sx_J X) new c (space_aad i) = Inr (p, k))"
  using assms
  by (fastforce simp: ChangePassword_prepare_def lookupFile_def sbind_def
      split: option.splits sum.splits prod.splits if_splits)

lemma ChangePassword_commit_cases:
  assumes "ChangePassword_commit ev i c r u = (m', res)" "map_of (mg_files u) i = Some f"
  defines "g \<equiv> f\<lparr>sf_Vault := c, sf_UpdatedAt := ev_now ev\<rparr>"
  obtains d where "m' = u\<lparr>mg_disk := d\<rparr>"
  | d where "m' = putFile i g (u\<lparr>mg_disk := d\<rparr>)" "map_of (mg_sessions u) i = None \<or> r = None"
  | d p k where "r = Some (p, k)" "m' = putSession i \<lparr>ss_payload = p, ss_key = k, ss_lastUsed = ev_now ev, ss_sendGrant = 0\<rparr>
      (clearSessionLocked i (putFile i g (u\<lparr>mg_disk := d\<rparr>)))"
proof -
  have same: "u\<lparr>mg_disk := mg_disk u\<rparr> = u" by simp
  consider "saveLocked (ev_save ev) g u = (m', Inl (SpaceErr ''write space''))"
    | d where "saveLocked (ev_save ev) g u = (u\<lparr>mg_disk := d\<rparr>, Inr ())"
        "(case (map_of (mg_sessions u) i, r) of
          (Some _, Some (p, k)) \<Rightarrow>
             sbind (smodify (clearSessionLocked i)) (\<lambda>_.
             smodify (putSession i \<lparr>ss_payload = p, ss_key = k, ss_lastUsed = ev_now ev, ss_sendGrant = 0\<rparr>))
         | _ \<Rightarrow> sret ()) (putFile i g (u\<lparr>mg_disk := d\<rparr>)) = (m', res)"
    using assms(1,2)
    by (cases "ev_save ev") (auto simp: ChangePassword_commit_def lookupFile_def saveAndPut_def sbind_def g_def
        saveLocked_def)
  then show thesis
  proof cases
    case 1
    then show ?thesis using that(1) same by (elim saveLocked_cases) metis+
  next
    case 2
    then show ?thesis
      using that(2,3) by (cases "map_of (mg_sessions u) i"; cases r) auto
  qed
qed

lemma ChangePassword_inv:
  assumes inv: "space_inv X m" and op: "ChangePassword X ev i pw new m = (m', res)"
    and fits: "\<And>ss. map_of (mg_sessions m') i = Some ss \<Longrightarrow> vault_fits (sx_V X) (sx_J X) (ss_payload ss)"
  shows "space_inv X m'"
  using op unfolding ChangePassword_def
proof (rule sbind_cases)
  fix e assume "ChangePassword_prepare X ev i pw new m = (m', Inl e)"
  then show ?thesis using inv by (auto intro: keepsD [OF ChangePassword_prepare_keeps])
next
  fix u x assume prep: "ChangePassword_prepare X ev i pw new m = (u, Inr x)"
    and "(case x of (c, refreshed) \<Rightarrow> ChangePassword_commit ev i c refreshed) u = (m', res)"
  then obtain c r where x: "x = (c, r)" and commit: "ChangePassword_commit ev i c r u = (m', res)"
    by (cases x) auto
  have u: "space_inv X u" using inv prep by (auto intro: keepsD [OF ChangePassword_prepare_keeps])
  obtain f where f: "map_of (mg_files u) i = Some f" and r: "case r of
      None \<Rightarrow> map_of (mg_sessions u) i = None
    | Some (p, k) \<Rightarrow> (\<exists>q. verifyPayload (sx_W X) f q = Inr () \<and>
        vault_SealJSON (sx_V X) (sx_J X) (ev_salt ev) (ev_nonce ev) new q (space_aad i) (mg_params m) = Inr c) \<and>
        vault_UnlockJSON (sx_V X) (sx_J X) new c (space_aad i) = Inr (p, k)"
    using ChangePassword_prepare_ok [OF prep [unfolded x]] by blast
  define g where "g = f\<lparr>sf_Vault := c, sf_UpdatedAt := ev_now ev\<rparr>"
  have fi: "sf_ID g = i" "accounts_inv (sf_Accounts g)"
    using u f unfolding space_inv_def g_def by (metis space_file.select_convs space_file.surjective space_file.update_convs)+
  from commit f show ?thesis
  proof (cases rule: ChangePassword_commit_cases)
    case (1 d)
    then show ?thesis using u by simp
  next
    case (2 d)
    have "map_of (mg_sessions u) i = None" using 2(2) r by auto
    then have "file_fits X (u\<lparr>mg_disk := d\<rparr>) i g" using fi f by (simp add: file_fits_def)
    then show ?thesis unfolding 2(1) g_def [symmetric] using u by (intro space_inv_putFile) simp_all
  next
    case (3 d p k)
    let ?ss = "\<lparr>ss_payload = p, ss_key = k, ss_lastUsed = ev_now ev, ss_sendGrant = 0\<rparr>"
    have "map_of (mg_sessions m') i = Some ?ss" by (simp add: 3(2) putSession_def update_conv')
    then have "vault_fits (sx_V X) (sx_J X) p" using fits by fastforce
    then have laws: "vault_laws (sx_V X) (sx_J X)" by (simp add: vault_fits_def)
    obtain q where q: "verifyPayload (sx_W X) f q = Inr ()"
      "vault_SealJSON (sx_V X) (sx_J X) (ev_salt ev) (ev_nonce ev) new q (space_aad i) (mg_params m) = Inr c"
      "vault_UnlockJSON (sx_V X) (sx_J X) new c (space_aad i) = Inr (p, k)"
      using r 3(1) by auto
    have "p = q" using vault_open_sealed [OF laws q(2,3)] .
    then have good: "session_good X i g ?ss"
      using q by (auto simp: session_good_def verifyPayload_iff g_def)
    have "space_inv X (putSession i ?ss (putFile i g (clearSessionLocked i (u\<lparr>mg_disk := d\<rparr>))))"
      using u f fi good by (intro space_inv_publish) (simp_all add: space_inv_clearSession)
    then show ?thesis unfolding 3(2) g_def [symmetric] put_commute(1) .
  qed
qed

section \<open>Creating spaces and accounts\<close>

lemma saveAndPut_cases:
  assumes "saveAndPut ev i g u = (m', res)"
  obtains d e where "m' = u\<lparr>mg_disk := d\<rparr>" "res = Inl e"
  | d where "m' = putFile i g (u\<lparr>mg_disk := d\<rparr>)" "res = Inr ()"
proof -
  have same: "u\<lparr>mg_disk := mg_disk u\<rparr> = u" by simp
  show thesis
    using assms that(1) [of "mg_disk u" "SpaceErr ''write space''"] that
    by (cases "ev_save ev") (auto simp: saveAndPut_def saveLocked_def sbind_def)
qed

lemma verifyPayload_no_accounts: "sf_Accounts f = [] \<Longrightarrow> py_Version p = 1 \<Longrightarrow> verifyPayload W f p = Inr ()"
  by (simp add: verifyPayload_iff)

lemma seals_asI: "vault_SealJSON V J ss ns pw p aad pm = Inr c \<Longrightarrow> seals_as V J aad pm pw p c"
  unfolding seals_as_def by blast

lemma reseals_asI: "SessionKey_SealJSON V J ns (Some k) p aad = Inr c \<Longrightarrow> reseals_as V J aad k p c"
  unfolding reseals_as_def by blast

lemma Create_prepare_ok:
  assumes "Create_prepare X ev req m = Inr (f, p, k, mn, gen)"
  shows "sf_Accounts f = [] \<and> py_Version p = 1 \<and> length (mg_files m) < maxSpaces \<and>
    seals_as (sx_V X) (sx_J X) (space_aad (sf_ID f)) (mg_params m) (cq_Password req) p (sf_Vault f) \<and>
    (\<exists>pt. vault_Unlock (sx_V X) (cq_Password req) (sf_Vault f) (space_aad (sf_ID f)) = Inr (pt, k))"
  using assms
  by (auto simp: Create_prepare_def rbind_eq_Inr spaceQuota_def rcheck_eq_Inr Let_def
      intro: seals_asI)

lemma vault_Unlock_key:
  "vault_Unlock V pw c aad = Inr (pt, k) \<Longrightarrow> vault_UnlockJSON V J pw c aad = Inr (p, k') \<Longrightarrow> k' = k"
  by (auto simp: vault_UnlockJSON_def split: option.splits)

lemma Create_inv:
  assumes inv: "space_inv X m" and op: "Create X ev req m = (m', res)"
    and fits: "\<And>i ss. map_of (mg_sessions m') i = Some ss \<Longrightarrow> vault_fits (sx_V X) (sx_J X) (ss_payload ss)"
  shows "space_inv X m'"
proof (cases "Create_prepare X ev req m")
  case (Inl e)
  then show ?thesis using op inv by (auto simp: Create_def sbind_slift)
next
  case (Inr v)
  then obtain f p k mn gen where prep: "Create_prepare X ev req m = Inr (f, p, k, mn, gen)" by (cases v) auto
  let ?ss = "\<lparr>ss_payload = p, ss_key = k, ss_lastUsed = ev_t1 ev, ss_sendGrant = 0\<rparr>"
  obtain r where commit: "Create_commit ev (cq_ExpectEmpty req) f p k m = (m', r)"
    using op prep by (auto simp: Create_def sbind_slift sbind_def split: prod.splits sum.splits)
  note ok = Create_prepare_ok [OF prep]
  have quota: "spaceQuota m = Inr ()" using ok by (simp add: spaceQuota_def)
  show ?thesis
  proof (cases "cq_ExpectEmpty req \<and> length (mg_files m) \<noteq> 0")
    case True
    then show ?thesis using commit inv quota by (auto simp: Create_commit_def sbind_slift sbind_scheck)
  next
    case False
    obtain u q where s: "saveAndPut ev (sf_ID f) f m = (u, q)" by (cases "saveAndPut ev (sf_ID f) f m")
    have m': "m' = (case q of Inl e \<Rightarrow> u | Inr _ \<Rightarrow> putSession (sf_ID f) ?ss u)"
      using commit s False quota
      by (auto simp: Create_commit_def sbind_slift sbind_scheck sbind_def split: sum.splits)
    from s show ?thesis
    proof (cases rule: saveAndPut_cases)
      case (1 d e)
      then show ?thesis using m' inv by simp
    next
      case (2 d)
      then have m'2: "m' = putSession (sf_ID f) ?ss (putFile (sf_ID f) f (m\<lparr>mg_disk := d\<rparr>))"
        using m' by simp
      then have "map_of (mg_sessions m') (sf_ID f) = Some ?ss"
        by (simp add: putSession_def update_conv')
      then have fit: "vault_fits (sx_V X) (sx_J X) p" using fits by fastforce
      have "seals_as (sx_V X) (sx_J X) (space_aad (sf_ID f)) (mg_params m) (cq_Password req) p (sf_Vault f)"
        using ok by blast
      from vault_unlock_seal [OF this fit]
      obtain k' where "vault_UnlockJSON (sx_V X) (sx_J X) (cq_Password req) (sf_Vault f)
          (space_aad (sf_ID f)) = Inr (p, k')" by blast
      then have "session_good X (sf_ID f) f ?ss"
        using ok vault_Unlock_key [of "sx_V X" "cq_Password req" "sf_Vault f" "space_aad (sf_ID f)" _ k "sx_J X" p k']
          verifyPayload_no_accounts [of f p "sx_W X"] by (auto simp: session_good_def)
      then show ?thesis
        unfolding m'2 using inv ok
        by (intro space_inv_publish) (simp_all add: accounts_inv_def derived_keys_def imported_def)
    qed
  qed
qed

section \<open>Migrating an old home\<close>

lemma verify_legacy_ok:
  "verify_legacy W mn pp acc ls = Inr verified \<Longrightarrow>
     distinct (map la_Index ls) \<and> set (map la_Index ls) \<inter> set (map fst acc) = {} \<and>
     (\<forall>l\<in>set ls. \<exists>as. map_of verified (la_Index l) = Some as \<and> DerivedAddresses W mn pp (la_Index l) = Inr as) \<and>
     (\<forall>n as. map_of acc n = Some as \<longrightarrow> map_of verified n = Some as)"
proof (induction W mn pp acc ls rule: verify_legacy.induct)
  case (2 W mn pp acc old rest)
  then obtain as where as: "map_of acc (la_Index old) = None" "DerivedAddresses W mn pp (la_Index old) = Inr as"
    "verify_legacy W mn pp (AList.update (la_Index old) as acc) rest = Inr verified"
    by (auto simp: account_result_def rbind_eq_Inr rcheck_eq_Inr split: sum.splits)
  have upd: "map_of (AList.update (la_Index old) as acc) = (map_of acc)(la_Index old \<mapsto> as)"
    "set (map fst (AList.update (la_Index old) as acc)) = insert (la_Index old) (set (map fst acc))"
    by (auto simp: update_conv' dom_update)
  have "verify_legacy W mn pp (AList.update (la_Index old) as acc) rest = Inr verified \<longrightarrow>
     distinct (map la_Index rest) \<and> set (map la_Index rest) \<inter> set (map fst (AList.update (la_Index old) as acc)) = {} \<and>
     (\<forall>l\<in>set rest. \<exists>as. map_of verified (la_Index l) = Some as \<and> DerivedAddresses W mn pp (la_Index l) = Inr as) \<and>
     (\<forall>n bs. map_of (AList.update (la_Index old) as acc) n = Some bs \<longrightarrow> map_of verified n = Some bs)"
    using 2 as(1,2) by (simp add: rcheck_def account_result_def split: if_splits)
  then show ?case
    using as map_of_eq_None_iff [of acc "la_Index old"] unfolding upd by (auto split: if_splits) (metis option.distinct(1))
qed simp

lemma DerivedAddresses_families:
  "DerivedAddresses W mn pp n = Inr as \<Longrightarrow> address_of as fam \<noteq> [] \<Longrightarrow> fam \<in> {FamilyTron, FamilyEVM}"
  by (auto simp: DerivedAddresses_def rbind_eq_Inr address_of_def split: if_splits)

definition legacy_account_of :: "(u32 \<times> addresses) list \<Rightarrow> legacy_account \<Rightarrow> account \<Rightarrow> bool" where
  "legacy_account_of verified l a \<longleftrightarrow> unassigned a \<and> ac_NetworkIDs a = [] \<and> ac_Index a = Some (la_Index l) \<and>
     ac_Addresses a = (case map_of verified (la_Index l) of None \<Rightarrow> [] | Some as \<Rightarrow> as)"

lemma legacy_records:
  assumes "rmap (legacy_record ev verified) (zip ls (ids @ replicate (length ls) None)) = Inr items"
  shows "list_all2 (legacy_account_of verified) ls items"
proof -
  let ?z = "zip ls (ids @ replicate (length ls) None)"
  have one: "legacy_record ev verified z = Inr a \<Longrightarrow> legacy_account_of verified (fst z) a" for z a
    by (cases z) (auto simp: legacy_record_def legacy_account_of_def unassigned_def rbind_eq_Inr)
  have "list_all2 (\<lambda>z a. legacy_account_of verified (fst z) a) ?z items"
    using assms unfolding rmap_eq_Inr by (rule list_all2_mono) (rule one)
  then have "list_all2 (legacy_account_of verified) (map fst ?z) items" by (simp add: list.rel_map)
  then show ?thesis by (simp add: map_fst_zip_take)
qed

lemma legacy_accounts_inv:
  assumes v: "verify_legacy W mn pp [] ls = Inr verified" and items: "list_all2 (legacy_account_of verified) ls items"
    and len: "length ls \<le> maxAccountsPerSpace"
  shows "accounts_inv (sort_key k items)"
    "length (py_Mnemonic p) \<noteq> 0 \<Longrightarrow> py_Mnemonic p = mn \<Longrightarrow> py_BIP39Passphrase p = pp \<Longrightarrow>
       a \<in> set items \<Longrightarrow> verifyAccount W p a = Inr ()"
proof -
  note ok = verify_legacy_ok [OF v]
  have found: "\<exists>l\<in>set ls. legacy_account_of verified l a" if "a \<in> set items" for a
    using items that by (metis in_set_conv_nth list_all2_conv_all_nth)
  have inv: "account_inv a" if "a \<in> set items" for a
    using found [OF that] ok DerivedAddresses_families
    by (fastforce simp: legacy_account_of_def account_inv_def unassigned_def network_list_ok_def)
  have keys: "derived_keys items = map (\<lambda>l. ([], Some (la_Index l))) ls" "imported items = []"
    using items by (induction rule: list_all2_induct)
      (auto simp: derived_keys_def imported_def legacy_account_of_def unassigned_def KindDerived_def KindImported_def)
  have "distinct (derived_keys items)" using ok by (simp add: keys distinct_map inj_on_def)
  then have "distinct (derived_keys (sort_key k items))" by (simp add: derived_keys_def filter_sort distinct_map)
  moreover have "imported (sort_key k items) = []" using keys(2) by (simp add: imported_def filter_empty_conv)
  ultimately show "accounts_inv (sort_key k items)"
    using inv len list_all2_lengthD [OF items] by (simp add: accounts_inv_def list_all_iff)
  show "verifyAccount W p a = Inr ()"
    if p: "length (py_Mnemonic p) \<noteq> 0" "py_Mnemonic p = mn" "py_BIP39Passphrase p = pp" and a: "a \<in> set items"
    using found [OF a] ok p
    by (fastforce simp: legacy_account_of_def verifyAccount_def unassigned_def account_result_def rcheck_def)
qed

text \<open>The quotas the migration does not check are assumptions here.\<close>

lemma ImportLegacy_inv:
  assumes inv: "space_inv X m" and op: "ImportLegacy X ev req legacy ids m = (m', res)"
    and quota: "length (mg_files m) < maxSpaces" "length legacy \<le> maxAccountsPerSpace"
    and phrase: "\<not> wl_mnemonic_valid (sx_W X) []"
    and fits: "\<And>i ss. map_of (mg_sessions m') i = Some ss \<Longrightarrow> vault_fits (sx_V X) (sx_J X) (ss_payload ss)"
  shows "space_inv X m'"
proof -
  let ?mn = "NormalizeMnemonic (cq_Mnemonic req)" and ?pp = "cq_BIP39Passphrase req"
  let ?p = "\<lparr>py_Version = 1, py_Mnemonic = ?mn, py_BIP39Passphrase = ?pp, py_ImportedKeys = Map.empty, py_CreatedAt = ev_t1 ev\<rparr>"
  consider (early) "m' = m"
  | (run) verified i items c pt k f where "validateLegacy (sx_W X) ?mn ?pp legacy = Inr verified"
      "rmap (legacy_record ev verified) (zip legacy (ids @ replicate (length legacy) None)) = Inr items"
      "vault_SealJSON (sx_V X) (sx_J X) (ev_salt ev) (ev_nonce ev) (cq_Password req) ?p (space_aad i) (mg_params m) = Inr c"
      "vault_Unlock (sx_V X) (cq_Password req) c (space_aad i) = Inr (pt, k)"
      "f = \<lparr>sf_SchemaVersion = SchemaVersion, sf_ID = i, sf_Name = space_name (cq_Name req),
           sf_CreatedAt = ev_t1 ev, sf_UpdatedAt = ev_t1 ev,
           sf_Accounts = sort_key (\<lambda>a. the (ac_Index a)) items, sf_Vault = c\<rparr>"
      "(case saveAndPut ev i f m of (u, Inl e) \<Rightarrow> u
        | (u, Inr _) \<Rightarrow> putSession i \<lparr>ss_payload = ?p, ss_key = k, ss_lastUsed = ev_t1 ev, ss_sendGrant = 0\<rparr> u) = m'"
    using op
    by (auto simp: ImportLegacy_def sbind_slift sbind_def vault_result_def Let_def split: sum.splits prod.splits)
  then show ?thesis
  proof cases
    case early
    then show ?thesis using inv by simp
  next
    case (run verified i items c pt k f)
    let ?ss = "\<lparr>ss_payload = ?p, ss_key = k, ss_lastUsed = ev_t1 ev, ss_sendGrant = 0\<rparr>"
    have v: "verify_legacy (sx_W X) ?mn ?pp [] legacy = Inr verified" "?mn \<noteq> []"
      using run(1) phrase
      by (auto simp: validateLegacy_def ValidateMnemonic_def NormalizeMnemonic_def account_result_def rbind_eq_Inr rcheck_eq_Inr split: sum.splits)
    note legacy = legacy_accounts_inv [OF v(1) legacy_records [OF run(2)] quota(2)]
    obtain u q where s: "saveAndPut ev i f m = (u, q)" by (cases "saveAndPut ev i f m")
    from s show ?thesis
    proof (cases rule: saveAndPut_cases)
      case (1 d e)
      then have "m' = m\<lparr>mg_disk := d\<rparr>" using run(6) s by simp
      then show ?thesis using inv by simp
    next
      case (2 d)
      then have m': "m' = putSession i ?ss (putFile i f (m\<lparr>mg_disk := d\<rparr>))" using run(6) s by simp
      then have "map_of (mg_sessions m') i = Some ?ss" by (simp add: putSession_def update_conv')
      then have fit: "vault_fits (sx_V X) (sx_J X) ?p" using fits by fastforce
      obtain k' where k': "vault_UnlockJSON (sx_V X) (sx_J X) (cq_Password req) c (space_aad i) = Inr (?p, k')"
        using vault_unlock_seal [OF seals_asI [OF run(3)] fit] by blast
      then have "session_good X i f ?ss"
        using vault_Unlock_key [OF run(4) k'] legacy(2) [of ?p] v(2) by (auto simp: session_good_def verifyPayload_iff run(5))
      then show ?thesis
        unfolding m' using inv quota(1) legacy(1) by (intro space_inv_publish) (simp_all add: run(5))
    qed
  qed
qed

section \<open>Deriving accounts\<close>

lemma derived_keys_member:
  "(fam, ix) \<in> set (derived_keys items) \<longleftrightarrow>
     (\<exists>a\<in>set items. ac_Kind a = KindDerived \<and> ac_Family a = fam \<and> ac_Index a = ix)"
  by (auto simp: derived_keys_def)

lemma address_of_single [simp]: "address_of [(f, a)] f = a"
  by (simp add: address_of_def)

lemma CurveOf_nonempty: "CurveOf fam = Inr c \<Longrightarrow> fam \<noteq> []"
  by (auto simp: CurveOf_def family_defs split: if_splits)

lemma file_fits_append:
  fixes f :: space_file
  assumes at: "unlocked_at X i f p m" and new: "accounts_inv (sf_Accounts f @ [a])"
    "verifyAccount (sx_W X) p a = Inr ()"
    and g: "sf_Accounts g = sf_Accounts f @ [a]" "sf_ID g = sf_ID f" "sf_Vault g = sf_Vault f"
  shows "file_fits X m i g"
proof -
  obtain ss where ss: "map_of (mg_sessions m) i = Some ss" "ss_payload ss = p" "session_good X i f ss"
    using at by (auto simp: unlocked_at_def)
  have "session_good X i g ss"
    using ss(2,3) new(2) g by (auto simp: session_good_def verifyPayload_iff)
  then show ?thesis
    using at ss new(1) g unfolding unlocked_at_def file_fits_def by force
qed

lemma file_fits_update_first:
  fixes f :: space_file
  assumes at: "unlocked_at X i f p m" and upd: "update_first P (add_networks ns lbl now) (sf_Accounts f) = Some (items, item)"
    and P: "\<And>a. P a \<Longrightarrow> \<not> unassigned a"
  shows "file_fits X m i (f\<lparr>sf_Accounts := items, sf_UpdatedAt := t\<rparr>)"
proof -
  obtain us x vs where s: "sf_Accounts f = us @ x # vs" "items = us @ add_networks ns lbl now x # vs" "P x"
    using update_first_split [OF upd] by blast
  have "account_inv x" using at s(1) by (auto simp: unlocked_at_def accounts_inv_def)
  then have "same_key x (add_networks ns lbl now x) \<and> account_inv (add_networks ns lbl now x)"
    by (rule add_networks_key) (rule P [OF s(3)])
  then show ?thesis
    using at s by (intro file_fits_replace [where us = us and x = x and vs = vs]) (auto simp: unlocked_at_def)
qed

lemma leads_save_unlocked:
  assumes "\<And>m. unlocked_at X i f p m \<Longrightarrow> file_fits X m i g"
  shows "leads (unlocked_at X i f p) (sbind (saveAndPut ev i g) (\<lambda>_. sret v)) (space_inv X)"
  using assms by (intro leads_saveAndPut) (auto simp: unlocked_at_def)

lemma unlocked_at_inv: "unlocked_at X i f p m \<Longrightarrow> space_inv X m"
  by (simp add: unlocked_at_def)

lemma DeriveNetworks_keeps: "keeps (space_inv X) (DeriveNetworks X ev i ids fam lbl)"
  unfolding DeriveNetworks_def leads_keeps [symmetric]
proof (intro leads_pure(1) leads_unlocked, goal_cases)
  case (1 ns curve f p)
  let ?P = "\<lambda>n a. \<not> (ac_Kind a \<noteq> KindDerived \<or> ac_Family a \<noteq> fam \<or> ac_Index a \<noteq> Some n)"
  have "CurveOf fam = Inr curve" using 1 by (simp add: account_result_def split: sum.splits)
  then have fam: "fam \<noteq> []" by (rule CurveOf_nonempty)
  note ns = networkList_ok(1) [OF 1(1)]
  show ?case
    unfolding prod.case
  proof (intro leads_pure(1,2) unlocked_at_inv; (assumption)?)
    fix n
    assume mn: "length (py_Mnemonic p) \<noteq> 0"
    show "leads (unlocked_at X i f p)
      (case update_first (?P n) (add_networks ns lbl (ev_now ev)) (sf_Accounts f) of
         Some (items, item) \<Rightarrow>
           sbind (saveAndPut ev i (f\<lparr>sf_Accounts := items, sf_UpdatedAt := ev_now ev\<rparr>)) (\<lambda>_. sret item)
       | None \<Rightarrow>
         sbind (slift (account_result (DerivedAddress (sx_W X) (py_Mnemonic p) (py_BIP39Passphrase p) fam n))) (\<lambda>address.
         sbind (slift (accountQuota f)) (\<lambda>_.
         sbind (slift (newID ''acc_'' (ev_id1 ev))) (\<lambda>accountID.
         let created = \<lparr>ac_ID = accountID, ac_Label = TrimSpace lbl, ac_Kind = KindDerived, ac_Family = fam,
           ac_NetworkIDs = ns, ac_Addresses = [(fam, address)], ac_Index = Some n,
           ac_DerivationProfile = ''bip44-v1'', ac_KeyRef = [], ac_Fingerprint = [], ac_ImportedAt = None,
           ac_CreatedAt = ev_now ev, ac_UpdatedAt = ev_now ev\<rparr>
         in sbind (saveAndPut ev i (f\<lparr>sf_Accounts := sf_Accounts f @ [created], sf_UpdatedAt := ev_now ev\<rparr>)) (\<lambda>_.
            sret created))))) (space_inv X)"
    proof (cases "update_first (?P n) (add_networks ns lbl (ev_now ev)) (sf_Accounts f)")
      case (Some r)
      then show ?thesis
        by (cases r) (auto intro!: leads_save_unlocked file_fits_update_first simp: unassigned_def fam)
    next
      case None
      then have fresh: "(fam, Some n) \<notin> set (derived_keys (sf_Accounts f))"
        by (auto simp: update_first_None derived_keys_member)
      show ?thesis
        unfolding None option.case Let_def
      proof (intro leads_pure(1) leads_save_unlocked unlocked_at_inv; (assumption)?)
        fix address accountID u m
        assume "account_result (DerivedAddress (sx_W X) (py_Mnemonic p) (py_BIP39Passphrase p) fam n) = Inr address"
          and quota: "accountQuota f = Inr u" and at: "unlocked_at X i f p m"
        then have addr: "DerivedAddress (sx_W X) (py_Mnemonic p) (py_BIP39Passphrase p) fam n = Inr address"
          by simp
        let ?a = "\<lparr>ac_ID = accountID, ac_Label = TrimSpace lbl, ac_Kind = KindDerived, ac_Family = fam,
           ac_NetworkIDs = ns, ac_Addresses = [(fam, address)], ac_Index = Some n,
           ac_DerivationProfile = ''bip44-v1'', ac_KeyRef = [], ac_Fingerprint = [], ac_ImportedAt = None,
           ac_CreatedAt = ev_now ev, ac_UpdatedAt = ev_now ev\<rparr>"
        have "verifyAccount (sx_W X) p ?a = Inr ()"
          using addr mn fam by (simp add: verifyAccount_def account_result_def)
        moreover have "accounts_inv (sf_Accounts f @ [?a])"
          using at quota fresh fam ns
          by (intro accounts_inv_append) (auto simp: unlocked_at_def accountQuota_def rcheck_eq_Inr account_inv_def)
        ultimately show "file_fits X m i (f\<lparr>sf_Accounts := sf_Accounts f @ [?a], sf_UpdatedAt := ev_now ev\<rparr>)"
          using at by (intro file_fits_append) auto
      qed
    qed
  qed
qed auto

section \<open>Importing and deleting keys\<close>

lemma ParsePrivateKey_ok: "ParsePrivateKey W v = Inr raw \<Longrightarrow> ToECDSA W raw = Some raw"
  by (auto simp: ParsePrivateKey_def Let_def rcheck_eq_Inr ToECDSA_def split: option.splits if_splits)

lemma ParseEd25519_ok:
  assumes "ParseEd25519PrivateKey W v = Inr key"
  shows "length (take 32 key) = 32" "NewKeyFromSeed W (take 32 key) = key"
proof -
  obtain raw where "length raw = 64" "key = NewKeyFromSeed W (take 32 raw)"
    using assms by (auto simp: ParseEd25519PrivateKey_def Let_def rbind_eq_Inr rcheck_eq_Inr)
  then show "length (take 32 key) = 32" "NewKeyFromSeed W (take 32 key) = key"
    by (simp_all add: NewKeyFromSeed_def)
qed

lemma parseImportedKey_verifies:
  assumes "parseImportedKey W curve v = Inr (raw, fp, addrs)"
    and "ac_Fingerprint a = fp" "ac_Addresses a = addrs"
  shows "verifyImportedKey W a \<lparr>ke_Curve = curve, ke_PrivateKey = raw, ke_ImportedAt = t\<rparr> = Inr ()"
proof (cases "curve = CurveSecp256k1")
  case True
  then have "ToECDSA W raw = Some raw" "ImportedAddresses W raw = Inr addrs" "fp = Fingerprint W raw"
    using assms(1) by (auto simp: parseImportedKey_def rbind_eq_Inr ParsePrivateKey_ok)
  then show ?thesis
    using True assms by (simp add: verifyImportedKey_def entryCurve_def maps_Equal_iff)
next
  case False
  then obtain key where "curve = CurveEd25519" "ParseEd25519PrivateKey W v = Inr key" "raw = take 32 key"
    "Ed25519Fingerprint W key = Inr fp" "ImportedEd25519Addresses W key = Inr addrs"
    using assms(1) by (auto simp: parseImportedKey_def rbind_eq_Inr split: if_splits)
  then show ?thesis
    using assms ParseEd25519_ok [of W v key]
    by (simp add: verifyImportedKey_def entryCurve_def maps_Equal_iff curve_defs)
qed

text \<open>The keys in the payload matter only through the references of imported accounts.\<close>

lemma verifyAccount_payload:
  assumes "verifyAccount W p a = Inr ()" "py_Mnemonic q = py_Mnemonic p"
    "py_BIP39Passphrase q = py_BIP39Passphrase p"
    "ac_Kind a = KindImported \<Longrightarrow> py_ImportedKeys q (ac_KeyRef a) = py_ImportedKeys p (ac_KeyRef a)"
  shows "verifyAccount W q a = Inr ()"
proof -
  have "verifyAccount W q a = verifyAccount W p a"
  proof (cases "ac_Kind a = KindImported")
    case True
    show ?thesis by (simp only: verifyAccount_def assms(2,3) assms(4) [OF True])
  next
    case False
    show ?thesis by (simp only: verifyAccount_def assms(2,3) False if_False)
  qed
  then show ?thesis using assms(1) by simp
qed

lemma update_update: "AList.update k v (AList.update k w xs) = AList.update k v xs"
  by (induction xs) auto

lemma setSessionPayload_twice:
  "map_of (mg_sessions m) i = Some ss \<Longrightarrow> ss_payload ss = p \<Longrightarrow>
     setSessionPayload i p ((setSessionPayload i q m)\<lparr>mg_disk := d\<rparr>) = putSession i ss (m\<lparr>mg_disk := d\<rparr>)"
proof -
  assume ss: "map_of (mg_sessions m) i = Some ss" "ss_payload ss = p"
  have "ss\<lparr>ss_payload := p\<rparr> = ss" using ss(2) by (cases ss) simp
  then show ?thesis using ss(1) by (simp add: setSessionPayload_def putSession_def update_conv' update_update)
qed

text \<open>Resealing after the session's payload was changed from \<open>p\<close> to \<open>q\<close>, with what the callers do
  on each outcome: an error puts \<open>p\<close> back, success publishes the file.\<close>

lemma reseal_inv:
  fixes f g :: space_file
  assumes at: "unlocked_at X i f p m"
    and run: "(case resealAndSaveLocked X ev g q i (setSessionPayload i q m) of
        (n, Inl e) \<Rightarrow> (setSessionPayload i p n, Inl e)
      | (n, Inr h) \<Rightarrow> (putFile i h n, Inr v)) = (m', res)"
    and g: "sf_ID g = sf_ID f" "accounts_inv (sf_Accounts g)"
    and verify: "verifyPayload (sx_W X) g q = Inr ()"
    and fits: "\<And>ss. map_of (mg_sessions m') i = Some ss \<Longrightarrow> vault_fits (sx_V X) (sx_J X) (ss_payload ss)"
  shows "space_inv X m'"
proof -
  obtain ss where ss: "map_of (mg_sessions m) i = Some ss" "ss_payload ss = p" "session_good X i f ss"
    and inv: "space_inv X m" and f: "map_of (mg_files m) i = Some f" "sf_ID f = i"
    using at by (auto simp: unlocked_at_def)
  let ?qs = "ss\<lparr>ss_payload := q\<rparr>"
  have setq: "setSessionPayload i q m = putSession i ?qs m" using ss(1) by (simp add: setSessionPayload_def)
  have find: "map_of (mg_sessions (putSession i ?qs m)) i = Some ?qs"
    by (simp add: putSession_def update_conv')
  have restore: "setSessionPayload i p ((setSessionPayload i q m)\<lparr>mg_disk := d\<rparr>) = putSession i ss (m\<lparr>mg_disk := d\<rparr>)" for d
    using ss by (intro setSessionPayload_twice) auto
  have kept: "space_inv X (putSession i ss (m\<lparr>mg_disk := d\<rparr>))" for d
    using inv f ss by (intro space_inv_putSession) auto
  have undo: "setSessionPayload i p (setSessionPayload i q m) = putSession i ss m"
    using restore [of "mg_disk m"] by (simp add: setq putSession_def)
  show ?thesis
  proof (cases "SessionKey_SealJSON (sx_V X) (sx_J X) (ev_nonce ev) (Some (ss_key ss)) q (space_aad i)")
    case (Inl e)
    then have "m' = setSessionPayload i p (setSessionPayload i q m)"
      using run find by (auto simp: resealAndSaveLocked_def setq sbind_slift vault_result_def)
    then show ?thesis using undo kept [of "mg_disk m"] by simp
  next
    case (Inr c)
    let ?h = "g\<lparr>sf_Vault := c\<rparr>"
    obtain n r where save: "saveLocked (ev_save ev) ?h (setSessionPayload i q m) = (n, r)"
      by (cases "saveLocked (ev_save ev) ?h (setSessionPayload i q m)")
    have m': "m' = (case r of Inl e \<Rightarrow> setSessionPayload i p n | Inr _ \<Rightarrow> putFile i ?h n)"
      using run find Inr save
      by (auto simp: resealAndSaveLocked_def setq sbind_slift vault_result_def sbind_def split: sum.splits)
    have ok: "space_inv X m'" if r: "r = Inr ()" and n: "n = (setSessionPayload i q m)\<lparr>mg_disk := d\<rparr>" for d
    proof -
      have m'2: "m' = putSession i ?qs (putFile i ?h (m\<lparr>mg_disk := d\<rparr>))"
        by (simp add: m' r n setq putFile_def putSession_def)
      then have "map_of (mg_sessions m') i = Some ?qs" by (simp add: putSession_def update_conv')
      then have fit: "vault_fits (sx_V X) (sx_J X) q" using fits by fastforce
      obtain pw where "vault_UnlockJSON (sx_V X) (sx_J X) pw (sf_Vault f) (space_aad i) = Inr (p, ss_key ss)"
        using ss by (auto simp: session_good_def)
      from vault_unlock_reseal [OF this reseals_asI [OF Inr] fit]
      have "session_good X i ?h ?qs"
        using verify by (auto simp: session_good_def verifyPayload_iff)
      then show ?thesis
        unfolding m'2 using inv f g by (intro space_inv_publish) simp_all
    qed
    from save show ?thesis
    proof (cases rule: saveLocked_cases)
      case 1
      then show ?thesis using ok by blast
    next
      case 2
      then show ?thesis using m' undo kept [of "mg_disk m"] by simp
    next
      case 3
      then show ?thesis using m' restore kept by simp
    qed
  qed
qed

text \<open>What a step may assume about the random key reference: no account of the space has it, and no
  key of the open session is stored under it.\<close>

definition key_ref_fresh :: "manager \<Rightarrow> string \<Rightarrow> string \<Rightarrow> bool" where
  "key_ref_fresh m i r \<longleftrightarrow>
     (\<forall>f. map_of (mg_files m) i = Some f \<longrightarrow> r \<notin> set (map ac_KeyRef (imported (sf_Accounts f)))) \<and>
     (\<forall>ss. map_of (mg_sessions m) i = Some ss \<longrightarrow> py_ImportedKeys (ss_payload ss) r = None)"

lemma unlockedLocked_payload:
  assumes "unlockedLocked now i m = (u, Inr (f, p))" "space_inv X m"
  shows "\<exists>ss. map_of (mg_sessions m) i = Some ss \<and> ss_payload ss = p"
proof -
  obtain ss where "map_of (mg_sessions (expireLocked now m)) i = Some ss" "ss_payload ss = p"
    using assms(1) by (auto simp: unlockedLocked_def lookupFile_def sbind_def split: option.splits)
  moreover have "distinct (map fst (mg_sessions m))" using assms(2) by (simp add: space_inv_def)
  ultimately show ?thesis
    by (auto simp: expireLocked_def map_of_filter_fst split: if_splits option.splits)
qed

lemma import_new_inv:
  assumes at: "unlocked_at X i f p m"
    and parse: "parseImportedKey (sx_W X) curve v = Inr (raw, fp, addrs)"
    and none: "find (\<lambda>a. ac_Kind a = KindImported \<and> ac_Fingerprint a = fp) (sf_Accounts f) = None"
    and quota: "accountQuota f = Inr ()" and ns: "network_list_ok ns"
    and fresh: "r \<notin> set (map ac_KeyRef (imported (sf_Accounts f)))" "py_ImportedKeys p r = None"
    and a: "ac_Kind a = KindImported" "ac_NetworkIDs a = ns" "ac_Addresses a = addrs" "ac_KeyRef a = r"
      "ac_Fingerprint a = fp"
    and q: "q = p\<lparr>py_ImportedKeys := (py_ImportedKeys p)(r \<mapsto> \<lparr>ke_Curve = curve, ke_PrivateKey = raw, ke_ImportedAt = t\<rparr>)\<rparr>"
    and g: "sf_ID g = sf_ID f" "sf_Accounts g = sf_Accounts f @ [a]"
  shows "accounts_inv (sf_Accounts g)" "verifyPayload (sx_W X) g q = Inr ()"
    "q\<lparr>py_ImportedKeys := (py_ImportedKeys q)(r := None)\<rparr> = p"
proof -
  obtain ss where "ss_payload ss = p" "session_good X i f ss" and inv: "accounts_inv (sf_Accounts f)"
    using at by (auto simp: unlocked_at_def)
  then have old: "py_Version p = 1" "\<And>b. b \<in> set (sf_Accounts f) \<Longrightarrow> verifyAccount (sx_W X) p b = Inr ()"
    by (auto simp: session_good_def verifyPayload_iff)
  have "fp \<notin> set (map ac_Fingerprint (imported (sf_Accounts f)))"
    using none by (auto simp: find_None_iff imported_def)
  then show "accounts_inv (sf_Accounts g)"
    unfolding g(2) using inv quota ns fresh a
    by (intro accounts_inv_append) (auto simp: account_inv_def accountQuota_def rcheck_eq_Inr)
  have "verifyAccount (sx_W X) q b = Inr ()" if "b \<in> set (sf_Accounts f)" for b
  proof (rule verifyAccount_payload [OF old(2) [OF that]])
    assume "ac_Kind b = KindImported"
    then have "ac_KeyRef b \<noteq> r" using fresh(1) that by (auto simp: imported_def)
    then show "py_ImportedKeys q (ac_KeyRef b) = py_ImportedKeys p (ac_KeyRef b)" by (simp add: q)
  qed (simp_all add: q)
  moreover have "verifyAccount (sx_W X) q a = Inr ()"
    using parseImportedKey_verifies [OF parse a(5,3), of t] a by (simp add: verifyAccount_def q)
  ultimately show "verifyPayload (sx_W X) g q = Inr ()"
    using old(1) by (auto simp: verifyPayload_iff g(2) q)
  have "(py_ImportedKeys p)(r := None) = py_ImportedKeys p" using fresh(2) by (simp add: fun_upd_idem)
  then show "q\<lparr>py_ImportedKeys := (py_ImportedKeys q)(r := None)\<rparr> = p" by (simp add: q)
qed

lemma ImportNetworks_inv:
  assumes inv: "space_inv X m" and op: "ImportNetworks X ev i ids fam lbl key m = (m', res)"
    and fresh: "\<And>r. newID ''key_'' (ev_id2 ev) = Inr r \<Longrightarrow> key_ref_fresh m i r"
    and fits: "\<And>ss. map_of (mg_sessions m') i = Some ss \<Longrightarrow> vault_fits (sx_V X) (sx_J X) (ss_payload ss)"
  shows "space_inv X m'"
proof -
  consider (early) "m' = m"
    | (locked) e where "unlockedLocked (ev_now ev) i m = (m', Inl e)"
    | (opened) ns curve raw fp addrs u f p where "networkList ids = Inr ns" "CurveOf fam = Inr curve"
        "parseImportedKey (sx_W X) curve key = Inr (raw, fp, addrs)" "unlockedLocked (ev_now ev) i m = (u, Inr (f, p))"
    using op by (auto simp: ImportNetworks_def sbind_slift sbind_def account_result_def
        split: sum.splits prod.splits)
  then show ?thesis
  proof cases
    case early
    then show ?thesis using inv by simp
  next
    case (locked e)
    then show ?thesis using inv by (auto intro: keepsD [OF unlockedLocked_keeps])
  next
    case (opened ns curve raw fp addrs u f p)
    obtain ss where u: "space_inv X u" "map_of (mg_files u) i = Some f" "map_of (mg_sessions u) i = Some ss"
      "ss_payload ss = p" "session_good X i f ss" "mg_files u = mg_files m" "sf_ID f = i" "accounts_inv (sf_Accounts f)"
      using unlockedLocked_ok [OF opened(4) inv] by metis
    then have at: "unlocked_at X i f p u" by (auto simp: unlocked_at_def)
    show ?thesis
    proof (cases "find (\<lambda>a. ac_Kind a = KindImported \<and> ac_Fingerprint a = fp) (sf_Accounts f)")
      case (Some item)
      let ?upd = "update_first (\<lambda>a. ac_Kind a = KindImported \<and> ac_Fingerprint a = fp)
             (add_networks ns lbl (ev_now ev)) (sf_Accounts f)"
      show ?thesis
      proof (cases "list_ex (\<lambda>n. \<not> BoundTo item n) ns \<and> ?upd \<noteq> None")
        case False
        then have "m' = u" using op opened Some
          by (auto simp: ImportNetworks_def sbind_slift sbind_def account_result_def sret_def split: option.splits if_splits)
        then show ?thesis using u by simp
      next
        case True
        then obtain items it where upd: "?upd = Some (items, it)" by auto
        then obtain r where "saveAndPut ev i (f\<lparr>sf_Accounts := items, sf_UpdatedAt := ev_now ev\<rparr>) u = (m', r)"
          using op opened Some True
          by (auto simp: ImportNetworks_def sbind_slift sbind_scheck sbind_def account_result_def
              split: option.splits prod.splits sum.splits)
        then show ?thesis
          by (rule space_inv_saveAndPut [OF _ u(1) file_fits_update_first [OF at upd]]) (simp add: unassigned_def)
      qed
    next
      case None
      let ?rest = "\<lambda>r accountID. accountQuota f = Inr () \<and> newID ''key_'' (ev_id2 ev) = Inr r \<and> newID ''acc_'' (ev_id1 ev) = Inr accountID"
      show ?thesis
      proof (cases "\<exists>r accountID. ?rest r accountID")
        case False
        then have "m' = u" using op opened None
          by (auto simp: ImportNetworks_def sbind_slift sbind_def account_result_def split: sum.splits)
        then show ?thesis using u by simp
      next
        case True
        then obtain r accountID where ids: "?rest r accountID" by blast
        let ?a = "\<lparr>ac_ID = accountID, ac_Label = TrimSpace lbl, ac_Kind = KindImported, ac_Family = [],
           ac_NetworkIDs = ns, ac_Addresses = addrs, ac_Index = None,
           ac_DerivationProfile = [], ac_KeyRef = r, ac_Fingerprint = fp,
           ac_ImportedAt = Some (ev_now ev), ac_CreatedAt = ev_now ev, ac_UpdatedAt = ev_now ev\<rparr>"
        let ?q = "p\<lparr>py_ImportedKeys := (py_ImportedKeys p)(r \<mapsto>
           \<lparr>ke_Curve = curve, ke_PrivateKey = raw, ke_ImportedAt = ev_now ev\<rparr>)\<rparr>"
        let ?g = "f\<lparr>sf_Accounts := sf_Accounts f @ [?a], sf_UpdatedAt := ev_now ev\<rparr>"
        have run: "(case resealAndSaveLocked X ev ?g ?q i (setSessionPayload i ?q u) of
            (n, Inl e) \<Rightarrow> (setSessionPayload i (?q\<lparr>py_ImportedKeys := (py_ImportedKeys ?q)(r := None)\<rparr>) n, Inl e)
          | (n, Inr h) \<Rightarrow> (putFile i h n, Inr ?a)) = (m', res)"
          using op opened None ids
          by (simp add: ImportNetworks_def sbind_slift account_result_def Let_def) (simp add: sbind_def smodify_def Let_def cong: sum.case_cong)
        have "key_ref_fresh m i r" using fresh ids by blast
        then have new: "r \<notin> set (map ac_KeyRef (imported (sf_Accounts f)))" "py_ImportedKeys p r = None"
          using u(2,6) unlockedLocked_payload [OF opened(4) inv] by (auto simp: key_ref_fresh_def)
        note imp = import_new_inv [OF at opened(3) None _ networkList_ok(1) [OF opened(1)] new, of ?a ?q "ev_now ev" ?g]
        have undo: "?q\<lparr>py_ImportedKeys := (py_ImportedKeys ?q)(r := None)\<rparr> = p"
          by (rule imp(3)) (use ids in simp_all)
        show ?thesis
          by (rule reseal_inv [OF at run [unfolded undo]]) (use imp ids fits in simp_all)
      qed
    qed
  qed
qed

lemma delete_first_found:
  "find P xs = Some r \<Longrightarrow> \<exists>us vs. xs = us @ r # vs \<and> P r \<and> delete_first P xs = us @ vs"
proof (induction xs)
  case (Cons a xs)
  show ?case
  proof (cases "P a")
    case True
    then show ?thesis using Cons.prems by (intro exI [of _ "[]"] exI [of _ xs]) simp
  next
    case False
    then obtain us vs where "xs = us @ r # vs" "P r" "delete_first P xs = us @ vs"
      using Cons by auto
    then show ?thesis using False by (intro exI [of _ "a # us"] exI [of _ vs]) simp
  qed
qed simp

lemma delete_found_inv:
  fixes f g :: space_file
  assumes at: "unlocked_at X i f p u" and split: "sf_Accounts f = us @ r # vs"
    and g: "sf_Accounts g = us @ vs" "sf_ID g = sf_ID f" "sf_Vault g = sf_Vault f"
  shows "file_fits X u i g"
    "ac_Kind r = KindImported \<Longrightarrow> accounts_inv (sf_Accounts g) \<and>
      verifyPayload (sx_W X) g (p\<lparr>py_ImportedKeys := (py_ImportedKeys p)(ac_KeyRef r := None)\<rparr>) = Inr ()"
proof -
  obtain ss where ss: "map_of (mg_sessions u) i = Some ss" "ss_payload ss = p" "session_good X i f ss"
    using at by (auto simp: unlocked_at_def)
  have inv: "accounts_inv (us @ vs)"
    using at split by (intro accounts_inv_delete [of us r vs]) (simp add: unlocked_at_def)
  have ok: "py_Version p = 1" "\<And>b. b \<in> set (us @ vs) \<Longrightarrow> verifyAccount (sx_W X) p b = Inr ()"
    using ss split by (auto simp: session_good_def verifyPayload_iff)
  have "session_good X i g ss"
    using ss ok g by (auto simp: session_good_def verifyPayload_iff)
  then show "file_fits X u i g"
    using at ss(1) inv g by (auto simp: file_fits_def unlocked_at_def)
  assume r: "ac_Kind r = KindImported"
  have "ac_KeyRef b \<noteq> ac_KeyRef r" if "b \<in> set (us @ vs)" "ac_Kind b = KindImported" for b
  proof -
    have "ac_KeyRef r \<notin> set (map ac_KeyRef (imported us)) \<union> set (map ac_KeyRef (imported vs))"
      using at r unfolding unlocked_at_def split accounts_inv_def imported_def by auto
    moreover have "ac_KeyRef b \<in> set (map ac_KeyRef (imported us)) \<union> set (map ac_KeyRef (imported vs))"
      using that by (auto simp: imported_def)
    ultimately show ?thesis by metis
  qed
  then have "verifyAccount (sx_W X) (p\<lparr>py_ImportedKeys := (py_ImportedKeys p)(ac_KeyRef r := None)\<rparr>) b = Inr ()"
    if "b \<in> set (us @ vs)" for b
    using that by (intro verifyAccount_payload [OF ok(2) [OF that]]) auto
  then show "accounts_inv (sf_Accounts g) \<and>
      verifyPayload (sx_W X) g (p\<lparr>py_ImportedKeys := (py_ImportedKeys p)(ac_KeyRef r := None)\<rparr>) = Inr ()"
    using inv ok(1) g by (simp add: verifyPayload_iff)
qed

lemma DeleteAccount_inv:
  assumes inv: "space_inv X m" and op: "DeleteAccount X ev i accountID pw m = (m', res)"
    and fits: "\<And>ss. map_of (mg_sessions m') i = Some ss \<Longrightarrow> vault_fits (sx_V X) (sx_J X) (ss_payload ss)"
  shows "space_inv X m'"
proof -
  consider (wrong) e where "confirmPassword X ev i pw m = (m', Inl e)"
    | (locked) e t where "confirmPassword X ev i pw m = (t, Inr ())" "unlockedLocked (ev_now ev) i t = (m', Inl e)"
    | (opened) t u f p where "confirmPassword X ev i pw m = (t, Inr ())" "unlockedLocked (ev_now ev) i t = (u, Inr (f, p))"
    using op by (auto simp: DeleteAccount_def sbind_def split: sum.splits prod.splits)
  then show ?thesis
  proof cases
    case (wrong e)
    then show ?thesis using inv by (auto intro: keepsD [OF confirmPassword_keeps])
  next
    case (locked e t)
    then show ?thesis using inv
      by (auto intro: keepsD [OF unlockedLocked_keeps] keepsD [OF confirmPassword_keeps])
  next
    case (opened t u f p)
    have t: "space_inv X t" using inv opened(1) by (auto intro: keepsD [OF confirmPassword_keeps])
    obtain ss where "space_inv X u" "map_of (mg_files u) i = Some f" "map_of (mg_sessions u) i = Some ss"
      "ss_payload ss = p" "session_good X i f ss" "sf_ID f = i" "accounts_inv (sf_Accounts f)"
      using unlockedLocked_ok [OF opened(2) t] by metis
    then have at: "unlocked_at X i f p u" by (auto simp: unlocked_at_def)
    show ?thesis
    proof (cases "find (\<lambda>a. ac_ID a = accountID) (sf_Accounts f)")
      case None
      then have "m' = u" using op opened by (simp add: DeleteAccount_def sbind_def)
      then show ?thesis using at by (simp add: unlocked_at_def)
    next
      case (Some r)
      let ?g = "f\<lparr>sf_Accounts := delete_first (\<lambda>a. ac_ID a = accountID) (sf_Accounts f), sf_UpdatedAt := ev_now ev\<rparr>"
      obtain us vs where split: "sf_Accounts f = us @ r # vs" "sf_Accounts ?g = us @ vs"
        using delete_first_found [OF Some] by auto
      note del = delete_found_inv [OF at split(1), of ?g, OF split(2)]
      show ?thesis
      proof (cases "ac_Kind r = KindImported")
        case False
        then have "saveAndPut ev i ?g u = (m', res)"
          using op opened Some by (simp add: DeleteAccount_def sbind_def Let_def)
        then show ?thesis
          by (rule space_inv_saveAndPut) (use at del in \<open>simp_all add: unlocked_at_def\<close>)
      next
        case True
        let ?q = "p\<lparr>py_ImportedKeys := (py_ImportedKeys p)(ac_KeyRef r := None)\<rparr>"
        obtain entry where entry: "py_ImportedKeys p (ac_KeyRef r) = Some entry"
          using at split True by (cases "py_ImportedKeys p (ac_KeyRef r)")
            (auto simp: unlocked_at_def session_good_def verifyPayload_iff verifyAccount_def)
        have put_back: "(py_ImportedKeys p)(ac_KeyRef r \<mapsto> entry) = py_ImportedKeys p"
          using entry by (simp add: fun_upd_idem)
        have "(case resealAndSaveLocked X ev ?g ?q i (setSessionPayload i ?q u) of
            (n, Inl e) \<Rightarrow> (setSessionPayload i p n, Inl e)
          | (n, Inr h) \<Rightarrow> (putFile i h n, Inr ())) = (m', res)"
          using op opened Some True entry
          by (simp add: DeleteAccount_def sbind_def Let_def smodify_def put_back cong: sum.case_cong)
        from reseal_inv [OF at this] show ?thesis
          using del(2) True fits by simp
      qed
    qed
  qed
qed

end
