(* ===== verification/SpaceReach.thy ===== *)
theory SpaceReach
  imports SpaceInvariants
begin

text \<open>
  The states a manager can reach from an empty home by the operations of \<open>space_op\<close>, and what
  holds in all of them: \<open>space_inv\<close>, so that an open session always agrees with its file and its
  vault, and can be locked and opened again.

  \<open>step_allowed\<close> is what a step may assume: a random key reference is fresh, the payloads of the
  sessions afterwards fit the vault, and the three things a migration does not check: the space and
  account quotas, that no derived account has the family and index a migrated account is assigned, and,
  of the mnemonic library, that no words are no phrase.
\<close>

section \<open>Steps\<close>

definition step_allowed :: "space_ctx \<Rightarrow> space_op \<Rightarrow> manager \<Rightarrow> bool" where
  "step_allowed X a m \<longleftrightarrow>
     (case a of
        OpImport ev i ns fam lbl key \<Rightarrow> \<forall>r. newID ''key_'' (ev_id2 ev) = Inr r \<longrightarrow> key_ref_fresh m i r
      | OpImportLegacy ev req legacy ids \<Rightarrow> length (mg_files m) < maxSpaces \<and> length legacy \<le> maxAccountsPerSpace \<and>
          \<not> wl_mnemonic_valid (sx_W X) []
      | OpBind ev i acc n fam \<Rightarrow> assign_fresh m i acc fam
      | _ \<Rightarrow> True) \<and>
     (\<forall>i ss. map_of (mg_sessions (run_space_op X a m)) i = Some ss \<longrightarrow>
        vault_fits (sx_V X) (sx_J X) (ss_payload ss))"

inductive space_reach :: "space_ctx \<Rightarrow> manager \<Rightarrow> manager \<Rightarrow> bool" for X m0 where
  start: "space_reach X m0 m0"
| step: "space_reach X m0 m \<Longrightarrow> step_allowed X a m \<Longrightarrow> space_reach X m0 (run_space_op X a m)"

inductive_cases space_reachE: "space_reach X m0 m"

lemma keeps_run: "keeps I f \<Longrightarrow> I m \<Longrightarrow> I (fst (f m))"
  by (simp add: keeps_def)

lemmas keeps_runs =
  keeps_run [OF Unlock_keeps] keeps_run [OF Lock_keeps] keeps_run [OF Rename_keeps]
  keeps_run [OF DeriveNetworks_keeps] read_only_keeps [THEN keeps_run] keeps_run [OF WithKey_keeps]
  keeps_run [OF ConfirmSend_keeps] keeps_run [OF UnbindNetwork_keeps]
  keeps_run [OF RenameAccount_keeps]

lemma run_space_op_inv:
  assumes inv: "space_inv X m" and ok: "step_allowed X a m"
  shows "space_inv X (run_space_op X a m)"
proof -
  have fits: "vault_fits (sx_V X) (sx_J X) (ss_payload ss)"
    if "map_of (mg_sessions (run_space_op X a m)) i = Some ss" for i ss
    using ok that unfolding step_allowed_def by blast
  show ?thesis
  proof (cases a)
    case (OpCreate ev req)
    show ?thesis
      by (rule Create_inv [OF inv, of ev req _ "snd (Create X ev req m)"]) (use OpCreate fits in auto)
  next
    case (OpImportLegacy ev req legacy ids)
    then have q: "length (mg_files m) < maxSpaces" "length legacy \<le> maxAccountsPerSpace" "\<not> wl_mnemonic_valid (sx_W X) []"
      using ok by (simp_all add: step_allowed_def)
    show ?thesis
      by (rule ImportLegacy_inv [OF inv _ q, of ev req ids _ "snd (ImportLegacy X ev req legacy ids m)"])
        (use OpImportLegacy fits in auto)
  next
    case (OpBind ev i acc n fam)
    then show ?thesis using BindNetwork_inv [OF inv] ok by (simp add: step_allowed_def)
  next
    case (OpChangePassword ev i pw new)
    show ?thesis
      by (rule ChangePassword_inv [OF inv, of ev i pw new _ "snd (ChangePassword X ev i pw new m)"])
        (use OpChangePassword fits in auto)
  next
    case (OpImport ev i ns fam lbl key)
    have "key_ref_fresh m i r" if "newID ''key_'' (ev_id2 ev) = Inr r" for r
      using ok that unfolding step_allowed_def OpImport by simp
    then show ?thesis
      by (intro ImportNetworks_inv [OF inv, of ev i ns fam lbl key _ "snd (ImportNetworks X ev i ns fam lbl key m)"])
        (use OpImport fits in auto)
  next
    case (OpDelete ev i acc pw)
    show ?thesis
      by (rule DeleteAccount_inv [OF inv, of ev i acc pw _ "snd (DeleteAccount X ev i acc pw m)"])
        (use OpDelete fits in auto)
  qed (use inv in \<open>simp_all add: keeps_runs space_inv_expire\<close>)
qed

lemma space_reach_inv: "space_reach X m0 m \<Longrightarrow> space_inv X m0 \<Longrightarrow> space_inv X m"
  by (induction rule: space_reach.induct) (auto intro: run_space_op_inv)

lemma NewManager_empty: "NewManager params autoLock [] attempts = Inr m \<Longrightarrow> space_inv X m"
  by (auto simp: NewManager_def space_inv_def)

section \<open>Locking and unlocking again\<close>

lemma verifyPayload_session: "session_good X i f ss \<Longrightarrow> verifyPayload (sx_W X) f (ss_payload ss) = Inr ()"
  by (simp add: session_good_def)

lemma checkUnlockCooldown_frame:
  "mg_attempts m' = mg_attempts m \<Longrightarrow> checkUnlockCooldown i now m' = checkUnlockCooldown i now m"
  by (simp add: checkUnlockCooldown_def readAttempts_def)

lemma Unlock_opens:
  assumes "map_of (mg_files m) i = Some f" "checkUnlockCooldown i (ev_t1 ev) m = Inr ()"
    "vault_UnlockJSON (sx_V X) (sx_J X) pw (sf_Vault f) (space_aad i) = Inr (p, k)"
    "verifyPayload (sx_W X) f p = Inr ()"
  shows "\<exists>m'. Unlock X ev i pw m = (m', Inr ()) \<and> map_of (mg_sessions m') i =
    Some \<lparr>ss_payload = p, ss_key = k, ss_lastUsed = ev_now ev, ss_sendGrant = 0\<rparr>"
  using assms
  by (simp add: Unlock_def Unlock_prepare_def Unlock_commit_def lookupFile_def sbind_def slift_def smodify_def
      putSession_def update_conv')

lemma relock:
  assumes inv: "space_inv X m" and ss: "map_of (mg_sessions m) i = Some ss"
  shows "\<exists>pw m1. Lock i m = (m1, Inr ()) \<and> map_of (mg_sessions m1) i = None \<and>
    (\<forall>ev. checkUnlockCooldown i (ev_t1 ev) m = Inr () \<longrightarrow>
      (\<exists>m2. Unlock X ev i pw m1 = (m2, Inr ()) \<and> map_of (mg_sessions m2) i =
        Some \<lparr>ss_payload = ss_payload ss, ss_key = ss_key ss, ss_lastUsed = ev_now ev, ss_sendGrant = 0\<rparr>))"
proof -
  obtain f where f: "map_of (mg_files m) i = Some f" "session_good X i f ss"
    using assms unfolding space_inv_def by blast
  then obtain pw where pw: "vault_UnlockJSON (sx_V X) (sx_J X) pw (sf_Vault f) (space_aad i) =
      Inr (ss_payload ss, ss_key ss)"
    by (auto simp: session_good_def)
  let ?m1 = "clearSessionLocked i m"
  have lock: "Lock i m = (?m1, Inr ())"
    using f(1) by (simp add: Lock_def lookupFile_def sbind_def)
  have "\<exists>m2. Unlock X ev i pw ?m1 = (m2, Inr ()) \<and> map_of (mg_sessions m2) i =
        Some \<lparr>ss_payload = ss_payload ss, ss_key = ss_key ss, ss_lastUsed = ev_now ev, ss_sendGrant = 0\<rparr>"
    if "checkUnlockCooldown i (ev_t1 ev) m = Inr ()" for ev
  proof (rule Unlock_opens)
    show "checkUnlockCooldown i (ev_t1 ev) ?m1 = Inr ()"
      using that checkUnlockCooldown_frame [of ?m1 m] by (simp add: clearSessionLocked_def)
  qed (use f pw verifyPayload_session [OF f(2)] in simp_all)
  moreover have "map_of (mg_sessions ?m1) i = None"
    by (simp add: clearSessionLocked_def delete_conv')
  ultimately show ?thesis using lock by blast
qed

end
