(* ===== verification/AccountCodec.thy ===== *)
theory AccountCodec
  imports SpaceData
begin

text \<open>
  Private keys as text: a key that is exported can be imported again and is the same key, on
  either curve, and white space or a 0x prefix around a hexadecimal key makes no difference.
\<close>

lemma hex_char_plain:
  assumes "d < 16"
  shows "plain (hex_char d) \<and> hex_char d \<noteq> CHR ''x'' \<and> hex_char d \<noteq> CHR ''X''"
proof -
  have code: "of_char (hex_char d) = (if d < 10 then 48 + d else 87 + d)"
    using assms by (simp add: hex_char_def)
  have "(of_char CHR ''x'' :: nat) = 120" "(of_char CHR ''X'' :: nat) = 88" by simp_all
  then show ?thesis using code assms by (auto simp: plain_def is_space_def split: if_splits)
qed

lemmas hex_char_not_space = hex_char_plain [THEN conjunct1]

lemmas hex_char_not_x = hex_char_plain [THEN conjunct2]

lemma byte_nibbles: "unat (b :: byte) div 16 < 16" "unat (b :: byte) mod 16 < 16"
  using unsigned_less [of b, where ?'a = nat] by simp_all

lemma HexEncode_chars: "c \<in> set (HexEncode bs) \<Longrightarrow> \<exists>d<16. c = hex_char d"
proof (induction bs)
  case (Cons b bs)
  then show ?case using byte_nibbles [of b] by (auto simp del: mod_less_divisor)
qed simp

lemma HexEncode_no_space: "c \<in> set (HexEncode bs) \<Longrightarrow> plain c"
  using HexEncode_chars hex_char_not_space by blast

lemma HexEncode_ends:
  assumes "bs \<noteq> []"
  shows "HexEncode bs \<noteq> []" "plain (hd (HexEncode bs))" "plain (last (HexEncode bs))"
    "take 2 (HexEncode bs) \<noteq> ''0x''" "take 2 (HexEncode bs) \<noteq> ''0X''"
proof -
  obtain b rest where bs: "bs = b # rest" using assms by (cases bs) auto
  then show "HexEncode bs \<noteq> []" by simp
  then show "plain (hd (HexEncode bs))" "plain (last (HexEncode bs))"
    using HexEncode_no_space by (metis hd_in_set, metis last_in_set)
  show "take 2 (HexEncode bs) \<noteq> ''0x''" "take 2 (HexEncode bs) \<noteq> ''0X''"
    using hex_char_not_x [OF byte_nibbles(2) [of b]] by (auto simp: bs numeral_2_eq_2)
qed

text \<open>The spellings of a hexadecimal key the parser takes.\<close>

lemma ParsePrivateKey_spellings:
  assumes "ToECDSA W raw = Some raw" "\<forall>c\<in>set us. is_space c" "\<forall>c\<in>set vs. is_space c"
    "prefix \<in> {[], ''0x'', ''0X'', ''0x0X''}"
  shows "ParsePrivateKey W (us @ prefix @ HexEncode raw @ vs) = Inr raw"
proof -
  have len: "length raw = 32" using assms(1) by (simp add: ToECDSA_def split: if_splits)
  then have "raw \<noteq> []" by auto
  note ends = HexEncode_ends [OF this]
  have trim: "TrimSpace (us @ (prefix @ HexEncode raw) @ vs) = prefix @ HexEncode raw"
    using assms(2-4) ends by (intro TrimSpace_padding) (auto simp: plain_def is_space_def)
  have drops: "take 2 (''0x'' @ s) = ''0x''" "drop 2 (''0x'' @ s) = s" "take 2 (''0X'' @ s) = ''0X''"
    "drop 2 (''0X'' @ s) = s" for s
    by (simp_all add: numeral_2_eq_2)
  show ?thesis
    using assms(1,4) trim ends(4,5) len
    by (auto simp: ParsePrivateKey_def Let_def numeral_2_eq_2 simp del: append_assoc)
qed

section \<open>Export and import\<close>

definition key_curve :: "signing_key \<Rightarrow> string" where
  "key_curve k = (case k of Secp256k1Key _ \<Rightarrow> CurveSecp256k1 | Ed25519Key _ \<Rightarrow> CurveEd25519)"

definition key_ok :: "wallet_lib \<Rightarrow> signing_key \<Rightarrow> bool" where
  "key_ok W k = (case k of Secp256k1Key key \<Rightarrow> ToECDSA W key = Some key
     | Ed25519Key key \<Rightarrow> length key = 64 \<and> key = NewKeyFromSeed W (take 32 key))"

text \<open>base58 decodes what it encoded, to text without white space or brackets.\<close>

definition base58_laws :: "wallet_lib \<Rightarrow> bool" where
  "base58_laws W \<longleftrightarrow> (\<forall>bs. bs \<noteq> [] \<longrightarrow> wl_base58_decode W (wl_base58_encode W bs) = bs \<and>
     wl_base58_encode W bs \<noteq> [] \<and> (\<forall>c\<in>set (wl_base58_encode W bs). plain c \<and> c \<noteq> CHR ''[''))"

lemma reimport_secp256k1:
  assumes "ToECDSA W key = Some key"
  shows "parseImportedKey W CurveSecp256k1 (HexEncode key) =
    rbind (account_result (ImportedAddresses W key)) (\<lambda>a. Inr (key, Fingerprint W key, a))"
  using ParsePrivateKey_spellings [OF assms, of "[]" "[]" "[]"]
  by (simp add: parseImportedKey_def account_result_def)

lemma reimport_ed25519:
  assumes "base58_laws W" "length key = 64" "key = NewKeyFromSeed W (take 32 key)"
  shows "ParseEd25519PrivateKey W (wl_base58_encode W key) = Inr key"
proof -
  let ?s = "wl_base58_encode W key"
  have "key \<noteq> []" using assms(2) by auto
  then have s: "wl_base58_decode W ?s = key" "?s \<noteq> []" "\<forall>c\<in>set ?s. plain c \<and> c \<noteq> CHR ''[''"
    using assms(1) by (simp_all add: base58_laws_def)
  then have "TrimSpace ?s = ?s" by (intro TrimSpace_id) auto
  moreover have "take 1 ?s \<noteq> ''[''" using s by (cases ?s) auto
  ultimately show ?thesis
    using s assms(2) assms(3) [symmetric] by (simp add: ParseEd25519PrivateKey_def Let_def)
qed

lemma reimport:
  assumes "base58_laws W" "key_ok W k" "key_export W k = Inr s"
  shows "parseImportedKey W (key_curve k) s =
    (case k of
       Secp256k1Key key \<Rightarrow> rbind (account_result (ImportedAddresses W key)) (\<lambda>a. Inr (key, Fingerprint W key, a))
     | Ed25519Key key \<Rightarrow> rbind (account_result (Ed25519Fingerprint W key)) (\<lambda>fp.
         rbind (account_result (ImportedEd25519Addresses W key)) (\<lambda>a. Inr (take 32 key, fp, a))))"
proof (cases k)
  case (Secp256k1Key key)
  then show ?thesis using assms reimport_secp256k1 [of W key] by (simp add: key_export_def key_ok_def key_curve_def)
next
  case (Ed25519Key key)
  then have "length key = 64" "key = NewKeyFromSeed W (take 32 key)" "s = wl_base58_encode W key"
    using assms(2,3) by (auto simp: key_ok_def key_export_def Ed25519KeypairBase58_def rcheck_eq_Inr)
  with reimport_ed25519 [OF assms(1)] show ?thesis
    by (simp add: Ed25519Key key_curve_def parseImportedKey_def account_result_def)
qed

end
