(* ===== verification/SpaceKeys.thy ===== *)
theory SpaceKeys
  imports SpaceReach AccountCodec
begin

text \<open>
  Who may use a key: the key an open space lends is the key of the address the account shows, on
  the curve of the network's family, for a bound network only; a secret leaves only with the
  space's password; a spending grant comes from the password only and does not outlive it.
\<close>

section \<open>The key behind an address\<close>

text \<open>The address of a key in a family.\<close>

definition key_address :: "wallet_lib \<Rightarrow> signing_key \<Rightarrow> family \<Rightarrow> aerr + string" where
  "key_address W k fam =
     (case k of Secp256k1Key key \<Rightarrow> AddressFromPrivateKey W key fam | Ed25519Key key \<Rightarrow> AddressFromEd25519Key W key fam)"

lemma CurveOf_cases:
  assumes "CurveOf fam = Inr c"
  obtains "fam = FamilyTron" "c = CurveSecp256k1" | "fam = FamilyEVM" "c = CurveSecp256k1"
  | "fam = FamilySolana" "c = CurveEd25519"
  using assms by (auto simp: CurveOf_def split: if_splits)

lemma derived_key_address:
  assumes key: "privateKeyFor W a p fam = Inr k" and kind: "ac_Kind a = KindDerived" "ac_Family a \<noteq> []"
    and ok: "verifyAccount W p a = Inr ()"
  shows "key_address W k fam = Inr (address_of (ac_Addresses a) fam) \<and> CurveOf fam = Inr (key_curve k)"
proof -
  obtain c where c: "CurveOf fam = Inr c"
    using key by (auto simp: privateKeyFor_def rbind_eq_Inr)
  obtain n where n: "ac_Index a = Some n" "ac_Family a = fam"
    using key kind by (auto simp: privateKeyFor_def rbind_eq_Inr rcheck_eq_Inr split: option.splits)
  then have "DerivedAddress W (py_Mnemonic p) (py_BIP39Passphrase p) fam n = Inr (address_of (ac_Addresses a) fam)"
    using ok kind by (auto simp: verifyAccount_def rbind_eq_Inr rcheck_eq_Inr)
  moreover have "c = CurveSecp256k1 \<or> c = CurveEd25519" using c by (auto elim: CurveOf_cases)
  ultimately show ?thesis
    using key n kind c
    by (auto simp: privateKeyFor_def DerivedAddress_def rbind_eq_Inr rcheck_eq_Inr key_address_def key_curve_def)
qed

lemma maps_Equal_address: "maps_Equal a b \<Longrightarrow> address_of a f = address_of b f"
  by (simp add: maps_Equal_iff address_of_def)

lemma imported_key_address:
  assumes key: "privateKeyFor W a p fam = Inr k" and kind: "ac_Kind a = KindImported"
    and ok: "verifyAccount W p a = Inr ()"
  shows "key_address W k fam = Inr (address_of (ac_Addresses a) fam) \<and> CurveOf fam = Inr (key_curve k)"
proof -
  obtain c where c: "CurveOf fam = Inr c"
    using key by (auto simp: privateKeyFor_def rbind_eq_Inr)
  obtain e where e: "py_ImportedKeys p (ac_KeyRef a) = Some e" "entryCurve e = Inr c"
    using key kind c by (auto simp: privateKeyFor_def rbind_eq_Inr rcheck_eq_Inr split: option.splits)
  then have ver: "verifyImportedKey W a e = Inr ()"
    using ok kind by (simp add: verifyAccount_def)
  show ?thesis
  proof (cases "c = CurveSecp256k1")
    case True
    then obtain raw addrs where raw: "ToECDSA W (ke_PrivateKey e) = Some raw" "k = Secp256k1Key raw"
      "ImportedAddresses W raw = Inr addrs" "maps_Equal addrs (ac_Addresses a)"
      using key kind c e ver
      by (auto simp: privateKeyFor_def verifyImportedKey_def rbind_eq_Inr rcheck_eq_Inr split: option.splits sum.splits)
    then have "AddressFromPrivateKey W raw fam = Inr (address_of addrs fam)"
      using c True by (elim CurveOf_cases) (auto simp: ImportedAddresses_def rbind_eq_Inr address_of_def)
    then show ?thesis using raw c True maps_Equal_address by (simp add: key_address_def key_curve_def)
  next
    case False
    then have solana: "fam = FamilySolana" "c = CurveEd25519" using c by (auto elim: CurveOf_cases)
    let ?key = "NewKeyFromSeed W (ke_PrivateKey e)"
    obtain addrs where raw: "k = Ed25519Key ?key"
      "ImportedEd25519Addresses W ?key = Inr addrs" "maps_Equal addrs (ac_Addresses a)"
      using key kind c e ver solana
      by (auto simp: privateKeyFor_def verifyImportedKey_def rbind_eq_Inr rcheck_eq_Inr Let_def split: sum.splits)
    then have "AddressFromEd25519Key W ?key fam = Inr (address_of addrs fam)"
      by (auto simp: ImportedEd25519Addresses_def rbind_eq_Inr address_of_def solana(1))
    then show ?thesis using raw c solana maps_Equal_address by (simp add: key_address_def key_curve_def)
  qed
qed

lemma key_of_account:
  assumes "privateKeyFor W a p fam = Inr k" "account_inv a" "verifyAccount W p a = Inr ()" "BoundTo a n"
  shows "key_address W k fam = Inr (address_of (ac_Addresses a) fam) \<and> CurveOf fam = Inr (key_curve k)"
proof -
  have "ac_Kind a = KindDerived \<or> ac_Kind a = KindImported"
    using assms(3) by (auto simp: verifyAccount_def split: if_splits)
  then show ?thesis
    using derived_key_address [OF assms(1)] imported_key_address [OF assms(1)] assms(2-4)
    by (auto simp: account_inv_def BoundTo_def)
qed

lemma withKey_lends:
  assumes inv: "space_inv X m" and run: "withKey X ev i acc n fam want m = (m', Inr k)"
  shows "\<exists>ss f a. map_of (mg_sessions (expireLocked (ev_now ev) m)) i = Some ss \<and>
    map_of (mg_files m) i = Some f \<and> a \<in> set (sf_Accounts f) \<and> ac_ID a = acc \<and> BoundTo a n \<and>
    key_curve k = want \<and> CurveOf fam = Inr want \<and> key_address (sx_W X) k fam = Inr (address_of (ac_Addresses a) fam)"
proof -
  obtain u f p a where run: "CurveOf fam = Inr want" "unlockedLocked (ev_now ev) i m = (u, Inr (f, p))"
    "findAccount (sf_Accounts f) acc = Inr a" "BoundTo a n" "privateKeyFor (sx_W X) a p fam = Inr k"
    using run by (auto simp: withKey_def sbind_Inr account_result_def split: sum.splits if_splits)
  obtain ss where ss: "map_of (mg_sessions (expireLocked (ev_now ev) m)) i = Some ss" "map_of (mg_files m) i = Some f"
    "ss_payload ss = p"
    using run(2) by (auto simp: unlockedLocked_def lookupFile_def sbind_def split: option.splits)
  obtain ss' where "ss_payload ss' = p" "session_good X i f ss'" "accounts_inv (sf_Accounts f)"
    using unlockedLocked_ok [OF run(2) inv] by metis
  moreover have a: "a \<in> set (sf_Accounts f)" "ac_ID a = acc"
    using run(3) by (auto simp: findAccount_def find_Some_iff split: option.splits)
  ultimately have "account_inv a" "verifyAccount (sx_W X) p a = Inr ()"
    by (auto simp: accounts_inv_def list_all_iff session_good_def verifyPayload_iff)
  then show ?thesis using key_of_account [OF run(5) _ _ run(4)] run a ss by fastforce
qed

section \<open>The password\<close>

definition opens_with :: "space_ctx \<Rightarrow> manager \<Rightarrow> string \<Rightarrow> string \<Rightarrow> bool" where
  "opens_with X m i pw \<longleftrightarrow> (\<exists>f r. map_of (mg_files m) i = Some f \<and>
     vault_UnlockJSON (sx_V X) (sx_J X) pw (sf_Vault f) (space_aad i) = Inr r)"

lemma confirm_opens:
  assumes "confirmPassword X ev i pw m = (m', Inr u)"
  shows "pw \<noteq> [] \<and> opens_with X m i pw \<and> checkUnlockCooldown i (ev_t1 ev) m = Inr ()"
  using assms
  by (auto simp: confirmPassword_def lookupFile_def opens_with_def sbind_def
      split: option.splits sum.splits if_splits)

lemma UnlockJSON_of_Open:
  "vault_OpenJSON V J pw c aad = Inr p \<Longrightarrow> \<exists>k. vault_UnlockJSON V J pw c aad = Inr (p, k)"
  by (cases "vault_Unlock V pw c aad")
    (auto simp: vault_OpenJSON_def vault_Decrypt_def vault_UnlockJSON_def split: option.splits)

lemma secrets_need_password:
  "Mnemonic X ev i pw m = (m', Inr s) \<Longrightarrow> opens_with X m i pw"
  "ExportPrivateKey X ev i acc fam pw m = (m', Inr s) \<Longrightarrow> opens_with X m i pw"
  "Backup X ev i pw m = (m', Inr b) \<Longrightarrow> opens_with X m i pw"
  "DeleteAccount X ev i acc pw m = (m', Inr u) \<Longrightarrow> opens_with X m i pw"
  "ConfirmSend X ev i pw m = (m', Inr t) \<Longrightarrow> opens_with X m i pw"
  "Unlock X ev i pw m = (m', Inr v) \<Longrightarrow> opens_with X m i pw"
  "ChangePassword X ev i pw new m = (m', Inr w) \<Longrightarrow> opens_with X m i pw"
        apply (auto simp: Mnemonic_def ExportPrivateKey_def Backup_def DeleteAccount_def ConfirmSend_def sbind_Inr
      dest: confirm_opens split: sum.splits)[5]
   apply (auto simp: Unlock_def Unlock_prepare_def sbind_Inr lookupFile_def opens_with_def split: option.splits sum.splits)[1]
  apply (auto simp: ChangePassword_def ChangePassword_prepare_def sbind_Inr lookupFile_def opens_with_def
      dest!: UnlockJSON_of_Open split: option.splits sum.splits)[1]
  done

section \<open>Spending grants\<close>

text \<open>Every session of \<open>m\<close> has no grant, or the one its predecessor had in \<open>m0\<close>.\<close>

definition grants_from :: "manager \<Rightarrow> manager \<Rightarrow> bool" where
  "grants_from m0 m \<longleftrightarrow> distinct (map fst (mg_sessions m)) \<and>
     (\<forall>i ss. map_of (mg_sessions m) i = Some ss \<longrightarrow> ss_sendGrant ss \<noteq> 0 \<longrightarrow>
       (\<exists>old. map_of (mg_sessions m0) i = Some old \<and> ss_sendGrant old = ss_sendGrant ss))"

lemma grants_refl: "distinct (map fst (mg_sessions m)) \<Longrightarrow> grants_from m m"
  by (simp add: grants_from_def)

lemma grants_frame [simp]:
  "grants_from m0 (m\<lparr>mg_autoLock := a\<rparr>) = grants_from m0 m" "grants_from m0 (m\<lparr>mg_confirmSends := b\<rparr>) = grants_from m0 m"
  "grants_from m0 (m\<lparr>mg_sendGrantTTL := c\<rparr>) = grants_from m0 m" "grants_from m0 (m\<lparr>mg_files := d\<rparr>) = grants_from m0 m"
  "grants_from m0 (m\<lparr>mg_disk := d\<rparr>) = grants_from m0 m" "grants_from m0 (m\<lparr>mg_attempts := e\<rparr>) = grants_from m0 m"
  "grants_from m0 (recordUnlockFailure ev i m) = grants_from m0 m"
  "grants_from m0 (clearUnlockFailures ev i m) = grants_from m0 m"
  "grants_from m0 (putFile i f m) = grants_from m0 m"
  by (simp_all add: grants_from_def recordUnlockFailure_def writeAttempts_def clearUnlockFailures_def putFile_def Let_def)

lemma grants_expire: "grants_from m0 m \<Longrightarrow> grants_from m0 (expireLocked now m)"
  by (auto simp: expireLocked_def grants_from_def map_of_filter_fst distinct_map_filter split: option.splits)

lemma grants_clear: "grants_from m0 m \<Longrightarrow> grants_from m0 (clearSessionLocked i m)"
  by (auto simp: clearSessionLocked_def grants_from_def delete_conv' distinct_delete fun_upd_def split: if_splits)

lemma grants_put:
  "grants_from m0 m \<Longrightarrow> ss_sendGrant ss = 0 \<or> (\<exists>old. map_of (mg_sessions m) i = Some old \<and> ss_sendGrant old = ss_sendGrant ss) \<Longrightarrow>
     grants_from m0 (putSession i ss m)"
  by (fastforce simp: putSession_def grants_from_def update_conv' distinct_update split: if_splits)

lemma grants_payload: "grants_from m0 m \<Longrightarrow> grants_from m0 (setSessionPayload i p m)"
  by (auto simp: setSessionPayload_def intro!: grants_put split: option.splits)

lemma grants_confirm: "keeps (grants_from m0) (confirmPassword X ev i pw)"
  unfolding confirmPassword_def by (intro keeps_intros lookupFile_keeps keeps_smodify) simp_all

lemma grants_unlocked: "keeps (grants_from m0) (unlockedLocked now i)"
  by (auto simp: keeps_def unlockedLocked_def sbind_def lookupFile_def grants_expire grants_put split: option.splits)

lemma grants_save: "keeps (grants_from m0) (saveLocked w f)" "keeps (grants_from m0) (saveAndPut ev i f)"
proof -
  show "keeps (grants_from m0) (saveLocked w f)"
    by (cases w) (simp_all add: keeps_def saveLocked_def)
  then show "keeps (grants_from m0) (saveAndPut ev i f)"
    unfolding saveAndPut_def by (cases "ev_save ev") (simp_all add: keeps_def saveLocked_def sbind_def)
qed

lemma grants_new_session:
  "ss_sendGrant ss = 0 \<Longrightarrow> keeps (grants_from m0) (smodify (putSession i ss))"
  by (intro keeps_smodify grants_put) simp_all

lemma grants_reseal:
  "keeps (grants_from m0) (\<lambda>m. case resealAndSaveLocked X ev f p i m of
      (m, Inl e) \<Rightarrow> (setSessionPayload i q m, Inl e) | (m, Inr f) \<Rightarrow> (putFile i f m, Inr v))"
proof -
  have "keeps (grants_from m0) (resealAndSaveLocked X ev f p i)"
    unfolding resealAndSaveLocked_def by (intro keeps_intros grants_save)
  then show ?thesis
    by (auto simp: keeps_def grants_payload split: prod.splits sum.splits)
qed

lemmas grants_intros = keeps_intros lookupFile_keeps grants_confirm grants_unlocked grants_save
  grants_new_session keeps_smodify

lemma grants_ops:
  "keeps (grants_from m0) (Create X ev req)" "keeps (grants_from m0) (Unlock X ev i pw)"
  "keeps (grants_from m0) (Lock i)" "keeps (grants_from m0) (Rename ev i n)"
  "keeps (grants_from m0) (ChangePassword X ev i pw new)"
  "keeps (grants_from m0) (DeriveNetworks X ev i ns fam lbl)"
  "keeps (grants_from m0) (Get ev i)" "keeps (grants_from m0) (List ev)" "keeps (grants_from m0) (SetAutoLock ev d)"
  "keeps (grants_from m0) (SetSendConfirmation b ttl)" "keeps (grants_from m0) (RequireSendConfirmation ev i)"
  "keeps (grants_from m0) (Backup X ev i pw)" "keeps (grants_from m0) (Mnemonic X ev i pw)"
  "keeps (grants_from m0) (ExportPrivateKey X ev i acc fam pw)" "keeps (grants_from m0) (WithKey X ev i acc n fam)"
  "keeps (grants_from m0) (BindNetwork ev i acc n fam)" "keeps (grants_from m0) (UnbindNetwork ev i acc n)"
  "keeps (grants_from m0) (RenameAccount ev i acc lbl)"
  unfolding Create_def Create_commit_def Unlock_def Unlock_prepare_def Unlock_commit_def Lock_def Rename_def
    ChangePassword_def ChangePassword_prepare_def ChangePassword_commit_def DeriveNetworks_def Get_def List_def
    SetAutoLock_def SetSendConfirmation_def RequireSendConfirmation_def Backup_def Mnemonic_def ExportPrivateKey_def
    WithKey_def WithSigner_def WithMessageSigner_def withKey_def BindNetwork_def UnbindNetwork_def
    RenameAccount_def edit_account_def Let_def
  by (intro grants_intros; simp add: grants_expire grants_clear)+

lemma grants_legacy: "keeps (grants_from m0) (ImportLegacy X ev req legacy ids)"
  unfolding ImportLegacy_def Let_def
  by (intro grants_intros; simp)

lemma grants_import: "keeps (grants_from m0) (ImportNetworks X ev i ns fam lbl key)"
  unfolding ImportNetworks_def Let_def
  by (intro grants_intros grants_reseal; simp add: grants_payload)

lemma grants_delete: "keeps (grants_from m0) (DeleteAccount X ev i acc pw)"
  unfolding DeleteAccount_def Let_def
  by (intro grants_intros grants_reseal; simp add: grants_payload)

text \<open>\<open>ConfirmSend\<close> writes the one session it was asked for.\<close>

lemma ConfirmSend_grants:
  assumes "distinct (map fst (mg_sessions m))"
  shows "grants_from m (fst (ConfirmSend X ev i pw m)) \<or>
    (\<exists>u t ss. confirmPassword X ev i pw m = (u, Inr ()) \<and> grants_from m t \<and> map_of (mg_sessions t) i = Some ss \<and>
      mg_sendGrantTTL t = mg_sendGrantTTL m \<and>
      fst (ConfirmSend X ev i pw m) =
        putSession i (ss\<lparr>ss_lastUsed := ev_now ev, ss_sendGrant := ev_now ev + mg_sendGrantTTL t\<rparr>) t)"
proof -
  obtain u r where conf: "confirmPassword X ev i pw m = (u, r)" by (cases "confirmPassword X ev i pw m")
  then have u: "grants_from m u"
    using keepsD [OF grants_confirm grants_refl [OF assms]] by blast
  have ttl: "mg_sendGrantTTL u = mg_sendGrantTTL m"
    using conf by (auto simp: confirmPassword_def lookupFile_def sbind_def recordUnlockFailure_def writeAttempts_def
        clearUnlockFailures_def Let_def split: option.splits sum.splits if_splits)
  show ?thesis
  proof (cases r)
    case (Inl e)
    then show ?thesis using conf u by (simp add: ConfirmSend_def sbind_def)
  next
    case (Inr v)
    let ?t = "expireLocked (ev_now ev) u"
    have t: "grants_from m ?t" "mg_sendGrantTTL ?t = mg_sendGrantTTL m"
      using u ttl by (simp_all add: grants_expire) (simp add: expireLocked_def)
    show ?thesis
      using conf Inr u t by (cases "map_of (mg_sessions ?t) i") (auto simp: ConfirmSend_def sbind_def)
  qed
qed

lemmas grants_runs = keeps_run [OF grants_legacy] keeps_run [OF grants_import] keeps_run [OF grants_delete] grants_ops [THEN keeps_run]

lemma grant_steps:
  assumes "distinct (map fst (mg_sessions m))" "map_of (mg_sessions (run_space_op X a m)) i = Some ss" "ss_sendGrant ss \<noteq> 0"
  shows "(\<exists>old. map_of (mg_sessions m) i = Some old \<and> ss_sendGrant old = ss_sendGrant ss) \<or>
    (\<exists>ev pw. a = OpConfirmSend ev i pw \<and> opens_with X m i pw \<and> ss_sendGrant ss = ev_now ev + mg_sendGrantTTL m)"
proof -
  note from_old = grants_refl [OF assms(1)]
  have old: ?thesis if "grants_from m (run_space_op X a m)"
    using that assms(2,3) by (auto simp: grants_from_def)
  show ?thesis
  proof (cases a)
    case (OpConfirmSend ev j pw)
    from ConfirmSend_grants [OF assms(1), of X ev j pw] show ?thesis
    proof
      assume "grants_from m (fst (ConfirmSend X ev j pw m))"
      then show ?thesis using old OpConfirmSend by simp
    next
      assume "\<exists>u t ss. confirmPassword X ev j pw m = (u, Inr ()) \<and> grants_from m t \<and> map_of (mg_sessions t) j = Some ss \<and>
        mg_sendGrantTTL t = mg_sendGrantTTL m \<and>
        fst (ConfirmSend X ev j pw m) =
          putSession j (ss\<lparr>ss_lastUsed := ev_now ev, ss_sendGrant := ev_now ev + mg_sendGrantTTL t\<rparr>) t"
      then obtain u t s where conf: "confirmPassword X ev j pw m = (u, Inr ())" "grants_from m t"
        "mg_sendGrantTTL t = mg_sendGrantTTL m"
        and m': "run_space_op X a m = putSession j (s\<lparr>ss_lastUsed := ev_now ev, ss_sendGrant := ev_now ev + mg_sendGrantTTL t\<rparr>) t"
        by (auto simp: OpConfirmSend)
      show ?thesis
      proof (cases "i = j")
        case True
        then have "ss_sendGrant ss = ev_now ev + mg_sendGrantTTL m"
          using assms(2) conf(3) unfolding m' putSession_def by (auto simp: update_conv')
        then show ?thesis using confirm_opens [OF conf(1)] True OpConfirmSend by blast
      next
        case False
        then have "map_of (mg_sessions t) i = Some ss"
          using assms(2) unfolding m' putSession_def by (simp add: update_conv')
        then show ?thesis using conf(2) assms(3) unfolding grants_from_def by blast
      qed
    qed
  qed (rule old, use from_old in \<open>simp add: grants_runs grants_expire\<close>)+
qed

section \<open>Derivation indexes\<close>

lemma next_index_least:
  "next_index used k = Inr n \<Longrightarrow> k \<le> n \<and> n \<notin> set used \<and> (\<forall>j. k \<le> j \<and> j < n \<longrightarrow> j \<in> set used)"
proof (induction used k rule: next_index.induct)
  case (1 used k)
  show ?case
  proof (cases "k \<notin> set used")
    case True
    then have "n = k" using 1(2) by (simp add: next_index.simps [of used k])
    then show ?thesis using True by (auto dest: leD)
  next
    case False
    then have k: "k \<noteq> -1" "next_index used (k + 1) = Inr n"
      using 1(2) by (auto simp: next_index.simps [of used k] split: if_splits)
    then have ih: "k + 1 \<le> n" "n \<notin> set used" "\<And>j. k + 1 \<le> j \<Longrightarrow> j < n \<Longrightarrow> j \<in> set used"
      using 1(1) False by blast+
    have "1 + k \<noteq> 0" using k(1) by (metis add.inverse_inverse add_eq_0_iff)
    then have "unat (k + 1) = Suc (unat k)" by (simp add: unatSuc add.commute)
    then have le: "k + 1 \<le> j \<longleftrightarrow> k < j" for j by (auto simp: word_le_nat_alt word_less_nat_alt)
    have "j \<in> set used" if "k \<le> j" "j < n" for j
      using that ih(3) [of j] False le [of j] by (cases "j = k") auto
    then show ?thesis using ih(1,2) le [of n] by auto
  qed
qed

lemma foldl_appendNetwork_mem: "set (foldl appendNetwork ids ns) = set ids \<union> set ns"
  by (induction ns arbitrary: ids) (auto simp: appendNetwork_def)

lemma update_first_mem:
  "update_first P g xs = Some (ys, y) \<Longrightarrow> \<exists>x\<in>set xs. P x \<and> y = g x"
  by (induction P g xs arbitrary: ys rule: update_first.induct) (auto split: if_splits option.splits)

lemma derive_result:
  assumes inv: "space_inv X m" and ns: "networkList ids = Inr ns" and f: "map_of (mg_files m) i = Some f"
    and run: "DeriveNetworks X ev i ids fam lbl m = (m', Inr a)"
  shows "\<exists>n ss. ac_Index a = Some n \<and> n \<notin> set (used_indexes ns (sf_Accounts f)) \<and>
    (\<forall>j<n. j \<in> set (used_indexes ns (sf_Accounts f))) \<and> ac_Family a = fam \<and> set ns \<subseteq> set (ac_NetworkIDs a) \<and>
    map_of (mg_sessions m) i = Some ss \<and>
    DerivedAddress (sx_W X) (py_Mnemonic (ss_payload ss)) (py_BIP39Passphrase (ss_payload ss)) fam n =
      Inr (address_of (ac_Addresses a) fam)"
proof -
  obtain c u p n where c: "CurveOf fam = Inr c" and un: "unlockedLocked (ev_now ev) i m = (u, Inr (f, p))"
    and n: "next_index (used_indexes ns (sf_Accounts f)) 0 = Inr n"
    using run ns f
    by (auto simp: DeriveNetworks_def sbind_Inr account_result_def unlockedLocked_def lookupFile_def sbind_def
        split: sum.splits option.splits if_splits)
  obtain ss where ss: "map_of (mg_sessions m) i = Some ss" "ss_payload ss = p" using unlockedLocked_payload [OF un inv] by blast
  let ?P = "\<lambda>a. \<not> (ac_Kind a \<noteq> KindDerived \<or> ac_Family a \<noteq> fam \<or> ac_Index a \<noteq> Some n)"
  have a: "ac_Index a = Some n \<and> ac_Family a = fam \<and> set ns \<subseteq> set (ac_NetworkIDs a) \<and>
    DerivedAddress (sx_W X) (py_Mnemonic p) (py_BIP39Passphrase p) fam n = Inr (address_of (ac_Addresses a) fam)"
  proof (cases "update_first ?P (add_networks ns lbl (ev_now ev)) (sf_Accounts f)")
    case None
    then show ?thesis
      using run ns c un n by (auto simp: DeriveNetworks_def sbind_Inr account_result_def Let_def split: sum.splits)
  next
    case (Some v)
    then have upd: "update_first ?P (add_networks ns lbl (ev_now ev)) (sf_Accounts f) = Some (fst v, a)"
      using run ns c un n by (cases v) (auto simp: DeriveNetworks_def sbind_Inr account_result_def)
    obtain b where b: "b \<in> set (sf_Accounts f)" "?P b" "a = add_networks ns lbl (ev_now ev) b"
      using update_first_mem [OF upd] by blast
    obtain ss' where "ss_payload ss' = p" "session_good X i f ss'" using unlockedLocked_ok [OF un inv] by metis
    then have "verifyAccount (sx_W X) p b = Inr ()" using b(1) by (auto simp: session_good_def verifyPayload_iff)
    then show ?thesis
      using b(2,3) CurveOf_nonempty [OF c]
      by (auto simp: verifyAccount_def rbind_eq_Inr rcheck_eq_Inr add_networks_def foldl_appendNetwork_mem)
  qed
  show ?thesis using next_index_least [OF n] a ss by auto
qed

end
