(* ===== verification/Network.thy ===== *)
theory Network
  imports Account "HOL-Library.Char_ord" "HOL-Library.List_Lexorder"
begin

text \<open>
  The built-in networks (internal/network/registry.go): the record of a network, its validation, and
  the registry. A map that is only looked up is a function of \<open>map_of\<close>.

  The lemmas: the table of networks is valid, with distinct identifiers, so \<open>Builtin\<close> returns a
  registry; every network found in it names itself, has a family with a curve, and a mainnet has a
  price.
\<close>

section \<open>Networks\<close>

record native_asset =
  na_Symbol :: string
  na_Decimals :: byte

record explorer_urls =
  ex_Address :: string
  ex_Tx :: string
  ex_Block :: string

record capabilities =
  cp_NativeTransfer :: bool
  cp_TokenTransfer :: bool
  cp_TronResources :: bool
  cp_TronDeploy :: bool
  cp_TronSwap :: bool
  cp_SolanaSwap :: bool
  cp_SolanaCloseAccounts :: bool

record wrapped_native =
  wn_Symbol :: string
  wn_Contract :: string

record network =
  nw_ID :: string
  nw_WrappedNative :: "wrapped_native option"
  nw_Name :: string
  nw_ShortName :: string
  nw_Family :: family
  nw_ChainID :: string
  nw_Native :: native_asset
  nw_Testnet :: bool
  nw_Enabled :: bool
  nw_Explorer :: explorer_urls
  nw_RPCFallbacks :: "string list"
  nw_Capabilities :: capabilities
  nw_PriceChain :: string
  nw_NativePrice :: string

datatype neterr = ErrUnknownNetwork string | NetErr string

text \<open>\<open>big.Int.SetString(s, 10)\<close>: an optional sign and at least one decimal digit, no more.\<close>

definition decimal_digit :: "char \<Rightarrow> bool" where
  "decimal_digit c \<longleftrightarrow> CHR ''0'' \<le> c \<and> c \<le> CHR ''9''"

fun digits_value :: "int \<Rightarrow> string \<Rightarrow> int option" where
  "digits_value v [] = Some v"
| "digits_value v (c # cs) = (if decimal_digit c then digits_value (10 * v + (of_char c - 48)) cs else None)"

definition BigSetString :: "string \<Rightarrow> int option" where
  "BigSetString s =
     (case s of
        [] \<Rightarrow> None
      | c # cs \<Rightarrow>
          if c = CHR ''-'' then (if cs = [] then None else map_option uminus (digits_value 0 cs))
          else if c = CHR ''+'' then (if cs = [] then None else digits_value 0 cs)
          else digits_value 0 (c # cs))"

text \<open>\<open>Validate\<close>. \<open>url\<close> is \<open>url.Parse\<close>, answering with the scheme and the host.\<close>

definition valid_fallback :: "(string \<Rightarrow> (string \<times> string) option) \<Rightarrow> string \<Rightarrow> bool" where
  "valid_fallback url endpoint =
     (case url endpoint of None \<Rightarrow> False | Some (scheme, host) \<Rightarrow> \<not> (scheme \<noteq> ''https'' \<or> host = []))"

definition Validate :: "(string \<Rightarrow> (string \<times> string) option) \<Rightarrow> network \<Rightarrow> neterr + unit" where
  "Validate url item =
     rcheck (\<not> (nw_ID item = [] \<or> nw_Name item = [] \<or> nw_ShortName item = [])) (NetErr ''id, name and short name are required'') (
     rcheck (\<not> (nw_Family item \<noteq> FamilyTron \<and> nw_Family item \<noteq> FamilyEVM \<and> nw_Family item \<noteq> FamilySolana)) (NetErr ''unsupported family'') (
     rcheck (\<not> (na_Symbol (nw_Native item) = [] \<or> na_Decimals (nw_Native item) = 0)) (NetErr ''native asset is incomplete'') (
     rbind (if nw_Family item = FamilyEVM then
              (case BigSetString (nw_ChainID item) of
                 None \<Rightarrow> Inl (NetErr ''invalid EVM chain id'')
               | Some n \<Rightarrow> rcheck (\<not> n \<le> 0) (NetErr ''invalid EVM chain id'') (Inr ()))
            else if nw_Family item = FamilyTron then
              rcheck (\<not> (nw_ChainID item \<noteq> ''mainnet'' \<and> nw_ChainID item \<noteq> ''nile'')) (NetErr ''invalid Tron network identity'') (Inr ())
            else if nw_Family item = FamilySolana then
              rcheck (\<not> (nw_ChainID item \<noteq> ''mainnet'' \<and> nw_ChainID item \<noteq> ''devnet'')) (NetErr ''invalid Solana cluster'') (Inr ())
            else Inl (NetErr ''unsupported family'')) (\<lambda>_.
     rcheck (\<not> (\<not> nw_Testnet item \<and> nw_NativePrice item = [])) (NetErr ''mainnet native price identifier is required'') (
     rcheck (\<forall>endpoint\<in>set (nw_RPCFallbacks item). valid_fallback url endpoint)
        (NetErr ''fallback RPC must be an HTTPS URL'') (Inr ()))))))"

section \<open>The table\<close>

text \<open>\<open>strings.TrimSuffix(base, "/")\<close>\<close>

definition trim_slash :: "string \<Rightarrow> string" where
  "trim_slash base = (if base \<noteq> [] \<and> last base = CHR ''/'' then butlast base else base)"

definition explorer :: "string \<Rightarrow> explorer_urls" where
  "explorer base = (let base = trim_slash base in
     \<lparr>ex_Address = base @ ''/address/{address}'', ex_Tx = base @ ''/tx/{tx}'', ex_Block = base @ ''/block/{block}''\<rparr>)"

definition tronExplorer :: "string \<Rightarrow> explorer_urls" where
  "tronExplorer base = explorer base\<lparr>ex_Tx := trim_slash base @ ''/transaction/{tx}''\<rparr>"

definition solanaExplorer :: "string \<Rightarrow> explorer_urls" where
  "solanaExplorer cluster = (let query = (if cluster \<noteq> [] then ''?cluster='' @ cluster else []) in
     \<lparr>ex_Address = ''https://solscan.io/account/{address}'' @ query, ex_Tx = ''https://solscan.io/tx/{tx}'' @ query,
      ex_Block = ''https://solscan.io/block/{block}'' @ query\<rparr>)"

definition priceChains :: "(string \<times> string) list" where
  "priceChains =
    [(''ethereum-mainnet'', ''ethereum''),
     (''bsc-mainnet'', ''bsc''),
     (''polygon-mainnet'', ''polygon''),
     (''optimism-mainnet'', ''optimism''),
     (''arbitrum-mainnet'', ''arbitrum''),
     (''base-mainnet'', ''base''),
     (''kaia-mainnet'', ''klaytn''),
     (''avalanche-mainnet'', ''avax'')]"

definition nativePrices :: "(string \<times> string) list" where
  "nativePrices =
    [(''ethereum-mainnet'', ''coingecko:ethereum''),
     (''bsc-mainnet'', ''coingecko:binancecoin''),
     (''polygon-mainnet'', ''coingecko:polygon-ecosystem-token''),
     (''optimism-mainnet'', ''coingecko:ethereum''),
     (''arbitrum-mainnet'', ''coingecko:ethereum''),
     (''base-mainnet'', ''coingecko:ethereum''),
     (''kaia-mainnet'', ''coingecko:kaia''),
     (''robinhood-mainnet'', ''coingecko:ethereum''),
     (''avalanche-mainnet'', ''coingecko:avalanche-2'')]"

definition wrappedNatives :: "(string \<times> wrapped_native) list" where
  "wrappedNatives =
    [(''ethereum-mainnet'', \<lparr>wn_Symbol = ''WETH'', wn_Contract = ''0xc02aaa39b223fe8d0a0e5c4f27ead9083c756cc2''\<rparr>),
     (''bsc-mainnet'', \<lparr>wn_Symbol = ''WBNB'', wn_Contract = ''0xbb4cdb9cbd36b01bd1cbaebf2de08d9173bc095c''\<rparr>),
     (''bsc-testnet'', \<lparr>wn_Symbol = ''WBNB'', wn_Contract = ''0xae13d989dac2f0debff460ac112a837c89baa7cd''\<rparr>),
     (''base-mainnet'', \<lparr>wn_Symbol = ''WETH'', wn_Contract = ''0x4200000000000000000000000000000000000006''\<rparr>),
     (''optimism-mainnet'', \<lparr>wn_Symbol = ''WETH'', wn_Contract = ''0x4200000000000000000000000000000000000006''\<rparr>),
     (''arbitrum-mainnet'', \<lparr>wn_Symbol = ''WETH'', wn_Contract = ''0x82af49447d8a07e3bd95bd0d56f35241523fbab1''\<rparr>),
     (''robinhood-mainnet'', \<lparr>wn_Symbol = ''WETH'', wn_Contract = ''0x0bd7d308f8e1639fab988df18a8011f41eacad73''\<rparr>)]"

text \<open>A Go map answers with the empty string where a key is missing.\<close>

definition map_string :: "(string \<times> string) list \<Rightarrow> string \<Rightarrow> string" where
  "map_string m k = (case map_of m k of None \<Rightarrow> [] | Some v \<Rightarrow> v)"

definition no_capabilities :: capabilities where
  "no_capabilities = \<lparr>cp_NativeTransfer = False, cp_TokenTransfer = False, cp_TronResources = False,
     cp_TronDeploy = False, cp_TronSwap = False, cp_SolanaSwap = False, cp_SolanaCloseAccounts = False\<rparr>"

definition evm :: "string \<Rightarrow> string \<Rightarrow> string \<Rightarrow> string \<Rightarrow> string \<Rightarrow> string \<Rightarrow> string \<Rightarrow> bool \<Rightarrow> network" where
  "evm i name shortName chainID symbol rpc explorerBase testnet =
     \<lparr>nw_ID = i, nw_WrappedNative = map_of wrappedNatives i, nw_Name = name, nw_ShortName = shortName,
      nw_Family = FamilyEVM, nw_ChainID = chainID, nw_Native = \<lparr>na_Symbol = symbol, na_Decimals = 18\<rparr>,
      nw_Testnet = testnet, nw_Enabled = True, nw_Explorer = explorer explorerBase, nw_RPCFallbacks = [rpc],
      nw_Capabilities = no_capabilities\<lparr>cp_NativeTransfer := True, cp_TokenTransfer := True\<rparr>,
      nw_PriceChain = map_string priceChains i, nw_NativePrice = map_string nativePrices i\<rparr>"

definition tronCapabilities :: capabilities where
  "tronCapabilities = no_capabilities\<lparr>cp_NativeTransfer := True, cp_TokenTransfer := True, cp_TronResources := True,
     cp_TronDeploy := True, cp_TronSwap := True\<rparr>"

definition solanaCapabilities :: capabilities where
  "solanaCapabilities = no_capabilities\<lparr>cp_NativeTransfer := True, cp_TokenTransfer := True, cp_SolanaCloseAccounts := True\<rparr>"

definition solanaMainnetCapabilities :: capabilities where
  "solanaMainnetCapabilities = solanaCapabilities\<lparr>cp_SolanaSwap := True\<rparr>"

definition builtinNetworks :: "network list" where
  "builtinNetworks =
    [\<lparr>nw_ID = ''tron-mainnet'', nw_WrappedNative = None, nw_Name = ''Tron Mainnet'', nw_ShortName = ''Mainnet'',
       nw_Family = FamilyTron, nw_ChainID = ''mainnet'', nw_Native = \<lparr>na_Symbol = ''TRX'', na_Decimals = 6\<rparr>,
       nw_Testnet = False, nw_Enabled = True, nw_Explorer = tronExplorer ''https://tronscan.org'',
       nw_RPCFallbacks = [''https://tron-rpc.publicnode.com''], nw_Capabilities = tronCapabilities,
       nw_PriceChain = ''tron'', nw_NativePrice = ''coingecko:tron''\<rparr>,
     \<lparr>nw_ID = ''tron-nile'', nw_WrappedNative = None, nw_Name = ''Tron Nile'', nw_ShortName = ''Nile'',
       nw_Family = FamilyTron, nw_ChainID = ''nile'', nw_Native = \<lparr>na_Symbol = ''TRX'', na_Decimals = 6\<rparr>,
       nw_Testnet = True, nw_Enabled = True, nw_Explorer = tronExplorer ''https://nile.tronscan.org'',
       nw_RPCFallbacks = [''https://nile.trongrid.io''], nw_Capabilities = tronCapabilities,
       nw_PriceChain = [], nw_NativePrice = []\<rparr>,
     \<lparr>nw_ID = ''solana-mainnet'', nw_WrappedNative = None, nw_Name = ''Solana Mainnet'', nw_ShortName = ''Mainnet'',
       nw_Family = FamilySolana, nw_ChainID = ''mainnet'', nw_Native = \<lparr>na_Symbol = ''SOL'', na_Decimals = 9\<rparr>,
       nw_Testnet = False, nw_Enabled = True, nw_Explorer = solanaExplorer [],
       nw_RPCFallbacks = [''https://api.mainnet.solana.com''], nw_Capabilities = solanaMainnetCapabilities,
       nw_PriceChain = ''solana'', nw_NativePrice = ''coingecko:solana''\<rparr>,
     \<lparr>nw_ID = ''solana-devnet'', nw_WrappedNative = None, nw_Name = ''Solana Devnet'', nw_ShortName = ''Devnet'',
       nw_Family = FamilySolana, nw_ChainID = ''devnet'', nw_Native = \<lparr>na_Symbol = ''SOL'', na_Decimals = 9\<rparr>,
       nw_Testnet = True, nw_Enabled = True, nw_Explorer = solanaExplorer ''devnet'',
       nw_RPCFallbacks = [''https://api.devnet.solana.com''], nw_Capabilities = solanaCapabilities,
       nw_PriceChain = [], nw_NativePrice = []\<rparr>,
     evm ''ethereum-mainnet'' ''Ethereum Mainnet'' ''Mainnet'' ''1'' ''ETH''
       ''https://ethereum-rpc.publicnode.com'' ''https://etherscan.io'' False,
     evm ''ethereum-sepolia'' ''Ethereum Sepolia'' ''Sepolia'' ''11155111'' ''ETH''
       ''https://ethereum-sepolia-rpc.publicnode.com'' ''https://sepolia.etherscan.io'' True,
     evm ''bsc-mainnet'' ''BNB Smart Chain'' ''Mainnet'' ''56'' ''BNB''
       ''https://bsc-rpc.publicnode.com'' ''https://bscscan.com'' False,
     evm ''bsc-testnet'' ''BNB Smart Chain Testnet'' ''Testnet'' ''97'' ''tBNB''
       ''https://bsc-testnet-rpc.publicnode.com'' ''https://testnet.bscscan.com'' True,
     evm ''polygon-mainnet'' ''Polygon PoS'' ''Mainnet'' ''137'' ''POL''
       ''https://polygon-bor-rpc.publicnode.com'' ''https://polygonscan.com'' False,
     evm ''polygon-amoy'' ''Polygon Amoy'' ''Amoy'' ''80002'' ''POL''
       ''https://polygon-amoy-bor-rpc.publicnode.com'' ''https://amoy.polygonscan.com'' True,
     evm ''optimism-mainnet'' ''OP Mainnet'' ''Mainnet'' ''10'' ''ETH''
       ''https://optimism-rpc.publicnode.com'' ''https://optimistic.etherscan.io'' False,
     evm ''optimism-sepolia'' ''OP Sepolia'' ''Sepolia'' ''11155420'' ''ETH''
       ''https://optimism-sepolia-rpc.publicnode.com'' ''https://sepolia-optimism.etherscan.io'' True,
     evm ''arbitrum-mainnet'' ''Arbitrum One'' ''Mainnet'' ''42161'' ''ETH''
       ''https://arbitrum-one-rpc.publicnode.com'' ''https://arbiscan.io'' False,
     evm ''arbitrum-sepolia'' ''Arbitrum Sepolia'' ''Sepolia'' ''421614'' ''ETH''
       ''https://arbitrum-sepolia-rpc.publicnode.com'' ''https://sepolia.arbiscan.io'' True,
     evm ''base-mainnet'' ''Base'' ''Mainnet'' ''8453'' ''ETH''
       ''https://mainnet.base.org'' ''https://basescan.org'' False,
     evm ''kaia-mainnet'' ''Kaia Mainnet'' ''Mainnet'' ''8217'' ''KAIA''
       ''https://public-en.node.kaia.io'' ''https://kaiascan.io'' False,
     evm ''robinhood-mainnet'' ''Robinhood Chain'' ''Mainnet'' ''4663'' ''ETH''
       ''https://rpc.mainnet.chain.robinhood.com'' ''https://robin.etherscan.io'' False,
     evm ''robinhood-testnet'' ''Robinhood Chain Testnet'' ''Testnet'' ''46630'' ''ETH''
       ''https://rpc.testnet.chain.robinhood.com'' ''https://explorer.testnet.chain.robinhood.com'' True,
     evm ''avalanche-mainnet'' ''Avalanche C-Chain'' ''Mainnet'' ''43114'' ''AVAX''
       ''https://api.avax.network/ext/bc/C/rpc'' ''https://snowtrace.io'' False,
     evm ''avalanche-fuji'' ''Avalanche Fuji C-Chain'' ''Fuji'' ''43113'' ''AVAX''
       ''https://api.avax-test.network/ext/bc/C/rpc'' ''https://testnet.snowtrace.io'' True]"

section \<open>The registry\<close>

text \<open>A registry is a map from identifiers to networks, in the order they were added.\<close>

type_synonym registry = "(string \<times> network) list"

fun register :: "(string \<Rightarrow> (string \<times> string) option) \<Rightarrow> registry \<Rightarrow> network list \<Rightarrow> neterr + registry" where
  "register url r [] = Inr r"
| "register url r (item # items) =
     rbind (Validate url item) (\<lambda>_.
     rcheck (map_of r (nw_ID item) = None) (NetErr ''duplicate built-in network'') (
     register url (r @ [(nw_ID item, item)]) items))"

definition Builtin :: "(string \<Rightarrow> (string \<times> string) option) \<Rightarrow> neterr + registry" where
  "Builtin url = register url [] builtinNetworks"

definition network_Get :: "registry \<Rightarrow> string \<Rightarrow> neterr + network" where
  "network_Get r i = (case map_of r i of None \<Rightarrow> Inl (ErrUnknownNetwork i) | Some item \<Rightarrow> Inr item)"

definition network_List :: "registry \<Rightarrow> network list" where
  "network_List r = sort_key nw_ID (map snd r)"

section \<open>The registry is complete\<close>

definition fallbacks_ok :: "(string \<Rightarrow> (string \<times> string) option) \<Rightarrow> bool" where
  "fallbacks_ok url \<longleftrightarrow> (\<forall>n\<in>set builtinNetworks. \<forall>e\<in>set (nw_RPCFallbacks n).
     \<exists>host. url e = Some (''https'', host) \<and> host \<noteq> [])"

lemma register_ok:
  assumes "\<forall>n\<in>set items. Validate url n = Inr ()" "distinct (map fst r @ map nw_ID items)"
  shows "register url r items = Inr (r @ map (\<lambda>n. (nw_ID n, n)) items)"
  using assms
proof (induction items arbitrary: r)
  case (Cons item items)
  then have "map_of r (nw_ID item) = None" by (auto simp: map_of_eq_None_iff)
  moreover have "register url (r @ [(nw_ID item, item)]) items =
      Inr ((r @ [(nw_ID item, item)]) @ map (\<lambda>n. (nw_ID n, n)) items)"
    using Cons.prems by (intro Cons.IH) auto
  ultimately show ?case using Cons.prems(1) by (simp add: rbind_def rcheck_def)
qed simp

definition well_formed :: "network \<Rightarrow> bool" where
  "well_formed n \<longleftrightarrow> nw_ID n \<noteq> [] \<and> nw_Name n \<noteq> [] \<and> nw_ShortName n \<noteq> [] \<and>
     na_Symbol (nw_Native n) \<noteq> [] \<and> na_Decimals (nw_Native n) \<noteq> 0 \<and>
     (nw_Family n = FamilyEVM \<and> (\<exists>v. BigSetString (nw_ChainID n) = Some v \<and> 0 < v) \<or>
      nw_Family n = FamilyTron \<and> nw_ChainID n \<in> {''mainnet'', ''nile''} \<or>
      nw_Family n = FamilySolana \<and> nw_ChainID n \<in> {''mainnet'', ''devnet''}) \<and>
     (nw_Testnet n \<or> nw_NativePrice n \<noteq> [])"

lemma Validate_iff:
  "Validate url n = Inr () \<longleftrightarrow> well_formed n \<and> (\<forall>e\<in>set (nw_RPCFallbacks n). valid_fallback url e)"
  by (auto simp: Validate_def well_formed_def rbind_def rcheck_def family_defs split: sum.splits option.splits if_splits)

lemmas table_simps = builtinNetworks_def evm_def wrappedNatives_def priceChains_def nativePrices_def
  map_string_def tronCapabilities_def solanaCapabilities_def solanaMainnetCapabilities_def no_capabilities_def

lemma table_well_formed: "\<forall>n\<in>set builtinNetworks. well_formed n"
  by (simp add: table_simps well_formed_def BigSetString_def decimal_digit_def family_defs)

lemma table_ids: "distinct (map nw_ID builtinNetworks)"
  by (simp add: table_simps)

lemma table_chains: "distinct (map (\<lambda>n. (nw_Family n, nw_ChainID n)) builtinNetworks)"
  by (simp add: table_simps family_defs)

lemma table_wrapped: "\<forall>n\<in>set builtinNetworks. nw_WrappedNative n \<noteq> None \<longrightarrow> nw_Family n = FamilyEVM"
  by (simp add: table_simps)

lemma Builtin_table:
  assumes "fallbacks_ok url"
  shows "Builtin url = Inr (map (\<lambda>n. (nw_ID n, n)) builtinNetworks)"
proof -
  have "\<forall>n\<in>set builtinNetworks. Validate url n = Inr ()"
    using assms table_well_formed by (fastforce simp: Validate_iff fallbacks_ok_def valid_fallback_def)
  then show ?thesis using register_ok [of builtinNetworks url "[]"] table_ids by (simp add: Builtin_def)
qed

text \<open>C38. The registry can always be built, and it is sound: a network found under an identifier
  carries it and is valid, its family has a curve, so a key can be derived for it; the list is sorted
  and holds every network once; and no two networks share a family and a chain identity, so what is
  signed for one is not valid on another.\<close>

theorem builtin_registry:
  assumes "fallbacks_ok url"
  shows "\<exists>r. Builtin url = Inr r \<and> sorted (map nw_ID (network_List r)) \<and> distinct (map nw_ID (network_List r)) \<and>
    (\<forall>i n. network_Get r i = Inr n \<longrightarrow> nw_ID n = i \<and> n \<in> set (network_List r) \<and> Validate url n = Inr () \<and>
      is_ok (CurveOf (nw_Family n))) \<and>
    (\<forall>i j n k. network_Get r i = Inr n \<and> network_Get r j = Inr k \<and>
      nw_Family n = nw_Family k \<and> nw_ChainID n = nw_ChainID k \<longrightarrow> i = j)"
proof -
  let ?r = "map (\<lambda>n. (nw_ID n, n)) builtinNetworks"
  have found: "network_Get ?r i = Inr n \<Longrightarrow> nw_ID n = i \<and> n \<in> set builtinNetworks" for i n
    by (auto simp: network_Get_def dest!: map_of_SomeD split: option.splits)
  have built: "Builtin url = Inr ?r" using assms by (rule Builtin_table)
  have list: "network_List ?r = sort_key nw_ID builtinNetworks" by (simp add: network_List_def comp_def)
  have ids: "inj_on nw_ID (set builtinNetworks)" "distinct builtinNetworks"
    using table_ids by (simp_all add: distinct_map)
  have valid: "Validate url n = Inr ()" "is_ok (CurveOf (nw_Family n))" if "n \<in> set builtinNetworks" for n
  proof -
    show "Validate url n = Inr ()"
      using assms that table_well_formed by (fastforce simp: Validate_iff fallbacks_ok_def valid_fallback_def)
    show "is_ok (CurveOf (nw_Family n))"
      using that table_well_formed by (fastforce simp: well_formed_def CurveOf_def is_ok_def)
  qed
  have chain: "i = j" if "network_Get ?r i = Inr n" "network_Get ?r j = Inr k"
    "nw_Family n = nw_Family k" "nw_ChainID n = nw_ChainID k" for i j n k
    using found [OF that(1)] found [OF that(2)] that(3,4) table_chains by (auto simp: distinct_map dest: inj_onD)
  have "sorted (map nw_ID (network_List ?r))" "distinct (map nw_ID (network_List ?r))"
    using ids by (simp_all add: list distinct_map)
  moreover have "nw_ID n = i \<and> n \<in> set (network_List ?r) \<and> Validate url n = Inr () \<and> is_ok (CurveOf (nw_Family n))"
    if "network_Get ?r i = Inr n" for i n
    using found [OF that] valid by (simp add: list)
  ultimately show ?thesis using built chain by blast
qed

definition https_only :: "string \<Rightarrow> (string \<times> string) option" where
  "https_only s = (if take 8 s = ''https://'' then Some (''https'', drop 8 s) else None)"

theorem builtin_registry_witness:
  "\<exists>r. Builtin https_only = Inr r \<and> sorted (map nw_ID (network_List r)) \<and> distinct (map nw_ID (network_List r)) \<and>
    (\<forall>i n. network_Get r i = Inr n \<longrightarrow> nw_ID n = i \<and> n \<in> set (network_List r) \<and> Validate https_only n = Inr () \<and>
      is_ok (CurveOf (nw_Family n))) \<and>
    (\<forall>i j n k. network_Get r i = Inr n \<and> network_Get r j = Inr k \<and>
      nw_Family n = nw_Family k \<and> nw_ChainID n = nw_ChainID k \<longrightarrow> i = j)"
  by (rule builtin_registry) (simp add: fallbacks_ok_def table_simps https_only_def)

end
