(* ===== verification/SendFlow.thy ===== *)
theory SendFlow
  imports OperationLedger SpaceKeys Network
begin

text \<open>
  Sending a transaction (internal/httpapi/platform.go, internal/chain/chain.go): the step-up, the
  decoding of a transfer, the idempotency key, the key lent by the space, the signers that record a
  transaction before a signature leaves them, and the outcome that is written afterwards.

  What an adapter does with the signer it is lent, and what else happens on the store meanwhile, is
  a \<open>world\<close>: a program over signatures, broadcasts, events of other requests and the end of the
  process, as the argument of the handlers. It may ask for any signatures and stop anywhere.
\<close>

section \<open>Transfers\<close>

record chain_asset =
  ca_ID :: string
  ca_NetworkID :: string
  ca_Kind :: string
  ca_Name :: string
  ca_Symbol :: string
  ca_Decimals :: byte
  ca_Contract :: string
  ca_Configured :: bool

record fee_approval =
  fa_FeeModel :: string
  fa_GasLimit :: u64
  fa_MaxFeePerGas :: string
  fa_MaxPriorityFeePerGas :: string
  fa_ComputeUnitLimit :: u64
  fa_ComputeUnitPriceMicroLamports :: u64
  fa_CreatesTokenAccount :: bool
  fa_TokenAccountRent :: string
  fa_Fee :: string

record transfer_request =
  tq_Action :: string
  tq_AccountID :: string
  tq_From :: string
  tq_To :: string
  tq_Asset :: chain_asset
  tq_Amount :: string
  tq_Approved :: "fee_approval option"

record transfer_dto =
  td_Action :: string
  td_AccountID :: string
  td_AssetID :: string
  td_To :: string
  td_Amount :: string
  td_FeeModel :: string
  td_GasLimit :: u64
  td_MaxFeePerGas :: string
  td_MaxPriorityFeePerGas :: string
  td_ComputeUnitLimit :: u64
  td_ComputeUnitPriceMicroLamports :: u64
  td_CreatesTokenAccount :: bool
  td_TokenAccountRent :: string
  td_Fee :: string

record transaction =
  tr_NetworkID :: string
  tr_Hash :: string
  tr_Status :: string

datatype chain_error =
    ErrFeeChanged | ErrStateChanged | ErrInvalidRequest | ErrNotSupported | ErrBroadcastUnknown | ChainErr string

definition approval :: "transfer_dto \<Rightarrow> fee_approval option" where
  "approval d =
     (if td_FeeModel d = [] \<and> td_GasLimit d = 0 \<and> td_MaxFeePerGas d = [] \<and> td_ComputeUnitLimit d = 0 \<and>
        td_ComputeUnitPriceMicroLamports d = 0 \<and> \<not> td_CreatesTokenAccount d \<and> td_TokenAccountRent d = [] \<and> td_Fee d = []
      then None
      else Some \<lparr>fa_FeeModel = td_FeeModel d, fa_GasLimit = td_GasLimit d, fa_MaxFeePerGas = td_MaxFeePerGas d,
        fa_MaxPriorityFeePerGas = td_MaxPriorityFeePerGas d, fa_ComputeUnitLimit = td_ComputeUnitLimit d,
        fa_ComputeUnitPriceMicroLamports = td_ComputeUnitPriceMicroLamports d,
        fa_CreatesTokenAccount = td_CreatesTokenAccount d, fa_TokenAccountRent = td_TokenAccountRent d, fa_Fee = td_Fee d\<rparr>)"

definition findAsset :: "chain_asset list \<Rightarrow> string \<Rightarrow> chain_asset option" where
  "findAsset assets i = find (\<lambda>a. ca_ID a = i) assets"

section \<open>The platform\<close>

text \<open>
  What the handlers hold: the space manager and the operation files are the state; the settings, the
  assets and the encoder are looked up through functions.
\<close>

record platform =
  pf_spaces :: manager
  pf_ops :: "op_file file_state"

record network_override =
  no_Enabled :: "bool option"
  no_Explorer :: "explorer_urls option"

record platform_ctx =
  pc_space :: space_ctx
  pc_networks :: registry
  pc_override :: "string \<Rightarrow> network_override option"
  pc_assets :: "network \<Rightarrow> chain_asset list"
  pc_marshal :: "string \<Rightarrow> transfer_dto \<Rightarrow> byte list option"
  pc_sign :: "signing_key \<Rightarrow> byte list \<Rightarrow> byte list option"

datatype flow_error = SpaceFlow serr | StoreFlow operr | NetworkFlow neterr | ChainFlow chain_error

text \<open>An answer: an error with a code, an error of the handler's own, an operation or a transaction.\<close>

datatype reply =
    ErrorReply flow_error string
  | RefusedReply nat string
  | OperationReply nat operation
  | TxReply nat string string string

definition platformErrorCode :: "flow_error \<Rightarrow> string" where
  "platformErrorCode err =
     (if err = SpaceFlow ErrSendConfirmationRequired then ''send_confirmation_required'' else [])"

definition codeNotBroadcast :: string where "codeNotBroadcast = ''not_broadcast''"

definition writePlatformError :: "flow_error \<Rightarrow> reply" where
  "writePlatformError err = ErrorReply err (platformErrorCode err)"

definition effectiveNetwork :: "platform_ctx \<Rightarrow> network \<Rightarrow> network" where
  "effectiveNetwork C item =
     (case pc_override C (nw_ID item) of
        None \<Rightarrow> item
      | Some override \<Rightarrow>
          let item = (case no_Enabled override of None \<Rightarrow> item | Some b \<Rightarrow> item\<lparr>nw_Enabled := b\<rparr>);
              old = nw_Explorer item
          in (case no_Explorer override of
                None \<Rightarrow> item
              | Some e \<Rightarrow> item\<lparr>nw_Explorer :=
                  \<lparr>ex_Address = (if ex_Address e \<noteq> [] then ex_Address e else ex_Address old),
                   ex_Tx = (if ex_Tx e \<noteq> [] then ex_Tx e else ex_Tx old),
                   ex_Block = (if ex_Block e \<noteq> [] then ex_Block e else ex_Block old)\<rparr>\<rparr>))"

definition enabledNetwork :: "platform_ctx \<Rightarrow> string \<Rightarrow> flow_error + network" where
  "enabledNetwork C i =
     (if i = [] then Inl (NetworkFlow (NetErr ''network_id is required''))
      else case network_Get (pc_networks C) i of
        Inl e \<Rightarrow> Inl (NetworkFlow e)
      | Inr item \<Rightarrow>
          let item = effectiveNetwork C item
          in if \<not> nw_Enabled item then Inl (NetworkFlow (NetErr ''network is disabled'')) else Inr item)"

text \<open>\<open>decodePlatformTransfer\<close>; \<open>None\<close> is a body that does not decode. Reading the accounts of
  the space expires sessions, so the manager is returned.\<close>

definition decodePlatformTransfer ::
  "platform_ctx \<Rightarrow> step_env \<Rightarrow> string \<Rightarrow> string \<Rightarrow> transfer_dto option \<Rightarrow> manager
     \<Rightarrow> manager \<times> (reply + transfer_dto \<times> network \<times> transfer_request)" where
  "decodePlatformTransfer C ev spaceID networkID body m =
     (case body of None \<Rightarrow> (m, Inl (RefusedReply 400 ''invalid JSON body'')) | Some request \<Rightarrow>
      case network_Get (pc_networks C) networkID of Inl e \<Rightarrow> (m, Inl (writePlatformError (NetworkFlow e))) | Inr item \<Rightarrow>
      let item = effectiveNetwork C item in
      if \<not> nw_Enabled item then (m, Inl (RefusedReply 400 ''network is disabled''))
      else if td_Action request \<noteq> [] \<and> (nw_Family item \<noteq> FamilyEVM \<or>
          (td_Action request \<noteq> ''wrap'' \<and> td_Action request \<noteq> ''unwrap''))
      then (m, Inl (RefusedReply 400 ''unsupported conversion action''))
      else case Get ev spaceID m of
        (m, Inl e) \<Rightarrow> (m, Inl (writePlatformError (SpaceFlow e)))
      | (m, Inr (_, accounts)) \<Rightarrow>
          let from = (case find (\<lambda>a. ac_ID a = td_AccountID request \<and> BoundTo a (nw_ID item)) accounts of
                        None \<Rightarrow> [] | Some a \<Rightarrow> address_of (ac_Addresses a) (nw_Family item))
          in if from = [] then (m, Inl (RefusedReply 404 ''account is not available for this network''))
             else case findAsset (pc_assets C item) (td_AssetID request) of
               None \<Rightarrow> (m, Inl (RefusedReply 400 ''asset does not belong to this network''))
             | Some asset \<Rightarrow>
                 (m, Inr (request, item,
                    \<lparr>tq_Action = td_Action request, tq_AccountID = td_AccountID request, tq_From = from,
                     tq_To = td_To request, tq_Asset = asset, tq_Amount = td_Amount request,
                     tq_Approved = approval request\<rparr>)))"

section \<open>Signers\<close>

text \<open>\<open>localSigner\<close> and \<open>ed25519Signer\<close>: \<open>sign\<close> is the curve's signature.\<close>

definition SignDigest :: "(signing_key \<Rightarrow> byte list \<Rightarrow> byte list option) \<Rightarrow> bool \<Rightarrow> signing_key \<Rightarrow> byte list \<Rightarrow> byte list option" where
  "SignDigest sign ended key digest = (if ended then None else if length digest \<noteq> 32 then None else sign key digest)"

definition SignMessage :: "(signing_key \<Rightarrow> byte list \<Rightarrow> byte list option) \<Rightarrow> bool \<Rightarrow> signing_key \<Rightarrow> byte list \<Rightarrow> byte list option" where
  "SignMessage sign ended key message = (if ended then None else if message = [] then None else sign key message)"

text \<open>The signers that record: one before it signs, the other before it lets the signature go.\<close>

definition recordingSigner_SignDigest ::
  "(byte list \<Rightarrow> 'a store_op) \<Rightarrow> (byte list \<Rightarrow> byte list option) \<Rightarrow> byte list
     \<Rightarrow> op_file file_state \<Rightarrow> op_file file_state \<times> byte list option" where
  "recordingSigner_SignDigest record sign digest s =
     (case record digest s of (t, Inl _) \<Rightarrow> (t, None) | (t, Inr _) \<Rightarrow> (t, sign digest))"

definition recordingMessage_SignMessage ::
  "(byte list \<Rightarrow> 'a store_op) \<Rightarrow> (byte list \<Rightarrow> byte list option) \<Rightarrow> byte list
     \<Rightarrow> op_file file_state \<Rightarrow> op_file file_state \<times> byte list option" where
  "recordingMessage_SignMessage record sign message s =
     (case sign message of
        None \<Rightarrow> (s, None)
      | Some signature \<Rightarrow>
          (case record signature s of (t, Inl _) \<Rightarrow> (t, None) | (t, Inr _) \<Rightarrow> (t, Some signature)))"

definition recordingTronSigner ::
  "store_env \<Rightarrow> string \<Rightarrow> string \<Rightarrow> (byte list \<Rightarrow> byte list option) \<Rightarrow> byte list
     \<Rightarrow> op_file file_state \<Rightarrow> op_file file_state \<times> byte list option" where
  "recordingTronSigner ev spaceID key sign =
     recordingSigner_SignDigest (\<lambda>digest. Update ev spaceID key (HexEncode digest) StatusBroadcasting) sign"

definition recordingMessageSigner ::
  "wallet_lib \<Rightarrow> store_env \<Rightarrow> string \<Rightarrow> string \<Rightarrow> u64 \<Rightarrow> (byte list \<Rightarrow> byte list option) \<Rightarrow> byte list
     \<Rightarrow> op_file file_state \<Rightarrow> op_file file_state \<times> byte list option" where
  "recordingMessageSigner W ev spaceID key expiry sign =
     recordingMessage_SignMessage
       (\<lambda>signature. UpdateExpiring ev spaceID key (wl_base58_encode W signature) StatusBroadcasting expiry) sign"

section \<open>Programs over a signer\<close>

text \<open>
  What happens while a key is lent: the adapter asks for signatures, says the expiry height of what it
  is about to sign, sends bytes to a node, which accepts or refuses them or whose answer is lost, and
  ends with a result; other requests run on the store; and the process may die.
\<close>

datatype node_answer = NodeAccepted string | NodeRefused string | NodeSilent

datatype 'r world =
    Finished 'r
  | AskDigest store_env bool "byte list" "byte list option \<Rightarrow> 'r world"
  | AskMessage store_env bool "byte list" "byte list option \<Rightarrow> 'r world"
  | BeforeSigning u64 "'r world"
  | Send "byte list" node_answer "'r world"
  | Elsewhere store_event "'r world"
  | Dies

datatype trace_event = Signed string "byte list" | Withheld | Sent "byte list" node_answer

datatype chain_key = PlainDigest signing_key | RecordingDigest signing_key | RecordingMessage signing_key

record lent =
  ln_space :: string
  ln_opkey :: string
  ln_signer :: chain_key

definition ask_digest ::
  "platform_ctx \<Rightarrow> lent \<Rightarrow> store_env \<Rightarrow> bool \<Rightarrow> byte list \<Rightarrow> op_file file_state
     \<Rightarrow> op_file file_state \<times> byte list option" where
  "ask_digest C L ev ended digest s =
     (case ln_signer L of
        PlainDigest key \<Rightarrow> (s, SignDigest (pc_sign C) ended key digest)
      | RecordingDigest key \<Rightarrow>
          recordingTronSigner ev (ln_space L) (ln_opkey L) (SignDigest (pc_sign C) ended key) digest s
      | RecordingMessage key \<Rightarrow> (s, None))"

definition ask_message ::
  "platform_ctx \<Rightarrow> lent \<Rightarrow> u64 \<Rightarrow> store_env \<Rightarrow> bool \<Rightarrow> byte list \<Rightarrow> op_file file_state
     \<Rightarrow> op_file file_state \<times> byte list option" where
  "ask_message C L height ev ended message s =
     (case ln_signer L of
        RecordingMessage key \<Rightarrow>
          recordingMessageSigner (sx_W (pc_space C)) ev (ln_space L) (ln_opkey L) height
            (SignMessage (pc_sign C) ended key) message s
      | _ \<Rightarrow> (s, None))"

text \<open>What a recording signer writes down: the digest of a Tron transaction is its identifier, a
  Solana transaction is named by its signature.\<close>

definition digest_event :: "lent \<Rightarrow> byte list \<Rightarrow> byte list option \<Rightarrow> trace_event" where
  "digest_event L digest answer =
     (case answer of None \<Rightarrow> Withheld
      | Some signature \<Rightarrow> Signed (case ln_signer L of RecordingDigest _ \<Rightarrow> HexEncode digest | _ \<Rightarrow> []) signature)"

definition message_event :: "platform_ctx \<Rightarrow> byte list option \<Rightarrow> trace_event" where
  "message_event C answer =
     (case answer of None \<Rightarrow> Withheld
      | Some signature \<Rightarrow> Signed (wl_base58_encode (sx_W (pc_space C)) signature) signature)"

primrec run_world ::
  "'r world \<Rightarrow> platform_ctx \<Rightarrow> lent \<Rightarrow> u64 \<Rightarrow> op_file file_state
     \<Rightarrow> op_file file_state \<times> trace_event list \<times> 'r option" where
  "run_world (Finished r) = (\<lambda>C L height s. (s, [], Some r))"
| "run_world (AskDigest ev ended digest k) = (\<lambda>C L height s.
     let (t, answer) = ask_digest C L ev ended digest s;
         (u, tr, r) = run_world (k answer) C L height t
     in (u, digest_event L digest answer # tr, r))"
| "run_world (AskMessage ev ended message k) = (\<lambda>C L height s.
     let (t, answer) = ask_message C L height ev ended message s;
         (u, tr, r) = run_world (k answer) C L height t
     in (u, message_event C answer # tr, r))"
| "run_world (BeforeSigning h w) = (\<lambda>C L height s. run_world w C L h s)"
| "run_world (Send raw node w) = (\<lambda>C L height s.
     let (u, tr, r) = run_world w C L height s in (u, Sent raw node # tr, r))"
| "run_world (Elsewhere e w) = (\<lambda>C L height s. run_world w C L height (run_event e s))"
| "run_world Dies = (\<lambda>C L height s. (s, [], None))"

section \<open>Adapters\<close>

text \<open>
  How the three families sign and broadcast, from the point where the transaction is built and checked:
  the tail of \<open>Send\<close> of the EVM adapter (internal/chain/evm/adapter.go), \<open>signAndBroadcast\<close> of the
  Solana adapter (internal/chain/solana/transfer.go), and \<open>submitWithSigner\<close> with \<open>broadcastError\<close> and
  \<open>Send\<close> of Tron (internal/tron/service.go, internal/chain/tron/adapter.go). The answer of the node
  is an argument; an empty transaction travels with an error that precedes the broadcast.
\<close>

definition no_transaction :: transaction where
  "no_transaction = \<lparr>tr_NetworkID = [], tr_Hash = [], tr_Status = []\<rparr>"

definition outcome :: "string \<Rightarrow> string \<Rightarrow> string \<Rightarrow> chain_error option \<Rightarrow> transaction \<times> chain_error option" where
  "outcome networkID txID status err = (\<lparr>tr_NetworkID = networkID, tr_Hash = txID, tr_Status = status\<rparr>, err)"

text \<open>\<open>attach\<close> is the signed transaction with its hash and bytes.\<close>

definition evm_Send ::
  "store_env \<Rightarrow> bool \<Rightarrow> string \<Rightarrow> byte list \<Rightarrow> (byte list \<Rightarrow> (string \<times> byte list) option) \<Rightarrow> node_answer
     \<Rightarrow> (transaction \<times> chain_error option) world" where
  "evm_Send ev ended networkID digest attach node =
     AskDigest ev ended digest (\<lambda>answer.
       case answer of
         None \<Rightarrow> Finished (no_transaction, Some (ChainErr ''sign''))
       | Some signature \<Rightarrow>
           (case attach signature of
              None \<Rightarrow> Finished (no_transaction, Some (ChainErr ''attach EVM signature''))
            | Some (hash, raw) \<Rightarrow>
                Send raw node (Finished (case node of
                    NodeRefused _ \<Rightarrow> outcome networkID hash StatusFailed (Some ErrInvalidRequest)
                  | NodeSilent \<Rightarrow> outcome networkID hash StatusBroadcastUnknown (Some ErrBroadcastUnknown)
                  | NodeAccepted _ \<Rightarrow> outcome networkID hash StatusPending None))))"

text \<open>\<open>verify\<close> is \<open>ed25519.Verify\<close> under the signer's key, \<open>base58\<close> the text of a signature.\<close>

definition signAndBroadcast ::
  "store_env \<Rightarrow> bool \<Rightarrow> string \<Rightarrow> (byte list \<Rightarrow> bool) \<Rightarrow> (byte list \<Rightarrow> string) \<Rightarrow> byte list \<Rightarrow> u64 \<Rightarrow> node_answer
     \<Rightarrow> (transaction \<times> chain_error option) world" where
  "signAndBroadcast ev ended networkID verify base58 message lastValid node =
     BeforeSigning lastValid (AskMessage ev ended message (\<lambda>answer.
       case answer of
         None \<Rightarrow> Finished (no_transaction, Some (ChainErr ''sign''))
       | Some signature \<Rightarrow>
           if length signature \<noteq> 64 \<or> \<not> verify signature
           then Finished (no_transaction, Some (ChainErr ''the signer returned a signature that does not verify''))
           else
             let txID = base58 signature
             in Send (1 # signature @ message) node (Finished (case node of
                    NodeRefused _ \<Rightarrow> outcome networkID txID StatusFailed (Some ErrInvalidRequest)
                  | NodeSilent \<Rightarrow> outcome networkID txID StatusBroadcastUnknown (Some ErrBroadcastUnknown)
                  | NodeAccepted answered \<Rightarrow>
                      if answered \<noteq> txID then outcome networkID txID StatusBroadcastUnknown (Some ErrBroadcastUnknown)
                      else outcome networkID txID StatusPending None))))"

definition dup_transaction :: string where "dup_transaction = ''DUP_TRANSACTION_ERROR''"

definition rejectionReason :: "string \<Rightarrow> string" where
  "rejectionReason code =
     (if code = ''BANDWITH_ERROR'' then ''the account has neither the bandwidth and energy this transaction needs nor the TRX to pay for them''
      else if code = ''CONTRACT_VALIDATE_ERROR'' then ''the chain refused the transaction''
      else if code = ''CONTRACT_EXE_ERROR'' then ''the contract call failed''
      else if code = ''TOO_BIG_TRANSACTION_ERROR'' then ''the transaction is too large''
      else [])"

text \<open>\<open>broadcastError\<close>, with \<open>chainError\<close> for a rejection: no error for a duplicate, the node's refusal, or an unknown outcome.\<close>

definition broadcastError :: "node_answer \<Rightarrow> chain_error option" where
  "broadcastError node =
     (case node of
        NodeAccepted _ \<Rightarrow> None
      | NodeRefused code \<Rightarrow> if code = dup_transaction then None
                            else if rejectionReason code \<noteq> [] then Some ErrInvalidRequest
                            else Some (ChainErr ''broadcast transaction'')
      | NodeSilent \<Rightarrow> Some ErrBroadcastUnknown)"

text \<open>\<open>verified\<close> is what \<open>Intent.Verify\<close> answers about the node's transaction, \<open>attach\<close> the signed bytes.\<close>

definition submitWithSigner ::
  "store_env \<Rightarrow> bool \<Rightarrow> bool \<Rightarrow> byte list \<Rightarrow> (byte list \<Rightarrow> byte list) \<Rightarrow> node_answer
     \<Rightarrow> (string \<times> chain_error option \<Rightarrow> 'r) \<Rightarrow> 'r world" where
  "submitWithSigner ev ended verified digest attach node finish =
     (if \<not> verified then Finished (finish ([], Some (ChainErr ''intent'')))
      else AskDigest ev ended digest (\<lambda>answer.
        case answer of
          None \<Rightarrow> Finished (finish ([], Some (ChainErr ''sign transaction'')))
        | Some signature \<Rightarrow>
            if length signature \<noteq> 65 then Finished (finish ([], Some (ChainErr ''sign transaction'')))
            else Send (attach signature) node (Finished (finish (HexEncode digest, broadcastError node)))))"

definition tron_Send ::
  "store_env \<Rightarrow> bool \<Rightarrow> string \<Rightarrow> bool \<Rightarrow> byte list \<Rightarrow> (byte list \<Rightarrow> byte list) \<Rightarrow> node_answer
     \<Rightarrow> (transaction \<times> chain_error option) world" where
  "tron_Send ev ended networkID verified digest attach node =
     submitWithSigner ev ended verified digest attach node (\<lambda>(txID, err).
       case err of
         Some e \<Rightarrow> if txID \<noteq> [] \<and> e = ErrBroadcastUnknown then outcome networkID txID StatusBroadcastUnknown (Some e)
                   else (no_transaction, Some e)
       | None \<Rightarrow> outcome networkID txID StatusPending None)"

section \<open>Handlers\<close>

text \<open>The environment of a request: the clock and the disk at each of its steps.\<close>

record request_env =
  rq_confirm :: step_env
  rq_accounts :: step_env
  rq_begin :: store_env
  rq_lend :: step_env
  rq_finish :: store_env

type_synonym answered = "platform \<times> trace_event list \<times> reply option"

definition answer :: "platform \<Rightarrow> reply \<Rightarrow> answered" where
  "answer p r = (p, [], Some r)"

text \<open>\<open>rejectIncompleteReplay\<close>: the refusal it writes, or none.\<close>

definition rejectIncompleteReplay :: "operation \<Rightarrow> reply option" where
  "rejectIncompleteReplay existing =
     (if InFlight (op_Status existing) then None
      else if op_Status existing = StatusBuilding then Some (RefusedReply 409 ''operation is still in progress'')
      else if op_Status existing = StatusFailed then
        Some (RefusedReply 409 ''previous operation failed before broadcast; retry with a new idempotency key'')
      else None)"

text \<open>The key a send is lent: on Tron a digest signer records, a message signer always does.\<close>

definition send_signer :: "network \<Rightarrow> signing_key \<Rightarrow> chain_key" where
  "send_signer item key =
     (case key of
        Secp256k1Key _ \<Rightarrow> if nw_Family item = FamilyTron then RecordingDigest key else PlainDigest key
      | Ed25519Key _ \<Rightarrow> RecordingMessage key)"

definition failure_status :: "flow_error \<Rightarrow> string" where
  "failure_status err = (if err = ChainFlow ErrBroadcastUnknown then StatusBroadcastUnknown else StatusFailed)"

text \<open>The end of \<open>sendTransfer\<close>: what is recorded about the outcome.\<close>

definition finishTransfer ::
  "store_env \<Rightarrow> string \<Rightarrow> string \<Rightarrow> transaction \<Rightarrow> flow_error option \<Rightarrow> op_file file_state
     \<Rightarrow> op_file file_state \<times> reply" where
  "finishTransfer ev spaceID key tx err s =
     (case err of
        Some e \<Rightarrow>
          let status = failure_status e in
          (case Update ev spaceID key (tr_Hash tx) status s of
             (t, Inl updateErr) \<Rightarrow> (t, writePlatformError (StoreFlow updateErr))
           | (t, Inr updated) \<Rightarrow>
               if status = StatusBroadcastUnknown then (t, OperationReply 202 updated)
               else (t, writePlatformError e))
      | None \<Rightarrow>
          (case Update ev spaceID key (tr_Hash tx) (tr_Status tx) s of
             (t, Inl updateErr) \<Rightarrow> (t, writePlatformError (StoreFlow updateErr))
           | (t, Inr updated) \<Rightarrow> (t, OperationReply 202 updated)))"

definition sendTransfer ::
  "platform_ctx \<Rightarrow> request_env \<Rightarrow> string \<Rightarrow> string \<Rightarrow> string \<Rightarrow> transfer_dto option
     \<Rightarrow> (network \<Rightarrow> transfer_request \<Rightarrow> (transaction \<times> chain_error option) world) \<Rightarrow> platform \<Rightarrow> answered" where
  "sendTransfer C E spaceID networkID idempotencyKey body chainSend p =
     (case RequireSendConfirmation (rq_confirm E) spaceID (pf_spaces p) of
        (m, Inl e) \<Rightarrow> answer (p\<lparr>pf_spaces := m\<rparr>) (writePlatformError (SpaceFlow e))
      | (m, Inr _) \<Rightarrow>
     (case decodePlatformTransfer C (rq_accounts E) spaceID networkID body m of
        (m, Inl r) \<Rightarrow> answer (p\<lparr>pf_spaces := m\<rparr>) r
      | (m, Inr (request, item, transfer)) \<Rightarrow>
     (case RequestHash (pc_marshal C (nw_ID item)) (wl_sha256 (sx_W (pc_space C))) request of
        Inl e \<Rightarrow> answer (p\<lparr>pf_spaces := m\<rparr>) (writePlatformError (StoreFlow e))
      | Inr requestHash \<Rightarrow>
     (case Begin (rq_begin E) spaceID idempotencyKey requestHash (nw_ID item) (pf_ops p) of
        (s, Inl e) \<Rightarrow> answer \<lparr>pf_spaces = m, pf_ops = s\<rparr> (writePlatformError (StoreFlow e))
      | (s, Inr (existing, True)) \<Rightarrow>
          answer \<lparr>pf_spaces = m, pf_ops = s\<rparr>
            (case rejectIncompleteReplay existing of Some r \<Rightarrow> r | None \<Rightarrow> OperationReply 200 existing)
      | (s, Inr (_, False)) \<Rightarrow>
     (case WithKey (pc_space C) (rq_lend E) spaceID (td_AccountID request) (nw_ID item) (nw_Family item) m of
        (m, Inl e) \<Rightarrow>
          (case finishTransfer (rq_finish E) spaceID idempotencyKey no_transaction (Some (SpaceFlow e)) s of
             (s, r) \<Rightarrow> answer \<lparr>pf_spaces = m, pf_ops = s\<rparr> r)
      | (m, Inr key) \<Rightarrow>
     (case run_world (chainSend item transfer) C
         \<lparr>ln_space = spaceID, ln_opkey = idempotencyKey, ln_signer = send_signer item key\<rparr> 0 s of
        (s, tr, None) \<Rightarrow> (\<lparr>pf_spaces = m, pf_ops = s\<rparr>, tr, None)
      | (s, tr, Some (tx, err)) \<Rightarrow>
          (case finishTransfer (rq_finish E) spaceID idempotencyKey tx (map_option ChainFlow err) s of
             (s, r) \<Rightarrow> (\<lparr>pf_spaces = m, pf_ops = s\<rparr>, tr, Some r))))))))"

text \<open>\<open>beginChainOperation\<close> and \<open>finishTronOperation\<close>, which the staking, delegation, swap and
  deployment handlers share; \<open>marshal\<close> encodes the path and the body of the request.\<close>

definition beginChainOperation ::
  "platform_ctx \<Rightarrow> byte list option \<Rightarrow> store_env \<Rightarrow> string \<Rightarrow> string \<Rightarrow> string \<Rightarrow> op_file file_state
     \<Rightarrow> op_file file_state \<times> (reply + string)" where
  "beginChainOperation C marshalled ev spaceID networkID key s =
     (case RequestHash (\<lambda>_ :: unit. marshalled) (wl_sha256 (sx_W (pc_space C))) () of
        Inl e \<Rightarrow> (s, Inl (writePlatformError (StoreFlow e)))
      | Inr requestHash \<Rightarrow>
     (case Begin ev spaceID key requestHash networkID s of
        (s, Inl e) \<Rightarrow> (s, Inl (writePlatformError (StoreFlow e)))
      | (s, Inr (existing, True)) \<Rightarrow>
          (s, Inl (case rejectIncompleteReplay existing of
                     Some r \<Rightarrow> r
                   | None \<Rightarrow> TxReply 200 (op_NetworkID existing) (op_TxHash existing) (op_Status existing)))
      | (s, Inr (_, False)) \<Rightarrow> (s, Inr key)))"

definition finishTronOperation ::
  "store_env \<Rightarrow> string \<Rightarrow> string \<Rightarrow> string \<Rightarrow> string \<Rightarrow> flow_error option \<Rightarrow> op_file file_state
     \<Rightarrow> op_file file_state \<times> reply" where
  "finishTronOperation ev spaceID networkID key txID err s =
     (case err of
        Some e \<Rightarrow>
          let status = failure_status e in
          (case Update ev spaceID key txID status s of
             (t, updated) \<Rightarrow>
               if status = StatusBroadcastUnknown then
                 (t, TxReply 202 networkID (case updated of Inl _ \<Rightarrow> [] | Inr item \<Rightarrow> op_TxHash item) status)
               else (case updated of
                       Inl _ \<Rightarrow> (t, writePlatformError e)
                     | Inr _ \<Rightarrow> (t, ErrorReply e codeNotBroadcast)))
      | None \<Rightarrow>
          (case Update ev spaceID key txID StatusPending s of
             (t, Inl updateErr) \<Rightarrow> (t, writePlatformError (StoreFlow updateErr))
           | (t, Inr _) \<Rightarrow> (t, TxReply 202 networkID txID StatusPending)))"

end
