(* ===== verification/SolanaTransfer.thy ===== *)
theory SolanaTransfer
  imports SolanaMessage SendFlow Complex_Main
begin

text \<open>
  Transfers of the Solana adapter (internal/chain/solana/transfer.go, token.go): amounts, the plan of a
  transfer and its cost, what is read from the chain, the wording of refusals with their numbers,
  the approval of a fee, and \<open>Send\<close> up to the signature.

  The answers of the nodes are a record of functions, after the failover between nodes; the state is the
  cache of rent-exempt minimums. Decimals are rationals, read and shown by parameters; amounts are
  machine words, so sums wrap as they do in the code.
\<close>

section \<open>Answers and errors\<close>

datatype json =
    JText string
  | JNumber "int option"
  | JFloat int
  | JArray "json list"
  | JObject "(string \<times> json) list"
  | JOther

record sol_account =
  sa_Lamports :: u64
  sa_Owner :: pubkey
  sa_Data :: "byte list"

record sim_result =
  sm_Err :: "json option"
  sm_Units :: "u64 option"
  sm_Logs :: "string list"

text \<open>A refusal that depends on the state of the chain, with the amounts in its text.\<close>

datatype refusal =
    Because string
  | FeeNotCovered u64 u64
  | PayerCannotKeepRent u64 u64 u64 u64
  | RentAfterOpening u64 u64 u64 u64 u64
  | SendTheMaximum u64 u64
  | SendAtMost u64 u64 u64
  | RecipientNotOpened u64
  | RecipientBelowRent u64 u64 u64
  | NetworkRejects string string
  | CostNotCovered u64 u64 u64
  | OnlyTheFee u64
  | AmountNotCovered u64 u64 u64 u64
  | ElsewhereHeld u64
  | Held u64
  | FeeBeforeRentReturns u64 bool u64 u64
  | FeeBreaksMinimum bool u64 u64 u64 u64

datatype sol_err =
    Refused string
  | StateRefused refusal
  | Mismatched mismatch
  | FeeMoved string
  | StateMoved sol_err
  | SignerMismatch string
  | NodeFailed string

fun chain_error_of :: "sol_err \<Rightarrow> chain_error" where
  "chain_error_of (Refused s) = ErrInvalidRequest"
| "chain_error_of (StateRefused r) = ErrInvalidRequest"
| "chain_error_of (Mismatched m) = ErrInvalidRequest"
| "chain_error_of (FeeMoved s) = ErrFeeChanged"
| "chain_error_of (StateMoved e) = ErrStateChanged"
| "chain_error_of (SignerMismatch s) = ChainErr s"
| "chain_error_of (NodeFailed s) = ChainErr s"

definition stateChanged :: "sol_err \<Rightarrow> sol_err" where
  "stateChanged e = (case e of StateRefused r \<Rightarrow> StateMoved e | _ \<Rightarrow> e)"

record sol_node =
  nd_rent :: "nat \<Rightarrow> sol_err + u64"
  nd_asked :: "nat \<Rightarrow> int"
  nd_stored :: "nat \<Rightarrow> int"
  nd_accounts :: "pubkey list \<Rightarrow> sol_err + sol_account option list"
  nd_held :: "pubkey \<Rightarrow> pubkey \<Rightarrow> nat option"
  nd_fees :: "pubkey list \<Rightarrow> sol_err + u64 list"
  nd_simulate :: "nat \<Rightarrow> byte list \<Rightarrow> sol_err + sim_result"
  nd_blockhash :: "sol_err + (byte list \<times> u64) option"

text \<open>The library under the adapter: keys, base58, ed25519, the builder of messages, decimals.\<close>

record sol_ctx = sol_lib +
  sc_key :: "string \<Rightarrow> pubkey option"
  sc_onCurve :: "pubkey \<Rightarrow> bool"
  sc_build :: "instruction list \<Rightarrow> byte list \<Rightarrow> pubkey \<Rightarrow> byte list option"
  sc_verify :: "pubkey \<Rightarrow> byte list \<Rightarrow> byte list \<Rightarrow> bool"
  sc_base58 :: "byte list \<Rightarrow> string"
  sc_parse :: "string \<Rightarrow> rat option"
  sc_show :: "rat \<Rightarrow> string"
  sc_metadata :: "pubkey \<Rightarrow> pubkey option"
  sc_metadataProgram :: pubkey
  sc_printv :: "json \<Rightarrow> string"

type_synonym rents = "string \<times> nat \<Rightarrow> (u64 \<times> int) option"

type_synonym 'a sol_op = "(rents, sol_err, 'a) op"

section \<open>Amounts\<close>

definition lamportsPerSignature :: u64 where "lamportsPerSignature = 5000"
definition maxComputeUnitLimit :: u64 where "maxComputeUnitLimit = 1400000"
definition simulationComputeUnitLimit :: u32 where "simulationComputeUnitLimit = 200000"
definition maxComputeUnitPrice :: u64 where "maxComputeUnitPrice = 1000000"
definition minComputeUnitPrice :: u64 where "minComputeUnitPrice = 1000"
definition tokenAccountSize :: nat where "tokenAccountSize = 165"
definition rentTTL :: int where "rentTTL = 10 * 60 * 1000000000"

definition base_units :: "rat \<Rightarrow> nat \<Rightarrow> sol_err \<Rightarrow> sol_err \<Rightarrow> sol_err + u64" where
  "base_units v decimals fraction large =
     (let scaled = v * 10 ^ decimals in
      rcheck (scaled = of_int \<lfloor>scaled\<rfloor>) fraction (
      rcheck (0 \<le> \<lfloor>scaled\<rfloor> \<and> \<lfloor>scaled\<rfloor> < 2 ^ 64) large (Inr (of_int \<lfloor>scaled\<rfloor>))))"

definition units :: "sol_ctx \<Rightarrow> string \<Rightarrow> byte \<Rightarrow> sol_err + u64" where
  "units C amount decimals =
     (case sc_parse C amount of None \<Rightarrow> Inl (Refused ''amount must be a positive decimal'') | Some v \<Rightarrow>
      rcheck (0 < v) (Refused ''amount must be a positive decimal'')
        (base_units v (unat decimals) (Refused ''amount has more decimals'') (Refused ''amount is too large'')))"

definition lamports :: "sol_ctx \<Rightarrow> string \<Rightarrow> u64 option" where
  "lamports C s =
     (case sc_parse C s of None \<Rightarrow> None | Some v \<Rightarrow>
      if v < 0 then None
      else (case base_units v 9 (NodeFailed []) (NodeFailed []) of Inl _ \<Rightarrow> None | Inr n \<Rightarrow> Some n))"

definition sol :: "sol_ctx \<Rightarrow> u64 \<Rightarrow> string" where
  "sol C n = sc_show C (of_nat (unat n) / 10 ^ 9)"

section \<open>Plans\<close>

record token_plan =
  tp_mint :: pubkey
  tp_decimals :: byte
  tp_source :: pubkey
  tp_destination :: pubkey
  tp_sourceBalance :: u64
  tp_createAccount :: bool
  tp_rent :: u64

record sol_plan =
  sp_from :: pubkey
  sp_to :: pubkey
  sp_amount :: u64
  sp_token :: "token_plan option"
  sp_balance :: u64
  sp_toExists :: bool
  sp_toLamports :: u64
  sp_rentExempt0 :: u64
  sp_basePrice :: u64
  sp_price :: u64
  sp_neededLimit :: u32
  sp_limit :: u32
  sp_probing :: bool
  sp_offered :: u64
  sp_max :: bool

definition priorityFee :: "u32 \<Rightarrow> u64 \<Rightarrow> u64" where
  "priorityFee limit price = of_int ((uint limit * uint price + 999999) div 1000000)"

definition networkFee :: "sol_plan \<Rightarrow> u64" where
  "networkFee p = lamportsPerSignature + priorityFee (sp_limit p) (sp_price p)"

text \<open>The rent of a token account that the transfer opens.\<close>

definition opened_rent :: "sol_plan \<Rightarrow> u64" where
  "opened_rent p = (case sp_token p of Some t \<Rightarrow> if tp_createAccount t then tp_rent t else 0 | None \<Rightarrow> 0)"

definition cost :: "sol_plan \<Rightarrow> u64" where
  "cost p = networkFee p + opened_rent p"

definition plan_intent :: "sol_plan \<Rightarrow> byte list \<Rightarrow> sol_intent" where
  "plan_intent p blockhash =
     \<lparr>si_payer = sp_from p, si_blockhash = blockhash, si_limit = sp_limit p, si_price = sp_price p, si_to = sp_to p,
      si_lamports = (case sp_token p of None \<Rightarrow> sp_amount p | Some _ \<Rightarrow> 0),
      si_token = (case sp_token p of None \<Rightarrow> None | Some t \<Rightarrow>
        Some \<lparr>ti_mint = tp_mint t, ti_decimals = tp_decimals t, ti_amount = sp_amount p, ti_createAccount = tp_createAccount t\<rparr>)\<rparr>"

definition plan_instructions :: "sol_ctx \<Rightarrow> sol_plan \<Rightarrow> instruction list" where
  "plan_instructions C p =
     [limit_instruction C (sp_limit p), price_instruction C (sp_price p)] @
     (case sp_token p of
        None \<Rightarrow> [sol_transfer_instruction C (sp_from p) (sp_to p) (sp_amount p)]
      | Some t \<Rightarrow>
          (if tp_createAccount t then [create_account_instruction C (sp_from p) (tp_destination t) (sp_to p) (tp_mint t)] else []) @
          [token_transfer_instruction C (tp_source t) (tp_mint t) (tp_destination t) (sp_from p) (sp_amount p) (tp_decimals t)])"

definition plan_build :: "sol_ctx \<Rightarrow> sol_plan \<Rightarrow> byte list \<Rightarrow> sol_err + byte list" where
  "plan_build C p blockhash =
     (case sc_build C (plan_instructions C p) blockhash (sp_from p) of
        None \<Rightarrow> Inl (NodeFailed ''build Solana transaction'') | Some m \<Rightarrow> Inr m)"

section \<open>Reading the chain\<close>

definition rentExempt :: "sol_node \<Rightarrow> string \<Rightarrow> nat \<Rightarrow> u64 sol_op" where
  "rentExempt N networkID sz rents =
     (case rents (networkID, sz) of
        Some (n, stored) \<Rightarrow> if nd_asked N sz - stored < rentTTL then (rents, Inr n) else
          (case nd_rent N sz of Inl e \<Rightarrow> (rents, Inl e) | Inr n \<Rightarrow>
           if n = 0 then (rents, Inl (NodeFailed ''the node answered zero''))
           else (rents((networkID, sz) \<mapsto> (n, nd_stored N sz)), Inr n))
      | None \<Rightarrow>
          (case nd_rent N sz of Inl e \<Rightarrow> (rents, Inl e) | Inr n \<Rightarrow>
           if n = 0 then (rents, Inl (NodeFailed ''the node answered zero''))
           else (rents((networkID, sz) \<mapsto> (n, nd_stored N sz)), Inr n)))"

definition readAccounts :: "sol_node \<Rightarrow> pubkey list \<Rightarrow> sol_err + sol_account option list" where
  "readAccounts N keys =
     rbind (nd_accounts N keys) (\<lambda>accounts. rcheck (length accounts = length keys) (NodeFailed ''read accounts'') (Inr accounts))"

definition priorityPrice :: "sol_node \<Rightarrow> pubkey list \<Rightarrow> sol_err + u64" where
  "priorityPrice N wr =
     rbind (nd_fees N wr) (\<lambda>fees.
     if fees = [] then Inr 0
     else Inr (min (sort fees ! ((length fees * 3 + 3) div 4 - 1)) maxComputeUnitPrice))"

definition offeredPrice :: "u64 \<Rightarrow> u64" where
  "offeredPrice recent = min (max (recent + recent div 4) minComputeUnitPrice) maxComputeUnitPrice"

text \<open>\<open>latestBlockhash\<close>: an answer without a hash or a height is an error of the node.\<close>

definition latestBlockhash :: "sol_node \<Rightarrow> sol_err + byte list \<times> u64" where
  "latestBlockhash N =
     rbind (nd_blockhash N) (\<lambda>latest.
     case latest of None \<Rightarrow> Inl (NodeFailed ''answer has no blockhash'')
     | Some (hash, height) \<Rightarrow> rcheck (height \<noteq> 0) (NodeFailed ''answer has no blockhash'') (Inr (hash, height)))"

definition mintDecimals :: "sol_ctx \<Rightarrow> sol_account option \<Rightarrow> sol_err + byte" where
  "mintDecimals C acc =
     (case acc of None \<Rightarrow> Inl (Refused ''no account exists at this address'') | Some a \<Rightarrow>
      rcheck (sa_Owner a = token_program_id C \<or> sa_Owner a \<noteq> token2022_program_id C) (Refused ''Token-2022 tokens are not supported'') (
      rcheck (sa_Owner a = token_program_id C) (Refused ''the account belongs to another program'') (
      rcheck (length (sa_Data a) = 82) (Refused ''account data has another length'') (
      rcheck (sa_Data a ! 45 = 1) (Refused ''the mint is not initialized'') (Inr (sa_Data a ! 44))))))"

text \<open>A borsh string of the metadata account.\<close>

definition read_string :: "byte list \<Rightarrow> (string \<times> byte list) option" where
  "read_string rest =
     (if length rest < 4 then None else
      let n = get_le (take 4 rest) in
      if n > 200 \<or> n > length rest - 4 then None
      else Some (map (\<lambda>b. char_of (unat b)) (take n (drop 4 rest)), drop (4 + n) rest))"

definition trim_nul :: "string \<Rightarrow> string" where
  "trim_nul s = rev (dropWhile (\<lambda>c. of_char c = (0 :: nat)) (rev s))"

definition metadataSymbol :: "sol_ctx \<Rightarrow> sol_account option \<Rightarrow> pubkey \<Rightarrow> sol_err + string" where
  "metadataSymbol C acc mint =
     (case acc of None \<Rightarrow> Inl (Refused ''the token has no on-chain metadata with a symbol'') | Some a \<Rightarrow>
      rcheck (sa_Owner a = sc_metadataProgram C) (Refused ''the metadata account belongs to another program'') (
      let data = sa_Data a in
      rcheck (\<not> (length data < 65 \<or> data ! 0 \<noteq> 4)) (Refused ''token metadata is malformed'') (
      rcheck (take 32 (drop 33 data) = mint) (Refused ''token metadata names another mint'') (
      case read_string (drop 65 data) of None \<Rightarrow> Inl (Refused ''token metadata is malformed'') | Some (_, rest) \<Rightarrow>
      case read_string rest of None \<Rightarrow> Inl (Refused ''token metadata is malformed'') | Some (symbol, _) \<Rightarrow>
      let symbol = TrimSpace (trim_nul symbol) in
      rcheck (symbol \<noteq> []) (Refused ''the token has no on-chain metadata with a symbol'') (Inr symbol)))))"

definition TokenMetadata :: "sol_ctx \<Rightarrow> sol_err + sol_node \<Rightarrow> string \<Rightarrow> sol_err + string \<times> byte" where
  "TokenMetadata C client contract =
     (case sc_key C contract of None \<Rightarrow> Inl (Refused ''invalid SPL mint address'') | Some mint \<Rightarrow>
      rbind client (\<lambda>N.
      case sc_metadata C mint of None \<Rightarrow> Inl (NodeFailed ''derive token metadata address'') | Some metadata \<Rightarrow>
      rbind (readAccounts N [mint, metadata]) (\<lambda>accounts.
      rbind (mintDecimals C (accounts ! 0)) (\<lambda>decimals.
      rbind (metadataSymbol C (accounts ! 1) mint) (\<lambda>symbol. Inr (symbol, decimals))))))"

definition tokenAccountBalance :: "sol_ctx \<Rightarrow> sol_account \<Rightarrow> pubkey \<Rightarrow> pubkey \<Rightarrow> sol_err + u64" where
  "tokenAccountBalance C a mint owner =
     (let data = sa_Data a in
      rcheck (\<not> (sa_Owner a \<noteq> token_program_id C \<or> length data \<noteq> tokenAccountSize \<or> take 32 data \<noteq> mint \<or> take 32 (drop 32 data) \<noteq> owner))
        (Refused ''the address is not a token account of this mint and owner'') (
      rcheck (data ! 108 \<noteq> 2) (StateRefused (Because ''the token account is frozen'')) (
      rcheck (data ! 108 = 1) (Refused ''the token account is not initialized'') (Inr (le_u64 (take 8 (drop 64 data)))))))"

section \<open>The runtime's refusals\<close>

text \<open>\<open>json.Number.Int64\<close> may fail; a float is cut to an integer.\<close>

definition accountIndex :: "json option \<Rightarrow> int option" where
  "accountIndex v = (case v of Some (JNumber n) \<Rightarrow> n | Some (JFloat i) \<Rightarrow> Some i | _ \<Rightarrow> None)"

definition rent_detail :: "json \<Rightarrow> (string \<times> json) list option" where
  "rent_detail failure =
     (case failure of
        JObject detail \<Rightarrow> (case map_of detail ''InsufficientFundsForRent'' of Some (JObject rent) \<Rightarrow> Some rent | _ \<Rightarrow> None)
      | _ \<Rightarrow> None)"

definition rent_position :: "(string \<times> json) list \<Rightarrow> byte list \<Rightarrow> pubkey option" where
  "rent_position rent message =
     (case (accountIndex (map_of rent ''account_index''), decodeLegacyMessage message) of
        (Some position, Some decoded) \<Rightarrow>
          if position < 0 \<or> position \<ge> int (length (dm_keys decoded)) then None else Some (dm_keys decoded ! nat position)
      | _ \<Rightarrow> None)"

definition rentAccount :: "json \<Rightarrow> byte list \<Rightarrow> pubkey option" where
  "rentAccount failure message = Option.bind (rent_detail failure) (\<lambda>rent. rent_position rent message)"

definition describe :: "sol_ctx \<Rightarrow> json \<Rightarrow> byte list \<Rightarrow> string" where
  "describe C failure message =
     (case failure of
        JText reason \<Rightarrow>
          if reason = ''InsufficientFundsForFee'' then ''the SOL balance does not cover the fee''
          else if reason = ''AccountNotFound'' then ''the sending account does not exist''
          else reason
      | _ \<Rightarrow>
          (case rent_detail failure of
             Some rent \<Rightarrow>
               (case rent_position rent message of
                  Some key \<Rightarrow> ''account '' @ sc_base58 C key @ '' would be left with less than its rent-exempt minimum''
                | None \<Rightarrow> ''an account would be left with less than its rent-exempt minimum'')
           | None \<Rightarrow> sc_printv C failure))"

definition lastLog :: "string list \<Rightarrow> string" where
  "lastLog logs =
     (case find (\<lambda>line. line \<noteq> []) (map TrimSpace (rev logs)) of
        Some line \<Rightarrow> '' ('' @ take 200 line @ '')''
      | None \<Rightarrow> [])"

text \<open>\<open>min\<close> comes before the conversion, after sums that wrap.\<close>

definition limitFor :: "u64 \<Rightarrow> u32" where
  "limitFor used = ucast (min (used + used div 5 + 1000) maxComputeUnitLimit)"

text \<open>\<open>x - y\<close> where \<open>y\<close> is less, and zero otherwise.\<close>

definition less_or_zero :: "u64 \<Rightarrow> u64 \<Rightarrow> u64" where
  "less_or_zero x y = (if x > y then x - y else 0)"

definition shortfall :: "sol_plan \<Rightarrow> u64" where
  "shortfall p =
     (let need = (if sp_probing p then lamportsPerSignature + priorityFee simulationComputeUnitLimit (sp_offered p) + opened_rent p else cost p);
          need = (if sp_token p = None \<and> \<not> sp_max p \<and> sp_to p \<noteq> sp_from p then need + sp_amount p else need);
          need = need + sp_rentExempt0 p
      in if need \<le> sp_balance p then 0 else need - sp_balance p)"

definition explain :: "sol_ctx \<Rightarrow> sol_plan \<Rightarrow> json \<Rightarrow> u64 option \<Rightarrow> string list \<Rightarrow> byte list \<Rightarrow> sol_err" where
  "explain C p failure consumed logs message =
     (let beforeExecution = (consumed = None \<or> consumed = Some 0);
          fee = networkFee p; balance = sp_balance p; rent0 = sp_rentExempt0 p;
          rejected = NetworkRejects (describe C failure message) (lastLog logs)
      in StateRefused (
        if failure = JText ''InsufficientFundsForFee'' then FeeNotCovered balance fee
        else case rentAccount failure message of None \<Rightarrow> rejected | Some account \<Rightarrow>
          if account = sp_from p \<and> beforeExecution then PayerCannotKeepRent fee (less_or_zero balance fee) rent0 (shortfall p)
          else if account = sp_from p \<and> sp_token p \<noteq> None then
            (let left = less_or_zero balance (cost p)
             in RentAfterOpening fee (tp_rent (the (sp_token p))) left rent0 (rent0 - min left rent0))
          else if account = sp_from p then
            (let left = less_or_zero balance (cost p + sp_amount p)
             in if balance \<le> cost p + rent0 then SendTheMaximum left rent0 else SendAtMost left rent0 (balance - cost p - rent0))
          else if account = sp_to p \<and> sp_token p = None \<and> sp_toLamports p = 0 then RecipientNotOpened rent0
          else if account = sp_to p \<and> sp_token p = None \<and> sp_toLamports p < rent0 then
            RecipientBelowRent (sp_toLamports p) rent0 (rent0 - min (sp_toLamports p) rent0)
          else rejected))"

section \<open>Preparing a transfer\<close>

definition no_hash :: "byte list" where "no_hash = replicate 32 0"

text \<open>The nodes are asked to simulate twice: the probe is call 0, the final message call 1.\<close>

definition verdict :: "sol_ctx \<Rightarrow> sol_node \<Rightarrow> sol_plan \<Rightarrow> byte list \<Rightarrow> sol_err + unit" where
  "verdict C N p message =
     rbind (nd_simulate N 1 message) (\<lambda>result.
     case sm_Err result of Some failure \<Rightarrow> Inl (explain C p failure (sm_Units result) (sm_Logs result) message)
     | None \<Rightarrow> Inr ())"

definition probe_of :: "sol_plan \<Rightarrow> bool \<Rightarrow> sol_plan" where
  "probe_of p mx =
     p\<lparr>sp_limit := simulationComputeUnitLimit, sp_price := 0, sp_probing := True, sp_offered := sp_price p, sp_max := mx,
       sp_amount := (if sp_token p = None \<and> mx then less_or_zero (sp_balance p) lamportsPerSignature else sp_amount p)\<rparr>"

definition measure_plan :: "sol_ctx \<Rightarrow> sol_node \<Rightarrow> sol_plan \<Rightarrow> bool \<Rightarrow> sol_err + sol_plan" where
  "measure_plan C N p mx =
     (let probe = probe_of p mx in
      rbind (plan_build C probe no_hash) (\<lambda>message.
      rbind (nd_simulate N 0 message) (\<lambda>result.
      case sm_Units result of
        Some used \<Rightarrow>
          if used \<noteq> 0 then Inr (p\<lparr>sp_neededLimit := limitFor used, sp_limit := limitFor used\<rparr>)
          else (case sm_Err result of None \<Rightarrow> Inl (NodeFailed ''the node did not report the compute used'')
                | Some failure \<Rightarrow> Inl (explain C probe failure (sm_Units result) (sm_Logs result) message))
      | None \<Rightarrow> (case sm_Err result of None \<Rightarrow> Inl (NodeFailed ''the node did not report the compute used'')
                | Some failure \<Rightarrow> Inl (explain C probe failure (sm_Units result) (sm_Logs result) message)))))"

definition with_balance :: "sol_account option \<Rightarrow> sol_plan \<Rightarrow> sol_plan" where
  "with_balance acc p = (case acc of Some a \<Rightarrow> p\<lparr>sp_balance := sa_Lamports a\<rparr> | None \<Rightarrow> p)"

definition prepareSOL :: "sol_ctx \<Rightarrow> sol_node \<Rightarrow> sol_plan \<Rightarrow> bool \<Rightarrow> sol_err + sol_plan" where
  "prepareSOL C N p mx =
     rbind (readAccounts N [sp_from p, sp_to p]) (\<lambda>accounts.
     let p = with_balance (accounts ! 0) p;
         p = p\<lparr>sp_toExists := (accounts ! 1 \<noteq> None \<or> sp_to p = sp_from p)\<rparr>;
         p = (case accounts ! 1 of Some a \<Rightarrow> p\<lparr>sp_toLamports := sa_Lamports a\<rparr> | None \<Rightarrow> p) in
     rcheck (sp_balance p \<noteq> 0) (StateRefused (Because ''the account holds no SOL to pay the fee'')) (
     rbind (priorityPrice N [sp_from p, sp_to p]) (\<lambda>base.
     measure_plan C N (p\<lparr>sp_basePrice := base, sp_price := offeredPrice base\<rparr>) mx)))"

text \<open>The recipient of a token: a wallet on the curve, not a token account, and the mint of the asset.\<close>

definition token_recipient :: "sol_ctx \<Rightarrow> sol_plan \<Rightarrow> chain_asset \<Rightarrow> sol_account option list \<Rightarrow> sol_err + unit" where
  "token_recipient C p asset accounts =
     rcheck (case accounts ! 1 of Some a \<Rightarrow> sa_Owner a \<noteq> token_program_id C \<and> sa_Owner a \<noteq> token2022_program_id C | None \<Rightarrow> True)
       (Refused ''the recipient is a token account'') (
     rcheck (sc_onCurve C (sp_to p)) (Refused ''program-owned addresses are not supported as token recipients'') (
     rbind (mintDecimals C (accounts ! 2)) (\<lambda>decimals.
     rcheck (decimals = ca_Decimals asset) (Refused ''the mint has other decimals'') (Inr ()))))"

definition balance_of :: "sol_ctx \<Rightarrow> sol_account option \<Rightarrow> pubkey \<Rightarrow> pubkey \<Rightarrow> sol_err + u64" where
  "balance_of C acc mint owner = (case acc of Some a \<Rightarrow> tokenAccountBalance C a mint owner | None \<Rightarrow> Inr 0)"

text \<open>A refusal of an amount says where the rest of the tokens is, when the listing can be read.\<close>

definition token_amount :: "sol_node \<Rightarrow> sol_plan \<Rightarrow> pubkey \<Rightarrow> u64 \<Rightarrow> sol_err + unit" where
  "token_amount N p mint sourceBalance =
     (if sp_amount p > sourceBalance \<or> sp_amount p = 0 then
        Inl (StateRefused (case nd_held N (sp_from p) mint of
          Some owned \<Rightarrow> if 0 < owned \<and> (sp_amount p = 0 \<or> owned \<ge> unat (sp_amount p)) then ElsewhereHeld sourceBalance else Held sourceBalance
        | None \<Rightarrow> Held sourceBalance))
      else Inr ())"

definition token_opening :: "sol_ctx \<Rightarrow> sol_node \<Rightarrow> string \<Rightarrow> sol_plan \<Rightarrow> pubkey \<Rightarrow> sol_account option \<Rightarrow> (bool \<times> u64) sol_op" where
  "token_opening C N networkID p mint destination =
     (case destination of
        None \<Rightarrow> sbind (rentExempt N networkID tokenAccountSize) (\<lambda>rent. sret (True, rent))
      | Some a \<Rightarrow> slift (rbind (tokenAccountBalance C a mint (sp_to p)) (\<lambda>_. Inr (False, 0))))"

definition prepareToken :: "sol_ctx \<Rightarrow> sol_node \<Rightarrow> string \<Rightarrow> sol_plan \<Rightarrow> chain_asset \<Rightarrow> bool \<Rightarrow> sol_plan sol_op" where
  "prepareToken C N networkID p asset mx =
     (case sc_key C (ca_Contract asset) of None \<Rightarrow> sfail (Refused ''invalid SPL mint'') | Some mint \<Rightarrow>
      case FindAssociatedTokenAddress C (sp_from p) mint of None \<Rightarrow> sfail (NodeFailed ''derivation'') | Some source \<Rightarrow>
      case FindAssociatedTokenAddress C (sp_to p) mint of None \<Rightarrow> sfail (NodeFailed ''derivation'') | Some destination \<Rightarrow>
      sbind (slift (readAccounts N [sp_from p, sp_to p, mint, source, destination])) (\<lambda>accounts.
      let p = with_balance (accounts ! 0) p in
      sbind (slift (token_recipient C p asset accounts)) (\<lambda>_.
      sbind (slift (balance_of C (accounts ! 3) mint (sp_from p))) (\<lambda>sourceBalance.
      sbind (token_opening C N networkID p mint (accounts ! 4)) (\<lambda>(create, rent).
      let p = p\<lparr>sp_amount := (if mx then sourceBalance else sp_amount p),
            sp_token := Some \<lparr>tp_mint = mint, tp_decimals = ca_Decimals asset, tp_source = source, tp_destination = destination,
              tp_sourceBalance = sourceBalance, tp_createAccount = create, tp_rent = rent\<rparr>\<rparr> in
      sbind (slift (token_amount N p mint sourceBalance)) (\<lambda>_.
      sbind (scheck (sp_balance p \<noteq> 0) (StateRefused (Because ''the account holds no SOL to pay the fee''))) (\<lambda>_.
      sbind (slift (priorityPrice N [sp_from p, source, destination])) (\<lambda>base.
      slift (measure_plan C N (p\<lparr>sp_basePrice := base, sp_price := offeredPrice base\<rparr>) False)))))))))"

definition new_plan :: "pubkey \<Rightarrow> pubkey \<Rightarrow> u64 \<Rightarrow> sol_plan" where
  "new_plan from to amount =
     \<lparr>sp_from = from, sp_to = to, sp_amount = amount, sp_token = None, sp_balance = 0, sp_toExists = False, sp_toLamports = 0,
      sp_rentExempt0 = 0, sp_basePrice = 0, sp_price = 0, sp_neededLimit = 0, sp_limit = 0, sp_probing = False, sp_offered = 0, sp_max = False\<rparr>"

definition prepare_asset :: "sol_ctx \<Rightarrow> sol_node \<Rightarrow> string \<Rightarrow> sol_plan \<Rightarrow> chain_asset \<Rightarrow> bool \<Rightarrow> sol_plan sol_op" where
  "prepare_asset C N networkID p asset mx =
     (if ca_Kind asset = ''native'' then
        sbind (scheck (ca_Decimals asset = 9) (Refused ''SOL has 9 decimals'')) (\<lambda>_. slift (prepareSOL C N p mx))
      else if ca_Kind asset = ''spl'' then prepareToken C N networkID p asset mx
      else sfail (Refused ''unsupported Solana asset kind''))"

definition prepare :: "sol_ctx \<Rightarrow> sol_node \<Rightarrow> string \<Rightarrow> transfer_request \<Rightarrow> bool \<Rightarrow> sol_plan sol_op" where
  "prepare C N networkID req mx =
     sbind (scheck (ca_NetworkID (tq_Asset req) = networkID) (Refused ''asset belongs to another network'')) (\<lambda>_.
     sbind (scheck (tq_Action req = []) (Refused ''Solana has no such action'')) (\<lambda>_.
     case sc_key C (tq_From req) of None \<Rightarrow> sfail (Refused ''invalid sender address'') | Some from \<Rightarrow>
     case sc_key C (tq_To req) of None \<Rightarrow> sfail (Refused ''invalid Solana address'') | Some to \<Rightarrow>
     sbind (slift (if mx then Inr 0 else units C (tq_Amount req) (ca_Decimals (tq_Asset req)))) (\<lambda>amount.
     sbind (rentExempt N networkID 0) (\<lambda>rentExempt0.
     prepare_asset C N networkID ((new_plan from to amount)\<lparr>sp_rentExempt0 := rentExempt0\<rparr>) (tq_Asset req) mx))))"

definition precheck :: "sol_plan \<Rightarrow> bool \<Rightarrow> sol_err + sol_plan" where
  "precheck p mx =
     (let c = cost p; p = p\<lparr>sp_max := mx\<rparr>; balance = sp_balance p in
      rcheck (\<not> balance < c) (StateRefused (CostNotCovered balance c (c - balance))) (
      let p = (if sp_token p = None \<and> mx then p\<lparr>sp_amount := balance - c\<rparr> else p) in
      rcheck (\<not> (sp_token p = None \<and> mx \<and> sp_amount p = 0)) (StateRefused (OnlyTheFee balance)) (
      rcheck (\<not> (sp_token p = None \<and> balance - c < sp_amount p))
        (StateRefused (AmountNotCovered balance (sp_amount p) c (sp_amount p + c - balance))) (Inr p))))"

end
