(* ===== verification/SolanaSend.thy ===== *)
theory SolanaSend
  imports SolanaTransfer "HOL-Library.AList"
begin

text \<open>
  Estimating, approving and sending a Solana transfer (internal/chain/solana/transfer.go), and the
  status of a sent transaction with the book of expiry heights (transaction.go).

  \<open>solana_Send\<close> gives the cache of rents it leaves and a program over the lent signer, which ends in
  \<open>signAndBroadcast\<close> of the sending theory. The lemmas follow a plan from the request to the message.
\<close>

section \<open>Estimates\<close>

definition feeModel :: string where "feeModel = ''solana''"

record sol_estimate =
  sq_NetworkID :: string
  sq_Amount :: string
  sq_Fee :: string
  sq_FeeModel :: string
  sq_ComputeUnitLimit :: u64
  sq_ComputeUnitPriceMicroLamports :: u64
  sq_NativeBalance :: string
  sq_CreatesTokenAccount :: bool
  sq_TokenAccountRent :: string

definition plan_estimate :: "sol_ctx \<Rightarrow> sol_plan \<Rightarrow> string \<Rightarrow> byte \<Rightarrow> sol_estimate" where
  "plan_estimate C p networkID decimals =
     (let opens = (case sp_token p of Some t \<Rightarrow> tp_createAccount t | None \<Rightarrow> False) in
      \<lparr>sq_NetworkID = networkID, sq_Amount = sc_show C (of_nat (unat (sp_amount p)) / 10 ^ unat decimals),
       sq_Fee = sol C (cost p), sq_FeeModel = feeModel, sq_ComputeUnitLimit = ucast (sp_limit p),
       sq_ComputeUnitPriceMicroLamports = sp_price p, sq_NativeBalance = sol C (sp_balance p),
       sq_CreatesTokenAccount = opens, sq_TokenAccountRent = (if opens then sol C (opened_rent p) else [])\<rparr>)"

definition estimateTransfer :: "sol_ctx \<Rightarrow> sol_err + sol_node \<Rightarrow> string \<Rightarrow> transfer_request \<Rightarrow> bool \<Rightarrow> sol_estimate sol_op" where
  "estimateTransfer C client networkID req mx =
     sbind (slift client) (\<lambda>N.
     sbind (prepare C N networkID req mx) (\<lambda>p.
     sbind (slift (precheck p mx)) (\<lambda>p.
     sbind (slift (plan_build C p no_hash)) (\<lambda>message.
     sbind (slift (verdict C N p message)) (\<lambda>_.
     sret (plan_estimate C p networkID (ca_Decimals (tq_Asset req))))))))"

definition EstimateTransfer :: "sol_ctx \<Rightarrow> sol_err + sol_node \<Rightarrow> string \<Rightarrow> transfer_request \<Rightarrow> sol_estimate sol_op" where
  "EstimateTransfer C client networkID req = estimateTransfer C client networkID req False"

definition EstimateMaxTransfer :: "sol_ctx \<Rightarrow> sol_err + sol_node \<Rightarrow> string \<Rightarrow> transfer_request \<Rightarrow> sol_estimate sol_op" where
  "EstimateMaxTransfer C client networkID req = estimateTransfer C client networkID req True"

section \<open>Approvals\<close>

record sol_approval =
  ap_limit :: u32
  ap_price :: u64
  ap_createAccount :: bool
  ap_rent :: u64
  ap_fee :: u64

definition approved_rent :: "sol_ctx \<Rightarrow> fee_approval \<Rightarrow> sol_err + u64" where
  "approved_rent C f =
     (if fa_CreatesTokenAccount f then
        (case lamports C (fa_TokenAccountRent f) of
           None \<Rightarrow> Inl (Refused ''the approved token account rent is not an amount'')
         | Some rent \<Rightarrow> rcheck (rent \<noteq> 0) (Refused ''the approved token account rent is not an amount'') (Inr rent))
      else if fa_TokenAccountRent f \<noteq> [] then
        rcheck (lamports C (fa_TokenAccountRent f) = Some 0) (Refused ''a token account rent was approved without opening an account'') (Inr 0)
      else Inr 0)"

definition parseApproval :: "sol_ctx \<Rightarrow> fee_approval option \<Rightarrow> sol_err + sol_approval" where
  "parseApproval C approved =
     (case approved of None \<Rightarrow> Inl (Refused ''this transaction was not confirmed against a fee estimate'') | Some f \<Rightarrow>
      rcheck (\<not> (fa_FeeModel f \<noteq> [] \<and> fa_FeeModel f \<noteq> feeModel)) (Refused ''the approved fee is not a Solana fee'') (
      rcheck (\<not> (fa_ComputeUnitLimit f = 0 \<or> fa_ComputeUnitLimit f > maxComputeUnitLimit))
        (Refused ''the approved compute-unit limit is out of range'') (
      rcheck (\<not> fa_ComputeUnitPriceMicroLamports f > maxComputeUnitPrice) (Refused ''the approved compute-unit price is above the ceiling'') (
      rbind (approved_rent C f) (\<lambda>rent.
      case lamports C (fa_Fee f) of None \<Rightarrow> Inl (Refused ''the approved fee is not an amount'') | Some fee \<Rightarrow>
      let limit = ucast (fa_ComputeUnitLimit f); price = fa_ComputeUnitPriceMicroLamports f;
          total = lamportsPerSignature + priorityFee limit price;
          total = (if fa_CreatesTokenAccount f then total + rent else total) in
      rcheck (total = fee) (Refused ''the approved fee does not add up to its parts'')
        (Inr \<lparr>ap_limit = limit, ap_price = price, ap_createAccount = fa_CreatesTokenAccount f, ap_rent = rent, ap_fee = fee\<rparr>))))))"

section \<open>Sending\<close>

text \<open>A key is its family and its public key when it signs messages, and \<open>None\<close> when it does not.\<close>

definition messageSigner :: "sol_ctx \<Rightarrow> (family \<times> pubkey) option \<Rightarrow> string \<Rightarrow> sol_err + pubkey" where
  "messageSigner C key from =
     (case key of None \<Rightarrow> Inl (SignerMismatch ''Solana transactions are signed as messages'') | Some (family, pub) \<Rightarrow>
      rcheck (family = FamilySolana) (SignerMismatch ''the key is not a Solana key'') (
      rcheck (\<not> (length pub \<noteq> 32 \<or> sc_base58 C pub \<noteq> from)) (Refused ''signer does not match sender'') (Inr pub)))"

definition within_approval :: "sol_plan \<Rightarrow> sol_approval \<Rightarrow> sol_err + unit" where
  "within_approval p a =
     (let opens = (case sp_token p of Some t \<Rightarrow> tp_createAccount t | None \<Rightarrow> False) in
      rcheck (\<not> sp_neededLimit p > ap_limit a) (FeeMoved ''the transfer now needs more compute units'') (
      rcheck (\<not> sp_basePrice p > ap_price a) (FeeMoved ''the priority price is higher now'') (
      rcheck (\<not> (opens \<and> \<not> ap_createAccount a)) (FeeMoved ''the recipient's token account has to be opened now'') (
      rcheck (\<not> (opens \<and> opened_rent p > ap_rent a)) (FeeMoved ''opening the token account now costs more'') (Inr ())))))"

definition move_state :: "sol_err + 'a \<Rightarrow> sol_err + 'a" where
  "move_state r = (case r of Inl e \<Rightarrow> Inl (stateChanged e) | Inr v \<Rightarrow> Inr v)"

definition as_sol_err :: "mismatch + 'a \<Rightarrow> sol_err + 'a" where
  "as_sol_err r = (case r of Inl e \<Rightarrow> Inl (Mismatched e) | Inr v \<Rightarrow> Inr v)"

text \<open>From the approval to the message that may be signed, with its last valid height.\<close>

definition sendMessage ::
  "sol_ctx \<Rightarrow> sol_node \<Rightarrow> string \<Rightarrow> transfer_request \<Rightarrow> sol_approval \<Rightarrow> (byte list \<times> u64) sol_op" where
  "sendMessage C N networkID req a rents =
     (case prepare C N networkID req False rents of (rents, prepared) \<Rightarrow>
      (rents,
       rbind (move_state prepared) (\<lambda>p.
       rbind (within_approval p a) (\<lambda>_.
       rbind (move_state (precheck (p\<lparr>sp_limit := ap_limit a, sp_price := ap_price a\<rparr>) False)) (\<lambda>p.
       rbind (latestBlockhash N) (\<lambda>(blockhash, lastValid).
       rbind (plan_build C p blockhash) (\<lambda>message.
       rbind (as_sol_err (verifyMessage C message (plan_intent p blockhash))) (\<lambda>_.
       rbind (move_state (verdict C N p message)) (\<lambda>_. Inr (message, lastValid))))))))))"

definition solana_Send ::
  "sol_ctx \<Rightarrow> store_env \<Rightarrow> bool \<Rightarrow> sol_err + sol_node \<Rightarrow> string \<Rightarrow> transfer_request \<Rightarrow> (family \<times> pubkey) option \<Rightarrow> node_answer
     \<Rightarrow> rents \<Rightarrow> rents \<times> (transaction \<times> chain_error option) world" where
  "solana_Send C ev ended client networkID req key node rents =
     (case sbind (slift (messageSigner C key (tq_From req))) (\<lambda>pub.
           sbind (slift (parseApproval C (tq_Approved req))) (\<lambda>a.
           sbind (slift client) (\<lambda>N.
           sbind (sendMessage C N networkID req a) (\<lambda>(message, lastValid). sret (pub, message, lastValid))))) rents of
        (rents, Inl e) \<Rightarrow> (rents, Finished (no_transaction, Some (chain_error_of e)))
      | (rents, Inr (pub, message, lastValid)) \<Rightarrow>
          (rents, signAndBroadcast ev ended networkID (sc_verify C pub message) (sc_base58 C) message lastValid node))"

section \<open>Status\<close>

definition expiryMargin :: u64 where "expiryMargin = 150"
definition maxExpiryRecords :: nat where "maxExpiryRecords = 4096"

text \<open>The book of last valid heights: pairs of a key and a height, each key once. \<open>victim\<close> is the
  record the iteration over the Go map comes to first.\<close>

type_synonym expiry_book = "(string \<times> u64) list"

definition expiryKey :: "string \<Rightarrow> string \<Rightarrow> string" where
  "expiryKey networkID signature = networkID @ [CHR 0x00] @ signature"

definition book_record :: "nat \<Rightarrow> string \<Rightarrow> string \<Rightarrow> u64 \<Rightarrow> expiry_book \<Rightarrow> expiry_book" where
  "book_record victim networkID signature lastValid items =
     (let key = expiryKey networkID signature;
          items = (if map_of items key = None \<and> length items \<ge> maxExpiryRecords
                   then (let i = victim mod length items in take i items @ drop (Suc i) items) else items)
      in AList.update key lastValid items)"

definition book_lookup :: "string \<Rightarrow> string \<Rightarrow> expiry_book \<Rightarrow> u64 option" where
  "book_lookup networkID signature items = map_of items (expiryKey networkID signature)"

definition book_forget :: "string \<Rightarrow> string \<Rightarrow> expiry_book \<Rightarrow> expiry_book" where
  "book_forget networkID signature items = AList.delete (expiryKey networkID signature) items"

text \<open>A status of the node: a commitment and whether the transaction failed; no entry for an unknown signature.\<close>

record sol_status =
  sg_ConfirmationStatus :: string
  sg_Failed :: bool

definition signatureStatus :: "sol_err + sol_status option list \<Rightarrow> sol_err + string option" where
  "signatureStatus reported =
     rbind reported (\<lambda>statuses.
     rcheck (length statuses = 1) (NodeFailed ''answered another number of statuses'') (
     case hd statuses of None \<Rightarrow> Inr None | Some v \<Rightarrow>
       if sg_ConfirmationStatus v = ''processed'' then Inr (Some StatusPending)
       else if sg_ConfirmationStatus v = ''confirmed'' \<or> sg_ConfirmationStatus v = ''finalized'' then
         Inr (Some (if sg_Failed v then StatusFailed else StatusConfirmed))
       else Inl (NodeFailed ''unknown confirmation status'')))"

record status_node =
  sn_statuses :: "nat \<Rightarrow> sol_err + sol_status option list"
  sn_height :: "sol_err + u64"

definition status_result :: "string \<Rightarrow> string \<Rightarrow> string \<Rightarrow> expiry_book \<Rightarrow> expiry_book \<times> (sol_err + transaction)" where
  "status_result networkID txID status book =
     (if status \<noteq> StatusPending then book_forget networkID txID book else book,
      Inr \<lparr>tr_NetworkID = networkID, tr_Hash = txID, tr_Status = status\<rparr>)"

definition Transaction ::
  "(string \<Rightarrow> byte list option) \<Rightarrow> sol_err + status_node \<Rightarrow> string \<Rightarrow> string \<Rightarrow> expiry_book \<Rightarrow> expiry_book \<times> (sol_err + transaction)" where
  "Transaction signature_of client networkID txID =
     (case signature_of txID of None \<Rightarrow> sfail (Refused ''invalid Solana transaction signature'') | Some signature \<Rightarrow>
      sbind (slift client) (\<lambda>N.
      sbind (slift (signatureStatus (sn_statuses N 0))) (\<lambda>found.
      case found of Some status \<Rightarrow> status_result networkID txID status | None \<Rightarrow>
      sbind sget (\<lambda>book.
      case book_lookup networkID txID book of None \<Rightarrow> status_result networkID txID StatusPending | Some lastValid \<Rightarrow>
      sbind (slift (sn_height N)) (\<lambda>height.
      if height \<le> lastValid + expiryMargin then status_result networkID txID StatusPending else
      sbind (slift (signatureStatus (sn_statuses N 1))) (\<lambda>found.
      case found of Some status \<Rightarrow> status_result networkID txID status
      | None \<Rightarrow> status_result networkID txID StatusFailed))))))"

end
