(* ===== verification/SolanaSafety.thy ===== *)
theory SolanaSafety
  imports SolanaSend
begin

text \<open>
  What a Solana send may sign, followed from the request to the message: exact amounts, the plan of a
  request, the approval, and \<open>may_sign\<close>. The last sections follow an estimate to its approval and keep
  the caches: rents are never zero, the book of expiry heights is bounded.
\<close>

section \<open>Amounts\<close>

lemma base_units_exact: "base_units v d e1 e2 = Inr n \<Longrightarrow> of_nat (unat n) = v * 10 ^ d"
proof -
  assume "base_units v d e1 e2 = Inr n"
  then have b: "v * 10 ^ d = of_int \<lfloor>v * 10 ^ d\<rfloor>" "0 \<le> \<lfloor>v * 10 ^ d\<rfloor>" "\<lfloor>v * 10 ^ d\<rfloor> < 2 ^ 64" "n = of_int \<lfloor>v * 10 ^ d\<rfloor>"
    by (auto simp: base_units_def Let_def rcheck_eq_Inr)
  then have "uint n = \<lfloor>v * 10 ^ d\<rfloor>" by (simp add: uint_word_of_int take_bit_int_eq_self)
  then have "(of_int (uint n) :: rat) = v * 10 ^ d" using b(1) by simp
  then show ?thesis by simp
qed

lemma base_units_of:
  "base_units (of_nat (unat n) / 10 ^ d) d e1 e2 = Inr n"
proof -
  have "(of_nat (unat n) :: rat) / 10 ^ d * 10 ^ d = of_nat (unat n)" by simp
  moreover have "\<lfloor>of_nat (unat n) :: rat\<rfloor> = int (unat n)" by (rule floor_of_nat)
  moreover have "(of_int (int (unat n)) :: u64) = n" "(of_nat (unat n) :: rat) = of_int (int (unat n))" "int (unat n) < 2 ^ 64"
    using uint_u64_bounds [of n] by (simp_all add: uint_nat [symmetric])
  ultimately show ?thesis unfolding base_units_def Let_def rcheck_def by (simp only: if_True) (simp only: of_nat_0_le_iff simp_thms if_True)
qed

section \<open>From the request to the plan\<close>

lemma measure_plan_Inr:
  "measure_plan C N p mx = Inr q \<Longrightarrow> \<exists>message result used. nd_simulate N 0 message = Inr result \<and> sm_Units result = Some used \<and>
     used \<noteq> 0 \<and> q = p\<lparr>sp_neededLimit := limitFor used, sp_limit := limitFor used\<rparr>"
  by (auto simp: measure_plan_def Let_def rbind_eq_Inr split: option.splits if_splits)

lemma rentExempt_Inr: "rentExempt N i sz r = (r', Inr v) \<Longrightarrow> \<exists>t. r' (i, sz) = Some (v, t)"
  by (auto simp: rentExempt_def split: option.splits prod.splits sum.splits if_splits)

lemma rentExempt_other: "rentExempt N i sz r = (r', v) \<Longrightarrow> k \<noteq> (i, sz) \<Longrightarrow> r' k = r k"
  by (auto simp: rentExempt_def split: option.splits prod.splits sum.splits if_splits)

text \<open>What a plan has in common with the request, and what its token is.\<close>

definition same_transfer :: "sol_plan \<Rightarrow> sol_plan \<Rightarrow> bool" where
  "same_transfer p q \<longleftrightarrow> sp_from q = sp_from p \<and> sp_to q = sp_to p \<and> sp_amount q = sp_amount p"

lemma with_balance_fields [simp]:
  "sp_from (with_balance acc p) = sp_from p" "sp_to (with_balance acc p) = sp_to p" "sp_amount (with_balance acc p) = sp_amount p"
  "sp_token (with_balance acc p) = sp_token p"
  by (simp_all add: with_balance_def split: option.splits)

lemma prepareSOL_Inr:
  assumes "prepareSOL C N p mx = Inr q"
  shows "same_transfer p q \<and> sp_token q = sp_token p"
proof -
  obtain base p' where r: "measure_plan C N (p'\<lparr>sp_basePrice := base, sp_price := offeredPrice base\<rparr>) mx = Inr q"
    "same_transfer p p' \<and> sp_token p' = sp_token p"
    using assms by (auto simp: prepareSOL_def rbind_eq_Inr rcheck_eq_Inr Let_def same_transfer_def split: option.splits)
  then show ?thesis using measure_plan_Inr [OF r(1)] by (auto simp: same_transfer_def)
qed

lemma token_opening_Inr:
  "token_opening C N i p mint acc r = (r', Inr (create, rent)) \<Longrightarrow> create \<Longrightarrow> \<exists>t. r' (i, tokenAccountSize) = Some (rent, t)"
  by (auto simp: token_opening_def sbind_Inr rbind_eq_Inr split: option.splits dest: rentExempt_Inr)


definition planned_token :: "sol_ctx \<Rightarrow> string \<Rightarrow> sol_plan \<Rightarrow> chain_asset \<Rightarrow> rents \<Rightarrow> token_plan \<Rightarrow> bool" where
  "planned_token C i p asset r' t \<longleftrightarrow> sc_key C (ca_Contract asset) = Some (tp_mint t) \<and> tp_decimals t = ca_Decimals asset \<and>
    FindAssociatedTokenAddress C (sp_from p) (tp_mint t) = Some (tp_source t) \<and>
    FindAssociatedTokenAddress C (sp_to p) (tp_mint t) = Some (tp_destination t) \<and>
    (tp_createAccount t \<longrightarrow> (\<exists>s. r' (i, tokenAccountSize) = Some (tp_rent t, s)))"

lemma prepareToken_Inr:
  assumes "prepareToken C N i p asset False r = (r', Inr q)"
  shows "same_transfer p q \<and> (\<exists>t. sp_token q = Some t \<and> planned_token C i p asset r' t)"
proof -
  obtain mint source destination where k: "sc_key C (ca_Contract asset) = Some mint"
    "FindAssociatedTokenAddress C (sp_from p) mint = Some source" "FindAssociatedTokenAddress C (sp_to p) mint = Some destination"
    using assms by (auto simp: prepareToken_def split: option.splits)
  obtain accounts create rent base held where r: "token_opening C N i (with_balance (accounts ! 0) p) mint (accounts ! 4) r = (r', Inr (create, rent))"
    and m: "measure_plan C N ((with_balance (accounts ! 0) p)\<lparr>sp_token := Some \<lparr>tp_mint = mint, tp_decimals = ca_Decimals asset, tp_source = source, tp_destination = destination,
              tp_sourceBalance = held, tp_createAccount = create, tp_rent = rent\<rparr>, sp_basePrice := base, sp_price := offeredPrice base\<rparr>) False = Inr q"
    using assms by (auto simp: prepareToken_def k sbind_Inr Let_def)
  then show ?thesis using k token_opening_Inr [OF r]
    by (auto simp: same_transfer_def planned_token_def dest!: measure_plan_Inr)
qed

text \<open>The plan of a request: who, how much and of what.\<close>

definition plan_of_request :: "sol_ctx \<Rightarrow> string \<Rightarrow> transfer_request \<Rightarrow> rents \<Rightarrow> sol_plan \<Rightarrow> bool" where
  "plan_of_request C i req r' q \<longleftrightarrow> sc_key C (tq_From req) = Some (sp_from q) \<and> sc_key C (tq_To req) = Some (sp_to q) \<and>
     units C (tq_Amount req) (ca_Decimals (tq_Asset req)) = Inr (sp_amount q) \<and>
     (case sp_token q of None \<Rightarrow> ca_Kind (tq_Asset req) = ''native'' \<and> ca_Decimals (tq_Asset req) = 9
      | Some t \<Rightarrow> ca_Kind (tq_Asset req) = ''spl'' \<and> planned_token C i q (tq_Asset req) r' t)"

lemma new_plan_fields [simp]: "sp_from (new_plan a b n) = a" "sp_to (new_plan a b n) = b" "sp_amount (new_plan a b n) = n" "sp_token (new_plan a b n) = None"
  by (simp_all add: new_plan_def)

lemma prepare_Inr:
  assumes "prepare C N i req False r = (r', Inr q)"
  shows "plan_of_request C i req r' q"
proof -
  obtain f t where k: "sc_key C (tq_From req) = Some f" "sc_key C (tq_To req) = Some t"
    using assms by (auto simp: prepare_def sbind_Inr split: option.splits if_splits)
  obtain amount rent r1 where a: "units C (tq_Amount req) (ca_Decimals (tq_Asset req)) = Inr amount"
    and rest: "prepare_asset C N i ((new_plan f t amount)\<lparr>sp_rentExempt0 := rent\<rparr>) (tq_Asset req) False r1 = (r', Inr q)"
    using assms by (auto simp: prepare_def k sbind_Inr Let_def split: if_splits)
  from rest show ?thesis using k a
    by (auto simp: prepare_asset_def plan_of_request_def sbind_Inr same_transfer_def planned_token_def split: if_splits dest!: prepareSOL_Inr prepareToken_Inr)
qed

section \<open>From the plan to the signature\<close>

lemma move_state_Inr [simp]: "move_state r = Inr v \<longleftrightarrow> r = Inr v" "as_sol_err r2 = Inr v2 \<longleftrightarrow> r2 = Inr v2"
  by (simp_all add: move_state_def as_sol_err_def split: sum.splits)

lemma precheck_Inr: "precheck p mx = Inr q \<longleftrightarrow> \<not> sp_balance p < cost p \<and>
     q = p\<lparr>sp_max := mx, sp_amount := (if sp_token p = None \<and> mx then sp_balance p - cost p else sp_amount p)\<rparr> \<and>
     (sp_token p = None \<longrightarrow> \<not> (mx \<and> sp_amount q = 0) \<and> \<not> sp_balance p - cost p < sp_amount q)"
  by (auto simp: precheck_def Let_def rcheck_eq_Inr cost_def networkFee_def opened_rent_def)

definition opens :: "sol_plan \<Rightarrow> bool" where
  "opens p \<longleftrightarrow> (case sp_token p of Some t \<Rightarrow> tp_createAccount t | None \<Rightarrow> False)"

lemma sendMessage_Inr:
  assumes "sendMessage C N i req a r = (r', Inr (message, lastValid))"
  shows "\<exists>q blockhash result. plan_of_request C i req r' q \<and> sp_limit q = ap_limit a \<and> sp_price q = ap_price a \<and>
    (opens q \<longrightarrow> ap_createAccount a \<and> opened_rent q \<le> ap_rent a) \<and> latestBlockhash N = Inr (blockhash, lastValid) \<and>
    verifyMessage C message (plan_intent q blockhash) = Inr () \<and> nd_simulate N 1 message = Inr result \<and> sm_Err result = None"
proof -
  obtain p q blockhash result where p: "prepare C N i req False r = (r', Inr p)" "within_approval p a = Inr ()"
    "precheck (p\<lparr>sp_limit := ap_limit a, sp_price := ap_price a\<rparr>) False = Inr q" "latestBlockhash N = Inr (blockhash, lastValid)"
    "verifyMessage C message (plan_intent q blockhash) = Inr ()" "nd_simulate N 1 message = Inr result" "sm_Err result = None"
    using assms by (auto simp: sendMessage_def verdict_def rbind_eq_Inr split: prod.splits sum.splits option.splits)
  then have q: "q = p\<lparr>sp_limit := ap_limit a, sp_price := ap_price a, sp_max := False\<rparr>" by (auto simp: precheck_Inr)
  have "plan_of_request C i req r' q" using prepare_Inr [OF p(1)] by (simp add: q plan_of_request_def planned_token_def split: option.splits)
  moreover have "opens q \<longrightarrow> ap_createAccount a \<and> opened_rent q \<le> ap_rent a"
    using p(2) by (auto simp: within_approval_def Let_def rcheck_eq_Inr opens_def q opened_rent_def not_less split: option.splits)
  moreover have "sp_limit q = ap_limit a" "sp_price q = ap_price a" by (simp_all add: q)
  ultimately show ?thesis using p by blast
qed

lemma parseApproval_Inr:
  assumes "parseApproval C (Some f) = Inr a"
  shows "unat (ap_limit a) = unat (fa_ComputeUnitLimit f) \<and> ap_price a = fa_ComputeUnitPriceMicroLamports f \<and>
    ap_createAccount a = fa_CreatesTokenAccount f \<and> (fa_CreatesTokenAccount f \<longrightarrow> lamports C (fa_TokenAccountRent f) = Some (ap_rent a)) \<and>
    lamports C (fa_Fee f) = Some (lamportsPerSignature + priorityFee (ap_limit a) (ap_price a) + (if fa_CreatesTokenAccount f then ap_rent a else 0))"
proof -
  have "unat (fa_ComputeUnitLimit f) \<le> 1400000"
    using assms by (auto simp: parseApproval_def rcheck_eq_Inr maxComputeUnitLimit_def not_less word_le_nat_alt)
  then have "unat (ucast (fa_ComputeUnitLimit f) :: u32) = unat (fa_ComputeUnitLimit f)"
    by (simp add: unsigned_ucast_eq take_bit_nat_eq_self)
  then show ?thesis using assms
    by (auto simp: parseApproval_def rcheck_eq_Inr rbind_eq_Inr approved_rent_def Let_def split: option.splits if_splits)
qed

section \<open>What a send may sign\<close>

primrec messages_meet :: "'r world \<Rightarrow> (byte list \<Rightarrow> bool) \<Rightarrow> bool" where
  "messages_meet (Finished r) = (\<lambda>P. True)"
| "messages_meet (AskDigest ev ended digest k) = (\<lambda>P. False)"
| "messages_meet (AskMessage ev ended message k) = (\<lambda>P. P message \<and> (\<forall>answer. messages_meet (k answer) P))"
| "messages_meet (BeforeSigning h w) = messages_meet w"
| "messages_meet (Send raw node w) = messages_meet w"
| "messages_meet (Elsewhere e w) = messages_meet w"
| "messages_meet Dies = (\<lambda>P. True)"

lemma messages_meet_signAndBroadcast:
  "messages_meet (signAndBroadcast ev ended i verify base58 message lastValid node) P \<longleftrightarrow> P message"
  by (auto simp: signAndBroadcast_def Let_def split: option.splits)

text \<open>The intent pays the recipient the requested amount of the requested asset.\<close>

definition pays :: "sol_ctx \<Rightarrow> transfer_request \<Rightarrow> sol_intent \<Rightarrow> bool" where
  "pays C req i \<longleftrightarrow> sc_key C (tq_From req) = Some (si_payer i) \<and> sc_key C (tq_To req) = Some (si_to i) \<and>
     (\<exists>v. sc_parse C (tq_Amount req) = Some v \<and> 0 < v \<and>
       (case si_token i of
          None \<Rightarrow> ca_Kind (tq_Asset req) = ''native'' \<and> of_nat (unat (si_lamports i)) = v * 10 ^ 9
        | Some t \<Rightarrow> ca_Kind (tq_Asset req) = ''spl'' \<and> sc_key C (ca_Contract (tq_Asset req)) = Some (ti_mint t) \<and>
            ti_decimals t = ca_Decimals (tq_Asset req) \<and> of_nat (unat (ti_amount t)) = v * 10 ^ unat (ca_Decimals (tq_Asset req))))"

text \<open>The fee of the message is the approved one, and an account is only opened when that was approved,
  at no more than the approved rent.\<close>

definition approved_for :: "sol_ctx \<Rightarrow> string \<Rightarrow> rents \<Rightarrow> fee_approval \<Rightarrow> sol_intent \<Rightarrow> bool" where
  "approved_for C networkID rents f i \<longleftrightarrow> unat (si_limit i) = unat (fa_ComputeUnitLimit f) \<and> si_price i = fa_ComputeUnitPriceMicroLamports f \<and>
     (\<exists>approved. lamports C (fa_Fee f) = Some (lamportsPerSignature + priorityFee (si_limit i) (si_price i) + approved) \<and>
       (\<forall>t. si_token i = Some t \<longrightarrow> ti_createAccount t \<longrightarrow> fa_CreatesTokenAccount f \<and>
         (\<exists>rent s. rents (networkID, tokenAccountSize) = Some (rent, s) \<and> rent \<le> approved)))"

definition may_sign :: "sol_ctx \<Rightarrow> sol_err + sol_node \<Rightarrow> string \<Rightarrow> transfer_request \<Rightarrow> rents \<Rightarrow> byte list \<Rightarrow> bool" where
  "may_sign C client networkID req rents message \<longleftrightarrow>
     (\<exists>m i want f N result. decodeLegacyMessage message = Some m \<and> expected C i = Some want \<and>
        says m (si_payer i) (si_blockhash i) want \<and> pays C req i \<and> tq_Approved req = Some f \<and> approved_for C networkID rents f i \<and>
        client = Inr N \<and> nd_simulate N 1 message = Inr result \<and> sm_Err result = None)"

lemma plan_pays:
  assumes "plan_of_request C j req r' q"
  shows "pays C req (plan_intent q blockhash)"
proof -
  obtain v where "sc_parse C (tq_Amount req) = Some v" "0 < v"
    "of_nat (unat (sp_amount q)) = v * 10 ^ unat (ca_Decimals (tq_Asset req))"
    using assms by (auto simp: plan_of_request_def units_def rcheck_eq_Inr split: option.splits dest!: base_units_exact)
  then show ?thesis using assms
    by (auto simp: pays_def plan_of_request_def plan_intent_def planned_token_def split: option.splits)
qed

lemma sendMessage_may_sign:
  assumes "sendMessage C N networkID req a r = (r', Inr (message, lastValid))" "parseApproval C (tq_Approved req) = Inr a"
  shows "may_sign C (Inr N) networkID req r' message"
proof -
  obtain f where f: "tq_Approved req = Some f" using assms(2) by (cases "tq_Approved req") (auto simp: parseApproval_def)
  note a = parseApproval_Inr [OF assms(2) [unfolded f]]
  obtain q blockhash result where q: "plan_of_request C networkID req r' q" "sp_limit q = ap_limit a" "sp_price q = ap_price a"
    "opens q \<longrightarrow> ap_createAccount a \<and> opened_rent q \<le> ap_rent a"
    "verifyMessage C message (plan_intent q blockhash) = Inr ()" "nd_simulate N 1 message = Inr result" "sm_Err result = None"
    using sendMessage_Inr [OF assms(1)] by blast
  let ?i = "plan_intent q blockhash"
  obtain want m where w: "expected C ?i = Some want" "decodeLegacyMessage message = Some m" "says m (si_payer ?i) (si_blockhash ?i) want"
    using q(5) by (auto simp: verifyMessage_def verifyInstructions_iff split: option.splits)
  have "approved_for C networkID r' f ?i"
    unfolding approved_for_def
    by (rule conjI, simp add: plan_intent_def q a, rule conjI, simp add: plan_intent_def q a,
        rule exI [of _ "if fa_CreatesTokenAccount f then ap_rent a else 0"])
      (use q a in \<open>auto simp: plan_intent_def plan_of_request_def planned_token_def opens_def opened_rent_def split: option.splits\<close>)
  then show ?thesis unfolding may_sign_def using w q f plan_pays [OF q(1)] by blast
qed

section \<open>From the estimate to the approval\<close>

definition rents_good :: "rents \<Rightarrow> bool" where
  "rents_good r \<longleftrightarrow> (\<forall>k v t. r k = Some (v, t) \<longrightarrow> v \<noteq> 0)"

lemma rentExempt_good: "rentExempt N i sz r = (r', v) \<Longrightarrow> rents_good r \<Longrightarrow> rents_good r' \<and> v \<noteq> Inr 0"
  by (auto simp: rentExempt_def rents_good_def split: option.splits prod.splits sum.splits if_splits) blast+

text \<open>A plan that was measured: its limit comes from a simulation, its price from the recent ones, its rent from the chain.\<close>

definition simulated :: "sol_node \<Rightarrow> u32 \<Rightarrow> bool" where
  "simulated N limit \<longleftrightarrow> (\<exists>message result used. nd_simulate N 0 message = Inr result \<and> sm_Units result = Some used \<and> used \<noteq> 0 \<and> limit = limitFor used)"

lemma measure_plan_simulated:
  "measure_plan C N p mx = Inr q \<Longrightarrow> \<exists>l. simulated N l \<and> q = p\<lparr>sp_neededLimit := l, sp_limit := l\<rparr>"
  unfolding simulated_def by (drule measure_plan_Inr) blast

definition measured :: "sol_node \<Rightarrow> sol_plan \<Rightarrow> bool" where
  "measured N q \<longleftrightarrow> simulated N (sp_limit q) \<and> sp_price q \<le> maxComputeUnitPrice \<and> (opens q \<longrightarrow> opened_rent q \<noteq> 0)"

lemma offered_bound: "offeredPrice base \<le> maxComputeUnitPrice"
  by (simp add: offeredPrice_def)

lemma prepareSOL_measured: "prepareSOL C N p mx = Inr q \<Longrightarrow> sp_token p = None \<Longrightarrow> measured N q"
proof -
  assume p: "prepareSOL C N p mx = Inr q" "sp_token p = None"
  have "sp_token q = None" using prepareSOL_Inr [OF p(1)] p(2) by simp
  moreover obtain base p' where "measure_plan C N (p'\<lparr>sp_basePrice := base, sp_price := offeredPrice base\<rparr>) mx = Inr q"
    using p(1) by (auto simp: prepareSOL_def rbind_eq_Inr rcheck_eq_Inr Let_def)
  note measure_plan_simulated [OF this]
  ultimately show ?thesis using offered_bound [of base] by (auto simp: measured_def opens_def)
qed

lemma token_opening_good:
  "token_opening C N i p mint acc r = (r', v) \<Longrightarrow> rents_good r \<Longrightarrow> rents_good r' \<and> (\<forall>create rent. v = Inr (create, rent) \<longrightarrow> create \<longrightarrow> rent \<noteq> 0)"
  by (auto simp: token_opening_def sbind_def rbind_eq_Inr split: option.splits prod.splits sum.splits dest: rentExempt_good)

lemma prepareToken_measured:
  assumes "prepareToken C N i p asset mx r = (r', Inr q)" "rents_good r"
  shows "rents_good r' \<and> measured N q \<and> sp_token q \<noteq> None"
proof -
  obtain mint source destination where k: "sc_key C (ca_Contract asset) = Some mint"
    "FindAssociatedTokenAddress C (sp_from p) mint = Some source" "FindAssociatedTokenAddress C (sp_to p) mint = Some destination"
    using assms by (auto simp: prepareToken_def split: option.splits)
  obtain accounts create rent base t p' where r: "token_opening C N i (with_balance (accounts ! 0) p) mint (accounts ! 4) r = (r', Inr (create, rent))"
    and m: "measure_plan C N (p'\<lparr>sp_basePrice := base, sp_price := offeredPrice base\<rparr>) False = Inr q"
      "sp_token p' = Some t" "tp_createAccount t = create" "tp_rent t = rent"
    using assms(1) by (auto simp: prepareToken_def k sbind_Inr Let_def)
  then show ?thesis using token_opening_good [OF r assms(2)] measure_plan_simulated [OF m(1)] offered_bound [of base]
    by (auto simp: measured_def opens_def opened_rent_def)
qed

lemma prepare_measured:
  assumes "prepare C N i req mx r = (r', Inr q)" "rents_good r"
  shows "rents_good r' \<and> measured N q \<and> (sp_token q = None \<longleftrightarrow> ca_Kind (tq_Asset req) = ''native'') \<and>
    (sp_token q = None \<longrightarrow> ca_Decimals (tq_Asset req) = 9)"
proof -
  obtain f t where k: "sc_key C (tq_From req) = Some f" "sc_key C (tq_To req) = Some t"
    using assms by (auto simp: prepare_def sbind_Inr split: option.splits if_splits)
  obtain amount rent r1 where a: "rentExempt N i 0 r = (r1, Inr rent)"
    and rest: "prepare_asset C N i ((new_plan f t amount)\<lparr>sp_rentExempt0 := rent\<rparr>) (tq_Asset req) mx r1 = (r', Inr q)"
    using assms(1) by (auto simp: prepare_def k sbind_Inr Let_def split: if_splits)
  have g: "rents_good r1" using rentExempt_good [OF a assms(2)] by simp
  show ?thesis
  proof (cases "ca_Kind (tq_Asset req) = ''native''")
    case True
    then have "prepareSOL C N ((new_plan f t amount)\<lparr>sp_rentExempt0 := rent\<rparr>) mx = Inr q" "r' = r1" "ca_Decimals (tq_Asset req) = 9"
      using rest by (auto simp: prepare_asset_def sbind_Inr split: if_splits)
    then show ?thesis using True g prepareSOL_measured prepareSOL_Inr by fastforce
  next
    case False
    then have "prepareToken C N i ((new_plan f t amount)\<lparr>sp_rentExempt0 := rent\<rparr>) (tq_Asset req) mx r1 = (r', Inr q)"
      using rest by (auto simp: prepare_asset_def split: if_splits)
    then show ?thesis using False prepareToken_measured [OF _ g] by blast
  qed
qed

lemma limitFor_range:
  assumes "unat used < 2 ^ 63"
  shows "0 < unat (limitFor used) \<and> unat (limitFor used) \<le> 1400000"
proof -
  let ?n = "used + used div 5 + 1000"
  have "unat ?n = unat used + unat used div 5 + 1000"
  proof -
    have d: "unat (used div 5) = unat used div 5" by (simp add: unat_div)
    have "unat used + unat used div 5 + 1000 < 2 ^ 64" using assms by simp
    then show ?thesis using d by (simp add: unat_word_ariths)
  qed
  then have m: "1000 \<le> unat (min ?n maxComputeUnitLimit)" "unat (min ?n maxComputeUnitLimit) \<le> 1400000"
    by (auto simp: min_def maxComputeUnitLimit_def word_le_nat_alt)
  then have "unat (limitFor used) = unat (min ?n maxComputeUnitLimit)"
    by (simp add: limitFor_def unsigned_ucast_eq take_bit_nat_eq_self)
  then show ?thesis using m by simp
qed

text \<open>The approval the interface sends back for an estimate.\<close>

definition approval_of :: "sol_estimate \<Rightarrow> fee_approval" where
  "approval_of e = \<lparr>fa_FeeModel = sq_FeeModel e, fa_GasLimit = 0, fa_MaxFeePerGas = [], fa_MaxPriorityFeePerGas = [],
     fa_ComputeUnitLimit = sq_ComputeUnitLimit e, fa_ComputeUnitPriceMicroLamports = sq_ComputeUnitPriceMicroLamports e,
     fa_CreatesTokenAccount = sq_CreatesTokenAccount e, fa_TokenAccountRent = sq_TokenAccountRent e, fa_Fee = sq_Fee e\<rparr>"

lemma sol_lamports:
  assumes "\<And>n. sc_parse C (sc_show C (of_nat n / 10 ^ 9)) = Some (of_nat n / 10 ^ 9)"
  shows "lamports C (sol C n) = Some n"
proof -
  have "\<not> (of_nat (unat n) :: rat) / 10 ^ 9 < 0" by (simp add: divide_less_0_iff del: of_nat_unat)
  then show ?thesis unfolding lamports_def sol_def assms option.case base_units_of by simp
qed

lemma estimate_accepted:
  assumes "measured N p" "\<And>n. sc_parse C (sc_show C (of_nat n / 10 ^ 9)) = Some (of_nat n / 10 ^ 9)"
    "\<And>message result used. nd_simulate N 0 message = Inr result \<Longrightarrow> sm_Units result = Some used \<Longrightarrow> unat used < 2 ^ 63"
  shows "parseApproval C (Some (approval_of (plan_estimate C p networkID d))) =
    Inr \<lparr>ap_limit = sp_limit p, ap_price = sp_price p, ap_createAccount = opens p, ap_rent = opened_rent p, ap_fee = cost p\<rparr>"
proof -
  obtain message result used where u: "nd_simulate N 0 message = Inr result" "sm_Units result = Some used" "sp_limit p = limitFor used"
    using assms(1) by (auto simp: measured_def simulated_def)
  have l: "0 < unat (sp_limit p)" "unat (sp_limit p) \<le> 1400000"
    using limitFor_range [OF assms(3) [OF u(1,2)]] u(3) by auto
  let ?w = "ucast (sp_limit p) :: u64"
  have w: "unat ?w = unat (sp_limit p)" using l by (simp add: unsigned_ucast_eq take_bit_nat_eq_self)
  then have "?w \<noteq> 0" "\<not> ?w > maxComputeUnitLimit" using l by (auto simp: maxComputeUnitLimit_def word_less_nat_alt)
  moreover have "(ucast ?w :: u32) = sp_limit p"
    by (rule word_unat_eq_iff [THEN iffD2]) (use w l in \<open>simp add: unsigned_ucast_eq [of ?w] take_bit_nat_eq_self\<close>)
  moreover have "\<not> sp_price p > maxComputeUnitPrice" "opens p \<longrightarrow> opened_rent p \<noteq> 0" using assms(1) by (auto simp: measured_def)
  moreover have "\<not> opens p \<Longrightarrow> opened_rent p = 0" by (auto simp: opens_def opened_rent_def split: option.splits)
  moreover have "opens p = (case sp_token p of None \<Rightarrow> False | Some t \<Rightarrow> tp_createAccount t)" by (simp add: opens_def)
  ultimately show ?thesis
    by (auto simp: parseApproval_def approval_of_def plan_estimate_def Let_def approved_rent_def rcheck_def sol_lamports [OF assms(2)] cost_def networkFee_def)
qed

lemma estimateTransfer_Inr:
  assumes "estimateTransfer C (Inr N) networkID req mx r = (r', Inr e)" "rents_good r"
  shows "\<exists>p. rents_good r' \<and> measured N p \<and> e = plan_estimate C p networkID (ca_Decimals (tq_Asset req)) \<and>
    (ca_Kind (tq_Asset req) = ''native'' \<longrightarrow> mx \<longrightarrow> ca_Decimals (tq_Asset req) = 9 \<and> unat (sp_amount p) + unat (cost p) = unat (sp_balance p) \<and> sp_amount p \<noteq> 0)"
proof -
  obtain q p where q: "prepare C N networkID req mx r = (r', Inr q)" "precheck q mx = Inr p" "e = plan_estimate C p networkID (ca_Decimals (tq_Asset req))"
    using assms(1) by (auto simp: estimateTransfer_def sbind_Inr)
  note m = prepare_measured [OF q(1) assms(2)]
  have p: "sp_token p = sp_token q" "sp_limit p = sp_limit q" "sp_price p = sp_price q" "sp_balance p = sp_balance q"
    "\<not> sp_balance q < cost q" "sp_token q = None \<Longrightarrow> mx \<Longrightarrow> sp_amount p = sp_balance q - cost q \<and> sp_amount p \<noteq> 0"
    using q(2) by (auto simp: precheck_Inr split: if_splits)
  have c: "cost p = cost q" "measured N p" using m p by (simp_all add: cost_def networkFee_def opened_rent_def measured_def opens_def)
  have "unat (sp_balance q - cost q) + unat (cost q) = unat (sp_balance q)"
    using p(5) by (simp add: unat_sub not_less word_le_nat_alt)
  then have "ca_Kind (tq_Asset req) = ''native'' \<Longrightarrow> mx \<Longrightarrow> ca_Decimals (tq_Asset req) = 9 \<and>
      unat (sp_amount p) + unat (cost p) = unat (sp_balance p) \<and> sp_amount p \<noteq> 0"
    using m p c by auto
  then show ?thesis using m q(3) c(2) by blast
qed

section \<open>The book of expiry heights\<close>

definition book_good :: "expiry_book \<Rightarrow> bool" where
  "book_good book \<longleftrightarrow> distinct (map fst book) \<and> length book \<le> maxExpiryRecords"

lemma length_book_update: "length (AList.update k v xs) = (if k \<in> fst ` set xs then length xs else Suc (length xs))"
  by (induction xs) auto

lemma book_record_good: "book_good book \<Longrightarrow> book_good (book_record victim i s v book)"
proof -
  assume b: "book_good book"
  let ?k = "expiryKey i s"
  let ?j = "victim mod length book"
  let ?rest = "take ?j book @ drop (Suc ?j) book"
  show ?thesis
  proof (cases "map_of book ?k = None \<and> maxExpiryRecords \<le> length book")
    case True
    have n: "0 < length book" using True by (cases book) (auto simp: maxExpiryRecords_def)
    then have j: "?j < length book" by simp
    have "distinct (map fst book)" using b by (simp add: book_good_def)
    then have "distinct (map fst (take ?j book @ book ! ?j # drop (Suc ?j) book))" using id_take_nth_drop [OF j] by simp
    then have "distinct (map fst ?rest)" by simp
    moreover have "length ?rest < length book" using j by simp
    moreover have "book_record victim i s v book = AList.update ?k v ?rest"
      unfolding book_record_def Let_def using True by (simp only: if_True simp_thms)
    ultimately obtain rest where r: "book_record victim i s v book = AList.update ?k v rest" "distinct (map fst rest)" "length rest < length book"
      by blast
    have "length (AList.update ?k v rest) \<le> Suc (length rest)" by (simp add: length_book_update)
    then show ?thesis using b r by (simp add: book_good_def distinct_update)
  next
    case False
    then have "book_record victim i s v book = AList.update ?k v book" by (auto simp: book_record_def Let_def)
    moreover have "?k \<in> fst ` set book \<or> length book < maxExpiryRecords"
      using False by (force simp: map_of_eq_None_iff)
    ultimately show ?thesis using b by (auto simp: book_good_def distinct_update length_book_update)
  qed
qed

lemma book_forget_good: "book_good book \<Longrightarrow> book_good (book_forget i s book)"
  unfolding book_good_def book_forget_def
  by (metis distinct_delete length_delete_le order_trans)

lemma book_lookup_record: "book_lookup i s (book_record victim i s v book) = Some v"
  by (simp add: book_lookup_def book_record_def Let_def update_conv')

text \<open>What a node said when a status is failed.\<close>

definition reported_failed :: "status_node \<Rightarrow> nat \<Rightarrow> bool" where
  "reported_failed N j \<longleftrightarrow> (\<exists>v. sn_statuses N j = Inr [Some v] \<and> sg_Failed v \<and> sg_ConfirmationStatus v \<in> {''confirmed'', ''finalized''})"

definition reported_unknown :: "status_node \<Rightarrow> nat \<Rightarrow> bool" where
  "reported_unknown N j \<longleftrightarrow> sn_statuses N j = Inr [None]"

lemma signatureStatus_cases:
  "signatureStatus (sn_statuses N j) = Inr (Some StatusFailed) \<longleftrightarrow> reported_failed N j"
  "signatureStatus (sn_statuses N j) = Inr None \<longleftrightarrow> reported_unknown N j"
proof -
  have "(signatureStatus (sn_statuses N j) = Inr (Some StatusFailed) \<longleftrightarrow> reported_failed N j) \<and>
      (signatureStatus (sn_statuses N j) = Inr None \<longleftrightarrow> reported_unknown N j)"
  proof (cases "sn_statuses N j")
    case (Inr vs)
    then show ?thesis
      by (cases vs; cases "tl vs"; cases "hd vs")
        (auto simp: signatureStatus_def reported_failed_def reported_unknown_def StatusFailed_def StatusPending_def StatusConfirmed_def)
  qed (simp add: signatureStatus_def reported_failed_def reported_unknown_def)
  then show "signatureStatus (sn_statuses N j) = Inr (Some StatusFailed) \<longleftrightarrow> reported_failed N j"
    "signatureStatus (sn_statuses N j) = Inr None \<longleftrightarrow> reported_unknown N j" by simp_all
qed

text \<open>What a failed status rests on.\<close>

definition expired :: "status_node \<Rightarrow> string \<Rightarrow> string \<Rightarrow> expiry_book \<Rightarrow> bool" where
  "expired N networkID txID book \<longleftrightarrow> (\<exists>lastValid height. book_lookup networkID txID book = Some lastValid \<and> sn_height N = Inr height \<and>
     unat lastValid + 150 < unat height \<and> reported_unknown N 0 \<and> reported_unknown N 1)"

text \<open>The margin is added in 64 bits: a recorded height within it of \<open>2 ^ 64\<close> wraps, and is passed early.\<close>

definition wrapped :: "status_node \<Rightarrow> string \<Rightarrow> string \<Rightarrow> expiry_book \<Rightarrow> bool" where
  "wrapped N networkID txID book \<longleftrightarrow> (\<exists>lastValid height. book_lookup networkID txID book = Some lastValid \<and> sn_height N = Inr height \<and>
     2 ^ 64 \<le> unat lastValid + 150 \<and> unat lastValid + 150 < 2 ^ 64 + unat height \<and> reported_unknown N 0 \<and> reported_unknown N 1)"

lemma past_margin:
  assumes "\<not> height \<le> lastValid + expiryMargin"
  shows "unat lastValid + 150 < unat height \<or> 2 ^ 64 \<le> unat lastValid + 150 \<and> unat lastValid + 150 < 2 ^ 64 + unat height"
proof -
  have "unat (lastValid + expiryMargin) = (unat lastValid + 150) mod 2 ^ 64" by (simp add: expiryMargin_def unat_word_ariths)
  moreover have "unat (lastValid + expiryMargin) < unat height" using assms by (simp add: word_le_nat_alt)
  moreover have "unat lastValid < 2 ^ 64" using unsigned_less [of lastValid] by simp
  ultimately show ?thesis by (cases "unat lastValid + 150 < 2 ^ 64") (simp_all add: le_mod_geq, linarith)
qed

lemma Transaction_failed:
  assumes "Transaction signature_of client networkID txID book = (book', Inr t)" "tr_Status t = StatusFailed"
  shows "book' = book_forget networkID txID book \<and>
    (\<exists>N. client = Inr N \<and> (reported_failed N 0 \<or> reported_failed N 1 \<or> expired N networkID txID book \<or>
       wrapped N networkID txID book))"
proof -
  have s: "StatusPending \<noteq> StatusFailed" by (simp add: StatusFailed_def StatusPending_def)
  have res: "status_result networkID txID st book = (book', Inr t) \<longleftrightarrow> st = StatusFailed \<and> book' = book_forget networkID txID book \<and>
      t = \<lparr>tr_NetworkID = networkID, tr_Hash = txID, tr_Status = StatusFailed\<rparr>" for st
    using assms(2) s by (auto simp: status_result_def)
  obtain N found where N: "client = Inr N" "signatureStatus (sn_statuses N 0) = Inr found"
    using assms(1) by (auto simp: Transaction_def sbind_slift split: option.splits sum.splits)
  show ?thesis
  proof (cases found)
    case (Some st)
    then have "status_result networkID txID st book = (book', Inr t)"
      using assms(1) N by (auto simp: Transaction_def sbind_slift split: option.splits)
    then show ?thesis using N Some signatureStatus_cases(1) [of N 0] by (auto simp: res)
  next
    case None
    obtain lastValid height where l: "book_lookup networkID txID book = Some lastValid" "sn_height N = Inr height" "\<not> height \<le> lastValid + expiryMargin"
      "sbind (slift (signatureStatus (sn_statuses N 1))) (\<lambda>found.
        case found of Some status \<Rightarrow> status_result networkID txID status
        | None \<Rightarrow> status_result networkID txID StatusFailed) book = (book', Inr t)"
      using assms(1) N None s by (auto simp: Transaction_def sbind_slift res split: option.splits sum.splits if_splits)
    note past = past_margin [OF l(3)]
    show ?thesis
    proof (cases "signatureStatus (sn_statuses N 1)")
      case (Inr found')
      then show ?thesis using l N None past signatureStatus_cases [of N 0] signatureStatus_cases [of N 1]
        by (cases found') (auto simp: sbind_slift res expired_def wrapped_def)
    qed (use l in \<open>simp add: sbind_slift\<close>)
  qed
qed

end
