(* ===== verification/SolanaSamples.thy ===== *)
theory SolanaSamples
  imports SolanaSafety
begin

text \<open>
  A sample cluster: one SOL transfer with its message, the accounts and answers it meets, and the
  approval that goes with it. The witnesses of the theorems about Solana are evaluated on it.
\<close>

definition key_of :: "byte \<Rightarrow> pubkey" where "key_of b = replicate 32 b"

lemma key_of_simps [simp]: "length (key_of b) = 32" "key_of a = key_of b \<longleftrightarrow> a = b"
  by (simp_all add: key_of_def)

definition sol_sample_intent :: sol_intent where
  "sol_sample_intent = \<lparr>si_payer = key_of 1, si_blockhash = key_of 9, si_limit = 1540, si_price = 1000, si_to = key_of 2,
     si_lamports = 1000000000, si_token = None\<rparr>"

definition sol_sample_message :: decoded_message where
  "sol_sample_message = \<lparr>dm_signers = 1, dm_readonlySigned = 0, dm_readonlyUnsigned = 2,
     dm_keys = [key_of 1, key_of 2, key_of 0, key_of 3], dm_blockhash = key_of 9,
     dm_instructions = [\<lparr>di_program = 3, di_accounts = [], di_data = 2 # put_le 4 (unat (1540 :: u32))\<rparr>,
       \<lparr>di_program = 3, di_accounts = [], di_data = 3 # put_le 8 (unat (1000 :: u64))\<rparr>,
       \<lparr>di_program = 2, di_accounts = [0, 1], di_data = put_le 4 2 @ put_le 8 (unat (1000000000 :: u64))\<rparr>]\<rparr>"

definition sol_sample_ctx :: sol_ctx where
  "sol_sample_ctx = \<lparr>must_key = (\<lambda>_. key_of 7), token_program_id = key_of 4, token2022_program_id = key_of 5, memo_program_id = key_of 6,
     create_program_address = (\<lambda>_ _. None), find_program_address = (\<lambda>_ _. None),
     sl_ComputeBudget = key_of 3, sl_SystemProgram = key_of 0, sl_AssociatedTokenProgram = key_of 8, sl_LookupTableProgram = key_of 10,
     sc_key = (\<lambda>s. if s = ''F'' then Some (key_of 1) else if s = ''T'' then Some (key_of 2) else None),
     sc_onCurve = (\<lambda>_. True), sc_build = (\<lambda>_ _ _. Some (put_message sol_sample_message)), sc_verify = (\<lambda>_ _ _. True),
     sc_base58 = (\<lambda>_. ''F''), sc_parse = (\<lambda>s. if s = ''1'' then Some 1 else if s = ''fee'' then Some (5002 / 10 ^ 9) else None),
     sc_show = (\<lambda>_. ''fee''), sc_metadata = (\<lambda>_. None), sc_metadataProgram = key_of 11, sc_printv = (\<lambda>_. [])\<rparr>"

definition sol_sample_node :: sol_node where
  "sol_sample_node = \<lparr>nd_rent = (\<lambda>_. Inr 890880), nd_asked = (\<lambda>_. 1), nd_stored = (\<lambda>_. 1),
     nd_accounts = (\<lambda>keys. Inr (map (\<lambda>k. Some \<lparr>sa_Lamports = 2000000000, sa_Owner = key_of 0, sa_Data = []\<rparr>) keys)),
     nd_held = (\<lambda>_ _. None), nd_fees = (\<lambda>_. Inr []),
     nd_simulate = (\<lambda>_ _. Inr \<lparr>sm_Err = None, sm_Units = Some 450, sm_Logs = []\<rparr>),
     nd_blockhash = Inr (Some (key_of 9, 100))\<rparr>"

definition sol_sample_asset :: chain_asset where
  "sol_sample_asset = \<lparr>ca_ID = [], ca_NetworkID = ''solana'', ca_Kind = ''native'', ca_Name = [], ca_Symbol = [], ca_Decimals = 9,
     ca_Contract = [], ca_Configured = True\<rparr>"

definition sol_sample_approval :: fee_approval where
  "sol_sample_approval = \<lparr>fa_FeeModel = ''solana'', fa_GasLimit = 0, fa_MaxFeePerGas = [], fa_MaxPriorityFeePerGas = [],
     fa_ComputeUnitLimit = 1540, fa_ComputeUnitPriceMicroLamports = 1000, fa_CreatesTokenAccount = False, fa_TokenAccountRent = [],
     fa_Fee = ''fee''\<rparr>"

definition sol_sample_request :: transfer_request where
  "sol_sample_request = \<lparr>tq_Action = [], tq_AccountID = [], tq_From = ''F'', tq_To = ''T'', tq_Asset = sol_sample_asset,
     tq_Amount = ''1'', tq_Approved = Some sol_sample_approval\<rparr>"

section \<open>The message\<close>

lemma sample_decodes: "decodeLegacyMessage (put_message sol_sample_message) = Some sol_sample_message"
  by (rule decode_put) (simp_all add: sol_sample_message_def message_fits_def header_fits_def instruction_fits_def)

lemma sample_expected: "expected sol_sample_ctx sol_sample_intent = Some
    [limit_instruction sol_sample_ctx 1540, price_instruction sol_sample_ctx 1000, sol_transfer_instruction sol_sample_ctx (key_of 1) (key_of 2) 1000000000]"
  by (simp add: expected_def sol_sample_intent_def)

lemma all_below_4: "(\<forall>i<4. P i) \<longleftrightarrow> P 0 \<and> P 1 \<and> P 2 \<and> P (3 :: nat)"
  by (simp add: numeral_eq_Suc All_less_Suc) auto

lemma sample_says: "says sol_sample_message (key_of 1) (key_of 9)
    [limit_instruction sol_sample_ctx 1540, price_instruction sol_sample_ctx 1000, sol_transfer_instruction sol_sample_ctx (key_of 1) (key_of 2) 1000000000]"
    (is "says ?m ?p ?b ?want")
proof -
  have w: "needs_write ?p ?want k \<longleftrightarrow> k = key_of 1 \<or> k = key_of 2" for k
    by (auto simp: needs_write_def limit_instruction_def price_instruction_def sol_transfer_instruction_def payer_meta_def writable_def)
  have s: "isWritable ?m i \<longleftrightarrow> i < 2" for i by (auto simp: isWritable_def sol_sample_message_def)
  have "executed ?m = merged ?p ?want"
    by (simp add: executed_def run_instructions_def merged_def w s, simp add: sol_sample_message_def limit_instruction_def price_instruction_def
      sol_transfer_instruction_def payer_meta_def writable_def sol_sample_ctx_def)
  moreover have "set (dm_keys ?m) = mentions ?p ?want"
    by (auto simp: sol_sample_message_def mentions_def limit_instruction_def price_instruction_def sol_transfer_instruction_def payer_meta_def writable_def sol_sample_ctx_def)
  moreover have "\<forall>i<4. isWritable ?m i = needs_write ?p ?want (dm_keys ?m ! i)"
    by (simp add: all_below_4 w s) (simp add: sol_sample_message_def)
  ultimately show ?thesis by (simp add: says_def speaks_def executed_def sol_sample_message_def)
qed

lemma sample_verifies: "verifyMessage sol_sample_ctx (put_message sol_sample_message) sol_sample_intent = Inr ()"
proof -
  have "\<exists>m. decodeLegacyMessage (put_message sol_sample_message) = Some m \<and> says m (key_of 1) (key_of 9)
    [limit_instruction sol_sample_ctx 1540, price_instruction sol_sample_ctx 1000, sol_transfer_instruction sol_sample_ctx (key_of 1) (key_of 2) 1000000000]"
    using sample_decodes sample_says by blast
  then show ?thesis by (simp add: verifyMessage_def sample_expected verifyInstructions_iff) (simp add: sol_sample_intent_def)
qed

section \<open>The send\<close>

definition sol_sample_rents :: rents where "sol_sample_rents = [(''solana'', 0) \<mapsto> (890880, 1)]"

definition sol_sample_plan :: sol_plan where
  "sol_sample_plan = \<lparr>sp_from = key_of 1, sp_to = key_of 2, sp_amount = 1000000000, sp_token = None, sp_balance = 2000000000,
     sp_toExists = True, sp_toLamports = 2000000000, sp_rentExempt0 = 890880, sp_basePrice = 0, sp_price = 1000,
     sp_neededLimit = 1540, sp_limit = 1540, sp_probing = False, sp_offered = 0, sp_max = False\<rparr>"

lemma sample_units: "units sol_sample_ctx ''1'' 9 = Inr 1000000000"
  by (simp add: units_def sol_sample_ctx_def base_units_def)

lemma sample_rent: "rentExempt sol_sample_node ''solana'' 0 Map.empty = (sol_sample_rents, Inr 890880)"
  by (simp add: rentExempt_def sol_sample_node_def sol_sample_rents_def)

lemma sample_measure:
  "measure_plan sol_sample_ctx sol_sample_node p mx = Inr (p\<lparr>sp_neededLimit := 1540, sp_limit := 1540\<rparr>)"
  by (simp add: measure_plan_def plan_build_def sol_sample_ctx_def sol_sample_node_def limitFor_def maxComputeUnitLimit_def)

lemma sample_prepare:
  "prepare sol_sample_ctx sol_sample_node ''solana'' sol_sample_request False Map.empty = (sol_sample_rents, Inr sol_sample_plan)"
proof -
  have a: "nd_accounts sol_sample_node [a, b] = Inr [Some \<lparr>sa_Lamports = 2000000000, sa_Owner = key_of 0, sa_Data = []\<rparr>,
      Some \<lparr>sa_Lamports = 2000000000, sa_Owner = key_of 0, sa_Data = []\<rparr>]" "nd_fees sol_sample_node ks = Inr []" for a b ks
    by (simp_all add: sol_sample_node_def)
  have k: "sc_key sol_sample_ctx ''F'' = Some (key_of 1)" "sc_key sol_sample_ctx ''T'' = Some (key_of 2)"
    by (simp_all add: sol_sample_ctx_def)
  show ?thesis
    by (simp add: prepare_def sol_sample_request_def sol_sample_asset_def sbind_def k sample_units sample_rent prepare_asset_def
      prepareSOL_def readAccounts_def a priorityPrice_def sample_measure with_balance_def Let_def)
      (simp add: sol_sample_plan_def new_plan_def offeredPrice_def minComputeUnitPrice_def maxComputeUnitPrice_def)
qed

lemma sample_fee: "priorityFee 1540 1000 = 2" by (simp add: priorityFee_def)

lemma sample_approval: "parseApproval sol_sample_ctx (Some sol_sample_approval) =
    Inr \<lparr>ap_limit = 1540, ap_price = 1000, ap_createAccount = False, ap_rent = 0, ap_fee = 5002\<rparr>"
proof -
  have "lamports sol_sample_ctx ''fee'' = Some 5002"
    by (simp add: lamports_def sol_sample_ctx_def base_units_def)
  then show ?thesis
    by (simp add: parseApproval_def sol_sample_approval_def feeModel_def maxComputeUnitLimit_def maxComputeUnitPrice_def approved_rent_def
      sample_fee lamportsPerSignature_def)
qed

lemma sample_sendMessage:
  "sendMessage sol_sample_ctx sol_sample_node ''solana'' sol_sample_request
     \<lparr>ap_limit = 1540, ap_price = 1000, ap_createAccount = False, ap_rent = 0, ap_fee = 5002\<rparr> Map.empty =
     (sol_sample_rents, Inr (put_message sol_sample_message, 100))"
proof -
  have c: "cost sol_sample_plan = 5002"
    by (simp add: cost_def networkFee_def opened_rent_def sol_sample_plan_def sample_fee lamportsPerSignature_def)
  have p: "sol_sample_plan\<lparr>sp_limit := 1540, sp_price := 1000\<rparr> = sol_sample_plan" by (simp add: sol_sample_plan_def)
  have "precheck sol_sample_plan False = Inr sol_sample_plan"
    by (simp add: precheck_Inr c) (simp add: sol_sample_plan_def)
  moreover have "plan_intent sol_sample_plan (key_of 9) = sol_sample_intent"
    by (simp add: plan_intent_def sol_sample_plan_def sol_sample_intent_def)
  moreover have "latestBlockhash sol_sample_node = Inr (key_of 9, 100)" by (simp add: latestBlockhash_def sol_sample_node_def)
  moreover have "plan_build sol_sample_ctx sol_sample_plan (key_of 9) = Inr (put_message sol_sample_message)"
    by (simp add: plan_build_def sol_sample_ctx_def)
  moreover have "verdict sol_sample_ctx sol_sample_node sol_sample_plan x = Inr ()" for x by (simp add: verdict_def sol_sample_node_def)
  moreover have "within_approval sol_sample_plan \<lparr>ap_limit = 1540, ap_price = 1000, ap_createAccount = False, ap_rent = 0, ap_fee = 5002\<rparr> = Inr ()"
    by (simp add: within_approval_def sol_sample_plan_def)
  ultimately show ?thesis
    by (simp add: sendMessage_def sample_prepare p move_state_def as_sol_err_def sample_verifies)
qed

lemma sample_send: "solana_Send sol_sample_ctx (calm_env 1) False (Inr sol_sample_node) ''solana'' sol_sample_request
    (Some (FamilySolana, key_of 1)) NodeSilent Map.empty =
  (sol_sample_rents, signAndBroadcast (calm_env 1) False ''solana'' (sc_verify sol_sample_ctx (key_of 1) (put_message sol_sample_message))
     (sc_base58 sol_sample_ctx) (put_message sol_sample_message) 100 NodeSilent)"
proof -
  have "messageSigner sol_sample_ctx (Some (FamilySolana, key_of 1)) (tq_From sol_sample_request) = Inr (key_of 1)"
    by (simp add: messageSigner_def sol_sample_ctx_def sol_sample_request_def)
  moreover have "tq_Approved sol_sample_request = Some sol_sample_approval" by (simp add: sol_sample_request_def)
  ultimately show ?thesis by (simp add: solana_Send_def sbind_slift sample_approval sbind_def sample_sendMessage)
qed

section \<open>The maximum\<close>

text \<open>A library that writes an amount of lamports in full and reads it back.\<close>

definition sol_max_ctx :: sol_ctx where
  "sol_max_ctx = sol_sample_ctx\<lparr>sc_parse := (\<lambda>s. Some (of_nat (length s) / 10 ^ 9)),
     sc_show := (\<lambda>q. replicate (nat \<lfloor>q * 10 ^ 9\<rfloor>) CHR ''1'')\<rparr>"

definition sol_max_plan :: sol_plan where
  "sol_max_plan = sol_sample_plan\<lparr>sp_amount := 1999994998, sp_max := True\<rparr>"

lemma sol_max_round_trip: "sc_parse sol_max_ctx (sc_show sol_max_ctx (of_nat n / 10 ^ 9)) = Some (of_nat n / 10 ^ 9)"
proof -
  have "(of_nat n :: rat) / 10 ^ 9 * 10 ^ 9 = of_nat n" by simp
  then have "nat \<lfloor>(of_nat n :: rat) / 10 ^ 9 * 10 ^ 9\<rfloor> = n" by (simp only: floor_of_nat nat_int)
  then show ?thesis by (simp add: sol_max_ctx_def)
qed

lemma sol_max_estimate:
  "estimateTransfer sol_max_ctx (Inr sol_sample_node) ''solana'' sol_sample_request True Map.empty =
     (sol_sample_rents, Inr (plan_estimate sol_max_ctx sol_max_plan ''solana'' 9))"
proof -
  have measure: "measure_plan sol_max_ctx sol_sample_node p mx = Inr (p\<lparr>sp_neededLimit := 1540, sp_limit := 1540\<rparr>)" for p mx
    by (simp add: measure_plan_def plan_build_def sol_max_ctx_def sol_sample_ctx_def sol_sample_node_def limitFor_def maxComputeUnitLimit_def)
  have a: "nd_accounts sol_sample_node [a, b] = Inr [Some \<lparr>sa_Lamports = 2000000000, sa_Owner = key_of 0, sa_Data = []\<rparr>,
      Some \<lparr>sa_Lamports = 2000000000, sa_Owner = key_of 0, sa_Data = []\<rparr>]" "nd_fees sol_sample_node ks = Inr []" for a b ks
    by (simp_all add: sol_sample_node_def)
  have k: "sc_key sol_max_ctx ''F'' = Some (key_of 1)" "sc_key sol_max_ctx ''T'' = Some (key_of 2)"
    by (simp_all add: sol_sample_ctx_def sol_max_ctx_def)
  have p: "prepare sol_max_ctx sol_sample_node ''solana'' sol_sample_request True Map.empty = (sol_sample_rents, Inr (sol_sample_plan\<lparr>sp_amount := 0\<rparr>))"
    by (simp add: prepare_def sol_sample_request_def sol_sample_asset_def sbind_def k sample_rent prepare_asset_def
      prepareSOL_def readAccounts_def a priorityPrice_def measure with_balance_def Let_def)
      (simp add: sol_sample_plan_def new_plan_def offeredPrice_def minComputeUnitPrice_def maxComputeUnitPrice_def)
  have c: "cost (sol_sample_plan\<lparr>sp_amount := n\<rparr>) = 5002" for n
    by (simp add: cost_def networkFee_def opened_rent_def sol_sample_plan_def sample_fee lamportsPerSignature_def)
  have "precheck (sol_sample_plan\<lparr>sp_amount := 0\<rparr>) True = Inr sol_max_plan"
    by (simp add: precheck_Inr c) (simp add: sol_max_plan_def sol_sample_plan_def)
  moreover have "plan_build sol_max_ctx sol_max_plan no_hash = Inr (put_message sol_sample_message)"
    by (simp add: plan_build_def sol_max_ctx_def sol_sample_ctx_def)
  moreover have "verdict sol_max_ctx sol_sample_node sol_max_plan x = Inr ()" for x by (simp add: verdict_def sol_sample_node_def)
  moreover have "ca_Decimals (tq_Asset sol_sample_request) = 9" by (simp add: sol_sample_request_def sol_sample_asset_def)
  ultimately show ?thesis by (simp add: estimateTransfer_def sbind_slift sbind_def p)
qed

end
