(* ===== verification/SendSafety.thy ===== *)
theory SendSafety
  imports SendFlow
begin

text \<open>
  What holds of every program an adapter may run with the key it is lent: the record of the request
  survives and stays unresolved until the outcome is written; the last transaction a recording signer
  let go is the one the record names; a request whose key is known signs nothing.
\<close>

section \<open>Events and steps\<close>

definition record_at :: "op_file file_state \<Rightarrow> string \<Rightarrow> string \<Rightarrow> operation option" where
  "record_at s i k = (case ledger_of s i of None \<Rightarrow> None | Some M \<Rightarrow> M k)"

lemma record_at_alive:
  "alive i k h t0 (ledger_of s) \<longleftrightarrow>
     (\<exists>r. record_at s i k = Some r \<and> op_RequestHash r = h \<and> \<not> resolved (op_Status r) \<and> t0 \<le> op_UpdatedAt r)"
  by (auto simp: alive_def record_at_def split: option.splits)

text \<open>What the environment of a program does: \<open>P\<close> of every event of other requests, \<open>Q\<close> of the clock
  and disk whenever a signature is asked for.\<close>

primrec all_steps :: "'r world \<Rightarrow> (store_event \<Rightarrow> bool) \<Rightarrow> (store_env \<Rightarrow> bool) \<Rightarrow> bool" where
  "all_steps (Finished r) = (\<lambda>P Q. True)"
| "all_steps (AskDigest ev ended digest k) = (\<lambda>P Q. Q ev \<and> (\<forall>answer. all_steps (k answer) P Q))"
| "all_steps (AskMessage ev ended message k) = (\<lambda>P Q. Q ev \<and> (\<forall>answer. all_steps (k answer) P Q))"
| "all_steps (BeforeSigning h w) = all_steps w"
| "all_steps (Send raw node w) = all_steps w"
| "all_steps (Elsewhere e w) = (\<lambda>P Q. P e \<and> all_steps w P Q)"
| "all_steps Dies = (\<lambda>P Q. True)"

definition timely :: "int \<Rightarrow> store_env \<Rightarrow> bool" where
  "timely t0 ev \<longleftrightarrow> visits (se_visit ev) \<and> t0 \<le> se_now ev \<and> se_now ev < t0 + retention"

text \<open>Events that leave the transaction of a record alone.\<close>

definition quiet :: "int \<Rightarrow> string \<Rightarrow> string \<Rightarrow> store_event \<Rightarrow> bool" where
  "quiet t0 i k e \<longleftrightarrow> fair_event e \<and> keeps_open t0 e \<and> event_target e \<noteq> Some (i, k)"

text \<open>An event of another request: at a time within the retention period; one that updates a record does
  not resolve the operation \<open>k\<close> of the space \<open>i\<close>, or does not touch it. It may do what it likes to any other
  record, and a new reservation may prune.\<close>

definition on_time :: "int \<Rightarrow> store_event \<Rightarrow> bool" where
  "on_time t0 e \<longleftrightarrow> fair_event e \<and> t0 \<le> se_now (event_env e) \<and> se_now (event_env e) < t0 + retention"

definition spares :: "string \<Rightarrow> string \<Rightarrow> store_event \<Rightarrow> op_file file_state \<Rightarrow> bool" where
  "spares i k e s \<longleftrightarrow> (event_status e \<noteq> None \<longrightarrow> (\<forall>r. record_at (run_event e s) i k = Some r \<longrightarrow> \<not> resolved (op_Status r)))"

definition avoids :: "string \<Rightarrow> string \<Rightarrow> store_event \<Rightarrow> op_file file_state \<Rightarrow> bool" where
  "avoids i k e s \<longleftrightarrow> (event_status e \<noteq> None \<longrightarrow> record_at (run_event e s) i k = record_at s i k)"

fun history :: "(store_event \<Rightarrow> op_file file_state \<Rightarrow> bool) \<Rightarrow> int \<Rightarrow> store_event list \<Rightarrow> op_file file_state \<Rightarrow> bool" where
  "history P t0 [] s \<longleftrightarrow> True"
| "history P t0 (e # es) s \<longleftrightarrow> on_time t0 e \<and> P e s \<and> history P t0 es (run_event e s)"

text \<open>The same of the requests that run in between the steps of a program, in the states they meet.\<close>

primrec undisturbed ::
  "'r world \<Rightarrow> (store_event \<Rightarrow> op_file file_state \<Rightarrow> bool) \<Rightarrow> int \<Rightarrow> platform_ctx \<Rightarrow> lent \<Rightarrow> u64 \<Rightarrow> op_file file_state \<Rightarrow> bool" where
  "undisturbed (Finished r) = (\<lambda>P t0 C L height s. True)"
| "undisturbed (AskDigest ev ended digest k) = (\<lambda>P t0 C L height s. timely t0 ev \<and>
     (case ask_digest C L ev ended digest s of (t, ans) \<Rightarrow> undisturbed (k ans) P t0 C L height t))"
| "undisturbed (AskMessage ev ended message k) = (\<lambda>P t0 C L height s. timely t0 ev \<and>
     (case ask_message C L height ev ended message s of (t, ans) \<Rightarrow> undisturbed (k ans) P t0 C L height t))"
| "undisturbed (BeforeSigning h w) = (\<lambda>P t0 C L height s. undisturbed w P t0 C L h s)"
| "undisturbed (Send raw node w) = undisturbed w"
| "undisturbed (Elsewhere e w) = (\<lambda>P t0 C L height s. on_time t0 e \<and> P e s \<and> undisturbed w P t0 C L height (run_event e s))"
| "undisturbed Dies = (\<lambda>P t0 C L height s. True)"

lemma ask_digest_event:
  "fst (ask_digest C L ev ended d s) = s \<or>
     fst (ask_digest C L ev ended d s) = run_event (EvUpdate ev (ln_space L) (ln_opkey L) (HexEncode d) StatusBroadcasting) s"
  by (auto simp: ask_digest_def recordingTronSigner_def recordingSigner_SignDigest_def
      split: chain_key.splits prod.splits sum.splits)

lemma ask_message_event:
  "fst (ask_message C L h ev ended m s) = s \<or>
     (\<exists>tx. fst (ask_message C L h ev ended m s) =
        run_event (EvUpdateExpiring ev (ln_space L) (ln_opkey L) tx StatusBroadcasting h) s)"
  unfolding ask_message_def recordingMessageSigner_def recordingMessage_SignMessage_def
  by (cases "ln_signer L") (auto split: prod.splits sum.splits option.splits, (metis fst_conv)+)

lemma broadcasting_open: "timely t0 ev \<Longrightarrow> fair_event (EvUpdate ev i k tx StatusBroadcasting)"
  "timely t0 ev \<Longrightarrow> keeps_open t0 (EvUpdate ev i k tx StatusBroadcasting)"
  "timely t0 ev \<Longrightarrow> fair_event (EvUpdateExpiring ev i k tx StatusBroadcasting b)"
  "timely t0 ev \<Longrightarrow> keeps_open t0 (EvUpdateExpiring ev i k tx StatusBroadcasting b)"
  by (simp_all add: timely_def fair_event_def keeps_open_def resolved_def status_defs)

text \<open>The files stay well formed and the record of a request stays alive.\<close>

definition safe_store :: "int \<Rightarrow> string \<Rightarrow> string \<Rightarrow> string \<Rightarrow> op_file file_state \<Rightarrow> bool" where
  "safe_store t0 i k h s \<longleftrightarrow> store_ok s \<and> alive i k h t0 (ledger_of s)"

lemma safe_event: "safe_store t0 i k h s \<Longrightarrow> fair_event e \<Longrightarrow> keeps_open t0 e \<Longrightarrow> safe_store t0 i k h (run_event e s)"
  unfolding safe_store_def by (blast intro: ops.inv_run replay.fact_run)

lemma spared:
  assumes "safe_store t0 i k h s" "on_time t0 e" "spares i k e s"
  shows "safe_store t0 i k h (run_event e s)"
proof -
  have now: "fair_event e" "t0 \<le> se_now (event_env e)" "se_now (event_env e) < t0 + retention"
    using assms(2) by (simp_all add: on_time_def)
  have ok: "store_ok s" and "alive i k h t0 (ledger_of s)" using assms(1) by (simp_all add: safe_store_def)
  then obtain M q where q: "ledger_of s i = Some M" "M k = Some q" "op_RequestHash q = h" "\<not> resolved (op_Status q)" "t0 \<le> op_UpdatedAt q"
    by (auto simp: alive_def)
  have "alive i k h t0 (ledger_of (run_event e s))"
    using run_event_ledger [OF ok now(1)]
  proof cases
    case stay
    then show ?thesis using assms(1) by (simp add: safe_store_def)
  next
    case (reserve j N l D r)
    have "\<not> droppable (se_now (event_env e)) q" using q(4,5) now(3) by (simp add: droppable_def)
    then have "k \<notin> D \<and> k \<noteq> l" if "i = j" using reserve(2-4) q(1,2) that by fastforce
    then show ?thesis using q reserve(1,2) by (auto simp: alive_def)
  next
    case (advance j N l r r')
    have "\<not> resolved (op_Status r')" if "j = i" "l = k"
      using assms(3) advance(1,6) that by (auto simp: spares_def record_at_def)
    then show ?thesis using q advance(1-5) now(2) by (auto simp: alive_def same_request_def)
  qed
  moreover have "store_ok (run_event e s)" using ok now(1) by (rule ops.inv_run)
  ultimately show ?thesis by (simp add: safe_store_def)
qed

lemma avoids_spares: "safe_store t0 i k h s \<Longrightarrow> avoids i k e s \<Longrightarrow> spares i k e s"
  by (auto simp: safe_store_def record_at_alive avoids_def spares_def)

lemma history_safe: "history (spares i k) t0 es s \<Longrightarrow> safe_store t0 i k h s \<Longrightarrow> safe_store t0 i k h (run_all run_event es s)"
  by (induction es arbitrary: s) (auto simp del: run_event.simps intro: spared)

lemma safe_broadcasting:
  assumes "safe_store t0 i k h s" "timely t0 ev"
  shows "safe_store t0 i k h (run_event (EvUpdate ev j key tx StatusBroadcasting) s)"
    "safe_store t0 i k h (run_event (EvUpdateExpiring ev j key tx StatusBroadcasting b) s)"
  by (rule safe_event [OF assms(1) broadcasting_open(1) [OF assms(2)] broadcasting_open(2) [OF assms(2)]],
      rule safe_event [OF assms(1) broadcasting_open(3) [OF assms(2)] broadcasting_open(4) [OF assms(2)]])

lemma safe_ask:
  assumes "safe_store t0 i k h s" "timely t0 ev"
  shows "safe_store t0 i k h (fst (ask_digest C L ev ended d s))"
    "safe_store t0 i k h (fst (ask_message C L height ev ended m s))"
  using assms ask_digest_event [of C L ev ended d s] ask_message_event [of C L height ev ended m s]
    safe_broadcasting [OF assms]
  by (auto simp del: run_event.simps)

text \<open>Runs of a program, one step at a time.\<close>

lemma run_digestE:
  assumes "run_world (AskDigest ev ended d w) C L h s = (t, tr, r)"
  obtains a ans tr' where "ask_digest C L ev ended d s = (a, ans)" "run_world (w ans) C L h a = (t, tr', r)"
    "tr = digest_event L d ans # tr'"
  using assms by (auto simp: Let_def split: prod.splits)

lemma run_messageE:
  assumes "run_world (AskMessage ev ended m w) C L h s = (t, tr, r)"
  obtains a ans tr' where "ask_message C L h ev ended m s = (a, ans)" "run_world (w ans) C L h a = (t, tr', r)"
    "tr = message_event C ans # tr'"
  using assms by (auto simp: Let_def split: prod.splits)

lemma run_sendE:
  assumes "run_world (Send raw node w) C L h s = (t, tr, r)"
  obtains tr' where "run_world w C L h s = (t, tr', r)" "tr = Sent raw node # tr'"
  using assms by (auto simp: Let_def split: prod.splits)

lemma safe_world:
  "undisturbed w (spares i k) t0 C L height s \<Longrightarrow> safe_store t0 i k h s \<Longrightarrow>
     run_world w C L height s = (t, tr, r) \<Longrightarrow> safe_store t0 i k h t"
proof (induction w arbitrary: height s t tr r)
  case (AskDigest ev ended d w)
  from AskDigest.prems(3) obtain a ans tr'
    where a: "ask_digest C L ev ended d s = (a, ans)" "run_world (w ans) C L height a = (t, tr', r)"
    by (rule run_digestE)
  have "safe_store t0 i k h a"
    using safe_ask(1) [of t0 i k h s ev C L ended d] AskDigest.prems(1,2) a(1) by simp
  then show ?case using AskDigest.IH [OF rangeI _ _ a(2)] AskDigest.prems(1) a(1) by simp
next
  case (AskMessage ev ended m w)
  from AskMessage.prems(3) obtain a ans tr'
    where a: "ask_message C L height ev ended m s = (a, ans)" "run_world (w ans) C L height a = (t, tr', r)"
    by (rule run_messageE)
  have "safe_store t0 i k h a"
    using safe_ask(2) [of t0 i k h s ev C L height ended m] AskMessage.prems(1,2) a(1) by simp
  then show ?case using AskMessage.IH [OF rangeI _ _ a(2)] AskMessage.prems(1) a(1) by simp
next
  case (Send raw node w)
  then show ?case by (elim run_sendE) auto
next
  case (Elsewhere e w)
  then have "safe_store t0 i k h (run_event e s)" by (simp add: spared del: run_event.simps)
  moreover have "undisturbed w (spares i k) t0 C L height (run_event e s)"
    "run_world w C L height (run_event e s) = (t, tr, r)"
    using Elsewhere.prems(1,3) by simp_all
  ultimately show ?case using Elsewhere.IH by blast
qed simp_all

section \<open>The record names the transaction\<close>

text \<open>The last request for a signature in a trace.\<close>

fun last_ask :: "trace_event list \<Rightarrow> trace_event option" where
  "last_ask [] = None"
| "last_ask (e # tr) = (case last_ask tr of Some a \<Rightarrow> Some a | None \<Rightarrow> (case e of Sent _ _ \<Rightarrow> None | _ \<Rightarrow> Some e))"

definition names :: "int \<Rightarrow> string \<Rightarrow> string \<Rightarrow> string \<Rightarrow> op_file file_state \<Rightarrow> bool" where
  "names t0 i k tx s \<longleftrightarrow> (\<exists>r. record_at s i k = Some r \<and> op_TxHash r = tx \<and>
     \<not> resolved (op_Status r) \<and> t0 \<le> op_UpdatedAt r)"

lemma names_event:
  assumes "names t0 i k tx s" "store_ok s" "on_time t0 e" "avoids i k e s"
  shows "names t0 i k tx (run_event e s)"
proof (cases "event_status e")
  case None
  have now: "t0 \<le> se_now (event_env e)" "se_now (event_env e) < t0 + retention" "fair_event e"
    using assms(3) by (simp_all add: on_time_def)
  obtain M q where q: "ledger_of s i = Some M" "M k = Some q" "op_TxHash q = tx" "\<not> resolved (op_Status q)" "t0 \<le> op_UpdatedAt q"
    using assms(1) by (auto simp: names_def record_at_def split: option.splits)
  show ?thesis
    using run_event_ledger [OF assms(2) now(3)]
  proof cases
    case stay
    then show ?thesis using assms(1) by (simp add: names_def record_at_def)
  next
    case (reserve j N l D r)
    have "\<not> droppable (se_now (event_env e)) q" using q(4,5) now(2) by (simp add: droppable_def)
    then have "k \<notin> D \<and> k \<noteq> l" if "i = j" using reserve(2-4) q(1,2) that by fastforce
    then show ?thesis using q reserve(1,2) by (auto simp: names_def record_at_def)
  qed (use None in simp)
next
  case (Some st)
  then show ?thesis using assms(1,4) by (simp add: names_def avoids_def)
qed

lemma store_update_Inr:
  assumes "store_update ev i key tx st b s = (t, Inr item)"
  shows "\<exists>r. record_at s i (NormalizeKey key) = Some r \<and> item = update_record (se_now ev) tx st b r \<and>
    record_at t i (NormalizeKey key) = Some item"
proof -
  have id: "ValidID i ''spc_''" using assms by (auto simp: store_update_def sbind_scheck split: if_splits)
  obtain f where f: "loadLocked i s = (s, Inr f)"
    using assms id by (cases i s rule: load_cases) (auto simp: store_update_def sbind_scheck Let_def load_failed)
  obtain r where r: "map_of (of_Operations f) (NormalizeKey key) = Some r"
    using assms id by (cases "map_of (of_Operations f) (NormalizeKey key)")
      (auto simp: store_update_def sbind_scheck Let_def loaded [OF f])
  have "t = s(i := Holds (f\<lparr>of_Operations := AList.update (NormalizeKey key)
      (update_record (se_now ev) tx st b r) (of_Operations f)\<rparr>)) \<and> item = update_record (se_now ev) tx st b r"
    using assms id r by (simp add: store_update_def sbind_scheck Let_def loaded [OF f] saved_then)
  then show ?thesis
    using ledger_of_load [OF f] ledger_of_saved [OF f] r by (auto simp: record_at_def update_conv')
qed

definition recording :: "lent \<Rightarrow> bool" where
  "recording L \<longleftrightarrow> (\<forall>key. ln_signer L \<noteq> PlainDigest key)"

abbreviation lent_names :: "int \<Rightarrow> lent \<Rightarrow> string \<Rightarrow> op_file file_state \<Rightarrow> bool" where
  "lent_names t0 L tx s \<equiv> names t0 (ln_space L) (NormalizeKey (ln_opkey L)) tx s"

lemma updated_names:
  assumes "store_update ev i key tx StatusBroadcasting b s = (t, Inr item)" "tx \<noteq> []" "timely t0 ev"
  shows "names t0 i (NormalizeKey key) tx t"
  using store_update_Inr [OF assms(1)] assms(2,3)
  by (auto simp: names_def update_record_def timely_def resolved_def status_defs)

lemma HexEncode_nonempty: "length d = 32 \<Longrightarrow> HexEncode d \<noteq> []"
  by (metis HexEncode_length length_0_conv mult_eq_0_iff zero_neq_numeral)

lemma ask_digest_names:
  assumes "ask_digest C L ev ended d s = (a, Some sig)" "recording L" "timely t0 ev"
    "digest_event L d (Some sig) = Signed tx sig'"
  shows "lent_names t0 L tx a"
proof -
  obtain key where key: "ln_signer L = RecordingDigest key"
    using assms(1,2) by (cases "ln_signer L") (auto simp: ask_digest_def recording_def)
  then obtain item where u: "Update ev (ln_space L) (ln_opkey L) (HexEncode d) StatusBroadcasting s = (a, Inr item)"
    "SignDigest (pc_sign C) ended key d = Some sig"
    using assms(1) by (auto simp: ask_digest_def recordingTronSigner_def recordingSigner_SignDigest_def split: prod.splits sum.splits)
  then have "length d = 32" by (auto simp: SignDigest_def split: if_splits)
  then show ?thesis
    using updated_names [OF u(1) [unfolded Update_def] HexEncode_nonempty assms(3)] assms(4) key
    by (simp add: digest_event_def)
qed

lemma ask_message_names:
  assumes "ask_message C L h ev ended m s = (a, Some sig)" "timely t0 ev"
    "message_event C (Some sig) = Signed tx sig'"
  shows "lent_names t0 L tx a"
proof -
  obtain item where u: "UpdateExpiring ev (ln_space L) (ln_opkey L) (wl_base58_encode (sx_W (pc_space C)) sig) StatusBroadcasting h s
      = (a, Inr item)"
    using assms(1) by (auto simp: ask_message_def recordingMessageSigner_def recordingMessage_SignMessage_def
        split: chain_key.splits prod.splits sum.splits option.splits)
  then have "wl_base58_encode (sx_W (pc_space C)) sig \<noteq> []"
    "store_update ev (ln_space L) (ln_opkey L) (wl_base58_encode (sx_W (pc_space C)) sig) StatusBroadcasting h s = (a, Inr item)"
    by (auto simp: UpdateExpiring_def sbind_scheck split: if_splits)
  then show ?thesis using updated_names assms(2,3) by (auto simp: message_event_def)
qed

definition names_after :: "int \<Rightarrow> lent \<Rightarrow> op_file file_state \<Rightarrow> trace_event list \<Rightarrow> op_file file_state \<Rightarrow> bool" where
  "names_after t0 L s tr t \<longleftrightarrow>
     (case last_ask tr of
        None \<Rightarrow> \<forall>tx. lent_names t0 L tx s \<longrightarrow> lent_names t0 L tx t
      | Some (Signed tx sig) \<Rightarrow> lent_names t0 L tx t
      | Some _ \<Rightarrow> True)"

lemma names_after_ask:
  assumes "names_after t0 L a tr t" "\<And>tx sig. e = Signed tx sig \<Longrightarrow> lent_names t0 L tx a" "\<And>raw node. e \<noteq> Sent raw node"
  shows "names_after t0 L s (e # tr) t"
  using assms by (cases e; cases "last_ask tr") (auto simp: names_after_def)

lemma names_world:
  "undisturbed w (avoids (ln_space L) (NormalizeKey (ln_opkey L))) t0 C L height s \<Longrightarrow>
     safe_store t0 (ln_space L) (NormalizeKey (ln_opkey L)) h s \<Longrightarrow> recording L \<Longrightarrow>
     run_world w C L height s = (t, tr, r) \<Longrightarrow> names_after t0 L s tr t"
proof (induction w arbitrary: height s t tr r)
  case (AskDigest ev ended d w)
  from AskDigest.prems(4) obtain a ans tr'
    where a: "ask_digest C L ev ended d s = (a, ans)" "run_world (w ans) C L height a = (t, tr', r)"
      "tr = digest_event L d ans # tr'"
    by (rule run_digestE)
  have "safe_store t0 (ln_space L) (NormalizeKey (ln_opkey L)) h a"
    using safe_ask(1) [OF AskDigest.prems(2)] AskDigest.prems(1) a(1) by (metis fst_conv undisturbed.simps(2))
  then have "names_after t0 L a tr' t" using AskDigest.IH [OF rangeI _ _ _ a(2)] AskDigest.prems(1,3) a(1) by simp
  then show ?case
    unfolding a(3)
  proof (rule names_after_ask)
    show "lent_names t0 L tx a" if "digest_event L d ans = Signed tx sig" for tx sig
      using that ask_digest_names [of C L ev ended d s a] a(1) AskDigest.prems(1,3)
      by (cases ans) (auto simp: digest_event_def)
  qed (simp add: digest_event_def split: option.split)
next
  case (AskMessage ev ended m w)
  from AskMessage.prems(4) obtain a ans tr'
    where a: "ask_message C L height ev ended m s = (a, ans)" "run_world (w ans) C L height a = (t, tr', r)"
      "tr = message_event C ans # tr'"
    by (rule run_messageE)
  have "safe_store t0 (ln_space L) (NormalizeKey (ln_opkey L)) h a"
    using safe_ask(2) [OF AskMessage.prems(2)] AskMessage.prems(1) a(1) by (metis fst_conv undisturbed.simps(3))
  then have "names_after t0 L a tr' t" using AskMessage.IH [OF rangeI _ _ _ a(2)] AskMessage.prems(1,3) a(1) by simp
  then show ?case
    unfolding a(3)
  proof (rule names_after_ask)
    show "lent_names t0 L tx a" if "message_event C ans = Signed tx sig" for tx sig
      using that ask_message_names [of C L height ev ended m s a] a(1) AskMessage.prems(1)
      by (cases ans) (auto simp: message_event_def)
  qed (simp add: message_event_def split: option.split)
next
  case (Send raw node w)
  from Send.prems(4) obtain tr' where "run_world w C L height s = (t, tr', r)" "tr = Sent raw node # tr'"
    by (rule run_sendE)
  then show ?case using Send by (fastforce simp: names_after_def split: option.splits)
next
  case (Elsewhere e w)
  let ?i = "ln_space L" and ?k = "NormalizeKey (ln_opkey L)"
  have e: "on_time t0 e" "avoids ?i ?k e s" "undisturbed w (avoids ?i ?k) t0 C L height (run_event e s)"
    using Elsewhere.prems(1) by simp_all
  have "safe_store t0 ?i ?k h (run_event e s)" by (rule spared [OF Elsewhere.prems(2) e(1) avoids_spares [OF Elsewhere.prems(2) e(2)]])
  then have "names_after t0 L (run_event e s) tr t" using Elsewhere e(3) by simp
  then show ?case
    using names_event [OF _ _ e(1,2)] Elsewhere.prems(2)
    by (auto simp: names_after_def safe_store_def simp del: run_event.simps split: option.splits trace_event.splits)
qed (auto simp: names_after_def)

end
