(* ===== verification/SpaceSamples.thy ===== *)
theory SpaceSamples
  imports SpaceReach AccountCodec
begin

text \<open>
  One concrete context and run of the space manager, on which the properties are applied: a
  cipher that puts the key's first bytes behind the plaintext, two payloads, one space with one
  account.
\<close>

definition sample_wallet :: wallet_lib where
  "sample_wallet = \<lparr>wl_mnemonic_valid = (\<lambda>_. True), wl_new_mnemonic = (\<lambda>_. Some ''abc''),
     wl_new_seed = (\<lambda>m p. bytes_of m), wl_hd_master = Some, wl_hd_child = (\<lambda>k i. Some k),
     wl_hd_privkey = (\<lambda>_. Some (replicate 32 7)), wl_scalar_valid = (\<lambda>_. True),
     wl_evm_address = (\<lambda>k. ''0x'' @ HexEncode (take 2 k)), wl_tron_address = (\<lambda>h. Some (''T'' @ take 4 h)),
     wl_compress_pubkey = id, wl_sha256 = id, wl_hmac_sha512 = (\<lambda>k d. take 64 (k @ d @ replicate 64 0)),
     wl_ed25519_public = take 32, wl_base58_encode = HexEncode,
     wl_base58_decode = (\<lambda>s. case HexDecode s of None \<Rightarrow> [] | Some b \<Rightarrow> b), wl_json_ints = (\<lambda>_. None)\<rparr>"

definition sample_payload :: payload where
  "sample_payload = \<lparr>py_Version = 1, py_Mnemonic = ''abc'', py_BIP39Passphrase = [],
     py_ImportedKeys = Map.empty, py_CreatedAt = 100\<rparr>"

definition sample_ref :: string where "sample_ref = ''key_aaaaaaaaaaaaaaaaaaaa''"

definition sample_payload_key :: payload where
  "sample_payload_key = sample_payload\<lparr>py_ImportedKeys := [sample_ref \<mapsto>
     \<lparr>ke_Curve = CurveSecp256k1, ke_PrivateKey = replicate 32 1, ke_ImportedAt = 100\<rparr>]\<rparr>"

definition sample_json :: "payload json_codec" where
  "sample_json = \<lparr>js_marshal = (\<lambda>p. if p = sample_payload then [0] else if p = sample_payload_key then [1] else []),
     js_unmarshal = (\<lambda>bs. if bs = [0] then Some sample_payload else if bs = [1] then Some sample_payload_key else None)\<rparr>"

definition sample_ctx :: space_ctx where
  "sample_ctx = \<lparr>sx_W = sample_wallet, sx_V = toy_vault, sx_J = sample_json\<rparr>"

definition sample_env :: "int \<Rightarrow> step_env" where
  "sample_env t = \<lparr>ev_t1 = t, ev_t2 = t, ev_now = t, ev_save = Written, ev_attempts = Written, ev_removed = True,
     ev_jitter = Some 0, ev_salt = replicate 16 1, ev_nonce = replicate 12 2,
     ev_id1 = Some (replicate 12 0), ev_id2 = Some (replicate 12 0), ev_ctx_ended = False\<rparr>"

definition sample_password :: string where "sample_password = ''horse battery 42''"
definition sample_password2 :: string where "sample_password2 = ''staple battery 7''"
definition sample_id :: string where "sample_id = ''spc_aaaaaaaaaaaaaaaaaaaa''"

definition sample_kdf :: vault_kdf where
  "sample_kdf = \<lparr>kdf_Name = ''argon2id'', kdf_Time = 3, kdf_MemoryKiB = 65536, kdf_Parallelism = 2,
     kdf_Salt = map (\<lambda>b. char_of (unat b)) (replicate 16 (1 :: byte))\<rparr>"

definition sample_key :: "string \<Rightarrow> session_key" where
  "sample_key pw = \<lparr>sk_key = take 32 (bytes_of pw @ replicate 32 0), sk_kdf = sample_kdf\<rparr>"

text \<open>The container of a payload encoded as \<open>bs\<close>.\<close>

definition sample_vault :: "string \<Rightarrow> byte list \<Rightarrow> container" where
  "sample_vault pw bs = \<lparr>ct_Version = 1, ct_KDF = sample_kdf,
     ct_Cipher = \<lparr>ci_Name = ''aes-256-gcm'', ci_Nonce = map (\<lambda>b. char_of (unat b)) (replicate 12 (2 :: byte))\<rparr>,
     ct_Ciphertext = map (\<lambda>b. char_of (unat b)) (bs @ take 16 (sk_key (sample_key pw) @ replicate 16 0))\<rparr>"

definition sample_manager :: manager where
  "sample_manager = \<lparr>mg_params = DefaultParams, mg_autoLock = 900000000000, mg_confirmSends = True,
     mg_sendGrantTTL = defaultSendGrantTTL, mg_files = [], mg_sessions = [], mg_disk = [], mg_attempts = []\<rparr>"

definition sample_request :: create_request where
  "sample_request = \<lparr>cq_Name = ''main'', cq_Mnemonic = ''abc'', cq_BIP39Passphrase = [],
     cq_Password = sample_password, cq_ImportedOnly = False, cq_ExpectEmpty = True\<rparr>"

definition sample_file :: space_file where
  "sample_file = \<lparr>sf_SchemaVersion = 1, sf_ID = sample_id, sf_Name = ''main'', sf_CreatedAt = 100,
     sf_UpdatedAt = 100, sf_Accounts = [], sf_Vault = sample_vault sample_password [0]\<rparr>"

definition sample_session :: session where
  "sample_session = \<lparr>ss_payload = sample_payload, ss_key = sample_key sample_password, ss_lastUsed = 100, ss_sendGrant = 0\<rparr>"

text \<open>The manager after \<open>Create\<close>.\<close>

definition sample_created :: manager where
  "sample_created = sample_manager\<lparr>mg_files := [(sample_id, sample_file)],
     mg_sessions := [(sample_id, sample_session)], mg_disk := [(sample_id, sample_file)]\<rparr>"

section \<open>Evaluation\<close>

lemma samples_differ [simp]: "sample_payload_key \<noteq> sample_payload" "sample_payload \<noteq> sample_payload_key"
proof -
  have "py_ImportedKeys sample_payload_key sample_ref \<noteq> py_ImportedKeys sample_payload sample_ref"
    by (simp add: sample_payload_key_def sample_payload_def)
  then show "sample_payload_key \<noteq> sample_payload" by auto
  then show "sample_payload \<noteq> sample_payload_key" by simp
qed

lemma sample_marshal [simp]:
  "js_marshal sample_json sample_payload = [0]" "js_marshal sample_json sample_payload_key = [1]"
  "js_unmarshal sample_json [0] = Some sample_payload" "js_unmarshal sample_json [1] = Some sample_payload_key"
  by (simp_all add: sample_json_def)

lemma sample_ctx_simps [simp]:
  "sx_W sample_ctx = sample_wallet" "sx_V sample_ctx = toy_vault" "sx_J sample_ctx = sample_json"
  by (simp_all add: sample_ctx_def)

lemma sample_env_simps [simp]:
  "ev_t1 (sample_env t) = t" "ev_t2 (sample_env t) = t" "ev_now (sample_env t) = t"
  "ev_save (sample_env t) = Written" "ev_attempts (sample_env t) = Written" "ev_removed (sample_env t)"
  "ev_jitter (sample_env t) = Some 0" "ev_salt (sample_env t) = replicate 16 1"
  "ev_nonce (sample_env t) = replicate 12 2" "ev_id1 (sample_env t) = Some (replicate 12 0)"
  "ev_id2 (sample_env t) = Some (replicate 12 0)" "\<not> ev_ctx_ended (sample_env t)"
  by (simp_all add: sample_env_def)

lemma sample_laws: "vault_laws toy_vault sample_json"
  using toy_vault_laws
  by (simp add: vault_laws_def) (auto simp: sample_json_def split: if_splits)

lemma sample_fits [simp]:
  "vault_fits toy_vault sample_json sample_payload" "vault_fits toy_vault sample_json sample_payload_key"
  using sample_laws by (simp_all add: vault_fits_def maxCiphertextSize_def)

lemma sample_seal:
  assumes "js_marshal J p = [b]" "pw \<noteq> []"
  shows "vault_SealJSON toy_vault J (replicate 16 1) (replicate 12 2) pw p aad DefaultParams = Inr (sample_vault pw [b])"
proof -
  have "min n 32 + (32 - n) = (32 :: nat)" for n by simp
  then show ?thesis
    using assms
    by (simp add: vault_SealJSON_def vault_Encrypt_def validateKDF_def DefaultParams_def ReadFull_def
      NewCipher_def gcmNonceSize_def Let_def toy_vault_def word_less_def minKDFTime_def sample_vault_def sample_kdf_def
      sample_key_def vault_Version_def maxKDFTime_def minKDFMemoryKiB_def maxKDFMemoryKiB_def maxKDFParallelism_def)
qed

lemma toy_decode: "vl_b64_decode toy_vault (map (\<lambda>b. char_of (unat b)) bs) = Some bs"
  by (simp add: toy_vault_def comp_def of_char_byte)

lemma take_append_replicate: "k \<le> length xs + n \<Longrightarrow> length (take k (xs @ replicate n x)) = k"
  by simp

lemma sample_tag:
  "take 16 (sk_key (sample_key pw) @ replicate 16 0) = take 16 (sk_key (sample_key pw))"
  by (simp add: sample_key_def)

text \<open>The sample vault opens under its password only.\<close>

lemma sample_unlock:
  "vault_Unlock toy_vault pw' (sample_vault pw [b]) aad =
     (if take 16 (sk_key (sample_key pw')) = take 16 (sk_key (sample_key pw))
      then Inr ([b], sample_key pw') else Inl ErrInvalidPassword)"
proof -
  have kdf: "validateKDF sample_kdf = Inr ()"
    by (simp add: validateKDF_def sample_kdf_def word_less_def minKDFTime_def maxKDFTime_def
        minKDFMemoryKiB_def maxKDFMemoryKiB_def maxKDFParallelism_def)
  have dec: "vl_b64_decode toy_vault (kdf_Salt sample_kdf) = Some (replicate 16 1)"
    "vl_b64_decode toy_vault (ci_Nonce (ct_Cipher (sample_vault pw [b]))) = Some (replicate 12 2)"
    "vl_b64_decode toy_vault (ct_Ciphertext (sample_vault pw [b])) = Some (b # take 16 (sk_key (sample_key pw)))"
    by (simp_all only: sample_kdf_def sample_vault_def vault_kdf.select_convs vault_cipher.select_convs
        container.select_convs toy_decode sample_tag append_Cons append_Nil)
  have key: "vl_argon2 toy_vault (bytes_of pw') s a c d = sk_key (sample_key pw')" for s a c d
    by (simp add: toy_vault_def sample_key_def)
  have len: "length (take 16 (sk_key (sample_key pw))) = 16" "length (sk_key (sample_key pw')) = 32"
    by (simp_all add: sample_key_def)
  have opened: "vl_gcm_open toy_vault (sk_key (sample_key pw')) nonce (b # take 16 (sk_key (sample_key pw))) aad =
    (if take 16 (sk_key (sample_key pw')) = take 16 (sk_key (sample_key pw)) then Some [b] else None)" for nonce
    using len by (simp add: toy_vault_def)
  show ?thesis
    using kdf dec len
    by (simp add: vault_Unlock_def sample_vault_def [of pw "[b]", simplified sample_tag] vault_Version_def
        openWithKey_def NewCipher_def gcmNonceSize_def maxCiphertextSize_def key opened Let_def)
      (auto simp: sample_key_def sample_kdf_def sample_vault_def)
qed

lemma sample_passwords:
  "take 16 (sk_key (sample_key sample_password)) \<noteq> take 16 (sk_key (sample_key sample_password2))"
  by (simp add: sample_key_def sample_password_def sample_password2_def bytes_of_def)

lemma sample_unlockJSON:
  assumes "js_unmarshal J [b] = Some p"
  shows "vault_UnlockJSON toy_vault J pw (sample_vault pw [b]) aad = Inr (p, sample_key pw)"
  using assms by (simp add: vault_UnlockJSON_def sample_unlock)

lemma sample_openJSON:
  assumes "js_unmarshal J [b] = Some p"
  shows "vault_OpenJSON toy_vault J pw (sample_vault pw [b]) aad = Inr p"
  using assms by (simp add: vault_OpenJSON_def vault_Decrypt_def sample_unlock)

lemma runes_ascii: "\<forall>c\<in>set s. of_char c < (128 :: nat) \<Longrightarrow> runes s = map of_char s"
  unfolding runes_def by (induction s) simp_all

lemma sample_policy [simp]:
  "validateNewPassword sample_password = Inr ()" "validateNewPassword sample_password2 = Inr ()"
  by (simp_all add: validateNewPassword_def sample_password_def sample_password2_def RuneCountInString_def
      runes_ascii minPasswordLength_def isSingleRepeatedRune_def trim_runes_def rune_is_space_def rune_lower_def
      commonPasswords_def)

lemma sample_newID [simp]:
  "newID ''spc_'' (Some (replicate 12 0)) = Inr sample_id"
  "newID ''key_'' (Some (replicate 12 0)) = Inr sample_ref"
  "newID ''acc_'' (Some (replicate 12 0)) = Inr ''acc_aaaaaaaaaaaaaaaaaaaa''"
proof -
  have "get_le (rev (replicate 12 0)) = 0" by (simp add: numeral_eq_Suc)
  then have "base32_lower (replicate 12 0) = replicate 20 (CHR ''a'')"
    by (simp add: base32_lower_def base32_alphabet_def Let_def map_replicate_const)
  then show "newID ''spc_'' (Some (replicate 12 0)) = Inr sample_id"
  "newID ''key_'' (Some (replicate 12 0)) = Inr sample_ref"
  "newID ''acc_'' (Some (replicate 12 0)) = Inr ''acc_aaaaaaaaaaaaaaaaaaaa''"
    by (simp_all add: newID_def sample_id_def sample_ref_def numeral_eq_Suc)
qed

lemma sample_ValidID [simp]: "ValidID sample_id ''spc_''"
  by code_simp

lemma sample_Create: "Create sample_ctx (sample_env 100) sample_request sample_manager =
  (sample_created, Inr (summaryLocked sample_created sample_file, ''abc'', False))"
proof -
  have pw: "sample_password \<noteq> []" by (simp add: sample_password_def)
  have norm: "NormalizeMnemonic ''abc'' = ''abc''"
    by (simp add: NormalizeMnemonic_def found_plain plain_def is_space_def)
  have "TrimSpace ''main'' = ''main''" by (rule TrimSpace_id) (simp add: plain_def is_space_def)
  then have name: "space_name ''main'' = ''main''" by (simp add: space_name_def)
  have sample_valid: "wl_mnemonic_valid sample_wallet w" for w by (simp add: sample_wallet_def)
  have seal: "vault_SealJSON toy_vault sample_json (replicate 16 1) (replicate 12 2) sample_password sample_payload aad
      DefaultParams = Inr (sample_vault sample_password [0])" for aad
    by (rule sample_seal) (simp_all add: pw)
  have "Create_prepare sample_ctx (sample_env 100) sample_request sample_manager =
    Inr (sample_file, sample_payload, sample_key sample_password, ''abc'', False)"
    unfolding Create_prepare_def create_mnemonic_def
    by (simp add: sample_request_def norm ValidateMnemonic_def sample_payload_def [symmetric]
        account_result_def vault_result_def seal sample_unlock spaceQuota_def maxSpaces_def
        sample_manager_def SchemaVersion_def name sample_file_def Let_def sample_valid)
  then show ?thesis
    by (simp add: Create_def sbind_slift sbind_scheck Create_commit_def sbind_def spaceQuota_def maxSpaces_def sample_manager_def
        saveAndPut_def saveLocked_def sample_created_def sample_request_def putFile_def putSession_def sample_session_def)
      (simp add: sample_file_def)
qed

lemma sample_session_at [simp]: "map_of (mg_sessions sample_created) sample_id = Some sample_session"
  by (simp add: sample_created_def)

section \<open>Further steps\<close>

lemma sample_reseal:
  assumes "js_marshal J p = [b]"
  shows "SessionKey_SealJSON toy_vault J (replicate 12 2) (Some (sample_key pw)) p aad = Inr (sample_vault pw [b])"
proof -
  have kdf: "validateKDF sample_kdf = Inr ()"
    by (simp add: validateKDF_def sample_kdf_def word_less_def minKDFTime_def maxKDFTime_def
        minKDFMemoryKiB_def maxKDFMemoryKiB_def maxKDFParallelism_def)
  have "length (sk_key (sample_key pw)) = 32" "sk_kdf (sample_key pw) = sample_kdf" by (simp_all add: sample_key_def)
  then show ?thesis
    using assms kdf
    by (simp add: SessionKey_SealJSON_def SessionKey_Seal_def NewCipher_def ReadFull_def gcmNonceSize_def Let_def
        sample_vault_def vault_Version_def) (simp add: toy_vault_def)
qed

definition sample_hex :: string where "sample_hex = HexEncode (replicate 32 1)"

definition sample_addresses :: addresses where
  "sample_addresses = [(FamilyTron, ''T'' @ take 4 sample_hex), (FamilyEVM, ''0x'' @ HexEncode (replicate 2 1))]"

lemma sample_parse: "parseImportedKey sample_wallet CurveSecp256k1 sample_hex =
  Inr (replicate 32 1, HexEncode (replicate 16 1), sample_addresses)"
proof -
  have ok: "ToECDSA sample_wallet (replicate 32 1) = Some (replicate 32 1)"
    by (simp add: ToECDSA_def sample_wallet_def)
  have "ImportedAddresses sample_wallet (replicate 32 1) = Inr sample_addresses"
    by (simp add: ImportedAddresses_def AddressFromPrivateKey_def sample_wallet_def sample_addresses_def sample_hex_def)
  moreover have "Fingerprint sample_wallet (replicate 32 1) = HexEncode (replicate 16 1)"
    by (simp add: Fingerprint_def sample_wallet_def)
  ultimately show ?thesis
    using reimport_secp256k1 [OF ok] by (simp add: sample_hex_def account_result_def)
qed

definition sample_imported :: account where
  "sample_imported = \<lparr>ac_ID = ''acc_aaaaaaaaaaaaaaaaaaaa'', ac_Label = ''k'', ac_Kind = KindImported, ac_Family = [],
     ac_NetworkIDs = [''eth''], ac_Addresses = sample_addresses,
     ac_Index = None, ac_DerivationProfile = [], ac_KeyRef = sample_ref, ac_Fingerprint = HexEncode (replicate 16 1),
     ac_ImportedAt = Some 100, ac_CreatedAt = 100, ac_UpdatedAt = 100\<rparr>"

definition sample_after_import :: manager where
  "sample_after_import = sample_created\<lparr>
     mg_files := [(sample_id, sample_file\<lparr>sf_Accounts := [sample_imported], sf_Vault := sample_vault sample_password [1]\<rparr>)],
     mg_sessions := [(sample_id, sample_session\<lparr>ss_payload := sample_payload_key\<rparr>)],
     mg_disk := [(sample_id, sample_file\<lparr>sf_Accounts := [sample_imported], sf_Vault := sample_vault sample_password [1]\<rparr>)]\<rparr>"

lemma sample_unlocked: "unlockedLocked 100 sample_id sample_created = (sample_created, Inr (sample_file, sample_payload))"
  by (simp add: unlockedLocked_def sbind_def lookupFile_def expireLocked_def sample_created_def sample_manager_def
      putSession_def sample_session_def)

lemma sample_networks: "networkList [''eth''] = Inr [''eth'']"
  by (simp add: networkList_def)

lemma sample_curve: "CurveOf FamilyEVM = Inr CurveSecp256k1"
  by (simp add: CurveOf_def)

lemma sample_payload_put:
  "sample_payload\<lparr>py_ImportedKeys := (py_ImportedKeys sample_payload)(sample_ref \<mapsto>
     \<lparr>ke_Curve = CurveSecp256k1, ke_PrivateKey = replicate 32 1, ke_ImportedAt = 100\<rparr>)\<rparr> = sample_payload_key"
  by (simp add: sample_payload_key_def sample_payload_def)

lemma sample_Import:
  "ImportNetworks sample_ctx (sample_env 100) sample_id [''eth''] FamilyEVM ''k'' sample_hex sample_created =
     (sample_after_import, Inr sample_imported)"
proof -
  have trim: "TrimSpace ''k'' = ''k''" by (rule TrimSpace_id) (simp add: plain_def is_space_def)
  have reseal: "SessionKey_SealJSON toy_vault sample_json (replicate 12 2) (Some (sample_key sample_password)) sample_payload_key aad
      = Inr (sample_vault sample_password [1])" for aad
    by (rule sample_reseal) simp
  have quota: "accountQuota sample_file = Inr ()" by (simp add: accountQuota_def sample_file_def maxAccountsPerSpace_def)
  have accs: "sf_Accounts sample_file = []" "sf_ID sample_file = sample_id" by (simp_all add: sample_file_def)
  have imp: "\<lparr>ac_ID = ''acc_aaaaaaaaaaaaaaaaaaaa'', ac_Label = ''k'', ac_Kind = KindImported, ac_Family = [],
     ac_NetworkIDs = [''eth''], ac_Addresses = sample_addresses,
     ac_Index = None, ac_DerivationProfile = [], ac_KeyRef = sample_ref, ac_Fingerprint = HexEncode (replicate 16 1),
     ac_ImportedAt = Some 100, ac_CreatedAt = 100, ac_UpdatedAt = 100\<rparr> = sample_imported"
    by (simp add: sample_imported_def)
  have sess: "setSessionPayload sample_id p sample_created =
     sample_created\<lparr>mg_sessions := [(sample_id, sample_session\<lparr>ss_payload := p\<rparr>)]\<rparr>" for p
    by (simp add: setSessionPayload_def sample_created_def putSession_def)
  show ?thesis
    unfolding ImportNetworks_def
    by (simp add: sample_networks sample_curve sample_parse account_result_def sbind_slift sbind_def [of "unlockedLocked _ _"] sample_unlocked
      quota trim sample_payload_put Let_def accs sess imp del: append.simps)
      (simp add: resealAndSaveLocked_def sbind_def sample_session_def reseal vault_result_def saveLocked_def putFile_def
      accs sample_created_def sample_after_import_def sample_file_def)
qed

lemma sample_attempts: "checkUnlockCooldown i now sample_created = Inr ()"
  by (simp add: checkUnlockCooldown_def readAttempts_def sample_created_def sample_manager_def no_attempts_def
      freeUnlockAttempts_def)

lemma sample_verify: "verifyPayload sample_wallet sample_file sample_payload = Inr ()"
  by (rule verifyPayload_no_accounts) (simp_all add: sample_file_def sample_payload_def)

lemma sample_clear: "clearUnlockFailures (sample_env t) sample_id sample_created = sample_created"
  by (simp add: clearUnlockFailures_def sample_created_def sample_manager_def)

lemma sample_lookup: "lookupFile sample_id sample_created = (sample_created, Inr sample_file)"
  by (simp add: lookupFile_def sample_created_def)

lemma sample_confirm: "confirmPassword sample_ctx (sample_env t) sample_id sample_password sample_created = (sample_created, Inr ())"
proof -
  have "sf_Vault sample_file = sample_vault sample_password [0]" "sample_password \<noteq> []"
    by (simp_all add: sample_file_def sample_password_def)
  then show ?thesis
    by (simp add: confirmPassword_def sbind_scheck sbind_slift sbind_def [of "lookupFile _"] sample_lookup sample_attempts sample_clear
        sample_unlockJSON)
qed

lemma sample_ChangePassword_prepare:
  "ChangePassword_prepare sample_ctx (sample_env 100) sample_id sample_password sample_password2 sample_created =
     (sample_created, Inr (sample_vault sample_password2 [0], Some (sample_payload, sample_key sample_password2)))"
proof -
  have "sf_Vault sample_file = sample_vault sample_password [0]" by (simp add: sample_file_def)
  moreover have "vault_SealJSON toy_vault sample_json (replicate 16 1) (replicate 12 2) sample_password2 sample_payload aad
      DefaultParams = Inr (sample_vault sample_password2 [0])" for aad
    by (rule sample_seal) (simp_all add: sample_password2_def)
  moreover have "mg_params sample_created = DefaultParams" by (simp add: sample_created_def sample_manager_def)
  ultimately show ?thesis
    by (simp add: ChangePassword_prepare_def sbind_slift sbind_def [of "lookupFile _"] sample_lookup sample_attempts sample_clear
        sample_openJSON sample_unlockJSON sample_verify vault_result_def)
qed

lemma sample_commit:
  "\<exists>m3. ChangePassword_commit (sample_env 100) sample_id (sample_vault sample_password2 [0])
     (Some (sample_payload, sample_key sample_password2)) sample_after_import = (m3, Inr ())"
  by (simp add: ChangePassword_commit_def sbind_def lookupFile_def sample_after_import_def saveAndPut_def saveLocked_def putFile_def)

definition sample_derived :: account where
  "sample_derived = \<lparr>ac_ID = ''acc_aaaaaaaaaaaaaaaaaaaa'', ac_Label = ''k'', ac_Kind = KindDerived, ac_Family = FamilyEVM,
     ac_NetworkIDs = [''eth''], ac_Addresses = [(FamilyEVM, ''0x'' @ HexEncode (replicate 2 7))], ac_Index = Some 0,
     ac_DerivationProfile = ''bip44-v1'', ac_KeyRef = [], ac_Fingerprint = [], ac_ImportedAt = None,
     ac_CreatedAt = 100, ac_UpdatedAt = 100\<rparr>"

definition sample_after_derive :: manager where
  "sample_after_derive = sample_created\<lparr>
     mg_files := [(sample_id, sample_file\<lparr>sf_Accounts := [sample_derived]\<rparr>)],
     mg_disk := [(sample_id, sample_file\<lparr>sf_Accounts := [sample_derived]\<rparr>)]\<rparr>"

lemma sample_DerivedAddress:
  "DerivedAddress sample_wallet ''abc'' [] FamilyEVM n = Inr (''0x'' @ HexEncode (replicate 2 7))"
  by (simp add: DerivedAddress_def sample_curve DerivePrivateKey_def ValidateMnemonic_def Let_def sample_wallet_def
      ToECDSA_def AddressFromPrivateKey_def)

lemma sample_Derive:
  "DeriveNetworks sample_ctx (sample_env 100) sample_id [''eth''] FamilyEVM ''k'' sample_created =
     (sample_after_derive, Inr sample_derived)"
proof -
  have trim: "TrimSpace ''k'' = ''k''" by (rule TrimSpace_id) (simp add: plain_def is_space_def)
  have facts: "sf_Accounts sample_file = []" "accountQuota sample_file = Inr ()" "sf_ID sample_file = sample_id"
    "py_Mnemonic sample_payload = ''abc''" "py_BIP39Passphrase sample_payload = []"
    by (simp_all add: sample_file_def accountQuota_def maxAccountsPerSpace_def sample_payload_def)
  have index: "next_index (used_indexes [''eth''] []) 0 = Inr 0"
    by (simp add: used_indexes_def next_index.simps)
  show ?thesis
    by (simp add: DeriveNetworks_def sample_networks sample_curve account_result_def sbind_slift sbind_scheck
        sbind_def [of "unlockedLocked _ _"] sample_unlocked facts index sample_DerivedAddress trim Let_def)
      (simp add: sbind_def saveAndPut_def saveLocked_def putFile_def sample_created_def sample_after_derive_def sample_derived_def sample_file_def)
qed

end
