(* ===== verification/SpaceDisk.thy ===== *)
theory SpaceDisk
  imports SpaceReach
begin

text \<open>
  The files on disk. \<open>stored_ok\<close>: what is on disk is what is in memory, and every file passes the
  checks a start makes. Every operation keeps it when its write does not report an error after it
  took effect and its random identifiers are new, so that a restart finds every space again.
\<close>

section \<open>New identifiers\<close>

lemma base32_chars:
  "c \<in> set base32_alphabet \<Longrightarrow> (CHR ''a'' \<le> c \<and> c \<le> CHR ''z'') \<or> (CHR ''0'' \<le> c \<and> c \<le> CHR ''9'')"
  by (auto simp: base32_alphabet_def less_eq_char_def)

lemma base32_lower_chars: "set (base32_lower bs) \<subseteq> set base32_alphabet"
proof -
  have "base32_alphabet ! (x mod 32) \<in> set base32_alphabet" for x
    by (rule nth_mem) (simp add: base32_alphabet_def)
  then show ?thesis by (auto simp: base32_lower_def Let_def)
qed

lemma base32_lower_length: "length (base32_lower bs) = (8 * length bs + 4) div 5"
  by (simp add: base32_lower_def Let_def)

lemma newID_valid:
  assumes "newID prefix (Some bs) = Inr r" "12 \<le> length bs"
  shows "ValidID r prefix" "length r = length prefix + 20"
proof -
  have r: "r = prefix @ base32_lower (take 12 bs)" using assms(1) by (simp add: newID_def)
  have len: "length (base32_lower (take 12 bs)) = 20" using assms(2) by (simp add: base32_lower_length min_def)
  then show "length r = length prefix + 20" by (simp add: r)
  have "(CHR ''a'' \<le> c \<and> c \<le> CHR ''z'') \<or> (CHR ''0'' \<le> c \<and> c \<le> CHR ''9'')"
    if "c \<in> set (base32_lower (take 12 bs))" for c
    using that base32_lower_chars base32_chars by blast
  then show "ValidID r prefix" using len by (auto simp: ValidID_def r)
qed

section \<open>Valid files\<close>

definition file_valid :: "string \<Rightarrow> space_file \<Rightarrow> bool" where
  "file_valid i f \<longleftrightarrow> validateFile f i = Inr ()"

lemma file_valid_iff: "file_valid i f \<longleftrightarrow> sf_SchemaVersion f = SchemaVersion \<and> sf_ID f = i \<and>
    ValidID i ''spc_'' \<and> TrimSpace (sf_Name f) \<noteq> [] \<and>
    (\<forall>x\<in>set (map ac_ID (sf_Accounts f)). ValidID x ''acc_'') \<and> distinct (map ac_ID (sf_Accounts f))"
  by (auto simp: file_valid_def validateFile_def rcheck_eq_Inr distinct_ids_iff)

lemma file_valid_same:
  "file_valid i f \<Longrightarrow> sf_ID g = sf_ID f \<Longrightarrow> sf_SchemaVersion g = sf_SchemaVersion f \<Longrightarrow> sf_Name g = sf_Name f \<Longrightarrow>
     map ac_ID (sf_Accounts g) = map ac_ID (sf_Accounts f) \<Longrightarrow> file_valid i g"
  by (simp add: file_valid_iff)

lemma update_first_ids:
  "update_first P g xs = Some (ys, y) \<Longrightarrow> (\<And>x. P x \<Longrightarrow> x \<in> set xs \<Longrightarrow> ac_ID (g x) = ac_ID x) \<Longrightarrow> map ac_ID ys = map ac_ID xs"
  by (induction P g xs arbitrary: ys y rule: update_first.induct) (auto split: if_splits option.splits)

lemma delete_first_ids:
  "set (map ac_ID (delete_first P xs)) \<subseteq> set (map ac_ID xs) \<and>
     (distinct (map ac_ID xs) \<longrightarrow> distinct (map ac_ID (delete_first P xs)))"
  by (induction P xs rule: delete_first.induct) auto

section \<open>Memory and disk\<close>

definition stored_ok :: "manager \<Rightarrow> bool" where
  "stored_ok m \<longleftrightarrow> map_of (mg_disk m) = map_of (mg_files m) \<and> distinct (map fst (mg_disk m)) \<and>
     (\<forall>i f. map_of (mg_files m) i = Some f \<longrightarrow> file_valid i f)"

lemma stored_ok_frame [simp]:
  "stored_ok (m\<lparr>mg_autoLock := a\<rparr>) = stored_ok m" "stored_ok (m\<lparr>mg_confirmSends := b\<rparr>) = stored_ok m"
  "stored_ok (m\<lparr>mg_sendGrantTTL := c\<rparr>) = stored_ok m" "stored_ok (m\<lparr>mg_sessions := d\<rparr>) = stored_ok m"
  "stored_ok (m\<lparr>mg_attempts := e\<rparr>) = stored_ok m"
  by (simp_all add: stored_ok_def)

lemma stored_ok_ops [simp]:
  "stored_ok (expireLocked now m) = stored_ok m" "stored_ok (putSession i ss m) = stored_ok m"
  "stored_ok (clearSessionLocked i m) = stored_ok m" "stored_ok (setSessionPayload i p m) = stored_ok m"
  "stored_ok (recordUnlockFailure ev i m) = stored_ok m" "stored_ok (clearUnlockFailures ev i m) = stored_ok m"
  by (simp_all add: stored_ok_def)

definition clean :: "step_env \<Rightarrow> bool" where "clean ev \<longleftrightarrow> ev_save ev \<noteq> WrittenWithError"

lemma saveAndPut_stored: "clean ev \<Longrightarrow> file_valid i f \<Longrightarrow> keeps stored_ok (saveAndPut ev i f)"
  by (cases "ev_save ev")
    (auto simp: keeps_def clean_def saveAndPut_def saveLocked_def sbind_def stored_ok_def putFile_def
      update_conv' file_valid_iff distinct_update)

text \<open>Binding with what the first operation promises of its value.\<close>

lemma keeps_bind_val:
  assumes "keeps I m" "\<And>s t v. I s \<Longrightarrow> m s = (t, Inr v) \<Longrightarrow> Q v" "\<And>v. Q v \<Longrightarrow> keeps I (f v)"
  shows "keeps I (sbind m f)"
  unfolding keeps_def
proof (intro allI impI)
  fix s assume s: "I s"
  obtain t r where m: "m s = (t, r)" by (cases "m s")
  have t: "I t" using keepsD [OF assms(1) s m] .
  show "I (fst (sbind m f s))"
  proof (cases r)
    case (Inr v)
    then show ?thesis using assms(2) [OF s] assms(3) [of v] t m by (simp add: sbind_def keeps_def)
  qed (use t m in \<open>simp add: sbind_def\<close>)
qed

lemma lookup_stored:
  assumes "\<And>f. file_valid i f \<Longrightarrow> keeps stored_ok (g f)"
  shows "keeps stored_ok (sbind (lookupFile i) g)"
proof (rule keeps_bind_val [where Q = "file_valid i"])
  show "keeps stored_ok (lookupFile i)" by (simp add: keeps_def lookupFile_def)
qed (auto simp: lookupFile_def stored_ok_def assms split: option.splits)

lemma slift_stored:
  assumes "\<And>v. r = Inr v \<Longrightarrow> keeps I (g v)"
  shows "keeps I (sbind (slift r) g)"
  by (rule keeps_bind_val [where Q = "\<lambda>v. r = Inr v"]) (auto simp: assms intro: keeps_intros)

lemma unlocked_stored:
  assumes "\<And>f p. file_valid i f \<Longrightarrow> keeps stored_ok (g (f, p))"
  shows "keeps stored_ok (sbind (unlockedLocked now i) g)"
proof (rule keeps_bind_val [where Q = "\<lambda>(f, p). file_valid i f"])
  show "keeps stored_ok (unlockedLocked now i)"
    unfolding unlockedLocked_def
    by (intro keeps_intros keeps_smodify lookupFile_keeps) simp_all
  fix s t v assume "stored_ok s" "unlockedLocked now i s = (t, Inr v)"
  then show "case v of (f, p) \<Rightarrow> file_valid i f"
    by (auto simp: unlockedLocked_def lookupFile_def sbind_def stored_ok_def split: option.splits)
qed (auto simp: assms)

text \<open>An operation that may only replace a file by a valid one.\<close>

lemma confirm_stored: "keeps stored_ok (confirmPassword X ev i pw)"
  unfolding confirmPassword_def
  by (intro keeps_intros lookupFile_keeps keeps_smodify) simp_all

lemma edit_stored:
  assumes "clean ev" "\<And>a b. g a = Inr b \<Longrightarrow> ac_ID b = ac_ID a"
  shows "keeps stored_ok (edit_account ev i acc g)"
  unfolding edit_account_def
proof (intro lookup_stored slift_stored, goal_cases)
  case (1 f a b)
  have a: "ac_ID a = acc" using 1(2)
    by (auto simp: findAccount_def find_Some_iff split: option.splits)
  have same: "map ac_ID ys = map ac_ID (sf_Accounts f)"
    if "update_first (\<lambda>a. ac_ID a = acc) (\<lambda>_. b) (sf_Accounts f) = Some (ys, y)" for ys y
    by (rule update_first_ids [OF that]) (use a assms(2) [OF 1(3)] in simp)
  show ?case
    using file_valid_same [OF 1(1)] same
    by (auto split: option.splits intro!: keeps_intros saveAndPut_stored assms(1))
qed

section \<open>Every operation\<close>

lemma bind_account_id: "bind_account fam n now a = Inr b \<Longrightarrow> ac_ID b = ac_ID a"
  by (auto simp: bind_account_def rbind_eq_Inr rcheck_eq_Inr split: if_splits)

lemma unbind_account_id: "unbind_account n now a = Inr b \<Longrightarrow> ac_ID b = ac_ID a"
  by (auto simp: unbind_account_def rcheck_eq_Inr)

lemma space_name_nonempty: "TrimSpace (space_name n) \<noteq> []"
  using TrimSpace_id [of "''default''"] by (simp add: space_name_def plain_def is_space_def)

lemma Rename_stored: "clean ev \<Longrightarrow> keeps stored_ok (Rename ev i n)"
  unfolding Rename_def Let_def
  by (intro keeps_bind_val [where Q = "\<lambda>_. TrimSpace n \<noteq> []"] lookup_stored keeps_intros saveAndPut_stored)
    (auto simp: file_valid_iff)

lemma Create_stored:
  assumes "clean ev" "\<And>bs. ev_id1 ev = Some bs \<Longrightarrow> 12 \<le> length bs"
  shows "keeps stored_ok (Create X ev req)"
proof -
  have commit: "keeps stored_ok (Create_commit ev b f p k)"
    if prep: "Create_prepare X ev req m = Inr (f, p, k, mn, gen)" for m f p k mn gen b
  proof -
    have f: "newID ''spc_'' (ev_id1 ev) = Inr (sf_ID f)" "sf_SchemaVersion f = SchemaVersion" "sf_Accounts f = []"
      "sf_Name f = space_name (cq_Name req)"
      using prep by (auto simp: Create_prepare_def rbind_eq_Inr Let_def)
    then obtain bs where "ev_id1 ev = Some bs" by (auto simp: newID_def split: option.splits)
    then have "ValidID (sf_ID f) ''spc_''" using newID_valid(1) [of _ bs] f(1) assms(2) by simp
    then have "file_valid (sf_ID f) f" using f by (simp add: file_valid_iff space_name_nonempty)
    then show ?thesis
      unfolding Create_commit_def
      by (intro keeps_intros keeps_smodify saveAndPut_stored assms(1)) simp_all
  qed
  show ?thesis
    unfolding Create_def
  proof (intro keeps_bind_val [where m = sget and Q = "\<lambda>_. True"] slift_stored TrueI keeps_basic(5), goal_cases)
    case (1 m v)
    obtain f p k mn gen where v: "v = (f, p, k, mn, gen)" by (cases v) auto
    show ?case
      unfolding v prod.case by (intro keeps_bind [OF commit [OF 1(2) [unfolded v]]] keeps_intros)
  qed
qed

lemma list_all2_member:
  "list_all2 P xs ys \<Longrightarrow> x \<in> set xs \<Longrightarrow> \<exists>y\<in>set ys. P x y"
  "list_all2 P xs ys \<Longrightarrow> y \<in> set ys \<Longrightarrow> \<exists>x\<in>set xs. P x y"
  by (induction rule: list_all2_induct) auto

lemma legacy_ids:
  assumes "rmap (legacy_record ev verified) (zip ls (ids @ replicate (length ls) None)) = Inr items"
    and "\<And>bs. Some bs \<in> set ids \<Longrightarrow> 12 \<le> length bs" "distinct (map (newID ''acc_'') (filter (\<lambda>raw. raw \<noteq> None) ids))"
  shows "(\<forall>a\<in>set items. ValidID (ac_ID a) ''acc_'') \<and> distinct (map ac_ID items)"
proof -
  let ?raws = "map snd (zip ls (ids @ replicate (length ls) None))"
  have one: "list_all2 (\<lambda>z a. snd z \<noteq> None \<and> newID ''acc_'' (snd z) = Inr (ac_ID a)) (zip ls (ids @ replicate (length ls) None)) items"
    using assms(1) unfolding rmap_eq_Inr
    by (rule list_all2_mono) (auto simp: legacy_record_def rbind_eq_Inr newID_def split: option.splits)
  then have raws: "list_all2 (\<lambda>raw a. raw \<noteq> None \<and> newID ''acc_'' raw = Inr (ac_ID a)) ?raws items" by (simp add: list.rel_map)
  have none: "None \<notin> set ?raws" using list_all2_member(1) [OF raws, of None] by blast
  have raws': "?raws = take (length ls) (ids @ replicate (length ls) None)" by (simp add: map_snd_zip_take)
  have "?raws = take (length ls) ids"
  proof (cases "length ls \<le> length ids")
    case False
    then have "None \<in> set ?raws" unfolding raws' by simp
    then show ?thesis using none by contradiction
  qed (simp add: raws')
  then have r: "list_all2 (\<lambda>raw a. raw \<noteq> None \<and> newID ''acc_'' raw = Inr (ac_ID a)) (take (length ls) ids) items"
    and none: "None \<notin> set (take (length ls) ids)" using raws none by simp_all
  have "map (newID ''acc_'') (take (length ls) ids) = map (\<lambda>a. Inr (ac_ID a)) items"
    using r by (induction rule: list_all2_induct) auto
  moreover have kept: "filter (\<lambda>raw. raw \<noteq> None) (take (length ls) ids) = take (length ls) ids" using none
    by (auto intro!: filter_True) (metis not_None_eq)
  have "distinct (map (newID ''acc_'') (filter (\<lambda>raw. raw \<noteq> None) (take (length ls) ids @ drop (length ls) ids)))"
    using assms(3) by simp
  then have "distinct (map (newID ''acc_'') (take (length ls) ids))"
    by (simp only: filter_append map_append distinct_append kept)
  ultimately have "distinct (map (\<lambda>a. Inr (ac_ID a) :: serr + string) items)" by simp
  then have "distinct (map ac_ID items)" by (simp add: distinct_map inj_on_def)
  moreover have "ValidID (ac_ID a) ''acc_''" if a: "a \<in> set items" for a
  proof -
    obtain raw where raw: "raw \<in> set (take (length ls) ids)" "raw \<noteq> None" "newID ''acc_'' raw = Inr (ac_ID a)"
      using list_all2_member(2) [OF r a] by blast
    then obtain bs where "raw = Some bs" "12 \<le> length bs" using assms(2) in_set_takeD [OF raw(1)] by auto
    then show ?thesis using newID_valid(1) [of _ bs] raw(3) by simp
  qed
  ultimately show ?thesis by blast
qed

lemma ImportLegacy_stored:
  assumes "clean ev" "\<And>bs. ev_id1 ev = Some bs \<Longrightarrow> 12 \<le> length bs" "\<And>bs. Some bs \<in> set ids \<Longrightarrow> 12 \<le> length bs"
    "distinct (map (newID ''acc_'') (filter (\<lambda>raw. raw \<noteq> None) ids))"
  shows "keeps stored_ok (ImportLegacy X ev req legacy ids)"
  unfolding ImportLegacy_def Let_def
proof (intro slift_stored keeps_bind [OF keeps_basic(5)], goal_cases)
  case (1 u verified i items m c r)
  obtain bs where "ev_id1 ev = Some bs" using 1(3) by (auto simp: newID_def split: option.splits)
  then have i: "ValidID i ''spc_''" using newID_valid(1) [of _ bs] 1(3) assms(2) by simp
  have "distinct (map ac_ID (sort_key k items))" if "distinct (map ac_ID items)" for k using that by (simp add: distinct_map)
  then have "file_valid i \<lparr>sf_SchemaVersion = SchemaVersion, sf_ID = i, sf_Name = space_name (cq_Name req),
      sf_CreatedAt = ev_t1 ev, sf_UpdatedAt = ev_t1 ev, sf_Accounts = sort_key (\<lambda>a. the (ac_Index a)) items, sf_Vault = c\<rparr>"
    using i legacy_ids [OF 1(4) assms(3,4)] by (simp add: file_valid_iff space_name_nonempty)
  then show ?case
    by (cases r) (auto intro!: keeps_intros keeps_smodify saveAndPut_stored assms(1))
qed

lemma ChangePassword_stored: "clean ev \<Longrightarrow> keeps stored_ok (ChangePassword X ev i pw new)"
  unfolding ChangePassword_def ChangePassword_prepare_def ChangePassword_commit_def
  by (intro keeps_intros keeps_smodify lookupFile_keeps lookup_stored saveAndPut_stored)
    (auto intro: file_valid_same)

lemma Unlock_stored: "keeps stored_ok (Unlock X ev i pw)"
  unfolding Unlock_def Unlock_prepare_def Unlock_commit_def
  by (intro keeps_intros keeps_smodify lookupFile_keeps) simp_all

lemma unlocked_keeps_stored: "keeps stored_ok (unlockedLocked now i)"
  unfolding unlockedLocked_def by (intro keeps_intros keeps_smodify lookupFile_keeps) simp_all

lemma read_only_stored:
  "keeps stored_ok (Get ev i)" "keeps stored_ok (List ev)" "keeps stored_ok (SetAutoLock ev d)"
  "keeps stored_ok (SetSendConfirmation b ttl)" "keeps stored_ok (RequireSendConfirmation ev i)"
  "keeps stored_ok (Backup Y ev i pw)" "keeps stored_ok (Mnemonic Y ev i pw)"
  "keeps stored_ok (ExportPrivateKey Y ev i a fam pw)" "keeps stored_ok (WithKey Y ev i a n fam)"
  "keeps stored_ok (ConfirmSend Y ev i pw)" "keeps stored_ok (Lock i)"
  unfolding Get_def List_def SetAutoLock_def SetSendConfirmation_def RequireSendConfirmation_def Backup_def
    Mnemonic_def ExportPrivateKey_def WithKey_def WithSigner_def WithMessageSigner_def withKey_def ConfirmSend_def Lock_def
  by (intro keeps_intros keeps_smodify lookupFile_keeps confirm_stored unlocked_keeps_stored; simp)+

text \<open>A new account identifier is one the file does not have.\<close>

definition account_id_fresh :: "manager \<Rightarrow> string \<Rightarrow> string \<Rightarrow> bool" where
  "account_id_fresh m i r \<longleftrightarrow> (\<forall>f. map_of (mg_files m) i = Some f \<longrightarrow> r \<notin> set (map ac_ID (sf_Accounts f)))"

lemma file_valid_append:
  assumes "file_valid i f" "newID ''acc_'' (Some bs) = Inr (ac_ID a)" "12 \<le> length bs"
    "ac_ID a \<notin> set (map ac_ID (sf_Accounts f))"
  shows "file_valid i (f\<lparr>sf_Accounts := sf_Accounts f @ [a], sf_UpdatedAt := t\<rparr>)"
  using assms newID_valid(1) [OF assms(2,3)] by (auto simp: file_valid_iff)

lemma file_valid_delete:
  "file_valid i f \<Longrightarrow> file_valid i (f\<lparr>sf_Accounts := delete_first P (sf_Accounts f), sf_UpdatedAt := t\<rparr>)"
  using delete_first_ids [of P "sf_Accounts f"] by (auto simp: file_valid_iff)

lemma reseal_stored:
  assumes "clean ev" "file_valid i f" "sf_ID f = i"
  shows "keeps stored_ok (\<lambda>m. case resealAndSaveLocked X ev f p i m of
      (m, Inl e) \<Rightarrow> (setSessionPayload i q m, Inl e) | (m, Inr f) \<Rightarrow> (putFile i f m, Inr v))"
  unfolding keeps_def
proof (intro allI impI)
  fix m assume m: "stored_ok m"
  have valid: "file_valid i (f\<lparr>sf_Vault := c\<rparr>)" for c using assms(2) by (simp add: file_valid_iff)
  show "stored_ok (fst (case resealAndSaveLocked X ev f p i m of
      (m, Inl e) \<Rightarrow> (setSessionPayload i q m, Inl e) | (m, Inr f) \<Rightarrow> (putFile i f m, Inr v)))"
    using m assms(1,3) valid
    by (cases "ev_save ev")
      (auto simp: resealAndSaveLocked_def sbind_def saveLocked_def clean_def stored_ok_def putFile_def update_conv' distinct_update
        split: option.splits sum.splits if_splits)
qed

lemma leads_unlocked_stored:
  assumes "\<And>f p. file_valid i f \<Longrightarrow> A \<inter> set (map ac_ID (sf_Accounts f)) = {} \<Longrightarrow> keeps stored_ok (g (f, p))"
  shows "leads (\<lambda>m. stored_ok m \<and> (\<forall>r\<in>A. account_id_fresh m i r)) (sbind (unlockedLocked now i) g) stored_ok"
proof (rule leads_bind [where R = "\<lambda>(f, p) m. stored_ok m \<and> file_valid i f \<and> A \<inter> set (map ac_ID (sf_Accounts f)) = {}"])
  fix s t v assume s: "stored_ok s \<and> (\<forall>r\<in>A. account_id_fresh s i r)" and run: "unlockedLocked now i s = (t, Inr v)"
  have "stored_ok t" using keepsD [OF unlocked_keeps_stored _ run] s by blast
  moreover have "map_of (mg_files s) i = Some (fst v)"
    using run by (auto simp: unlockedLocked_def lookupFile_def sbind_def split: option.splits)
  ultimately show "(case v of (f, p) \<Rightarrow> \<lambda>m. stored_ok m \<and> file_valid i f \<and> A \<inter> set (map ac_ID (sf_Accounts f)) = {}) t"
    using s by (auto simp: account_id_fresh_def stored_ok_def split: prod.splits)
next
  fix v show "leads (case v of (f, p) \<Rightarrow> \<lambda>m. stored_ok m \<and> file_valid i f \<and> A \<inter> set (map ac_ID (sf_Accounts f)) = {}) (g v) stored_ok"
    using assms by (cases v) (auto simp: leads_def keeps_def)
qed (use keepsD [OF unlocked_keeps_stored] in blast)

lemma add_networks_stored:
  assumes "update_first P (add_networks ns lbl t) (sf_Accounts f) = Some (items, item)" "file_valid i f" "clean ev"
  shows "keeps stored_ok (sbind (saveAndPut ev i (f\<lparr>sf_Accounts := items, sf_UpdatedAt := u\<rparr>)) (\<lambda>_. sret item))"
proof -
  have "map ac_ID items = map ac_ID (sf_Accounts f)"
    by (rule update_first_ids [OF assms(1)]) (simp add: add_networks_def)
  then show ?thesis
    by (intro keeps_intros saveAndPut_stored assms(3) file_valid_same [OF assms(2)]) simp_all
qed

lemma new_account_stored:
  assumes "file_valid i f" "\<And>bs. ev_id1 ev = Some bs \<Longrightarrow> 12 \<le> length bs"
    "{r. newID ''acc_'' (ev_id1 ev) = Inr r} \<inter> set (map ac_ID (sf_Accounts f)) = {}"
    "newID ''acc_'' (ev_id1 ev) = Inr (ac_ID a)"
  shows "file_valid i (f\<lparr>sf_Accounts := sf_Accounts f @ [a], sf_UpdatedAt := t\<rparr>)"
proof -
  from assms(4) obtain bs where "ev_id1 ev = Some bs" by (auto simp: newID_def split: option.splits)
  then show ?thesis using file_valid_append [OF assms(1)] assms(2-4) by auto
qed

lemma leads_prod: "(\<And>a b. leads P (g a b) I) \<Longrightarrow> leads P (case p of (a, b) \<Rightarrow> g a b) I"
  by (cases p) simp

lemma keeps_found:
  "(\<And>a b. q = Some (a, b) \<Longrightarrow> keeps I (k a b)) \<Longrightarrow> keeps I h \<Longrightarrow>
     keeps I (case q of None \<Rightarrow> h | Some (a, b) \<Rightarrow> k a b)"
  by (auto split: option.splits)

lemma DeriveNetworks_stored:
  assumes "clean ev" "\<And>bs. ev_id1 ev = Some bs \<Longrightarrow> 12 \<le> length bs"
  shows "leads (\<lambda>m. stored_ok m \<and> (\<forall>r\<in>{r. newID ''acc_'' (ev_id1 ev) = Inr r}. account_id_fresh m i r))
    (DeriveNetworks X ev i ns fam lbl) stored_ok"
  unfolding DeriveNetworks_def
proof (intro leads_pure leads_unlocked_stored, goal_cases)
  case (1 ns c f p)
  note f = 1(3,4)
  show ?case
    unfolding prod.case Let_def
  proof (intro slift_stored keeps_bind [OF keeps_basic(4)] keeps_found, goal_cases)
    case (2 u n address v r)
    show ?case
      by (intro keeps_intros saveAndPut_stored assms(1) new_account_stored [OF f(1) assms(2) f(2)]) (use 2 in simp_all)
  qed (rule add_networks_stored; use f assms(1) in simp)+
qed simp_all

lemma ImportNetworks_stored:
  assumes "clean ev" "\<And>bs. ev_id1 ev = Some bs \<Longrightarrow> 12 \<le> length bs"
  shows "leads (\<lambda>m. stored_ok m \<and> (\<forall>r\<in>{r. newID ''acc_'' (ev_id1 ev) = Inr r}. account_id_fresh m i r))
    (ImportNetworks X ev i ns fam lbl key) stored_ok"
  unfolding ImportNetworks_def
proof (intro leads_pure leads_prod leads_unlocked_stored, goal_cases)
  case (1 ns c v raw rest fp addrs f p)
  note f = 1(4,5)
  have id: "sf_ID f = i" using f(1) by (simp add: file_valid_iff)
  show ?case
    unfolding prod.case Let_def
  proof ((rule keeps_cases(2); intro slift_stored keeps_bind [OF keeps_basic(4)] keeps_found), goal_cases)
    case (1 u r a)
    show ?case
      by (intro keeps_bind [OF keeps_smodify] reseal_stored assms(1) new_account_stored [OF f(1) assms(2) f(2)]) (use 1 id in simp_all)
  next
    case 2
    then show ?case by (rule add_networks_stored [OF _ f(1) assms(1)])
  qed (rule keeps_basic)+
qed simp_all

lemma DeleteAccount_stored:
  assumes "clean ev"
  shows "keeps stored_ok (DeleteAccount X ev i acc pw)"
  unfolding DeleteAccount_def
proof (intro keeps_bind [OF confirm_stored] unlocked_stored)
  fix f :: space_file and p :: payload
  assume f: "file_valid i f"
  then have id: "sf_ID f = i" by (simp add: file_valid_iff)
  show "keeps stored_ok (case (f, p) of (f, p) \<Rightarrow>
     case find (\<lambda>a. ac_ID a = acc) (sf_Accounts f) of
       None \<Rightarrow> sfail ErrAccountNotFound
     | Some removed \<Rightarrow>
     let f = f\<lparr>sf_Accounts := delete_first (\<lambda>a. ac_ID a = acc) (sf_Accounts f), sf_UpdatedAt := ev_now ev\<rparr>
     in if ac_Kind removed \<noteq> KindImported then saveAndPut ev i f
     else
       let p' = p\<lparr>py_ImportedKeys := (py_ImportedKeys p)(ac_KeyRef removed := None)\<rparr>
       in sbind (smodify (setSessionPayload i p')) (\<lambda>_.
          \<lambda>m. case resealAndSaveLocked X ev f p' i m of
              (m, Inl e) \<Rightarrow>
                (setSessionPayload i (case py_ImportedKeys p (ac_KeyRef removed) of
                   None \<Rightarrow> p'
                 | Some entry \<Rightarrow> p'\<lparr>py_ImportedKeys := (py_ImportedKeys p')(ac_KeyRef removed \<mapsto> entry)\<rparr>) m, Inl e)
            | (m, Inr f) \<Rightarrow> (putFile i f m, Inr ())))"
    unfolding prod.case Let_def
    by (intro keeps_cases(2) keeps_if keeps_basic saveAndPut_stored assms(1) file_valid_delete f
        keeps_bind [OF keeps_smodify] reseal_stored) (simp_all add: id)
qed

section \<open>Steps and restarts\<close>

definition step_clean :: "space_op \<Rightarrow> manager \<Rightarrow> bool" where
  "step_clean a m \<longleftrightarrow>
     (case a of
        OpCreate ev req \<Rightarrow> clean ev \<and> (\<forall>bs. ev_id1 ev = Some bs \<longrightarrow> 12 \<le> length bs)
      | OpImportLegacy ev req legacy ids \<Rightarrow> clean ev \<and> (\<forall>bs. ev_id1 ev = Some bs \<longrightarrow> 12 \<le> length bs) \<and>
          (\<forall>bs. Some bs \<in> set ids \<longrightarrow> 12 \<le> length bs) \<and> distinct (map (newID ''acc_'') (filter (\<lambda>raw. raw \<noteq> None) ids))
      | OpRename ev i n \<Rightarrow> clean ev
      | OpChangePassword ev i pw new \<Rightarrow> clean ev
      | OpDerive ev i ns fam lbl \<Rightarrow> clean ev \<and> (\<forall>bs. ev_id1 ev = Some bs \<longrightarrow> 12 \<le> length bs) \<and>
          (\<forall>r. newID ''acc_'' (ev_id1 ev) = Inr r \<longrightarrow> account_id_fresh m i r)
      | OpImport ev i ns fam lbl key \<Rightarrow> clean ev \<and> (\<forall>bs. ev_id1 ev = Some bs \<longrightarrow> 12 \<le> length bs) \<and>
          (\<forall>r. newID ''acc_'' (ev_id1 ev) = Inr r \<longrightarrow> account_id_fresh m i r)
      | OpBind ev i acc n fam \<Rightarrow> clean ev
      | OpUnbind ev i acc n \<Rightarrow> clean ev
      | OpRenameAccount ev i acc lbl \<Rightarrow> clean ev
      | OpDelete ev i acc pw \<Rightarrow> clean ev
      | _ \<Rightarrow> True)"

lemma Bind_stored:
  "clean ev \<Longrightarrow> keeps stored_ok (BindNetwork ev i acc n fam)" "clean ev \<Longrightarrow> keeps stored_ok (UnbindNetwork ev i acc n)"
  "clean ev \<Longrightarrow> keeps stored_ok (RenameAccount ev i acc lbl)"
  unfolding BindNetwork_def UnbindNetwork_def RenameAccount_def
  by (intro keeps_intros edit_stored; auto dest: bind_account_id unbind_account_id)+

lemmas stored_runs =
  keeps_run [OF Create_stored] keeps_run [OF ImportLegacy_stored] keeps_run [OF Unlock_stored] keeps_run [OF Rename_stored]
  keeps_run [OF ChangePassword_stored] read_only_stored [THEN keeps_run] Bind_stored [THEN keeps_run]
  keeps_run [OF DeleteAccount_stored]

lemma run_stored:
  assumes "stored_ok m" "step_clean a m"
  shows "stored_ok (run_space_op X a m)"
proof (cases a)
  case (OpDerive ev i ns fam lbl)
  then show ?thesis
    using DeriveNetworks_stored [of ev i X ns fam lbl] assms by (auto simp: leads_def step_clean_def)
next
  case (OpImport ev i ns fam lbl key)
  then show ?thesis
    using ImportNetworks_stored [of ev i X ns fam lbl key] assms by (auto simp: leads_def step_clean_def)
qed (use assms in \<open>auto simp: stored_runs step_clean_def\<close>)

inductive clean_reach :: "space_ctx \<Rightarrow> manager \<Rightarrow> manager \<Rightarrow> bool" for X m0 where
  start: "clean_reach X m0 m0"
| step: "clean_reach X m0 m \<Longrightarrow> step_clean a m \<Longrightarrow> clean_reach X m0 (run_space_op X a m)"

lemma clean_reach_stored: "clean_reach X m0 m \<Longrightarrow> stored_ok m0 \<Longrightarrow> stored_ok m"
  by (induction rule: clean_reach.induct) (auto intro: run_stored)

lemma scan_valid:
  "\<forall>(i, f)\<in>set entries. file_valid i f \<Longrightarrow>
     scan (map (\<lambda>(i, f). (i, Some f)) entries) acc = Inr (foldl (\<lambda>fs (i, f). AList.update i f fs) acc entries)"
proof (induction entries arbitrary: acc)
  case (Cons e es)
  obtain i f where e: "e = (i, f)" by (cases e)
  then have f: "file_valid i f" using Cons.prems by simp
  then have "ValidID i ''spc_''" "sf_ID f = i" by (simp_all add: file_valid_iff)
  moreover have "validateFile f i = Inr ()" using f by (simp only: file_valid_def)
  ultimately show ?case using Cons by (simp add: e)
qed simp

lemma foldl_update:
  "distinct (map fst entries) \<Longrightarrow>
     map_of (foldl (\<lambda>fs (i, f). AList.update i f fs) acc entries) = map_of acc ++ map_of entries"
proof (induction entries arbitrary: acc)
  case (Cons e es)
  obtain i f where e: "e = (i, f)" by (cases e)
  have "map_of es i = None" using Cons.prems by (simp add: e map_of_eq_None_iff)
  then show ?case
    using Cons by (auto simp: e update_conv' map_add_def fun_eq_iff split: option.splits)
qed simp

lemma foldl_distinct:
  "distinct (map fst acc) \<Longrightarrow> distinct (map fst (foldl (\<lambda>fs (i, f). AList.update i f fs) acc es))"
  by (induction es arbitrary: acc) (auto simp: distinct_update)

text \<open>The home directory as a start finds it.\<close>

definition home_of :: "manager \<Rightarrow> (string \<times> space_file option) list" where
  "home_of m = map (\<lambda>(i, f). (i, Some f)) (mg_disk m)"

lemma restart:
  assumes "stored_ok m"
  shows "\<exists>m2. NewManager params autoLock (home_of m) attempts = Inr m2 \<and>
    map_of (mg_files m2) = map_of (mg_files m) \<and> mg_sessions m2 = [] \<and> stored_ok m2"
proof -
  have disk: "map_of (mg_disk m) = map_of (mg_files m)" "distinct (map fst (mg_disk m))"
    and valid: "\<And>i f. map_of (mg_files m) i = Some f \<Longrightarrow> file_valid i f"
    using assms by (auto simp: stored_ok_def)
  have "\<forall>(i, f)\<in>set (mg_disk m). file_valid i f"
    using disk valid by (auto simp: map_of_eq_Some_iff simp flip: disk(1))
  note files = scan_valid [OF this, of "[]"]
  show ?thesis
    using foldl_distinct [of "[]"] foldl_update [OF disk(2), of "[]"] disk(1) valid
    by (simp add: NewManager_def home_of_def files stored_ok_def)
qed

end
