(* ===== verification/SpaceThrottle.thy ===== *)
theory SpaceThrottle
  imports SpaceReach
begin

text \<open>
  The unlock backoff (internal/space/throttle.go): its schedule, what a wrong password costs, and
  when the next attempt is allowed.
\<close>

section \<open>The schedule\<close>

lemma backoffFor_eq:
  "backoffFor n = min maxUnlockDelay (baseUnlockDelay * 2 ^ nat (min maxUnlockDoublings (max (n - 4) 0)))"
  by (auto simp: backoffFor_def Let_def freeUnlockAttempts_def baseUnlockDelay_def min_def max_def not_le zero_less_mult_iff)

lemma backoffFor_mono: "n \<le> k \<Longrightarrow> backoffFor n \<le> backoffFor k"
  unfolding backoffFor_eq baseUnlockDelay_def
  by (intro min.mono order_refl mult_left_mono power_increasing nat_mono) auto

lemma backoffFor_bounds: "2 * 1000000000 \<le> backoffFor n \<and> backoffFor n \<le> 900 * 1000000000"
proof -
  have "(1 :: int) \<le> 2 ^ k" for k by simp
  then show ?thesis by (simp add: backoffFor_eq baseUnlockDelay_def maxUnlockDelay_def min_le_iff_disj)
qed

lemma backoffFor_doubles:
  "4 \<le> n \<Longrightarrow> n \<le> 11 \<Longrightarrow> backoffFor (n + 1) = 2 * backoffFor n" "13 \<le> k \<Longrightarrow> backoffFor k = maxUnlockDelay"
proof -
  assume "4 \<le> n" "n \<le> 11"
  then have "n \<in> {4, 5, 6, 7, 8, 9, 10, 11}" by auto
  then show "backoffFor (n + 1) = 2 * backoffFor n"
    by (auto simp: backoffFor_eq maxUnlockDelay_def baseUnlockDelay_def maxUnlockDoublings_def)
next
  assume "13 \<le> k"
  have "backoffFor 13 = maxUnlockDelay"
    by (simp add: backoffFor_eq maxUnlockDelay_def baseUnlockDelay_def maxUnlockDoublings_def)
  with backoffFor_mono [OF \<open>13 \<le> k\<close>] backoffFor_bounds [of k] show "backoffFor k = maxUnlockDelay"
    by (simp add: maxUnlockDelay_def)
qed

lemma unlockDelay_bounds: "backoffFor n \<le> unlockDelay n j \<and> unlockDelay n j \<le> backoffFor n + backoffFor n div 4"
proof -
  have d: "0 < backoffFor n div 4 + 1" using backoffFor_bounds [of n] by linarith
  show ?thesis
    using pos_mod_bound [OF d] pos_mod_sign [OF d] backoffFor_bounds [of n]
    by (cases j) (fastforce simp: unlockDelay_def Let_def)+
qed

section \<open>Who is let through\<close>

definition stored_attempts :: "string \<Rightarrow> manager \<Rightarrow> attempt_record" where
  "stored_attempts i m = (case map_of (mg_attempts m) i of None \<Rightarrow> no_attempts | Some r \<Rightarrow> r)"

lemma readAttempts_stored:
  "ValidID i ''spc_'' \<Longrightarrow> readAttempts i now m =
     (let r = stored_attempts i m in
      if map_of (mg_attempts m) i \<noteq> None \<and> now + maxUnlockDelay * 2 < at_NextTry r
      then r\<lparr>at_NextTry := now + maxUnlockDelay\<rparr> else r)"
  by (simp add: readAttempts_def stored_attempts_def split: option.splits)

lemma cooldown_iff:
  assumes "ValidID i ''spc_''"
  shows "checkUnlockCooldown i now m = Inr () \<longleftrightarrow>
    at_Failures (stored_attempts i m) \<le> freeUnlockAttempts \<or> at_NextTry (stored_attempts i m) \<le> now"
  using readAttempts_stored [OF assms, of now m]
  by (cases "map_of (mg_attempts m) i")
    (auto simp: checkUnlockCooldown_def rcheck_eq_Inr Let_def stored_attempts_def no_attempts_def maxUnlockDelay_def
      freeUnlockAttempts_def)

lemma cooldown_wait:
  assumes "checkUnlockCooldown i now m = Inl e"
  shows "\<exists>w. e = ErrTooManyAttempts w \<and> 0 < w \<and> w \<le> 2 * maxUnlockDelay"
  using assms
  by (auto simp: checkUnlockCooldown_def readAttempts_def Let_def rcheck_def no_attempts_def freeUnlockAttempts_def
      maxUnlockDelay_def split: option.splits if_splits)

text \<open>A blocked attempt costs no derivation and changes nothing.\<close>

lemma blocked_attempt:
  assumes "checkUnlockCooldown i (ev_t1 ev) m = Inl e" "map_of (mg_files m) i = Some f"
  shows "Unlock X ev i pw m = (m, Inl e)" "pw \<noteq> [] \<Longrightarrow> confirmPassword X ev i pw m = (m, Inl e)"
    "validateNewPassword new = Inr () \<Longrightarrow> ChangePassword X ev i pw new m = (m, Inl e)"
  using assms
  by (simp_all add: Unlock_def Unlock_prepare_def confirmPassword_def ChangePassword_def ChangePassword_prepare_def
      lookupFile_def sbind_def)

lemma wrong_password_Unlock:
  assumes "map_of (mg_files m) i = Some f" "checkUnlockCooldown i (ev_t1 ev) m = Inr ()"
    "vault_UnlockJSON (sx_V X) (sx_J X) pw (sf_Vault f) (space_aad i) = Inl ErrInvalidPassword"
  shows "Unlock X ev i pw m = (recordUnlockFailure ev i m, Inl (VaultE ErrInvalidPassword))"
    "pw \<noteq> [] \<Longrightarrow> confirmPassword X ev i pw m = (recordUnlockFailure ev i m, Inl (VaultE ErrInvalidPassword))"
  using assms by (simp_all add: Unlock_def Unlock_prepare_def confirmPassword_def lookupFile_def sbind_def)

lemma recorded_failure:
  assumes "ValidID i ''spc_''" "ev_attempts ev \<noteq> WriteFailed"
  shows "at_Failures (stored_attempts i (recordUnlockFailure ev i m)) = at_Failures (stored_attempts i m) + 1"
    "ev_t2 ev + backoffFor (at_Failures (stored_attempts i m) + 1) \<le> at_NextTry (stored_attempts i (recordUnlockFailure ev i m))"
    "at_NextTry (stored_attempts i (recordUnlockFailure ev i m)) \<le> ev_t2 ev + maxUnlockDelay + maxUnlockDelay div 4"
proof -
  have n: "at_Failures (readAttempts i (ev_t2 ev) m) = at_Failures (stored_attempts i m)"
    using readAttempts_stored [OF assms(1)] by (simp add: Let_def)
  have r: "stored_attempts i (recordUnlockFailure ev i m) =
    (readAttempts i (ev_t2 ev) m)\<lparr>at_Failures := at_Failures (stored_attempts i m) + 1,
      at_NextTry := ev_t2 ev + unlockDelay (at_Failures (stored_attempts i m) + 1) (ev_jitter ev)\<rparr>"
    using assms n by (simp add: stored_attempts_def recordUnlockFailure_def writeAttempts_def Let_def update_conv')
  show "at_Failures (stored_attempts i (recordUnlockFailure ev i m)) = at_Failures (stored_attempts i m) + 1"
    by (simp add: r)
  show "ev_t2 ev + backoffFor (at_Failures (stored_attempts i m) + 1) \<le> at_NextTry (stored_attempts i (recordUnlockFailure ev i m))"
    using unlockDelay_bounds by (simp add: r)
  have "backoffFor k + backoffFor k div 4 \<le> maxUnlockDelay + maxUnlockDelay div 4" for k
    using backoffFor_bounds [of k] zdiv_mono1 [of "backoffFor k" maxUnlockDelay 4] by (simp add: maxUnlockDelay_def)
  then show "at_NextTry (stored_attempts i (recordUnlockFailure ev i m)) \<le> ev_t2 ev + maxUnlockDelay + maxUnlockDelay div 4"
    using unlockDelay_bounds [of "at_Failures (stored_attempts i m) + 1" "ev_jitter ev"]
    by (simp add: r) (meson add_left_mono order_trans)
qed

end
