(* ===== verification/SpaceRace.thy ===== *)
theory SpaceRace
  imports SpaceReach
begin

text \<open>
  An import between the two halves of a password change. \<open>ChangePassword\<close> reads the vault and seals
  its payload outside the manager's mutex; \<open>ImportNetworks\<close> takes the mutex only. What the import
  added to the vault is overwritten, its account stays in the file.
\<close>

lemma import_result:
  assumes "ImportNetworks X ev i ns fam lbl key m = (m', Inr a)"
    "\<And>f b. map_of (mg_files m) i = Some f \<Longrightarrow> b \<in> set (sf_Accounts f) \<Longrightarrow> ac_ID b \<noteq> ac_ID a"
  shows "\<exists>f. map_of (mg_files m') i = Some f \<and> a \<in> set (sf_Accounts f) \<and> ac_Kind a = KindImported \<and>
    newID ''key_'' (ev_id2 ev) = Inr (ac_KeyRef a)"
proof -
  obtain ns' curve raw fp addrs u f p where run: "networkList ns = Inr ns'" "CurveOf fam = Inr curve"
    "parseImportedKey (sx_W X) curve key = Inr (raw, fp, addrs)" "unlockedLocked (ev_now ev) i m = (u, Inr (f, p))"
    using assms(1) by (auto simp: ImportNetworks_def sbind_Inr account_result_def split: sum.splits)
  have found: "map_of (mg_files m) i = Some f"
    using run(4) by (auto simp: unlockedLocked_def lookupFile_def sbind_def split: option.splits)
  have none: "find (\<lambda>a. ac_Kind a = KindImported \<and> ac_Fingerprint a = fp) (sf_Accounts f) = None"
  proof (rule ccontr)
    assume "\<not> ?thesis"
    then obtain item where item: "find (\<lambda>a. ac_Kind a = KindImported \<and> ac_Fingerprint a = fp) (sf_Accounts f) = Some item"
      by auto
    then have "a = item \<or> (\<exists>items. update_first (\<lambda>a. ac_Kind a = KindImported \<and> ac_Fingerprint a = fp)
        (add_networks ns' lbl (ev_now ev)) (sf_Accounts f) = Some (items, a))"
      using assms(1) run
      by (auto simp: ImportNetworks_def sbind_def account_result_def split: option.splits prod.splits sum.splits if_splits)
    moreover have "update_first P g xs = Some (ys, y) \<Longrightarrow> \<exists>x\<in>set xs. y = g x" for P g ys y and xs :: "account list"
      by (induction P g xs arbitrary: ys rule: update_first.induct) (auto split: if_splits option.splits)
    moreover have "item \<in> set (sf_Accounts f)" using item by (auto simp: find_Some_iff)
    ultimately have "\<exists>b\<in>set (sf_Accounts f). ac_ID b = ac_ID a"
      by (fastforce simp: add_networks_def)
    then show False using assms(2) [OF found] by blast
  qed
  show ?thesis
    using assms(1) run none
    by (auto simp: ImportNetworks_def sbind_def account_result_def Let_def resealAndSaveLocked_def saveLocked_def
        putFile_def update_conv' split: prod.splits sum.splits option.splits write_outcome.splits)
qed

lemma interleaved_import_lost:
  assumes prep: "ChangePassword_prepare X ev1 i pw new m = (m1, Inr (c, refreshed))"
    and imp: "ImportNetworks X ev2 i ns fam lbl key m1 = (m2, Inr a)"
    and commit: "ChangePassword_commit ev3 i c refreshed m2 = (m3, Inr ())"
    and new_account: "\<And>f b. map_of (mg_files m) i = Some f \<Longrightarrow> b \<in> set (sf_Accounts f) \<Longrightarrow> ac_ID b \<noteq> ac_ID a"
    and new_key: "\<And>p f k. map_of (mg_files m) i = Some f \<Longrightarrow>
      vault_UnlockJSON (sx_V X) (sx_J X) pw (sf_Vault f) (space_aad i) = Inr (p, k) \<Longrightarrow> py_ImportedKeys p (ac_KeyRef a) = None"
    and laws: "vault_laws (sx_V X) (sx_J X)"
    and later: "map_of (mg_files m4) i = map_of (mg_files m3) i"
  shows "a \<in> set (sf_Accounts (the (map_of (mg_files m3) i))) \<and> snd (Unlock X ev4 i new m4) \<noteq> Inr ()"
proof -
  obtain f p where f: "map_of (mg_files m) i = Some f" "mg_files m1 = mg_files m"
    and p: "vault_OpenJSON (sx_V X) (sx_J X) pw (sf_Vault f) (space_aad i) = Inr p"
    and c: "vault_SealJSON (sx_V X) (sx_J X) (ev_salt ev1) (ev_nonce ev1) new p (space_aad i) (mg_params m) = Inr c"
    using prep
    by (auto simp: ChangePassword_prepare_def sbind_def lookupFile_def clearUnlockFailures_def split: option.splits sum.splits if_splits)
  obtain k where "vault_UnlockJSON (sx_V X) (sx_J X) pw (sf_Vault f) (space_aad i) = Inr (p, k)"
    using p by (cases "vault_Unlock (sx_V X) pw (sf_Vault f) (space_aad i)")
      (auto simp: vault_OpenJSON_def vault_Decrypt_def vault_UnlockJSON_def split: option.splits)
  then have missing: "py_ImportedKeys p (ac_KeyRef a) = None" using new_key f(1) by blast
  obtain g where g: "map_of (mg_files m2) i = Some g" "a \<in> set (sf_Accounts g)" "ac_Kind a = KindImported"
    using import_result [OF imp] new_account f by auto
  have m3: "map_of (mg_files m3) i = Some (g\<lparr>sf_Vault := c, sf_UpdatedAt := ev_now ev3\<rparr>)"
    using commit g(1)
    by (auto simp: ChangePassword_commit_def sbind_def lookupFile_def saveAndPut_def saveLocked_def putFile_def
        update_conv' clearSessionLocked_def putSession_def split: option.splits write_outcome.splits prod.splits if_splits)
  have "snd (Unlock X ev4 i new m4) \<noteq> Inr ()"
  proof
    assume "snd (Unlock X ev4 i new m4) = Inr ()"
    then obtain m5 where "Unlock X ev4 i new m4 = (m5, Inr ())" by (metis prod.collapse)
    then obtain q l where q: "vault_UnlockJSON (sx_V X) (sx_J X) new c (space_aad i) = Inr (q, l)"
      "verifyPayload (sx_W X) (g\<lparr>sf_Vault := c, sf_UpdatedAt := ev_now ev3\<rparr>) q = Inr ()"
      using m3 [folded later] by (auto simp: Unlock_def Unlock_prepare_def sbind_def lookupFile_def split: option.splits sum.splits prod.splits)
    have "q = p" by (rule vault_open_sealed [OF laws c q(1)])
    then have "verifyAccount (sx_W X) p a = Inr ()" using q(2) g(2) by (simp add: verifyPayload_iff)
    then show False using missing g(3) by (simp add: verifyAccount_def)
  qed
  then show ?thesis using m3 g(2) by simp
qed

end
