(* ===== verification/SpaceProperties.thy ===== *)
theory SpaceProperties
  imports SpaceSamples SpaceDisk SpaceKeys SpaceThrottle SpaceRace
begin

text \<open>
  The properties of the space manager that hold in every reachable state: the invariant and the
  re-opening of a locked space; what is on disk; who may hold a key; what a spending grant rests on.
\<close>

section \<open>Reachable states\<close>

lemma sample_manager_new: "NewManager DefaultParams 900000000000 [] [] = Inr sample_manager"
  by (simp add: NewManager_def sample_manager_def)

lemma sample_created_allowed: "step_allowed sample_ctx (OpCreate (sample_env 100) sample_request) sample_manager"
proof -
  have "run_space_op sample_ctx (OpCreate (sample_env 100) sample_request) sample_manager = sample_created"
    by (simp add: sample_Create)
  moreover have "ss_payload ss = sample_payload" if "map_of (mg_sessions sample_created) i = Some ss" for i ss
    using that by (auto simp: sample_created_def sample_session_def split: if_splits)
  ultimately show ?thesis
    by (auto simp: step_allowed_def)
qed

lemma sample_reach: "space_reach sample_ctx sample_manager sample_created"
  using space_reach.step [OF space_reach.start sample_created_allowed] by (simp add: sample_Create)

lemma sample_inv: "space_inv sample_ctx sample_created"
  using space_reach_inv [OF sample_reach] NewManager_empty [OF sample_manager_new] by blast

text \<open>C12. In every state that calls run one after the other reach from an empty home, there are at most
  64 files, each under its own identifier with at most 512 accounts, network lists are sorted and free of
  duplicates, no two derived accounts share family and index and no two imported ones a key; an open
  session always belongs to a file whose every address its payload reproduces, and the file's vault opens
  to exactly that payload and key. The calls are all operations of the manager, the migration of an old
  home included. Each runs to its end before the next starts: an import inside a password change breaks
  the invariant, as \<open>import_during_password_change_locks_out\<close> shows. The steps assume that a random key
  reference is new, that payloads are within the size of a vault and empty words are no phrase, and what
  the code does not check of a migration: that it stays within the two quotas and that an account of
  the old home is not assigned to a family in which its index was derived again before.\<close>

theorem reachable_spaces_good:
  assumes "NewManager params autoLock [] attempts = Inr m0" "space_reach X m0 m"
  shows "space_inv X m"
  using space_reach_inv [OF assms(2)] NewManager_empty [OF assms(1)] by blast

theorem reachable_spaces_good_witness:
  "space_inv sample_ctx sample_created \<and> mg_sessions sample_created \<noteq> []"
  using reachable_spaces_good [OF sample_manager_new sample_reach] by (simp add: sample_created_def)

text \<open>C29. No state that calls run one after the other reach loses a space: for every open session there is
  a password such that, after \<open>Lock\<close>, \<open>Unlock\<close> with it succeeds as soon as the unlock cooldown allows an
  attempt, and gives back the payload and the key the session had, without its spending grant. The calls
  are those of \<open>reachable_spaces_good\<close>, under the same assumptions; when an import runs inside a password
  change the space is lost, see \<open>import_during_password_change_locks_out\<close>.\<close>

theorem locked_space_reopens:
  assumes "NewManager params autoLock [] attempts = Inr m0" "space_reach X m0 m"
    "map_of (mg_sessions m) i = Some ss"
  shows "\<exists>pw m1. Lock i m = (m1, Inr ()) \<and> map_of (mg_sessions m1) i = None \<and>
    (\<forall>ev. checkUnlockCooldown i (ev_t1 ev) m = Inr () \<longrightarrow>
      (\<exists>m2. Unlock X ev i pw m1 = (m2, Inr ()) \<and> map_of (mg_sessions m2) i =
        Some \<lparr>ss_payload = ss_payload ss, ss_key = ss_key ss, ss_lastUsed = ev_now ev, ss_sendGrant = 0\<rparr>))"
  using space_reach_inv [OF assms(2)] NewManager_empty [OF assms(1)] relock [OF _ assms(3)] by blast

theorem locked_space_reopens_witness:
  "\<exists>pw m1 m2. Lock sample_id sample_created = (m1, Inr ()) \<and>
     Unlock sample_ctx (sample_env 200) sample_id pw m1 = (m2, Inr ()) \<and>
     map_of (mg_sessions m2) sample_id \<noteq> None"
proof -
  have "checkUnlockCooldown sample_id 200 sample_created = Inr ()"
    by (simp add: checkUnlockCooldown_def readAttempts_def sample_created_def sample_manager_def no_attempts_def
        freeUnlockAttempts_def)
  with locked_space_reopens [OF sample_manager_new sample_reach sample_session_at] show ?thesis
    by (metis option.distinct(1) sample_env_simps(1))
qed

section \<open>Disk and memory\<close>

text \<open>C28. A restart finds every space: after any sequence of steps from an empty home in which no
  write reports an error after it took effect and random identifiers are new, a manager started on
  the files of the home has exactly the files the running one has in memory, all of them valid.\<close>

theorem restart_finds_all_spaces:
  assumes "NewManager params autoLock [] attempts = Inr m0" "clean_reach X m0 m"
  shows "\<exists>m2. NewManager params2 autoLock2 (home_of m) attempts2 = Inr m2 \<and>
    map_of (mg_files m2) = map_of (mg_files m) \<and> mg_sessions m2 = [] \<and> stored_ok m2"
proof -
  have "stored_ok m0" using assms(1) by (auto simp: NewManager_def stored_ok_def)
  then show ?thesis by (intro restart clean_reach_stored [OF assms(2)])
qed

lemma sample_clean_reach: "clean_reach sample_ctx sample_manager sample_created"
proof -
  have "step_clean (OpCreate (sample_env 100) sample_request) sample_manager"
    by (simp add: step_clean_def clean_def)
  from clean_reach.step [OF clean_reach.start this, of sample_ctx] show ?thesis by (simp add: sample_Create)
qed

theorem restart_finds_all_spaces_witness:
  "\<exists>m2. NewManager DefaultParams 1 (home_of sample_created) [] = Inr m2 \<and>
     map_of (mg_files m2) sample_id = Some sample_file"
  using restart_finds_all_spaces [OF sample_manager_new sample_clean_reach, of DefaultParams 1 "[]"]
  by (auto simp: sample_created_def)

section \<open>Keys\<close>

text \<open>C23. The key a space lends for signing is the right one: the space has an open session, the
  account exists and is bound to the network, the key is on the curve the signer asked for, which
  is the curve of the family, and its address in that family is the one the account shows.\<close>

theorem lent_key_is_the_accounts:
  assumes "space_inv X m" "withKey X ev i acc n fam want m = (m', Inr k)"
  shows "\<exists>ss f a. map_of (mg_sessions (expireLocked (ev_now ev) m)) i = Some ss \<and>
    map_of (mg_files m) i = Some f \<and> a \<in> set (sf_Accounts f) \<and> ac_ID a = acc \<and> BoundTo a n \<and>
    key_curve k = want \<and> CurveOf fam = Inr want \<and> key_address (sx_W X) k fam = Inr (address_of (ac_Addresses a) fam)"
  using assms by (rule withKey_lends)

lemma sample_derive_inv: "space_inv sample_ctx sample_after_derive"
  using keepsD [OF DeriveNetworks_keeps sample_inv sample_Derive] .

lemma sample_withKey:
  "\<exists>m'. withKey sample_ctx (sample_env 100) sample_id (ac_ID sample_derived) ''eth'' FamilyEVM CurveSecp256k1 sample_after_derive =
     (m', Inr (Secp256k1Key (replicate 32 7)))"
proof -
  have key: "privateKeyFor sample_wallet sample_derived sample_payload FamilyEVM = Inr (Secp256k1Key (replicate 32 7))"
    by (simp add: privateKeyFor_def sample_derived_def sample_curve account_result_def DerivePrivateKey_def
        ValidateMnemonic_def Let_def sample_payload_def) (simp add: sample_wallet_def ToECDSA_def)
  have unlocked: "unlockedLocked 100 sample_id sample_after_derive =
      (sample_after_derive, Inr (sample_file\<lparr>sf_Accounts := [sample_derived]\<rparr>, sample_payload))"
    by (simp add: unlockedLocked_def sbind_def lookupFile_def expireLocked_def sample_after_derive_def sample_created_def
        sample_manager_def putSession_def sample_session_def)
  have "findAccount [sample_derived] (ac_ID sample_derived) = Inr sample_derived" "BoundTo sample_derived ''eth''"
    by (simp_all add: findAccount_def BoundTo_def sample_derived_def)
  then show ?thesis
    by (simp add: withKey_def sample_curve account_result_def sbind_slift sbind_scheck sbind_def [of "unlockedLocked _ _"]
        unlocked key)
qed

theorem lent_key_is_the_accounts_witness:
  "key_address sample_wallet (Secp256k1Key (replicate 32 7)) FamilyEVM = Inr (''0x'' @ HexEncode (replicate 2 7))"
proof -
  obtain m' where "withKey sample_ctx (sample_env 100) sample_id (ac_ID sample_derived) ''eth'' FamilyEVM CurveSecp256k1
      sample_after_derive = (m', Inr (Secp256k1Key (replicate 32 7)))"
    using sample_withKey by blast
  from lent_key_is_the_accounts [OF sample_derive_inv this] show ?thesis
    by (auto simp: sample_after_derive_def sample_derived_def address_of_def)
qed

text \<open>C22. No operation reveals a secret, destroys a key, opens a spending window or a session
  without the password that opens the space's vault at that moment.\<close>

theorem secrets_need_the_password:
  assumes "\<exists>m'. (\<exists>s. Mnemonic X ev i pw m = (m', Inr s)) \<or> (\<exists>s. ExportPrivateKey X ev i acc fam pw m = (m', Inr s)) \<or>
    (\<exists>b. Backup X ev i pw m = (m', Inr b)) \<or> DeleteAccount X ev i acc pw m = (m', Inr ()) \<or>
    (\<exists>t. ConfirmSend X ev i pw m = (m', Inr t)) \<or> Unlock X ev i pw m = (m', Inr ()) \<or>
    ChangePassword X ev i pw new m = (m', Inr ())"
  shows "opens_with X m i pw"
  using assms by (elim exE disjE) (erule secrets_need_password)+

theorem secrets_need_the_password_witness: "opens_with sample_ctx sample_created sample_id sample_password"
proof -
  have "Mnemonic sample_ctx (sample_env 100) sample_id sample_password sample_created = (sample_created, Inr ''abc'')"
    by (simp add: Mnemonic_def sbind_scheck sbind_def [of "unlockedLocked _ _"] sample_unlocked
        sbind_def [of "confirmPassword _ _ _ _"] sample_confirm) (simp add: sample_payload_def)
  then show ?thesis using secrets_need_the_password by blast
qed

text \<open>C27. A spending grant comes from \<open>ConfirmSend\<close> with the right password and lasts for the
  configured time; every other step can only drop it. So after a lock, an unlock or a password
  change there is none until the next confirmation.\<close>

theorem grant_needs_confirmation:
  assumes "space_inv X m" "map_of (mg_sessions (run_space_op X a m)) i = Some ss" "ss_sendGrant ss \<noteq> 0"
  shows "(\<exists>old. map_of (mg_sessions m) i = Some old \<and> ss_sendGrant old = ss_sendGrant ss) \<or>
    (\<exists>ev pw. a = OpConfirmSend ev i pw \<and> opens_with X m i pw \<and> ss_sendGrant ss = ev_now ev + mg_sendGrantTTL m)"
  using grant_steps [OF _ assms(2,3)] assms(1) by (simp add: space_inv_def)

theorem grant_needs_confirmation_witness:
  "\<exists>ss. map_of (mg_sessions (run_space_op sample_ctx (OpConfirmSend (sample_env 100) sample_id sample_password) sample_created))
      sample_id = Some ss \<and> ss_sendGrant ss = 100 + 300000000000 \<and> opens_with sample_ctx sample_created sample_id sample_password"
proof -
  have expire: "expireLocked 100 sample_created = sample_created"
    by (simp add: expireLocked_def sample_created_def sample_manager_def sample_session_def)
  have ttl: "mg_sendGrantTTL sample_created = 300000000000"
    by (simp add: sample_created_def sample_manager_def defaultSendGrantTTL_def)
  let ?a = "OpConfirmSend (sample_env 100) sample_id sample_password"
  have ss: "map_of (mg_sessions (run_space_op sample_ctx ?a sample_created)) sample_id =
    Some (sample_session\<lparr>ss_lastUsed := 100, ss_sendGrant := 300000000100\<rparr>)"
    by (simp add: ConfirmSend_def sbind_def sample_confirm expire putSession_def update_conv' ttl)
  from grant_needs_confirmation [OF sample_inv this] have "opens_with sample_ctx sample_created sample_id sample_password"
    by (auto simp: sample_session_def)
  with ss show ?thesis by auto
qed

section \<open>Throttling\<close>

text \<open>C26. Guessing passwords is throttled: a wrong password is counted, and from the fourth in a row
  on every further attempt to unlock or to confirm the password fails at once, with no derivation, until
  at least two seconds (doubling per failure, at most fifteen minutes) have passed since the last one.
  An attempt that comes too early changes nothing: it is not counted and the wait stays as it is, whereas
  the comment at \<open>unlockDelay\<close> says that it pushes the wait further out.\<close>

theorem wrong_passwords_are_throttled:
  assumes "map_of (mg_files m) i = Some f" "ValidID i ''spc_''" "checkUnlockCooldown i (ev_t1 ev) m = Inr ()"
    "vault_UnlockJSON (sx_V X) (sx_J X) pw (sf_Vault f) (space_aad i) = Inl ErrInvalidPassword"
    "ev_attempts ev \<noteq> WriteFailed" "freeUnlockAttempts \<le> at_Failures (stored_attempts i m)"
    "ev_t1 ev2 < ev_t2 ev + backoffFor (at_Failures (stored_attempts i m) + 1)"
  shows "\<exists>m2 w. Unlock X ev i pw m = (m2, Inl (VaultE ErrInvalidPassword)) \<and>
    at_Failures (stored_attempts i m2) = at_Failures (stored_attempts i m) + 1 \<and>
    Unlock X ev2 i pw2 m2 = (m2, Inl (ErrTooManyAttempts w)) \<and>
    (pw2 \<noteq> [] \<longrightarrow> confirmPassword X ev2 i pw2 m2 = (m2, Inl (ErrTooManyAttempts w)))"
proof -
  let ?m2 = "recordUnlockFailure ev i m"
  note run = wrong_password_Unlock(1) [OF assms(1,3,4)]
  note rec = recorded_failure [OF assms(2,5), of m]
  have "checkUnlockCooldown i (ev_t1 ev2) ?m2 \<noteq> Inr ()"
    using rec(1,2) assms(6,7) by (simp add: cooldown_iff [OF assms(2)])
  then obtain e where "checkUnlockCooldown i (ev_t1 ev2) ?m2 = Inl e"
    by (cases "checkUnlockCooldown i (ev_t1 ev2) ?m2") auto
  then obtain w where w: "checkUnlockCooldown i (ev_t1 ev2) ?m2 = Inl (ErrTooManyAttempts w)"
    using cooldown_wait by blast
  have found: "map_of (mg_files ?m2) i = Some f" using assms(1) by simp
  show ?thesis
    using run rec(1) blocked_attempt(1) [OF w found] blocked_attempt(2) [OF w found] by blast
qed

definition sample_throttled :: manager where
  "sample_throttled = sample_created\<lparr>mg_attempts := [(sample_id, \<lparr>at_Failures = 3, at_NextTry = 50\<rparr>)]\<rparr>"

theorem wrong_passwords_are_throttled_witness:
  "\<exists>m2 w. Unlock sample_ctx (sample_env 100) sample_id sample_password2 sample_throttled = (m2, Inl (VaultE ErrInvalidPassword)) \<and>
     Unlock sample_ctx (sample_env 200) sample_id sample_password m2 = (m2, Inl (ErrTooManyAttempts w))"
proof -
  have files: "map_of (mg_files sample_throttled) sample_id = Some sample_file"
    by (simp add: sample_throttled_def sample_created_def)
  have stored: "stored_attempts sample_id sample_throttled = \<lparr>at_Failures = 3, at_NextTry = 50\<rparr>"
    by (simp add: stored_attempts_def sample_throttled_def)
  have wrong: "vault_UnlockJSON (sx_V sample_ctx) (sx_J sample_ctx) sample_password2 (sf_Vault sample_file) (space_aad sample_id)
      = Inl ErrInvalidPassword"
    using sample_passwords by (simp add: sample_file_def vault_UnlockJSON_def sample_unlock)
  have check: "checkUnlockCooldown sample_id (ev_t1 (sample_env 100)) sample_throttled = Inr ()"
    by (simp add: cooldown_iff stored freeUnlockAttempts_def)
  have "ev_t1 (sample_env 200) < ev_t2 (sample_env 100) + backoffFor (at_Failures (stored_attempts sample_id sample_throttled) + 1)"
    using backoffFor_bounds [of 4] by (simp add: stored)
  from wrong_passwords_are_throttled [OF files sample_ValidID check wrong _ _ this, of sample_password]
  show ?thesis by (auto simp: stored freeUnlockAttempts_def)
qed

text \<open>Nobody is locked out for ever, but the guard against unreachable dates has no effect: an
  attempt is let through exactly when there were at most three failures or the clock has reached the
  time the file names, however far away it is. The wait that is reported stays within half an hour.\<close>

theorem cooldown_ends_at_the_stored_time:
  "ValidID i ''spc_'' \<Longrightarrow>
     (checkUnlockCooldown i now m = Inr () \<longleftrightarrow>
       at_Failures (stored_attempts i m) \<le> freeUnlockAttempts \<or> at_NextTry (stored_attempts i m) \<le> now) \<and>
     (\<forall>e. checkUnlockCooldown i now m = Inl e \<longrightarrow> (\<exists>w. e = ErrTooManyAttempts w \<and> 0 < w \<and> w \<le> 2 * maxUnlockDelay))"
  using cooldown_iff cooldown_wait by blast

theorem cooldown_ends_at_the_stored_time_witness:
  "\<exists>e. checkUnlockCooldown sample_id (10 ^ 18 - 1)
     (sample_created\<lparr>mg_attempts := [(sample_id, \<lparr>at_Failures = 4, at_NextTry = 10 ^ 18\<rparr>)]\<rparr>) = Inl e"
proof -
  let ?m = "sample_created\<lparr>mg_attempts := [(sample_id, \<lparr>at_Failures = 4, at_NextTry = 10 ^ 18\<rparr>)]\<rparr>"
  have "stored_attempts sample_id ?m = \<lparr>at_Failures = 4, at_NextTry = 10 ^ 18\<rparr>" by (simp add: stored_attempts_def)
  then have "checkUnlockCooldown sample_id (10 ^ 18 - 1) ?m \<noteq> Inr ()"
    using cooldown_ends_at_the_stored_time [OF sample_ValidID, of "10 ^ 18 - 1" ?m] by (simp add: freeUnlockAttempts_def)
  then show ?thesis by (cases "checkUnlockCooldown sample_id (10 ^ 18 - 1) ?m") auto
qed

text \<open>The schedule: it never shrinks with more failures, doubles from two seconds at the fourth
  failure up to fifteen minutes, and the jitter adds at most a quarter. Ten wrong guesses cost 254
  seconds before jitter.\<close>

theorem backoff_schedule:
  "(n \<le> k \<longrightarrow> backoffFor n \<le> backoffFor k) \<and> backoffFor 4 = 2 * 1000000000 \<and>
   (4 \<le> n \<and> n \<le> 11 \<longrightarrow> backoffFor (n + 1) = 2 * backoffFor n) \<and> (13 \<le> n \<longrightarrow> backoffFor n = maxUnlockDelay) \<and>
   backoffFor n \<le> unlockDelay n j \<and> unlockDelay n j \<le> backoffFor n + backoffFor n div 4 \<and>
   sum_list (map backoffFor [4, 5, 6, 7, 8, 9, 10]) = 254 * 1000000000"
proof -
  have "sum_list (map backoffFor [4, 5, 6, 7, 8, 9, 10]) = 254 * 1000000000" "backoffFor 4 = 2 * 1000000000"
    by (simp_all add: backoffFor_eq maxUnlockDelay_def baseUnlockDelay_def maxUnlockDoublings_def)
  then show ?thesis using backoffFor_mono backoffFor_doubles unlockDelay_bounds by auto
qed

theorem backoff_schedule_witness:
  "backoffFor 5 = 2 * backoffFor 4 \<and> backoffFor 20 = maxUnlockDelay"
  using backoff_schedule [of 4 5] backoff_schedule [of 20] by simp

section \<open>Interleavings\<close>

text \<open>C30. An import between the two halves of a password change is lost: the account stays in the
  file, its key is not in the vault, and in every later state in which the file of the space is still the
  one the change left, the new password, although right, does not unlock the space. The file has to
  change first, for instance by deleting the account in a session that is still open.\<close>

theorem import_during_password_change_locks_out:
  assumes "ChangePassword_prepare X ev1 i pw new m = (m1, Inr (c, refreshed))"
    "ImportNetworks X ev2 i ns fam lbl key m1 = (m2, Inr a)"
    "ChangePassword_commit ev3 i c refreshed m2 = (m3, Inr ())"
    "\<And>f b. map_of (mg_files m) i = Some f \<Longrightarrow> b \<in> set (sf_Accounts f) \<Longrightarrow> ac_ID b \<noteq> ac_ID a"
    "\<And>p f k. map_of (mg_files m) i = Some f \<Longrightarrow>
      vault_UnlockJSON (sx_V X) (sx_J X) pw (sf_Vault f) (space_aad i) = Inr (p, k) \<Longrightarrow> py_ImportedKeys p (ac_KeyRef a) = None"
    "vault_laws (sx_V X) (sx_J X)" "map_of (mg_files m4) i = map_of (mg_files m3) i"
  shows "a \<in> set (sf_Accounts (the (map_of (mg_files m3) i))) \<and> snd (Unlock X ev4 i new m4) \<noteq> Inr ()"
  using assms by (rule interleaved_import_lost)

theorem import_during_password_change_locks_out_witness:
  "\<exists>m2 m3. ImportNetworks sample_ctx (sample_env 100) sample_id [''eth''] FamilyEVM ''k'' sample_hex sample_created = (m2, Inr sample_imported) \<and>
     ChangePassword_commit (sample_env 100) sample_id (sample_vault sample_password2 [0])
       (Some (sample_payload, sample_key sample_password2)) m2 = (m3, Inr ()) \<and>
     snd (Unlock sample_ctx (sample_env 200) sample_id sample_password2 m3) \<noteq> Inr ()"
proof -
  obtain m3 where commit: "ChangePassword_commit (sample_env 100) sample_id (sample_vault sample_password2 [0])
     (Some (sample_payload, sample_key sample_password2)) sample_after_import = (m3, Inr ())"
    using sample_commit by blast
  have "map_of (mg_files sample_created) sample_id = Some sample_file" "sf_Accounts sample_file = []"
    "sf_Vault sample_file = sample_vault sample_password [0]"
    by (simp_all add: sample_created_def sample_file_def)
  then have "snd (Unlock sample_ctx (sample_env 200) sample_id sample_password2 m3) \<noteq> Inr ()"
    using import_during_password_change_locks_out [OF sample_ChangePassword_prepare sample_Import commit, of m3 "sample_env 200"]
      sample_laws by (auto simp: sample_unlockJSON sample_payload_def)
  then show ?thesis using sample_Import commit by blast
qed

section \<open>Accounts\<close>

text \<open>\<open>DeriveNetworks\<close> gives the lowest index no derived account uses on any of the networks, on
  every one of the networks asked for, with the address of the family at that index of the open
  session's mnemonic.\<close>

theorem derived_index_is_least:
  assumes "space_inv X m" "networkList ids = Inr ns" "map_of (mg_files m) i = Some f"
    "DeriveNetworks X ev i ids fam lbl m = (m', Inr a)"
  shows "\<exists>n ss. ac_Index a = Some n \<and> n \<notin> set (used_indexes ns (sf_Accounts f)) \<and>
    (\<forall>j<n. j \<in> set (used_indexes ns (sf_Accounts f))) \<and> ac_Family a = fam \<and> set ns \<subseteq> set (ac_NetworkIDs a) \<and>
    map_of (mg_sessions m) i = Some ss \<and>
    DerivedAddress (sx_W X) (py_Mnemonic (ss_payload ss)) (py_BIP39Passphrase (ss_payload ss)) fam n =
      Inr (address_of (ac_Addresses a) fam)"
  using assms by (rule derive_result)

theorem derived_index_is_least_witness:
  "sample_derived \<in> {a. \<exists>n. ac_Index a = Some n \<and> n \<notin> set (used_indexes [''eth''] (sf_Accounts sample_file)) \<and>
     set [''eth''] \<subseteq> set (ac_NetworkIDs a)}"
proof -
  have "map_of (mg_files sample_created) sample_id = Some sample_file" by (simp add: sample_created_def)
  from derived_index_is_least [OF sample_inv sample_networks this sample_Derive] show ?thesis by blast
qed

text \<open>A key that is exported can be imported again: its text parses, on the key's own curve, to
  the same key with its fingerprint and addresses.\<close>

theorem exported_key_reimports:
  assumes "base58_laws W" "key_ok W k" "key_export W k = Inr s"
  shows "parseImportedKey W (key_curve k) s =
    (case k of
       Secp256k1Key key \<Rightarrow> rbind (account_result (ImportedAddresses W key)) (\<lambda>a. Inr (key, Fingerprint W key, a))
     | Ed25519Key key \<Rightarrow> rbind (account_result (Ed25519Fingerprint W key)) (\<lambda>fp.
         rbind (account_result (ImportedEd25519Addresses W key)) (\<lambda>a. Inr (take 32 key, fp, a))))"
  using assms by (rule reimport)

lemma sample_base58: "base58_laws sample_wallet"
proof -
  have "c \<noteq> CHR ''[''" if c: "c \<in> set (HexEncode bs)" for c bs
  proof -
    obtain d where d: "d < 16" "c = hex_char d" using HexEncode_chars [OF c] by blast
    then have "of_char c = (if d < 10 then 48 + d else 87 + d)" by (simp add: hex_char_def)
    moreover have "(of_char CHR ''['' :: nat) = 91" by simp
    ultimately show ?thesis using d(1) by (auto split: if_splits)
  qed
  moreover have "HexEncode bs \<noteq> []" if "bs \<noteq> []" for bs using that by (cases bs) auto
  ultimately show ?thesis using HexEncode_no_space by (auto simp: base58_laws_def sample_wallet_def)
qed

theorem exported_key_reimports_witness:
  "parseImportedKey sample_wallet CurveEd25519 (HexEncode (replicate 64 3)) =
     Inr (replicate 32 3, HexEncode (replicate 16 3), [(FamilySolana, HexEncode (replicate 32 3))])"
proof -
  let ?k = "Ed25519Key (replicate 64 3)"
  have "key_ok sample_wallet ?k"
    by (simp add: key_ok_def NewKeyFromSeed_def sample_wallet_def flip: replicate_add)
  moreover have "key_export sample_wallet ?k = Inr (HexEncode (replicate 64 3))"
    by (simp add: key_export_def Ed25519KeypairBase58_def account_result_def) (simp add: sample_wallet_def)
  ultimately show ?thesis
    using exported_key_reimports [OF sample_base58, of ?k]
    by (simp add: key_curve_def account_result_def Ed25519Fingerprint_def ImportedEd25519Addresses_def AddressFromEd25519Key_def)
      (simp add: sample_wallet_def)
qed

end
