(* ===== verification/SendSamples.thy ===== *)
theory SendSamples
  imports SendSafety SpaceProperties
begin

text \<open>
  A sample send: a space with one derived account on one network of either family, an open session
  with a live grant, an empty operation file, and the run of the handler up to the adapter's program.
\<close>

definition send_account :: "family \<Rightarrow> account" where
  "send_account fam = sample_derived\<lparr>ac_Family := fam, ac_NetworkIDs := [''eth''], ac_Addresses := [(fam, ''0x'' @ HexEncode (replicate 2 7))]\<rparr>"

definition send_file :: "family \<Rightarrow> space_file" where
  "send_file fam = sample_file\<lparr>sf_Accounts := [send_account fam]\<rparr>"

definition send_session :: session where
  "send_session = sample_session\<lparr>ss_sendGrant := 500\<rparr>"

definition send_manager :: "family \<Rightarrow> manager" where
  "send_manager fam = sample_created\<lparr>mg_files := [(sample_id, send_file fam)], mg_sessions := [(sample_id, send_session)]\<rparr>"

definition send_network :: "family \<Rightarrow> network" where
  "send_network fam = evm ''eth'' ''Net'' ''Net'' ''1'' ''N'' ''https://node'' ''https://explorer'' True\<lparr>nw_Family := fam\<rparr>"

definition send_asset :: chain_asset where
  "send_asset = \<lparr>ca_ID = ''net:native'', ca_NetworkID = ''eth'', ca_Kind = ''native'', ca_Name = ''N'', ca_Symbol = ''N'',
     ca_Decimals = 18, ca_Contract = [], ca_Configured = False\<rparr>"

definition send_ctx :: "family \<Rightarrow> platform_ctx" where
  "send_ctx fam = \<lparr>pc_space = sample_ctx, pc_networks = [(''eth'', send_network fam)], pc_override = (\<lambda>_. None),
     pc_assets = (\<lambda>_. [send_asset]), pc_marshal = (\<lambda>_ _. Some [1]), pc_sign = (\<lambda>_ _. Some (replicate 65 5))\<rparr>"

definition send_dto :: transfer_dto where
  "send_dto = \<lparr>td_Action = [], td_AccountID = ''acc_aaaaaaaaaaaaaaaaaaaa'', td_AssetID = ''net:native'', td_To = ''b'',
     td_Amount = ''1'', td_FeeModel = [], td_GasLimit = 0, td_MaxFeePerGas = [], td_MaxPriorityFeePerGas = [],
     td_ComputeUnitLimit = 0, td_ComputeUnitPriceMicroLamports = 0, td_CreatesTokenAccount = False,
     td_TokenAccountRent = [], td_Fee = []\<rparr>"

definition send_request :: "transfer_request" where
  "send_request = \<lparr>tq_Action = [], tq_AccountID = ''acc_aaaaaaaaaaaaaaaaaaaa'', tq_From = ''0x'' @ HexEncode (replicate 2 7), tq_To = ''b'',
     tq_Asset = send_asset, tq_Amount = ''1'', tq_Approved = None\<rparr>"

definition send_env :: request_env where
  "send_env = \<lparr>rq_confirm = sample_env 100, rq_accounts = sample_env 100, rq_begin = calm_env 100,
     rq_lend = sample_env 100, rq_finish = calm_env 102\<rparr>"

definition send_platform :: "family \<Rightarrow> platform" where
  "send_platform fam = \<lparr>pf_spaces = send_manager fam, pf_ops = (\<lambda>_. Missing)\<rparr>"

definition send_record :: operation where
  "send_record = \<lparr>op_Key = ''k'', op_RequestHash = HexEncode [1], op_NetworkID = ''eth'', op_TxHash = [],
     op_Status = StatusBuilding, op_CreatedAt = 100, op_UpdatedAt = 100, op_LastValidBlockHeight = 0\<rparr>"

definition send_store :: "operation \<Rightarrow> op_file file_state" where
  "send_store r = (\<lambda>_. Missing)(sample_id := Holds \<lparr>of_SchemaVersion = op_SchemaVersion, of_Operations = [(''k'', r)]\<rparr>)"

lemma send_expire [simp]: "expireLocked 100 (send_manager fam) = send_manager fam"
  by (simp add: expireLocked_def send_manager_def send_session_def sample_session_def sample_created_def sample_manager_def)

lemma send_confirm: "RequireSendConfirmation (sample_env 100) sample_id (send_manager fam) = (send_manager fam, Inr ())"
  by (simp add: RequireSendConfirmation_def)
    (simp add: send_manager_def send_session_def sample_created_def sample_manager_def)

lemma send_accounts: "\<exists>summary. Get (sample_env 100) sample_id (send_manager fam) = (send_manager fam, Inr (summary, [send_account fam]))"
  by (simp add: Get_def lookupFile_def sbind_def) (simp add: send_manager_def send_file_def)

lemma send_decode:
  "fam \<in> {FamilyTron, FamilyEVM} \<Longrightarrow> decodePlatformTransfer (send_ctx fam) (sample_env 100) sample_id ''eth'' (Some send_dto) (send_manager fam) =
     (send_manager fam, Inr (send_dto, send_network fam, send_request))"
  using send_accounts [of fam]
  by (auto simp: decodePlatformTransfer_def send_ctx_def network_Get_def effectiveNetwork_def send_dto_def send_network_def
      evm_def findAsset_def send_asset_def send_request_def approval_def send_account_def sample_derived_def BoundTo_def
      address_of_def)

lemma send_begin:
  "Begin (calm_env 100) sample_id ''k'' (HexEncode [1]) ''eth'' (\<lambda>_. Missing) = (send_store send_record, Inr (send_record, False))"
  by (simp add: Begin_def sbind_scheck sbind_slift sample_key maxKeyLength_def loadLocked_def sbind_def sret_def
      prune_def maxOperations_def op_save_def save_file_def calm_env_def send_store_def send_record_def Let_def del: HexEncode.simps)

lemma send_key:
  "fam \<in> {FamilyTron, FamilyEVM} \<Longrightarrow>
     privateKeyFor sample_wallet (send_account fam) sample_payload fam = Inr (Secp256k1Key (replicate 32 7))"
  by (auto simp: privateKeyFor_def send_account_def sample_derived_def CurveOf_def account_result_def DerivePrivateKey_def
      ValidateMnemonic_def Let_def sample_payload_def) (simp_all add: sample_wallet_def ToECDSA_def)

lemma send_unlocked: "unlockedLocked 100 sample_id (send_manager fam) = (send_manager fam, Inr (send_file fam, sample_payload))"
  by (simp add: unlockedLocked_def sbind_def lookupFile_def)
    (simp add: send_manager_def putSession_def send_session_def sample_session_def)

lemma send_lend:
  assumes "fam \<in> {FamilyTron, FamilyEVM}"
  shows "WithKey sample_ctx (sample_env 100) sample_id ''acc_aaaaaaaaaaaaaaaaaaaa'' ''eth'' fam (send_manager fam) =
     (send_manager fam, Inr (Secp256k1Key (replicate 32 7)))"
proof -
  have c: "CurveOf fam = Inr CurveSecp256k1" using assms by (auto simp: CurveOf_def)
  have a: "findAccount (sf_Accounts (send_file fam)) ''acc_aaaaaaaaaaaaaaaaaaaa'' = Inr (send_account fam)"
    "BoundTo (send_account fam) ''eth''"
    by (simp_all add: findAccount_def send_file_def send_account_def sample_derived_def BoundTo_def)
  show ?thesis
    using c a send_key [OF assms] by (simp add: WithKey_def WithSigner_def withKey_def account_result_def sbind_slift sbind_scheck sbind_def [of "unlockedLocked _ _"]
        send_unlocked)
qed

lemma send_manager_inv: "space_inv sample_ctx (send_manager FamilyEVM)"
proof -
  have f: "map_of (mg_files sample_after_derive) sample_id = Some (send_file FamilyEVM)"
    by (simp add: sample_after_derive_def send_file_def send_account_def sample_derived_def)
  have "map_of (mg_sessions sample_after_derive) sample_id = Some sample_session"
    by (simp add: sample_after_derive_def sample_created_def)
  then obtain g where g: "map_of (mg_files sample_after_derive) sample_id = Some g" "session_good sample_ctx sample_id g sample_session"
    using sample_derive_inv unfolding space_inv_def by blast
  then have "session_good sample_ctx sample_id (send_file FamilyEVM) send_session"
    using f by (simp add: session_good_def send_session_def)
  from space_inv_putSession [OF sample_derive_inv f this]
  have "space_inv sample_ctx ((putSession sample_id send_session sample_after_derive)\<lparr>mg_disk := [(sample_id, sample_file)]\<rparr>)"
    by simp
  moreover have "(putSession sample_id send_session sample_after_derive)\<lparr>mg_disk := [(sample_id, sample_file)]\<rparr> = send_manager FamilyEVM"
    by (simp add: putSession_def sample_after_derive_def sample_created_def send_manager_def send_file_def send_account_def
        sample_derived_def sample_manager_def)
  ultimately show ?thesis by simp
qed

text \<open>The handler up to the adapter's program.\<close>

abbreviation send_lent :: "family \<Rightarrow> lent" where
  "send_lent fam \<equiv> \<lparr>ln_space = sample_id, ln_opkey = ''k'',
     ln_signer = send_signer (send_network fam) (Secp256k1Key (replicate 32 7))\<rparr>"

lemma send_runs:
  assumes "fam \<in> {FamilyTron, FamilyEVM}"
    "run_world (w (send_network fam) send_request) (send_ctx fam) (send_lent fam) 0 (send_store send_record) = (s, tr, out)"
  shows "sendTransfer (send_ctx fam) send_env sample_id ''eth'' ''k'' (Some send_dto) w (send_platform fam) =
    (case out of
       None \<Rightarrow> (\<lparr>pf_spaces = send_manager fam, pf_ops = s\<rparr>, tr, None)
     | Some (tx, err) \<Rightarrow>
         (case finishTransfer (calm_env 102) sample_id ''k'' tx (map_option ChainFlow err) s of
            (t, r) \<Rightarrow> (\<lparr>pf_spaces = send_manager fam, pf_ops = t\<rparr>, tr, Some r)))"
proof -
  have h: "RequestHash (pc_marshal (send_ctx fam) ''eth'') (wl_sha256 sample_wallet) send_dto = Inr (HexEncode [1])"
    by (simp add: RequestHash_def send_ctx_def sample_wallet_def del: HexEncode.simps)
  have n: "nw_ID (send_network fam) = ''eth''" "nw_Family (send_network fam) = fam" by (simp_all add: send_network_def evm_def)
  have d: "td_AccountID send_dto = ''acc_aaaaaaaaaaaaaaaaaaaa''" by (simp add: send_dto_def)
  have c: "pc_space (send_ctx fam) = sample_ctx" by (simp add: send_ctx_def)
  show ?thesis
    unfolding sendTransfer_def
    by (simp add: send_env_def send_platform_def send_confirm send_decode [OF assms(1)] h n d c send_begin
        send_lend [OF assms(1)] assms(2) del: HexEncode.simps split: option.split)
qed

lemma send_update:
  "Update (calm_env t) sample_id ''k'' tx st (send_store r) =
     (send_store (update_record t tx st 0 r), Inr (update_record t tx st 0 r))"
  by (simp add: Update_def store_update_def sbind_scheck sample_key loadLocked_def sbind_def sret_def rcheck_def
      op_save_def save_file_def calm_env_def send_store_def Let_def fun_upd_twist)

lemma send_Get: "op_Get sample_id ''k'' (send_store r) = (send_store r, Inr (Some r))"
  by (simp add: op_Get_def sbind_scheck sample_key loadLocked_def sbind_def sret_def rcheck_def send_store_def)

lemma sample_timely: "t0 \<le> t \<Longrightarrow> t < t0 + 1000 \<Longrightarrow> timely t0 (calm_env t)"
  by (simp add: timely_def calm_env_def visits_id retention_def)

lemma sample_empty: "store_ok (pf_ops (send_platform fam))" "visits (se_visit (rq_begin send_env))"
  by (simp_all add: send_platform_def store_ok_def send_env_def calm_env_def visits_id)

definition send_digest :: "byte list" where "send_digest = replicate 32 9"

definition sent_record :: operation where
  "sent_record = update_record 101 (HexEncode send_digest) StatusBroadcasting 0 send_record"

lemma send_digest_hex: "HexEncode send_digest \<noteq> []"
  by (rule HexEncode_nonempty) (simp add: send_digest_def)

lemma send_network_fields: "nw_ID (send_network fam) = ''eth''" "nw_Family (send_network fam) = fam"
  by (simp_all add: send_network_def evm_def)

lemma send_ask:
  "ask_digest (send_ctx FamilyTron) (send_lent FamilyTron) (calm_env 101) False send_digest (send_store send_record) =
     (send_store sent_record, Some (replicate 65 5))"
  by (simp add: ask_digest_def send_signer_def send_network_def recordingTronSigner_def recordingSigner_SignDigest_def
      send_update SignDigest_def send_ctx_def sent_record_def send_digest_def del: HexEncode.simps)

lemma send_event: "digest_event (send_lent FamilyTron) send_digest (Some sig) = Signed (HexEncode send_digest) sig"
  by (simp add: digest_event_def send_signer_def send_network_def)

text \<open>A process that dies right after the signature, and a send whose answer is lost.\<close>

definition dying :: "network \<Rightarrow> transfer_request \<Rightarrow> (transaction \<times> chain_error option) world" where
  "dying item tq = AskDigest (calm_env 101) False send_digest (\<lambda>_. Dies)"

definition lost_send :: "network \<Rightarrow> transfer_request \<Rightarrow> (transaction \<times> chain_error option) world" where
  "lost_send item tq = tron_Send (calm_env 101) False (nw_ID item) True send_digest (\<lambda>sig. sig) NodeSilent"

definition dead_platform :: platform where
  "dead_platform = \<lparr>pf_spaces = send_manager FamilyTron, pf_ops = send_store sent_record\<rparr>"

lemma dying_run:
  "sendTransfer (send_ctx FamilyTron) send_env sample_id ''eth'' ''k'' (Some send_dto) dying (send_platform FamilyTron) =
     (dead_platform, [Signed (HexEncode send_digest) (replicate 65 5)], None)"
proof -
  have "run_world (dying (send_network FamilyTron) send_request) (send_ctx FamilyTron) (send_lent FamilyTron) 0 (send_store send_record) =
      (send_store sent_record, [Signed (HexEncode send_digest) (replicate 65 5)], None)"
    by (simp add: dying_def send_ask send_event del: HexEncode.simps)
  from send_runs [where w = dying, OF _ this] show ?thesis by (simp add: dead_platform_def)
qed

lemma lost_run:
  "\<exists>p1 rep. sendTransfer (send_ctx FamilyTron) send_env sample_id ''eth'' ''k'' (Some send_dto) lost_send (send_platform FamilyTron) =
     (p1, [Signed (HexEncode send_digest) (replicate 65 5), Sent (replicate 65 5) NodeSilent], rep)"
proof -
  have "run_world (lost_send (send_network FamilyTron) send_request) (send_ctx FamilyTron) (send_lent FamilyTron) 0 (send_store send_record) =
      (send_store sent_record, [Signed (HexEncode send_digest) (replicate 65 5), Sent (replicate 65 5) NodeSilent],
       Some (outcome ''eth'' (HexEncode send_digest) StatusBroadcastUnknown (Some ErrBroadcastUnknown)))"
    by (simp add: lost_send_def tron_Send_def submitWithSigner_def send_ask send_event broadcastError_def send_network_fields
        send_digest_hex del: HexEncode.simps)
  from send_runs [where w = lost_send, OF _ this] show ?thesis
    by (auto simp: outcome_def split: prod.split simp del: HexEncode.simps)
qed


definition evm_sends :: "network \<Rightarrow> transfer_request \<Rightarrow> (transaction \<times> chain_error option) world" where
  "evm_sends item tq = AskDigest (calm_env 101) False send_digest (\<lambda>_. Send [2] (NodeAccepted ''h'') Dies)"

lemma evm_run:
  "\<exists>p1 rep. sendTransfer (send_ctx FamilyEVM) send_env sample_id ''eth'' ''k'' (Some send_dto) evm_sends (send_platform FamilyEVM) =
     (p1, [Signed [] (replicate 65 5), Sent [2] (NodeAccepted ''h'')], rep)"
proof -
  have "ask_digest (send_ctx FamilyEVM) (send_lent FamilyEVM) (calm_env 101) False send_digest (send_store send_record) =
      (send_store send_record, Some (replicate 65 5))"
    by (simp add: ask_digest_def send_signer_def send_network_fields SignDigest_def send_digest_def send_ctx_def)
  moreover have "digest_event (send_lent FamilyEVM) send_digest (Some (replicate 65 5)) = Signed [] (replicate 65 5)"
    by (simp add: digest_event_def send_signer_def send_network_fields)
  ultimately have "run_world (evm_sends (send_network FamilyEVM) send_request) (send_ctx FamilyEVM) (send_lent FamilyEVM) 0 (send_store send_record) =
      (send_store send_record, [Signed [] (replicate 65 5), Sent [2] (NodeAccepted ''h'')], None)"
    by (simp add: evm_sends_def)
  from send_runs [where w = evm_sends, OF _ this] show ?thesis by simp
qed

end
