(* ===== verification/SendProperties.thy ===== *)
theory SendProperties
  imports SendSamples
begin

text \<open>
  What \<open>sendTransfer\<close> guarantees about signatures, for every program an adapter may run and every
  history of the store: nothing is signed without the step-up and an open, bound account; a
  transaction is recorded before its signature leaves; a request with a known key signs nothing; and a
  transaction a node may have taken is never recorded as failed.
\<close>

section \<open>The handler, step by step\<close>

lemma sendTransfer_signs:
  assumes "sendTransfer C E spaceID networkID key body chainSend p = (p1, tr, rep)" "tr \<noteq> []"
  obtains m1 m2 m3 dto item transfer h s r0 k t out where
    "RequireSendConfirmation (rq_confirm E) spaceID (pf_spaces p) = (m1, Inr ())"
    "decodePlatformTransfer C (rq_accounts E) spaceID networkID body m1 = (m2, Inr (dto, item, transfer))"
    "Begin (rq_begin E) spaceID key h (nw_ID item) (pf_ops p) = (s, Inr (r0, False))"
    "WithKey (pc_space C) (rq_lend E) spaceID (td_AccountID dto) (nw_ID item) (nw_Family item) m2 = (m3, Inr k)"
    "run_world (chainSend item transfer) C \<lparr>ln_space = spaceID, ln_opkey = key, ln_signer = send_signer item k\<rparr> 0 s =
       (t, tr, out)"
    "out = None \<and> p1 = \<lparr>pf_spaces = m3, pf_ops = t\<rparr> \<and> rep = None \<or>
     (\<exists>tx err u r. out = Some (tx, err) \<and> p1 = \<lparr>pf_spaces = m3, pf_ops = u\<rparr> \<and> rep = Some r \<and>
        finishTransfer (rq_finish E) spaceID key tx (map_option ChainFlow err) t = (u, r))"
proof -
  obtain m1 where m1: "RequireSendConfirmation (rq_confirm E) spaceID (pf_spaces p) = (m1, Inr ())"
    using assms by (cases "RequireSendConfirmation (rq_confirm E) spaceID (pf_spaces p)")
      (auto simp: sendTransfer_def answer_def split: sum.splits)
  obtain m2 dto item transfer where m2:
    "decodePlatformTransfer C (rq_accounts E) spaceID networkID body m1 = (m2, Inr (dto, item, transfer))"
    using assms m1 by (cases "decodePlatformTransfer C (rq_accounts E) spaceID networkID body m1")
      (auto simp: sendTransfer_def answer_def split: sum.splits)
  obtain h where h: "RequestHash (pc_marshal C (nw_ID item)) (wl_sha256 (sx_W (pc_space C))) dto = Inr h"
    using assms m1 m2 by (cases "RequestHash (pc_marshal C (nw_ID item)) (wl_sha256 (sx_W (pc_space C))) dto")
      (auto simp: sendTransfer_def answer_def)
  obtain s r0 where s: "Begin (rq_begin E) spaceID key h (nw_ID item) (pf_ops p) = (s, Inr (r0, False))"
    using assms m1 m2 h by (cases "Begin (rq_begin E) spaceID key h (nw_ID item) (pf_ops p)")
      (auto simp: sendTransfer_def answer_def split: sum.splits bool.splits)
  obtain m3 k where k:
    "WithKey (pc_space C) (rq_lend E) spaceID (td_AccountID dto) (nw_ID item) (nw_Family item) m2 = (m3, Inr k)"
    using assms m1 m2 h s
    by (cases "WithKey (pc_space C) (rq_lend E) spaceID (td_AccountID dto) (nw_ID item) (nw_Family item) m2")
      (auto simp: sendTransfer_def answer_def split: sum.splits prod.splits)
  obtain t tr' out where w: "run_world (chainSend item transfer) C
      \<lparr>ln_space = spaceID, ln_opkey = key, ln_signer = send_signer item k\<rparr> 0 s = (t, tr', out)"
    by (metis prod_cases3)
  have run: "sendTransfer C E spaceID networkID key body chainSend p =
      (case out of None \<Rightarrow> (\<lparr>pf_spaces = m3, pf_ops = t\<rparr>, tr', None)
       | Some (tx, err) \<Rightarrow> (case finishTransfer (rq_finish E) spaceID key tx (map_option ChainFlow err) t of
             (u, r) \<Rightarrow> (\<lparr>pf_spaces = m3, pf_ops = u\<rparr>, tr', Some r)))"
    unfolding sendTransfer_def m1 m2 h s k w prod.case sum.case bool.case by (cases out) simp_all
  then have "tr' = tr" using assms(1) by (auto split: option.splits prod.splits)
  moreover have "out = None \<and> p1 = \<lparr>pf_spaces = m3, pf_ops = t\<rparr> \<and> rep = None \<or>
     (\<exists>tx err u r. out = Some (tx, err) \<and> p1 = \<lparr>pf_spaces = m3, pf_ops = u\<rparr> \<and> rep = Some r \<and>
        finishTransfer (rq_finish E) spaceID key tx (map_option ChainFlow err) t = (u, r))"
    using run assms(1) by (auto split: option.splits prod.splits)
  ultimately show ?thesis using that m1 m2 s k w by blast
qed

text \<open>After \<open>Begin\<close>, the store is safe for the request from that moment on.\<close>

lemma Begin_safe:
  assumes "Begin ev i key h n s = (t, Inr (r, False))" "store_ok s" "visits (se_visit ev)"
  shows "safe_store (se_now ev) i (NormalizeKey key) h t" "ValidID i ''spc_''" "NormalizeKey key \<noteq> []"
    "length (NormalizeKey key) \<le> maxKeyLength"
proof -
  note fresh = Begin_fresh [OF assms(1,3)]
  have "store_ok (run_event (EvBegin ev i key h n) s)"
    using assms by (intro ops.inv_run) (simp_all add: fair_event_def)
  then have "store_ok t" using assms(1) by simp
  moreover have "alive i (NormalizeKey key) h (se_now ev) (ledger_of t)"
    using fresh(4-6,8) by (auto simp: alive_def resolved_def status_defs)
  ultimately show "safe_store (se_now ev) i (NormalizeKey key) h t" by (simp add: safe_store_def)
  show "ValidID i ''spc_''" "NormalizeKey key \<noteq> []" "length (NormalizeKey key) \<le> maxKeyLength"
    using fresh(1-3) .
qed

lemma record_at_Get: "ValidID i ''spc_'' \<Longrightarrow> record_at s i (NormalizeKey key) = Some r \<Longrightarrow> op_Get i key s = (s, Inr (Some r))"
  by (auto simp: record_at_def op_Get_ledger split: option.splits)

lemma privateKeyFor_curve: "privateKeyFor W a p fam = Inr k \<Longrightarrow> CurveOf fam = Inr (key_curve k)"
  by (auto simp: privateKeyFor_def rbind_eq_Inr rcheck_eq_Inr key_curve_def split: option.splits if_splits)

lemma WithKey_curve:
  assumes "WithKey X ev i acc n fam m = (m', Inr k)"
  shows "CurveOf fam = Inr (key_curve k)"
  using assms
  by (auto simp: WithKey_def WithSigner_def WithMessageSigner_def withKey_def sbind_Inr account_result_def
      split: sum.splits if_splits dest: privateKeyFor_curve)

lemma effectiveNetwork_same [simp]:
  "nw_ID (effectiveNetwork C n) = nw_ID n" "nw_Family (effectiveNetwork C n) = nw_Family n"
  by (auto simp: effectiveNetwork_def Let_def split: option.splits)

lemma decode_result:
  assumes "decodePlatformTransfer C ev spaceID networkID body m = (m', Inr (dto, item, transfer))"
  obtains n summary accounts a asset where "body = Some dto" "network_Get (pc_networks C) networkID = Inr n"
    "item = effectiveNetwork C n" "nw_Enabled item" "Get ev spaceID m = (m', Inr (summary, accounts))"
    "find (\<lambda>a. ac_ID a = td_AccountID dto \<and> BoundTo a (nw_ID item)) accounts = Some a"
    "tq_From transfer = address_of (ac_Addresses a) (nw_Family item)" "tq_From transfer \<noteq> []"
    "findAsset (pc_assets C item) (td_AssetID dto) = Some asset" "tq_Asset transfer = asset"
    "tq_Approved transfer = approval dto"
  using assms
  by (auto simp: decodePlatformTransfer_def Let_def split: option.splits sum.splits prod.splits if_splits)

text \<open>What may go on beside a send, from the moment its operation is reserved: its own steps and those of
  other requests stay within the retention period, and each event \<open>e\<close> of another request satisfies \<open>P e\<close>
  in the state it meets. Other requests may reserve, advance, confirm and fail whatever else they like.\<close>

definition send_beside ::
  "(store_event \<Rightarrow> op_file file_state \<Rightarrow> bool) \<Rightarrow> platform_ctx \<Rightarrow> request_env \<Rightarrow> string \<Rightarrow> string
     \<Rightarrow> (network \<Rightarrow> transfer_request \<Rightarrow> (transaction \<times> chain_error option) world) \<Rightarrow> platform \<Rightarrow> bool" where
  "send_beside P C E spaceID key chainSend p \<longleftrightarrow>
     (\<forall>item tq h r k s. Begin (rq_begin E) spaceID key h (nw_ID item) (pf_ops p) = (s, Inr (r, False)) \<longrightarrow>
        undisturbed (chainSend item tq) P (se_now (rq_begin E)) C
          \<lparr>ln_space = spaceID, ln_opkey = key, ln_signer = send_signer item k\<rparr> 0 s)"

section \<open>Recorded before it leaves\<close>

text \<open>C2. On Tron and Solana the wallet cannot lose a transaction it has signed: if the process dies
  within the retention period at any point of a send, whatever the adapter did, and a signature was the
  last thing the signer was asked for and gave, then the operation of the request is on disk,
  unresolved, and names that transaction. Other requests may have reserved, advanced, confirmed or
  failed any operations meanwhile, as long as none of them wrote the record of this very operation.\<close>

theorem signed_is_recorded:
  assumes "store_ok (pf_ops p)" "visits (se_visit (rq_begin E))"
    and "send_beside (avoids spaceID (NormalizeKey key)) C E spaceID key chainSend p"
    and "network_Get (pc_networks C) networkID = Inr n" "nw_Family n \<noteq> FamilyEVM"
    and "sendTransfer C E spaceID networkID key body chainSend p = (p1, tr, None)"
    and "last_ask tr = Some (Signed tx sig)"
  shows "\<exists>r. op_Get spaceID key (pf_ops p1) = (pf_ops p1, Inr (Some r)) \<and> op_TxHash r = tx \<and>
    \<not> resolved (op_Status r)"
proof -
  have "tr \<noteq> []" using assms(7) by auto
  then obtain m1 m2 m3 dto item transfer h s r0 k t out where run:
    "decodePlatformTransfer C (rq_accounts E) spaceID networkID body m1 = (m2, Inr (dto, item, transfer))"
    "Begin (rq_begin E) spaceID key h (nw_ID item) (pf_ops p) = (s, Inr (r0, False))"
    "WithKey (pc_space C) (rq_lend E) spaceID (td_AccountID dto) (nw_ID item) (nw_Family item) m2 = (m3, Inr k)"
    "run_world (chainSend item transfer) C \<lparr>ln_space = spaceID, ln_opkey = key, ln_signer = send_signer item k\<rparr> 0 s =
       (t, tr, out)" "pf_ops p1 = t"
    using sendTransfer_signs [OF assms(6)] by (metis option.distinct(1) platform.select_convs(2))
  have fam: "nw_Family item \<noteq> FamilyEVM" using decode_result [OF run(1)] assms(4,5) by fastforce
  have rec: "recording \<lparr>ln_space = spaceID, ln_opkey = key, ln_signer = send_signer item k\<rparr>"
  proof (cases k)
    case (Secp256k1Key b)
    then have "nw_Family item = FamilyTron"
      using WithKey_curve [OF run(3)] fam by (auto simp: CurveOf_def key_curve_def split: if_splits)
    then show ?thesis using Secp256k1Key by (simp add: recording_def send_signer_def)
  qed (simp add: recording_def send_signer_def)
  note begun = Begin_safe [OF run(2) assms(1,2)]
  have "names_after (se_now (rq_begin E)) \<lparr>ln_space = spaceID, ln_opkey = key, ln_signer = send_signer item k\<rparr> s tr t"
    using names_world [OF _ _ rec run(4)] assms(3) begun(1) run(2) by (fastforce simp: send_beside_def)
  then obtain r where "record_at t spaceID (NormalizeKey key) = Some r" "op_TxHash r = tx" "\<not> resolved (op_Status r)"
    using assms(7) by (auto simp: names_after_def names_def)
  then show ?thesis using record_at_Get [OF begun(2)] run(5) by blast
qed

theorem signed_is_recorded_witness:
  "\<exists>r. op_Get sample_id ''k'' (pf_ops dead_platform) = (pf_ops dead_platform, Inr (Some r)) \<and>
    op_TxHash r = HexEncode send_digest \<and> \<not> resolved (op_Status r)"
proof (rule signed_is_recorded [OF sample_empty _ _ _ dying_run])
  show "send_beside (avoids sample_id (NormalizeKey ''k'')) (send_ctx FamilyTron) send_env sample_id ''k'' dying (send_platform FamilyTron)"
    using sample_timely [of 100 101] by (simp add: send_beside_def dying_def send_env_def calm_env_def split: prod.split)
  show "network_Get (pc_networks (send_ctx FamilyTron)) ''eth'' = Inr (send_network FamilyTron)"
    by (simp add: network_Get_def send_ctx_def)
qed (simp_all add: send_network_fields)

section \<open>At most one signature\<close>

lemma known_key_signs_nothing:
  assumes "store_ok (pf_ops p)" "alive spaceID (NormalizeKey key) h t0 (ledger_of (pf_ops p))"
    and "ValidID spaceID ''spc_''" "NormalizeKey key \<noteq> []" "length (NormalizeKey key) \<le> maxKeyLength"
    and "sendTransfer C E spaceID networkID key body chainSend p = (p1, tr, rep)"
  shows "tr = [] \<and> pf_ops p1 = pf_ops p"
proof -
  obtain r where r: "ledger_of (pf_ops p) spaceID \<noteq> None"
    "\<And>ev h n. Begin ev spaceID key h n (pf_ops p) =
      (pf_ops p, if op_RequestHash r = h then Inr (r, True) else Inl ErrConflict)"
    using assms(2) Begin_known [OF assms(3-5)] by (auto simp: alive_def)
  have "tr = []"
  proof (rule ccontr)
    assume "tr \<noteq> []"
    then obtain h n s r0 where "Begin (rq_begin E) spaceID key h n (pf_ops p) = (s, Inr (r0, False))"
      using sendTransfer_signs [OF assms(6)] by metis
    then show False using r(2) by (auto split: if_splits)
  qed
  moreover have "pf_ops p1 = pf_ops p"
    using assms(6) r(2)
    by (auto simp: sendTransfer_def answer_def split: prod.splits sum.splits bool.splits if_splits)
  ultimately show ?thesis by simp
qed

lemma finishTransfer_event:
  "fst (finishTransfer ev i key tx err s) =
     run_event (EvUpdate ev i key (tr_Hash tx) (case err of Some e \<Rightarrow> failure_status e | None \<Rightarrow> tr_Status tx)) s"
  by (auto simp: finishTransfer_def Let_def split: option.splits prod.splits sum.splits)

lemma finishTransfer_record:
  assumes "finishTransfer ev i key tx err s = (t, OperationReply c u)"
  shows "record_at t i (NormalizeKey key) = Some u \<and> op_UpdatedAt u = se_now ev \<and>
    op_Status u = (case err of Some e \<Rightarrow> failure_status e | None \<Rightarrow> tr_Status tx)"
  using assms
  by (auto simp: finishTransfer_def Let_def Update_def writePlatformError_def update_record_def
      dest!: store_update_Inr split: option.splits prod.splits sum.splits if_splits)

text \<open>A send that reached the adapter leaves a record that is alive, unless it says that it is resolved.\<close>

lemma signing_leaves_record:
  assumes "store_ok (pf_ops p)" "visits (se_visit (rq_begin E))" "timely (se_now (rq_begin E)) (rq_finish E)"
    and "send_beside (spares spaceID (NormalizeKey key)) C E spaceID key chainSend p"
    and "sendTransfer C E spaceID networkID key body chainSend p = (p1, tr, rep)" "tr \<noteq> []"
    and "rep = None \<or> (\<exists>c u. rep = Some (OperationReply c u) \<and> \<not> resolved (op_Status u))"
  shows "\<exists>h. safe_store (se_now (rq_begin E)) spaceID (NormalizeKey key) h (pf_ops p1)"
    "ValidID spaceID ''spc_''" "NormalizeKey key \<noteq> []" "length (NormalizeKey key) \<le> maxKeyLength"
proof -
  obtain m1 m2 m3 dto item transfer h s r0 k t out where run:
    "RequireSendConfirmation (rq_confirm E) spaceID (pf_spaces p) = (m1, Inr ())"
    "decodePlatformTransfer C (rq_accounts E) spaceID networkID body m1 = (m2, Inr (dto, item, transfer))"
    "Begin (rq_begin E) spaceID key h (nw_ID item) (pf_ops p) = (s, Inr (r0, False))"
    "WithKey (pc_space C) (rq_lend E) spaceID (td_AccountID dto) (nw_ID item) (nw_Family item) m2 = (m3, Inr k)"
    "run_world (chainSend item transfer) C \<lparr>ln_space = spaceID, ln_opkey = key, ln_signer = send_signer item k\<rparr> 0 s =
       (t, tr, out)"
    "out = None \<and> p1 = \<lparr>pf_spaces = m3, pf_ops = t\<rparr> \<and> rep = None \<or>
     (\<exists>tx err u r. out = Some (tx, err) \<and> p1 = \<lparr>pf_spaces = m3, pf_ops = u\<rparr> \<and> rep = Some r \<and>
        finishTransfer (rq_finish E) spaceID key tx (map_option ChainFlow err) t = (u, r))"
    by (rule sendTransfer_signs [OF assms(5,6)])
  note begun = Begin_safe [OF run(3) assms(1,2)]
  show "ValidID spaceID ''spc_''" "NormalizeKey key \<noteq> []" "length (NormalizeKey key) \<le> maxKeyLength"
    using begun(2-4) .
  have t: "safe_store (se_now (rq_begin E)) spaceID (NormalizeKey key) h t"
    using safe_world [OF _ begun(1) run(5)] assms(4) run(3) by (simp add: send_beside_def)
  show "\<exists>h. safe_store (se_now (rq_begin E)) spaceID (NormalizeKey key) h (pf_ops p1)"
    using run(6)
  proof (elim disjE exE conjE)
    assume "p1 = \<lparr>pf_spaces = m3, pf_ops = t\<rparr>"
    then show ?thesis using t by auto
  next
    fix tx err u r
    assume fin: "p1 = \<lparr>pf_spaces = m3, pf_ops = u\<rparr>" "rep = Some r"
      "finishTransfer (rq_finish E) spaceID key tx (map_option ChainFlow err) t = (u, r)"
    then obtain c v where v: "r = OperationReply c v" "\<not> resolved (op_Status v)" using assms(7) by auto
    let ?st = "case map_option ChainFlow err of Some e \<Rightarrow> failure_status e | None \<Rightarrow> tr_Status tx"
    have "\<not> resolved ?st" using finishTransfer_record [of "rq_finish E" spaceID key tx _ t u c v] fin(3) v by simp
    then have "safe_store (se_now (rq_begin E)) spaceID (NormalizeKey key) h
        (run_event (EvUpdate (rq_finish E) spaceID key (tr_Hash tx) ?st) t)"
      using assms(3) by (intro safe_event [OF t]) (simp_all add: fair_event_def keeps_open_def timely_def)
    then show ?thesis using finishTransfer_event [of "rq_finish E" spaceID key tx "map_option ChainFlow err" t] fin(1,3) by auto
  qed
qed

text \<open>C1. One idempotency key, at most one signing request: if a send asked for a signature and then the
  process died, or it answered with an operation that is not resolved, then within the retention
  period a send with any spelling of the key - on any network, with any body - asks for no signature,
  broadcasts nothing and changes no operation. Other requests may have reserved, advanced, confirmed or
  failed any other operations during the send and since, in any space; the one condition is that none
  of them resolved (confirmed or failed) the operation of this very key. Once it is resolved, or the
  retention period is over, a full file may drop the record, and the key is then free.\<close>

theorem signed_at_most_once:
  assumes "store_ok (pf_ops p)" "visits (se_visit (rq_begin E))" "timely (se_now (rq_begin E)) (rq_finish E)"
    and "send_beside (spares spaceID (NormalizeKey key)) C E spaceID key chainSend p"
    and "sendTransfer C E spaceID networkID key body chainSend p = (p1, tr, rep)" "tr \<noteq> []"
    and "rep = None \<or> (\<exists>c u. rep = Some (OperationReply c u) \<and> \<not> resolved (op_Status u))"
    and "history (spares spaceID (NormalizeKey key)) (se_now (rq_begin E)) es (pf_ops p1)"
    and "pf_ops p2 = run_all run_event es (pf_ops p1)" "NormalizeKey key' = NormalizeKey key"
    and "sendTransfer C' E' spaceID networkID' key' body' chainSend' p2 = (p3, tr', rep')"
  shows "tr' = [] \<and> pf_ops p3 = pf_ops p2"
proof -
  note left = signing_leaves_record [OF assms(1-7)]
  obtain h where h: "safe_store (se_now (rq_begin E)) spaceID (NormalizeKey key) h (pf_ops p1)" using left(1) by blast
  have "safe_store (se_now (rq_begin E)) spaceID (NormalizeKey key) h (pf_ops p2)"
    unfolding assms(9) by (rule history_safe [OF assms(8) h])
  then have ok: "store_ok (pf_ops p2)" and "alive spaceID (NormalizeKey key) h (se_now (rq_begin E)) (ledger_of (pf_ops p2))"
    by (simp_all add: safe_store_def)
  then show ?thesis
    using known_key_signs_nothing [OF ok _ left(2) _ _ assms(11)] left(3,4) unfolding assms(10) by blast
qed

theorem signed_at_most_once_witness:
  "fst (snd (sendTransfer (send_ctx FamilyTron) send_env sample_id ''eth'' '' k '' (Some send_dto) dying dead_platform)) = []"
proof -
  let ?run = "sendTransfer (send_ctx FamilyTron) send_env sample_id ''eth'' '' k '' (Some send_dto) dying dead_platform"
  have "fst (snd ?run) = [] \<and> pf_ops (fst ?run) = pf_ops dead_platform"
  proof (rule signed_at_most_once [OF sample_empty _ _ dying_run, where es = "[]"])
    show "timely (se_now (rq_begin send_env)) (rq_finish send_env)"
      using sample_timely [of 100 102] by (simp add: send_env_def calm_env_def)
    show "send_beside (spares sample_id (NormalizeKey ''k'')) (send_ctx FamilyTron) send_env sample_id ''k'' dying (send_platform FamilyTron)"
      using sample_timely [of 100 101] by (simp add: send_beside_def dying_def send_env_def calm_env_def split: prod.split)
    show "?run = (fst ?run, fst (snd ?run), snd (snd ?run))" by simp
  qed (simp_all add: sample_key)
  then show ?thesis by simp
qed

section \<open>Failed means not broadcast\<close>

text \<open>A program that reports a failure only when no node has taken the transaction: after bytes were
  sent and not refused, it ends with an unknown outcome or with a status that is not failed.\<close>

definition taken :: "trace_event \<Rightarrow> bool" where
  "taken e \<longleftrightarrow> (case e of Sent raw node \<Rightarrow> (\<forall>code. node \<noteq> NodeRefused code) | _ \<Rightarrow> False)"

primrec honest :: "(transaction \<times> chain_error option) world \<Rightarrow> bool \<Rightarrow> bool" where
  "honest (Finished r) = (\<lambda>t. t \<longrightarrow> snd r = Some ErrBroadcastUnknown \<or> snd r = None \<and> tr_Status (fst r) \<noteq> StatusFailed)"
| "honest (AskDigest ev ended digest k) = (\<lambda>t. \<forall>answer. honest (k answer) t)"
| "honest (AskMessage ev ended message k) = (\<lambda>t. \<forall>answer. honest (k answer) t)"
| "honest (BeforeSigning h w) = honest w"
| "honest (Send raw node w) = (\<lambda>t. honest w (t \<or> taken (Sent raw node)))"
| "honest (Elsewhere e w) = honest w"
| "honest Dies = (\<lambda>t. True)"

lemma honest_run:
  "honest w b \<Longrightarrow> run_world w C L height s = (t, tr, Some (tx, err)) \<Longrightarrow> b \<or> (\<exists>e\<in>set tr. taken e) \<Longrightarrow>
     err = Some ErrBroadcastUnknown \<or> err = None \<and> tr_Status tx \<noteq> StatusFailed"
proof (induction w arbitrary: b height s t tr)
  case (AskDigest ev ended d w)
  from AskDigest.prems(2) obtain a ans tr'
    where a: "run_world (w ans) C L height a = (t, tr', Some (tx, err))" "tr = digest_event L d ans # tr'"
    by (rule run_digestE)
  moreover have "\<not> taken (digest_event L d ans)" by (simp add: taken_def digest_event_def split: option.split)
  ultimately show ?case using AskDigest.IH [OF rangeI _ a(1)] AskDigest.prems(1,3) by auto
next
  case (AskMessage ev ended m w)
  from AskMessage.prems(2) obtain a ans tr'
    where a: "run_world (w ans) C L height a = (t, tr', Some (tx, err))" "tr = message_event C ans # tr'"
    by (rule run_messageE)
  moreover have "\<not> taken (message_event C ans)" by (simp add: taken_def message_event_def split: option.split)
  ultimately show ?case using AskMessage.IH [OF rangeI _ a(1)] AskMessage.prems(1,3) by auto
next
  case (Send raw node w)
  from Send.prems(2) obtain tr' where "run_world w C L height s = (t, tr', Some (tx, err))" "tr = Sent raw node # tr'"
    by (rule run_sendE)
  then show ?case using Send.IH [of "b \<or> taken (Sent raw node)" height s t tr'] Send.prems(1,3) by auto
qed auto

lemma adapters_honest:
  "honest (evm_Send ev ended networkID digest attach node) False"
  "honest (signAndBroadcast ev ended networkID verify base58 message lastValid node) False"
  "honest (tron_Send ev ended networkID verified digest attach' node) False"
  by (auto simp: evm_Send_def signAndBroadcast_def tron_Send_def submitWithSigner_def outcome_def taken_def status_defs
      broadcastError_def no_transaction_def Let_def HexEncode_nonempty split: option.split node_answer.split)

lemma store_update_record:
  assumes "record_at s i (NormalizeKey key) = Some r"
  shows "record_at (fst (store_update ev i key tx st b s)) i (NormalizeKey key) \<in>
    {Some r, Some (update_record (se_now ev) tx st b r)}"
proof (cases "ValidID i ''spc_''")
  case True
  obtain M where M: "ledger_of s i = Some M" "M (NormalizeKey key) = Some r"
    using assms by (auto simp: record_at_def split: option.splits)
  obtain f where f: "loadLocked i s = (s, Inr f)"
    "store_update ev i key tx st b s = sbind (op_save (se_save ev) i (f\<lparr>of_Operations :=
       AList.update (NormalizeKey key) (update_record (se_now ev) tx st b r) (of_Operations f)\<rparr>))
       (\<lambda>_. sret (update_record (se_now ev) tx st b r)) s"
    using store_update_known [OF True M] by blast
  then show ?thesis
    using assms ledger_of_saved [OF f(1)]
    by (cases "se_save ev") (simp_all add: sbind_def op_save_def save_file_def record_at_def update_conv')
qed (use assms in \<open>simp add: store_update_def sbind_scheck\<close>)

text \<open>A send as it runs among others: the program \<open>w\<close> of an adapter with steps of other requests anywhere
  between its own, its clock and disk as they then are, or cut short because the process died.\<close>

inductive woven :: "'r world \<Rightarrow> 'r world \<Rightarrow> bool" where
  same: "woven w w"
| digest: "(\<And>a. woven (k a) (k' a)) \<Longrightarrow> woven (AskDigest ev ended d k) (AskDigest ev' ended' d k')"
| message: "(\<And>a. woven (k a) (k' a)) \<Longrightarrow> woven (AskMessage ev ended m k) (AskMessage ev' ended' m k')"
| before: "woven w w' \<Longrightarrow> woven (BeforeSigning h w) (BeforeSigning h w')"
| sent: "woven w w' \<Longrightarrow> woven (Send raw node w) (Send raw node w')"
| elsewhere: "woven w w' \<Longrightarrow> woven w (Elsewhere e w')"
| dead: "woven w Dies"

lemma woven_honest: "woven w w' \<Longrightarrow> honest w b \<Longrightarrow> honest w' b"
  by (induction arbitrary: b rule: woven.induct) auto

text \<open>The sends of the three adapters: refused before anything is signed, or the tail that signs and
  broadcasts, for whatever the adapter has built and the node answers.\<close>

inductive adapter_send :: "(transaction \<times> chain_error option) world \<Rightarrow> bool" where
  refused: "adapter_send (Finished (no_transaction, Some e))"
| evm: "adapter_send (evm_Send ev ended networkID digest attach node)"
| solana: "adapter_send (signAndBroadcast ev ended networkID verify base58 message lastValid node)"
| tron: "adapter_send (tron_Send ev ended networkID verified digest attach' node)"

lemma adapter_send_honest: "adapter_send w \<Longrightarrow> honest w False"
  by (induction rule: adapter_send.induct) (simp_all add: adapters_honest)

text \<open>C6. A transaction a node may have taken is never recorded as failed by the send that made it: if
  bytes went out and the node did not refuse them - it accepted them, or its answer was lost - then
  when the send of any of the three adapters ends, by an answer or by the death of the process within
  the retention period, the operation is on disk and not failed, so no replay is told to build a
  second transaction under a new key. Other requests may run anywhere in between and do anything except
  resolve the operation of this very key.\<close>

theorem taken_never_failed:
  assumes "store_ok (pf_ops p)" "visits (se_visit (rq_begin E))"
    and "send_beside (spares spaceID (NormalizeKey key)) C E spaceID key chainSend p"
    and "\<And>item tq. \<exists>w. adapter_send w \<and> woven w (chainSend item tq)"
    and "sendTransfer C E spaceID networkID key body chainSend p = (p1, tr, rep)"
    and "Sent raw node \<in> set tr" "\<And>code. node \<noteq> NodeRefused code"
  shows "\<exists>r. op_Get spaceID key (pf_ops p1) = (pf_ops p1, Inr (Some r)) \<and> op_Status r \<noteq> StatusFailed \<and>
    rejectIncompleteReplay r \<noteq> Some (RefusedReply 409 ''previous operation failed before broadcast; retry with a new idempotency key'')"
proof -
  have honest: "honest (chainSend item tq) False" for item tq using assms(4) adapter_send_honest woven_honest by blast
  have tr: "tr \<noteq> []" "\<exists>e\<in>set tr. taken e" using assms(6,7) by (auto simp: taken_def intro: bexI [of _ "Sent raw node"])
  obtain m1 m2 m3 dto item transfer h s r0 k t out where run:
    "RequireSendConfirmation (rq_confirm E) spaceID (pf_spaces p) = (m1, Inr ())"
    "decodePlatformTransfer C (rq_accounts E) spaceID networkID body m1 = (m2, Inr (dto, item, transfer))"
    "Begin (rq_begin E) spaceID key h (nw_ID item) (pf_ops p) = (s, Inr (r0, False))"
    "WithKey (pc_space C) (rq_lend E) spaceID (td_AccountID dto) (nw_ID item) (nw_Family item) m2 = (m3, Inr k)"
    "run_world (chainSend item transfer) C \<lparr>ln_space = spaceID, ln_opkey = key, ln_signer = send_signer item k\<rparr> 0 s =
       (t, tr, out)"
    "out = None \<and> p1 = \<lparr>pf_spaces = m3, pf_ops = t\<rparr> \<and> rep = None \<or>
     (\<exists>tx err u r. out = Some (tx, err) \<and> p1 = \<lparr>pf_spaces = m3, pf_ops = u\<rparr> \<and> rep = Some r \<and>
        finishTransfer (rq_finish E) spaceID key tx (map_option ChainFlow err) t = (u, r))"
    by (rule sendTransfer_signs [OF assms(5) tr(1)])
  note begun = Begin_safe [OF run(3) assms(1,2)]
  have "safe_store (se_now (rq_begin E)) spaceID (NormalizeKey key) h t"
    using safe_world [OF _ begun(1) run(5)] assms(3) run(3) by (simp add: send_beside_def)
  then obtain r where r: "record_at t spaceID (NormalizeKey key) = Some r" "op_Status r \<noteq> StatusFailed"
    by (auto simp: safe_store_def record_at_alive resolved_def)
  have "\<exists>q. record_at (pf_ops p1) spaceID (NormalizeKey key) = Some q \<and> op_Status q \<noteq> StatusFailed"
    using run(6)
  proof (elim disjE exE conjE)
    fix tx err u q
    assume fin: "out = Some (tx, err)" "p1 = \<lparr>pf_spaces = m3, pf_ops = u\<rparr>"
      "finishTransfer (rq_finish E) spaceID key tx (map_option ChainFlow err) t = (u, q)"
    let ?st = "case map_option ChainFlow err of Some e \<Rightarrow> failure_status e | None \<Rightarrow> tr_Status tx"
    have "?st \<noteq> StatusFailed"
      using honest_run [OF honest run(5) [unfolded fin(1)]] tr(2) by (auto simp: failure_status_def status_defs)
    moreover have "u = fst (store_update (rq_finish E) spaceID key (tr_Hash tx) ?st 0 t)"
      using finishTransfer_event [of "rq_finish E" spaceID key tx "map_option ChainFlow err" t] fin(3) by (simp add: Update_def)
    ultimately show ?thesis
      using store_update_record [OF r(1), of "rq_finish E" "tr_Hash tx" ?st 0] fin(2) r(2) by (auto simp: update_record_def)
  qed (use r in auto)
  then obtain q where q: "record_at (pf_ops p1) spaceID (NormalizeKey key) = Some q" "op_Status q \<noteq> StatusFailed" by blast
  then have "rejectIncompleteReplay q \<noteq> Some (RefusedReply 409
      ''previous operation failed before broadcast; retry with a new idempotency key'')"
    by (simp add: rejectIncompleteReplay_def)
  then show ?thesis using record_at_Get [OF begun(2) q(1)] q(2) by blast
qed

theorem taken_never_failed_witness:
  "\<exists>r. snd (op_Get sample_id ''k'' (pf_ops (fst (sendTransfer (send_ctx FamilyTron) send_env sample_id ''eth'' ''k''
      (Some send_dto) lost_send (send_platform FamilyTron))))) = Inr (Some r) \<and> op_Status r \<noteq> StatusFailed"
proof -
  obtain p1 rep where "sendTransfer (send_ctx FamilyTron) send_env sample_id ''eth'' ''k'' (Some send_dto) lost_send (send_platform FamilyTron) =
      (p1, [Signed (HexEncode send_digest) (replicate 65 5), Sent (replicate 65 5) NodeSilent], rep)"
    using lost_run by blast
  note sent = this and run = taken_never_failed [OF sample_empty _ _ this]
  have "\<exists>r. op_Get sample_id ''k'' (pf_ops p1) = (pf_ops p1, Inr (Some r)) \<and> op_Status r \<noteq> StatusFailed \<and>
    rejectIncompleteReplay r \<noteq> Some (RefusedReply 409 ''previous operation failed before broadcast; retry with a new idempotency key'')"
  proof (rule run)
    show "send_beside (spares sample_id (NormalizeKey ''k'')) (send_ctx FamilyTron) send_env sample_id ''k'' lost_send (send_platform FamilyTron)"
      using sample_timely [of 100 101]
      by (auto simp: send_beside_def lost_send_def tron_Send_def submitWithSigner_def send_env_def calm_env_def split: option.split)
    show "\<exists>w. adapter_send w \<and> woven w (lost_send item tq)" for item tq
      unfolding lost_send_def using adapter_send.tron woven.same by blast
    show "Sent (replicate 65 5) NodeSilent \<in> set [Signed (HexEncode send_digest) (replicate 65 5), Sent (replicate 65 5) NodeSilent]"
      by simp
  qed simp
  then obtain r where "op_Get sample_id ''k'' (pf_ops p1) = (pf_ops p1, Inr (Some r))" "op_Status r \<noteq> StatusFailed" by blast
  then show ?thesis unfolding sent by simp
qed

section \<open>Nothing is signed behind the user's back\<close>

lemma map_of_expired:
  assumes "distinct (map fst (mg_sessions m))" "map_of (mg_sessions (expireLocked now m)) i = Some ss"
  shows "map_of (mg_sessions m) i = Some ss"
proof (cases "mg_autoLock m \<le> 0")
  case False
  have "(i, ss) \<in> set (mg_sessions m)"
    using map_of_SomeD [OF assms(2)] False by (simp add: expireLocked_def)
  then show ?thesis by (rule map_of_is_SomeI [OF assms(1)])
qed (use assms in \<open>simp add: expireLocked_def\<close>)

lemma expire_frame [simp]: "mg_files (expireLocked now m) = mg_files m" "mg_confirmSends (expireLocked now m) = mg_confirmSends m"
  by (simp_all add: expireLocked_def)

lemma confirmed_grant:
  assumes "RequireSendConfirmation ev i m = (m', Inr u)" "distinct (map fst (mg_sessions m))" "mg_confirmSends m"
  shows "\<exists>ss. map_of (mg_sessions m) i = Some ss \<and> ev_now ev < ss_sendGrant ss"
proof -
  obtain ss where ss: "map_of (mg_sessions (expireLocked (ev_now ev) m)) i = Some ss" "ev_now ev < ss_sendGrant ss"
    using assms(1,3) by (auto simp: RequireSendConfirmation_def split: option.splits if_splits)
  then show ?thesis using map_of_expired [OF assms(2)] by blast
qed

lemma RequireSendConfirmation_state: "fst (RequireSendConfirmation ev i m) = expireLocked (ev_now ev) m"
  by (auto simp: RequireSendConfirmation_def split: option.splits)

lemma Get_state: "Get ev i m = (m', Inr (summary, accounts)) \<Longrightarrow>
    m' = expireLocked (ev_now ev) m \<and> (\<exists>f. map_of (mg_files m) i = Some f \<and> accounts = sf_Accounts f)"
  by (auto simp: Get_def sbind_def lookupFile_def split: option.splits)

text \<open>C17. Nothing is signed behind the user's back: if a send asks for a signature, the network is
  enabled, the space is open, the account belongs to it and is bound to the network, where the step-up
  is on a spending grant is live, and the key lent to the adapter is the one of the address the
  transfer is sent from.\<close>

theorem signing_needs_open_account:
  assumes "space_inv (pc_space C) (pf_spaces p)"
    and "\<And>f. map_of (mg_files (pf_spaces p)) spaceID = Some f \<Longrightarrow> distinct (map ac_ID (sf_Accounts f))"
    and "sendTransfer C E spaceID networkID key body chainSend p = (p1, tr, rep)" "tr \<noteq> []"
  shows "\<exists>dto n ss f a transfer k s t out. body = Some dto \<and> network_Get (pc_networks C) networkID = Inr n \<and>
    nw_Enabled (effectiveNetwork C n) \<and> map_of (mg_sessions (pf_spaces p)) spaceID = Some ss \<and>
    map_of (mg_files (pf_spaces p)) spaceID = Some f \<and> a \<in> set (sf_Accounts f) \<and> ac_ID a = td_AccountID dto \<and>
    BoundTo a (nw_ID n) \<and> (mg_confirmSends (pf_spaces p) \<longrightarrow> ev_now (rq_confirm E) < ss_sendGrant ss) \<and>
    tq_From transfer = address_of (ac_Addresses a) (nw_Family n) \<and>
    key_address (sx_W (pc_space C)) k (nw_Family n) = Inr (tq_From transfer) \<and>
    run_world (chainSend (effectiveNetwork C n) transfer) C
      \<lparr>ln_space = spaceID, ln_opkey = key, ln_signer = send_signer (effectiveNetwork C n) k\<rparr> 0 s = (t, tr, out)"
proof -
  obtain m1 m2 m3 dto item transfer h s r0 k t out where run:
    "RequireSendConfirmation (rq_confirm E) spaceID (pf_spaces p) = (m1, Inr ())"
    "decodePlatformTransfer C (rq_accounts E) spaceID networkID body m1 = (m2, Inr (dto, item, transfer))"
    "Begin (rq_begin E) spaceID key h (nw_ID item) (pf_ops p) = (s, Inr (r0, False))"
    "WithKey (pc_space C) (rq_lend E) spaceID (td_AccountID dto) (nw_ID item) (nw_Family item) m2 = (m3, Inr k)"
    "run_world (chainSend item transfer) C \<lparr>ln_space = spaceID, ln_opkey = key, ln_signer = send_signer item k\<rparr> 0 s =
       (t, tr, out)"
    "out = None \<and> p1 = \<lparr>pf_spaces = m3, pf_ops = t\<rparr> \<and> rep = None \<or>
     (\<exists>tx err u r. out = Some (tx, err) \<and> p1 = \<lparr>pf_spaces = m3, pf_ops = u\<rparr> \<and> rep = Some r \<and>
        finishTransfer (rq_finish E) spaceID key tx (map_option ChainFlow err) t = (u, r))"
    by (rule sendTransfer_signs [OF assms(3,4)])
  obtain n summary accounts a asset where dec: "body = Some dto" "network_Get (pc_networks C) networkID = Inr n"
    "item = effectiveNetwork C n" "nw_Enabled item" "Get (rq_accounts E) spaceID m1 = (m2, Inr (summary, accounts))"
    "find (\<lambda>a. ac_ID a = td_AccountID dto \<and> BoundTo a (nw_ID item)) accounts = Some a"
    "tq_From transfer = address_of (ac_Addresses a) (nw_Family item)"
    by (rule decode_result [OF run(2)])
  let ?m = "pf_spaces p"
  have m1: "m1 = expireLocked (ev_now (rq_confirm E)) ?m" using RequireSendConfirmation_state [of "rq_confirm E" spaceID ?m] run(1) by simp
  obtain f where f: "m2 = expireLocked (ev_now (rq_accounts E)) m1" "map_of (mg_files ?m) spaceID = Some f" "accounts = sf_Accounts f"
    using Get_state [OF dec(5)] by (auto simp: m1)
  have inv: "space_inv (pc_space C) m1" "space_inv (pc_space C) m2" using assms(1) by (simp_all add: m1 f(1) space_inv_expire)
  have ids: "distinct (map fst (mg_sessions ?m))" "distinct (map fst (mg_sessions m1))" "distinct (map fst (mg_sessions m2))"
    using assms(1) inv by (simp_all add: space_inv_def)
  obtain want where "withKey (pc_space C) (rq_lend E) spaceID (td_AccountID dto) (nw_ID item) (nw_Family item) want m2 = (m3, Inr k)"
    using run(4) by (auto simp: WithKey_def WithSigner_def WithMessageSigner_def sbind_Inr split: if_splits)
  from withKey_lends [OF inv(2) this] obtain ss f' a' where lend:
    "map_of (mg_sessions (expireLocked (ev_now (rq_lend E)) m2)) spaceID = Some ss" "map_of (mg_files m2) spaceID = Some f'"
    "a' \<in> set (sf_Accounts f')" "ac_ID a' = td_AccountID dto" "BoundTo a' (nw_ID item)"
    "key_address (sx_W (pc_space C)) k (nw_Family item) = Inr (address_of (ac_Addresses a') (nw_Family item))"
    by blast
  have "f' = f" using lend(2) f(2) by (simp add: m1 f(1))
  moreover have "a \<in> set (sf_Accounts f)" "ac_ID a = td_AccountID dto" using dec(6) f(3) by (auto simp: find_Some_iff)
  ultimately have a: "a' = a"
    using lend(3,4) assms(2) [OF f(2)] by (metis distinct_map inj_onD)
  have ss: "map_of (mg_sessions ?m) spaceID = Some ss"
    using map_of_expired [OF ids(1)] map_of_expired [OF ids(2) map_of_expired [OF ids(3) lend(1), unfolded f(1)]]
    unfolding m1 by blast
  moreover have "mg_confirmSends ?m \<longrightarrow> ev_now (rq_confirm E) < ss_sendGrant ss"
    using confirmed_grant [OF run(1) ids(1)] ss by auto
  ultimately show ?thesis using dec f(2) lend(3-6) run(5) \<open>f' = f\<close> unfolding a by fastforce
qed

theorem signing_needs_open_account_witness:
  "\<exists>ss f a. map_of (mg_sessions (send_manager FamilyEVM)) sample_id = Some ss \<and>
    map_of (mg_files (send_manager FamilyEVM)) sample_id = Some f \<and> a \<in> set (sf_Accounts f) \<and> BoundTo a ''eth'' \<and>
    (mg_confirmSends (send_manager FamilyEVM) \<longrightarrow> ev_now (sample_env 100) < ss_sendGrant ss)"
proof -
  obtain p1 rep where run: "sendTransfer (send_ctx FamilyEVM) send_env sample_id ''eth'' ''k'' (Some send_dto) evm_sends (send_platform FamilyEVM) =
      (p1, [Signed [] (replicate 65 5), Sent [2] (NodeAccepted ''h'')], rep)"
    using evm_run by blast
  have inv: "space_inv (pc_space (send_ctx FamilyEVM)) (pf_spaces (send_platform FamilyEVM))"
    using send_manager_inv by (simp add: send_ctx_def send_platform_def)
  have ids: "map_of (mg_files (pf_spaces (send_platform FamilyEVM))) sample_id = Some f \<Longrightarrow> distinct (map ac_ID (sf_Accounts f))" for f
    by (auto simp: send_platform_def send_manager_def send_file_def)
  from signing_needs_open_account [OF inv ids run]
  obtain n ss f a where "network_Get (pc_networks (send_ctx FamilyEVM)) ''eth'' = Inr n"
    "map_of (mg_sessions (pf_spaces (send_platform FamilyEVM))) sample_id = Some ss"
    "map_of (mg_files (pf_spaces (send_platform FamilyEVM))) sample_id = Some f" "a \<in> set (sf_Accounts f)" "BoundTo a (nw_ID n)"
    "mg_confirmSends (pf_spaces (send_platform FamilyEVM)) \<longrightarrow> ev_now (rq_confirm send_env) < ss_sendGrant ss"
    by blast
  then show ?thesis
    by (auto simp: network_Get_def send_ctx_def send_platform_def send_env_def send_network_fields)
qed

end
