(* ===== verification/SolanaProperties.thy ===== *)
theory SolanaProperties
  imports SolanaSamples SendProperties
begin

text \<open>
  The theorems about Solana transfers: every message a send asks to be signed is the requested transfer
  at the approved fee, a message passes the check exactly when it is the requested one, an estimate is
  an approval the send accepts and a maximum leaves nothing, and a transaction is called failed only
  when it failed or can no longer land.
\<close>

text \<open>A send of the Solana adapter is one of the sends \<open>adapter_send\<close> lists.\<close>

lemma solana_Send_is_send: "adapter_send (snd (solana_Send C ev ended client networkID req key node rents))"
  by (auto simp: solana_Send_def intro: adapter_send.intros split: prod.split sum.split)

text \<open>C9. Whatever the nodes and the message builder answer, every message a Solana send asks a signature
  for decodes to exactly the requested transfer: it pays the requested recipient the requested amount of
  the requested asset from the sender alone, carries the approved compute limit and price, opens a token
  account only when that was approved at no less than the current rent, and was simulated without an
  error just before.\<close>
theorem solana_send_signs_the_transfer:
  "messages_meet (snd (solana_Send C ev ended client networkID req key node rents))
     (may_sign C client networkID req (fst (solana_Send C ev ended client networkID req key node rents)))"
proof -
  obtain r' out where o: "sbind (slift (messageSigner C key (tq_From req))) (\<lambda>pub.
      sbind (slift (parseApproval C (tq_Approved req))) (\<lambda>a.
      sbind (slift client) (\<lambda>N.
      sbind (sendMessage C N networkID req a) (\<lambda>(message, lastValid). sret (pub, message, lastValid))))) rents = (r', out)"
    by (rule prod.exhaust)
  show ?thesis
  proof (cases out)
    case (Inl e)
    then show ?thesis by (simp add: solana_Send_def o)
  next
    case (Inr v)
    obtain pub message lastValid where v: "v = (pub, message, lastValid)" by (cases v)
    obtain a N where "parseApproval C (tq_Approved req) = Inr a" "client = Inr N"
      "sendMessage C N networkID req a rents = (r', Inr (message, lastValid))"
      using o by (auto simp: Inr v sbind_Inr)
    then have "may_sign C client networkID req r' message" using sendMessage_may_sign by simp
    then show ?thesis by (simp add: solana_Send_def o Inr v messages_meet_signAndBroadcast)
  qed
qed

theorem solana_send_signs_the_transfer_witness:
  "may_sign sol_sample_ctx (Inr sol_sample_node) ''solana'' sol_sample_request sol_sample_rents (put_message sol_sample_message)"
  using solana_send_signs_the_transfer [of sol_sample_ctx "calm_env 1" False "Inr sol_sample_node" "''solana''" sol_sample_request
      "Some (FamilySolana, key_of 1)" NodeSilent Map.empty]
  by (simp add: sample_send messages_meet_signAndBroadcast)

text \<open>C19. The check before a signature is exact: bytes pass it if and only if they decode to a message with
  the payer as the only signer, the fetched blockhash, exactly the expected instructions with the
  privileges they need and no other account; and every message of the wire format decodes to itself, so
  the requested message passes and no other message does.\<close>
theorem solana_message_check_exact:
  assumes "message_fits m" "1 \<le> dm_signers m" "dm_signers m < 128" "length (dm_keys m) \<le> 256" "length (dm_instructions m) < 2097152"
    "\<forall>ins\<in>set (dm_instructions m). length (di_accounts ins) < 2097152 \<and> length (di_data ins) < 2097152"
  shows "decodeLegacyMessage (put_message m) = Some m \<and>
    (verifyMessage L (put_message m) i = Inr () \<longleftrightarrow> (\<exists>want. expected L i = Some want \<and> says m (si_payer i) (si_blockhash i) want)) \<and>
    (verifyMessage L bytes i = Inr () \<longleftrightarrow>
       (\<exists>m want. decodeLegacyMessage bytes = Some m \<and> expected L i = Some want \<and> says m (si_payer i) (si_blockhash i) want))"
proof (intro conjI)
  show d: "decodeLegacyMessage (put_message m) = Some m" using assms by (rule decode_put)
  have e: "verifyMessage L b i = Inr () \<longleftrightarrow>
      (\<exists>m want. decodeLegacyMessage b = Some m \<and> expected L i = Some want \<and> says m (si_payer i) (si_blockhash i) want)" for b
    by (auto simp: verifyMessage_def verifyInstructions_iff split: option.splits)
  then show "verifyMessage L bytes i = Inr () \<longleftrightarrow>
       (\<exists>m want. decodeLegacyMessage bytes = Some m \<and> expected L i = Some want \<and> says m (si_payer i) (si_blockhash i) want)" .
  show "verifyMessage L (put_message m) i = Inr () \<longleftrightarrow> (\<exists>want. expected L i = Some want \<and> says m (si_payer i) (si_blockhash i) want)"
    by (simp add: e d)
qed

theorem solana_message_check_exact_witness:
  "decodeLegacyMessage (put_message sol_sample_message) = Some sol_sample_message \<and>
   verifyMessage sol_sample_ctx (put_message sol_sample_message) sol_sample_intent = Inr ()"
proof
  have fits: "message_fits sol_sample_message"
    "\<forall>ins\<in>set (dm_instructions sol_sample_message). length (di_accounts ins) < 2097152 \<and> length (di_data ins) < 2097152"
    "1 \<le> dm_signers sol_sample_message" "dm_signers sol_sample_message < 128" "length (dm_keys sol_sample_message) \<le> 256"
    "length (dm_instructions sol_sample_message) < 2097152"
    by (simp_all add: sol_sample_message_def message_fits_def header_fits_def instruction_fits_def)
  note exact = solana_message_check_exact [OF fits(1,3-6,2), of sol_sample_ctx sol_sample_intent]
  show "decodeLegacyMessage (put_message sol_sample_message) = Some sol_sample_message" using exact by blast
  have "si_payer sol_sample_intent = key_of 1" "si_blockhash sol_sample_intent = key_of 9" by (simp_all add: sol_sample_intent_def)
  then show "verifyMessage sol_sample_ctx (put_message sol_sample_message) sol_sample_intent = Inr ()"
    using exact by (simp add: sample_expected sample_says)
qed

text \<open>C21. An estimate can be approved as it stands: the approval built from any estimate is accepted by the
  send, with the limit, price and account creation that were shown. A maximum of SOL leaves exactly
  nothing: the shown amount and fee add up to the shown balance, and the amount is positive. The reading
  of decimals inverts their printing, and a node does not report more than \<open>2 ^ 63\<close> units of compute.\<close>
theorem solana_estimate_is_accepted:
  assumes "estimateTransfer C (Inr N) networkID req mx rents = (rents', Inr e)" "rents_good rents"
    "\<And>n. sc_parse C (sc_show C (of_nat n / 10 ^ 9)) = Some (of_nat n / 10 ^ 9)"
    "\<And>message result used. nd_simulate N 0 message = Inr result \<Longrightarrow> sm_Units result = Some used \<Longrightarrow> unat used < 2 ^ 63"
  shows "(\<exists>a. parseApproval C (Some (approval_of e)) = Inr a \<and> unat (ap_limit a) = unat (sq_ComputeUnitLimit e) \<and>
      ap_price a = sq_ComputeUnitPriceMicroLamports e \<and> ap_createAccount a = sq_CreatesTokenAccount e \<and> sq_Fee e = sol C (ap_fee a)) \<and>
    (ca_Kind (tq_Asset req) = ''native'' \<longrightarrow> mx \<longrightarrow> (\<exists>amount fee balance. 0 < amount \<and> amount + fee = balance \<and>
      sq_Amount e = sc_show C (of_nat amount / 10 ^ 9) \<and> sq_Fee e = sc_show C (of_nat fee / 10 ^ 9) \<and>
      sq_NativeBalance e = sc_show C (of_nat balance / 10 ^ 9)))"
proof (intro conjI impI)
  obtain p where p: "measured N p" "e = plan_estimate C p networkID (ca_Decimals (tq_Asset req))"
    "ca_Kind (tq_Asset req) = ''native'' \<longrightarrow> mx \<longrightarrow> ca_Decimals (tq_Asset req) = 9 \<and> unat (sp_amount p) + unat (cost p) = unat (sp_balance p) \<and> sp_amount p \<noteq> 0"
    using estimateTransfer_Inr [OF assms(1,2)] by blast
  have a: "parseApproval C (Some (approval_of e)) =
      Inr \<lparr>ap_limit = sp_limit p, ap_price = sp_price p, ap_createAccount = opens p, ap_rent = opened_rent p, ap_fee = cost p\<rparr>"
    unfolding p(2) by (rule estimate_accepted [OF p(1) assms(3,4)])
  have sq: "sq_Fee e = sol C (cost p)" by (simp add: p(2) plan_estimate_def Let_def)
  show "\<exists>a. parseApproval C (Some (approval_of e)) = Inr a \<and> unat (ap_limit a) = unat (sq_ComputeUnitLimit e) \<and>
      ap_price a = sq_ComputeUnitPriceMicroLamports e \<and> ap_createAccount a = sq_CreatesTokenAccount e \<and> sq_Fee e = sol C (ap_fee a)"
    using a parseApproval_Inr [OF a] by (simp add: approval_of_def sq)
  assume "ca_Kind (tq_Asset req) = ''native''" mx
  then have m: "ca_Decimals (tq_Asset req) = 9" "unat (sp_amount p) + unat (cost p) = unat (sp_balance p)" "0 < unat (sp_amount p)"
    using p(3) by (auto simp: unat_gt_0)
  then show "\<exists>amount fee balance. 0 < amount \<and> amount + fee = balance \<and>
      sq_Amount e = sc_show C (of_nat amount / 10 ^ 9) \<and> sq_Fee e = sc_show C (of_nat fee / 10 ^ 9) \<and>
      sq_NativeBalance e = sc_show C (of_nat balance / 10 ^ 9)"
    by (intro exI [of _ "unat (sp_amount p)"] exI [of _ "unat (cost p)"] exI [of _ "unat (sp_balance p)"])
      (simp add: p(2) plan_estimate_def Let_def sol_def)
qed

theorem solana_estimate_is_accepted_witness:
  "is_ok (parseApproval sol_max_ctx (Some (approval_of (plan_estimate sol_max_ctx sol_max_plan ''solana'' 9)))) \<and>
   (\<exists>amount fee balance. 0 < amount \<and> amount + fee = balance \<and>
     sq_Amount (plan_estimate sol_max_ctx sol_max_plan ''solana'' 9) = sc_show sol_max_ctx (of_nat amount / 10 ^ 9) \<and>
     sq_Fee (plan_estimate sol_max_ctx sol_max_plan ''solana'' 9) = sc_show sol_max_ctx (of_nat fee / 10 ^ 9) \<and>
     sq_NativeBalance (plan_estimate sol_max_ctx sol_max_plan ''solana'' 9) = sc_show sol_max_ctx (of_nat balance / 10 ^ 9))"
proof -
  have "rents_good Map.empty" by (simp add: rents_good_def)
  moreover have "unat used < 2 ^ 63" if "nd_simulate sol_sample_node 0 message = Inr result" "sm_Units result = Some used" for message result used
    using that by (auto simp: sol_sample_node_def)
  moreover have "ca_Kind (tq_Asset sol_sample_request) = ''native''" by (simp add: sol_sample_request_def sol_sample_asset_def)
  ultimately show ?thesis
    using solana_estimate_is_accepted [OF sol_max_estimate _ sol_max_round_trip] unfolding is_ok_iff by blast
qed

text \<open>C20. A Solana transaction is called failed only when the node reports its failure at a settled
  commitment, or when its last valid height is known, the finalized chain is past that height plus the
  margin of 150 blocks, and the signature is unknown both before and after the chain's height was read;
  its record is dropped then. The one exception is a recorded height within the margin of \<open>2 ^ 64\<close>: the
  code adds the margin in 64 bits without a check, the sum wraps, and a transaction that is unknown
  both times is called failed while it could still land.\<close>
theorem solana_failed_means_it_cannot_land:
  assumes "Transaction signature_of client networkID txID book = (book', Inr t)" "tr_Status t = StatusFailed"
  shows "book' = book_forget networkID txID book \<and>
    (\<exists>N. client = Inr N \<and> (reported_failed N 0 \<or> reported_failed N 1 \<or> expired N networkID txID book \<or>
       wrapped N networkID txID book))"
  by (rule Transaction_failed [OF assms])

definition sample_status :: status_node where
  "sample_status = \<lparr>sn_statuses = (\<lambda>_. Inr [None]), sn_height = Inr 251\<rparr>"

theorem solana_failed_means_it_cannot_land_witness:
  "Transaction (\<lambda>_. Some []) (Inr sample_status) ''n'' ''t'' (book_record 0 ''n'' ''t'' 100 []) =
     ([], Inr \<lparr>tr_NetworkID = ''n'', tr_Hash = ''t'', tr_Status = StatusFailed\<rparr>) \<and>
   expired sample_status ''n'' ''t'' (book_record 0 ''n'' ''t'' 100 [])"
proof
  let ?b = "book_record 0 ''n'' ''t'' 100 []"
  have b: "?b = [(expiryKey ''n'' ''t'', 100)]" by (simp add: book_record_def maxExpiryRecords_def)
  have l: "book_lookup ''n'' ''t'' ?b = Some 100" by (rule book_lookup_record)
  show t: "Transaction (\<lambda>_. Some []) (Inr sample_status) ''n'' ''t'' ?b =
     ([], Inr \<lparr>tr_NetworkID = ''n'', tr_Hash = ''t'', tr_Status = StatusFailed\<rparr>)"
    by (simp add: Transaction_def sbind_slift signatureStatus_def sample_status_def l expiryMargin_def status_result_def book_forget_def
        StatusFailed_def StatusPending_def) (simp add: b)
  have "\<exists>N. Inr sample_status = Inr N \<and> (reported_failed N 0 \<or> reported_failed N 1 \<or> expired N ''n'' ''t'' ?b \<or> wrapped N ''n'' ''t'' ?b)"
    using solana_failed_means_it_cannot_land [OF t] by simp
  then show "expired sample_status ''n'' ''t'' ?b" by (auto simp: reported_failed_def sample_status_def wrapped_def l)
qed

end
