(* ===== verification/RaydiumAmmV4.thy ===== *)
theory RaydiumAmmV4
  imports RaydiumBase
begin

text \<open>
  AMM v4 pools (internal/chain/solana/raydium/ammv4.go): decoding the 752-byte pool account,
  the swap guard, the SwapBaseInV2 instruction and its decoder, and the amount the pool's curve
  pays. The lemmas: the decoder never reads out of range; the codec meets \<open>swap_codec\<close>; the
  curve never pays its whole reserve, never lets the product of the reserves fall, and pays the
  most that keeps it.
\<close>

section \<open>The pool account\<close>

definition ammV4Size :: nat where "ammV4Size = 752"

definition ammV4AuthoritySeed :: "byte list" where
  "ammV4AuthoritySeed = bytes_of ''amm authority''"

definition AMMV4StatusInitialized :: u64 where "AMMV4StatusInitialized = 1"
definition AMMV4StatusSwapOnly :: u64 where "AMMV4StatusSwapOnly = 6"
definition AMMV4StatusWaitingTrade :: u64 where "AMMV4StatusWaitingTrade = 7"

record AMMV4Pool =
  a4_Status :: u64
  a4_Nonce :: byte
  a4_CoinDecimals :: u64
  a4_PcDecimals :: u64
  a4_SwapFeeNumerator :: u64
  a4_SwapFeeDenominator :: u64
  a4_NeedTakePnlCoin :: u64
  a4_NeedTakePnlPc :: u64
  a4_PoolOpenTime :: u64
  a4_CoinVault :: pubkey
  a4_PcVault :: pubkey
  a4_CoinMint :: pubkey
  a4_PcMint :: pubkey
  a4_LPMint :: pubkey
  a4_OpenOrders :: pubkey
  a4_Market :: pubkey
  a4_MarketProgram :: pubkey
  a4_TargetOrders :: pubkey
  a4_Owner :: pubkey
  a4_Authority :: pubkey

definition DecodeAMMV4Pool :: "solana_lib \<Rightarrow> pubkey \<Rightarrow> byte list \<Rightarrow> rerr + AMMV4Pool" where
  "DecodeAMMV4Pool L owner data =
     rbind (checkAccount (AMMV4Program L) owner data ammV4Size None) (\<lambda>_.
     rbind (layout_u64 data 8) (\<lambda>nonce.
     rbind (layout_u64 data 0) (\<lambda>status.
     rcheck (\<not> (status = 0 \<or> AMMV4StatusWaitingTrade < status)) ErrMalformedAccount (
     rcheck (\<not> 255 < nonce) ErrMalformedAccount (
     case create_program_address L [ammV4AuthoritySeed, [ucast nonce]] (AMMV4Program L) of
       None \<Rightarrow> Inl ErrMalformedAccount
     | Some authority \<Rightarrow>
     rbind (layout_u64 data 32) (\<lambda>coinDecimals.
     rbind (layout_u64 data 40) (\<lambda>pcDecimals.
     rbind (layout_u64 data (128 + 48)) (\<lambda>feeNum.
     rbind (layout_u64 data (128 + 56)) (\<lambda>feeDen.
     rbind (layout_u64 data 192) (\<lambda>pnlCoin.
     rbind (layout_u64 data 200) (\<lambda>pnlPc.
     rbind (layout_u64 data (192 + 32)) (\<lambda>openTime.
     rbind (layout_key data 336) (\<lambda>coinVault.
     rbind (layout_key data 368) (\<lambda>pcVault.
     rbind (layout_key data 400) (\<lambda>coinMint.
     rbind (layout_key data 432) (\<lambda>pcMint.
     rbind (layout_key data 464) (\<lambda>lpMint.
     rbind (layout_key data 496) (\<lambda>openOrders.
     rbind (layout_key data 528) (\<lambda>market.
     rbind (layout_key data 560) (\<lambda>marketProgram.
     rbind (layout_key data 592) (\<lambda>targetOrders.
     rbind (layout_key data 688) (\<lambda>poolOwner.
     Inr \<lparr>a4_Status = status, a4_Nonce = ucast nonce, a4_CoinDecimals = coinDecimals,
       a4_PcDecimals = pcDecimals, a4_SwapFeeNumerator = feeNum, a4_SwapFeeDenominator = feeDen,
       a4_NeedTakePnlCoin = pnlCoin, a4_NeedTakePnlPc = pnlPc, a4_PoolOpenTime = openTime,
       a4_CoinVault = coinVault, a4_PcVault = pcVault, a4_CoinMint = coinMint,
       a4_PcMint = pcMint, a4_LPMint = lpMint, a4_OpenOrders = openOrders, a4_Market = market,
       a4_MarketProgram = marketProgram, a4_TargetOrders = targetOrders, a4_Owner = poolOwner,
       a4_Authority = authority\<rparr>))))))))))))))))))))))"

lemma DecodeAMMV4Pool_in_range:
  "owner = AMMV4Program L \<Longrightarrow> length data = 752 \<Longrightarrow>
   DecodeAMMV4Pool L owner data \<noteq> Inl Panic"
  by (simp add: DecodeAMMV4Pool_def checkAccount_cases ammV4Size_def layout_simps rcheck_def
      split: option.split)

lemma DecodeAMMV4Pool_ok:
  assumes "DecodeAMMV4Pool L owner data = Inr p"
  shows "owner = AMMV4Program L" "length data = 752"
    "a4_Status p \<noteq> 0" "a4_Status p \<le> 7"
    "create_program_address L [ammV4AuthoritySeed, [a4_Nonce p]] (AMMV4Program L) = Some (a4_Authority p)"
    "a4_CoinMint p = take 32 (drop 400 data)" "a4_PcMint p = take 32 (drop 432 data)"
    "a4_CoinVault p = take 32 (drop 336 data)" "a4_PcVault p = take 32 (drop 368 data)"
proof -
  have ol: "owner = AMMV4Program L" "length data = 752"
    using assms by (auto simp: DecodeAMMV4Pool_def rbind_eq_Inr checkAccount_eq_Inr ammV4Size_def)
  then show "owner = AMMV4Program L" "length data = 752" by auto
  note a = assms [unfolded DecodeAMMV4Pool_def checkAccount_cases]
  show "a4_Status p \<noteq> 0" "a4_Status p \<le> 7"
    "create_program_address L [ammV4AuthoritySeed, [a4_Nonce p]] (AMMV4Program L) = Some (a4_Authority p)"
    "a4_CoinMint p = take 32 (drop 400 data)" "a4_PcMint p = take 32 (drop 432 data)"
    "a4_CoinVault p = take 32 (drop 336 data)" "a4_PcVault p = take 32 (drop 368 data)"
    using a ol by (auto simp: ammV4Size_def layout_simps rcheck_eq_Inr AMMV4StatusWaitingTrade_def
        not_less
        split: option.splits)
qed

text \<open>Whether the program would take a swap now. \<open>now\<close> is the Unix time as Go's
  \<open>int64\<close>; the comparison converts it to \<open>uint64\<close>.\<close>

definition AMMV4Pool_Swappable :: "AMMV4Pool \<Rightarrow> int \<Rightarrow> rerr + unit" where
  "AMMV4Pool_Swappable p now =
     rbind (if a4_Status p = AMMV4StatusInitialized \<or> a4_Status p = AMMV4StatusSwapOnly then Inr ()
            else if a4_Status p = AMMV4StatusWaitingTrade
            then rcheck (\<not> word_of_int now < a4_PoolOpenTime p) ErrPoolNotSwappable (Inr ())
            else Inl ErrPoolNotSwappable) (\<lambda>_.
     rcheck (a4_CoinMint p \<noteq> a4_PcMint p) ErrPoolNotSwappable (
     rcheck (\<not> (a4_SwapFeeDenominator p = 0 \<or> a4_SwapFeeDenominator p \<le> a4_SwapFeeNumerator p))
       ErrPoolNotSwappable (Inr ())))"

lemma AMMV4Pool_Swappable_ok: "AMMV4Pool_Swappable p now = Inr u \<Longrightarrow>
   a4_CoinMint p \<noteq> a4_PcMint p \<and> a4_SwapFeeNumerator p < a4_SwapFeeDenominator p"
  by (auto simp: AMMV4Pool_Swappable_def rbind_eq_Inr rcheck_eq_Inr)

section \<open>The swap instruction\<close>

record AMMV4Swap =
  s4_Pool :: pubkey
  s4_Authority :: pubkey
  s4_CoinVault :: pubkey
  s4_PcVault :: pubkey
  s4_UserSource :: pubkey
  s4_UserDestination :: pubkey
  s4_UserOwner :: pubkey
  s4_AmountIn :: u64
  s4_MinAmountOut :: u64

definition AMMV4Pool_Swap ::
  "AMMV4Pool \<Rightarrow> pubkey \<Rightarrow> pubkey \<Rightarrow> pubkey \<Rightarrow> pubkey \<Rightarrow> pubkey \<Rightarrow> u64 \<Rightarrow> u64 \<Rightarrow> rerr + AMMV4Swap" where
  "AMMV4Pool_Swap p pool inputMint userSource userDestination userOwner amountIn minAmountOut =
     (if inputMint \<noteq> a4_CoinMint p \<and> inputMint \<noteq> a4_PcMint p then Inl ErrPoolNotSwappable
      else Inr \<lparr>s4_Pool = pool, s4_Authority = a4_Authority p, s4_CoinVault = a4_CoinVault p,
        s4_PcVault = a4_PcVault p, s4_UserSource = userSource,
        s4_UserDestination = userDestination, s4_UserOwner = userOwner,
        s4_AmountIn = amountIn, s4_MinAmountOut = minAmountOut\<rparr>)"

definition AMMV4Swap_Instruction :: "solana_lib \<Rightarrow> AMMV4Swap \<Rightarrow> instruction" where
  "AMMV4Swap_Instruction L s =
     \<lparr>ins_program = AMMV4Program L,
      ins_accounts =
        [readonly (token_program_id L), writable (s4_Pool s), readonly (s4_Authority s),
         writable (s4_CoinVault s), writable (s4_PcVault s), writable (s4_UserSource s),
         writable (s4_UserDestination s), signer (s4_UserOwner s)],
      ins_data = append_u64 (append_u64 [16] (s4_AmountIn s)) (s4_MinAmountOut s)\<rparr>"

text \<open>\<open>data[0]\<close> and the reads at 1 and 9 follow the length check; \<open>accounts\<close> likewise.\<close>

definition DecodeAMMV4Swap ::
  "solana_lib \<Rightarrow> pubkey \<Rightarrow> pubkey list \<Rightarrow> byte list \<Rightarrow> rerr + AMMV4Swap" where
  "DecodeAMMV4Swap L program accounts data =
     rcheck (program = AMMV4Program L) ErrMalformedInstruction (
     rcheck (\<not> (length data \<noteq> 17 \<or> data ! 0 \<noteq> 16)) ErrMalformedInstruction (
     rcheck (length accounts = 8) ErrMalformedInstruction (
     rcheck (accounts ! 0 = token_program_id L) ErrMalformedInstruction (
     Inr \<lparr>s4_Pool = accounts ! 1, s4_Authority = accounts ! 2, s4_CoinVault = accounts ! 3,
       s4_PcVault = accounts ! 4, s4_UserSource = accounts ! 5, s4_UserDestination = accounts ! 6,
       s4_UserOwner = accounts ! 7, s4_AmountIn = le_u64 (drop 1 data),
       s4_MinAmountOut = le_u64 (drop 9 data)\<rparr>))))"

lemma AMMV4Swap_decode_encode:
  "DecodeAMMV4Swap L (ins_program (AMMV4Swap_Instruction L s))
     (Instruction_Keys (AMMV4Swap_Instruction L s)) (ins_data (AMMV4Swap_Instruction L s)) = Inr s"
  by (simp add: DecodeAMMV4Swap_def AMMV4Swap_Instruction_def Instruction_Keys_def append_u64_def
      le_simps)

lemma AMMV4Swap_encode_decode:
  assumes "DecodeAMMV4Swap L p ks d = Inr s"
  shows "ins_program (AMMV4Swap_Instruction L s) = p \<and>
    Instruction_Keys (AMMV4Swap_Instruction L s) = ks \<and> ins_data (AMMV4Swap_Instruction L s) = d"
proof -
  from assms have d: "length d = 17" "d ! 0 = 16" and ks: "length ks = 8"
    by (auto simp: DecodeAMMV4Swap_def rcheck_eq_Inr)
  then have "take 1 d = [16]" by (cases d) auto
  moreover have "[ks ! 0, ks ! 1, ks ! 2, ks ! 3, ks ! 4, ks ! 5, ks ! 6, ks ! 7] = ks"
    using all_nths [of ks] ks by (simp add: upt_rec numeral_eq_Suc)
  ultimately show ?thesis
    using append_two_u64 [of d 1 "[16]"] d ks assms
    by (auto simp: DecodeAMMV4Swap_def rcheck_eq_Inr AMMV4Swap_Instruction_def Instruction_Keys_def)
qed

interpretation ammv4_codec: swap_codec
  "\<lambda>s. Inr (AMMV4Swap_Instruction L s)" "DecodeAMMV4Swap L" "\<lambda>s. True" for L
  by unfold_locales (auto simp: AMMV4Swap_decode_encode dest: AMMV4Swap_encode_decode)

section \<open>The curve\<close>

definition ceilDiv :: "int \<Rightarrow> int \<Rightarrow> int" where
  "ceilDiv numerator denominator =
     (let q = go_quo numerator denominator; r = go_rem numerator denominator
      in if r \<noteq> 0 then q + 1 else q)"

definition is_uint64 :: "int \<Rightarrow> bool" where
  "is_uint64 x \<longleftrightarrow> 0 \<le> x \<and> x < 2 ^ 64"

definition constantProductOut :: "int \<Rightarrow> int \<Rightarrow> int \<Rightarrow> rerr + u64" where
  "constantProductOut inp reserveIn reserveOut =
     (let denominator = reserveIn + inp in
      if denominator = 0 then Inl ErrPoolNotSwappable
      else let out = go_quo (reserveOut * inp) denominator in
        if reserveOut \<le> out \<or> \<not> is_uint64 out then Inl ErrPoolNotSwappable
        else Inr (word_of_int out))"

definition AMMV4Pool_AmountOut :: "AMMV4Pool \<Rightarrow> pubkey \<Rightarrow> u64 \<Rightarrow> u64 \<Rightarrow> u64 \<Rightarrow> rerr + u64" where
  "AMMV4Pool_AmountOut p inputMint amountIn coinVaultAmount pcVaultAmount =
     (if a4_SwapFeeDenominator p = 0 then Inl ErrPoolNotSwappable
      else if coinVaultAmount < a4_NeedTakePnlCoin p \<or> pcVaultAmount < a4_NeedTakePnlPc p
      then Inl ErrPoolNotSwappable
      else
        let coin = uint (coinVaultAmount - a4_NeedTakePnlCoin p);
            pc = uint (pcVaultAmount - a4_NeedTakePnlPc p)
        in rbind (if inputMint = a4_CoinMint p then Inr (coin, pc)
                  else if inputMint = a4_PcMint p then Inr (pc, coin)
                  else Inl ErrPoolNotSwappable) (\<lambda>(reserveIn, reserveOut).
          let inp = uint amountIn;
              fee = ceilDiv (inp * uint (a4_SwapFeeNumerator p)) (uint (a4_SwapFeeDenominator p))
          in constantProductOut (inp - fee) reserveIn reserveOut))"

lemma ceilDiv_eq: "0 \<le> a \<Longrightarrow> 0 \<le> b \<Longrightarrow> ceilDiv a b = ceil_quo a b"
  by (simp add: ceilDiv_def ceil_quo_def go_quo_nonneg go_rem_nonneg)

lemma is_uint64_uint: "is_uint64 x \<Longrightarrow> uint (word_of_int x :: u64) = x"
  by (simp add: is_uint64_def unsigned_of_int take_bit_int_eq_self)

lemma constantProductOut_bounds:
  "constantProductOut inp rin rout = Inr w \<Longrightarrow> uint w < rout"
  by (auto simp: constantProductOut_def Let_def is_uint64_uint split: if_splits)

lemma constantProductOut_value:
  assumes "constantProductOut inp rin rout = Inr w" "0 \<le> inp" "0 \<le> rin" "0 \<le> rout"
  shows "0 < rin + inp" "uint w = rout * inp div (rin + inp)"
proof -
  show pos: "0 < rin + inp"
    using assms by (auto simp: constantProductOut_def Let_def split: if_splits)
  from assms show "uint w = rout * inp div (rin + inp)"
    by (auto simp: constantProductOut_def Let_def is_uint64_uint go_quo_nonneg split: if_splits)
qed

lemma constantProductOut_defined:
  assumes "0 \<le> inp" "0 < rin" "0 < rout" "rout < 2 ^ 64"
  shows "\<exists>w. constantProductOut inp rin rout = Inr w"
proof -
  let ?out = "rout * inp div (rin + inp)"
  have "rout * inp < rout * (rin + inp)"
    using assms by simp
  then have "?out < rout"
    using assms le_div_iff [of "rin + inp" rout "rout * inp"] by simp
  moreover have "0 \<le> ?out" using assms by (simp add: pos_imp_zdiv_nonneg_iff)
  ultimately show ?thesis
    using assms by (simp add: constantProductOut_def Let_def go_quo_nonneg is_uint64_def)
qed

text \<open>The product of the reserves never falls, and one more unit out would make it fall.\<close>

lemma constantProductOut_product:
  assumes "constantProductOut inp rin rout = Inr w" "0 \<le> inp" "0 \<le> rin" "0 \<le> rout"
  shows "rin * rout \<le> (rin + inp) * (rout - uint w)"
    "(rin + inp) * (rout - (uint w + 1)) < rin * rout"
proof -
  note v = constantProductOut_value [OF assms]
  have "uint w * (rin + inp) \<le> rout * inp"
    using v le_div_iff [of "rin + inp" "uint w" "rout * inp"] by simp
  then show "rin * rout \<le> (rin + inp) * (rout - uint w)"
    by (simp add: algebra_simps)
  have "\<not> (uint w + 1) * (rin + inp) \<le> rout * inp"
    using v le_div_iff [of "rin + inp" "uint w + 1" "rout * inp"] by simp
  then show "(rin + inp) * (rout - (uint w + 1)) < rin * rout"
    by (simp add: algebra_simps)
qed

lemma constantProductOut_mono:
  assumes "constantProductOut a rin rout = Inr w" "constantProductOut b rin rout = Inr v"
    "0 \<le> a" "a \<le> b" "0 \<le> rin" "0 \<le> rout"
  shows "w \<le> v"
proof -
  have w: "0 < rin + a" "uint w = rout * a div (rin + a)"
    using constantProductOut_value [OF assms(1)] assms by auto
  have v: "0 < rin + b" "uint v = rout * b div (rin + b)"
    using constantProductOut_value [OF assms(2)] assms by auto
  have "uint w * (rin + a) \<le> rout * a"
    using w le_div_iff [of "rin + a" "uint w" "rout * a"] by simp
  moreover have "uint w \<le> rout"
    using constantProductOut_bounds [OF assms(1)] by simp
  then have "uint w * (b - a) \<le> rout * (b - a)"
    using assms by (intro mult_right_mono) auto
  ultimately have "uint w * (rin + b) \<le> rout * b"
    by (simp add: algebra_simps)
  then have "uint w \<le> uint v"
    using v le_div_iff [of "rin + b" "uint w" "rout * b"] by simp
  then show ?thesis by (simp add: word_le_def)
qed

lemma u64_minus: "b \<le> a \<Longrightarrow> uint (a - b :: u64) = uint a - uint b"
  using uint_sub_lem [of b a] by (simp add: word_le_def)

text \<open>The amount out of a pool that allows swaps: the input less the fee, rounded down,
  through the curve between the reserves net of the pending PnL.\<close>

definition a4_after_fee :: "AMMV4Pool \<Rightarrow> u64 \<Rightarrow> int" where
  "a4_after_fee p amountIn =
     uint amountIn * (uint (a4_SwapFeeDenominator p) - uint (a4_SwapFeeNumerator p))
       div uint (a4_SwapFeeDenominator p)"

lemma a4_after_fee_bounds:
  assumes "a4_SwapFeeNumerator p < a4_SwapFeeDenominator p"
  shows "0 \<le> a4_after_fee p a" "a4_after_fee p a \<le> uint a"
proof -
  let ?d = "uint (a4_SwapFeeDenominator p)" and ?n = "uint (a4_SwapFeeNumerator p)"
  have n: "0 \<le> ?n" "?n < ?d" "0 < ?d"
    using assms uint_u64_bounds(1) [of "a4_SwapFeeNumerator p"] unfolding word_less_def by linarith+
  then show "0 \<le> a4_after_fee p a"
    by (simp add: a4_after_fee_def pos_imp_zdiv_nonneg_iff)
  have "uint a * (?d - ?n) \<le> uint a * ?d"
    using n by (intro mult_left_mono) auto
  then have "uint a * (?d - ?n) div ?d \<le> uint a * ?d div ?d"
    using n by (intro zdiv_mono1) auto
  with n show "a4_after_fee p a \<le> uint a" by (simp add: a4_after_fee_def)
qed

lemma a4_fee_rewrite:
  assumes "a4_SwapFeeNumerator p < a4_SwapFeeDenominator p"
  shows "uint a - ceilDiv (uint a * uint (a4_SwapFeeNumerator p)) (uint (a4_SwapFeeDenominator p))
    = a4_after_fee p a"
proof -
  have "0 < uint (a4_SwapFeeDenominator p)" using assms
    by (metis word_less_def uint_u64_bounds(1) order_le_less_trans)
  then show ?thesis
    by (simp add: ceilDiv_eq minus_ceil_quo a4_after_fee_def)
qed

lemma AMMV4Pool_AmountOut_eq:
  assumes "a4_SwapFeeNumerator p < a4_SwapFeeDenominator p"
    "a4_NeedTakePnlCoin p \<le> coinVault" "a4_NeedTakePnlPc p \<le> pcVault"
  shows "AMMV4Pool_AmountOut p mint a coinVault pcVault =
    (let coin = uint coinVault - uint (a4_NeedTakePnlCoin p);
         pc = uint pcVault - uint (a4_NeedTakePnlPc p)
     in if mint = a4_CoinMint p then constantProductOut (a4_after_fee p a) coin pc
        else if mint = a4_PcMint p then constantProductOut (a4_after_fee p a) pc coin
        else Inl ErrPoolNotSwappable)"
  using assms by (auto simp: AMMV4Pool_AmountOut_def Let_def a4_fee_rewrite u64_minus not_less)

section \<open>Properties\<close>

text \<open>A pool for the witnesses: fee 25/10000, no pending PnL, WSOL against a stable coin.\<close>

definition a4_sample :: AMMV4Pool where
  "a4_sample = \<lparr>a4_Status = 6, a4_Nonce = 254, a4_CoinDecimals = 9, a4_PcDecimals = 6,
     a4_SwapFeeNumerator = 25, a4_SwapFeeDenominator = 10000, a4_NeedTakePnlCoin = 10,
     a4_NeedTakePnlPc = 20, a4_PoolOpenTime = 0, a4_CoinVault = [1], a4_PcVault = [2],
     a4_CoinMint = [3], a4_PcMint = [4], a4_LPMint = [5], a4_OpenOrders = [6], a4_Market = [7],
     a4_MarketProgram = [8], a4_TargetOrders = [9], a4_Owner = [10], a4_Authority = [11]\<rparr>"

text \<open>C34. On a pool that allows swaps, the AMM v4 quote takes the fee rounded up from the input,
  pays the curve's output rounded down, stays below the output reserve, never lets the product
  of the reserves fall, and one more unit out would make it fall.\<close>

theorem AMMV4_AmountOut_correct:
  assumes ok: "AMMV4Pool_Swappable p now = Inr ()"
    and out: "AMMV4Pool_AmountOut p mint a coinVault pcVault = Inr w"
  defines "coin \<equiv> uint coinVault - uint (a4_NeedTakePnlCoin p)"
    and "pc \<equiv> uint pcVault - uint (a4_NeedTakePnlPc p)"
    and "inp \<equiv> uint a * (uint (a4_SwapFeeDenominator p) - uint (a4_SwapFeeNumerator p))
           div uint (a4_SwapFeeDenominator p)"
  shows "(mint = a4_CoinMint p \<or> mint = a4_PcMint p) \<and>
    (\<exists>rin rout. (rin, rout) = (if mint = a4_CoinMint p then (coin, pc) else (pc, coin)) \<and>
       0 \<le> rin \<and> uint w = rout * inp div (rin + inp) \<and> uint w < rout \<and>
       rin * rout \<le> (rin + inp) * (rout - uint w) \<and>
       (rin + inp) * (rout - (uint w + 1)) < rin * rout)"
proof -
  have fee: "a4_SwapFeeNumerator p < a4_SwapFeeDenominator p"
    using AMMV4Pool_Swappable_ok [OF ok] by simp
  have inp: "inp = a4_after_fee p a" by (simp add: inp_def a4_after_fee_def)
  have pnl: "a4_NeedTakePnlCoin p \<le> coinVault" "a4_NeedTakePnlPc p \<le> pcVault"
    using out by (auto simp: AMMV4Pool_AmountOut_def split: if_splits)
  then have nonneg: "0 \<le> coin" "0 \<le> pc" by (simp_all add: coin_def pc_def word_le_def)
  define rin where "rin = (if mint = a4_CoinMint p then coin else pc)"
  define rout where "rout = (if mint = a4_CoinMint p then pc else coin)"
  have c: "mint = a4_CoinMint p \<or> mint = a4_PcMint p" "constantProductOut inp rin rout = Inr w"
    using out fee pnl
    by (auto simp: AMMV4Pool_AmountOut_eq Let_def inp rin_def rout_def coin_def pc_def split: if_splits)
  have pos: "0 \<le> inp" "0 \<le> rin" "0 \<le> rout"
    using a4_after_fee_bounds [OF fee] nonneg by (auto simp: inp rin_def rout_def)
  show ?thesis
    using c pos constantProductOut_value [OF c(2) pos] constantProductOut_bounds [OF c(2)]
      constantProductOut_product [OF c(2) pos]
    by (auto simp: rin_def rout_def)
qed

theorem AMMV4_AmountOut_correct_witness:
  "AMMV4Pool_AmountOut a4_sample [3] 1000 50010 90020 = Inr 1759 \<and> uint (1759::u64) < 90000"
proof -
  have ok: "AMMV4Pool_Swappable a4_sample 100 = Inr ()"
    by (simp add: AMMV4Pool_Swappable_def a4_sample_def AMMV4StatusInitialized_def
        AMMV4StatusSwapOnly_def AMMV4StatusWaitingTrade_def)
  have out: "AMMV4Pool_AmountOut a4_sample [3] 1000 50010 90020 = Inr 1759"
    by code_simp
  have "a4_CoinMint a4_sample = [3]" by (simp add: a4_sample_def)
  with AMMV4_AmountOut_correct [OF ok out] out show ?thesis
    by (auto simp: a4_sample_def)
qed

text \<open>The AMM v4 swap decoder accepts exactly the instructions the encoder produces: a program,
  accounts and data decode to a swap if and only if they are that swap's own encoding.\<close>

theorem AMMV4Swap_codec_exact:
  "DecodeAMMV4Swap L program accounts data = Inr s \<longleftrightarrow>
     ins_program (AMMV4Swap_Instruction L s) = program \<and>
     Instruction_Keys (AMMV4Swap_Instruction L s) = accounts \<and>
     ins_data (AMMV4Swap_Instruction L s) = data"
  using ammv4_codec.decode_iff by auto

lemma DecodeAMMV4Pool_never_panics: "DecodeAMMV4Pool L owner data \<noteq> Inl Panic"
  using DecodeAMMV4Pool_in_range [of owner L data]
  by (auto simp: DecodeAMMV4Pool_def checkAccount_panic ammV4Size_def)

end
