(* ===== verification/RaydiumCpmm.thy ===== *)
theory RaydiumCpmm
  imports RaydiumAmmV4
begin

text \<open>
  CPMM pools (internal/chain/solana/raydium/cpmm.go): the Anchor pool and config accounts, the
  swap guard, the swap_base_input instruction and its decoder, and the amount the pool pays
  with trade and creator fees. The curve itself is \<open>constantProductOut\<close> of AMM v4, as in the
  source. The lemmas: no read out of range, the codec meets \<open>swap_codec\<close>, the amount out is the
  curve's after the fees. The sum of the two fee rates is a \<open>uint64\<close> addition that can wrap.
\<close>

section \<open>The pool and config accounts\<close>

definition cpmmPoolSize :: nat where "cpmmPoolSize = 637"
definition cpmmConfigSize :: nat where "cpmmConfigSize = 236"

definition poolStateDiscriminator :: "byte list" where
  "poolStateDiscriminator = [0xf7, 0xed, 0xe3, 0xf5, 0xd7, 0xc3, 0xde, 0x46]"

definition ammConfigDiscriminator :: "byte list" where
  "ammConfigDiscriminator = [0xda, 0xf4, 0x21, 0x68, 0xcb, 0xcb, 0x2b, 0x6f]"

definition cpmmSwapBaseInputData :: "byte list" where
  "cpmmSwapBaseInputData = [0x8f, 0xbe, 0x5a, 0xda, 0xc4, 0x1e, 0x33, 0xde]"

text \<open>\<open>pda\<close> panics when no bump is found; \<open>CPMMAuthority\<close> is computed once, at start.\<close>

definition pda :: "solana_lib \<Rightarrow> byte list list \<Rightarrow> pubkey \<Rightarrow> rerr + pubkey" where
  "pda L seeds program =
     (case find_program_address L seeds program of None \<Rightarrow> Inl Panic | Some key \<Rightarrow> Inr key)"

record CPMMPool =
  cp_AmmConfig :: pubkey
  cp_PoolCreator :: pubkey
  cp_Token0Vault :: pubkey
  cp_Token1Vault :: pubkey
  cp_LPMint :: pubkey
  cp_Token0Mint :: pubkey
  cp_Token1Mint :: pubkey
  cp_Token0Program :: pubkey
  cp_Token1Program :: pubkey
  cp_Observation :: pubkey
  cp_AuthBump :: byte
  cp_Status :: byte
  cp_LPDecimals :: byte
  cp_Mint0Decimals :: byte
  cp_Mint1Decimals :: byte
  cp_ProtocolFees0 :: u64
  cp_ProtocolFees1 :: u64
  cp_FundFees0 :: u64
  cp_FundFees1 :: u64
  cp_CreatorFees0 :: u64
  cp_CreatorFees1 :: u64
  cp_OpenTime :: u64
  cp_CreatorFeeOn :: byte
  cp_EnableCreatorFee :: bool

definition DecodeCPMMPool :: "solana_lib \<Rightarrow> pubkey \<Rightarrow> byte list \<Rightarrow> rerr + CPMMPool" where
  "DecodeCPMMPool L owner data =
     rbind (checkAccount (CPMMProgram L) owner data cpmmPoolSize (Some poolStateDiscriminator)) (\<lambda>_.
     rbind (layout_u8 data 390) (\<lambda>enable.
     rcheck (\<not> 1 < enable) ErrMalformedAccount (
     rbind (layout_key data 8) (\<lambda>ammConfig.
     rbind (layout_key data 40) (\<lambda>poolCreator.
     rbind (layout_key data 72) (\<lambda>token0Vault.
     rbind (layout_key data 104) (\<lambda>token1Vault.
     rbind (layout_key data 136) (\<lambda>lpMint.
     rbind (layout_key data 168) (\<lambda>token0Mint.
     rbind (layout_key data 200) (\<lambda>token1Mint.
     rbind (layout_key data 232) (\<lambda>token0Program.
     rbind (layout_key data 264) (\<lambda>token1Program.
     rbind (layout_key data 296) (\<lambda>observation.
     rbind (layout_u8 data 328) (\<lambda>authBump.
     rbind (layout_u8 data 329) (\<lambda>status.
     rbind (layout_u8 data 330) (\<lambda>lpDecimals.
     rbind (layout_u8 data 331) (\<lambda>mint0Decimals.
     rbind (layout_u8 data 332) (\<lambda>mint1Decimals.
     rbind (layout_u64 data 341) (\<lambda>protocolFees0.
     rbind (layout_u64 data 349) (\<lambda>protocolFees1.
     rbind (layout_u64 data 357) (\<lambda>fundFees0.
     rbind (layout_u64 data 365) (\<lambda>fundFees1.
     rbind (layout_u64 data 397) (\<lambda>creatorFees0.
     rbind (layout_u64 data 405) (\<lambda>creatorFees1.
     rbind (layout_u64 data 373) (\<lambda>openTime.
     rbind (layout_u8 data 389) (\<lambda>creatorFeeOn.
     Inr \<lparr>cp_AmmConfig = ammConfig, cp_PoolCreator = poolCreator,
       cp_Token0Vault = token0Vault, cp_Token1Vault = token1Vault, cp_LPMint = lpMint,
       cp_Token0Mint = token0Mint, cp_Token1Mint = token1Mint,
       cp_Token0Program = token0Program, cp_Token1Program = token1Program,
       cp_Observation = observation, cp_AuthBump = authBump, cp_Status = status,
       cp_LPDecimals = lpDecimals, cp_Mint0Decimals = mint0Decimals,
       cp_Mint1Decimals = mint1Decimals, cp_ProtocolFees0 = protocolFees0,
       cp_ProtocolFees1 = protocolFees1, cp_FundFees0 = fundFees0, cp_FundFees1 = fundFees1,
       cp_CreatorFees0 = creatorFees0, cp_CreatorFees1 = creatorFees1, cp_OpenTime = openTime,
       cp_CreatorFeeOn = creatorFeeOn, cp_EnableCreatorFee = (enable = 1)\<rparr>))))))))))))))))))))))))))"

definition CPMMPool_Swappable :: "solana_lib \<Rightarrow> CPMMPool \<Rightarrow> int \<Rightarrow> rerr + unit" where
  "CPMMPool_Swappable L p now =
     rcheck (cp_Status p AND 4 = 0) ErrPoolNotSwappable (
     rcheck (\<not> word_of_int now < cp_OpenTime p) ErrPoolNotSwappable (
     rcheck (\<not> (cp_Token0Program p \<noteq> token_program_id L \<or> cp_Token1Program p \<noteq> token_program_id L))
       ErrPoolNotSwappable (
     rcheck (cp_Token0Mint p \<noteq> cp_Token1Mint p) ErrPoolNotSwappable (Inr ()))))"

record CPMMConfig =
  cc_Bump :: byte
  cc_DisableCreatePool :: bool
  cc_Index :: u16
  cc_TradeFeeRate :: u64
  cc_ProtocolFeeRate :: u64
  cc_FundFeeRate :: u64
  cc_CreatePoolFee :: u64
  cc_ProtocolOwner :: pubkey
  cc_FundOwner :: pubkey
  cc_CreatorFeeRate :: u64
  cc_CreatorFeeShareRate :: u64

definition DecodeCPMMConfig :: "solana_lib \<Rightarrow> pubkey \<Rightarrow> byte list \<Rightarrow> rerr + CPMMConfig" where
  "DecodeCPMMConfig L owner data =
     rbind (checkAccount (CPMMProgram L) owner data cpmmConfigSize (Some ammConfigDiscriminator)) (\<lambda>_.
     rbind (layout_u8 data 8) (\<lambda>bump.
     rbind (layout_u8 data 9) (\<lambda>disable.
     rbind (layout_u16 data 10) (\<lambda>index.
     rbind (layout_u64 data 12) (\<lambda>tradeFee.
     rbind (layout_u64 data 20) (\<lambda>protocolFee.
     rbind (layout_u64 data 28) (\<lambda>fundFee.
     rbind (layout_u64 data 36) (\<lambda>createPoolFee.
     rbind (layout_key data 44) (\<lambda>protocolOwner.
     rbind (layout_key data 76) (\<lambda>fundOwner.
     rbind (layout_u64 data 108) (\<lambda>creatorFee.
     rbind (layout_u64 data 116) (\<lambda>creatorShare.
     Inr \<lparr>cc_Bump = bump, cc_DisableCreatePool = (disable \<noteq> 0), cc_Index = index,
       cc_TradeFeeRate = tradeFee, cc_ProtocolFeeRate = protocolFee, cc_FundFeeRate = fundFee,
       cc_CreatePoolFee = createPoolFee, cc_ProtocolOwner = protocolOwner,
       cc_FundOwner = fundOwner, cc_CreatorFeeRate = creatorFee,
       cc_CreatorFeeShareRate = creatorShare\<rparr>))))))))))))"

lemma DecodeCPMMPool_in_range:
  "length data = 637 \<Longrightarrow> DecodeCPMMPool L owner data \<noteq> Inl Panic"
  by (auto simp: DecodeCPMMPool_def checkAccount_panic layout_simps rcheck_def)

lemma DecodeCPMMConfig_in_range:
  "length data = 236 \<Longrightarrow> DecodeCPMMConfig L owner data \<noteq> Inl Panic"
  by (auto simp: DecodeCPMMConfig_def checkAccount_panic layout_simps)

section \<open>The swap instruction\<close>

record CPMMSwap =
  sc_Payer :: pubkey
  sc_AmmConfig :: pubkey
  sc_Pool :: pubkey
  sc_InputTokenAccount :: pubkey
  sc_OutputTokenAccount :: pubkey
  sc_InputVault :: pubkey
  sc_OutputVault :: pubkey
  sc_InputTokenProgram :: pubkey
  sc_OutputTokenProgram :: pubkey
  sc_InputMint :: pubkey
  sc_OutputMint :: pubkey
  sc_Observation :: pubkey
  sc_AmountIn :: u64
  sc_MinAmountOut :: u64

definition CPMMPool_Swap ::
  "CPMMPool \<Rightarrow> pubkey \<Rightarrow> pubkey \<Rightarrow> pubkey \<Rightarrow> pubkey \<Rightarrow> pubkey \<Rightarrow> u64 \<Rightarrow> u64 \<Rightarrow> rerr + CPMMSwap" where
  "CPMMPool_Swap p pool inputMint payer inputTokenAccount outputTokenAccount amountIn minAmountOut =
     (let swap = (\<lambda>(vin, vout) (pin, pout) (min', mout).
        \<lparr>sc_Payer = payer, sc_AmmConfig = cp_AmmConfig p, sc_Pool = pool,
         sc_InputTokenAccount = inputTokenAccount, sc_OutputTokenAccount = outputTokenAccount,
         sc_InputVault = vin, sc_OutputVault = vout,
         sc_InputTokenProgram = pin, sc_OutputTokenProgram = pout,
         sc_InputMint = min', sc_OutputMint = mout,
         sc_Observation = cp_Observation p, sc_AmountIn = amountIn,
         sc_MinAmountOut = minAmountOut\<rparr>)
      in if inputMint = cp_Token0Mint p then
           Inr (swap (cp_Token0Vault p, cp_Token1Vault p) (cp_Token0Program p, cp_Token1Program p)
             (cp_Token0Mint p, cp_Token1Mint p))
         else if inputMint = cp_Token1Mint p then
           Inr (swap (cp_Token1Vault p, cp_Token0Vault p) (cp_Token1Program p, cp_Token0Program p)
             (cp_Token1Mint p, cp_Token0Mint p))
         else Inl ErrPoolNotSwappable)"

text \<open>\<open>auth\<close> is the value of the package variable \<open>CPMMAuthority\<close>.\<close>

definition CPMMAuthority :: "solana_lib \<Rightarrow> rerr + pubkey" where
  "CPMMAuthority L = pda L [bytes_of ''vault_and_lp_mint_auth_seed''] (CPMMProgram L)"

definition CPMMSwap_Instruction :: "solana_lib \<Rightarrow> pubkey \<Rightarrow> CPMMSwap \<Rightarrow> instruction" where
  "CPMMSwap_Instruction L auth s =
     \<lparr>ins_program = CPMMProgram L,
      ins_accounts =
        [signer (sc_Payer s), readonly auth, readonly (sc_AmmConfig s), writable (sc_Pool s),
         writable (sc_InputTokenAccount s), writable (sc_OutputTokenAccount s),
         writable (sc_InputVault s), writable (sc_OutputVault s),
         readonly (sc_InputTokenProgram s), readonly (sc_OutputTokenProgram s),
         readonly (sc_InputMint s), readonly (sc_OutputMint s), writable (sc_Observation s)],
      ins_data = append_u64 (append_u64 cpmmSwapBaseInputData (sc_AmountIn s)) (sc_MinAmountOut s)\<rparr>"

definition DecodeCPMMSwap ::
  "solana_lib \<Rightarrow> pubkey \<Rightarrow> pubkey \<Rightarrow> pubkey list \<Rightarrow> byte list \<Rightarrow> rerr + CPMMSwap" where
  "DecodeCPMMSwap L auth program accounts data =
     rcheck (program = CPMMProgram L) ErrMalformedInstruction (
     rcheck (\<not> (length data \<noteq> 24 \<or> take 8 data \<noteq> cpmmSwapBaseInputData)) ErrMalformedInstruction (
     rcheck (length accounts = 13) ErrMalformedInstruction (
     rcheck (accounts ! 1 = auth) ErrMalformedInstruction (
     rcheck (\<forall>t\<in>set (take 2 (drop 8 accounts)). \<not> (t \<noteq> token_program_id L \<and> t \<noteq> token2022_program_id L))
       ErrMalformedInstruction (
     Inr \<lparr>sc_Payer = accounts ! 0, sc_AmmConfig = accounts ! 2, sc_Pool = accounts ! 3,
       sc_InputTokenAccount = accounts ! 4, sc_OutputTokenAccount = accounts ! 5,
       sc_InputVault = accounts ! 6, sc_OutputVault = accounts ! 7,
       sc_InputTokenProgram = accounts ! 8, sc_OutputTokenProgram = accounts ! 9,
       sc_InputMint = accounts ! 10, sc_OutputMint = accounts ! 11,
       sc_Observation = accounts ! 12, sc_AmountIn = le_u64 (drop 8 data),
       sc_MinAmountOut = le_u64 (drop 16 data)\<rparr>)))))"

text \<open>The swaps the wallet trades: both token programs are SPL Token or Token-2022.\<close>

definition cpmm_valid :: "solana_lib \<Rightarrow> CPMMSwap \<Rightarrow> bool" where
  "cpmm_valid L s \<longleftrightarrow>
     sc_InputTokenProgram s \<in> {token_program_id L, token2022_program_id L} \<and>
     sc_OutputTokenProgram s \<in> {token_program_id L, token2022_program_id L}"

lemma CPMMSwap_decode_encode:
  "cpmm_valid L s \<Longrightarrow>
   DecodeCPMMSwap L auth (ins_program (CPMMSwap_Instruction L auth s))
     (Instruction_Keys (CPMMSwap_Instruction L auth s)) (ins_data (CPMMSwap_Instruction L auth s)) = Inr s"
  using read_two_u64 [of cpmmSwapBaseInputData 8 "sc_AmountIn s" "sc_MinAmountOut s"]
  by (simp add: DecodeCPMMSwap_def CPMMSwap_Instruction_def Instruction_Keys_def cpmm_valid_def
      cpmmSwapBaseInputData_def rcheck_def)

lemma CPMMSwap_encode_decode:
  assumes "DecodeCPMMSwap L auth p ks d = Inr s"
  shows "cpmm_valid L s \<and> ins_program (CPMMSwap_Instruction L auth s) = p \<and>
    Instruction_Keys (CPMMSwap_Instruction L auth s) = ks \<and>
    ins_data (CPMMSwap_Instruction L auth s) = d"
proof -
  from assms have d: "length d = 8 + 16" "take 8 d = cpmmSwapBaseInputData" and ks: "length ks = 13"
    by (auto simp: DecodeCPMMSwap_def rcheck_eq_Inr)
  have two: "take 2 (drop 8 ks) = [ks ! 8, ks ! 9]"
    using ks by (simp add: list_eq_iff_nth_eq less_Suc_eq numeral_2_eq_2)
  have "[ks ! 0, ks ! 1, ks ! 2, ks ! 3, ks ! 4, ks ! 5, ks ! 6, ks ! 7, ks ! 8, ks ! 9, ks ! 10,
      ks ! 11, ks ! 12] = ks"
    using all_nths [of ks] ks by (simp add: upt_rec numeral_eq_Suc)
  with append_two_u64 [OF d] ks two assms show ?thesis
    by (auto simp: DecodeCPMMSwap_def rcheck_eq_Inr CPMMSwap_Instruction_def Instruction_Keys_def
        cpmm_valid_def)
qed

interpretation cpmm_codec: swap_codec
  "\<lambda>s. Inr (CPMMSwap_Instruction L auth s)" "DecodeCPMMSwap L auth" "cpmm_valid L" for L auth
  by unfold_locales (auto simp: CPMMSwap_decode_encode dest: CPMMSwap_encode_decode)

lemma CPMMPool_Swap_valid:
  "CPMMPool_Swappable L p now = Inr u \<Longrightarrow>
   CPMMPool_Swap p pool mint payer src dst a m = Inr s \<Longrightarrow> cpmm_valid L s"
  by (auto simp: CPMMPool_Swappable_def CPMMPool_Swap_def cpmm_valid_def rcheck_eq_Inr Let_def
      split: if_splits)

section \<open>The amount out\<close>

text \<open>Each \<open>big.Int\<close> step of the source is an \<open>int\<close> here; \<open>inputFeeRate\<close> is a \<open>uint64\<close>
  and its \<open>+=\<close> wraps.\<close>

definition CPMMPool_AmountOut ::
  "CPMMPool \<Rightarrow> CPMMConfig \<Rightarrow> pubkey \<Rightarrow> u64 \<Rightarrow> u64 \<Rightarrow> u64 \<Rightarrow> rerr + u64" where
  "CPMMPool_AmountOut p config inputMint amountIn vault0Amount vault1Amount =
     (let fees0 = uint (cp_ProtocolFees0 p) + uint (cp_FundFees0 p) + uint (cp_CreatorFees0 p);
          fees1 = uint (cp_ProtocolFees1 p) + uint (cp_FundFees1 p) + uint (cp_CreatorFees1 p);
          reserve0 = uint vault0Amount; reserve1 = uint vault1Amount
      in if reserve0 < fees0 \<or> reserve1 < fees1 then Inl ErrPoolNotSwappable
         else let reserve0 = reserve0 - fees0; reserve1 = reserve1 - fees1
         in rbind (if inputMint = cp_Token0Mint p then Inr True
                   else if inputMint = cp_Token1Mint p then Inr False
                   else Inl ErrPoolNotSwappable) (\<lambda>zeroForOne.
            rbind (if cp_CreatorFeeOn p = 0 then Inr True
                   else if cp_CreatorFeeOn p = 1 then Inr zeroForOne
                   else if cp_CreatorFeeOn p = 2 then Inr (\<not> zeroForOne)
                   else Inl ErrPoolNotSwappable) (\<lambda>creatorFeeOnInput.
            let creatorRate = (if cp_EnableCreatorFee p then cc_CreatorFeeRate config else 0);
                feeOf = (\<lambda>amount rate. ceilDiv (amount * uint (rate :: u64)) 1000000);
                inp = uint amountIn;
                inputFeeRate = (if creatorFeeOnInput then cc_TradeFeeRate config + creatorRate
                                else cc_TradeFeeRate config)
            in if 1000000 \<le> inputFeeRate \<or> 1000000 \<le> creatorRate then Inl ErrPoolNotSwappable
               else let inp = inp - feeOf inp inputFeeRate;
                        (reserveIn, reserveOut) =
                          (if zeroForOne then (reserve0, reserve1) else (reserve1, reserve0))
               in rbind (constantProductOut inp reserveIn reserveOut) (\<lambda>out.
                  if \<not> creatorFeeOnInput then
                    let swapped = uint out in
                    Inr (word_of_int (swapped - feeOf swapped creatorRate))
                  else Inr out))))"

text \<open>The reference figure: a fee in millionths, rounded up, off an amount.\<close>

definition net_of_fee :: "int \<Rightarrow> u64 \<Rightarrow> int" where
  "net_of_fee amount rate = amount * (1000000 - uint rate) div 1000000"

lemma net_of_fee_rewrite:
  "0 \<le> amount \<Longrightarrow> amount - ceilDiv (amount * uint rate) 1000000 = net_of_fee amount rate"
  by (simp add: ceilDiv_eq minus_ceil_quo net_of_fee_def)

lemma net_of_fee_bounds:
  assumes "0 \<le> amount" "rate < 1000000"
  shows "0 \<le> net_of_fee amount rate" "net_of_fee amount rate \<le> amount"
proof -
  have r: "0 \<le> uint rate" "uint rate < 1000000"
    using assms(2) by (simp_all add: word_less_def)
  then have "0 \<le> amount * (1000000 - uint rate)"
    using assms by (intro mult_nonneg_nonneg) auto
  then show "0 \<le> net_of_fee amount rate"
    by (simp only: net_of_fee_def pos_imp_zdiv_nonneg_iff)
  have "amount * (1000000 - uint rate) \<le> amount * 1000000"
    using r assms by (intro mult_left_mono) auto
  then have "amount * (1000000 - uint rate) div 1000000 \<le> amount * 1000000 div 1000000"
    by (intro zdiv_mono1) auto
  then show "net_of_fee amount rate \<le> amount" by (simp add: net_of_fee_def)
qed

lemma uint_of_bounded: "0 \<le> x \<Longrightarrow> x \<le> uint (w :: u64) \<Longrightarrow> uint (word_of_int x :: u64) = x"
  using uint_u64_bounds(2) [of w] by (intro is_uint64_uint) (simp add: is_uint64_def)

text \<open>The reserves of a pool, net of the fees owed, for the side that is sold.\<close>

definition cpmm_reserves :: "CPMMPool \<Rightarrow> bool \<Rightarrow> u64 \<Rightarrow> u64 \<Rightarrow> int \<times> int" where
  "cpmm_reserves p zeroForOne v0 v1 =
     (let r0 = uint v0 - (uint (cp_ProtocolFees0 p) + uint (cp_FundFees0 p) + uint (cp_CreatorFees0 p));
          r1 = uint v1 - (uint (cp_ProtocolFees1 p) + uint (cp_FundFees1 p) + uint (cp_CreatorFees1 p))
      in if zeroForOne then (r0, r1) else (r1, r0))"

definition cpmm_fee_on_input :: "CPMMPool \<Rightarrow> bool \<Rightarrow> bool" where
  "cpmm_fee_on_input p zeroForOne \<longleftrightarrow>
     cp_CreatorFeeOn p = 0 \<or> (cp_CreatorFeeOn p = 1 \<and> zeroForOne) \<or>
     (cp_CreatorFeeOn p \<noteq> 1 \<and> \<not> zeroForOne)"

definition cpmm_creator_rate :: "CPMMPool \<Rightarrow> CPMMConfig \<Rightarrow> u64" where
  "cpmm_creator_rate p c = (if cp_EnableCreatorFee p then cc_CreatorFeeRate c else 0)"

definition cpmm_input_rate :: "CPMMPool \<Rightarrow> CPMMConfig \<Rightarrow> bool \<Rightarrow> u64" where
  "cpmm_input_rate p c zeroForOne =
     (if cpmm_fee_on_input p zeroForOne then cc_TradeFeeRate c + cpmm_creator_rate p c
      else cc_TradeFeeRate c)"

lemma CPMMPool_AmountOut_cases:
  assumes "CPMMPool_AmountOut p c mint a v0 v1 = Inr w"
  shows "\<exists>zfo rin rout out.
    zfo = (mint = cp_Token0Mint p) \<and> (mint = cp_Token0Mint p \<or> mint = cp_Token1Mint p) \<and>
    (rin, rout) = cpmm_reserves p zfo v0 v1 \<and> 0 \<le> rin \<and> 0 \<le> rout \<and>
    cp_CreatorFeeOn p \<in> {0, 1, 2} \<and>
    cpmm_input_rate p c zfo < 1000000 \<and> cpmm_creator_rate p c < 1000000 \<and>
    constantProductOut (net_of_fee (uint a) (cpmm_input_rate p c zfo)) rin rout = Inr out \<and>
    uint w = (if cpmm_fee_on_input p zfo then uint out
              else net_of_fee (uint out) (cpmm_creator_rate p c))"
proof -
  have fee: "0 \<le> net_of_fee (uint x) r" "net_of_fee (uint x) r \<le> uint x" if "r < 1000000"
    for x :: u64 and r
    using net_of_fee_bounds [OF _ that, of "uint x"] by auto
  have mint: "mint = cp_Token0Mint p \<or> mint = cp_Token1Mint p"
    using assms by (auto simp: CPMMPool_AmountOut_def Let_def split: if_splits)
  define zfo where "zfo = (mint = cp_Token0Mint p)"
  obtain rin rout where rr: "(rin, rout) = cpmm_reserves p zfo v0 v1"
    by (metis surj_pair)
  have nn: "0 \<le> rin" "0 \<le> rout"
    using assms rr by (auto simp: CPMMPool_AmountOut_def cpmm_reserves_def Let_def split: if_splits)
  have on: "cp_CreatorFeeOn p \<in> {0, 1, 2}"
    using assms by (auto simp: CPMMPool_AmountOut_def Let_def rbind_eq_Inr split: if_splits)
  have eq: "CPMMPool_AmountOut p c mint a v0 v1 =
     (if 1000000 \<le> cpmm_input_rate p c zfo \<or> 1000000 \<le> cpmm_creator_rate p c
      then Inl ErrPoolNotSwappable
      else rbind (constantProductOut (net_of_fee (uint a) (cpmm_input_rate p c zfo)) rin rout) (\<lambda>out.
        Inr (if cpmm_fee_on_input p zfo then out
             else word_of_int (net_of_fee (uint out) (cpmm_creator_rate p c)))))"
    using assms on mint rr
    by (auto simp: CPMMPool_AmountOut_def Let_def cpmm_reserves_def zfo_def cpmm_fee_on_input_def
        cpmm_input_rate_def cpmm_creator_rate_def net_of_fee_rewrite simp del: of_int_diff
        split: if_splits)
  from assms [unfolded eq] obtain out where o:
    "cpmm_input_rate p c zfo < 1000000" "cpmm_creator_rate p c < 1000000"
    "constantProductOut (net_of_fee (uint a) (cpmm_input_rate p c zfo)) rin rout = Inr out"
    "w = (if cpmm_fee_on_input p zfo then out
          else word_of_int (net_of_fee (uint out) (cpmm_creator_rate p c)))"
    by (auto simp: rbind_eq_Inr not_le split: if_splits)
  have "uint w = (if cpmm_fee_on_input p zfo then uint out
                  else net_of_fee (uint out) (cpmm_creator_rate p c))"
    using o uint_of_bounded [OF fee(1) fee(2)] by auto
  with o rr nn mint on zfo_def show ?thesis by auto
qed

section \<open>Properties\<close>

definition cp_sample :: CPMMPool where
  "cp_sample = \<lparr>cp_AmmConfig = [1], cp_PoolCreator = [2], cp_Token0Vault = [3],
     cp_Token1Vault = [4], cp_LPMint = [5], cp_Token0Mint = [6], cp_Token1Mint = [7],
     cp_Token0Program = [8], cp_Token1Program = [8], cp_Observation = [9], cp_AuthBump = 255,
     cp_Status = 0, cp_LPDecimals = 9, cp_Mint0Decimals = 9, cp_Mint1Decimals = 6,
     cp_ProtocolFees0 = 5, cp_ProtocolFees1 = 6, cp_FundFees0 = 7, cp_FundFees1 = 8,
     cp_CreatorFees0 = 0, cp_CreatorFees1 = 0, cp_OpenTime = 0, cp_CreatorFeeOn = 0,
     cp_EnableCreatorFee = True\<rparr>"

definition cc_sample :: CPMMConfig where
  "cc_sample = \<lparr>cc_Bump = 255, cc_DisableCreatePool = False, cc_Index = 0,
     cc_TradeFeeRate = 2500, cc_ProtocolFeeRate = 120000, cc_FundFeeRate = 40000,
     cc_CreatePoolFee = 0, cc_ProtocolOwner = [10], cc_FundOwner = [11],
     cc_CreatorFeeRate = 500, cc_CreatorFeeShareRate = 0\<rparr>"

text \<open>C35. The CPMM quote takes a fee rounded up from the input, runs the curve on the reserves net of
  the fees owed, takes an output creator fee rounded up where the creator fee is on the output, and pays
  less than the output reserve without letting the product of the reserves fall. The rate on the input is
  the trade fee rate, plus the creator fee rate where that is on the input; the code adds the two in 64
  bits, so it is their sum modulo \<open>2 ^ 64\<close>: rates that wrap to less than a million are charged as
  what is left of them, down to no fee at all.\<close>

theorem CPMM_AmountOut_correct:
  assumes out: "CPMMPool_AmountOut p c mint a v0 v1 = Inr w"
  shows "\<exists>zfo rin rout rate inp gross.
    zfo = (mint = cp_Token0Mint p) \<and> (rin, rout) = cpmm_reserves p zfo v0 v1 \<and>
    rate = (uint (cc_TradeFeeRate c)
             + (if cpmm_fee_on_input p zfo then uint (cpmm_creator_rate p c) else 0)) mod 2 ^ 64 \<and>
    rate < 1000000 \<and> inp = uint a * (1000000 - rate) div 1000000 \<and>
    gross = rout * inp div (rin + inp) \<and>
    uint w = (if cpmm_fee_on_input p zfo then gross
              else gross * (1000000 - uint (cpmm_creator_rate p c)) div 1000000) \<and>
    uint w < rout \<and> rin * rout \<le> (rin + inp) * (rout - uint w)"
proof -
  obtain zfo rin rout out where o: "zfo = (mint = cp_Token0Mint p)"
    "(rin, rout) = cpmm_reserves p zfo v0 v1" "0 \<le> rin" "0 \<le> rout"
    "cpmm_input_rate p c zfo < 1000000" "cpmm_creator_rate p c < 1000000"
    "constantProductOut (net_of_fee (uint a) (cpmm_input_rate p c zfo)) rin rout = Inr out"
    "uint w = (if cpmm_fee_on_input p zfo then uint out
               else net_of_fee (uint out) (cpmm_creator_rate p c))"
    using CPMMPool_AmountOut_cases [OF out] by auto
  define inp where "inp = net_of_fee (uint a) (cpmm_input_rate p c zfo)"
  have rate: "uint (cpmm_input_rate p c zfo) = (uint (cc_TradeFeeRate c)
      + (if cpmm_fee_on_input p zfo then uint (cpmm_creator_rate p c) else 0)) mod 2 ^ 64"
    using uint_lt2p [of "cc_TradeFeeRate c"] by (simp add: cpmm_input_rate_def uint_word_ariths)
  have inp: "0 \<le> inp" using net_of_fee_bounds [OF _ o(5)] by (simp add: inp_def)
  note out' = o(7) [folded inp_def]
  note v = constantProductOut_value [OF out' inp o(3,4)]
  have le: "uint w \<le> uint out"
    using o(8) net_of_fee_bounds [OF _ o(6), of "uint out"] by auto
  have lt: "uint w < rout" using le constantProductOut_bounds [OF out'] by simp
  have "(rin + inp) * (rout - uint out) \<le> (rin + inp) * (rout - uint w)"
    using le v by (intro mult_left_mono) auto
  then have "rin * rout \<le> (rin + inp) * (rout - uint w)"
    using constantProductOut_product(1) [OF out' inp o(3,4)] by linarith
  moreover have "uint (cpmm_input_rate p c zfo) < 1000000"
    using o(5) by (simp add: word_less_def)
  moreover have "uint w = (if cpmm_fee_on_input p zfo then uint out
      else uint out * (1000000 - uint (cpmm_creator_rate p c)) div 1000000)"
    using o(8) by (simp add: net_of_fee_def)
  moreover have "inp = uint a * (1000000 - uint (cpmm_input_rate p c zfo)) div 1000000"
    by (simp add: inp_def net_of_fee_def)
  ultimately show ?thesis
    using o(1,2) v(2) lt rate by blast
qed

theorem CPMM_AmountOut_correct_witness:
  "CPMMPool_AmountOut cp_sample cc_sample [6] 1000 50012 90014 = Inr 1759 \<and> uint (1759::u64) < 90000"
proof -
  have out: "CPMMPool_AmountOut cp_sample cc_sample [6] 1000 50012 90014 = Inr 1759"
    by code_simp
  have "cpmm_reserves cp_sample True 50012 90014 = (50000, 90000)" by code_simp
  moreover have "cp_Token0Mint cp_sample = [6]" by (simp add: cp_sample_def)
  ultimately have "uint (1759::u64) < 90000"
    using CPMM_AmountOut_correct [OF out] by auto
  with out show ?thesis by simp
qed

text \<open>The fee-rate guard of the CPMM quote can be passed by wrapping: a trade fee rate of
  2^64 - 1 millionths with a creator rate of 1 on the input adds up to 0, and the quote is the
  one of a pool without any fee.\<close>

theorem CPMM_fee_rate_wraps:
  assumes "cp_EnableCreatorFee p" "cp_CreatorFeeOn p = 0"
  shows "CPMMPool_AmountOut p (c\<lparr>cc_TradeFeeRate := 18446744073709551615, cc_CreatorFeeRate := 1\<rparr>)
      mint a v0 v1
    = CPMMPool_AmountOut p (c\<lparr>cc_TradeFeeRate := 0, cc_CreatorFeeRate := 0\<rparr>) mint a v0 v1"
proof -
  have "(18446744073709551615 :: u64) + 1 = 0" "\<not> (1000000 :: u64) \<le> 1"
    by (simp_all add: word_le_nat_alt)
  then show ?thesis
    using assms by (simp add: CPMMPool_AmountOut_def Let_def ceilDiv_eq)
qed

theorem CPMM_fee_rate_wraps_witness:
  "CPMMPool_AmountOut cp_sample
      (cc_sample\<lparr>cc_TradeFeeRate := 18446744073709551615, cc_CreatorFeeRate := 1\<rparr>) [6] 1000 50012 90014
    = Inr 1764"
proof -
  have "cp_EnableCreatorFee cp_sample" "cp_CreatorFeeOn cp_sample = 0"
    by (simp_all add: cp_sample_def)
  from CPMM_fee_rate_wraps [OF this, of cc_sample "[6]" 1000 50012 90014]
  show ?thesis by (simp only: ) code_simp
qed

text \<open>The CPMM swap decoder accepts exactly the encodings of swaps between classic or
  Token-2022 token programs, with the pool authority in its place.\<close>

theorem CPMMSwap_codec_exact:
  "DecodeCPMMSwap L auth program accounts data = Inr s \<longleftrightarrow>
     cpmm_valid L s \<and> ins_program (CPMMSwap_Instruction L auth s) = program \<and>
     Instruction_Keys (CPMMSwap_Instruction L auth s) = accounts \<and>
     ins_data (CPMMSwap_Instruction L auth s) = data"
  using cpmm_codec.decode_iff [of L auth] by auto

lemma DecodeCPMM_never_panics:
  "DecodeCPMMPool L owner data \<noteq> Inl Panic \<and> DecodeCPMMConfig L owner data \<noteq> Inl Panic"
  using DecodeCPMMPool_in_range [of data L owner] DecodeCPMMConfig_in_range [of data L owner]
  by (auto simp: DecodeCPMMPool_def DecodeCPMMConfig_def checkAccount_panic cpmmPoolSize_def
      cpmmConfigSize_def)

end
