(* ===== verification/RaydiumClmm.thy ===== *)
theory RaydiumClmm
  imports RaydiumCpmm
begin

text \<open>
  CLMM pools (internal/chain/solana/raydium/clmm.go, and the two program addresses of ticks.go):
  the pool and config accounts, the swap guard, and the swap_v2 instruction with its remaining
  accounts. The lemmas: no read out of range, and the codec meets \<open>swap_codec\<close> for swaps with
  1 to 10 distinct tick arrays other than the bitmap extension.
\<close>

section \<open>Program addresses\<close>

text \<open>\<open>binary.BigEndian.AppendUint32(nil, uint32(start))\<close>.\<close>

definition be_u32 :: "int \<Rightarrow> byte list" where
  "be_u32 start = rev (put_le 4 (unat (word_of_int start :: u32)))"

definition CLMMTickArrayAddress :: "solana_lib \<Rightarrow> pubkey \<Rightarrow> int \<Rightarrow> rerr + pubkey" where
  "CLMMTickArrayAddress L pool start =
     pda L [bytes_of ''tick_array'', pool, be_u32 start] (CLMMProgram L)"

definition CLMMBitmapExtensionAddress :: "solana_lib \<Rightarrow> pubkey \<Rightarrow> rerr + pubkey" where
  "CLMMBitmapExtensionAddress L pool =
     pda L [bytes_of ''pool_tick_array_bitmap_extension'', pool] (CLMMProgram L)"

section \<open>The pool and config accounts\<close>

definition clmmPoolSize :: nat where "clmmPoolSize = 1544"
definition clmmConfigSize :: nat where "clmmConfigSize = 117"
definition MaxTickArrays :: nat where "MaxTickArrays = 10"
definition minTick :: int where "minTick = -443636"
definition maxTick :: int where "maxTick = 443636"

record CLMMPool =
  cl_Bump :: byte
  cl_AmmConfig :: pubkey
  cl_Owner :: pubkey
  cl_Mint0 :: pubkey
  cl_Mint1 :: pubkey
  cl_Vault0 :: pubkey
  cl_Vault1 :: pubkey
  cl_Observation :: pubkey
  cl_Decimals0 :: byte
  cl_Decimals1 :: byte
  cl_TickSpacing :: u16
  cl_Liquidity :: int
  cl_SqrtPriceX64 :: int
  cl_TickCurrent :: int
  cl_Status :: byte
  cl_FeeOn :: byte
  cl_TickArrayBitmap :: "u64 list"
  cl_OpenTime :: u64

definition DecodeCLMMPool :: "solana_lib \<Rightarrow> pubkey \<Rightarrow> byte list \<Rightarrow> rerr + CLMMPool" where
  "DecodeCLMMPool L owner data =
     rbind (checkAccount (CLMMProgram L) owner data clmmPoolSize (Some poolStateDiscriminator)) (\<lambda>_.
     rbind (layout_u8 data 8) (\<lambda>bump.
     rbind (layout_key data 9) (\<lambda>ammConfig.
     rbind (layout_key data 41) (\<lambda>poolOwner.
     rbind (layout_key data 73) (\<lambda>mint0.
     rbind (layout_key data 105) (\<lambda>mint1.
     rbind (layout_key data 137) (\<lambda>vault0.
     rbind (layout_key data 169) (\<lambda>vault1.
     rbind (layout_key data 201) (\<lambda>observation.
     rbind (layout_u8 data 233) (\<lambda>decimals0.
     rbind (layout_u8 data 234) (\<lambda>decimals1.
     rbind (layout_u16 data 235) (\<lambda>tickSpacing.
     rbind (layout_u128 data 237) (\<lambda>liquidity.
     rbind (layout_u128 data 253) (\<lambda>sqrtPrice.
     rbind (layout_i32 data 269) (\<lambda>tickCurrent.
     rbind (layout_u8 data 389) (\<lambda>status.
     rbind (layout_u8 data 390) (\<lambda>feeOn.
     rbind (layout_u64 data 1080) (\<lambda>openTime.
     rbind (rmap (\<lambda>i. layout_u64 data (904 + 8 * i)) [0..<16]) (\<lambda>bitmap.
     rcheck (\<not> (tickSpacing = 0 \<or> tickCurrent < minTick \<or> tickCurrent > maxTick)) ErrMalformedAccount (
     Inr \<lparr>cl_Bump = bump, cl_AmmConfig = ammConfig, cl_Owner = poolOwner, cl_Mint0 = mint0,
       cl_Mint1 = mint1, cl_Vault0 = vault0, cl_Vault1 = vault1, cl_Observation = observation,
       cl_Decimals0 = decimals0, cl_Decimals1 = decimals1, cl_TickSpacing = tickSpacing,
       cl_Liquidity = liquidity, cl_SqrtPriceX64 = sqrtPrice, cl_TickCurrent = tickCurrent,
       cl_Status = status, cl_FeeOn = feeOn, cl_TickArrayBitmap = bitmap,
       cl_OpenTime = openTime\<rparr>))))))))))))))))))))"

definition CLMMPool_Swappable :: "CLMMPool \<Rightarrow> int \<Rightarrow> rerr + unit" where
  "CLMMPool_Swappable p now =
     rcheck (cl_Status p AND 16 = 0) ErrPoolNotSwappable (
     rcheck (\<not> word_of_int now \<le> cl_OpenTime p) ErrPoolNotSwappable (
     rcheck (cl_Mint0 p \<noteq> cl_Mint1 p) ErrPoolNotSwappable (Inr ())))"

definition CLMMPool_ZeroForOne :: "CLMMPool \<Rightarrow> pubkey \<Rightarrow> rerr + bool" where
  "CLMMPool_ZeroForOne p inputMint =
     (if inputMint = cl_Mint0 p then Inr True
      else if inputMint = cl_Mint1 p then Inr False
      else Inl ErrPoolNotSwappable)"

record CLMMConfig =
  lc_Bump :: byte
  lc_Index :: u16
  lc_Owner :: pubkey
  lc_ProtocolFeeRate :: u32
  lc_TradeFeeRate :: u32
  lc_TickSpacing :: u16
  lc_FundFeeRate :: u32
  lc_FundOwner :: pubkey

definition DecodeCLMMConfig :: "solana_lib \<Rightarrow> pubkey \<Rightarrow> byte list \<Rightarrow> rerr + CLMMConfig" where
  "DecodeCLMMConfig L owner data =
     rbind (checkAccount (CLMMProgram L) owner data clmmConfigSize (Some ammConfigDiscriminator)) (\<lambda>_.
     rbind (layout_u8 data 8) (\<lambda>bump.
     rbind (layout_u16 data 9) (\<lambda>index.
     rbind (layout_key data 11) (\<lambda>configOwner.
     rbind (layout_u32 data 43) (\<lambda>protocolFee.
     rbind (layout_u32 data 47) (\<lambda>tradeFee.
     rbind (layout_u16 data 51) (\<lambda>tickSpacing.
     rbind (layout_u32 data 53) (\<lambda>fundFee.
     rbind (layout_key data 61) (\<lambda>fundOwner.
     Inr \<lparr>lc_Bump = bump, lc_Index = index, lc_Owner = configOwner,
       lc_ProtocolFeeRate = protocolFee, lc_TradeFeeRate = tradeFee,
       lc_TickSpacing = tickSpacing, lc_FundFeeRate = fundFee,
       lc_FundOwner = fundOwner\<rparr>)))))))))"

lemma rmap_layout_u64:
  "(\<And>i. i \<in> set is \<Longrightarrow> base + 8 * i + 8 \<le> length data) \<Longrightarrow>
     rmap (\<lambda>i. layout_u64 data (base + 8 * i)) is
       = Inr (map (\<lambda>i. of_nat (le_at data (base + 8 * i) 8)) is)"
  by (induction "is") (simp_all add: layout_simps)

lemma DecodeCLMMPool_in_range:
  "length data = 1544 \<Longrightarrow> DecodeCLMMPool L owner data \<noteq> Inl Panic"
  using rmap_layout_u64 [of "[0..<16]" 904 data]
  by (auto simp: DecodeCLMMPool_def checkAccount_panic layout_simps rcheck_def)

lemma DecodeCLMMConfig_in_range:
  "length data = 117 \<Longrightarrow> DecodeCLMMConfig L owner data \<noteq> Inl Panic"
  by (auto simp: DecodeCLMMConfig_def checkAccount_panic layout_simps)

lemma DecodeCLMMPool_ok:
  assumes "DecodeCLMMPool L owner data = Inr p"
  shows "cl_TickSpacing p \<noteq> 0" "minTick \<le> cl_TickCurrent p" "cl_TickCurrent p \<le> maxTick"
    "length (cl_TickArrayBitmap p) = 16"
  using assms
  by (auto simp: DecodeCLMMPool_def rbind_eq_Inr rcheck_eq_Inr dest!: rmap_length)

section \<open>The swap instruction\<close>

record CLMMSwap =
  sl_Payer :: pubkey
  sl_AmmConfig :: pubkey
  sl_Pool :: pubkey
  sl_InputTokenAccount :: pubkey
  sl_OutputTokenAccount :: pubkey
  sl_InputVault :: pubkey
  sl_OutputVault :: pubkey
  sl_Observation :: pubkey
  sl_InputVaultMint :: pubkey
  sl_OutputVaultMint :: pubkey
  sl_WithBitmapExtension :: bool
  sl_TickArrays :: "pubkey list"
  sl_Amount :: u64
  sl_OtherAmountThreshold :: u64

definition CLMMPool_Swap ::
  "CLMMPool \<Rightarrow> pubkey \<Rightarrow> pubkey \<Rightarrow> pubkey \<Rightarrow> pubkey \<Rightarrow> pubkey \<Rightarrow> bool \<Rightarrow> pubkey list \<Rightarrow> u64 \<Rightarrow> u64
    \<Rightarrow> rerr + CLMMSwap" where
  "CLMMPool_Swap p pool inputMint payer inputTokenAccount outputTokenAccount withBitmapExtension
     tickArrays amount minAmountOut =
     rbind (CLMMPool_ZeroForOne p inputMint) (\<lambda>zeroForOne.
     Inr \<lparr>sl_Payer = payer, sl_AmmConfig = cl_AmmConfig p, sl_Pool = pool,
       sl_InputTokenAccount = inputTokenAccount, sl_OutputTokenAccount = outputTokenAccount,
       sl_InputVault = (if zeroForOne then cl_Vault0 p else cl_Vault1 p),
       sl_OutputVault = (if zeroForOne then cl_Vault1 p else cl_Vault0 p),
       sl_Observation = cl_Observation p,
       sl_InputVaultMint = (if zeroForOne then cl_Mint0 p else cl_Mint1 p),
       sl_OutputVaultMint = (if zeroForOne then cl_Mint1 p else cl_Mint0 p),
       sl_WithBitmapExtension = withBitmapExtension, sl_TickArrays = tickArrays,
       sl_Amount = amount, sl_OtherAmountThreshold = minAmountOut\<rparr>)"

definition clmmSwapV2Data :: "byte list" where
  "clmmSwapV2Data = [0x2b, 0x04, 0xed, 0x0b, 0x1a, 0xc9, 0x1e, 0x62]"

definition CLMMSwap_Instruction :: "solana_lib \<Rightarrow> CLMMSwap \<Rightarrow> rerr + instruction" where
  "CLMMSwap_Instruction L s =
     rcheck (\<not> (length (sl_TickArrays s) = 0 \<or> MaxTickArrays < length (sl_TickArrays s)))
       ErrMalformedInstruction (
     rbind (if sl_WithBitmapExtension s
            then rbind (CLMMBitmapExtensionAddress L (sl_Pool s)) (\<lambda>e. Inr [writable e])
            else Inr []) (\<lambda>extension.
     Inr \<lparr>ins_program = CLMMProgram L,
       ins_accounts =
         [signer (sl_Payer s), readonly (sl_AmmConfig s), writable (sl_Pool s),
          writable (sl_InputTokenAccount s), writable (sl_OutputTokenAccount s),
          writable (sl_InputVault s), writable (sl_OutputVault s), writable (sl_Observation s),
          readonly (token_program_id L), readonly (token2022_program_id L),
          readonly (memo_program_id L),
          readonly (sl_InputVaultMint s), readonly (sl_OutputVaultMint s)]
         @ extension @ map writable (sl_TickArrays s),
       ins_data = append_u64 (append_u64 clmmSwapV2Data (sl_Amount s)) (sl_OtherAmountThreshold s)
         @ replicate 16 0 @ [1]\<rparr>))"

text \<open>The loop over the remaining accounts: no repeats, and not the extension.\<close>

fun clmm_rest_ok :: "pubkey \<Rightarrow> pubkey list \<Rightarrow> pubkey list \<Rightarrow> bool" where
  "clmm_rest_ok extension seen [] = True"
| "clmm_rest_ok extension seen (key # rest) =
     (if key \<in> set seen \<or> key = extension then False
      else clmm_rest_ok extension (key # seen) rest)"

definition DecodeCLMMSwap ::
  "solana_lib \<Rightarrow> pubkey \<Rightarrow> pubkey list \<Rightarrow> byte list \<Rightarrow> rerr + CLMMSwap" where
  "DecodeCLMMSwap L program accounts data =
     rcheck (program = CLMMProgram L) ErrMalformedInstruction (
     rcheck (\<not> (length data \<noteq> 41 \<or> take 8 data \<noteq> clmmSwapV2Data)) ErrMalformedInstruction (
     rcheck (\<forall>b\<in>set (take 16 (drop 24 data)). b = 0) ErrMalformedInstruction (
     rcheck (data ! 40 = 1) ErrMalformedInstruction (
     rcheck (\<not> length accounts < 13 + 1) ErrMalformedInstruction (
     rcheck (\<not> (accounts ! 8 \<noteq> token_program_id L \<or> accounts ! 9 \<noteq> token2022_program_id L
       \<or> accounts ! 10 \<noteq> memo_program_id L)) ErrMalformedInstruction (
     rbind (CLMMBitmapExtensionAddress L (accounts ! 2)) (\<lambda>extension.
     let rest = drop 13 accounts;
         withExtension = (rest ! 0 = extension);
         rest = (if withExtension then drop 1 rest else rest)
     in rcheck (\<not> (length rest = 0 \<or> MaxTickArrays < length rest)) ErrMalformedInstruction (
        rcheck (clmm_rest_ok extension [] rest) ErrMalformedInstruction (
        Inr \<lparr>sl_Payer = accounts ! 0, sl_AmmConfig = accounts ! 1, sl_Pool = accounts ! 2,
          sl_InputTokenAccount = accounts ! 3, sl_OutputTokenAccount = accounts ! 4,
          sl_InputVault = accounts ! 5, sl_OutputVault = accounts ! 6,
          sl_Observation = accounts ! 7, sl_InputVaultMint = accounts ! 11,
          sl_OutputVaultMint = accounts ! 12, sl_WithBitmapExtension = withExtension,
          sl_TickArrays = rest, sl_Amount = le_u64 (drop 8 data),
          sl_OtherAmountThreshold = le_u64 (drop 16 data)\<rparr>)))))))))"

lemma clmm_rest_ok_iff:
  "clmm_rest_ok e seen ks \<longleftrightarrow> distinct ks \<and> e \<notin> set ks \<and> set ks \<inter> set seen = {}"
  by (induction ks arbitrary: seen) auto

definition clmm_valid :: "solana_lib \<Rightarrow> CLMMSwap \<Rightarrow> bool" where
  "clmm_valid L s \<longleftrightarrow>
     sl_TickArrays s \<noteq> [] \<and> length (sl_TickArrays s) \<le> MaxTickArrays \<and> distinct (sl_TickArrays s) \<and>
     (\<exists>e. CLMMBitmapExtensionAddress L (sl_Pool s) = Inr e \<and> e \<notin> set (sl_TickArrays s))"

lemma read_two_u64_more:
  assumes "length pre = n"
  shows "le_u64 (drop n (append_u64 (append_u64 pre a) b @ rest)) = a"
    "le_u64 (drop (n + 8) (append_u64 (append_u64 pre a) b @ rest)) = b"
    "take n (append_u64 (append_u64 pre a) b @ rest) = pre"
    "drop (n + 16) (append_u64 (append_u64 pre a) b @ rest) = rest"
  using assms by (simp_all add: append_u64_def le_simps)

lemma CLMMSwap_encode_total:
  "clmm_valid L s \<Longrightarrow> \<exists>ins. CLMMSwap_Instruction L s = Inr ins"
  by (auto simp: clmm_valid_def CLMMSwap_Instruction_def rcheck_def)

lemma CLMMSwap_decode_encode:
  assumes valid: "clmm_valid L s" and enc: "CLMMSwap_Instruction L s = Inr ins"
  shows "DecodeCLMMSwap L (ins_program ins) (Instruction_Keys ins) (ins_data ins) = Inr s"
proof -
  obtain e where e: "CLMMBitmapExtensionAddress L (sl_Pool s) = Inr e" "e \<notin> set (sl_TickArrays s)"
    and ticks: "sl_TickArrays s \<noteq> []" "length (sl_TickArrays s) \<le> MaxTickArrays"
      "distinct (sl_TickArrays s)"
    using valid by (auto simp: clmm_valid_def)
  define ext where "ext = (if sl_WithBitmapExtension s then [e] else [])"
  define fixed where "fixed = [sl_Payer s, sl_AmmConfig s, sl_Pool s, sl_InputTokenAccount s,
    sl_OutputTokenAccount s, sl_InputVault s, sl_OutputVault s, sl_Observation s,
    token_program_id L, token2022_program_id L, memo_program_id L,
    sl_InputVaultMint s, sl_OutputVaultMint s]"
  have prog: "ins_program ins = CLMMProgram L"
    and keys: "Instruction_Keys ins = fixed @ ext @ sl_TickArrays s"
    and data: "ins_data ins = append_u64 (append_u64 clmmSwapV2Data (sl_Amount s))
        (sl_OtherAmountThreshold s) @ replicate 16 0 @ [1]"
    using enc e
    by (cases "sl_WithBitmapExtension s"; auto simp: CLMMSwap_Instruction_def Instruction_Keys_def
        rcheck_eq_Inr ext_def fixed_def comp_def)+
  have rest: "drop 13 (Instruction_Keys ins) = ext @ sl_TickArrays s"
    by (simp add: keys fixed_def)
  have first: "(ext @ sl_TickArrays s) ! 0 = e \<longleftrightarrow> sl_WithBitmapExtension s"
    using ticks e nth_mem [of 0 "sl_TickArrays s"] by (auto simp: ext_def)
  have body: "(if sl_WithBitmapExtension s then drop 1 (ext @ sl_TickArrays s)
      else ext @ sl_TickArrays s) = sl_TickArrays s"
    by (simp add: ext_def)
  have len: "length (ins_data ins) = 41"
    by (simp add: data append_u64_def clmmSwapV2Data_def)
  have nths: "Instruction_Keys ins ! i = fixed ! i" if "i < 13" for i
  proof -
    have "length fixed = 13" by (simp add: fixed_def)
    with that show ?thesis unfolding keys by (simp add: nth_append)
  qed
  note rd = read_two_u64_more [of clmmSwapV2Data 8 "sl_Amount s" "sl_OtherAmountThreshold s"
      "replicate 16 0 @ [1]", folded data]
  have d24: "drop 24 (ins_data ins) = replicate 16 0 @ [1]"
    using rd(4) by (simp add: clmmSwapV2Data_def)
  have d40: "ins_data ins ! 40 = 1"
  proof -
    have "ins_data ins ! 40 = drop 24 (ins_data ins) ! 16" using len by simp
    also have "\<dots> = 1" unfolding d24 by (simp add: nth_append)
    finally show ?thesis .
  qed
  have len13: "\<not> length (Instruction_Keys ins) < 13 + 1"
    using ticks by (cases "sl_TickArrays s") (auto simp: keys fixed_def)
  show ?thesis
    using len d40 d24 rd len13 ticks e
    by (simp add: DecodeCLMMSwap_def prog rcheck_def nths fixed_def clmmSwapV2Data_def Let_def
        rest first body clmm_rest_ok_iff)
qed

lemma CLMMSwap_encode_decode:
  assumes dec: "DecodeCLMMSwap L p ks d = Inr s"
  shows "clmm_valid L s \<and> (\<exists>ins. CLMMSwap_Instruction L s = Inr ins \<and> ins_program ins = p \<and>
    Instruction_Keys ins = ks \<and> ins_data ins = d)"
proof -
  have d: "length d = 41" "take 8 d = clmmSwapV2Data" "\<forall>b\<in>set (take 16 (drop 24 d)). b = 0" "d ! 40 = 1"
    and ks: "13 < length ks"
    using dec by (auto simp: DecodeCLMMSwap_def rcheck_eq_Inr)
  obtain e where e: "CLMMBitmapExtensionAddress L (ks ! 2) = Inr e"
    using dec by (auto simp: DecodeCLMMSwap_def rcheck_eq_Inr rbind_eq_Inr)
  define rest where "rest = (if drop 13 ks ! 0 = e then drop 1 (drop 13 ks) else drop 13 ks)"
  have r: "rest \<noteq> []" "length rest \<le> MaxTickArrays" "distinct rest" "e \<notin> set rest"
    using dec e by (auto simp: DecodeCLMMSwap_def rcheck_eq_Inr Let_def rest_def clmm_rest_ok_iff
        not_less split: if_splits)
  have s: "sl_Pool s = ks ! 2" "sl_TickArrays s = rest"
    "sl_WithBitmapExtension s = (drop 13 ks ! 0 = e)"
    "[sl_Payer s, sl_AmmConfig s, sl_Pool s, sl_InputTokenAccount s,
      sl_OutputTokenAccount s, sl_InputVault s, sl_OutputVault s, sl_Observation s,
      token_program_id L, token2022_program_id L, memo_program_id L,
      sl_InputVaultMint s, sl_OutputVaultMint s] = map (\<lambda>i. ks ! i) [0..<13]"
    "sl_Amount s = le_u64 (drop 8 d)" "sl_OtherAmountThreshold s = le_u64 (drop 16 d)"
    "p = CLMMProgram L"
    using dec e
    by (auto simp: DecodeCLMMSwap_def rcheck_eq_Inr Let_def rest_def upt_rec numeral_eq_Suc)
  have split: "ks = map (\<lambda>i. ks ! i) [0..<13] @ (if drop 13 ks ! 0 = e then [e] else []) @ rest"
  proof -
    have "take 13 ks = map (\<lambda>i. ks ! i) [0..<13]"
      using ks by (simp add: list_eq_iff_nth_eq)
    moreover have "drop 13 ks = (if drop 13 ks ! 0 = e then [e] else []) @ rest"
      using ks by (cases "drop 13 ks") (auto simp: rest_def)
    ultimately show ?thesis using append_take_drop_id [of 13 ks] by metis
  qed
  have tail: "drop 24 d = replicate 16 0 @ [1]"
  proof -
    have "length (take 16 (drop 24 d)) = 16" using d by simp
    with d(3) have "take 16 (drop 24 d) = replicate 16 0"
      by (metis replicate_eqI)
    moreover have "drop 16 (drop 24 d) = [1]"
      using d Cons_nth_drop_Suc [of 40 d] by simp
    ultimately show ?thesis using append_take_drop_id [of 16 "drop 24 d"] by metis
  qed
  have "length (take 24 d) = 8 + 16" "take 8 (take 24 d) = clmmSwapV2Data"
    using d by (simp_all add: min_def)
  from append_two_u64 [OF this]
  have "append_u64 (append_u64 clmmSwapV2Data (le_u64 (drop 8 (take 24 d))))
      (le_u64 (drop 16 (take 24 d))) = take 24 d" by simp
  moreover have "le_u64 (drop 8 (take 24 d)) = le_u64 (drop 8 d)"
    "le_u64 (drop 16 (take 24 d)) = le_u64 (drop 16 d)"
    using d by (simp_all add: le_u64_def drop_take min_def)
  ultimately have data: "append_u64 (append_u64 clmmSwapV2Data (le_u64 (drop 8 d)))
      (le_u64 (drop 16 d)) @ replicate 16 0 @ [1] = d"
    using append_take_drop_id [of 24 d] tail by simp
  have "clmm_valid L s" using e r s by (auto simp: clmm_valid_def)
  moreover obtain ins where ins: "CLMMSwap_Instruction L s = Inr ins"
    using CLMMSwap_encode_total [OF calculation] by auto
  moreover have "ins_program ins = p" "ins_data ins = d"
    using ins data s by (auto simp: CLMMSwap_Instruction_def rcheck_eq_Inr rbind_eq_Inr)
  moreover have "Instruction_Keys ins = ks"
    using ins e s(1,2,3) split [folded s(4)]
    by (auto simp: CLMMSwap_Instruction_def Instruction_Keys_def rcheck_eq_Inr comp_def
        split: if_splits)
  ultimately show ?thesis by blast
qed

interpretation clmm_codec: swap_codec
  "CLMMSwap_Instruction L" "DecodeCLMMSwap L" "clmm_valid L" for L
  by unfold_locales
    (auto simp: CLMMSwap_decode_encode CLMMSwap_encode_total dest: CLMMSwap_encode_decode)

section \<open>Properties\<close>

text \<open>The concentrated-liquidity codec is exact: an instruction decodes to a swap exactly when
  it is the encoding of that swap - program, every account key in order, the bitmap extension, the
  tick arrays, every byte of the data - and the swap is one the encoder accepts.\<close>

theorem CLMMSwap_codec_exact:
  "DecodeCLMMSwap L p ks d = Inr s \<longleftrightarrow>
     clmm_valid L s \<and> (\<exists>ins. CLMMSwap_Instruction L s = Inr ins \<and> ins_program ins = p \<and>
       Instruction_Keys ins = ks \<and> ins_data ins = d)"
  by (rule clmm_codec.decode_iff)

lemma DecodeCLMM_never_panics:
  "DecodeCLMMPool L owner data \<noteq> Inl Panic \<and> DecodeCLMMConfig L owner data \<noteq> Inl Panic"
  using DecodeCLMMPool_in_range [of data L owner] DecodeCLMMConfig_in_range [of data L owner]
  by (auto simp: DecodeCLMMPool_def DecodeCLMMConfig_def checkAccount_panic clmmPoolSize_def
      clmmConfigSize_def)

end
