(* ===== verification/SolanaSwapMessage.thy ===== *)
theory SolanaSwapMessage
  imports SolanaTransfer RaydiumClmm
begin

text \<open>
  Swap messages (internal/chain/solana/swap_message.go): lookup tables, the decoder of legacy and v0
  messages with their loaded accounts, the builder's choice of version, and the comparison of a message
  with the planned instructions and the planned Raydium swaps.

  As for transfers, a decoding that fails is \<open>None\<close>. The tables are a map from a table to its addresses.
\<close>

section \<open>The library of swaps\<close>

text \<open>\<open>xc_buildTables\<close> is solana-go's builder with address tables; \<open>xc_cpmmAuthority\<close> a derived address of the package.\<close>

record swap_ctx = sol_ctx +
  xc_buildTables :: "instruction list \<Rightarrow> byte list \<Rightarrow> pubkey \<Rightarrow> (pubkey \<rightharpoonup> pubkey list) \<Rightarrow> byte list option"
  xc_WrappedSol :: pubkey
  xc_cpmmAuthority :: pubkey

abbreviation raydium_lib :: "('a) solana_lib_scheme \<Rightarrow> solana_lib" where
  "raydium_lib \<equiv> solana_lib.truncate"

definition maxTransactionSize :: nat where "maxTransactionSize = 1232"
definition signedOverhead :: nat where "signedOverhead = 1 + 64"
definition lookupTableMetaSize :: nat where "lookupTableMetaSize = 56"
definition lookupTableActive :: u64 where "lookupTableActive = - 1"

section \<open>Lookup tables\<close>

definition decodeLookupTable :: "('a) sol_lib_scheme \<Rightarrow> pubkey \<Rightarrow> byte list \<Rightarrow> string + pubkey list" where
  "decodeLookupTable L owner data =
     rcheck (owner = sl_LookupTableProgram L) ''the lookup table has another owner'' (
     rcheck (\<not> (length data < lookupTableMetaSize \<or> (length data - lookupTableMetaSize) mod 32 \<noteq> 0)) ''the lookup table is malformed'' (
     rcheck (get_le (take 4 data) = 1) ''the lookup table is not initialized'' (
     rcheck (le_u64 (drop 4 data) = lookupTableActive) ''the lookup table is deactivated'' (
     Inr (map (\<lambda>i. take 32 (drop (lookupTableMetaSize + 32 * i) data)) [0..<(length data - lookupTableMetaSize) div 32])))))"

section \<open>Building\<close>

definition buildMessage :: "('a) swap_ctx_scheme \<Rightarrow> pubkey \<Rightarrow> byte list \<Rightarrow> instruction list \<Rightarrow> (pubkey \<rightharpoonup> pubkey list) \<Rightarrow> sol_err + byte list \<times> bool" where
  "buildMessage C payer blockhash instructions tables =
     (case sc_build C instructions blockhash payer of None \<Rightarrow> Inl (NodeFailed ''build Solana transaction'') | Some legacy \<Rightarrow>
      if length legacy + signedOverhead \<le> maxTransactionSize \<or> dom tables = {} then Inr (legacy, False)
      else (case xc_buildTables C instructions blockhash payer tables of
              None \<Rightarrow> Inl (NodeFailed ''build Solana v0 transaction'') | Some v0 \<Rightarrow> Inr (v0, True)))"

section \<open>Decoding\<close>

record message_lookup =
  lk_table :: pubkey
  lk_writable :: "byte list"
  lk_readonly :: "byte list"

record swap_message =
  wm_versioned :: bool
  wm_signers :: nat
  wm_readonlySigned :: nat
  wm_readonlyUnsigned :: nat
  wm_static :: nat
  wm_keys :: "pubkey list"
  wm_writableLoaded :: nat
  wm_blockhash :: "byte list"
  wm_instructions :: "decoded_instruction list"
  wm_lookups :: "message_lookup list"

definition swap_isWritable :: "swap_message \<Rightarrow> nat \<Rightarrow> bool" where
  "swap_isWritable m index =
     (if index < wm_static m then
        (if index < wm_signers m then index < wm_signers m - wm_readonlySigned m
         else index < wm_static m - wm_readonlyUnsigned m)
      else index < wm_static m + wm_writableLoaded m)"

definition take_version :: "byte list \<Rightarrow> (bool \<times> byte list) option" where
  "take_version rest =
     (if rest \<noteq> [] \<and> hd rest AND 0x80 \<noteq> 0 then (if hd rest \<noteq> 0x80 then None else Some (True, tl rest)) else Some (False, rest))"

definition take_bytes :: "byte list \<Rightarrow> (byte list \<times> byte list) option" where
  "take_bytes rest = Option.bind (SolanaMessage.compact rest) (\<lambda>(n, rest). take_n n rest)"

definition take_lookup :: "byte list \<Rightarrow> (message_lookup \<times> byte list) option" where
  "take_lookup rest =
     Option.bind (take_n 32 rest) (\<lambda>(table, rest).
     Option.bind (take_bytes rest) (\<lambda>(wr, rest).
     Option.bind (take_bytes rest) (\<lambda>(ro, rest).
     Some (\<lparr>lk_table = table, lk_writable = wr, lk_readonly = ro\<rparr>, rest))))"

definition resolve :: "(pubkey \<rightharpoonup> pubkey list) \<Rightarrow> pubkey \<Rightarrow> byte list \<Rightarrow> pubkey list option" where
  "resolve tables table indexes =
     Option.bind (tables table) (\<lambda>content.
     if list_all (\<lambda>index. unat index < length content) indexes then Some (map (\<lambda>index. content ! unat index) indexes) else None)"

primrec resolve_all :: "(pubkey \<rightharpoonup> pubkey list) \<Rightarrow> (message_lookup \<Rightarrow> byte list) \<Rightarrow> message_lookup list \<Rightarrow> pubkey list option" where
  "resolve_all tables which [] = Some []"
| "resolve_all tables which (lookup # rest) =
     Option.bind (resolve tables (lk_table lookup) (which lookup)) (\<lambda>keys.
     Option.bind (resolve_all tables which rest) (\<lambda>more. Some (keys @ more)))"

definition decodeSwapMessage :: "byte list \<Rightarrow> (pubkey \<rightharpoonup> pubkey list) \<Rightarrow> swap_message option" where
  "decodeSwapMessage data tables =
     Option.bind (take_version data) (\<lambda>(versioned, rest).
     Option.bind (take_n 3 rest) (\<lambda>(header, rest).
     let signers = unat (header ! 0); readonlySigned = unat (header ! 1); readonlyUnsigned = unat (header ! 2) in
     Option.bind (SolanaMessage.compact rest) (\<lambda>(count, rest).
     Option.bind (times count (take_n 32) rest) (\<lambda>(keys, rest).
     if \<not> header_fits signers readonlySigned readonlyUnsigned (length keys) then None else
     Option.bind (take_n 32 rest) (\<lambda>(blockhash, rest).
     Option.bind (SolanaMessage.compact rest) (\<lambda>(instructions, rest).
     Option.bind (times instructions take_instruction rest) (\<lambda>(raws, rest).
     Option.bind (if versioned then Option.bind (SolanaMessage.compact rest) (\<lambda>(n, rest). times n take_lookup rest) else Some ([], rest)) (\<lambda>(lookups, rest).
     if rest \<noteq> [] then None else
     Option.bind (resolve_all tables lk_writable lookups) (\<lambda>wr.
     Option.bind (resolve_all tables lk_readonly lookups) (\<lambda>ro.
     if \<not> list_all (instruction_fits (length keys) (length (keys @ wr @ ro))) raws then None else
     Some \<lparr>wm_versioned = versioned, wm_signers = signers, wm_readonlySigned = readonlySigned, wm_readonlyUnsigned = readonlyUnsigned,
       wm_static = length keys, wm_keys = keys @ wr @ ro, wm_writableLoaded = length wr, wm_blockhash = blockhash,
       wm_instructions = raws, wm_lookups = lookups\<rparr>))))))))))"

section \<open>Comparing\<close>

text \<open>A typed swap, as the strict decoders of the Raydium package give it.\<close>

datatype raydium_swap = SwapAMMV4 AMMV4Swap | SwapCPMM CPMMSwap | SwapCLMM CLMMSwap

definition decode_swap :: "('a) swap_ctx_scheme \<Rightarrow> kind \<Rightarrow> pubkey \<Rightarrow> pubkey list \<Rightarrow> byte list \<Rightarrow> rerr + raydium_swap" where
  "decode_swap C kind program keys data =
     (case kind of
        KindAMMV4 \<Rightarrow> rbind (DecodeAMMV4Swap (raydium_lib C) program keys data) (\<lambda>s. Inr (SwapAMMV4 s))
      | KindCPMM \<Rightarrow> rbind (DecodeCPMMSwap (raydium_lib C) (xc_cpmmAuthority C) program keys data) (\<lambda>s. Inr (SwapCPMM s))
      | _ \<Rightarrow> rbind (DecodeCLMMSwap (raydium_lib C) program keys data) (\<lambda>s. Inr (SwapCLMM s)))"

datatype swap_mismatch = SwapMismatch string

definition sameSwap :: "('a) swap_ctx_scheme \<Rightarrow> kind \<Rightarrow> pubkey \<Rightarrow> pubkey list \<Rightarrow> byte list \<Rightarrow> raydium_swap \<Rightarrow> swap_mismatch + unit" where
  "sameSwap C kind program keys data want =
     (case decode_swap C kind program keys data of
        Inl e \<Rightarrow> Inl (SwapMismatch ''the swap cannot be decoded'')
      | Inr got \<Rightarrow> rcheck (got = want) (SwapMismatch ''the swap differs from the planned one'') (Inr ()))"

fun match_metas :: "pubkey list \<Rightarrow> pubkey \<Rightarrow> nat list \<Rightarrow> account_meta list \<Rightarrow> swap_mismatch + unit" where
  "match_metas keys payer (j # js) (meta # metas) =
     rcheck (keys ! j = meta_key meta) (SwapMismatch ''account is another'') (
     rcheck (\<not> (meta_signer meta \<and> meta_key meta \<noteq> payer)) (SwapMismatch ''instruction wants another to sign'') (
     match_metas keys payer js metas))"
| "match_metas keys payer js metas = Inr ()"

text \<open>The loop over the instructions: \<open>swaps\<close> are the planned swaps that have not been met yet.\<close>

fun match_swaps ::
  "('a) swap_ctx_scheme \<Rightarrow> pubkey list \<Rightarrow> pubkey \<Rightarrow> decoded_instruction list \<Rightarrow> instruction list \<Rightarrow> raydium_swap list \<Rightarrow> pubkey set \<Rightarrow> pubkey set
     \<Rightarrow> swap_mismatch + raydium_swap list \<times> pubkey set \<times> pubkey set" where
  "match_swaps C keys payer (got # gots) (ins # exps) swaps used wr =
     (let program = keys ! di_program got in
      rcheck (program = ins_program ins) (SwapMismatch ''instruction calls another program'') (
      rcheck (di_data got = ins_data ins) (SwapMismatch ''instruction carries other data'') (
      rcheck (length (di_accounts got) = length (ins_accounts ins)) (SwapMismatch ''instruction lists other accounts'') (
      rbind (match_metas keys payer (di_accounts got) (ins_accounts ins)) (\<lambda>_.
      rbind (if KindOf (raydium_lib C) program \<noteq> KindUnknown then
               (case swaps of [] \<Rightarrow> Inl (SwapMismatch ''a swap the plan does not have'')
                | s # left \<Rightarrow> rbind (sameSwap C (KindOf (raydium_lib C) program) program (map ((!) keys) (di_accounts got)) (di_data got) s) (\<lambda>_. Inr left))
             else Inr swaps) (\<lambda>swaps.
      match_swaps C keys payer gots exps swaps (insert program used \<union> meta_key ` set (ins_accounts ins))
        (wr \<union> meta_key ` {meta \<in> set (ins_accounts ins). meta_writable meta})))))))"
| "match_swaps C keys payer gots exps swaps used wr = Inr (swaps, used, wr)"

primrec check_swap_accounts :: "swap_message \<Rightarrow> pubkey set \<Rightarrow> pubkey set \<Rightarrow> nat list \<Rightarrow> swap_mismatch + unit" where
  "check_swap_accounts m used wr [] = Inr ()"
| "check_swap_accounts m used wr (index # rest) =
     rcheck (wm_keys m ! index \<in> used) (SwapMismatch ''account is not used by any instruction'') (
     rcheck (swap_isWritable m index = (wm_keys m ! index \<in> wr)) (SwapMismatch ''account has the wrong writable flag'')
       (check_swap_accounts m used wr rest))"

definition verifySwapMessage ::
  "('a) swap_ctx_scheme \<Rightarrow> byte list \<Rightarrow> pubkey \<Rightarrow> byte list \<Rightarrow> instruction list \<Rightarrow> raydium_swap list \<Rightarrow> (pubkey \<rightharpoonup> pubkey list) \<Rightarrow> swap_mismatch + unit" where
  "verifySwapMessage C message payer blockhash want swaps tables =
     (case decodeSwapMessage message tables of None \<Rightarrow> Inl (SwapMismatch ''the message cannot be decoded'') | Some m \<Rightarrow>
      rcheck (\<not> (wm_signers m \<noteq> 1 \<or> wm_readonlySigned m \<noteq> 0 \<or> wm_static m = 0 \<or> hd (wm_keys m) \<noteq> payer))
        (SwapMismatch ''the wallet must be the only signer and the fee payer'') (
      rcheck (wm_blockhash m = blockhash) (SwapMismatch ''the blockhash is not the one fetched'') (
      rcheck (distinct (wm_keys m)) (SwapMismatch ''account is listed twice'') (
      rcheck (length (wm_instructions m) = length want) (SwapMismatch ''number of instructions'') (
      rbind (match_swaps C (wm_keys m) payer (wm_instructions m) want swaps {payer} {payer}) (\<lambda>(left, used, wr).
      rcheck (left = []) (SwapMismatch ''number of swaps'') (
      check_swap_accounts m used wr [0..<length (wm_keys m)])))))))"

section \<open>What a swap message does\<close>

text \<open>The planned swaps are what the Raydium instructions among the expected ones decode to.\<close>

definition swaps_of :: "('a) swap_ctx_scheme \<Rightarrow> instruction list \<Rightarrow> rerr + raydium_swap list" where
  "swaps_of C want = rmap (\<lambda>ins. decode_swap C (KindOf (raydium_lib C) (ins_program ins)) (ins_program ins) (Instruction_Keys ins) (ins_data ins))
     (filter (\<lambda>ins. KindOf (raydium_lib C) (ins_program ins) \<noteq> KindUnknown) want)"

definition only_signer :: "pubkey \<Rightarrow> instruction list \<Rightarrow> bool" where
  "only_signer payer want \<longleftrightarrow> (\<forall>ins\<in>set want. \<forall>meta\<in>set (ins_accounts ins). meta_signer meta \<longrightarrow> meta_key meta = payer)"

definition swap_says :: "('a) swap_ctx_scheme \<Rightarrow> swap_message \<Rightarrow> pubkey \<Rightarrow> byte list \<Rightarrow> instruction list \<Rightarrow> raydium_swap list \<Rightarrow> bool" where
  "swap_says C m payer blockhash want swaps \<longleftrightarrow> wm_signers m = 1 \<and> 0 < wm_static m \<and> wm_blockhash m = blockhash \<and>
     speaks (wm_keys m) (swap_isWritable m) (wm_instructions m) payer want \<and> only_signer payer want \<and> swaps_of C want = Inr swaps"

lemma match_metas_iff:
  "length js = length metas \<Longrightarrow> match_metas keys payer js metas = Inr () \<longleftrightarrow>
     map ((!) keys) js = map meta_key metas \<and> (\<forall>meta\<in>set metas. meta_signer meta \<longrightarrow> meta_key meta = payer)"
  by (induction js metas rule: list_induct2) (auto simp: rcheck_eq_Inr)

lemma sameSwap_Inr: "sameSwap C kind program keys data s = Inr () \<longleftrightarrow> decode_swap C kind program keys data = Inr s"
  by (auto simp: sameSwap_def rcheck_eq_Inr split: sum.splits)

lemma match_swaps_iff:
  "length gots = length exps \<Longrightarrow> match_swaps C keys payer gots exps swaps used wr = Inr (left, uw) \<longleftrightarrow>
     list_all2 (matches keys) gots exps \<and> only_signer payer exps \<and> (\<exists>met. swaps = met @ left \<and> swaps_of C exps = Inr met) \<and>
     uw = (used \<union> (\<Union>ins\<in>set exps. insert (ins_program ins) (meta_key ` set (ins_accounts ins))),
       wr \<union> (\<Union>ins\<in>set exps. meta_key ` {meta \<in> set (ins_accounts ins). meta_writable meta}))"
proof (induction gots exps arbitrary: swaps used wr rule: list_induct2)
  case Nil
  then show ?case by (auto simp: only_signer_def swaps_of_def)
next
  case (Cons got gots ins exps)
  let ?kind = "KindOf (raydium_lib C) (ins_program ins)"
  have head: "keys ! di_program got = ins_program ins \<and> di_data got = ins_data ins \<and> length (di_accounts got) = length (ins_accounts ins) \<and>
      match_metas keys payer (di_accounts got) (ins_accounts ins) = Inr () \<longleftrightarrow>
      matches keys got ins \<and> (\<forall>meta\<in>set (ins_accounts ins). meta_signer meta \<longrightarrow> meta_key meta = payer)"
    unfolding matches_def using match_metas_iff [of "di_accounts got" "ins_accounts ins" keys payer] by (metis length_map)
  have keys: "matches keys got ins \<Longrightarrow> map ((!) keys) (di_accounts got) = Instruction_Keys ins \<and> di_data got = ins_data ins"
    by (simp add: matches_def Instruction_Keys_def)
  have signer: "only_signer payer (ins # exps) \<longleftrightarrow> (\<forall>meta\<in>set (ins_accounts ins). meta_signer meta \<longrightarrow> meta_key meta = payer) \<and> only_signer payer exps"
    by (simp add: only_signer_def)
  let ?u = "insert (ins_program ins) used \<union> meta_key ` set (ins_accounts ins)"
  let ?w = "wr \<union> meta_key ` {meta \<in> set (ins_accounts ins). meta_writable meta}"
  have unfold: "match_swaps C keys payer (got # gots) (ins # exps) swaps used wr = Inr (left, uw) \<longleftrightarrow>
      matches keys got ins \<and> (\<forall>meta\<in>set (ins_accounts ins). meta_signer meta \<longrightarrow> meta_key meta = payer) \<and>
      (if ?kind \<noteq> KindUnknown then (\<exists>s rest. swaps = s # rest \<and>
          decode_swap C ?kind (ins_program ins) (Instruction_Keys ins) (ins_data ins) = Inr s \<and>
          match_swaps C keys payer gots exps rest ?u ?w = Inr (left, uw))
       else match_swaps C keys payer gots exps swaps ?u ?w = Inr (left, uw))"
    unfolding match_swaps.simps Let_def rcheck_eq_Inr rbind_eq_Inr
    using head keys by (auto simp: sameSwap_Inr rbind_eq_Inr split: list.splits if_splits)
  show ?case
  proof (cases "?kind = KindUnknown")
    case True
    then have "swaps_of C (ins # exps) = swaps_of C exps" by (simp add: swaps_of_def)
    then show ?thesis using True Cons.IH unfolding unfold signer by auto
  next
    case False
    have "swaps_of C (ins # exps) = rbind (decode_swap C ?kind (ins_program ins) (Instruction_Keys ins) (ins_data ins))
        (\<lambda>s. rbind (swaps_of C exps) (\<lambda>more. Inr (s # more)))"
      using False by (simp add: swaps_of_def)
    then have sw: "(\<exists>met. swaps = met @ left \<and> swaps_of C (ins # exps) = Inr met) \<longleftrightarrow>
        (\<exists>s rest. swaps = s # rest \<and> decode_swap C ?kind (ins_program ins) (Instruction_Keys ins) (ins_data ins) = Inr s \<and>
          (\<exists>met. rest = met @ left \<and> swaps_of C exps = Inr met))"
      by (auto simp: rbind_eq_Inr)
    show ?thesis using False Cons.IH unfolding unfold signer sw by auto
  qed
qed

lemma check_swap_accounts_iff: "check_swap_accounts m used wr is = Inr () \<longleftrightarrow>
    (\<forall>index\<in>set is. wm_keys m ! index \<in> used) \<and> (\<forall>index\<in>set is. swap_isWritable m index = (wm_keys m ! index \<in> wr))"
  by (induction "is") (auto simp: rcheck_eq_Inr)

lemma instruction_fits_mono: "instruction_fits a b ins \<Longrightarrow> a \<le> b \<Longrightarrow> instruction_fits b b ins"
  by (auto simp: instruction_fits_def)

lemma decodeSwap_fits:
  assumes "decodeSwapMessage data tables = Some m"
  shows "gots_fit (wm_keys m) (wm_instructions m) \<and> wm_static m \<le> length (wm_keys m)"
proof -
  have "(\<forall>got\<in>set (wm_instructions m). instruction_fits (wm_static m) (length (wm_keys m)) got) \<and> wm_static m \<le> length (wm_keys m)"
    using assms by (auto simp: decodeSwapMessage_def bind_eq_Some_conv Let_def list_all_iff split: if_splits)
  then show ?thesis using instruction_fits_mono unfolding gots_fit_def by blast
qed

lemma verifySwapMessage_iff:
  "verifySwapMessage C message payer blockhash want swaps tables = Inr () \<longleftrightarrow>
     (\<exists>m. decodeSwapMessage message tables = Some m \<and> swap_says C m payer blockhash want swaps)"
proof (cases "decodeSwapMessage message tables")
  case (Some m)
  note fits = decodeSwap_fits [OF Some, THEN conjunct1] and static = decodeSwap_fits [OF Some, THEN conjunct2]
  let ?n = "length (wm_keys m)"
  let ?swaps = "only_signer payer want \<and> swaps_of C want = Inr swaps"
  let ?rest = "distinct (wm_keys m) \<and> list_all2 (matches (wm_keys m)) (wm_instructions m) want \<and>
    set (wm_keys m) \<subseteq> mentions payer want \<and> (\<forall>index<?n. swap_isWritable m index = needs_write payer want (wm_keys m ! index))"
  have loop: "match_swaps C (wm_keys m) payer (wm_instructions m) want swaps {payer} {payer} = Inr ([], used, wr) \<longleftrightarrow>
      list_all2 (matches (wm_keys m)) (wm_instructions m) want \<and> ?swaps \<and> used = mentions payer want \<and> wr = Collect (needs_write payer want)"
    if "length (wm_instructions m) = length want" for used wr
    using match_swaps_iff [OF that, of C "wm_keys m" payer swaps "{payer}" "{payer}" "[]"] collected_keys [of payer want] by auto
  have "verifySwapMessage C message payer blockhash want swaps tables = Inr () \<longleftrightarrow> wm_signers m = 1 \<and> wm_readonlySigned m = 0 \<and> 0 < wm_static m \<and>
      hd (wm_keys m) = payer \<and> wm_blockhash m = blockhash \<and> distinct (wm_keys m) \<and> length (wm_instructions m) = length want \<and>
      (\<exists>used wr. match_swaps C (wm_keys m) payer (wm_instructions m) want swaps {payer} {payer} = Inr ([], used, wr) \<and>
        (\<forall>index<?n. wm_keys m ! index \<in> used) \<and> (\<forall>index<?n. swap_isWritable m index = (wm_keys m ! index \<in> wr)))"
    by (auto simp: verifySwapMessage_def Some rbind_eq_Inr rcheck_eq_Inr check_swap_accounts_iff)
  also have "\<dots> \<longleftrightarrow> wm_signers m = 1 \<and> wm_readonlySigned m = 0 \<and> 0 < wm_static m \<and> hd (wm_keys m) = payer \<and> wm_blockhash m = blockhash \<and> ?swaps \<and> ?rest"
  proof (cases "length (wm_instructions m) = length want")
    case True
    then show ?thesis by (simp only: loop [OF True] mem_Collect_eq set_keys_subset) blast
  next
    case False
    then show ?thesis by (auto dest: list_all2_lengthD)
  qed
  also have "\<dots> \<longleftrightarrow> swap_says C m payer blockhash want swaps"
  proof -
    have ne: "wm_keys m \<noteq> []" if "0 < wm_static m" using that static by auto
    have "wm_readonlySigned m = 0" if "wm_signers m = 1" "0 < wm_static m" "hd (wm_keys m) = payer" ?rest
    proof -
      have "swap_isWritable m 0 = needs_write payer want (wm_keys m ! 0)" using that ne by simp
      then have "swap_isWritable m 0" using that(3) ne [OF that(2)] by (simp add: needs_write_def hd_conv_nth)
      then show ?thesis using that(1,2) by (simp add: swap_isWritable_def)
    qed
    then show ?thesis unfolding swap_says_def speaks_iff [OF fits] using ne by blast
  qed
  finally show ?thesis using Some by simp
qed (simp add: verifySwapMessage_def)

end
