(* ===== verification/RaydiumTicks.thy ===== *)
theory RaydiumTicks
  imports RaydiumAmmV4 RaydiumClmm
begin

text \<open>
  Tick arrays (internal/chain/solana/raydium/ticks.go): the tick array header and the bitmap
  extension accounts, and the walk over the initialized tick arrays of a pool. An \<open>int32\<close> is the
  integer it denotes, and \<open>s32\<close> is Go's conversion to it; the \<open>int64\<close> arithmetic of
  \<open>initialized\<close> stays below 2^63, because a width is below 2^22. An index or a shift count
  out of range is \<open>Panic\<close>.

  The lemmas: \<open>arrayStart\<close> is the floor to a multiple of the width, the bit that is read is the
  one \<open>array_bit\<close> names by array number, no read is out of range, and the walk is the filter of
  \<open>walk_path\<close> by that bit.
\<close>

section \<open>Accounts\<close>

definition ticksPerArray :: int where "ticksPerArray = 60"
definition arraysPerBitmap :: int where "arraysPerBitmap = 512"
definition extensionBitmaps :: nat where "extensionBitmaps = 14"
definition tickArraySize :: nat where "tickArraySize = 10240"
definition bitmapExtensionSize :: nat where "bitmapExtensionSize = 1832"

definition tickArrayDiscriminator :: "byte list" where
  "tickArrayDiscriminator = [0xc0, 0x9b, 0x55, 0xcd, 0x31, 0xf9, 0x81, 0x2a]"

definition bitmapExtensionDiscriminator :: "byte list" where
  "bitmapExtensionDiscriminator = [0x3c, 0x96, 0x24, 0xdb, 0x61, 0x80, 0x8b, 0x99]"

record CLMMTickArray =
  ta_Pool :: pubkey
  ta_StartTickIndex :: int
  ta_InitializedTickCount :: byte

definition DecodeCLMMTickArray ::
  "solana_lib \<Rightarrow> pubkey \<Rightarrow> byte list \<Rightarrow> rerr + CLMMTickArray" where
  "DecodeCLMMTickArray L owner data =
     rbind (checkAccount (CLMMProgram L) owner data tickArraySize (Some tickArrayDiscriminator)) (\<lambda>_.
     rbind (layout_key data 8) (\<lambda>pool.
     rbind (layout_i32 data 40) (\<lambda>start.
     rbind (layout_u8 data 10124) (\<lambda>count.
     Inr \<lparr>ta_Pool = pool, ta_StartTickIndex = start, ta_InitializedTickCount = count\<rparr>))))"

record CLMMBitmapExtension =
  be_Pool :: pubkey
  be_Positive :: "u64 list list"
  be_Negative :: "u64 list list"

definition DecodeCLMMBitmapExtension ::
  "solana_lib \<Rightarrow> pubkey \<Rightarrow> byte list \<Rightarrow> rerr + CLMMBitmapExtension" where
  "DecodeCLMMBitmapExtension L owner data =
     rbind (checkAccount (CLMMProgram L) owner data bitmapExtensionSize
       (Some bitmapExtensionDiscriminator)) (\<lambda>_.
     rbind (layout_key data 8) (\<lambda>pool.
     rbind (rmap (\<lambda>i. rmap (\<lambda>j. layout_u64 data (40 + 64 * i + 8 * j)) [0..<8])
       [0..<extensionBitmaps]) (\<lambda>positive.
     rbind (rmap (\<lambda>i. rmap (\<lambda>j. layout_u64 data (40 + 64 * extensionBitmaps + 64 * i + 8 * j)) [0..<8])
       [0..<extensionBitmaps]) (\<lambda>negative.
     Inr \<lparr>be_Pool = pool, be_Positive = positive, be_Negative = negative\<rparr>))))"

text \<open>The Go type fixes the shape of the arrays.\<close>

definition extension_shape :: "CLMMBitmapExtension \<Rightarrow> bool" where
  "extension_shape e \<longleftrightarrow> length (be_Positive e) = 14 \<and> length (be_Negative e) = 14 \<and>
     (\<forall>b\<in>set (be_Positive e) \<union> set (be_Negative e). length b = 8)"

lemma rmap_ok: "(\<And>x. x \<in> set xs \<Longrightarrow> f x = Inr (g x)) \<Longrightarrow> rmap f xs = Inr (map g xs)"
  by (induction xs) simp_all

lemma DecodeCLMMBitmapExtension_ok:
  assumes "DecodeCLMMBitmapExtension L owner data = Inr e"
  shows "extension_shape e"
proof -
  have len: "length data = 1832"
    using assms by (auto simp: DecodeCLMMBitmapExtension_def rbind_eq_Inr checkAccount_eq_Inr
        bitmapExtensionSize_def)
  have pos: "rmap (\<lambda>i. rmap (\<lambda>j. layout_u64 data (40 + 64 * i + 8 * j)) [0..<8]) [0..<14]
      = Inr (map (\<lambda>i. map (\<lambda>j. of_nat (le_at data (40 + 64 * i + 8 * j) 8)) [0..<8]) [0..<14])"
    by (intro rmap_ok rmap_layout_u64) (auto simp: len)
  have neg: "rmap (\<lambda>i. rmap (\<lambda>j. layout_u64 data (936 + 64 * i + 8 * j)) [0..<8]) [0..<14]
      = Inr (map (\<lambda>i. map (\<lambda>j. of_nat (le_at data (936 + 64 * i + 8 * j) 8)) [0..<8]) [0..<14])"
    by (intro rmap_ok rmap_layout_u64) (auto simp: len)
  have "be_Positive e = map (\<lambda>i. map (\<lambda>j. of_nat (le_at data (40 + 64 * i + 8 * j) 8)) [0..<8]) [0..<14]"
    "be_Negative e = map (\<lambda>i. map (\<lambda>j. of_nat (le_at data (936 + 64 * i + 8 * j) 8)) [0..<8]) [0..<14]"
    using assms pos neg
    by (auto simp: DecodeCLMMBitmapExtension_def rbind_eq_Inr extensionBitmaps_def)
  then show ?thesis by (simp only: extension_shape_def) auto
qed

lemma DecodeCLMMBitmapExtension_in_range:
  "length data = 1832 \<Longrightarrow> DecodeCLMMBitmapExtension L owner data \<noteq> Inl Panic"
  using rmap_ok [of "[0..<14]" "\<lambda>i. rmap (\<lambda>j. layout_u64 data (40 + 64 * i + 8 * j)) [0..<8]"
      "\<lambda>i. map (\<lambda>j. of_nat (le_at data (40 + 64 * i + 8 * j) 8)) [0..<8]", OF rmap_layout_u64]
    rmap_ok [of "[0..<14]" "\<lambda>i. rmap (\<lambda>j. layout_u64 data (936 + 64 * i + 8 * j)) [0..<8]"
      "\<lambda>i. map (\<lambda>j. of_nat (le_at data (936 + 64 * i + 8 * j) 8)) [0..<8]", OF rmap_layout_u64]
  by (simp add: DecodeCLMMBitmapExtension_def checkAccount_panic layout_simps
      extensionBitmaps_def)

lemma DecodeCLMMTickArray_in_range:
  "length data = 10240 \<Longrightarrow> DecodeCLMMTickArray L owner data \<noteq> Inl Panic"
  by (auto simp: DecodeCLMMTickArray_def checkAccount_panic layout_simps)

section \<open>The start of an array and its bit\<close>

definition s32 :: "int \<Rightarrow> int" where
  "s32 x = sint (word_of_int x :: u32)"

definition arrayStart :: "int \<Rightarrow> u16 \<Rightarrow> rerr + int" where
  "arrayStart tick spacing =
     (let width = s32 (s32 ticksPerArray * s32 (uint spacing)) in
      rcheck (width \<noteq> 0) Panic (
      let start = go_quo tick width;
          start = (if tick < 0 \<and> go_rem tick width \<noteq> 0 then start - 1 else start)
      in Inr (s32 (start * width))))"

text \<open>\<open>bitmap[bit/64]>>(bit%64)&1 == 1\<close>.\<close>

definition bitmap_bit :: "u64 list \<Rightarrow> int \<Rightarrow> rerr + bool" where
  "bitmap_bit bitmap bt =
     (let i = go_quo bt 64; b = go_rem bt 64 in
      rcheck (0 \<le> i \<and> nat i < length bitmap) Panic (
      rcheck (0 \<le> b) Panic (
      Inr (drop_bit (nat b) (bitmap ! nat i) AND 1 = 1))))"

definition array_index :: "'a list \<Rightarrow> int \<Rightarrow> rerr + 'a" where
  "array_index xs i = rcheck (0 \<le> i \<and> nat i < length xs) Panic (Inr (xs ! nat i))"

definition CLMMPool_initialized ::
  "CLMMPool \<Rightarrow> int \<Rightarrow> CLMMBitmapExtension option \<Rightarrow> rerr + bool" where
  "CLMMPool_initialized p s extension =
     (let width = ticksPerArray * uint (cl_TickSpacing p);
          boundary = width * arraysPerBitmap
      in if - boundary \<le> s \<and> s < boundary
         then bitmap_bit (cl_TickArrayBitmap p) (go_quo s width + arraysPerBitmap)
         else (case extension of
             None \<Rightarrow> Inl ErrNeedBitmapExtension
           | Some e \<Rightarrow>
               rcheck (boundary \<noteq> 0) Panic (
               if 0 < s
               then let k = go_quo s boundary - 1
                    in rbind (array_index (be_Positive e) k) (\<lambda>bitmap.
                       bitmap_bit bitmap (go_quo (s - (k + 1) * boundary) width))
               else let k = go_quo (- s) boundary - 1;
                        k = (if go_rem (- s) boundary = 0 then k - 1 else k)
                    in rbind (array_index (be_Negative e) k) (\<lambda>bitmap.
                       bitmap_bit bitmap (go_quo (s + (k + 2) * boundary) width)))))"

text \<open>The same bit by array number, the way the program's documentation numbers them: array
  \<open>j\<close> starts at tick \<open>j * width\<close>; each bitmap covers 512 arrays.\<close>

definition array_bit :: "CLMMPool \<Rightarrow> CLMMBitmapExtension \<Rightarrow> int \<Rightarrow> bool" where
  "array_bit p e j =
     (let block = j div 512; b = nat (j mod 512);
          words = (if block = -1 then take 8 (cl_TickArrayBitmap p)
                   else if block = 0 then drop 8 (cl_TickArrayBitmap p)
                   else if 0 < block then be_Positive e ! nat (block - 1)
                   else be_Negative e ! nat (- block - 2))
      in bit (words ! (b div 64)) (b mod 64))"

section \<open>The walk\<close>

text \<open>The \<open>for\<close> loop. The caller has rejected tick spacing 0; the repeated test makes the
  recursion well founded. \<open>start += step\<close> cannot leave the range of \<open>int32\<close>, because the
  loop condition bounds \<open>start\<close>: see \<open>tick_step_fits\<close>.\<close>

function tick_walk ::
  "CLMMPool \<Rightarrow> CLMMBitmapExtension option \<Rightarrow> bool \<Rightarrow> nat \<Rightarrow> int \<Rightarrow> int \<Rightarrow> int \<Rightarrow> int list
     \<Rightarrow> rerr + int list" where
  "tick_walk p extension zeroForOne n lowest highest start out =
     (let width = ticksPerArray * uint (cl_TickSpacing p);
          step = (if zeroForOne then - width else width)
      in if cl_TickSpacing p \<noteq> 0 \<and> length out < n \<and> lowest \<le> start \<and> start \<le> highest
         then rbind (CLMMPool_initialized p start extension) (\<lambda>ok.
              tick_walk p extension zeroForOne n lowest highest (start + step)
                (if ok then out @ [start] else out))
         else Inr out)"
  by pat_completeness auto
termination
proof (relation "measure (\<lambda>(p, ext, zfo, n, lowest, highest, start, out).
    nat (if zfo then start - lowest + 1 else highest - start + 1))", goal_cases)
  case 1 then show ?case by simp
next
  case (2 p ext zfo n lowest highest start out width step ok)
  then have "0 < width"
    by (simp add: ticksPerArray_def word_greater_zero_iff [symmetric] word_less_def)
  with 2 show ?case by auto
qed

declare tick_walk.simps [simp del]

definition CLMMPool_TickArrayStarts ::
  "CLMMPool \<Rightarrow> CLMMBitmapExtension option \<Rightarrow> bool \<Rightarrow> nat \<Rightarrow> rerr + int list" where
  "CLMMPool_TickArrayStarts p extension zeroForOne n =
     rcheck (cl_TickSpacing p \<noteq> 0) ErrMalformedAccount (
     rbind (arrayStart minTick (cl_TickSpacing p)) (\<lambda>lowest.
     rbind (arrayStart maxTick (cl_TickSpacing p)) (\<lambda>highest.
     rbind (arrayStart (cl_TickCurrent p) (cl_TickSpacing p)) (\<lambda>start.
     tick_walk p extension zeroForOne n lowest highest start []))))"

definition CLMMPool_TickArrays ::
  "solana_lib \<Rightarrow> CLMMPool \<Rightarrow> pubkey \<Rightarrow> CLMMBitmapExtension option \<Rightarrow> bool \<Rightarrow> nat
     \<Rightarrow> rerr + pubkey list" where
  "CLMMPool_TickArrays L p pool extension zeroForOne n =
     rbind (CLMMPool_TickArrayStarts p extension zeroForOne n) (\<lambda>starts.
     rmap (\<lambda>start. CLMMTickArrayAddress L pool start) starts)"

definition CLMMPool_CheckTickArrays ::
  "solana_lib \<Rightarrow> CLMMPool \<Rightarrow> pubkey \<Rightarrow> CLMMBitmapExtension option \<Rightarrow> bool \<Rightarrow> pubkey list
     \<Rightarrow> rerr + unit" where
  "CLMMPool_CheckTickArrays L p pool extension zeroForOne given =
     rcheck (\<not> (length given = 0 \<or> MaxTickArrays < length given)) ErrTickArrays (
     rcheck (case extension of None \<Rightarrow> True | Some e \<Rightarrow> be_Pool e = pool) ErrTickArrays (
     rbind (CLMMPool_TickArrays L p pool extension zeroForOne (length given)) (\<lambda>want.
     rcheck (want = given) ErrTickArrays (Inr ()))))"

section \<open>Lemmas\<close>

text \<open>What a decoded pool and extension provide.\<close>

definition pool_shape :: "CLMMPool \<Rightarrow> bool" where
  "pool_shape p \<longleftrightarrow> cl_TickSpacing p \<noteq> 0 \<and> minTick \<le> cl_TickCurrent p \<and> cl_TickCurrent p \<le> maxTick \<and>
     length (cl_TickArrayBitmap p) = 16"

lemma DecodeCLMMPool_shape: "DecodeCLMMPool L owner data = Inr p \<Longrightarrow> pool_shape p"
  using DecodeCLMMPool_ok [of L owner data p] by (simp add: pool_shape_def)

definition tick_width :: "CLMMPool \<Rightarrow> int" where
  "tick_width p = 60 * uint (cl_TickSpacing p)"

lemma u16_pos: "(sp :: u16) \<noteq> 0 \<Longrightarrow> 1 \<le> uint sp"
  by (simp add: word_greater_zero_iff [symmetric] word_less_def)

lemma u16_bound: "uint (sp :: u16) \<le> 65535"
  using uint_lt2p [of sp] by simp

lemma tick_width_bounds:
  "cl_TickSpacing p \<noteq> 0 \<Longrightarrow> 60 \<le> tick_width p" "tick_width p \<le> 3932100"
  using u16_pos [of "cl_TickSpacing p"] u16_bound [of "cl_TickSpacing p"]
  by (simp_all add: tick_width_def)

lemma s32_id: "- 2147483648 \<le> x \<Longrightarrow> x < 2147483648 \<Longrightarrow> s32 x = x"
  by (simp add: s32_def sint_sbintrunc' signed_take_bit_int_eq_self)

lemma floor_mult_bounds:
  "0 < (w::int) \<Longrightarrow> a div w * w \<le> a" "0 < w \<Longrightarrow> a - w < a div w * w"
  using minus_mod_eq_div_mult [of a w] pos_mod_bound [of w a] pos_mod_sign [of w a]
  by linarith+

lemma arrayStart_floor:
  assumes "sp \<noteq> 0" and t: "minTick \<le> t" "t \<le> maxTick"
  shows "arrayStart t sp = Inr (t div (60 * uint sp) * (60 * uint sp))"
proof -
  let ?w = "60 * uint sp"
  have w: "60 \<le> ?w" "?w \<le> 3932100" using u16_pos [OF assms(1)] u16_bound [of sp] by simp_all
  have t: "- 443636 \<le> t" "t \<le> 443636" using t by (simp_all add: minTick_def maxTick_def)
  have "s32 (s32 ticksPerArray * s32 (uint sp)) = ?w"
    using w by (simp add: s32_id ticksPerArray_def)
  moreover have "s32 (t div ?w * ?w) = t div ?w * ?w"
    by (rule s32_id)
      (use floor_mult_bounds [of ?w t] t w in \<open>linarith+\<close>)
  ultimately show ?thesis
    using w go_quo_floor [of ?w t] by (simp add: arrayStart_def Let_def rcheck_def)
qed

lemma bitmap_bit_in_range:
  assumes "0 \<le> b" "nat b div 64 < length ws"
  shows "bitmap_bit ws b = Inr (bit (ws ! (nat b div 64)) (nat b mod 64))"
proof -
  have "go_quo b 64 = int (nat b div 64)" "go_rem b 64 = int (nat b mod 64)"
    using assms(1) by (simp_all add: go_quo_nonneg go_rem_nonneg zdiv_int zmod_int)
  then show ?thesis
    using assms(2) by (simp add: bitmap_bit_def Let_def rcheck_def and_one_eq bit_iff_odd_drop_bit
        odd_iff_mod_2_eq_one)
qed

lemma go_quo_mult: "0 < w \<Longrightarrow> go_quo (j * w) w = j"
  by (cases "j < 0") (simp_all add: go_quo_neg go_quo_nonneg mult_neg_pos
      minus_mult_left del: mult_minus_left)

lemma array_index_in_range:
  "0 \<le> i \<Longrightarrow> nat i < length xs \<Longrightarrow> array_index xs i = Inr (xs ! nat i)"
  by (simp add: array_index_def rcheck_def)

lemma initialized_eq:
  assumes "w = tick_width p" "0 < w"
  shows "CLMMPool_initialized p s extension =
     (if - (w * 512) \<le> s \<and> s < w * 512
      then bitmap_bit (cl_TickArrayBitmap p) (go_quo s w + 512)
      else (case extension of
          None \<Rightarrow> Inl ErrNeedBitmapExtension
        | Some e \<Rightarrow>
            if 0 < s
            then let k = go_quo s (w * 512) - 1
                 in rbind (array_index (be_Positive e) k) (\<lambda>bitmap.
                    bitmap_bit bitmap (go_quo (s - (k + 1) * (w * 512)) w))
            else let k = go_quo (- s) (w * 512) - 1;
                     k = (if go_rem (- s) (w * 512) = 0 then k - 1 else k)
                 in rbind (array_index (be_Negative e) k) (\<lambda>bitmap.
                    bitmap_bit bitmap (go_quo (s + (k + 2) * (w * 512)) w))))"
proof -
  have "ticksPerArray * uint (cl_TickSpacing p) = w" "arraysPerBitmap = 512"
    using assms(1) by (simp_all add: tick_width_def ticksPerArray_def arraysPerBitmap_def)
  then show ?thesis
    unfolding CLMMPool_initialized_def Let_def using assms(2)
    by (simp add: rcheck_def cong: if_cong option.case_cong)
qed

lemma inner_range:
  assumes "0 < (w::int)"
  shows "(- (w * 512) \<le> j * w \<and> j * w < w * 512) = (- 512 \<le> j \<and> j < 512)"
proof -
  have "- (w * 512) = (- 512) * w" "w * 512 = 512 * w" by simp_all
  then show ?thesis
    using assms by (simp only: mult_le_cancel_right mult_less_cancel_right) auto
qed

lemma initialized_inner:
  assumes "pool_shape p" "- 512 \<le> j" "j < 512"
  shows "CLMMPool_initialized p (j * tick_width p) ext = Inr (array_bit p e j)"
proof -
  define w where "w = tick_width p"
  have w: "0 < w" and len: "length (cl_TickArrayBitmap p) = 16"
    using assms tick_width_bounds [of p] by (auto simp: pool_shape_def w_def)
  have "nat (j + 512) div 64 < 16" using assms by linarith
  then have init: "CLMMPool_initialized p (j * w) ext =
      Inr (bit (cl_TickArrayBitmap p ! (nat (j + 512) div 64)) (nat (j + 512) mod 64))"
    unfolding initialized_eq [OF w_def w] inner_range [OF w] go_quo_mult [OF w]
      if_P [OF conjI [OF assms(2,3)]]
    by (intro bitmap_bit_in_range) (use assms(2) len in simp_all)
  show ?thesis
  proof (cases "j < 0")
    case True
    have "j div 512 = -1" using True assms(2) by (simp add: div_eq_minus1)
    moreover from this have "nat (j mod 512) = nat (j + 512)"
      using div_mult_mod_eq [of j 512] by simp
    moreover have "nat (j + 512) div 64 < 8" using True by linarith
    moreover have "array_bit p e j = bit (take 8 (cl_TickArrayBitmap p) ! (nat (j mod 512) div 64))
        (nat (j mod 512) mod 64)"
      using calculation(1) by (simp only: array_bit_def Let_def if_True refl)
    ultimately show ?thesis using init by (simp only: nth_take w_def)
  next
    case False
    then have j: "j div 512 = 0" "j mod 512 = j" using assms by simp_all
    have eq: "nat (j + 512) = 512 + nat j" using False by simp
    have "(512 + nat j) div 64 = 8 + nat j div 64" "(512 + nat j) mod 64 = nat j mod 64"
      using div_mult_self3 [of 64 8 "nat j"] mod_mult_self3 [of 8 64 "nat j"] by simp_all
    then show ?thesis using init j len by (simp add: array_bit_def Let_def eq w_def)
  qed
qed

lemma initialized_outer:
  assumes "pool_shape p" "j < - 512 \<or> 512 \<le> j"
  shows "CLMMPool_initialized p (j * tick_width p) None = Inl ErrNeedBitmapExtension"
proof -
  define w where "w = tick_width p"
  have w: "0 < w" using assms tick_width_bounds [of p] by (auto simp: pool_shape_def w_def)
  show ?thesis
    unfolding w_def [symmetric] initialized_eq [OF w_def w] inner_range [OF w]
    using assms(2) by auto
qed

lemma initialized_positive:
  assumes "pool_shape p" "extension_shape e" "512 \<le> j" "j < 7680"
  shows "CLMMPool_initialized p (j * tick_width p) (Some e) = Inr (array_bit p e j)"
proof -
  define w where "w = tick_width p"
  have w: "0 < w" using assms tick_width_bounds [of p] by (auto simp: pool_shape_def w_def)
  define k where "k = nat (j div 512) - 1"
  define b where "b = nat (j mod 512)"
  have k: "j div 512 = int k + 1" "k < 14" and b: "j mod 512 = int b" "b < 512"
    using assms(3,4) by (simp_all add: k_def b_def)
  have quo: "go_quo (j * w) (w * 512) = int k + 1"
    using w assms(3) k by (simp add: go_quo_nonneg mult.commute [of j w])
  have "j * w - (int k + 1) * (w * 512) = int b * w"
  proof -
    have j: "j = (int k + 1) * 512 + int b" using div_mult_mod_eq [of j 512] unfolding k(1) b(1) by simp
    show ?thesis by (subst j) (simp add: algebra_simps)
  qed
  then have inner: "go_quo (j * w - (int k + 1) * (w * 512)) w = int b"
    using w by (simp add: go_quo_mult)
  have len: "k < length (be_Positive e)" "length (be_Positive e ! k) = 8"
    using assms(2) k by (auto simp: extension_shape_def)
  have out: "\<not> (- 512 \<le> j \<and> j < 512)" "0 < j * w" using assms(3) w by auto
  have "array_index (be_Positive e) (int k) = Inr (be_Positive e ! k)"
    using len by (simp add: array_index_in_range)
  moreover have "bitmap_bit (be_Positive e ! k) (int b)
      = Inr (bit (be_Positive e ! k ! (b div 64)) (b mod 64))"
    using bitmap_bit_in_range [of "int b" "be_Positive e ! k"] len b
    by (simp add: less_mult_imp_div_less)
  ultimately have "CLMMPool_initialized p (j * w) (Some e)
      = Inr (bit (be_Positive e ! k ! (b div 64)) (b mod 64))"
    unfolding initialized_eq [OF w_def w] inner_range [OF w] if_not_P [OF out(1)] option.case
      if_P [OF out(2)] Let_def quo
    using inner by (simp only: add_diff_cancel_right' rbind_simps)
  then show ?thesis
    using k b by (simp add: array_bit_def Let_def w_def)
qed

lemma initialized_negative:
  assumes "pool_shape p" "extension_shape e" "j < - 512" "- 7680 \<le> j"
  shows "CLMMPool_initialized p (j * tick_width p) (Some e) = Inr (array_bit p e j)"
proof -
  define w where "w = tick_width p"
  have w: "0 < w" using assms tick_width_bounds [of p] by (auto simp: pool_shape_def w_def)
  define k where "k = nat (- (j div 512) - 2)"
  define b where "b = nat (j mod 512)"
  have k: "j div 512 = - (int k) - 2" "k < 14" and b: "j mod 512 = int b" "b < 512"
    using assms(3,4) by (simp_all add: k_def b_def)
  have quo: "go_quo (- (j * w)) (w * 512) = (- j) div 512"
  proof -
    have "- (j * w) = w * (- j)" "0 \<le> - (j * w)" using w assms(3) mult_neg_pos [of j w] by simp_all
    then have "go_quo (- (j * w)) (w * 512) = (w * (- j)) div (w * 512)"
      using w by (simp only: go_quo_nonneg)
    then show ?thesis using w div_mult_mult1 [of w "- j" 512] by simp
  qed
  have rem: "go_rem (- (j * w)) (w * 512) = w * ((- j) mod 512)"
  proof -
    have "- (j * w) = w * (- j)" "0 \<le> - (j * w)" using w assms(3) mult_neg_pos [of j w] by simp_all
    then have "go_rem (- (j * w)) (w * 512) = (w * (- j)) mod (w * 512)"
      using w by (simp only: go_rem_nonneg)
    then show ?thesis by (simp only: mult_mod_right)
  qed
  have kk: "(if go_rem (- (j * w)) (w * 512) = 0 then (- j) div 512 - 1 - 1 else (- j) div 512 - 1)
      = int k"
  proof -
    have "w * ((- j) mod 512) = 0 \<longleftrightarrow> (- j) mod 512 = 0" using w by simp
    moreover have "(- j) div 512 = (if (- j) mod 512 = 0 then int k + 2 else int k + 1)"
    proof (cases "b = 0")
      case True
      then have j: "- j = (int k + 2) * 512" using div_mult_mod_eq [of j 512] unfolding k(1) b(1) by simp
      show ?thesis unfolding j by (simp only: nonzero_mult_div_cancel_right mod_mult_self2_is_0) simp
    next
      case False
      then have j: "- j = (512 - int b) + (int k + 1) * 512"
        using div_mult_mod_eq [of j 512] unfolding k(1) b(1) by simp
      have "(512 - int b) div 512 = 0" "(512 - int b) mod 512 = 512 - int b"
        using False b(2) div_pos_pos_trivial [of "512 - int b" 512]
          mod_pos_pos_trivial [of "512 - int b" 512] by linarith+
      then show ?thesis unfolding j div_mult_self1 [OF numeral_neq_zero] mod_mult_self1
        using b(2) by simp
    qed
    ultimately show ?thesis unfolding rem by simp
  qed
  have "j * w + (int k + 2) * (w * 512) = int b * w"
  proof -
    have j: "j = int b - (int k + 2) * 512" using div_mult_mod_eq [of j 512] unfolding k(1) b(1) by simp
    show ?thesis by (subst j) (simp add: algebra_simps)
  qed
  then have inner: "go_quo (j * w + (int k + 2) * (w * 512)) w = int b"
    using w by (simp add: go_quo_mult)
  have len: "k < length (be_Negative e)" "length (be_Negative e ! k) = 8"
    using assms(2) k by (auto simp: extension_shape_def)
  have out: "\<not> (- 512 \<le> j \<and> j < 512)" "\<not> 0 < j * w"
    using assms(3) w mult_neg_pos [of j w] by auto
  have "array_index (be_Negative e) (int k) = Inr (be_Negative e ! k)"
    using len by (simp add: array_index_in_range)
  moreover have "bitmap_bit (be_Negative e ! k) (int b)
      = Inr (bit (be_Negative e ! k ! (b div 64)) (b mod 64))"
    using bitmap_bit_in_range [of "int b" "be_Negative e ! k"] len b
    by (simp add: less_mult_imp_div_less)
  ultimately have "CLMMPool_initialized p (j * w) (Some e)
      = Inr (bit (be_Negative e ! k ! (b div 64)) (b mod 64))"
    unfolding initialized_eq [OF w_def w] inner_range [OF w] if_not_P [OF out(1)] option.case
      if_not_P [OF out(2)] Let_def quo kk
    using inner by (simp only: rbind_simps)
  then show ?thesis
    using k b by (simp add: array_bit_def Let_def w_def)
qed

lemma initialized_bit:
  "pool_shape p \<Longrightarrow> extension_shape e \<Longrightarrow> - 7680 \<le> j \<Longrightarrow> j < 7680 \<Longrightarrow>
     CLMMPool_initialized p (j * tick_width p) (Some e) = Inr (array_bit p e j)"
  using initialized_inner initialized_positive initialized_negative by (metis not_le)


section \<open>The walk is a filter\<close>

text \<open>The array numbers from \<open>j\<close> in the direction of the swap.\<close>

definition array_path :: "bool \<Rightarrow> int \<Rightarrow> int \<Rightarrow> int \<Rightarrow> int list" where
  "array_path zeroForOne lo hi j = (if zeroForOne then rev [lo..j] else [j..hi])"

definition walk_path :: "CLMMPool \<Rightarrow> bool \<Rightarrow> int list" where
  "walk_path p zeroForOne =
     array_path zeroForOne (minTick div tick_width p) (maxTick div tick_width p)
       (cl_TickCurrent p div tick_width p)"

lemma array_path_step:
  "lo \<le> j \<Longrightarrow> j \<le> hi \<Longrightarrow>
     array_path zfo lo hi j = j # array_path zfo lo hi (if zfo then j - 1 else j + 1)"
  by (simp add: array_path_def upto_rec2 [of lo j] upto_rec1 [of j hi])

lemma array_path_end:
  "\<not> (lo \<le> j \<and> j \<le> hi) \<Longrightarrow> lo - 1 \<le> j \<Longrightarrow> j \<le> hi + 1 \<Longrightarrow> (zfo \<Longrightarrow> j \<le> hi) \<Longrightarrow> (\<not> zfo \<Longrightarrow> lo \<le> j) \<Longrightarrow>
     array_path zfo lo hi j = []"
  by (auto simp: array_path_def)

lemma tick_step:
  assumes "w = tick_width p" "0 < w" "cl_TickSpacing p \<noteq> 0"
  shows "tick_walk p ext zfo n (lo * w) (hi * w) (j * w) out =
     (if length out < n \<and> lo \<le> j \<and> j \<le> hi
      then rbind (CLMMPool_initialized p (j * w) ext) (\<lambda>ok.
           tick_walk p ext zfo n (lo * w) (hi * w) ((if zfo then j - 1 else j + 1) * w)
             (if ok then out @ [j * w] else out))
      else Inr out)"
proof -
  have "ticksPerArray * uint (cl_TickSpacing p) = w"
    using assms(1) by (simp add: tick_width_def ticksPerArray_def)
  moreover have "j * w + (if zfo then - w else w) = (if zfo then j - 1 else j + 1) * w"
    by (simp add: algebra_simps)
  ultimately show ?thesis
    unfolding tick_walk.simps [of p ext zfo n "lo * w" "hi * w" "j * w" out] Let_def
    using assms(2,3) by (simp only: mult_le_cancel_right not_less_iff_gr_or_eq) auto
qed

lemma tick_walk_filter:
  assumes shape: "pool_shape p" "extension_shape e" and range: "- 7680 \<le> lo" "hi < 7680"
  shows "lo - 1 \<le> j \<Longrightarrow> j \<le> hi + 1 \<Longrightarrow> (zfo \<Longrightarrow> j \<le> hi) \<Longrightarrow> (\<not> zfo \<Longrightarrow> lo \<le> j) \<Longrightarrow>
    tick_walk p (Some e) zfo n (lo * tick_width p) (hi * tick_width p) (j * tick_width p) out
      = Inr (out @ map (\<lambda>i. i * tick_width p)
          (take (n - length out) (filter (array_bit p e) (array_path zfo lo hi j))))"
proof (induction "nat (if zfo then j - lo + 1 else hi - j + 1)" arbitrary: j out)
  case 0
  then have "\<not> (lo \<le> j \<and> j \<le> hi)" by (auto split: if_splits)
  moreover have "array_path zfo lo hi j = []"
    using array_path_end [OF calculation] 0 by auto
  ultimately show ?case
    using shape tick_width_bounds [of p] by (subst tick_step) (auto simp: pool_shape_def)
next
  case (Suc m)
  let ?w = "tick_width p" and ?j = "if zfo then j - 1 else j + 1"
  have w: "0 < ?w" "cl_TickSpacing p \<noteq> 0"
    using shape tick_width_bounds [of p] by (auto simp: pool_shape_def)
  have j: "lo \<le> j" "j \<le> hi" using Suc.hyps(2) Suc.prems by (auto split: if_splits)
  have bit: "CLMMPool_initialized p (j * ?w) (Some e) = Inr (array_bit p e j)"
    using initialized_bit [OF shape] j range by simp
  have IH: "tick_walk p (Some e) zfo n (lo * ?w) (hi * ?w) (?j * ?w) out' = Inr (out' @
      map (\<lambda>i. i * ?w) (take (n - length out') (filter (array_bit p e) (array_path zfo lo hi ?j))))" for out'
    using Suc.hyps(2) Suc.prems j by (intro Suc.hyps(1)) auto
  show ?case
  proof (cases "length out < n")
    case True
    then obtain k where "n - length out = Suc k" "n - Suc (length out) = k"
      by (metis Suc_diff_Suc)
    then show ?thesis
      using True j unfolding tick_step [OF refl w, where j = j] bit
      by (simp add: IH array_path_step [OF j])
  next
    case False
    then show ?thesis by (subst tick_step [OF refl w]) simp
  qed
qed

lemma tick_walk_without:
  assumes shape: "pool_shape p" "extension_shape e" and range: "- 7680 \<le> lo" "hi < 7680"
  shows "lo - 1 \<le> j \<Longrightarrow> j \<le> hi + 1 \<Longrightarrow> (zfo \<Longrightarrow> j \<le> hi) \<Longrightarrow> (\<not> zfo \<Longrightarrow> lo \<le> j) \<Longrightarrow>
    tick_walk p None zfo n (lo * tick_width p) (hi * tick_width p) (j * tick_width p) out
      \<in> {Inl ErrNeedBitmapExtension,
         tick_walk p (Some e) zfo n (lo * tick_width p) (hi * tick_width p) (j * tick_width p) out}"
proof (induction "nat (if zfo then j - lo + 1 else hi - j + 1)" arbitrary: j out)
  case 0
  then have "\<not> (lo \<le> j \<and> j \<le> hi)" by (auto split: if_splits)
  moreover have w: "0 < tick_width p" "cl_TickSpacing p \<noteq> 0"
    using shape tick_width_bounds [of p] by (auto simp: pool_shape_def)
  ultimately have "\<not> (length out < n \<and> lo \<le> j \<and> j \<le> hi)" by blast
  then show ?case unfolding tick_step [OF refl w, where j = j] by (simp only: if_False) simp
next
  case (Suc m)
  let ?w = "tick_width p" and ?j = "if zfo then j - 1 else j + 1"
  have w: "0 < ?w" "cl_TickSpacing p \<noteq> 0"
    using shape tick_width_bounds [of p] by (auto simp: pool_shape_def)
  have j: "lo \<le> j" "j \<le> hi" using Suc.hyps(2) Suc.prems by (auto split: if_splits)
  have bit: "CLMMPool_initialized p (j * ?w) (Some e) = Inr (array_bit p e j)"
    using initialized_bit [OF shape] j range by simp
  have none: "CLMMPool_initialized p (j * ?w) None \<in> {Inl ErrNeedBitmapExtension, Inr (array_bit p e j)}"
    using initialized_inner [OF shape(1), of j None e] initialized_outer [OF shape(1), of j]
    by (cases "- 512 \<le> j \<and> j < 512") auto
  have IH: "tick_walk p None zfo n (lo * ?w) (hi * ?w) (?j * ?w) out' \<in>
      {Inl ErrNeedBitmapExtension, tick_walk p (Some e) zfo n (lo * ?w) (hi * ?w) (?j * ?w) out'}" for out'
    using Suc.hyps(2) Suc.prems j by (intro Suc.hyps(1)) auto
  show ?case
    using none IH [of "if array_bit p e j then out @ [j * ?w] else out"]
    unfolding tick_step [OF refl w, where j = j] bit by auto
qed

lemma walk_range:
  assumes "pool_shape p"
  shows "- 7680 \<le> minTick div tick_width p" "maxTick div tick_width p < 7680"
    "minTick div tick_width p \<le> cl_TickCurrent p div tick_width p"
    "cl_TickCurrent p div tick_width p \<le> maxTick div tick_width p"
proof -
  have w: "60 \<le> tick_width p" and t: "minTick \<le> cl_TickCurrent p" "cl_TickCurrent p \<le> maxTick"
    using assms tick_width_bounds [of p] by (auto simp: pool_shape_def)
  from w t show "minTick div tick_width p \<le> cl_TickCurrent p div tick_width p"
    "cl_TickCurrent p div tick_width p \<le> maxTick div tick_width p"
    by (simp_all add: zdiv_mono1)
  show "maxTick div tick_width p < 7680"
    using w zdiv_mono2 [of 443636 60 "tick_width p"] by (simp add: maxTick_def)
  have "-7394 * tick_width p \<le> minTick" using w by (simp add: minTick_def)
  then have "-7394 \<le> minTick div tick_width p"
    using w zdiv_mono1 [of "-7394 * tick_width p" minTick "tick_width p"]
      nonzero_mult_div_cancel_right [of "tick_width p" "-7394"] by linarith
  then show "- 7680 \<le> minTick div tick_width p" by simp
qed

lemma TickArrayStarts_walk:
  assumes "pool_shape p"
  shows "CLMMPool_TickArrayStarts p ext zfo n =
    tick_walk p ext zfo n (minTick div tick_width p * tick_width p)
      (maxTick div tick_width p * tick_width p) (cl_TickCurrent p div tick_width p * tick_width p) []"
  using assms arrayStart_floor [of "cl_TickSpacing p"]
  by (simp add: CLMMPool_TickArrayStarts_def pool_shape_def tick_width_def minTick_def maxTick_def)

section \<open>Properties\<close>

text \<open>C36. The walk over tick arrays: with the pool's bitmap extension at hand, the starts that are
  returned are the starts of the first \<open>n\<close> initialized arrays met from the array of the current
  tick in the direction of the swap, between the arrays of MIN_TICK and MAX_TICK. In particular
  no bitmap word or bit outside the arrays is read.\<close>

theorem TickArrayStarts_correct:
  assumes "pool_shape p" "extension_shape e"
  shows "CLMMPool_TickArrayStarts p (Some e) zeroForOne n =
    Inr (map (\<lambda>j. j * tick_width p) (take n (filter (array_bit p e) (walk_path p zeroForOne))))"
  unfolding TickArrayStarts_walk [OF assms(1)] walk_path_def
  using walk_range [OF assms(1)]
  by (subst tick_walk_filter [OF assms]) auto

definition ticks_pool :: CLMMPool where
  "ticks_pool = \<lparr>cl_Bump = 255, cl_AmmConfig = [1], cl_Owner = [2], cl_Mint0 = [3], cl_Mint1 = [4],
     cl_Vault0 = [5], cl_Vault1 = [6], cl_Observation = [7], cl_Decimals0 = 9, cl_Decimals1 = 6,
     cl_TickSpacing = 60, cl_Liquidity = 1, cl_SqrtPriceX64 = 1, cl_TickCurrent = -18305,
     cl_Status = 0, cl_FeeOn = 0,
     cl_TickArrayBitmap = replicate 7 0 @ [0x8000000000000003, 1] @ replicate 7 0,
     cl_OpenTime = 0\<rparr>"

definition ticks_extension :: CLMMBitmapExtension where
  "ticks_extension = \<lparr>be_Pool = [9], be_Positive = replicate 14 (replicate 8 0),
     be_Negative = replicate 14 (replicate 8 0)\<rparr>"

theorem TickArrayStarts_correct_witness:
  "CLMMPool_TickArrayStarts ticks_pool (Some ticks_extension) False 10 = Inr [-3600, 0] \<and>
   CLMMPool_TickArrayStarts ticks_pool (Some ticks_extension) False 10 =
    Inr (map (\<lambda>j. j * tick_width ticks_pool)
      (take 10 (filter (array_bit ticks_pool ticks_extension) (walk_path ticks_pool False))))"
proof -
  have "pool_shape ticks_pool" "extension_shape ticks_extension"
    by (simp_all add: pool_shape_def ticks_pool_def extension_shape_def ticks_extension_def
        minTick_def maxTick_def)
  note ok = TickArrayStarts_correct [OF this, of False 10]
  have "map (\<lambda>j. j * tick_width ticks_pool)
      (take 10 (filter (array_bit ticks_pool ticks_extension) (walk_path ticks_pool False))) = [-3600, 0]"
    by code_simp
  with ok show ?thesis by simp
qed

text \<open>Without the extension the walk either asks for it or returns exactly what it returns
  with any extension of the pool: the answer never depends on bits that were not read.\<close>

theorem TickArrayStarts_without_extension:
  assumes "pool_shape p" "extension_shape e"
    "CLMMPool_TickArrayStarts p None zeroForOne n \<noteq> Inl ErrNeedBitmapExtension"
  shows "CLMMPool_TickArrayStarts p None zeroForOne n = CLMMPool_TickArrayStarts p (Some e) zeroForOne n"
  using assms(3) tick_walk_without [OF assms(1,2), of "minTick div tick_width p"
      "maxTick div tick_width p" "cl_TickCurrent p div tick_width p" zeroForOne n "[]"]
    walk_range [OF assms(1)]
  unfolding TickArrayStarts_walk [OF assms(1)] by auto

theorem TickArrayStarts_without_extension_witness:
  "CLMMPool_TickArrayStarts ticks_pool None False 2
     = CLMMPool_TickArrayStarts ticks_pool (Some ticks_extension) False 2"
proof -
  have "pool_shape ticks_pool" "extension_shape ticks_extension"
    by (simp_all add: pool_shape_def ticks_pool_def extension_shape_def ticks_extension_def
        minTick_def maxTick_def)
  moreover have "CLMMPool_TickArrayStarts ticks_pool None False 2 = Inr [-3600, 0]" by code_simp
  ultimately show ?thesis by (intro TickArrayStarts_without_extension) simp_all
qed

text \<open>Tick arrays chosen by someone else pass exactly when there are 1 to 10 of them, the
  extension belongs to the pool, and they are, in order, the addresses of the first initialized
  arrays of the walk.\<close>

theorem CheckTickArrays_exact:
  assumes "pool_shape p" "extension_shape e"
  shows "CLMMPool_CheckTickArrays L p pool (Some e) zeroForOne given = Inr () \<longleftrightarrow>
    1 \<le> length given \<and> length given \<le> 10 \<and> be_Pool e = pool \<and>
    list_all2 (\<lambda>j key. CLMMTickArrayAddress L pool (j * tick_width p) = Inr key)
      (take (length given) (filter (array_bit p e) (walk_path p zeroForOne))) given"
proof -
  have starts: "CLMMPool_TickArrayStarts p (Some e) zeroForOne n = Inr (map (\<lambda>j. j * tick_width p)
      (take n (filter (array_bit p e) (walk_path p zeroForOne))))" for n
    unfolding TickArrayStarts_walk [OF assms(1)] walk_path_def
    using walk_range [OF assms(1)] by (subst tick_walk_filter [OF assms]) auto
  have "1 \<le> length given \<longleftrightarrow> given \<noteq> []" by (cases given) auto
  then show ?thesis
    by (auto simp: CLMMPool_CheckTickArrays_def CLMMPool_TickArrays_def starts rcheck_eq_Inr
        rbind_eq_Inr rmap_eq_Inr list_all2_map1 MaxTickArrays_def)
qed

definition ticks_lib :: solana_lib where
  "ticks_lib = \<lparr>must_key = bytes_of, token_program_id = [1], token2022_program_id = [2],
     memo_program_id = [3], create_program_address = (\<lambda>_ _. None),
     find_program_address = (\<lambda>seeds _. Some (concat seeds))\<rparr>"

theorem CheckTickArrays_exact_witness:
  "CLMMPool_CheckTickArrays ticks_lib ticks_pool [9] (Some ticks_extension) False
     (map (\<lambda>s. bytes_of ''tick_array'' @ [9] @ be_u32 s) [-3600, 0]) = Inr ()"
proof -
  have "pool_shape ticks_pool" "extension_shape ticks_extension"
    by (simp_all add: pool_shape_def ticks_pool_def extension_shape_def ticks_extension_def
        minTick_def maxTick_def)
  moreover have "take 2 (filter (array_bit ticks_pool ticks_extension) (walk_path ticks_pool False))
      = [-1, 0]" "tick_width ticks_pool = 3600"
    by code_simp+
  ultimately show ?thesis
    by (subst CheckTickArrays_exact)
      (auto simp: ticks_extension_def CLMMTickArrayAddress_def pda_def ticks_lib_def numeral_2_eq_2)
qed

lemma DecodeCLMMTicks_never_panics:
  "DecodeCLMMTickArray L owner data \<noteq> Inl Panic \<and> DecodeCLMMBitmapExtension L owner data \<noteq> Inl Panic"
  using DecodeCLMMTickArray_in_range [of data L owner] DecodeCLMMBitmapExtension_in_range [of data L owner]
  by (auto simp: DecodeCLMMTickArray_def DecodeCLMMBitmapExtension_def checkAccount_panic
      tickArraySize_def bitmapExtensionSize_def)

text \<open>No account decoder of the package can panic: whatever the owner and whatever the bytes,
  the checks before the reads keep every read of the seven account layouts inside the data.\<close>

theorem account_decoders_never_panic:
  "DecodeAMMV4Pool L owner data \<noteq> Inl Panic \<and>
   DecodeCPMMPool L owner data \<noteq> Inl Panic \<and> DecodeCPMMConfig L owner data \<noteq> Inl Panic \<and>
   DecodeCLMMPool L owner data \<noteq> Inl Panic \<and> DecodeCLMMConfig L owner data \<noteq> Inl Panic \<and>
   DecodeCLMMTickArray L owner data \<noteq> Inl Panic \<and> DecodeCLMMBitmapExtension L owner data \<noteq> Inl Panic"
  using DecodeAMMV4Pool_never_panics DecodeCPMM_never_panics DecodeCLMM_never_panics
    DecodeCLMMTicks_never_panics by blast

end
