(* ===== verification/RaydiumQuote.thy ===== *)
theory RaydiumQuote
  imports Complex_Main RaydiumClmm GoText "HOL-Library.Multiset"
begin

text \<open>
  The Trade API client (internal/chain/solana/raydium/quote.go): the checks that turn an answer
  into a route (\<open>parseRoute\<close>, \<open>parseHop\<close>, \<open>parseKey\<close>, \<open>parseAmount\<close>), the slippage floor, the
  comparison of a quote with the pool's own curve, and the pacing of requests with its ban after
  a 429 as a step relation over the quoter's state, the clock and the requests in flight.

  Parameters: \<open>key_codec\<close>, solana-go's base58 reader and writer of keys; the JSON decoder of the
  answer; \<open>http.ParseTime\<close>. A JSON number that the code keeps as a \<open>float64\<close> is the rational it
  denotes. Times and durations are integers, in nanoseconds.
\<close>

section \<open>Keys and amounts\<close>

record key_codec =
  key_from_base58 :: "string \<Rightarrow> pubkey option"
  key_string :: "pubkey \<Rightarrow> string"

definition parseKey :: "key_codec \<Rightarrow> string \<Rightarrow> rerr + pubkey" where
  "parseKey K s =
     (case key_from_base58 K s of
        None \<Rightarrow> Inl (ErrOther ''base58'')
      | Some key \<Rightarrow> rcheck (key_string K key = s) (ErrOther ''non-canonical key'') (Inr key))"

definition parseAmount :: "string \<Rightarrow> rerr + u64" where
  "parseAmount s =
     (case ParseUint 64 s of
        None \<Rightarrow> Inl (ErrOther ''strconv'')
      | Some v \<Rightarrow> rcheck (FormatUint v = s) (ErrOther ''non-canonical amount'') (Inr (of_nat v)))"

lemma parseAmount_iff: "parseAmount s = Inr v \<longleftrightarrow> s = FormatUint (unat v)"
proof
  assume "parseAmount s = Inr v"
  then obtain n where "ParseUint 64 s = Some n" "FormatUint n = s" "v = of_nat n"
    by (auto simp: parseAmount_def rcheck_eq_Inr split: option.splits)
  moreover from this have "unat v = n"
    using ParseUint_bound [of 64 s n] by (simp add: unsigned_of_nat take_bit_nat_eq_self)
  ultimately show "s = FormatUint (unat v)" by simp
next
  assume "s = FormatUint (unat v)"
  moreover have "unat v < 2 ^ 64" using unat_u64_bound [of v] by simp
  ultimately show "parseAmount s = Inr v"
    by (simp add: parseAmount_def ParseUint_FormatUint)
qed

interpretation amount_text: canonical_text parseAmount "\<lambda>v. FormatUint (unat v)" "\<lambda>_. True"
  by unfold_locales (simp add: parseAmount_iff)

interpretation key_text: canonical_text "parseKey K" "key_string K"
    "\<lambda>key. key_from_base58 K (key_string K key) = Some key" for K
  by unfold_locales (auto simp: parseKey_def rcheck_eq_Inr split: option.splits)

section \<open>Slippage and deviation\<close>

definition bpsDenominator :: int where "bpsDenominator = 10000"

definition withSlippage :: "u64 \<Rightarrow> u16 \<Rightarrow> u64" where
  "withSlippage amount bps =
     word_of_int (go_quo (uint amount * (bpsDenominator - uint bps)) bpsDenominator)"

text \<open>\<open>bits.Mul64\<close>: the 128-bit product as its high and low words.\<close>

definition Mul64 :: "u64 \<Rightarrow> u64 \<Rightarrow> u64 \<times> u64" where
  "Mul64 x y = (word_of_int ((uint x * uint y) div 2 ^ 64), x * y)"

definition CheckQuotedOut :: "u64 \<Rightarrow> u64 \<Rightarrow> u64 \<Rightarrow> rerr + unit" where
  "CheckQuotedOut local_out quoted maxDeviationBps =
     (let diff = max local_out quoted - min local_out quoted;
          (dHi, dLo) = Mul64 diff 10000;
          (lHi, lLo) = Mul64 local_out maxDeviationBps
      in rcheck (\<not> (lHi < dHi \<or> dHi = lHi \<and> lLo < dLo)) ErrMalformedRoute (Inr ()))"

lemma withSlippage_value:
  assumes "uint bps \<le> 10000"
  shows "uint (withSlippage a bps) = uint a * (10000 - uint bps) div 10000"
proof -
  let ?q = "uint a * (10000 - uint bps) div 10000"
  have "uint a * (10000 - uint bps) \<le> uint a * 10000"
    using assms uint_ge_0 [of a] uint_ge_0 [of bps] by (intro mult_left_mono) auto
  then have "?q \<le> uint a" using zdiv_mono1 [of _ "uint a * 10000" 10000] by simp
  moreover have "0 \<le> ?q" using assms uint_ge_0 [of a] by (simp add: pos_imp_zdiv_nonneg_iff)
  ultimately have "?q mod 2 ^ 64 = ?q" using uint_u64_bounds [of a] by simp
  then show ?thesis
    using assms uint_ge_0 [of a]
    by (simp add: withSlippage_def bpsDenominator_def go_quo_nonneg uint_word_of_int)
qed

lemma Mul64_value:
  "Mul64 x y = (hi, lo) \<Longrightarrow> uint hi * 2 ^ 64 + uint lo = uint x * uint y"
proof -
  assume m: "Mul64 x y = (hi, lo)"
  have b: "uint x < 2 ^ 64" "uint y < 2 ^ 64" "0 \<le> uint x" "0 \<le> uint y"
    using uint_lt2p [of x] uint_lt2p [of y] by simp_all
  then have "uint x * uint y < 2 ^ 64 * 2 ^ 64" by (intro mult_strict_mono) auto
  then have "(uint x * uint y) div 2 ^ 64 < 2 ^ 64" by (simp add: div_less_iff_less_mult)
  moreover have "0 \<le> (uint x * uint y) div 2 ^ 64" using b by (simp add: pos_imp_zdiv_nonneg_iff)
  ultimately have "uint hi = (uint x * uint y) div 2 ^ 64"
    using m by (auto simp: Mul64_def uint_word_of_int)
  moreover have "uint lo = (uint x * uint y) mod 2 ^ 64"
    using m by (auto simp: Mul64_def uint_word_ariths)
  ultimately show ?thesis by simp
qed

lemma word_pair_less:
  "uint (h::u64) * 2 ^ 64 + uint (l::u64) < uint h' * 2 ^ 64 + uint l' \<longleftrightarrow> h < h' \<or> h = h' \<and> l < l'"
proof -
  have b: "uint l < 2 ^ 64" "uint l' < 2 ^ 64" "0 \<le> uint l" "0 \<le> uint l'"
    using uint_lt2p [of l] uint_lt2p [of l'] by simp_all
  have pow64: "(2::int) ^ 64 = 18446744073709551616" by simp
  consider "uint h < uint h'" | "uint h' < uint h" | "uint h = uint h'" by linarith
  then show ?thesis
  proof cases
    case 1
    then have "uint h * 2 ^ 64 + uint l < uint h' * 2 ^ 64 + uint l'" using b unfolding pow64 by linarith
    with 1 show ?thesis by (auto simp: word_less_def)
  next
    case 2
    then have "uint h' * 2 ^ 64 + uint l' < uint h * 2 ^ 64 + uint l" using b unfolding pow64 by linarith
    with 2 show ?thesis by (auto simp: word_less_def)
  next
    case 3
    then show ?thesis by (simp add: word_less_def word_uint_eq_iff)
  qed
qed

lemma CheckQuotedOut_iff:
  "CheckQuotedOut l q m = Inr () \<longleftrightarrow> \<bar>uint l - uint q\<bar> * 10000 \<le> uint m * uint l"
proof -
  obtain dh dl where d: "Mul64 (max l q - min l q) 10000 = (dh, dl)" by (metis surj_pair)
  obtain lh ll where l: "Mul64 l m = (lh, ll)" by (metis surj_pair)
  have "uint (max l q - min l q) = uint (max l q) - uint (min l q)"
    using uint_sub_lem [of "min l q" "max l q"] by (auto simp: word_le_def [symmetric] max_def min_def)
  then have "uint (max l q - min l q) = \<bar>uint l - uint q\<bar>"
    by (auto simp: max_def min_def word_le_def)
  then have "uint dh * 2 ^ 64 + uint dl = \<bar>uint l - uint q\<bar> * 10000"
    using Mul64_value [OF d] by simp
  moreover have "uint lh * 2 ^ 64 + uint ll = uint l * uint m" using Mul64_value [OF l] .
  ultimately show ?thesis
    using word_pair_less [of lh ll dh dl] d l
    by (auto simp: CheckQuotedOut_def Let_def rcheck_def mult.commute)
qed

section \<open>Routes\<close>

record apiHop =
  ah_PoolID :: string
  ah_ProgramID :: string
  ah_InputMint :: string
  ah_OutputMint :: string
  ah_FeeMint :: string
  ah_FeeRate :: rat
  ah_FeeAmount :: string
  ah_RemainingAccounts :: "string list"

record apiQuote =
  aq_SwapType :: string
  aq_InputMint :: string
  aq_InputAmount :: string
  aq_OutputMint :: string
  aq_OutputAmount :: string
  aq_OtherAmountThreshold :: string
  aq_SlippageBps :: "int option"
  aq_PriceImpactPct :: rat
  aq_ReferrerAmount :: string
  aq_ActualInputAmount :: "string option"
  aq_RoutePlan :: "apiHop list"

record apiResponse =
  ar_ID :: string
  ar_Success :: bool
  ar_Msg :: string
  ar_Data :: "apiQuote option"

record Hop =
  hop_Pool :: pubkey
  hop_Program :: pubkey
  hop_InputMint :: pubkey
  hop_OutputMint :: pubkey
  hop_FeeMint :: pubkey
  hop_FeeAmount :: u64
  hop_FeeRateBps :: rat
  hop_RemainingAccounts :: "pubkey list"

record Route =
  rt_ID :: string
  rt_InputMint :: pubkey
  rt_OutputMint :: pubkey
  rt_AmountIn :: u64
  rt_AmountOut :: u64
  rt_MinAmountOut :: u64
  rt_SlippageBps :: u16
  rt_PriceImpactPct :: rat
  rt_Hops :: "Hop list"

definition MaxHops :: nat where "MaxHops = 2"

text \<open>A failing check of the form \<open>err != nil || cond\<close> with the error the caller reports.\<close>

definition parsed :: "rerr + 'a \<Rightarrow> ('a \<Rightarrow> bool) \<Rightarrow> rerr \<Rightarrow> rerr + 'a" where
  "parsed r ok err = (case r of Inl _ \<Rightarrow> Inl err | Inr v \<Rightarrow> rcheck (ok v) err (Inr v))"

lemma parsed_eq_Inr [res_simps]: "parsed r ok err = Inr v \<longleftrightarrow> r = Inr v \<and> ok v"
  by (cases r) (auto simp: parsed_def rcheck_eq_Inr)

fun remaining_loop :: "key_codec \<Rightarrow> pubkey list \<Rightarrow> string list \<Rightarrow> rerr + pubkey list" where
  "remaining_loop K seen [] = Inr []"
| "remaining_loop K seen (s # rest) =
     rbind (parsed (parseKey K s) (\<lambda>key. key \<notin> set seen) ErrMalformedRoute) (\<lambda>key.
     rbind (remaining_loop K (key # seen) rest) (\<lambda>keys. Inr (key # keys)))"

definition parseHop :: "solana_lib \<Rightarrow> key_codec \<Rightarrow> apiHop \<Rightarrow> rerr + Hop" where
  "parseHop L K raw =
     rbind (parsed (parseKey K (ah_PoolID raw)) (\<lambda>_. True) ErrMalformedRoute) (\<lambda>pool.
     rbind (if ah_ProgramID raw \<noteq> []
            then rbind (parsed (parseKey K (ah_ProgramID raw)) (\<lambda>_. True) ErrMalformedRoute) (\<lambda>program.
                 rcheck (KindOf L program \<noteq> KindUnknown) ErrUnsupportedRoute (Inr program))
            else Inr zero_key) (\<lambda>program.
     rbind (parsed (parseKey K (ah_InputMint raw)) (\<lambda>_. True) ErrMalformedRoute) (\<lambda>inputMint.
     rbind (parsed (parseKey K (ah_OutputMint raw)) (\<lambda>m. m \<noteq> inputMint) ErrMalformedRoute) (\<lambda>outputMint.
     rbind (if ah_FeeMint raw \<noteq> []
            then parsed (parseKey K (ah_FeeMint raw)) (\<lambda>m. m = inputMint \<or> m = outputMint) ErrMalformedRoute
            else Inr zero_key) (\<lambda>feeMint.
     rbind (if ah_FeeAmount raw \<noteq> []
            then parsed (parseAmount (ah_FeeAmount raw)) (\<lambda>_. True) ErrMalformedRoute
            else Inr 0) (\<lambda>feeAmount.
     rcheck (\<not> (ah_FeeRate raw < 0 \<or> of_int bpsDenominator \<le> ah_FeeRate raw)) ErrMalformedRoute (
     rcheck (\<not> MaxTickArrays < length (ah_RemainingAccounts raw)) ErrMalformedRoute (
     rcheck (\<not> (program \<noteq> zero_key \<and> program \<noteq> CLMMProgram L \<and> length (ah_RemainingAccounts raw) \<noteq> 0))
       ErrMalformedRoute (
     rbind (remaining_loop K [pool] (ah_RemainingAccounts raw)) (\<lambda>accounts.
     Inr \<lparr>hop_Pool = pool, hop_Program = program, hop_InputMint = inputMint,
       hop_OutputMint = outputMint, hop_FeeMint = feeMint, hop_FeeAmount = feeAmount,
       hop_FeeRateBps = ah_FeeRate raw, hop_RemainingAccounts = accounts\<rparr>))))))))))"

text \<open>The loop over the route plan: \<open>pools\<close> seen so far, the mint the next hop must sell. It
  returns the hops and the mint the route ends at.\<close>

fun hop_loop :: "solana_lib \<Rightarrow> key_codec \<Rightarrow> pubkey list \<Rightarrow> pubkey \<Rightarrow> apiHop list \<Rightarrow> rerr + (Hop list \<times> pubkey)" where
  "hop_loop L K pools from [] = Inr ([], from)"
| "hop_loop L K pools from (raw # rest) =
     rbind (parseHop L K raw) (\<lambda>hop.
     rcheck (hop_InputMint hop = from) ErrMalformedRoute (
     rcheck (hop_Pool hop \<notin> set pools) ErrMalformedRoute (
     rbind (hop_loop L K (hop_Pool hop # pools) (hop_OutputMint hop) rest) (\<lambda>(hops, end).
     Inr (hop # hops, end)))))"

definition parseRoute ::
  "solana_lib \<Rightarrow> key_codec \<Rightarrow> (byte list \<Rightarrow> apiResponse option) \<Rightarrow> byte list \<Rightarrow> pubkey \<Rightarrow> pubkey
     \<Rightarrow> u64 \<Rightarrow> u16 \<Rightarrow> rerr + Route" where
  "parseRoute L K unmarshal body inputMint outputMint amountIn slippageBps =
     (case unmarshal body of
        None \<Rightarrow> Inl ErrMalformedRoute
      | Some resp \<Rightarrow>
     rcheck (ar_Success resp) (if ar_Msg resp = ''ROUTE_NOT_FOUND'' then ErrNoRoute else ErrAPI) (
     case ar_Data resp of
        None \<Rightarrow> Inl ErrMalformedRoute
      | Some d \<Rightarrow>
     rcheck (aq_SwapType d = ''BaseIn'') ErrMalformedRoute (
     rbind (parsed (parseKey K (aq_InputMint d)) (\<lambda>m. m = inputMint) ErrMalformedRoute) (\<lambda>rInput.
     rbind (parsed (parseKey K (aq_OutputMint d)) (\<lambda>m. m = outputMint) ErrMalformedRoute) (\<lambda>rOutput.
     rbind (parsed (parseAmount (aq_InputAmount d)) (\<lambda>a. a = amountIn) ErrMalformedRoute) (\<lambda>rAmountIn.
     rcheck (case aq_ActualInputAmount d of None \<Rightarrow> True | Some a \<Rightarrow> a = aq_InputAmount d) ErrMalformedRoute (
     rcheck (\<not> (aq_ReferrerAmount d \<noteq> [] \<and> aq_ReferrerAmount d \<noteq> ''0'')) ErrMalformedRoute (
     rcheck (aq_SlippageBps d = Some (uint slippageBps)) ErrMalformedRoute (
     rbind (parsed (parseAmount (aq_OutputAmount d)) (\<lambda>a. a \<noteq> 0) ErrMalformedRoute) (\<lambda>rAmountOut.
     rbind (parsed (parseAmount (aq_OtherAmountThreshold d)) (\<lambda>a. a \<noteq> 0) ErrMalformedRoute) (\<lambda>rMin.
     rcheck (\<not> (rMin < withSlippage rAmountOut slippageBps \<or> rAmountOut < rMin)) ErrMalformedRoute (
     rcheck (length (aq_RoutePlan d) \<noteq> 0) ErrMalformedRoute (
     rcheck (\<not> MaxHops < length (aq_RoutePlan d)) ErrUnsupportedRoute (
     rbind (hop_loop L K [] inputMint (aq_RoutePlan d)) (\<lambda>(hops, from).
     rcheck (from = outputMint) ErrMalformedRoute (
     Inr \<lparr>rt_ID = ar_ID resp, rt_InputMint = rInput, rt_OutputMint = rOutput,
       rt_AmountIn = rAmountIn, rt_AmountOut = rAmountOut, rt_MinAmountOut = rMin,
       rt_SlippageBps = slippageBps, rt_PriceImpactPct = aq_PriceImpactPct d,
       rt_Hops = hops\<rparr>))))))))))))))))"

text \<open>What the checks give for a hop and for the list of hops.\<close>

definition hop_ok :: "solana_lib \<Rightarrow> Hop \<Rightarrow> bool" where
  "hop_ok L h \<longleftrightarrow> hop_InputMint h \<noteq> hop_OutputMint h \<and>
     (hop_Program h = zero_key \<or> KindOf L (hop_Program h) \<noteq> KindUnknown) \<and>
     distinct (hop_Pool h # hop_RemainingAccounts h) \<and>
     length (hop_RemainingAccounts h) \<le> 10 \<and>
     (hop_RemainingAccounts h \<noteq> [] \<longrightarrow> hop_Program h \<in> {zero_key, CLMMProgram L}) \<and>
     hop_FeeMint h \<in> {zero_key, hop_InputMint h, hop_OutputMint h} \<and>
     0 \<le> hop_FeeRateBps h \<and> hop_FeeRateBps h < 10000"

fun hops_connect :: "pubkey \<Rightarrow> Hop list \<Rightarrow> pubkey \<Rightarrow> bool" where
  "hops_connect a [] b \<longleftrightarrow> a = b"
| "hops_connect a (h # hs) b \<longleftrightarrow> hop_InputMint h = a \<and> hops_connect (hop_OutputMint h) hs b"

lemma remaining_loop_ok:
  "remaining_loop K seen raws = Inr keys \<Longrightarrow>
     distinct keys \<and> set keys \<inter> set seen = {} \<and> length keys = length raws"
proof (induction K seen raws arbitrary: keys rule: remaining_loop.induct)
  case (2 K seen s rest)
  then show ?case by (fastforce simp: rbind_eq_Inr parsed_eq_Inr)
qed simp

lemma parseHop_ok:
  assumes "parseHop L K raw = Inr h"
  shows "hop_ok L h"
proof -
  from assms obtain accounts where
    r: "remaining_loop K [hop_Pool h] (ah_RemainingAccounts raw) = Inr accounts"
      "hop_RemainingAccounts h = accounts"
    and o: "length (ah_RemainingAccounts raw) \<le> 10" "hop_InputMint h \<noteq> hop_OutputMint h"
      "hop_Program h = zero_key \<or> KindOf L (hop_Program h) \<noteq> KindUnknown"
      "ah_RemainingAccounts raw \<noteq> [] \<longrightarrow> hop_Program h \<in> {zero_key, CLMMProgram L}"
      "hop_FeeMint h \<in> {zero_key, hop_InputMint h, hop_OutputMint h}"
      "0 \<le> hop_FeeRateBps h \<and> hop_FeeRateBps h < 10000"
    unfolding parseHop_def rbind_eq_Inr rcheck_eq_Inr parsed_eq_Inr
    by (auto simp: rbind_eq_Inr rcheck_eq_Inr parsed_eq_Inr MaxTickArrays_def bpsDenominator_def
        not_less not_le split: if_splits)
  show ?thesis using remaining_loop_ok [OF r(1)] r(2) o by (auto simp: hop_ok_def)
qed

lemma hop_loop_ok:
  "hop_loop L K pools from raws = Inr (hops, to) \<Longrightarrow>
     hops_connect from hops to \<and> list_all (hop_ok L) hops \<and> length hops = length raws \<and>
     distinct (map hop_Pool hops) \<and> set (map hop_Pool hops) \<inter> set pools = {}"
proof (induction L K pools "from" raws arbitrary: hops rule: hop_loop.induct)
  case (2 L K pools "from" raw rest)
  then show ?case by (fastforce simp: rbind_eq_Inr rcheck_eq_Inr dest: parseHop_ok)
qed simp

lemma parseRoute_eq_Inr:
  assumes "parseRoute L K unmarshal body i out a bps = Inr r"
  obtains raws where "rt_InputMint r = i" "rt_OutputMint r = out" "rt_AmountIn r = a"
    "rt_SlippageBps r = bps" "withSlippage (rt_AmountOut r) bps \<le> rt_MinAmountOut r"
    "rt_MinAmountOut r \<le> rt_AmountOut r" "rt_MinAmountOut r \<noteq> 0" "raws \<noteq> []" "length raws \<le> 2"
    "hop_loop L K [] i raws = Inr (rt_Hops r, out)"
proof -
  from assms obtain resp d where u: "unmarshal body = Some resp" "ar_Data resp = Some d"
    by (auto simp: parseRoute_def rcheck_eq_Inr split: option.splits)
  from assms show ?thesis
    by (rule_tac raws = "aq_RoutePlan d" in that)
      (auto simp: parseRoute_def u rcheck_eq_Inr rbind_eq_Inr parsed_eq_Inr MaxHops_def not_less)
qed

lemma short_route_no_cycle:
  assumes "hops_connect i hops out" "list_all (hop_ok L) hops" "length hops \<le> 2" "i \<noteq> out"
  shows "distinct (i # map hop_OutputMint hops)"
proof -
  have "length hops = 0 \<or> length hops = 1 \<or> length hops = 2" using assms(3) by linarith
  then show ?thesis
    using assms by (auto simp: hop_ok_def length_Suc_conv numeral_2_eq_2)
qed

section \<open>Accepted routes and quotes\<close>

lemma parseRoute_sound:
  assumes "parseRoute L K unmarshal body inputMint outputMint amountIn bps = Inr r"
    and "inputMint \<noteq> outputMint" and "uint bps < 10000"
  shows "rt_InputMint r = inputMint \<and> rt_OutputMint r = outputMint \<and> rt_AmountIn r = amountIn \<and>
    0 < uint (rt_MinAmountOut r) \<and>
    uint (rt_AmountOut r) * (10000 - uint bps) div 10000 \<le> uint (rt_MinAmountOut r) \<and>
    uint (rt_MinAmountOut r) \<le> uint (rt_AmountOut r) \<and>
    length (rt_Hops r) \<in> {1, 2} \<and>
    hops_connect inputMint (rt_Hops r) outputMint \<and>
    distinct (inputMint # map hop_OutputMint (rt_Hops r)) \<and>
    distinct (map hop_Pool (rt_Hops r)) \<and>
    list_all (hop_ok L) (rt_Hops r)"
  using assms(1)
proof (rule parseRoute_eq_Inr)
  fix raws
  assume r: "rt_InputMint r = inputMint" "rt_OutputMint r = outputMint" "rt_AmountIn r = amountIn"
    "withSlippage (rt_AmountOut r) bps \<le> rt_MinAmountOut r" "rt_MinAmountOut r \<le> rt_AmountOut r"
    "rt_MinAmountOut r \<noteq> 0" and raws: "raws \<noteq> []" "length raws \<le> 2"
    and loop: "hop_loop L K [] inputMint raws = Inr (rt_Hops r, outputMint)"
  note h = hop_loop_ok [OF loop]
  have "length raws \<noteq> 0" using raws(1) by simp
  then have "length raws = 1 \<or> length raws = 2" using raws(2) by linarith
  moreover have "0 < uint (rt_MinAmountOut r)"
    using r(6) by (simp add: word_greater_zero_iff [symmetric] word_less_def)
  moreover have "distinct (inputMint # map hop_OutputMint (rt_Hops r))"
    using h raws assms(2) by (intro short_route_no_cycle) auto
  ultimately show ?thesis
    using r h withSlippage_value [of bps "rt_AmountOut r"] assms(3) by (auto simp: word_le_def)
qed

definition quote_lib :: solana_lib where
  "quote_lib = \<lparr>must_key = bytes_of, token_program_id = [1], token2022_program_id = [2],
     memo_program_id = [3], create_program_address = (\<lambda>_ _. None),
     find_program_address = (\<lambda>seeds _. Some (concat seeds))\<rparr>"

definition quote_keys :: key_codec where
  "quote_keys = \<lparr>key_from_base58 = (\<lambda>s. Some (bytes_of s)),
     key_string = map (\<lambda>b. char_of (unat b))\<rparr>"

definition sample_hop :: "string \<Rightarrow> string \<Rightarrow> string \<Rightarrow> apiHop" where
  "sample_hop pool a b = \<lparr>ah_PoolID = pool,
     ah_ProgramID = ''CAMMCzo5YL8w4VFF8KVHrK22GGUsp5VTaW7grrKgrWqK'', ah_InputMint = a,
     ah_OutputMint = b, ah_FeeMint = a, ah_FeeRate = 25, ah_FeeAmount = ''7'',
     ah_RemainingAccounts = [''T1'', ''T2'']\<rparr>"

definition sample_answer :: apiResponse where
  "sample_answer = \<lparr>ar_ID = ''q'', ar_Success = True, ar_Msg = [],
     ar_Data = Some \<lparr>aq_SwapType = ''BaseIn'', aq_InputMint = ''A'', aq_InputAmount = ''1000'',
       aq_OutputMint = ''C'', aq_OutputAmount = ''900'', aq_OtherAmountThreshold = ''896'',
       aq_SlippageBps = Some 50, aq_PriceImpactPct = 0, aq_ReferrerAmount = ''0'',
       aq_ActualInputAmount = None,
       aq_RoutePlan = [sample_hop ''P1'' ''A'' ''B'', sample_hop ''P2'' ''B'' ''C'']\<rparr>\<rparr>"

lemma parse_quote_key: "parseKey quote_keys s = Inr (bytes_of s)"
proof -
  have "map (\<lambda>b. char_of (unat b)) (bytes_of s) = s"
  proof (induction s)
    case (Cons c s)
    have "unat (of_char c :: byte) = (of_char c :: nat)"
      using of_nat_of_char [of c, where ?'a = byte, symmetric]
      by (simp add: unsigned_of_nat take_bit_nat_eq_self)
    with Cons show ?case by (simp add: bytes_of_def)
  qed (simp add: bytes_of_def)
  then show ?thesis by (simp add: parseKey_def quote_keys_def)
qed

lemma sample_amounts:
  "parseAmount ''1000'' = Inr 1000" "parseAmount ''900'' = Inr 900" "parseAmount ''896'' = Inr 896"
  "parseAmount ''7'' = Inr 7"
  by (simp_all add: parseAmount_iff FormatUint.simps digit_char_def char_of_def bit_Suc_0_iff)

lemma sample_parses:
  "is_ok (parseRoute quote_lib quote_keys (\<lambda>_. Some sample_answer) [] (bytes_of ''A'')
      (bytes_of ''C'') 1000 50)"
  by (simp add: parseRoute_def parseHop_def sample_hop_def sample_answer_def parse_quote_key
      sample_amounts parsed_def KindOf_def quote_lib_def AMMV4Program_def CPMMProgram_def
      CLMMProgram_def bytes_of_def zero_key_def bpsDenominator_def MaxTickArrays_def MaxHops_def
      withSlippage_def go_quo_def)

text \<open>A quote passes the comparison with the pool's own curve exactly when it differs from
  the local figure by at most the given share of it, over the integers: the 128-bit products
  lose nothing.\<close>

theorem CheckQuotedOut_exact:
  "CheckQuotedOut local_out quoted maxDeviationBps = Inr () \<longleftrightarrow>
     \<bar>uint local_out - uint quoted\<bar> * 10000 \<le> uint maxDeviationBps * uint local_out"
  by (rule CheckQuotedOut_iff)

text \<open>An amount is accepted in one spelling only, the decimal the formatter writes for it.\<close>

theorem parseAmount_canonical: "parseAmount s = Inr v \<longleftrightarrow> s = FormatUint (unat v)"
  using amount_text.parse_iff by simp

section \<open>Pacing\<close>

text \<open>The quoter's state under its lock: \<open>next\<close> and \<open>blockedUntil\<close>.\<close>

record Quoter =
  q_next :: int
  q_blockedUntil :: int

definition QuoteInterval :: int where "QuoteInterval = 500000000"
definition defaultRetryAfter :: int where "defaultRetryAfter = 60000000000"
definition maxRetryAfter :: int where "maxRetryAfter = 600000000000"

definition Quoter_blocked :: "Quoter \<Rightarrow> int \<Rightarrow> rerr + unit" where
  "Quoter_blocked q now =
     rcheck (\<not> now < q_blockedUntil q) (ErrRateLimited (q_blockedUntil q - now)) (Inr ())"

text \<open>The first critical section of \<open>wait\<close>: it books a slot and returns it.\<close>

definition Quoter_wait :: "Quoter \<Rightarrow> int \<Rightarrow> Quoter \<times> (rerr + int)" where
  "Quoter_wait q now =
     (case Quoter_blocked q now of
        Inl e \<Rightarrow> (q, Inl e)
      | Inr _ \<Rightarrow>
          let slot = (if q_next q < now then now else q_next q)
          in (q\<lparr>q_next := slot + QuoteInterval\<rparr>, Inr slot))"

text \<open>\<open>rateLimited\<close>: the header's seconds, else its date (\<open>parse_time\<close>, \<open>http.ParseTime\<close>),
  else a minute; at most ten minutes.\<close>

definition retry_after :: "(string \<Rightarrow> int option) \<Rightarrow> string \<Rightarrow> int \<Rightarrow> int" where
  "retry_after parse_time header now =
     min (case ParseUint 32 (TrimSpace header) of
            Some seconds \<Rightarrow> int seconds * 1000000000
          | None \<Rightarrow> (case parse_time header of
              Some date \<Rightarrow> max (date - now) 0
            | None \<Rightarrow> defaultRetryAfter))
       maxRetryAfter"

definition Quoter_rateLimited ::
  "(string \<Rightarrow> int option) \<Rightarrow> Quoter \<Rightarrow> string \<Rightarrow> int \<Rightarrow> Quoter \<times> rerr" where
  "Quoter_rateLimited parse_time q header now =
     (let w = retry_after parse_time header now
      in (q\<lparr>q_blockedUntil := now + w\<rparr>, ErrRateLimited w))"

text \<open>The callers: each has booked a slot and sleeps until it, then looks at the ban again. The
  times at which requests left are kept with their slots. Sleeping ends at the slot or later;
  a caller whose context ends leaves without sending.\<close>

record pacing =
  pc_quoter :: Quoter
  pc_clock :: int
  pc_waiting :: "int list"
  pc_sent :: "(int \<times> int) list"
  pc_slots :: "int list"

inductive pacing_step :: "(string \<Rightarrow> int option) \<Rightarrow> pacing \<Rightarrow> pacing \<Rightarrow> bool" for parse_time where
  tick: "pc_clock s \<le> t \<Longrightarrow> pacing_step parse_time s (s\<lparr>pc_clock := t\<rparr>)"
| refuse: "Quoter_wait (pc_quoter s) (pc_clock s) = (q, Inl e) \<Longrightarrow>
     pacing_step parse_time s (s\<lparr>pc_quoter := q\<rparr>)"
| book_now: "Quoter_wait (pc_quoter s) (pc_clock s) = (q, Inr slot) \<Longrightarrow> slot \<le> pc_clock s \<Longrightarrow>
     pacing_step parse_time s (s\<lparr>pc_quoter := q, pc_slots := slot # pc_slots s,
       pc_sent := (slot, pc_clock s) # pc_sent s\<rparr>)"
| book_later: "Quoter_wait (pc_quoter s) (pc_clock s) = (q, Inr slot) \<Longrightarrow> pc_clock s < slot \<Longrightarrow>
     pacing_step parse_time s (s\<lparr>pc_quoter := q, pc_slots := slot # pc_slots s,
       pc_waiting := slot # pc_waiting s\<rparr>)"
| cancel: "slot \<in> set (pc_waiting s) \<Longrightarrow>
     pacing_step parse_time s (s\<lparr>pc_waiting := remove1 slot (pc_waiting s)\<rparr>)"
| wake_refused: "slot \<in> set (pc_waiting s) \<Longrightarrow> slot \<le> pc_clock s \<Longrightarrow>
     Quoter_blocked (pc_quoter s) (pc_clock s) = Inl e \<Longrightarrow>
     pacing_step parse_time s (s\<lparr>pc_waiting := remove1 slot (pc_waiting s)\<rparr>)"
| wake: "slot \<in> set (pc_waiting s) \<Longrightarrow> slot \<le> pc_clock s \<Longrightarrow>
     Quoter_blocked (pc_quoter s) (pc_clock s) = Inr () \<Longrightarrow>
     pacing_step parse_time s (s\<lparr>pc_waiting := remove1 slot (pc_waiting s),
       pc_sent := (slot, pc_clock s) # pc_sent s\<rparr>)"
| too_many: "Quoter_rateLimited parse_time (pc_quoter s) header (pc_clock s) = (q, e) \<Longrightarrow>
     pacing_step parse_time s (s\<lparr>pc_quoter := q\<rparr>)"

inductive_cases pacing_stepE: "pacing_step parse_time s t"

text \<open>A new quoter holds two zero times: time 0 of the model, no later than any clock.\<close>

definition pacing_start :: "int \<Rightarrow> pacing" where
  "pacing_start t0 = \<lparr>pc_quoter = \<lparr>q_next = 0, q_blockedUntil = 0\<rparr>, pc_clock = t0,
     pc_waiting = [], pc_sent = [], pc_slots = []\<rparr>"

inductive pacing_reach :: "(string \<Rightarrow> int option) \<Rightarrow> int \<Rightarrow> pacing \<Rightarrow> bool" for parse_time t0 where
  start: "pacing_reach parse_time t0 (pacing_start t0)"
| step: "pacing_reach parse_time t0 s \<Longrightarrow> pacing_step parse_time s t \<Longrightarrow> pacing_reach parse_time t0 t"

text \<open>The invariant: booked slots are an interval apart, newest first, and the next slot is an
  interval after the newest; whoever sent or waits holds a booked slot of its own.\<close>

fun spaced :: "int list \<Rightarrow> bool" where
  "spaced [] \<longleftrightarrow> True"
| "spaced (x # xs) \<longleftrightarrow> (\<forall>y\<in>set xs. y + QuoteInterval \<le> x) \<and> spaced xs"

definition pacing_inv :: "int \<Rightarrow> pacing \<Rightarrow> bool" where
  "pacing_inv t0 s \<longleftrightarrow> t0 \<le> pc_clock s \<and> (\<forall>x\<in>set (pc_slots s). t0 \<le> x) \<and> spaced (pc_slots s) \<and>
     (\<forall>x\<in>set (pc_slots s). x + QuoteInterval \<le> q_next (pc_quoter s)) \<and>
     mset (pc_waiting s) + mset (map fst (pc_sent s)) \<subseteq># mset (pc_slots s) \<and>
     (\<forall>(slot, t)\<in>set (pc_sent s). slot \<le> t \<and> t \<le> pc_clock s)"

lemma Quoter_wait_slot:
  assumes "Quoter_wait q now = (q', Inr slot)"
  shows "q' = q\<lparr>q_next := slot + QuoteInterval\<rparr>" "q_next q \<le> slot" "now \<le> slot"
    "q_blockedUntil q \<le> now"
  using assms by (auto simp: Quoter_wait_def Quoter_blocked_def rcheck_def Let_def
      split: sum.splits if_splits)

lemma Quoter_wait_refused: "Quoter_wait q now = (q', Inl e) \<Longrightarrow> q' = q"
  by (auto simp: Quoter_wait_def Let_def split: sum.splits)

lemma pacing_inv_book:
  assumes "pacing_inv t0 s" "Quoter_wait (pc_quoter s) (pc_clock s) = (q, Inr slot)"
  shows "spaced (slot # pc_slots s)" "\<forall>x\<in>set (slot # pc_slots s). x + QuoteInterval \<le> q_next q"
    "\<forall>x\<in>set (slot # pc_slots s). t0 \<le> x"
  using assms(1) Quoter_wait_slot [OF assms(2)]
  by (fastforce simp: pacing_inv_def QuoteInterval_def)+

lemma waiting_moves:
  assumes "mset w + mset l \<subseteq># m" "x \<in> set w"
  shows "mset w - {#x#} + mset l \<subseteq># m" "mset w - {#x#} + add_mset x (mset l) \<subseteq># m"
proof -
  show "mset w - {#x#} + add_mset x (mset l) \<subseteq># m" using assms by simp
  have "mset w - {#x#} + mset l \<subseteq># mset w + mset l"
    by (intro subset_mset.add_right_mono diff_subset_eq_self)
  then show "mset w - {#x#} + mset l \<subseteq># m" using assms(1) by (rule subset_mset.order_trans)
qed

lemma pacing_inv_step: "pacing_step parse_time s t \<Longrightarrow> pacing_inv t0 s \<Longrightarrow> pacing_inv t0 t"
proof (induction rule: pacing_step.induct)
  case (tick s t')
  then show ?case by (fastforce simp: pacing_inv_def)
next
  case (refuse s q e)
  then show ?case using Quoter_wait_refused [OF refuse(1)] by simp
next
  case (book_now s q slot)
  then show ?case
    using pacing_inv_book [OF book_now(3,1)] Quoter_wait_slot [OF book_now(1)]
    by (auto simp: pacing_inv_def)
next
  case (book_later s q slot)
  then show ?case
    using pacing_inv_book [OF book_later(3,1)] by (auto simp: pacing_inv_def)
next
  case (cancel slot s)
  then show ?case
    using waiting_moves(1) [of "pc_waiting s" "map fst (pc_sent s)"] by (auto simp: pacing_inv_def)
next
  case (wake_refused slot s e)
  then show ?case
    using waiting_moves(1) [of "pc_waiting s" "map fst (pc_sent s)"] by (auto simp: pacing_inv_def)
next
  case (wake slot s)
  then show ?case
    using waiting_moves(2) [of "pc_waiting s" "map fst (pc_sent s)"] by (auto simp: pacing_inv_def)
next
  case (too_many s header q e)
  then show ?case by (auto simp: pacing_inv_def Quoter_rateLimited_def Let_def)
qed

lemma pacing_reach_inv: "pacing_reach parse_time t0 s \<Longrightarrow> pacing_inv t0 s"
  by (induction rule: pacing_reach.induct)
    (simp add: pacing_inv_def pacing_start_def, rule pacing_inv_step)

lemma spaced_filter: "spaced xs \<Longrightarrow> spaced (filter P xs)"
  by (induction xs) auto

lemma spaced_count:
  "spaced xs \<Longrightarrow> \<forall>x\<in>set xs. t0 \<le> x \<and> x \<le> c \<Longrightarrow> t0 \<le> c \<Longrightarrow>
     int (length xs) \<le> (c - t0) div QuoteInterval + 1"
proof (induction xs arbitrary: c)
  case Nil
  then show ?case by (simp add: QuoteInterval_def pos_imp_zdiv_nonneg_iff)
next
  case (Cons x xs)
  have mono: "(x - t0) div QuoteInterval \<le> (c - t0) div QuoteInterval"
    using Cons.prems by (intro zdiv_mono1) (auto simp: QuoteInterval_def)
  have nonneg: "0 \<le> (x - t0) div QuoteInterval"
    using Cons.prems by (simp add: QuoteInterval_def pos_imp_zdiv_nonneg_iff)
  show ?case
  proof (cases xs)
    case Nil
    then show ?thesis using mono nonneg by simp
  next
    case (Cons y ys)
    then have "t0 \<le> x - QuoteInterval" using Cons.prems by fastforce
    then have "int (length xs) \<le> (x - QuoteInterval - t0) div QuoteInterval + 1"
      using Cons.prems by (intro Cons.IH) fastforce+
    moreover have "(x - QuoteInterval - t0) div QuoteInterval = (x - t0) div QuoteInterval - 1"
      using div_add_self2 [of QuoteInterval "x - t0 - QuoteInterval"]
      by (simp add: QuoteInterval_def algebra_simps)
    ultimately show ?thesis using mono by simp
  qed
qed

lemma pacing_count:
  assumes "pacing_inv t0 s"
  shows "int (length (pc_sent s)) \<le> (pc_clock s - t0) div QuoteInterval + 1"
proof -
  let ?past = "filter (\<lambda>x. x \<le> pc_clock s) (pc_slots s)"
  have "mset (map fst (pc_sent s)) \<subseteq># mset (pc_slots s)"
    using assms mset_subset_eq_add_right [of "mset (map fst (pc_sent s))" "mset (pc_waiting s)"]
      subset_mset.order_trans unfolding pacing_inv_def by blast
  then have "filter_mset (\<lambda>x. x \<le> pc_clock s) (mset (map fst (pc_sent s))) \<subseteq># mset ?past"
    using multiset_filter_mono by fastforce
  moreover have "filter_mset (\<lambda>x. x \<le> pc_clock s) (mset (map fst (pc_sent s))) = mset (map fst (pc_sent s))"
    using assms by (fastforce simp: filter_mset_eq_conv pacing_inv_def)
  ultimately have "length (pc_sent s) \<le> length ?past"
    using size_mset_mono [of "mset (map fst (pc_sent s))" "mset ?past"]
    by (simp only: size_mset length_map)
  moreover have "int (length ?past) \<le> (pc_clock s - t0) div QuoteInterval + 1"
    using assms by (intro spaced_count) (auto simp: pacing_inv_def spaced_filter)
  ultimately show ?thesis by linarith
qed

lemma spaced_apart: "spaced xs \<Longrightarrow> x \<in> set xs \<Longrightarrow> y \<in> set xs \<Longrightarrow> x < y \<Longrightarrow> x + QuoteInterval \<le> y"
  by (induction xs) (auto simp: QuoteInterval_def)

lemma spaced_distinct: "spaced xs \<Longrightarrow> distinct xs"
  by (induction xs) (auto simp: QuoteInterval_def)

lemma sent_slots:
  assumes "pacing_inv t0 s"
  shows "distinct (map fst (pc_sent s))" "set (map fst (pc_sent s)) \<subseteq> set (pc_slots s)"
proof -
  have sub: "mset (map fst (pc_sent s)) \<subseteq># mset (pc_slots s)"
    using assms mset_subset_eq_add_right [of "mset (map fst (pc_sent s))" "mset (pc_waiting s)"]
      subset_mset.order_trans unfolding pacing_inv_def by blast
  then show "set (map fst (pc_sent s)) \<subseteq> set (pc_slots s)" by (metis set_mset_mono set_mset_mset)
  have slots: "distinct (pc_slots s)" using assms by (simp add: pacing_inv_def spaced_distinct)
  show "distinct (map fst (pc_sent s))"
    unfolding distinct_count_atmost_1
  proof
    fix x
    have "count (mset (map fst (pc_sent s))) x \<le> count (mset (pc_slots s)) x" by (rule mset_subset_eq_count [OF sub])
    moreover have "count (mset (pc_slots s)) x = (if x \<in> set (pc_slots s) then 1 else 0)"
      using slots unfolding distinct_count_atmost_1 by blast
    ultimately show "count (mset (map fst (pc_sent s))) x = (if x \<in> set (map fst (pc_sent s)) then 1 else 0)"
      by (auto simp: not_in_iff le_Suc_eq split: if_splits simp del: mset_map)
  qed
qed

lemma sent_apart:
  assumes "pacing_inv t0 s" "a < length (pc_sent s)" "b < length (pc_sent s)" "a \<noteq> b"
  shows "QuoteInterval \<le> \<bar>fst (pc_sent s ! a) - fst (pc_sent s ! b)\<bar>"
proof -
  let ?x = "fst (pc_sent s ! a)" and ?y = "fst (pc_sent s ! b)"
  have "?x \<noteq> ?y" using sent_slots(1) [OF assms(1)] assms(2-4) by (metis length_map nth_eq_iff_index_eq nth_map)
  moreover have "?x \<in> set (pc_slots s)" "?y \<in> set (pc_slots s)" using sent_slots(2) [OF assms(1)] assms(2,3) by (auto dest: nth_mem)
  moreover have "spaced (pc_slots s)" using assms(1) by (simp add: pacing_inv_def)
  ultimately show ?thesis using spaced_apart [of "pc_slots s" ?x ?y] spaced_apart [of "pc_slots s" ?y ?x] by linarith
qed

text \<open>C33. However the callers interleave - booking slots, sleeping, giving up, waking, being refused,
  meeting 429s - the slots of any two requests that left are at least half a second apart, no request
  leaves before its slot, and up to any moment at most one request has left per half second since the
  start, and one more. Two requests can still leave at the same moment, when the earlier caller wakes
  late: the interval holds between slots and not, as the comments on \<open>QuoteInterval\<close> and \<open>Quoter\<close> say,
  between requests.\<close>

theorem quoter_paced:
  assumes "pacing_reach parse_time t0 s"
  shows "int (length (pc_sent s)) \<le> (pc_clock s - t0) div 500000000 + 1 \<and>
    (\<forall>(slot, t)\<in>set (pc_sent s). slot \<le> t) \<and>
    (\<forall>a<length (pc_sent s). \<forall>b<length (pc_sent s). a \<noteq> b \<longrightarrow>
       500000000 \<le> \<bar>fst (pc_sent s ! a) - fst (pc_sent s ! b)\<bar>)"
  using pacing_count [OF pacing_reach_inv [OF assms]] pacing_reach_inv [OF assms] sent_apart [OF pacing_reach_inv [OF assms]]
  by (auto simp: pacing_inv_def QuoteInterval_def)

text \<open>Two callers wait for their slots, both wake late, and their requests leave together.\<close>

definition late_quoter :: Quoter where
  "late_quoter = \<lparr>q_next = 1500000007, q_blockedUntil = 0\<rparr>"

definition late_callers :: pacing where
  "late_callers = \<lparr>pc_quoter = late_quoter, pc_clock = 1000000007, pc_waiting = [],
     pc_sent = [(1000000007, 1000000007), (500000007, 1000000007), (7, 7)], pc_slots = [1000000007, 500000007, 7]\<rparr>"

lemma late_callers_reach: "pacing_reach (\<lambda>_. None) 7 late_callers"
proof -
  let ?s0 = "pacing_start 7"
  let ?s1 = "?s0\<lparr>pc_quoter := \<lparr>q_next = 500000007, q_blockedUntil = 0\<rparr>, pc_slots := [7], pc_sent := [(7, 7)]\<rparr>"
  let ?s2 = "?s1\<lparr>pc_quoter := \<lparr>q_next = 1000000007, q_blockedUntil = 0\<rparr>, pc_slots := [500000007, 7], pc_waiting := [500000007]\<rparr>"
  let ?s3 = "?s2\<lparr>pc_quoter := late_quoter, pc_slots := [1000000007, 500000007, 7], pc_waiting := [1000000007, 500000007]\<rparr>"
  let ?s4 = "?s3\<lparr>pc_clock := 1000000007\<rparr>"
  let ?s5 = "?s4\<lparr>pc_waiting := [1000000007], pc_sent := [(500000007, 1000000007), (7, 7)]\<rparr>"
  note q = pacing_start_def Quoter_wait_def Quoter_blocked_def QuoteInterval_def late_quoter_def
  have "pacing_step (\<lambda>_. None) ?s0 ?s1"
    using pacing_step.book_now [of ?s0 "\<lparr>q_next = 500000007, q_blockedUntil = 0\<rparr>" 7] by (simp add: q)
  moreover have "pacing_step (\<lambda>_. None) ?s1 ?s2"
    using pacing_step.book_later [of ?s1 "\<lparr>q_next = 1000000007, q_blockedUntil = 0\<rparr>" 500000007] by (simp add: q)
  moreover have "pacing_step (\<lambda>_. None) ?s2 ?s3"
    using pacing_step.book_later [of ?s2 late_quoter 1000000007] by (simp add: q)
  moreover have "pacing_step (\<lambda>_. None) ?s3 ?s4"
    using pacing_step.tick [of ?s3 1000000007] by (simp add: q)
  moreover have "pacing_step (\<lambda>_. None) ?s4 ?s5"
    using pacing_step.wake [of 500000007 ?s4] by (simp add: q)
  moreover have "pacing_step (\<lambda>_. None) ?s5 late_callers"
    using pacing_step.wake [of 1000000007 ?s5] by (simp add: q late_callers_def)
  ultimately show ?thesis by (meson pacing_reach.start pacing_reach.step)
qed

theorem quoter_paced_witness:
  "snd (pc_sent late_callers ! 0) = snd (pc_sent late_callers ! 1) \<and>
     500000000 \<le> \<bar>fst (pc_sent late_callers ! 0) - fst (pc_sent late_callers ! 1)\<bar>"
  using quoter_paced [OF late_callers_reach] by (simp add: late_callers_def)

text \<open>No request leaves during a ban: a step that sends finds the clock at or past the end of
  the last Retry-After, also for callers that had booked their slot before the 429 came; and a
  Retry-After is never taken for longer than ten minutes.\<close>

theorem quoter_ban_respected:
  assumes "pacing_step parse_time s t" "length (pc_sent s) < length (pc_sent t)"
  shows "q_blockedUntil (pc_quoter s) \<le> pc_clock s \<and>
    retry_after parse_time header now \<le> 600000000000"
  using assms
  by (auto elim!: pacing_stepE dest: Quoter_wait_slot(4)
      simp: Quoter_blocked_def rcheck_eq_Inr retry_after_def maxRetryAfter_def)

theorem quoter_ban_respected_witness:
  "q_blockedUntil (pc_quoter (pacing_start 7)) \<le> pc_clock (pacing_start 7) \<and>
    retry_after (\<lambda>_. None) '' 7 '' 0 \<le> 600000000000"
proof -
  have "Quoter_wait (pc_quoter (pacing_start 7)) (pc_clock (pacing_start 7))
      = (\<lparr>q_next = 500000007, q_blockedUntil = 0\<rparr>, Inr 7)"
    by (simp add: pacing_start_def Quoter_wait_def Quoter_blocked_def QuoteInterval_def)
  from quoter_ban_respected [OF pacing_step.book_now [OF this], of "\<lambda>_. None"]
  show ?thesis by (simp add: pacing_start_def)
qed

section \<open>A quote\<close>

text \<open>
  One call of \<open>get\<close>. What happens outside is an argument: the time of the first critical
  section, whether the context ends before the slot comes, the time the caller wakes, the answer
  (\<open>None\<close>: the transport failed) and the time it is read. The body is read through a limit of
  one byte more than is accepted.
\<close>

record http_answer =
  ha_status :: int
  ha_retry_after :: string
  ha_body :: "byte list"

record get_run =
  gr_now :: int
  gr_ctx_ended :: bool
  gr_woke :: int
  gr_answer :: "http_answer option"
  gr_read :: int

definition MaxQuoteResponse :: nat where "MaxQuoteResponse = 65536"

definition Quoter_get ::
  "(string \<Rightarrow> int option) \<Rightarrow> Quoter \<Rightarrow> get_run \<Rightarrow> Quoter \<times> (rerr + byte list)" where
  "Quoter_get parse_time q run =
     (case Quoter_wait q (gr_now run) of
        (q, Inl e) \<Rightarrow> (q, Inl e)
      | (q, Inr slot) \<Rightarrow>
     if gr_ctx_ended run then (q, Inl (ErrOther ''context''))
     else case (if slot - gr_now run \<le> 0 then Inr () else Quoter_blocked q (gr_woke run)) of
        Inl e \<Rightarrow> (q, Inl e)
      | Inr _ \<Rightarrow>
     case gr_answer run of
        None \<Rightarrow> (q, Inl (ErrOther ''request''))
      | Some resp \<Rightarrow>
     let body = take (MaxQuoteResponse + 1) (ha_body resp) in
     if ha_status resp = 429
     then (let (q, e) = Quoter_rateLimited parse_time q (ha_retry_after resp) (gr_read run) in (q, Inl e))
     else if MaxQuoteResponse < length body then (q, Inl ErrAPI)
     else if ha_status resp \<noteq> 200 then (q, Inl ErrAPI)
     else (q, Inr body))"

definition Quoter_Quote ::
  "solana_lib \<Rightarrow> key_codec \<Rightarrow> (byte list \<Rightarrow> apiResponse option) \<Rightarrow> (string \<Rightarrow> int option) \<Rightarrow> Quoter
     \<Rightarrow> get_run \<Rightarrow> pubkey \<Rightarrow> pubkey \<Rightarrow> u64 \<Rightarrow> u16 \<Rightarrow> Quoter \<times> (rerr + Route)" where
  "Quoter_Quote L K unmarshal parse_time q run inputMint outputMint amountIn slippageBps =
     (if inputMint = outputMint then (q, Inl (ErrOther ''cannot swap a mint for itself''))
      else if amountIn = 0 then (q, Inl (ErrOther ''amount is zero''))
      else if bpsDenominator \<le> uint slippageBps then (q, Inl (ErrOther ''slippage''))
      else case Quoter_get parse_time q run of
          (q, Inl e) \<Rightarrow> (q, Inl e)
        | (q, Inr body) \<Rightarrow>
            (q, parseRoute L K unmarshal body inputMint outputMint amountIn slippageBps))"

lemma Quoter_get_body:
  "Quoter_get parse_time q run = (q', Inr body) \<Longrightarrow> length body \<le> MaxQuoteResponse"
  by (auto simp: Quoter_get_def Let_def split: prod.splits sum.splits option.splits if_splits)

text \<open>C32. A quote that is returned is the route asked for: the requested mints, amount and
  slippage, a guaranteed output between the slippage floor and the promised output and above
  zero, one or two hops that connect the input mint to the output mint through different pools
  and visit no mint twice, and every hop on a known program with at most ten distinct
  remaining accounts, which only a CLMM pool has.\<close>

theorem Quote_sound:
  assumes "Quoter_Quote L K unmarshal parse_time q run inputMint outputMint amountIn bps = (q', Inr r)"
  shows "rt_InputMint r = inputMint \<and> rt_OutputMint r = outputMint \<and> rt_AmountIn r = amountIn \<and>
    0 < uint (rt_MinAmountOut r) \<and>
    uint (rt_AmountOut r) * (10000 - uint bps) div 10000 \<le> uint (rt_MinAmountOut r) \<and>
    uint (rt_MinAmountOut r) \<le> uint (rt_AmountOut r) \<and>
    length (rt_Hops r) \<in> {1, 2} \<and>
    hops_connect inputMint (rt_Hops r) outputMint \<and>
    distinct (inputMint # map hop_OutputMint (rt_Hops r)) \<and>
    distinct (map hop_Pool (rt_Hops r)) \<and>
    list_all (hop_ok L) (rt_Hops r)"
proof -
  obtain body where "parseRoute L K unmarshal body inputMint outputMint amountIn bps = Inr r"
    "inputMint \<noteq> outputMint" "uint bps < 10000"
    using assms by (auto simp: Quoter_Quote_def bpsDenominator_def not_le
        split: if_splits prod.splits sum.splits)
  then show ?thesis by (rule parseRoute_sound)
qed

definition sample_run :: get_run where
  "sample_run = \<lparr>gr_now = 5, gr_ctx_ended = False, gr_woke = 5,
     gr_answer = Some \<lparr>ha_status = 200, ha_retry_after = [], ha_body = [1]\<rparr>, gr_read = 6\<rparr>"

theorem Quote_sound_witness:
  "\<exists>q r. Quoter_Quote quote_lib quote_keys (\<lambda>_. Some sample_answer) (\<lambda>_. None)
         \<lparr>q_next = 0, q_blockedUntil = 0\<rparr> sample_run (bytes_of ''A'') (bytes_of ''C'') 1000 50
         = (q, Inr r) \<and>
       hops_connect (bytes_of ''A'') (rt_Hops r) (bytes_of ''C'') \<and> length (rt_Hops r) \<in> {1, 2}"
proof -
  have get: "Quoter_get (\<lambda>_. None) \<lparr>q_next = 0, q_blockedUntil = 0\<rparr> sample_run
      = (\<lparr>q_next = 500000005, q_blockedUntil = 0\<rparr>, Inr [1])"
    by (simp add: Quoter_get_def Quoter_wait_def Quoter_blocked_def sample_run_def Let_def
        MaxQuoteResponse_def QuoteInterval_def)
  obtain r where "parseRoute quote_lib quote_keys (\<lambda>_. Some sample_answer) []
      (bytes_of ''A'') (bytes_of ''C'') 1000 50 = Inr r"
    using sample_parses by (auto simp: is_ok_iff)
  then have "parseRoute quote_lib quote_keys (\<lambda>_. Some sample_answer) [1]
      (bytes_of ''A'') (bytes_of ''C'') 1000 50 = Inr r"
    by (simp add: parseRoute_def)
  then have "Quoter_Quote quote_lib quote_keys (\<lambda>_. Some sample_answer) (\<lambda>_. None)
      \<lparr>q_next = 0, q_blockedUntil = 0\<rparr> sample_run (bytes_of ''A'') (bytes_of ''C'') 1000 50
      = (\<lparr>q_next = 500000005, q_blockedUntil = 0\<rparr>, Inr r)"
    by (simp add: Quoter_Quote_def get bpsDenominator_def) (simp add: bytes_of_def)
  from Quote_sound [OF this] this show ?thesis by blast
qed

end
