(* ===== verification/SolanaSwap.thy ===== *)
theory SolanaSwap
  imports SolanaSwapMessage RaydiumTicks RaydiumQuote "HOL-Library.Sublist"
begin

text \<open>
  Swaps through Raydium pools (internal/chain/solana/swap.go): the plan of a swap and the instructions of
  its three stages, what is read before it is built, the simulations that measure it, and what a refusal
  of the runtime means. \<open>SolanaSwapSend\<close> has the quotes, the approval and \<open>Swap\<close>.

  A refusal that another route might not meet is marked, as \<open>routeFault\<close> does. The answers of the nodes are
  functions; simulation 0 is the first hop alone, 1 the measurement, 2 and 3 the final message.
\<close>

section \<open>Errors and plans\<close>

datatype swap_err =
    SwapErr bool sol_err
  | Mismatched_swap swap_mismatch
  | NeedsMoreCompute bool u64
  | Panicked

abbreviation plain :: "sol_err \<Rightarrow> swap_err" where "plain \<equiv> SwapErr False"

fun routeFault :: "swap_err \<Rightarrow> swap_err" where
  "routeFault (SwapErr r e) = SwapErr True e"
| "routeFault (NeedsMoreCompute r u) = NeedsMoreCompute True u"
| "routeFault e = e"

fun is_route :: "swap_err \<Rightarrow> bool" where
  "is_route (SwapErr r e) = r"
| "is_route (NeedsMoreCompute r u) = r"
| "is_route e = False"

definition on_err :: "('e \<Rightarrow> 'f) \<Rightarrow> 'e + 'a \<Rightarrow> 'f + 'a" where
  "on_err f r = (case r of Inl e \<Rightarrow> Inl (f e) | Inr v \<Rightarrow> Inr v)"

lemma on_err_Inr [simp]: "on_err f r = Inr v \<longleftrightarrow> r = Inr v"
  by (simp add: on_err_def split: sum.splits)

abbreviation as_route :: "swap_err + 'a \<Rightarrow> swap_err + 'a" where "as_route \<equiv> on_err routeFault"

text \<open>A failing Raydium decoder refuses; its panics are panics.\<close>

definition refused_by :: "(rerr \<Rightarrow> sol_err) \<Rightarrow> rerr \<Rightarrow> swap_err" where
  "refused_by f e = (if e = Panic then Panicked else plain (f e))"

definition raydium_refused :: "rerr \<Rightarrow> swap_err" where
  "raydium_refused = refused_by (\<lambda>_. Refused ''the pool cannot be used'')"

definition raydium_state :: "rerr \<Rightarrow> swap_err" where
  "raydium_state = refused_by (\<lambda>_. StateRefused (Because ''the pool cannot be swapped with now''))"

record hop_spec =
  hs_pool :: pubkey
  hs_inMint :: pubkey
  hs_outMint :: pubkey
  hs_kind :: kind
  hs_remaining :: "pubkey list option"

datatype hop_pool = PoolAMMV4 AMMV4Pool | PoolCPMM CPMMPool | PoolCLMM CLMMPool

record swap_hop =
  sh_spec :: hop_spec
  sh_pool :: hop_pool
  sh_extension :: "CLMMBitmapExtension option"
  sh_tickArrays :: "pubkey list"

definition vaults :: "swap_hop \<Rightarrow> pubkey list" where
  "vaults h = (case sh_pool h of PoolAMMV4 p \<Rightarrow> [a4_CoinVault p, a4_PcVault p] | PoolCPMM p \<Rightarrow> [cp_Token0Vault p, cp_Token1Vault p]
     | PoolCLMM p \<Rightarrow> [cl_Vault0 p, cl_Vault1 p])"

definition hop_swap :: "('a) swap_ctx_scheme \<Rightarrow> swap_hop \<Rightarrow> pubkey \<Rightarrow> pubkey \<Rightarrow> pubkey \<Rightarrow> u64 \<Rightarrow> u64 \<Rightarrow> rerr + instruction \<times> raydium_swap" where
  "hop_swap C h user source destination amount minOut =
     (let pool = hs_pool (sh_spec h); inMint = hs_inMint (sh_spec h); L = raydium_lib C in
      case sh_pool h of
        PoolAMMV4 p \<Rightarrow> rbind (AMMV4Pool_Swap p pool inMint source destination user amount minOut) (\<lambda>s. Inr (AMMV4Swap_Instruction L s, SwapAMMV4 s))
      | PoolCPMM p \<Rightarrow> rbind (CPMMPool_Swap p pool inMint user source destination amount minOut) (\<lambda>s.
          Inr (CPMMSwap_Instruction L (xc_cpmmAuthority C) s, SwapCPMM s))
      | PoolCLMM p \<Rightarrow> rbind (CLMMPool_Swap p pool inMint user source destination (sh_extension h \<noteq> None) (sh_tickArrays h) amount minOut) (\<lambda>s.
          rbind (CLMMSwap_Instruction L s) (\<lambda>ins. Inr (ins, SwapCLMM s))))"

record swap_plan =
  wp_user :: pubkey
  wp_inMint :: pubkey
  wp_outMint :: pubkey
  wp_inSOL :: bool
  wp_outSOL :: bool
  wp_amountIn :: u64
  wp_slippage :: u16
  wp_hops :: "swap_hop list"
  wp_tables :: "pubkey \<rightharpoonup> pubkey list"
  wp_tableKeys :: "pubkey list"
  wp_balance :: u64
  wp_tokenRent :: u64
  wp_wsol :: pubkey
  wp_wsolCreate :: bool
  wp_source :: pubkey
  wp_mid :: pubkey
  wp_dest :: pubkey
  wp_midBefore :: u64
  wp_outBefore :: u64
  wp_midDecimals :: byte
  wp_wsolBefore :: u64
  wp_creates :: "(pubkey \<times> pubkey) list"
  wp_hopIn :: "u64 list"
  wp_hopMin :: "u64 list"
  wp_expectedOut :: u64
  wp_midOut :: u64
  wp_basePrice :: u64
  wp_price :: u64
  wp_neededLimit :: u32
  wp_limit :: u32

definition closes :: "swap_plan \<Rightarrow> bool" where "closes p \<longleftrightarrow> wp_wsol p \<noteq> zero_key"

definition persistentCreates :: "swap_plan \<Rightarrow> int" where
  "persistentCreates p = int (length (wp_creates p)) - (if wp_wsolCreate p then 1 else 0)"

definition swap_rent :: "swap_plan \<Rightarrow> u64" where "swap_rent p = word_of_int (persistentCreates p) * wp_tokenRent p"

definition swap_networkFee :: "swap_plan \<Rightarrow> u64" where
  "swap_networkFee p = lamportsPerSignature + priorityFee (wp_limit p) (wp_price p)"

definition swap_cost :: "swap_plan \<Rightarrow> u64" where "swap_cost p = swap_networkFee p + swap_rent p"

section \<open>Instructions\<close>

datatype swap_stage = StageMid | StageMeasure | StageFinal

definition sync_native_instruction :: "('a) sol_lib_scheme \<Rightarrow> pubkey \<Rightarrow> instruction" where
  "sync_native_instruction L wsol = \<lparr>ins_program = token_program_id L, ins_accounts = [writable wsol], ins_data = [17]\<rparr>"

definition close_account_instruction :: "('a) sol_lib_scheme \<Rightarrow> pubkey \<Rightarrow> pubkey \<Rightarrow> instruction" where
  "close_account_instruction L wsol user =
     \<lparr>ins_program = token_program_id L, ins_accounts = [writable wsol, writable user, signer user], ins_data = [9]\<rparr>"

text \<open>The swaps of a stage: hop, source, destination, amount in, minimum out.\<close>

definition swap_legs :: "swap_plan \<Rightarrow> swap_stage \<Rightarrow> (swap_hop \<times> pubkey \<times> pubkey \<times> u64 \<times> u64) list" where
  "swap_legs p stage =
     (let last = length (wp_hops p) - 1; minOut = (if stage = StageFinal then wp_hopMin p ! last else 1) in
      if last = 0 then [(wp_hops p ! 0, wp_source p, wp_dest p, wp_amountIn p, minOut)]
      else if stage = StageMid then [(wp_hops p ! 0, wp_source p, wp_mid p, wp_amountIn p, 1)]
      else [(wp_hops p ! 0, wp_source p, wp_mid p, wp_amountIn p, wp_hopMin p ! 0),
            (wp_hops p ! 1, wp_mid p, wp_dest p, wp_hopIn p ! 1, minOut)])"

definition swap_instructions :: "('a) swap_ctx_scheme \<Rightarrow> swap_plan \<Rightarrow> swap_stage \<Rightarrow> rerr + instruction list \<times> raydium_swap list" where
  "swap_instructions C p stage =
     rbind (rmap (\<lambda>(hop, source, destination, amount, minOut). hop_swap C hop (wp_user p) source destination amount minOut) (swap_legs p stage)) (\<lambda>legs.
     Inr ([limit_instruction C (if stage = StageFinal then wp_limit p else ucast maxComputeUnitLimit),
           price_instruction C (if stage = StageFinal then wp_price p else 0)] @
          map (\<lambda>(account, mint). create_account_instruction C (wp_user p) account (wp_user p) mint) (wp_creates p) @
          (if wp_inSOL p then [sol_transfer_instruction C (wp_user p) (wp_wsol p) (wp_amountIn p), sync_native_instruction C (wp_wsol p)] else []) @
          map fst legs @
          (if stage = StageFinal \<and> closes p then [close_account_instruction C (wp_wsol p) (wp_user p)] else []),
          map snd legs))"

definition swap_message_of :: "('a) swap_ctx_scheme \<Rightarrow> swap_plan \<Rightarrow> swap_stage \<Rightarrow> byte list \<Rightarrow> swap_err + byte list \<times> bool" where
  "swap_message_of C p stage blockhash =
     rbind (on_err (refused_by (\<lambda>_. NodeFailed ''instructions'')) (swap_instructions C p stage)) (\<lambda>(instructions, _).
     rbind (on_err plain (buildMessage C (wp_user p) blockhash instructions (wp_tables p))) (\<lambda>(message, versioned).
     rcheck (\<not> length message + signedOverhead > maxTransactionSize) (SwapErr True (Refused ''more bytes than one transaction holds''))
       (Inr (message, versioned))))"

definition buildFinal :: "('a) swap_ctx_scheme \<Rightarrow> swap_plan \<Rightarrow> byte list \<Rightarrow> swap_err + byte list" where
  "buildFinal C p blockhash = rbind (swap_message_of C p StageFinal blockhash) (\<lambda>(message, _). Inr message)"

section \<open>What is read\<close>

record swap_sim = sim_result +
  sm_Accounts :: "sol_account option list"

record swap_node = sol_node +
  xn_time :: "sol_err + int option"
  xn_simulate :: "nat \<Rightarrow> byte list \<Rightarrow> pubkey list \<Rightarrow> sol_err + swap_sim"

definition chainTime :: "('a) swap_node_scheme \<Rightarrow> sol_err + int" where
  "chainTime N = rbind (xn_time N) (\<lambda>blockTime.
     case blockTime of None \<Rightarrow> Inl (NodeFailed ''the head block has no time'')
     | Some t \<Rightarrow> rcheck (\<not> t \<le> 0) (NodeFailed ''the head block has no time'') (Inr t))"

definition intermediates :: "('a) swap_ctx_scheme \<Rightarrow> pubkey \<Rightarrow> bool" where
  "intermediates C mint \<longleftrightarrow> mint = xc_WrappedSol C \<or> mint = must_key C ''EPjFWdd5AufqSSqeM2qN1xzybapC8G4wEGGkZwyTDt1v'' \<or>
     mint = must_key C ''Es9vMFrzaCERmJfrF4H2FYD4KCoNkY11McCe8BenwNYB''"

definition swapMint :: "('a) swap_ctx_scheme \<Rightarrow> chain_asset \<Rightarrow> string \<Rightarrow> sol_err + pubkey \<times> bool" where
  "swapMint C asset networkID =
     rcheck (ca_NetworkID asset = networkID) (Refused ''asset belongs to another network'') (
     if ca_Kind asset = ''native'' then rcheck (ca_Decimals asset = 9) (Refused ''SOL has 9 decimals'') (Inr (xc_WrappedSol C, True))
     else if ca_Kind asset = ''spl'' then
       (case sc_key C (ca_Contract asset) of None \<Rightarrow> Inl (Refused ''invalid SPL mint'') | Some mint \<Rightarrow>
        rcheck (mint \<noteq> xc_WrappedSol C) (Refused ''swap SOL as the native asset'') (Inr (mint, False)))
     else Inl (Refused ''unsupported Solana asset kind''))"

definition associated :: "('a) swap_ctx_scheme \<Rightarrow> pubkey \<Rightarrow> pubkey \<Rightarrow> swap_err + pubkey" where
  "associated C owner mint = (case FindAssociatedTokenAddress C owner mint of None \<Rightarrow> Inl Panicked | Some address \<Rightarrow> Inr address)"

fun hops_continue :: "pubkey \<Rightarrow> hop_spec list \<Rightarrow> pubkey option" where
  "hops_continue from [] = Some from"
| "hops_continue from (hop # hops) =
     (if hs_inMint hop \<noteq> from \<or> hs_outMint hop = hs_inMint hop then None else hops_continue (hs_outMint hop) hops)"

definition checkHops :: "('a) swap_ctx_scheme \<Rightarrow> hop_spec list \<Rightarrow> pubkey \<Rightarrow> pubkey \<Rightarrow> sol_err + unit" where
  "checkHops C hops inMint outMint =
     rcheck (\<not> (hops = [] \<or> length hops > MaxHops)) (Refused ''a route has 1 or 2 pools'') (
     case hops_continue inMint hops of None \<Rightarrow> Inl (Refused ''hop does not continue the route'') | Some from \<Rightarrow>
     rcheck (from = outMint) (Refused ''the route does not end at the asset bought'') (
     rcheck (\<not> (length hops = 2 \<and> (hs_pool (hops ! 0) = hs_pool (hops ! 1) \<or> hs_outMint (hops ! 0) = inMint)))
       (Refused ''the route goes through the same pool or mint twice'') (
     rcheck (\<not> (length hops = 2 \<and> \<not> intermediates C (hs_outMint (hops ! 0))))
       (Refused ''a two-hop route goes through SOL, USDC or USDT'') (Inr ()))))"

text \<open>The pool of a hop by its owner, with the two mints it trades.\<close>

definition decode_pool :: "('a) swap_ctx_scheme \<Rightarrow> kind \<Rightarrow> sol_account \<Rightarrow> int \<Rightarrow> swap_err + hop_pool \<times> pubkey \<times> pubkey" where
  "decode_pool C kind pool now =
     (let L = raydium_lib C; owner = sa_Owner pool; data = sa_Data pool in
      case kind of
        KindAMMV4 \<Rightarrow> rbind (on_err raydium_refused (DecodeAMMV4Pool L owner data)) (\<lambda>p.
          rbind (on_err raydium_state (AMMV4Pool_Swappable p now)) (\<lambda>_. Inr (PoolAMMV4 p, a4_CoinMint p, a4_PcMint p)))
      | KindCPMM \<Rightarrow> rbind (on_err raydium_refused (DecodeCPMMPool L owner data)) (\<lambda>p.
          rbind (on_err raydium_state (CPMMPool_Swappable L p now)) (\<lambda>_. Inr (PoolCPMM p, cp_Token0Mint p, cp_Token1Mint p)))
      | _ \<Rightarrow> rbind (on_err raydium_refused (DecodeCLMMPool L owner data)) (\<lambda>p.
          rbind (on_err raydium_state (CLMMPool_Swappable p now)) (\<lambda>_. Inr (PoolCLMM p, cl_Mint0 p, cl_Mint1 p))))"

definition swapTickArrays :: nat where "swapTickArrays = 3"

text \<open>The widest walk that stays inside what the accounts cover.\<close>

fun tick_arrays :: "('a) swap_ctx_scheme \<Rightarrow> CLMMPool \<Rightarrow> pubkey \<Rightarrow> CLMMBitmapExtension option \<Rightarrow> bool \<Rightarrow> nat \<Rightarrow> rerr + pubkey list" where
  "tick_arrays C p pool extension zeroForOne 0 = Inl ErrNeedBitmapExtension"
| "tick_arrays C p pool extension zeroForOne (Suc n) =
     (case CLMMPool_TickArrays (raydium_lib C) p pool extension zeroForOne (Suc n) of
        Inl e \<Rightarrow> if e = ErrNeedBitmapExtension then tick_arrays C p pool extension zeroForOne n else Inl e
      | Inr keys \<Rightarrow> Inr keys)"

definition decode_clmm :: "('a) swap_ctx_scheme \<Rightarrow> hop_spec \<Rightarrow> CLMMPool \<Rightarrow> sol_account option \<Rightarrow> swap_err + CLMMBitmapExtension option \<times> pubkey list" where
  "decode_clmm C spec p extension =
     rbind (case extension of None \<Rightarrow> Inr None | Some a \<Rightarrow>
       rbind (on_err raydium_refused (DecodeCLMMBitmapExtension (raydium_lib C) (sa_Owner a) (sa_Data a))) (\<lambda>e.
       rcheck (be_Pool e = hs_pool spec) (plain (Refused ''the bitmap extension belongs to another pool'')) (Inr (Some e)))) (\<lambda>e.
     rbind (on_err raydium_refused (CLMMPool_ZeroForOne p (hs_inMint spec))) (\<lambda>zeroForOne.
     rbind (case hs_remaining spec of None \<Rightarrow> Inr () | Some given \<Rightarrow>
       on_err raydium_refused (CLMMPool_CheckTickArrays (raydium_lib C) p (hs_pool spec) e zeroForOne given)) (\<lambda>_.
     rbind (on_err raydium_refused (tick_arrays C p (hs_pool spec) e zeroForOne swapTickArrays)) (\<lambda>keys.
     rcheck (keys \<noteq> []) (plain (StateRefused (Because ''the pool has no liquidity in this direction''))) (Inr (e, keys))))))"

definition decodeHop :: "('a) swap_ctx_scheme \<Rightarrow> hop_spec \<Rightarrow> sol_account option \<Rightarrow> sol_account option \<Rightarrow> int \<Rightarrow> swap_err + swap_hop" where
  "decodeHop C spec pool extension now =
     (case pool of None \<Rightarrow> Inl (plain (StateRefused (Because ''the pool does not exist''))) | Some a \<Rightarrow>
      let kind = KindOf (raydium_lib C) (sa_Owner a) in
      rcheck (kind \<noteq> KindUnknown) (plain (Refused ''the pool belongs to another program'')) (
      rcheck (\<not> (hs_kind spec \<noteq> KindUnknown \<and> hs_kind spec \<noteq> kind)) (plain (Refused ''the route says another kind'')) (
      rbind (decode_pool C kind a now) (\<lambda>(decoded, mint0, mint1).
      rcheck ((mint0 = hs_inMint spec \<and> mint1 = hs_outMint spec) \<or> (mint1 = hs_inMint spec \<and> mint0 = hs_outMint spec))
        (plain (Refused ''the pool does not trade these mints'')) (
      case decoded of
        PoolCLMM p \<Rightarrow> rbind (decode_clmm C spec p extension) (\<lambda>(e, keys).
          Inr \<lparr>sh_spec = spec\<lparr>hs_kind := kind\<rparr>, sh_pool = decoded, sh_extension = e, sh_tickArrays = keys\<rparr>)
      | _ \<Rightarrow> rcheck (\<not> (case hs_remaining spec of None \<Rightarrow> False | Some given \<Rightarrow> length given > 0)) (plain (Refused ''the route gives tick arrays'')) (
          Inr \<lparr>sh_spec = spec\<lparr>hs_kind := kind\<rparr>, sh_pool = decoded, sh_extension = None, sh_tickArrays = []\<rparr>))))))"

section \<open>Loading\<close>

definition swap_shape ::
  "('a) swap_ctx_scheme \<Rightarrow> string \<Rightarrow> pubkey \<Rightarrow> chain_asset \<Rightarrow> chain_asset \<Rightarrow> u64 \<Rightarrow> u16 \<Rightarrow> hop_spec list \<Rightarrow> swap_err + swap_plan \<times> pubkey" where
  "swap_shape C networkID user inp out amountIn slippage hops =
     rbind (on_err plain (swapMint C inp networkID)) (\<lambda>(inMint, inSOL).
     rbind (on_err plain (swapMint C out networkID)) (\<lambda>(outMint, outSOL).
     rcheck (inMint \<noteq> outMint) (plain (Refused ''cannot swap an asset for itself'')) (
     rbind (on_err (SwapErr True) (checkHops C hops inMint outMint)) (\<lambda>_.
     let midMint = (if length hops = 2 then hs_outMint (hops ! 0) else zero_key);
         usesSOL = (inSOL \<or> outSOL \<or> midMint = xc_WrappedSol C) in
     rbind (if usesSOL then associated C user (xc_WrappedSol C) else Inr zero_key) (\<lambda>wsol.
     rbind (if inSOL then Inr wsol else associated C user inMint) (\<lambda>source.
     rbind (if outSOL then Inr wsol else associated C user outMint) (\<lambda>dest.
     rbind (if length hops \<noteq> 2 then Inr zero_key else if midMint = xc_WrappedSol C then Inr wsol else associated C user midMint) (\<lambda>mid.
     Inr (\<lparr>wp_user = user, wp_inMint = inMint, wp_outMint = outMint, wp_inSOL = inSOL, wp_outSOL = outSOL, wp_amountIn = amountIn,
       wp_slippage = slippage, wp_hops = [], wp_tables = Map.empty, wp_tableKeys = [], wp_balance = 0, wp_tokenRent = 0, wp_wsol = wsol,
       wp_wsolCreate = False, wp_source = source, wp_mid = mid, wp_dest = dest, wp_midBefore = 0, wp_outBefore = 0, wp_midDecimals = 0,
       wp_wsolBefore = 0, wp_creates = [], wp_hopIn = amountIn # replicate (length hops - 1) 0, wp_hopMin = replicate (length hops) 0,
       wp_expectedOut = 0, wp_midOut = 0, wp_basePrice = 0, wp_price = 0, wp_neededLimit = 0, wp_limit = 0\<rparr>, midMint)))))))))"

definition usesSOL :: "('a) swap_ctx_scheme \<Rightarrow> swap_plan \<Rightarrow> pubkey \<Rightarrow> bool" where
  "usesSOL C p midMint \<longleftrightarrow> wp_inSOL p \<or> wp_outSOL p \<or> midMint = xc_WrappedSol C"

text \<open>The keys of the one read: the wallet's part, and a pool with its bitmap extension per hop.\<close>

definition wallet_keys :: "('a) swap_ctx_scheme \<Rightarrow> swap_plan \<Rightarrow> pubkey \<Rightarrow> hop_spec list \<Rightarrow> pubkey list" where
  "wallet_keys C p midMint hops =
     [wp_user p, wp_inMint p, wp_outMint p, wp_source p, wp_dest p] @
     (if length hops = 2 then [midMint, wp_mid p] else []) @ (if usesSOL C p midMint then [wp_wsol p] else [])"

definition pool_keys :: "('a) swap_ctx_scheme \<Rightarrow> hop_spec list \<Rightarrow> swap_err + pubkey list" where
  "pool_keys C hops =
     rbind (on_err (\<lambda>_. Panicked) (rmap (\<lambda>hop. rbind (CLMMBitmapExtensionAddress (raydium_lib C) (hs_pool hop)) (\<lambda>e. Inr [hs_pool hop, e])) hops)) (\<lambda>keys.
     Inr (concat keys))"

definition check_decimals :: "('a) swap_ctx_scheme \<Rightarrow> sol_account option \<Rightarrow> chain_asset \<Rightarrow> sol_err + unit" where
  "check_decimals C acc asset =
     rbind (mintDecimals (sol_ctx.truncate C) acc) (\<lambda>decimals.
     rcheck (decimals = ca_Decimals asset) (Refused ''the mint has other decimals'') (Inr ()))"

definition load_hops :: "('a) swap_ctx_scheme \<Rightarrow> hop_spec list \<Rightarrow> sol_account option list \<Rightarrow> int \<Rightarrow> swap_err + swap_hop list" where
  "load_hops C hops accounts now =
     rmap (\<lambda>(i, spec). as_route (decodeHop C spec (accounts ! (2 * i)) (accounts ! (2 * i + 1)) now)) (zip [0..<length hops] hops)"

fun load_tables ::
  "('a) swap_ctx_scheme \<Rightarrow> bool \<Rightarrow> (pubkey \<times> sol_account option) list \<Rightarrow> (pubkey \<rightharpoonup> pubkey list) \<times> pubkey list
     \<Rightarrow> swap_err + (pubkey \<rightharpoonup> pubkey list) \<times> pubkey list" where
  "load_tables C optionalTables [] (tables, keys) = Inr (tables, keys)"
| "load_tables C optionalTables ((table, acc) # rest) (tables, keys) =
     (case acc of
        None \<Rightarrow> if optionalTables then load_tables C optionalTables rest (tables, keys)
                else Inl (plain (StateRefused (Because ''lookup table does not exist'')))
      | Some a \<Rightarrow>
          (case decodeLookupTable C (sa_Owner a) (sa_Data a) of
             Inl e \<Rightarrow> if optionalTables then load_tables C optionalTables rest (tables, keys) else Inl (plain (StateRefused (Because e)))
           | Inr content \<Rightarrow> load_tables C optionalTables rest (tables(table \<mapsto> content), keys @ [table])))"

definition check_source :: "('a) swap_ctx_scheme \<Rightarrow> (pubkey \<Rightarrow> sol_account option) \<Rightarrow> swap_plan \<Rightarrow> sol_err + unit" where
  "check_source C byKey p =
     (if wp_inSOL p then Inr () else
      (case byKey (wp_source p) of None \<Rightarrow> Inl (StateRefused (Because ''the account holds nothing in its main token account'')) | Some a \<Rightarrow>
       rbind (tokenAccountBalance (sol_ctx.truncate C) a (wp_inMint p) (wp_user p)) (\<lambda>balance.
       rcheck (\<not> balance < wp_amountIn p) (StateRefused (Held balance)) (Inr ()))))"

definition load_wsol :: "('a) swap_ctx_scheme \<Rightarrow> (pubkey \<Rightarrow> sol_account option) \<Rightarrow> pubkey \<Rightarrow> swap_plan \<Rightarrow> sol_err + swap_plan" where
  "load_wsol C byKey midMint p =
     (if \<not> usesSOL C p midMint then Inr p else
      (case byKey (wp_wsol p) of
         Some a \<Rightarrow> rbind (tokenAccountBalance (sol_ctx.truncate C) a (xc_WrappedSol C) (wp_user p)) (\<lambda>balance. Inr (p\<lparr>wp_wsolBefore := balance\<rparr>))
       | None \<Rightarrow> Inr (p\<lparr>wp_wsolCreate := True, wp_creates := wp_creates p @ [(wp_wsol p, xc_WrappedSol C)]\<rparr>)))"

definition account_before :: "('a) swap_ctx_scheme \<Rightarrow> (pubkey \<Rightarrow> sol_account option) \<Rightarrow> swap_plan \<Rightarrow> pubkey \<Rightarrow> pubkey \<Rightarrow> sol_err + u64 \<times> swap_plan" where
  "account_before C byKey p account mint =
     (if account = wp_wsol p then Inr (wp_wsolBefore p, p) else
      (case byKey account of
         None \<Rightarrow> Inr (0, p\<lparr>wp_creates := wp_creates p @ [(account, mint)]\<rparr>)
       | Some a \<Rightarrow> rbind (tokenAccountBalance (sol_ctx.truncate C) a mint (wp_user p)) (\<lambda>balance. Inr (balance, p))))"

text \<open>The wallet's token accounts, and those the swap has to open.\<close>

definition load_accounts :: "('a) swap_ctx_scheme \<Rightarrow> (pubkey \<Rightarrow> sol_account option) \<Rightarrow> pubkey \<Rightarrow> nat \<Rightarrow> swap_plan \<Rightarrow> swap_err + swap_plan" where
  "load_accounts C byKey midMint hops p =
     rbind (on_err plain (check_source C byKey p)) (\<lambda>_.
     rbind (on_err plain (load_wsol C byKey midMint p)) (\<lambda>p.
     rbind (if hops = 2 then rbind (on_err (SwapErr True) (account_before C byKey p (wp_mid p) midMint)) (\<lambda>(before, p). Inr (p\<lparr>wp_midBefore := before\<rparr>))
            else Inr p) (\<lambda>p.
     rbind (on_err plain (account_before C byKey p (wp_dest p) (wp_outMint p))) (\<lambda>(before, p).
     Inr (p\<lparr>wp_outBefore := before\<rparr>)))))"

text \<open>The wallet and the mints; the intermediate mint is the route's.\<close>

definition load_wallet ::
  "('a) swap_ctx_scheme \<Rightarrow> chain_asset \<Rightarrow> chain_asset \<Rightarrow> nat \<Rightarrow> sol_account option list \<Rightarrow> swap_plan \<Rightarrow> swap_err + swap_plan" where
  "load_wallet C inp out hops accounts p =
     (let balance = (case accounts ! 0 of Some a \<Rightarrow> sa_Lamports a | None \<Rightarrow> 0) in
      rcheck (balance \<noteq> 0) (plain (StateRefused (Because ''the account holds no SOL to pay the fee''))) (
      rbind (on_err plain (check_decimals C (accounts ! 1) inp)) (\<lambda>_.
      rbind (on_err plain (check_decimals C (accounts ! 2) out)) (\<lambda>_.
      rbind (if hops = 2 then on_err (SwapErr True) (mintDecimals (sol_ctx.truncate C) (accounts ! 5)) else Inr 0) (\<lambda>midDecimals.
      Inr (p\<lparr>wp_balance := balance, wp_midDecimals := midDecimals\<rparr>))))))"

definition loadPlan ::
  "('a) swap_ctx_scheme \<Rightarrow> swap_node \<Rightarrow> chain_asset \<Rightarrow> chain_asset \<Rightarrow> hop_spec list \<Rightarrow> pubkey list \<Rightarrow> bool \<Rightarrow> int \<Rightarrow> swap_plan \<Rightarrow> pubkey
     \<Rightarrow> swap_err + swap_plan" where
  "loadPlan C N inp out hops tables optionalTables now p midMint =
     rbind (pool_keys C hops) (\<lambda>pools.
     let wallet = wallet_keys C p midMint hops; keys = wallet @ pools @ tables in
     rbind (on_err plain (readAccounts (sol_node.truncate N) keys)) (\<lambda>accounts.
     let found = map_of (rev (zip keys accounts)); byKey = (\<lambda>key. case found key of Some acc \<Rightarrow> acc | None \<Rightarrow> None) in
     rbind (load_wallet C inp out (length hops) accounts p) (\<lambda>p.
     rbind (load_hops C hops (take (length pools) (drop (length wallet) accounts)) now) (\<lambda>loaded.
     rbind (load_tables C optionalTables (zip tables (drop (length wallet + length pools) accounts)) (Map.empty, [])) (\<lambda>(contents, tableKeys).
     load_accounts C byKey midMint (length hops) (p\<lparr>wp_hops := loaded, wp_tables := contents, wp_tableKeys := tableKeys\<rparr>))))))"

definition loadSwap ::
  "('a) swap_ctx_scheme \<Rightarrow> swap_node \<Rightarrow> string \<Rightarrow> pubkey \<Rightarrow> chain_asset \<Rightarrow> chain_asset \<Rightarrow> u64 \<Rightarrow> u16 \<Rightarrow> hop_spec list \<Rightarrow> pubkey list \<Rightarrow> bool \<Rightarrow> int
     \<Rightarrow> (rents, swap_err, swap_plan) op" where
  "loadSwap C N networkID user inp out amountIn slippage hops tables optionalTables now =
     sbind (slift (swap_shape C networkID user inp out amountIn slippage hops)) (\<lambda>(p, midMint).
     sbind (slift (loadPlan C N inp out hops tables optionalTables now p midMint)) (\<lambda>p.
     if wp_creates p = [] then sret p else
     (\<lambda>rents. case rentExempt (sol_node.truncate N) networkID tokenAccountSize rents of
        (rents, r) \<Rightarrow> (rents, rbind (on_err plain r) (\<lambda>rent. Inr (p\<lparr>wp_tokenRent := rent\<rparr>))))))"

section \<open>Simulations\<close>

definition simulateSwap :: "swap_node \<Rightarrow> nat \<Rightarrow> byte list \<Rightarrow> pubkey list \<Rightarrow> sol_err + swap_sim" where
  "simulateSwap N call message read =
     rbind (xn_simulate N call message read) (\<lambda>result.
     rcheck (\<not> (sm_Err result = None \<and> length (sm_Accounts result) \<noteq> length read)) (NodeFailed ''simulate the swap'') (Inr result))"

definition tokenAfter :: "('a) swap_ctx_scheme \<Rightarrow> swap_sim \<Rightarrow> nat \<Rightarrow> pubkey \<Rightarrow> pubkey \<Rightarrow> sol_err + u64" where
  "tokenAfter C result index mint owner =
     (case sm_Accounts result ! index of None \<Rightarrow> Inl (NodeFailed ''the receiving account would not exist'') | Some a \<Rightarrow>
      rcheck (\<not> (sa_Owner a \<noteq> token_program_id C \<or> length (sa_Data a) \<noteq> tokenAccountSize \<or> take 32 (sa_Data a) \<noteq> mint \<or> take 32 (drop 32 (sa_Data a)) \<noteq> owner))
        (NodeFailed ''the receiving account is not the wallet's token account'') (Inr (le_u64 (take 8 (drop 64 (sa_Data a))))))"

definition slippageErrors :: "kind \<Rightarrow> int option" where
  "slippageErrors kind = (case kind of KindAMMV4 \<Rightarrow> Some 30 | KindCPMM \<Rightarrow> Some 6005 | KindCLMM \<Rightarrow> Some 6018 | _ \<Rightarrow> None)"

text \<open>The pair of an InstructionError: an index and the error of the instruction.\<close>

definition instruction_error :: "json \<Rightarrow> (json \<times> json) option" where
  "instruction_error failure =
     (case failure of
        JObject detail \<Rightarrow> (case map_of detail ''InstructionError'' of Some (JArray [index, what]) \<Rightarrow> Some (index, what) | _ \<Rightarrow> None)
      | _ \<Rightarrow> None)"

definition failingInstruction :: "('a) swap_ctx_scheme \<Rightarrow> swap_plan \<Rightarrow> json \<Rightarrow> byte list \<Rightarrow> (json \<times> pubkey list \<times> kind) option" where
  "failingInstruction C p failure message =
     Option.bind (instruction_error failure) (\<lambda>(position, what).
     Option.bind (accountIndex (Some position)) (\<lambda>index.
     Option.bind (decodeSwapMessage message (wp_tables p)) (\<lambda>m.
     if index < 0 \<or> index \<ge> int (length (wm_instructions m)) then None else
     let ins = wm_instructions m ! nat index; program = wm_keys m ! di_program ins in
     Some (what, program # map ((!) (wm_keys m)) (di_accounts ins), KindOf (raydium_lib C) program))))"

definition failedInstruction :: "('a) swap_ctx_scheme \<Rightarrow> swap_plan \<Rightarrow> json \<Rightarrow> byte list \<Rightarrow> (json \<times> kind) option" where
  "failedInstruction C p failure message = map_option (\<lambda>(what, keys, kind). (what, kind)) (failingInstruction C p failure message)"

definition slippageFailure :: "('a) swap_ctx_scheme \<Rightarrow> swap_plan \<Rightarrow> json \<Rightarrow> byte list \<Rightarrow> bool" where
  "slippageFailure C p failure message =
     (case failedInstruction C p failure message of
        Some (JObject custom, kind) \<Rightarrow>
          (case accountIndex (map_of custom ''Custom'') of None \<Rightarrow> False | Some code \<Rightarrow> slippageErrors kind = Some code)
      | _ \<Rightarrow> False)"

definition computeExhausted :: "json \<Rightarrow> string list \<Rightarrow> bool" where
  "computeExhausted failure logs =
     (case instruction_error failure of
        Some (_, JText what) \<Rightarrow> what = ''ComputationalBudgetExceeded'' \<or>
          (what = ''ProgramFailedToComplete'' \<and> list_ex (sublist ''exceeded CUs meter'') logs)
      | _ \<Rightarrow> False)"

definition routeOnly :: "swap_plan \<Rightarrow> pubkey \<Rightarrow> bool" where
  "routeOnly p account \<longleftrightarrow> length (wp_hops p) = 2 \<and> account = wp_mid p"

definition routeOnlyRent :: "swap_plan \<Rightarrow> u64" where
  "routeOnlyRent p = (if list_ex (\<lambda>(account, mint). routeOnly p account) (wp_creates p) then wp_tokenRent p else 0)"

definition explainSwap :: "('a) swap_ctx_scheme \<Rightarrow> swap_plan \<Rightarrow> json \<Rightarrow> string list \<Rightarrow> byte list \<Rightarrow> swap_err" where
  "explainSwap C p failure logs message =
     (if failure = JText ''InsufficientFundsForFee'' then plain (StateRefused (FeeNotCovered (wp_balance p) (swap_networkFee p)))
      else if slippageFailure C p failure message then
        SwapErr True (StateRefused (Because (''the pool would now pay less than the minimum'' @ lastLog logs)))
      else
        (let refusal = StateRefused (NetworkRejects (describe (sol_ctx.truncate C) failure message) (lastLog logs)) in
         case failingInstruction C p failure message of
           Some (what, keys, kind) \<Rightarrow>
             if kind \<noteq> KindUnknown then SwapErr True refusal
             else if keys ! 0 = sl_AssociatedTokenProgram C \<and> length keys > 2 \<and> routeOnly p (keys ! 2) then SwapErr True refusal
             else plain refusal
         | None \<Rightarrow> plain refusal))"

definition swap_withSlippage :: "u64 \<Rightarrow> u16 \<Rightarrow> u64" where
  "swap_withSlippage amount bps = word_of_int (go_quo (uint amount * (10000 - uint bps)) 10000)"

definition closeComputeAllowance :: u64 where "closeComputeAllowance = 5000"

text \<open>A simulation of a stage that must succeed: its answer, or the runtime's refusal in words.\<close>

definition run_stage :: "('a) swap_ctx_scheme \<Rightarrow> swap_node \<Rightarrow> nat \<Rightarrow> swap_plan \<Rightarrow> swap_stage \<Rightarrow> pubkey \<Rightarrow> swap_err + swap_sim" where
  "run_stage C N call p stage read =
     rbind (swap_message_of C p stage no_hash) (\<lambda>(message, _).
     rbind (on_err plain (simulateSwap N call message [read])) (\<lambda>result.
     case sm_Err result of Some failure \<Rightarrow> Inl (explainSwap C p failure (sm_Logs result) message) | None \<Rightarrow> Inr result))"

definition measure_mid :: "('a) swap_ctx_scheme \<Rightarrow> swap_node \<Rightarrow> swap_plan \<Rightarrow> swap_err + swap_plan" where
  "measure_mid C N p =
     rbind (run_stage C N 0 p StageMid (wp_mid p)) (\<lambda>result.
     rbind (on_err plain (tokenAfter C result 0 (hs_outMint (sh_spec (wp_hops p ! 0))) (wp_user p))) (\<lambda>after.
     rcheck (\<not> after \<le> wp_midBefore p) (SwapErr True (StateRefused (Because ''the first pool would pay nothing''))) (
     let midOut = after - wp_midBefore p; least = swap_withSlippage midOut (wp_slippage p) in
     rcheck (least \<noteq> 0) (SwapErr True (StateRefused (Because ''the first pool would pay too little to go on''))) (
     Inr (p\<lparr>wp_midOut := midOut, wp_hopMin := (wp_hopMin p)[0 := least], wp_hopIn := (wp_hopIn p)[1 := least]\<rparr>)))))"

definition measure_swap :: "('a) swap_ctx_scheme \<Rightarrow> swap_node \<Rightarrow> swap_plan \<Rightarrow> swap_err + swap_plan" where
  "measure_swap C N p =
     rbind (if length (wp_hops p) = 2 then measure_mid C N p else Inr p) (\<lambda>p.
     rbind (run_stage C N 1 p StageMeasure (wp_dest p)) (\<lambda>result.
     case sm_Units result of None \<Rightarrow> Inl (plain (NodeFailed ''the node did not report the compute used'')) | Some used \<Rightarrow>
     rcheck (used \<noteq> 0) (plain (NodeFailed ''the node did not report the compute used'')) (
     rbind (on_err plain (tokenAfter C result 0 (wp_outMint p) (wp_user p))) (\<lambda>after.
     rcheck (\<not> after \<le> wp_outBefore p) (SwapErr True (StateRefused (Because ''the pool would pay nothing''))) (
     let limit = limitFor (if closes p then used + closeComputeAllowance else used) in
     Inr (p\<lparr>wp_expectedOut := after - wp_outBefore p, wp_neededLimit := limit, wp_limit := limit\<rparr>))))))"

definition swap_verdict :: "('a) swap_ctx_scheme \<Rightarrow> swap_node \<Rightarrow> nat \<Rightarrow> swap_plan \<Rightarrow> byte list \<Rightarrow> swap_err + u64" where
  "swap_verdict C N call p message =
     rbind (on_err plain (simulateSwap N call message (if wp_outSOL p then [] else [wp_dest p]))) (\<lambda>result.
     let units = (case sm_Units result of Some u \<Rightarrow> u | None \<Rightarrow> 0) in
     case sm_Err result of
       Some failure \<Rightarrow>
         if computeExhausted failure (sm_Logs result) then Inl (NeedsMoreCompute False (max units (ucast (wp_limit p))))
         else Inl (explainSwap C p failure (sm_Logs result) message)
     | None \<Rightarrow>
         rbind (if wp_outSOL p then Inr () else
           rbind (on_err plain (tokenAfter C result 0 (wp_outMint p) (wp_user p))) (\<lambda>after.
           rcheck (\<not> (after < wp_outBefore p \<or> after - wp_outBefore p < last (wp_hopMin p)))
             (SwapErr True (StateRefused (Because ''the pool would now pay less than the minimum''))) (Inr ()))) (\<lambda>_. Inr units))"

definition swap_precheck :: "swap_plan \<Rightarrow> swap_err + unit" where
  "swap_precheck p =
     (let need = swap_cost p; need = (if wp_wsolCreate p then need + wp_tokenRent p else need);
          need = (if wp_inSOL p then need + wp_amountIn p else need);
          refusal = StateRefused (CostNotCovered (wp_balance p) need (need - wp_balance p)) in
      if wp_balance p \<ge> need then Inr ()
      else if wp_balance p \<ge> need - routeOnlyRent p then Inl (SwapErr True refusal) else Inl (plain refusal))"

definition swap_priority :: "swap_node \<Rightarrow> swap_plan \<Rightarrow> sol_err + swap_plan" where
  "swap_priority N p =
     rbind (priorityPrice (sol_node.truncate N) (wp_user p # concat (map (\<lambda>hop. hs_pool (sh_spec hop) # vaults hop) (wp_hops p)))) (\<lambda>base.
     Inr (p\<lparr>wp_basePrice := base, wp_price := offeredPrice base\<rparr>))"

end
