(* ===== verification/SolanaSwapSend.thy ===== *)
theory SolanaSwapSend
  imports SolanaSwap SolanaSend
begin

text \<open>
  Quoting and sending a swap (internal/chain/solana/swap.go): the checks every swap starts with, the
  comparison of a quoted route with the pools' curves, the quote with its route and fee, the approval that
  comes back, and \<open>Swap\<close> up to the signature.

  The answers of the Trade API and of the discovery of pools are arguments of the quote.
\<close>

section \<open>Requests and quotes\<close>

definition MaxSwapSlippageBps :: u16 where "MaxSwapSlippageBps = 500"
definition swapQuoteDeviationBps :: u64 where "swapQuoteDeviationBps = 50"
definition maxDiscoveryCandidates :: nat where "maxDiscoveryCandidates = 3"

record swap_hop_dto =
  sd_Pool :: string
  sd_Kind :: string
  sd_InputMint :: string
  sd_OutputMint :: string

record swap_route =
  sr_Hops :: "swap_hop_dto list"
  sr_LookupTables :: "string list"

record swap_quote_request =
  sqr_From :: string
  sqr_In :: chain_asset
  sqr_Out :: chain_asset
  sqr_Amount :: string
  sqr_SlippageBps :: u16

record swap_quote =
  qt_NetworkID :: string
  qt_AmountIn :: string
  qt_AmountOut :: string
  qt_MinOut :: string
  qt_SlippageBps :: u16
  qt_Source :: string
  qt_QuotedOut :: string
  qt_PriceImpactPct :: "rat option"
  qt_QuoteDeviationPct :: "rat option"
  qt_APIRouteRejected :: "swap_err option"
  qt_Route :: swap_route
  qt_IntermediateMint :: string
  qt_IntermediateLeftover :: string
  qt_UnwrapsWrappedSOL :: string
  qt_MessageVersion :: string
  qt_MessageSize :: nat
  qt_FeeModel :: string
  qt_Fee :: string
  qt_ComputeUnitLimit :: u64
  qt_ComputeUnitPriceMicroLamports :: u64
  qt_TokenAccountsCreated :: int
  qt_TokenAccountRent :: string
  qt_NativeBalance :: string

record swap_fee =
  sf_ComputeUnitLimit :: u64
  sf_ComputeUnitPriceMicroLamports :: u64
  sf_TokenAccountsCreated :: int
  sf_TokenAccountRent :: string
  sf_Fee :: string

record swap_request =
  sw_From :: string
  sw_In :: chain_asset
  sw_Out :: chain_asset
  sw_Amount :: string
  sw_SlippageBps :: u16
  sw_MinOut :: string
  sw_Route :: swap_route
  sw_Approved :: swap_fee

definition amountText :: "('a) swap_ctx_scheme \<Rightarrow> u64 \<Rightarrow> byte \<Rightarrow> string" where
  "amountText C v decimals = sc_show C (of_nat (unat v) / 10 ^ unat decimals)"

text \<open>\<open>client\<close> gives the chain id of the network and its nodes.\<close>

definition swapContext :: "('a) swap_ctx_scheme \<Rightarrow> sol_err + string \<times> swap_node \<Rightarrow> string \<Rightarrow> u16 \<Rightarrow> sol_err + swap_node \<times> pubkey" where
  "swapContext C client from slippage =
     rbind client (\<lambda>(chainID, N).
     rcheck (chainID = ''mainnet'') (Refused ''swaps are available on Solana mainnet only'') (
     case sc_key C from of None \<Rightarrow> Inl (Refused ''invalid sender address'') | Some user \<Rightarrow>
     rcheck (\<not> (slippage = 0 \<or> slippage > MaxSwapSlippageBps)) (Refused ''slippage must be between 1 and 500 basis points'') (Inr (N, user))))"

section \<open>The pools' own price\<close>

definition quoted_keys :: "swap_hop list \<Rightarrow> pubkey list" where
  "quoted_keys hops = concat (map (\<lambda>h. (case sh_pool h of PoolCPMM p \<Rightarrow> [cp_AmmConfig p] | _ \<Rightarrow> []) @ vaults h) hops)"

definition vaultAmount :: "('a) swap_ctx_scheme \<Rightarrow> sol_account option \<Rightarrow> swap_err + u64" where
  "vaultAmount C acc =
     (case acc of None \<Rightarrow> Inl (SwapErr True (Refused ''a pool vault is not a token account'')) | Some a \<Rightarrow>
      rcheck (\<not> (sa_Owner a \<noteq> token_program_id C \<or> length (sa_Data a) \<noteq> tokenAccountSize))
        (SwapErr True (Refused ''a pool vault is not a token account'')) (Inr (le_u64 (take 8 (drop 64 (sa_Data a))))))"

fun curve_out :: "('a) swap_ctx_scheme \<Rightarrow> swap_hop list \<Rightarrow> sol_account option list \<Rightarrow> u64 \<Rightarrow> swap_err + u64" where
  "curve_out C [] accounts amount = Inr amount"
| "curve_out C (h # hops) accounts amount =
     (let inMint = hs_inMint (sh_spec h) in
      rbind (case sh_pool h of
          PoolCPMM p \<Rightarrow>
            (case accounts ! 0 of None \<Rightarrow> Inl (SwapErr True (Refused ''the CPMM pool's config does not exist'')) | Some a \<Rightarrow>
             rbind (as_route (on_err raydium_refused (DecodeCPMMConfig (raydium_lib C) (sa_Owner a) (sa_Data a)))) (\<lambda>config. Inr (Some config, drop 1 accounts)))
        | _ \<Rightarrow> Inr (None, accounts)) (\<lambda>(config, accounts).
      rbind (vaultAmount C (accounts ! 0)) (\<lambda>first.
      rbind (vaultAmount C (accounts ! 1)) (\<lambda>second.
      rbind (as_route (on_err raydium_state (case sh_pool h of
          PoolAMMV4 p \<Rightarrow> AMMV4Pool_AmountOut p inMint amount first second
        | PoolCPMM p \<Rightarrow> CPMMPool_AmountOut p (the config) inMint amount first second
        | PoolCLMM p \<Rightarrow> Inl Panic))) (\<lambda>amount.
      curve_out C hops (drop 2 accounts) amount)))))"

definition checkQuotedOut :: "('a) swap_ctx_scheme \<Rightarrow> swap_node \<Rightarrow> swap_plan \<Rightarrow> u64 \<Rightarrow> swap_err + unit" where
  "checkQuotedOut C N p quoted =
     (if list_ex (\<lambda>h. case sh_pool h of PoolCLMM _ \<Rightarrow> True | _ \<Rightarrow> False) (wp_hops p) then Inr () else
      rbind (on_err plain (readAccounts (sol_node.truncate N) (quoted_keys (wp_hops p)))) (\<lambda>accounts.
      rbind (curve_out C (wp_hops p) accounts (wp_amountIn p)) (\<lambda>amount.
      as_route (on_err raydium_refused (CheckQuotedOut amount quoted swapQuoteDeviationBps)))))"

section \<open>Quotes\<close>

definition plan_route :: "('a) swap_ctx_scheme \<Rightarrow> swap_plan \<Rightarrow> swap_route" where
  "plan_route C p =
     \<lparr>sr_Hops = map (\<lambda>h. \<lparr>sd_Pool = sc_base58 C (hs_pool (sh_spec h)), sd_Kind = Kind_String (hs_kind (sh_spec h)),
        sd_InputMint = sc_base58 C (hs_inMint (sh_spec h)), sd_OutputMint = sc_base58 C (hs_outMint (sh_spec h))\<rparr>) (wp_hops p),
      sr_LookupTables = map (sc_base58 C) (wp_tableKeys p)\<rparr>"

text \<open>The final message of a quote; the limit is raised once when it ran out of compute.\<close>

definition quote_message :: "('a) swap_ctx_scheme \<Rightarrow> swap_node \<Rightarrow> swap_plan \<Rightarrow> swap_err + swap_plan \<times> byte list \<times> bool" where
  "quote_message C N p =
     rbind (swap_precheck p) (\<lambda>_.
     rbind (swap_message_of C p StageFinal no_hash) (\<lambda>(message, versioned).
     case swap_verdict C N 2 p message of
       Inr _ \<Rightarrow> Inr (p, message, versioned)
     | Inl (NeedsMoreCompute r spent) \<Rightarrow>
         (let p = p\<lparr>wp_neededLimit := limitFor spent, wp_limit := limitFor spent\<rparr> in
          rbind (swap_precheck p) (\<lambda>_.
          rbind (swap_message_of C p StageFinal no_hash) (\<lambda>(message, versioned).
          case swap_verdict C N 3 p message of
            Inr _ \<Rightarrow> Inr (p, message, versioned)
          | Inl (NeedsMoreCompute r u) \<Rightarrow> Inl (NeedsMoreCompute True u)
          | Inl e \<Rightarrow> Inl e)))
     | Inl e \<Rightarrow> Inl e))"

definition quote_of :: "('a) swap_ctx_scheme \<Rightarrow> swap_plan \<Rightarrow> byte list \<Rightarrow> bool \<Rightarrow> byte \<Rightarrow> swap_quote \<Rightarrow> swap_quote" where
  "quote_of C p message versioned outDecimals q =
     q\<lparr>qt_AmountOut := amountText C (wp_expectedOut p) outDecimals, qt_MinOut := amountText C (last (wp_hopMin p)) outDecimals,
       qt_Route := plan_route C p, qt_MessageVersion := (if versioned then ''v0'' else ''legacy''),
       qt_MessageSize := length message + signedOverhead, qt_FeeModel := feeModel, qt_Fee := sol (sol_ctx.truncate C) (swap_cost p),
       qt_ComputeUnitLimit := ucast (wp_limit p), qt_ComputeUnitPriceMicroLamports := wp_price p,
       qt_TokenAccountsCreated := persistentCreates p,
       qt_TokenAccountRent := (if persistentCreates p > 0 then sol (sol_ctx.truncate C) (swap_rent p) else qt_TokenAccountRent q),
       qt_NativeBalance := sol (sol_ctx.truncate C) (wp_balance p),
       qt_UnwrapsWrappedSOL := (if wp_wsolBefore p > 0 then sol (sol_ctx.truncate C) (wp_wsolBefore p) else qt_UnwrapsWrappedSOL q),
       qt_IntermediateMint := (if length (wp_hops p) = 2 then sc_base58 C (hs_outMint (sh_spec (wp_hops p ! 0))) else qt_IntermediateMint q),
       qt_IntermediateLeftover := (if length (wp_hops p) = 2 then amountText C (wp_midOut p - wp_hopIn p ! 1) (wp_midDecimals p)
         else qt_IntermediateLeftover q)\<rparr>"

definition finishQuote :: "('a) swap_ctx_scheme \<Rightarrow> swap_node \<Rightarrow> swap_plan \<Rightarrow> byte \<Rightarrow> swap_quote \<Rightarrow> swap_err + swap_quote \<times> swap_plan" where
  "finishQuote C N p outDecimals q =
     rbind (on_err plain (swap_priority N p)) (\<lambda>p.
     rbind (measure_swap C N p) (\<lambda>p.
     let least = swap_withSlippage (wp_expectedOut p) (wp_slippage p);
         p = p\<lparr>wp_hopMin := (wp_hopMin p)[length (wp_hopMin p) - 1 := least]\<rparr> in
     rcheck (least \<noteq> 0) (SwapErr True (Refused ''the amount is too small to swap'')) (
     rbind (quote_message C N p) (\<lambda>(p, message, versioned).
     let p = (if versioned then p else p\<lparr>wp_tables := Map.empty, wp_tableKeys := []\<rparr>) in
     Inr (quote_of C p message versioned outDecimals q, p)))))"

text \<open>The Trade API's route as hops; an empty list of tick arrays is Go's nil.\<close>

definition api_hop :: "('a) swap_ctx_scheme \<Rightarrow> Hop \<Rightarrow> hop_spec" where
  "api_hop C h = \<lparr>hs_pool = hop_Pool h, hs_inMint = hop_InputMint h, hs_outMint = hop_OutputMint h,
     hs_kind = KindOf (raydium_lib C) (hop_Program h),
     hs_remaining = (if hop_RemainingAccounts h = [] then None else Some (hop_RemainingAccounts h))\<rparr>"

fun named_tables :: "(pubkey \<rightharpoonup> pubkey) \<Rightarrow> pubkey list \<Rightarrow> pubkey list \<Rightarrow> pubkey list" where
  "named_tables named [] tables = tables"
| "named_tables named (pool # pools) tables =
     named_tables named pools (case named pool of Some table \<Rightarrow> if table \<notin> set tables then tables @ [table] else tables | None \<Rightarrow> tables)"

definition deviation :: "u64 \<Rightarrow> u64 \<Rightarrow> rat" where
  "deviation quoted paid = of_int (uint quoted - uint paid) / of_int (uint quoted) * 100"

definition quoteAPIRoute ::
  "('a) swap_ctx_scheme \<Rightarrow> swap_node \<Rightarrow> string \<Rightarrow> (pubkey \<rightharpoonup> pubkey) \<Rightarrow> Route \<Rightarrow> pubkey \<Rightarrow> swap_quote_request \<Rightarrow> u64 \<Rightarrow> int \<Rightarrow> swap_quote
     \<Rightarrow> (rents, swap_err, swap_quote) op" where
  "quoteAPIRoute C N networkID named route user req amountIn now q =
     (let hops = map (api_hop C) (rt_Hops route); pools = map hop_Pool (rt_Hops route) in
      case (swapMint C (sqr_In req) networkID, swapMint C (sqr_Out req) networkID) of
        (Inr (inMint, _), Inr (outMint, _)) \<Rightarrow>
          sbind (slift (on_err (SwapErr True) (checkHops C hops inMint outMint))) (\<lambda>_.
          sbind (loadSwap C N networkID user (sqr_In req) (sqr_Out req) amountIn (sqr_SlippageBps req) hops (named_tables named pools []) True now) (\<lambda>p.
          sbind (slift (checkQuotedOut C N p (rt_AmountOut route))) (\<lambda>_.
          let q = q\<lparr>qt_Source := ''raydium_api'', qt_QuotedOut := amountText C (rt_AmountOut route) (ca_Decimals (sqr_Out req)),
                qt_PriceImpactPct := Some (rt_PriceImpactPct route)\<rparr> in
          sbind (slift (finishQuote C N p (ca_Decimals (sqr_Out req)) q)) (\<lambda>(q, p).
          sret (if length (wp_hops p) = 1 then q\<lparr>qt_QuoteDeviationPct := Some (deviation (rt_AmountOut route) (wp_expectedOut p))\<rparr> else q)))))
      | _ \<Rightarrow> sfail (plain (Refused ''swap mint'')))"

text \<open>The pools found on chain, in turn: the first refusal is the one that is reported.\<close>

fun try_candidates ::
  "(pubkey \<times> kind \<Rightarrow> (rents, swap_err, swap_quote) op) \<Rightarrow> (pubkey \<times> kind) list \<Rightarrow> swap_err option \<Rightarrow> (rents, swap_err, swap_quote) op" where
  "try_candidates attempt [] firstErr rents = (rents, Inl (case firstErr of Some e \<Rightarrow> e | None \<Rightarrow> plain (NodeFailed [])))"
| "try_candidates attempt (c # cs) firstErr rents =
     (case attempt c rents of
        (rents, Inr q) \<Rightarrow> (rents, Inr q)
      | (rents, Inl e) \<Rightarrow> if \<not> is_route e then (rents, Inl e)
          else try_candidates attempt cs (case firstErr of Some f \<Rightarrow> Some f | None \<Rightarrow> Some e) rents)"

text \<open>A failing discovery says whether it found that no pool trades the pair.\<close>

definition discovery_refused :: "bool \<Rightarrow> swap_err" where
  "discovery_refused noPool = plain (if noPool then StateRefused (Because ''no Raydium pool trades this pair'') else NodeFailed ''find Raydium pools'')"

definition discovered_hop :: "pubkey \<Rightarrow> pubkey \<Rightarrow> pubkey \<times> kind \<Rightarrow> hop_spec" where
  "discovered_hop inMint outMint = (\<lambda>(pool, kind). \<lparr>hs_pool = pool, hs_inMint = inMint, hs_outMint = outMint, hs_kind = kind, hs_remaining = None\<rparr>)"

definition new_quote :: "('a) swap_ctx_scheme \<Rightarrow> string \<Rightarrow> swap_quote_request \<Rightarrow> u64 \<Rightarrow> swap_quote" where
  "new_quote C networkID req amountIn =
     \<lparr>qt_NetworkID = networkID, qt_AmountIn = amountText C amountIn (ca_Decimals (sqr_In req)), qt_AmountOut = [], qt_MinOut = [], qt_SlippageBps = sqr_SlippageBps req,
      qt_Source = [], qt_QuotedOut = [], qt_PriceImpactPct = None, qt_QuoteDeviationPct = None, qt_APIRouteRejected = None,
      qt_Route = \<lparr>sr_Hops = [], sr_LookupTables = []\<rparr>, qt_IntermediateMint = [], qt_IntermediateLeftover = [], qt_UnwrapsWrappedSOL = [],
      qt_MessageVersion = [], qt_MessageSize = 0, qt_FeeModel = [], qt_Fee = [], qt_ComputeUnitLimit = 0,
      qt_ComputeUnitPriceMicroLamports = 0, qt_TokenAccountsCreated = 0, qt_TokenAccountRent = [], qt_NativeBalance = []\<rparr>"

definition QuoteSwap ::
  "('a) swap_ctx_scheme \<Rightarrow> sol_err + string \<times> swap_node \<Rightarrow> string \<Rightarrow> swap_quote_request \<Rightarrow> sol_err + Route \<Rightarrow> (pubkey \<rightharpoonup> pubkey)
     \<Rightarrow> bool + (pubkey \<times> kind) list \<Rightarrow> (rents, swap_err, swap_quote) op" where
  "QuoteSwap C client networkID req api named discover =
     sbind (slift (on_err plain (swapContext C client (sqr_From req) (sqr_SlippageBps req)))) (\<lambda>(N, user).
     sbind (slift (on_err plain (swapMint C (sqr_In req) networkID))) (\<lambda>(inMint, _).
     sbind (slift (on_err plain (swapMint C (sqr_Out req) networkID))) (\<lambda>(outMint, _).
     sbind (scheck (inMint \<noteq> outMint) (plain (Refused ''cannot swap an asset for itself''))) (\<lambda>_.
     sbind (slift (on_err plain (units (sol_ctx.truncate C) (sqr_Amount req) (ca_Decimals (sqr_In req))))) (\<lambda>amountIn.
     sbind (slift (on_err plain (chainTime N))) (\<lambda>now.
     let q = new_quote C networkID req amountIn;
         find_pools = (\<lambda>apiErr.
           sbind (slift (on_err discovery_refused discover)) (\<lambda>candidates.
           try_candidates (\<lambda>c.
             sbind (loadSwap C N networkID user (sqr_In req) (sqr_Out req) amountIn (sqr_SlippageBps req) [discovered_hop inMint outMint c] [] False now) (\<lambda>p.
             sbind (slift (finishQuote C N p (ca_Decimals (sqr_Out req)) (q\<lparr>qt_APIRouteRejected := Some apiErr, qt_Source := ''discovery''\<rparr>))) (\<lambda>(q, _). sret q)))
             (take maxDiscoveryCandidates candidates) None)) in
     case api of
       Inl e \<Rightarrow> find_pools (plain e)
     | Inr route \<Rightarrow> (\<lambda>rents.
         case quoteAPIRoute C N networkID named route user req amountIn now q rents of
           (rents, Inr q) \<Rightarrow> (rents, Inr q)
         | (rents, Inl e) \<Rightarrow> if \<not> is_route e then (rents, Inl e) else find_pools e rents)))))))"

section \<open>Approved swaps\<close>

definition kind_of_text :: "string \<Rightarrow> kind option" where
  "kind_of_text = map_of [(''amm-v4'', KindAMMV4), (''cpmm'', KindCPMM), (''clmm'', KindCLMM)]"

definition parse_hop :: "('a) swap_ctx_scheme \<Rightarrow> swap_hop_dto \<Rightarrow> sol_err + hop_spec" where
  "parse_hop C hop =
     (case kind_of_text (sd_Kind hop) of None \<Rightarrow> Inl (Refused ''unknown pool kind'') | Some kind \<Rightarrow>
      case (sc_key C (sd_Pool hop), sc_key C (sd_InputMint hop), sc_key C (sd_OutputMint hop)) of
        (Some pool, Some inMint, Some outMint) \<Rightarrow>
          Inr \<lparr>hs_pool = pool, hs_inMint = inMint, hs_outMint = outMint, hs_kind = kind, hs_remaining = None\<rparr>
      | _ \<Rightarrow> Inl (Refused ''the route names an invalid address''))"

fun parse_tables :: "('a) swap_ctx_scheme \<Rightarrow> string list \<Rightarrow> pubkey list \<Rightarrow> sol_err + pubkey list" where
  "parse_tables C [] tables = Inr tables"
| "parse_tables C (t # rest) tables =
     (case sc_key C t of None \<Rightarrow> Inl (Refused ''the route names an invalid lookup table'') | Some table \<Rightarrow>
      rcheck (table \<notin> set tables) (Refused ''the route names an invalid lookup table'') (parse_tables C rest (tables @ [table])))"

definition parseSwapRoute :: "('a) swap_ctx_scheme \<Rightarrow> swap_route \<Rightarrow> sol_err + hop_spec list \<times> pubkey list" where
  "parseSwapRoute C route =
     rcheck (\<not> (sr_Hops route = [] \<or> length (sr_Hops route) > MaxHops)) (Refused ''a route has 1 or 2 pools'') (
     rbind (rmap (parse_hop C) (sr_Hops route)) (\<lambda>hops.
     rcheck (\<not> length (sr_LookupTables route) > MaxHops) (Refused ''a route names at most 2 lookup tables'') (
     rbind (parse_tables C (sr_LookupTables route) []) (\<lambda>tables. Inr (hops, tables)))))"

record swap_approval =
  wa_limit :: u32
  wa_price :: u64
  wa_creates :: int
  wa_rent :: u64
  wa_fee :: u64

definition parseSwapApproval :: "('a) swap_ctx_scheme \<Rightarrow> swap_fee \<Rightarrow> sol_err + swap_approval" where
  "parseSwapApproval C f =
     rcheck (\<not> (sf_ComputeUnitLimit f = 0 \<or> sf_ComputeUnitLimit f > maxComputeUnitLimit))
       (Refused ''the approved compute-unit limit is out of range'') (
     rcheck (\<not> sf_ComputeUnitPriceMicroLamports f > maxComputeUnitPrice) (Refused ''the approved compute-unit price is above the ceiling'') (
     rcheck (\<not> (sf_TokenAccountsCreated f < 0 \<or> sf_TokenAccountsCreated f > int MaxHops))
       (Refused ''the approved number of new token accounts is out of range'') (
     rbind (if sf_TokenAccountsCreated f > 0 then
         (case lamports (sol_ctx.truncate C) (sf_TokenAccountRent f) of None \<Rightarrow> Inl (Refused ''the approved token account rent is not an amount'')
          | Some rent \<Rightarrow> rcheck (rent \<noteq> 0) (Refused ''the approved token account rent is not an amount'') (Inr rent))
       else if sf_TokenAccountRent f \<noteq> [] then
         rcheck (lamports (sol_ctx.truncate C) (sf_TokenAccountRent f) = Some 0) (Refused ''a token account rent was approved without opening an account'') (Inr 0)
       else Inr 0) (\<lambda>rent.
     case lamports (sol_ctx.truncate C) (sf_Fee f) of None \<Rightarrow> Inl (Refused ''the approved fee is not an amount'') | Some fee \<Rightarrow>
     let limit = ucast (sf_ComputeUnitLimit f); price = sf_ComputeUnitPriceMicroLamports f;
         total = lamportsPerSignature + priorityFee limit price + rent in
     rcheck (total = fee) (Refused ''the approved fee does not add up to its parts'')
       (Inr \<lparr>wa_limit = limit, wa_price = price, wa_creates = sf_TokenAccountsCreated f, wa_rent = rent, wa_fee = fee\<rparr>)))))"

definition swap_within_approval :: "swap_plan \<Rightarrow> swap_approval \<Rightarrow> sol_err + unit" where
  "swap_within_approval p a =
     rcheck (\<not> wp_neededLimit p > wa_limit a) (FeeMoved ''the swap now needs more compute units'') (
     rcheck (\<not> wp_basePrice p > wa_price a) (FeeMoved ''the priority price is higher now'') (
     rcheck (\<not> persistentCreates p > wa_creates a) (FeeMoved ''the swap now opens more token accounts'') (
     rcheck (\<not> swap_rent p > wa_rent a) (FeeMoved ''opening token accounts now costs more'') (Inr ()))))"

definition swap_moved :: "swap_err \<Rightarrow> swap_err" where
  "swap_moved e = (case e of SwapErr r e \<Rightarrow> SwapErr r (stateChanged e) | _ \<Rightarrow> e)"

text \<open>The plan as it is now, checked against what was approved; the approved values are what gets signed.\<close>

definition approved_plan ::
  "('a) swap_ctx_scheme \<Rightarrow> swap_node \<Rightarrow> swap_approval \<Rightarrow> u64 \<Rightarrow> swap_plan \<Rightarrow> swap_err + swap_plan" where
  "approved_plan C N a minOut p =
     rbind (on_err plain (swap_priority N p)) (\<lambda>p.
     rbind (on_err swap_moved (measure_swap C N p)) (\<lambda>p.
     rcheck (\<not> wp_expectedOut p < minOut) (plain (StateMoved (StateRefused (Because ''the swap now pays below the approved minimum'')))) (
     rcheck (\<not> minOut < swap_withSlippage (wp_expectedOut p) MaxSwapSlippageBps)
       (plain (StateMoved (StateRefused (Because ''the approved minimum is too far below the current output'')))) (
     rbind (on_err plain (swap_within_approval p a)) (\<lambda>_.
     let p = p\<lparr>wp_limit := wa_limit a, wp_price := wa_price a, wp_hopMin := (wp_hopMin p)[length (wp_hopMin p) - 1 := minOut]\<rparr> in
     rbind (on_err swap_moved (swap_precheck p)) (\<lambda>_. Inr p))))))"

text \<open>The final message, built by \<open>final\<close>, decoded and compared with the plan, and simulated once more.\<close>

definition checked_message ::
  "('a) swap_ctx_scheme \<Rightarrow> swap_node \<Rightarrow> (swap_plan \<Rightarrow> byte list \<Rightarrow> swap_err + byte list) \<Rightarrow> swap_plan \<Rightarrow> swap_err + byte list \<times> u64" where
  "checked_message C N final p =
     rbind (on_err plain (latestBlockhash (sol_node.truncate N))) (\<lambda>(blockhash, lastValid).
     rbind (final p blockhash) (\<lambda>message.
     rbind (on_err (refused_by (\<lambda>_. NodeFailed ''instructions'')) (swap_instructions C p StageFinal)) (\<lambda>(want, swaps).
     rbind (on_err Mismatched_swap (verifySwapMessage C message (wp_user p) blockhash want swaps (wp_tables p))) (\<lambda>_.
     rbind (on_err swap_moved (swap_verdict C N 2 p message)) (\<lambda>_. Inr (message, lastValid))))))"

definition swapMessage ::
  "('a) swap_ctx_scheme \<Rightarrow> (swap_plan \<Rightarrow> byte list \<Rightarrow> swap_err + byte list) \<Rightarrow> sol_err + string \<times> swap_node \<Rightarrow> string \<Rightarrow> swap_request
     \<Rightarrow> (rents, swap_err, byte list \<times> u64) op" where
  "swapMessage C final client networkID req =
     sbind (slift (on_err plain (parseSwapApproval C (sw_Approved req)))) (\<lambda>a.
     sbind (slift (on_err plain (parseSwapRoute C (sw_Route req)))) (\<lambda>(hops, tables).
     sbind (slift (on_err plain (swapContext C client (sw_From req) (sw_SlippageBps req)))) (\<lambda>(N, user).
     sbind (slift (on_err plain (units (sol_ctx.truncate C) (sw_Amount req) (ca_Decimals (sw_In req))))) (\<lambda>amountIn.
     sbind (slift (on_err (\<lambda>_. plain (Refused ''the minimum output must be a positive amount''))
       (units (sol_ctx.truncate C) (sw_MinOut req) (ca_Decimals (sw_Out req))))) (\<lambda>minOut.
     sbind (slift (on_err plain (chainTime N))) (\<lambda>now.
     sbind (\<lambda>rents. case loadSwap C N networkID user (sw_In req) (sw_Out req) amountIn (sw_SlippageBps req) hops tables False now rents of
         (rents, r) \<Rightarrow> (rents, on_err swap_moved r)) (\<lambda>p.
     slift (rbind (approved_plan C N a minOut p) (checked_message C N final)))))))))"

fun swap_chain_error :: "swap_err \<Rightarrow> chain_error" where
  "swap_chain_error (SwapErr r e) = chain_error_of e"
| "swap_chain_error (Mismatched_swap m) = ErrInvalidRequest"
| "swap_chain_error (NeedsMoreCompute r u) = ErrFeeChanged"
| "swap_chain_error Panicked = ChainErr ''panic''"

definition Swap ::
  "('a) swap_ctx_scheme \<Rightarrow> (swap_plan \<Rightarrow> byte list \<Rightarrow> swap_err + byte list) \<Rightarrow> store_env \<Rightarrow> bool \<Rightarrow> sol_err + string \<times> swap_node \<Rightarrow> string
     \<Rightarrow> swap_request \<Rightarrow> (family \<times> pubkey) option \<Rightarrow> node_answer \<Rightarrow> rents \<Rightarrow> rents \<times> (transaction \<times> chain_error option) world" where
  "Swap C final ev ended client networkID req key node rents =
     (case sbind (slift (on_err plain (messageSigner (sol_ctx.truncate C) key (sw_From req)))) (\<lambda>pub.
           sbind (swapMessage C final client networkID req) (\<lambda>(message, lastValid). sret (pub, message, lastValid))) rents of
        (rents, Inl e) \<Rightarrow> (rents, Finished (no_transaction, Some (swap_chain_error e)))
      | (rents, Inr (pub, message, lastValid)) \<Rightarrow>
          (rents, signAndBroadcast ev ended networkID (sc_verify C pub message) (sc_base58 C) message lastValid node))"

end
