(* ===== verification/SolanaSwapSafety.thy ===== *)
theory SolanaSwapSafety
  imports SolanaSwapSend SolanaSafety
begin

text \<open>
  What a swap may sign, followed from the request to the message: the plan of a request and what each
  stage keeps of it, the terms of the planned Raydium swaps, the approval, and \<open>may_swap\<close>.
\<close>

section \<open>The plan of a request\<close>

definition same_swap :: "swap_plan \<Rightarrow> swap_plan \<Rightarrow> bool" where
  "same_swap p q \<longleftrightarrow> wp_user q = wp_user p \<and> wp_inMint q = wp_inMint p \<and> wp_outMint q = wp_outMint p \<and> wp_inSOL q = wp_inSOL p \<and>
     wp_outSOL q = wp_outSOL p \<and> wp_amountIn q = wp_amountIn p \<and> wp_wsol q = wp_wsol p \<and> wp_source q = wp_source p \<and>
     wp_mid q = wp_mid p \<and> wp_dest q = wp_dest p"

lemma same_swap_refl [simp]: "same_swap p p"
  by (simp add: same_swap_def)

lemma same_swap_trans: "same_swap p q \<Longrightarrow> same_swap q r \<Longrightarrow> same_swap p r"
  by (simp add: same_swap_def)

text \<open>What the measurement leaves as it was loaded.\<close>

definition same_hops :: "swap_plan \<Rightarrow> swap_plan \<Rightarrow> bool" where
  "same_hops p q \<longleftrightarrow> wp_hops q = wp_hops p \<and> wp_hopIn q = wp_hopIn p \<and> wp_hopMin q = wp_hopMin p"

lemma load_wsol_Inr: "load_wsol C byKey midMint p = Inr q \<Longrightarrow> same_swap p q \<and> same_hops p q"
  by (auto simp: load_wsol_def rbind_eq_Inr same_swap_def same_hops_def split: if_splits option.splits)

lemma account_before_Inr: "account_before C byKey p account mint = Inr (before, q) \<Longrightarrow> same_swap p q \<and> same_hops p q"
  by (auto simp: account_before_def rbind_eq_Inr same_swap_def same_hops_def split: if_splits option.splits)

lemma load_accounts_Inr:
  assumes "load_accounts C byKey midMint hops p = Inr q"
  shows "same_swap p q \<and> same_hops p q"
proof -
  obtain p1 p2 b p3 before where s: "load_wsol C byKey midMint p = Inr p1"
    "(if hops = 2 then rbind (on_err (SwapErr True) (account_before C byKey p1 (wp_mid p1) midMint)) (\<lambda>(before, p). Inr (p\<lparr>wp_midBefore := before\<rparr>))
      else Inr p1) = Inr p2"
    "account_before C byKey p2 (wp_dest p2) (wp_outMint p2) = Inr (before, p3)" "q = p3\<lparr>wp_outBefore := before\<rparr>"
    using assms by (auto simp: load_accounts_def rbind_eq_Inr)
  have "same_swap p1 p2 \<and> same_hops p1 p2"
    using s(2) by (auto simp: rbind_eq_Inr same_swap_def same_hops_def split: if_splits dest!: account_before_Inr)
  then show ?thesis using load_wsol_Inr [OF s(1)] account_before_Inr [OF s(3)] by (simp add: s(4) same_swap_def same_hops_def)
qed

lemma load_wallet_Inr:
  assumes "load_wallet C inp out hops accounts p = Inr q"
  shows "same_swap p q \<and> same_hops p q"
proof -
  have "\<exists>balance decimals. Inr (p\<lparr>wp_balance := balance, wp_midDecimals := decimals\<rparr>) = (Inr q :: swap_err + swap_plan)"
    using assms unfolding load_wallet_def Let_def rcheck_eq_Inr rbind_eq_Inr by (elim conjE exE) (rule exI, rule exI, assumption)
  then show ?thesis by (auto simp: same_swap_def same_hops_def)
qed

lemma decodeHop_spec:
  assumes "decodeHop C spec pool extension now = Inr h"
  shows "\<exists>kind. sh_spec h = spec\<lparr>hs_kind := kind\<rparr>"
proof (cases pool)
  case (Some a)
  obtain decoded where "(case decoded of
        PoolCLMM p \<Rightarrow> rbind (decode_clmm C spec p extension) (\<lambda>(e, keys).
          Inr \<lparr>sh_spec = spec\<lparr>hs_kind := KindOf (raydium_lib C) (sa_Owner a)\<rparr>, sh_pool = decoded, sh_extension = e, sh_tickArrays = keys\<rparr>)
      | _ \<Rightarrow> rcheck (\<not> (case hs_remaining spec of None \<Rightarrow> False | Some given \<Rightarrow> length given > 0)) (plain (Refused ''the route gives tick arrays'')) (
          Inr \<lparr>sh_spec = spec\<lparr>hs_kind := KindOf (raydium_lib C) (sa_Owner a)\<rparr>, sh_pool = decoded, sh_extension = None, sh_tickArrays = []\<rparr>)) = Inr h"
    using assms unfolding decodeHop_def Some option.case Let_def rcheck_eq_Inr rbind_eq_Inr case_prod_unfold by blast
  then show ?thesis by (cases decoded) (auto simp: rcheck_eq_Inr rbind_eq_Inr)
qed (use assms in \<open>simp add: decodeHop_def\<close>)

definition hop_route :: "hop_spec \<Rightarrow> pubkey \<times> pubkey \<times> pubkey" where
  "hop_route spec = (hs_pool spec, hs_inMint spec, hs_outMint spec)"

lemma load_hops_Inr:
  assumes "load_hops C hops accounts now = Inr loaded"
  shows "map (\<lambda>h. hop_route (sh_spec h)) loaded = map hop_route hops"
proof -
  have "list_all2 (\<lambda>x h. decodeHop C (snd x) (accounts ! (2 * fst x)) (accounts ! (2 * fst x + 1)) now = Inr h) (zip [0..<length hops] hops) loaded"
    using assms by (simp add: load_hops_def rmap_eq_Inr case_prod_unfold)
  then have "list_all2 (\<lambda>x h. hop_route (sh_spec h) = hop_route (snd x)) (zip [0..<length hops] hops) loaded"
    by (rule list_all2_mono) (auto simp: hop_route_def dest: decodeHop_spec)
  then have "map (\<lambda>h. hop_route (sh_spec h)) loaded = map (\<lambda>x. hop_route (snd x)) (zip [0..<length hops] hops)"
    by (induction rule: list_all2_induct) auto
  also have "\<dots> = map hop_route (map snd (zip [0..<length hops] hops))" unfolding map_map comp_def ..
  also have "map snd (zip [0..<length hops] hops) = hops" by simp
  finally show ?thesis .
qed

lemma loadPlan_Inr:
  assumes "loadPlan C N inp out hops tables optionalTables now p midMint = Inr q"
  shows "same_swap p q \<and> wp_hopIn q = wp_hopIn p \<and> wp_hopMin q = wp_hopMin p \<and> map (\<lambda>h. hop_route (sh_spec h)) (wp_hops q) = map hop_route hops"
proof -
  obtain byKey p1 loaded contents tableKeys n accounts accs where s: "load_wallet C inp out (length hops) accounts p = Inr p1"
    "load_hops C hops accs now = Inr loaded"
    "load_accounts C byKey midMint (length hops) (p1\<lparr>wp_hops := loaded, wp_tables := contents, wp_tableKeys := tableKeys\<rparr>) = Inr q"
    using assms by (auto simp: loadPlan_def Let_def rbind_eq_Inr)
  show ?thesis using load_wallet_Inr [OF s(1)] load_hops_Inr [OF s(2)] load_accounts_Inr [OF s(3)]
    by (auto simp: same_swap_def same_hops_def)
qed

section \<open>The route of a request\<close>

text \<open>The token accounts of a plan are the wallet's own, for the mints the route goes through.\<close>

definition route_accounts :: "('a) swap_ctx_scheme \<Rightarrow> swap_plan \<Rightarrow> (pubkey \<times> pubkey \<times> pubkey) list \<Rightarrow> bool" where
  "route_accounts C p hops \<longleftrightarrow> FindAssociatedTokenAddress C (wp_user p) (wp_inMint p) = Some (wp_source p) \<and>
     FindAssociatedTokenAddress C (wp_user p) (wp_outMint p) = Some (wp_dest p) \<and>
     (length hops = 2 \<longrightarrow> FindAssociatedTokenAddress C (wp_user p) (snd (snd (hops ! 0))) = Some (wp_mid p))"

lemma swapMint_SOL: "swapMint C asset networkID = Inr (mint, isSOL) \<Longrightarrow> isSOL \<Longrightarrow> mint = xc_WrappedSol C"
  by (auto simp: swapMint_def rcheck_eq_Inr split: if_splits option.splits)

lemma associated_Inr: "associated C owner mint = Inr a \<longleftrightarrow> FindAssociatedTokenAddress C owner mint = Some a"
  by (simp add: associated_def split: option.splits)

lemma swap_shape_Inr:
  assumes "swap_shape C networkID user inp out amountIn slippage hops = Inr (p, midMint)"
  shows "wp_user p = user \<and> wp_amountIn p = amountIn \<and> swapMint C inp networkID = Inr (wp_inMint p, wp_inSOL p) \<and>
    swapMint C out networkID = Inr (wp_outMint p, wp_outSOL p) \<and> wp_inMint p \<noteq> wp_outMint p \<and>
    checkHops C hops (wp_inMint p) (wp_outMint p) = Inr () \<and> route_accounts C p (map hop_route hops) \<and>
    wp_hopIn p = amountIn # replicate (length hops - 1) 0 \<and> wp_hopMin p = replicate (length hops) 0"
proof -
  obtain inMint inSOL outMint outSOL where m: "swapMint C inp networkID = Inr (inMint, inSOL)" "swapMint C out networkID = Inr (outMint, outSOL)"
    using assms by (auto simp: swap_shape_def rbind_eq_Inr)
  have sol: "inSOL \<longrightarrow> inMint = xc_WrappedSol C" "outSOL \<longrightarrow> outMint = xc_WrappedSol C" using swapMint_SOL m by blast+
  have h0: "length hops = 2 \<Longrightarrow> snd (snd (map hop_route hops ! 0)) = hs_outMint (hops ! 0)" by (simp add: hop_route_def)
  show ?thesis using assms sol h0
    by (auto simp: swap_shape_def m rbind_eq_Inr rcheck_eq_Inr Let_def associated_Inr route_accounts_def split: if_splits)
qed

lemma checkHops_length: "checkHops C hops inMint outMint = Inr () \<Longrightarrow> length hops = 1 \<or> length hops = 2"
  by (cases hops; cases "tl hops") (auto simp: checkHops_def rcheck_eq_Inr MaxHops_def split: option.splits)

text \<open>A plan for a request: the requested amount of the requested asset, through the requested pools.\<close>

definition swap_of_request :: "('a) swap_ctx_scheme \<Rightarrow> string \<Rightarrow> swap_request \<Rightarrow> swap_plan \<Rightarrow> bool" where
  "swap_of_request C networkID req p \<longleftrightarrow> sc_key C (sw_From req) = Some (wp_user p) \<and>
     (\<exists>v. sc_parse C (sw_Amount req) = Some v \<and> 0 < v \<and> of_nat (unat (wp_amountIn p)) = v * 10 ^ unat (ca_Decimals (sw_In req))) \<and>
     swapMint C (sw_In req) networkID = Inr (wp_inMint p, wp_inSOL p) \<and> swapMint C (sw_Out req) networkID = Inr (wp_outMint p, wp_outSOL p) \<and>
     wp_inMint p \<noteq> wp_outMint p \<and>
     (\<exists>hops tables. parseSwapRoute C (sw_Route req) = Inr (hops, tables) \<and> checkHops C hops (wp_inMint p) (wp_outMint p) = Inr () \<and>
        map (\<lambda>h. hop_route (sh_spec h)) (wp_hops p) = map hop_route hops \<and> route_accounts C p (map hop_route hops))"

section \<open>The terms of the planned swaps\<close>

text \<open>Pool, wallet, the account sold from, the account bought into, the amount sold, the least amount bought.\<close>

fun swap_terms :: "raydium_swap \<Rightarrow> pubkey \<times> pubkey \<times> pubkey \<times> pubkey \<times> u64 \<times> u64" where
  "swap_terms (SwapAMMV4 s) = (s4_Pool s, s4_UserOwner s, s4_UserSource s, s4_UserDestination s, s4_AmountIn s, s4_MinAmountOut s)"
| "swap_terms (SwapCPMM s) = (CPMMSwap.sc_Pool s, CPMMSwap.sc_Payer s, CPMMSwap.sc_InputTokenAccount s, CPMMSwap.sc_OutputTokenAccount s,
     CPMMSwap.sc_AmountIn s, CPMMSwap.sc_MinAmountOut s)"
| "swap_terms (SwapCLMM s) = (CLMMSwap.sl_Pool s, CLMMSwap.sl_Payer s, CLMMSwap.sl_InputTokenAccount s, CLMMSwap.sl_OutputTokenAccount s,
     CLMMSwap.sl_Amount s, CLMMSwap.sl_OtherAmountThreshold s)"

lemma hop_swap_terms:
  assumes "hop_swap C h user source destination amount minOut = Inr (ins, s)"
  shows "swap_terms s = (hs_pool (sh_spec h), user, source, destination, amount, minOut)"
proof (cases "sh_pool h")
  case (PoolAMMV4 p)
  then show ?thesis using assms by (auto simp: hop_swap_def Let_def AMMV4Pool_Swap_def rbind_eq_Inr split: if_splits)
next
  case (PoolCPMM p)
  then show ?thesis using assms by (auto simp: hop_swap_def CPMMPool_Swap_def Let_def rbind_eq_Inr split: if_splits)
next
  case (PoolCLMM p)
  then show ?thesis using assms by (auto simp: hop_swap_def Let_def CLMMPool_Swap_def rbind_eq_Inr)
qed

lemma swap_instructions_terms:
  assumes "swap_instructions C p stage = Inr (want, swaps)"
  shows "map swap_terms swaps =
    map (\<lambda>(h, source, destination, amount, minOut). (hs_pool (sh_spec h), wp_user p, source, destination, amount, minOut)) (swap_legs p stage)"
proof -
  obtain legs where legs: "list_all2 (\<lambda>(h, source, destination, amount, minOut) leg. hop_swap C h (wp_user p) source destination amount minOut = Inr leg)
      (swap_legs p stage) legs" "swaps = map snd legs"
    using assms by (auto simp: swap_instructions_def rbind_eq_Inr rmap_eq_Inr case_prod_unfold)
  from legs(1) have "map (\<lambda>leg. swap_terms (snd leg)) legs =
    map (\<lambda>(h, source, destination, amount, minOut). (hs_pool (sh_spec h), wp_user p, source, destination, amount, minOut)) (swap_legs p stage)"
    by (induction rule: list_all2_induct) (auto dest: hop_swap_terms)
  then show ?thesis by (simp add: legs(2) comp_def)
qed

text \<open>One pool takes the whole amount; of two, the second takes exactly what the first guarantees.\<close>

definition route_terms :: "swap_plan \<Rightarrow> u64 \<Rightarrow> (pubkey \<times> pubkey \<times> pubkey \<times> pubkey \<times> u64 \<times> u64) list" where
  "route_terms p minOut =
     (case wp_hops p of
        [h] \<Rightarrow> [(hs_pool (sh_spec h), wp_user p, wp_source p, wp_dest p, wp_amountIn p, minOut)]
      | [h, h'] \<Rightarrow> [(hs_pool (sh_spec h), wp_user p, wp_source p, wp_mid p, wp_amountIn p, wp_hopMin p ! 0),
          (hs_pool (sh_spec h'), wp_user p, wp_mid p, wp_dest p, wp_hopMin p ! 0, minOut)]
      | _ \<Rightarrow> [])"

text \<open>The lists of a plan fit its route, and the second pool's input is the first one's minimum.\<close>

definition plan_shaped :: "swap_plan \<Rightarrow> bool" where
  "plan_shaped p \<longleftrightarrow> length (wp_hopIn p) = length (wp_hops p) \<and> length (wp_hopMin p) = length (wp_hops p) \<and>
     (length (wp_hops p) = 1 \<or> length (wp_hops p) = 2)"

definition guaranteed :: "swap_plan \<Rightarrow> bool" where
  "guaranteed p \<longleftrightarrow> (length (wp_hops p) = 2 \<longrightarrow> wp_hopIn p ! 1 = wp_hopMin p ! 0)"

lemma swap_legs_final:
  assumes "plan_shaped p" "guaranteed p"
  shows "map (\<lambda>(h, source, destination, amount, minOut). (hs_pool (sh_spec h), wp_user p, source, destination, amount, minOut)) (swap_legs p StageFinal) =
    route_terms p (last (wp_hopMin p))"
proof -
  consider h where "wp_hops p = [h]" | h h' where "wp_hops p = [h, h']"
    using assms(1) by (auto simp: plan_shaped_def length_Suc_conv eval_nat_numeral)
  then show ?thesis
  proof cases
    case 1
    then obtain m where "wp_hopMin p = [m]" using assms(1) by (auto simp: plan_shaped_def length_Suc_conv)
    then show ?thesis using 1 by (simp add: swap_legs_def route_terms_def)
  next
    case 2
    then obtain m n where "wp_hopMin p = [m, n]" using assms(1) by (auto simp: plan_shaped_def length_Suc_conv)
    then show ?thesis using 2 assms(2) by (simp add: swap_legs_def route_terms_def guaranteed_def)
  qed
qed

section \<open>Measuring\<close>

lemma measure_mid_Inr:
  assumes "measure_mid C N p = Inr q"
  shows "\<exists>midOut least. q = p\<lparr>wp_midOut := midOut, wp_hopMin := (wp_hopMin p)[0 := least], wp_hopIn := (wp_hopIn p)[1 := least]\<rparr>"
  using assms unfolding measure_mid_def rbind_eq_Inr rcheck_eq_Inr Let_def sum.inject by metis

lemma measure_swap_Inr:
  assumes "measure_swap C N p = Inr q" "plan_shaped p"
  shows "same_swap p q \<and> wp_hops q = wp_hops p \<and> plan_shaped q \<and> guaranteed q"
proof -
  obtain p1 out limit where p1: "(if length (wp_hops p) = 2 then measure_mid C N p else Inr p) = Inr p1"
    and q: "q = p1\<lparr>wp_expectedOut := out, wp_neededLimit := limit, wp_limit := limit\<rparr>"
    using assms(1) by (auto simp: measure_swap_def rbind_eq_Inr rcheck_eq_Inr Let_def split: option.splits)
  have "same_swap p p1 \<and> wp_hops p1 = wp_hops p \<and> plan_shaped p1 \<and> guaranteed p1"
    using p1 assms(2) by (auto simp: same_swap_def plan_shaped_def guaranteed_def split: if_splits dest!: measure_mid_Inr)
  then show ?thesis by (auto simp: q same_swap_def plan_shaped_def guaranteed_def)
qed

section \<open>Approvals\<close>

text \<open>The limit and price are the approved ones, no more accounts are opened and at no higher rent; the
  minimum is the approved one, no more than the swap pays now and at most 5 percent below it.\<close>

definition within_swap_approval :: "('a) swap_ctx_scheme \<Rightarrow> swap_request \<Rightarrow> swap_plan \<Rightarrow> bool" where
  "within_swap_approval C req p \<longleftrightarrow> unat (wp_limit p) = unat (sf_ComputeUnitLimit (sw_Approved req)) \<and>
     wp_price p = sf_ComputeUnitPriceMicroLamports (sw_Approved req) \<and>
     persistentCreates p \<le> sf_TokenAccountsCreated (sw_Approved req) \<and>
     (\<exists>rent. (if sf_TokenAccountsCreated (sw_Approved req) > 0 then lamports (sol_ctx.truncate C) (sf_TokenAccountRent (sw_Approved req)) = Some rent
             else rent = 0) \<and> swap_rent p \<le> rent) \<and>
     (\<exists>v. sc_parse C (sw_MinOut req) = Some v \<and> 0 < v \<and> of_nat (unat (last (wp_hopMin p))) = v * 10 ^ unat (ca_Decimals (sw_Out req))) \<and>
     last (wp_hopMin p) \<le> wp_expectedOut p \<and> swap_withSlippage (wp_expectedOut p) MaxSwapSlippageBps \<le> last (wp_hopMin p)"

lemma parseSwapApproval_Inr:
  assumes "parseSwapApproval C f = Inr a"
  shows "unat (wa_limit a) = unat (sf_ComputeUnitLimit f) \<and> wa_price a = sf_ComputeUnitPriceMicroLamports f \<and>
    wa_creates a = sf_TokenAccountsCreated f \<and>
    (if sf_TokenAccountsCreated f > 0 then lamports (sol_ctx.truncate C) (sf_TokenAccountRent f) = Some (wa_rent a) else wa_rent a = 0)"
proof -
  have "unat (sf_ComputeUnitLimit f) \<le> 1400000"
    using assms by (auto simp: parseSwapApproval_def rcheck_eq_Inr maxComputeUnitLimit_def not_less word_le_nat_alt)
  then have "unat (ucast (sf_ComputeUnitLimit f) :: u32) = unat (sf_ComputeUnitLimit f)"
    by (simp add: unsigned_ucast_eq take_bit_nat_eq_self)
  then show ?thesis using assms
    by (auto simp: parseSwapApproval_def rcheck_eq_Inr rbind_eq_Inr Let_def split: option.splits if_splits)
qed

lemma units_Inr: "units C s d = Inr n \<Longrightarrow> \<exists>v. sc_parse C s = Some v \<and> 0 < v \<and> of_nat (unat n) = v * 10 ^ unat d"
  by (auto simp: units_def rcheck_eq_Inr split: option.splits dest!: base_units_exact)

lemma swap_priority_Inr: "swap_priority N p = Inr q \<Longrightarrow> \<exists>base. q = p\<lparr>wp_basePrice := base, wp_price := offeredPrice base\<rparr>"
  by (auto simp: swap_priority_def rbind_eq_Inr)

lemma approved_plan_Inr:
  assumes "approved_plan C N a minOut p = Inr q" "plan_shaped p"
  shows "same_swap p q \<and> wp_hops q = wp_hops p \<and> plan_shaped q \<and> guaranteed q \<and> wp_limit q = wa_limit a \<and> wp_price q = wa_price a \<and>
    persistentCreates q \<le> wa_creates a \<and> swap_rent q \<le> wa_rent a \<and> last (wp_hopMin q) = minOut \<and>
    minOut \<le> wp_expectedOut q \<and> swap_withSlippage (wp_expectedOut q) MaxSwapSlippageBps \<le> minOut"
proof -
  obtain base p2 where m: "measure_swap C N (p\<lparr>wp_basePrice := base, wp_price := offeredPrice base\<rparr>) = Inr p2"
    and c: "\<not> wp_expectedOut p2 < minOut" "\<not> minOut < swap_withSlippage (wp_expectedOut p2) MaxSwapSlippageBps" "swap_within_approval p2 a = Inr ()"
    and q: "q = p2\<lparr>wp_limit := wa_limit a, wp_price := wa_price a, wp_hopMin := (wp_hopMin p2)[length (wp_hopMin p2) - 1 := minOut]\<rparr>"
    using assms(1) by (auto simp: approved_plan_def rbind_eq_Inr rcheck_eq_Inr Let_def dest!: swap_priority_Inr)
  have "plan_shaped (p\<lparr>wp_basePrice := base, wp_price := offeredPrice base\<rparr>)" using assms(2) by (auto simp: plan_shaped_def)
  from measure_swap_Inr [OF m this] have s: "same_swap p p2" "wp_hops p2 = wp_hops p" "plan_shaped p2" "guaranteed p2"
    by (simp_all add: same_swap_def)
  have ne: "wp_hopMin p2 \<noteq> []" using s(3) by (auto simp: plan_shaped_def)
  have "last ((wp_hopMin p2)[length (wp_hopMin p2) - 1 := minOut]) = minOut" using ne by (simp add: last_list_update)
  moreover have "plan_shaped q" "same_swap p q" using s by (auto simp: q plan_shaped_def same_swap_def)
  moreover have "guaranteed q" using s(3,4) by (auto simp: q guaranteed_def plan_shaped_def)
  moreover have "persistentCreates q \<le> wa_creates a" "swap_rent q \<le> wa_rent a"
    using c(3) by (auto simp: swap_within_approval_def rcheck_eq_Inr not_less persistentCreates_def swap_rent_def q)
  ultimately show ?thesis using c(1,2) s(2) by (simp add: q not_less)
qed

section \<open>What a swap may sign\<close>

text \<open>The simulation just before the signature succeeded, and paid at least the minimum into the wallet.\<close>

definition swap_simulated :: "('a) swap_ctx_scheme \<Rightarrow> swap_node \<Rightarrow> swap_plan \<Rightarrow> byte list \<Rightarrow> bool" where
  "swap_simulated C N p message \<longleftrightarrow> (\<exists>result. simulateSwap N 2 message (if wp_outSOL p then [] else [wp_dest p]) = Inr result \<and> sm_Err result = None \<and>
     (\<not> wp_outSOL p \<longrightarrow> (\<exists>after. tokenAfter C result 0 (wp_outMint p) (wp_user p) = Inr after \<and>
        unat (wp_outBefore p) + unat (last (wp_hopMin p)) \<le> unat after)))"

definition may_swap :: "('a) swap_ctx_scheme \<Rightarrow> sol_err + string \<times> swap_node \<Rightarrow> string \<Rightarrow> swap_request \<Rightarrow> byte list \<Rightarrow> bool" where
  "may_swap C client networkID req message \<longleftrightarrow> (\<exists>N p blockhash lastValid m want swaps. client = Inr (''mainnet'', N) \<and>
     swap_of_request C networkID req p \<and> within_swap_approval C req p \<and>
     latestBlockhash (sol_node.truncate N) = Inr (blockhash, lastValid) \<and>
     swap_instructions C p StageFinal = Inr (want, swaps) \<and> map swap_terms swaps = route_terms p (last (wp_hopMin p)) \<and>
     decodeSwapMessage message (wp_tables p) = Some m \<and> swap_says C m (wp_user p) blockhash want swaps \<and>
     swap_simulated C N p message)"

lemma swap_verdict_Inr:
  assumes "swap_verdict C N 2 p message = Inr u"
  shows "swap_simulated C N p message"
proof -
  have le: "unat b + unat l \<le> unat (a :: u64)" if "\<not> (a < b \<or> a - b < l)" for a b l
  proof -
    have "b \<le> a" "l \<le> a - b" using that by auto
    then have "unat l \<le> unat a - unat b" "unat b \<le> unat a" by (simp_all add: word_le_nat_alt unat_sub)
    then show ?thesis by simp
  qed
  obtain result where sim: "simulateSwap N 2 message (if wp_outSOL p then [] else [wp_dest p]) = Inr result"
    using assms by (auto simp: swap_verdict_def rbind_eq_Inr)
  have ok: "sm_Err result = None"
    using assms by (auto simp: swap_verdict_def sim rbind_eq_Inr split: option.splits if_splits)
  show ?thesis
  proof (cases "wp_outSOL p")
    case False
    then obtain after where "tokenAfter C result 0 (wp_outMint p) (wp_user p) = Inr after"
      "\<not> (after < wp_outBefore p \<or> after - wp_outBefore p < last (wp_hopMin p))"
      using assms sim ok by (auto simp: swap_verdict_def rbind_eq_Inr rcheck_eq_Inr)
    then show ?thesis using sim ok le by (auto simp: swap_simulated_def)
  qed (use sim ok in \<open>auto simp: swap_simulated_def\<close>)
qed

lemma checked_message_Inr:
  assumes "checked_message C N final p = Inr (message, lastValid)"
  shows "\<exists>blockhash m want swaps. latestBlockhash (sol_node.truncate N) = Inr (blockhash, lastValid) \<and>
     swap_instructions C p StageFinal = Inr (want, swaps) \<and> decodeSwapMessage message (wp_tables p) = Some m \<and>
     swap_says C m (wp_user p) blockhash want swaps \<and> swap_simulated C N p message"
  using assms by (auto simp: checked_message_def rbind_eq_Inr verifySwapMessage_iff dest: swap_verdict_Inr)

lemma loadSwap_Inr:
  assumes "loadSwap C N networkID user inp out amountIn slippage hops tables optionalTables now r = (r', Inr p)"
  shows "wp_user p = user \<and> wp_amountIn p = amountIn \<and> swapMint C inp networkID = Inr (wp_inMint p, wp_inSOL p) \<and>
    swapMint C out networkID = Inr (wp_outMint p, wp_outSOL p) \<and> wp_inMint p \<noteq> wp_outMint p \<and>
    checkHops C hops (wp_inMint p) (wp_outMint p) = Inr () \<and> route_accounts C p (map hop_route hops) \<and>
    map (\<lambda>h. hop_route (sh_spec h)) (wp_hops p) = map hop_route hops \<and> plan_shaped p"
proof -
  obtain p0 midMint p1 where s: "swap_shape C networkID user inp out amountIn slippage hops = Inr (p0, midMint)"
    "loadPlan C N inp out hops tables optionalTables now p0 midMint = Inr p1"
    "\<exists>rent. p = p1\<lparr>wp_tokenRent := rent\<rparr> \<or> p = p1"
    using assms by (auto simp: loadSwap_def sbind_Inr rbind_eq_Inr split: if_splits prod.splits)
  note shape = swap_shape_Inr [OF s(1)] and plan = loadPlan_Inr [OF s(2)]
  have len: "length (wp_hops p1) = length hops" using plan by (metis length_map)
  have n: "length hops = 1 \<or> length hops = 2" using shape checkHops_length by blast
  have "plan_shaped p1" using shape plan len n by (auto simp: plan_shaped_def)
  then have "plan_shaped p" using s(3) by (auto simp: plan_shaped_def)
  then show ?thesis using shape plan s(3) by (auto simp: same_swap_def route_accounts_def)
qed

lemma moved_Inr: "(case m of (rents, r) \<Rightarrow> (rents, on_err f r)) = (r', Inr p) \<longleftrightarrow> m = (r', Inr p)"
  by (cases m) simp

lemma swapMessage_may_swap:
  assumes "swapMessage C final client networkID req r = (r', Inr (message, lastValid))"
  shows "may_swap C client networkID req message"
proof -
  obtain a hops tables N user amountIn minOut now p q r1 where s: "parseSwapApproval C (sw_Approved req) = Inr a"
    "parseSwapRoute C (sw_Route req) = Inr (hops, tables)" "swapContext C client (sw_From req) (sw_SlippageBps req) = Inr (N, user)"
    "units (sol_ctx.truncate C) (sw_Amount req) (ca_Decimals (sw_In req)) = Inr amountIn"
    "units (sol_ctx.truncate C) (sw_MinOut req) (ca_Decimals (sw_Out req)) = Inr minOut"
    "loadSwap C N networkID user (sw_In req) (sw_Out req) amountIn (sw_SlippageBps req) hops tables False now r = (r1, Inr p)"
    "approved_plan C N a minOut p = Inr q" "checked_message C N final q = Inr (message, lastValid)"
    using assms by (auto simp: swapMessage_def sbind_Inr rbind_eq_Inr moved_Inr)
  have c: "client = Inr (''mainnet'', N)" "sc_key C (sw_From req) = Some user"
    using s(3) by (auto simp: swapContext_def rbind_eq_Inr rcheck_eq_Inr split: option.splits)
  note load = loadSwap_Inr [OF s(6)]
  have q: "same_swap p q" "wp_hops q = wp_hops p" "plan_shaped q" "guaranteed q" "wp_limit q = wa_limit a" "wp_price q = wa_price a"
    "persistentCreates q \<le> wa_creates a" "swap_rent q \<le> wa_rent a" "last (wp_hopMin q) = minOut" "minOut \<le> wp_expectedOut q"
    "swap_withSlippage (wp_expectedOut q) MaxSwapSlippageBps \<le> minOut"
    using approved_plan_Inr [OF s(7)] load by blast+
  have "swap_of_request C networkID req q"
    using load q(1,2) c(2) s(2) units_Inr [OF s(4)] by (simp add: swap_of_request_def same_swap_def route_accounts_def sol_ctx.defs) blast
  moreover have "within_swap_approval C req q"
    using q parseSwapApproval_Inr [OF s(1)] units_Inr [OF s(5)] by (auto simp: within_swap_approval_def sol_ctx.defs)
  moreover obtain blockhash m want swaps where "latestBlockhash (sol_node.truncate N) = Inr (blockhash, lastValid)"
    "swap_instructions C q StageFinal = Inr (want, swaps)" "decodeSwapMessage message (wp_tables q) = Some m"
    "swap_says C m (wp_user q) blockhash want swaps" "swap_simulated C N q message"
    using checked_message_Inr [OF s(8)] by blast
  moreover from this(2) have "map swap_terms swaps = route_terms q (last (wp_hopMin q))"
    using swap_instructions_terms swap_legs_final [OF q(3,4)] by metis
  ultimately show ?thesis unfolding may_swap_def c(1) by blast
qed

end
