(* ===== verification/SolanaSwapProperties.thy ===== *)
theory SolanaSwapProperties
  imports SolanaSwapSafety
begin

text \<open>
  The theorem about Solana swaps: every message a swap asks to be signed is the planned swap of the
  request, through the requested pools, at the approved fee and minimum.
\<close>

text \<open>C10. Whatever the nodes and the message builder answer, every message a Solana swap asks a signature
  for decodes, its lookup tables resolved against their contents on chain, to exactly the instructions
  planned for the request: its Raydium swaps sell the requested amount from the wallet's own account
  through the requested pools, in their order, for at least the approved minimum into the wallet's own
  account, the second pool taking what the first guarantees; the wallet is the only signer and no other
  account is touched or made writable; the compute limit and price are the approved ones, no more token
  accounts are opened than approved and at no higher rent; the approved minimum is at most what the swap
  pays now and at most 5 percent below it; and the message was simulated without an error just before.\<close>
theorem solana_swap_signs_the_plan:
  "messages_meet (snd (Swap C final ev ended client networkID req key node rents)) (may_swap C client networkID req)"
proof -
  obtain r' out where o: "sbind (slift (on_err plain (messageSigner (sol_ctx.truncate C) key (sw_From req)))) (\<lambda>pub.
      sbind (swapMessage C final client networkID req) (\<lambda>(message, lastValid). sret (pub, message, lastValid))) rents = (r', out)"
    by (rule prod.exhaust)
  show ?thesis
  proof (cases out)
    case (Inl e)
    then show ?thesis by (simp add: Swap_def o)
  next
    case (Inr v)
    obtain pub message lastValid where v: "v = (pub, message, lastValid)" by (cases v)
    obtain r1 where "swapMessage C final client networkID req r1 = (r', Inr (message, lastValid))"
      using o by (auto simp: Inr v sbind_Inr)
    then have "may_swap C client networkID req message" by (rule swapMessage_may_swap)
    then show ?thesis by (simp add: Swap_def o Inr v messages_meet_signAndBroadcast)
  qed
qed

end
