(* ===== verification/SolanaClose.thy ===== *)
theory SolanaClose
  imports SolanaSafety "HOL-Library.Char_ord" "HOL-Library.List_Lexorder"
begin

text \<open>
  Closing empty token accounts (internal/chain/solana/close.go): which accounts can be closed, the listing,
  the plan of a close transaction with its fee and the rent it returns, the estimate, and \<open>Close\<close> up to
  the signature. The last sections follow a close from the request to what it may sign.
\<close>

section \<open>Accounts that can be closed\<close>

definition MaxCloseAccounts :: nat where "MaxCloseAccounts = 20"
definition closeAuthorityOffset :: nat where "closeAuthorityOffset = 129"
definition tokenStateOffset :: nat where "tokenStateOffset = 108"
definition closeAccountInstruction :: byte where "closeAccountInstruction = 9"

record EmptyTokenAccount =
  et_Address :: string
  et_Mint :: string
  et_Rent :: string
  et_lamports :: u64

definition closable :: "sol_ctx \<Rightarrow> sol_account option \<Rightarrow> pubkey \<Rightarrow> sol_err + unit" where
  "closable C acc owner =
     (case acc of None \<Rightarrow> Inl (StateRefused (Because ''the token account no longer exists'')) | Some a \<Rightarrow>
      let data = sa_Data a in
      rcheck (sa_Owner a \<noteq> token2022_program_id C) (Refused ''Token-2022 tokens are not supported'') (
      rcheck (\<not> (sa_Owner a \<noteq> token_program_id C \<or> length data \<noteq> tokenAccountSize)) (Refused ''the address is not a token account'') (
      rcheck (take 32 (drop 32 data) = owner) (Refused ''the token account belongs to another wallet'') (
      rcheck (data ! tokenStateOffset \<noteq> 2) (StateRefused (Because ''the token account is frozen'')) (
      rcheck (data ! tokenStateOffset = 1) (Refused ''the token account is not initialized'') (
      rcheck (\<not> (get_le (take 4 (drop closeAuthorityOffset data)) \<noteq> 0 \<and> take 32 (drop (closeAuthorityOffset + 4) data) \<noteq> owner))
        (Refused ''another address is the token account's close authority'') (
      rcheck (le_u64 (take 8 (drop 64 data)) = 0) (StateRefused (Because ''the token account holds tokens'')) (Inr ()))))))))"

definition empty_account :: "sol_ctx \<Rightarrow> pubkey \<Rightarrow> sol_account \<Rightarrow> EmptyTokenAccount" where
  "empty_account C key a = \<lparr>et_Address = sc_base58 C key, et_Mint = sc_base58 C (take 32 (sa_Data a)), et_Rent = sol C (sa_Lamports a),
     et_lamports = sa_Lamports a\<rparr>"

text \<open>The listing of the node is an argument: \<open>None\<close> is an entry that is null.\<close>

definition EmptyTokenAccounts ::
  "sol_ctx \<Rightarrow> sol_err + sol_node \<Rightarrow> sol_err + (pubkey \<times> sol_account) option list \<Rightarrow> string \<Rightarrow> sol_err + EmptyTokenAccount list" where
  "EmptyTokenAccounts C client listing owner =
     (case sc_key C owner of None \<Rightarrow> Inl (Refused ''invalid Solana address'') | Some wallet \<Rightarrow>
      rbind client (\<lambda>_.
      rbind listing (\<lambda>entries.
      rcheck (None \<notin> set entries) (NodeFailed ''answer lists an empty token account'')
        (Inr (sort_key et_Address (map (\<lambda>(key, a). empty_account C key a)
          (filter (\<lambda>(key, a). closable C (Some a) wallet = Inr ()) (map the entries))))))))"

section \<open>Plans\<close>

record CloseRequest =
  cq_Owner :: string
  cq_Accounts :: "string list"
  cq_Approved :: "fee_approval option"

record CloseEstimate =
  ce_NetworkID :: string
  ce_Accounts :: "EmptyTokenAccount list"
  ce_Returned :: string
  ce_Fee :: string
  ce_FeeModel :: string
  ce_ComputeUnitLimit :: u64
  ce_ComputeUnitPriceMicroLamports :: u64

record closePlan =
  cz_owner :: pubkey
  cz_accounts :: "pubkey list"
  cz_listed :: "EmptyTokenAccount list"
  cz_balance :: u64
  cz_rentExempt0 :: u64
  cz_basePrice :: u64
  cz_price :: u64
  cz_neededLimit :: u32
  cz_limit :: u32

definition close_fee :: "closePlan \<Rightarrow> u64" where
  "close_fee c = lamportsPerSignature + priorityFee (cz_limit c) (cz_price c)"

definition close_returned :: "closePlan \<Rightarrow> u64" where
  "close_returned c = foldl (\<lambda>total account. total + et_lamports account) 0 (cz_listed c)"

definition close_expected :: "sol_ctx \<Rightarrow> closePlan \<Rightarrow> instruction list" where
  "close_expected C c =
     [limit_instruction C (cz_limit c), price_instruction C (cz_price c)] @
     map (\<lambda>account. \<lparr>ins_program = token_program_id C, ins_accounts = [writable account, writable (cz_owner c), signer (cz_owner c)],
       ins_data = [closeAccountInstruction]\<rparr>) (cz_accounts c)"

text \<open>The builder lists the same instructions for solana-go.\<close>

definition close_build :: "sol_ctx \<Rightarrow> closePlan \<Rightarrow> byte list \<Rightarrow> sol_err + byte list" where
  "close_build C c blockhash =
     (case sc_build C ([limit_instruction C (cz_limit c), price_instruction C (cz_price c)] @
             map (\<lambda>account. \<lparr>ins_program = token_program_id C, ins_accounts = [writable account, writable (cz_owner c), signer (cz_owner c)],
               ins_data = [closeAccountInstruction]\<rparr>) (cz_accounts c)) blockhash (cz_owner c) of
        None \<Rightarrow> Inl (NodeFailed ''build Solana transaction'') | Some m \<Rightarrow> Inr m)"

section \<open>Preparing\<close>

fun close_keys :: "sol_ctx \<Rightarrow> pubkey \<Rightarrow> string list \<Rightarrow> pubkey list \<Rightarrow> sol_err + pubkey list" where
  "close_keys C owner [] accounts = Inr accounts"
| "close_keys C owner (address # rest) accounts =
     (case sc_key C address of None \<Rightarrow> Inl (Refused ''invalid token account address'') | Some account \<Rightarrow>
      rcheck (\<not> (account = owner \<or> account \<in> set accounts)) (Refused ''token account is listed twice or is the wallet itself'')
        (close_keys C owner rest (accounts @ [account])))"

definition close_listed :: "sol_ctx \<Rightarrow> pubkey \<Rightarrow> pubkey list \<Rightarrow> sol_account option list \<Rightarrow> sol_err + EmptyTokenAccount list" where
  "close_listed C owner accounts read =
     rmap (\<lambda>(account, acc). rbind (closable C acc owner) (\<lambda>_. Inr (empty_account C account (the acc)))) (zip accounts (drop 1 read))"

definition explain_close :: "sol_ctx \<Rightarrow> closePlan \<Rightarrow> json \<Rightarrow> string list \<Rightarrow> byte list \<Rightarrow> bool \<Rightarrow> sol_err" where
  "explain_close C c failure logs message bound =
     (let fee = close_fee c; add = less_or_zero (fee + cz_rentExempt0 c) (cz_balance c) in
      StateRefused (
        if failure = JText ''InsufficientFundsForFee'' \<or> failure = JText ''AccountNotFound'' then FeeBeforeRentReturns (cz_balance c) bound fee add
        else if rentAccount failure message = Some (cz_owner c) then
          FeeBreaksMinimum bound fee (cz_balance c - min fee (cz_balance c)) (cz_rentExempt0 c) add
        else NetworkRejects (describe C failure message) (lastLog logs)))"

text \<open>The probe is simulation 0, the final message simulation 1.\<close>

definition measure_close :: "sol_ctx \<Rightarrow> sol_node \<Rightarrow> closePlan \<Rightarrow> sol_err + closePlan" where
  "measure_close C N c =
     rbind (close_build C (c\<lparr>cz_limit := simulationComputeUnitLimit, cz_price := 0\<rparr>) no_hash) (\<lambda>message.
     rbind (nd_simulate N 0 message) (\<lambda>result.
     let used = (case sm_Units result of Some u \<Rightarrow> u | None \<Rightarrow> 0) in
     if used = 0 then
       (case sm_Err result of
          None \<Rightarrow> Inl (NodeFailed ''the node did not report the compute used'')
        | Some failure \<Rightarrow> Inl (explain_close C (c\<lparr>cz_limit := simulationComputeUnitLimit\<rparr>) failure (sm_Logs result) message True))
     else Inr (c\<lparr>cz_neededLimit := limitFor used, cz_limit := limitFor used\<rparr>)))"

definition load_close :: "sol_ctx \<Rightarrow> sol_node \<Rightarrow> string \<Rightarrow> pubkey \<Rightarrow> pubkey list \<Rightarrow> closePlan sol_op" where
  "load_close C N networkID owner accounts =
     sbind (slift (readAccounts N (owner # accounts))) (\<lambda>read.
     sbind (slift (close_listed C owner accounts read)) (\<lambda>listed.
     sbind (rentExempt N networkID 0) (\<lambda>rentExempt0.
     sbind (slift (priorityPrice N (owner # accounts))) (\<lambda>base.
     slift (measure_close C N \<lparr>cz_owner = owner, cz_accounts = accounts, cz_listed = listed,
       cz_balance = (case read ! 0 of Some a \<Rightarrow> sa_Lamports a | None \<Rightarrow> 0), cz_rentExempt0 = rentExempt0, cz_basePrice = base,
       cz_price = offeredPrice base, cz_neededLimit = 0, cz_limit = 0\<rparr>)))))"

definition prepareClose :: "sol_ctx \<Rightarrow> sol_node \<Rightarrow> string \<Rightarrow> CloseRequest \<Rightarrow> closePlan sol_op" where
  "prepareClose C N networkID req =
     (case sc_key C (cq_Owner req) of None \<Rightarrow> sfail (Refused ''invalid Solana address'') | Some owner \<Rightarrow>
      sbind (scheck (\<not> (cq_Accounts req = [] \<or> length (cq_Accounts req) > MaxCloseAccounts))
        (Refused ''close between 1 and 20 token accounts at a time'')) (\<lambda>_.
      sbind (slift (close_keys C owner (cq_Accounts req) [])) (\<lambda>accounts.
      load_close C N networkID owner accounts)))"

definition close_verdict :: "sol_ctx \<Rightarrow> sol_node \<Rightarrow> closePlan \<Rightarrow> byte list \<Rightarrow> sol_err + unit" where
  "close_verdict C N c message =
     rbind (nd_simulate N 1 message) (\<lambda>result.
     case sm_Err result of Some failure \<Rightarrow> Inl (explain_close C c failure (sm_Logs result) message False) | None \<Rightarrow> Inr ())"

definition EstimateClose :: "sol_ctx \<Rightarrow> sol_err + sol_node \<Rightarrow> string \<Rightarrow> CloseRequest \<Rightarrow> CloseEstimate sol_op" where
  "EstimateClose C client networkID req =
     sbind (slift client) (\<lambda>N.
     sbind (prepareClose C N networkID req) (\<lambda>c.
     sbind (slift (close_build C c no_hash)) (\<lambda>message.
     sbind (slift (close_verdict C N c message)) (\<lambda>_.
     sret \<lparr>ce_NetworkID = networkID, ce_Accounts = cz_listed c, ce_Returned = sol C (close_returned c), ce_Fee = sol C (close_fee c),
       ce_FeeModel = feeModel, ce_ComputeUnitLimit = ucast (cz_limit c), ce_ComputeUnitPriceMicroLamports = cz_price c\<rparr>))))"

section \<open>Closing\<close>

definition close_within :: "closePlan \<Rightarrow> sol_approval \<Rightarrow> sol_err + unit" where
  "close_within c a =
     rcheck (\<not> cz_neededLimit c > ap_limit a) (FeeMoved ''closing now needs more compute units'') (
     rcheck (\<not> cz_basePrice c > ap_price a) (FeeMoved ''the priority price is higher now'') (Inr ()))"

text \<open>\<open>build\<close> is the adapter's builder of close messages.\<close>

definition closeMessage ::
  "sol_ctx \<Rightarrow> (closePlan \<Rightarrow> byte list \<Rightarrow> sol_err + byte list) \<Rightarrow> sol_node \<Rightarrow> string \<Rightarrow> CloseRequest \<Rightarrow> sol_approval \<Rightarrow> (byte list \<times> u64) sol_op" where
  "closeMessage C build N networkID req a rents =
     (case prepareClose C N networkID req rents of (rents, prepared) \<Rightarrow>
      (rents,
       rbind (move_state prepared) (\<lambda>c.
       rbind (close_within c a) (\<lambda>_.
       let c = c\<lparr>cz_limit := ap_limit a, cz_price := ap_price a\<rparr> in
       rbind (latestBlockhash N) (\<lambda>(blockhash, lastValid).
       rbind (build c blockhash) (\<lambda>message.
       rbind (as_sol_err (verifyInstructions message (cz_owner c) blockhash (close_expected C c))) (\<lambda>_.
       rbind (move_state (close_verdict C N c message)) (\<lambda>_. Inr (message, lastValid)))))))))"

definition solana_Close ::
  "sol_ctx \<Rightarrow> (closePlan \<Rightarrow> byte list \<Rightarrow> sol_err + byte list) \<Rightarrow> store_env \<Rightarrow> bool \<Rightarrow> sol_err + sol_node \<Rightarrow> string \<Rightarrow> CloseRequest
     \<Rightarrow> (family \<times> pubkey) option \<Rightarrow> node_answer \<Rightarrow> rents \<Rightarrow> rents \<times> (transaction \<times> chain_error option) world" where
  "solana_Close C build ev ended client networkID req key node rents =
     (case sbind (slift (messageSigner C key (cq_Owner req))) (\<lambda>pub.
           sbind (slift (parseApproval C (cq_Approved req))) (\<lambda>a.
           sbind (scheck (\<not> ap_createAccount a) (Refused ''closing token accounts opens none'')) (\<lambda>_.
           sbind (slift client) (\<lambda>N.
           sbind (closeMessage C build N networkID req a) (\<lambda>(message, lastValid). sret (pub, message, lastValid)))))) rents of
        (rents, Inl e) \<Rightarrow> (rents, Finished (no_transaction, Some (chain_error_of e)))
      | (rents, Inr (pub, message, lastValid)) \<Rightarrow>
          (rents, signAndBroadcast ev ended networkID (sc_verify C pub message) (sc_base58 C) message lastValid node))"

section \<open>What a close may sign\<close>

text \<open>The wallet's own, initialized, not frozen and empty classic token account.\<close>

definition empty_of :: "sol_ctx \<Rightarrow> pubkey \<Rightarrow> sol_account \<Rightarrow> bool" where
  "empty_of C owner a \<longleftrightarrow> sa_Owner a = token_program_id C \<and> length (sa_Data a) = tokenAccountSize \<and>
     take 32 (drop 32 (sa_Data a)) = owner \<and> sa_Data a ! tokenStateOffset = 1 \<and> le_u64 (take 8 (drop 64 (sa_Data a))) = 0 \<and>
     (get_le (take 4 (drop closeAuthorityOffset (sa_Data a))) = 0 \<or> take 32 (drop (closeAuthorityOffset + 4) (sa_Data a)) = owner)"

lemma closable_Inr: "closable C acc owner = Inr () \<longleftrightarrow>
    (\<exists>a. acc = Some a \<and> empty_of C owner a \<and> token2022_program_id C \<noteq> token_program_id C)"
  by (cases acc) (auto simp: closable_def Let_def rcheck_eq_Inr empty_of_def)

lemma close_keys_Inr: "close_keys C owner as keys = Inr out \<Longrightarrow> distinct keys \<Longrightarrow> owner \<notin> set keys \<Longrightarrow>
    \<exists>more. out = keys @ more \<and> map (sc_key C) as = map Some more \<and> distinct out \<and> owner \<notin> set out"
proof (induction as arbitrary: keys)
  case (Cons a as)
  obtain k where k: "sc_key C a = Some k" "k \<noteq> owner" "k \<notin> set keys" "close_keys C owner as (keys @ [k]) = Inr out"
    using Cons.prems(1) by (auto simp: rcheck_eq_Inr split: option.splits)
  then show ?case using Cons.IH [OF k(4)] Cons.prems(2,3) by auto
qed auto

lemma close_listed_Inr:
  assumes "close_listed C owner accounts read = Inr listed" "length read = Suc (length accounts)"
  shows "list_all2 (\<lambda>acc e. \<exists>a. acc = Some a \<and> empty_of C owner a \<and> et_lamports e = sa_Lamports a) (drop 1 read) listed \<and>
    length listed = length accounts"
proof -
  have "list_all2 (\<lambda>x e. \<exists>a. snd x = Some a \<and> empty_of C owner a \<and> et_lamports e = sa_Lamports a) (zip accounts (drop 1 read)) listed"
    using assms(1) unfolding close_listed_def rmap_eq_Inr
    by (rule list_all2_mono) (auto simp: rbind_eq_Inr closable_Inr empty_account_def)
  then show ?thesis using assms(2) by (auto simp: list_all2_conv_all_nth)
qed

definition close_instructions :: "sol_ctx \<Rightarrow> u32 \<Rightarrow> u64 \<Rightarrow> pubkey \<Rightarrow> pubkey list \<Rightarrow> instruction list" where
  "close_instructions C limit price owner accounts =
     [limit_instruction C limit, price_instruction C price] @
     map (\<lambda>account. \<lparr>ins_program = token_program_id C, ins_accounts = [writable account, writable owner, signer owner], ins_data = [9]\<rparr>) accounts"

text \<open>A message that closes exactly the named accounts, each read as empty and the owner's just before, and
  pays their rents to the owner, at the approved fee.\<close>

definition may_close :: "sol_ctx \<Rightarrow> sol_err + sol_node \<Rightarrow> string \<Rightarrow> CloseRequest \<Rightarrow> byte list \<Rightarrow> bool" where
  "may_close C client networkID req message \<longleftrightarrow>
     (\<exists>N owner accounts read f limit blockhash lastValid m result. client = Inr N \<and> sc_key C (cq_Owner req) = Some owner \<and>
        map (sc_key C) (cq_Accounts req) = map Some accounts \<and> distinct accounts \<and> owner \<notin> set accounts \<and> length accounts \<le> 20 \<and>
        readAccounts N (owner # accounts) = Inr read \<and>
        (\<forall>i<length accounts. \<exists>a. read ! Suc i = Some a \<and> empty_of C owner a) \<and>
        cq_Approved req = Some f \<and> unat limit = unat (fa_ComputeUnitLimit f) \<and>
        lamports C (fa_Fee f) = Some (lamportsPerSignature + priorityFee limit (fa_ComputeUnitPriceMicroLamports f)) \<and>
        latestBlockhash N = Inr (blockhash, lastValid) \<and> decodeLegacyMessage message = Some m \<and>
        says m owner blockhash (close_instructions C limit (fa_ComputeUnitPriceMicroLamports f) owner accounts) \<and>
        nd_simulate N 1 message = Inr result \<and> sm_Err result = None)"

lemma measure_close_Inr: "measure_close C N c = Inr d \<Longrightarrow> \<exists>limit. d = c\<lparr>cz_neededLimit := limit, cz_limit := limit\<rparr>"
  by (auto simp: measure_close_def rbind_eq_Inr Let_def split: if_splits option.splits)

lemma load_close_Inr:
  assumes "load_close C N networkID owner accounts r = (r', Inr c)"
  shows "cz_owner c = owner \<and> cz_accounts c = accounts \<and> (\<exists>read. readAccounts N (owner # accounts) = Inr read \<and>
    (\<forall>i<length accounts. \<exists>a. read ! Suc i = Some a \<and> empty_of C owner a))"
proof -
  obtain read listed c0 where s: "readAccounts N (owner # accounts) = Inr read" "close_listed C owner accounts read = Inr listed"
    "measure_close C N c0 = Inr c" "cz_owner c0 = owner" "cz_accounts c0 = accounts"
    using assms by (auto simp: load_close_def sbind_Inr)
  have len: "length read = Suc (length accounts)" using s(1) by (auto simp: readAccounts_def rbind_eq_Inr rcheck_eq_Inr)
  have "\<exists>a. read ! Suc i = Some a \<and> empty_of C owner a" if "i < length accounts" for i
  proof -
    have i: "i < length (drop 1 read)" "drop 1 read ! i = read ! Suc i" using that len by simp_all
    note list_all2_nthD [OF close_listed_Inr [OF s(2) len, THEN conjunct1] i(1), unfolded i(2)]
    then show ?thesis by blast
  qed
  moreover obtain limit where "c = c0\<lparr>cz_neededLimit := limit, cz_limit := limit\<rparr>" using measure_close_Inr [OF s(3)] by blast
  ultimately show ?thesis using s(1,4,5) by simp
qed

lemma prepareClose_Inr:
  assumes "prepareClose C N networkID req r = (r', Inr c)"
  shows "\<exists>read. sc_key C (cq_Owner req) = Some (cz_owner c) \<and> map (sc_key C) (cq_Accounts req) = map Some (cz_accounts c) \<and>
    distinct (cz_accounts c) \<and> cz_owner c \<notin> set (cz_accounts c) \<and> length (cz_accounts c) \<le> 20 \<and>
    readAccounts N (cz_owner c # cz_accounts c) = Inr read \<and>
    (\<forall>i<length (cz_accounts c). \<exists>a. read ! Suc i = Some a \<and> empty_of C (cz_owner c) a)"
proof -
  obtain owner accounts where s: "sc_key C (cq_Owner req) = Some owner" "\<not> length (cq_Accounts req) > MaxCloseAccounts"
    "close_keys C owner (cq_Accounts req) [] = Inr accounts" "load_close C N networkID owner accounts r = (r', Inr c)"
    using assms by (auto simp: prepareClose_def sbind_Inr split: option.splits if_splits)
  have keys: "map (sc_key C) (cq_Accounts req) = map Some accounts" "distinct accounts" "owner \<notin> set accounts"
    using close_keys_Inr [OF s(3)] by auto
  have "length accounts = length (cq_Accounts req)" using keys(1) by (metis length_map)
  then have "length accounts \<le> 20" using s(2) by (simp add: MaxCloseAccounts_def)
  then show ?thesis using load_close_Inr [OF s(4)] s(1) keys by auto
qed

lemma closeMessage_Inr:
  assumes "closeMessage C build N networkID req a r = (r', Inr (message, lastValid))" "parseApproval C (cq_Approved req) = Inr a" "\<not> ap_createAccount a"
  shows "may_close C (Inr N) networkID req message"
proof -
  obtain f where f: "cq_Approved req = Some f" using assms(2) by (cases "cq_Approved req") (auto simp: parseApproval_def)
  obtain c blockhash result where c: "prepareClose C N networkID req r = (r', Inr c)" "latestBlockhash N = Inr (blockhash, lastValid)"
    "verifyInstructions message (cz_owner c) blockhash (close_expected C (c\<lparr>cz_limit := ap_limit a, cz_price := ap_price a\<rparr>)) = Inr ()"
    "nd_simulate N 1 message = Inr result" "sm_Err result = None"
    using assms(1) by (auto simp: closeMessage_def close_verdict_def rbind_eq_Inr Let_def split: prod.splits option.splits)
  have "close_expected C (c\<lparr>cz_limit := ap_limit a, cz_price := ap_price a\<rparr>) = close_instructions C (ap_limit a) (ap_price a) (cz_owner c) (cz_accounts c)"
    by (simp add: close_expected_def close_instructions_def closeAccountInstruction_def)
  then obtain m where m: "decodeLegacyMessage message = Some m"
    "says m (cz_owner c) blockhash (close_instructions C (ap_limit a) (ap_price a) (cz_owner c) (cz_accounts c))"
    using c(3) by (auto simp: verifyInstructions_iff)
  have a: "unat (ap_limit a) = unat (fa_ComputeUnitLimit f)" "ap_price a = fa_ComputeUnitPriceMicroLamports f"
    "lamports C (fa_Fee f) = Some (lamportsPerSignature + priorityFee (ap_limit a) (ap_price a))"
    using parseApproval_Inr [OF assms(2) [unfolded f]] assms(3) by auto
  show ?thesis unfolding may_close_def using prepareClose_Inr [OF c(1)] c(2,4,5) m a f by metis
qed

text \<open>C11. Whatever the nodes and the message builder answer, every message a close asks a signature for
  closes exactly the token accounts of the request, each once and none the wallet itself, all paying their
  rent to the owner: each was read just before as a classic token account of the owner, initialized, not
  frozen, without another close authority and holding no tokens; the compute limit and price are the
  approved ones, the approved fee is exactly what they cost, and the message was simulated without an error.\<close>
theorem solana_close_closes_empty_accounts:
  "messages_meet (snd (solana_Close C build ev ended client networkID req key node rents)) (may_close C client networkID req)"
proof -
  obtain r' out where o: "sbind (slift (messageSigner C key (cq_Owner req))) (\<lambda>pub.
      sbind (slift (parseApproval C (cq_Approved req))) (\<lambda>a.
      sbind (scheck (\<not> ap_createAccount a) (Refused ''closing token accounts opens none'')) (\<lambda>_.
      sbind (slift client) (\<lambda>N.
      sbind (closeMessage C build N networkID req a) (\<lambda>(message, lastValid). sret (pub, message, lastValid)))))) rents = (r', out)"
    by (rule prod.exhaust)
  show ?thesis
  proof (cases out)
    case (Inl e)
    then show ?thesis by (simp add: solana_Close_def o)
  next
    case (Inr v)
    obtain pub message lastValid where v: "v = (pub, message, lastValid)" by (cases v)
    obtain a N where "parseApproval C (cq_Approved req) = Inr a" "\<not> ap_createAccount a" "client = Inr N"
      "closeMessage C build N networkID req a rents = (r', Inr (message, lastValid))"
      using o by (auto simp: Inr v sbind_Inr split: if_splits)
    then have "may_close C client networkID req message" using closeMessage_Inr by simp
    then show ?thesis by (simp add: solana_Close_def o Inr v messages_meet_signAndBroadcast)
  qed
qed

end
