(* ===== verification/TronIntent.thy ===== *)
theory TronIntent
  imports Account Complex_Main
begin

text \<open>
  What a Tron transaction is allowed to carry (internal/tron/intent.go): the intent held locally, the
  transaction a node built, the comparison of the two before anything is signed, and the digest.

  The protobuf messages are records of the fields the code reads, with \<open>GetUnknown\<close> as a field of its
  own; decoding an \<open>Any\<close> into a message, the canonical encoding, base58check and SHA-256 are the library
  \<open>tron_lib\<close>. Times are nanoseconds. An error is \<open>Mismatch\<close> or \<open>Invalid\<close> with the start of its message.

  \<open>effect\<close> is the abstract specification: what a transaction does on chain, and what an intent asks
  for. The lemmas show that a verified transaction does what was asked.
\<close>

section \<open>Messages\<close>

datatype resource_code = BANDWIDTH | ENERGY | OtherResource int

record any_msg =
  an_TypeUrl :: string
  an_Value :: "byte list"
  an_Unknown :: "byte list"

record transfer_msg =
  tm_OwnerAddress :: "byte list"
  tm_ToAddress :: "byte list"
  tm_Amount :: int
  tm_Unknown :: "byte list"

record trigger_msg =
  gm_OwnerAddress :: "byte list"
  gm_ContractAddress :: "byte list"
  gm_Data :: "byte list"
  gm_CallValue :: int
  gm_CallTokenValue :: int
  gm_TokenId :: int
  gm_Unknown :: "byte list"

record freeze_msg =
  fm_OwnerAddress :: "byte list"
  fm_FrozenBalance :: int
  fm_Resource :: resource_code
  fm_Unknown :: "byte list"

record unfreeze_msg =
  um_OwnerAddress :: "byte list"
  um_UnfreezeBalance :: int
  um_Resource :: resource_code
  um_Unknown :: "byte list"

record delegate_msg =
  dm_OwnerAddress :: "byte list"
  dm_ReceiverAddress :: "byte list"
  dm_Balance :: int
  dm_Resource :: resource_code
  dm_Lock :: bool
  dm_LockPeriod :: int
  dm_Unknown :: "byte list"

record undelegate_msg =
  rm_OwnerAddress :: "byte list"
  rm_ReceiverAddress :: "byte list"
  rm_Balance :: int
  rm_Resource :: resource_code
  rm_Unknown :: "byte list"

text \<open>Withdrawing and cancelling unstakes carry the owner only.\<close>

record owner_msg =
  om_OwnerAddress :: "byte list"
  om_Unknown :: "byte list"

record smart_contract =
  sc_OriginAddress :: "byte list"
  sc_Bytecode :: "byte list"
  sc_Name :: string
  sc_ConsumeUserResourcePercent :: int
  sc_OriginEnergyLimit :: int
  sc_CallValue :: int
  sc_Unknown :: "byte list"

record create_msg =
  cm_OwnerAddress :: "byte list"
  cm_NewContract :: "smart_contract option"
  cm_CallTokenValue :: int
  cm_TokenId :: int
  cm_Unknown :: "byte list"

datatype contract_type =
    TransferContract | TriggerSmartContract | FreezeBalanceV2Contract | UnfreezeBalanceV2Contract
  | DelegateResourceContract | UnDelegateResourceContract | WithdrawExpireUnfreezeContract
  | CancelAllUnfreezeV2Contract | CreateSmartContract | OtherContractType int

record contract_entry =
  ce_Type :: contract_type
  ce_Parameter :: "any_msg option"
  ce_Provider :: "byte list"
  ce_ContractName :: "byte list"
  ce_PermissionId :: int
  ce_Unknown :: "byte list"

record raw_tx =
  rt_RefBlockBytes :: "byte list"
  rt_RefBlockNum :: int
  rt_RefBlockHash :: "byte list"
  rt_Expiration :: int
  rt_Auths :: "byte list list"
  rt_Data :: "byte list"
  rt_Contract :: "contract_entry list"
  rt_Scripts :: "byte list"
  rt_Timestamp :: int
  rt_FeeLimit :: int
  rt_Unknown :: "byte list"

section \<open>The libraries under the code\<close>

record tron_lib =
  tl_DecodeCheck :: "string \<Rightarrow> byte list option"
  tl_Validate :: "string \<Rightarrow> bool"
  tl_marshal :: "raw_tx \<Rightarrow> byte list option"
  tl_sha256 :: "byte list \<Rightarrow> byte list"
  tl_transfer :: "any_msg \<Rightarrow> transfer_msg option"
  tl_trigger :: "any_msg \<Rightarrow> trigger_msg option"
  tl_freeze :: "any_msg \<Rightarrow> freeze_msg option"
  tl_unfreeze :: "any_msg \<Rightarrow> unfreeze_msg option"
  tl_delegate :: "any_msg \<Rightarrow> delegate_msg option"
  tl_undelegate :: "any_msg \<Rightarrow> undelegate_msg option"
  tl_withdraw :: "any_msg \<Rightarrow> owner_msg option"
  tl_cancel :: "any_msg \<Rightarrow> owner_msg option"
  tl_create :: "any_msg \<Rightarrow> create_msg option"
  tl_FromTRX :: "rat \<Rightarrow> int option"
  tl_FromTokenDecimal :: "rat \<Rightarrow> int \<Rightarrow> int option"
  tl_NewFromString :: "string \<Rightarrow> rat option"

section \<open>Intents\<close>

datatype intent_kind =
    IntentTransferTRX | IntentTriggerContract | IntentStake | IntentUnstake | IntentDelegate | IntentReclaim
  | IntentWithdrawUnstaked | IntentCancelUnstakes | IntentDeploy | OtherIntent string

record intent =
  in_Kind :: intent_kind
  in_Owner :: string
  in_To :: string
  in_Amount :: int
  in_Contract :: string
  in_Data :: "byte list"
  in_CallValue :: int
  in_Resource :: resource_code
  in_FeeLimit :: int
  in_PermissionID :: int
  in_Name :: string
  in_ConsumePercent :: int
  in_OriginEnergyLimit :: int

fun contractTypeByKind :: "intent_kind \<Rightarrow> contract_type option" where
  "contractTypeByKind IntentTransferTRX = Some TransferContract"
| "contractTypeByKind IntentTriggerContract = Some TriggerSmartContract"
| "contractTypeByKind IntentStake = Some FreezeBalanceV2Contract"
| "contractTypeByKind IntentUnstake = Some UnfreezeBalanceV2Contract"
| "contractTypeByKind IntentDelegate = Some DelegateResourceContract"
| "contractTypeByKind IntentReclaim = Some UnDelegateResourceContract"
| "contractTypeByKind IntentWithdrawUnstaked = Some WithdrawExpireUnfreezeContract"
| "contractTypeByKind IntentCancelUnstakes = Some CancelAllUnfreezeV2Contract"
| "contractTypeByKind IntentDeploy = Some CreateSmartContract"
| "contractTypeByKind (OtherIntent k) = None"

datatype tron_err = Mismatch string | Invalid string | Upstream string

type_synonym 'a tron_result = "tron_err + 'a"

definition demand :: "bool \<Rightarrow> string \<Rightarrow> unit tron_result" where
  "demand ok what = (if ok then Inr () else Inl (Mismatch what))"

definition rejectUnknown :: "string \<Rightarrow> byte list \<Rightarrow> unit tron_result" where
  "rejectUnknown what unknown = demand (\<not> unknown \<noteq> []) what"

section \<open>The header\<close>

definition second :: int where "second = 1000000000"
definition maxTransactionLifetime :: int where "maxTransactionLifetime = 10 * 60 * second"
definition maxClockSkew :: int where "maxClockSkew = 2 * 60 * second"
definition refBlockBytesLen :: nat where "refBlockBytesLen = 2"
definition refBlockHashLen :: nat where "refBlockHashLen = 8"

definition UnixMilli :: "int \<Rightarrow> int" where
  "UnixMilli ms = ms * 1000000"

text \<open>\<open>binary.BigEndian.Uint16\<close> of two bytes.\<close>

definition be_u16 :: "byte list \<Rightarrow> u16" where
  "be_u16 bs = (case bs of hi # lo # _ \<Rightarrow> push_bit 8 (ucast hi) OR ucast lo | _ \<Rightarrow> 0)"

definition verifyHeader :: "raw_tx \<Rightarrow> int \<Rightarrow> unit tron_result" where
  "verifyHeader raw now =
     rbind (demand (\<not> length (rt_RefBlockBytes raw) \<noteq> refBlockBytesLen) ''reference block height'') (\<lambda>_.
     rbind (demand (\<not> length (rt_RefBlockHash raw) \<noteq> refBlockHashLen) ''reference block hash'') (\<lambda>_.
     rbind (let num = rt_RefBlockNum raw in
            if num \<noteq> 0 then
              rbind (demand (\<not> num < 0) ''reference block height is negative'') (\<lambda>_.
              demand (\<not> (word_of_int num :: u16) \<noteq> be_u16 (rt_RefBlockBytes raw)) ''reference block height does not name the block'')
            else Inr ()) (\<lambda>_.
     let built = UnixMilli (rt_Timestamp raw) in
     rbind (demand (\<not> (rt_Timestamp raw \<le> 0 \<or> now + maxClockSkew < built \<or> built < now - maxTransactionLifetime))
        ''transaction is timestamped'') (\<lambda>_.
     let expires = UnixMilli (rt_Expiration raw) in
     rbind (demand (\<not> expires < now - maxClockSkew) ''transaction expired'') (\<lambda>_.
     rbind (demand (\<not> now + maxTransactionLifetime < expires) ''transaction stays valid'') (\<lambda>_.
     demand (\<not> \<not> built < expires) ''transaction expires before it was built''))))))"

section \<open>The parameter\<close>

definition sameAddress :: "tron_lib \<Rightarrow> string \<Rightarrow> string \<Rightarrow> byte list \<Rightarrow> unit tron_result" where
  "sameAddress L field expected actual =
     (if expected = [] then Inl (Mismatch field)
      else case tl_DecodeCheck L expected of
        None \<Rightarrow> Inl (Mismatch field)
      | Some want \<Rightarrow> demand (\<not> want \<noteq> actual) field)"

definition unmarshalParameter :: "contract_entry \<Rightarrow> (any_msg \<Rightarrow> 'm option) \<Rightarrow> ('m \<Rightarrow> byte list) \<Rightarrow> 'm tron_result" where
  "unmarshalParameter entry decode unknown =
     (case ce_Parameter entry of
        None \<Rightarrow> Inl (Mismatch ''contract carries no parameter'')
      | Some parameter \<Rightarrow>
          rbind (rejectUnknown ''contract parameter envelope'' (an_Unknown parameter)) (\<lambda>_.
          case decode parameter of
            None \<Rightarrow> Inl (Mismatch ''contract parameter'')
          | Some target \<Rightarrow> rbind (rejectUnknown ''contract parameter'' (unknown target)) (\<lambda>_. Inr target)))"

definition verifyParameter :: "tron_lib \<Rightarrow> intent \<Rightarrow> contract_entry \<Rightarrow> unit tron_result" where
  "verifyParameter L i entry =
     (case in_Kind i of
        IntentTransferTRX \<Rightarrow>
          rbind (unmarshalParameter entry (tl_transfer L) tm_Unknown) (\<lambda>value.
          rbind (sameAddress L ''owner'' (in_Owner i) (tm_OwnerAddress value)) (\<lambda>_.
          rbind (sameAddress L ''recipient'' (in_To i) (tm_ToAddress value)) (\<lambda>_.
          demand (\<not> tm_Amount value \<noteq> in_Amount i) ''amount'')))
      | IntentTriggerContract \<Rightarrow>
          rbind (unmarshalParameter entry (tl_trigger L) gm_Unknown) (\<lambda>value.
          rbind (sameAddress L ''owner'' (in_Owner i) (gm_OwnerAddress value)) (\<lambda>_.
          rbind (sameAddress L ''contract'' (in_Contract i) (gm_ContractAddress value)) (\<lambda>_.
          rbind (demand (gm_Data value = in_Data i) ''call data'') (\<lambda>_.
          rbind (demand (\<not> gm_CallValue value \<noteq> in_CallValue i) ''call value'') (\<lambda>_.
          demand (\<not> (gm_CallTokenValue value \<noteq> 0 \<or> gm_TokenId value \<noteq> 0)) ''TRC10 token'')))))
      | IntentStake \<Rightarrow>
          rbind (unmarshalParameter entry (tl_freeze L) fm_Unknown) (\<lambda>value.
          rbind (sameAddress L ''owner'' (in_Owner i) (fm_OwnerAddress value)) (\<lambda>_.
          rbind (demand (\<not> fm_FrozenBalance value \<noteq> in_Amount i) ''stake'') (\<lambda>_.
          demand (\<not> fm_Resource value \<noteq> in_Resource i) ''resource'')))
      | IntentUnstake \<Rightarrow>
          rbind (unmarshalParameter entry (tl_unfreeze L) um_Unknown) (\<lambda>value.
          rbind (sameAddress L ''owner'' (in_Owner i) (um_OwnerAddress value)) (\<lambda>_.
          rbind (demand (\<not> um_UnfreezeBalance value \<noteq> in_Amount i) ''unstake'') (\<lambda>_.
          demand (\<not> um_Resource value \<noteq> in_Resource i) ''resource'')))
      | IntentDelegate \<Rightarrow>
          rbind (unmarshalParameter entry (tl_delegate L) dm_Unknown) (\<lambda>value.
          rbind (sameAddress L ''owner'' (in_Owner i) (dm_OwnerAddress value)) (\<lambda>_.
          rbind (sameAddress L ''receiver'' (in_To i) (dm_ReceiverAddress value)) (\<lambda>_.
          rbind (demand (\<not> dm_Balance value \<noteq> in_Amount i) ''delegation'') (\<lambda>_.
          rbind (demand (\<not> dm_Resource value \<noteq> in_Resource i) ''resource'') (\<lambda>_.
          demand (\<not> (dm_Lock value \<or> dm_LockPeriod value \<noteq> 0)) ''delegation is locked'')))))
      | IntentReclaim \<Rightarrow>
          rbind (unmarshalParameter entry (tl_undelegate L) rm_Unknown) (\<lambda>value.
          rbind (sameAddress L ''owner'' (in_Owner i) (rm_OwnerAddress value)) (\<lambda>_.
          rbind (sameAddress L ''receiver'' (in_To i) (rm_ReceiverAddress value)) (\<lambda>_.
          rbind (demand (\<not> rm_Balance value \<noteq> in_Amount i) ''reclaim'') (\<lambda>_.
          demand (\<not> rm_Resource value \<noteq> in_Resource i) ''resource''))))
      | IntentWithdrawUnstaked \<Rightarrow>
          rbind (unmarshalParameter entry (tl_withdraw L) om_Unknown) (\<lambda>value.
          sameAddress L ''owner'' (in_Owner i) (om_OwnerAddress value))
      | IntentCancelUnstakes \<Rightarrow>
          rbind (unmarshalParameter entry (tl_cancel L) om_Unknown) (\<lambda>value.
          sameAddress L ''owner'' (in_Owner i) (om_OwnerAddress value))
      | IntentDeploy \<Rightarrow>
          rbind (unmarshalParameter entry (tl_create L) cm_Unknown) (\<lambda>value.
          rbind (sameAddress L ''owner'' (in_Owner i) (cm_OwnerAddress value)) (\<lambda>_.
          case cm_NewContract value of
            None \<Rightarrow> Inl (Mismatch ''deployment carries no contract'')
          | Some contract \<Rightarrow>
          rbind (sameAddress L ''contract owner'' (in_Owner i) (sc_OriginAddress contract)) (\<lambda>_.
          rbind (demand (take (length (in_Data i)) (sc_Bytecode contract) = in_Data i) ''deployment bytecode'') (\<lambda>_.
          rbind (demand (\<not> sc_Name contract \<noteq> in_Name i) ''contract name'') (\<lambda>_.
          rbind (demand (\<not> sc_ConsumeUserResourcePercent contract \<noteq> in_ConsumePercent i) ''user resource share'') (\<lambda>_.
          rbind (demand (\<not> sc_OriginEnergyLimit contract \<noteq> in_OriginEnergyLimit i) ''origin energy limit'') (\<lambda>_.
          rbind (demand (\<not> sc_CallValue contract \<noteq> 0) ''deployment attaches'') (\<lambda>_.
          demand (\<not> (cm_CallTokenValue value \<noteq> 0 \<or> cm_TokenId value \<noteq> 0)) ''TRC10 token'')))))))) 
      | OtherIntent k \<Rightarrow> Inl (Mismatch ''unknown operation kind''))"

section \<open>Verify\<close>

text \<open>A node's answer is the raw data of the transaction it built, if it carries any.\<close>

definition verify :: "tron_lib \<Rightarrow> intent \<Rightarrow> raw_tx option \<Rightarrow> int \<Rightarrow> unit tron_result" where
  "verify L i tx now =
     (case tx of
        None \<Rightarrow> Inl (Mismatch ''transaction carries no raw data'')
      | Some raw \<Rightarrow>
          rbind (rejectUnknown ''transaction'' (rt_Unknown raw)) (\<lambda>_.
          rbind (verifyHeader raw now) (\<lambda>_.
          rbind (demand (\<not> length (rt_Contract raw) \<noteq> 1) ''expected exactly one contract'') (\<lambda>_.
          rbind (demand (\<not> length (rt_Scripts raw) \<noteq> 0) ''unexpected scripts'') (\<lambda>_.
          rbind (demand (\<not> length (rt_Auths raw) \<noteq> 0) ''unexpected authorities'') (\<lambda>_.
          rbind (demand (\<not> length (rt_Data raw) \<noteq> 0) ''unexpected memo'') (\<lambda>_.
          rbind (demand (\<not> rt_FeeLimit raw \<noteq> in_FeeLimit i) ''fee limit'') (\<lambda>_.
          let entry = rt_Contract raw ! 0 in
          rbind (rejectUnknown ''contract'' (ce_Unknown entry)) (\<lambda>_.
          case contractTypeByKind (in_Kind i) of
            None \<Rightarrow> Inl (Mismatch ''unknown operation kind'')
          | Some expectedType \<Rightarrow>
          rbind (demand (\<not> ce_Type entry \<noteq> expectedType) ''contract type'') (\<lambda>_.
          rbind (demand (\<not> ce_PermissionId entry \<noteq> in_PermissionID i) ''permission id'') (\<lambda>_.
          rbind (demand (\<not> (length (ce_Provider entry) \<noteq> 0 \<or> length (ce_ContractName entry) \<noteq> 0)) ''provider or name'') (\<lambda>_.
          verifyParameter L i entry))))))))))))"

definition transactionDigest :: "tron_lib \<Rightarrow> raw_tx \<Rightarrow> (byte list \<times> string) tron_result" where
  "transactionDigest L raw =
     (case tl_marshal L raw of
        None \<Rightarrow> Inl (Upstream ''encode transaction for signing'')
      | Some rawData \<Rightarrow> let digest = tl_sha256 L rawData in Inr (digest, HexEncode digest))"

section \<open>What a transaction does\<close>

text \<open>
  The effect of the one contract of a transaction on chain, under its permission and within its fee
  limit. A deployment leaves the rest of the bytecode open: constructor arguments follow the code.
\<close>

datatype effect =
    Pay "byte list" "byte list" int
  | Call "byte list" "byte list" "byte list" int
  | Freeze "byte list" int resource_code
  | Unfreeze "byte list" int resource_code
  | Lend "byte list" "byte list" int resource_code
  | TakeBack "byte list" "byte list" int resource_code
  | Withdraw "byte list"
  | CancelAll "byte list"
  | Publish "byte list" "byte list" string int int
  | Unaccounted

definition entry_effect :: "tron_lib \<Rightarrow> contract_entry \<Rightarrow> effect" where
  "entry_effect L e =
     (case ce_Parameter e of None \<Rightarrow> Unaccounted | Some p \<Rightarrow>
        (case ce_Type e of
           TransferContract \<Rightarrow> (case tl_transfer L p of None \<Rightarrow> Unaccounted
             | Some m \<Rightarrow> Pay (tm_OwnerAddress m) (tm_ToAddress m) (tm_Amount m))
         | TriggerSmartContract \<Rightarrow> (case tl_trigger L p of None \<Rightarrow> Unaccounted
             | Some m \<Rightarrow> if gm_CallTokenValue m = 0 \<and> gm_TokenId m = 0
                 then Call (gm_OwnerAddress m) (gm_ContractAddress m) (gm_Data m) (gm_CallValue m) else Unaccounted)
         | FreezeBalanceV2Contract \<Rightarrow> (case tl_freeze L p of None \<Rightarrow> Unaccounted
             | Some m \<Rightarrow> Freeze (fm_OwnerAddress m) (fm_FrozenBalance m) (fm_Resource m))
         | UnfreezeBalanceV2Contract \<Rightarrow> (case tl_unfreeze L p of None \<Rightarrow> Unaccounted
             | Some m \<Rightarrow> Unfreeze (um_OwnerAddress m) (um_UnfreezeBalance m) (um_Resource m))
         | DelegateResourceContract \<Rightarrow> (case tl_delegate L p of None \<Rightarrow> Unaccounted
             | Some m \<Rightarrow> if \<not> dm_Lock m \<and> dm_LockPeriod m = 0
                 then Lend (dm_OwnerAddress m) (dm_ReceiverAddress m) (dm_Balance m) (dm_Resource m) else Unaccounted)
         | UnDelegateResourceContract \<Rightarrow> (case tl_undelegate L p of None \<Rightarrow> Unaccounted
             | Some m \<Rightarrow> TakeBack (rm_OwnerAddress m) (rm_ReceiverAddress m) (rm_Balance m) (rm_Resource m))
         | WithdrawExpireUnfreezeContract \<Rightarrow> (case tl_withdraw L p of None \<Rightarrow> Unaccounted
             | Some m \<Rightarrow> Withdraw (om_OwnerAddress m))
         | CancelAllUnfreezeV2Contract \<Rightarrow> (case tl_cancel L p of None \<Rightarrow> Unaccounted
             | Some m \<Rightarrow> CancelAll (om_OwnerAddress m))
         | CreateSmartContract \<Rightarrow> (case tl_create L p of None \<Rightarrow> Unaccounted
             | Some m \<Rightarrow> (case cm_NewContract m of None \<Rightarrow> Unaccounted
                 | Some c \<Rightarrow> if sc_OriginAddress c = cm_OwnerAddress m \<and> sc_CallValue c = 0 \<and> cm_CallTokenValue m = 0 \<and> cm_TokenId m = 0
                     then Publish (cm_OwnerAddress m) (sc_Bytecode c) (sc_Name c) (sc_ConsumeUserResourcePercent c)
                       (sc_OriginEnergyLimit c)
                     else Unaccounted))
         | OtherContractType k \<Rightarrow> Unaccounted))"

text \<open>What an intent asks for.\<close>

definition addr :: "tron_lib \<Rightarrow> string \<Rightarrow> byte list" where
  "addr L a = (case tl_DecodeCheck L a of None \<Rightarrow> [] | Some b \<Rightarrow> b)"

fun wanted :: "tron_lib \<Rightarrow> intent \<Rightarrow> effect \<Rightarrow> bool" where
  "wanted L i (Pay o' t a) \<longleftrightarrow> in_Kind i = IntentTransferTRX \<and> o' = addr L (in_Owner i) \<and> t = addr L (in_To i) \<and> a = in_Amount i"
| "wanted L i (Call o' c d v) \<longleftrightarrow> in_Kind i = IntentTriggerContract \<and> o' = addr L (in_Owner i) \<and>
     c = addr L (in_Contract i) \<and> d = in_Data i \<and> v = in_CallValue i"
| "wanted L i (Freeze o' a r) \<longleftrightarrow> in_Kind i = IntentStake \<and> o' = addr L (in_Owner i) \<and> a = in_Amount i \<and> r = in_Resource i"
| "wanted L i (Unfreeze o' a r) \<longleftrightarrow> in_Kind i = IntentUnstake \<and> o' = addr L (in_Owner i) \<and> a = in_Amount i \<and> r = in_Resource i"
| "wanted L i (Lend o' t a r) \<longleftrightarrow> in_Kind i = IntentDelegate \<and> o' = addr L (in_Owner i) \<and> t = addr L (in_To i) \<and>
     a = in_Amount i \<and> r = in_Resource i"
| "wanted L i (TakeBack o' t a r) \<longleftrightarrow> in_Kind i = IntentReclaim \<and> o' = addr L (in_Owner i) \<and> t = addr L (in_To i) \<and>
     a = in_Amount i \<and> r = in_Resource i"
| "wanted L i (Withdraw o') \<longleftrightarrow> in_Kind i = IntentWithdrawUnstaked \<and> o' = addr L (in_Owner i)"
| "wanted L i (CancelAll o') \<longleftrightarrow> in_Kind i = IntentCancelUnstakes \<and> o' = addr L (in_Owner i)"
| "wanted L i (Publish o' code name share energy) \<longleftrightarrow> in_Kind i = IntentDeploy \<and> o' = addr L (in_Owner i) \<and>
     take (length (in_Data i)) code = in_Data i \<and> name = in_Name i \<and> share = in_ConsumePercent i \<and> energy = in_OriginEnergyLimit i"
| "wanted L i Unaccounted \<longleftrightarrow> False"

text \<open>
  A transaction that does what an intent asks for and nothing else: one contract under the right
  permission, within the fee limit, no memo, no unread bytes beside it, and valid for at most
  ten minutes.
\<close>

definition does :: "tron_lib \<Rightarrow> intent \<Rightarrow> int \<Rightarrow> raw_tx \<Rightarrow> bool" where
  "does L i now raw \<longleftrightarrow>
     (\<exists>e. rt_Contract raw = [e] \<and> wanted L i (entry_effect L e) \<and> ce_PermissionId e = in_PermissionID i \<and>
        ce_Provider e = [] \<and> ce_ContractName e = [] \<and> ce_Unknown e = []) \<and>
     rt_FeeLimit raw = in_FeeLimit i \<and> rt_Data raw = [] \<and> rt_Auths raw = [] \<and> rt_Scripts raw = [] \<and> rt_Unknown raw = [] \<and>
     UnixMilli (rt_Expiration raw) \<le> now + maxTransactionLifetime \<and> UnixMilli (rt_Timestamp raw) < UnixMilli (rt_Expiration raw)"

lemma demand_Inr [simp]: "demand ok w = Inr u \<longleftrightarrow> ok"
  by (simp add: demand_def)

lemma rejectUnknown_Inr [simp]: "rejectUnknown w bs = Inr u \<longleftrightarrow> bs = []"
  by (simp add: rejectUnknown_def)

lemma sameAddress_Inr: "sameAddress L f expected actual = Inr u \<Longrightarrow> actual = addr L expected"
  by (auto simp: sameAddress_def addr_def split: if_splits option.splits)

lemma unmarshalParameter_Inr:
  "unmarshalParameter e decode unknown = Inr m \<Longrightarrow> \<exists>p. ce_Parameter e = Some p \<and> an_Unknown p = [] \<and> decode p = Some m \<and> unknown m = []"
  by (auto simp: unmarshalParameter_def rbind_eq_Inr split: option.splits)

lemma verifyParameter_wanted:
  assumes "verifyParameter L i e = Inr u" "contractTypeByKind (in_Kind i) = Some (ce_Type e)"
  shows "wanted L i (entry_effect L e)"
proof (cases "in_Kind i")
  case IntentDeploy
  then show ?thesis
    using assms
    by (auto simp: verifyParameter_def rbind_eq_Inr entry_effect_def dest!: unmarshalParameter_Inr sameAddress_Inr split: option.splits)
qed (use assms in \<open>auto simp: verifyParameter_def rbind_eq_Inr entry_effect_def dest!: unmarshalParameter_Inr sameAddress_Inr\<close>)

lemma verify_does:
  assumes "verify L i tx now = Inr u"
  shows "\<exists>raw. tx = Some raw \<and> does L i now raw"
proof -
  obtain raw where raw: "tx = Some raw" using assms by (cases tx) (auto simp: verify_def)
  obtain e where e: "rt_Contract raw = [e]"
    using assms by (auto simp: verify_def raw rbind_eq_Inr length_Suc_conv)
  have "ce_Unknown e = []" "contractTypeByKind (in_Kind i) = Some (ce_Type e)" "ce_PermissionId e = in_PermissionID i"
    "ce_Provider e = []" "ce_ContractName e = []" "verifyParameter L i e = Inr u"
    using assms by (auto simp: verify_def raw rbind_eq_Inr e split: option.splits)
  moreover have "rt_FeeLimit raw = in_FeeLimit i" "rt_Data raw = []" "rt_Auths raw = []" "rt_Scripts raw = []" "rt_Unknown raw = []"
    using assms by (auto simp: verify_def raw rbind_eq_Inr)
  moreover have "UnixMilli (rt_Expiration raw) \<le> now + maxTransactionLifetime" "UnixMilli (rt_Timestamp raw) < UnixMilli (rt_Expiration raw)"
    using assms by (auto simp: verify_def raw rbind_eq_Inr verifyHeader_def Let_def)
  ultimately show ?thesis using raw e verifyParameter_wanted by (auto simp: does_def)
qed

end
