(* ===== verification/TronService.thy ===== *)
theory TronService
  imports TronIntent SendFlow
begin

text \<open>
  Building, checking and signing Tron transactions (internal/tron/service.go, amount.go, staking.go,
  contract.go, internal/chain/tron/adapter.go): the retries over nodes, the amounts, the intents of
  transfers, staking, delegation and deployment, and the programs that ask for a signature.

  A \<open>decimal.Decimal\<close> is a rational number. What the nodes answer, attempt by attempt, whether the
  context has ended before an attempt, and what happens to the broadcast are in \<open>tron_run\<close>; the
  programs are those of \<open>SendFlow\<close>, so they run with the signers and the store modelled there.
\<close>

section \<open>Errors and retries\<close>

datatype client_err = ContractValidateError | ErrContractCallFailed | ErrContractNotExist | BroadcastError string | ErrAccountNotFound | OtherClientError

text \<open>\<open>chainError\<close> of a refusal to build.\<close>

definition chainError :: "string \<Rightarrow> client_err \<Rightarrow> tron_err" where
  "chainError stage err =
     (case err of
        ContractValidateError \<Rightarrow> Invalid stage
      | ErrContractCallFailed \<Rightarrow> Invalid stage
      | BroadcastError code \<Rightarrow> if rejectionReason code \<noteq> [] then Invalid stage else Upstream stage
      | _ \<Rightarrow> Upstream stage)"

fun retry_loop :: "(nat \<Rightarrow> 'e option) \<Rightarrow> (nat \<Rightarrow> 'e + 'a) \<Rightarrow> nat \<Rightarrow> nat \<Rightarrow> 'e \<Rightarrow> 'e + 'a" where
  "retry_loop ctx call i 0 err = Inl err"
| "retry_loop ctx call i (Suc left) err =
     (case ctx i of
        Some ended \<Rightarrow> Inl ended
      | None \<Rightarrow> (case call i of Inr result \<Rightarrow> Inr result | Inl err \<Rightarrow> retry_loop ctx call (i + 1) left err))"

text \<open>At least one attempt is made, so the error the loop starts with is never the answer.\<close>

definition retry :: "(nat \<Rightarrow> 'e option) \<Rightarrow> int \<Rightarrow> (nat \<Rightarrow> 'e + 'a) \<Rightarrow> 'e + 'a" where
  "retry ctx attempts call = retry_loop ctx call 0 (nat (if attempts < 1 then 1 else attempts)) undefined"

definition emptyIfMissing :: "'a \<Rightarrow> (nat \<Rightarrow> client_err + 'a) \<Rightarrow> nat \<Rightarrow> client_err + 'a" where
  "emptyIfMissing zero call i = (case call i of Inl ErrAccountNotFound \<Rightarrow> Inr zero | r \<Rightarrow> r)"

lemma retry_loop_Inr: "retry_loop ctx call i n err = Inr r \<Longrightarrow> \<exists>j. i \<le> j \<and> j < i + n \<and> ctx j = None \<and> call j = Inr r \<and>
    (\<forall>k. i \<le> k \<longrightarrow> k < j \<longrightarrow> \<not> is_ok (call k))"
proof (induction n arbitrary: i err)
  case (Suc n)
  show ?case
  proof (cases "call i")
    case (Inl e)
    then obtain j where j: "Suc i \<le> j" "j < Suc i + n" "ctx j = None" "call j = Inr r" "\<forall>k. Suc i \<le> k \<longrightarrow> k < j \<longrightarrow> \<not> is_ok (call k)"
      using Suc.prems Suc.IH [of "i + 1" e] by (auto split: option.splits)
    have "\<not> is_ok (call k)" if "i \<le> k" "k < j" for k
      using that Inl j(5) by (cases "k = i") (auto simp: is_ok_def)
    then show ?thesis using j by (intro exI [of _ j]) auto
  next
    case (Inr v)
    then show ?thesis using Suc.prems by (intro exI [of _ i]) (auto split: option.splits)
  qed
qed simp

text \<open>A result of \<open>retry\<close> is the first success, within the budget.\<close>

lemma retry_Inr:
  assumes "retry ctx n call = Inr r"
  shows "\<exists>j. int j < max 1 n \<and> call j = Inr r \<and> (\<forall>k<j. \<not> is_ok (call k))"
proof -
  obtain j where "j < nat (if n < 1 then 1 else n)" "call j = Inr r" "\<forall>k<j. \<not> is_ok (call k)"
    using retry_loop_Inr [OF assms [unfolded retry_def]] by auto
  then show ?thesis by (intro exI [of _ j]) (auto split: if_splits)
qed

section \<open>Amounts\<close>

definition maxTokenDecimals :: int where "maxTokenDecimals = 78"

definition validateDecimals :: "int option \<Rightarrow> int tron_result" where
  "validateDecimals decimals =
     (case decimals of
        None \<Rightarrow> Inl (Invalid ''no decimals reported'')
      | Some d \<Rightarrow>
          if \<not> (- (2 ^ 63) \<le> d \<and> d < 2 ^ 63) \<or> d < 1 \<or> maxTokenDecimals < d then Inl (Upstream ''reports unusable decimals'')
          else Inr (sint (word_of_int d :: u32)))"

definition trxAmount :: "tron_lib \<Rightarrow> rat \<Rightarrow> int tron_result" where
  "trxAmount L amount = (case tl_FromTRX L amount of None \<Rightarrow> Inl (Invalid ''amount'') | Some sun \<Rightarrow> Inr sun)"

definition tokenAmount :: "tron_lib \<Rightarrow> rat \<Rightarrow> int \<Rightarrow> int tron_result" where
  "tokenAmount L amount decimals =
     (case tl_FromTokenDecimal L amount decimals of None \<Rightarrow> Inl (Invalid ''amount'') | Some tokens \<Rightarrow> Inr tokens)"

definition stakeAmount :: "tron_lib \<Rightarrow> rat \<Rightarrow> int tron_result" where
  "stakeAmount L amount = rcheck (\<not> amount \<le> 0) (Invalid ''amount must be greater than zero'') (trxAmount L amount)"

text \<open>What the code relies on in the amount constructors of the SDK: exact, or refused.\<close>

definition exact_amounts :: "tron_lib \<Rightarrow> bool" where
  "exact_amounts L \<longleftrightarrow>
     (\<forall>d s. tl_FromTRX L d = Some s \<longrightarrow> of_int s = d * 10 ^ 6) \<and>
     (\<forall>d k u. tl_FromTokenDecimal L d k = Some u \<longrightarrow> of_int u = d * 10 ^ nat k)"

section \<open>Intents of operations\<close>

definition no_intent :: intent where
  "no_intent = \<lparr>in_Kind = OtherIntent [], in_Owner = [], in_To = [], in_Amount = 0, in_Contract = [], in_Data = [],
     in_CallValue = 0, in_Resource = BANDWIDTH, in_FeeLimit = 0, in_PermissionID = 0, in_Name = [], in_ConsumePercent = 0,
     in_OriginEnergyLimit = 0\<rparr>"

definition trc20TransferSelector :: "byte list" where
  "trc20TransferSelector = [0xa9, 0x05, 0x9c, 0xbb]"

definition put_be :: "nat \<Rightarrow> nat \<Rightarrow> byte list" where
  "put_be n x = rev (put_le n x)"

definition trc20TransferData :: "tron_lib \<Rightarrow> string \<Rightarrow> int \<Rightarrow> byte list tron_result" where
  "trc20TransferData L to units =
     (case tl_DecodeCheck L to of
        None \<Rightarrow> Inl (Invalid ''invalid recipient address'')
      | Some raw \<Rightarrow>
          rcheck (\<not> length raw \<noteq> 21) (Invalid ''recipient address is not 21 bytes'') (
          rcheck (\<not> units \<le> 0) (Invalid ''amount must be greater than zero'') (
          rcheck (\<not> 2 ^ 256 \<le> units) (Invalid ''amount does not fit in uint256'') (
          Inr (trc20TransferSelector @ replicate 12 0 @ drop 1 raw @ put_be 32 (nat units))))))"

definition trc20Intent :: "tron_lib \<Rightarrow> string \<Rightarrow> string \<Rightarrow> string \<Rightarrow> int \<Rightarrow> int \<Rightarrow> intent tron_result" where
  "trc20Intent L from to contract amount feeLimit =
     rbind (trc20TransferData L to amount) (\<lambda>data.
     Inr (no_intent\<lparr>in_Kind := IntentTriggerContract, in_Owner := from, in_To := to, in_Contract := contract,
       in_Data := data, in_FeeLimit := feeLimit\<rparr>))"

definition resourceIntent :: "intent_kind \<Rightarrow> string \<Rightarrow> string \<Rightarrow> int \<Rightarrow> resource_code \<Rightarrow> intent" where
  "resourceIntent kind from to sun resource =
     no_intent\<lparr>in_Kind := kind, in_Owner := from, in_To := to, in_Amount := sun, in_Resource := resource\<rparr>"

definition ownerIntent :: "intent_kind \<Rightarrow> string \<Rightarrow> intent" where
  "ownerIntent kind from = no_intent\<lparr>in_Kind := kind, in_Owner := from\<rparr>"

record deploy_request =
  dr_From :: string
  dr_Name :: string
  dr_ABI :: string
  dr_Bytecode :: string
  dr_ConstructorParams :: string
  dr_FeeLimit :: int
  dr_ConsumeUserResourcePercent :: int
  dr_OriginEnergyLimit :: int

text \<open>\<open>strings.TrimPrefix\<close> with its arguments in the order of Go's.\<close>

definition TrimPrefix :: "string \<Rightarrow> string \<Rightarrow> string" where
  "TrimPrefix s prefix = (if take (length prefix) s = prefix then drop (length prefix) s else s)"

definition deployIntent :: "string \<Rightarrow> deploy_request \<Rightarrow> intent tron_result" where
  "deployIntent from request =
     (case HexDecode (TrimPrefix (TrimPrefix (dr_Bytecode request) ''0x'') ''0X'') of
        None \<Rightarrow> Inl (Invalid ''contract bytecode is not hex'')
      | Some code \<Rightarrow>
          Inr (no_intent\<lparr>in_Kind := IntentDeploy, in_Owner := from, in_Data := code, in_Name := dr_Name request,
            in_FeeLimit := dr_FeeLimit request, in_ConsumePercent := dr_ConsumeUserResourcePercent request,
            in_OriginEnergyLimit := dr_OriginEnergyLimit request\<rparr>))"

section \<open>The service and its nodes\<close>

record tron_service =
  sv_nodes :: int
  sv_feeLimit :: int
  sv_Contract :: string
  sv_Decimals :: int

text \<open>A record of what an account lends to one receiver; times count from Go's zero time.\<close>

record client_delegation =
  cd_To :: string
  cd_Bandwidth :: int
  cd_BandwidthExpiresAt :: int
  cd_Energy :: int
  cd_EnergyExpiresAt :: int

record account_resource =
  rs_TotalNetWeight :: int
  rs_TotalNetLimit :: int
  rs_TotalEnergyWeight :: int
  rs_TotalEnergyLimit :: int

text \<open>What the nodes answer, by the number of the attempt; the two conversions are the SDK's.\<close>

record tron_client =
  tc_CreateTransferTransaction :: "string \<Rightarrow> string \<Rightarrow> int \<Rightarrow> nat \<Rightarrow> client_err + raw_tx option"
  tc_TRC20Send :: "string \<Rightarrow> string \<Rightarrow> string \<Rightarrow> int \<Rightarrow> int \<Rightarrow> nat \<Rightarrow> client_err + raw_tx option"
  tc_Stake :: "string \<Rightarrow> resource_code \<Rightarrow> int \<Rightarrow> nat \<Rightarrow> client_err + raw_tx option"
  tc_Unstake :: "string \<Rightarrow> resource_code \<Rightarrow> int \<Rightarrow> nat \<Rightarrow> client_err + raw_tx option"
  tc_DelegateResource :: "string \<Rightarrow> string \<Rightarrow> resource_code \<Rightarrow> int \<Rightarrow> bool \<Rightarrow> int \<Rightarrow> nat \<Rightarrow> client_err + raw_tx option"
  tc_ReclaimResource :: "string \<Rightarrow> string \<Rightarrow> resource_code \<Rightarrow> int \<Rightarrow> nat \<Rightarrow> client_err + raw_tx option"
  tc_WithdrawUnstaked :: "string \<Rightarrow> nat \<Rightarrow> client_err + raw_tx option"
  tc_CancelAllUnstakes :: "string \<Rightarrow> nat \<Rightarrow> client_err + raw_tx option"
  tc_DeployContract :: "deploy_request \<Rightarrow> nat \<Rightarrow> client_err + raw_tx option"
  tc_GetDelegatedResourcesV2 :: "string \<Rightarrow> nat \<Rightarrow> client_err + client_delegation list"
  tc_GetAccountResource :: "string \<Rightarrow> nat \<Rightarrow> client_err + account_resource"
  tc_ConvertBandwidthToStaked :: "int \<Rightarrow> int \<Rightarrow> rat \<Rightarrow> int"
  tc_ConvertEnergyToStaked :: "int \<Rightarrow> int \<Rightarrow> rat \<Rightarrow> int"

text \<open>One run: when a context ends, the clocks, how the SDK attaches a signature, and the broadcast.\<close>

record tron_run =
  te_ctx :: "nat \<Rightarrow> client_err option"
  te_now :: int
  te_lockNow :: int
  te_store :: store_env
  te_ended :: bool
  te_attach :: "raw_tx \<Rightarrow> byte list \<Rightarrow> byte list"
  te_node :: node_answer

text \<open>The transaction identifier, the error, and the addresses whose cached balances are dropped.\<close>

type_synonym sent = "string \<times> chain_error option \<times> string list"

fun tron_error :: "tron_err \<Rightarrow> chain_error" where
  "tron_error (Mismatch what) = ErrInvalidRequest"
| "tron_error (Invalid what) = ErrInvalidRequest"
| "tron_error (Upstream what) = ChainErr what"

definition refused :: "tron_err \<Rightarrow> sent world" where
  "refused e = Finished ([], Some (tron_error e), [])"

definition dropping :: "string list \<Rightarrow> string \<times> chain_error option \<Rightarrow> sent" where
  "dropping addresses = (\<lambda>(txid, err). (txid, err, if err = None then addresses else []))"

definition sent_digest :: "tron_lib \<Rightarrow> intent \<Rightarrow> raw_tx option \<Rightarrow> int \<Rightarrow> (raw_tx \<times> byte list) tron_result" where
  "sent_digest L i tx now =
     rbind (verify L i tx now) (\<lambda>_.
     case tx of None \<Rightarrow> Inl (Mismatch ''transaction carries no raw data'') | Some raw \<Rightarrow>
     rbind (transactionDigest L raw) (\<lambda>(digest, txid). Inr (raw, digest)))"

text \<open>\<open>submitWithSigner\<close> with its checks: nothing reaches the signer before they pass.\<close>

definition tron_submit ::
  "tron_lib \<Rightarrow> tron_run \<Rightarrow> intent \<Rightarrow> raw_tx option \<Rightarrow> string list \<Rightarrow> sent world" where
  "tron_submit L E i tx addresses =
     (case sent_digest L i tx (te_now E) of
        Inl e \<Rightarrow> refused e
      | Inr (raw, digest) \<Rightarrow>
          submitWithSigner (te_store E) (te_ended E) True digest (te_attach E raw) (te_node E) (dropping addresses))"

text \<open>A node is asked to build, up to the retry budget, and what it built is checked and signed.\<close>

definition build_and_submit ::
  "tron_lib \<Rightarrow> tron_service \<Rightarrow> tron_run \<Rightarrow> intent \<Rightarrow> string \<Rightarrow> (nat \<Rightarrow> client_err + raw_tx option) \<Rightarrow> string list \<Rightarrow> sent world" where
  "build_and_submit L sv E i stage build addresses =
     (case retry (te_ctx E) (sv_nodes sv) build of
        Inl err \<Rightarrow> refused (chainError stage err)
      | Inr tx \<Rightarrow> tron_submit L E i tx addresses)"

section \<open>Transfers\<close>

datatype tron_asset = AssetTRX | AssetUSDT | OtherAsset string

definition tronSigner :: "family option \<Rightarrow> 'a world \<Rightarrow> 'a world \<Rightarrow> 'a world" where
  "tronSigner signer none k = (if signer = None \<or> signer \<noteq> Some FamilyTron then none else k)"

definition signer_required :: "sent world" where
  "signer_required = refused (Upstream ''Tron signer is required'')"

text \<open>\<open>buildTransfer\<close> and \<open>SendWithSigner\<close>: the intent and the node's answer travel as a pair.\<close>

definition buildTransfer ::
  "tron_lib \<Rightarrow> tron_service \<Rightarrow> tron_client \<Rightarrow> tron_run \<Rightarrow> string \<Rightarrow> string \<Rightarrow> tron_asset \<Rightarrow> rat \<Rightarrow> (intent \<times> raw_tx option) tron_result" where
  "buildTransfer L sv K E from to asset amount =
     rcheck (tl_Validate L to) (Invalid ''invalid recipient address'') (
     rcheck (\<not> amount \<le> 0) (Invalid ''amount must be greater than zero'') (
     case asset of
       AssetTRX \<Rightarrow>
         rbind (trxAmount L amount) (\<lambda>sun.
         let i = no_intent\<lparr>in_Kind := IntentTransferTRX, in_Owner := from, in_To := to, in_Amount := sun\<rparr> in
         (case retry (te_ctx E) (sv_nodes sv) (tc_CreateTransferTransaction K from to sun) of
            Inl err \<Rightarrow> Inl (chainError ''create TRX transfer'' err)
          | Inr tx \<Rightarrow> Inr (i, tx)))
     | AssetUSDT \<Rightarrow>
         rbind (tokenAmount L amount (sv_Decimals sv)) (\<lambda>tokens.
         rbind (trc20Intent L from to (sv_Contract sv) tokens (sv_feeLimit sv)) (\<lambda>i.
         (case retry (te_ctx E) (sv_nodes sv) (tc_TRC20Send K from to (sv_Contract sv) tokens (sv_feeLimit sv)) of
            Inl err \<Rightarrow> Inl (chainError ''create transfer'' err)
          | Inr tx \<Rightarrow> Inr (i, tx))))
     | OtherAsset a \<Rightarrow> Inl (Invalid ''unknown asset'')))"

definition SendWithSigner ::
  "tron_lib \<Rightarrow> tron_service \<Rightarrow> tron_client \<Rightarrow> tron_run \<Rightarrow> string \<Rightarrow> string \<Rightarrow> tron_asset \<Rightarrow> rat \<Rightarrow> family option \<Rightarrow> sent world" where
  "SendWithSigner L sv K E from to asset amount signer =
     tronSigner signer signer_required (
     case buildTransfer L sv K E from to asset amount of
       Inl e \<Rightarrow> refused e
     | Inr (i, tx) \<Rightarrow> tron_submit L E i tx [from, to])"

definition SendTokenWithSigner ::
  "tron_lib \<Rightarrow> tron_service \<Rightarrow> tron_client \<Rightarrow> tron_run \<Rightarrow> string \<Rightarrow> string \<Rightarrow> string \<Rightarrow> byte \<Rightarrow> rat \<Rightarrow> family option \<Rightarrow> sent world" where
  "SendTokenWithSigner L sv K E from to contract decimals amount signer =
     tronSigner signer signer_required (
     case rcheck (tl_Validate L to) (Invalid ''invalid recipient address'') (
          rcheck (tl_Validate L contract) (Invalid ''invalid TRC20 contract'') (
          rbind (tokenAmount L amount (uint decimals)) (\<lambda>tokens.
          rbind (trc20Intent L from to contract tokens (sv_feeLimit sv)) (\<lambda>i. Inr (tokens, i))))) of
       Inl e \<Rightarrow> refused e
     | Inr (tokens, i) \<Rightarrow>
         build_and_submit L sv E i ''create TRC20 transfer'' (tc_TRC20Send K from to contract tokens (sv_feeLimit sv)) [from, to])"

text \<open>\<open>tronTransfer\<close> and \<open>Send\<close> of the adapter. The service of the network is an argument, or the error of building it.\<close>

definition tronTransfer :: "tron_lib \<Rightarrow> transfer_request \<Rightarrow> string \<Rightarrow> chain_error + tron_asset \<times> rat" where
  "tronTransfer L req networkID =
     rcheck (\<not> ca_NetworkID (tq_Asset req) \<noteq> networkID) ErrInvalidRequest (
     case tl_NewFromString L (tq_Amount req) of
       None \<Rightarrow> Inl ErrInvalidRequest
     | Some amount \<Rightarrow>
         rcheck (\<not> amount \<le> 0) ErrInvalidRequest (
         if ca_Kind (tq_Asset req) = ''native'' then Inr (AssetTRX, amount)
         else if ca_Kind (tq_Asset req) = ''trc20'' then Inr (AssetUSDT, amount)
         else Inl ErrInvalidRequest))"

definition sent_transaction :: "string \<Rightarrow> sent \<Rightarrow> (transaction \<times> chain_error option) \<times> string list" where
  "sent_transaction networkID = (\<lambda>(txID, err, dropped).
     ((case err of
         Some e \<Rightarrow> if txID \<noteq> [] \<and> e = ErrBroadcastUnknown then outcome networkID txID StatusBroadcastUnknown (Some e)
                   else (no_transaction, Some e)
       | None \<Rightarrow> outcome networkID txID StatusPending None), dropped))"

definition tron_adapter_Send ::
  "tron_lib \<Rightarrow> chain_error + tron_service \<Rightarrow> tron_client \<Rightarrow> tron_run \<Rightarrow> string \<Rightarrow> transfer_request \<Rightarrow> family option
     \<Rightarrow> ((transaction \<times> chain_error option) \<times> string list) world" where
  "tron_adapter_Send L service K E networkID req signer =
     (case rbind service (\<lambda>sv. rbind (tronTransfer L req networkID) (\<lambda>(asset, amount). Inr (sv, asset, amount))) of
        Inl e \<Rightarrow> Finished ((no_transaction, Some e), [])
      | Inr (sv, asset, amount) \<Rightarrow>
          map_world (sent_transaction networkID)
            (if ca_Kind (tq_Asset req) = ''trc20'' \<and> ca_Contract (tq_Asset req) \<noteq> sv_Contract sv
             then SendTokenWithSigner L sv K E (tq_From req) (tq_To req) (ca_Contract (tq_Asset req)) (ca_Decimals (tq_Asset req)) amount signer
             else SendWithSigner L sv K E (tq_From req) (tq_To req) asset amount signer))"

end
