(* ===== verification/TronStaking.thy ===== *)
theory TronStaking
  imports TronService
begin

text \<open>
  Staking, delegation and deployment on Tron (internal/tron/staking.go, contract.go and the methods of
  internal/chain/tron/adapter.go that call them): the operations that freeze, lend, take back and
  withdraw stake, what may be taken back from one receiver, the deployment of a contract and the
  receipt that tells what came of it.

  Amounts in SUN are Go's \<open>int64\<close>: a sum of them wraps. A resource is the string of the request.
\<close>

section \<open>Resources and counterparties\<close>

definition ResourceBandwidth :: string where "ResourceBandwidth = ''bandwidth''"
definition ResourceEnergy :: string where "ResourceEnergy = ''energy''"

definition toClient :: "string \<Rightarrow> resource_code tron_result" where
  "toClient r =
     (if r = ResourceBandwidth then Inr BANDWIDTH
      else if r = ResourceEnergy then Inr ENERGY
      else Inl (Invalid ''unknown resource''))"

definition counterparty :: "tron_lib \<Rightarrow> string \<Rightarrow> string \<Rightarrow> unit tron_result" where
  "counterparty L from to =
     rcheck (tl_Validate L from) (Invalid ''invalid sender address'') (
     rcheck (tl_Validate L to) (Invalid ''invalid receiver address'') (
     rcheck (\<not> from = to) (Invalid ''an account cannot delegate to itself'') (Inr ())))"

text \<open>\<open>stakeBehind\<close>: the stake that yields an amount of a resource, at the rates a node reports.\<close>

definition stakeBehind :: "tron_service \<Rightarrow> tron_client \<Rightarrow> tron_run \<Rightarrow> string \<Rightarrow> string \<Rightarrow> rat \<Rightarrow> int tron_result" where
  "stakeBehind sv K E account resource units =
     rcheck (\<not> units \<le> 0) (Invalid ''amount must be greater than zero'') (
     case retry (te_ctx E) (sv_nodes sv) (tc_GetAccountResource K account) of
       Inl err \<Rightarrow> Inl (Upstream ''read resource rates'')
     | Inr rates \<Rightarrow>
         rbind (if resource = ResourceBandwidth
                then Inr (tc_ConvertBandwidthToStaked K (rs_TotalNetWeight rates) (rs_TotalNetLimit rates) units)
                else if resource = ResourceEnergy
                then Inr (tc_ConvertEnergyToStaked K (rs_TotalEnergyLimit rates) (rs_TotalEnergyWeight rates) units)
                else Inl (Invalid ''unknown resource'')) (\<lambda>sun.
         rcheck (\<not> sun \<le> 0) (Invalid ''too little to move'') (Inr sun)))"

section \<open>What is lent out\<close>

record delegation =
  dg_To :: string
  dg_Resource :: string
  dg_Amount :: rat
  dg_LockedUntil :: int

definition int64 :: "int \<Rightarrow> int" where
  "int64 x = sint (word_of_int x :: u64)"

definition TRX :: "int \<Rightarrow> rat" where
  "TRX sun = of_int sun / 10 ^ 6"

text \<open>The loop of \<open>splitDelegations\<close>: the pairs in the order they were first seen, the stake and the
  latest lock of each. Reading a Go map at an absent key gives the zero value.\<close>

record split_state =
  sp_order :: "(string \<times> string) list"
  sp_staked :: "(string \<times> string) \<rightharpoonup> int"
  sp_locks :: "(string \<times> string) \<rightharpoonup> int"

definition map_zero :: "('k \<rightharpoonup> int) \<Rightarrow> 'k \<Rightarrow> int" where
  "map_zero m k = (case m k of None \<Rightarrow> 0 | Some v \<Rightarrow> v)"

definition split_add :: "string \<Rightarrow> string \<Rightarrow> int \<Rightarrow> int \<Rightarrow> split_state \<Rightarrow> split_state" where
  "split_add to resource amount lock S =
     (if amount \<le> 0 then S
      else let key = (to, resource);
               S = (if sp_staked S key = None then S\<lparr>sp_order := sp_order S @ [key]\<rparr> else S);
               S = S\<lparr>sp_staked := (sp_staked S)(key \<mapsto> int64 (map_zero (sp_staked S) key + amount))\<rparr>
           in if lock > map_zero (sp_locks S) key then S\<lparr>sp_locks := (sp_locks S)(key \<mapsto> lock)\<rparr> else S)"

definition split_one :: "client_delegation \<Rightarrow> split_state \<Rightarrow> split_state" where
  "split_one d S =
     split_add (cd_To d) ResourceEnergy (cd_Energy d) (cd_EnergyExpiresAt d)
       (split_add (cd_To d) ResourceBandwidth (cd_Bandwidth d) (cd_BandwidthExpiresAt d) S)"

definition no_split :: split_state where
  "no_split = \<lparr>sp_order = [], sp_staked = Map.empty, sp_locks = Map.empty\<rparr>"

definition split_row :: "split_state \<Rightarrow> string \<times> string \<Rightarrow> delegation" where
  "split_row S key = \<lparr>dg_To = fst key, dg_Resource = snd key, dg_Amount = TRX (map_zero (sp_staked S) key),
     dg_LockedUntil = map_zero (sp_locks S) key\<rparr>"

definition splitDelegations :: "client_delegation list \<Rightarrow> delegation list" where
  "splitDelegations lent = (let S = fold split_one lent no_split in map (split_row S) (sp_order S))"

fun reclaim_sum :: "delegation list \<Rightarrow> string \<Rightarrow> string \<Rightarrow> int \<Rightarrow> rat \<Rightarrow> rat tron_result" where
  "reclaim_sum [] to resource now staked = Inr staked"
| "reclaim_sum (d # rows) to resource now staked =
     (if dg_To d \<noteq> to \<or> dg_Resource d \<noteq> resource then reclaim_sum rows to resource now staked
      else if dg_LockedUntil d \<noteq> 0 \<and> dg_LockedUntil d > now then Inl (Invalid ''locked'')
      else reclaim_sum rows to resource now (staked + dg_Amount d))"

definition reclaimable :: "delegation list \<Rightarrow> string \<Rightarrow> string \<Rightarrow> int \<Rightarrow> rat tron_result" where
  "reclaimable rows to resource now =
     rbind (reclaim_sum rows to resource now 0) (\<lambda>staked.
     rcheck (\<not> staked \<le> 0) (Invalid ''nothing is delegated'') (Inr staked))"

section \<open>Operations\<close>

definition stakeOpSigner ::
  "tron_lib \<Rightarrow> tron_service \<Rightarrow> tron_run \<Rightarrow> string \<Rightarrow> intent \<Rightarrow> family option \<Rightarrow> (nat \<Rightarrow> client_err + raw_tx option) \<Rightarrow> sent world" where
  "stakeOpSigner L sv E from i signer build =
     tronSigner signer signer_required (
     if \<not> tl_Validate L from then refused (Invalid ''invalid sender address'')
     else build_and_submit L sv E i ''build transaction'' build [from])"

definition StakeWithSigner ::
  "tron_lib \<Rightarrow> tron_service \<Rightarrow> tron_client \<Rightarrow> tron_run \<Rightarrow> string \<Rightarrow> string \<Rightarrow> rat \<Rightarrow> family option \<Rightarrow> sent world" where
  "StakeWithSigner L sv K E from resource amount signer =
     (case rbind (toClient resource) (\<lambda>kind. rbind (stakeAmount L amount) (\<lambda>sun. Inr (kind, sun))) of
        Inl e \<Rightarrow> refused e
      | Inr (kind, sun) \<Rightarrow>
          stakeOpSigner L sv E from (resourceIntent IntentStake from [] sun kind) signer (tc_Stake K from kind sun))"

definition UnstakeWithSigner ::
  "tron_lib \<Rightarrow> tron_service \<Rightarrow> tron_client \<Rightarrow> tron_run \<Rightarrow> string \<Rightarrow> string \<Rightarrow> rat \<Rightarrow> family option \<Rightarrow> sent world" where
  "UnstakeWithSigner L sv K E from resource amount signer =
     (case rbind (toClient resource) (\<lambda>kind. rbind (stakeAmount L amount) (\<lambda>sun. Inr (kind, sun))) of
        Inl e \<Rightarrow> refused e
      | Inr (kind, sun) \<Rightarrow>
          stakeOpSigner L sv E from (resourceIntent IntentUnstake from [] sun kind) signer (tc_Unstake K from kind sun))"

definition DelegateWithSigner ::
  "tron_lib \<Rightarrow> tron_service \<Rightarrow> tron_client \<Rightarrow> tron_run \<Rightarrow> string \<Rightarrow> string \<Rightarrow> string \<Rightarrow> rat \<Rightarrow> family option \<Rightarrow> sent world" where
  "DelegateWithSigner L sv K E from to resource units signer =
     (case rbind (counterparty L from to) (\<lambda>_. rbind (toClient resource) (\<lambda>kind.
           rbind (stakeBehind sv K E from resource units) (\<lambda>sun. Inr (kind, sun)))) of
        Inl e \<Rightarrow> refused e
      | Inr (kind, sun) \<Rightarrow>
          stakeOpSigner L sv E from (resourceIntent IntentDelegate from to sun kind) signer
            (tc_DelegateResource K from to kind sun False 0))"

definition ReclaimWithSigner ::
  "tron_lib \<Rightarrow> tron_service \<Rightarrow> tron_client \<Rightarrow> tron_run \<Rightarrow> string \<Rightarrow> string \<Rightarrow> string \<Rightarrow> rat \<Rightarrow> family option \<Rightarrow> sent world" where
  "ReclaimWithSigner L sv K E from to resource units signer =
     (case rbind (counterparty L from to) (\<lambda>_. rbind (toClient resource) (\<lambda>kind.
           rbind (stakeBehind sv K E from resource units) (\<lambda>sun. Inr (kind, sun)))) of
        Inl e \<Rightarrow> refused e
      | Inr (kind, sun) \<Rightarrow>
          stakeOpSigner L sv E from (resourceIntent IntentReclaim from to sun kind) signer
            (tc_ReclaimResource K from to kind sun))"

definition delegations_of :: "tron_service \<Rightarrow> tron_client \<Rightarrow> tron_run \<Rightarrow> string \<Rightarrow> client_delegation list tron_result" where
  "delegations_of sv K E from =
     (case retry (te_ctx E) (sv_nodes sv) (emptyIfMissing [] (tc_GetDelegatedResourcesV2 K from)) of
        Inl err \<Rightarrow> Inl (Upstream ''read delegations'')
      | Inr lent \<Rightarrow> Inr lent)"

definition ReclaimAllWithSigner ::
  "tron_lib \<Rightarrow> tron_service \<Rightarrow> tron_client \<Rightarrow> tron_run \<Rightarrow> string \<Rightarrow> string \<Rightarrow> string \<Rightarrow> family option \<Rightarrow> sent world" where
  "ReclaimAllWithSigner L sv K E from to resource signer =
     (case rbind (counterparty L from to) (\<lambda>_. rbind (toClient resource) (\<lambda>kind.
           rbind (delegations_of sv K E from) (\<lambda>lent.
           rbind (reclaimable (splitDelegations lent) to resource (te_lockNow E)) (\<lambda>staked.
           rbind (trxAmount L staked) (\<lambda>sun. Inr (kind, sun)))))) of
        Inl e \<Rightarrow> refused e
      | Inr (kind, sun) \<Rightarrow>
          stakeOpSigner L sv E from (resourceIntent IntentReclaim from to sun kind) signer
            (tc_ReclaimResource K from to kind sun))"

definition WithdrawUnstakedWithSigner ::
  "tron_lib \<Rightarrow> tron_service \<Rightarrow> tron_client \<Rightarrow> tron_run \<Rightarrow> string \<Rightarrow> family option \<Rightarrow> sent world" where
  "WithdrawUnstakedWithSigner L sv K E from signer =
     stakeOpSigner L sv E from (ownerIntent IntentWithdrawUnstaked from) signer (tc_WithdrawUnstaked K from)"

definition CancelUnstakesWithSigner ::
  "tron_lib \<Rightarrow> tron_service \<Rightarrow> tron_client \<Rightarrow> tron_run \<Rightarrow> string \<Rightarrow> family option \<Rightarrow> sent world" where
  "CancelUnstakesWithSigner L sv K E from signer =
     stakeOpSigner L sv E from (ownerIntent IntentCancelUnstakes from) signer (tc_CancelAllUnstakes K from)"

text \<open>The methods of the adapter, for the service of a network or the error of building it.\<close>

definition with_service :: "chain_error + tron_service \<Rightarrow> (tron_service \<Rightarrow> sent world) \<Rightarrow> sent world" where
  "with_service service call = (case service of Inl e \<Rightarrow> Finished ([], Some e, []) | Inr sv \<Rightarrow> call sv)"

definition adapter_Reclaim ::
  "tron_lib \<Rightarrow> chain_error + tron_service \<Rightarrow> tron_client \<Rightarrow> tron_run \<Rightarrow> string \<Rightarrow> string \<Rightarrow> string \<Rightarrow> rat \<Rightarrow> bool \<Rightarrow> family option \<Rightarrow> sent world" where
  "adapter_Reclaim L service K E from to resource amount all signer =
     with_service service (\<lambda>sv.
       if all then ReclaimAllWithSigner L sv K E from to resource signer
       else ReclaimWithSigner L sv K E from to resource amount signer)"

definition adapter_Withdraw ::
  "tron_lib \<Rightarrow> chain_error + tron_service \<Rightarrow> tron_client \<Rightarrow> tron_run \<Rightarrow> string \<Rightarrow> bool \<Rightarrow> family option \<Rightarrow> sent world" where
  "adapter_Withdraw L service K E from cancel signer =
     with_service service (\<lambda>sv.
       if cancel then CancelUnstakesWithSigner L sv K E from signer
       else WithdrawUnstakedWithSigner L sv K E from signer)"

section \<open>Deployment\<close>

record deployment =
  dp_Name :: string
  dp_ABI :: string
  dp_Bytecode :: string
  dp_ConstructorParams :: string
  dp_FeeLimit :: rat
  dp_ConsumeUserResourcePercent :: int
  dp_OriginEnergyLimit :: int

text \<open>What the SDK says of an ABI, of a request, and of the address a deployment will have.\<close>

record deploy_lib =
  dl_LoadContractABI :: "string \<Rightarrow> string option"
  dl_Validate :: "deploy_request \<Rightarrow> bool"
  dl_DeployedContractAddress :: "raw_tx option \<Rightarrow> string option"

definition deployRequest :: "tron_lib \<Rightarrow> deploy_lib \<Rightarrow> string \<Rightarrow> deployment \<Rightarrow> deploy_request tron_result" where
  "deployRequest L D from d =
     rcheck (tl_Validate L from) (Invalid ''invalid sender address'') (
     rcheck (\<not> dp_FeeLimit d \<le> 0) (Invalid ''fee limit must be greater than zero'') (
     rbind (trxAmount L (dp_FeeLimit d)) (\<lambda>feeLimit.
     rbind (if TrimSpace (dp_ABI d) \<noteq> []
            then (case dl_LoadContractABI D (dp_ABI d) of None \<Rightarrow> Inl (Invalid ''contract ABI'') | Some parsed \<Rightarrow> Inr parsed)
            else Inr []) (\<lambda>parsed.
     let req = \<lparr>dr_From = from, dr_Name = dp_Name d, dr_ABI = parsed, dr_Bytecode = dp_Bytecode d,
           dr_ConstructorParams = dp_ConstructorParams d, dr_FeeLimit = feeLimit,
           dr_ConsumeUserResourcePercent = dp_ConsumeUserResourcePercent d, dr_OriginEnergyLimit = dp_OriginEnergyLimit d\<rparr>
     in rcheck (dl_Validate D req) (Invalid ''request'') (Inr req)))))"

definition deployment_Validate :: "tron_lib \<Rightarrow> deploy_lib \<Rightarrow> deployment \<Rightarrow> string \<Rightarrow> unit tron_result" where
  "deployment_Validate L D d from = rbind (deployRequest L D from d) (\<lambda>_. Inr ())"

text \<open>A receipt: whether the transaction is marked as failed, the verdict of the VM and its message.\<close>

record tx_info =
  ti_Failed :: bool
  ti_Result :: string
  ti_ResMessage :: string
  ti_EnergyUsageTotal :: int
  ti_Fee :: int

definition deployFailure :: "tx_info \<Rightarrow> string" where
  "deployFailure info =
     (let result = ti_Result info in
      if result = ''SUCCESS'' \<or> result = ''DEFAULT'' then []
      else let reason = TrimSpace (ti_ResMessage info)
           in if reason \<noteq> [] then result @ '': '' @ reason else result)"

record deployed =
  de_TxID :: string
  de_Address :: string
  de_Confirmed :: bool
  de_Failure :: string
  de_EnergyUsed :: int
  de_Fee :: rat

definition no_deployed :: deployed where
  "no_deployed = \<lparr>de_TxID = [], de_Address = [], de_Confirmed = False, de_Failure = [], de_EnergyUsed = 0, de_Fee = 0\<rparr>"

text \<open>\<open>awaitDeployment\<close>: the answers of the polls that were made before the wait ended.\<close>

fun awaitDeployment :: "tx_info option list \<Rightarrow> deployed \<Rightarrow> deployed" where
  "awaitDeployment [] out = out"
| "awaitDeployment (None # polls) out = awaitDeployment polls out"
| "awaitDeployment (Some info # polls) out =
     out\<lparr>de_Confirmed := True, de_EnergyUsed := ti_EnergyUsageTotal info, de_Fee := TRX (ti_Fee info),
       de_Failure := deployFailure info\<rparr>"

type_synonym deploy_result = "deployed \<times> chain_error option \<times> string list"

definition deploy_outcome :: "string \<Rightarrow> tx_info option list \<Rightarrow> sent \<Rightarrow> deploy_result" where
  "deploy_outcome contract polls = (\<lambda>(txid, err, dropped).
     case err of
       Some e \<Rightarrow> (no_deployed\<lparr>de_TxID := txid\<rparr>, Some e, dropped)
     | None \<Rightarrow> (awaitDeployment polls (no_deployed\<lparr>de_TxID := txid, de_Address := contract\<rparr>), None, dropped))"

definition deploy_refused :: "tron_err \<Rightarrow> deploy_result world" where
  "deploy_refused e = Finished (no_deployed, Some (tron_error e), [])"

definition DeployWithSigner ::
  "tron_lib \<Rightarrow> deploy_lib \<Rightarrow> tron_service \<Rightarrow> tron_client \<Rightarrow> tron_run \<Rightarrow> string \<Rightarrow> deployment \<Rightarrow> tx_info option list \<Rightarrow> family option
     \<Rightarrow> deploy_result world" where
  "DeployWithSigner L D sv K E from d polls signer =
     tronSigner signer (deploy_refused (Upstream ''Tron signer is required'')) (
     case rbind (deployRequest L D from d) (\<lambda>req.
          case retry (te_ctx E) (sv_nodes sv) (tc_DeployContract K req) of
            Inl err \<Rightarrow> Inl (chainError ''build deployment'' err)
          | Inr tx \<Rightarrow>
              (case dl_DeployedContractAddress D tx of
                 None \<Rightarrow> Inl (Upstream ''derive contract address'')
               | Some contract \<Rightarrow> rbind (deployIntent from req) (\<lambda>i. Inr (tx, contract, i)))) of
       Inl e \<Rightarrow> deploy_refused e
     | Inr (tx, contract, i) \<Rightarrow> map_world (deploy_outcome contract polls) (tron_submit L E i tx [from]))"

section \<open>Status of a transaction\<close>

datatype tx_lookup = InfoNotFound | InfoUnread | Info tx_info

definition TransactionStatus :: "(string \<Rightarrow> tx_lookup) \<Rightarrow> string \<Rightarrow> string tron_result" where
  "TransactionStatus lookup txid =
     (if length txid \<noteq> 64 then Inl (Invalid ''transaction id must contain 64 hex characters'')
      else if HexDecode txid = None then Inl (Invalid ''invalid transaction id'')
      else case lookup txid of
        InfoNotFound \<Rightarrow> Inr StatusPending
      | InfoUnread \<Rightarrow> Inl (Upstream ''read transaction receipt'')
      | Info info \<Rightarrow>
          if ti_Failed info \<or> deployFailure info \<noteq> [] then Inr StatusFailed else Inr StatusConfirmed)"

end
