(* ===== verification/TronSafety.thy ===== *)
theory TronSafety
  imports TronStaking
begin

text \<open>
  What a Tron node can make the wallet sign: \<open>signs_only\<close> says of a program that every digest it asks a
  signature for is the hash of a transaction with one permitted effect, within the fee limit and the
  ten minutes. The lemmas carry it from the check of the intent through the retries to every
  operation; the last section says what is taken back when all that was lent is reclaimed.
\<close>

section \<open>What a program asks to be signed\<close>

primrec asks_only :: "'r world \<Rightarrow> (byte list \<Rightarrow> bool) \<Rightarrow> bool" where
  "asks_only (Finished r) = (\<lambda>P. True)"
| "asks_only (AskDigest ev ended digest k) = (\<lambda>P. P digest \<and> (\<forall>answer. asks_only (k answer) P))"
| "asks_only (AskMessage ev ended message k) = (\<lambda>P. False)"
| "asks_only (BeforeSigning h w) = asks_only w"
| "asks_only (Send raw node w) = asks_only w"
| "asks_only (Elsewhere e w) = asks_only w"
| "asks_only Dies = (\<lambda>P. True)"

lemma asks_only_map [simp]: "asks_only (map_world f w) = asks_only w"
  by (induction w) (auto simp: fun_eq_iff)

lemma asks_only_mono: "asks_only w P \<Longrightarrow> (\<And>d. P d \<Longrightarrow> Q d) \<Longrightarrow> asks_only w Q"
  by (induction w) auto

lemma asks_only_submit:
  "(verified \<Longrightarrow> P digest) \<Longrightarrow> asks_only (submitWithSigner ev ended verified digest attach node finish) P"
  by (auto simp: submitWithSigner_def split: option.split)

definition hash_of :: "tron_lib \<Rightarrow> raw_tx \<Rightarrow> byte list \<Rightarrow> bool" where
  "hash_of L raw digest \<longleftrightarrow> (\<exists>bytes. tl_marshal L raw = Some bytes \<and> digest = tl_sha256 L bytes)"

definition signs_only :: "tron_lib \<Rightarrow> tron_run \<Rightarrow> (effect \<Rightarrow> int \<Rightarrow> bool) \<Rightarrow> 'r world \<Rightarrow> bool" where
  "signs_only L E permitted w \<longleftrightarrow> asks_only w (\<lambda>digest. \<exists>raw e.
     hash_of L raw digest \<and> rt_Contract raw = [e] \<and> permitted (entry_effect L e) (rt_FeeLimit raw) \<and>
     ce_PermissionId e = 0 \<and> rt_Data raw = [] \<and> rt_Auths raw = [] \<and> rt_Scripts raw = [] \<and>
     UnixMilli (rt_Expiration raw) \<le> te_now E + maxTransactionLifetime)"

lemma signs_only_map [simp]: "signs_only L E P (map_world f w) = signs_only L E P w"
  by (simp add: signs_only_def)

lemma signs_only_Finished [simp]: "signs_only L E P (Finished r)"
  by (simp add: signs_only_def)

lemma signs_only_refused [simp]: "signs_only L E P (refused e)" "signs_only L E P signer_required"
  "signs_only L E P (deploy_refused e)"
  by (simp_all add: refused_def signer_required_def deploy_refused_def)

lemma signs_only_signer: "signs_only L E P none \<Longrightarrow> signs_only L E P k \<Longrightarrow> signs_only L E P (tronSigner signer none k)"
  by (simp add: tronSigner_def)

lemma sent_digest_Inr:
  assumes "sent_digest L i tx now = Inr (raw, digest)"
  shows "does L i now raw \<and> hash_of L raw digest"
  using assms verify_does [of L i tx now]
  by (auto simp: sent_digest_def transactionDigest_def hash_of_def rbind_eq_Inr Let_def split: option.splits)

text \<open>Nothing but what the intent asks for.\<close>

lemma signs_only_submit:
  assumes "\<And>e. wanted L i e \<Longrightarrow> P e (in_FeeLimit i)" "in_PermissionID i = 0"
  shows "signs_only L E P (tron_submit L E i tx addresses)"
proof (cases "sent_digest L i tx (te_now E)")
  case (Inr v)
  obtain raw digest where v: "v = (raw, digest)" by (cases v)
  have raw: "does L i (te_now E) raw" "hash_of L raw digest" using sent_digest_Inr Inr v by blast+
  then have "\<exists>raw e. hash_of L raw digest \<and> rt_Contract raw = [e] \<and> P (entry_effect L e) (rt_FeeLimit raw) \<and>
      ce_PermissionId e = 0 \<and> rt_Data raw = [] \<and> rt_Auths raw = [] \<and> rt_Scripts raw = [] \<and>
      UnixMilli (rt_Expiration raw) \<le> te_now E + maxTransactionLifetime"
    using assms by (auto simp: does_def)
  then show ?thesis by (simp add: tron_submit_def Inr v signs_only_def asks_only_submit)
qed (simp add: tron_submit_def)

lemma signs_only_build:
  assumes "\<And>e. wanted L i e \<Longrightarrow> P e (in_FeeLimit i)" "in_PermissionID i = 0"
  shows "signs_only L E P (build_and_submit L sv E i stage build addresses)"
  unfolding build_and_submit_def
  using assms by (cases "retry (te_ctx E) (sv_nodes sv) build") (simp_all add: signs_only_submit)

lemma signs_only_stakeOp:
  assumes "\<And>e. wanted L i e \<Longrightarrow> P e (in_FeeLimit i)" "in_PermissionID i = 0"
  shows "signs_only L E P (stakeOpSigner L sv E from i signer build)"
  unfolding stakeOpSigner_def using assms by (intro signs_only_signer) (simp_all add: signs_only_build)

section \<open>Token transfers\<close>

text \<open>How a TRC20 contract reads the call data of a transfer: the recipient without its network
  prefix, and the amount.\<close>

definition read_transfer :: "byte list \<Rightarrow> (byte list \<times> nat) option" where
  "read_transfer data =
     (if length data = 68 \<and> take 4 data = [0xa9, 0x05, 0x9c, 0xbb] \<and> take 12 (drop 4 data) = replicate 12 0
      then Some (take 20 (drop 16 data), get_le (rev (drop 36 data))) else None)"

lemma trc20TransferData_reads:
  assumes "trc20TransferData L to units = Inr data"
  shows "read_transfer data = Some (drop 1 (addr L to), nat units) \<and> 0 < units"
proof -
  obtain raw where raw: "tl_DecodeCheck L to = Some raw" "length raw = 21" "0 < units" "units < 2 ^ 256"
    "data = trc20TransferSelector @ replicate 12 0 @ drop 1 raw @ put_be 32 (nat units)"
    using assms by (auto simp: trc20TransferData_def rcheck_def split: option.splits if_splits)
  have small: "nat units mod 256 ^ 32 = nat units"
    using raw(3,4) by (intro mod_less) (simp add: nat_less_iff)
  have "get_le (rev (put_be 32 (nat units))) = nat units"
    unfolding put_be_def rev_rev_ident get_put_le by (rule small)
  then show ?thesis
    using raw by (simp add: read_transfer_def trc20TransferSelector_def addr_def put_be_def)
qed

lemma trc20Intent_wanted:
  assumes "trc20Intent L from to contract units fee = Inr i"
  shows "in_FeeLimit i = fee \<and> in_PermissionID i = 0 \<and> 0 < units \<and>
    (\<forall>e. wanted L i e \<longrightarrow> (\<exists>data. e = Call (addr L from) (addr L contract) data 0 \<and>
       read_transfer data = Some (drop 1 (addr L to), nat units)))"
proof -
  obtain data where "trc20TransferData L to units = Inr data"
    "i = no_intent\<lparr>in_Kind := IntentTriggerContract, in_Owner := from, in_To := to, in_Contract := contract,
       in_Data := data, in_FeeLimit := fee\<rparr>"
    using assms by (auto simp: trc20Intent_def rbind_eq_Inr)
  moreover have "\<exists>data'. e = Call (addr L from) (addr L contract) data' 0 \<and> data' = data"
    if "wanted L (no_intent\<lparr>in_Kind := IntentTriggerContract, in_Owner := from, in_To := to, in_Contract := contract,
       in_Data := data, in_FeeLimit := fee\<rparr>) e" for e
    using that by (cases e) (simp_all add: no_intent_def)
  ultimately show ?thesis using trc20TransferData_reads by (fastforce simp: no_intent_def)
qed

text \<open>What a transfer request asks for, in the units of the chain: the exact amount to the recipient,
  as TRX or as a call of the token's contract.\<close>

definition token_decimals :: "tron_service \<Rightarrow> chain_asset \<Rightarrow> nat" where
  "token_decimals sv asset = (if ca_Contract asset = sv_Contract sv then nat (sv_Decimals sv) else unat (ca_Decimals asset))"

definition transfer_effect :: "tron_lib \<Rightarrow> tron_service \<Rightarrow> transfer_request \<Rightarrow> rat \<Rightarrow> effect \<Rightarrow> int \<Rightarrow> bool" where
  "transfer_effect L sv req amount e fee \<longleftrightarrow>
     (if ca_Kind (tq_Asset req) = ''native'' then
        \<exists>sun. of_int sun = amount * 10 ^ 6 \<and> e = Pay (addr L (tq_From req)) (addr L (tq_To req)) sun \<and> fee = 0
      else
        \<exists>units data. of_int units = amount * 10 ^ token_decimals sv (tq_Asset req) \<and> 0 < units \<and>
          e = Call (addr L (tq_From req)) (addr L (ca_Contract (tq_Asset req))) data 0 \<and>
          read_transfer data = Some (drop 1 (addr L (tq_To req)), nat units) \<and> fee = sv_feeLimit sv)"

lemma trxAmount_exact: "exact_amounts L \<Longrightarrow> trxAmount L amount = Inr sun \<Longrightarrow> of_int sun = amount * 10 ^ 6"
  by (auto simp: exact_amounts_def trxAmount_def split: option.splits)

lemma tokenAmount_exact: "exact_amounts L \<Longrightarrow> tokenAmount L amount d = Inr units \<Longrightarrow> of_int units = amount * 10 ^ nat d"
  by (auto simp: exact_amounts_def tokenAmount_def split: option.splits)

lemma buildTransfer_wanted:
  assumes "exact_amounts L" "buildTransfer L sv K E from to asset amount = Inr (i, tx)"
  shows "in_PermissionID i = 0 \<and>
    (asset = AssetTRX \<and> in_FeeLimit i = 0 \<and>
       (\<forall>e. wanted L i e \<longrightarrow> (\<exists>sun. of_int sun = amount * 10 ^ 6 \<and> e = Pay (addr L from) (addr L to) sun)) \<or>
     asset = AssetUSDT \<and> in_FeeLimit i = sv_feeLimit sv \<and>
       (\<forall>e. wanted L i e \<longrightarrow> (\<exists>units data. of_int units = amount * 10 ^ nat (sv_Decimals sv) \<and> 0 < units \<and>
          e = Call (addr L from) (addr L (sv_Contract sv)) data 0 \<and>
          read_transfer data = Some (drop 1 (addr L to), nat units))))"
proof (cases asset)
  case AssetTRX
  let ?i = "\<lambda>sun. no_intent\<lparr>in_Kind := IntentTransferTRX, in_Owner := from, in_To := to, in_Amount := sun\<rparr>"
  obtain sun where sun: "trxAmount L amount = Inr sun"
    "(case retry (te_ctx E) (sv_nodes sv) (tc_CreateTransferTransaction K from to sun) of
        Inl err \<Rightarrow> Inl (chainError ''create TRX transfer'' err) | Inr tx \<Rightarrow> Inr (?i sun, tx)) = Inr (i, tx)"
    using assms(2) AssetTRX by (auto simp: buildTransfer_def rcheck_eq_Inr rbind_eq_Inr Let_def)
  have i: "i = ?i sun" using sun(2) by (auto split: sum.splits)
  have "\<exists>sun. of_int sun = amount * 10 ^ 6 \<and> e = Pay (addr L from) (addr L to) sun" if "wanted L i e" for e
    using that trxAmount_exact [OF assms(1) sun(1)] by (cases e) (auto simp: i no_intent_def)
  then show ?thesis using AssetTRX i by (simp add: no_intent_def)
next
  case AssetUSDT
  obtain tokens j where tokens: "tokenAmount L amount (sv_Decimals sv) = Inr tokens"
    "trc20Intent L from to (sv_Contract sv) tokens (sv_feeLimit sv) = Inr j"
    "(case retry (te_ctx E) (sv_nodes sv) (tc_TRC20Send K from to (sv_Contract sv) tokens (sv_feeLimit sv)) of
        Inl err \<Rightarrow> Inl (chainError ''create transfer'' err) | Inr tx \<Rightarrow> Inr (j, tx)) = Inr (i, tx)"
    using assms(2) AssetUSDT by (auto simp: buildTransfer_def rcheck_eq_Inr rbind_eq_Inr)
  have "j = i" using tokens(3) by (auto split: sum.splits)
  then show ?thesis
    using trc20Intent_wanted [OF tokens(2)] tokenAmount_exact [OF assms(1) tokens(1)] AssetUSDT by blast
next
  case (OtherAsset a)
  then show ?thesis using assms(2) by (auto simp: buildTransfer_def rcheck_eq_Inr)
qed

lemma Send_signs:
  assumes "exact_amounts L" "tronTransfer L req networkID = Inr (asset, amount)"
    and "ca_Kind (tq_Asset req) = ''trc20'' \<Longrightarrow> ca_Contract (tq_Asset req) = sv_Contract sv"
  shows "signs_only L E (transfer_effect L sv req amount) (SendWithSigner L sv K E (tq_From req) (tq_To req) asset amount signer)"
  unfolding SendWithSigner_def
proof (rule signs_only_signer)
  show "signs_only L E (transfer_effect L sv req amount)
      (case buildTransfer L sv K E (tq_From req) (tq_To req) asset amount of
         Inl e \<Rightarrow> refused e | Inr (i, tx) \<Rightarrow> tron_submit L E i tx [tq_From req, tq_To req])"
  proof (cases "buildTransfer L sv K E (tq_From req) (tq_To req) asset amount")
    case (Inr v)
    obtain i tx where v: "v = (i, tx)" by (cases v)
    have kind: "asset = AssetTRX \<and> ca_Kind (tq_Asset req) = ''native'' \<or> asset = AssetUSDT \<and> ca_Kind (tq_Asset req) = ''trc20''"
      using assms(2) by (auto simp: tronTransfer_def rcheck_eq_Inr split: option.splits if_splits)
    note w = buildTransfer_wanted [OF assms(1) Inr [unfolded v]]
    have "transfer_effect L sv req amount e (in_FeeLimit i)" if "wanted L i e" for e
      using kind w that assms(3) by (auto simp: transfer_effect_def token_decimals_def)
    then show ?thesis using Inr v w by (simp add: signs_only_submit)
  qed simp
qed simp

lemma SendToken_signs:
  assumes "exact_amounts L" "ca_Kind (tq_Asset req) = ''trc20''" "ca_Contract (tq_Asset req) \<noteq> sv_Contract sv"
  shows "signs_only L E (transfer_effect L sv req amount)
    (SendTokenWithSigner L sv K E (tq_From req) (tq_To req) (ca_Contract (tq_Asset req)) (ca_Decimals (tq_Asset req)) amount signer)"
  unfolding SendTokenWithSigner_def
proof (rule signs_only_signer)
  let ?c = "ca_Contract (tq_Asset req)" and ?d = "ca_Decimals (tq_Asset req)"
  let ?r = "rcheck (tl_Validate L (tq_To req)) (Invalid ''invalid recipient address'') (
          rcheck (tl_Validate L ?c) (Invalid ''invalid TRC20 contract'') (
          rbind (tokenAmount L amount (uint ?d)) (\<lambda>tokens.
          rbind (trc20Intent L (tq_From req) (tq_To req) ?c tokens (sv_feeLimit sv)) (\<lambda>i. Inr (tokens, i)))))"
  show "signs_only L E (transfer_effect L sv req amount)
      (case ?r of Inl e \<Rightarrow> refused e | Inr (tokens, i) \<Rightarrow>
         build_and_submit L sv E i ''create TRC20 transfer'' (tc_TRC20Send K (tq_From req) (tq_To req) ?c tokens (sv_feeLimit sv))
           [tq_From req, tq_To req])"
  proof (cases ?r)
    case (Inr v)
    obtain tokens i where v: "v = (tokens, i)" by (cases v)
    have t: "tokenAmount L amount (uint ?d) = Inr tokens" "trc20Intent L (tq_From req) (tq_To req) ?c tokens (sv_feeLimit sv) = Inr i"
      using Inr by (auto simp: v rcheck_eq_Inr rbind_eq_Inr)
    note w = trc20Intent_wanted [OF t(2)]
    have "of_int tokens = amount * 10 ^ unat ?d" using tokenAmount_exact [OF assms(1) t(1)] by simp
    then have "transfer_effect L sv req amount e (in_FeeLimit i)" if "wanted L i e" for e
      using w that assms(2,3) by (auto simp: transfer_effect_def token_decimals_def)
    then have "signs_only L E (transfer_effect L sv req amount) (build_and_submit L sv E i ''create TRC20 transfer''
        (tc_TRC20Send K (tq_From req) (tq_To req) ?c tokens (sv_feeLimit sv)) [tq_From req, tq_To req])"
      using w by (simp add: signs_only_build)
    then show ?thesis unfolding Inr v by simp
  qed (simp only: sum.case signs_only_refused)
qed simp

section \<open>Staking\<close>

definition stake_effect :: "tron_lib \<Rightarrow> string \<Rightarrow> bool \<Rightarrow> string \<Rightarrow> rat \<Rightarrow> effect \<Rightarrow> int \<Rightarrow> bool" where
  "stake_effect L from unstake resource amount e fee \<longleftrightarrow> fee = 0 \<and> 0 < amount \<and>
     (\<exists>sun r. toClient resource = Inr r \<and> of_int sun = amount * 10 ^ 6 \<and>
        e = (if unstake then Unfreeze (addr L from) sun r else Freeze (addr L from) sun r))"

definition stake_change ::
  "tron_lib \<Rightarrow> chain_error + tron_service \<Rightarrow> tron_client \<Rightarrow> tron_run \<Rightarrow> string \<Rightarrow> bool \<Rightarrow> string \<Rightarrow> rat \<Rightarrow> family option \<Rightarrow> sent world" where
  "stake_change L service K E from unstake resource amount signer =
     with_service service (\<lambda>sv.
       if unstake then UnstakeWithSigner L sv K E from resource amount signer
       else StakeWithSigner L sv K E from resource amount signer)"

lemma stakeAmount_exact: "exact_amounts L \<Longrightarrow> stakeAmount L amount = Inr sun \<Longrightarrow> of_int sun = amount * 10 ^ 6 \<and> 0 < amount"
  by (auto simp: stakeAmount_def rcheck_eq_Inr trxAmount_exact)

lemma resourceIntent_fields [simp]: "in_FeeLimit (resourceIntent k f t sun r) = 0" "in_PermissionID (resourceIntent k f t sun r) = 0"
  "in_FeeLimit (ownerIntent k f) = 0" "in_PermissionID (ownerIntent k f) = 0"
  by (simp_all add: resourceIntent_def ownerIntent_def no_intent_def)

lemma resourceIntent_wanted:
  "wanted L (resourceIntent IntentStake f t sun r) e \<longleftrightarrow> e = Freeze (addr L f) sun r"
  "wanted L (resourceIntent IntentUnstake f t sun r) e \<longleftrightarrow> e = Unfreeze (addr L f) sun r"
  "wanted L (resourceIntent IntentDelegate f t sun r) e \<longleftrightarrow> e = Lend (addr L f) (addr L t) sun r"
  "wanted L (resourceIntent IntentReclaim f t sun r) e \<longleftrightarrow> e = TakeBack (addr L f) (addr L t) sun r"
  "wanted L (ownerIntent IntentWithdrawUnstaked f) e \<longleftrightarrow> e = Withdraw (addr L f)"
  "wanted L (ownerIntent IntentCancelUnstakes f) e \<longleftrightarrow> e = CancelAll (addr L f)"
  by (cases e; auto simp: resourceIntent_def ownerIntent_def no_intent_def)+

text \<open>A checked request: refused, or handed on.\<close>

lemma signs_only_checked:
  assumes "\<And>kind sun. checked = Inr (kind, sun) \<Longrightarrow> signs_only L E P (k kind sun)"
  shows "signs_only L E P (case checked of Inl e \<Rightarrow> refused e | Inr (kind, sun) \<Rightarrow> k kind sun)"
  using assms by (cases checked) (auto split: prod.split)

lemma signs_only_service: "(\<And>sv. service = Inr sv \<Longrightarrow> signs_only L E P (call sv)) \<Longrightarrow> signs_only L E P (with_service service call)"
  by (simp add: with_service_def split: sum.split)

lemma stake_change_signs:
  assumes "exact_amounts L"
  shows "signs_only L E (stake_effect L from unstake resource amount) (stake_change L service K E from unstake resource amount signer)"
proof -
  have "signs_only L E (stake_effect L from False resource amount) (StakeWithSigner L sv K E from resource amount signer)"
    "signs_only L E (stake_effect L from True resource amount) (UnstakeWithSigner L sv K E from resource amount signer)" for sv
    unfolding StakeWithSigner_def UnstakeWithSigner_def using stakeAmount_exact [OF assms]
    by (intro signs_only_checked signs_only_stakeOp; force simp: rbind_eq_Inr resourceIntent_wanted stake_effect_def)+
  then show ?thesis unfolding stake_change_def by (cases unstake) (auto intro: signs_only_service)
qed

definition withdraw_effect :: "tron_lib \<Rightarrow> string \<Rightarrow> bool \<Rightarrow> effect \<Rightarrow> int \<Rightarrow> bool" where
  "withdraw_effect L from cancel e fee \<longleftrightarrow> fee = 0 \<and> e = (if cancel then CancelAll (addr L from) else Withdraw (addr L from))"

lemma withdraw_signs: "signs_only L E (withdraw_effect L from cancel) (adapter_Withdraw L service K E from cancel signer)"
  unfolding adapter_Withdraw_def CancelUnstakesWithSigner_def WithdrawUnstakedWithSigner_def
  by (intro signs_only_service) (auto intro!: signs_only_stakeOp simp: resourceIntent_wanted withdraw_effect_def)

section \<open>Delegation\<close>

text \<open>The stake behind an amount of a resource, at rates a node reported.\<close>

definition priced :: "tron_client \<Rightarrow> string \<Rightarrow> string \<Rightarrow> rat \<Rightarrow> int \<Rightarrow> bool" where
  "priced K account resource units sun \<longleftrightarrow> (\<exists>j rates. tc_GetAccountResource K account j = Inr rates \<and>
     sun = (if resource = ResourceBandwidth
            then tc_ConvertBandwidthToStaked K (rs_TotalNetWeight rates) (rs_TotalNetLimit rates) units
            else tc_ConvertEnergyToStaked K (rs_TotalEnergyLimit rates) (rs_TotalEnergyWeight rates) units))"

lemma stakeBehind_priced: "stakeBehind sv K E account resource units = Inr sun \<Longrightarrow> priced K account resource units sun \<and> 0 < sun"
  by (auto simp: stakeBehind_def priced_def rcheck_eq_Inr rbind_eq_Inr split: sum.split_asm if_splits dest!: retry_Inr)

text \<open>What one account lends to another for one resource, as a node reports it.\<close>

definition share :: "string \<Rightarrow> client_delegation \<Rightarrow> int" where
  "share resource d = (if resource = ResourceBandwidth then max 0 (cd_Bandwidth d) else max 0 (cd_Energy d))"

definition lent_total :: "client_delegation list \<Rightarrow> string \<Rightarrow> string \<Rightarrow> int" where
  "lent_total lent to resource = sum_list (map (share resource) (filter (\<lambda>d. cd_To d = to) lent))"

definition lock_of :: "string \<Rightarrow> client_delegation \<Rightarrow> int" where
  "lock_of resource d = (if resource = ResourceBandwidth then cd_BandwidthExpiresAt d else cd_EnergyExpiresAt d)"

text \<open>No part of it is under a lock at a time.\<close>

definition unlocked :: "client_delegation list \<Rightarrow> string \<Rightarrow> string \<Rightarrow> int \<Rightarrow> bool" where
  "unlocked lent to resource now \<longleftrightarrow> (\<forall>d\<in>set lent. cd_To d = to \<and> 0 < share resource d \<longrightarrow> lock_of resource d \<le> max 0 now)"

definition fits :: "client_delegation list \<Rightarrow> bool" where
  "fits lent \<longleftrightarrow> (\<forall>to resource. lent_total lent to resource < 2 ^ 63)"

lemma resources_differ [simp]: "ResourceBandwidth \<noteq> ResourceEnergy" "ResourceEnergy \<noteq> ResourceBandwidth"
  by (simp_all add: ResourceBandwidth_def ResourceEnergy_def)

lemma int64_small: "0 \<le> x \<Longrightarrow> x < 2 ^ 63 \<Longrightarrow> int64 x = x"
  unfolding int64_def by (simp add: sint_sbintrunc' signed_take_bit_int_eq_self)

lemma share_nonneg [simp]: "0 \<le> share r d" by (simp add: share_def)

lemma lent_total_nonneg: "0 \<le> lent_total lent to r"
  by (auto simp: lent_total_def intro!: sum_list_nonneg)

lemma lent_total_snoc: "lent_total (lent @ [d]) to r = lent_total lent to r + (if cd_To d = to then share r d else 0)"
  by (simp add: lent_total_def)

lemma fits_snoc: "fits (lent @ [d]) \<Longrightarrow> fits lent"
  unfolding fits_def lent_total_snoc using share_nonneg by (smt (verit))

lemma split_add_staked:
  "map_zero (sp_staked (split_add to r a l S)) k =
     (if k = (to, r) \<and> 0 < a then int64 (map_zero (sp_staked S) k + a) else map_zero (sp_staked S) k)"
  by (auto simp: split_add_def Let_def map_zero_def)

lemma split_add_locks:
  "map_zero (sp_locks (split_add to r a l S)) k =
     (if k = (to, r) \<and> 0 < a then max l (map_zero (sp_locks S) k) else map_zero (sp_locks S) k)"
  by (auto simp: split_add_def Let_def map_zero_def)

lemma split_add_dom: "dom (sp_staked (split_add to r a l S)) = dom (sp_staked S) \<union> (if 0 < a then {(to, r)} else {})"
  by (auto simp: split_add_def Let_def)

definition ordered :: "split_state \<Rightarrow> bool" where
  "ordered S \<longleftrightarrow> distinct (sp_order S) \<and> set (sp_order S) = dom (sp_staked S)"

lemma ordered_split_one: "ordered S \<Longrightarrow> ordered (split_one d S)"
proof -
  have "ordered (split_add to r a l S)" if "ordered S" for to r a l S
    using that by (auto simp: ordered_def split_add_def Let_def)
  then show "ordered S \<Longrightarrow> ordered (split_one d S)" by (simp add: split_one_def)
qed

lemma split_row_fields [simp]: "dg_To (split_row S k) = fst k" "dg_Resource (split_row S k) = snd k"
  "dg_Amount (split_row S k) = TRX (map_zero (sp_staked S) k)" "dg_LockedUntil (split_row S k) = map_zero (sp_locks S) k"
  by (simp_all add: split_row_def)

text \<open>The merged rows: each pair once, with all its stake and its latest lock.\<close>

definition merged :: "client_delegation list \<Rightarrow> split_state \<Rightarrow> bool" where
  "merged lent S \<longleftrightarrow> ordered S \<and>
     (\<forall>to. \<forall>r\<in>{ResourceBandwidth, ResourceEnergy}.
        map_zero (sp_staked S) (to, r) = lent_total lent to r \<and> 0 \<le> map_zero (sp_locks S) (to, r) \<and>
        (\<forall>d\<in>set lent. cd_To d = to \<and> 0 < share r d \<longrightarrow> lock_of r d \<le> map_zero (sp_locks S) (to, r)))"

lemma merged_split: "fits lent \<Longrightarrow> merged lent (fold split_one lent no_split)"
proof (induction lent rule: rev_induct)
  case Nil
  then show ?case by (simp add: merged_def ordered_def no_split_def map_zero_def lent_total_def)
next
  case (snoc d lent)
  let ?S = "fold split_one lent no_split" and ?T = "fold split_one (lent @ [d]) no_split"
  have IH: "merged lent ?S" using snoc fits_snoc by blast
  have T: "?T = split_one d ?S" by simp
  have order: "ordered ?T" unfolding T using IH by (simp add: merged_def ordered_split_one)
  have sum: "0 \<le> lent_total (lent @ [d]) to r \<and> lent_total (lent @ [d]) to r < 2 ^ 63" for to r
    using lent_total_nonneg snoc.prems by (auto simp: fits_def)
  have staked: "map_zero (sp_staked ?T) (to, r) = lent_total (lent @ [d]) to r"
    if r: "r \<in> {ResourceBandwidth, ResourceEnergy}" for to r
  proof -
    have old: "map_zero (sp_staked ?S) (to, r) = lent_total lent to r" using IH r by (auto simp: merged_def)
    have new: "lent_total (lent @ [d]) to r = lent_total lent to r + (if cd_To d = to then share r d else 0)"
      by (rule lent_total_snoc)
    have "int64 (lent_total lent to r + share r d) = lent_total lent to r + share r d" if "cd_To d = to"
      using sum [of to r] new that by (simp add: int64_small)
    then show ?thesis
      using r old new by (auto simp: T split_one_def split_add_staked share_def)
  qed
  have locks: "map_zero (sp_locks ?T) (to, r) =
      (if cd_To d = to \<and> 0 < share r d then max (lock_of r d) (map_zero (sp_locks ?S) (to, r)) else map_zero (sp_locks ?S) (to, r))"
    if r: "r \<in> {ResourceBandwidth, ResourceEnergy}" for to r
    using r by (auto simp: T split_one_def split_add_locks share_def lock_of_def)
  have "0 \<le> map_zero (sp_locks ?T) (to, r) \<and>
      (\<forall>x\<in>set (lent @ [d]). cd_To x = to \<and> 0 < share r x \<longrightarrow> lock_of r x \<le> map_zero (sp_locks ?T) (to, r))"
    if r: "r \<in> {ResourceBandwidth, ResourceEnergy}" for to r
  proof -
    have "0 \<le> map_zero (sp_locks ?S) (to, r)"
      "\<And>x. x \<in> set lent \<Longrightarrow> cd_To x = to \<and> 0 < share r x \<longrightarrow> lock_of r x \<le> map_zero (sp_locks ?S) (to, r)"
      using IH r unfolding merged_def by blast+
    then show ?thesis unfolding locks [OF r] by (auto simp: le_max_iff_disj)
  qed
  then show ?case unfolding merged_def using order staked by blast
qed

lemma reclaim_sum_absent: "(to, r) \<notin> set ks \<Longrightarrow> reclaim_sum (map (split_row S) ks) to r now a = Inr a"
  by (induction ks) auto

lemma reclaim_sum_rows:
  "distinct ks \<Longrightarrow> (to, r) \<in> set ks \<Longrightarrow> reclaim_sum (map (split_row S) ks) to r now a =
     (if map_zero (sp_locks S) (to, r) \<noteq> 0 \<and> now < map_zero (sp_locks S) (to, r) then Inl (Invalid ''locked'')
      else Inr (a + TRX (map_zero (sp_staked S) (to, r))))"
proof (induction ks)
  case (Cons k ks)
  show ?case
  proof (cases "k = (to, r)")
    case True
    then show ?thesis using Cons.prems by (simp add: reclaim_sum_absent)
  next
    case False
    then have "dg_To (split_row S k) \<noteq> to \<or> dg_Resource (split_row S k) \<noteq> r" by (cases k) auto
    then show ?thesis using Cons False by auto
  qed
qed simp

text \<open>What may be taken back from one receiver is everything lent to it, and only when none is locked.\<close>

lemma reclaimable_total:
  assumes "fits lent" "r \<in> {ResourceBandwidth, ResourceEnergy}"
    and "reclaimable (splitDelegations lent) to r now = Inr staked"
  shows "staked = TRX (lent_total lent to r) \<and> 0 < lent_total lent to r \<and> unlocked lent to r now"
proof -
  let ?S = "fold split_one lent no_split"
  have m: "merged lent ?S" by (rule merged_split [OF assms(1)])
  have s: "reclaim_sum (map (split_row ?S) (sp_order ?S)) to r now 0 = Inr staked" "0 < staked"
    using assms(3) by (auto simp: reclaimable_def splitDelegations_def Let_def rbind_eq_Inr rcheck_eq_Inr)
  have mem: "(to, r) \<in> set (sp_order ?S)"
    using s reclaim_sum_absent [of to r "sp_order ?S" ?S now 0] by (cases "(to, r) \<in> set (sp_order ?S)") auto
  have rows: "staked = TRX (map_zero (sp_staked ?S) (to, r))"
    "map_zero (sp_locks ?S) (to, r) = 0 \<or> map_zero (sp_locks ?S) (to, r) \<le> now"
    using s(1) m mem by (auto simp: reclaim_sum_rows merged_def ordered_def split: if_splits)
  have total: "map_zero (sp_staked ?S) (to, r) = lent_total lent to r"
    "\<And>d. d \<in> set lent \<Longrightarrow> cd_To d = to \<and> 0 < share r d \<Longrightarrow> lock_of r d \<le> map_zero (sp_locks ?S) (to, r)"
    using m assms(2) unfolding merged_def by blast+
  have "unlocked lent to r now"
    unfolding unlocked_def using total(2) rows(2) by fastforce
  then show ?thesis using rows(1) s(2) total(1) by (simp add: TRX_def)
qed

end
