(* ===== verification/TronProperties.thy ===== *)
theory TronProperties
  imports TronSafety SendSamples
begin

text \<open>
  The theorems about Tron: whatever the nodes answer, a send, a stake, a delegation, a withdrawal and a
  deployment ask for a signature only over a transaction that does what was requested, in exact
  amounts; and reclaiming everything takes back exactly what is lent. Each witness runs its operation
  on a sample node whose transaction is the right one, up to the request for the signature.
\<close>

section \<open>Delegations and deployments\<close>

definition delegation_effect :: "tron_lib \<Rightarrow> tron_client \<Rightarrow> string \<Rightarrow> string \<Rightarrow> bool \<Rightarrow> string \<Rightarrow> rat \<Rightarrow> effect \<Rightarrow> int \<Rightarrow> bool" where
  "delegation_effect L K from to reclaim resource units e fee \<longleftrightarrow> fee = 0 \<and> from \<noteq> to \<and>
     (\<exists>sun r. toClient resource = Inr r \<and> priced K from resource units sun \<and> 0 < sun \<and>
        e = (if reclaim then TakeBack (addr L from) (addr L to) sun r else Lend (addr L from) (addr L to) sun r))"

definition delegation_change ::
  "tron_lib \<Rightarrow> chain_error + tron_service \<Rightarrow> tron_client \<Rightarrow> tron_run \<Rightarrow> string \<Rightarrow> string \<Rightarrow> bool \<Rightarrow> string \<Rightarrow> rat \<Rightarrow> bool
     \<Rightarrow> family option \<Rightarrow> sent world" where
  "delegation_change L service K E from to reclaim resource amount all signer =
     (if reclaim then adapter_Reclaim L service K E from to resource amount all signer
      else with_service service (\<lambda>sv. DelegateWithSigner L sv K E from to resource amount signer))"

lemma counterparty_Inr: "counterparty L from to = Inr u \<longleftrightarrow> tl_Validate L from \<and> tl_Validate L to \<and> from \<noteq> to"
  by (auto simp: counterparty_def rcheck_eq_Inr)

lemma delegation_checked:
  assumes "rbind (counterparty L from to) (\<lambda>_. rbind (toClient resource) (\<lambda>kind.
      rbind (stakeBehind sv K E from resource units) (\<lambda>sun. Inr (kind, sun)))) = Inr (r, sun)"
    and "e = (if reclaim then TakeBack (addr L from) (addr L to) sun r else Lend (addr L from) (addr L to) sun r)" "fee = 0"
  shows "delegation_effect L K from to reclaim resource units e fee"
proof -
  have "counterparty L from to = Inr ()" "toClient resource = Inr r" "stakeBehind sv K E from resource units = Inr sun"
    using assms(1) by (auto simp: rbind_eq_Inr)
  then show ?thesis
    using stakeBehind_priced assms(2,3) unfolding delegation_effect_def counterparty_Inr by blast
qed

lemma delegation_signs:
  "signs_only L E (delegation_effect L K from to reclaim resource units)
     (delegation_change L service K E from to reclaim resource units False signer)"
proof -
  have "signs_only L E (delegation_effect L K from to False resource units) (DelegateWithSigner L sv K E from to resource units signer)"
    "signs_only L E (delegation_effect L K from to True resource units) (ReclaimWithSigner L sv K E from to resource units signer)" for sv
    unfolding DelegateWithSigner_def ReclaimWithSigner_def
    by (intro signs_only_checked signs_only_stakeOp; simp add: resourceIntent_wanted delegation_checked)+
  then show ?thesis unfolding delegation_change_def adapter_Reclaim_def by (auto intro: signs_only_service)
qed

text \<open>A deployment: the code starts with the submitted bytecode, under the submitted name and settings.\<close>

definition deploy_effect :: "tron_lib \<Rightarrow> string \<Rightarrow> deployment \<Rightarrow> effect \<Rightarrow> int \<Rightarrow> bool" where
  "deploy_effect L from d e fee \<longleftrightarrow> of_int fee = dp_FeeLimit d * 10 ^ 6 \<and>
     (\<exists>code rest. HexDecode (TrimPrefix (TrimPrefix (dp_Bytecode d) ''0x'') ''0X'') = Some code \<and>
        e = Publish (addr L from) (code @ rest) (dp_Name d) (dp_ConsumeUserResourcePercent d) (dp_OriginEnergyLimit d))"

lemma deployRequest_Inr:
  assumes "deployRequest L D from d = Inr req"
  shows "tl_Validate L from" "trxAmount L (dp_FeeLimit d) = Inr (dr_FeeLimit req)" "dr_Name req = dp_Name d"
    "dr_Bytecode req = dp_Bytecode d" "dr_ConsumeUserResourcePercent req = dp_ConsumeUserResourcePercent d"
    "dr_OriginEnergyLimit req = dp_OriginEnergyLimit d"
  using assms by (auto simp: deployRequest_def rcheck_eq_Inr rbind_eq_Inr Let_def)

lemma deployIntent_wanted:
  assumes "deployIntent from req = Inr i"
  shows "in_FeeLimit i = dr_FeeLimit req" "in_PermissionID i = 0"
    "wanted L i e \<Longrightarrow> \<exists>code rest. HexDecode (TrimPrefix (TrimPrefix (dr_Bytecode req) ''0x'') ''0X'') = Some code \<and>
       e = Publish (addr L from) (code @ rest) (dr_Name req) (dr_ConsumeUserResourcePercent req) (dr_OriginEnergyLimit req)"
proof -
  obtain code where code: "HexDecode (TrimPrefix (TrimPrefix (dr_Bytecode req) ''0x'') ''0X'') = Some code"
    "i = no_intent\<lparr>in_Kind := IntentDeploy, in_Owner := from, in_Data := code, in_Name := dr_Name req,
            in_FeeLimit := dr_FeeLimit req, in_ConsumePercent := dr_ConsumeUserResourcePercent req,
            in_OriginEnergyLimit := dr_OriginEnergyLimit req\<rparr>"
    using assms by (auto simp: deployIntent_def split: option.splits)
  show "in_FeeLimit i = dr_FeeLimit req" "in_PermissionID i = 0" by (simp_all add: code(2) no_intent_def)
  show "\<exists>code rest. HexDecode (TrimPrefix (TrimPrefix (dr_Bytecode req) ''0x'') ''0X'') = Some code \<and>
       e = Publish (addr L from) (code @ rest) (dr_Name req) (dr_ConsumeUserResourcePercent req) (dr_OriginEnergyLimit req)"
    if "wanted L i e"
  proof (cases e)
    case (Publish o' bc name s n)
    then have "take (length code) bc = code" using that by (simp add: code(2) no_intent_def)
    then have "bc = code @ drop (length code) bc" by (metis append_take_drop_id)
    then show ?thesis using that Publish code(1) by (auto simp: code(2) no_intent_def)
  qed (use that in \<open>simp_all add: code(2) no_intent_def\<close>)
qed

lemma deploy_signs:
  assumes "exact_amounts L"
  shows "signs_only L E (deploy_effect L from d) (DeployWithSigner L D sv K E from d polls signer)"
  unfolding DeployWithSigner_def
proof (rule signs_only_signer)
  let ?build = "\<lambda>req. case retry (te_ctx E) (sv_nodes sv) (tc_DeployContract K req) of
            Inl err \<Rightarrow> Inl (chainError ''build deployment'' err)
          | Inr tx \<Rightarrow>
              (case dl_DeployedContractAddress D tx of
                 None \<Rightarrow> Inl (Upstream ''derive contract address'')
               | Some contract \<Rightarrow> rbind (deployIntent from req) (\<lambda>i. Inr (tx, contract, i)))"
  show "signs_only L E (deploy_effect L from d) (case rbind (deployRequest L D from d) ?build of
       Inl e \<Rightarrow> deploy_refused e
     | Inr (tx, contract, i) \<Rightarrow> map_world (deploy_outcome contract polls) (tron_submit L E i tx [from]))"
  proof (cases "rbind (deployRequest L D from d) ?build")
    case (Inr v)
    obtain tx contract i where v: "v = (tx, contract, i)" by (cases v)
    obtain req where req: "deployRequest L D from d = Inr req" "?build req = Inr (tx, contract, i)"
      using Inr by (auto simp: rbind_eq_Inr v)
    have i: "deployIntent from req = Inr i" using req(2) by (auto simp: rbind_eq_Inr split: sum.split_asm option.split_asm)
    note w = deployIntent_wanted [OF i] and r = deployRequest_Inr [OF req(1)]
    have "deploy_effect L from d e (in_FeeLimit i)" if "wanted L i e" for e
      using w(3) [OF that] trxAmount_exact [OF assms r(2)] unfolding deploy_effect_def w(1) r by simp
    then show ?thesis using w(2) by (simp add: Inr v signs_only_submit)
  qed simp
qed simp

definition reclaim_all_effect :: "tron_lib \<Rightarrow> tron_client \<Rightarrow> int \<Rightarrow> string \<Rightarrow> string \<Rightarrow> string \<Rightarrow> effect \<Rightarrow> int \<Rightarrow> bool" where
  "reclaim_all_effect L K now from to resource e fee \<longleftrightarrow> fee = 0 \<and>
     (\<exists>lent j r. tc_GetDelegatedResourcesV2 K from j = Inr lent \<and> toClient resource = Inr r \<and>
        unlocked lent to resource now \<and> 0 < lent_total lent to resource \<and>
        e = TakeBack (addr L from) (addr L to) (lent_total lent to resource) r)"

lemma delegations_reported:
  assumes "delegations_of sv K E from = Inr lent"
  shows "lent = [] \<or> (\<exists>j. tc_GetDelegatedResourcesV2 K from j = Inr lent)"
proof -
  have "retry (te_ctx E) (sv_nodes sv) (emptyIfMissing [] (tc_GetDelegatedResourcesV2 K from)) = Inr lent"
    using assms by (auto simp: delegations_of_def split: sum.splits)
  from retry_Inr [OF this] obtain j where "emptyIfMissing [] (tc_GetDelegatedResourcesV2 K from) j = Inr lent" by blast
  then show ?thesis
    by (cases "tc_GetDelegatedResourcesV2 K from j = Inl ErrAccountNotFound")
      (auto simp: emptyIfMissing_def split: sum.splits client_err.splits)
qed

lemma reclaim_all_sun:
  assumes "exact_amounts L" "\<And>j lent. tc_GetDelegatedResourcesV2 K from j = Inr lent \<Longrightarrow> fits lent"
    and "delegations_of sv K E from = Inr lent" "toClient resource = Inr r"
    and "reclaimable (splitDelegations lent) to resource now = Inr staked" "trxAmount L staked = Inr sun"
  shows "sun = lent_total lent to resource \<and> 0 < sun \<and> unlocked lent to resource now \<and>
    (\<exists>j. tc_GetDelegatedResourcesV2 K from j = Inr lent)"
proof -
  have "\<not> lent = []" using assms(5) by (auto simp: reclaimable_def splitDelegations_def no_split_def rcheck_def)
  then obtain j where j: "tc_GetDelegatedResourcesV2 K from j = Inr lent" using delegations_reported [OF assms(3)] by blast
  have res: "resource \<in> {ResourceBandwidth, ResourceEnergy}" using assms(4) by (auto simp: toClient_def split: if_splits)
  note t = reclaimable_total [OF assms(2) [OF j] res assms(5)]
  have "(of_int sun :: rat) = of_int (lent_total lent to resource)"
    using trxAmount_exact [OF assms(1,6)] t by (simp add: TRX_def)
  then have "sun = lent_total lent to resource" by (simp only: of_int_eq_iff)
  then show ?thesis using t j by blast
qed

lemma reclaim_all_signs:
  assumes "exact_amounts L" "\<And>j lent. tc_GetDelegatedResourcesV2 K from j = Inr lent \<Longrightarrow> fits lent"
  shows "signs_only L E (reclaim_all_effect L K (te_lockNow E) from to resource)
    (ReclaimAllWithSigner L sv K E from to resource signer)"
  unfolding ReclaimAllWithSigner_def
proof (intro signs_only_checked signs_only_stakeOp, goal_cases)
  case (1 r sun e)
  then obtain lent staked where "toClient resource = Inr r" "delegations_of sv K E from = Inr lent"
    "reclaimable (splitDelegations lent) to resource (te_lockNow E) = Inr staked" "trxAmount L staked = Inr sun"
    by (auto simp: rbind_eq_Inr)
  then show ?case
    using reclaim_all_sun [OF assms] 1(2) unfolding resourceIntent_wanted reclaim_all_effect_def by fastforce
qed simp

section \<open>A sample node\<close>

definition exact_units :: "rat \<Rightarrow> nat \<Rightarrow> int option" where
  "exact_units d k = (if of_int \<lfloor>d * 10 ^ k\<rfloor> = d * 10 ^ k then Some \<lfloor>d * 10 ^ k\<rfloor> else None)"

definition tron_sample_lib :: tron_lib where
  "tron_sample_lib = \<lparr>tl_DecodeCheck = HexDecode, tl_Validate = (\<lambda>_. True), tl_marshal = (\<lambda>_. Some []),
     tl_sha256 = (\<lambda>_. send_digest),
     tl_transfer = (\<lambda>_. Some \<lparr>tm_OwnerAddress = [0xaa], tm_ToAddress = [0xbb], tm_Amount = 1000000, tm_Unknown = []\<rparr>),
     tl_trigger = (\<lambda>_. None),
     tl_freeze = (\<lambda>_. Some \<lparr>fm_OwnerAddress = [0xaa], fm_FrozenBalance = 1000000, fm_Resource = ENERGY, fm_Unknown = []\<rparr>),
     tl_unfreeze = (\<lambda>_. None), tl_delegate = (\<lambda>_. None),
     tl_undelegate = (\<lambda>_. Some \<lparr>rm_OwnerAddress = [0xaa], rm_ReceiverAddress = [0xbb], rm_Balance = 5000000,
        rm_Resource = BANDWIDTH, rm_Unknown = []\<rparr>),
     tl_withdraw = (\<lambda>_. None), tl_cancel = (\<lambda>_. None), tl_create = (\<lambda>_. None),
     tl_FromTRX = (\<lambda>d. exact_units d 6), tl_FromTokenDecimal = (\<lambda>d k. exact_units d (nat k)),
     tl_NewFromString = (\<lambda>s. if s = ''1'' then Some 1 else None)\<rparr>"

definition sample_raw :: "contract_type \<Rightarrow> raw_tx" where
  "sample_raw t = \<lparr>rt_RefBlockBytes = [0, 1], rt_RefBlockNum = 0, rt_RefBlockHash = [1, 2, 3, 4, 5, 6, 7, 8],
     rt_Expiration = 61000, rt_Auths = [], rt_Data = [],
     rt_Contract = [\<lparr>ce_Type = t, ce_Parameter = Some \<lparr>an_TypeUrl = [], an_Value = [], an_Unknown = []\<rparr>,
        ce_Provider = [], ce_ContractName = [], ce_PermissionId = 0, ce_Unknown = []\<rparr>],
     rt_Scripts = [], rt_Timestamp = 1000, rt_FeeLimit = 0, rt_Unknown = []\<rparr>"

definition tron_sample_client :: tron_client where
  "tron_sample_client = \<lparr>tc_CreateTransferTransaction = (\<lambda>_ _ _ _. Inr (Some (sample_raw TransferContract))),
     tc_TRC20Send = (\<lambda>_ _ _ _ _ _. Inr None),
     tc_Stake = (\<lambda>_ _ _ _. Inr (Some (sample_raw FreezeBalanceV2Contract))), tc_Unstake = (\<lambda>_ _ _ _. Inr None),
     tc_DelegateResource = (\<lambda>_ _ _ _ _ _ _. Inr None),
     tc_ReclaimResource = (\<lambda>_ _ _ _ _. Inr (Some (sample_raw UnDelegateResourceContract))),
     tc_WithdrawUnstaked = (\<lambda>_ _. Inr None), tc_CancelAllUnstakes = (\<lambda>_ _. Inr None), tc_DeployContract = (\<lambda>_ _. Inr None),
     tc_GetDelegatedResourcesV2 = (\<lambda>_ _. Inr
       [\<lparr>cd_To = ''bb'', cd_Bandwidth = 3000000, cd_BandwidthExpiresAt = 0, cd_Energy = 0, cd_EnergyExpiresAt = 0\<rparr>,
        \<lparr>cd_To = ''bb'', cd_Bandwidth = 2000000, cd_BandwidthExpiresAt = 0, cd_Energy = 0, cd_EnergyExpiresAt = 0\<rparr>]),
     tc_GetAccountResource = (\<lambda>_ _. Inl OtherClientError), tc_ConvertBandwidthToStaked = (\<lambda>_ _ _. 0),
     tc_ConvertEnergyToStaked = (\<lambda>_ _ _. 0)\<rparr>"

definition tron_sample_run :: tron_run where
  "tron_sample_run = \<lparr>te_ctx = (\<lambda>_. None), te_now = 1000000000, te_lockNow = 1000000000, te_store = calm_env 101,
     te_ended = False, te_attach = (\<lambda>_ s. s), te_node = NodeSilent\<rparr>"

definition tron_sample_service :: tron_service where
  "tron_sample_service = \<lparr>sv_nodes = 1, sv_feeLimit = 50000000, sv_Contract = ''cc'', sv_Decimals = 6\<rparr>"

definition tron_sample_request :: transfer_request where
  "tron_sample_request = \<lparr>tq_Action = [], tq_AccountID = [], tq_From = ''aa'', tq_To = ''bb'',
     tq_Asset = \<lparr>ca_ID = [], ca_NetworkID = ''tron'', ca_Kind = ''native'', ca_Name = [], ca_Symbol = [], ca_Decimals = 6,
        ca_Contract = [], ca_Configured = True\<rparr>,
     tq_Amount = ''1'', tq_Approved = None\<rparr>"

lemmas tron_sample_defs = tron_sample_lib_def tron_sample_client_def tron_sample_run_def tron_sample_service_def

lemma tron_sample_fields: "tl_Validate tron_sample_lib a" "sv_nodes tron_sample_service = 1" "te_ctx tron_sample_run j = None"
  "tl_FromTRX tron_sample_lib d = exact_units d 6"
  "tc_ReclaimResource tron_sample_client a b r n j = Inr (Some (sample_raw UnDelegateResourceContract))"
  "tc_Stake tron_sample_client a r n j = Inr (Some (sample_raw FreezeBalanceV2Contract))"
  by (simp_all add: tron_sample_defs)

lemma tron_sample_exact: "exact_amounts tron_sample_lib"
  by (auto simp: exact_amounts_def tron_sample_lib_def exact_units_def split: if_splits)

lemma sample_addr: "HexDecode ''aa'' = Some [0xaa]" "HexDecode ''bb'' = Some [0xbb]"
  by (simp_all add: hex_digit_def)

lemma sample_header: "verifyHeader (sample_raw t) 1000000000 = Inr ()"
  by (simp add: verifyHeader_def sample_raw_def demand_def Let_def UnixMilli_def refBlockBytesLen_def refBlockHashLen_def
      maxClockSkew_def maxTransactionLifetime_def second_def)

lemma sample_submit:
  assumes "verifyParameter tron_sample_lib i (rt_Contract (sample_raw t) ! 0) = Inr ()" "contractTypeByKind (in_Kind i) = Some t"
    "in_FeeLimit i = 0" "in_PermissionID i = 0"
  shows "\<exists>k. tron_submit tron_sample_lib tron_sample_run i (Some (sample_raw t)) a = AskDigest (calm_env 101) False send_digest k"
proof -
  have "verify tron_sample_lib i (Some (sample_raw t)) 1000000000 = Inr ()"
    using assms sample_header [of t] by (simp add: verify_def rejectUnknown_def demand_def Let_def sample_raw_def)
  then have "sent_digest tron_sample_lib i (Some (sample_raw t)) (te_now tron_sample_run) = Inr (sample_raw t, send_digest)"
    by (simp add: sent_digest_def transactionDigest_def tron_sample_defs Let_def)
  then show ?thesis by (simp add: tron_submit_def submitWithSigner_def tron_sample_run_def)
qed

lemma sample_split: "splitDelegations
     [\<lparr>cd_To = ''bb'', cd_Bandwidth = 3000000, cd_BandwidthExpiresAt = 0, cd_Energy = 0, cd_EnergyExpiresAt = 0\<rparr>,
      \<lparr>cd_To = ''bb'', cd_Bandwidth = 2000000, cd_BandwidthExpiresAt = 0, cd_Energy = 0, cd_EnergyExpiresAt = 0\<rparr>] =
   [\<lparr>dg_To = ''bb'', dg_Resource = ResourceBandwidth, dg_Amount = 5, dg_LockedUntil = 0\<rparr>]"
  by (simp add: splitDelegations_def split_one_def split_add_def no_split_def map_zero_def Let_def split_row_def TRX_def int64_small)

lemma sample_reclaim:
  "rbind (counterparty tron_sample_lib ''aa'' ''bb'') (\<lambda>_. rbind (toClient ResourceBandwidth) (\<lambda>kind.
     rbind (delegations_of tron_sample_service tron_sample_client tron_sample_run ''aa'') (\<lambda>lent.
     rbind (reclaimable (splitDelegations lent) ''bb'' ResourceBandwidth (te_lockNow tron_sample_run)) (\<lambda>staked.
     rbind (trxAmount tron_sample_lib staked) (\<lambda>sun. Inr (kind, sun)))))) = Inr (BANDWIDTH, 5000000)"
proof -
  have "delegations_of tron_sample_service tron_sample_client tron_sample_run ''aa'' = Inr
     [\<lparr>cd_To = ''bb'', cd_Bandwidth = 3000000, cd_BandwidthExpiresAt = 0, cd_Energy = 0, cd_EnergyExpiresAt = 0\<rparr>,
      \<lparr>cd_To = ''bb'', cd_Bandwidth = 2000000, cd_BandwidthExpiresAt = 0, cd_Energy = 0, cd_EnergyExpiresAt = 0\<rparr>]"
    by (simp add: delegations_of_def retry_def emptyIfMissing_def tron_sample_defs)
  then show ?thesis
    by (simp add: sample_split reclaimable_def rcheck_def counterparty_def toClient_def trxAmount_def exact_units_def tron_sample_lib_def)
qed

section \<open>Properties\<close>

text \<open>C3. A Tron send signs the transfer that was requested, whatever the nodes answer: every digest the
  adapter asks a signature for is the hash of a transaction with one contract under the owner's
  permission, without a memo and valid for at most ten minutes, which pays the recipient exactly the
  requested amount - in SUN with no fee limit, or as a call of the requested token's contract whose
  data that contract reads as the recipient and the amount in token units, within the fee limit.\<close>

theorem tron_send_signs_the_transfer:
  assumes "exact_amounts L"
  shows "signs_only L E (\<lambda>e fee. \<exists>sv amount. service = Inr sv \<and> tl_NewFromString L (tq_Amount req) = Some amount \<and>
      0 < amount \<and> ca_NetworkID (tq_Asset req) = networkID \<and> ca_Kind (tq_Asset req) \<in> {''native'', ''trc20''} \<and>
      transfer_effect L sv req amount e fee)
    (tron_adapter_Send L service K E networkID req signer)"
proof (cases "rbind service (\<lambda>sv. rbind (tronTransfer L req networkID) (\<lambda>(asset, amount). Inr (sv, asset, amount)))")
  case (Inr v)
  obtain sv asset amount where v: "v = (sv, asset, amount)" by (cases v)
  have sv: "service = Inr sv" and t: "tronTransfer L req networkID = Inr (asset, amount)"
    using Inr by (auto simp: rbind_eq_Inr v)
  have req: "tl_NewFromString L (tq_Amount req) = Some amount" "0 < amount" "ca_NetworkID (tq_Asset req) = networkID"
    "ca_Kind (tq_Asset req) \<in> {''native'', ''trc20''}"
    using t by (auto simp: tronTransfer_def rcheck_eq_Inr split: option.splits if_splits)
  let ?token = "ca_Kind (tq_Asset req) = ''trc20'' \<and> ca_Contract (tq_Asset req) \<noteq> sv_Contract sv"
  let ?w = "if ?token
      then SendTokenWithSigner L sv K E (tq_From req) (tq_To req) (ca_Contract (tq_Asset req)) (ca_Decimals (tq_Asset req)) amount signer
      else SendWithSigner L sv K E (tq_From req) (tq_To req) asset amount signer"
  have "signs_only L E (transfer_effect L sv req amount) ?w"
    using Send_signs [OF assms t] SendToken_signs [OF assms] by auto
  then have "signs_only L E (\<lambda>e fee. \<exists>sv amount. service = Inr sv \<and> tl_NewFromString L (tq_Amount req) = Some amount \<and>
      0 < amount \<and> ca_NetworkID (tq_Asset req) = networkID \<and> ca_Kind (tq_Asset req) \<in> {''native'', ''trc20''} \<and>
      transfer_effect L sv req amount e fee) ?w"
    unfolding signs_only_def by (rule asks_only_mono) (use sv req in blast)
  then show ?thesis unfolding tron_adapter_Send_def Inr v by simp
qed (simp add: tron_adapter_Send_def)

theorem tron_send_signs_the_transfer_witness:
  "signs_only tron_sample_lib tron_sample_run (\<lambda>e fee. \<exists>sv amount. Inr tron_sample_service = (Inr sv :: chain_error + tron_service) \<and>
      tl_NewFromString tron_sample_lib (tq_Amount tron_sample_request) = Some amount \<and>
      0 < amount \<and> ca_NetworkID (tq_Asset tron_sample_request) = ''tron'' \<and>
      ca_Kind (tq_Asset tron_sample_request) \<in> {''native'', ''trc20''} \<and>
      transfer_effect tron_sample_lib sv tron_sample_request amount e fee)
    (tron_adapter_Send tron_sample_lib (Inr tron_sample_service) tron_sample_client tron_sample_run ''tron'' tron_sample_request
      (Some FamilyTron)) \<and>
   (\<exists>k. tron_adapter_Send tron_sample_lib (Inr tron_sample_service) tron_sample_client tron_sample_run ''tron'' tron_sample_request
      (Some FamilyTron) = AskDigest (calm_env 101) False send_digest k)"
proof
  let ?i = "no_intent\<lparr>in_Kind := IntentTransferTRX, in_Owner := ''aa'', in_To := ''bb'', in_Amount := 1000000\<rparr>"
  have "\<exists>k. tron_submit tron_sample_lib tron_sample_run ?i (Some (sample_raw TransferContract)) [''aa'', ''bb''] =
      AskDigest (calm_env 101) False send_digest k"
    by (rule sample_submit)
      (simp_all add: no_intent_def verifyParameter_def sample_raw_def unmarshalParameter_def rejectUnknown_def demand_def
        sameAddress_def tron_sample_lib_def sample_addr del: HexDecode.simps)
  moreover have "buildTransfer tron_sample_lib tron_sample_service tron_sample_client tron_sample_run ''aa'' ''bb'' AssetTRX 1 =
      Inr (?i, Some (sample_raw TransferContract))"
    by (simp add: buildTransfer_def rcheck_def trxAmount_def exact_units_def retry_def tron_sample_defs Let_def)
  moreover have "tronTransfer tron_sample_lib tron_sample_request ''tron'' = Inr (AssetTRX, 1)"
    by (simp add: tronTransfer_def tron_sample_request_def tron_sample_lib_def rcheck_def)
  ultimately show "\<exists>k. tron_adapter_Send tron_sample_lib (Inr tron_sample_service) tron_sample_client tron_sample_run ''tron''
      tron_sample_request (Some FamilyTron) = AskDigest (calm_env 101) False send_digest k"
    by (auto simp: tron_adapter_Send_def SendWithSigner_def tronSigner_def tron_sample_request_def)
qed (rule tron_send_signs_the_transfer [OF tron_sample_exact])

text \<open>C4. Every staking operation on Tron signs exactly what was asked for, whatever the nodes answer: a
  stake or an unstake of the amount, a delegation or a reclaim of the stake a node prices behind the
  units, to the named receiver and never locked, a withdrawal or the cancelling of unstakes. A
  deployment signs the creation of a contract by the sender, with the submitted name, share of the
  callers' energy, energy limit and fee limit and with no value attached, whose code starts with the
  submitted bytecode; what follows the bytecode, where constructor arguments go, the code does not
  compare with the submitted ones, and it is whatever the node put there.\<close>

theorem tron_operations_sign_the_request:
  assumes "exact_amounts L"
  shows "signs_only L E (stake_effect L from unstake resource amount) (stake_change L service K E from unstake resource amount signer) \<and>
    signs_only L E (delegation_effect L K from to reclaim resource units)
      (delegation_change L service K E from to reclaim resource units False signer) \<and>
    signs_only L E (withdraw_effect L from cancel) (adapter_Withdraw L service K E from cancel signer) \<and>
    signs_only L E (deploy_effect L from d) (DeployWithSigner L D sv K E from d polls signer)"
  by (intro conjI stake_change_signs [OF assms] delegation_signs withdraw_signs deploy_signs [OF assms])

theorem tron_operations_sign_the_request_witness:
  "signs_only tron_sample_lib tron_sample_run (stake_effect tron_sample_lib ''aa'' False ResourceEnergy 1)
      (stake_change tron_sample_lib (Inr tron_sample_service) tron_sample_client tron_sample_run ''aa'' False ResourceEnergy 1
        (Some FamilyTron)) \<and>
   (\<exists>k. stake_change tron_sample_lib (Inr tron_sample_service) tron_sample_client tron_sample_run ''aa'' False ResourceEnergy 1
      (Some FamilyTron) = AskDigest (calm_env 101) False send_digest k)"
proof
  let ?i = "resourceIntent IntentStake ''aa'' [] 1000000 ENERGY"
  have "\<exists>k. tron_submit tron_sample_lib tron_sample_run ?i (Some (sample_raw FreezeBalanceV2Contract)) [''aa''] =
      AskDigest (calm_env 101) False send_digest k"
    by (rule sample_submit)
      (simp_all add: resourceIntent_def no_intent_def verifyParameter_def sample_raw_def unmarshalParameter_def rejectUnknown_def
        demand_def sameAddress_def tron_sample_lib_def sample_addr del: HexDecode.simps)
  then show "\<exists>k. stake_change tron_sample_lib (Inr tron_sample_service) tron_sample_client tron_sample_run ''aa'' False
      ResourceEnergy 1 (Some FamilyTron) = AskDigest (calm_env 101) False send_digest k"
    by (simp add: stake_change_def with_service_def StakeWithSigner_def toClient_def stakeAmount_def rcheck_def trxAmount_def
        exact_units_def stakeOpSigner_def tronSigner_def build_and_submit_def retry_def tron_sample_fields)
qed (rule tron_operations_sign_the_request [OF tron_sample_exact, THEN conjunct1])

text \<open>C15. Reclaiming all of a resource takes back exactly what a node reports as lent to that receiver -
  the records of the receiver added up, the empty halves left out - and nothing is signed when any of
  it is still locked, when nothing is lent, or when the node reports no record.\<close>

theorem reclaim_all_takes_back_everything:
  assumes "exact_amounts L" "\<And>j lent. tc_GetDelegatedResourcesV2 K from j = Inr lent \<Longrightarrow> fits lent"
  shows "signs_only L E (reclaim_all_effect L K (te_lockNow E) from to resource)
    (delegation_change L service K E from to True resource amount True signer)"
  using reclaim_all_signs [OF assms] unfolding delegation_change_def adapter_Reclaim_def by (auto intro: signs_only_service)

theorem reclaim_all_takes_back_everything_witness:
  "signs_only tron_sample_lib tron_sample_run
     (reclaim_all_effect tron_sample_lib tron_sample_client (te_lockNow tron_sample_run) ''aa'' ''bb'' ResourceBandwidth)
     (delegation_change tron_sample_lib (Inr tron_sample_service) tron_sample_client tron_sample_run ''aa'' ''bb'' True
       ResourceBandwidth 0 True (Some FamilyTron)) \<and>
   (\<exists>k. delegation_change tron_sample_lib (Inr tron_sample_service) tron_sample_client tron_sample_run ''aa'' ''bb'' True
       ResourceBandwidth 0 True (Some FamilyTron) = AskDigest (calm_env 101) False send_digest k)"
proof
  let ?i = "resourceIntent IntentReclaim ''aa'' ''bb'' 5000000 BANDWIDTH"
  have "\<exists>k. tron_submit tron_sample_lib tron_sample_run ?i (Some (sample_raw UnDelegateResourceContract)) [''aa''] =
      AskDigest (calm_env 101) False send_digest k"
    by (rule sample_submit)
      (simp_all add: resourceIntent_def no_intent_def verifyParameter_def sample_raw_def unmarshalParameter_def rejectUnknown_def
        demand_def sameAddress_def tron_sample_lib_def sample_addr del: HexDecode.simps)
  then show "\<exists>k. delegation_change tron_sample_lib (Inr tron_sample_service) tron_sample_client tron_sample_run ''aa'' ''bb'' True
       ResourceBandwidth 0 True (Some FamilyTron) = AskDigest (calm_env 101) False send_digest k"
    by (simp add: delegation_change_def adapter_Reclaim_def with_service_def ReclaimAllWithSigner_def sample_reclaim
        stakeOpSigner_def tronSigner_def build_and_submit_def retry_def tron_sample_fields)
  show "signs_only tron_sample_lib tron_sample_run
     (reclaim_all_effect tron_sample_lib tron_sample_client (te_lockNow tron_sample_run) ''aa'' ''bb'' ResourceBandwidth)
     (delegation_change tron_sample_lib (Inr tron_sample_service) tron_sample_client tron_sample_run ''aa'' ''bb'' True
       ResourceBandwidth 0 True (Some FamilyTron))"
    by (rule reclaim_all_takes_back_everything [OF tron_sample_exact])
      (auto simp: tron_sample_client_def fits_def lent_total_def share_def)
qed

end
