(* ===== verification/TronHandlers.thy ===== *)
theory TronHandlers
  imports TronProperties SendProperties
begin

text \<open>
  The handlers of Tron operations (internal/httpapi/platform.go): staking, delegation, withdrawal and
  deployment. They share their steps - the step-up, the decoding of the body, the account, the
  idempotency key, the key lent by the space with the signer that records, the outcome - so the steps
  are \<open>tron_handler\<close>, and a handler is what it decodes, what it runs with the key and how it ends.
\<close>

section \<open>The shared steps\<close>

text \<open>\<open>tronAccount\<close>: the network, if it is Tron and enabled, and the account's address on it.\<close>

definition tronAccount ::
  "platform_ctx \<Rightarrow> step_env \<Rightarrow> string \<Rightarrow> string \<Rightarrow> string \<Rightarrow> manager \<Rightarrow> manager \<times> (reply + network \<times> account \<times> string)" where
  "tronAccount C ev spaceID networkID accountID m =
     (case network_Get (pc_networks C) networkID of Inl e \<Rightarrow> (m, Inl (writePlatformError (NetworkFlow e))) | Inr item \<Rightarrow>
      let item = effectiveNetwork C item in
      if nw_Family item \<noteq> FamilyTron \<or> \<not> nw_Enabled item
      then (m, Inl (RefusedReply 400 ''Tron operation requires an enabled Tron network''))
      else case Get ev spaceID m of
        (m, Inl e) \<Rightarrow> (m, Inl (writePlatformError (SpaceFlow e)))
      | (m, Inr (_, accounts)) \<Rightarrow>
          (case find (\<lambda>a. ac_ID a = accountID \<and> BoundTo a (nw_ID item) \<and> address_of (ac_Addresses a) FamilyTron \<noteq> []) accounts of
             None \<Rightarrow> (m, Inl (RefusedReply 404 ''account is not available for Tron''))
           | Some a \<Rightarrow> (m, Inr (item, a, address_of (ac_Addresses a) FamilyTron))))"

record tron_path =
  tp_space :: string
  tp_network :: string
  tp_account :: string
  tp_key :: string

text \<open>\<open>marshalled\<close> is the encoding of the path and the body, \<open>decoded\<close> the body or the refusal it meets,
  \<open>call\<close> the closure that is lent the signer, \<open>finish\<close> what is recorded and answered.\<close>

definition tron_handler ::
  "platform_ctx \<Rightarrow> request_env \<Rightarrow> tron_path \<Rightarrow> byte list option \<Rightarrow> reply + 'q \<Rightarrow> (network \<Rightarrow> string \<Rightarrow> 'q \<Rightarrow> 'r world)
     \<Rightarrow> (string \<Rightarrow> string \<Rightarrow> flow_error + 'r \<Rightarrow> op_file file_state \<Rightarrow> op_file file_state \<times> reply) \<Rightarrow> platform \<Rightarrow> answered" where
  "tron_handler C E P marshalled decoded call finish p =
     (case RequireSendConfirmation (rq_confirm E) (tp_space P) (pf_spaces p) of
        (m, Inl e) \<Rightarrow> answer (p\<lparr>pf_spaces := m\<rparr>) (writePlatformError (SpaceFlow e))
      | (m, Inr _) \<Rightarrow>
     (case decoded of Inl r \<Rightarrow> answer (p\<lparr>pf_spaces := m\<rparr>) r | Inr q \<Rightarrow>
     (case tronAccount C (rq_accounts E) (tp_space P) (tp_network P) (tp_account P) m of
        (m, Inl r) \<Rightarrow> answer (p\<lparr>pf_spaces := m\<rparr>) r
      | (m, Inr (item, acc, address)) \<Rightarrow>
     (case beginChainOperation C marshalled (rq_begin E) (tp_space P) (nw_ID item) (tp_key P) (pf_ops p) of
        (s, Inl r) \<Rightarrow> answer \<lparr>pf_spaces = m, pf_ops = s\<rparr> r
      | (s, Inr operationKey) \<Rightarrow>
     (case WithSigner (pc_space C) (rq_lend E) (tp_space P) (ac_ID acc) (nw_ID item) FamilyTron m of
        (m, Inl e) \<Rightarrow>
          (case finish (nw_ID item) operationKey (Inl (SpaceFlow e)) s of
             (s, r) \<Rightarrow> answer \<lparr>pf_spaces = m, pf_ops = s\<rparr> r)
      | (m, Inr key) \<Rightarrow>
     (case run_world (call item address q) C
         \<lparr>ln_space = tp_space P, ln_opkey = operationKey, ln_signer = RecordingDigest key\<rparr> 0 s of
        (s, tr, None) \<Rightarrow> (\<lparr>pf_spaces = m, pf_ops = s\<rparr>, tr, None)
      | (s, tr, Some r) \<Rightarrow>
          (case finish (nw_ID item) operationKey (Inr r) s of
             (s, rep) \<Rightarrow> (\<lparr>pf_spaces = m, pf_ops = s\<rparr>, tr, Some rep))))))))"

definition finish_sent ::
  "store_env \<Rightarrow> string \<Rightarrow> string \<Rightarrow> string \<Rightarrow> flow_error + sent \<Rightarrow> op_file file_state \<Rightarrow> op_file file_state \<times> reply" where
  "finish_sent ev spaceID networkID key result =
     (case result of
        Inl e \<Rightarrow> finishTronOperation ev spaceID networkID key [] (Some e)
      | Inr (txID, err, _) \<Rightarrow> finishTronOperation ev spaceID networkID key txID (map_option ChainFlow err))"

section \<open>Staking, delegation, withdrawal\<close>

text \<open>What the handlers reach through the adapter: the SDK, the service of a network, its nodes, a run.\<close>

record tron_side =
  td_L :: tron_lib
  td_service :: "string \<Rightarrow> chain_error + tron_service"
  td_K :: tron_client
  td_E :: tron_run

record stake_body =
  sb_Resource :: string
  sb_Amount :: string

definition decode_amount :: "tron_lib \<Rightarrow> string \<Rightarrow> string \<Rightarrow> reply + rat" where
  "decode_amount L text message = (case tl_NewFromString L text of None \<Rightarrow> Inl (RefusedReply 400 message) | Some a \<Rightarrow> Inr a)"

definition tronStakeChange ::
  "platform_ctx \<Rightarrow> request_env \<Rightarrow> tron_side \<Rightarrow> tron_path \<Rightarrow> (stake_body \<Rightarrow> byte list option) \<Rightarrow> stake_body option \<Rightarrow> bool \<Rightarrow> platform \<Rightarrow> answered" where
  "tronStakeChange C E S P marshal body unstake =
     tron_handler C E P (Option.bind body marshal)
       (case body of None \<Rightarrow> Inl (RefusedReply 400 ''invalid JSON body'') | Some request \<Rightarrow>
          rbind (decode_amount (td_L S) (sb_Amount request) ''invalid amount'') (\<lambda>amount. Inr (request, amount)))
       (\<lambda>item address (request, amount).
          stake_change (td_L S) (td_service S (nw_ID item)) (td_K S) (td_E S) address unstake (sb_Resource request) amount (Some FamilyTron))
       (finish_sent (rq_finish E) (tp_space P))"

record delegation_body =
  db_Resource :: string
  db_Amount :: string
  db_To :: string
  db_All :: bool

definition tronDelegation ::
  "platform_ctx \<Rightarrow> request_env \<Rightarrow> tron_side \<Rightarrow> tron_path \<Rightarrow> (delegation_body \<Rightarrow> byte list option) \<Rightarrow> delegation_body option \<Rightarrow> bool
     \<Rightarrow> platform \<Rightarrow> answered" where
  "tronDelegation C E S P marshal body reclaim =
     tron_handler C E P (Option.bind body marshal)
       (case body of None \<Rightarrow> Inl (RefusedReply 400 ''invalid JSON body'') | Some request \<Rightarrow>
          rbind (if \<not> db_All request then decode_amount (td_L S) (db_Amount request) ''invalid amount'' else Inr 0)
            (\<lambda>amount. Inr (request, amount)))
       (\<lambda>item address (request, amount).
          delegation_change (td_L S) (td_service S (nw_ID item)) (td_K S) (td_E S) address (db_To request) reclaim
            (db_Resource request) amount (db_All request) (Some FamilyTron))
       (finish_sent (rq_finish E) (tp_space P))"

definition tronWithdrawChange ::
  "platform_ctx \<Rightarrow> request_env \<Rightarrow> tron_side \<Rightarrow> tron_path \<Rightarrow> (bool \<Rightarrow> byte list option) \<Rightarrow> bool \<Rightarrow> platform \<Rightarrow> answered" where
  "tronWithdrawChange C E S P marshal cancelUnstakes =
     tron_handler C E P (marshal cancelUnstakes) (Inr ())
       (\<lambda>item address _.
          adapter_Withdraw (td_L S) (td_service S (nw_ID item)) (td_K S) (td_E S) address cancelUnstakes (Some FamilyTron))
       (finish_sent (rq_finish E) (tp_space P))"

section \<open>Deployment\<close>

record deploy_body =
  pb_Name :: string
  pb_ABI :: string
  pb_Bytecode :: string
  pb_ConstructorParams :: string
  pb_FeeLimit :: string
  pb_ConsumeUserResourcePercent :: int
  pb_OriginEnergyLimit :: int

definition decodeTronDeployment :: "tron_lib \<Rightarrow> deploy_body option \<Rightarrow> reply + deployment" where
  "decodeTronDeployment L body =
     (case body of None \<Rightarrow> Inl (RefusedReply 400 ''invalid JSON body'') | Some request \<Rightarrow>
        rbind (decode_amount L (pb_FeeLimit request) ''invalid fee_limit'') (\<lambda>feeLimit.
        Inr \<lparr>dp_Name = pb_Name request, dp_ABI = pb_ABI request, dp_Bytecode = pb_Bytecode request,
          dp_ConstructorParams = pb_ConstructorParams request, dp_FeeLimit = feeLimit,
          dp_ConsumeUserResourcePercent = pb_ConsumeUserResourcePercent request,
          dp_OriginEnergyLimit = pb_OriginEnergyLimit request\<rparr>))"

definition finish_deploy ::
  "store_env \<Rightarrow> string \<Rightarrow> string \<Rightarrow> string \<Rightarrow> flow_error + deploy_result \<Rightarrow> op_file file_state \<Rightarrow> op_file file_state \<times> reply" where
  "finish_deploy ev spaceID networkID key result s =
     (case result of
        Inl e \<Rightarrow> finishTronOperation ev spaceID networkID key [] (Some e) s
      | Inr (d, Some e, _) \<Rightarrow> finishTronOperation ev spaceID networkID key (de_TxID d) (Some (ChainFlow e)) s
      | Inr (d, None, _) \<Rightarrow>
          let status = StatusPending;
              status = (if de_Confirmed d then StatusConfirmed else status);
              status = (if de_Failure d \<noteq> [] then StatusFailed else status)
          in (case Update ev spaceID key (de_TxID d) status s of
                (t, Inl updateErr) \<Rightarrow> (t, writePlatformError (StoreFlow updateErr))
              | (t, Inr _) \<Rightarrow> (t, TxReply 202 networkID (de_TxID d) status)))"

definition tronDeploy ::
  "platform_ctx \<Rightarrow> request_env \<Rightarrow> tron_side \<Rightarrow> deploy_lib \<Rightarrow> tx_info option list \<Rightarrow> tron_path
     \<Rightarrow> (deploy_body \<Rightarrow> byte list option) \<Rightarrow> deploy_body option \<Rightarrow> platform \<Rightarrow> answered" where
  "tronDeploy C E S D polls P marshal body =
     tron_handler C E P (Option.bind body marshal) (decodeTronDeployment (td_L S) body)
       (\<lambda>item address d.
          (case td_service S (nw_ID item) of
             Inl e \<Rightarrow> Finished (no_deployed, Some e, [])
           | Inr sv \<Rightarrow> DeployWithSigner (td_L S) D sv (td_K S) (td_E S) address d polls (Some FamilyTron)))
       (finish_deploy (rq_finish E) (tp_space P))"

section \<open>One key, one signature\<close>

lemma tron_handler_signs:
  assumes "tron_handler C E P marshalled decoded call finish p = (p1, tr, rep)" "tr \<noteq> []"
  obtains m1 m2 m3 q item acc address h s r0 k t out where
    "RequireSendConfirmation (rq_confirm E) (tp_space P) (pf_spaces p) = (m1, Inr ())"
    "decoded = Inr q"
    "tronAccount C (rq_accounts E) (tp_space P) (tp_network P) (tp_account P) m1 = (m2, Inr (item, acc, address))"
    "Begin (rq_begin E) (tp_space P) (tp_key P) h (nw_ID item) (pf_ops p) = (s, Inr (r0, False))"
    "WithSigner (pc_space C) (rq_lend E) (tp_space P) (ac_ID acc) (nw_ID item) FamilyTron m2 = (m3, Inr k)"
    "run_world (call item address q) C \<lparr>ln_space = tp_space P, ln_opkey = tp_key P, ln_signer = RecordingDigest k\<rparr> 0 s = (t, tr, out)"
    "out = None \<and> p1 = \<lparr>pf_spaces = m3, pf_ops = t\<rparr> \<and> rep = None \<or>
     (\<exists>r u a. out = Some r \<and> p1 = \<lparr>pf_spaces = m3, pf_ops = u\<rparr> \<and> rep = Some a \<and> finish (nw_ID item) (tp_key P) (Inr r) t = (u, a))"
proof -
  obtain m1 where m1: "RequireSendConfirmation (rq_confirm E) (tp_space P) (pf_spaces p) = (m1, Inr ())"
    using assms by (cases "RequireSendConfirmation (rq_confirm E) (tp_space P) (pf_spaces p)")
      (auto simp: tron_handler_def answer_def split: sum.splits)
  obtain q where q: "decoded = Inr q"
    using assms m1 by (cases decoded) (auto simp: tron_handler_def answer_def)
  obtain m2 item acc address where m2:
    "tronAccount C (rq_accounts E) (tp_space P) (tp_network P) (tp_account P) m1 = (m2, Inr (item, acc, address))"
    using assms m1 q by (cases "tronAccount C (rq_accounts E) (tp_space P) (tp_network P) (tp_account P) m1")
      (auto simp: tron_handler_def answer_def split: sum.splits)
  obtain s key where b: "beginChainOperation C marshalled (rq_begin E) (tp_space P) (nw_ID item) (tp_key P) (pf_ops p) = (s, Inr key)"
    using assms m1 q m2
    by (cases "beginChainOperation C marshalled (rq_begin E) (tp_space P) (nw_ID item) (tp_key P) (pf_ops p)")
      (auto simp: tron_handler_def answer_def split: sum.splits)
  obtain h r0 where h: "key = tp_key P" "Begin (rq_begin E) (tp_space P) (tp_key P) h (nw_ID item) (pf_ops p) = (s, Inr (r0, False))"
    using b by (auto simp: beginChainOperation_def split: sum.splits prod.splits bool.splits)
  obtain m3 k where k: "WithSigner (pc_space C) (rq_lend E) (tp_space P) (ac_ID acc) (nw_ID item) FamilyTron m2 = (m3, Inr k)"
    using assms m1 q m2 b
    by (cases "WithSigner (pc_space C) (rq_lend E) (tp_space P) (ac_ID acc) (nw_ID item) FamilyTron m2")
      (auto simp: tron_handler_def answer_def split: sum.splits prod.splits)
  obtain t tr' out where w: "run_world (call item address q) C
      \<lparr>ln_space = tp_space P, ln_opkey = tp_key P, ln_signer = RecordingDigest k\<rparr> 0 s = (t, tr', out)"
    by (metis prod_cases3)
  have run: "tron_handler C E P marshalled decoded call finish p =
      (case out of None \<Rightarrow> (\<lparr>pf_spaces = m3, pf_ops = t\<rparr>, tr', None)
       | Some r \<Rightarrow> (case finish (nw_ID item) (tp_key P) (Inr r) t of (u, a) \<Rightarrow> (\<lparr>pf_spaces = m3, pf_ops = u\<rparr>, tr', Some a)))"
    unfolding tron_handler_def m1 q m2 b k h(1) w prod.case sum.case by (cases out) simp_all
  then have "tr' = tr" using assms(1) by (auto split: option.splits prod.splits)
  moreover have "out = None \<and> p1 = \<lparr>pf_spaces = m3, pf_ops = t\<rparr> \<and> rep = None \<or>
     (\<exists>r u a. out = Some r \<and> p1 = \<lparr>pf_spaces = m3, pf_ops = u\<rparr> \<and> rep = Some a \<and> finish (nw_ID item) (tp_key P) (Inr r) t = (u, a))"
    using run assms(1) by (auto split: option.splits prod.splits)
  ultimately show ?thesis using that m1 q m2 h(2) k w by blast
qed

lemma known_key_operates_nothing:
  assumes "store_ok (pf_ops p)" "alive (tp_space P) (NormalizeKey (tp_key P)) h t0 (ledger_of (pf_ops p))"
    and "ValidID (tp_space P) ''spc_''" "NormalizeKey (tp_key P) \<noteq> []" "length (NormalizeKey (tp_key P)) \<le> maxKeyLength"
    and "tron_handler C E P marshalled decoded call finish p = (p1, tr, rep)"
  shows "tr = [] \<and> pf_ops p1 = pf_ops p"
proof -
  obtain r where r: "\<And>ev h n. Begin ev (tp_space P) (tp_key P) h n (pf_ops p) =
      (pf_ops p, if op_RequestHash r = h then Inr (r, True) else Inl ErrConflict)"
    using assms(2) Begin_known [OF assms(3-5)] by (auto simp: alive_def)
  have "tr = []"
  proof (rule ccontr)
    assume "tr \<noteq> []"
    then obtain h n s r0 where "Begin (rq_begin E) (tp_space P) (tp_key P) h n (pf_ops p) = (s, Inr (r0, False))"
      using tron_handler_signs [OF assms(6)] by metis
    then show False using r by (auto split: if_splits)
  qed
  moreover have "snd (beginChainOperation C marshalled (rq_begin E) (tp_space P) n (tp_key P) (pf_ops p)) \<noteq> Inr key \<and>
      fst (beginChainOperation C marshalled (rq_begin E) (tp_space P) n (tp_key P) (pf_ops p)) = pf_ops p" for n key
    using r by (auto simp: beginChainOperation_def split: sum.splits)
  then have "pf_ops p1 = pf_ops p"
    using assms(6)
    by (auto simp: tron_handler_def answer_def split: prod.splits sum.splits) (metis fst_conv snd_conv)+
  ultimately show ?thesis by simp
qed

lemma finish_sent_event:
  "\<exists>tx st. fst (finish_sent ev i n key (Inr r) s) = run_event (EvUpdate ev i key tx st) s \<and>
     (\<forall>c m t' st'. snd (finish_sent ev i n key (Inr r) s) = TxReply c m t' st' \<longrightarrow> \<not> resolved st)"
proof -
  obtain txID err dropped where r: "r = (txID, err, dropped)" by (cases r)
  have "fst (finish_sent ev i n key (Inr r) s) =
      run_event (EvUpdate ev i key txID (case err of Some e \<Rightarrow> failure_status (ChainFlow e) | None \<Rightarrow> StatusPending)) s"
    by (auto simp: finish_sent_def r finishTronOperation_def Let_def split: option.splits prod.splits sum.splits)
  moreover have "\<not> resolved (case err of Some e \<Rightarrow> failure_status (ChainFlow e) | None \<Rightarrow> StatusPending)"
    if "snd (finish_sent ev i n key (Inr r) s) = TxReply c m t' st'" for c m t' st'
    using that by (auto simp: finish_sent_def r finishTronOperation_def Let_def writePlatformError_def resolved_def status_defs failure_status_def
        split: option.splits prod.splits sum.splits if_splits)
  ultimately show ?thesis by blast
qed

text \<open>The whole send of the Tron adapter is one of the sends \<open>adapter_send\<close> lists.\<close>

lemma submit_as_send:
  "map_world (fst \<circ> sent_transaction networkID) (submitWithSigner ev ended True digest attach' node (dropping addresses)) =
     tron_Send ev ended networkID True digest attach' node"
  by (auto simp: submitWithSigner_def tron_Send_def dropping_def sent_transaction_def fun_eq_iff split: option.split)

lemma tron_adapter_Send_is_send: "adapter_send (map_world fst (tron_adapter_Send L service K E networkID req signer))"
proof -
  have none: "adapter_send (map_world (fst \<circ> sent_transaction networkID) (refused e))" for e
    using adapter_send.refused [of "tron_error e"] by (simp add: refused_def sent_transaction_def)
  have send: "adapter_send (map_world (fst \<circ> sent_transaction networkID) (tron_submit L E i tx addresses))" for i tx addresses
    by (auto simp: tron_submit_def none submit_as_send intro: adapter_send.tron split: sum.split)
  show ?thesis
    using adapter_send.refused none send
    by (auto simp: tron_adapter_Send_def world.map_comp SendTokenWithSigner_def SendWithSigner_def tronSigner_def signer_required_def
        build_and_submit_def split: sum.split)
qed

text \<open>What may go on beside an operation, as \<open>send_beside\<close> says it of a send.\<close>

definition operation_beside ::
  "(store_event \<Rightarrow> op_file file_state \<Rightarrow> bool) \<Rightarrow> platform_ctx \<Rightarrow> request_env \<Rightarrow> tron_path
     \<Rightarrow> (network \<Rightarrow> string \<Rightarrow> 'q \<Rightarrow> 'r world) \<Rightarrow> platform \<Rightarrow> bool" where
  "operation_beside Q C E P call p \<longleftrightarrow>
     (\<forall>item address q h r k s. Begin (rq_begin E) (tp_space P) (tp_key P) h (nw_ID item) (pf_ops p) = (s, Inr (r, False)) \<longrightarrow>
        undisturbed (call item address q) Q (se_now (rq_begin E)) C
          \<lparr>ln_space = tp_space P, ln_opkey = tp_key P, ln_signer = RecordingDigest k\<rparr> 0 s)"

text \<open>C14. One idempotency key, at most one signing Tron operation: if a stake, unstake, delegation,
  reclaim, withdrawal or cancelling asked for a signature and then the process died, or it answered
  with a transaction (broadcast, or broadcast with an unknown outcome), then within the retention
  period a Tron operation of any kind with any spelling of the key asks for no signature, broadcasts
  nothing and changes no operation. Other requests may have reserved, advanced, confirmed or failed any
  other operations during the operation and since; the one condition is that none of them resolved
  the operation of this very key.\<close>

theorem tron_operation_signed_at_most_once:
  assumes "store_ok (pf_ops p)" "visits (se_visit (rq_begin E))" "timely (se_now (rq_begin E)) (rq_finish E)"
    and "operation_beside (spares (tp_space P) (NormalizeKey (tp_key P))) C E P call p"
    and "tron_handler C E P marshalled decoded call (finish_sent (rq_finish E) (tp_space P)) p = (p1, tr, rep)" "tr \<noteq> []"
    and "rep = None \<or> (\<exists>c n tx st. rep = Some (TxReply c n tx st))"
    and "history (spares (tp_space P) (NormalizeKey (tp_key P))) (se_now (rq_begin E)) es (pf_ops p1)"
    and "pf_ops p2 = run_all run_event es (pf_ops p1)"
    and "tp_space P' = tp_space P" "NormalizeKey (tp_key P') = NormalizeKey (tp_key P)"
    and "tron_handler C' E' P' marshalled' decoded' call' finish' p2 = (p3, tr', rep')"
  shows "tr' = [] \<and> pf_ops p3 = pf_ops p2"
proof -
  let ?t0 = "se_now (rq_begin E)" and ?i = "tp_space P" and ?k = "NormalizeKey (tp_key P)"
  obtain q item acc address h s r0 k t m3 out where run:
    "Begin (rq_begin E) ?i (tp_key P) h (nw_ID item) (pf_ops p) = (s, Inr (r0, False))"
    "run_world (call item address q) C \<lparr>ln_space = ?i, ln_opkey = tp_key P, ln_signer = RecordingDigest k\<rparr> 0 s = (t, tr, out)"
    "out = None \<and> p1 = \<lparr>pf_spaces = m3, pf_ops = t\<rparr> \<and> rep = None \<or>
     (\<exists>r u a. out = Some r \<and> p1 = \<lparr>pf_spaces = m3, pf_ops = u\<rparr> \<and> rep = Some a \<and>
        finish_sent (rq_finish E) ?i (nw_ID item) (tp_key P) (Inr r) t = (u, a))"
    by (rule tron_handler_signs [OF assms(5,6)]) blast
  note begun = Begin_safe [OF run(1) assms(1,2)]
  have t: "safe_store ?t0 ?i ?k h t" using safe_world [OF _ begun(1) run(2)] assms(4) run(1) by (simp add: operation_beside_def)
  have left: "safe_store ?t0 ?i ?k h (pf_ops p1)"
    using run(3)
  proof (elim disjE exE conjE)
    fix r u a
    assume fin: "p1 = \<lparr>pf_spaces = m3, pf_ops = u\<rparr>" "rep = Some a"
      "finish_sent (rq_finish E) ?i (nw_ID item) (tp_key P) (Inr r) t = (u, a)"
    obtain tx st where ev: "u = run_event (EvUpdate (rq_finish E) ?i (tp_key P) tx st) t" "\<not> resolved st"
      using finish_sent_event [of "rq_finish E" ?i "nw_ID item" "tp_key P" r t] fin assms(7) by fastforce
    then show ?thesis
      using fin(1) safe_event [OF t] assms(3) by (simp add: fair_event_def keeps_open_def timely_def del: run_event.simps)
  qed (use t in simp)
  have "safe_store ?t0 ?i ?k h (pf_ops p2)" unfolding assms(9) by (rule history_safe [OF assms(8) left])
  then have "store_ok (pf_ops p2)" "alive ?i ?k h ?t0 (ledger_of (pf_ops p2))" by (simp_all add: safe_store_def)
  then show ?thesis
    using known_key_operates_nothing [of p2 P' h ?t0] begun(2-4) assms(12) unfolding assms(10,11) by blast
qed

definition dying_operation :: "network \<Rightarrow> string \<Rightarrow> unit \<Rightarrow> sent world" where
  "dying_operation item address q = AskDigest (calm_env 101) False send_digest (\<lambda>_. Dies)"

abbreviation sample_path :: "string \<Rightarrow> tron_path" where
  "sample_path key \<equiv> \<lparr>tp_space = sample_id, tp_network = ''eth'', tp_account = ''acc_aaaaaaaaaaaaaaaaaaaa'', tp_key = key\<rparr>"

abbreviation dying_handler :: "string \<Rightarrow> platform \<Rightarrow> answered" where
  "dying_handler key \<equiv> tron_handler (send_ctx FamilyTron) send_env (sample_path key) (Some [1]) (Inr ()) dying_operation
     (finish_sent (rq_finish send_env) sample_id)"

lemma dying_operation_run:
  "dying_handler ''k'' (send_platform FamilyTron) = (dead_platform, [Signed (HexEncode send_digest) (replicate 65 5)], None)"
proof -
  obtain addr where a: "tronAccount (send_ctx FamilyTron) (sample_env 100) sample_id ''eth'' ''acc_aaaaaaaaaaaaaaaaaaaa'' (send_manager FamilyTron) =
      (send_manager FamilyTron, Inr (send_network FamilyTron, send_account FamilyTron, addr))"
    using send_accounts [of FamilyTron]
    by (auto simp: tronAccount_def send_ctx_def network_Get_def effectiveNetwork_def send_network_def evm_def send_account_def
        sample_derived_def BoundTo_def address_of_def)
  have "RequestHash (\<lambda>_ :: unit. Some [1]) (wl_sha256 sample_wallet) () = Inr (HexEncode [1])"
    by (simp add: RequestHash_def sample_wallet_def del: HexEncode.simps)
  then have b: "beginChainOperation (send_ctx FamilyTron) (Some [1]) (calm_env 100) sample_id ''eth'' ''k'' (\<lambda>_. Missing) =
      (send_store send_record, Inr ''k'')"
    by (simp add: beginChainOperation_def send_ctx_def send_begin del: HexEncode.simps)
  have k: "WithSigner sample_ctx (sample_env 100) sample_id ''acc_aaaaaaaaaaaaaaaaaaaa'' ''eth'' FamilyTron (send_manager FamilyTron) =
      (send_manager FamilyTron, Inr (Secp256k1Key (replicate 32 7)))"
    using send_lend [of FamilyTron] by (simp add: WithKey_def CurveOf_def account_result_def sbind_slift)
  have lent: "\<lparr>ln_space = sample_id, ln_opkey = ''k'', ln_signer = RecordingDigest (Secp256k1Key (replicate 32 7))\<rparr> = send_lent FamilyTron"
    by (simp add: send_signer_def send_network_fields)
  have c: "pc_space (send_ctx FamilyTron) = sample_ctx" "ac_ID (send_account FamilyTron) = ''acc_aaaaaaaaaaaaaaaaaaaa''"
    by (simp_all add: send_ctx_def send_account_def sample_derived_def)
  show ?thesis
    unfolding tron_handler_def
    by (simp add: send_env_def send_platform_def send_confirm a b k c lent send_network_fields dying_operation_def send_ask send_event
        dead_platform_def del: HexEncode.simps send_signer_def)
qed

theorem tron_operation_signed_at_most_once_witness:
  "fst (snd (dying_handler '' k '' dead_platform)) = []"
proof -
  let ?run = "dying_handler '' k '' dead_platform"
  have "fst (snd ?run) = [] \<and> pf_ops (fst ?run) = pf_ops dead_platform"
  proof (rule tron_operation_signed_at_most_once [where es = "[]" and P = "sample_path ''k''" and P' = "sample_path '' k ''"])
    show "tron_handler (send_ctx FamilyTron) send_env (sample_path ''k'') (Some [1]) (Inr ()) dying_operation
        (finish_sent (rq_finish send_env) (tp_space (sample_path ''k''))) (send_platform FamilyTron) =
        (dead_platform, [Signed (HexEncode send_digest) (replicate 65 5)], None)"
      using dying_operation_run by simp
    show "timely (se_now (rq_begin send_env)) (rq_finish send_env)"
      using sample_timely [of 100 102] by (simp add: send_env_def calm_env_def)
    show "operation_beside (spares (tp_space (sample_path ''k'')) (NormalizeKey (tp_key (sample_path ''k''))))
        (send_ctx FamilyTron) send_env (sample_path ''k'') dying_operation (send_platform FamilyTron)"
      using sample_timely [of 100 101] by (simp add: operation_beside_def dying_operation_def send_env_def calm_env_def split: prod.split)
    show "?run = (fst ?run, fst (snd ?run), snd (snd ?run))" by simp
  qed (simp_all add: sample_key sample_empty)
  then show ?thesis by simp
qed

end
