(* ===== verification/SunswapMath.thy ===== *)
theory SunswapMath
  imports Prelude
begin

text \<open>
  The concentrated-liquidity arithmetic of internal/tron/sunswap/clmath.go: prices of ticks, the
  amounts a price move takes and pays, one step of a swap. A \<open>big.Int\<close> is an integer; its \<open>Quo\<close>
  panics on a zero divisor, so every function that divides returns an error or a value.

  The lemmas: the price of a tick is monotone and within the ratios the pools accept; a step takes at
  most what remains, never moves past its target, and never pays more than the price it starts
  from is worth.
\<close>

section \<open>Rounding divisions\<close>

datatype sq_err = SqPanic | PoolDrains | SqErr string

type_synonym 'a sq = "sq_err + 'a"

definition big_quo :: "int \<Rightarrow> int \<Rightarrow> int sq" where
  "big_quo a b = rcheck (b \<noteq> 0) SqPanic (Inr (go_quo a b))"

definition minTick :: int where "minTick = - 887272"
definition maxTick :: int where "maxTick = 887272"
definition feeDenominator :: int where "feeDenominator = 1000000"
definition q96 :: int where "q96 = push_bit 96 1"
definition maxUint160 :: int where "maxUint160 = push_bit 160 1 - 1"
definition maxUint256 :: int where "maxUint256 = push_bit 256 1 - 1"
definition minSqrtRatio :: int where "minSqrtRatio = 4295128739"
definition maxSqrtRatio :: int where "maxSqrtRatio = 1461446703485210103287273052203988822378723970342"

definition mulDiv :: "int \<Rightarrow> int \<Rightarrow> int \<Rightarrow> int sq" where
  "mulDiv a b d = big_quo (a * b) d"

definition divRoundingUp :: "int \<Rightarrow> int \<Rightarrow> int sq" where
  "divRoundingUp a b = rcheck (b \<noteq> 0) SqPanic
     (Inr (if 0 < go_rem a b then go_quo a b + 1 else go_quo a b))"

definition mulDivRoundingUp :: "int \<Rightarrow> int \<Rightarrow> int \<Rightarrow> int sq" where
  "mulDivRoundingUp a b d =
     (let p = a * b in rcheck (d \<noteq> 0) SqPanic (Inr (if 0 < go_rem p d then go_quo p d + 1 else go_quo p d)))"

section \<open>The price of a tick\<close>

definition tickRatios :: "(int \<times> int) list" where
  "tickRatios =
    [(0x2, 0xfff97272373d413259a46990580e213a),
     (0x4, 0xfff2e50f5f656932ef12357cf3c7fdcc),
     (0x8, 0xffe5caca7e10e4e61c3624eaa0941cd0),
     (0x10, 0xffcb9843d60f6159c9db58835c926644),
     (0x20, 0xff973b41fa98c081472e6896dfb254c0),
     (0x40, 0xff2ea16466c96a3843ec78b326b52861),
     (0x80, 0xfe5dee046a99a2a811c461f1969c3053),
     (0x100, 0xfcbe86c7900a88aedcffc83b479aa3a4),
     (0x200, 0xf987a7253ac413176f2b074cf7815e54),
     (0x400, 0xf3392b0822b70005940c7a398e4b70f3),
     (0x800, 0xe7159475a2c29b7443b29c7fa6e889d9),
     (0x1000, 0xd097f3bdfd2022b8845ad8f792aa5825),
     (0x2000, 0xa9f746462d870fdf8a65dc1f90e061e5),
     (0x4000, 0x70d869a156d2a1b890bb3df62baf32f7),
     (0x8000, 0x31be135f97d08fd981231505542fcfa6),
     (0x10000, 0x9aa508b5b7a84e1c677de54f3e99bc9),
     (0x20000, 0x5d6af8dedb81196699c329225ee604),
     (0x40000, 0x2216e584f5fa1ea926041bedfe98),
     (0x80000, 0x48a170391f7dc42444e8fa2)]"

fun apply_ratios :: "(int \<times> int) list \<Rightarrow> int \<Rightarrow> int \<Rightarrow> int" where
  "apply_ratios [] absTick ratio = ratio"
| "apply_ratios ((b, factor) # steps) absTick ratio =
     apply_ratios steps absTick (if absTick AND b \<noteq> 0 then drop_bit 128 (ratio * factor) else ratio)"

definition sqrtRatioAtTick :: "int \<Rightarrow> int sq" where
  "sqrtRatioAtTick tick =
     rcheck (\<not> (tick < minTick \<or> maxTick < tick)) (SqErr ''tick is out of range'') (
     let absTick = (if tick < 0 then - tick else tick);
         ratio = 0x100000000000000000000000000000000;
         ratio = (if absTick AND 1 \<noteq> 0 then 0xfffcb933bd6fad37aa2d162d1a594001 else ratio);
         ratio = apply_ratios tickRatios absTick ratio
     in rbind (if 0 < tick then big_quo maxUint256 ratio else Inr ratio) (\<lambda>ratio.
        let shifted = drop_bit 32 ratio
        in Inr (if ratio AND 0xffffffff \<noteq> 0 then shifted + 1 else shifted)))"

section \<open>Amounts and prices\<close>

definition amount0Delta :: "int \<Rightarrow> int \<Rightarrow> int \<Rightarrow> bool \<Rightarrow> int sq" where
  "amount0Delta a b liquidity roundUp =
     (let (a, b) = (if b < a then (b, a) else (a, b));
          numerator1 = push_bit 96 liquidity;
          numerator2 = b - a
      in if roundUp then rbind (mulDivRoundingUp numerator1 numerator2 b) (\<lambda>x. divRoundingUp x a)
         else rbind (mulDiv numerator1 numerator2 b) (\<lambda>x. big_quo x a))"

definition amount1Delta :: "int \<Rightarrow> int \<Rightarrow> int \<Rightarrow> bool \<Rightarrow> int sq" where
  "amount1Delta a b liquidity roundUp =
     (let (a, b) = (if b < a then (b, a) else (a, b)); diff = b - a
      in if roundUp then mulDivRoundingUp liquidity diff q96 else mulDiv liquidity diff q96)"

definition nextSqrtPriceFromAmount0RoundingUp :: "int \<Rightarrow> int \<Rightarrow> int \<Rightarrow> int sq" where
  "nextSqrtPriceFromAmount0RoundingUp sqrtPrice liquidity amount =
     (if amount = 0 then Inr sqrtPrice
      else
        let numerator1 = push_bit 96 liquidity; product = amount * sqrtPrice;
            denominator = numerator1 + product
        in if product \<le> maxUint256 \<and> denominator \<le> maxUint256
           then mulDivRoundingUp numerator1 sqrtPrice denominator
           else rbind (big_quo numerator1 sqrtPrice) (\<lambda>q. divRoundingUp numerator1 (q + amount)))"

definition nextSqrtPriceFromAmount1RoundingDown :: "int \<Rightarrow> int \<Rightarrow> int \<Rightarrow> int sq" where
  "nextSqrtPriceFromAmount1RoundingDown sqrtPrice liquidity amount =
     rbind (if amount \<le> maxUint160 then big_quo (push_bit 96 amount) liquidity else mulDiv amount q96 liquidity)
       (\<lambda>quotient. Inr (quotient + sqrtPrice))"

definition nextSqrtPriceFromInput :: "int \<Rightarrow> int \<Rightarrow> int \<Rightarrow> bool \<Rightarrow> int sq" where
  "nextSqrtPriceFromInput sqrtPrice liquidity amountIn zeroForOne =
     (if zeroForOne then nextSqrtPriceFromAmount0RoundingUp sqrtPrice liquidity amountIn
      else nextSqrtPriceFromAmount1RoundingDown sqrtPrice liquidity amountIn)"

section \<open>One step of a swap\<close>

record swapStep =
  st_sqrtNext :: int
  st_amountIn :: int
  st_amountOut :: int
  st_fee :: int

definition computeSwapStep :: "int \<Rightarrow> int \<Rightarrow> int \<Rightarrow> int \<Rightarrow> int \<Rightarrow> swapStep sq" where
  "computeSwapStep current target liquidity remaining feePips =
     (let zeroForOne = target \<le> current; keep = feeDenominator - feePips in
      rbind (mulDiv remaining keep feeDenominator) (\<lambda>remainingLessFee.
      rbind (if zeroForOne then amount0Delta target current liquidity True
             else amount1Delta current target liquidity True) (\<lambda>amountIn.
      rbind (if amountIn \<le> remainingLessFee then Inr target
             else nextSqrtPriceFromInput current liquidity remainingLessFee zeroForOne) (\<lambda>next'.
      let reached = (next' = target) in
      rbind (if reached then Inr amountIn
             else if zeroForOne then amount0Delta next' current liquidity True
             else amount1Delta current next' liquidity True) (\<lambda>amountIn.
      rbind (if zeroForOne then amount1Delta next' current liquidity False
             else amount0Delta current next' liquidity False) (\<lambda>amountOut.
      rbind (if \<not> reached then Inr (remaining - amountIn) else mulDivRoundingUp amountIn feePips keep) (\<lambda>feeAmount.
      Inr \<lparr>st_sqrtNext = next', st_amountIn = amountIn, st_amountOut = amountOut, st_fee = feeAmount\<rparr>)))))))"

section \<open>Divisions of non-negative numbers\<close>

lemma rounding_divs:
  "0 \<le> a \<Longrightarrow> 0 < b \<Longrightarrow> big_quo a b = Inr (a div b)"
  "0 \<le> a \<Longrightarrow> 0 < b \<Longrightarrow> divRoundingUp a b = Inr (ceil_quo a b)"
  "0 \<le> a \<Longrightarrow> 0 \<le> c \<Longrightarrow> 0 < b \<Longrightarrow> mulDiv a c b = Inr (a * c div b)"
  "0 \<le> a \<Longrightarrow> 0 \<le> c \<Longrightarrow> 0 < b \<Longrightarrow> mulDivRoundingUp a c b = Inr (ceil_quo (a * c) b)"
proof -
  have *: "0 < a mod b \<longleftrightarrow> a mod b \<noteq> 0" if "0 < b" for a b :: int
    using that pos_mod_sign [of b a] by linarith
  show "0 \<le> a \<Longrightarrow> 0 < b \<Longrightarrow> big_quo a b = Inr (a div b)" by (simp add: big_quo_def go_quo_nonneg)
  show "0 \<le> a \<Longrightarrow> 0 < b \<Longrightarrow> divRoundingUp a b = Inr (ceil_quo a b)"
    by (simp add: divRoundingUp_def go_quo_nonneg go_rem_nonneg ceil_quo_def *)
  show "0 \<le> a \<Longrightarrow> 0 \<le> c \<Longrightarrow> 0 < b \<Longrightarrow> mulDiv a c b = Inr (a * c div b)"
    by (simp add: mulDiv_def big_quo_def go_quo_nonneg)
  show "0 \<le> a \<Longrightarrow> 0 \<le> c \<Longrightarrow> 0 < b \<Longrightarrow> mulDivRoundingUp a c b = Inr (ceil_quo (a * c) b)"
    by (simp add: mulDivRoundingUp_def go_quo_nonneg go_rem_nonneg ceil_quo_def * Let_def)
qed

lemma ceil_quo_ceil_quo: "0 < a \<Longrightarrow> 0 < b \<Longrightarrow> ceil_quo (ceil_quo x b) a = ceil_quo x (b * a)"
proof (rule order.antisym)
  assume a: "0 < a" and b: "0 < b"
  then have ba: "0 < b * a" by simp
  have "ceil_quo x b \<le> ceil_quo x (b * a) * a"
    using ceil_quo_mult_ge [OF ba, of x] b by (simp add: ceil_quo_le_iff ac_simps)
  then show "ceil_quo (ceil_quo x b) a \<le> ceil_quo x (b * a)" using a by (simp add: ceil_quo_le_iff)
  have "ceil_quo x b \<le> ceil_quo (ceil_quo x b) a * a" by (rule ceil_quo_mult_ge [OF a])
  then have "x \<le> ceil_quo (ceil_quo x b) a * a * b" using b by (simp add: ceil_quo_le_iff)
  then show "ceil_quo x (b * a) \<le> ceil_quo (ceil_quo x b) a" using ba by (simp add: ceil_quo_le_iff ac_simps)
qed

lemma div_mult_le: "0 < b \<Longrightarrow> (a::int) div b * b \<le> a"
  by (simp add: minus_mod_eq_div_mult [symmetric])

lemma less_div_mult: "0 < b \<Longrightarrow> (a::int) < (a div b + 1) * b"
proof -
  assume "0 < b"
  then have "a mod b < b" by simp
  moreover have "a = a div b * b + a mod b" by simp
  ultimately show ?thesis unfolding distrib_right by linarith
qed

section \<open>What a price move takes and pays\<close>

lemma amount0Delta_eq:
  assumes "0 < a" "a \<le> b" "0 \<le> L"
  shows "amount0Delta a b L True = Inr (ceil_quo (2 ^ 96 * L * (b - a)) (b * a))"
    "amount0Delta a b L False = Inr (2 ^ 96 * L * (b - a) div (b * a))"
proof -
  have "0 < b" "0 \<le> b - a" "push_bit 96 L = 2 ^ 96 * L" "0 \<le> 2 ^ 96 * L" "0 \<le> 2 ^ 96 * L * (b - a)"
    using assms by (simp_all add: push_bit_eq_mult)
  then show "amount0Delta a b L True = Inr (ceil_quo (2 ^ 96 * L * (b - a)) (b * a))"
    "amount0Delta a b L False = Inr (2 ^ 96 * L * (b - a) div (b * a))"
    using assms unfolding amount0Delta_def
    by (simp_all add: rounding_divs ceil_quo_ceil_quo ceil_quo_nonneg zdiv_zmult2_eq
        pos_imp_zdiv_nonneg_iff del: power_numeral mult_minus_right right_diff_distrib_numeral)
qed

lemma amount1Delta_eq:
  assumes "a \<le> b" "0 \<le> L"
  shows "amount1Delta a b L True = Inr (ceil_quo (L * (b - a)) (2 ^ 96))"
    "amount1Delta a b L False = Inr (L * (b - a) div 2 ^ 96)"
  using assms by (simp_all add: amount1Delta_def rounding_divs q96_def push_bit_eq_mult)

text \<open>Spending an input moves the price by no more than the input pays for, and not past a target that
  the input cannot pay for.\<close>

lemma next_price_down:
  assumes "0 < T" "T \<le> P" "0 < L" "0 \<le> a" "a < ceil_quo (2 ^ 96 * L * (P - T)) (P * T)"
  shows "\<exists>N. nextSqrtPriceFromAmount0RoundingUp P L a = Inr N \<and> T \<le> N \<and> N \<le> P \<and>
    ceil_quo (2 ^ 96 * L * (P - N)) (P * N) \<le> a"
proof (cases "a = 0")
  case True
  then show ?thesis using assms by (auto simp: nextSqrtPriceFromAmount0RoundingUp_def)
next
  case False
  define n where "n = 2 ^ 96 * L"
  have n: "0 < n" "push_bit 96 L = n" and P: "0 < P" and a: "0 < a"
    using assms False by (simp_all add: n_def push_bit_eq_mult)
  have less: "T * (n + a * P) < n * P"
  proof -
    have "a * (P * T) < n * (P - T)"
      using assms P by (subst less_ceil_quo_iff [symmetric]) (simp_all add: n_def)
    then show ?thesis by (simp add: algebra_simps)
  qed
  have pays: "ceil_quo (n * (P - N)) (P * N) \<le> a" if "n * P \<le> N * (n + a * P)" "0 < N" for N
  proof -
    have "n * (P - N) \<le> a * (P * N)" using that by (simp add: algebra_simps)
    then show ?thesis using that P by (simp add: ceil_quo_le_iff)
  qed
  have pos: "0 < n + a * P" using n a P by (simp add: add_pos_pos)
  show ?thesis
  proof (cases "a * P \<le> maxUint256 \<and> n + a * P \<le> maxUint256")
    case True
    let ?N = "ceil_quo (n * P) (n + a * P)"
    have run: "nextSqrtPriceFromAmount0RoundingUp P L a = Inr ?N"
      using True False n P a pos
      by (simp add: nextSqrtPriceFromAmount0RoundingUp_def Let_def rounding_divs)
    have "T < ?N" using less pos by (simp add: less_ceil_quo_iff)
    moreover have "?N \<le> P" using pos n a P by (simp add: ceil_quo_le_iff algebra_simps)
    moreover have "n * P \<le> ?N * (n + a * P)" by (rule ceil_quo_mult_ge [OF pos])
    ultimately show ?thesis using run pays [of ?N] assms(1) by (auto simp: n_def)
  next
    case big: False
    let ?d = "n div P + a" let ?N = "ceil_quo n ?d"
    have q: "0 \<le> n div P" "n div P * P \<le> n" "n < (n div P + 1) * P"
      using n P less_div_mult [of P n] by (simp_all add: pos_imp_zdiv_nonneg_iff div_mult_le)
    then have d: "0 < ?d" using a by simp
    have run: "nextSqrtPriceFromAmount0RoundingUp P L a = Inr ?N"
      using big False n P d
      by (auto simp: nextSqrtPriceFromAmount0RoundingUp_def Let_def rounding_divs)
    have dP: "?d * P \<le> n + a * P" using q(2) by (simp add: algebra_simps)
    have "(T * ?d) * P < n * P"
    proof -
      have "T * (?d * P) \<le> T * (n + a * P)" using dP assms(1) by simp
      then show ?thesis using less by (simp add: ac_simps)
    qed
    then have "T * ?d < n" using P by simp
    then have TN: "T < ?N" using d by (simp add: less_ceil_quo_iff)
    moreover have "?N \<le> P"
    proof -
      have "(n div P + 1) * P \<le> ?d * P" using a P by simp
      then show ?thesis using q(3) d by (simp add: ceil_quo_le_iff ac_simps)
    qed
    moreover have "n * P \<le> ?N * (n + a * P)"
    proof -
      have "n * P \<le> ?N * ?d * P" using ceil_quo_mult_ge [OF d, of n] P by simp
      also have "\<dots> \<le> ?N * (n + a * P)"
        using mult_left_mono [OF dP, of ?N] TN assms(1) by (simp add: ac_simps)
      finally show ?thesis .
    qed
    ultimately show ?thesis using run pays [of ?N] assms(1) by (auto simp: n_def)
  qed
qed

lemma next_price_up:
  assumes "P \<le> T" "0 < L" "0 \<le> a" "a < ceil_quo (L * (T - P)) (2 ^ 96)"
  shows "\<exists>N. nextSqrtPriceFromAmount1RoundingDown P L a = Inr N \<and> P \<le> N \<and> N \<le> T \<and>
    ceil_quo (L * (N - P)) (2 ^ 96) \<le> a"
proof -
  let ?q = "a * 2 ^ 96 div L"
  have run: "nextSqrtPriceFromAmount1RoundingDown P L a = Inr (?q + P)"
    using assms by (simp add: nextSqrtPriceFromAmount1RoundingDown_def rounding_divs push_bit_eq_mult q96_def)
  have "0 \<le> ?q" using assms by (simp add: pos_imp_zdiv_nonneg_iff)
  moreover have "?q < T - P"
  proof -
    have "a * 2 ^ 96 < L * (T - P)" using assms(4) by (subst less_ceil_quo_iff [symmetric]) simp_all
    then have "?q * L < (T - P) * L" using div_mult_le [OF assms(2), of "a * 2 ^ 96"] by (simp add: ac_simps)
    then show ?thesis using assms(2) by simp
  qed
  moreover have "L * ?q \<le> a * 2 ^ 96" using div_mult_le [OF assms(2), of "a * 2 ^ 96"] by (simp add: ac_simps)
  then have "ceil_quo (L * ?q) (2 ^ 96) \<le> a" by (simp add: ceil_quo_le_iff)
  ultimately show ?thesis using run by (intro exI [of _ "?q + P"]) simp
qed

section \<open>A step is paid for\<close>

text \<open>
  \<open>step_ok\<close> is the contract of a step from price \<open>P\<close> to the target \<open>T\<close> with \<open>R\<close> left to spend. The
  price stays between the two; what is taken, fee included, is at most what is left, and all of it
  where the target is not reached; the fee is at least its share of what is taken; and \<open>worth\<close> bounds
  what is paid by the price the step starts from.
\<close>

definition worth :: "bool \<Rightarrow> int \<Rightarrow> int \<Rightarrow> int \<Rightarrow> bool" where
  "worth zeroForOne P amountIn amountOut \<longleftrightarrow>
     (if zeroForOne then amountOut * 2 ^ 192 \<le> amountIn * (P * P) else amountOut * (P * P) \<le> amountIn * 2 ^ 192)"

definition step_ok :: "int \<Rightarrow> int \<Rightarrow> int \<Rightarrow> int \<Rightarrow> swapStep \<Rightarrow> bool" where
  "step_ok P T R f s \<longleftrightarrow>
     (if T \<le> P then T \<le> st_sqrtNext s \<and> st_sqrtNext s \<le> P else P \<le> st_sqrtNext s \<and> st_sqrtNext s \<le> T) \<and>
     0 \<le> st_amountIn s \<and> 0 \<le> st_fee s \<and> 0 \<le> st_amountOut s \<and> st_amountIn s + st_fee s \<le> R \<and>
     (st_sqrtNext s \<noteq> T \<longrightarrow> st_amountIn s + st_fee s = R) \<and>
     st_amountIn s * feeDenominator \<le> (st_amountIn s + st_fee s) * (feeDenominator - f) \<and>
     (T \<le> P \<longrightarrow> worth True P (st_amountIn s) (st_amountOut s)) \<and>
     (P \<le> T \<longrightarrow> worth False P (st_amountIn s) (st_amountOut s))"

lemma worth_down:
  assumes "0 < N" "N \<le> P" "0 \<le> L"
  shows "worth True P (ceil_quo (2 ^ 96 * L * (P - N)) (P * N)) (L * (P - N) div 2 ^ 96)"
proof -
  let ?in = "ceil_quo (2 ^ 96 * L * (P - N)) (P * N)"
  have PN: "0 < P * N" using assms by simp
  have "L * (P - N) div 2 ^ 96 * 2 ^ 192 = (L * (P - N) div 2 ^ 96 * 2 ^ 96) * 2 ^ 96" by simp
  also have "\<dots> \<le> L * (P - N) * 2 ^ 96" by (intro mult_right_mono div_mult_le) simp_all
  also have "\<dots> = 2 ^ 96 * L * (P - N)" by simp
  also have "\<dots> \<le> ?in * (P * N)" by (rule ceil_quo_mult_ge [OF PN])
  also have "\<dots> \<le> ?in * (P * P)"
    using assms PN by (intro mult_left_mono ceil_quo_nonneg) simp_all
  finally show ?thesis by (simp add: worth_def)
qed

lemma worth_up:
  assumes "0 < P" "P \<le> N" "0 \<le> L"
  shows "worth False P (ceil_quo (L * (N - P)) (2 ^ 96)) (2 ^ 96 * L * (N - P) div (N * P))"
proof -
  let ?out = "2 ^ 96 * L * (N - P) div (N * P)" and ?in = "ceil_quo (L * (N - P)) (2 ^ 96)"
  have NP: "0 < N * P" using assms by simp
  have out: "0 \<le> ?out" using NP assms by (simp add: pos_imp_zdiv_nonneg_iff)
  have "?out * (P * P) \<le> ?out * (N * P)" using out assms by (intro mult_left_mono) simp_all
  also have "\<dots> \<le> 2 ^ 96 * L * (N - P)" by (rule div_mult_le [OF NP])
  also have "\<dots> = L * (N - P) * 2 ^ 96" by simp
  also have "\<dots> \<le> ?in * 2 ^ 96 * 2 ^ 96" by (intro mult_right_mono ceil_quo_mult_ge) simp_all
  finally show ?thesis by (simp add: worth_def)
qed

lemma fee_fits:
  assumes "0 \<le> a" "0 \<le> R" "0 \<le> f" "f < feeDenominator" "a \<le> R * (feeDenominator - f) div feeDenominator"
  shows "a + ceil_quo (a * f) (feeDenominator - f) \<le> R" "0 \<le> ceil_quo (a * f) (feeDenominator - f)"
    "a * feeDenominator \<le> (a + ceil_quo (a * f) (feeDenominator - f)) * (feeDenominator - f)"
proof -
  let ?k = "feeDenominator - f"
  have k: "0 < ?k" using assms by simp
  have "a * feeDenominator \<le> R * ?k"
    using assms by (simp add: le_div_iff feeDenominator_def)
  then have "a * f \<le> (R - a) * ?k" by (simp add: algebra_simps)
  then have "ceil_quo (a * f) ?k \<le> R - a" using k by (simp add: ceil_quo_le_iff)
  then show "a + ceil_quo (a * f) ?k \<le> R" by simp
  show "0 \<le> ceil_quo (a * f) ?k" using assms k by (simp add: ceil_quo_nonneg)
  show "a * feeDenominator \<le> (a + ceil_quo (a * f) ?k) * ?k"
    using ceil_quo_mult_ge [OF k, of "a * f"] by (simp add: algebra_simps)
qed

lemma share_fits: "a \<le> R * (feeDenominator - f) div feeDenominator \<Longrightarrow> a * feeDenominator \<le> R * (feeDenominator - f)"
  by (simp add: le_div_iff feeDenominator_def)

lemma less_fee_le:
  assumes "0 \<le> R" "0 \<le> f" "f < feeDenominator"
  shows "0 \<le> R * (feeDenominator - f) div feeDenominator" "R * (feeDenominator - f) div feeDenominator \<le> R"
proof -
  have d: "0 < feeDenominator" by (simp add: feeDenominator_def)
  show "0 \<le> R * (feeDenominator - f) div feeDenominator" using assms d by (simp add: pos_imp_zdiv_nonneg_iff)
  have "R * (feeDenominator - f) \<le> R * feeDenominator" using assms by (intro mult_left_mono) simp_all
  then have "R * (feeDenominator - f) div feeDenominator \<le> R * feeDenominator div feeDenominator"
    using d by (rule zdiv_mono1)
  then show "R * (feeDenominator - f) div feeDenominator \<le> R" using d by simp
qed

lemma computeSwapStep_down:
  assumes "0 < T" "T \<le> P" "0 \<le> L" "0 \<le> R" "0 \<le> f" "f < feeDenominator"
  shows "\<exists>s. computeSwapStep P T L R f = Inr s \<and> step_ok P T R f s"
proof -
  let ?R = "R * (feeDenominator - f) div feeDenominator"
  let ?in = "\<lambda>N. ceil_quo (2 ^ 96 * L * (P - N)) (P * N)" and ?out = "\<lambda>N. L * (P - N) div 2 ^ 96"
  have less: "mulDiv R (feeDenominator - f) feeDenominator = Inr ?R"
    using assms by (simp add: rounding_divs feeDenominator_def)
  have amounts: "amount0Delta N P L True = Inr (?in N)" "amount1Delta N P L False = Inr (?out N)" "0 \<le> ?in N" "0 \<le> ?out N"
    if "0 < N" "N \<le> P" for N
    using that assms by (simp_all add: amount0Delta_eq amount1Delta_eq ceil_quo_nonneg pos_imp_zdiv_nonneg_iff)
  show ?thesis
  proof (cases "?in T \<le> ?R")
    case True
    have "computeSwapStep P T L R f = Inr \<lparr>st_sqrtNext = T, st_amountIn = ?in T, st_amountOut = ?out T,
        st_fee = ceil_quo (?in T * f) (feeDenominator - f)\<rparr>"
      using True assms less amounts [of T]
      by (simp add: computeSwapStep_def Let_def rounding_divs)
    then show ?thesis
      using assms amounts [of T] fee_fits [OF _ assms(4-6) True] worth_down [of T P L]
      by (auto simp: step_ok_def worth_def)
  next
    case False
    have "0 < L" using False less_fee_le(1) [OF assms(4-6)] assms(3) by (cases "L = 0") simp_all
    from next_price_down [OF assms(1,2) this less_fee_le(1) [OF assms(4-6)]] False
    obtain N where N: "nextSqrtPriceFromAmount0RoundingUp P L ?R = Inr N" "T \<le> N" "N \<le> P" "?in N \<le> ?R" by auto
    then have "N \<noteq> T" "0 < N" using False assms by auto
    have "computeSwapStep P T L R f = Inr \<lparr>st_sqrtNext = N, st_amountIn = ?in N, st_amountOut = ?out N, st_fee = R - ?in N\<rparr>"
      using False assms less amounts [of T] amounts [OF \<open>0 < N\<close> N(3)] N \<open>N \<noteq> T\<close>
      by (simp add: computeSwapStep_def Let_def nextSqrtPriceFromInput_def)
    then show ?thesis
      using N amounts [OF \<open>0 < N\<close> N(3)] less_fee_le(2) [OF assms(4-6)] worth_down [OF \<open>0 < N\<close> N(3) assms(3)] assms
        share_fits [OF N(4)] \<open>N \<noteq> T\<close>
      by (auto simp: step_ok_def)
  qed
qed

lemma computeSwapStep_up:
  assumes "0 < P" "P < T" "0 \<le> L" "0 \<le> R" "0 \<le> f" "f < feeDenominator"
  shows "\<exists>s. computeSwapStep P T L R f = Inr s \<and> step_ok P T R f s"
proof -
  let ?R = "R * (feeDenominator - f) div feeDenominator"
  let ?in = "\<lambda>N. ceil_quo (L * (N - P)) (2 ^ 96)" and ?out = "\<lambda>N. 2 ^ 96 * L * (N - P) div (N * P)"
  have less: "mulDiv R (feeDenominator - f) feeDenominator = Inr ?R"
    using assms by (simp add: rounding_divs feeDenominator_def)
  have amounts: "amount1Delta P N L True = Inr (?in N)" "amount0Delta P N L False = Inr (?out N)" "0 \<le> ?in N" "0 \<le> ?out N"
    if "P \<le> N" for N
    using that assms by (simp_all add: amount0Delta_eq amount1Delta_eq ceil_quo_nonneg pos_imp_zdiv_nonneg_iff)
  show ?thesis
  proof (cases "?in T \<le> ?R")
    case True
    have "computeSwapStep P T L R f = Inr \<lparr>st_sqrtNext = T, st_amountIn = ?in T, st_amountOut = ?out T,
        st_fee = ceil_quo (?in T * f) (feeDenominator - f)\<rparr>"
      using True assms less amounts [of T]
      by (simp add: computeSwapStep_def Let_def rounding_divs)
    then show ?thesis
      using assms amounts [of T] fee_fits [OF _ assms(4-6) True] worth_up [of P T L]
      by (simp add: step_ok_def)
  next
    case False
    have "0 < L" using False less_fee_le(1) [OF assms(4-6)] assms(3) by (cases "L = 0") simp_all
    from next_price_up [OF _ this less_fee_le(1) [OF assms(4-6)], of P T] False assms(2)
    obtain N where N: "nextSqrtPriceFromAmount1RoundingDown P L ?R = Inr N" "P \<le> N" "N \<le> T" "?in N \<le> ?R" by auto
    then have "N \<noteq> T" using False by auto
    have "computeSwapStep P T L R f = Inr \<lparr>st_sqrtNext = N, st_amountIn = ?in N, st_amountOut = ?out N, st_fee = R - ?in N\<rparr>"
      using False assms less amounts [of T] amounts [OF N(2)] N \<open>N \<noteq> T\<close>
      by (simp add: computeSwapStep_def Let_def nextSqrtPriceFromInput_def)
    then show ?thesis
      using N amounts [OF N(2)] less_fee_le(2) [OF assms(4-6)] worth_up [OF assms(1) N(2) assms(3)] assms
        share_fits [OF N(4)]
      by (simp add: step_ok_def)
  qed
qed

lemma computeSwapStep_ok:
  "0 < P \<Longrightarrow> 0 < T \<Longrightarrow> 0 \<le> L \<Longrightarrow> 0 \<le> R \<Longrightarrow> 0 \<le> f \<Longrightarrow> f < feeDenominator \<Longrightarrow>
     \<exists>s. computeSwapStep P T L R f = Inr s \<and> step_ok P T R f s"
  using computeSwapStep_down [of T P L R f] computeSwapStep_up [of P T L R f] by (cases "T \<le> P") auto

section \<open>The price of a tick is monotone\<close>

text \<open>
  The table multiplies in the factor of every set bit of the distance to tick zero, lowest bit first.
  Going one tick further turns a run of low ones into zeros and the zero above them into a one; the
  bits above stay, and multiplying by their factors is monotone. So it is enough that every factor is
  at most the product of all the factors below it, which \<open>decreasing\<close> checks on the table.
\<close>

fun by_bits :: "int list \<Rightarrow> int \<Rightarrow> int \<Rightarrow> int" where
  "by_bits [] h r = r"
| "by_bits (f # fs) h r = by_bits fs (h div 2) (if odd h then drop_bit 128 (r * f) else r)"

fun decreasing :: "int list \<Rightarrow> int \<Rightarrow> bool" where
  "decreasing [] r \<longleftrightarrow> True"
| "decreasing (f # fs) r \<longleftrightarrow> 0 \<le> f \<and> f \<le> r \<and> decreasing fs (drop_bit 128 (r * f))"

fun at_bits :: "nat \<Rightarrow> int list \<Rightarrow> (int \<times> int) list" where
  "at_bits k [] = []"
| "at_bits k (f # fs) = (2 ^ k, f) # at_bits (Suc k) fs"

lemma and_exp_odd: "(t::int) AND 2 ^ k \<noteq> 0 \<longleftrightarrow> odd (t div 2 ^ k)"
  by (simp add: and_exp_eq_0_iff_not_bit bit_iff_odd)

lemma apply_by_bits: "apply_ratios (at_bits k fs) t r = by_bits fs (t div 2 ^ k) r"
proof (induction fs arbitrary: k r)
  case (Cons f fs)
  have "t div 2 ^ Suc k = t div 2 ^ k div 2" by (simp add: zdiv_zmult2_eq mult.commute [of 2])
  then show ?case
    using Cons [of "Suc k"] and_exp_odd [of t k] by simp
qed simp

lemma by_bits_mono: "\<forall>f\<in>set fs. 0 \<le> f \<Longrightarrow> r \<le> r' \<Longrightarrow> by_bits fs h r \<le> by_bits fs h r'"
proof (induction fs arbitrary: h r r')
  case (Cons f fs)
  then have "drop_bit 128 (r * f) \<le> drop_bit 128 (r' * f)"
    by (simp add: drop_bit_eq_div zdiv_mono1 mult_right_mono)
  with Cons show ?case by simp
qed simp

lemma decreasing_nonneg: "decreasing fs r \<Longrightarrow> \<forall>f\<in>set fs. 0 \<le> f"
  by (induction fs arbitrary: r) auto

lemma by_bits_next:
  "decreasing fs r \<Longrightarrow> 0 \<le> h \<Longrightarrow> h + 1 < 2 ^ length fs \<Longrightarrow> by_bits fs (h + 1) (2 ^ 128) \<le> by_bits fs h r"
proof (induction fs arbitrary: h r)
  case (Cons f fs)
  have unit: "drop_bit 128 (2 ^ 128 * f) = f" by (simp add: drop_bit_eq_div)
  show ?case
  proof (cases "odd h")
    case True
    then have "(h + 1) div 2 = h div 2 + 1" by presburger
    moreover have "h div 2 + 1 < 2 ^ length fs" using Cons.prems(3) True by (auto elim!: oddE)
    ultimately show ?thesis
      using Cons.IH [of "drop_bit 128 (r * f)" "h div 2"] Cons.prems True by simp
  next
    case False
    then have "(h + 1) div 2 = h div 2" by presburger
    then show ?thesis
      using by_bits_mono [OF decreasing_nonneg, of fs "drop_bit 128 (r * f)" f r "h div 2"] Cons.prems False
      by (simp add: unit del: power_numeral)
  qed
qed simp

definition factors :: "int list" where
  "factors = 0xfffcb933bd6fad37aa2d162d1a594001 # map snd tickRatios"

lemma table: "decreasing factors (2 ^ 128)" "length factors = 20" "tickRatios = at_bits 1 (tl factors)"
  by (simp_all add: factors_def tickRatios_def drop_bit_eq_div)

definition absRatio :: "int \<Rightarrow> int" where
  "absRatio t = by_bits factors t (2 ^ 128)"

lemma absRatio_eq:
  "apply_ratios tickRatios t (if t AND 1 \<noteq> 0 then 0xfffcb933bd6fad37aa2d162d1a594001 else 2 ^ 128) = absRatio t"
proof -
  have "apply_ratios tickRatios t r = by_bits (tl factors) (t div 2) r" for r
    using apply_by_bits [of 1 "tl factors" t r] by (subst table(3)) simp
  then show ?thesis
    using and_exp_odd [of t 0] by (simp add: absRatio_def factors_def drop_bit_eq_div)
qed

lemma absRatio_next: "0 \<le> t \<Longrightarrow> t + 1 < 2 ^ 20 \<Longrightarrow> absRatio (t + 1) \<le> absRatio t"
  using by_bits_next [OF table(1), of t] by (simp add: absRatio_def table(2))

lemma absRatio_antimono: "0 \<le> t \<Longrightarrow> t \<le> u \<Longrightarrow> u < 2 ^ 20 \<Longrightarrow> absRatio u \<le> absRatio t"
proof (induction "nat (u - t)" arbitrary: u)
  case (Suc n)
  then have "absRatio (u - 1) \<le> absRatio t" by simp
  moreover have "absRatio u \<le> absRatio (u - 1)" using absRatio_next [of "u - 1"] Suc by simp
  ultimately show ?case by simp
qed simp

lemma absRatio_ends: "absRatio 0 = 2 ^ 128" "absRatio 887272 = 18447437462383981825"
  by (simp_all add: absRatio_def factors_def tickRatios_def drop_bit_eq_div)

text \<open>From the ratio of the distance to the price: below zero as it is, above zero its inverse, and in both
  cases 32 bits shorter, rounding up.\<close>

definition tick_price :: "int \<Rightarrow> int" where
  "tick_price t = ceil_quo (if 0 < t then maxUint256 div absRatio t else absRatio (- t)) (2 ^ 32)"

lemma ceil_shift: "(if (r::int) AND 0xffffffff \<noteq> 0 then drop_bit 32 r + 1 else drop_bit 32 r) = ceil_quo r (2 ^ 32)"
proof -
  have "r AND 0xffffffff = r mod 2 ^ 32"
    using take_bit_eq_mask [of 32 r] by (simp add: take_bit_eq_mod mask_eq_exp_minus_1)
  then show ?thesis by (simp add: ceil_quo_def drop_bit_eq_div)
qed

lemma one_q128: "(0x100000000000000000000000000000000 :: int) = 2 ^ 128"
  by simp

lemma absRatio_pos: "0 \<le> t \<Longrightarrow> t \<le> 887272 \<Longrightarrow> 0 < absRatio t"
  using absRatio_antimono [of t 887272] by (simp add: absRatio_ends)

lemma sqrtRatioAtTick_eq:
  assumes "minTick \<le> t" "t \<le> maxTick"
  shows "sqrtRatioAtTick t = Inr (tick_price t)"
proof -
  have "0 < absRatio (if t < 0 then - t else t)"
    using assms by (intro absRatio_pos) (auto simp: minTick_def maxTick_def)
  moreover have "sqrtRatioAtTick t = rbind (if 0 < t then big_quo maxUint256 (absRatio (if t < 0 then - t else t))
      else Inr (absRatio (if t < 0 then - t else t))) (\<lambda>r. Inr (ceil_quo r (2 ^ 32)))"
    using assms unfolding sqrtRatioAtTick_def Let_def ceil_shift one_q128 absRatio_eq by simp
  ultimately show ?thesis
    using assms by (cases "t < 0"; cases "t = 0") (simp_all add: tick_price_def rounding_divs maxUint256_def)
qed

lemma tick_price_mono:
  assumes "minTick \<le> t" "t \<le> u" "u \<le> maxTick"
  shows "tick_price t \<le> tick_price u"
proof -
  have range: "- 887272 \<le> t" "u \<le> 887272" using assms by (simp_all add: minTick_def maxTick_def)
  have above: "2 ^ 128 \<le> maxUint256 div absRatio v" if "0 < v" "v \<le> 887272" for v
  proof -
    have "absRatio v \<le> absRatio 1" using that by (intro absRatio_antimono) simp_all
    moreover have "absRatio 1 = 0xfffcb933bd6fad37aa2d162d1a594001"
      by (simp add: absRatio_def factors_def tickRatios_def drop_bit_eq_div)
    ultimately have "absRatio v \<le> 0xfffcb933bd6fad37aa2d162d1a594001" by simp
    then have "2 ^ 128 * absRatio v \<le> maxUint256" by (simp add: maxUint256_def)
    then show ?thesis using absRatio_pos [of v] that by (simp add: le_div_iff ac_simps)
  qed
  have below: "absRatio v \<le> 2 ^ 128" if "0 \<le> v" "v \<le> 887272" for v
    using absRatio_antimono [of 0 v] that by (simp add: absRatio_ends)
  have "(if 0 < t then maxUint256 div absRatio t else absRatio (- t)) \<le>
      (if 0 < u then maxUint256 div absRatio u else absRatio (- u))"
  proof (cases "0 < t")
    case True
    then have "absRatio u \<le> absRatio t" "0 < absRatio u"
      using assms range by (simp_all add: absRatio_antimono absRatio_pos)
    then show ?thesis using True assms by (simp add: zdiv_mono2 maxUint256_def)
  next
    case False
    then show ?thesis
      using assms range above [of u] below [of "- t"] absRatio_antimono [of "- u" "- t"] by (cases "0 < u") simp_all
  qed
  then show ?thesis unfolding tick_price_def by (intro ceil_quo_mono) simp_all
qed

lemma tick_price_ends: "tick_price minTick = minSqrtRatio" "tick_price maxTick = maxSqrtRatio"
  by (simp_all add: tick_price_def minTick_def maxTick_def absRatio_ends maxUint256_def ceil_quo_def
      minSqrtRatio_def maxSqrtRatio_def)

lemma tick_price_pos: "minTick \<le> t \<Longrightarrow> t \<le> maxTick \<Longrightarrow> 0 < tick_price t"
  using tick_price_mono [of minTick t] by (simp add: tick_price_ends minSqrtRatio_def)

end
