(* ===== verification/SunswapQuote.thy ===== *)
theory SunswapQuote
  imports SunswapMath
begin

text \<open>
  The exact-input quote of a concentrated-liquidity pool (internal/tron/sunswap/clmath.go): the walk
  over initialized ticks, and the fee of a V4 pool. The node that answers for the pool is a state
  of its own, so that it may answer differently every time it is asked.

  The lemmas: the search of a bitmap word finds the nearest initialized tick; a quote, whatever the
  node answers, is never better than the price the walk starts from and always pays the pool's fee;
  it asks the node a bounded number of questions.
\<close>

section \<open>Bits of a word\<close>

text \<open>\<open>BitLen\<close> and \<open>TrailingZeroBits\<close> of \<open>big.Int\<close>, for the non-negative numbers masked here.\<close>

function BitLen :: "int \<Rightarrow> int" where
  "BitLen n = (if n \<le> 0 then 0 else 1 + BitLen (n div 2))"
  by pat_completeness auto
termination by (relation "measure nat") auto

function TrailingZeroBits :: "int \<Rightarrow> int" where
  "TrailingZeroBits n = (if n \<le> 0 \<or> odd n then 0 else 1 + TrailingZeroBits (n div 2))"
  by pat_completeness auto
termination by (relation "measure nat") auto

declare BitLen.simps [simp del] TrailingZeroBits.simps [simp del]

lemma BitLen_spec: "0 < n \<Longrightarrow> 0 < BitLen n \<and> bit n (nat (BitLen n - 1)) \<and> (\<forall>i. BitLen n \<le> int i \<longrightarrow> \<not> bit n i)"
proof (induction n rule: BitLen.induct)
  case (1 n)
  show ?case
  proof (cases "n = 1")
    case True
    then show ?thesis by (simp add: BitLen.simps bit_1_iff)
  next
    case False
    then have half: "0 < n div 2" using 1 by simp
    with 1 have IH: "0 < BitLen (n div 2)" "bit (n div 2) (nat (BitLen (n div 2) - 1))"
      "\<And>i. BitLen (n div 2) \<le> int i \<Longrightarrow> \<not> bit (n div 2) i" by auto
    have len: "BitLen n = 1 + BitLen (n div 2)" using 1(2) by (simp add: BitLen.simps [of n])
    have "nat (BitLen n - 1) = Suc (nat (BitLen (n div 2) - 1))" using len IH(1) by simp
    then have "bit n (nat (BitLen n - 1))" using IH(2) by (simp add: bit_Suc)
    moreover have "\<not> bit n i" if "BitLen n \<le> int i" for i
    proof -
      from that len IH(1) obtain j where "i = Suc j" by (cases i) auto
      then show ?thesis using IH(3) [of j] that len by (simp add: bit_Suc)
    qed
    ultimately show ?thesis using len IH(1) by simp
  qed
qed

lemma TrailingZeroBits_spec:
  "0 < n \<Longrightarrow> 0 \<le> TrailingZeroBits n \<and> bit n (nat (TrailingZeroBits n)) \<and> (\<forall>i. int i < TrailingZeroBits n \<longrightarrow> \<not> bit n i)"
proof (induction n rule: TrailingZeroBits.induct)
  case (1 n)
  show ?case
  proof (cases "odd n")
    case True
    then show ?thesis by (simp add: TrailingZeroBits.simps bit_0)
  next
    case False
    then have half: "0 < n div 2" using 1(2) by (auto elim!: evenE)
    with 1 False have IH: "0 \<le> TrailingZeroBits (n div 2)" "bit (n div 2) (nat (TrailingZeroBits (n div 2)))"
      "\<And>i. int i < TrailingZeroBits (n div 2) \<Longrightarrow> \<not> bit (n div 2) i" by auto
    have len: "TrailingZeroBits n = 1 + TrailingZeroBits (n div 2)"
      using 1(2) False by (simp add: TrailingZeroBits.simps [of n])
    then have "nat (TrailingZeroBits n) = Suc (nat (TrailingZeroBits (n div 2)))" using IH(1) by simp
    then have "bit n (nat (TrailingZeroBits n))" using IH(2) by (simp add: bit_Suc)
    moreover have "\<not> bit n i" if "int i < TrailingZeroBits n" for i
      using that IH(3) [of "i - 1"] len False by (cases i) (auto simp: bit_Suc bit_0)
    ultimately show ?thesis using len IH(1) by simp
  qed
qed

section \<open>The state of a pool\<close>

record 's pool_state =
  ps_BitmapWord :: "int \<Rightarrow> ('s, sq_err, int) op"
  ps_LiquidityNet :: "int \<Rightarrow> ('s, sq_err, int) op"

record pool =
  po_SqrtPriceX96 :: int
  po_Tick :: int
  po_Liquidity :: int
  po_TickSpacing :: int
  po_FeePips :: int

definition s16 :: "int \<Rightarrow> int" where
  "s16 x = sint (word_of_int x :: 16 word)"

definition compressed_tick :: "int \<Rightarrow> int \<Rightarrow> int" where
  "compressed_tick tick spacing =
     (if tick < 0 \<and> go_rem tick spacing \<noteq> 0 then go_quo tick spacing - 1 else go_quo tick spacing)"

definition nextInitializedTick :: "'s pool_state \<Rightarrow> int \<Rightarrow> int \<Rightarrow> bool \<Rightarrow> ('s, sq_err, int \<times> bool) op" where
  "nextInitializedTick state tick spacing lte =
     (let compressed = compressed_tick tick spacing in
      if lte then
        let wordPos = s16 (drop_bit 8 compressed); bitPos = compressed AND 0xff in
        sbind (ps_BitmapWord state wordPos) (\<lambda>word.
        let masked = word AND (push_bit (nat (bitPos + 1)) 1 - 1) in
        if masked \<noteq> 0 then sret ((compressed - bitPos + (BitLen masked - 1)) * spacing, True)
        else sret ((compressed - bitPos) * spacing, False))
      else
        let compressed = compressed + 1;
            wordPos = s16 (drop_bit 8 compressed); bitPos = compressed AND 0xff in
        sbind (ps_BitmapWord state wordPos) (\<lambda>word.
        let masked = word AND push_bit (nat bitPos) (drop_bit (nat bitPos) maxUint256) in
        if masked \<noteq> 0 then sret ((compressed + TrailingZeroBits masked - bitPos) * spacing, True)
        else sret ((compressed + 255 - bitPos) * spacing, False)))"

definition SwapFee :: "u32 \<Rightarrow> u32 \<Rightarrow> bool \<Rightarrow> int" where
  "SwapFee protocolFee lpFee zeroForOne =
     (let pf = (if zeroForOne then uint (protocolFee AND 0xfff) else uint (drop_bit 12 protocolFee)); lp = uint lpFee
      in if pf = 0 then lp else pf + lp - go_quo (pf * lp) feeDenominator)"

section \<open>The quote\<close>

definition maxSteps :: nat where "maxSteps = 64"

record quote_state =
  qs_remaining :: int
  qs_out :: int
  qs_sqrtPrice :: int
  qs_tick :: int
  qs_liquidity :: int

text \<open>The body of the loop: the state with which the next round starts.\<close>

definition quote_round :: "'s pool_state \<Rightarrow> pool \<Rightarrow> bool \<Rightarrow> int \<Rightarrow> quote_state \<Rightarrow> ('s, sq_err, quote_state) op" where
  "quote_round state pool zeroForOne limit q =
     sbind (nextInitializedTick state (qs_tick q) (po_TickSpacing pool) zeroForOne) (\<lambda>(next', initialized).
     let next' = min (max next' minTick) maxTick in
     sbind (slift (sqrtRatioAtTick next')) (\<lambda>sqrtNext.
     let target = (if zeroForOne \<and> sqrtNext < limit \<or> \<not> zeroForOne \<and> limit < sqrtNext then limit else sqrtNext) in
     sbind (slift (computeSwapStep (qs_sqrtPrice q) target (qs_liquidity q) (qs_remaining q) (po_FeePips pool))) (\<lambda>step.
     let q = q\<lparr>qs_sqrtPrice := st_sqrtNext step,
           qs_remaining := qs_remaining q - st_amountIn step - st_fee step,
           qs_out := qs_out q + st_amountOut step\<rparr>
     in if qs_sqrtPrice q \<noteq> sqrtNext then sret q
        else
          sbind (if initialized then
                   sbind (ps_LiquidityNet state next') (\<lambda>net.
                   let liquidity = (if zeroForOne then qs_liquidity q - net else qs_liquidity q + net)
                   in sbind (scheck (\<not> liquidity < 0) (SqErr ''pool liquidity went negative'')) (\<lambda>_. sret liquidity))
                 else sret (qs_liquidity q)) (\<lambda>liquidity.
          sret (q\<lparr>qs_liquidity := liquidity, qs_tick := (if zeroForOne then next' - 1 else next')\<rparr>)))))"

function quote_loop ::
  "'s pool_state \<Rightarrow> pool \<Rightarrow> bool \<Rightarrow> int \<Rightarrow> nat \<Rightarrow> quote_state \<Rightarrow> ('s, sq_err, quote_state) op" where
  "quote_loop state pool zeroForOne limit steps q =
     (if 0 < qs_remaining q \<and> qs_sqrtPrice q \<noteq> limit then
        if maxSteps \<le> steps then sfail (SqErr ''the swap crosses too many price ranges'')
        else sbind (quote_round state pool zeroForOne limit q) (quote_loop state pool zeroForOne limit (steps + 1))
      else sret q)"
  by pat_completeness auto
termination by (relation "measure (\<lambda>(state, pool, zeroForOne, limit, steps, q). maxSteps - steps)") auto

declare quote_loop.simps [simp del]

definition price_limit :: "bool \<Rightarrow> int" where
  "price_limit zeroForOne = (if \<not> zeroForOne then maxSqrtRatio - 1 else minSqrtRatio + 1)"

definition QuoteExactInput :: "pool \<Rightarrow> 's pool_state \<Rightarrow> int option \<Rightarrow> bool \<Rightarrow> ('s, sq_err, int) op" where
  "QuoteExactInput pool state amountIn zeroForOne =
     (case amountIn of None \<Rightarrow> sfail (SqErr ''amount must be greater than zero'') | Some amountIn \<Rightarrow>
      sbind (scheck (\<not> amountIn \<le> 0) (SqErr ''amount must be greater than zero'')) (\<lambda>_.
      sbind (scheck (\<not> po_TickSpacing pool \<le> 0) (SqErr ''pool tick spacing must be positive'')) (\<lambda>_.
      sbind (scheck (\<not> (po_FeePips pool < 0 \<or> feeDenominator \<le> po_FeePips pool)) (SqErr ''pool fee is out of range'')) (\<lambda>_.
      sbind (quote_loop state pool zeroForOne (price_limit zeroForOne) 0
        \<lparr>qs_remaining = amountIn, qs_out = 0, qs_sqrtPrice = po_SqrtPriceX96 pool, qs_tick = po_Tick pool,
         qs_liquidity = po_Liquidity pool\<rparr>) (\<lambda>q.
      if 0 < qs_remaining q then sfail PoolDrains else sret (qs_out q))))))"

section \<open>The search of a word\<close>

lemma compressed_tick_div: "0 < spacing \<Longrightarrow> compressed_tick tick spacing = tick div spacing"
  unfolding compressed_tick_def by (rule go_quo_floor)

lemma low_byte: "(c::int) AND 0xff = c mod 256" "0 \<le> c AND 0xff" "c AND 0xff < 256"
  using take_bit_eq_mask [of 8 c] by (simp_all add: take_bit_eq_mod mask_eq_exp_minus_1)

lemma bit_low_mask: "bit (push_bit k 1 - 1 :: int) i \<longleftrightarrow> i < k"
  by (simp add: push_bit_eq_mult bit_mask_iff flip: mask_eq_exp_minus_1)

lemma masked_low:
  assumes "word AND (push_bit k 1 - 1) \<noteq> (0::int)" "b = BitLen (word AND (push_bit k 1 - 1)) - 1"
  shows "0 \<le> b \<and> b < int k \<and> bit word (nat b) \<and> (\<forall>i. b < int i \<longrightarrow> i < k \<longrightarrow> \<not> bit word i)"
proof -
  let ?m = "word AND (push_bit k 1 - 1)"
  have "0 \<le> ?m" by (simp add: push_bit_eq_mult)
  then have "0 < ?m" using assms(1) by linarith
  from BitLen_spec [OF this] have "0 \<le> b" "bit ?m (nat b)" "\<And>i. b < int i \<Longrightarrow> \<not> bit ?m i"
    unfolding assms(2) by auto
  then show ?thesis unfolding bit_and_iff bit_low_mask by auto
qed

lemma unmasked_low: "word AND (push_bit k 1 - 1) = (0::int) \<Longrightarrow> i < k \<Longrightarrow> \<not> bit word i"
  by (metis bit_0_eq bit_and_iff bit_low_mask bot_apply bot_bool_def)

lemma bit_high_mask: "k < 256 \<Longrightarrow> bit (push_bit k (drop_bit k maxUint256)) i \<longleftrightarrow> k \<le> i \<and> i < 256"
  unfolding maxUint256_def bit_push_bit_iff bit_drop_bit_eq bit_low_mask o_def by auto

lemma high_mask_nonneg: "0 \<le> push_bit k (drop_bit k maxUint256)"
  by (simp add: maxUint256_def)

lemma masked_high:
  assumes "word AND push_bit k (drop_bit k maxUint256) \<noteq> 0" "k < 256"
    "b = TrailingZeroBits (word AND push_bit k (drop_bit k maxUint256))"
  shows "int k \<le> b \<and> b < 256 \<and> bit word (nat b) \<and> (\<forall>i. k \<le> i \<longrightarrow> int i < b \<longrightarrow> \<not> bit word i)"
proof -
  let ?m = "word AND push_bit k (drop_bit k maxUint256)"
  have "0 \<le> ?m" using high_mask_nonneg by simp
  then have "0 < ?m" using assms(1) by linarith
  from TrailingZeroBits_spec [OF this] have b: "0 \<le> b" "bit ?m (nat b)" "\<And>i. int i < b \<Longrightarrow> \<not> bit ?m i"
    unfolding assms(3) by auto
  then have "k \<le> nat b" "nat b < 256" "bit word (nat b)"
    unfolding bit_and_iff bit_high_mask [OF assms(2)] by auto
  moreover have "\<not> bit word i" if "k \<le> i" "int i < b" for i
    using b(3) [OF that(2)] that(1) \<open>nat b < 256\<close> that(2) unfolding bit_and_iff bit_high_mask [OF assms(2)] by auto
  ultimately show ?thesis using b(1) by auto
qed

lemma unmasked_high: "word AND push_bit k (drop_bit k maxUint256) = 0 \<Longrightarrow> k \<le> i \<Longrightarrow> i < 256 \<Longrightarrow> \<not> bit word i"
  by (metis bit_0_eq bit_and_iff bit_high_mask bot_apply bot_bool_def order_le_less_trans)

text \<open>What the search of a word finds: going down, the highest set bit at or below the start, or the first
  position of the word; going up, the lowest set bit at or above it, or the last position.\<close>

definition found_low :: "int \<Rightarrow> int \<Rightarrow> int \<Rightarrow> bool \<Rightarrow> bool" where
  "found_low word c d i \<longleftrightarrow> c - c mod 256 \<le> d \<and> d \<le> c \<and> i = bit word (nat (d mod 256)) \<and>
     (\<not> i \<longrightarrow> d = c - c mod 256) \<and> (\<forall>e. d < e \<longrightarrow> e \<le> c \<longrightarrow> \<not> bit word (nat (e mod 256)))"

definition found_high :: "int \<Rightarrow> int \<Rightarrow> int \<Rightarrow> bool \<Rightarrow> bool" where
  "found_high word c d i \<longleftrightarrow> c \<le> d \<and> d \<le> c - c mod 256 + 255 \<and> i = bit word (nat (d mod 256)) \<and>
     (\<not> i \<longrightarrow> d = c - c mod 256 + 255) \<and> (\<forall>e. c \<le> e \<longrightarrow> e < d \<longrightarrow> \<not> bit word (nat (e mod 256)))"

lemma same_word: "c - c mod 256 \<le> e \<Longrightarrow> e < c - c mod 256 + 256 \<Longrightarrow> e mod 256 = e - (c - c mod 256)" for c e :: int
proof -
  assume "c - c mod 256 \<le> e" "e < c - c mod 256 + 256"
  then have "(e - (c - c mod 256)) mod 256 = e - (c - c mod 256)" by (intro mod_pos_pos_trivial) simp_all
  moreover have "e mod 256 = (e - (c - c mod 256)) mod 256"
    using mod_mult_self1 [of "e - (c - c mod 256)" "c div 256" 256] by (simp add: minus_mod_eq_div_mult [symmetric] algebra_simps)
  ultimately show ?thesis by simp
qed

definition low_find :: "int \<Rightarrow> int \<Rightarrow> int \<times> bool" where
  "low_find word c =
     (let m = word AND (push_bit (nat (c mod 256 + 1)) 1 - 1)
      in (if m \<noteq> 0 then c - c mod 256 + (BitLen m - 1) else c - c mod 256, m \<noteq> 0))"

definition high_find :: "int \<Rightarrow> int \<Rightarrow> int \<times> bool" where
  "high_find word c =
     (let m = word AND push_bit (nat (c mod 256)) (drop_bit (nat (c mod 256)) maxUint256)
      in (if m \<noteq> 0 then c + TrailingZeroBits m - c mod 256 else c + 255 - c mod 256, m \<noteq> 0))"

lemma search_low: "found_low word c (fst (low_find word c)) (snd (low_find word c))"
proof -
  define m where "m = word AND (push_bit (nat (c mod 256 + 1)) 1 - 1)"
  have eq: "low_find word c = (if m \<noteq> 0 then c - c mod 256 + (BitLen m - 1) else c - c mod 256, m \<noteq> 0)"
    by (simp only: low_find_def Let_def m_def)
  show ?thesis
  proof (cases "m = 0")
    case True
    have clear: "\<not> bit word (nat (e mod 256))" if "c - c mod 256 \<le> e" "e \<le> c" for e
      using unmasked_low [OF True [unfolded m_def], of "nat (e mod 256)"] that same_word [of c e] pos_mod_bound [of 256 c]
      by (simp add: nat_less_eq_zless)
    moreover have "c - c mod 256 \<le> c" by simp
    ultimately show ?thesis using True clear [of "c - c mod 256"] by (simp add: found_low_def eq)
  next
    case False
    define b where "b = BitLen m - 1"
    have b: "0 \<le> b" "b \<le> c mod 256" "bit word (nat b)" "\<And>i. b < int i \<Longrightarrow> i < nat (c mod 256 + 1) \<Longrightarrow> \<not> bit word i"
      using masked_low [OF False [unfolded m_def] b_def [unfolded m_def]] by auto
    have at: "(c - c mod 256 + b) mod 256 = b"
      using same_word [of c "c - c mod 256 + b"] b(1,2) pos_mod_bound [of 256 c] by simp
    have "\<not> bit word (nat (e mod 256))" if "c - c mod 256 + b < e" "e \<le> c" for e
      using b(4) [of "nat (e mod 256)"] same_word [of c e] that b(1) pos_mod_bound [of 256 c] by simp
    then show ?thesis using False b(1-3) at by (simp add: found_low_def eq b_def)
  qed
qed

lemma search_high: "found_high word c (fst (high_find word c)) (snd (high_find word c))"
proof -
  define m where "m = word AND push_bit (nat (c mod 256)) (drop_bit (nat (c mod 256)) maxUint256)"
  have eq: "high_find word c = (if m \<noteq> 0 then c + TrailingZeroBits m - c mod 256 else c + 255 - c mod 256, m \<noteq> 0)"
    by (simp only: high_find_def Let_def m_def)
  show ?thesis
  proof (cases "m = 0")
    case True
    have "\<not> bit word (nat (e mod 256))" if "c \<le> e" "e \<le> c - c mod 256 + 255" for e
      using unmasked_high [OF True [unfolded m_def], of "nat (e mod 256)"] that same_word [of c e] pos_mod_sign [of 256 c]
      by simp
    moreover have "c \<le> c - c mod 256 + 255" using pos_mod_bound [of 256 c] by simp
    ultimately show ?thesis using True by (simp add: found_high_def eq algebra_simps)
  next
    case False
    define b where "b = TrailingZeroBits m"
    have small: "nat (c mod 256) < 256" by (simp add: nat_less_iff)
    have b: "c mod 256 \<le> b" "b < 256" "bit word (nat b)" "\<And>i. nat (c mod 256) \<le> i \<Longrightarrow> int i < b \<Longrightarrow> \<not> bit word i"
      using masked_high [OF False [unfolded m_def] small b_def [unfolded m_def]] by auto
    have at: "(c + b - c mod 256) mod 256 = b"
      using same_word [of c "c + b - c mod 256"] b(1,2) pos_mod_sign [of 256 c] by simp
    have "\<not> bit word (nat (e mod 256))" if "c \<le> e" "e < c + b - c mod 256" for e
    proof -
      have "c - c mod 256 \<le> e" using that(1) pos_mod_sign [of 256 c] by linarith
      then show ?thesis using b(4) [of "nat (e mod 256)"] same_word [of c e] that b(2) by simp
    qed
    then show ?thesis using False b(1-3) at by (simp add: found_high_def eq b_def)
  qed
qed

lemma nextInitializedTick_eq:
  assumes "0 < sp"
  shows "nextInitializedTick st tick sp True = sbind (ps_BitmapWord st (s16 (tick div sp div 256)))
      (\<lambda>word. case low_find word (tick div sp) of (d, i) \<Rightarrow> sret (d * sp, i))"
    "nextInitializedTick st tick sp False = sbind (ps_BitmapWord st (s16 ((tick div sp + 1) div 256)))
      (\<lambda>word. case high_find word (tick div sp + 1) of (d, i) \<Rightarrow> sret (d * sp, i))"
  unfolding nextInitializedTick_def compressed_tick_div [OF assms] low_byte(1) drop_bit_eq_div [of 8] low_find_def high_find_def Let_def
  by (auto intro!: arg_cong2 [where f = sbind])

text \<open>Whatever the word says, the search moves in its direction.\<close>

lemma tick_floor: "0 < sp \<Longrightarrow> tick div sp * sp \<le> tick" "0 < sp \<Longrightarrow> tick < (tick div sp + 1) * sp" for tick sp :: int
  by (rule div_mult_le, simp, rule less_div_mult, simp)

lemma nextInitializedTick_moves:
  assumes "nextInitializedTick st tick sp lte s = (t, Inr (n, i))" "0 < sp"
  shows "if lte then n \<le> tick else tick < n"
proof (cases lte)
  case True
  obtain word where "n = fst (low_find word (tick div sp)) * sp"
    using assms(1) True by (auto simp: nextInitializedTick_eq [OF assms(2)] sbind_Inr case_prod_beta)
  then obtain d where d: "n = d * sp" "d \<le> tick div sp"
    using search_low [of word "tick div sp"] unfolding found_low_def by blast
  then have "n \<le> tick div sp * sp" using assms(2) by simp
  then show ?thesis using True tick_floor(1) [OF assms(2), of tick] by simp
next
  case False
  obtain word where "n = fst (high_find word (tick div sp + 1)) * sp"
    using assms(1) False by (auto simp: nextInitializedTick_eq [OF assms(2)] sbind_Inr case_prod_beta)
  then obtain d where d: "n = d * sp" "tick div sp + 1 \<le> d"
    using search_high [of word "tick div sp + 1"] unfolding found_high_def by blast
  then have "(tick div sp + 1) * sp \<le> n" using assms(2) by simp
  then show ?thesis using False tick_floor(2) [OF assms(2), of tick] by simp
qed

text \<open>
  Exactness: \<open>pool_words\<close> says that the node answers with the bitmap of a set of initialized compressed
  ticks. Within the ticks of a pool no position wraps.
\<close>

definition pool_words :: "'s pool_state \<Rightarrow> int set \<Rightarrow> 's \<Rightarrow> bool" where
  "pool_words st ticks s \<longleftrightarrow>
     (\<forall>w. - (2 ^ 15) \<le> w \<longrightarrow> w < 2 ^ 15 \<longrightarrow>
        (\<exists>word. ps_BitmapWord st w s = (s, Inr word) \<and> (\<forall>i < 256. bit word i \<longleftrightarrow> 256 * w + int i \<in> ticks)))"

lemma s16_small: "- (2 ^ 15) \<le> x \<Longrightarrow> x < 2 ^ 15 \<Longrightarrow> s16 x = x"
  by (simp add: s16_def sint_sbintrunc' signed_take_bit_int_eq_self)

lemma pool_word:
  assumes "pool_words st ticks s" "- (2 ^ 23) \<le> c" "c < 2 ^ 23"
  obtains word where "ps_BitmapWord st (s16 (c div 256)) s = (s, Inr word)"
    "\<And>e. c - c mod 256 \<le> e \<Longrightarrow> e < c - c mod 256 + 256 \<Longrightarrow> bit word (nat (e mod 256)) \<longleftrightarrow> e \<in> ticks"
proof -
  have w: "- (2 ^ 15) \<le> c div 256" "c div 256 < 2 ^ 15"
    using assms(2,3) by simp_all
  obtain word where word: "ps_BitmapWord st (c div 256) s = (s, Inr word)"
    "\<And>i. i < 256 \<Longrightarrow> bit word i \<longleftrightarrow> 256 * (c div 256) + int i \<in> ticks"
    using assms(1) w unfolding pool_words_def by blast
  have "bit word (nat (e mod 256)) \<longleftrightarrow> e \<in> ticks" if "c - c mod 256 \<le> e" "e < c - c mod 256 + 256" for e
    using word(2) [of "nat (e mod 256)"] same_word [OF that] that by (simp add: minus_mod_eq_mult_div)
  then show ?thesis using that [of word] word(1) s16_small [OF w] by simp
qed

lemma next_below_exact:
  assumes "0 < sp" "- (2 ^ 23) \<le> tick div sp" "tick div sp < 2 ^ 23" "pool_words st ticks s"
  shows "\<exists>d i. nextInitializedTick st tick sp True s = (s, Inr (d * sp, i)) \<and>
    (i \<longleftrightarrow> d \<in> ticks) \<and> (\<not> i \<longrightarrow> d = tick div sp - tick div sp mod 256) \<and> d \<le> tick div sp \<and>
    (\<forall>e\<in>ticks. e \<le> tick div sp \<longrightarrow> e \<le> d)"
proof -
  let ?c = "tick div sp"
  obtain word where word: "ps_BitmapWord st (s16 (?c div 256)) s = (s, Inr word)"
    "\<And>e. ?c - ?c mod 256 \<le> e \<Longrightarrow> e < ?c - ?c mod 256 + 256 \<Longrightarrow> bit word (nat (e mod 256)) \<longleftrightarrow> e \<in> ticks"
    using pool_word [OF assms(4,2,3)] by blast
  obtain d i where d: "low_find word ?c = (d, i)" by force
  have c: "?c < ?c - ?c mod 256 + 256" using pos_mod_bound [of 256 ?c] by simp
  have "found_low word ?c d i" using search_low [of word ?c] by (simp add: d)
  then have f: "?c - ?c mod 256 \<le> d" "d \<le> ?c" "i = bit word (nat (d mod 256))" "\<not> i \<longrightarrow> d = ?c - ?c mod 256"
    "\<And>e. d < e \<Longrightarrow> e \<le> ?c \<Longrightarrow> \<not> bit word (nat (e mod 256))" unfolding found_low_def by blast+
  have "i \<longleftrightarrow> d \<in> ticks" unfolding f(3) using f(1,2) c by (intro word(2)) linarith+
  moreover have "e \<le> d" if "e \<in> ticks" "e \<le> ?c" for e
  proof (rule ccontr)
    assume "\<not> e \<le> d"
    then have "d < e" "?c - ?c mod 256 \<le> e" "e < ?c - ?c mod 256 + 256" using f(1) that(2) c by linarith+
    then show False using f(5) [OF \<open>d < e\<close> that(2)] word(2) that(1) by blast
  qed
  ultimately show ?thesis
    using f(2,4) by (intro exI [of _ d] exI [of _ i]) (simp add: nextInitializedTick_eq [OF assms(1)] sbind_def word(1) d)
qed

lemma next_above_exact:
  assumes "0 < sp" "- (2 ^ 23) \<le> tick div sp + 1" "tick div sp + 1 < 2 ^ 23" "pool_words st ticks s"
  shows "\<exists>d i. nextInitializedTick st tick sp False s = (s, Inr (d * sp, i)) \<and>
    (i \<longleftrightarrow> d \<in> ticks) \<and> (\<not> i \<longrightarrow> d = tick div sp + 1 - (tick div sp + 1) mod 256 + 255) \<and> tick div sp < d \<and>
    (\<forall>e\<in>ticks. tick div sp < e \<longrightarrow> d \<le> e)"
proof -
  let ?c = "tick div sp + 1"
  obtain word where word: "ps_BitmapWord st (s16 (?c div 256)) s = (s, Inr word)"
    "\<And>e. ?c - ?c mod 256 \<le> e \<Longrightarrow> e < ?c - ?c mod 256 + 256 \<Longrightarrow> bit word (nat (e mod 256)) \<longleftrightarrow> e \<in> ticks"
    using pool_word [OF assms(4,2,3)] by blast
  obtain d i where d: "high_find word ?c = (d, i)" by force
  have c: "?c - ?c mod 256 \<le> ?c" using pos_mod_sign [of 256 ?c] by simp
  have "found_high word ?c d i" using search_high [of word ?c] by (simp add: d)
  then have f: "?c \<le> d" "d \<le> ?c - ?c mod 256 + 255" "i = bit word (nat (d mod 256))" "\<not> i \<longrightarrow> d = ?c - ?c mod 256 + 255"
    "\<And>e. ?c \<le> e \<Longrightarrow> e < d \<Longrightarrow> \<not> bit word (nat (e mod 256))" unfolding found_high_def by blast+
  have "i \<longleftrightarrow> d \<in> ticks" unfolding f(3) using f(1,2) c by (intro word(2)) linarith+
  moreover have "d \<le> e" if "e \<in> ticks" "tick div sp < e" for e
  proof (rule ccontr)
    assume "\<not> d \<le> e"
    then have "e < d" "?c \<le> e" "?c - ?c mod 256 \<le> e" "e < ?c - ?c mod 256 + 256" using f(2) that(2) c by linarith+
    then show False using f(5) [OF \<open>?c \<le> e\<close> \<open>e < d\<close>] word(2) that(1) by blast
  qed
  ultimately show ?thesis
    using f(1,4) by (intro exI [of _ d] exI [of _ i]) (simp add: nextInitializedTick_eq [OF assms(1)] sbind_def word(1) d)
qed

end
