(* ===== verification/SunswapCalls.thy ===== *)
theory SunswapCalls
  imports TronStaking SunswapQuote
begin

text \<open>
  The calls of a SunSwap trade (internal/tron/sunswap/calldata.go, deployment.go): the methods of the
  contracts, the calls this package encodes and the answers it decodes, the keys of V4 pools, and the
  contracts of each network.

  go-ethereum's ABI encoder and keccak are parameters, over typed values; an answer whose values have
  other types than the method's outputs is a panic, as the type assertion in the code.
\<close>

section \<open>Values and errors\<close>

text \<open>\<open>Bad\<close> is a refusal of the request, \<open>Moved\<close> one of a state that has changed.\<close>

datatype swap_fault = Local string | Bad string | FromNode client_err | Moved string | FaultPanic

datatype abi_value =
    AbiAddress "byte list"
  | AbiInt int
  | AbiBool bool
  | AbiBytes "byte list"
  | AbiWord "byte list"
  | AbiList "abi_value list"
  | AbiTuple "abi_value list"

text \<open>A method: its name, the types of its inputs and of its outputs.\<close>

type_synonym abi = "(string \<times> string list \<times> string list) list"

record abi_lib =
  ab_pack :: "abi \<Rightarrow> string \<Rightarrow> abi_value list \<Rightarrow> byte list option"
  ab_sig :: "abi \<Rightarrow> string \<Rightarrow> string"
  ab_unpack :: "abi \<Rightarrow> string \<Rightarrow> byte list \<Rightarrow> abi_value list option"
  ab_args :: "string list \<Rightarrow> abi_value list \<Rightarrow> byte list option"
  ab_keccak :: "byte list \<Rightarrow> byte list"

record Calldata =
  kd_Method :: string
  kd_Data :: "byte list"

definition Words :: "Calldata \<Rightarrow> swap_fault + byte list list" where
  "Words c =
     (let data = kd_Data c in
      rcheck (\<not> (length data < 4 \<or> (length data - 4) mod 32 \<noteq> 0)) (Local ''calldata is not a selector and whole words'')
        (Inr (map (\<lambda>i. take 32 (drop (4 + 32 * i) data)) [0..<(length data - 4) div 32])))"

definition BytesToAddress :: "byte list \<Rightarrow> byte list" where
  "BytesToAddress b = drop (length b - 20) (replicate (20 - length b) 0 @ b)"

definition EVMAddress :: "tron_lib \<Rightarrow> string \<Rightarrow> swap_fault + byte list" where
  "EVMAddress L a = (case tl_DecodeCheck L a of None \<Rightarrow> Inl (Local ''invalid Tron address'') | Some raw \<Rightarrow> Inr (BytesToAddress (drop 1 raw)))"

section \<open>The methods of the contracts\<close>

definition erc20ABI :: abi where
  "erc20ABI = [(''approve'', [''address'', ''uint256''], []), (''allowance'', [''address'', ''address''], [''uint256''])]"

definition permit2ABI :: abi where
  "permit2ABI = [(''approve'', [''address'', ''address'', ''uint160'', ''uint48''], []),
     (''allowance'', [''address'', ''address'', ''address''], [''uint160'', ''uint48'', ''uint48''])]"

definition v2RouterABI :: abi where
  "v2RouterABI = [(''getAmountsOut'', [''uint256'', ''address[]''], [''uint256[]'']),
     (''swapExactETHForTokens'', [''uint256'', ''address[]'', ''address'', ''uint256''], []),
     (''swapExactTokensForETH'', [''uint256'', ''uint256'', ''address[]'', ''address'', ''uint256''], [])]"

definition v3RouterABI :: abi where
  "v3RouterABI = [(''exactInputSingle'', [''(address,address,uint24,address,uint256,uint256,uint256,uint160)''], []),
     (''unwrapWETH9'', [''uint256'', ''address''], []), (''multicall'', [''bytes[]''], [])]"

definition v3QuoterABI :: abi where
  "v3QuoterABI = [(''quoteExactInputSingle'', [''address'', ''address'', ''uint24'', ''uint256'', ''uint160''], [''uint256''])]"

definition v3PoolABI :: abi where
  "v3PoolABI = [(''slot0'', [], [''uint160'', ''int24'', ''uint16'', ''uint16'', ''uint16'', ''uint8'', ''bool'']),
     (''liquidity'', [], [''uint128'']), (''tickBitmap'', [''int16''], [''uint256'']),
     (''ticks'', [''int24''], [''uint128'', ''int128'', ''uint256'', ''uint256'', ''int56'', ''uint160'', ''uint32'', ''bool''])]"

definition v4PoolManagerABI :: abi where
  "v4PoolManagerABI = [(''getSlot0'', [''bytes32''], [''uint160'', ''int24'', ''uint24'', ''uint24'']),
     (''getLiquidity'', [''bytes32''], [''uint128'']),
     (''getPoolBitmapInfo'', [''bytes32'', ''int16''], [''uint256'']),
     (''getPoolTickInfo'', [''bytes32'', ''int24''], [''(uint128,int128,uint256,uint256)''])]"

definition universalRouterABI :: abi where
  "universalRouterABI = [(''execute'', [''bytes'', ''bytes[]'', ''uint256''], [])]"

definition pack :: "abi_lib \<Rightarrow> abi \<Rightarrow> string \<Rightarrow> abi_value list \<Rightarrow> swap_fault + Calldata" where
  "pack B contract method args =
     (case ab_pack B contract method args of None \<Rightarrow> Inl (Local ''encode'')
      | Some data \<Rightarrow> Inr \<lparr>kd_Method = ab_sig B contract method, kd_Data = data\<rparr>)"

definition unpack :: "abi_lib \<Rightarrow> abi \<Rightarrow> string \<Rightarrow> byte list \<Rightarrow> swap_fault + abi_value list" where
  "unpack B contract method data =
     (case ab_unpack B contract method data of None \<Rightarrow> Inl (Local ''decode result'') | Some values \<Rightarrow> Inr values)"

text \<open>\<open>values[i].(*big.Int)\<close>.\<close>

definition big_at :: "abi_value list \<Rightarrow> nat \<Rightarrow> swap_fault + int" where
  "big_at values i = (if i < length values then (case values ! i of AbiInt n \<Rightarrow> Inr n | _ \<Rightarrow> Inl FaultPanic) else Inl FaultPanic)"

section \<open>Approvals\<close>

definition Approve :: "abi_lib \<Rightarrow> byte list \<Rightarrow> int \<Rightarrow> swap_fault + Calldata" where
  "Approve B spender amount = pack B erc20ABI ''approve'' [AbiAddress spender, AbiInt amount]"

definition Allowance :: "abi_lib \<Rightarrow> byte list \<Rightarrow> byte list \<Rightarrow> swap_fault + Calldata" where
  "Allowance B owner spender = pack B erc20ABI ''allowance'' [AbiAddress owner, AbiAddress spender]"

definition DecodeAllowance :: "abi_lib \<Rightarrow> byte list \<Rightarrow> swap_fault + int" where
  "DecodeAllowance B data = rbind (unpack B erc20ABI ''allowance'' data) (\<lambda>values. big_at values 0)"

definition Permit2Approve :: "abi_lib \<Rightarrow> byte list \<Rightarrow> byte list \<Rightarrow> int \<Rightarrow> u64 \<Rightarrow> swap_fault + Calldata" where
  "Permit2Approve B token spender amount expiration =
     rcheck (\<not> (amount \<le> 0 \<or> amount > maxUint160)) (Local ''Permit2 amount must fit in uint160'') (
     rcheck (\<not> uint expiration \<ge> push_bit 48 1) (Local ''Permit2 expiration must fit in uint48'') (
     pack B permit2ABI ''approve'' [AbiAddress token, AbiAddress spender, AbiInt amount, AbiInt (uint expiration)]))"

definition Permit2Allowance :: "abi_lib \<Rightarrow> byte list \<Rightarrow> byte list \<Rightarrow> byte list \<Rightarrow> swap_fault + Calldata" where
  "Permit2Allowance B owner token spender = pack B permit2ABI ''allowance'' [AbiAddress owner, AbiAddress token, AbiAddress spender]"

definition DecodePermit2Allowance :: "abi_lib \<Rightarrow> byte list \<Rightarrow> swap_fault + int \<times> u64" where
  "DecodePermit2Allowance B data =
     rbind (unpack B permit2ABI ''allowance'' data) (\<lambda>values.
     rbind (big_at values 0) (\<lambda>amount. rbind (big_at values 1) (\<lambda>expiration. Inr (amount, word_of_int expiration))))"

section \<open>V2 and V3\<close>

definition address_path :: "byte list list \<Rightarrow> abi_value" where
  "address_path path = AbiList (map AbiAddress path)"

definition V2GetAmountsOut :: "abi_lib \<Rightarrow> int \<Rightarrow> byte list list \<Rightarrow> swap_fault + Calldata" where
  "V2GetAmountsOut B amountIn path = pack B v2RouterABI ''getAmountsOut'' [AbiInt amountIn, address_path path]"

definition DecodeV2AmountsOut :: "abi_lib \<Rightarrow> byte list \<Rightarrow> swap_fault + int" where
  "DecodeV2AmountsOut B data =
     rbind (unpack B v2RouterABI ''getAmountsOut'' data) (\<lambda>values.
     case values of
       AbiList amounts # _ \<Rightarrow>
         rcheck (\<not> length amounts < 2) (Local ''getAmountsOut returned fewer than two amounts'') (big_at amounts (length amounts - 1))
     | _ \<Rightarrow> Inl FaultPanic)"

definition V2SwapExactETHForTokens :: "abi_lib \<Rightarrow> int \<Rightarrow> byte list list \<Rightarrow> byte list \<Rightarrow> int \<Rightarrow> swap_fault + Calldata" where
  "V2SwapExactETHForTokens B minOut path recipient deadline =
     pack B v2RouterABI ''swapExactETHForTokens'' [AbiInt minOut, address_path path, AbiAddress recipient, AbiInt deadline]"

definition V2SwapExactTokensForETH :: "abi_lib \<Rightarrow> int \<Rightarrow> int \<Rightarrow> byte list list \<Rightarrow> byte list \<Rightarrow> int \<Rightarrow> swap_fault + Calldata" where
  "V2SwapExactTokensForETH B amountIn minOut path recipient deadline =
     pack B v2RouterABI ''swapExactTokensForETH'' [AbiInt amountIn, AbiInt minOut, address_path path, AbiAddress recipient, AbiInt deadline]"

record V3ExactInputSingleParams =
  v3_TokenIn :: "byte list"
  v3_TokenOut :: "byte list"
  v3_Fee :: int
  v3_Recipient :: "byte list"
  v3_Deadline :: int
  v3_AmountIn :: int
  v3_AmountOutMinimum :: int
  v3_SqrtPriceLimitX96 :: int

definition V3ExactInputSingle :: "abi_lib \<Rightarrow> V3ExactInputSingleParams \<Rightarrow> swap_fault + Calldata" where
  "V3ExactInputSingle B p =
     pack B v3RouterABI ''exactInputSingle'' [AbiTuple [AbiAddress (v3_TokenIn p), AbiAddress (v3_TokenOut p), AbiInt (v3_Fee p),
       AbiAddress (v3_Recipient p), AbiInt (v3_Deadline p), AbiInt (v3_AmountIn p), AbiInt (v3_AmountOutMinimum p), AbiInt (v3_SqrtPriceLimitX96 p)]]"

definition V3UnwrapWETH9 :: "abi_lib \<Rightarrow> int \<Rightarrow> byte list \<Rightarrow> swap_fault + Calldata" where
  "V3UnwrapWETH9 B minimum recipient = pack B v3RouterABI ''unwrapWETH9'' [AbiInt minimum, AbiAddress recipient]"

definition V3Multicall :: "abi_lib \<Rightarrow> Calldata list \<Rightarrow> swap_fault + Calldata" where
  "V3Multicall B calls = pack B v3RouterABI ''multicall'' [AbiList (map (\<lambda>call. AbiBytes (kd_Data call)) calls)]"

definition V3QuoteExactInputSingle :: "abi_lib \<Rightarrow> byte list \<Rightarrow> byte list \<Rightarrow> u32 \<Rightarrow> int \<Rightarrow> swap_fault + Calldata" where
  "V3QuoteExactInputSingle B tokenIn tokenOut fee amountIn =
     pack B v3QuoterABI ''quoteExactInputSingle'' [AbiAddress tokenIn, AbiAddress tokenOut, AbiInt (uint fee), AbiInt amountIn, AbiInt 0]"

definition DecodeV3Quote :: "abi_lib \<Rightarrow> byte list \<Rightarrow> swap_fault + int" where
  "DecodeV3Quote B data = rbind (unpack B v3QuoterABI ''quoteExactInputSingle'' data) (\<lambda>values. big_at values 0)"

text \<open>The reads of a V3 pool.\<close>

definition V3Slot0 :: "abi_lib \<Rightarrow> swap_fault + Calldata" where
  "V3Slot0 B = pack B v3PoolABI ''slot0'' []"

definition DecodeV3Slot0 :: "abi_lib \<Rightarrow> byte list \<Rightarrow> swap_fault + int \<times> int" where
  "DecodeV3Slot0 B data =
     rbind (unpack B v3PoolABI ''slot0'' data) (\<lambda>values.
     rbind (big_at values 0) (\<lambda>price. rbind (big_at values 1) (\<lambda>tick. Inr (price, int64 tick))))"

definition V3Liquidity :: "abi_lib \<Rightarrow> swap_fault + Calldata" where
  "V3Liquidity B = pack B v3PoolABI ''liquidity'' []"

definition DecodeV3Liquidity :: "abi_lib \<Rightarrow> byte list \<Rightarrow> swap_fault + int" where
  "DecodeV3Liquidity B data = rbind (unpack B v3PoolABI ''liquidity'' data) (\<lambda>values. big_at values 0)"

definition V3TickBitmap :: "abi_lib \<Rightarrow> int \<Rightarrow> swap_fault + Calldata" where
  "V3TickBitmap B word = pack B v3PoolABI ''tickBitmap'' [AbiInt word]"

definition DecodeV3BitmapWord :: "abi_lib \<Rightarrow> byte list \<Rightarrow> swap_fault + int" where
  "DecodeV3BitmapWord B data = rbind (unpack B v3PoolABI ''tickBitmap'' data) (\<lambda>values. big_at values 0)"

definition V3Ticks :: "abi_lib \<Rightarrow> int \<Rightarrow> swap_fault + Calldata" where
  "V3Ticks B tick = pack B v3PoolABI ''ticks'' [AbiInt tick]"

definition DecodeV3LiquidityNet :: "abi_lib \<Rightarrow> byte list \<Rightarrow> swap_fault + int" where
  "DecodeV3LiquidityNet B data = rbind (unpack B v3PoolABI ''ticks'' data) (\<lambda>values. big_at values 1)"

section \<open>V4\<close>

record PoolKey =
  pk_Currency0 :: "byte list"
  pk_Currency1 :: "byte list"
  pk_Hooks :: "byte list"
  pk_Fee :: u32
  pk_Parameters :: "byte list"

definition zero_address :: "byte list" where "zero_address = replicate 20 0"

definition NewPoolKey :: "byte list \<Rightarrow> u32 \<Rightarrow> int \<Rightarrow> PoolKey" where
  "NewPoolKey token fee tickSpacing =
     \<lparr>pk_Currency0 = zero_address, pk_Currency1 = token, pk_Hooks = zero_address, pk_Fee = fee,
      pk_Parameters = put_be 32 (nat \<bar>int64 (push_bit 16 tickSpacing)\<bar>)\<rparr>"

definition PoolKey_TickSpacing :: "PoolKey \<Rightarrow> int" where
  "PoolKey_TickSpacing k = drop_bit 16 (int (get_le (rev (pk_Parameters k)))) AND 0xffffff"

definition poolKeyArgs :: "string list" where "poolKeyArgs = [''address'', ''address'', ''address'', ''uint24'', ''bytes32'']"

definition args_pack :: "abi_lib \<Rightarrow> string list \<Rightarrow> abi_value list \<Rightarrow> swap_fault + byte list" where
  "args_pack B types values = (case ab_args B types values of None \<Rightarrow> Inl (Local ''encode'') | Some data \<Rightarrow> Inr data)"

definition PoolKey_ID :: "abi_lib \<Rightarrow> PoolKey \<Rightarrow> swap_fault + byte list" where
  "PoolKey_ID B k =
     rbind (args_pack B poolKeyArgs [AbiAddress (pk_Currency0 k), AbiAddress (pk_Currency1 k), AbiAddress (pk_Hooks k), AbiInt (uint (pk_Fee k)),
       AbiWord (pk_Parameters k)]) (\<lambda>encoded. Inr (ab_keccak B encoded))"

record V4Slot0 =
  v4_SqrtPriceX96 :: int
  v4_Tick :: int
  v4_ProtocolFee :: u32
  v4_LPFee :: u32

definition V4GetSlot0 :: "abi_lib \<Rightarrow> byte list \<Rightarrow> swap_fault + Calldata" where
  "V4GetSlot0 B i = pack B v4PoolManagerABI ''getSlot0'' [AbiWord i]"

definition DecodeV4Slot0 :: "abi_lib \<Rightarrow> byte list \<Rightarrow> swap_fault + V4Slot0" where
  "DecodeV4Slot0 B data =
     rbind (unpack B v4PoolManagerABI ''getSlot0'' data) (\<lambda>values.
     rbind (big_at values 0) (\<lambda>price. rbind (big_at values 1) (\<lambda>tick. rbind (big_at values 2) (\<lambda>protocolFee. rbind (big_at values 3) (\<lambda>lpFee.
     Inr \<lparr>v4_SqrtPriceX96 = price, v4_Tick = int64 tick, v4_ProtocolFee = word_of_int protocolFee, v4_LPFee = word_of_int lpFee\<rparr>)))))"

definition V4GetLiquidity :: "abi_lib \<Rightarrow> byte list \<Rightarrow> swap_fault + Calldata" where
  "V4GetLiquidity B i = pack B v4PoolManagerABI ''getLiquidity'' [AbiWord i]"

definition DecodeV4Liquidity :: "abi_lib \<Rightarrow> byte list \<Rightarrow> swap_fault + int" where
  "DecodeV4Liquidity B data = rbind (unpack B v4PoolManagerABI ''getLiquidity'' data) (\<lambda>values. big_at values 0)"

definition V4GetPoolBitmapInfo :: "abi_lib \<Rightarrow> byte list \<Rightarrow> int \<Rightarrow> swap_fault + Calldata" where
  "V4GetPoolBitmapInfo B i word = pack B v4PoolManagerABI ''getPoolBitmapInfo'' [AbiWord i, AbiInt word]"

definition DecodeV4BitmapWord :: "abi_lib \<Rightarrow> byte list \<Rightarrow> swap_fault + int" where
  "DecodeV4BitmapWord B data = rbind (unpack B v4PoolManagerABI ''getPoolBitmapInfo'' data) (\<lambda>values. big_at values 0)"

definition V4GetPoolTickInfo :: "abi_lib \<Rightarrow> byte list \<Rightarrow> int \<Rightarrow> swap_fault + Calldata" where
  "V4GetPoolTickInfo B i tick = pack B v4PoolManagerABI ''getPoolTickInfo'' [AbiWord i, AbiInt tick]"

definition DecodeV4LiquidityNet :: "abi_lib \<Rightarrow> byte list \<Rightarrow> swap_fault + int" where
  "DecodeV4LiquidityNet B data =
     rbind (unpack B v4PoolManagerABI ''getPoolTickInfo'' data) (\<lambda>values.
     case values of AbiTuple info # _ \<Rightarrow> big_at info 1 | _ \<Rightarrow> Inl FaultPanic)"

definition commandSweep :: byte where "commandSweep = 0x04"
definition commandV4Swap :: byte where "commandV4Swap = 0x12"
definition actionCLSwapExactInSingle :: byte where "actionCLSwapExactInSingle = 0x06"
definition actionSettle :: byte where "actionSettle = 0x0b"
definition actionTake :: byte where "actionTake = 0x0e"

definition msgSender :: "byte list" where "msgSender = replicate 19 0 @ [1]"
definition addressThis :: "byte list" where "addressThis = replicate 19 0 @ [2]"
definition openDelta :: int where "openDelta = 0"

definition settleArgs :: "string list" where "settleArgs = [''address'', ''uint256'', ''bool'']"
definition takeArgs :: "string list" where "takeArgs = [''address'', ''address'', ''uint256'']"
definition sweepArgs :: "string list" where "sweepArgs = [''address'', ''address'', ''uint160'']"
definition v4SwapArgs :: "string list" where "v4SwapArgs = [''bytes'', ''bytes[]'']"
definition clSwapArgs :: "string list" where "clSwapArgs = [''((address,address,address,uint24,bytes32),bool,uint128,uint128,bytes)'']"

definition V4ExactInputSingle :: "abi_lib \<Rightarrow> PoolKey \<Rightarrow> bool \<Rightarrow> int \<Rightarrow> int \<Rightarrow> int \<Rightarrow> swap_fault + Calldata" where
  "V4ExactInputSingle B key zeroForOne amountIn minOut deadline =
     rcheck (\<not> minOut > maxUint160) (Local ''minimum output must fit in uint160'') (
     let currencyIn = (if zeroForOne then pk_Currency0 key else pk_Currency1 key);
         currencyOut = (if zeroForOne then pk_Currency1 key else pk_Currency0 key) in
     rbind (args_pack B settleArgs [AbiAddress currencyIn, AbiInt amountIn, AbiBool (currencyIn \<noteq> zero_address)]) (\<lambda>settle.
     rbind (args_pack B clSwapArgs [AbiTuple [AbiTuple [AbiAddress (pk_Currency0 key), AbiAddress (pk_Currency1 key), AbiAddress (pk_Hooks key),
         AbiInt (uint (pk_Fee key)), AbiWord (pk_Parameters key)], AbiBool zeroForOne, AbiInt openDelta, AbiInt 0, AbiBytes []]]) (\<lambda>swap.
     rbind (args_pack B takeArgs [AbiAddress currencyOut, AbiAddress addressThis, AbiInt openDelta]) (\<lambda>takeOut.
     rbind (args_pack B takeArgs [AbiAddress currencyIn, AbiAddress addressThis, AbiInt openDelta]) (\<lambda>takeIn.
     rbind (args_pack B v4SwapArgs [AbiBytes [actionSettle, actionCLSwapExactInSingle, actionTake, actionTake],
         AbiList (map AbiBytes [settle, swap, takeOut, takeIn])]) (\<lambda>v4Swap.
     rbind (args_pack B sweepArgs [AbiAddress currencyOut, AbiAddress msgSender, AbiInt minOut]) (\<lambda>sweep.
     pack B universalRouterABI ''execute'' [AbiBytes [commandV4Swap, commandSweep], AbiList (map AbiBytes [v4Swap, sweep]), AbiInt deadline])))))))"

section \<open>Deployments\<close>

record V4Pool =
  vp_Fee :: u32
  vp_TickSpacing :: int

record Deployment =
  dy_Token :: string
  dy_WTRX :: string
  dy_V2Router :: string
  dy_V3Router :: string
  dy_V3Quoter :: string
  dy_V3Fees :: "u32 list"
  dy_UniversalRouter :: string
  dy_Permit2 :: string
  dy_V4PoolManager :: string
  dy_V4Pools :: "V4Pool list"

definition deployments :: "(string \<times> Deployment) list" where
  "deployments =
     [(''mainnet'', \<lparr>dy_Token = ''TR7NHqjeKQxGTCi8q8ZY4pL8otSzgjLj6t'', dy_WTRX = ''TNUC9Qb1rRpS5CbWLmNMxXBjyFoydXjWFR'',
        dy_V2Router = ''TNJVzGqKBWkJxJB5XYSqGAwUTV15U24pPq'', dy_V3Router = ''TQAvWQpT9H916GckwWDJNhYZvQMkuRL7PN'',
        dy_V3Quoter = ''TLhZ48yfHygMLM2uZr87zJJusHjGen97gh'', dy_V3Fees = [500, 3000],
        dy_UniversalRouter = ''TQqgNg13s2DjvXhW1ky4v6TsR8wZGvb7Y4'', dy_Permit2 = ''TTJxU3P8rHycAyFY4kVtGNfmnMH4ezcuM9'',
        dy_V4PoolManager = ''TVjuTE3V5bMVdpfNhid8kD2v35T2k1u1Br'', dy_V4Pools = [\<lparr>vp_Fee = 500, vp_TickSpacing = 10\<rparr>]\<rparr>),
      (''nile'', \<lparr>dy_Token = ''TXYZopYRdj2D9XRtbG411XZZ3kM5VkAeBf'', dy_WTRX = ''TYsbWxNnyTgsZaTFaue9hqpxkU3Fkco94a'',
        dy_V2Router = ''TMn1qrmYUMSTXo9babrJLzepKZoPC7M6Sy'', dy_V3Router = ''TFkswj6rUfK3cQtFGzungCkNXxD2UCpEVD'',
        dy_V3Quoter = ''TUcM2gkpWEJxBpkweLdVoRp6DAUsw2vWR6'', dy_V3Fees = [500, 10000],
        dy_UniversalRouter = ''TEgq4237arNE7jX74KCDkc1MXdZeWNkGVj'', dy_Permit2 = ''TYQuuhGbEMxF7nZxUHV3uHJxAVVAegNU9h'',
        dy_V4PoolManager = ''TVivLPeq7FMmTG8Z7HaiBgHTsMwCEcipKT'',
        dy_V4Pools = [\<lparr>vp_Fee = 500, vp_TickSpacing = 10\<rparr>, \<lparr>vp_Fee = 3000, vp_TickSpacing = 1\<rparr>]\<rparr>)]"

definition ForNetwork :: "string \<Rightarrow> Deployment option" where
  "ForNetwork chainID = map_of deployments chainID"

record Addresses =
  da_Token :: "byte list"
  da_WTRX :: "byte list"
  da_V2Router :: "byte list"
  da_V3Router :: "byte list"
  da_V3Quoter :: "byte list"
  da_UniversalRouter :: "byte list"
  da_Permit2 :: "byte list"
  da_V4PoolManager :: "byte list"

definition Deployment_Addresses :: "tron_lib \<Rightarrow> Deployment \<Rightarrow> swap_fault + Addresses" where
  "Deployment_Addresses L d =
     rbind (EVMAddress L (dy_Token d)) (\<lambda>token. rbind (EVMAddress L (dy_WTRX d)) (\<lambda>wtrx.
     rbind (EVMAddress L (dy_V2Router d)) (\<lambda>v2. rbind (EVMAddress L (dy_V3Router d)) (\<lambda>v3. rbind (EVMAddress L (dy_V3Quoter d)) (\<lambda>quoter.
     rbind (EVMAddress L (dy_UniversalRouter d)) (\<lambda>universal. rbind (EVMAddress L (dy_Permit2 d)) (\<lambda>permit2.
     rbind (EVMAddress L (dy_V4PoolManager d)) (\<lambda>manager.
     Inr \<lparr>da_Token = token, da_WTRX = wtrx, da_V2Router = v2, da_V3Router = v3, da_V3Quoter = quoter, da_UniversalRouter = universal,
       da_Permit2 = permit2, da_V4PoolManager = manager\<rparr>))))))))"

section \<open>Words and keys\<close>

text \<open>The words handed to a builder are the whole call behind its selector.\<close>

lemma concat_chunks: "length data = 32 * n \<Longrightarrow> concat (map (\<lambda>i. take 32 (drop (32 * i) data)) [0..<n]) = data"
proof (induction n arbitrary: data)
  case (Suc n)
  have "concat (map (\<lambda>i. take 32 (drop (32 * i) data)) [0..<Suc n]) =
      take 32 data @ concat (map (\<lambda>i. take 32 (drop (32 * i) (drop 32 data))) [0..<n])"
    by (simp add: upt_conv_Cons map_Suc_upt [symmetric] comp_def add.commute [of 32] del: upt_Suc)
  also have "\<dots> = take 32 data @ drop 32 data" using Suc.IH [of "drop 32 data"] Suc.prems by simp
  finally show ?case by simp
qed simp

lemma Words_concat:
  assumes "Words c = Inr ws"
  shows "kd_Data c = take 4 (kd_Data c) @ concat ws \<and> 4 \<le> length (kd_Data c) \<and> (\<forall>w\<in>set ws. length w = 32)"
proof -
  let ?d = "kd_Data c" let ?n = "(length (kd_Data c) - 4) div 32"
  have ok: "4 \<le> length ?d" "(length ?d - 4) mod 32 = 0" "ws = map (\<lambda>i. take 32 (drop (4 + 32 * i) ?d)) [0..<?n]"
    using assms by (auto simp: Words_def rcheck_eq_Inr Let_def)
  have len: "length (drop 4 ?d) = 32 * ?n" using ok(2) by auto
  have "concat ws = concat (map (\<lambda>i. take 32 (drop (32 * i) (drop 4 ?d))) [0..<?n])" by (simp add: ok(3) add.commute)
  also have "\<dots> = drop 4 ?d" by (rule concat_chunks [OF len])
  finally have "concat ws = drop 4 ?d" .
  moreover have "\<forall>w\<in>set ws. length w = 32" using len by (auto simp: ok(3))
  ultimately show ?thesis using ok(1) by simp
qed

lemma PoolKey_TickSpacing_New:
  assumes "0 \<le> s" "s < 2 ^ 24"
  shows "PoolKey_TickSpacing (NewPoolKey token fee s) = s"
proof -
  have "- (2 ^ 63) \<le> push_bit 16 s" "push_bit 16 s < 2 ^ 63" using assms by (simp_all add: push_bit_eq_mult)
  then have "int64 (push_bit 16 s) = push_bit 16 s"
    unfolding int64_def sint_sbintrunc' by (intro signed_take_bit_int_eq_self) simp_all
  then have "get_le (rev (pk_Parameters (NewPoolKey token fee s))) = nat (push_bit 16 s) mod 256 ^ 32"
    using assms by (simp add: NewPoolKey_def put_be_def get_put_le)
  also have "nat (push_bit 16 s) mod 256 ^ 32 = nat (push_bit 16 s)"
    using assms by (intro mod_less) (simp add: push_bit_eq_mult nat_less_iff)
  finally have "drop_bit 16 (int (get_le (rev (pk_Parameters (NewPoolKey token fee s))))) = s"
    using assms by (simp add: push_bit_eq_mult drop_bit_eq_div)
  moreover have "s AND 0xffffff = s"
    using assms take_bit_eq_mask [of 24 s] by (simp add: mask_eq_exp_minus_1 take_bit_int_eq_self)
  ultimately show ?thesis by (simp add: PoolKey_TickSpacing_def)
qed

end
