(* ===== verification/TronSwap.thy ===== *)
theory TronSwap
  imports TronHandlers SunswapCalls
begin

text \<open>
  Swapping on SunSwap (internal/tron/swap.go): the routes of a network, the plan of a swap in base units,
  what a route pays, the transactions a swap still needs, and the one that is signed next.

  A node's answer to a constant call is a function of the call and of the attempt; go-ethereum's
  encoder is \<open>abi_lib\<close>. Times are nanoseconds.
\<close>

section \<open>Routes and steps\<close>

datatype swap_protocol = SwapV2 | SwapV3 | SwapV4 | OtherProtocol string

record tron_swap_route =
  xr_Protocol :: swap_protocol
  xr_Fee :: u32
  xr_TickSpacing :: int

datatype swap_step_kind = SwapStepApprove | SwapStepPermit2 | SwapStepSwap | OtherStep string

record tron_swap_request =
  xq_In :: tron_asset
  xq_Amount :: rat
  xq_MinOut :: rat
  xq_Route :: tron_swap_route
  xq_Step :: swap_step_kind
  xq_Unlimited :: bool

definition swapDeadline :: int where "swapDeadline = 3 * 60 * second"
definition permit2Lifetime :: int where "permit2Lifetime = 60 * 60 * second"
definition permit2UnlimitedLifetime :: int where "permit2UnlimitedLifetime = 30 * 24 * 60 * 60 * second"
definition maxSwapSlippageBps :: int where "maxSwapSlippageBps = 500"
definition feeLimitHeadroom :: rat where "feeLimitHeadroom = 13 / 10"
definition swapTxOverhead :: nat where "swapTxOverhead = 300"

definition unix :: "int \<Rightarrow> int" where "unix t = t div second"

definition typicalSwapEnergy :: "swap_protocol \<Rightarrow> bool \<Rightarrow> int" where
  "typicalSwapEnergy protocol trxIn =
     (case protocol of
        SwapV2 \<Rightarrow> if trxIn then 160000 else 170000
      | SwapV3 \<Rightarrow> if trxIn then 200000 else 190000
      | SwapV4 \<Rightarrow> if trxIn then 275000 else 160000
      | OtherProtocol p \<Rightarrow> 0)"

record swapper =
  sw_deployment :: Deployment
  sw_addrs :: Addresses

definition newSwapper :: "tron_lib \<Rightarrow> string \<Rightarrow> string \<Rightarrow> swapper option" where
  "newSwapper L network token =
     (case ForNetwork network of None \<Rightarrow> None
      | Some d \<Rightarrow>
          if dy_Token d \<noteq> token then None
          else (case Deployment_Addresses L d of Inl e \<Rightarrow> None | Inr a \<Rightarrow> Some \<lparr>sw_deployment = d, sw_addrs = a\<rparr>))"

definition SwapAvailable :: "swapper option \<Rightarrow> bool" where "SwapAvailable swap = (swap \<noteq> None)"

section \<open>What a swap reaches\<close>

text \<open>The nodes: a constant call answers with its results, its energy and perhaps an error.\<close>

record tron_swap_node =
  xn_TriggerConstantContract :: "byte list \<Rightarrow> byte list \<Rightarrow> byte list \<Rightarrow> int \<Rightarrow> nat \<Rightarrow> (byte list list \<times> int) \<times> client_err option"
  xn_TriggerContract :: "string \<Rightarrow> string \<Rightarrow> string \<Rightarrow> string \<Rightarrow> int \<Rightarrow> int \<Rightarrow> nat \<Rightarrow> client_err + raw_tx option"
  xn_ChainParams :: "nat \<Rightarrow> client_err + int \<times> int"

record swap_side =
  xs_L :: tron_lib
  xs_B :: abi_lib
  xs_sv :: tron_service
  xs_E :: tron_run
  xs_N :: tron_swap_node

record swapPlan =
  zp_from :: string
  zp_owner :: "byte list"
  zp_in :: tron_asset
  zp_amountIn :: int
  zp_minOut :: int
  zp_route :: tron_swap_route
  zp_unlimited :: bool
  zp_now :: int

definition trxIn :: "swapPlan \<Rightarrow> bool" where "trxIn p = (zp_in p = AssetTRX)"

record tron_swap_call =
  zc_kind :: swap_step_kind
  zc_contract :: string
  zc_call :: Calldata
  zc_callValue :: int

text \<open>A refusal of the amounts, as a fault of the swap.\<close>

fun tron_fault :: "tron_err \<Rightarrow> swap_fault" where
  "tron_fault (Mismatch what) = Bad what"
| "tron_fault (Invalid what) = Bad what"
| "tron_fault (Upstream what) = Local what"

definition faulted :: "'a tron_result \<Rightarrow> swap_fault + 'a" where
  "faulted r = (case r of Inl e \<Rightarrow> Inl (tron_fault e) | Inr v \<Rightarrow> Inr v)"

definition swapUnits :: "swap_side \<Rightarrow> tron_asset \<Rightarrow> rat \<Rightarrow> swap_fault + int" where
  "swapUnits X asset amount =
     (case asset of
        AssetTRX \<Rightarrow> faulted (trxAmount (xs_L X) amount)
      | AssetUSDT \<Rightarrow> faulted (tokenAmount (xs_L X) amount (sv_Decimals (xs_sv X)))
      | OtherAsset a \<Rightarrow> Inl (Bad ''unknown asset''))"

definition swapDecimal :: "swap_side \<Rightarrow> tron_asset \<Rightarrow> int \<Rightarrow> rat" where
  "swapDecimal X asset units =
     (if asset = AssetTRX then of_int units / 10 ^ 6 else of_int units / 10 ^ nat (sv_Decimals (xs_sv X)))"

definition swapOut :: "tron_asset \<Rightarrow> tron_asset" where
  "swapOut a = (if a = AssetTRX then AssetUSDT else AssetTRX)"

definition newSwapPlan :: "swapper option \<Rightarrow> swap_side \<Rightarrow> int \<Rightarrow> string \<Rightarrow> tron_asset \<Rightarrow> rat \<Rightarrow> swap_fault + swapper \<times> swapPlan" where
  "newSwapPlan swap X now from asset amount =
     (case swap of None \<Rightarrow> Inl (Bad ''swaps are not available on this network'') | Some Z \<Rightarrow>
      rcheck (tl_Validate (xs_L X) from) (Bad ''invalid address'') (
      rbind (case EVMAddress (xs_L X) from of Inl e \<Rightarrow> Inl (Bad ''invalid address'') | Inr owner \<Rightarrow> Inr owner) (\<lambda>owner.
      rcheck (\<not> amount \<le> 0) (Bad ''amount must be greater than zero'') (
      rbind (swapUnits X asset amount) (\<lambda>units.
      Inr (Z, \<lparr>zp_from = from, zp_owner = owner, zp_in = asset, zp_amountIn = units, zp_minOut = 0,
        zp_route = \<lparr>xr_Protocol = OtherProtocol [], xr_Fee = 0, xr_TickSpacing = 0\<rparr>, zp_unlimited = False, zp_now = now\<rparr>))))))"

definition swapRoutes :: "swapper \<Rightarrow> tron_swap_route list" where
  "swapRoutes Z =
     \<lparr>xr_Protocol = SwapV2, xr_Fee = 3000, xr_TickSpacing = 0\<rparr>
     # map (\<lambda>fee. \<lparr>xr_Protocol = SwapV3, xr_Fee = fee, xr_TickSpacing = 0\<rparr>) (dy_V3Fees (sw_deployment Z))
     @ map (\<lambda>pool. \<lparr>xr_Protocol = SwapV4, xr_Fee = vp_Fee pool, xr_TickSpacing = vp_TickSpacing pool\<rparr>) (dy_V4Pools (sw_deployment Z))"

definition knownRoute :: "swapper \<Rightarrow> tron_swap_route \<Rightarrow> swap_fault + unit" where
  "knownRoute Z route = (if route \<in> set (swapRoutes Z) then Inr () else Inl (Bad ''unknown swap route''))"

section \<open>Constant calls\<close>

definition no_address :: "byte list" where "no_address = 0x41 # replicate 20 0"

definition runConstantCall :: "swap_side \<Rightarrow> string \<Rightarrow> string \<Rightarrow> Calldata \<Rightarrow> int \<Rightarrow> swap_fault + byte list \<times> int" where
  "runConstantCall X from contract call callValue =
     rbind (if from \<noteq> []
            then (case tl_DecodeCheck (xs_L X) from of None \<Rightarrow> Inl (Bad ''invalid address'') | Some decoded \<Rightarrow> Inr decoded)
            else Inr no_address) (\<lambda>owner.
     case tl_DecodeCheck (xs_L X) contract of None \<Rightarrow> Inl (Local ''invalid contract address'') | Some target \<Rightarrow>
     (case retry (te_ctx (xs_E X)) (sv_nodes (xs_sv X)) (\<lambda>i.
         let (ext, err) = xn_TriggerConstantContract (xs_N X) owner target (kd_Data call) callValue i in
         if err = Some ErrContractCallFailed \<or> err = Some ErrContractNotExist then Inr (ext, err)
         else (case err of Some e \<Rightarrow> Inl e | None \<Rightarrow> Inr (ext, None))) of
        Inl e \<Rightarrow> Inl (FromNode e)
      | Inr ((results, energy), Some e) \<Rightarrow> Inl (Bad ''the call would fail'')
      | Inr ((results, energy), None) \<Rightarrow> Inr (if results = [] then [] else results ! 0, energy)))"

text \<open>The memo of one quote: answers and refusals of a call are kept, failures of the transport are not.\<close>

type_synonym call_memo = "(string \<times> string \<times> byte list \<times> int) \<rightharpoonup> (swap_fault + byte list \<times> int)"

definition constantCall ::
  "swap_side \<Rightarrow> string \<Rightarrow> string \<Rightarrow> Calldata \<Rightarrow> int \<Rightarrow> call_memo option \<Rightarrow> call_memo option \<times> (swap_fault + byte list \<times> int)" where
  "constantCall X from contract call callValue memo =
     (case memo of None \<Rightarrow> (None, runConstantCall X from contract call callValue)
      | Some results \<Rightarrow>
          let key = (from, contract, kd_Data call, callValue) in
          (case results key of
             Some cached \<Rightarrow> (memo, cached)
           | None \<Rightarrow>
               let r = runConstantCall X from contract call callValue in
               (case r of
                  Inr v \<Rightarrow> (Some (results(key \<mapsto> r)), r)
                | Inl (Bad what) \<Rightarrow> (Some (results(key \<mapsto> r)), r)
                | Inl e \<Rightarrow> (memo, r))))"

definition memo_true :: "swap_side \<Rightarrow> call_memo option \<Rightarrow> bool" where
  "memo_true X memo \<longleftrightarrow> (\<forall>results from contract data value r. memo = Some results \<longrightarrow> results (from, contract, data, value) = Some r \<longrightarrow>
     (\<forall>call. kd_Data call = data \<longrightarrow> runConstantCall X from contract call value = r))"

text \<open>The memo changes nothing but the number of calls, so the reads below are made without it.\<close>

lemma constantCall_run:
  assumes "memo_true X memo"
  shows "snd (constantCall X from contract call value memo) = runConstantCall X from contract call value \<and>
    memo_true X (fst (constantCall X from contract call value memo))"
proof (cases memo)
  case (Some results)
  have same: "runConstantCall X from contract c value = runConstantCall X from contract call value" if "kd_Data c = kd_Data call" for c
    unfolding runConstantCall_def that by (rule refl)
  show ?thesis
  proof (cases "results (from, contract, kd_Data call, value)")
    case None
    then show ?thesis
      using assms same Some
      by (cases "runConstantCall X from contract call value")
        (auto simp: constantCall_def memo_true_def Let_def split: swap_fault.splits)
  next
    case (Some r)
    then show ?thesis using assms \<open>memo = Some results\<close> by (auto simp: constantCall_def memo_true_def)
  qed
qed (simp add: constantCall_def memo_true_def)

definition read_call :: "swap_side \<Rightarrow> string \<Rightarrow> swap_fault + Calldata \<Rightarrow> (byte list \<Rightarrow> swap_fault + 'a) \<Rightarrow> swap_fault + 'a" where
  "read_call X contract call decode =
     rbind call (\<lambda>call. rbind (runConstantCall X [] contract call 0) (\<lambda>(raw, _). decode raw))"

definition allowance :: "swapper \<Rightarrow> swap_side \<Rightarrow> byte list \<Rightarrow> byte list \<Rightarrow> swap_fault + int" where
  "allowance Z X owner spender =
     read_call X (dy_Token (sw_deployment Z)) (Allowance (xs_B X) owner spender) (DecodeAllowance (xs_B X))"

definition permit2Allowance :: "swapper \<Rightarrow> swap_side \<Rightarrow> byte list \<Rightarrow> swap_fault + int \<times> u64" where
  "permit2Allowance Z X owner =
     (let a = sw_addrs Z in
      read_call X (dy_Permit2 (sw_deployment Z)) (Permit2Allowance (xs_B X) owner (da_Token a) (da_UniversalRouter a))
        (DecodePermit2Allowance (xs_B X)))"

definition simulate :: "swap_side \<Rightarrow> string \<Rightarrow> tron_swap_call \<Rightarrow> swap_fault + int" where
  "simulate X from call =
     rbind (runConstantCall X from (zc_contract call) (zc_call call) (zc_callValue call)) (\<lambda>(_, energy). Inr energy)"

section \<open>What a route pays\<close>

text \<open>The words read so far, and the fault that ended a read: the pool's own errors carry none.\<close>

record v4State =
  v4_words :: "int \<rightharpoonup> int"
  v4_fault :: "swap_fault option"

definition v4_read :: "swap_fault + 'a \<Rightarrow> ('a \<Rightarrow> v4State \<Rightarrow> v4State) \<Rightarrow> (v4State, sq_err, 'a) op" where
  "v4_read r keep v = (case r of Inl f \<Rightarrow> (v\<lparr>v4_fault := Some f\<rparr>, Inl (SqErr ''node'')) | Inr x \<Rightarrow> (keep x v, Inr x))"

definition v4State_BitmapWord :: "swap_side \<Rightarrow> string \<Rightarrow> byte list \<Rightarrow> int \<Rightarrow> (v4State, sq_err, int) op" where
  "v4State_BitmapWord X manager i word v =
     (case v4_words v word of
        Some cached \<Rightarrow> (v, Inr cached)
      | None \<Rightarrow>
          v4_read (read_call X manager (V4GetPoolBitmapInfo (xs_B X) i word) (DecodeV4BitmapWord (xs_B X)))
            (\<lambda>x v. v\<lparr>v4_words := (v4_words v)(word \<mapsto> x)\<rparr>) v)"

definition v4State_LiquidityNet :: "swap_side \<Rightarrow> string \<Rightarrow> byte list \<Rightarrow> int \<Rightarrow> (v4State, sq_err, int) op" where
  "v4State_LiquidityNet X manager i tick =
     v4_read (read_call X manager (V4GetPoolTickInfo (xs_B X) i tick) (DecodeV4LiquidityNet (xs_B X))) (\<lambda>x v. v)"

definition v4_answer :: "v4State \<times> (sq_err + int) \<Rightarrow> swap_fault + int" where
  "v4_answer r =
     (case r of
        (v, Inr out) \<Rightarrow> Inr out
      | (v, Inl e) \<Rightarrow>
          (case v4_fault v of
             Some f \<Rightarrow> Inl f
           | None \<Rightarrow> Inl (case e of SqPanic \<Rightarrow> FaultPanic | PoolDrains \<Rightarrow> Local ''the pool does not have the liquidity'' | SqErr what \<Rightarrow> Local what)))"

definition quoteV4 :: "swapper \<Rightarrow> swap_side \<Rightarrow> tron_swap_route \<Rightarrow> bool \<Rightarrow> int \<Rightarrow> swap_fault + int" where
  "quoteV4 Z X route sells_trx amountIn =
     (let key = NewPoolKey (da_Token (sw_addrs Z)) (xr_Fee route) (xr_TickSpacing route);
          manager = dy_V4PoolManager (sw_deployment Z) in
      rbind (PoolKey_ID (xs_B X) key) (\<lambda>i.
      rbind (read_call X manager (V4GetSlot0 (xs_B X) i) (DecodeV4Slot0 (xs_B X))) (\<lambda>slot.
      rcheck (v4_SqrtPriceX96 slot \<noteq> 0) (Local ''the pool does not exist'') (
      rbind (read_call X manager (V4GetLiquidity (xs_B X) i) (DecodeV4Liquidity (xs_B X))) (\<lambda>liquidity.
      v4_answer (QuoteExactInput
        \<lparr>po_SqrtPriceX96 = v4_SqrtPriceX96 slot, po_Tick = v4_Tick slot, po_Liquidity = liquidity,
         po_TickSpacing = PoolKey_TickSpacing key, po_FeePips = SwapFee (v4_ProtocolFee slot) (v4_LPFee slot) sells_trx\<rparr>
        \<lparr>ps_BitmapWord = v4State_BitmapWord X manager i, ps_LiquidityNet = v4State_LiquidityNet X manager i\<rparr>
        (Some amountIn) sells_trx \<lparr>v4_words = Map.empty, v4_fault = None\<rparr>))))))"

definition quoteRoute :: "swapper \<Rightarrow> swap_side \<Rightarrow> tron_swap_route \<Rightarrow> bool \<Rightarrow> int \<Rightarrow> swap_fault + int" where
  "quoteRoute Z X route sells_trx amountIn =
     (let a = sw_addrs Z; d = sw_deployment Z;
          tokenIn = (if sells_trx then da_WTRX a else da_Token a);
          tokenOut = (if sells_trx then da_Token a else da_WTRX a) in
      case xr_Protocol route of
        SwapV2 \<Rightarrow> read_call X (dy_V2Router d) (V2GetAmountsOut (xs_B X) amountIn [tokenIn, tokenOut]) (DecodeV2AmountsOut (xs_B X))
      | SwapV3 \<Rightarrow> read_call X (dy_V3Quoter d) (V3QuoteExactInputSingle (xs_B X) tokenIn tokenOut (xr_Fee route) amountIn) (DecodeV3Quote (xs_B X))
      | SwapV4 \<Rightarrow> quoteV4 Z X route sells_trx amountIn
      | OtherProtocol p \<Rightarrow> Inl (Bad ''unknown swap protocol''))"

section \<open>What a swap still needs\<close>

definition swapCall :: "swapper \<Rightarrow> swap_side \<Rightarrow> swapPlan \<Rightarrow> swap_fault + tron_swap_call" where
  "swapCall Z X plan =
     (let d = sw_deployment Z; a = sw_addrs Z; B = xs_B X; deadline = unix (zp_now plan + swapDeadline);
          callValue = (if trxIn plan then int64 (zp_amountIn plan) else 0) in
      rbind (case xr_Protocol (zp_route plan) of
               SwapV2 \<Rightarrow>
                 rbind (if trxIn plan
                        then V2SwapExactETHForTokens B (zp_minOut plan) [da_WTRX a, da_Token a] (zp_owner plan) deadline
                        else V2SwapExactTokensForETH B (zp_amountIn plan) (zp_minOut plan) [da_Token a, da_WTRX a] (zp_owner plan) deadline)
                   (\<lambda>call. Inr (dy_V2Router d, call))
             | SwapV3 \<Rightarrow>
                 let params = \<lparr>v3_TokenIn = da_WTRX a, v3_TokenOut = da_Token a, v3_Fee = uint (xr_Fee (zp_route plan)),
                       v3_Recipient = zp_owner plan, v3_Deadline = deadline, v3_AmountIn = zp_amountIn plan,
                       v3_AmountOutMinimum = zp_minOut plan, v3_SqrtPriceLimitX96 = 0\<rparr> in
                 rbind (if trxIn plan then V3ExactInputSingle B params
                        else rbind (V3ExactInputSingle B (params\<lparr>v3_TokenIn := da_Token a, v3_TokenOut := da_WTRX a, v3_Recipient := zero_address\<rparr>)) (\<lambda>swap.
                             rbind (V3UnwrapWETH9 B (zp_minOut plan) (zp_owner plan)) (\<lambda>unwrap. V3Multicall B [swap, unwrap])))
                   (\<lambda>call. Inr (dy_V3Router d, call))
             | SwapV4 \<Rightarrow>
                 let key = NewPoolKey (da_Token a) (xr_Fee (zp_route plan)) (xr_TickSpacing (zp_route plan)) in
                 rbind (V4ExactInputSingle B key (trxIn plan) (zp_amountIn plan) (zp_minOut plan) deadline)
                   (\<lambda>call. Inr (dy_UniversalRouter d, call))
             | OtherProtocol p \<Rightarrow> Inl (Bad ''unknown swap protocol'')) (\<lambda>(contract, call).
      Inr \<lparr>zc_kind = SwapStepSwap, zc_contract = contract, zc_call = call, zc_callValue = callValue\<rparr>))"

text \<open>The spender of a route: whoever draws the token.\<close>

definition spenderAddr :: "swapper \<Rightarrow> tron_swap_route \<Rightarrow> byte list" where
  "spenderAddr Z route =
     (case xr_Protocol route of SwapV3 \<Rightarrow> da_V3Router (sw_addrs Z) | SwapV4 \<Rightarrow> da_Permit2 (sw_addrs Z) | _ \<Rightarrow> da_V2Router (sw_addrs Z))"

definition approveCalls :: "swapper \<Rightarrow> swap_side \<Rightarrow> swapPlan \<Rightarrow> swap_fault + tron_swap_call list" where
  "approveCalls Z X plan =
     (let spender = spenderAddr Z (zp_route plan) in
      rbind (allowance Z X (zp_owner plan) spender) (\<lambda>allowed.
      if allowed < zp_amountIn plan then
        rbind (Approve (xs_B X) spender (if zp_unlimited plan then maxUint256 else zp_amountIn plan)) (\<lambda>call.
        Inr [\<lparr>zc_kind = SwapStepApprove, zc_contract = dy_Token (sw_deployment Z), zc_call = call, zc_callValue = 0\<rparr>])
      else Inr []))"

definition permit2Calls :: "swapper \<Rightarrow> swap_side \<Rightarrow> swapPlan \<Rightarrow> swap_fault + tron_swap_call list" where
  "permit2Calls Z X plan =
     (if xr_Protocol (zp_route plan) \<noteq> SwapV4 then Inr []
      else rbind (permit2Allowance Z X (zp_owner plan)) (\<lambda>(amount, expiration).
        if amount < zp_amountIn plan \<or> expiration < word_of_int (unix (zp_now plan + swapDeadline)) then
          let grant = (if zp_unlimited plan then maxUint160 else zp_amountIn plan);
              lifetime = (if zp_unlimited plan then permit2UnlimitedLifetime else permit2Lifetime) in
          rbind (Permit2Approve (xs_B X) (da_Token (sw_addrs Z)) (da_UniversalRouter (sw_addrs Z)) grant
              (word_of_int (unix (zp_now plan + lifetime)))) (\<lambda>call.
          Inr [\<lparr>zc_kind = SwapStepPermit2, zc_contract = dy_Permit2 (sw_deployment Z), zc_call = call, zc_callValue = 0\<rparr>])
        else Inr []))"

definition swapCalls :: "swapper \<Rightarrow> swap_side \<Rightarrow> swapPlan \<Rightarrow> swap_fault + tron_swap_call list" where
  "swapCalls Z X plan =
     rbind (if trxIn plan then Inr []
            else rbind (approveCalls Z X plan) (\<lambda>approve. rbind (permit2Calls Z X plan) (\<lambda>permit. Inr (approve @ permit)))) (\<lambda>calls.
     rbind (swapCall Z X plan) (\<lambda>swap. Inr (calls @ [swap])))"

section \<open>The step that is signed\<close>

text \<open>How a swap ends without a transaction; a panic of the handler answers nothing.\<close>

datatype swap_end = Refuses chain_error | Panics

definition staged :: "string \<Rightarrow> swap_fault + 'a \<Rightarrow> swap_end + 'a" where
  "staged stage r =
     (case r of
        Inr v \<Rightarrow> Inr v
      | Inl (Local what) \<Rightarrow> Inl (Refuses (ChainErr stage))
      | Inl (Bad what) \<Rightarrow> Inl (Refuses ErrInvalidRequest)
      | Inl (FromNode e) \<Rightarrow> Inl (Refuses (tron_error (chainError stage e)))
      | Inl (Moved what) \<Rightarrow> Inl (Refuses ErrStateChanged)
      | Inl FaultPanic \<Rightarrow> Inl Panics)"

lemma staged_Inr [simp]: "staged stage r = Inr v \<longleftrightarrow> r = Inr v"
  by (auto simp: staged_def split: sum.splits swap_fault.splits)

lemma staged_ok [simp]: "staged stage (Inr v) = Inr v"
  by simp

fun stepOrder :: "swap_step_kind \<Rightarrow> int" where
  "stepOrder SwapStepApprove = 0"
| "stepOrder SwapStepPermit2 = 1"
| "stepOrder SwapStepSwap = 2"
| "stepOrder (OtherStep k) = 0"

fun stepName :: "swap_step_kind \<Rightarrow> string" where
  "stepName SwapStepApprove = ''token approval''"
| "stepName SwapStepPermit2 = ''Permit2 approval''"
| "stepName _ = ''swap''"

definition stepOutOfOrder :: "swap_step_kind \<Rightarrow> swap_step_kind \<Rightarrow> swap_fault" where
  "stepOutOfOrder requested next' =
     (if stepOrder requested < stepOrder next'
      then Moved (''the '' @ stepName requested @ '' is already in place; continue with the '' @ stepName next')
      else Moved (''the '' @ stepName next' @ '' is not confirmed on chain yet; wait for it, then continue''))"

definition checkPrice :: "swapper \<Rightarrow> swap_side \<Rightarrow> swapPlan \<Rightarrow> swap_end + unit" where
  "checkPrice Z X plan =
     rbind (staged ''quote swap'' (quoteRoute Z X (zp_route plan) (trxIn plan) (zp_amountIn plan))) (\<lambda>current.
     rcheck (\<not> current < zp_minOut plan) (Refuses ErrStateChanged) (
     let floor = go_quo (current * (10000 - maxSwapSlippageBps)) 10000 in
     rcheck (\<not> zp_minOut plan < floor) (Refuses ErrStateChanged) (Inr ())))"

definition energy_limit :: "int \<Rightarrow> int \<Rightarrow> int" where
  "energy_limit energy price = int64 \<lceil>of_int energy * of_int price * feeLimitHeadroom\<rceil>"

definition callFeeLimit :: "swap_side \<Rightarrow> int \<Rightarrow> swap_end + int" where
  "callFeeLimit X energy =
     (case retry (te_ctx (xs_E X)) (sv_nodes (xs_sv X)) (xn_ChainParams (xs_N X)) of
        Inl e \<Rightarrow> Inl (Refuses (tron_error (chainError ''read chain parameters'' e)))
      | Inr (EnergyFee, TransactionFee) \<Rightarrow> Inr (max (sv_feeLimit (xs_sv X)) (energy_limit energy EnergyFee)))"

definition word_param :: "byte list \<Rightarrow> string" where
  "word_param w = ''{'' @ [CHR 0x22] @ ''bytes32'' @ [CHR 0x22] @ '':'' @ [CHR 0x22] @ HexEncode w @ [CHR 0x22] @ ''}''"

fun comma_separated :: "string list \<Rightarrow> string" where
  "comma_separated [] = []"
| "comma_separated [s] = s"
| "comma_separated (s # ss) = s @ '','' @ comma_separated ss"

definition wordParams :: "byte list list \<Rightarrow> string" where
  "wordParams words = ''['' @ comma_separated (map word_param words) @ '']''"

text \<open>The checks of a request, up to the plan it means.\<close>

definition requested_plan :: "swapper option \<Rightarrow> swap_side \<Rightarrow> int \<Rightarrow> string \<Rightarrow> tron_swap_request \<Rightarrow> swap_fault + swapper \<times> swapPlan" where
  "requested_plan swap X now from req =
     rbind (newSwapPlan swap X now from (xq_In req) (xq_Amount req)) (\<lambda>(Z, plan).
     rbind (knownRoute Z (xq_Route req)) (\<lambda>_.
     rcheck (0 < xq_MinOut req) (Bad ''minimum output must be greater than zero'') (
     rbind (swapUnits X (swapOut (xq_In req)) (xq_MinOut req)) (\<lambda>minOut.
     Inr (Z, plan\<lparr>zp_route := xq_Route req, zp_unlimited := xq_Unlimited req, zp_minOut := minOut\<rparr>)))))"

fun step_text :: "swap_step_kind \<Rightarrow> string" where
  "step_text SwapStepApprove = ''approve''"
| "step_text SwapStepPermit2 = ''permit2''"
| "step_text SwapStepSwap = ''swap''"
| "step_text (OtherStep k) = k"

definition swap_step :: "swapper \<Rightarrow> swap_side \<Rightarrow> string \<Rightarrow> swapPlan \<Rightarrow> swap_step_kind \<Rightarrow> swap_end + tron_swap_call \<times> int \<times> byte list list" where
  "swap_step Z X from plan step =
     rbind (staged ''prepare swap'' (swapCalls Z X plan)) (\<lambda>calls.
     let next' = calls ! 0 in
     rbind (staged [] (rcheck (\<not> zc_kind next' \<noteq> step) (stepOutOfOrder step (zc_kind next')) (Inr ()))) (\<lambda>_.
     rbind (if zc_kind next' = SwapStepSwap then checkPrice Z X plan else Inr ()) (\<lambda>_.
     rbind (staged (''simulate '' @ step_text (zc_kind next')) (simulate X from next')) (\<lambda>energy.
     rbind (callFeeLimit X energy) (\<lambda>feeLimit.
     rbind (staged [] (Words (zc_call next'))) (\<lambda>words.
     Inr (next', feeLimit, words)))))))"

definition swap_intent :: "string \<Rightarrow> tron_swap_call \<Rightarrow> int \<Rightarrow> intent" where
  "swap_intent from call feeLimit =
     no_intent\<lparr>in_Kind := IntentTriggerContract, in_Owner := from, in_Contract := zc_contract call,
       in_Data := kd_Data (zc_call call), in_CallValue := zc_callValue call, in_FeeLimit := feeLimit\<rparr>"

definition swap_ends :: "swap_end \<Rightarrow> sent world" where
  "swap_ends e = (case e of Refuses err \<Rightarrow> Finished ([], Some err, []) | Panics \<Rightarrow> Dies)"

definition SwapWithSigner :: "swapper option \<Rightarrow> swap_side \<Rightarrow> int \<Rightarrow> string \<Rightarrow> tron_swap_request \<Rightarrow> family option \<Rightarrow> sent world" where
  "SwapWithSigner swap X now from req signer =
     tronSigner signer signer_required (
     case rbind (staged [] (requested_plan swap X now from req)) (\<lambda>(Z, plan). swap_step Z X from plan (xq_Step req)) of
       Inl e \<Rightarrow> swap_ends e
     | Inr (call, feeLimit, words) \<Rightarrow>
         build_and_submit (xs_L X) (xs_sv X) (xs_E X) (swap_intent from call feeLimit) (''build '' @ step_text (zc_kind call))
           (xn_TriggerContract (xs_N X) from (zc_contract call) (kd_Method (zc_call call)) (wordParams words) feeLimit (zc_callValue call))
           [from])"

end
