(* ===== verification/TronSwapQuote.thy ===== *)
theory TronSwapQuote
  imports TronSwap
begin

text \<open>
  Quoting a swap on every route (internal/tron/swap.go) and the handlers of swaps
  (internal/httpapi/swap.go): what a route pays, what each transaction it still needs costs, the order
  of the routes and what the account is missing for the best one.

  The reads of one quote share a memo, so a call has one answer in it whatever the order the routes are
  asked in; the resources and the balance of the account are what other reads of the service returned.
\<close>

section \<open>Prices\<close>

record swap_step_cost =
  ct_Kind :: swap_step_kind
  ct_Contract :: string
  ct_Energy :: int
  ct_Measured :: bool
  ct_Fee :: rat

record tron_swap_quote =
  zq_Route :: tron_swap_route
  zq_AmountOut :: rat
  zq_Steps :: "swap_step_cost list"
  zq_Fee :: rat
  zq_Value :: rat

record tron_swap_quotes =
  zs_In :: tron_asset
  zs_Out :: tron_asset
  zs_AmountIn :: rat
  zs_Quotes :: "tron_swap_quote list"
  zs_Unavailable :: "(tron_swap_route \<times> swap_fault) list"
  zs_Shortfall :: rat

text \<open>What the SDK reads from the resources of an account, and the division of \<open>decimal\<close>.\<close>

record swap_means =
  xm_AvailableEnergy :: rat
  xm_AvailableFreeBandwidth :: rat
  xm_AvailableBandwidthWithoutFree :: rat
  xm_EnergyFee :: int
  xm_TransactionFee :: int
  xm_Div :: "rat \<Rightarrow> rat \<Rightarrow> rat"

record pricing =
  pr_energyLeft :: rat
  pr_freeBandwidth :: rat
  pr_stakedBandwidth :: rat
  pr_blocked :: bool
  pr_Fee :: rat
  pr_Steps :: "swap_step_cost list"

definition measure_call :: "swap_side \<Rightarrow> swapPlan \<Rightarrow> bool \<Rightarrow> tron_swap_call \<Rightarrow> swap_fault + int option" where
  "measure_call X plan blocked call =
     (if \<not> blocked \<or> zc_kind call = SwapStepPermit2
      then (case simulate X (zp_from plan) call of
              Inr energy \<Rightarrow> Inr (Some energy)
            | Inl err \<Rightarrow> if zc_kind call \<noteq> SwapStepSwap then Inl err else Inr None)
      else Inr None)"

text \<open>The body of the loop: energy comes from what is staked first, bandwidth whole from one pool or burned.\<close>

definition price_call :: "swap_side \<Rightarrow> swap_means \<Rightarrow> swapPlan \<Rightarrow> tron_swap_call \<Rightarrow> pricing \<Rightarrow> swap_fault + pricing" where
  "price_call X M plan call p =
     rbind (measure_call X plan (pr_blocked p) call) (\<lambda>measured.
     let energy = (case measured of Some e \<Rightarrow> e | None \<Rightarrow> typicalSwapEnergy (xr_Protocol (zp_route plan)) (trxIn plan));
         burned = of_int energy - pr_energyLeft p;
         burned = (if burned < 0 then 0 else burned);
         size = of_nat (length (kd_Data (zc_call call)) + swapTxOverhead);
         fee = burned * of_int (xm_EnergyFee M);
         staked_covers = size \<le> pr_stakedBandwidth p;
         free_covers = \<not> staked_covers \<and> size \<le> pr_freeBandwidth p;
         fee = (if staked_covers \<or> free_covers then fee else fee + size * of_int (xm_TransactionFee M));
         fee = fee / 10 ^ 6
     in Inr \<lparr>pr_energyLeft = max 0 (pr_energyLeft p - of_int energy),
           pr_freeBandwidth = (if free_covers then pr_freeBandwidth p - size else pr_freeBandwidth p),
           pr_stakedBandwidth = (if staked_covers then pr_stakedBandwidth p - size else pr_stakedBandwidth p),
           pr_blocked = (pr_blocked p \<or> zc_kind call = SwapStepApprove),
           pr_Fee = pr_Fee p + fee,
           pr_Steps = pr_Steps p @ [\<lparr>ct_Kind = zc_kind call, ct_Contract = zc_contract call, ct_Energy = energy,
             ct_Measured = (measured \<noteq> None), ct_Fee = fee\<rparr>]\<rparr>)"

fun price_calls :: "swap_side \<Rightarrow> swap_means \<Rightarrow> swapPlan \<Rightarrow> tron_swap_call list \<Rightarrow> pricing \<Rightarrow> swap_fault + pricing" where
  "price_calls X M plan [] p = Inr p"
| "price_calls X M plan (call # calls) p = rbind (price_call X M plan call p) (price_calls X M plan calls)"

definition priceRoute :: "swapper \<Rightarrow> swap_side \<Rightarrow> swap_means \<Rightarrow> swapPlan \<Rightarrow> int \<Rightarrow> swap_fault + tron_swap_quote" where
  "priceRoute Z X M plan amountOut =
     (let plan = plan\<lparr>zp_minOut := 0\<rparr> in
      rbind (swapCalls Z X plan) (\<lambda>calls.
      rbind (price_calls X M plan calls
          \<lparr>pr_energyLeft = xm_AvailableEnergy M, pr_freeBandwidth = xm_AvailableFreeBandwidth M,
           pr_stakedBandwidth = xm_AvailableBandwidthWithoutFree M, pr_blocked = False, pr_Fee = 0, pr_Steps = []\<rparr>) (\<lambda>p.
      let out = swapDecimal X (swapOut (zp_in plan)) amountOut in
      Inr \<lparr>zq_Route = zp_route plan, zq_AmountOut = out, zq_Steps = pr_Steps p, zq_Fee = pr_Fee p,
        zq_Value = (if trxIn plan then out - pr_Fee p * xm_Div M out (swapDecimal X AssetTRX (zp_amountIn plan))
                    else out - pr_Fee p)\<rparr>)))"

section \<open>Quotes\<close>

text \<open>One route: no quote when its pool pays nothing.\<close>

definition route_quote :: "swapper \<Rightarrow> swap_side \<Rightarrow> swap_means \<Rightarrow> swapPlan \<Rightarrow> tron_swap_route \<Rightarrow> swap_fault + tron_swap_quote option" where
  "route_quote Z X M plan route =
     rbind (quoteRoute Z X route (trxIn plan) (zp_amountIn plan)) (\<lambda>amount.
     if amount \<le> 0 then Inr None
     else rbind (priceRoute Z X M (plan\<lparr>zp_route := route\<rparr>) amount) (\<lambda>quote. Inr (Some quote)))"

fun priced_routes :: "(tron_swap_route \<times> (swap_fault + tron_swap_quote option)) list \<Rightarrow> tron_swap_quote list" where
  "priced_routes [] = []"
| "priced_routes ((route, Inr (Some quote)) # rs) = quote # priced_routes rs"
| "priced_routes (_ # rs) = priced_routes rs"

fun failed_routes :: "(tron_swap_route \<times> (swap_fault + tron_swap_quote option)) list \<Rightarrow> (tron_swap_route \<times> swap_fault) list" where
  "failed_routes [] = []"
| "failed_routes ((route, Inl f) # rs) = (route, f) # failed_routes rs"
| "failed_routes (_ # rs) = failed_routes rs"

definition tron_QuoteSwap ::
  "swapper option \<Rightarrow> swap_side \<Rightarrow> int \<Rightarrow> (swap_fault + swap_means) \<Rightarrow> (swap_fault + rat) \<Rightarrow> string \<Rightarrow> tron_asset \<Rightarrow> rat \<Rightarrow> bool
     \<Rightarrow> swap_end + tron_swap_quotes" where
  "tron_QuoteSwap swap X now means balance from asset amount unlimited =
     rbind (staged [] (newSwapPlan swap X now from asset amount)) (\<lambda>(Z, plan).
     let plan = plan\<lparr>zp_unlimited := unlimited\<rparr> in
     rbind (staged ''quote swap'' means) (\<lambda>M.
     rbind (staged ''quote swap'' balance) (\<lambda>balance.
     let results = map (\<lambda>route. (route, route_quote Z X M plan route)) (swapRoutes Z) in
     rcheck (\<not> list_ex (\<lambda>(route, f). f = FaultPanic) (failed_routes results)) Panics (
     let quotes = sort_key (\<lambda>quote. - zq_Value quote) (priced_routes results);
         need = (case quotes of [] \<Rightarrow> 0 | best # _ \<Rightarrow> if trxIn plan then zq_Fee best + amount else zq_Fee best);
         missing = need - balance
     in Inr \<lparr>zs_In = asset, zs_Out = swapOut asset, zs_AmountIn = amount, zs_Quotes = quotes, zs_Unavailable = failed_routes results,
          zs_Shortfall = (if quotes \<noteq> [] \<and> 0 < missing then missing else 0)\<rparr>))))"

section \<open>Handlers\<close>

definition swapAsset :: "string \<Rightarrow> tron_asset option" where
  "swapAsset value' = (if value' = ''trx'' then Some AssetTRX else if value' = ''usdt'' then Some AssetUSDT else None)"

record swap_quote_body =
  wq_In :: string
  wq_Amount :: string
  wq_Unlimited :: bool

record swap_body =
  wb_In :: string
  wb_Amount :: string
  wb_MinOut :: string
  wb_Route :: tron_swap_route
  wb_Step :: string
  wb_Unlimited :: bool

definition decode_asset :: "string \<Rightarrow> reply + tron_asset" where
  "decode_asset value' =
     (case swapAsset value' of None \<Rightarrow> Inl (RefusedReply 400 ''in must be trx or usdt'') | Some asset \<Rightarrow> Inr asset)"

definition decode_step :: "string \<Rightarrow> reply + swap_step_kind" where
  "decode_step value' =
     (if value' = ''approve'' then Inr SwapStepApprove
      else if value' = ''permit2'' then Inr SwapStepPermit2
      else if value' = ''swap'' then Inr SwapStepSwap
      else Inl (RefusedReply 400 ''step must be approve, permit2 or swap''))"

definition decodeTronSwap :: "tron_lib \<Rightarrow> swap_body option \<Rightarrow> reply + tron_swap_request" where
  "decodeTronSwap L body =
     (case body of None \<Rightarrow> Inl (RefusedReply 400 ''invalid JSON body'') | Some request \<Rightarrow>
        rbind (decode_asset (wb_In request)) (\<lambda>asset.
        rbind (decode_amount L (wb_Amount request) ''invalid amount'') (\<lambda>amount.
        rbind (decode_amount L (wb_MinOut request) ''invalid min_out'') (\<lambda>minOut.
        rbind (decode_step (wb_Step request)) (\<lambda>step.
        Inr \<lparr>xq_In = asset, xq_Amount = amount, xq_MinOut = minOut, xq_Route = wb_Route request, xq_Step = step,
          xq_Unlimited = wb_Unlimited request\<rparr>)))))"

text \<open>What a network gives a swap: its service with the swapper it was built with, or the error of building it.\<close>

record swap_network =
  xw_service :: "string \<Rightarrow> chain_error + tron_service \<times> swapper option"
  xw_L :: tron_lib
  xw_B :: abi_lib
  xw_E :: tron_run
  xw_N :: tron_swap_node
  xw_now :: int

definition swap_side_of :: "swap_network \<Rightarrow> tron_service \<Rightarrow> swap_side" where
  "swap_side_of W sv = \<lparr>xs_L = xw_L W, xs_B = xw_B W, xs_sv = sv, xs_E = xw_E W, xs_N = xw_N W\<rparr>"

text \<open>The methods of the adapter.\<close>

definition adapter_Swap :: "swap_network \<Rightarrow> string \<Rightarrow> string \<Rightarrow> tron_swap_request \<Rightarrow> family option \<Rightarrow> sent world" where
  "adapter_Swap W networkID from req signer =
     (case xw_service W networkID of
        Inl e \<Rightarrow> Finished ([], Some e, [])
      | Inr (sv, swap) \<Rightarrow> SwapWithSigner swap (swap_side_of W sv) (xw_now W) from req signer)"

definition adapter_QuoteSwap ::
  "swap_network \<Rightarrow> (swap_fault + swap_means) \<Rightarrow> (swap_fault + rat) \<Rightarrow> string \<Rightarrow> string \<Rightarrow> tron_asset \<Rightarrow> rat \<Rightarrow> bool \<Rightarrow> swap_end + tron_swap_quotes" where
  "adapter_QuoteSwap W means balance networkID from asset amount unlimited =
     (case xw_service W networkID of
        Inl e \<Rightarrow> Inl (Refuses e)
      | Inr (sv, swap) \<Rightarrow> tron_QuoteSwap swap (swap_side_of W sv) (xw_now W) means balance from asset amount unlimited)"

text \<open>A quote answers with the quotes, with a refusal, or not at all.\<close>

definition tronSwapQuote ::
  "platform_ctx \<Rightarrow> step_env \<Rightarrow> swap_network \<Rightarrow> (swap_fault + swap_means) \<Rightarrow> (swap_fault + rat) \<Rightarrow> tron_path \<Rightarrow> swap_quote_body option \<Rightarrow> manager
     \<Rightarrow> manager \<times> (reply + tron_swap_quotes) option" where
  "tronSwapQuote C ev W means balance P body m =
     (case (case body of None \<Rightarrow> Inl (RefusedReply 400 ''invalid JSON body'') | Some request \<Rightarrow>
              rbind (decode_asset (wq_In request)) (\<lambda>asset.
              rbind (decode_amount (xw_L W) (wq_Amount request) ''invalid amount'') (\<lambda>amount. Inr (asset, amount, wq_Unlimited request)))) of
        Inl r \<Rightarrow> (m, Some (Inl r))
      | Inr (asset, amount, unlimited) \<Rightarrow>
          (case tronAccount C ev (tp_space P) (tp_network P) (tp_account P) m of
             (m, Inl r) \<Rightarrow> (m, Some (Inl r))
           | (m, Inr (item, acc, address)) \<Rightarrow>
               (case adapter_QuoteSwap W means balance (nw_ID item) address asset amount unlimited of
                  Inl Panics \<Rightarrow> (m, None)
                | Inl (Refuses e) \<Rightarrow> (m, Some (Inl (writePlatformError (ChainFlow e))))
                | Inr quotes \<Rightarrow> (m, Some (Inr quotes)))))"

definition tronSwap ::
  "platform_ctx \<Rightarrow> request_env \<Rightarrow> swap_network \<Rightarrow> tron_path \<Rightarrow> (swap_body \<Rightarrow> byte list option) \<Rightarrow> swap_body option \<Rightarrow> platform \<Rightarrow> answered" where
  "tronSwap C E W P marshal body =
     tron_handler C E P (Option.bind body marshal) (decodeTronSwap (xw_L W) body)
       (\<lambda>item address req. adapter_Swap W (nw_ID item) address req (Some FamilyTron))
       (finish_sent (rq_finish E) (tp_space P))"

section \<open>The order of the quotes\<close>

lemma priced_routes_mem: "quote \<in> set (priced_routes rs) \<longleftrightarrow> (\<exists>route. (route, Inr (Some quote)) \<in> set rs)"
  by (induction rs rule: priced_routes.induct) auto

lemma price_call_step:
  "price_call X M plan call p = Inr r \<Longrightarrow>
     pr_Steps r = pr_Steps p @ [last (pr_Steps r)] \<and> pr_Fee r = pr_Fee p + ct_Fee (last (pr_Steps r)) \<and>
     ct_Kind (last (pr_Steps r)) = zc_kind call"
  by (auto simp: price_call_def rbind_eq_Inr Let_def)

lemma price_calls_sum:
  "price_calls X M plan calls p = Inr q \<Longrightarrow>
     pr_Fee q = pr_Fee p + sum_list (map ct_Fee (drop (length (pr_Steps p)) (pr_Steps q))) \<and>
     map ct_Kind (pr_Steps q) = map ct_Kind (pr_Steps p) @ map zc_kind calls \<and> take (length (pr_Steps p)) (pr_Steps q) = pr_Steps p"
proof (induction calls arbitrary: p)
  case (Cons call calls)
  obtain r where r: "price_call X M plan call p = Inr r" "price_calls X M plan calls r = Inr q"
    using Cons.prems by (auto simp: rbind_eq_Inr)
  obtain s where s: "pr_Steps r = pr_Steps p @ [s]" "pr_Fee r = pr_Fee p + ct_Fee s" "ct_Kind s = zc_kind call"
    using price_call_step [OF r(1)] by blast
  note IH = Cons.IH [OF r(2)]
  have "pr_Steps q = pr_Steps r @ drop (length (pr_Steps r)) (pr_Steps q)" using IH by (metis append_take_drop_id)
  then obtain rest where q: "pr_Steps q = pr_Steps p @ s # rest" "rest = drop (length (pr_Steps r)) (pr_Steps q)"
    using s(1) by simp
  have "drop (length (pr_Steps p)) (pr_Steps q) = s # rest" "take (length (pr_Steps p)) (pr_Steps q) = pr_Steps p" unfolding q(1) by simp_all
  then show ?case using IH s q(2) by simp
qed simp

text \<open>A quote lists the transactions that are still needed, in their order, and its fee is their sum.\<close>

lemma priceRoute_fees:
  assumes "priceRoute Z X M plan amount = Inr quote"
  shows "zq_Route quote = zp_route plan \<and> zq_Fee quote = sum_list (map ct_Fee (zq_Steps quote)) \<and>
    (\<exists>calls. swapCalls Z X (plan\<lparr>zp_minOut := 0\<rparr>) = Inr calls \<and> map ct_Kind (zq_Steps quote) = map zc_kind calls)"
proof -
  obtain calls p where c: "swapCalls Z X (plan\<lparr>zp_minOut := 0\<rparr>) = Inr calls"
    "price_calls X M (plan\<lparr>zp_minOut := 0\<rparr>) calls \<lparr>pr_energyLeft = xm_AvailableEnergy M, pr_freeBandwidth = xm_AvailableFreeBandwidth M,
       pr_stakedBandwidth = xm_AvailableBandwidthWithoutFree M, pr_blocked = False, pr_Fee = 0, pr_Steps = []\<rparr> = Inr p"
    "zq_Route quote = zp_route plan" "zq_Fee quote = pr_Fee p" "zq_Steps quote = pr_Steps p"
    using assms by (auto simp: priceRoute_def rbind_eq_Inr Let_def)
  then show ?thesis using price_calls_sum [OF c(2)] by simp
qed

lemma tron_QuoteSwap_sorted:
  assumes "tron_QuoteSwap swap X now means balance from asset amount unlimited = Inr quotes"
  shows "sorted (map (\<lambda>quote. - zq_Value quote) (zs_Quotes quotes)) \<and> 0 \<le> zs_Shortfall quotes \<and>
    (\<forall>quote\<in>set (zs_Quotes quotes). zq_Fee quote = sum_list (map ct_Fee (zq_Steps quote)) \<and> (\<exists>Z. swap = Some Z \<and> zq_Route quote \<in> set (swapRoutes Z)))"
proof -
  obtain Z plan where x: "newSwapPlan swap X now from asset amount = Inr (Z, plan)"
    using assms by (auto simp: tron_QuoteSwap_def rbind_eq_Inr)
  obtain M where M: "means = Inr M" using assms by (auto simp: tron_QuoteSwap_def x rbind_eq_Inr Let_def)
  obtain held where b: "balance = Inr held" using assms by (auto simp: tron_QuoteSwap_def x M rbind_eq_Inr Let_def)
  have "zs_Quotes quotes = sort_key (\<lambda>quote. - zq_Value quote)
       (priced_routes (map (\<lambda>route. (route, route_quote Z X M (plan\<lparr>zp_unlimited := unlimited\<rparr>) route)) (swapRoutes Z))) \<and>
     0 \<le> zs_Shortfall quotes"
    using assms by (auto simp: tron_QuoteSwap_def x M b rcheck_eq_Inr Let_def)
  note q = x this
  have "swap = Some Z" using q(1) by (auto simp: newSwapPlan_def rbind_eq_Inr rcheck_eq_Inr split: option.splits)
  moreover have "zq_Route quote = route \<and> zq_Fee quote = sum_list (map ct_Fee (zq_Steps quote))"
    if "route_quote Z X M p route = Inr (Some quote)" for p route quote
    using that priceRoute_fees by (fastforce simp: route_quote_def rbind_eq_Inr split: if_splits)
  ultimately show ?thesis using q(2) by (auto simp: priced_routes_mem)
qed

end
