(* ===== verification/TronSwapProperties.thy ===== *)
theory TronSwapProperties
  imports TronSwapQuote
begin

text \<open>
  What a Tron swap signs: the next step of the swap that was asked for, and nothing a node could put in
  its place. The terms of a plan are stated apart from the code that builds it; the lemmas take the
  plan, the calls it needs and the step that is signed one by one.
\<close>

section \<open>The terms of a swap\<close>

text \<open>The decimals of an asset: six of TRX, the configured ones of the token.\<close>

definition asset_decimals :: "swap_side \<Rightarrow> tron_asset \<Rightarrow> nat" where
  "asset_decimals X asset = (if asset = AssetTRX then 6 else nat (sv_Decimals (xs_sv X)))"

definition plan_of :: "swapper option \<Rightarrow> swap_side \<Rightarrow> string \<Rightarrow> tron_swap_request \<Rightarrow> swapper \<Rightarrow> swapPlan \<Rightarrow> bool" where
  "plan_of swap X from req Z plan \<longleftrightarrow> swap = Some Z \<and> tl_Validate (xs_L X) from \<and> 0 < xq_Amount req \<and> 0 < xq_MinOut req \<and>
     EVMAddress (xs_L X) from = Inr (zp_owner plan) \<and> zp_in plan = xq_In req \<and> xq_In req \<in> {AssetTRX, AssetUSDT} \<and>
     of_int (zp_amountIn plan) = xq_Amount req * 10 ^ asset_decimals X (xq_In req) \<and>
     of_int (zp_minOut plan) = xq_MinOut req * 10 ^ asset_decimals X (if xq_In req = AssetTRX then AssetUSDT else AssetTRX) \<and>
     (xq_In req = AssetTRX \<longrightarrow> zp_amountIn plan < 2 ^ 63) \<and>
     zp_route plan = xq_Route req \<and> xq_Route req \<in> set (swapRoutes Z) \<and> zp_unlimited plan = xq_Unlimited req"

text \<open>The amounts of the SDK are exact, and an amount of TRX is held in 64 bits.\<close>

definition sun_amounts :: "tron_lib \<Rightarrow> bool" where
  "sun_amounts L \<longleftrightarrow> exact_amounts L \<and> (\<forall>d s. tl_FromTRX L d = Some s \<longrightarrow> s < 2 ^ 63)"

lemma swapUnits_exact:
  assumes "sun_amounts (xs_L X)" "swapUnits X asset amount = Inr units"
  shows "of_int units = amount * 10 ^ asset_decimals X asset" "asset = AssetTRX \<Longrightarrow> units < 2 ^ 63" "asset \<in> {AssetTRX, AssetUSDT}"
  using assms by (cases asset; auto simp: swapUnits_def faulted_def trxAmount_def tokenAmount_def sun_amounts_def exact_amounts_def
      asset_decimals_def split: option.splits)+

lemma requested_plan_of:
  assumes "sun_amounts (xs_L X)" "requested_plan swap X now from req = Inr (Z, plan)"
  shows "plan_of swap X from req Z plan \<and> zp_now plan = now"
proof -
  obtain units minOut where u: "swapUnits X (xq_In req) (xq_Amount req) = Inr units"
    "swapUnits X (swapOut (xq_In req)) (xq_MinOut req) = Inr minOut" "zp_amountIn plan = units" "zp_minOut plan = minOut"
    using assms(2) by (auto simp: requested_plan_def newSwapPlan_def rbind_eq_Inr rcheck_eq_Inr split: option.splits sum.splits)
  note e = swapUnits_exact [OF assms(1) u(1)] swapUnits_exact [OF assms(1) u(2)]
  have "swap = Some Z \<and> tl_Validate (xs_L X) from \<and> 0 < xq_Amount req \<and> 0 < xq_MinOut req \<and> EVMAddress (xs_L X) from = Inr (zp_owner plan) \<and>
      zp_in plan = xq_In req \<and> zp_route plan = xq_Route req \<and> xq_Route req \<in> set (swapRoutes Z) \<and> zp_unlimited plan = xq_Unlimited req \<and>
      zp_now plan = now"
    using assms(2) by (auto simp: requested_plan_def newSwapPlan_def knownRoute_def rbind_eq_Inr rcheck_eq_Inr
        split: option.splits sum.splits if_splits)
  then show ?thesis using e u(3,4) by (simp add: plan_of_def swapOut_def)
qed

text \<open>What a call is: the method of a contract and its arguments, as the SDK packs them.\<close>

definition asks :: "abi_lib \<Rightarrow> abi \<Rightarrow> string \<Rightarrow> abi_value list \<Rightarrow> Calldata \<Rightarrow> bool" where
  "asks B contract method args call \<longleftrightarrow> ab_pack B contract method args = Some (kd_Data call) \<and> kd_Method call = ab_sig B contract method"

lemma pack_Inr: "pack B contract method args = Inr call \<longleftrightarrow> asks B contract method args call"
  by (cases call) (auto simp: pack_def asks_def split: option.splits)

lemma args_pack_Inr: "args_pack B types args = Inr data \<longleftrightarrow> ab_args B types args = Some data"
  by (simp add: args_pack_def split: option.splits)

text \<open>What a node answers when it is asked.\<close>

definition reads :: "swap_side \<Rightarrow> string \<Rightarrow> abi \<Rightarrow> string \<Rightarrow> abi_value list \<Rightarrow> abi_value list \<Rightarrow> bool" where
  "reads X address contract method args values \<longleftrightarrow>
     (\<exists>call raw energy. asks (xs_B X) contract method args call \<and> runConstantCall X [] address call 0 = Inr (raw, energy) \<and>
        ab_unpack (xs_B X) contract method raw = Some values)"

text \<open>Whether the token, and on V4 the grant of Permit2 as well, covers the amount sold.\<close>

definition drawer :: "swapper \<Rightarrow> swapPlan \<Rightarrow> byte list" where
  "drawer Z plan =
     (case xr_Protocol (zp_route plan) of
        SwapV2 \<Rightarrow> da_V2Router (sw_addrs Z) | SwapV3 \<Rightarrow> da_V3Router (sw_addrs Z)
      | SwapV4 \<Rightarrow> da_Permit2 (sw_addrs Z) | OtherProtocol p \<Rightarrow> da_V2Router (sw_addrs Z))"

definition deadline_of :: "swapPlan \<Rightarrow> int" where
  "deadline_of plan = (zp_now plan + 180 * 10 ^ 9) div 10 ^ 9"

definition token_covers :: "swapper \<Rightarrow> swap_side \<Rightarrow> swapPlan \<Rightarrow> bool \<Rightarrow> bool" where
  "token_covers Z X plan covered \<longleftrightarrow>
     (\<exists>allowed rest. reads X (dy_Token (sw_deployment Z)) erc20ABI ''allowance'' [AbiAddress (zp_owner plan), AbiAddress (drawer Z plan)]
        (AbiInt allowed # rest) \<and> covered = (zp_amountIn plan \<le> allowed))"

definition permit_covers :: "swapper \<Rightarrow> swap_side \<Rightarrow> swapPlan \<Rightarrow> bool \<Rightarrow> bool" where
  "permit_covers Z X plan covered \<longleftrightarrow>
     (if xr_Protocol (zp_route plan) \<noteq> SwapV4 then covered
      else \<exists>amount expiration rest. reads X (dy_Permit2 (sw_deployment Z)) permit2ABI ''allowance''
          [AbiAddress (zp_owner plan), AbiAddress (da_Token (sw_addrs Z)), AbiAddress (da_UniversalRouter (sw_addrs Z))]
          (AbiInt amount # AbiInt expiration # rest) \<and>
        covered = (zp_amountIn plan \<le> amount \<and> (word_of_int (deadline_of plan) :: u64) \<le> word_of_int expiration))"

text \<open>The two approvals: the amount, or the most a contract holds when unlimited was asked for.\<close>

definition approval_of :: "swapper \<Rightarrow> swap_side \<Rightarrow> swapPlan \<Rightarrow> Calldata \<Rightarrow> bool" where
  "approval_of Z X plan call \<longleftrightarrow> asks (xs_B X) erc20ABI ''approve''
     [AbiAddress (drawer Z plan), AbiInt (if zp_unlimited plan then 2 ^ 256 - 1 else zp_amountIn plan)] call"

definition grant_of :: "swapper \<Rightarrow> swap_side \<Rightarrow> swapPlan \<Rightarrow> Calldata \<Rightarrow> bool" where
  "grant_of Z X plan call \<longleftrightarrow> asks (xs_B X) permit2ABI ''approve''
     [AbiAddress (da_Token (sw_addrs Z)), AbiAddress (da_UniversalRouter (sw_addrs Z)),
      AbiInt (if zp_unlimited plan then 2 ^ 160 - 1 else zp_amountIn plan),
      AbiInt ((zp_now plan + (if zp_unlimited plan then 30 * 24 * 3600 * 10 ^ 9 else 3600 * 10 ^ 9)) div 10 ^ 9 mod 2 ^ 64)] call"

section \<open>The terms of a trade\<close>

text \<open>Each router's own words for it: so much of the one asset, at least the minimum of the other, to the
  owner, before the deadline.\<close>

definition v2_trade :: "abi_lib \<Rightarrow> Addresses \<Rightarrow> swapPlan \<Rightarrow> Calldata \<Rightarrow> bool" where
  "v2_trade B a plan call \<longleftrightarrow>
     (if zp_in plan = AssetTRX
      then asks B v2RouterABI ''swapExactETHForTokens'' [AbiInt (zp_minOut plan), AbiList [AbiAddress (da_WTRX a), AbiAddress (da_Token a)],
          AbiAddress (zp_owner plan), AbiInt (deadline_of plan)] call
      else asks B v2RouterABI ''swapExactTokensForETH'' [AbiInt (zp_amountIn plan), AbiInt (zp_minOut plan),
          AbiList [AbiAddress (da_Token a), AbiAddress (da_WTRX a)], AbiAddress (zp_owner plan), AbiInt (deadline_of plan)] call)"

definition v3_single :: "swapPlan \<Rightarrow> byte list \<Rightarrow> byte list \<Rightarrow> byte list \<Rightarrow> abi_value list" where
  "v3_single plan sold bought receiver =
     [AbiTuple [AbiAddress sold, AbiAddress bought, AbiInt (uint (xr_Fee (zp_route plan))), AbiAddress receiver,
        AbiInt (deadline_of plan), AbiInt (zp_amountIn plan), AbiInt (zp_minOut plan), AbiInt 0]]"

definition v3_trade :: "abi_lib \<Rightarrow> Addresses \<Rightarrow> swapPlan \<Rightarrow> Calldata \<Rightarrow> bool" where
  "v3_trade B a plan call \<longleftrightarrow>
     (if zp_in plan = AssetTRX
      then asks B v3RouterABI ''exactInputSingle'' (v3_single plan (da_WTRX a) (da_Token a) (zp_owner plan)) call
      else \<exists>swap unwrap.
        ab_pack B v3RouterABI ''exactInputSingle'' (v3_single plan (da_Token a) (da_WTRX a) (replicate 20 0)) = Some swap \<and>
        ab_pack B v3RouterABI ''unwrapWETH9'' [AbiInt (zp_minOut plan), AbiAddress (zp_owner plan)] = Some unwrap \<and>
        asks B v3RouterABI ''multicall'' [AbiList [AbiBytes swap, AbiBytes unwrap]] call)"

text \<open>On V4 a script: settle what is sold, swap it in the pool, take both sides into the router, and sweep
  what was bought, at least the minimum, to the sender of the call (the address 1).\<close>

definition v4_pool :: "Addresses \<Rightarrow> swapPlan \<Rightarrow> abi_value" where
  "v4_pool a plan =
     AbiTuple [AbiAddress (replicate 20 0), AbiAddress (da_Token a), AbiAddress (replicate 20 0), AbiInt (uint (xr_Fee (zp_route plan))),
       AbiWord (put_be 32 (nat \<bar>int64 (push_bit 16 (xr_TickSpacing (zp_route plan)))\<bar>))]"

definition v4_trade :: "abi_lib \<Rightarrow> Addresses \<Rightarrow> swapPlan \<Rightarrow> Calldata \<Rightarrow> bool" where
  "v4_trade B a plan call \<longleftrightarrow>
     (let trx = replicate 20 0; router = replicate 19 0 @ [2]; sender = replicate 19 0 @ [1];
          sold = (if zp_in plan = AssetTRX then trx else da_Token a);
          bought = (if zp_in plan = AssetTRX then da_Token a else trx) in
      \<exists>settle swap takeBought takeSold script sweep.
        ab_args B settleArgs [AbiAddress sold, AbiInt (zp_amountIn plan), AbiBool (sold \<noteq> trx)] = Some settle \<and>
        ab_args B clSwapArgs [AbiTuple [v4_pool a plan, AbiBool (zp_in plan = AssetTRX), AbiInt 0, AbiInt 0, AbiBytes []]] = Some swap \<and>
        ab_args B takeArgs [AbiAddress bought, AbiAddress router, AbiInt 0] = Some takeBought \<and>
        ab_args B takeArgs [AbiAddress sold, AbiAddress router, AbiInt 0] = Some takeSold \<and>
        ab_args B v4SwapArgs [AbiBytes [0x0b, 0x06, 0x0e, 0x0e],
          AbiList [AbiBytes settle, AbiBytes swap, AbiBytes takeBought, AbiBytes takeSold]] = Some script \<and>
        zp_minOut plan < 2 ^ 160 \<and>
        ab_args B sweepArgs [AbiAddress bought, AbiAddress sender, AbiInt (zp_minOut plan)] = Some sweep \<and>
        asks B universalRouterABI ''execute'' [AbiBytes [0x12, 0x04], AbiList [AbiBytes script, AbiBytes sweep], AbiInt (deadline_of plan)] call)"

definition trade_of :: "swapper \<Rightarrow> swap_side \<Rightarrow> swapPlan \<Rightarrow> string \<Rightarrow> Calldata \<Rightarrow> bool" where
  "trade_of Z X plan contract call \<longleftrightarrow>
     (case xr_Protocol (zp_route plan) of
        SwapV2 \<Rightarrow> contract = dy_V2Router (sw_deployment Z) \<and> v2_trade (xs_B X) (sw_addrs Z) plan call
      | SwapV3 \<Rightarrow> contract = dy_V3Router (sw_deployment Z) \<and> v3_trade (xs_B X) (sw_addrs Z) plan call
      | SwapV4 \<Rightarrow> contract = dy_UniversalRouter (sw_deployment Z) \<and> v4_trade (xs_B X) (sw_addrs Z) plan call
      | OtherProtocol p \<Rightarrow> False)"

text \<open>The transaction a swap needs next.\<close>

definition next_step :: "swapper \<Rightarrow> swap_side \<Rightarrow> swapPlan \<Rightarrow> tron_swap_call \<Rightarrow> bool" where
  "next_step Z X plan call \<longleftrightarrow>
     (case zc_kind call of
        SwapStepApprove \<Rightarrow>
          zp_in plan \<noteq> AssetTRX \<and> token_covers Z X plan False \<and> zc_contract call = dy_Token (sw_deployment Z) \<and> zc_callValue call = 0 \<and>
          approval_of Z X plan (zc_call call)
      | SwapStepPermit2 \<Rightarrow>
          zp_in plan \<noteq> AssetTRX \<and> xr_Protocol (zp_route plan) = SwapV4 \<and> token_covers Z X plan True \<and> permit_covers Z X plan False \<and>
          zc_contract call = dy_Permit2 (sw_deployment Z) \<and> zc_callValue call = 0 \<and> grant_of Z X plan (zc_call call)
      | SwapStepSwap \<Rightarrow>
          (zp_in plan = AssetTRX \<or> token_covers Z X plan True \<and> permit_covers Z X plan True) \<and>
          zc_callValue call = (if zp_in plan = AssetTRX then zp_amountIn plan else 0) \<and> trade_of Z X plan (zc_contract call) (zc_call call)
      | OtherStep k \<Rightarrow> False)"

text \<open>The minimum that is signed: what the route pays now, less five per cent at most.\<close>

definition near_market :: "swapper \<Rightarrow> swap_side \<Rightarrow> swapPlan \<Rightarrow> bool" where
  "near_market Z X plan \<longleftrightarrow>
     (\<exists>current. quoteRoute Z X (zp_route plan) (trxIn plan) (zp_amountIn plan) = Inr current \<and>
        zp_minOut plan \<le> current \<and> 19 * current < 20 * zp_minOut plan + 20)"

definition swap_step_effect :: "swapper option \<Rightarrow> swap_side \<Rightarrow> int \<Rightarrow> string \<Rightarrow> tron_swap_request \<Rightarrow> effect \<Rightarrow> int \<Rightarrow> bool" where
  "swap_step_effect swap X now from req e fee \<longleftrightarrow>
     (\<exists>Z plan call raw energy price bytePrice j. plan_of swap X from req Z plan \<and> zp_now plan = now \<and>
        next_step Z X plan call \<and> zc_kind call = xq_Step req \<and> (xq_Step req = SwapStepSwap \<longrightarrow> near_market Z X plan) \<and>
        e = Call (addr (xs_L X) from) (addr (xs_L X) (zc_contract call)) (kd_Data (zc_call call)) (zc_callValue call) \<and>
        runConstantCall X from (zc_contract call) (zc_call call) (zc_callValue call) = Inr (raw, energy) \<and>
        xn_ChainParams (xs_N X) j = Inr (price, bytePrice) \<and>
        fee = max (sv_feeLimit (xs_sv X)) (energy_limit energy price))"

section \<open>The calls of a plan\<close>

lemma big_at_0: "big_at vs 0 = Inr n \<longleftrightarrow> (\<exists>rest. vs = AbiInt n # rest)"
  by (cases vs) (auto simp: big_at_def split: abi_value.splits)

lemma big_at_1: "big_at (v # vs) 1 = Inr n \<longleftrightarrow> (\<exists>rest. vs = AbiInt n # rest)"
  by (cases vs) (auto simp: big_at_def split: abi_value.splits)

lemma unpack_Inr: "unpack B contract method data = Inr vs \<longleftrightarrow> ab_unpack B contract method data = Some vs"
  by (simp add: unpack_def split: option.splits)

lemma deadline_eq: "unix (zp_now plan + swapDeadline) = deadline_of plan"
  by (simp add: unix_def deadline_of_def swapDeadline_def second_def)

lemma spenderAddr_eq: "spenderAddr Z (zp_route plan) = drawer Z plan"
  by (simp add: spenderAddr_def drawer_def split: swap_protocol.splits)

lemma allowance_reads:
  assumes "allowance Z X owner spender = Inr allowed"
  shows "\<exists>rest. reads X (dy_Token (sw_deployment Z)) erc20ABI ''allowance'' [AbiAddress owner, AbiAddress spender] (AbiInt allowed # rest)"
proof -
  obtain call raw energy vs where r: "asks (xs_B X) erc20ABI ''allowance'' [AbiAddress owner, AbiAddress spender] call"
    "runConstantCall X [] (dy_Token (sw_deployment Z)) call 0 = Inr (raw, energy)"
    "ab_unpack (xs_B X) erc20ABI ''allowance'' raw = Some vs" "big_at vs 0 = Inr allowed"
    using assms by (auto simp: allowance_def read_call_def Allowance_def DecodeAllowance_def rbind_eq_Inr pack_Inr unpack_Inr)
  then show ?thesis unfolding big_at_0 reads_def by blast
qed

lemma permit2Allowance_reads:
  assumes "permit2Allowance Z X owner = Inr (amount, expires)"
  shows "\<exists>expiration rest. expires = word_of_int expiration \<and> reads X (dy_Permit2 (sw_deployment Z)) permit2ABI ''allowance''
    [AbiAddress owner, AbiAddress (da_Token (sw_addrs Z)), AbiAddress (da_UniversalRouter (sw_addrs Z))] (AbiInt amount # AbiInt expiration # rest)"
proof -
  let ?args = "[AbiAddress owner, AbiAddress (da_Token (sw_addrs Z)), AbiAddress (da_UniversalRouter (sw_addrs Z))]"
  obtain call raw energy vs expiration where r: "asks (xs_B X) permit2ABI ''allowance'' ?args call"
    "runConstantCall X [] (dy_Permit2 (sw_deployment Z)) call 0 = Inr (raw, energy)"
    "ab_unpack (xs_B X) permit2ABI ''allowance'' raw = Some vs" "big_at vs 0 = Inr amount" "big_at vs 1 = Inr expiration"
    "expires = word_of_int expiration"
    using assms by (auto simp: permit2Allowance_def read_call_def Permit2Allowance_def DecodePermit2Allowance_def rbind_eq_Inr
        pack_Inr unpack_Inr Let_def)
  obtain rest where "vs = AbiInt amount # rest" using r(4) by (auto simp: big_at_0)
  moreover from this obtain rest' where "rest = AbiInt expiration # rest'" using r(5) by (auto simp only: big_at_1)
  ultimately show ?thesis using r(1-3,6) unfolding reads_def by blast
qed

lemma approveCalls_cases:
  assumes "approveCalls Z X plan = Inr calls"
  shows "calls = [] \<and> token_covers Z X plan True \<or>
    (\<exists>call. calls = [\<lparr>zc_kind = SwapStepApprove, zc_contract = dy_Token (sw_deployment Z), zc_call = call, zc_callValue = 0\<rparr>] \<and>
       token_covers Z X plan False \<and> approval_of Z X plan call)"
proof -
  obtain allowed where a: "allowance Z X (zp_owner plan) (drawer Z plan) = Inr allowed"
    using assms by (auto simp: Let_def approveCalls_def rbind_eq_Inr spenderAddr_eq)
  then have c: "token_covers Z X plan (zp_amountIn plan \<le> allowed)"
    using allowance_reads unfolding token_covers_def by blast
  show ?thesis
  proof (cases "zp_amountIn plan \<le> allowed")
    case True
    then show ?thesis using assms c by (simp add: Let_def approveCalls_def a spenderAddr_eq)
  next
    case False
    then show ?thesis
      using assms c by (auto simp: Let_def approveCalls_def a spenderAddr_eq rbind_eq_Inr Approve_def pack_Inr approval_of_def maxUint256_def)
  qed
qed

lemma Permit2Approve_asks:
  assumes "Permit2Approve B token spender amount (word_of_int t) = Inr call"
  shows "asks B permit2ABI ''approve'' [AbiAddress token, AbiAddress spender, AbiInt amount, AbiInt (t mod 2 ^ 64)] call"
  using assms by (simp add: Permit2Approve_def rcheck_eq_Inr pack_Inr uint_word_of_int)

lemma permit2Calls_cases:
  assumes "permit2Calls Z X plan = Inr calls"
  shows "calls = [] \<and> permit_covers Z X plan True \<or>
    (\<exists>call. calls = [\<lparr>zc_kind = SwapStepPermit2, zc_contract = dy_Permit2 (sw_deployment Z), zc_call = call, zc_callValue = 0\<rparr>] \<and>
       xr_Protocol (zp_route plan) = SwapV4 \<and> permit_covers Z X plan False \<and> grant_of Z X plan call)"
proof (cases "xr_Protocol (zp_route plan) = SwapV4")
  case True
  obtain amount expires where p: "permit2Allowance Z X (zp_owner plan) = Inr (amount, expires)"
    using assms True by (auto simp: permit2Calls_def rbind_eq_Inr)
  have c: "permit_covers Z X plan (zp_amountIn plan \<le> amount \<and> word_of_int (deadline_of plan) \<le> expires)"
    using permit2Allowance_reads [OF p] True unfolding permit_covers_def by auto
  show ?thesis
  proof (cases "amount < zp_amountIn plan \<or> expires < word_of_int (deadline_of plan)")
    case short: True
    then have f: "\<not> (zp_amountIn plan \<le> amount \<and> word_of_int (deadline_of plan) \<le> expires)" by auto
    let ?grant = "if zp_unlimited plan then maxUint160 else zp_amountIn plan"
    let ?lifetime = "if zp_unlimited plan then permit2UnlimitedLifetime else permit2Lifetime"
    obtain call where call: "calls = [\<lparr>zc_kind = SwapStepPermit2, zc_contract = dy_Permit2 (sw_deployment Z), zc_call = call, zc_callValue = 0\<rparr>]"
      "Permit2Approve (xs_B X) (da_Token (sw_addrs Z)) (da_UniversalRouter (sw_addrs Z)) ?grant
         (word_of_int (unix (zp_now plan + ?lifetime))) = Inr call"
      using assms True short by (auto simp: permit2Calls_def p rbind_eq_Inr Let_def deadline_eq)
    then show ?thesis
      using Permit2Approve_asks [OF call(2)] c f True
      by (cases "zp_unlimited plan") (simp_all add: grant_of_def unix_def second_def permit2UnlimitedLifetime_def permit2Lifetime_def maxUint160_def)
  next
    case False
    then have "permit_covers Z X plan True" using c by (simp add: not_less)
    moreover have "calls = []" using assms True False by (simp add: permit2Calls_def p deadline_eq)
    ultimately show ?thesis by blast
  qed
qed (use assms in \<open>simp add: permit2Calls_def permit_covers_def\<close>)

lemma V3_single_asks:
  "V3ExactInputSingle B \<lparr>v3_TokenIn = sold, v3_TokenOut = bought, v3_Fee = uint (xr_Fee (zp_route plan)), v3_Recipient = receiver,
     v3_Deadline = deadline_of plan, v3_AmountIn = zp_amountIn plan, v3_AmountOutMinimum = zp_minOut plan, v3_SqrtPriceLimitX96 = 0\<rparr> = Inr call \<longleftrightarrow>
   asks B v3RouterABI ''exactInputSingle'' (v3_single plan sold bought receiver) call"
  by (simp add: V3ExactInputSingle_def pack_Inr v3_single_def)

lemma V4_trade:
  assumes "V4ExactInputSingle (B :: abi_lib) (NewPoolKey (da_Token a) (xr_Fee (zp_route plan)) (xr_TickSpacing (zp_route plan)))
    (trxIn plan) (zp_amountIn plan) (zp_minOut plan) (deadline_of plan) = Inr call"
  shows "v4_trade B a plan call"
  using assms unfolding V4ExactInputSingle_def rcheck_eq_Inr Let_def rbind_eq_Inr args_pack_Inr pack_Inr
  by (cases "zp_in plan = AssetTRX")
    (auto simp: v4_trade_def v4_pool_def NewPoolKey_def zero_address_def openDelta_def addressThis_def msgSender_def trxIn_def
      actionSettle_def actionCLSwapExactInSingle_def actionTake_def commandV4Swap_def commandSweep_def maxUint160_def)

lemma swapCall_trade:
  assumes "swapCall Z X plan = Inr call"
  shows "zc_kind call = SwapStepSwap" "zc_callValue call = (if trxIn plan then int64 (zp_amountIn plan) else 0)"
    "trade_of Z X plan (zc_contract call) (zc_call call)"
proof -
  obtain contract data where c: "call = \<lparr>zc_kind = SwapStepSwap, zc_contract = contract, zc_call = data,
      zc_callValue = (if trxIn plan then int64 (zp_amountIn plan) else 0)\<rparr>"
    using assms unfolding swapCall_def Let_def rbind_eq_Inr by auto
  then show "zc_kind call = SwapStepSwap" "zc_callValue call = (if trxIn plan then int64 (zp_amountIn plan) else 0)" by simp_all
  show "trade_of Z X plan (zc_contract call) (zc_call call)"
  proof (cases "xr_Protocol (zp_route plan)")
    case SwapV2
    then show ?thesis
      using assms by (auto simp: Let_def swapCall_def c rbind_eq_Inr trade_of_def v2_trade_def trxIn_def deadline_eq pack_Inr address_path_def
          V2SwapExactETHForTokens_def V2SwapExactTokensForETH_def split: if_splits)
  next
    case SwapV3
    then show ?thesis
      using assms by (auto simp: Let_def swapCall_def c rbind_eq_Inr trade_of_def v3_trade_def trxIn_def deadline_eq V3_single_asks pack_Inr
          V3Multicall_def V3UnwrapWETH9_def zero_address_def asks_def split: if_splits)
  next
    case SwapV4
    then show ?thesis using assms V4_trade by (auto simp: Let_def swapCall_def c rbind_eq_Inr trade_of_def deadline_eq)
  qed (use assms in \<open>simp add: Let_def swapCall_def\<close>)
qed

lemma swapCalls_next:
  assumes "swapCalls Z X plan = Inr calls" "zp_in plan = AssetTRX \<Longrightarrow> int64 (zp_amountIn plan) = zp_amountIn plan"
  shows "next_step Z X plan (calls ! 0)"
proof -
  obtain before trade where c: "swapCall Z X plan = Inr trade" "calls = before @ [trade]"
    "(if trxIn plan then Inr [] else rbind (approveCalls Z X plan) (\<lambda>approve. rbind (permit2Calls Z X plan) (\<lambda>permit. Inr (approve @ permit)))) = Inr before"
    using assms by (auto simp: swapCalls_def rbind_eq_Inr)
  note t = swapCall_trade [OF c(1)]
  show ?thesis
  proof (cases "trxIn plan")
    case True
    then show ?thesis using c t assms(2) by (simp add: next_step_def trxIn_def)
  next
    case False
    obtain approve permit where b: "approveCalls Z X plan = Inr approve" "permit2Calls Z X plan = Inr permit" "before = approve @ permit"
      using c(3) False by (auto simp: rbind_eq_Inr)
    show ?thesis
      using approveCalls_cases [OF b(1)] permit2Calls_cases [OF b(2)] False
    proof (elim disjE exE conjE, goal_cases)
      case 1
      then show ?case using c(2) b(3) t by (simp add: next_step_def trxIn_def)
    qed (simp_all add: c(2) b(3) next_step_def trxIn_def)
  qed
qed

lemma share_rounds:
  fixes c m q r :: int
  assumes "20 * q + r = 19 * c" "0 \<le> r" "r < 20" "q \<le> m"
  shows "19 * c < 20 * m + 20"
  using assms by linarith

lemma share_rounds_up:
  fixes c m q r :: int
  assumes "20 * q + r = - (19 * c)" "0 \<le> r" "r < 20" "- q \<le> m"
  shows "19 * c < 20 * m + 20"
  using assms by linarith

lemma five_per_cent:
  fixes c m :: int
  shows "19 * c div 20 \<le> m \<Longrightarrow> 19 * c < 20 * m + 20" "- (- (19 * c) div 20) \<le> m \<Longrightarrow> 19 * c < 20 * m + 20"
proof -
  show "19 * c < 20 * m + 20" if "19 * c div 20 \<le> m" by (rule share_rounds [OF mult_div_mod_eq _ _ that]) simp_all
  show "19 * c < 20 * m + 20" if "- (- (19 * c) div 20) \<le> m" by (rule share_rounds_up [OF mult_div_mod_eq _ _ that]) simp_all
qed

lemma checkPrice_near:
  assumes "checkPrice Z X plan = Inr u"
  shows "near_market Z X plan"
proof -
  obtain current where q: "quoteRoute Z X (zp_route plan) (trxIn plan) (zp_amountIn plan) = Inr current"
    "zp_minOut plan \<le> current" "go_quo (current * 9500) 10000 \<le> zp_minOut plan"
    using assms by (auto simp: checkPrice_def rbind_eq_Inr rcheck_eq_Inr Let_def maxSwapSlippageBps_def not_less)
  have "19 * current < 20 * zp_minOut plan + 20"
  proof (cases "0 \<le> current")
    case True
    then have "(current * 9500) div 10000 \<le> zp_minOut plan" using q(3) by (simp add: go_quo_nonneg)
    then show ?thesis using five_per_cent by simp
  next
    case False
    then have "- ((- (current * 9500)) div 10000) \<le> zp_minOut plan" using q(3) by (simp add: go_quo_def)
    then show ?thesis using five_per_cent by simp
  qed
  then show ?thesis using q unfolding near_market_def by blast
qed

lemma swap_step_Inr:
  assumes "swap_step Z X from plan step = Inr (call, feeLimit, words)"
    and "zp_in plan = AssetTRX \<Longrightarrow> int64 (zp_amountIn plan) = zp_amountIn plan"
  shows "next_step Z X plan call \<and> zc_kind call = step \<and> (step = SwapStepSwap \<longrightarrow> near_market Z X plan) \<and>
    (\<exists>raw energy price bytePrice j. runConstantCall X from (zc_contract call) (zc_call call) (zc_callValue call) = Inr (raw, energy) \<and>
       xn_ChainParams (xs_N X) j = Inr (price, bytePrice) \<and>
       feeLimit = max (sv_feeLimit (xs_sv X)) (energy_limit energy price))"
proof -
  obtain calls energy where c: "swapCalls Z X plan = Inr calls" "call = calls ! 0" "zc_kind call = step"
    "(if zc_kind call = SwapStepSwap then checkPrice Z X plan else Inr ()) = Inr ()"
    "simulate X from call = Inr energy" "callFeeLimit X energy = Inr feeLimit"
    using assms(1) by (auto simp: swap_step_def rbind_eq_Inr rcheck_eq_Inr Let_def)
  obtain raw where raw: "runConstantCall X from (zc_contract call) (zc_call call) (zc_callValue call) = Inr (raw, energy)"
    using c(5) by (auto simp: simulate_def rbind_eq_Inr)
  have "\<exists>price bytePrice j. xn_ChainParams (xs_N X) j = Inr (price, bytePrice) \<and> feeLimit = max (sv_feeLimit (xs_sv X)) (energy_limit energy price)"
    using c(6) retry_Inr by (fastforce simp: callFeeLimit_def split: sum.splits)
  then show ?thesis using c raw swapCalls_next [OF c(1) assms(2)] checkPrice_near [of Z X plan "()"] by (auto split: if_splits)
qed

lemma swap_intent_wanted:
  "wanted L (swap_intent from call feeLimit) e \<Longrightarrow>
     e = Call (addr L from) (addr L (zc_contract call)) (kd_Data (zc_call call)) (zc_callValue call)"
  "in_FeeLimit (swap_intent from call feeLimit) = feeLimit" "in_PermissionID (swap_intent from call feeLimit) = 0"
  by (cases e; simp add: swap_intent_def no_intent_def) (simp_all add: swap_intent_def no_intent_def)

section \<open>What is signed\<close>

text \<open>C5. A Tron swap signs the next step it needs and nothing else. Where the SDK converts amounts exactly,
  and whatever the nodes answer and build, every digest that \<open>SwapWithSigner\<close> asks to be signed is that
  of one call, by the sender's own address, under the owner permission and valid for at most ten
  minutes. Its data are the method and the arguments, one by one, of: an approval of the contract that
  draws the token on the chosen route, for exactly the amount unless unlimited was asked for, only while
  the allowance a node reports does not cover it; on V4, after that, a Permit2 grant to the Universal
  Router for an hour (thirty days when unlimited); or, once both are in place, the trade - the requested
  amount sold, at least the requested minimum bought, to the sender, within three minutes, through the
  router and the pool of the route. The minimum of a trade is no higher than what the route pays now and
  less than five per cent and one unit below it. The call ran without failing in a simulation, and the
  fee limit is the configured one or what its energy costs.\<close>

theorem tron_swap_signs_the_step:
  assumes "sun_amounts (xs_L X)"
  shows "signs_only (xs_L X) (xs_E X) (swap_step_effect swap X now from req) (SwapWithSigner swap X now from req signer)"
  unfolding SwapWithSigner_def
proof (rule signs_only_signer)
  let ?r = "rbind (staged [] (requested_plan swap X now from req)) (\<lambda>(Z, plan). swap_step Z X from plan (xq_Step req))"
  show "signs_only (xs_L X) (xs_E X) (swap_step_effect swap X now from req)
      (case ?r of Inl e \<Rightarrow> swap_ends e
       | Inr (call, feeLimit, words) \<Rightarrow>
           build_and_submit (xs_L X) (xs_sv X) (xs_E X) (swap_intent from call feeLimit) (''build '' @ step_text (zc_kind call))
             (xn_TriggerContract (xs_N X) from (zc_contract call) (kd_Method (zc_call call)) (wordParams words) feeLimit (zc_callValue call))
             [from])"
  proof (cases ?r)
    case (Inl e)
    then show ?thesis by (cases e) (simp_all add: swap_ends_def signs_only_def)
  next
    case (Inr v)
    obtain call feeLimit words where v: "v = (call, feeLimit, words)" by (cases v)
    obtain Z plan where p: "requested_plan swap X now from req = Inr (Z, plan)"
      "swap_step Z X from plan (xq_Step req) = Inr (call, feeLimit, words)"
      using Inr by (auto simp: v rbind_eq_Inr)
    note plan = requested_plan_of [OF assms p(1)]
    have fits: "int64 (zp_amountIn plan) = zp_amountIn plan" if "zp_in plan = AssetTRX"
    proof (rule int64_small)
      have "(0 :: rat) < of_int (zp_amountIn plan)" using plan by (simp add: plan_of_def)
      then show "0 \<le> zp_amountIn plan" by simp
      show "zp_amountIn plan < 2 ^ 63" using plan that by (simp add: plan_of_def)
    qed
    have "swap_step_effect swap X now from req e feeLimit" if "wanted (xs_L X) (swap_intent from call feeLimit) e" for e
      using swap_intent_wanted(1) [OF that] plan swap_step_Inr [OF p(2) fits] unfolding swap_step_effect_def by blast
    then show ?thesis unfolding Inr v by (simp add: signs_only_build swap_intent_wanted)
  qed
qed simp

end
