(* ===== verification/TronSwapSamples.thy ===== *)
theory TronSwapSamples
  imports TronSwapProperties
begin

text \<open>
  A swap that runs: on a sample node that answers every call, selling one TRX on V2 goes through all
  the checks up to the request for the signature, and selling a token whose allowance is zero is refused
  until the approval is in place. So what \<open>TronSwapProperties\<close> says of a signed step is said of a step
  that exists.
\<close>

definition swap_sample_lib :: tron_lib where
  "swap_sample_lib = tron_sample_lib\<lparr>tl_trigger := (\<lambda>_. Some \<lparr>gm_OwnerAddress = [0xaa], gm_ContractAddress = [0xcc],
     gm_Data = [1, 2, 3, 4], gm_CallValue = 1000000, gm_CallTokenValue = 0, gm_TokenId = 0, gm_Unknown = []\<rparr>),
     tl_FromTRX := (\<lambda>d. if d < 10 ^ 12 then exact_units d 6 else None)\<rparr>"

lemma swap_sample_amounts: "sun_amounts swap_sample_lib"
  using tron_sample_exact
  by (auto simp: sun_amounts_def exact_amounts_def swap_sample_lib_def exact_units_def floor_less_iff split: if_splits)

definition swap_sample_abi :: abi_lib where
  "swap_sample_abi = \<lparr>ab_pack = (\<lambda>_ _ _. Some [1, 2, 3, 4]), ab_sig = (\<lambda>_ m. m),
     ab_unpack = (\<lambda>_ m _. if m = ''allowance'' then Some [AbiInt 0] else Some [AbiList [AbiInt 1000000, AbiInt 300000]]),
     ab_args = (\<lambda>_ _. Some []), ab_keccak = (\<lambda>_. [])\<rparr>"

definition swap_sample_side :: swap_side where
  "swap_sample_side = \<lparr>xs_L = swap_sample_lib, xs_B = swap_sample_abi, xs_sv = tron_sample_service\<lparr>sv_feeLimit := 0\<rparr>,
     xs_E = tron_sample_run,
     xs_N = \<lparr>xn_TriggerConstantContract = (\<lambda>_ _ _ _ _. (([[]], 0), None)),
       xn_TriggerContract = (\<lambda>_ _ _ _ _ _ _. Inr (Some (sample_raw TriggerSmartContract))), xn_ChainParams = (\<lambda>_. Inr (420, 1000))\<rparr>\<rparr>"

definition swap_sample_swapper :: swapper where
  "swap_sample_swapper =
     \<lparr>sw_deployment = \<lparr>dy_Token = ''dd'', dy_WTRX = ''ee'', dy_V2Router = ''cc'', dy_V3Router = ''cc'', dy_V3Quoter = ''cc'', dy_V3Fees = [],
        dy_UniversalRouter = ''cc'', dy_Permit2 = ''cc'', dy_V4PoolManager = ''cc'', dy_V4Pools = []\<rparr>,
      sw_addrs = \<lparr>da_Token = [1], da_WTRX = [2], da_V2Router = [3], da_V3Router = [3], da_V3Quoter = [3], da_UniversalRouter = [3],
        da_Permit2 = [3], da_V4PoolManager = [3]\<rparr>\<rparr>"

definition swap_sample_request :: "tron_asset \<Rightarrow> swap_step_kind \<Rightarrow> rat \<Rightarrow> tron_swap_request" where
  "swap_sample_request asset step minOut = \<lparr>xq_In = asset, xq_Amount = 1, xq_MinOut = minOut,
     xq_Route = \<lparr>xr_Protocol = SwapV2, xr_Fee = 3000, xr_TickSpacing = 0\<rparr>, xq_Step = step, xq_Unlimited = False\<rparr>"

abbreviation swap_sample :: "tron_asset \<Rightarrow> swap_step_kind \<Rightarrow> rat \<Rightarrow> sent world" where
  "swap_sample asset step minOut \<equiv>
     SwapWithSigner (Some swap_sample_swapper) swap_sample_side 0 ''aa'' (swap_sample_request asset step minOut) (Some FamilyTron)"

lemmas swap_sample_defs = swap_sample_lib_def swap_sample_abi_def swap_sample_side_def swap_sample_swapper_def swap_sample_request_def

lemma swap_sample_words: "HexDecode ''aa'' = Some [0xaa]" "HexDecode ''cc'' = Some [0xcc]" "HexDecode ''dd'' = Some [0xdd]"
  by (simp_all add: hex_digit_def)

declare HexDecode.simps [simp del]

lemma swap_sample_fields: "te_ctx (xs_E swap_sample_side) i = None" "sv_nodes (xs_sv swap_sample_side) = 1"
  "tl_DecodeCheck (xs_L swap_sample_side) = HexDecode" "xn_TriggerConstantContract (xs_N swap_sample_side) a b c d i = (([[]], 0), None)"
  "xs_E swap_sample_side = tron_sample_run" "xs_L swap_sample_side = swap_sample_lib" "te_ctx tron_sample_run i = None"
  "xn_TriggerContract (xs_N swap_sample_side) f g h m n q i = Inr (Some (sample_raw TriggerSmartContract))"
  "xs_B swap_sample_side = swap_sample_abi" "tl_DecodeCheck swap_sample_lib = HexDecode"
  by (simp_all add: swap_sample_side_def swap_sample_lib_def tron_sample_defs)

lemma swap_sample_call:
  "runConstantCall swap_sample_side f c call value =
     rbind (if f \<noteq> [] then (case HexDecode f of None \<Rightarrow> Inl (Bad ''invalid address'') | Some decoded \<Rightarrow> Inr decoded) else Inr no_address) (\<lambda>owner.
     case HexDecode c of None \<Rightarrow> Inl (Local ''invalid contract address'') | Some target \<Rightarrow> Inr ([], 0))"
  by (cases "HexDecode c"; cases "HexDecode f") (simp_all add: runConstantCall_def swap_sample_fields retry_def)

definition swap_sample_plan :: "tron_asset \<Rightarrow> int \<Rightarrow> swapPlan" where
  "swap_sample_plan asset minOut = \<lparr>zp_from = ''aa'', zp_owner = replicate 20 0, zp_in = asset, zp_amountIn = 1000000, zp_minOut = minOut,
     zp_route = \<lparr>xr_Protocol = SwapV2, xr_Fee = 3000, xr_TickSpacing = 0\<rparr>, zp_unlimited = False, zp_now = 0\<rparr>"

lemma swap_sample_plans:
  assumes "asset \<in> {AssetTRX, AssetUSDT}" "0 < minOut" "minOut < 10 ^ 12" "exact_units minOut 6 = Some units"
  shows "requested_plan (Some swap_sample_swapper) swap_sample_side 0 ''aa'' (swap_sample_request asset step minOut) =
    Inr (swap_sample_swapper, swap_sample_plan asset units)"
proof -
  have "EVMAddress swap_sample_lib ''aa'' = Inr (replicate 20 0)"
    by (simp add: EVMAddress_def swap_sample_lib_def tron_sample_lib_def swap_sample_words BytesToAddress_def)
  moreover have "exact_units 1 6 = Some 1000000" by (simp add: exact_units_def)
  ultimately show ?thesis
    using assms
    by (auto simp: requested_plan_def newSwapPlan_def swapUnits_def swapOut_def faulted_def trxAmount_def tokenAmount_def knownRoute_def
        swapRoutes_def swap_sample_plan_def swap_sample_defs tron_sample_defs)
qed

text \<open>The trade goes ahead at a minimum within five per cent of what the pool pays now.\<close>

lemma swap_sample_signs: "\<exists>k. swap_sample AssetTRX SwapStepSwap (3 / 10) = AskDigest (calm_env 101) False send_digest k"
proof -
  let ?X = "swap_sample_side" and ?Z = "swap_sample_swapper" and ?p = "swap_sample_plan AssetTRX 300000"
  let ?call = "\<lparr>zc_kind = SwapStepSwap, zc_contract = ''cc'', zc_call = \<lparr>kd_Method = ''swapExactETHForTokens'', kd_Data = [1, 2, 3, 4]\<rparr>,
      zc_callValue = 1000000\<rparr>"
  have plan: "requested_plan (Some ?Z) ?X 0 ''aa'' (swap_sample_request AssetTRX SwapStepSwap (3 / 10)) = Inr (?Z, ?p)"
    by (rule swap_sample_plans) (simp_all add: exact_units_def)
  have calls: "swapCalls ?Z ?X ?p = Inr [?call]"
    by (simp add: swapCalls_def swapCall_def trxIn_def V2SwapExactETHForTokens_def pack_def Let_def swap_sample_plan_def swap_sample_defs int64_small)
  have quote: "quoteRoute ?Z ?X (zp_route ?p) (trxIn ?p) (zp_amountIn ?p) = Inr 300000"
    unfolding quoteRoute_def read_call_def Let_def
    by (simp add: swap_sample_call V2GetAmountsOut_def pack_def DecodeV2AmountsOut_def unpack_def big_at_def swap_sample_plan_def
        swap_sample_swapper_def swap_sample_words) (simp add: swap_sample_defs big_at_def)
  have price: "checkPrice ?Z ?X ?p = Inr ()"
    by (simp add: checkPrice_def quote maxSwapSlippageBps_def Let_def go_quo_def) (simp add: swap_sample_plan_def)
  have run: "simulate ?X ''aa'' ?call = Inr 0"
    by (simp add: simulate_def swap_sample_call swap_sample_words)
  have fee: "callFeeLimit ?X 0 = Inr 0"
    by (simp add: callFeeLimit_def retry_def energy_limit_def swap_sample_defs tron_sample_defs int64_small)
  have step: "swap_step ?Z ?X ''aa'' ?p SwapStepSwap = Inr (?call, 0, [])"
    by (simp add: swap_step_def calls price run fee Words_def Let_def)
  have sent: "\<exists>k. tron_submit swap_sample_lib tron_sample_run (swap_intent ''aa'' ?call 0) (Some (sample_raw TriggerSmartContract)) [''aa''] =
      AskDigest (calm_env 101) False send_digest k"
  proof -
    have "verifyParameter swap_sample_lib (swap_intent ''aa'' ?call 0) (rt_Contract (sample_raw TriggerSmartContract) ! 0) = Inr ()"
      by (simp add: verifyParameter_def unmarshalParameter_def rejectUnknown_def sameAddress_def demand_def sample_raw_def swap_intent_def
          no_intent_def swap_sample_lib_def tron_sample_lib_def swap_sample_words)
    then have "verify swap_sample_lib (swap_intent ''aa'' ?call 0) (Some (sample_raw TriggerSmartContract)) 1000000000 = Inr ()"
      using sample_header [of TriggerSmartContract]
      by (simp add: verify_def rejectUnknown_def demand_def Let_def sample_raw_def swap_intent_def no_intent_def)
    then have "sent_digest swap_sample_lib (swap_intent ''aa'' ?call 0) (Some (sample_raw TriggerSmartContract)) (te_now tron_sample_run) =
        Inr (sample_raw TriggerSmartContract, send_digest)"
      by (simp add: sent_digest_def transactionDigest_def swap_sample_lib_def tron_sample_defs Let_def)
    then show ?thesis by (simp add: tron_submit_def submitWithSigner_def tron_sample_run_def)
  qed
  have step': "xq_Step (swap_sample_request AssetTRX SwapStepSwap (3 / 10)) = SwapStepSwap" by (simp add: swap_sample_request_def)
  show ?thesis
    using sent by (simp add: SwapWithSigner_def tronSigner_def plan step step' swap_sample_fields build_and_submit_def retry_def)
qed

theorem tron_swap_signs_the_step_witness:
  "signs_only swap_sample_lib tron_sample_run
      (swap_step_effect (Some swap_sample_swapper) swap_sample_side 0 ''aa'' (swap_sample_request AssetTRX SwapStepSwap (3 / 10)))
      (swap_sample AssetTRX SwapStepSwap (3 / 10)) \<and>
   (\<exists>k. swap_sample AssetTRX SwapStepSwap (3 / 10) = AskDigest (calm_env 101) False send_digest k)"
  using tron_swap_signs_the_step [of swap_sample_side] swap_sample_amounts swap_sample_signs by (simp add: swap_sample_fields)

text \<open>Selling a token that the router may not draw yet: the trade is refused, the approval comes first.\<close>

lemma swap_sample_waits: "swap_sample AssetUSDT SwapStepSwap 1 = Finished ([], Some ErrStateChanged, [])"
proof -
  let ?X = "swap_sample_side" and ?Z = "swap_sample_swapper" and ?p = "swap_sample_plan AssetUSDT 1000000"
  have plan: "requested_plan (Some ?Z) ?X 0 ''aa'' (swap_sample_request AssetUSDT SwapStepSwap 1) = Inr (?Z, ?p)"
    by (rule swap_sample_plans) (simp_all add: exact_units_def)
  have allowed: "allowance ?Z ?X owner spender = Inr 0" for owner spender
    unfolding allowance_def read_call_def
    by (simp add: swap_sample_call Allowance_def pack_def DecodeAllowance_def unpack_def big_at_def swap_sample_swapper_def swap_sample_words)
      (simp add: swap_sample_defs)
  obtain rest where "swapCalls ?Z ?X ?p = Inr (\<lparr>zc_kind = SwapStepApprove, zc_contract = ''dd'', zc_call =
      \<lparr>kd_Method = ''approve'', kd_Data = [1, 2, 3, 4]\<rparr>, zc_callValue = 0\<rparr> # rest)"
  proof -
    have "approveCalls ?Z ?X ?p = Inr [\<lparr>zc_kind = SwapStepApprove, zc_contract = ''dd'', zc_call =
      \<lparr>kd_Method = ''approve'', kd_Data = [1, 2, 3, 4]\<rparr>, zc_callValue = 0\<rparr>]"
      by (simp add: approveCalls_def allowed Approve_def pack_def Let_def swap_sample_plan_def) (simp add: swap_sample_defs)
    moreover have "permit2Calls ?Z ?X ?p = Inr []" by (simp add: permit2Calls_def swap_sample_plan_def)
    moreover have "\<exists>call. swapCall ?Z ?X ?p = Inr call"
      by (simp add: swapCall_def trxIn_def V2SwapExactTokensForETH_def pack_def Let_def swap_sample_plan_def swap_sample_defs)
    ultimately show ?thesis using that by (auto simp: swapCalls_def trxIn_def swap_sample_plan_def)
  qed
  then have "swap_step ?Z ?X ''aa'' ?p SwapStepSwap = Inl (Refuses ErrStateChanged)"
    by (simp add: swap_step_def stepOutOfOrder_def staged_def Let_def)
  then show ?thesis
    by (simp add: SwapWithSigner_def tronSigner_def plan swap_ends_def) (simp add: swap_sample_request_def swap_ends_def)
qed

end
