(* ===== verification/RefuelStore.thy ===== *)
theory RefuelStore
  imports SendFlow Complex_Main
begin

text \<open>
  Gas top-ups (internal/refuel): the plans a space keeps on disk (store.go) and the quotes of the
  provider (provider.go).

  A plan file is a map from identifiers to plans, read and replaced in full under a mutex. The quote
  is computed from what the provider answers; the library functions on addresses are parameters.
\<close>

section \<open>Plans\<close>

record target =
  tg_AccountID :: string
  tg_AssetID :: string
  tg_To :: string
  tg_Amount :: string

record quote =
  qu_Provider :: string
  qu_To :: string
  qu_Data :: string
  qu_Deposit :: int
  qu_Expected :: int
  qu_DepositUSD :: rat
  qu_SourcePriceUSD :: rat
  qu_MinimumLimited :: bool
  qu_ExpiresAt :: int

text \<open>The estimate of a transfer, as far as a top-up reads it; amounts are decimals.\<close>

record transfer_estimate =
  es_FeeModel :: string
  es_GasLimit :: u64
  es_MaxFeePerGas :: string
  es_MaxPriorityFeePerGas :: string
  es_Fee :: rat
  es_EstimatedFee :: rat
  es_NativeBalance :: rat
  es_FeeShortfall :: rat

record plan =
  pl_ID :: string
  pl_NetworkID :: string
  pl_Target :: target
  pl_Recipient :: string
  pl_SourceNetworkID :: string
  pl_SourceAccountID :: string
  pl_SourceAddress :: string
  pl_SourceLabel :: string
  pl_Quote :: quote
  pl_SourceEstimate :: transfer_estimate
  pl_TargetEstimate :: transfer_estimate
  pl_Required :: rat
  pl_Expected :: rat
  pl_Remainder :: rat
  pl_TotalSource :: rat
  pl_TotalUSD :: "rat option"
  pl_Started :: bool
  pl_Finished :: bool
  pl_CreatedAt :: int

type_synonym plans = "(string \<times> plan) list"

datatype refuel_err = ErrPlanNotFound | PlanPending string | RefuelErr string

type_synonym 'a plan_op = "(plans file_state, refuel_err, 'a) op"

section \<open>The store\<close>

text \<open>The clock, the disk, the random identifier and the order in which Go visits a map.\<close>

record plan_env =
  pe_now :: int
  pe_save :: write_outcome
  pe_rand :: "byte list option"
  pe_visit :: "plans \<Rightarrow> plans"

definition plans_load :: "string \<Rightarrow> plans plan_op" where
  "plans_load spaceID s =
     (s, if \<not> ValidID spaceID ''spc_'' then Inl (RefuelErr ''invalid space id'')
         else case s spaceID of
           Missing \<Rightarrow> Inr []
         | Unreadable \<Rightarrow> Inl (RefuelErr ''read gas top-up plans'')
         | Holds f \<Rightarrow> Inr f)"

definition plans_save :: "write_outcome \<Rightarrow> string \<Rightarrow> plans \<Rightarrow> unit plan_op" where
  "plans_save w spaceID plans = save_file w (RefuelErr ''write gas top-up plans'') spaceID plans"

definition maxPlans :: nat where "maxPlans = 512"

definition plan_age :: int where "plan_age = 7 * 24 * 3600 * 1000000000"

definition stale_plan :: "int \<Rightarrow> plan \<Rightarrow> bool" where
  "stale_plan now p \<longleftrightarrow> \<not> pl_Started p \<and> qu_ExpiresAt (pl_Quote p) < now \<or> pl_Finished p \<and> plan_age < now - pl_CreatedAt p"

definition Put :: "plan_env \<Rightarrow> string \<Rightarrow> plan \<Rightarrow> plan plan_op" where
  "Put ev spaceID plan =
     sbind (plans_load spaceID) (\<lambda>plans.
     let plans = filter (\<lambda>(_, p). \<not> stale_plan (pe_now ev) p) plans in
     sbind (scheck (\<not> maxPlans \<le> length plans) (RefuelErr ''too many gas top-up plans'')) (\<lambda>_.
     case pe_rand ev of None \<Rightarrow> sfail (RefuelErr ''rand'') | Some r \<Rightarrow>
     let plan = plan\<lparr>pl_ID := HexEncode r, pl_CreatedAt := pe_now ev\<rparr> in
     sbind (plans_save (pe_save ev) spaceID (AList.update (pl_ID plan) plan plans)) (\<lambda>_. sret plan)))"

definition plan_Get :: "string \<Rightarrow> string \<Rightarrow> plan plan_op" where
  "plan_Get spaceID i =
     sbind (plans_load spaceID) (\<lambda>plans.
     case map_of plans i of None \<Rightarrow> sfail ErrPlanNotFound | Some p \<Rightarrow> sret p)"

definition Mark :: "plan_env \<Rightarrow> string \<Rightarrow> string \<Rightarrow> bool \<Rightarrow> unit plan_op" where
  "Mark ev spaceID i finished =
     sbind (plans_load spaceID) (\<lambda>plans.
     case map_of plans i of
       None \<Rightarrow> sfail ErrPlanNotFound
     | Some p \<Rightarrow>
         plans_save (pe_save ev) spaceID (AList.update i (p\<lparr>pl_Started := True, pl_Finished := finished\<rparr>) plans))"

definition pending_for :: "string \<Rightarrow> string \<Rightarrow> plan \<Rightarrow> bool" where
  "pending_for networkID accountID p \<longleftrightarrow>
     pl_Started p \<and> \<not> pl_Finished p \<and> pl_NetworkID p = networkID \<and> tg_AccountID (pl_Target p) = accountID"

definition Active :: "plan_env \<Rightarrow> string \<Rightarrow> string \<Rightarrow> string \<Rightarrow> plan option plan_op" where
  "Active ev spaceID networkID accountID =
     sbind (plans_load spaceID) (\<lambda>plans.
     sret (find (pending_for networkID accountID) (map snd (pe_visit ev plans))))"

definition Claim :: "plan_env \<Rightarrow> string \<Rightarrow> string \<Rightarrow> unit plan_op" where
  "Claim ev spaceID i =
     sbind (plans_load spaceID) (\<lambda>plans.
     case map_of plans i of
       None \<Rightarrow> sfail ErrPlanNotFound
     | Some p \<Rightarrow>
         (case find (\<lambda>(otherID, other). otherID \<noteq> i \<and> pending_for (pl_NetworkID p) (tg_AccountID (pl_Target p)) other) (pe_visit ev plans) of
            Some (otherID, _) \<Rightarrow> sfail (PlanPending otherID)
          | None \<Rightarrow> plans_save (pe_save ev) spaceID (AList.update i (p\<lparr>pl_Started := True\<rparr>) plans)))"

section \<open>Quotes\<close>

definition DepositAddress :: string where
  "DepositAddress = ''0x391E7C679d29bD940d63be94AD22A25d25b5A604''"

definition SupportedSource :: "int \<Rightarrow> bool" where
  "SupportedSource chainID = (chainID \<in> {1, 10, 56, 137, 8217, 8453, 42161, 43114})"

record gasChain =
  gc_Chain :: int
  gc_Short :: u16
  gc_Inbound :: bool
  gc_Mainnet :: bool
  gc_Decimals :: byte
  gc_MinInbound :: rat
  gc_MinOutbound :: rat
  gc_MaxInbound :: rat
  gc_Price :: rat

definition unavailable :: "string \<Rightarrow> refuel_err" where
  "unavailable what = RefuelErr what"

text \<open>\<open>integer\<close>; an integral decimal equals its truncation.\<close>

definition integer :: "rat \<Rightarrow> refuel_err + int" where
  "integer v =
     (if v < 0 \<or> v \<noteq> of_int \<lfloor>v\<rfloor> \<or> 2 ^ 256 \<le> \<lfloor>v\<rfloor> then Inl (unavailable ''invalid base-unit amount'') else Inr \<lfloor>v\<rfloor>)"

definition ceilRatio :: "int \<Rightarrow> int \<Rightarrow> int \<Rightarrow> int" where
  "ceilRatio value numerator denominator = go_quo (value * numerator + (denominator - 1)) denominator"

record quote_request =
  qr_SourceChain :: int
  qr_DestinationChain :: int
  qr_From :: string
  qr_Recipient :: string
  qr_Needed :: "int option"

record forward_quote =
  fq_Chain :: int
  fq_Expected :: rat
  fq_Error :: string

record forward_answer =
  fw_Calldata :: string
  fw_Expires :: int
  fw_Quotes :: "forward_quote list"

text \<open>What the provider answers, decoded, or the error of the request; and go-ethereum on addresses.\<close>

record provider =
  pv_chains :: "refuel_err + gasChain list"
  pv_reverse :: "int \<Rightarrow> int \<Rightarrow> int \<Rightarrow> refuel_err + int \<times> rat"
  pv_forward :: "int \<Rightarrow> int \<Rightarrow> int \<Rightarrow> byte list \<Rightarrow> byte list \<Rightarrow> refuel_err + forward_answer"
  pv_IsHexAddress :: "string \<Rightarrow> bool"
  pv_HexToAddress :: "string \<Rightarrow> byte list"

record gaszip =
  gz_chains :: "gasChain list"
  gz_chainsUntil :: int

definition minute :: int where "minute = 60 * 1000000000"

definition chainList :: "provider \<Rightarrow> int \<Rightarrow> int \<Rightarrow> gaszip \<Rightarrow> gaszip \<times> (refuel_err + gasChain list)" where
  "chainList V now1 now2 g =
     (if now1 < gz_chainsUntil g then (g, Inr (gz_chains g))
      else case pv_chains V of
        Inl e \<Rightarrow> (g, Inl e)
      | Inr listed \<Rightarrow> (g\<lparr>gz_chains := listed, gz_chainsUntil := now2 + minute\<rparr>, Inr listed))"

text \<open>The loop over the list keeps the last chain of an identifier.\<close>

definition chain_of :: "gasChain list \<Rightarrow> int \<Rightarrow> gasChain option" where
  "chain_of listed i = fold (\<lambda>c found. if gc_Chain c = i then Some c else found) listed None"

text \<open>\<open>strings.EqualFold\<close> of two addresses, which are ASCII.\<close>

definition lower :: "char \<Rightarrow> char" where
  "lower c = (let n = of_char c :: nat in if 65 \<le> n \<and> n \<le> 90 then char_of (n + 32) else c)"

definition EqualFold :: "string \<Rightarrow> string \<Rightarrow> bool" where
  "EqualFold a b = (map lower a = map lower b)"

definition deposit_payload :: "provider \<Rightarrow> string \<Rightarrow> string \<Rightarrow> u16 \<Rightarrow> byte list" where
  "deposit_payload V from recipient short =
     (if EqualFold from recipient then [1] else 2 # pv_HexToAddress V recipient) @ [ucast (drop_bit 8 short), ucast short]"

definition TrimPrefix0x :: "string \<Rightarrow> string" where
  "TrimPrefix0x s = (if take 2 s = ''0x'' then drop 2 s else s)"

definition quote_deposit :: "gasChain \<Rightarrow> int \<Rightarrow> bool \<Rightarrow> refuel_err + int \<times> bool" where
  "quote_deposit source deposit minimumLimited =
     rbind (integer (gc_MinInbound source)) (\<lambda>sourceMin.
     let (deposit, minimumLimited) = (if sourceMin > deposit then (sourceMin, True) else (deposit, minimumLimited));
         deposit = ceilRatio deposit 10001 10000 in
     rbind (integer (gc_MaxInbound source)) (\<lambda>sourceMax.
     rcheck (\<not> (sourceMax \<le> 0 \<or> deposit > sourceMax)) (unavailable ''provider deposit limit exceeded'') (Inr (deposit, minimumLimited))))"

record quote_times =
  qt_list1 :: int
  qt_list2 :: int
  qt_cap :: int
  qt_limit :: int
  qt_check :: int

definition quote_expiry :: "quote_times \<Rightarrow> int \<Rightarrow> refuel_err + int" where
  "quote_expiry t expires =
     (let expires = expires * 1000000000;
          expires = (if expires > qt_cap t + 45 * 1000000000 then qt_limit t + 45 * 1000000000 else expires)
      in rcheck (expires > qt_check t + 5 * 1000000000) (unavailable ''quote expired'') (Inr expires))"

text \<open>\<open>Quote\<close> for a chain list.\<close>

definition quote_for :: "provider \<Rightarrow> quote_times \<Rightarrow> quote_request \<Rightarrow> int \<Rightarrow> gasChain list \<Rightarrow> refuel_err + quote" where
  "quote_for V t req needed listed =
     (case (chain_of listed (qr_SourceChain req), chain_of listed (qr_DestinationChain req)) of
        (Some source, Some destination) \<Rightarrow>
          rcheck (\<not> (\<not> gc_Inbound source \<or> \<not> gc_Mainnet source \<or> \<not> gc_Mainnet destination \<or> gc_Decimals source \<noteq> 18 \<or>
              gc_Decimals destination \<noteq> 18 \<or> gc_Short destination = 0 \<or> \<not> gc_Price source > 0)) (unavailable ''network not supported'') (
          rbind (integer (gc_MinOutbound destination)) (\<lambda>minimum.
          let minimumLimited = minimum > needed;
              wanted = (if minimumLimited then ceilRatio minimum 10001 10000 else needed) in
          rbind (pv_reverse V (qr_SourceChain req) wanted (qr_DestinationChain req)) (\<lambda>(rev_chain, required).
          rbind (integer required) (\<lambda>deposit.
          rcheck (\<not> (rev_chain \<noteq> qr_DestinationChain req \<or> deposit = 0)) (unavailable ''invalid reverse quote'') (
          rbind (quote_deposit source deposit minimumLimited) (\<lambda>(deposit, minimumLimited).
          rbind (pv_forward V (qr_SourceChain req) deposit (qr_DestinationChain req) (pv_HexToAddress V (qr_From req))
              (pv_HexToAddress V (qr_Recipient req))) (\<lambda>forward.
          case fw_Quotes forward of
            [q] \<Rightarrow>
              rcheck (\<not> (fq_Chain q \<noteq> qr_DestinationChain req \<or> fq_Error q \<noteq> [])) (unavailable ''incomplete outbound quote'') (
              rbind (integer (fq_Expected q)) (\<lambda>expected.
              rcheck (\<not> expected < needed) (unavailable ''output does not cover the transfer fee; refresh quote'') (
              case HexDecode (TrimPrefix0x (fw_Calldata forward)) of
                None \<Rightarrow> Inl (unavailable ''invalid deposit data'')
              | Some calldata \<Rightarrow>
                  let want = deposit_payload V (qr_From req) (qr_Recipient req) (gc_Short destination) in
                  rcheck (calldata = want) (unavailable ''deposit recipient or destination does not match'') (
                  rbind (quote_expiry t (fw_Expires forward)) (\<lambda>expires.
                  Inr \<lparr>qu_Provider = ''Gas.zip'', qu_To = DepositAddress, qu_Data = ''0x'' @ HexEncode want, qu_Deposit = deposit,
                    qu_Expected = expected, qu_DepositUSD = of_int deposit / 10 ^ 18 * gc_Price source,
                    qu_SourcePriceUSD = gc_Price source, qu_MinimumLimited = minimumLimited, qu_ExpiresAt = expires\<rparr>)))))
          | _ \<Rightarrow> Inl (unavailable ''incomplete outbound quote''))))))))
      | _ \<Rightarrow> Inl (unavailable ''network not supported''))"

definition gaszip_Quote :: "provider \<Rightarrow> quote_times \<Rightarrow> quote_request \<Rightarrow> gaszip \<Rightarrow> gaszip \<times> (refuel_err + quote)" where
  "gaszip_Quote V t req g =
     (case qr_Needed req of None \<Rightarrow> (g, Inl (unavailable ''invalid native top-up route'')) | Some needed \<Rightarrow>
      if \<not> SupportedSource (qr_SourceChain req) \<or> qr_SourceChain req = qr_DestinationChain req \<or> needed \<le> 0 \<or> 2 ^ 256 \<le> needed \<or>
         \<not> pv_IsHexAddress V (qr_From req) \<or> \<not> pv_IsHexAddress V (qr_Recipient req) \<or>
         pv_HexToAddress V (qr_Recipient req) = replicate 20 0
      then (g, Inl (unavailable ''invalid native top-up route''))
      else case chainList V (qt_list1 t) (qt_list2 t) g of
        (g, Inl e) \<Rightarrow> (g, Inl e)
      | (g, Inr listed) \<Rightarrow> (g, quote_for V t req needed listed))"

record delivery =
  dl_Hash :: string
  dl_Status :: string

record deposit_tx =
  dt_Chain :: int
  dt_To :: string
  dt_Hash :: string
  dt_Status :: string
  dt_Cancelled :: bool
  dt_Refund :: bool

definition Delivery :: "(string \<Rightarrow> refuel_err + string \<times> deposit_tx list) \<Rightarrow> string \<Rightarrow> int \<Rightarrow> string \<Rightarrow> refuel_err + delivery" where
  "Delivery get hash destination recipient =
     rcheck (\<not> (length hash \<noteq> 66 \<or> take 2 hash \<noteq> ''0x'')) (unavailable ''invalid deposit hash'') (
     rcheck (HexDecode (drop 2 hash) \<noteq> None) (unavailable ''invalid deposit hash'') (
     rbind (get hash) (\<lambda>(status, txs).
     if status = ''CANCELLED'' then Inr \<lparr>dl_Hash = [], dl_Status = ''cancelled''\<rparr>
     else case find (\<lambda>tx. dt_Chain tx = destination \<and> EqualFold (dt_To tx) recipient \<and> \<not> dt_Refund tx \<and> \<not> dt_Cancelled tx \<and>
            dt_Status tx = ''CONFIRMED'') txs of
       Some tx \<Rightarrow> Inr \<lparr>dl_Hash = dt_Hash tx, dl_Status = ''delivered''\<rparr>
     | None \<Rightarrow> Inr \<lparr>dl_Hash = [], dl_Status = ''pending''\<rparr>)))"

end
