(* ===== verification/RefuelHandlers.thy ===== *)
theory RefuelHandlers
  imports RefuelStore
begin

text \<open>
  The handlers of gas top-ups (internal/httpapi/refuel.go): quoting the sources that can pay for the
  fee of a token transfer, sending the deposit of a stored plan, and following it until it arrives.

  The plan file and the operation file of a space are the state, with the spaces. Estimates, balances
  and receipts of the EVM adapter and the answers of the provider are functions; the program that is
  lent the key is a \<open>world\<close>, in which the record made before the broadcast is an \<open>Elsewhere\<close> step. The
  step-up of a send stands before the rest.
\<close>

record refuel_platform =
  rp_base :: platform
  rp_plans :: "plans file_state"

datatype refuel_reply =
    Plain reply
  | PlanRefused nat refuel_err
  | PendingPlan string
  | NoShortfall transfer_estimate
  | Quoted "plan list" "string list"
  | TopUpStatus string plan

record refuel_request = transfer_request +
  rr_Data :: "byte list"

text \<open>The EVM adapter, the provider and Go's decimals, as the handlers use them.\<close>

record evm_side =
  ev_Balance :: "string \<Rightarrow> string \<Rightarrow> chain_asset \<Rightarrow> chain_error + string"
  ev_EstimateFunding :: "string \<Rightarrow> refuel_request \<Rightarrow> chain_error + transfer_estimate"
  ev_Transaction :: "string \<Rightarrow> string \<Rightarrow> chain_error + transaction"
  ev_NativeDelivery :: "string \<Rightarrow> string \<Rightarrow> string \<Rightarrow> int \<Rightarrow> chain_error + bool"
  ev_Quote :: "quote_request \<Rightarrow> refuel_err + quote"
  ev_Delivery :: "string \<Rightarrow> int \<Rightarrow> string \<Rightarrow> refuel_err + delivery"
  ev_priceUSD :: "network \<Rightarrow> rat"
  ev_parse :: "string \<Rightarrow> rat option"
  ev_show :: "rat \<Rightarrow> string"
  ev_FromHex :: "string \<Rightarrow> byte list"
  ev_marshal :: "string \<Rightarrow> byte list option"

definition nativeAsset :: "network \<Rightarrow> chain_asset" where
  "nativeAsset item = \<lparr>ca_ID = nw_ID item @ '':native'', ca_NetworkID = nw_ID item, ca_Kind = ''native'', ca_Name = [],
     ca_Symbol = na_Symbol (nw_Native item), ca_Decimals = na_Decimals (nw_Native item), ca_Contract = [], ca_Configured = False\<rparr>"

text \<open>\<open>strconv.ParseInt\<close> in base 10 with its error dropped.\<close>

definition ParseInt64 :: "string \<Rightarrow> int" where
  "ParseInt64 s =
     (let (neg, ds) = (case s of [] \<Rightarrow> (False, []) | c # cs \<Rightarrow>
            if c = CHR ''-'' then (True, cs) else if c = CHR ''+'' then (False, cs) else (False, s))
      in if ds = [] \<or> \<not> list_all is_digit ds then 0
         else if neg then max (- (2 ^ 63)) (- int (dec_val ds)) else min (2 ^ 63 - 1) (int (dec_val ds)))"

definition request_of :: "transfer_request \<Rightarrow> byte list \<Rightarrow> refuel_request" where
  "request_of t data = transfer_request.extend t \<lparr>rr_Data = data\<rparr>"

section \<open>Quoting\<close>

text \<open>The sources an interactive request checks; the filters are the query parameters.\<close>

definition refuel_candidates ::
  "platform_ctx \<Rightarrow> network \<Rightarrow> transfer_request \<Rightarrow> account list \<Rightarrow> string \<Rightarrow> string \<Rightarrow> (account \<times> network) list" where
  "refuel_candidates C item transfer accounts byAccount byNetwork =
     concat (map (\<lambda>a. map (Pair a) (filter (\<lambda>source.
         \<not> (\<not> nw_Enabled source \<or> nw_Testnet source \<or> nw_Family source \<noteq> FamilyEVM \<or> \<not> BoundTo a (nw_ID source) \<or>
            (ac_ID a = tq_AccountID transfer \<and> nw_ID source = nw_ID item)) \<and>
         \<not> (byAccount \<noteq> [] \<and> ac_ID a \<noteq> byAccount) \<and>
         \<not> (byNetwork \<noteq> [] \<and> nw_ID source \<noteq> byNetwork) \<and>
         \<not> (nw_ID source \<noteq> nw_ID item \<and> \<not> SupportedSource (ParseInt64 (nw_ChainID source))))
       (map (effectiveNetwork C) (network_List (pc_networks C))))) accounts)"

definition shift_up :: "nat \<Rightarrow> rat \<Rightarrow> rat" where "shift_up d x = x * 10 ^ d"
definition shift_down :: "nat \<Rightarrow> rat \<Rightarrow> rat" where "shift_down d x = x / 10 ^ d"

definition native_decimals :: "network \<Rightarrow> nat" where
  "native_decimals item = unat (na_Decimals (nw_Native item))"

text \<open>What the account lacks: ten percent above the fee, less what it has, rounded up to a base unit.\<close>

definition refuel_needed :: "network \<Rightarrow> transfer_estimate \<Rightarrow> rat" where
  "refuel_needed destination estimate =
     (let d = native_decimals destination in
      shift_down d (of_int \<lceil>shift_up d (es_Fee estimate * (110 / 100) - es_NativeBalance estimate)\<rceil>))"

definition direct_quote :: "network \<Rightarrow> transfer_request \<Rightarrow> rat \<Rightarrow> rat \<Rightarrow> int \<Rightarrow> quote" where
  "direct_quote destination transfer needed priceUSD now =
     (let units = \<lfloor>shift_up (native_decimals destination) needed\<rfloor> in
      \<lparr>qu_Provider = ''Direct transfer'', qu_To = tq_From transfer, qu_Data = [], qu_Deposit = units, qu_Expected = units,
       qu_DepositUSD = needed * priceUSD, qu_SourcePriceUSD = priceUSD, qu_MinimumLimited = False,
       qu_ExpiresAt = now + 90 * 1000000000\<rparr>)"

definition buildRefuelPlan ::
  "evm_side \<Rightarrow> int \<Rightarrow> network \<Rightarrow> transfer_request \<Rightarrow> transfer_estimate \<Rightarrow> account \<times> network \<Rightarrow> string + plan" where
  "buildRefuelPlan V now destination transfer estimate source =
     (let (acc, net) = source; address = address_of (ac_Addresses acc) FamilyEVM in
      case ev_Balance V (nw_ID net) address (nativeAsset net) of Inl e \<Rightarrow> Inl ''balance'' | Inr balance \<Rightarrow>
      if (case ev_parse V balance of None \<Rightarrow> True | Some available \<Rightarrow> \<not> 0 < available) then Inl ''no spendable native balance'' else
      let needed = refuel_needed destination estimate;
          units = \<lfloor>shift_up (native_decimals destination) needed\<rfloor> in
      case (if nw_ID net = nw_ID destination then Inr (direct_quote destination transfer needed (ev_priceUSD V net) now)
            else ev_Quote V \<lparr>qr_SourceChain = ParseInt64 (nw_ChainID net), qr_DestinationChain = ParseInt64 (nw_ChainID destination),
              qr_From = address, qr_Recipient = tq_From transfer, qr_Needed = Some units\<rparr>) of
        Inl e \<Rightarrow> Inl ''quote'' | Inr q \<Rightarrow>
      if \<not> qu_Deposit q > 0 then Inl ''invalid top-up deposit'' else
      let deposit = shift_down (native_decimals net) (of_int (qu_Deposit q));
          expected = shift_down (native_decimals destination) (of_int (qu_Expected q)) in
      if expected < needed then Inl ''top-up cannot cover the transfer fee'' else
      let sourceReq = request_of \<lparr>tq_Action = [], tq_AccountID = ac_ID acc, tq_From = address, tq_To = qu_To q,
            tq_Asset = nativeAsset net, tq_Amount = ev_show V deposit, tq_Approved = None\<rparr> (ev_FromHex V (qu_Data q)) in
      case ev_EstimateFunding V (nw_ID net) sourceReq of Inl e \<Rightarrow> Inl ''estimate'' | Inr sourceEstimate \<Rightarrow>
      if 0 < es_FeeShortfall sourceEstimate then Inl ''native balance does not cover deposit and source gas'' else
      let total = deposit + es_Fee sourceEstimate in
      Inr \<lparr>pl_ID = [], pl_NetworkID = nw_ID destination,
        pl_Target = \<lparr>tg_AccountID = tq_AccountID transfer, tg_AssetID = ca_ID (tq_Asset transfer), tg_To = tq_To transfer,
          tg_Amount = tq_Amount transfer\<rparr>,
        pl_Recipient = tq_From transfer, pl_SourceNetworkID = nw_ID net, pl_SourceAccountID = ac_ID acc, pl_SourceAddress = address,
        pl_SourceLabel = ac_Label acc, pl_Quote = q, pl_SourceEstimate = sourceEstimate, pl_TargetEstimate = estimate,
        pl_Required = needed, pl_Expected = expected,
        pl_Remainder = es_NativeBalance estimate + expected - es_EstimatedFee estimate, pl_TotalSource = total,
        pl_TotalUSD = (if 0 < qu_SourcePriceUSD q then Some (total * qu_SourcePriceUSD q) else None),
        pl_Started = False, pl_Finished = False, pl_CreatedAt = 0\<rparr>)"

text \<open>The stable sort: by total price, plans without one last.\<close>

definition sort_plans :: "plan list \<Rightarrow> plan list" where
  "sort_plans ps = sort_key (\<lambda>p. the (pl_TotalUSD p)) (filter (\<lambda>p. pl_TotalUSD p \<noteq> None) ps) @ filter (\<lambda>p. pl_TotalUSD p = None) ps"

fun put_plans :: "(nat \<Rightarrow> plan_env) \<Rightarrow> nat \<Rightarrow> string \<Rightarrow> plan list \<Rightarrow> plan list plan_op" where
  "put_plans ev n spaceID [] = sret []"
| "put_plans ev n spaceID (p # ps) =
     sbind (Put (ev n) spaceID p) (\<lambda>stored. sbind (put_plans ev (n + 1) spaceID ps) (\<lambda>rest. sret (stored # rest)))"

record refuel_env =
  re_request :: request_env
  re_active :: plan_env
  re_put :: "nat \<Rightarrow> plan_env"
  re_claim :: plan_env
  re_mark :: plan_env
  re_fail :: store_env
  re_now :: int
  re_visit_accounts :: step_env

definition quoteRefuel ::
  "platform_ctx \<Rightarrow> evm_side \<Rightarrow> refuel_env \<Rightarrow> string \<Rightarrow> string \<Rightarrow> transfer_dto option \<Rightarrow> string \<Rightarrow> string \<Rightarrow> refuel_platform
     \<Rightarrow> refuel_platform \<times> refuel_reply" where
  "quoteRefuel C V R spaceID networkID body byAccount byNetwork p =
     (case decodePlatformTransfer C (rq_accounts (re_request R)) spaceID networkID body (pf_spaces (rp_base p)) of
        (m, Inl r) \<Rightarrow> (p\<lparr>rp_base := (rp_base p)\<lparr>pf_spaces := m\<rparr>\<rparr>, Plain r)
      | (m, Inr (_, item, transfer)) \<Rightarrow>
      let p = p\<lparr>rp_base := (rp_base p)\<lparr>pf_spaces := m\<rparr>\<rparr> in
      if nw_Family item \<noteq> FamilyEVM \<or> nw_Testnet item \<or> ca_Kind (tq_Asset transfer) \<noteq> ''erc20'' \<or> tq_Action transfer \<noteq> []
      then (p, Plain (RefusedReply 400 ''gas top-ups are available for mainnet EVM token transfers'')) else
      case Active (re_active R) spaceID (nw_ID item) (tq_AccountID transfer) (rp_plans p) of
        (_, Inl e) \<Rightarrow> (p, PlanRefused 500 e)
      | (_, Inr (Some active)) \<Rightarrow> (p, PendingPlan (pl_ID active))
      | (_, Inr None) \<Rightarrow>
      (case (if tq_Amount transfer = ''max''
             then (case ev_Balance V (nw_ID item) (tq_From transfer) (tq_Asset transfer) of
                     Inl e \<Rightarrow> Inl e | Inr balance \<Rightarrow> Inr (transfer\<lparr>tq_Amount := balance\<rparr>))
             else Inr transfer) of
        Inl e \<Rightarrow> (p, Plain (writePlatformError (ChainFlow e)))
      | Inr transfer \<Rightarrow>
      (case ev_EstimateFunding V (nw_ID item) (request_of transfer []) of
        Inl e \<Rightarrow> (p, Plain (writePlatformError (ChainFlow e)))
      | Inr estimate \<Rightarrow>
      if \<not> 0 < es_FeeShortfall estimate then (p, NoShortfall estimate) else
      (case Get (re_visit_accounts R) spaceID (pf_spaces (rp_base p)) of
        (m, Inl e) \<Rightarrow> (p\<lparr>rp_base := (rp_base p)\<lparr>pf_spaces := m\<rparr>\<rparr>, Plain (writePlatformError (SpaceFlow e)))
      | (m, Inr (_, accounts)) \<Rightarrow>
      let p = p\<lparr>rp_base := (rp_base p)\<lparr>pf_spaces := m\<rparr>\<rparr>;
          candidates = take 32 (refuel_candidates C item transfer accounts byAccount byNetwork);
          results = map (buildRefuelPlan V (re_now R) item transfer estimate) candidates;
          found = concat (map (\<lambda>r. case r of Inl _ \<Rightarrow> [] | Inr plan \<Rightarrow> [plan]) results);
          notes = concat (map (\<lambda>r. case r of Inl note \<Rightarrow> [note] | Inr _ \<Rightarrow> []) results) in
      (case put_plans (re_put R) 0 spaceID (sort_plans found) (rp_plans p) of
        (ps, Inl e) \<Rightarrow> (p\<lparr>rp_plans := ps\<rparr>, PlanRefused 500 e)
      | (ps, Inr saved) \<Rightarrow> (p\<lparr>rp_plans := ps\<rparr>, Quoted saved notes))))))"

section \<open>Sending the deposit\<close>

definition getRefuelPlan :: "string \<Rightarrow> string \<Rightarrow> string \<Rightarrow> plans file_state \<Rightarrow> refuel_reply + plan" where
  "getRefuelPlan spaceID networkID planID ps =
     (case plan_Get spaceID planID ps of
        (_, Inl e) \<Rightarrow> Inl (PlanRefused 404 e)
      | (_, Inr plan) \<Rightarrow>
          if pl_NetworkID plan \<noteq> networkID then Inl (Plain (RefusedReply 400 ''top-up belongs to another network'')) else Inr plan)"

definition plan_key :: "string \<Rightarrow> string" where
  "plan_key planID = ''refuel-'' @ planID"

type_synonym refuel_answered = "refuel_platform \<times> trace_event list \<times> refuel_reply option"

definition refuel_answer :: "refuel_platform \<Rightarrow> refuel_reply \<Rightarrow> refuel_answered" where
  "refuel_answer p r = (p, [], Some r)"

definition set_ops :: "refuel_platform \<Rightarrow> op_file file_state \<Rightarrow> refuel_platform" where
  "set_ops p s = p\<lparr>rp_base := (rp_base p)\<lparr>pf_ops := s\<rparr>\<rparr>"

definition set_spaces :: "refuel_platform \<Rightarrow> manager \<Rightarrow> refuel_platform" where
  "set_spaces p m = p\<lparr>rp_base := (rp_base p)\<lparr>pf_spaces := m\<rparr>\<rparr>"

definition set_plans :: "refuel_platform \<Rightarrow> plans file_state \<Rightarrow> refuel_platform" where
  "set_plans p ps = p\<lparr>rp_plans := ps\<rparr>"

text \<open>\<open>fail\<close>: the plan is finished and the operation failed; an error of marking the plan is dropped.\<close>

definition refuel_fail :: "refuel_env \<Rightarrow> string \<Rightarrow> string \<Rightarrow> flow_error \<Rightarrow> refuel_platform \<Rightarrow> refuel_answered" where
  "refuel_fail R spaceID planID err p =
     (let p = set_plans p (fst (Mark (re_mark R) spaceID planID True (rp_plans p))) in
      case Update (re_fail R) spaceID (plan_key planID) [] StatusFailed (pf_ops (rp_base p)) of
        (s, Inl updateErr) \<Rightarrow> refuel_answer (set_ops p s) (Plain (writePlatformError (StoreFlow updateErr)))
      | (s, Inr _) \<Rightarrow> refuel_answer (set_ops p s) (Plain (writePlatformError err)))"

definition approvalFromEstimate :: "transfer_estimate \<Rightarrow> fee_approval" where
  "approvalFromEstimate e =
     \<lparr>fa_FeeModel = es_FeeModel e, fa_GasLimit = es_GasLimit e, fa_MaxFeePerGas = es_MaxFeePerGas e,
      fa_MaxPriorityFeePerGas = es_MaxPriorityFeePerGas e, fa_ComputeUnitLimit = 0, fa_ComputeUnitPriceMicroLamports = 0,
      fa_CreatesTokenAccount = False, fa_TokenAccountRent = [], fa_Fee = []\<rparr>"

definition deposit_request :: "evm_side \<Rightarrow> network \<Rightarrow> plan \<Rightarrow> refuel_request" where
  "deposit_request V source plan =
     request_of \<lparr>tq_Action = [], tq_AccountID = pl_SourceAccountID plan, tq_From = pl_SourceAddress plan, tq_To = qu_To (pl_Quote plan),
       tq_Asset = nativeAsset source,
       tq_Amount = ev_show V (shift_down (native_decimals source) (of_int (qu_Deposit (pl_Quote plan)))),
       tq_Approved = Some (approvalFromEstimate (pl_SourceEstimate plan))\<rparr> (ev_FromHex V (qu_Data (pl_Quote plan)))"

text \<open>What is checked again before the key is lent: the token, the need at the destination, the cost
  at the source.\<close>

definition refuel_recheck :: "platform_ctx \<Rightarrow> evm_side \<Rightarrow> network \<Rightarrow> network \<Rightarrow> plan \<Rightarrow> chain_error + refuel_request" where
  "refuel_recheck C V source destination plan =
     (case findAsset (pc_assets C destination) (tg_AssetID (pl_Target plan)) of None \<Rightarrow> Inl ErrInvalidRequest | Some targetAsset \<Rightarrow>
      rbind (ev_EstimateFunding V (nw_ID destination) (request_of \<lparr>tq_Action = [], tq_AccountID = [], tq_From = pl_Recipient plan,
          tq_To = tg_To (pl_Target plan), tq_Asset = targetAsset, tq_Amount = tg_Amount (pl_Target plan), tq_Approved = None\<rparr> []))
        (\<lambda>targetNow.
      rcheck (\<not> (\<not> 0 < es_FeeShortfall targetNow \<or> es_FeeShortfall targetNow > pl_Expected plan)) ErrFeeChanged (
      let req = deposit_request V source plan in
      rbind (ev_EstimateFunding V (nw_ID source) req) (\<lambda>fresh.
      rcheck (\<not> (es_Fee fresh > es_Fee (pl_SourceEstimate plan) \<or> 0 < es_FeeShortfall fresh)) ErrFeeChanged (Inr req)))))"

definition finishRefuel ::
  "refuel_env \<Rightarrow> string \<Rightarrow> string \<Rightarrow> transaction \<Rightarrow> flow_error option \<Rightarrow> refuel_platform \<Rightarrow> refuel_platform \<times> refuel_reply" where
  "finishRefuel R spaceID planID tx err p =
     (let status = (case err of None \<Rightarrow> tr_Status tx | Some e \<Rightarrow> failure_status e) in
      case Update (rq_finish (re_request R)) spaceID (plan_key planID) (tr_Hash tx) status (pf_ops (rp_base p)) of
        (s, Inl updateErr) \<Rightarrow> (set_ops p s, Plain (writePlatformError (StoreFlow updateErr)))
      | (s, Inr updated) \<Rightarrow>
          let p = set_ops p s in
          (case err of
             Some e \<Rightarrow>
               if status = StatusFailed
               then (set_plans p (fst (Mark (re_mark R) spaceID planID True (rp_plans p))), Plain (writePlatformError e))
               else (p, Plain (OperationReply 202 updated))
           | None \<Rightarrow> (p, Plain (OperationReply 202 updated))))"

text \<open>The end of \<open>sendRefuel\<close>: the key is lent, and the outcome recorded.\<close>

definition refuel_signing ::
  "platform_ctx \<Rightarrow> refuel_env \<Rightarrow> string \<Rightarrow> string \<Rightarrow> plan \<Rightarrow> network \<Rightarrow> (transaction \<times> chain_error option) world \<Rightarrow> refuel_platform
     \<Rightarrow> refuel_answered" where
  "refuel_signing C R spaceID planID plan source w p =
     (case WithSigner (pc_space C) (rq_lend (re_request R)) spaceID (pl_SourceAccountID plan) (nw_ID source) FamilyEVM (pf_spaces (rp_base p)) of
        (m, Inl e) \<Rightarrow>
          (case finishRefuel R spaceID planID no_transaction (Some (SpaceFlow e)) (set_spaces p m) of (p, r) \<Rightarrow> refuel_answer p r)
      | (m, Inr key) \<Rightarrow>
     (case run_world w C
         \<lparr>ln_space = spaceID, ln_opkey = plan_key planID, ln_signer = PlainDigest key\<rparr> 0 (pf_ops (rp_base p)) of
        (s, tr, None) \<Rightarrow> (set_ops (set_spaces p m) s, tr, None)
      | (s, tr, Some (tx, err)) \<Rightarrow>
          (case finishRefuel R spaceID planID tx (map_option ChainFlow err) (set_ops (set_spaces p m) s) of
             (p, r) \<Rightarrow> (p, tr, Some r))))"

text \<open>What follows a new reservation: the expiry, the networks, the claim and the checks.\<close>

definition refuel_pay ::
  "platform_ctx \<Rightarrow> evm_side \<Rightarrow> refuel_env \<Rightarrow> string \<Rightarrow> string \<Rightarrow> plan
     \<Rightarrow> (network \<Rightarrow> refuel_request \<Rightarrow> (transaction \<times> chain_error option) world) \<Rightarrow> refuel_platform \<Rightarrow> refuel_answered" where
  "refuel_pay C V R spaceID planID plan evmSend p =
     (if \<not> qu_ExpiresAt (pl_Quote plan) > re_now R then refuel_fail R spaceID planID (ChainFlow ErrFeeChanged) p else
      case enabledNetwork C (pl_SourceNetworkID plan) of Inl e \<Rightarrow> refuel_fail R spaceID planID e p | Inr source \<Rightarrow>
      case enabledNetwork C (pl_NetworkID plan) of Inl e \<Rightarrow> refuel_fail R spaceID planID e p | Inr destination \<Rightarrow>
      case Claim (re_claim R) spaceID planID (rp_plans p) of
        (ps, Inl e) \<Rightarrow> refuel_fail R spaceID planID (ChainFlow (ChainErr ''a gas top-up is already pending for this wallet'')) (set_plans p ps)
      | (ps, Inr _) \<Rightarrow>
          (case refuel_recheck C V source destination plan of
             Inl e \<Rightarrow> refuel_fail R spaceID planID (ChainFlow e) (set_plans p ps)
           | Inr req \<Rightarrow> refuel_signing C R spaceID planID plan source (evmSend source req) (set_plans p ps)))"

definition sendRefuel ::
  "platform_ctx \<Rightarrow> evm_side \<Rightarrow> refuel_env \<Rightarrow> string \<Rightarrow> string \<Rightarrow> string
     \<Rightarrow> (network \<Rightarrow> refuel_request \<Rightarrow> (transaction \<times> chain_error option) world) \<Rightarrow> refuel_platform \<Rightarrow> refuel_answered" where
  "sendRefuel C V R spaceID networkID planID evmSend p =
     (case RequireSendConfirmation (rq_confirm (re_request R)) spaceID (pf_spaces (rp_base p)) of
        (m, Inl e) \<Rightarrow> refuel_answer (set_spaces p m) (Plain (writePlatformError (SpaceFlow e)))
      | (m, Inr _) \<Rightarrow>
     (case getRefuelPlan spaceID networkID planID (rp_plans p) of Inl r \<Rightarrow> refuel_answer (set_spaces p m) r | Inr plan \<Rightarrow>
     (case RequestHash (ev_marshal V) (wl_sha256 (sx_W (pc_space C))) planID of
        Inl e \<Rightarrow> refuel_answer (set_spaces p m) (Plain (writePlatformError (StoreFlow e)))
      | Inr requestHash \<Rightarrow>
     (case Begin (rq_begin (re_request R)) spaceID (plan_key planID) requestHash (pl_SourceNetworkID plan) (pf_ops (rp_base p)) of
        (s, Inl e) \<Rightarrow> refuel_answer (set_ops (set_spaces p m) s) (Plain (writePlatformError (StoreFlow e)))
      | (s, Inr (existing, True)) \<Rightarrow>
          refuel_answer (set_ops (set_spaces p m) s)
            (Plain (case rejectIncompleteReplay existing of Some r \<Rightarrow> r | None \<Rightarrow> OperationReply 200 existing))
      | (s, Inr (_, False)) \<Rightarrow> refuel_pay C V R spaceID planID plan evmSend (set_ops (set_spaces p m) s)))))"

section \<open>Following it\<close>

definition refuel_state ::
  "platform_ctx \<Rightarrow> evm_side \<Rightarrow> plan \<Rightarrow> string \<Rightarrow> chain_error + string" where
  "refuel_state C V plan txHash =
     rbind (ev_Transaction V (pl_SourceNetworkID plan) txHash) (\<lambda>sourceStatus.
     if tr_Status sourceStatus = ''failed'' then Inr ''failed''
     else if tr_Status sourceStatus \<noteq> ''confirmed'' then Inr ''pending''
     else if pl_SourceNetworkID plan = pl_NetworkID plan then Inr ''delivered''
     else case network_Get (pc_networks C) (pl_NetworkID plan) of Inl e \<Rightarrow> Inl (ChainErr ''network'') | Inr dest \<Rightarrow>
       (case ev_Delivery V txHash (ParseInt64 (nw_ChainID dest)) (pl_Recipient plan) of
          Inl e \<Rightarrow> Inl (ChainErr ''delivery'')
        | Inr d \<Rightarrow>
            if dl_Status d = ''cancelled'' then Inr ''cancelled''
            else if dl_Status d = ''delivered'' then
              rbind (ev_NativeDelivery V (pl_NetworkID plan) (dl_Hash d) (pl_Recipient plan)
                \<lfloor>shift_up (native_decimals dest) (pl_Required plan)\<rfloor>) (\<lambda>delivered.
              Inr (if delivered then ''delivered'' else ''pending''))
            else Inr ''pending''))"

definition refuelStatus ::
  "platform_ctx \<Rightarrow> evm_side \<Rightarrow> refuel_env \<Rightarrow> string \<Rightarrow> string \<Rightarrow> string \<Rightarrow> refuel_platform \<Rightarrow> refuel_platform \<times> refuel_reply" where
  "refuelStatus C V R spaceID networkID planID p =
     (case getRefuelPlan spaceID networkID planID (rp_plans p) of Inl r \<Rightarrow> (p, r) | Inr plan \<Rightarrow>
      case op_Get spaceID (plan_key planID) (pf_ops (rp_base p)) of
        (_, Inl e) \<Rightarrow> (p, Plain (writePlatformError (StoreFlow e)))
      | (_, Inr None) \<Rightarrow> (p, TopUpStatus ''not_started'' plan)
      | (_, Inr (Some op)) \<Rightarrow>
          if op_Status op = StatusFailed then (p, TopUpStatus ''failed'' plan)
          else if op_TxHash op = [] then (p, TopUpStatus ''pending'' plan)
          else case refuel_state C V plan (op_TxHash op) of
            Inl e \<Rightarrow> (p, Plain (writePlatformError (ChainFlow e)))
          | Inr state \<Rightarrow>
              if state \<in> {''delivered'', ''failed'', ''cancelled''} then
                (case Mark (re_mark R) spaceID planID True (rp_plans p) of
                   (ps, Inl e) \<Rightarrow> (set_plans p ps, PlanRefused 500 e)
                 | (ps, Inr _) \<Rightarrow> (set_plans p ps, TopUpStatus state plan))
              else (p, TopUpStatus state plan))"

end
