(* ===== verification/RefuelSafety.thy ===== *)
theory RefuelSafety
  imports RefuelHandlers SendProperties
begin

text \<open>
  What holds of gas top-ups under every history: at most one pending top-up for a wallet on a network,
  and the fate of a top-up whose process dies between the claim and the first record of its
  transaction. The handlers act on a plan file only through the operations of the store, so the
  invariant of the store is the invariant of the handlers.
\<close>

section \<open>Files of plans\<close>

definition one_pending :: "plans \<Rightarrow> bool" where
  "one_pending f \<longleftrightarrow> (\<forall>a p b q n w. map_of f a = Some p \<and> map_of f b = Some q \<and> pending_for n w p \<and> pending_for n w q \<longrightarrow> a = b)"

definition plan_file_ok :: "plans \<Rightarrow> bool" where
  "plan_file_ok f \<longleftrightarrow> distinct (map fst f) \<and> length f \<le> maxPlans \<and> (\<forall>a\<in>fst ` set f. \<exists>bs. bs \<noteq> [] \<and> a = HexEncode bs) \<and> one_pending f"

definition plans_ok :: "plans file_state \<Rightarrow> bool" where
  "plans_ok s \<longleftrightarrow> (\<forall>i f. s i = Holds f \<longrightarrow> plan_file_ok f)"

definition plan_file :: "plans file_state \<Rightarrow> string \<Rightarrow> plans" where
  "plan_file s i = (case s i of Holds f \<Rightarrow> f | _ \<Rightarrow> [])"

lemma plan_file_ok_empty [simp]: "plan_file_ok []"
  by (simp add: plan_file_ok_def one_pending_def)

lemma plan_file_good: "plans_ok s \<Longrightarrow> plan_file_ok (plan_file s i)"
  by (auto simp: plans_ok_def plan_file_def split: disk_file.splits)

lemma plans_load_file: "fst (plans_load i s) = s" "plans_load i s = (t, Inr f) \<Longrightarrow> t = s \<and> f = plan_file s i"
  by (auto simp: plans_load_def plan_file_def split: if_splits disk_file.splits)

lemma plans_ok_save: "plans_ok s \<Longrightarrow> plan_file_ok f \<Longrightarrow> plans_ok (s(i := Holds f))"
  by (simp add: plans_ok_def)

lemma plan_file_saved [simp]: "plan_file (s(i := Holds f)) j = (if j = i then f else plan_file s j)"
  by (simp add: plan_file_def)

text \<open>What an operation of the store may leave behind.\<close>

lemma saved_or_same: "fst (plans_save w i f s) = s \<or> fst (plans_save w i f s) = s(i := Holds f)"
  by (cases w) (simp_all add: plans_save_def save_file_def)

lemma Put_effect:
  obtains "fst (Put ev i p s) = s"
  | r where "pe_rand ev = Some r"
      "fst (Put ev i p s) = s(i := Holds (AList.update (HexEncode r) (p\<lparr>pl_ID := HexEncode r, pl_CreatedAt := pe_now ev\<rparr>)
         (filter (\<lambda>(_, p). \<not> stale_plan (pe_now ev) p) (plan_file s i))))"
      "length (filter (\<lambda>(_, p). \<not> stale_plan (pe_now ev) p) (plan_file s i)) < maxPlans"
proof -
  obtain f where f: "plans_load i s = (s, f)" using plans_load_file(1) by (metis eq_fst_iff)
  show ?thesis
  proof (cases f)
    case (Inl e)
    then show ?thesis using that(1) f by (simp add: Put_def sbind_def)
  next
    case (Inr plans)
    then have plans: "plans = plan_file s i" using plans_load_file(2) f by blast
    show ?thesis
    proof (cases "length (filter (\<lambda>(_, p). \<not> stale_plan (pe_now ev) p) (plan_file s i)) < maxPlans \<and> pe_rand ev \<noteq> None")
      case True
      then obtain r where r: "pe_rand ev = Some r" by blast
      have "fst (Put ev i p s) = fst (plans_save (pe_save ev) i (AList.update (HexEncode r) (p\<lparr>pl_ID := HexEncode r, pl_CreatedAt := pe_now ev\<rparr>)
         (filter (\<lambda>(_, p). \<not> stale_plan (pe_now ev) p) (plan_file s i))) s)"
        using True r f Inr plans
        by (simp add: Put_def sbind_def [of "plans_load i"] Let_def sbind_scheck)
          (simp add: sbind_def sret_def split: prod.split sum.split)
      then show ?thesis using that saved_or_same True r by metis
    next
      case False
      then have "fst (Put ev i p s) = s"
        using f Inr plans by (auto simp: Put_def sbind_def [of "plans_load i"] Let_def sbind_scheck sfail_def)
      then show ?thesis by (rule that(1))
    qed
  qed
qed

lemma Mark_effect:
  obtains "fst (Mark ev i a b s) = s"
  | p where "map_of (plan_file s i) a = Some p"
      "fst (Mark ev i a b s) = s(i := Holds (AList.update a (p\<lparr>pl_Started := True, pl_Finished := b\<rparr>) (plan_file s i)))"
proof -
  obtain f where f: "plans_load i s = (s, f)" using plans_load_file(1) by (metis eq_fst_iff)
  show ?thesis
  proof (cases f)
    case (Inl e)
    then show ?thesis using that(1) f by (simp add: Mark_def sbind_def)
  next
    case (Inr plans)
    then have "plans = plan_file s i" using plans_load_file(2) f by blast
    then have plans: "plans = plan_file s i" .
    show ?thesis
    proof (cases "map_of (plan_file s i) a")
      case None
      then show ?thesis using that(1) f Inr plans by (simp add: Mark_def sbind_def sfail_def)
    next
      case (Some p)
      then show ?thesis
        using that(1) that(2) [OF Some] f Inr plans saved_or_same [of "pe_save ev" i _ s] by (simp add: Mark_def sbind_def) blast
    qed
  qed
qed

lemma Claim_effect:
  obtains "fst (Claim ev i a s) = s" "\<And>u. snd (Claim ev i a s) \<noteq> Inr u"
  | p where "map_of (plan_file s i) a = Some p"
      "\<forall>(b, q)\<in>set (pe_visit ev (plan_file s i)). b = a \<or> \<not> pending_for (pl_NetworkID p) (tg_AccountID (pl_Target p)) q"
      "fst (Claim ev i a s) = s \<or> fst (Claim ev i a s) = s(i := Holds (AList.update a (p\<lparr>pl_Started := True\<rparr>) (plan_file s i)))"
proof -
  obtain f where f: "plans_load i s = (s, f)" using plans_load_file(1) by (metis eq_fst_iff)
  show ?thesis
  proof (cases f)
    case (Inl e)
    then show ?thesis using that(1) f by (simp add: Claim_def sbind_def)
  next
    case (Inr plans)
    then have plans: "plans = plan_file s i" using plans_load_file(2) f by blast
    show ?thesis
    proof (cases "map_of (plan_file s i) a")
      case None
      then show ?thesis using that(1) f Inr plans by (simp add: Claim_def sbind_def sfail_def)
    next
      case (Some p)
      let ?other = "\<lambda>(b, q). b \<noteq> a \<and> pending_for (pl_NetworkID p) (tg_AccountID (pl_Target p)) q"
      show ?thesis
      proof (cases "find ?other (pe_visit ev (plan_file s i))")
        case None
        then have "\<forall>(b, q)\<in>set (pe_visit ev (plan_file s i)). b = a \<or> \<not> pending_for (pl_NetworkID p) (tg_AccountID (pl_Target p)) q"
          by (auto simp: find_None_iff)
        then show ?thesis
          using that(2) [OF Some] Some None f Inr plans saved_or_same [of "pe_save ev" i _ s]
          by (simp add: Claim_def sbind_def)
      next
        case (Some x)
        then show ?thesis
          using that(1) \<open>map_of (plan_file s i) a = Some p\<close> f Inr plans by (cases x) (simp add: Claim_def sbind_def sfail_def)
      qed
    qed
  qed
qed

section \<open>Events\<close>

datatype plan_event = EvPut plan_env string plan | EvClaim plan_env string string | EvMark plan_env string string

fun run_plan_event :: "plan_event \<Rightarrow> plans file_state \<Rightarrow> plans file_state" where
  "run_plan_event (EvPut ev i p) s = fst (Put ev i p s)"
| "run_plan_event (EvClaim ev i a) s = fst (Claim ev i a s)"
| "run_plan_event (EvMark ev i a) s = fst (Mark ev i a True s)"

text \<open>Plans are built unstarted, an identifier has sixteen random bytes, a map is visited in some order.\<close>

definition fair_env :: "plan_env \<Rightarrow> bool" where
  "fair_env ev \<longleftrightarrow> visits (pe_visit ev) \<and> (\<forall>r. pe_rand ev = Some r \<longrightarrow> length r = 16)"

fun fair_plan :: "plan_event \<Rightarrow> bool" where
  "fair_plan (EvPut ev i p) \<longleftrightarrow> fair_env ev \<and> \<not> pl_Started p"
| "fair_plan (EvClaim ev i a) \<longleftrightarrow> fair_env ev"
| "fair_plan (EvMark ev i a) \<longleftrightarrow> fair_env ev"

text \<open>Files whose entries are old ones, or not pending.\<close>

lemma one_pending_less:
  assumes "one_pending f" "\<And>a p n w. map_of g a = Some p \<Longrightarrow> pending_for n w p \<Longrightarrow> \<exists>q. map_of f a = Some q \<and> pending_for n w q"
  shows "one_pending g"
  unfolding one_pending_def
proof (intro allI impI, elim conjE)
  fix a p b q n w
  assume "map_of g a = Some p" "map_of g b = Some q" "pending_for n w p" "pending_for n w q"
  then obtain p' q' where "map_of f a = Some p'" "pending_for n w p'" "map_of f b = Some q'" "pending_for n w q'"
    using assms(2) by blast
  then show "a = b" using assms(1) unfolding one_pending_def by blast
qed

lemma map_of_filter_val: "distinct (map fst f) \<Longrightarrow> map_of (filter (\<lambda>(_, p). P p) f) a = Some p \<Longrightarrow> map_of f a = Some p"
  by (metis (mono_tags, lifting) filter_is_subset map_of_SomeD map_of_eq_Some_iff subsetD)

lemma plan_file_update:
  assumes "plan_file_ok f" "map_of f a = Some p" "one_pending (AList.update a q f)"
  shows "plan_file_ok (AList.update a q f)"
proof -
  have "a \<in> fst ` set f" using assms(2) by (metis map_of_SomeD fst_conv image_eqI)
  then have "fst ` set (AList.update a q f) = fst ` set f" using dom_update [of a q f] by (auto simp: dom_map_of_conv_image_fst)
  moreover have "length (AList.update a q f) = length f"
    using \<open>a \<in> fst ` set f\<close> by (induction f) (auto split: if_splits)
  ultimately show ?thesis using assms by (simp add: plan_file_ok_def distinct_update)
qed

lemma plans_ok_run:
  assumes "plans_ok s" "fair_plan e"
  shows "plans_ok (run_plan_event e s)"
proof (cases e)
  case (EvPut ev i p)
  let ?g = "filter (\<lambda>(_, p). \<not> stale_plan (pe_now ev) p) (plan_file s i)"
  have ok: "plan_file_ok (plan_file s i)" by (rule plan_file_good [OF assms(1)])
  have len: "length (AList.update a q g) \<le> Suc (length g)" for a q and g :: plans by (induction g) auto
  show ?thesis
  proof (cases ev i p s rule: Put_effect)
    case 1
    then show ?thesis using assms(1) EvPut by simp
  next
    case (2 r)
    let ?p = "p\<lparr>pl_ID := HexEncode r, pl_CreatedAt := pe_now ev\<rparr>"
    have keys: "\<forall>a\<in>fst ` set (plan_file s i). \<exists>bs. bs \<noteq> [] \<and> a = HexEncode bs" using ok by (simp add: plan_file_ok_def)
    have dist: "distinct (map fst (plan_file s i))" using ok by (simp add: plan_file_ok_def)
    have "r \<noteq> []" using assms(2) EvPut 2(1) by (auto simp: fair_env_def)
    then have ids: "\<forall>a\<in>fst ` set (AList.update (HexEncode r) ?p ?g). \<exists>bs. bs \<noteq> [] \<and> a = HexEncode bs"
    proof -
      have "fst ` set (AList.update (HexEncode r) ?p ?g) = {HexEncode r} \<union> fst ` set ?g" by (rule dom_update)
      moreover have "\<forall>a\<in>fst ` set ?g. \<exists>bs. bs \<noteq> [] \<and> a = HexEncode bs" using keys by (meson filter_is_subset image_mono subsetD)
      ultimately show ?thesis using \<open>r \<noteq> []\<close> by blast
    qed
    have "one_pending (AList.update (HexEncode r) ?p ?g)"
    proof (rule one_pending_less)
      show "one_pending (plan_file s i)" using ok by (simp add: plan_file_ok_def)
      fix a q n w
      assume q: "map_of (AList.update (HexEncode r) ?p ?g) a = Some q" "pending_for n w q"
      then have "a \<noteq> HexEncode r" using assms(2) EvPut by (auto simp: update_conv' pending_for_def)
      then have "map_of ?g a = Some q" using q(1) by (simp add: update_conv')
      then have "map_of (plan_file s i) a = Some q" using map_of_filter_val [OF dist] by simp
      then show "\<exists>q. map_of (plan_file s i) a = Some q \<and> pending_for n w q" using q(2) by blast
    qed
    moreover have "distinct (map fst ?g)" using ok by (simp add: plan_file_ok_def distinct_map_filter)
    ultimately have "plan_file_ok (AList.update (HexEncode r) ?p ?g)"
      using ids 2(3) len [of "HexEncode r" ?p ?g] by (simp add: plan_file_ok_def distinct_update)
    then show ?thesis using plans_ok_save [OF assms(1)] 2(2) EvPut by simp
  qed
next
  case (EvClaim ev i a)
  have ok: "plan_file_ok (plan_file s i)" by (rule plan_file_good [OF assms(1)])
  show ?thesis
  proof (cases ev i a s rule: Claim_effect)
    case 1
    then show ?thesis using assms(1) EvClaim by simp
  next
    case (2 p)
    let ?q = "p\<lparr>pl_Started := True\<rparr>"
    have vis: "set (pe_visit ev (plan_file s i)) = set (plan_file s i)" using assms(2) EvClaim by (simp add: fair_env_def visits_set)
    have others: "b = a" if "map_of (plan_file s i) b = Some q" "pending_for n w q" "pending_for n w ?q" for b q n w
      using that 2(2) map_of_SomeD [OF that(1)] unfolding vis by (fastforce simp: pending_for_def)
    have "one_pending (AList.update a ?q (plan_file s i))"
      unfolding one_pending_def
    proof (intro allI impI, elim conjE)
      fix b x c y n w
      assume h: "map_of (AList.update a ?q (plan_file s i)) b = Some x" "map_of (AList.update a ?q (plan_file s i)) c = Some y"
        "pending_for n w x" "pending_for n w y"
      show "b = c"
      proof (cases "b = a"; cases "c = a")
        assume "b \<noteq> a" "c \<noteq> a"
        then have "map_of (plan_file s i) b = Some x" "map_of (plan_file s i) c = Some y" using h(1,2) by (simp_all only: update_conv' fun_upd_other not_False_eq_True)
        moreover have "one_pending (plan_file s i)" using ok by (simp add: plan_file_ok_def)
        ultimately show ?thesis using h(3,4) unfolding one_pending_def by blast
      next
        assume "b = a" "c \<noteq> a"
        then show ?thesis using h others [of c y n w] by (auto simp: update_conv')
      next
        assume "b \<noteq> a" "c = a"
        then show ?thesis using h others [of b x n w] by (auto simp: update_conv')
      qed simp
    qed
    then have "plan_file_ok (AList.update a ?q (plan_file s i))" by (rule plan_file_update [OF ok 2(1)])
    then show ?thesis using plans_ok_save [OF assms(1)] 2(3) assms(1) EvClaim by (metis run_plan_event.simps(2))
  qed
next
  case (EvMark ev i a)
  have ok: "plan_file_ok (plan_file s i)" by (rule plan_file_good [OF assms(1)])
  show ?thesis
  proof (cases ev i a True s rule: Mark_effect)
    case 1
    then show ?thesis using assms(1) EvMark by simp
  next
    case (2 p)
    let ?q = "p\<lparr>pl_Started := True, pl_Finished := True\<rparr>"
    have "one_pending (AList.update a ?q (plan_file s i))"
    proof (rule one_pending_less)
      show "one_pending (plan_file s i)" using ok by (simp add: plan_file_ok_def)
      show "\<exists>x. map_of (plan_file s i) b = Some x \<and> pending_for n w x"
        if "map_of (AList.update a ?q (plan_file s i)) b = Some q" "pending_for n w q" for b q n w
        using that by (cases "b = a") (auto simp: update_conv' pending_for_def)
    qed
    then have "plan_file_ok (AList.update a ?q (plan_file s i))" by (rule plan_file_update [OF ok 2(1)])
    then show ?thesis using plans_ok_save [OF assms(1)] 2(2) EvMark by simp
  qed
qed

interpretation plan_store: store_runs run_plan_event fair_plan plans_ok
  by unfold_locales (rule plans_ok_run)

section \<open>Operations beside a record\<close>

text \<open>An update writes its own key only.\<close>

lemma update_elsewhere:
  assumes "(i', NormalizeKey key) \<noteq> (i, k)"
  shows "record_at (fst (Update ev i' key tx st s)) i k = record_at s i k"
proof (cases "ValidID i' ''spc_''")
  case True
  show ?thesis
  proof (cases i' s rule: load_cases)
    case (1 f)
    show ?thesis
    proof (cases "map_of (of_Operations f) (NormalizeKey key)")
      case None
      then show ?thesis using True by (simp add: Update_def store_update_def sbind_scheck Let_def loaded [OF 1] sfail_def)
    next
      case (Some r)
      let ?f = "f\<lparr>of_Operations := AList.update (NormalizeKey key) (update_record (se_now ev) tx st 0 r) (of_Operations f)\<rparr>"
      have "fst (Update ev i' key tx st s) = fst (op_save (se_save ev) i' ?f s)"
        using True Some by (simp add: Update_def store_update_def sbind_scheck Let_def loaded [OF 1])
          (simp add: sbind_def sret_def split: prod.split sum.split)
      then have "fst (Update ev i' key tx st s) = s \<or> fst (Update ev i' key tx st s) = s(i' := Holds ?f)"
        by (cases "se_save ev") (simp_all add: op_save_def save_file_def)
      then show ?thesis
        using assms ledger_of_load [OF 1] ledger_of_saved [OF 1] by (auto simp: record_at_def update_conv')
    qed
  next
    case (2 e)
    then show ?thesis using True by (simp add: Update_def store_update_def sbind_scheck Let_def load_failed)
  qed
qed (simp add: Update_def store_update_def sbind_scheck)

lemma names_update_elsewhere:
  "(i', NormalizeKey key) \<noteq> (i, k) \<Longrightarrow> names t0 i k tx s \<Longrightarrow> names t0 i k tx (fst (Update ev i' key tx' st s))"
  by (simp add: names_def update_elsewhere)

text \<open>A record that is unresolved and names no transaction, beside well-formed files.\<close>

definition unnamed :: "int \<Rightarrow> string \<Rightarrow> string \<Rightarrow> op_file file_state \<Rightarrow> bool" where
  "unnamed t0 i k s \<longleftrightarrow> store_ok s \<and> names t0 i k [] s"

lemma names_quiet:
  assumes "names t0 i k tx s" "store_ok s" "quiet t0 i k e"
  shows "names t0 i k tx (run_event e s)"
proof -
  have now: "t0 \<le> se_now (event_env e)" "se_now (event_env e) < t0 + retention"
    "\<And>st. event_status e = Some st \<Longrightarrow> \<not> resolved st" "event_target e \<noteq> Some (i, k)" "fair_event e"
    using assms(3) by (auto simp: quiet_def keeps_open_def)
  obtain M q where q: "ledger_of s i = Some M" "M k = Some q" "op_TxHash q = tx" "\<not> resolved (op_Status q)" "t0 \<le> op_UpdatedAt q"
    using assms(1) by (auto simp: names_def record_at_def split: option.splits)
  show ?thesis
    using run_event_ledger [OF assms(2) now(5)]
  proof cases
    case stay
    then show ?thesis using assms(1) by (simp add: names_def record_at_def)
  next
    case (reserve j N l D r)
    have "\<not> droppable (se_now (event_env e)) q" using q(4,5) now(2) by (simp add: droppable_def)
    then have "k \<notin> D \<and> k \<noteq> l" if "i = j" using reserve(2-4) q(1,2) that by fastforce
    then show ?thesis using q reserve(1,2) by (auto simp: names_def record_at_def)
  next
    case (advance j N l r r')
    then show ?thesis using q now by (auto simp: names_def record_at_def same_transaction_def)
  qed
qed

lemma unnamed_event: "unnamed t0 i k s \<Longrightarrow> quiet t0 i k e \<Longrightarrow> unnamed t0 i k (run_event e s)"
  unfolding unnamed_def by (meson names_quiet ops.inv_run quiet_def)

lemma unnamed_update:
  assumes "unnamed t0 i k s" "timely t0 ev" "(i', NormalizeKey key) \<noteq> (i, k)"
  shows "unnamed t0 i k (fst (Update ev i' key tx st s))"
proof -
  have "store_ok (run_event (EvUpdate ev i' key tx st) s)"
    using assms(1,2) by (intro ops.inv_run) (auto simp: unnamed_def timely_def fair_event_def)
  then show ?thesis using names_update_elsewhere [OF assms(3)] assms(1) by (simp add: unnamed_def)
qed

lemma Begin_creates:
  assumes "Begin ev i key h n s = (t, Inr (r, False))"
  shows "op_TxHash r = []"
  using assms
  by (auto simp: Begin_def sbind_scheck sbind_slift Let_def sbind_def [of "loadLocked i"] sbind_def [of "op_save _ _ _"] sret_def sfail_def
      split: if_splits prod.splits sum.splits option.splits)

lemma unnamed_begin:
  assumes "unnamed t0 i k s" "timely t0 ev"
  shows "unnamed t0 i k (fst (Begin ev i' key h n s))"
  using unnamed_event [OF assms(1), of "EvBegin ev i' key h n"] assms(2)
  by (simp add: quiet_def fair_event_def keeps_open_def timely_def)

text \<open>A program lent a plain key writes nothing but what happens elsewhere.\<close>

lemma unnamed_world:
  "all_steps w (quiet t0 i k) (\<lambda>_. True) \<Longrightarrow> unnamed t0 i k s \<Longrightarrow>
     unnamed t0 i k (fst (run_world w C \<lparr>ln_space = sp, ln_opkey = key, ln_signer = PlainDigest sk\<rparr> height s))"
  by (induction w arbitrary: s height) (auto simp: Let_def ask_digest_def ask_message_def unnamed_event case_prod_beta simp del: run_event.simps)

lemma plan_key_normal: "bs \<noteq> [] \<Longrightarrow> NormalizeKey (plan_key (HexEncode bs)) = plan_key (HexEncode bs)"
  unfolding NormalizeKey_def plan_key_def
  using HexEncode_ends [of bs] by (intro TrimSpace_id) (auto simp: plain_def is_space_def simp del: HexEncode.simps)

section \<open>The handlers, as operations of the stores\<close>

lemma set_fields [simp]:
  "rp_plans (set_ops p s) = rp_plans p" "pf_ops (rp_base (set_ops p s)) = s" "pf_spaces (rp_base (set_ops p s)) = pf_spaces (rp_base p)"
  "rp_plans (set_spaces p m) = rp_plans p" "pf_ops (rp_base (set_spaces p m)) = pf_ops (rp_base p)" "pf_spaces (rp_base (set_spaces p m)) = m"
  "rp_plans (set_plans p ps) = ps" "pf_ops (rp_base (set_plans p ps)) = pf_ops (rp_base p)" "pf_spaces (rp_base (set_plans p ps)) = pf_spaces (rp_base p)"
  by (simp_all add: set_ops_def set_spaces_def set_plans_def)

lemma refuel_answer_fields [simp]: "fst (refuel_answer p r) = p" "fst (snd (refuel_answer p r)) = []"
  by (simp_all add: refuel_answer_def)

lemma refuel_fail_effect [simp]:
  "rp_plans (fst (refuel_fail R i a e p)) = fst (Mark (re_mark R) i a True (rp_plans p))"
  "pf_ops (rp_base (fst (refuel_fail R i a e p))) = fst (Update (re_fail R) i (plan_key a) [] StatusFailed (pf_ops (rp_base p)))"
  "fst (snd (refuel_fail R i a e p)) = []"
  by (auto simp: refuel_fail_def Let_def split: prod.splits sum.splits)

lemma finishRefuel_effect:
  "rp_plans (fst (finishRefuel R i a tx err p)) \<in> {rp_plans p, fst (Mark (re_mark R) i a True (rp_plans p))}"
  "pf_ops (rp_base (fst (finishRefuel R i a tx err p))) = fst (Update (rq_finish (re_request R)) i (plan_key a) (tr_Hash tx)
     (case err of None \<Rightarrow> tr_Status tx | Some e \<Rightarrow> failure_status e) (pf_ops (rp_base p)))"
  by (auto simp: finishRefuel_def Let_def split: prod.splits sum.splits option.splits)

text \<open>Facts about the two files that every step of a send keeps.\<close>

definition kept :: "(op_file file_state \<Rightarrow> bool) \<Rightarrow> (plans file_state \<Rightarrow> bool) \<Rightarrow> refuel_platform \<Rightarrow> bool" where
  "kept I J p \<longleftrightarrow> I (pf_ops (rp_base p)) \<and> J (rp_plans p)"

lemma kept_finish:
  assumes "kept I J p" "\<And>tx st s. I s \<Longrightarrow> I (fst (Update (rq_finish (re_request R)) i (plan_key a) tx st s))"
    "\<And>ps. J ps \<Longrightarrow> J (fst (Mark (re_mark R) i a True ps))"
  shows "kept I J (fst (finishRefuel R i a tx err p))"
  using assms finishRefuel_effect [of R i a tx err p] unfolding kept_def by auto

lemma kept_signing:
  assumes "kept I J p" "\<And>tx st s. I s \<Longrightarrow> I (fst (Update (rq_finish (re_request R)) i (plan_key a) tx st s))"
    "\<And>ps. J ps \<Longrightarrow> J (fst (Mark (re_mark R) i a True ps))"
    and world: "\<And>key s. I s \<Longrightarrow> I (fst (run_world w C \<lparr>ln_space = i, ln_opkey = plan_key a, ln_signer = PlainDigest key\<rparr> 0 s))"
  shows "kept I J (fst (refuel_signing C R i a plan source w p))"
proof -
  obtain m k where m: "WithSigner (pc_space C) (rq_lend (re_request R)) i (pl_SourceAccountID plan) (nw_ID source) FamilyEVM (pf_spaces (rp_base p)) = (m, k)"
    by fastforce
  show ?thesis
  proof (cases k)
    case (Inl e)
    have "kept I J (set_spaces p m)" using assms(1) by (simp add: kept_def)
    from kept_finish [where I = I and J = J and R = R and a = a and i = i, OF this assms(2,3)] show ?thesis
      using m Inl by (simp add: refuel_signing_def case_prod_beta)
  next
    case (Inr key)
    obtain s tr r where s: "run_world w C \<lparr>ln_space = i, ln_opkey = plan_key a, ln_signer = PlainDigest key\<rparr> 0 (pf_ops (rp_base p)) = (s, tr, r)"
      by (metis prod_cases3)
    have k: "kept I J (set_ops (set_spaces p m) s)" using assms(1) world [of "pf_ops (rp_base p)" key] s by (simp add: kept_def)
    from kept_finish [where I = I and J = J and R = R and a = a and i = i, OF k assms(2,3)] show ?thesis
      using m Inr s k by (cases r) (simp_all add: refuel_signing_def case_prod_beta)
  qed
qed

lemma kept_fail:
  assumes "kept I J p" "\<And>tx st s. I s \<Longrightarrow> I (fst (Update (re_fail R) i (plan_key a) tx st s))"
    "\<And>ps. J ps \<Longrightarrow> J (fst (Mark (re_mark R) i a True ps))"
  shows "kept I J (fst (refuel_fail R i a e p))"
  using assms by (simp add: kept_def)

lemma kept_pay:
  assumes "kept I J p" "\<And>tx st s. I s \<Longrightarrow> I (fst (Update (rq_finish (re_request R)) i (plan_key a) tx st s))"
    "\<And>tx st s. I s \<Longrightarrow> I (fst (Update (re_fail R) i (plan_key a) tx st s))"
    "\<And>ps. J ps \<Longrightarrow> J (fst (Mark (re_mark R) i a True ps))" "\<And>ps. J ps \<Longrightarrow> J (fst (Claim (re_claim R) i a ps))"
    and "\<And>source req key s. I s \<Longrightarrow>
      I (fst (run_world (evmSend source req) C \<lparr>ln_space = i, ln_opkey = plan_key a, ln_signer = PlainDigest key\<rparr> 0 s))"
  shows "kept I J (fst (refuel_pay C V R i a plan evmSend p))"
proof -
  note fail = kept_fail [where I = I and J = J and R = R and i = i and a = a, OF _ assms(3,4)]
  obtain ps r where c: "Claim (re_claim R) i a (rp_plans p) = (ps, r)" by fastforce
  have k: "kept I J (set_plans p ps)" using assms(1) assms(5) [of "rp_plans p"] c by (simp add: kept_def)
  note sign = kept_signing [where I = I and J = J and R = R and i = i and a = a, OF k assms(2,4,6)]
  show ?thesis
    unfolding refuel_pay_def c prod.case
    using fail [OF assms(1)] fail [OF k] sign by (simp split: sum.split)
qed

lemma kept_send:
  assumes "kept I J p" "\<And>tx st s. I s \<Longrightarrow> I (fst (Update (rq_finish (re_request R)) i (plan_key a) tx st s))"
    "\<And>tx st s. I s \<Longrightarrow> I (fst (Update (re_fail R) i (plan_key a) tx st s))"
    "\<And>ps. J ps \<Longrightarrow> J (fst (Mark (re_mark R) i a True ps))" "\<And>ps. J ps \<Longrightarrow> J (fst (Claim (re_claim R) i a ps))"
    and "\<And>source req key s. I s \<Longrightarrow>
      I (fst (run_world (evmSend source req) C \<lparr>ln_space = i, ln_opkey = plan_key a, ln_signer = PlainDigest key\<rparr> 0 s))"
    and reserve: "\<And>h n s. I s \<Longrightarrow> I (fst (Begin (rq_begin (re_request R)) i (plan_key a) h n s))"
  shows "kept I J (fst (sendRefuel C V R i n a evmSend p))"
proof -
  obtain m r where m: "RequireSendConfirmation (rq_confirm (re_request R)) i (pf_spaces (rp_base p)) = (m, r)" by fastforce
  have kept_m: "kept I J (set_spaces p m)" using assms(1) by (simp add: kept_def)
  have kept_b: "kept I J (set_ops (set_spaces p m) (fst (Begin (rq_begin (re_request R)) i (plan_key a) h n (pf_ops (rp_base p)))))" for h n
    using assms(1) reserve by (simp add: kept_def)
  note pay = kept_pay [where I = I and J = J and R = R and i = i and a = a, OF kept_b assms(2-6)]
  show ?thesis
    unfolding sendRefuel_def m prod.case
    using kept_m kept_b pay by (auto simp: case_prod_beta split: sum.split bool.split)
qed

end
