(* ===== verification/RefuelSamples.thy ===== *)
theory RefuelSamples
  imports RefuelSafety
begin

text \<open>
  A sample top-up: two stored plans that pay for transfers of one account from its own network, and
  the run of the send of the first up to the program the key is lent to.
\<close>

definition first_plan :: string where "first_plan = HexEncode [1]"
definition second_plan :: string where "second_plan = HexEncode [2]"

definition top_up_estimate :: "rat \<Rightarrow> transfer_estimate" where
  "top_up_estimate shortfall = \<lparr>es_FeeModel = ''legacy'', es_GasLimit = 21000, es_MaxFeePerGas = ''1'', es_MaxPriorityFeePerGas = [],
     es_Fee = 1, es_EstimatedFee = 1, es_NativeBalance = 0, es_FeeShortfall = shortfall\<rparr>"

definition top_up_plan :: "string \<Rightarrow> plan" where
  "top_up_plan i = \<lparr>pl_ID = i, pl_NetworkID = ''eth'',
     pl_Target = \<lparr>tg_AccountID = ''acc_aaaaaaaaaaaaaaaaaaaa'', tg_AssetID = ''net:native'', tg_To = ''b'', tg_Amount = ''1''\<rparr>,
     pl_Recipient = ''c'', pl_SourceNetworkID = ''eth'', pl_SourceAccountID = ''acc_aaaaaaaaaaaaaaaaaaaa'', pl_SourceAddress = ''d'',
     pl_SourceLabel = [],
     pl_Quote = \<lparr>qu_Provider = ''Direct transfer'', qu_To = ''c'', qu_Data = [], qu_Deposit = 2, qu_Expected = 2, qu_DepositUSD = 0,
       qu_SourcePriceUSD = 0, qu_MinimumLimited = False, qu_ExpiresAt = 1000\<rparr>,
     pl_SourceEstimate = top_up_estimate 0, pl_TargetEstimate = top_up_estimate 1, pl_Required = 1, pl_Expected = 2, pl_Remainder = 1,
     pl_TotalSource = 3, pl_TotalUSD = None, pl_Started = False, pl_Finished = False, pl_CreatedAt = 50\<rparr>"

definition top_up_file :: plans where
  "top_up_file = [(first_plan, top_up_plan first_plan), (second_plan, top_up_plan second_plan)]"

definition top_up_platform :: refuel_platform where
  "top_up_platform = \<lparr>rp_base = send_platform FamilyEVM, rp_plans = (\<lambda>_. Missing)(sample_id := Holds top_up_file)\<rparr>"

definition top_up_side :: evm_side where
  "top_up_side = \<lparr>ev_Balance = (\<lambda>_ _ _. Inr ''9''),
     ev_EstimateFunding = (\<lambda>_ r. Inr (top_up_estimate (if tq_AccountID r = [] then 1 else 0))),
     ev_Transaction = (\<lambda>_ _. Inl ErrInvalidRequest), ev_NativeDelivery = (\<lambda>_ _ _ _. Inr False),
     ev_Quote = (\<lambda>_. Inl ErrPlanNotFound), ev_Delivery = (\<lambda>_ _ _. Inl ErrPlanNotFound), ev_priceUSD = (\<lambda>_. 0),
     ev_parse = (\<lambda>_. None), ev_show = (\<lambda>_. []), ev_FromHex = (\<lambda>_. []), ev_marshal = (\<lambda>_. Some [1])\<rparr>"

definition plan_step :: plan_env where
  "plan_step = \<lparr>pe_now = 101, pe_save = Written, pe_rand = Some (replicate 16 3), pe_visit = rev\<rparr>"

definition top_up_env :: refuel_env where
  "top_up_env = \<lparr>re_request = send_env, re_active = plan_step, re_put = (\<lambda>_. plan_step), re_claim = plan_step, re_mark = plan_step,
     re_fail = calm_env 102, re_now = 100, re_visit_accounts = sample_env 100\<rparr>"

definition dies_at_once :: "network \<Rightarrow> refuel_request \<Rightarrow> (transaction \<times> chain_error option) world" where
  "dies_at_once source req = Dies"

definition claimed_file :: plans where
  "claimed_file = [(first_plan, (top_up_plan first_plan)\<lparr>pl_Started := True\<rparr>), (second_plan, top_up_plan second_plan)]"

definition top_up_record :: operation where
  "top_up_record = \<lparr>op_Key = plan_key first_plan, op_RequestHash = HexEncode [1], op_NetworkID = ''eth'', op_TxHash = [],
     op_Status = StatusBuilding, op_CreatedAt = 100, op_UpdatedAt = 100, op_LastValidBlockHeight = 0\<rparr>"

definition dead_top_up :: refuel_platform where
  "dead_top_up = \<lparr>rp_base = \<lparr>pf_spaces = send_manager FamilyEVM,
       pf_ops = (\<lambda>_. Missing)(sample_id := Holds \<lparr>of_SchemaVersion = op_SchemaVersion, of_Operations = [(plan_key first_plan, top_up_record)]\<rparr>)\<rparr>,
     rp_plans = (\<lambda>_. Missing)(sample_id := Holds claimed_file)\<rparr>"

lemma plan_names: "first_plan \<noteq> second_plan" "NormalizeKey (plan_key first_plan) = plan_key first_plan" "length (plan_key first_plan) = 9"
    "plan_key first_plan \<noteq> []" "length first_plan = 2" "length second_plan = 2"
proof -
  have "HexDecode first_plan = Some [1]" "HexDecode second_plan = Some [2]"
    unfolding first_plan_def second_plan_def by (rule HexDecode_Encode)+
  then show "first_plan \<noteq> second_plan" by auto
  show "NormalizeKey (plan_key first_plan) = plan_key first_plan" by (simp add: first_plan_def plan_key_normal del: HexEncode.simps)
qed (simp_all add: plan_key_def first_plan_def second_plan_def)

lemma top_up_begin:
  "Begin (calm_env 100) sample_id (plan_key first_plan) (HexEncode [1]) ''eth'' (\<lambda>_. Missing) =
     (pf_ops (rp_base dead_top_up), Inr (top_up_record, False))"
  by (simp add: Begin_def sbind_scheck sbind_slift plan_names maxKeyLength_def loadLocked_def sbind_def sret_def
      prune_def maxOperations_def op_save_def save_file_def calm_env_def dead_top_up_def top_up_record_def Let_def del: HexEncode.simps)

lemma top_up_plan_stored: "getRefuelPlan sample_id ''eth'' first_plan (rp_plans top_up_platform) = Inr (top_up_plan first_plan)"
  by (simp add: getRefuelPlan_def plan_Get_def plans_load_def sbind_def top_up_platform_def top_up_file_def sret_def)
    (simp add: top_up_plan_def)

lemma top_up_claim: "Claim plan_step sample_id first_plan (rp_plans top_up_platform) = (rp_plans dead_top_up, Inr ())"
proof -
  have o: "\<not> pending_for n w (top_up_plan second_plan)" for n w by (simp add: pending_for_def top_up_plan_def)
  have v: "pe_visit plan_step = rev" "pe_save plan_step = Written" by (simp_all add: plan_step_def)
  show ?thesis
    using plan_names(1) o v
    by (simp add: Claim_def plans_load_def sbind_def top_up_platform_def top_up_file_def plans_save_def save_file_def dead_top_up_def claimed_file_def)
qed

lemma top_up_network: "enabledNetwork (send_ctx FamilyEVM) ''eth'' = Inr (send_network FamilyEVM)"
  by (simp add: enabledNetwork_def send_ctx_def network_Get_def effectiveNetwork_def send_network_def evm_def)

lemma top_up_recheck:
  "\<exists>req. refuel_recheck (send_ctx FamilyEVM) top_up_side (send_network FamilyEVM) (send_network FamilyEVM) (top_up_plan i) = Inr req"
proof -
  have a: "findAsset (pc_assets (send_ctx FamilyEVM) (send_network FamilyEVM)) ''net:native'' = Some send_asset"
    by (simp add: findAsset_def send_ctx_def send_asset_def)
  have t: "tg_AssetID (pl_Target (top_up_plan i)) = ''net:native''" "pl_Expected (top_up_plan i) = 2"
    "pl_SourceEstimate (top_up_plan i) = top_up_estimate 0" "pl_SourceAccountID (top_up_plan i) \<noteq> []"
    by (simp_all add: top_up_plan_def)
  show ?thesis
    by (simp add: refuel_recheck_def a t top_up_side_def request_of_def transfer_request.defs deposit_request_def top_up_estimate_def rbind_def rcheck_def Let_def)
qed

lemma top_up_lend:
  "WithSigner sample_ctx (sample_env 100) sample_id ''acc_aaaaaaaaaaaaaaaaaaaa'' ''eth'' FamilyEVM (send_manager FamilyEVM) =
     (send_manager FamilyEVM, Inr (Secp256k1Key (replicate 32 7)))"
  using send_lend [of FamilyEVM] by (simp add: WithKey_def account_result_def sbind_slift CurveOf_def)

lemma dies_run:
  "sendRefuel (send_ctx FamilyEVM) top_up_side top_up_env sample_id ''eth'' first_plan dies_at_once top_up_platform = (dead_top_up, [], None)"
proof -
  obtain req where req: "refuel_recheck (send_ctx FamilyEVM) top_up_side (send_network FamilyEVM) (send_network FamilyEVM) (top_up_plan first_plan) = Inr req"
    using top_up_recheck by blast
  have h: "RequestHash (ev_marshal top_up_side) (wl_sha256 sample_wallet) first_plan = Inr (HexEncode [1])"
    by (simp add: RequestHash_def sample_wallet_def top_up_side_def del: HexEncode.simps)
  have n: "nw_ID (send_network FamilyEVM) = ''eth''" "pc_space (send_ctx FamilyEVM) = sample_ctx" by (simp_all add: send_network_def evm_def send_ctx_def)
  have p: "pl_SourceNetworkID (top_up_plan first_plan) = ''eth''" "pl_NetworkID (top_up_plan first_plan) = ''eth''"
    "pl_SourceAccountID (top_up_plan first_plan) = ''acc_aaaaaaaaaaaaaaaaaaaa''" "qu_ExpiresAt (pl_Quote (top_up_plan first_plan)) = 1000"
    by (simp_all add: top_up_plan_def)
  have e: "rq_confirm send_env = sample_env 100" "rq_begin send_env = calm_env 100" "rq_lend send_env = sample_env 100"
    by (simp_all add: send_env_def)
  have r: "re_request top_up_env = send_env" "re_claim top_up_env = plan_step" "re_now top_up_env = 100" by (simp_all add: top_up_env_def)
  have f: "pf_spaces (send_platform FamilyEVM) = send_manager FamilyEVM" "pf_ops (send_platform FamilyEVM) = (\<lambda>_. Missing)"
    "rp_base top_up_platform = send_platform FamilyEVM"
    by (simp_all add: top_up_platform_def send_platform_def)
  have "set_ops (set_spaces (set_plans (set_ops (set_spaces top_up_platform (send_manager FamilyEVM)) (pf_ops (rp_base dead_top_up))) (rp_plans dead_top_up))
      (send_manager FamilyEVM)) (pf_ops (rp_base dead_top_up)) = dead_top_up"
    by (simp add: set_ops_def set_spaces_def set_plans_def dead_top_up_def f send_platform_def)
  then show ?thesis
    by (simp add: sendRefuel_def r e f send_confirm top_up_plan_stored h p top_up_begin refuel_pay_def top_up_network top_up_claim req
        refuel_signing_def n top_up_lend dies_at_once_def del: HexEncode.simps)
qed

lemma fair_step: "fair_env plan_step"
  by (simp add: fair_env_def plan_step_def visits_id)

lemma top_up_fair: "fair_env (re_put top_up_env k)" "fair_env (re_claim top_up_env)" "fair_env (re_mark top_up_env)"
  by (simp_all add: top_up_env_def fair_step)

lemma top_up_file_ok: "plans_ok (rp_plans top_up_platform)"
proof -
  have "\<not> pending_for n w (top_up_plan i)" for n w i by (simp add: pending_for_def top_up_plan_def)
  then have "one_pending top_up_file" by (auto simp: one_pending_def top_up_file_def split: if_splits)
  then have "plan_file_ok top_up_file"
    using plan_names(1) by (auto simp: plan_file_ok_def top_up_file_def maxPlans_def first_plan_def second_plan_def simp del: HexEncode.simps)
  then show ?thesis by (simp add: plans_ok_def top_up_platform_def)
qed

end
