(* ===== verification/RefuelProperties.thy ===== *)
theory RefuelProperties
  imports RefuelSamples
begin

text \<open>
  Sequences of top-up calls: at most one top-up of a wallet on a network is under way, whatever is
  quoted, sent and followed in whatever order; and what becomes of a wallet whose top-up was claimed
  by a process that died before the transaction was recorded.
\<close>

section \<open>Calls\<close>

datatype refuel_call =
    CallQuote evm_side refuel_env string string "transfer_dto option" string string
  | CallSend evm_side refuel_env string string string "network \<Rightarrow> refuel_request \<Rightarrow> (transaction \<times> chain_error option) world"
  | CallStatus evm_side refuel_env string string string

fun run_call :: "platform_ctx \<Rightarrow> refuel_call \<Rightarrow> refuel_platform \<Rightarrow> refuel_platform" where
  "run_call C (CallQuote V R i n body acc net) p = fst (quoteRefuel C V R i n body acc net p)"
| "run_call C (CallSend V R i n a w) p = fst (sendRefuel C V R i n a w p)"
| "run_call C (CallStatus V R i n a) p = fst (refuelStatus C V R i n a p)"

fun call_env :: "refuel_call \<Rightarrow> refuel_env" where
  "call_env (CallQuote V R i n body acc net) = R"
| "call_env (CallSend V R i n a w) = R"
| "call_env (CallStatus V R i n a) = R"

definition fair_call :: "refuel_call \<Rightarrow> bool" where
  "fair_call c \<longleftrightarrow> (\<forall>k. fair_env (re_put (call_env c) k)) \<and> fair_env (re_claim (call_env c)) \<and> fair_env (re_mark (call_env c))"

section \<open>What a quote does to the plans\<close>

lemma buildRefuelPlan_unstarted: "buildRefuelPlan V now dest transfer estimate source = Inr plan \<Longrightarrow> \<not> pl_Started plan"
  by (auto simp: buildRefuelPlan_def Let_def split: prod.splits sum.splits if_splits)

lemma set_sort_plans: "set (sort_plans ps) = set ps"
  by (auto simp: sort_plans_def)

lemma put_plans_kept:
  assumes "\<And>k x s. x \<in> set ps \<Longrightarrow> J s \<Longrightarrow> J (fst (Put (ev k) i x s))" "J s"
  shows "J (fst (put_plans ev n i ps s))"
  using assms
proof (induction ps arbitrary: n s)
  case (Cons x ps)
  obtain t r where p: "Put (ev n) i x s = (t, r)" by fastforce
  have "J t" using Cons.prems(1) [of x s n] Cons.prems(2) p by simp
  then have "J (fst (put_plans ev (n + 1) i ps t))" using Cons.IH Cons.prems(1) by simp
  then show ?case using p \<open>J t\<close> by (auto simp: sbind_def sret_def split: prod.split sum.split)
qed simp

lemma built_unstarted:
  "x \<in> set (sort_plans (concat (map (\<lambda>r. case r of Inl _ \<Rightarrow> [] | Inr plan \<Rightarrow> [plan]) (map (buildRefuelPlan V now dest transfer estimate) cs))))
     \<Longrightarrow> \<not> pl_Started x"
  by (auto simp: set_sort_plans buildRefuelPlan_unstarted split: sum.splits)

lemma quoteRefuel_plans:
  assumes "J (rp_plans p)" "\<And>k x s. \<not> pl_Started x \<Longrightarrow> J s \<Longrightarrow> J (fst (Put (re_put R k) i x s))"
  shows "J (rp_plans (fst (quoteRefuel C V R i n body acc net p)))"
proof -
  have puts: "J ps" if "put_plans (re_put R) 0 i (sort_plans (concat (map (\<lambda>r. case r of Inl _ \<Rightarrow> [] | Inr plan \<Rightarrow> [plan])
      (map (buildRefuelPlan V now dest transfer estimate) cs)))) (rp_plans p) = (ps, r)" for ps r now dest transfer estimate cs
    using put_plans_kept [where J = J and ev = "re_put R" and i = i and n = 0 and s = "rp_plans p", OF _ assms(1)] assms(2) built_unstarted that
    by (metis fst_conv)
  show ?thesis
    using assms(1) unfolding quoteRefuel_def Let_def
    by (simp split: prod.splits sum.splits option.splits) (use puts in \<open>fastforce\<close>)
qed

lemma quoteRefuel_ops: "pf_ops (rp_base (fst (quoteRefuel C V R i n body acc net p))) = pf_ops (rp_base p)"
  by (simp add: quoteRefuel_def Let_def split: prod.splits sum.splits option.splits)

lemma refuelStatus_effect:
  "pf_ops (rp_base (fst (refuelStatus C V R i n a p))) = pf_ops (rp_base p)"
  "rp_plans (fst (refuelStatus C V R i n a p)) \<in> {rp_plans p, fst (Mark (re_mark R) i a True (rp_plans p))}"
  by (auto simp: refuelStatus_def set_plans_def split: prod.splits sum.splits option.splits)

section \<open>One top-up at a time\<close>

lemma plans_ok_steps:
  "fair_env ev \<Longrightarrow> plans_ok s \<Longrightarrow> \<not> pl_Started x \<Longrightarrow> plans_ok (fst (Put ev i x s))"
  "fair_env ev \<Longrightarrow> plans_ok s \<Longrightarrow> plans_ok (fst (Claim ev i a s))"
  "fair_env ev \<Longrightarrow> plans_ok s \<Longrightarrow> plans_ok (fst (Mark ev i a True s))"
  using plan_store.inv_run [of s "EvPut ev i x"] plan_store.inv_run [of s "EvClaim ev i a"] plan_store.inv_run [of s "EvMark ev i a"]
  by simp_all

lemma plans_ok_call:
  assumes "plans_ok (rp_plans p)" "fair_call c"
  shows "plans_ok (rp_plans (run_call C c p))"
proof (cases c)
  case (CallQuote V R i n body acc net)
  have "plans_ok (rp_plans (fst (quoteRefuel C V R i n body acc net p)))"
  proof (rule quoteRefuel_plans [where J = plans_ok, OF assms(1)])
    fix k s and x :: plan assume "\<not> pl_Started x" "plans_ok s"
    moreover have "fair_env (re_put R k)" using assms(2) CallQuote by (simp add: fair_call_def)
    ultimately show "plans_ok (fst (Put (re_put R k) i x s))" using plans_ok_steps(1) by blast
  qed
  then show ?thesis using CallQuote by simp
next
  case (CallSend V R i n a w)
  have "kept (\<lambda>_. True) plans_ok (fst (sendRefuel C V R i n a w p))"
    using assms CallSend by (intro kept_send) (simp_all add: kept_def fair_call_def plans_ok_steps)
  then show ?thesis using CallSend by (simp add: kept_def)
next
  case (CallStatus V R i n a)
  then show ?thesis
    using refuelStatus_effect(2) [of C V R i n a p] assms plans_ok_steps(3) by (fastforce simp: fair_call_def)
qed

section \<open>A top-up whose process died\<close>

definition claimed :: "string \<Rightarrow> string \<Rightarrow> plan \<Rightarrow> plans file_state \<Rightarrow> bool" where
  "claimed i a x s \<longleftrightarrow> plans_ok s \<and> map_of (plan_file s i) a = Some x \<and> pl_Started x \<and> \<not> pl_Finished x"

lemma map_of_filter_keep: "distinct (map fst f) \<Longrightarrow> map_of f a = Some x \<Longrightarrow> P x \<Longrightarrow> map_of (filter (\<lambda>(_, p). P p) f) a = Some x"
  by (induction f) (auto split: if_splits)

lemma claimed_Put:
  assumes "claimed i a x s" "fair_env ev" "\<And>r. pe_rand ev = Some r \<Longrightarrow> HexEncode r \<noteq> a" "\<not> pl_Started y"
  shows "claimed i a x (fst (Put ev j y s))"
proof -
  have ok: "plans_ok (fst (Put ev j y s))" using assms(1,2,4) plans_ok_steps(1) by (simp add: claimed_def)
  show ?thesis
  proof (cases ev j y s rule: Put_effect)
    case 1
    then show ?thesis using assms(1) by simp
  next
    case (2 r)
    have "distinct (map fst (plan_file s i))" using plan_file_good [of s i] assms(1) by (simp add: claimed_def plan_file_ok_def)
    then have "map_of (filter (\<lambda>(_, p). \<not> stale_plan (pe_now ev) p) (plan_file s i)) a = Some x"
      using assms(1) by (intro map_of_filter_keep) (auto simp: claimed_def stale_plan_def)
    then show ?thesis
      using ok assms(1) assms(3) [OF 2(1)] unfolding claimed_def 2(2) by (auto simp: update_conv')
  qed
qed

lemma claimed_Claim:
  assumes "claimed i a x s" "fair_env ev" "(j, b) \<noteq> (i, a)"
  shows "claimed i a x (fst (Claim ev j b s))"
proof -
  have "plans_ok (fst (Claim ev j b s))" using assms(1,2) plans_ok_steps(2) by (simp add: claimed_def)
  then show ?thesis
    using assms(1,3) by (cases ev j b s rule: Claim_effect) (auto simp: claimed_def update_conv')
qed

lemma claimed_Mark:
  assumes "claimed i a x s" "fair_env ev" "(j, b) \<noteq> (i, a)"
  shows "claimed i a x (fst (Mark ev j b True s))"
proof -
  have "plans_ok (fst (Mark ev j b True s))" using assms(1,2) plans_ok_steps(3) by (simp add: claimed_def)
  then show ?thesis
    using assms(1,3) by (cases ev j b True s rule: Mark_effect) (auto simp: claimed_def update_conv')
qed

text \<open>The claim is on disk; the operation is unresolved and names no transaction.\<close>

definition abandoned :: "int \<Rightarrow> string \<Rightarrow> string \<Rightarrow> plan \<Rightarrow> refuel_platform \<Rightarrow> bool" where
  "abandoned t0 i a x p \<longleftrightarrow> unnamed t0 i (plan_key a) (pf_ops (rp_base p)) \<and> claimed i a x (rp_plans p)"

text \<open>Any call, within thirty days of the claim, that is not handed the plan's own identifier for a new plan
  and whose program leaves the record of the dead send alone.\<close>

definition later_call :: "int \<Rightarrow> string \<Rightarrow> string \<Rightarrow> refuel_call \<Rightarrow> bool" where
  "later_call t0 i a c \<longleftrightarrow> (\<forall>k r. pe_rand (re_put (call_env c) k) = Some r \<longrightarrow> HexEncode r \<noteq> a) \<and>
     timely t0 (rq_begin (re_request (call_env c))) \<and> timely t0 (rq_finish (re_request (call_env c))) \<and> timely t0 (re_fail (call_env c)) \<and>
     (case c of CallSend V R j n b w \<Rightarrow> \<forall>source req. all_steps (w source req) (quiet t0 i (plan_key a)) (\<lambda>_. True) | _ \<Rightarrow> True)"

lemma claimed_id: "claimed i a x s \<Longrightarrow> map_of (plan_file s j) b = Some y \<Longrightarrow> NormalizeKey (plan_key b) = plan_key b"
proof -
  assume "claimed i a x s" and b: "map_of (plan_file s j) b = Some y"
  then have "plan_file_ok (plan_file s j)" by (simp add: claimed_def plan_file_good)
  then obtain bs where "bs \<noteq> []" "b = HexEncode bs" using map_of_SomeD [OF b] unfolding plan_file_ok_def by fastforce
  then show ?thesis using plan_key_normal by blast
qed

lemma getRefuelPlan_file:
  assumes "getRefuelPlan i n a s = Inr x"
  shows "map_of (plan_file s i) a = Some x" "pl_NetworkID x = n"
proof -
  obtain t r where g: "plan_Get i a s = (t, Inr r)" "r = x" "pl_NetworkID x = n"
    using assms by (auto simp: getRefuelPlan_def split: prod.splits sum.splits if_splits)
  obtain f where l: "plans_load i s = (s, f)" using plans_load_file(1) by (metis eq_fst_iff)
  then obtain plans where "f = Inr plans" using g(1) by (cases f) (simp_all add: plan_Get_def sbind_def)
  then have "plans = plan_file s i" using plans_load_file(2) l by blast
  then show "map_of (plan_file s i) a = Some x"
    using g l \<open>f = Inr plans\<close> by (auto simp: plan_Get_def sbind_def split: option.splits)
  show "pl_NetworkID x = n" by (rule g(3))
qed

text \<open>The key of a record that is there is not reserved again.\<close>

lemma Begin_taken:
  assumes "record_at s i (NormalizeKey key) = Some r"
  obtains e where "Begin ev i key h n s = (s, Inl e)" | "Begin ev i key h n s = (s, Inr (r, True))"
proof (cases "ValidID i ''spc_'' \<and> NormalizeKey key \<noteq> [] \<and> length (NormalizeKey key) \<le> maxKeyLength")
  case True
  then show ?thesis
    using Begin_known [of i key s _ r ev h n] assms that by (auto simp: record_at_def split: option.splits if_splits)
next
  case False
  then obtain e where "Begin ev i key h n s = (s, Inl e)"
    by (cases "ValidID i ''spc_''") (auto simp: Begin_def sbind_scheck Let_def)
  then show ?thesis by (rule that(1))
qed

lemma abandoned_record: "abandoned t0 i a x p \<Longrightarrow> \<exists>r. record_at (pf_ops (rp_base p)) i (NormalizeKey (plan_key a)) = Some r \<and>
    op_TxHash r = [] \<and> \<not> resolved (op_Status r)"
  using claimed_id [of i a x "rp_plans p" i a x] by (auto simp: abandoned_def unnamed_def names_def claimed_def)

lemma resend_stops:
  assumes "abandoned t0 i a x p"
  obtains m r where "sendRefuel C V R i n a w p = (set_spaces p m, [], Some r)"
proof -
  have same: "set_ops (set_spaces p m) (pf_ops (rp_base p)) = set_spaces p m" for m by (simp add: set_ops_def set_spaces_def)
  obtain m e where m: "RequireSendConfirmation (rq_confirm (re_request R)) i (pf_spaces (rp_base p)) = (m, e)" by fastforce
  obtain r where r: "record_at (pf_ops (rp_base p)) i (NormalizeKey (plan_key a)) = Some r" using abandoned_record [OF assms] by blast
  have "\<exists>rep. sendRefuel C V R i n a w p = (set_spaces p m, [], Some rep)"
  proof (cases e; cases "getRefuelPlan i n a (rp_plans p)"; cases "RequestHash (ev_marshal V) (wl_sha256 (sx_W (pc_space C))) a")
    fix u plan h
    assume h: "e = Inr u" "getRefuelPlan i n a (rp_plans p) = Inr plan" "RequestHash (ev_marshal V) (wl_sha256 (sx_W (pc_space C))) a = Inr h"
    show ?thesis
      by (rule Begin_taken [where ev = "rq_begin (re_request R)" and h = h and n = "pl_SourceNetworkID plan", OF r])
        (simp_all add: sendRefuel_def m h refuel_answer_def same)
  qed (simp_all add: sendRefuel_def m refuel_answer_def)
  then show ?thesis using that by blast
qed

lemma plan_key_inj: "plan_key a = plan_key b \<longleftrightarrow> a = b"
  by (simp add: plan_key_def)

lemma abandoned_send:
  assumes "abandoned t0 i a x p" "fair_call (CallSend V R j n b w)" "later_call t0 i a (CallSend V R j n b w)"
  shows "abandoned t0 i a x (fst (sendRefuel C V R j n b w p))"
proof (cases "(j, b) = (i, a)")
  case True
  have "abandoned t0 i a x (fst (sendRefuel C V R i n a w p))"
    by (rule resend_stops [OF assms(1), of C V R n w]) (use assms(1) in \<open>simp add: abandoned_def\<close>)
  then show ?thesis using True by simp
next
  case elsewhere: False
  show ?thesis
  proof (cases "getRefuelPlan j n b (rp_plans p)")
    case (Inl r)
    obtain m e where m: "RequireSendConfirmation (rq_confirm (re_request R)) j (pf_spaces (rp_base p)) = (m, e)" by fastforce
    have "fst (sendRefuel C V R j n b w p) = set_spaces p m" by (cases e) (simp_all add: sendRefuel_def m Inl)
    then show ?thesis using assms(1) by (simp add: abandoned_def)
  next
    case (Inr plan)
    have key: "NormalizeKey (plan_key b) = plan_key b"
      using claimed_id getRefuelPlan_file(1) [OF Inr] assms(1) unfolding abandoned_def by blast
    then have other: "(j, NormalizeKey (plan_key b)) \<noteq> (i, plan_key a)" using elsewhere by (simp add: plan_key_inj)
    note later = assms(3) [unfolded later_call_def, simplified]
    have env: "fair_env (re_claim R)" "fair_env (re_mark R)" using assms(2) by (simp_all add: fair_call_def)
    have "kept (unnamed t0 i (plan_key a)) (claimed i a x) (fst (sendRefuel C V R j n b w p))"
    proof (rule kept_send)
      show "kept (unnamed t0 i (plan_key a)) (claimed i a x) p" using assms(1) by (simp add: kept_def abandoned_def)
      show "unnamed t0 i (plan_key a) (fst (Update (rq_finish (re_request R)) j (plan_key b) tx st s))" if "unnamed t0 i (plan_key a) s" for tx st s
        using unnamed_update [OF that _ other] later by blast
      show "unnamed t0 i (plan_key a) (fst (Update (re_fail R) j (plan_key b) tx st s))" if "unnamed t0 i (plan_key a) s" for tx st s
        using unnamed_update [OF that _ other] later by blast
      show "claimed i a x (fst (Mark (re_mark R) j b True ps))" if "claimed i a x ps" for ps by (rule claimed_Mark [OF that env(2) elsewhere])
      show "claimed i a x (fst (Claim (re_claim R) j b ps))" if "claimed i a x ps" for ps by (rule claimed_Claim [OF that env(1) elsewhere])
      show "unnamed t0 i (plan_key a) (fst (run_world (w source req) C \<lparr>ln_space = j, ln_opkey = plan_key b, ln_signer = PlainDigest key\<rparr> 0 s))"
        if "unnamed t0 i (plan_key a) s" for source req key s
        using later that by (intro unnamed_world) simp_all
      show "unnamed t0 i (plan_key a) (fst (Begin (rq_begin (re_request R)) j (plan_key b) h n s))" if "unnamed t0 i (plan_key a) s" for h n s
        using unnamed_begin [OF that] later by blast
    qed
    then show ?thesis by (simp add: kept_def abandoned_def)
  qed
qed

text \<open>Following the plan answers ``pending'' and marks nothing.\<close>

lemma abandoned_status:
  assumes "abandoned t0 i a x p" "ValidID i ''spc_''"
  shows "refuelStatus C V R i (pl_NetworkID x) a p = (p, TopUpStatus ''pending'' x)"
proof -
  obtain r where r: "record_at (pf_ops (rp_base p)) i (NormalizeKey (plan_key a)) = Some r" "op_TxHash r = []" "\<not> resolved (op_Status r)"
    using abandoned_record [OF assms(1)] by blast
  have "plan_Get i a (rp_plans p) = (rp_plans p, Inr x)"
    using assms by (auto simp: abandoned_def claimed_def plan_Get_def plans_load_def plan_file_def sbind_def split: disk_file.splits)
  then have "getRefuelPlan i (pl_NetworkID x) a (rp_plans p) = Inr x" by (simp add: getRefuelPlan_def)
  moreover have "op_Status r \<noteq> StatusFailed" using r(3) by (auto simp: resolved_def status_defs)
  ultimately show ?thesis using record_at_Get [OF assms(2) r(1)] r(2) by (simp add: refuelStatus_def)
qed

lemma abandoned_call:
  assumes "abandoned t0 i a x p" "fair_call c" "later_call t0 i a c"
  shows "abandoned t0 i a x (run_call C c p)"
proof (cases c)
  case (CallQuote V R j n body acc net)
  have "claimed i a x (rp_plans (fst (quoteRefuel C V R j n body acc net p)))"
  proof (rule quoteRefuel_plans [where J = "claimed i a x"])
    show "claimed i a x (rp_plans p)" using assms(1) by (simp add: abandoned_def)
    fix k s and y :: plan assume "\<not> pl_Started y" "claimed i a x s"
    moreover have "fair_env (re_put R k)" using assms(2) CallQuote by (simp add: fair_call_def)
    ultimately show "claimed i a x (fst (Put (re_put R k) j y s))"
      using assms(3) CallQuote by (intro claimed_Put) (simp_all add: later_call_def)
  qed
  then show ?thesis using CallQuote assms(1) by (simp add: abandoned_def quoteRefuel_ops)
next
  case (CallSend V R j n b w)
  then show ?thesis using abandoned_send assms by simp
next
  case (CallStatus V R j n b)
  show ?thesis
  proof (cases "(j, b) = (i, a) \<and> pl_NetworkID x = n \<and> ValidID i ''spc_''")
    case True
    then show ?thesis using abandoned_status [OF assms(1)] assms(1) CallStatus by simp
  next
    case elsewhere: False
    have env: "fair_env (re_mark R)" using assms(2) CallStatus by (simp add: fair_call_def)
    have "claimed i a x (rp_plans (fst (refuelStatus C V R j n b p)))"
    proof (cases "(j, b) = (i, a)")
      case False
      then show ?thesis
        using refuelStatus_effect(2) [of C V R j n b p] claimed_Mark [OF _ env False] assms(1) by (auto simp: abandoned_def)
    next
      case True
      then have bad: "pl_NetworkID x \<noteq> n \<or> \<not> ValidID i ''spc_''" using elsewhere by simp
      have "fst (refuelStatus C V R i n a p) = p"
      proof (cases "getRefuelPlan i n a (rp_plans p)")
        case (Inr y)
        have "map_of (plan_file (rp_plans p) i) a = Some x" using assms(1) by (simp add: abandoned_def claimed_def)
        then have "pl_NetworkID x = n" using getRefuelPlan_file [OF Inr] by simp
        then have "\<not> ValidID i ''spc_''" using bad by simp
        then have "\<exists>e. op_Get i (plan_key a) (pf_ops (rp_base p)) = (pf_ops (rp_base p), Inl e)" by (simp add: op_Get_def sbind_scheck)
        then show ?thesis using Inr by (auto simp: refuelStatus_def)
      qed (simp add: refuelStatus_def)
      then show ?thesis using assms(1) True by (simp add: abandoned_def)
    qed
    then show ?thesis using CallStatus assms(1) refuelStatus_effect(1) [of C V R j n b p] by (simp add: abandoned_def)
  qed
qed

text \<open>Another top-up of the wallet is refused, and the wallet's own is not sent again: no key is asked for.\<close>

lemma Claim_refused:
  assumes "claimed i a x s" "fair_env ev" "map_of (plan_file s i) b = Some y" "b \<noteq> a" "pl_NetworkID y = pl_NetworkID x"
    "tg_AccountID (pl_Target y) = tg_AccountID (pl_Target x)"
  shows "\<exists>e. snd (Claim ev i b s) = Inl e"
proof (cases ev i b s rule: Claim_effect)
  case 1
  then show ?thesis by (cases "snd (Claim ev i b s)") auto
next
  case (2 q)
  have "(a, x) \<in> set (pe_visit ev (plan_file s i))"
    using assms(1,2) map_of_SomeD by (auto simp: fair_env_def visits_set claimed_def)
  then have False using 2(1,2) assms unfolding claimed_def by (auto simp: pending_for_def)
  then show ?thesis ..
qed

lemma sends_nothing:
  assumes "abandoned t0 i a x p" "fair_env (re_claim R)" "map_of (plan_file (rp_plans p) i) b = Some y" "pl_NetworkID y = pl_NetworkID x"
    "tg_AccountID (pl_Target y) = tg_AccountID (pl_Target x)"
  shows "fst (snd (sendRefuel C V R i n b w p)) = []"
proof (cases "b = a")
  case True
  show ?thesis unfolding True by (rule resend_stops [OF assms(1), of C V R n w]) simp
next
  case False
  have "\<exists>e. snd (Claim (re_claim R) i b (rp_plans p)) = Inl e"
    using Claim_refused [OF _ assms(2,3) False assms(4,5)] assms(1) by (simp add: abandoned_def)
  then have "fst (snd (refuel_pay C V R i b plan w q)) = []" if "rp_plans q = rp_plans p" for plan q
    using that by (auto simp: refuel_pay_def split: sum.splits prod.splits)
  then show ?thesis
    by (auto simp: sendRefuel_def split: prod.splits sum.splits bool.splits)
qed

text \<open>How a wallet gets there: the process died after the claim, and nothing was recorded for the plan.\<close>

lemma Claim_done:
  assumes "Claim ev i a s = (t, Inr u)" "map_of (plan_file s i) a = Some y" "plans_ok s" "fair_env ev" "\<not> pl_Finished y"
  shows "claimed i a (y\<lparr>pl_Started := True\<rparr>) t"
proof -
  obtain f where f: "plans_load i s = (s, f)" using plans_load_file(1) by (metis eq_fst_iff)
  then obtain plans where r: "f = Inr plans" using assms(1) by (cases f) (simp_all add: Claim_def sbind_def)
  then have p: "plans = plan_file s i" using plans_load_file(2) f by blast
  have "plans_save (pe_save ev) i (AList.update a (y\<lparr>pl_Started := True\<rparr>) (plan_file s i)) s = (t, Inr u)"
    using assms(1,2) f r p by (auto simp: Claim_def sbind_def sfail_def split: option.splits)
  then have "t = s(i := Holds (AList.update a (y\<lparr>pl_Started := True\<rparr>) (plan_file s i)))"
    by (simp add: plans_save_def save_file_Inr)
  moreover have "plans_ok t" using plans_ok_steps(2) [OF assms(4,3), of i a] assms(1) by simp
  ultimately show ?thesis using assms(5) by (simp add: claimed_def update_conv')
qed

lemma died_abandoned:
  assumes "sendRefuel C V R i n a w p = (p0, tr, None)" "store_ok (pf_ops (rp_base p))" "plans_ok (rp_plans p)"
    "fair_call (CallSend V R i n a w)" "visits (se_visit (rq_begin (re_request R)))"
    "\<And>source req. all_steps (w source req) (quiet (se_now (rq_begin (re_request R))) i (plan_key a)) (\<lambda>_. True)"
    "map_of (plan_file (rp_plans p) i) a = Some y" "\<not> pl_Finished y"
  shows "abandoned (se_now (rq_begin (re_request R))) i a (y\<lparr>pl_Started := True\<rparr>) p0 \<and> ValidID i ''spc_'' \<and> pl_NetworkID y = n"
proof -
  let ?t0 = "se_now (rq_begin (re_request R))"
  have ids: "NormalizeKey (plan_key a) = plan_key a"
  proof -
    have "plan_file_ok (plan_file (rp_plans p) i)" by (rule plan_file_good [OF assms(3)])
    then obtain bs where "bs \<noteq> []" "a = HexEncode bs" using map_of_SomeD [OF assms(7)] unfolding plan_file_ok_def by fastforce
    then show ?thesis using plan_key_normal by blast
  qed
  obtain m u where m: "RequireSendConfirmation (rq_confirm (re_request R)) i (pf_spaces (rp_base p)) = (m, Inr u)"
    using assms(1) by (auto simp: sendRefuel_def refuel_answer_def split: prod.splits sum.splits)
  obtain plan where plan: "getRefuelPlan i n a (rp_plans p) = Inr plan"
    using assms(1) m by (auto simp: sendRefuel_def refuel_answer_def split: sum.splits)
  have y: "plan = y" "pl_NetworkID y = n" using getRefuelPlan_file [OF plan] assms(7) by simp_all
  obtain h where h: "RequestHash (ev_marshal V) (wl_sha256 (sx_W (pc_space C))) a = Inr h"
    using assms(1) m plan by (auto simp: sendRefuel_def refuel_answer_def split: sum.splits)
  obtain s r where s: "Begin (rq_begin (re_request R)) i (plan_key a) h (pl_SourceNetworkID plan) (pf_ops (rp_base p)) = (s, Inr (r, False))"
    and pay: "refuel_pay C V R i a plan w (set_ops (set_spaces p m) s) = (p0, tr, None)"
    using assms(1) m plan h by (auto simp: sendRefuel_def refuel_answer_def split: sum.splits prod.splits bool.splits)
  note fresh = Begin_fresh [OF s assms(5)]
  have "store_ok (run_event (EvBegin (rq_begin (re_request R)) i (plan_key a) h (pl_SourceNetworkID plan)) (pf_ops (rp_base p)))"
    using assms(2,5) by (intro ops.inv_run) (simp_all add: fair_event_def)
  then have "store_ok s" using s by simp
  moreover have "op_TxHash r = []" using Begin_creates [OF s] .
  ultimately have open_s: "unnamed ?t0 i (plan_key a) s"
    using fresh(5,6,8) by (auto simp: unnamed_def names_def record_at_def ids resolved_def status_defs)
  have fail: "refuel_fail R' i' a' e p' \<noteq> (p0, tr, None)" for R' i' a' e p'
    by (auto simp: refuel_fail_def Let_def refuel_answer_def split: prod.splits sum.splits)
  obtain ps v source req where c: "Claim (re_claim R) i a (rp_plans p) = (ps, Inr v)"
    and sign: "refuel_signing C R i a plan source (w source req) (set_plans (set_ops (set_spaces p m) s) ps) = (p0, tr, None)"
    using pay fail by (auto simp: refuel_pay_def split: if_splits sum.splits prod.splits)
  have claim: "claimed i a (y\<lparr>pl_Started := True\<rparr>) ps"
    using Claim_done [OF c assms(7,3) _ assms(8)] assms(4) by (simp add: fair_call_def)
  obtain m2 key t where w: "run_world (w source req) C \<lparr>ln_space = i, ln_opkey = plan_key a, ln_signer = PlainDigest key\<rparr> 0 s = (t, tr, None)"
    and p0: "p0 = set_ops (set_spaces (set_plans (set_ops (set_spaces p m) s) ps) m2) t"
    using sign by (auto simp: refuel_signing_def refuel_answer_def split: prod.splits sum.splits option.splits)
  have "unnamed ?t0 i (plan_key a) t" using unnamed_world [OF assms(6) open_s] w by (metis fst_conv)
  then show ?thesis using claim p0 y(2) fresh(1) by (simp add: abandoned_def)
qed

interpretation top_ups: store_guards "run_call C" fair_call "\<lambda>p. plans_ok (rp_plans p)" "later_call t0 i a" "abandoned t0 i a x"
  for C t0 i a x
  by unfold_locales (rule plans_ok_call, assumption+, rule abandoned_call)

text \<open>C7. At most one top-up of a wallet is under way on a network. From well-formed plan files, an
  empty directory among them, after any sequence of quotes, sends and status requests, of any spaces and plans, with any answers of the
  chains, the provider, the disk and the adapter: a plan file has at most 512 plans with distinct
  identifiers, and two plans in it that were started, are not finished and pay for the same account on
  the same network are one plan.\<close>

theorem one_top_up_per_wallet:
  assumes "plans_ok (rp_plans p)" "\<forall>c\<in>set cs. fair_call c" "rp_plans (run_all (run_call C) cs p) i = Holds f"
  shows "distinct (map fst f) \<and> length f \<le> maxPlans \<and>
    (\<forall>(a, x)\<in>set f. \<forall>(b, y)\<in>set f. pending_for n w x \<and> pending_for n w y \<longrightarrow> a = b \<and> x = y)"
proof -
  have ok: "plan_file_ok f" using top_ups.inv_runs [OF assms(1,2)] assms(3) by (auto simp: plans_ok_def)
  then have d: "distinct (map fst f)" "length f \<le> maxPlans" "one_pending f" by (simp_all add: plan_file_ok_def)
  have "a = b \<and> x = y" if "(a, x) \<in> set f" "(b, y) \<in> set f" "pending_for n w x" "pending_for n w y" for a b x y
  proof -
    have m: "map_of f a = Some x" "map_of f b = Some y" using that d(1) by simp_all
    then have "a = b" using d(3) that(3,4) unfolding one_pending_def by blast
    then show ?thesis using m by simp
  qed
  then show ?thesis using d(1,2) by auto
qed

theorem one_top_up_per_wallet_witness:
  "distinct (map fst claimed_file) \<and> length claimed_file \<le> maxPlans \<and>
    pending_for ''eth'' ''acc_aaaaaaaaaaaaaaaaaaaa'' ((top_up_plan first_plan)\<lparr>pl_Started := True\<rparr>) \<and>
    \<not> pending_for ''eth'' ''acc_aaaaaaaaaaaaaaaaaaaa'' (top_up_plan second_plan)"
proof -
  let ?c = "CallSend top_up_side top_up_env sample_id ''eth'' first_plan dies_at_once"
  have fair: "\<forall>c\<in>set [?c]. fair_call c" by (simp add: fair_call_def top_up_fair)
  have run: "rp_plans (run_all (run_call (send_ctx FamilyEVM)) [?c] top_up_platform) sample_id = Holds claimed_file"
    by (simp add: dies_run dead_top_up_def)
  have first: "pending_for ''eth'' ''acc_aaaaaaaaaaaaaaaaaaaa'' ((top_up_plan first_plan)\<lparr>pl_Started := True\<rparr>)"
    by (simp add: pending_for_def top_up_plan_def)
  have held: "(first_plan, (top_up_plan first_plan)\<lparr>pl_Started := True\<rparr>) \<in> set claimed_file" "(second_plan, top_up_plan second_plan) \<in> set claimed_file"
    by (simp_all add: claimed_file_def)
  show ?thesis
    using one_top_up_per_wallet [OF top_up_file_ok fair run, of "''eth''" "''acc_aaaaaaaaaaaaaaaaaaaa''"] first held plan_names(1) by blast
qed

text \<open>C18. A wallet can lose its top-ups. If the process ends after a top-up was claimed and before the
  adapter has recorded a transaction for it, then for thirty days nothing the program does releases the
  wallet: after any later quotes, sends and status requests, the plan is still pending, a status
  request answers ``pending'' without asking a node, and no top-up of that wallet on that network, the
  same one or another, is signed.\<close>

theorem abandoned_top_up_blocks_wallet:
  assumes "sendRefuel C V R i n a w p = (p0, tr, None)" "store_ok (pf_ops (rp_base p))" "plans_ok (rp_plans p)"
    "fair_call (CallSend V R i n a w)" "visits (se_visit (rq_begin (re_request R)))"
    "\<And>source req. all_steps (w source req) (quiet (se_now (rq_begin (re_request R))) i (plan_key a)) (\<lambda>_. True)"
    "map_of (plan_file (rp_plans p) i) a = Some y" "\<not> pl_Finished y"
    and "\<forall>c\<in>set cs. fair_call c \<and> later_call (se_now (rq_begin (re_request R))) i a c"
    and "p1 = run_all (run_call C) cs p0"
  shows "map_of (plan_file (rp_plans p1) i) a = Some (y\<lparr>pl_Started := True\<rparr>) \<and>
    refuelStatus C V' R' i n a p1 = (p1, TopUpStatus ''pending'' (y\<lparr>pl_Started := True\<rparr>)) \<and>
    (\<forall>b z. fair_env (re_claim R') \<and> map_of (plan_file (rp_plans p1) i) b = Some z \<and> pl_NetworkID z = n \<and>
       tg_AccountID (pl_Target z) = tg_AccountID (pl_Target y) \<longrightarrow> fst (snd (sendRefuel C V' R' i n b w' p1)) = [])"
proof -
  let ?x = "y\<lparr>pl_Started := True\<rparr>"
  have start: "abandoned (se_now (rq_begin (re_request R))) i a ?x p0" "ValidID i ''spc_''" "pl_NetworkID ?x = n"
    using died_abandoned [OF assms(1-8)] by simp_all
  have "plans_ok (rp_plans p0)" using start(1) by (simp add: abandoned_def claimed_def)
  then have now: "abandoned (se_now (rq_begin (re_request R))) i a ?x p1"
    unfolding assms(10) by (rule top_ups.fact_runs [OF _ assms(9) start(1)])
  show ?thesis
    using abandoned_status [OF now start(2), of C V' R'] sends_nothing [OF now, of R'] now start(3)
    by (simp add: abandoned_def claimed_def)
qed

theorem abandoned_top_up_blocks_wallet_witness:
  "let p1 = run_all (run_call (send_ctx FamilyEVM)) [CallSend top_up_side top_up_env sample_id ''eth'' second_plan dies_at_once] dead_top_up in
    map_of (plan_file (rp_plans p1) sample_id) first_plan = Some ((top_up_plan first_plan)\<lparr>pl_Started := True\<rparr>) \<and>
    refuelStatus (send_ctx FamilyEVM) top_up_side top_up_env sample_id ''eth'' first_plan p1 =
      (p1, TopUpStatus ''pending'' ((top_up_plan first_plan)\<lparr>pl_Started := True\<rparr>)) \<and>
    fst (snd (sendRefuel (send_ctx FamilyEVM) top_up_side top_up_env sample_id ''eth'' first_plan dies_at_once p1)) = []"
proof -
  let ?cs = "[CallSend top_up_side top_up_env sample_id ''eth'' second_plan dies_at_once]"
  let ?p1 = "run_all (run_call (send_ctx FamilyEVM)) ?cs dead_top_up"
  have t: "se_now (rq_begin (re_request top_up_env)) = 100" by (simp add: top_up_env_def send_env_def calm_env_def)
  have store: "store_ok (pf_ops (rp_base top_up_platform))" using sample_empty(1) by (simp add: top_up_platform_def)
  have fair: "fair_call (CallSend top_up_side top_up_env sample_id ''eth'' first_plan dies_at_once)" by (simp add: fair_call_def top_up_fair)
  have order: "visits (se_visit (rq_begin (re_request top_up_env)))" using sample_empty(2) by (simp add: top_up_env_def)
  have steps: "all_steps (dies_at_once source req) (quiet (se_now (rq_begin (re_request top_up_env))) sample_id (plan_key first_plan)) (\<lambda>_. True)" for source req
    by (simp add: dies_at_once_def)
  have stored: "map_of (plan_file (rp_plans top_up_platform) sample_id) first_plan = Some (top_up_plan first_plan)"
    by (simp add: plan_file_def top_up_platform_def top_up_file_def)
  have fresh: "\<not> pl_Finished (top_up_plan first_plan)" by (simp add: top_up_plan_def)
  have id: "HexEncode (replicate 16 3) \<noteq> first_plan"
  proof
    assume "HexEncode (replicate 16 3) = first_plan"
    then have "length (HexEncode (replicate 16 (3 :: byte))) = 2" using plan_names(5) by simp
    then show False by (simp del: HexEncode.simps)
  qed
  have later: "\<forall>c\<in>set ?cs. fair_call c \<and> later_call (se_now (rq_begin (re_request top_up_env))) sample_id first_plan c"
    using id unfolding t
    by (simp add: fair_call_def top_up_fair later_call_def dies_at_once_def)
      (simp add: top_up_env_def send_env_def plan_step_def sample_timely)
  note blocked = abandoned_top_up_blocks_wallet [where V' = top_up_side and R' = top_up_env and w' = dies_at_once,
      OF dies_run store top_up_file_ok fair order steps stored fresh later refl]
  have same: "pl_NetworkID ((top_up_plan first_plan)\<lparr>pl_Started := True\<rparr>) = ''eth''"
    "tg_AccountID (pl_Target ((top_up_plan first_plan)\<lparr>pl_Started := True\<rparr>)) = tg_AccountID (pl_Target (top_up_plan first_plan))"
    by (simp_all add: top_up_plan_def)
  have "fst (snd (sendRefuel (send_ctx FamilyEVM) top_up_side top_up_env sample_id ''eth'' first_plan dies_at_once ?p1)) = []"
    using blocked top_up_fair(2) same by blast
  then show ?thesis using blocked by (simp only: Let_def)
qed

end
