(* ===== verification/RefuelQuote.thy ===== *)
theory RefuelQuote
  imports RefuelStore
begin

text \<open>
  What a quote of the top-up provider must satisfy to be accepted (internal/refuel/provider.go): the
  amounts, the payload of the deposit and the expiry are checked against the request and not taken from
  the answer.
\<close>

section \<open>Accepted quotes\<close>

lemma integer_eq: "integer v = Inr n \<Longrightarrow> v = of_int n \<and> 0 \<le> n"
  by (auto simp: integer_def split: if_splits)

lemma ceilRatio_ge: "0 \<le> n \<Longrightarrow> n \<le> ceilRatio n 10001 10000"
proof -
  assume n: "0 \<le> n"
  then have "ceilRatio n 10001 10000 = (n * 10001 + 9999) div 10000" by (simp add: ceilRatio_def go_quo_nonneg)
  then show ?thesis using n by (simp add: le_div_iff)
qed

lemma quote_deposit_bounds:
  assumes "quote_deposit source d b = Inr (deposit, limited)" "0 < d"
  shows "0 < deposit \<and> d \<le> deposit \<and> gc_MinInbound source \<le> of_int deposit \<and> of_int deposit \<le> gc_MaxInbound source"
proof -
  obtain sm where sm: "integer (gc_MinInbound source) = Inr sm"
    using assms(1) by (auto simp: quote_deposit_def rbind_eq_Inr)
  let ?d = "max sm d"
  obtain sM where sM: "integer (gc_MaxInbound source) = Inr sM" and dep: "deposit = ceilRatio ?d 10001 10000" "deposit \<le> sM"
    using assms(1) sm by (auto simp: quote_deposit_def Let_def rbind_eq_Inr rcheck_eq_Inr max_def split: if_splits)
  have "?d \<le> deposit" using ceilRatio_ge [of ?d] assms(2) dep(1) by simp
  then show ?thesis using integer_eq [OF sm] integer_eq [OF sM] dep(2) assms(2) by simp
qed

lemma quote_expiry_bounds:
  assumes "quote_expiry t x = Inr e"
  shows "qt_check t + 5 * 1000000000 < e \<and> e \<le> max (qt_cap t) (qt_limit t) + 45 * 1000000000"
  using assms by (auto simp: quote_expiry_def Let_def rcheck_eq_Inr split: if_splits)

lemma chain_of_listed: "chain_of listed i = Some c \<Longrightarrow> c \<in> set listed \<and> gc_Chain c = i"
proof -
  have "fold (\<lambda>c found. if gc_Chain c = i then Some c else found) cs acc = Some c \<Longrightarrow> acc = Some c \<or> c \<in> set cs \<and> gc_Chain c = i" for cs acc
    by (induction cs arbitrary: acc) (auto split: if_splits)
  then show "chain_of listed i = Some c \<Longrightarrow> c \<in> set listed \<and> gc_Chain c = i" by (auto simp: chain_of_def)
qed

lemma quote_for_accepts:
  assumes "quote_for V t req needed listed = Inr q"
  obtains src dst where "chain_of listed (qr_SourceChain req) = Some src" "chain_of listed (qr_DestinationChain req) = Some dst"
    "gc_Inbound src" "gc_Mainnet src" "gc_Mainnet dst" "gc_Short dst \<noteq> 0" "qu_To q = DepositAddress" "needed \<le> qu_Expected q"
    "qu_Data q = ''0x'' @ HexEncode (deposit_payload V (qr_From req) (qr_Recipient req) (gc_Short dst))"
    "0 < qu_Deposit q" "gc_MinInbound src \<le> of_int (qu_Deposit q)" "of_int (qu_Deposit q) \<le> gc_MaxInbound src"
    "qt_check t + 5 * 1000000000 < qu_ExpiresAt q" "qu_ExpiresAt q \<le> max (qt_cap t) (qt_limit t) + 45 * 1000000000"
proof -
  obtain src dst where c: "chain_of listed (qr_SourceChain req) = Some src" "chain_of listed (qr_DestinationChain req) = Some dst"
    using assms by (auto simp: quote_for_def split: option.splits)
  obtain minimum rc required d deposit limited forward where q:
    "gc_Inbound src" "gc_Mainnet src" "gc_Mainnet dst" "gc_Short dst \<noteq> 0" "integer required = Inr d" "d \<noteq> 0"
    "quote_deposit src d (minimum > needed) = Inr (deposit, limited)"
    "pv_forward V (qr_SourceChain req) deposit (qr_DestinationChain req) (pv_HexToAddress V (qr_From req)) (pv_HexToAddress V (qr_Recipient req)) = Inr forward"
    and rest: "(case fw_Quotes forward of
            [q] \<Rightarrow>
              rcheck (\<not> (fq_Chain q \<noteq> qr_DestinationChain req \<or> fq_Error q \<noteq> [])) (unavailable ''incomplete outbound quote'') (
              rbind (integer (fq_Expected q)) (\<lambda>expected.
              rcheck (\<not> expected < needed) (unavailable ''output does not cover the transfer fee; refresh quote'') (
              case HexDecode (TrimPrefix0x (fw_Calldata forward)) of
                None \<Rightarrow> Inl (unavailable ''invalid deposit data'')
              | Some calldata \<Rightarrow>
                  let want = deposit_payload V (qr_From req) (qr_Recipient req) (gc_Short dst) in
                  rcheck (calldata = want) (unavailable ''deposit recipient or destination does not match'') (
                  rbind (quote_expiry t (fw_Expires forward)) (\<lambda>expires.
                  Inr \<lparr>qu_Provider = ''Gas.zip'', qu_To = DepositAddress, qu_Data = ''0x'' @ HexEncode want, qu_Deposit = deposit,
                    qu_Expected = expected, qu_DepositUSD = of_int deposit / 10 ^ 18 * gc_Price src,
                    qu_SourcePriceUSD = gc_Price src, qu_MinimumLimited = limited, qu_ExpiresAt = expires\<rparr>)))))
          | _ \<Rightarrow> Inl (unavailable ''incomplete outbound quote'')) = Inr q"
    using assms by (auto simp: quote_for_def c rbind_eq_Inr rcheck_eq_Inr Let_def simp del: HexEncode.simps)
  have "0 < d" using integer_eq [OF q(5)] q(6) by simp
  note deposit = quote_deposit_bounds [OF q(7) this]
  obtain e x where e: "quote_expiry t x = Inr e" "q = \<lparr>qu_Provider = ''Gas.zip'', qu_To = DepositAddress,
      qu_Data = ''0x'' @ HexEncode (deposit_payload V (qr_From req) (qr_Recipient req) (gc_Short dst)), qu_Deposit = deposit,
      qu_Expected = qu_Expected q, qu_DepositUSD = of_int deposit / 10 ^ 18 * gc_Price src,
      qu_SourcePriceUSD = gc_Price src, qu_MinimumLimited = limited, qu_ExpiresAt = e\<rparr>" "needed \<le> qu_Expected q"
    using rest by (auto simp: rbind_eq_Inr rcheck_eq_Inr Let_def simp del: HexEncode.simps split: list.splits option.splits)
  have f: "qu_To q = DepositAddress" "qu_Deposit q = deposit" "qu_ExpiresAt q = e"
    "qu_Data q = ''0x'' @ HexEncode (deposit_payload V (qr_From req) (qr_Recipient req) (gc_Short dst))"
    by (subst e(2), simp)+
  show ?thesis
    using that [OF c q(1-4) f(1) e(3) f(4)] deposit quote_expiry_bounds [OF e(1)] f(2,3) by simp
qed

section \<open>A sample quote\<close>

definition quote_chain :: "int \<Rightarrow> u16 \<Rightarrow> gasChain" where
  "quote_chain i short = \<lparr>gc_Chain = i, gc_Short = short, gc_Inbound = True, gc_Mainnet = True, gc_Decimals = 18,
     gc_MinInbound = 10, gc_MinOutbound = 10, gc_MaxInbound = 1000000, gc_Price = 2\<rparr>"

definition quote_provider :: provider where
  "quote_provider = \<lparr>pv_chains = Inr [], pv_reverse = (\<lambda>_ n d. Inr (d, of_int n)),
     pv_forward = (\<lambda>_ n d _ _. Inr \<lparr>fw_Calldata = ''0x'' @ HexEncode [1, 0, 5], fw_Expires = 30,
       fw_Quotes = [\<lparr>fq_Chain = d, fq_Expected = of_int n, fq_Error = []\<rparr>]\<rparr>),
     pv_IsHexAddress = (\<lambda>_. True), pv_HexToAddress = (\<lambda>_. replicate 20 1)\<rparr>"

definition quote_clock :: quote_times where
  "quote_clock = \<lparr>qt_list1 = 0, qt_list2 = 0, qt_cap = 0, qt_limit = 0, qt_check = 0\<rparr>"

definition quote_wanted :: quote_request where
  "quote_wanted = \<lparr>qr_SourceChain = 1, qr_DestinationChain = 10, qr_From = ''a'', qr_Recipient = ''a'', qr_Needed = Some 100\<rparr>"

definition quote_cache :: gaszip where
  "quote_cache = \<lparr>gz_chains = [quote_chain 1 4, quote_chain 10 5], gz_chainsUntil = 1\<rparr>"

definition quote_sample :: quote where
  "quote_sample = \<lparr>qu_Provider = ''Gas.zip'', qu_To = DepositAddress, qu_Data = ''0x'' @ HexEncode [1, 0, 5], qu_Deposit = 101,
     qu_Expected = 101, qu_DepositUSD = of_int 101 / 10 ^ 18 * 2, qu_SourcePriceUSD = 2, qu_MinimumLimited = False,
     qu_ExpiresAt = 30 * 1000000000\<rparr>"

lemma quote_run: "gaszip_Quote quote_provider quote_clock quote_wanted quote_cache = (quote_cache, Inr quote_sample)"
proof -
  have w: "qr_SourceChain quote_wanted = 1" "qr_DestinationChain quote_wanted = 10" "qr_From quote_wanted = ''a''"
    "qr_Recipient quote_wanted = ''a''" "qr_Needed quote_wanted = Some 100"
    by (simp_all add: quote_wanted_def)
  have z: "gz_chains quote_cache = [quote_chain 1 4, quote_chain 10 5]" "gz_chainsUntil quote_cache = 1" by (simp_all add: quote_cache_def)
  have t: "qt_list1 quote_clock = 0" "qt_list2 quote_clock = 0" "qt_cap quote_clock = 0" "qt_limit quote_clock = 0" "qt_check quote_clock = 0"
    by (simp_all add: quote_clock_def)
  have v: "pv_IsHexAddress quote_provider = (\<lambda>_. True)" "pv_HexToAddress quote_provider = (\<lambda>_. replicate 20 1)"
    "pv_reverse quote_provider = (\<lambda>_ n d. Inr (d, of_int n))"
    "pv_forward quote_provider = (\<lambda>_ n d _ _. Inr \<lparr>fw_Calldata = ''0x'' @ HexEncode [1, 0, 5], fw_Expires = 30,
       fw_Quotes = [\<lparr>fq_Chain = d, fq_Expected = of_int n, fq_Error = []\<rparr>]\<rparr>)"
    by (simp_all add: quote_provider_def)
  have c: "chain_of [quote_chain 1 4, quote_chain 10 5] 1 = Some (quote_chain 1 4)" "chain_of [quote_chain 1 4, quote_chain 10 5] 10 = Some (quote_chain 10 5)"
    by (simp_all add: chain_of_def quote_chain_def)
  have i: "integer 10 = Inr 10" "integer 100 = Inr 100" "integer 101 = Inr 101" "integer 1000000 = Inr 1000000"
    by (simp_all add: integer_def)
  have d: "quote_deposit (quote_chain 1 4) 100 False = Inr (101, False)"
    by (simp add: quote_deposit_def quote_chain_def i rbind_def rcheck_def ceilRatio_def go_quo_nonneg)
  have p: "deposit_payload quote_provider ''a'' ''a'' 5 = [1, 0, 5]"
    by (simp add: deposit_payload_def EqualFold_def)
  have e: "quote_expiry quote_clock 30 = Inr (30 * 1000000000)"
    by (simp add: quote_expiry_def t rcheck_def)
  have h: "HexDecode (TrimPrefix0x (CHR ''0'' # CHR ''x'' # HexEncode [1, 0, 5])) = Some [1, 0, 5]"
    by (simp add: TrimPrefix0x_def del: HexEncode.simps)
  have "quote_for quote_provider quote_clock quote_wanted 100 [quote_chain 1 4, quote_chain 10 5] = Inr quote_sample"
    using h by (simp add: quote_for_def w c v) (simp add: quote_chain_def i d [unfolded quote_chain_def] p e quote_sample_def rbind_def rcheck_def Let_def del: HexEncode.simps)
  then show ?thesis
    by (simp add: gaszip_Quote_def w v SupportedSource_def chainList_def z t replicate_eq_replicate)
qed

text \<open>C8. An accepted quote can only pay the recipient that was asked for. Whatever the provider answers:
  the deposit goes to the pinned contract of one of the eight known chains, its data are the short code
  of the destination chain behind the recipient's own address and decode to nothing else, what arrives
  covers what is needed, the deposit is positive and within the provider's bounds, and the quote expires
  more than five and at most forty-five seconds after it was checked.\<close>

theorem accepted_quote_pays_the_recipient:
  assumes "gaszip_Quote V t req g = (g', Inr q)"
  shows "\<exists>needed src dst. qr_Needed req = Some needed \<and> 0 < needed \<and> needed \<le> qu_Expected q \<and>
    SupportedSource (qr_SourceChain req) \<and> qr_SourceChain req \<noteq> qr_DestinationChain req \<and>
    src \<in> set (gz_chains g') \<and> gc_Chain src = qr_SourceChain req \<and> gc_Inbound src \<and> gc_Mainnet src \<and>
    dst \<in> set (gz_chains g') \<and> gc_Chain dst = qr_DestinationChain req \<and> gc_Short dst \<noteq> 0 \<and> gc_Mainnet dst \<and>
    qu_To q = DepositAddress \<and> take 2 (qu_Data q) = ''0x'' \<and>
    HexDecode (drop 2 (qu_Data q)) = Some ((if EqualFold (qr_From req) (qr_Recipient req) then [1]
      else 2 # pv_HexToAddress V (qr_Recipient req)) @ [ucast (drop_bit 8 (gc_Short dst)), ucast (gc_Short dst)]) \<and>
    0 < qu_Deposit q \<and> gc_MinInbound src \<le> of_int (qu_Deposit q) \<and> of_int (qu_Deposit q) \<le> gc_MaxInbound src \<and>
    qt_check t + 5 * 1000000000 < qu_ExpiresAt q \<and> qu_ExpiresAt q \<le> max (qt_cap t) (qt_limit t) + 45 * 1000000000"
proof -
  obtain needed listed where g: "qr_Needed req = Some needed" "SupportedSource (qr_SourceChain req)"
    "qr_SourceChain req \<noteq> qr_DestinationChain req" "0 < needed" "chainList V (qt_list1 t) (qt_list2 t) g = (g', Inr listed)"
    "quote_for V t req needed listed = Inr q"
    using assms by (auto simp: gaszip_Quote_def split: option.splits if_splits prod.splits sum.splits)
  have listed: "gz_chains g' = listed" using g(5) by (auto simp: chainList_def split: if_splits sum.splits)
  show ?thesis
    by (rule quote_for_accepts [OF g(6)])
      (use g(1-4) listed chain_of_listed in \<open>fastforce simp: deposit_payload_def simp del: HexEncode.simps\<close>)
qed

theorem accepted_quote_pays_the_recipient_witness:
  "\<exists>needed src dst. qr_Needed quote_wanted = Some needed \<and> 0 < needed \<and> needed \<le> qu_Expected quote_sample \<and>
    SupportedSource (qr_SourceChain quote_wanted) \<and> qr_SourceChain quote_wanted \<noteq> qr_DestinationChain quote_wanted \<and>
    src \<in> set (gz_chains quote_cache) \<and> gc_Chain src = qr_SourceChain quote_wanted \<and> gc_Inbound src \<and> gc_Mainnet src \<and>
    dst \<in> set (gz_chains quote_cache) \<and> gc_Chain dst = qr_DestinationChain quote_wanted \<and> gc_Short dst \<noteq> 0 \<and> gc_Mainnet dst \<and>
    qu_To quote_sample = DepositAddress \<and> take 2 (qu_Data quote_sample) = ''0x'' \<and>
    HexDecode (drop 2 (qu_Data quote_sample)) = Some ((if EqualFold (qr_From quote_wanted) (qr_Recipient quote_wanted) then [1]
      else 2 # pv_HexToAddress quote_provider (qr_Recipient quote_wanted)) @ [ucast (drop_bit 8 (gc_Short dst)), ucast (gc_Short dst)]) \<and>
    0 < qu_Deposit quote_sample \<and> gc_MinInbound src \<le> of_int (qu_Deposit quote_sample) \<and> of_int (qu_Deposit quote_sample) \<le> gc_MaxInbound src \<and>
    qt_check quote_clock + 5 * 1000000000 < qu_ExpiresAt quote_sample \<and>
    qu_ExpiresAt quote_sample \<le> max (qt_cap quote_clock) (qt_limit quote_clock) + 45 * 1000000000"
  by (rule accepted_quote_pays_the_recipient [OF quote_run])

end
