(* ===== verification/SunswapSafety.thy ===== *)
theory SunswapSafety
  imports SunswapQuote
begin

text \<open>
  The walk of a quote (internal/tron/sunswap/clmath.go, \<open>QuoteExactInput\<close>): the invariant of its loop,
  the number of questions it asks, and the properties of the package.
\<close>

section \<open>The invariant of the walk\<close>

lemma worth_add: "worth z P a b \<Longrightarrow> worth z P a' b' \<Longrightarrow> worth z P (a + a') (b + b')"
  unfolding worth_def by (cases z) (simp_all add: distrib_right)

lemma worth_zero [simp]: "worth z P 0 0"
  by (simp add: worth_def)

lemma worth_from:
  assumes "worth z P a b" "0 \<le> a" "0 \<le> b" "0 < P" "0 < P0" "if z then P \<le> P0 else P0 \<le> P"
  shows "worth z P0 a b"
proof (cases z)
  case True
  then have "a * (P * P) \<le> a * (P0 * P0)" using assms by (intro mult_left_mono mult_mono) simp_all
  then show ?thesis using assms(1) True by (simp add: worth_def)
next
  case False
  then have "b * (P0 * P0) \<le> b * (P * P)" using assms by (intro mult_left_mono mult_mono) simp_all
  then show ?thesis using assms(1) False by (simp add: worth_def)
qed

lemma worth_charged:
  assumes "worth z P a b" "a * d \<le> c" "0 \<le> d"
  shows "worth z P c (b * d)"
proof (cases z)
  case True
  then have "b * 2 ^ 192 * d \<le> a * (P * P) * d" using assms by (intro mult_right_mono) (simp_all add: worth_def)
  also have "\<dots> = a * d * (P * P)" by simp
  also have "\<dots> \<le> c * (P * P)" using assms by (intro mult_right_mono) simp_all
  finally show ?thesis using True by (simp add: worth_def ac_simps)
next
  case False
  then have "b * (P * P) * d \<le> a * 2 ^ 192 * d" using assms by (intro mult_right_mono) (simp_all add: worth_def)
  also have "\<dots> = a * d * 2 ^ 192" by simp
  also have "\<dots> \<le> c * 2 ^ 192" using assms by (intro mult_right_mono) simp_all
  finally show ?thesis using False by (simp add: worth_def ac_simps)
qed

definition live :: "int \<Rightarrow> quote_state \<Rightarrow> bool" where
  "live limit q \<longleftrightarrow> 0 < qs_remaining q \<and> qs_sqrtPrice q \<noteq> limit"

text \<open>
  From a start price \<open>P\<close> with \<open>A\<close> to spend and a fee \<open>f\<close>: the price has moved in its direction and not past
  the limit; while the walk goes on, the price is on the side of its tick from which it moves on; and
  what the walk has collected is worth what it has spent after the fee.
\<close>

definition walk_ok :: "bool \<Rightarrow> int \<Rightarrow> int \<Rightarrow> int \<Rightarrow> quote_state \<Rightarrow> bool" where
  "walk_ok z P f A q \<longleftrightarrow>
     0 \<le> qs_remaining q \<and> 0 \<le> qs_out q \<and> 0 \<le> qs_liquidity q \<and> 0 < qs_sqrtPrice q \<and> 0 < P \<and>
     minTick \<le> qs_tick q \<and> qs_tick q < maxTick \<and>
     (if z then price_limit z \<le> qs_sqrtPrice q \<and> qs_sqrtPrice q \<le> P \<and>
        (live (price_limit z) q \<longrightarrow> tick_price (qs_tick q) \<le> qs_sqrtPrice q)
      else P \<le> qs_sqrtPrice q \<and> qs_sqrtPrice q \<le> price_limit z \<and>
        (live (price_limit z) q \<longrightarrow> qs_sqrtPrice q \<le> tick_price (qs_tick q + 1))) \<and>
     worth z P ((A - qs_remaining q) * (feeDenominator - f)) (qs_out q * feeDenominator)"

lemma limits: "price_limit True = minSqrtRatio + 1" "price_limit False = maxSqrtRatio - 1" "0 < price_limit z"
  "minSqrtRatio = tick_price minTick" "maxSqrtRatio = tick_price maxTick"
  by (simp_all add: price_limit_def tick_price_ends minSqrtRatio_def maxSqrtRatio_def)

text \<open>The part of a round that spends.\<close>

definition spent :: "quote_state \<Rightarrow> swapStep \<Rightarrow> quote_state" where
  "spent q step = q\<lparr>qs_sqrtPrice := st_sqrtNext step,
     qs_remaining := qs_remaining q - st_amountIn step - st_fee step, qs_out := qs_out q + st_amountOut step\<rparr>"

lemma spent_worth:
  assumes "walk_ok z P f A q" "step_ok (qs_sqrtPrice q) T (qs_remaining q) f step" "0 < T"
    "if z then T \<le> qs_sqrtPrice q else qs_sqrtPrice q \<le> T"
  shows "worth z P ((A - qs_remaining (spent q step)) * (feeDenominator - f)) (qs_out (spent q step) * feeDenominator)"
proof -
  let ?a = "st_amountIn step" and ?c = "st_fee step" and ?b = "st_amountOut step"
  have "worth z (qs_sqrtPrice q) ?a ?b" using assms(2,4) by (cases z) (simp_all add: step_ok_def)
  then have "worth z P ?a ?b"
    using assms(1,2) by (elim worth_from) (auto simp: walk_ok_def step_ok_def split: if_splits)
  then have "worth z P ((?a + ?c) * (feeDenominator - f)) (?b * feeDenominator)"
    using assms(2) by (elim worth_charged) (simp_all add: step_ok_def feeDenominator_def)
  moreover have "worth z P ((A - qs_remaining q) * (feeDenominator - f)) (qs_out q * feeDenominator)"
    using assms(1) by (simp add: walk_ok_def)
  ultimately have "worth z P ((A - qs_remaining q) * (feeDenominator - f) + (?a + ?c) * (feeDenominator - f))
      (qs_out q * feeDenominator + ?b * feeDenominator)" by (rule worth_add [rotated])
  moreover have "(A - qs_remaining q) * (feeDenominator - f) + (?a + ?c) * (feeDenominator - f) =
      (A - qs_remaining (spent q step)) * (feeDenominator - f)" by (simp add: spent_def flip: distrib_right)
  moreover have "qs_out q * feeDenominator + ?b * feeDenominator = qs_out (spent q step) * feeDenominator"
    by (simp add: spent_def flip: distrib_right)
  ultimately show ?thesis by simp
qed

text \<open>The tick a round looks for, and the target it takes the price to.\<close>

lemma round_target:
  assumes "walk_ok z P f A q" "live (price_limit z) q" "if z then n \<le> qs_tick q else qs_tick q < n"
  defines "m \<equiv> min (max n minTick) maxTick"
  defines "T \<equiv> if z \<and> tick_price m < price_limit z \<or> \<not> z \<and> price_limit z < tick_price m then price_limit z else tick_price m"
  shows "minTick \<le> m" "m \<le> maxTick" "0 < T" "if z then T \<le> qs_sqrtPrice q else qs_sqrtPrice q \<le> T"
    "T = tick_price m \<Longrightarrow> if z then minTick < m \<and> m \<le> qs_tick q else qs_tick q < m \<and> m < maxTick"
    "T = tick_price m \<or> T = price_limit z \<and> (if z then tick_price m < price_limit z else price_limit z < tick_price m)" "z \<Longrightarrow> price_limit z \<le> T" "\<not> z \<Longrightarrow> T \<le> price_limit z"
proof -
  have t: "minTick \<le> qs_tick q" "qs_tick q < maxTick" using assms(1) by (simp_all add: walk_ok_def)
  show m: "minTick \<le> m" "m \<le> maxTick" by (auto simp: m_def minTick_def maxTick_def)
  show "0 < T" using tick_price_pos [OF m] limits(3) [of z] by (auto simp: T_def)
  have side: "if z then m \<le> qs_tick q else qs_tick q < m" using assms(3) t by (auto simp: m_def)
  show "T = tick_price m \<or> T = price_limit z \<and> (if z then tick_price m < price_limit z else price_limit z < tick_price m)" "z \<Longrightarrow> price_limit z \<le> T" "\<not> z \<Longrightarrow> T \<le> price_limit z"
    by (auto simp: T_def)
  show "if z then T \<le> qs_sqrtPrice q else qs_sqrtPrice q \<le> T"
  proof (cases z)
    case True
    have "tick_price m \<le> tick_price (qs_tick q)" using side True m t by (intro tick_price_mono) simp_all
    then show ?thesis using assms(1,2) True by (auto simp: T_def walk_ok_def)
  next
    case False
    have "tick_price (qs_tick q + 1) \<le> tick_price m" using side False m t by (intro tick_price_mono) simp_all
    then show ?thesis using assms(1,2) False by (auto simp: T_def walk_ok_def)
  qed
  show "if z then minTick < m \<and> m \<le> qs_tick q else qs_tick q < m \<and> m < maxTick" if "T = tick_price m"
  proof (cases z)
    case True
    then have "minSqrtRatio < tick_price m" using that limits(1) by (auto simp: T_def split: if_splits)
    then have "m \<noteq> minTick" using limits(4) by auto
    then show ?thesis using m side True by simp
  next
    case False
    then have "tick_price m < maxSqrtRatio" using that limits(2) by (auto simp: T_def split: if_splits)
    then have "m \<noteq> maxTick" using limits(5) by auto
    then show ?thesis using m side False by simp
  qed
qed

text \<open>A round never panics in the step, and keeps the invariant.\<close>

definition pool_params :: "pool \<Rightarrow> bool" where
  "pool_params pool \<longleftrightarrow> 0 < po_TickSpacing pool \<and> 0 \<le> po_FeePips pool \<and> po_FeePips pool < feeDenominator"

lemma round_step:
  assumes "walk_ok z P (po_FeePips pool) A q" "0 < T" "pool_params pool"
  shows "\<exists>step. computeSwapStep (qs_sqrtPrice q) T (qs_liquidity q) (qs_remaining q) (po_FeePips pool) = Inr step \<and>
    step_ok (qs_sqrtPrice q) T (qs_remaining q) (po_FeePips pool) step"
  using assms by (intro computeSwapStep_ok) (simp_all add: walk_ok_def pool_params_def)

definition crossed :: "'s pool_state \<Rightarrow> bool \<Rightarrow> quote_state \<Rightarrow> swapStep \<Rightarrow> int \<Rightarrow> bool \<Rightarrow> ('s, sq_err, quote_state) op" where
  "crossed st z q step m i =
     sbind (if i then
              sbind (ps_LiquidityNet st m) (\<lambda>net.
              let liquidity = (if z then qs_liquidity q - net else qs_liquidity q + net)
              in sbind (scheck (\<not> liquidity < 0) (SqErr ''pool liquidity went negative'')) (\<lambda>_. sret liquidity))
            else sret (qs_liquidity q)) (\<lambda>liquidity.
     sret (spent q step\<lparr>qs_liquidity := liquidity, qs_tick := (if z then m - 1 else m)\<rparr>))"

lemma quote_round_run:
  assumes "walk_ok z P (po_FeePips pool) A q" "live (price_limit z) q" "pool_params pool"
    "nextInitializedTick st (qs_tick q) (po_TickSpacing pool) z s = (t, Inr (n, i))"
  obtains m T step where "minTick \<le> m" "m \<le> maxTick" "0 < T" "m = min (max n minTick) maxTick"
    "if z then T \<le> qs_sqrtPrice q else qs_sqrtPrice q \<le> T"
    "T = tick_price m \<Longrightarrow> if z then minTick < m \<and> m \<le> qs_tick q else qs_tick q < m \<and> m < maxTick"
    "T = tick_price m \<or> T = price_limit z \<and> (if z then tick_price m < price_limit z else price_limit z < tick_price m)" "z \<Longrightarrow> price_limit z \<le> T" "\<not> z \<Longrightarrow> T \<le> price_limit z"
    "step_ok (qs_sqrtPrice q) T (qs_remaining q) (po_FeePips pool) step"
    "quote_round st pool z (price_limit z) q s =
       (if st_sqrtNext step \<noteq> tick_price m then sret (spent q step) else crossed st z q step m i) t"
proof -
  have moves: "if z then n \<le> qs_tick q else qs_tick q < n"
    using nextInitializedTick_moves [OF assms(4)] assms(3) by (simp add: pool_params_def)
  define m where "m = min (max n minTick) maxTick"
  define T where "T = (if z \<and> tick_price m < price_limit z \<or> \<not> z \<and> price_limit z < tick_price m then price_limit z else tick_price m)"
  note target = round_target [OF assms(1,2) moves, folded m_def, folded T_def]
  obtain step where step: "computeSwapStep (qs_sqrtPrice q) T (qs_liquidity q) (qs_remaining q) (po_FeePips pool) = Inr step"
    "step_ok (qs_sqrtPrice q) T (qs_remaining q) (po_FeePips pool) step"
    using round_step [OF assms(1) target(3) assms(3)] by blast
  have "sqrtRatioAtTick m = Inr (tick_price m)" by (rule sqrtRatioAtTick_eq [OF target(1,2)])
  then have "quote_round st pool z (price_limit z) q s =
       (if st_sqrtNext step \<noteq> tick_price m then sret (spent q step) else crossed st z q step m i) t"
    unfolding quote_round_def
    by (simp add: sbind_def [of "nextInitializedTick st (qs_tick q) (po_TickSpacing pool) z"] assms(4) m_def [symmetric]
        T_def [symmetric] sbind_slift step(1) spent_def crossed_def)
  with target step(2) show ?thesis by (intro that [of m T step]) (simp_all add: m_def)
qed

lemma spent_fields [simp]:
  "qs_sqrtPrice (spent q step) = st_sqrtNext step" "qs_tick (spent q step) = qs_tick q"
  "qs_liquidity (spent q step) = qs_liquidity q" "qs_out (spent q step) = qs_out q + st_amountOut step"
  "qs_remaining (spent q step) = qs_remaining q - st_amountIn step - st_fee step"
  by (simp_all add: spent_def)

lemma quote_round_keeps:
  assumes "walk_ok z P (po_FeePips pool) A q" "live (price_limit z) q" "pool_params pool"
    "quote_round st pool z (price_limit z) q s = (t, Inr q')"
  shows "walk_ok z P (po_FeePips pool) A q'"
proof -
  obtain n i u where next': "nextInitializedTick st (qs_tick q) (po_TickSpacing pool) z s = (u, Inr (n, i))"
    using assms(4) by (auto simp: quote_round_def sbind_Inr)
  obtain m T step where r: "minTick \<le> m" "m \<le> maxTick" "0 < T"
    "if z then T \<le> qs_sqrtPrice q else qs_sqrtPrice q \<le> T"
    "T = tick_price m \<Longrightarrow> if z then minTick < m \<and> m \<le> qs_tick q else qs_tick q < m \<and> m < maxTick"
    "T = tick_price m \<or> T = price_limit z \<and> (if z then tick_price m < price_limit z else price_limit z < tick_price m)" "z \<Longrightarrow> price_limit z \<le> T" "\<not> z \<Longrightarrow> T \<le> price_limit z"
    "step_ok (qs_sqrtPrice q) T (qs_remaining q) (po_FeePips pool) step"
    and round: "quote_round st pool z (price_limit z) q s =
       (if st_sqrtNext step \<noteq> tick_price m then sret (spent q step) else crossed st z q step m i) u"
    by (rule quote_round_run [OF assms(1-3) next']) blast
  have run: "(if st_sqrtNext step \<noteq> tick_price m then sret (spent q step) else crossed st z q step m i) u = (t, Inr q')"
    using assms(4) round by simp
  let ?p = "st_sqrtNext step"
  have worth: "worth z P ((A - qs_remaining (spent q step)) * (feeDenominator - po_FeePips pool)) (qs_out (spent q step) * feeDenominator)"
    by (rule spent_worth [OF assms(1) r(9,3,4)])
  have step: "if z then T \<le> ?p \<and> ?p \<le> qs_sqrtPrice q else qs_sqrtPrice q \<le> ?p \<and> ?p \<le> T"
    "0 \<le> st_amountOut step" "0 \<le> qs_remaining q - st_amountIn step - st_fee step"
    "?p \<noteq> T \<Longrightarrow> qs_remaining q - st_amountIn step - st_fee step = 0"
    using r(4,9) by (auto simp: step_ok_def split: if_splits)
  have old: "0 \<le> qs_out q" "0 \<le> qs_liquidity q" "0 < qs_sqrtPrice q" "0 < P" "minTick \<le> qs_tick q" "qs_tick q < maxTick"
    "if z then price_limit z \<le> qs_sqrtPrice q \<and> qs_sqrtPrice q \<le> P else P \<le> qs_sqrtPrice q \<and> qs_sqrtPrice q \<le> price_limit z"
    using assms(1) by (auto simp: walk_ok_def split: if_splits)
  have p: "0 < ?p" "if z then price_limit z \<le> ?p \<and> ?p \<le> P else P \<le> ?p \<and> ?p \<le> price_limit z"
    using step(1) r(3,7,8) old by (auto split: if_splits)
  show ?thesis
  proof (cases "?p = tick_price m")
    case False
    have "\<not> live (price_limit z) (spent q step)"
      using step(4) r(6) False by (cases "?p = T") (simp_all add: live_def)
    then show ?thesis
      using False run worth p old step by (auto simp: walk_ok_def)
  next
    case True
    obtain liquidity where q': "q' = spent q step\<lparr>qs_liquidity := liquidity, qs_tick := (if z then m - 1 else m)\<rparr>" "0 \<le> liquidity"
      using run True old(2) by (auto simp: crossed_def sbind_Inr Let_def split: if_splits)
    have T: "T = tick_price m"
      using True p(2) r(6) by (auto split: if_splits)
    have tick: "minTick \<le> qs_tick q'" "qs_tick q' < maxTick"
      "if z then tick_price (qs_tick q') \<le> ?p else ?p \<le> tick_price (qs_tick q' + 1)"
      using r(5) [OF T] r(1,2) True old(5,6) q'(1)
        tick_price_mono [of "m - 1" m] tick_price_mono [of m "m + 1"] by (auto split: if_splits)
    then show ?thesis using q' worth p old step(2,3) by (auto simp: walk_ok_def)
  qed
qed

text \<open>The whole walk.\<close>

lemma quote_loop_keeps:
  "walk_ok z P (po_FeePips pool) A q \<Longrightarrow> pool_params pool \<Longrightarrow>
     quote_loop st pool z (price_limit z) steps q s = (t, Inr q') \<Longrightarrow> walk_ok z P (po_FeePips pool) A q'"
proof (induction "maxSteps - steps" arbitrary: steps q s)
  case 0
  then show ?case by (simp add: quote_loop.simps [of st pool z "price_limit z" steps q] split: if_splits)
next
  case (Suc k)
  show ?case
  proof (cases "live (price_limit z) q")
    case False
    then show ?thesis using Suc.prems by (auto simp: quote_loop.simps [of st pool z "price_limit z" steps q] live_def split: if_splits)
  next
    case True
    then obtain u r where r: "quote_round st pool z (price_limit z) q s = (u, Inr r)"
      "quote_loop st pool z (price_limit z) (steps + 1) r u = (t, Inr q')"
      using Suc.prems(3) by (auto simp: quote_loop.simps [of st pool z "price_limit z" steps q] live_def sbind_Inr split: if_splits)
    then show ?thesis
      using Suc.hyps(1) [of "steps + 1" r u] Suc.hyps(2) quote_round_keeps [OF Suc.prems(1) True Suc.prems(2) r(1)] Suc.prems(2)
      by simp
  qed
qed

text \<open>
  What a pool of the contract satisfies: liquidity is not negative, and the price lies in the range of its
  tick, strictly inside the limits of the direction.
\<close>

definition pool_consistent :: "pool \<Rightarrow> bool \<Rightarrow> bool" where
  "pool_consistent pool z \<longleftrightarrow>
     0 \<le> po_Liquidity pool \<and> minTick \<le> po_Tick pool \<and> po_Tick pool < maxTick \<and>
     tick_price (po_Tick pool) \<le> po_SqrtPriceX96 pool \<and> po_SqrtPriceX96 pool \<le> tick_price (po_Tick pool + 1) \<and>
     (if z then price_limit z \<le> po_SqrtPriceX96 pool else po_SqrtPriceX96 pool \<le> price_limit z)"

definition start_state :: "pool \<Rightarrow> int \<Rightarrow> quote_state" where
  "start_state pool A = \<lparr>qs_remaining = A, qs_out = 0, qs_sqrtPrice = po_SqrtPriceX96 pool, qs_tick = po_Tick pool,
     qs_liquidity = po_Liquidity pool\<rparr>"

lemma start_ok:
  assumes "pool_consistent pool z" "0 < A"
  shows "walk_ok z (po_SqrtPriceX96 pool) f A (start_state pool A)"
proof -
  have "0 < po_SqrtPriceX96 pool"
    using assms(1) tick_price_pos [of "po_Tick pool"] by (auto simp: pool_consistent_def)
  then show ?thesis using assms by (cases z) (simp_all add: walk_ok_def start_state_def pool_consistent_def)
qed

lemma QuoteExactInput_Inr:
  assumes "QuoteExactInput pool st (Some A) z s = (t, Inr out)"
  obtains q where "0 < A" "pool_params pool" "quote_loop st pool z (price_limit z) 0 (start_state pool A) s = (t, Inr q)"
    "qs_remaining q \<le> 0" "out = qs_out q"
  using assms by (auto simp: QuoteExactInput_def sbind_scheck sbind_Inr pool_params_def start_state_def split: if_splits)

section \<open>Questions and panics\<close>

text \<open>\<open>asks count k st\<close>: by the measure \<open>count\<close> on the state of the node, an answer costs at most \<open>k\<close>.\<close>

definition costs :: "('s \<Rightarrow> nat) \<Rightarrow> nat \<Rightarrow> ('s, sq_err, 'a) op \<Rightarrow> bool" where
  "costs count k m \<longleftrightarrow> (\<forall>s. count (fst (m s)) \<le> count s + k)"

named_theorems costs_intros "composition of costs"

lemma costs_pure [costs_intros]: "costs count k (sret v)" "costs count k (sfail e)" "costs count k (slift r)" "costs count k (scheck ok e)"
  by (simp_all add: costs_def)

lemma costs_bind: "costs count k m \<Longrightarrow> (\<And>v. costs count l (f v)) \<Longrightarrow> costs count (k + l) (sbind m f)"
  unfolding costs_def
proof (intro allI)
  fix s
  assume m: "\<forall>s. count (fst (m s)) \<le> count s + k" and f: "\<And>v. \<forall>s. count (fst (f v s)) \<le> count s + l"
  show "count (fst (sbind m f s)) \<le> count s + (k + l)"
  proof (cases "m s")
    case (Pair u r)
    then have "count u \<le> count s + k" using m by (metis fst_conv)
    then show ?thesis using f [rule_format, of _ u] Pair
      by (cases r) (auto simp: sbind_def intro: order_trans [of _ "count u + l"])
  qed
qed

lemma costs_more: "costs count k m \<Longrightarrow> k \<le> l \<Longrightarrow> costs count l m"
  unfolding costs_def by (meson add_le_cancel_left order_trans)

lemma costs_bind_pure [costs_intros]:
  "(\<And>v. costs count k (f v)) \<Longrightarrow> costs count k (sbind (slift r) f)"
  "costs count k m \<Longrightarrow> costs count k (sbind m (\<lambda>v. sret (g v)))"
  "(\<And>v. costs count k (h v)) \<Longrightarrow> costs count k (sbind (scheck ok e) h)"
  using costs_bind [of count 0 "slift r" k f] costs_bind [of count k m 0 "\<lambda>v. sret (g v)"] costs_bind [of count 0 "scheck ok e" k h]
  by (simp_all add: costs_intros)

definition node_costs :: "('s \<Rightarrow> nat) \<Rightarrow> 's pool_state \<Rightarrow> bool" where
  "node_costs count st \<longleftrightarrow> (\<forall>w. costs count 1 (ps_BitmapWord st w)) \<and> (\<forall>t. costs count 1 (ps_LiquidityNet st t))"

lemma next_costs: "node_costs count st \<Longrightarrow> costs count 1 (nextInitializedTick st tick sp lte)"
  by (auto simp: nextInitializedTick_def Let_def node_costs_def if_distrib [of sret, symmetric]
      intro!: costs_bind [of count 1 _ 0, simplified] costs_intros)

lemma costs_if [costs_intros]: "costs count k a \<Longrightarrow> costs count k b \<Longrightarrow> costs count k (if c then a else b)"
  by simp

lemma liquidity_costs:
  "node_costs count st \<Longrightarrow> costs count 1 (sbind (ps_LiquidityNet st m) (\<lambda>net. sbind (scheck (ok net) e) (\<lambda>_. sret (g net))))"
  by (auto simp: node_costs_def intro!: costs_bind [of count 1 _ 0, simplified] costs_intros)

lemma round_costs:
  assumes "node_costs count st"
  shows "costs count 2 (quote_round st pool z limit q)"
  unfolding quote_round_def one_add_one [symmetric] Let_def case_prod_beta
  by (intro costs_bind [OF next_costs [OF assms]] costs_intros liquidity_costs [OF assms])

lemma loop_costs:
  assumes "node_costs count st"
  shows "costs count (2 * (maxSteps - steps)) (quote_loop st pool z limit steps q)"
proof (induction "maxSteps - steps" arbitrary: steps q)
  case 0
  then show ?case by (simp add: quote_loop.simps [of st pool z limit steps q] costs_intros)
next
  case (Suc k)
  have "costs count (2 + 2 * (maxSteps - (steps + 1))) (sbind (quote_round st pool z limit q) (quote_loop st pool z limit (steps + 1)))"
    using Suc.hyps by (intro costs_bind round_costs assms) simp_all
  moreover have "2 + 2 * (maxSteps - (steps + 1)) = 2 * (maxSteps - steps)" using Suc.hyps(2) by simp
  ultimately show ?case
    using Suc.hyps(2) by (simp add: quote_loop.simps [of st pool z limit steps q] costs_intros)
qed

text \<open>A node that answers without a panic of its own is never met with one.\<close>

definition never_panics :: "('s, sq_err, 'a) op \<Rightarrow> bool" where
  "never_panics m \<longleftrightarrow> (\<forall>s. snd (m s) \<noteq> Inl SqPanic)"

definition node_calm :: "'s pool_state \<Rightarrow> bool" where
  "node_calm st \<longleftrightarrow> (\<forall>w. never_panics (ps_BitmapWord st w)) \<and> (\<forall>t. never_panics (ps_LiquidityNet st t))"

lemma panic_bind: "snd (sbind m f s) = Inl SqPanic \<longleftrightarrow>
    snd (m s) = Inl SqPanic \<or> (\<exists>t v. m s = (t, Inr v) \<and> snd (f v t) = Inl SqPanic)"
  by (cases "m s"; cases "snd (m s)") (auto simp: sbind_def)

lemma calm_answers:
  "node_calm st \<Longrightarrow> snd (ps_BitmapWord st w s) \<noteq> Inl SqPanic" "node_calm st \<Longrightarrow> snd (ps_LiquidityNet st t s) \<noteq> Inl SqPanic"
  by (simp_all add: node_calm_def never_panics_def)

lemma next_calm: "node_calm st \<Longrightarrow> snd (nextInitializedTick st tick sp lte s) \<noteq> Inl SqPanic"
  by (auto simp: nextInitializedTick_def Let_def panic_bind calm_answers)

lemma quote_round_calm:
  assumes "walk_ok z P (po_FeePips pool) A q" "live (price_limit z) q" "pool_params pool" "node_calm st"
  shows "snd (quote_round st pool z (price_limit z) q s) \<noteq> Inl SqPanic"
proof (cases "nextInitializedTick st (qs_tick q) (po_TickSpacing pool) z s")
  case (Pair t r)
  show ?thesis
  proof (cases r)
    case (Inl e)
    then show ?thesis using Pair next_calm [OF assms(4), of "qs_tick q" "po_TickSpacing pool" z s] by (simp add: quote_round_def sbind_def)
  next
    case (Inr v)
    obtain n i where "v = (n, i)" by force
    with Pair Inr have next': "nextInitializedTick st (qs_tick q) (po_TickSpacing pool) z s = (t, Inr (n, i))" by simp
    obtain m step where "quote_round st pool z (price_limit z) q s =
        (if st_sqrtNext step \<noteq> tick_price m then sret (spent q step) else crossed st z q step m i) t"
      by (rule quote_round_run [OF assms(1-3) next']) blast
    then show ?thesis by (auto simp: crossed_def Let_def panic_bind calm_answers [OF assms(4)])
  qed
qed

lemma quote_loop_calm:
  "walk_ok z P (po_FeePips pool) A q \<Longrightarrow> pool_params pool \<Longrightarrow> node_calm st \<Longrightarrow>
     snd (quote_loop st pool z (price_limit z) steps q s) \<noteq> Inl SqPanic"
proof (induction "maxSteps - steps" arbitrary: steps q s)
  case 0
  then show ?case by (simp add: quote_loop.simps [of st pool z "price_limit z" steps q])
next
  case (Suc k)
  show ?case
  proof (cases "live (price_limit z) q")
    case False
    then show ?thesis by (auto simp: quote_loop.simps [of st pool z "price_limit z" steps q] live_def)
  next
    case True
    have "snd (quote_loop st pool z (price_limit z) (steps + 1) r u) \<noteq> Inl SqPanic"
      if "quote_round st pool z (price_limit z) q s = (u, Inr r)" for u r
      using Suc.hyps quote_round_keeps [OF Suc.prems(1) True Suc.prems(2) that] Suc.prems(2,3) by simp
    then show ?thesis
      using True quote_round_calm [OF Suc.prems(1) True Suc.prems(2,3)]
      by (auto simp: quote_loop.simps [of st pool z "price_limit z" steps q] live_def panic_bind)
  qed
qed

section \<open>A sample pool\<close>

definition sample_pool :: pool where
  "sample_pool = \<lparr>po_SqrtPriceX96 = 79263822000000000000000000000, po_Tick = 9, po_Liquidity = 10 ^ 18,
     po_TickSpacing = 10, po_FeePips = 500\<rparr>"

text \<open>A node that counts its answers and knows of no initialized tick.\<close>

definition silent_node :: "nat pool_state" where
  "silent_node = \<lparr>ps_BitmapWord = (\<lambda>w n. (n + 1, Inr 0)), ps_LiquidityNet = (\<lambda>t n. (n + 1, Inr 0))\<rparr>"

lemma sample_prices: "tick_price 0 = 79228162514264337593543950336" "tick_price 9 = 79263821427133508858028082997"
    "tick_price 10 = 79267784519130042428790663799"
  by (simp_all add: tick_price_def absRatio_def factors_def tickRatios_def drop_bit_eq_div maxUint256_def ceil_quo_def)

lemma sample_consistent: "pool_consistent sample_pool True"
  by (simp add: pool_consistent_def sample_pool_def minTick_def maxTick_def sample_prices price_limit_def minSqrtRatio_def)

lemma silent_node_ok: "node_costs (\<lambda>n. n) silent_node" "node_calm silent_node"
  by (simp_all add: node_costs_def node_calm_def costs_def never_panics_def silent_node_def)

lemma sample_next: "nextInitializedTick silent_node 9 10 True n = (n + 1, Inr (0, False))"
  by (simp add: nextInitializedTick_eq low_find_def silent_node_def sbind_def Let_def)

lemma sample_step:
  "\<exists>p. computeSwapStep 79263822000000000000000000000 79228162514264337593543950336 (10 ^ 18) 1000 500 =
     Inr \<lparr>st_sqrtNext = p, st_amountIn = 999, st_amountOut = 999, st_fee = 1\<rparr> \<and> p \<noteq> 79228162514264337593543950336"
  by (simp add: computeSwapStep_def Let_def rounding_divs feeDenominator_def amount0Delta_eq amount1Delta_eq
      nextSqrtPriceFromInput_def nextSqrtPriceFromAmount0RoundingUp_def push_bit_eq_mult maxUint256_def ceil_quo_def)

lemma sample_quote: "QuoteExactInput sample_pool silent_node (Some 1000) True 0 = (1, Inr 999)"
proof -
  obtain p where p: "computeSwapStep 79263822000000000000000000000 79228162514264337593543950336 (10 ^ 18) 1000 500 =
      Inr \<lparr>st_sqrtNext = p, st_amountIn = 999, st_amountOut = 999, st_fee = 1\<rparr>" "p \<noteq> 79228162514264337593543950336"
    using sample_step by blast
  have r: "sqrtRatioAtTick 0 = Inr 79228162514264337593543950336"
    using sqrtRatioAtTick_eq [of 0] by (simp add: minTick_def maxTick_def sample_prices)
  have round: "quote_round silent_node sample_pool True (price_limit True) (start_state sample_pool 1000) 0 =
      (1, Inr \<lparr>qs_remaining = 0, qs_out = 999, qs_sqrtPrice = p, qs_tick = 9, qs_liquidity = 10 ^ 18\<rparr>)"
    using p by (simp add: quote_round_def start_state_def sample_pool_def sbind_def sample_next r minTick_def maxTick_def
        price_limit_def minSqrtRatio_def)
  have "quote_loop silent_node sample_pool True (price_limit True) 0 (start_state sample_pool 1000) 0 =
      (1, Inr \<lparr>qs_remaining = 0, qs_out = 999, qs_sqrtPrice = p, qs_tick = 9, qs_liquidity = 10 ^ 18\<rparr>)"
    using round by (subst quote_loop.simps)
      (simp add: maxSteps_def sbind_def start_state_def sample_pool_def price_limit_def minSqrtRatio_def quote_loop.simps)
  then show ?thesis
    by (simp add: QuoteExactInput_def sbind_scheck start_state_def sample_pool_def feeDenominator_def sbind_def)
qed

section \<open>Properties\<close>

text \<open>C13. A quote is never better than the price it starts from, and always pays the fee. It is said of a
  pool whose reported state agrees with itself - the price lies between its bounds and within the tick
  reported with it, and the liquidity is not negative - which the code takes from the node as it comes
  and does not check. With \<open>P\<close> the square root of the price, 96 bits shifted, what such a pool is said to
  pay is at most what the amount is worth at \<open>P\<close> after the fee, whatever the node then answers about
  the bitmap and the ticks the walk asks for.\<close>

theorem quote_never_beats_spot:
  assumes "pool_consistent pool zeroForOne"
    and "QuoteExactInput pool st (Some amountIn) zeroForOne s = (t, Inr out)"
  shows "0 \<le> out \<and>
    (if zeroForOne
     then out * feeDenominator * 2 ^ 192 \<le> amountIn * (feeDenominator - po_FeePips pool) * (po_SqrtPriceX96 pool)\<^sup>2
     else out * feeDenominator * (po_SqrtPriceX96 pool)\<^sup>2 \<le> amountIn * (feeDenominator - po_FeePips pool) * 2 ^ 192)"
proof -
  obtain q where q: "0 < amountIn" "pool_params pool"
    "quote_loop st pool zeroForOne (price_limit zeroForOne) 0 (start_state pool amountIn) s = (t, Inr q)"
    "qs_remaining q \<le> 0" "out = qs_out q"
    by (rule QuoteExactInput_Inr [OF assms(2)])
  have "walk_ok zeroForOne (po_SqrtPriceX96 pool) (po_FeePips pool) amountIn q"
    by (rule quote_loop_keeps [OF start_ok [OF assms(1) q(1)] q(2,3)])
  then show ?thesis using q(4,5) by (auto simp: walk_ok_def worth_def power2_eq_square)
qed

theorem quote_never_beats_spot_witness:
  "(999 :: int) * feeDenominator * 2 ^ 192 \<le> 1000 * (feeDenominator - po_FeePips sample_pool) * (po_SqrtPriceX96 sample_pool)\<^sup>2"
  using quote_never_beats_spot [OF sample_consistent sample_quote] by simp

text \<open>C39. A quote comes back: it asks the node at most 128 questions, and where the pool is consistent and the
  node answers, no division in it panics.\<close>

theorem quote_comes_back:
  assumes "node_costs count st" "pool_consistent pool zeroForOne" "node_calm st"
  shows "count (fst (QuoteExactInput pool st amountIn zeroForOne s)) \<le> count s + 128 \<and>
    snd (QuoteExactInput pool st amountIn zeroForOne s) \<noteq> Inl SqPanic"
proof
  have "costs count (2 * (maxSteps - 0) + 0) (sbind (quote_loop st pool zeroForOne (price_limit zeroForOne) 0 q)
      (\<lambda>q. if 0 < qs_remaining q then sfail e else sret (qs_out q)))" for q and e :: sq_err
    by (intro costs_bind loop_costs assms(1) costs_if costs_pure)
  then have "costs count 128 (sbind (quote_loop st pool zeroForOne (price_limit zeroForOne) 0 q)
      (\<lambda>q. if 0 < qs_remaining q then sfail e else sret (qs_out q)))" for q and e :: sq_err
    by (simp add: maxSteps_def)
  then have "costs count 128 (QuoteExactInput pool st amountIn zeroForOne)"
    unfolding QuoteExactInput_def by (cases amountIn) (auto intro!: costs_intros)
  then show "count (fst (QuoteExactInput pool st amountIn zeroForOne s)) \<le> count s + 128" by (simp add: costs_def)
  have "snd (quote_loop st pool zeroForOne (price_limit zeroForOne) 0 (start_state pool A) s) \<noteq> Inl SqPanic"
    if "0 < A" "pool_params pool" for A
    by (rule quote_loop_calm [OF start_ok [OF assms(2) that(1)] that(2) assms(3)])
  then show "snd (QuoteExactInput pool st amountIn zeroForOne s) \<noteq> Inl SqPanic"
    by (cases amountIn) (auto simp: QuoteExactInput_def sbind_scheck panic_bind pool_params_def start_state_def)
qed

theorem quote_comes_back_witness:
  "fst (QuoteExactInput sample_pool silent_node (Some 1000) True 0) \<le> 128 \<and>
   snd (QuoteExactInput sample_pool silent_node (Some 1000) True 0) \<noteq> Inl SqPanic"
  using quote_comes_back [OF silent_node_ok(1) sample_consistent silent_node_ok(2), of "Some 1000" 0] by simp

text \<open>C40. The search of the tick bitmap is exact: with a node that answers with the bitmap of a set of
  initialized ticks, going down finds the highest initialized tick at or below the current one and
  going up the lowest above it; and where it answers that a position is not initialized, no
  initialized tick was passed.\<close>

theorem nextInitializedTick_exact:
  assumes "0 < spacing" "- (2 ^ 23) \<le> tick div spacing" "tick div spacing + 1 < 2 ^ 23" "pool_words st ticks s"
  shows "\<exists>d i. nextInitializedTick st tick spacing lte s = (s, Inr (d * spacing, i)) \<and> (i \<longleftrightarrow> d \<in> ticks) \<and>
    (if lte then d \<le> tick div spacing \<and> (\<forall>e\<in>ticks. e \<le> tick div spacing \<longrightarrow> e \<le> d)
     else tick div spacing < d \<and> (\<forall>e\<in>ticks. tick div spacing < e \<longrightarrow> d \<le> e))"
proof (cases lte)
  case True
  have "tick div spacing < 2 ^ 23" using assms(3) by linarith
  from next_below_exact [OF assms(1,2) this assms(4)] show ?thesis using True by auto
next
  case False
  have "- (2 ^ 23) \<le> tick div spacing + 1" using assms(2) by linarith
  from next_above_exact [OF assms(1) this assms(3,4)] show ?thesis using False by auto
qed

definition word_node :: "unit pool_state" where
  "word_node = \<lparr>ps_BitmapWord = (\<lambda>w s. (s, Inr (if w = 0 then 2 else 0))), ps_LiquidityNet = (\<lambda>t s. (s, Inr 0))\<rparr>"

theorem nextInitializedTick_exact_witness:
  "\<exists>d i. nextInitializedTick word_node 25 10 True () = ((), Inr (d * 10, i)) \<and> (i \<longleftrightarrow> d \<in> {1}) \<and>
     d \<le> 2 \<and> (\<forall>e\<in>{1}. e \<le> (2::int) \<longrightarrow> e \<le> d)"
proof -
  have two: "bit (2::int) i \<longleftrightarrow> i = 1" for i
    using bit_exp_iff [of 1 i, where 'a = int] by auto
  have "pool_words word_node {1} ()"
    unfolding pool_words_def word_node_def by (auto simp: two)
  from nextInitializedTick_exact [OF _ _ _ this, of 10 25 True] show ?thesis by simp
qed

text \<open>The price of a tick is the contract's: from the smallest to the largest tick it is defined, grows
  with the tick, and runs from the smallest to the largest ratio a pool accepts.\<close>

theorem sqrtRatioAtTick_monotone:
  assumes "minTick \<le> t" "t \<le> u" "u \<le> maxTick"
  shows "\<exists>p q. sqrtRatioAtTick t = Inr p \<and> sqrtRatioAtTick u = Inr q \<and> p \<le> q \<and> minSqrtRatio \<le> p \<and> q \<le> maxSqrtRatio \<and>
    (t = minTick \<longrightarrow> p = minSqrtRatio) \<and> (u = maxTick \<longrightarrow> q = maxSqrtRatio)"
  using sqrtRatioAtTick_eq [of t] sqrtRatioAtTick_eq [of u] tick_price_mono [OF assms] tick_price_mono [of minTick t]
    tick_price_mono [of u maxTick] tick_price_ends assms by auto

theorem sqrtRatioAtTick_monotone_witness:
  "\<exists>p q. sqrtRatioAtTick (- 5) = Inr p \<and> sqrtRatioAtTick 7 = Inr q \<and> p \<le> q"
  using sqrtRatioAtTick_monotone [of "- 5" 7] by (auto simp: minTick_def maxTick_def)

end
