(* ===== verification/Spec2Isabelle.thy ===== *)
theory Spec2Isabelle
  imports SolanaProperties SolanaSwapProperties SolanaClose TronSwapSamples RefuelProperties RefuelQuote TronHandlers SunswapSafety RaydiumAmmV4 RaydiumCpmm RaydiumClmm RaydiumTicks RaydiumQuote SpaceProperties OperationLedger Network SendProperties
begin

text \<open>
  Walletspace: a model of the Go server and what is proved of it.

  Walletspace is a local wallet: a Go process that keeps encrypted spaces of accounts on disk, lends
  their keys to the code that builds transactions for EVM chains, Tron and Solana, and serves a web
  interface over HTTP. Paths below are relative to src/internal.

  \<^bold>\<open>The parts and how they interact\<close>

  \<^item> A \<^emph>\<open>space\<close> is a file with a vault, the public data of its accounts and the networks they are bound
    to. \<open>Prelude\<close>, \<open>GoText\<close>: results, operations on a state, Go's division, little-endian bytes, text.
    \<open>Vault\<close> (vault/vault.go): the sealed container. \<open>Account\<close>, \<open>AccountCodec\<close> (account/): derivation,
    addresses, keys as text. \<open>Network\<close> (network/registry.go): the built-in networks. \<open>SpaceData\<close> and
    \<open>SpaceManager\<close> (space/manager.go, throttle.go, quota.go): the manager, whose state is the record
    \<open>manager\<close> (files in memory, sessions, files on disk, attempts); \<open>space_op\<close> lists its operations.
  \<^item> An \<^emph>\<open>operation\<close> is an idempotency key with the state of a transaction. \<open>FileStore\<close> is what the two
    JSON stores share, \<open>OperationStore\<close> (operation/store.go, status.go) one definition per function.
  \<^item> \<^emph>\<open>Sending\<close>: \<open>SendFlow\<close> (httpapi/platform.go, chain/chain.go) is the handler of a transfer: step-up,
    body, idempotency key, the key lent by the space, the signers that record a transaction before its
    signature leaves, the outcome. What an adapter does with the key is a \<open>world\<close>: a program over
    signatures, broadcasts, other requests and the end of the process.
  \<^item> \<^emph>\<open>Solana\<close>: \<open>SolanaMessage\<close> (chain/solana/intent.go) decodes a message and compares it with what was
    asked for; \<open>SolanaTransfer\<close> and \<open>SolanaSend\<close> (transfer.go, token.go, transaction.go) plan, estimate,
    approve, check and send a transfer and follow it; \<open>solana_Send\<close> gives a \<open>world\<close>. Swaps through Raydium:
    \<open>SolanaSwapMessage\<close> (swap_message.go) reads messages with lookup tables and compares them with a plan,
    \<open>SolanaSwap\<close> (swap.go) loads, builds and measures a plan, \<open>SolanaSwapSend\<close> quotes and sends it. \<open>SolanaClose\<close>
    (close.go) closes empty token accounts.
  \<^item> \<^emph>\<open>Tron\<close>: \<open>TronIntent\<close> (tron/intent.go) compares a node's transaction with the intent; \<open>TronService\<close>,
    \<open>TronStaking\<close> (tron/service.go, amount.go, staking.go, contract.go, chain/tron/adapter.go) build and
    sign; \<open>TronHandlers\<close> (httpapi/platform.go) are the requests. \<open>SunswapMath\<close>, \<open>SunswapQuote\<close>
    (tron/sunswap/clmath.go) price a swap in a concentrated-liquidity pool; \<open>SunswapCalls\<close> (calldata.go,
    deployment.go) are the contracts and their calls; \<open>TronSwap\<close> (tron/swap.go) plans a swap, quotes a route,
    lists the calls that are still needed and signs the next one, \<open>TronSwapQuote\<close> prices every route and has the
    handlers (httpapi/swap.go), \<open>TronSwapProperties\<close> says what is signed, on samples in \<open>TronSwapSamples\<close>.
  \<^item> \<^emph>\<open>Raydium\<close> (chain/solana/raydium/): \<open>RaydiumBase\<close>, \<open>RaydiumAmmV4\<close>, \<open>RaydiumCpmm\<close>, \<open>RaydiumClmm\<close>,
    \<open>RaydiumTicks\<close>: pool accounts, swap instructions, curves, tick arrays; \<open>RaydiumQuote\<close>: the quote
    service, whose pacing is a step relation over its callers.
  \<^item> \<^emph>\<open>Gas top-ups\<close>: \<open>RefuelStore\<close> (refuel/store.go, provider.go) keeps plans and checks quotes,
    \<open>RefuelHandlers\<close> (httpapi/refuel.go) quotes, sends and follows a top-up.

  \<^bold>\<open>How the code is modelled\<close>

  A struct is a record with the source's fields, an enumeration a datatype, an unsigned integer a word
  of its width, so that sums wrap; \<open>big.Int\<close> is \<open>int\<close>, \<open>decimal.Decimal\<close> a rational; a Go map is a map or
  an association list with distinct keys, and where Go visits a map the order is an argument. A pair of
  value and error is a sum; an operation that may fail takes and returns the state, changed or not, as
  the code leaves it (\<open>op\<close>, \<open>sbind\<close>). Panics are errors of their own. Handlers are one definition each,
  composed as the code composes them. Clocks, disks, nodes and random bytes are arguments: a record of
  functions or an environment per step. Third-party code (cryptography, codecs, base58, decimals, SDKs)
  is a record of functions; what a theorem needs of it is among its hypotheses or in a locale.

  \<^bold>\<open>Interfaces\<close>

  \<open>password_box\<close> (what a vault promises; interpreted by \<open>vault_box\<close>), \<open>canonical_text\<close> (text that parses
  one way; \<open>amount_text\<close>, \<open>key_text\<close>), \<open>swap_codec\<close> (a decoder that accepts exactly the encodings;
  \<open>ammv4_codec\<close>, \<open>cpmm_codec\<close>, \<open>clmm_codec\<close>), \<open>store_runs\<close> and \<open>store_guards\<close> (runs of a store that keep an
  invariant, and a guard that later calls cannot remove; \<open>ops\<close>, \<open>replay\<close>, \<open>plan_store\<close>, \<open>top_ups\<close>).

  \<^bold>\<open>What the lemmas show\<close>

  \<^item> Spaces. \<open>SpaceInvariants\<close>, \<open>SpaceReach\<close>: every manager reached by whole calls, the import of the old
    configuration among them, is well formed. \<open>SpaceDisk\<close>: a restart finds every space. \<open>SpaceKeys\<close>: secrets need the password, a lent key is the key of the
    address shown, a spending grant comes from the password. \<open>SpaceThrottle\<close>: wrong passwords are slowed
    down. \<open>SpaceRace\<close>: an import between the halves of a password change locks the space out, the one
    interleaving that leaves the well-formed managers.
  \<^item> Operations. \<open>OperationLedger\<close>: the files refine a ledger with its own step relation; a record is
    displaced only when it may be; a repeated request is recognised.
  \<^item> Sending. \<open>SendSafety\<close>, \<open>SendProperties\<close>: for every \<open>world\<close> a request signs at most once, a signature
    that left is recorded; for the three adapters (\<open>adapter_send\<close>, woven with other requests) a transaction
    that was taken is never called failed. The conditions on the other requests are stated on the states
    they meet: within the retention period, none of them resolves (\<open>spares\<close>) or writes (\<open>avoids\<close>) the
    record of this very key.
  \<^item> Solana and Tron. \<open>SolanaSafety\<close>, \<open>SolanaSwapSafety\<close>, \<open>TronSafety\<close>: whatever the nodes answer, a signature is asked only
    over the requested transaction in exact amounts. \<open>SolanaProperties\<close>,
    \<open>SolanaSwapProperties\<close>, \<open>TronProperties\<close>: the theorems.
  \<^item> Pools. The decoders read within bounds; the curves pay the exact rounded amounts and never more than
    the spot price; the walk over ticks ends and finds the nearest initialized tick.
  \<^item> Top-ups. \<open>RefuelSafety\<close>, \<open>RefuelProperties\<close>, \<open>RefuelQuote\<close>: at most one pending top-up of a wallet on
    a network; an accepted quote pays the requested recipient; a plan whose process died blocks its wallet.

  The theories ending in \<open>Samples\<close> hold the concrete spaces, nodes and requests of the witnesses.

  \<^bold>\<open>Bounds and fuel\<close>

  Loops over data are structural recursions. A retry over nodes recurses on the attempts left. The
  walk of a quote has the code's own bound of 128 node questions, and the search of a tick array the
  code's own bound on arrays, so no result rests on a fuel that was chosen. A length in a Solana message
  is at most three bytes, hence the bounds below \<open>2 ^ 21\<close> in its round trip; the check of the bytes
  themselves has no bound.

  \<^bold>\<open>Not modelled\<close>

  \<^item> HTTP, JSON and YAML decoding, routes, static files, flags, logging, the web interface: I/O.
  \<^item> The endpoints of nodes, their ranking, failover and header handling (rpcpool, hostpolicy, endpoint.go,
    rpc.go): a node is its answer after failover.
  \<^item> The EVM adapter before the signature (gas estimates, receipts): go-ethereum does the work; the tail of
    its \<open>Send\<close> is in \<open>SendFlow\<close>.
  \<^item> The handlers of Solana swaps; Raydium's on-chain discovery of pools and its lookup tables (arguments of
    a Solana quote); the ABI encoding of SunSwap's calls (go-ethereum), a parameter over typed values.
  \<^item> Balances, prices, the token list, configuration: read-only views or settings, passed as arguments.
  \<^item> The scheduling of goroutines, except the pacing of the quote service, the two halves of a password
    change against an import (\<open>SpaceRace\<close>) and the other requests that run inside a \<open>world\<close>: every other
    operation is one step. Unlock also releases its mutex while it opens a vault; what may run there, a
    password change or a deletion, is not modelled.
\<close>

end
